(* ===== verification/Prelude.thy ===== *)
theory Prelude
  imports Complex_Main "HOL-Library.AList"
begin

section \<open>Shared vocabulary of the development\<close>

text \<open>
  What every component theory uses: Python exceptions as a datatype, clock readings and floats
  as exact reals, strings, rounding, insertion-ordered dictionaries, the "keep the last n"
  operation of bounded deques, and the contracts (locales) that several components share.
\<close>

named_theorems py_simps \<open>evaluation rules of the Python vocabulary\<close>

type_synonym time = real

text \<open>The exceptions that the modelled code raises or catches.\<close>

datatype exc =
    ValueError | KeyError | TypeError | AttributeError | RuntimeError | ZeroDivisionError
  | TimeoutError | OtherError string

text \<open>
  A call that may raise returns the exception or the value, and in both cases the state it leaves:
  Python keeps the updates made before the \<open>raise\<close>.
\<close>

type_synonym ('a, 's) outcome = "(exc + 'a) \<times> 's"

text \<open>
  The methods of the project's logger (\<open>core/logger.py\<close>) take the message and keyword arguments only: a call with a format
  argument, \<open>logger.info("... %s", x)\<close>, raises TypeError before anything is logged.
\<close>

definition log_with_argument :: "exc + 'a" where
  "log_with_argument = Inl TypeError"

definition raised :: "('a, 's) outcome \<Rightarrow> exc option" where
  "raised r = (case fst r of Inl e \<Rightarrow> Some e | Inr _ \<Rightarrow> None)"

lemma raised_simps [simp]: "raised (Inl e, s) = Some e" "raised (Inr a, s) = None"
  by (simp_all add: raised_def)

text \<open>What follows a call is skipped when the call raised.\<close>

definition and_then :: "(unit, 's) outcome \<Rightarrow> ('s \<Rightarrow> ('a, 's) outcome) \<Rightarrow> ('a, 's) outcome" where
  "and_then r f = (case r of (Inl e, s) \<Rightarrow> (Inl e, s) | (Inr u, s) \<Rightarrow> f s)"

lemma and_then_Inr: "fst r = Inr u \<Longrightarrow> and_then r f = f (snd r)"
  by (cases r) (simp add: and_then_def)

lemma and_then_Inl: "fst r = Inl e \<Longrightarrow> and_then r f = (Inl e, snd r)"
  by (cases r) (simp add: and_then_def)

lemma and_then_keeps: "P (snd r) \<Longrightarrow> (\<And>s. P s \<Longrightarrow> P (snd (f s))) \<Longrightarrow> P (snd (and_then r f))"
  by (cases "fst r") (simp_all add: and_then_Inl and_then_Inr)

subsection \<open>Strings\<close>

definition char_upper :: "char \<Rightarrow> char" where
  "char_upper c = (let n = (of_char c :: nat) in
     if 97 \<le> n \<and> n \<le> 122 then char_of (n - 32) else c)"

text \<open>\<open>str.upper\<close> and \<open>str.lower\<close> on the ASCII symbols the code handles.\<close>

definition py_upper :: "string \<Rightarrow> string" where
  "py_upper s = map char_upper s"

definition char_lower :: "char \<Rightarrow> char" where
  "char_lower c = (let n = (of_char c :: nat) in
     if 65 \<le> n \<and> n \<le> 90 then char_of (n + 32) else c)"

definition py_lower :: "string \<Rightarrow> string" where
  "py_lower s = map char_lower s"

lemma char_upper_idem [simp]: "char_upper (char_upper c) = char_upper c"
  by (auto simp: char_upper_def Let_def)

lemma py_upper_idem [simp]: "py_upper (py_upper s) = py_upper s"
  by (simp add: py_upper_def o_def)

lemma length_py_upper [simp]: "length (py_upper s) = length s"
  by (simp add: py_upper_def)

text \<open>\<open>str.strip\<close> on ASCII white space.\<close>

definition char_space :: "char \<Rightarrow> bool" where
  "char_space c = (let n = (of_char c :: nat) in 9 \<le> n \<and> n \<le> 13 \<or> 28 \<le> n \<and> n \<le> 32 \<or> n = 133 \<or> n = 160)"

definition py_strip :: "string \<Rightarrow> string" where
  "py_strip s = rev (dropWhile char_space (rev (dropWhile char_space s)))"

lemma py_strip_id: "s \<noteq> [] \<Longrightarrow> \<not> char_space (hd s) \<Longrightarrow> \<not> char_space (last s) \<Longrightarrow> py_strip s = s"
proof -
  have id: "dropWhile char_space t = t" if "t \<noteq> []" "\<not> char_space (hd t)" for t using that by (cases t) simp_all
  assume "s \<noteq> []" "\<not> char_space (hd s)" "\<not> char_space (last s)"
  then show ?thesis using id [of s] id [of "rev s"] by (simp add: py_strip_def hd_rev)
qed

text \<open>Decimal digits of an integer, as an f-string prints it.\<close>

text \<open>\<open>not reason or not reason.strip()\<close>\<close>

definition no_reason :: "string option \<Rightarrow> bool" where
  "no_reason r \<longleftrightarrow> (case r of Some s \<Rightarrow> py_strip s = [] | None \<Rightarrow> True)"

text \<open>\<open>str.split\<close> at a character, \<open>str.join\<close>, ASCII digits and the number they write.\<close>

fun py_split :: "char \<Rightarrow> string \<Rightarrow> string list" where
  "py_split c [] = [[]]"
| "py_split c (x # xs) =
     (if x = c then [] # py_split c xs
      else case py_split c xs of [] \<Rightarrow> [[x]] | p # ps \<Rightarrow> (x # p) # ps)"

fun py_join :: "string \<Rightarrow> string list \<Rightarrow> string" where
  "py_join sep [] = []"
| "py_join sep [x] = x"
| "py_join sep (x # xs) = x @ sep @ py_join sep xs"

text \<open>\<open>str.startswith\<close> and \<open>in\<close> between texts.\<close>

fun has_prefix :: "string \<Rightarrow> string \<Rightarrow> bool" where
  "has_prefix [] s = True"
| "has_prefix (a # p) [] = False"
| "has_prefix (a # p) (b # s) = (a = b \<and> has_prefix p s)"

fun contains :: "string \<Rightarrow> string \<Rightarrow> bool" where
  "contains p [] = (p = [])"
| "contains p (c # s) = (has_prefix p (c # s) \<or> contains p s)"

definition is_digit :: "char \<Rightarrow> bool" where
  "is_digit c \<longleftrightarrow> 48 \<le> (of_char c :: nat) \<and> (of_char c :: nat) \<le> 57"

definition digits_value :: "string \<Rightarrow> int" where
  "digits_value s = foldl (\<lambda>v c. v * 10 + (int (of_char c) - 48)) 0 s"

fun nat_digits :: "nat \<Rightarrow> string" where
  "nat_digits n = (if n < 10 then [char_of (48 + n)] else nat_digits (n div 10) @ [char_of (48 + n mod 10)])"

declare nat_digits.simps [simp del]

definition int_digits :: "int \<Rightarrow> string" where
  "int_digits i = (if i < 0 then CHR ''-'' # nat_digits (nat (- i)) else nat_digits (nat i))"

subsection \<open>Rounding\<close>

text \<open>Python's \<open>round(x, n)\<close>: to the nearest multiple of \<open>10\<^sup>-\<^sup>n\<close>, ties to the even digit.\<close>

definition round_half_even :: "real \<Rightarrow> int" where
  "round_half_even x =
     (let f = \<lfloor>x\<rfloor>; d = x - of_int f in
      if d < 1 / 2 then f else if d > 1 / 2 then f + 1 else if even f then f else f + 1)"

definition py_round :: "nat \<Rightarrow> real \<Rightarrow> real" where
  "py_round n x = of_int (round_half_even (x * 10 ^ n)) / 10 ^ n"

lemma round_half_even_error: "\<bar>of_int (round_half_even x) - x\<bar> \<le> 1 / 2"
proof -
  have "of_int \<lfloor>x\<rfloor> \<le> x" "x < of_int \<lfloor>x\<rfloor> + 1" by linarith+
  then show ?thesis by (auto simp: round_half_even_def Let_def)
qed

lemma round_half_even_of_int [simp]: "round_half_even (of_int k) = k"
  by (simp add: round_half_even_def)

lemma round_half_even_le: "x \<le> of_int k \<Longrightarrow> round_half_even x \<le> k"
proof -
  assume "x \<le> of_int k"
  then have "x = of_int k \<or> \<lfloor>x\<rfloor> + 1 \<le> k" by linarith
  then show ?thesis
    by (elim disjE) (auto simp: round_half_even_def Let_def)
qed

lemma round_half_even_ge: "of_int k \<le> x \<Longrightarrow> k \<le> round_half_even x"
proof -
  assume "of_int k \<le> x"
  then have "k \<le> \<lfloor>x\<rfloor>" by linarith
  then show ?thesis by (auto simp: round_half_even_def Let_def)
qed

lemma py_round_le:
  assumes "x \<le> of_int k / 10 ^ n" shows "py_round n x \<le> of_int k / 10 ^ n"
proof -
  from assms have "x * 10 ^ n \<le> of_int k" by (simp add: field_simps)
  then have "round_half_even (x * 10 ^ n) \<le> k" by (rule round_half_even_le)
  then show ?thesis by (simp add: py_round_def field_simps)
qed

lemma py_round_ge:
  assumes "of_int k / 10 ^ n \<le> x" shows "of_int k / 10 ^ n \<le> py_round n x"
proof -
  from assms have "of_int k \<le> x * 10 ^ n" by (simp add: field_simps)
  then have "k \<le> round_half_even (x * 10 ^ n)" by (rule round_half_even_ge)
  then show ?thesis by (simp add: py_round_def field_simps)
qed

lemma py_round_error: "\<bar>py_round n x - x\<bar> \<le> 1 / (2 * 10 ^ n)"
proof -
  have "py_round n x - x = (of_int (round_half_even (x * 10 ^ n)) - x * 10 ^ n) / 10 ^ n"
    by (simp add: py_round_def field_simps)
  also have "\<bar>\<dots>\<bar> = \<bar>of_int (round_half_even (x * 10 ^ n)) - x * 10 ^ n\<bar> / 10 ^ n"
    by simp
  also have "\<dots> \<le> (1 / 2) / 10 ^ n"
    by (intro divide_right_mono round_half_even_error) simp
  finally show ?thesis by simp
qed

lemma round_half_even_mono: "x \<le> y \<Longrightarrow> round_half_even x \<le> round_half_even y"
proof -
  assume "x \<le> y"
  then consider "\<lfloor>x\<rfloor> = \<lfloor>y\<rfloor>" | "\<lfloor>x\<rfloor> + 1 \<le> \<lfloor>y\<rfloor>" by linarith
  then show ?thesis
  proof cases
    case 1
    with \<open>x \<le> y\<close> show ?thesis by (auto simp: round_half_even_def Let_def)
  next
    case 2
    have "x \<le> of_int (\<lfloor>x\<rfloor> + 1)" and "of_int \<lfloor>y\<rfloor> \<le> y" by linarith+
    with 2 show ?thesis using round_half_even_le round_half_even_ge by (meson order_trans)
  qed
qed

lemma py_round_mono: "x \<le> y \<Longrightarrow> py_round n x \<le> py_round n y"
  by (simp add: py_round_def divide_right_mono mult_right_mono round_half_even_mono)

lemma py_round_nonneg: "0 \<le> x \<Longrightarrow> 0 \<le> py_round n x"
  using py_round_ge [of 0 n x] by simp

lemma py_round_0 [simp]: "py_round n 0 = 0"
  using round_half_even_of_int [of 0] by (simp add: py_round_def)

subsection \<open>Insertion-ordered dictionaries\<close>

text \<open>
  A Python \<open>dict\<close> or \<open>OrderedDict\<close> is the list of its items in insertion order: assigning to a
  present key keeps its place, a new key goes to the end, \<open>del\<close> removes the item.
\<close>

type_synonym ('k, 'v) odict = "('k \<times> 'v) list"

definition od_get :: "('k, 'v) odict \<Rightarrow> 'k \<Rightarrow> 'v option" where
  "od_get d k = map_of d k"

definition od_put :: "'k \<Rightarrow> 'v \<Rightarrow> ('k, 'v) odict \<Rightarrow> ('k, 'v) odict" where
  "od_put k v d = AList.update k v d"

definition od_del :: "'k \<Rightarrow> ('k, 'v) odict \<Rightarrow> ('k, 'v) odict" where
  "od_del k d = filter (\<lambda>p. fst p \<noteq> k) d"

definition od_wf :: "('k, 'v) odict \<Rightarrow> bool" where
  "od_wf d \<longleftrightarrow> distinct (map fst d)"

abbreviation od_keys :: "('k, 'v) odict \<Rightarrow> 'k list" where
  "od_keys d \<equiv> map fst d"

lemma od_get_Nil [simp]: "od_get [] k = None"
  by (simp add: od_get_def)

lemma od_get_Cons [simp]: "od_get (p # d) k = (if fst p = k then Some (snd p) else od_get d k)"
  by (cases p) (simp add: od_get_def)

lemma od_put_Nil [simp]: "od_put k v [] = [(k, v)]"
  by (simp add: od_put_def)

lemma od_put_Cons [simp]:
  "od_put k v (p # d) = (if fst p = k then (k, v) # d else p # od_put k v d)"
  by (simp add: od_put_def)

lemma od_del_Nil [simp]: "od_del k [] = []"
  by (simp add: od_del_def)

lemma od_del_Cons [simp]: "od_del k (p # d) = (if fst p = k then od_del k d else p # od_del k d)"
  by (simp add: od_del_def)

lemma od_get_put [simp]: "od_get (od_put k v d) k' = (if k' = k then Some v else od_get d k')"
  by (simp add: od_get_def od_put_def update_conv')

lemma od_get_del [simp]: "od_get (od_del k d) k' = (if k' = k then None else od_get d k')"
  by (induction d) auto

lemma od_keys_put: "od_keys (od_put k v d) = (if k \<in> fst ` set d then od_keys d else od_keys d @ [k])"
  by (simp add: od_put_def update_keys)

lemma od_dom_put [simp]: "fst ` set (od_put k v d) = insert k (fst ` set d)"
  by (simp add: od_put_def dom_update)

lemma od_set_del: "set (od_del k d) = {p \<in> set d. fst p \<noteq> k}"
  by (simp add: od_del_def)

lemma od_dom_del [simp]: "fst ` set (od_del k d) = fst ` set d - {k}"
  by (auto simp: od_set_del)

lemma od_wf_Nil [simp]: "od_wf []"
  by (simp add: od_wf_def)

lemma od_wf_Cons [simp]: "od_wf (p # d) \<longleftrightarrow> fst p \<notin> fst ` set d \<and> od_wf d"
  by (simp add: od_wf_def)

lemma od_wf_put [simp]: "od_wf d \<Longrightarrow> od_wf (od_put k v d)"
  by (simp add: od_wf_def od_put_def distinct_update)

lemma od_wf_filter [simp]: "od_wf d \<Longrightarrow> od_wf (filter P d)"
  by (simp add: od_wf_def distinct_map_filter)

lemma od_wf_del [simp]: "od_wf d \<Longrightarrow> od_wf (od_del k d)"
  by (simp add: od_del_def)

lemma od_get_None_iff: "od_get d k = None \<longleftrightarrow> k \<notin> fst ` set d"
  by (simp add: od_get_def map_of_eq_None_iff)

lemma od_get_SomeD: "od_get d k = Some v \<Longrightarrow> (k, v) \<in> set d"
  by (simp add: od_get_def map_of_SomeD)

lemma od_get_Some_dom: "od_get d k = Some v \<Longrightarrow> k \<in> fst ` set d"
  by (metis od_get_None_iff option.distinct(1))

lemma od_get_in: "od_wf d \<Longrightarrow> (k, v) \<in> set d \<Longrightarrow> od_get d k = Some v"
  by (simp add: od_get_def od_wf_def)

lemma od_put_new: "k \<notin> fst ` set d \<Longrightarrow> od_put k v d = d @ [(k, v)]"
  by (induction d) (simp_all add: neq_commute)

lemma length_od_put:
  "length (od_put k v d) = (if k \<in> fst ` set d then length d else Suc (length d))"
  by (induction d) simp_all

lemma length_od_del_le: "length (od_del k d) \<le> length d"
  by (simp add: od_del_def)

lemma od_del_notin: "k \<notin> fst ` set d \<Longrightarrow> od_del k d = d"
  by (auto simp: od_del_def filter_id_conv)

lemma length_od_del: "od_wf d \<Longrightarrow> k \<in> fst ` set d \<Longrightarrow> Suc (length (od_del k d)) = length d"
proof (induction d)
  case (Cons p d)
  show ?case
  proof (cases "fst p = k")
    case True
    with Cons.prems show ?thesis by (simp add: od_del_notin)
  next
    case False
    then have "Suc (length (od_del k d)) = length d"
      using Cons by (auto simp: image_iff)
    with False show ?thesis by simp
  qed
qed simp

lemma length_od_del_less: "k \<in> fst ` set d \<Longrightarrow> length (od_del k d) < length d"
proof (induction d)
  case (Cons p d)
  show ?case
  proof (cases "fst p = k")
    case True
    then show ?thesis using length_od_del_le [of k d] by simp
  next
    case False
    with Cons show ?thesis by auto
  qed
qed simp

lemma set_od_put: "od_wf d \<Longrightarrow> set (od_put k v d) = insert (k, v) {p \<in> set d. fst p \<noteq> k}"
proof (induction d)
  case (Cons p d)
  show ?case
  proof (cases "fst p = k")
    case True
    with Cons.prems have "{q \<in> set d. fst q \<noteq> k} = set d" by (auto simp: rev_image_eqI)
    moreover have "{q \<in> set (p # d). fst q \<noteq> k} = {q \<in> set d. fst q \<noteq> k}" using True by auto
    ultimately show ?thesis using True by simp
  next
    case False
    with Cons show ?thesis by auto
  qed
qed simp

lemma set_od_put_subset: "set (od_put k v d) \<subseteq> insert (k, v) (set d)"
  by (induction d) auto

lemma length_filter_od_put:
  "length (filter P (od_put k v d)) \<le> length (filter P d) + (if P (k, v) then 1 else 0)"
  by (induction d) auto

lemma length_filter_od_del:
  "od_wf d \<Longrightarrow> (k, v) \<in> set d \<Longrightarrow> P (k, v) \<Longrightarrow> Suc (length (filter P (od_del k d))) = length (filter P d)"
  by (induction d) (force simp: od_del_notin)+

lemma length_filter_filter: "length (filter P (filter Q d)) \<le> length (filter P d)"
  by (induction d) auto

lemma length_filter_imp: "(\<And>x. P x \<Longrightarrow> Q x) \<Longrightarrow> length (filter P xs) \<le> length (filter Q xs)"
  by (induction xs) (auto simp: le_Suc_eq)

lemma od_get_filter: "od_wf d \<Longrightarrow> od_get (filter P d) k =
    (case od_get d k of None \<Rightarrow> None | Some v \<Rightarrow> if P (k, v) then Some v else None)"
  by (induction d) (auto simp: od_get_None_iff split: option.splits)

text \<open>\<open>d[k] = d.get(k, 0.0) + x\<close> on a dictionary of numbers.\<close>

definition od_num :: "('k, real) odict \<Rightarrow> 'k \<Rightarrow> real" where
  "od_num d k = (case od_get d k of None \<Rightarrow> 0 | Some x \<Rightarrow> x)"

definition od_add :: "'k \<Rightarrow> real \<Rightarrow> ('k, real) odict \<Rightarrow> ('k, real) odict" where
  "od_add k x d = od_put k (od_num d k + x) d"

lemma od_num_add [simp]: "od_num (od_add k x d) k' = od_num d k' + (if k' = k then x else 0)"
  by (simp add: od_num_def od_add_def)

lemma od_num_Nil [simp]: "od_num [] k = 0"
  by (simp add: od_num_def)

lemma od_num_add_all: "od_num (fold (\<lambda>k. od_add k x) ks d) k' = od_num d k' + x * real (count_list ks k')"
  by (induction ks arbitrary: d) (auto simp: algebra_simps)

subsection \<open>The last n items\<close>

text \<open>What \<open>deque(maxlen=n)\<close> holds after its items were appended, and \<open>xs[-n:]\<close> for \<open>n > 0\<close>.\<close>

definition take_last :: "nat \<Rightarrow> 'a list \<Rightarrow> 'a list" where
  "take_last n xs = drop (length xs - n) xs"

lemma length_take_last [simp]: "length (take_last n xs) = min n (length xs)"
  by (simp add: take_last_def)

lemma take_last_all [simp]: "length xs \<le> n \<Longrightarrow> take_last n xs = xs"
  by (simp add: take_last_def)

lemma set_take_last: "set (take_last n xs) \<subseteq> set xs"
  by (simp add: take_last_def set_drop_subset)

lemma take_last_append_same: "take_last n (take_last n xs @ ys) = take_last n (xs @ ys)"
  by (simp add: take_last_def add.commute) (cases "length xs \<le> n"; simp add: add.commute)

lemma take_last_snoc_last: "0 < n \<Longrightarrow> last (take_last n (xs @ [x])) = x"
  by (cases n) (auto simp: take_last_def Suc_diff_le)

lemma od_wf_take_last: "od_wf d \<Longrightarrow> od_wf (take_last n d)"
  by (simp add: od_wf_def take_last_def drop_map [symmetric])

subsection \<open>The greatest item\<close>

text \<open>\<open>max(x # xs, key=f)\<close>: the first of the greatest.\<close>

fun first_greatest :: "('a \<Rightarrow> real) \<Rightarrow> 'a \<Rightarrow> 'a list \<Rightarrow> 'a" where
  "first_greatest f m [] = m"
| "first_greatest f m (x # xs) = first_greatest f (if f m < f x then x else m) xs"

lemma first_greatest_in: "first_greatest f m xs \<in> insert m (set xs)"
  by (induction f m xs rule: first_greatest.induct) (auto split: if_splits)

lemma first_greatest_start: "f m \<le> f (first_greatest f m xs)"
proof (induction f m xs rule: first_greatest.induct)
  case (2 f m x xs)
  then show ?case by (cases "f m < f x") auto
qed simp

lemma first_greatest_ge: "x \<in> set xs \<Longrightarrow> f x \<le> f (first_greatest f m xs)"
proof (induction f m xs rule: first_greatest.induct)
  case (2 f m y ys)
  then show ?case using first_greatest_start [of f "if f m < f y then y else m" ys] by (auto split: if_splits)
qed simp

end
