(* ===== verification/Contracts.thy ===== *)
theory Contracts
  imports Prelude
begin

section \<open>The contracts that components share\<close>

text \<open>
  Four interfaces recur in the code: a keyed store (a \<open>dict\<close> of records), a bounded log
  (\<open>deque(maxlen=n)\<close> or a list cut to its tail), a transition table (the \<open>_TRANSITIONS\<close>-like
  dictionaries) and a guarded state (operations that keep an invariant). Each is a locale whose
  assumptions are the laws a client relies on; each component interprets it on its own operations.
\<close>

subsection \<open>Keyed stores\<close>

locale keyed_store =
  fixes lookup :: "'d \<Rightarrow> 'k \<Rightarrow> 'v option"
    and put :: "'k \<Rightarrow> 'v \<Rightarrow> 'd \<Rightarrow> 'd"
    and del :: "'k \<Rightarrow> 'd \<Rightarrow> 'd"
    and wf_store :: "'d \<Rightarrow> bool"
  assumes lookup_put: "wf_store d \<Longrightarrow> lookup (put k v d) k' = (if k' = k then Some v else lookup d k')"
    and lookup_del: "wf_store d \<Longrightarrow> lookup (del k d) k' = (if k' = k then None else lookup d k')"
    and wf_put: "wf_store d \<Longrightarrow> wf_store (put k v d)"
    and wf_del: "wf_store d \<Longrightarrow> wf_store (del k d)"
begin

lemma lookup_put_same: "wf_store d \<Longrightarrow> lookup (put k v d) k = Some v"
  by (simp add: lookup_put)

lemma lookup_put_other: "wf_store d \<Longrightarrow> k' \<noteq> k \<Longrightarrow> lookup (put k v d) k' = lookup d k'"
  by (simp add: lookup_put)

lemma wf_del_all: "wf_store d \<Longrightarrow> wf_store (fold del ks d)"
  by (induction ks arbitrary: d) (simp_all add: wf_del)

lemma lookup_del_all:
  "wf_store d \<Longrightarrow> lookup (fold del ks d) k = (if k \<in> set ks then None else lookup d k)"
  by (induction ks arbitrary: d) (auto simp: lookup_del wf_del)

end

interpretation odict: keyed_store od_get od_put od_del od_wf
  by unfold_locales simp_all

subsection \<open>Bounded logs\<close>

locale bounded_log =
  fixes push :: "'a \<Rightarrow> 'l \<Rightarrow> 'l"
    and items :: "'l \<Rightarrow> 'a list"
    and capacity :: "'l \<Rightarrow> nat"
  assumes items_push: "length (items l) \<le> capacity l \<Longrightarrow>
      items (push x l) = take_last (capacity l) (items l @ [x])"
    and capacity_push: "capacity (push x l) = capacity l"
begin

definition fits :: "'l \<Rightarrow> bool" where
  "fits l \<longleftrightarrow> length (items l) \<le> capacity l"

lemma fits_push: "fits l \<Longrightarrow> fits (push x l)"
  by (simp add: fits_def items_push capacity_push)

lemma capacity_push_all: "capacity (fold push xs l) = capacity l"
  by (induction xs arbitrary: l) (simp_all add: capacity_push)

lemma fits_push_all: "fits l \<Longrightarrow> fits (fold push xs l)"
  by (induction xs arbitrary: l) (simp_all add: fits_push)

text \<open>The log holds the last \<open>capacity\<close> of everything ever pushed.\<close>

lemma items_push_all:
  "fits l \<Longrightarrow> items (fold push xs l) = take_last (capacity l) (items l @ xs)"
proof (induction xs arbitrary: l)
  case Nil
  then show ?case by (simp add: fits_def)
next
  case (Cons x xs)
  have "items (fold push (x # xs) l) = take_last (capacity l) (items (push x l) @ xs)"
    using Cons.IH [OF fits_push [OF Cons.prems]] by (simp add: capacity_push)
  also have "\<dots> = take_last (capacity l) (items l @ x # xs)"
    using Cons.prems take_last_append_same [of "capacity l" "items l @ [x]" xs]
    by (simp add: fits_def items_push)
  finally show ?case .
qed

lemma length_items_push:
  "fits l \<Longrightarrow> length (items (push x l)) = min (capacity l) (Suc (length (items l)))"
  by (simp add: fits_def items_push)

lemma newest_kept: "fits l \<Longrightarrow> 0 < capacity l \<Longrightarrow> last (items (push x l)) = x"
  by (simp add: fits_def items_push take_last_snoc_last)

lemma below_capacity_keeps_all:
  "length (items l) < capacity l \<Longrightarrow> items (push x l) = items l @ [x]"
  by (simp add: items_push)

end

subsection \<open>Transition tables\<close>

locale transition_table =
  fixes succs :: "'s \<Rightarrow> 's list"
    and terminal :: "'s \<Rightarrow> bool"
  assumes terminal_stuck: "terminal s \<Longrightarrow> succs s = []"
begin

definition edge :: "'s \<Rightarrow> 's \<Rightarrow> bool" where
  "edge s t \<longleftrightarrow> t \<in> set (succs s)"

text \<open>A recorded history is a path of the table.\<close>

definition path :: "'s list \<Rightarrow> bool" where
  "path h \<longleftrightarrow> successively edge h"

lemma path_single [simp]: "path [s]"
  by (simp add: path_def)

lemma path_snoc: "h \<noteq> [] \<Longrightarrow> path h \<Longrightarrow> edge (last h) t \<Longrightarrow> path (h @ [t])"
  by (simp add: path_def successively_append_iff)

lemma terminal_no_edge: "terminal s \<Longrightarrow> \<not> edge s t"
  by (simp add: edge_def terminal_stuck)

lemma terminal_absorbing: "edge\<^sup>*\<^sup>* s t \<Longrightarrow> terminal s \<Longrightarrow> t = s"
  by (induction rule: converse_rtranclp_induct) (auto dest: terminal_no_edge)

text \<open>A terminal state can only be the last one of a path.\<close>

lemma terminal_only_last:
  assumes "path (h @ s # t)" and "terminal s" shows "t = []"
proof (cases t)
  case (Cons u us)
  with assms(1) have "edge s u"
    by (simp add: path_def successively_append_iff)
  with assms(2) show ?thesis using terminal_no_edge by blast
qed

lemma path_reach: "path h \<Longrightarrow> h \<noteq> [] \<Longrightarrow> edge\<^sup>*\<^sup>* (hd h) (last h)"
proof (induction h rule: induct_list012)
  case (3 x y zs)
  then have "edge x y" "edge\<^sup>*\<^sup>* y (last (y # zs))" by (simp_all add: path_def)
  then show ?case by simp
qed auto

end

subsection \<open>Guarded state\<close>

text \<open>Operations are values of a type of events; running them in any order keeps the invariant.\<close>

locale guarded_state =
  fixes step :: "'e \<Rightarrow> 's \<Rightarrow> 's"
    and good :: "'s \<Rightarrow> bool"
  assumes step_good: "good s \<Longrightarrow> good (step e s)"
begin

lemma run_good: "good s \<Longrightarrow> good (fold step es s)"
  by (induction es arbitrary: s) (simp_all add: step_good)

text \<open>A relation between the states before and after one operation, lifted to runs.\<close>

lemma run_relation:
  assumes refl: "\<And>s. R s s" and trans: "\<And>s t u. R s t \<Longrightarrow> R t u \<Longrightarrow> R s u"
    and step: "\<And>e s. good s \<Longrightarrow> R s (step e s)" and "good s"
  shows "R s (fold step es s)"
  using \<open>good s\<close>
proof (induction es arbitrary: s)
  case Nil
  show ?case by (simp add: refl)
next
  case (Cons e es)
  have "R s (step e s)" using Cons.prems by (rule step)
  moreover have "R (step e s) (fold step es (step e s))"
    using Cons.IH step_good [OF Cons.prems] .
  ultimately show ?case by (simp add: trans)
qed

end

end
