(* ===== verification/Order_State_Machine.thy ===== *)
theory Order_State_Machine
  imports Contracts
begin

section \<open>The order state machine\<close>

text \<open>
  \<open>src/backend/execution/order_state_machine.py\<close>: the state of every trade ticket, its history
  and its registration time, kept in an ordered dictionary of bounded size. A call receives the
  readings of the two clocks it uses, \<open>w\<close> (\<open>datetime.now\<close>, the history stamps) and \<open>m\<close>
  (\<open>time.monotonic\<close>). Every call holds the lock, so calls are atomic.
\<close>

subsection \<open>States and transitions\<close>

text \<open>Any other string is \<open>OtherState\<close>: the code takes the new state as a plain \<open>str\<close>.\<close>

datatype order_state =
  PENDING | SUBMITTED | OPEN | CLOSING | CLOSED | REJECTED | CANCELLED | ERROR | OtherState string

fun osm_transitions :: "order_state \<Rightarrow> order_state list" where
  "osm_transitions PENDING = [SUBMITTED, CANCELLED, REJECTED]"
| "osm_transitions SUBMITTED = [OPEN, REJECTED, CANCELLED]"
| "osm_transitions OPEN = [CLOSING, CLOSED, ERROR]"
| "osm_transitions CLOSING = [CLOSED, ERROR]"
| "osm_transitions CLOSED = []"
| "osm_transitions REJECTED = []"
| "osm_transitions CANCELLED = []"
| "osm_transitions ERROR = [PENDING]"
| "osm_transitions (OtherState _) = []"

definition osm_terminal :: "order_state \<Rightarrow> bool" where
  "osm_terminal s \<longleftrightarrow> s \<in> {CLOSED, REJECTED, CANCELLED}"

lemma osm_terminal_code [simp]:
  "osm_terminal CLOSED" "osm_terminal REJECTED" "osm_terminal CANCELLED"
  "\<not> osm_terminal PENDING" "\<not> osm_terminal SUBMITTED" "\<not> osm_terminal OPEN"
  "\<not> osm_terminal CLOSING" "\<not> osm_terminal ERROR" "\<not> osm_terminal (OtherState x)"
  by (simp_all add: osm_terminal_def)

interpretation osm_table: transition_table osm_transitions osm_terminal
  by unfold_locales (auto simp: osm_terminal_def)

subsection \<open>The store\<close>

type_synonym order_entry = "order_state \<times> (order_state \<times> time) list \<times> time"
type_synonym order_store = "(int, order_entry) odict"

record osm =
  osm_max :: int
  osm_ttl :: real
  osm_store :: order_store

definition osm_new :: "int \<Rightarrow> real \<Rightarrow> osm" where
  "osm_new mx ttl = \<lparr>osm_max = mx, osm_ttl = ttl, osm_store = []\<rparr>"

definition order_state_machine :: osm where
  "order_state_machine = osm_new 1000 3600"

fun first_terminal :: "order_store \<Rightarrow> int option" where
  "first_terminal [] = None"
| "first_terminal ((t, (s, _, _)) # d) = (if osm_terminal s then Some t else first_terminal d)"

lemma first_terminal_in: "first_terminal d = Some t \<Longrightarrow> t \<in> fst ` set d"
  by (induction d rule: first_terminal.induct) (auto split: if_splits)

text \<open>
  \<open>_evict_if_full\<close>: while the store is full, the oldest terminal ticket goes, and if there is none
  the oldest ticket; \<open>popitem\<close> raises on an empty store.
\<close>

function evict_if_full :: "int \<Rightarrow> order_store \<Rightarrow> (unit, order_store) outcome" where
  "evict_if_full mx d =
     (if mx \<le> int (length d) then
        case first_terminal d of
          Some t \<Rightarrow> evict_if_full mx (od_del t d)
        | None \<Rightarrow> (case d of [] \<Rightarrow> (Inl KeyError, []) | _ # d' \<Rightarrow> evict_if_full mx d')
      else (Inr (), d))"
  by pat_completeness auto
termination
  by (relation "measure (\<lambda>(mx, d). length d)") (auto intro!: length_od_del_less dest: first_terminal_in)

declare evict_if_full.simps [simp del]

definition fresh_entry :: "time \<Rightarrow> time \<Rightarrow> order_entry" where
  "fresh_entry w m = (PENDING, [(PENDING, w)], m)"

definition osm_register :: "int \<Rightarrow> time \<Rightarrow> time \<Rightarrow> osm \<Rightarrow> (unit, osm) outcome" where
  "osm_register t w m s =
     (if od_get (osm_store s) t \<noteq> None then (Inr (), s)
      else case evict_if_full (osm_max s) (osm_store s) of
          (Inl e, d) \<Rightarrow> (Inl e, s\<lparr>osm_store := d\<rparr>)
        | (Inr _, d) \<Rightarrow> (Inr (), s\<lparr>osm_store := od_put t (fresh_entry w m) d\<rparr>))"

text \<open>
  \<open>transition\<close> registers an unknown ticket first, so a refused first transition leaves the ticket
  in the store as PENDING.
\<close>

definition osm_transition :: "int \<Rightarrow> order_state \<Rightarrow> time \<Rightarrow> time \<Rightarrow> osm \<Rightarrow> (unit, osm) outcome" where
  "osm_transition t new w m s =
     (case osm_register t w m s of
        (Inl e, s') \<Rightarrow> (Inl e, s')
      | (Inr _, s') \<Rightarrow>
          (case od_get (osm_store s') t of
             None \<Rightarrow> (Inl KeyError, s')
           | Some (current, history, reg) \<Rightarrow>
               if new = current then (Inr (), s')
               else if new \<notin> set (osm_transitions current) then (Inl ValueError, s')
               else (Inr (), s'\<lparr>osm_store :=
                      od_put t (new, history @ [(new, w)], reg) (osm_store s')\<rparr>)))"

definition osm_get_state :: "osm \<Rightarrow> int \<Rightarrow> order_state option" where
  "osm_get_state s t = map_option fst (od_get (osm_store s) t)"

definition osm_get_history :: "osm \<Rightarrow> int \<Rightarrow> (order_state \<times> time) list" where
  "osm_get_history s t = (case od_get (osm_store s) t of None \<Rightarrow> [] | Some (_, h, _) \<Rightarrow> h)"

definition osm_get_age :: "osm \<Rightarrow> int \<Rightarrow> time \<Rightarrow> time option" where
  "osm_get_age s t m = map_option (\<lambda>(_, _, reg). m - reg) (od_get (osm_store s) t)"

definition osm_is_terminal :: "osm \<Rightarrow> int \<Rightarrow> bool" where
  "osm_is_terminal s t = (case osm_get_state s t of None \<Rightarrow> False | Some st \<Rightarrow> osm_terminal st)"

definition osm_active_tickets :: "osm \<Rightarrow> int list" where
  "osm_active_tickets s = map fst (filter (\<lambda>(_, st, _, _). \<not> osm_terminal st) (osm_store s))"

definition stale_entry :: "real \<Rightarrow> time \<Rightarrow> order_entry \<Rightarrow> bool" where
  "stale_entry ttl m e =
     (case e of (st, _, reg) \<Rightarrow> \<not> osm_terminal st \<and> st \<noteq> ERROR \<and> ttl < m - reg)"

definition osm_stale_tickets :: "time \<Rightarrow> osm \<Rightarrow> int list" where
  "osm_stale_tickets m s = map fst (filter (\<lambda>p. stale_entry (osm_ttl s) m (snd p)) (osm_store s))"

definition expire_entry :: "real \<Rightarrow> time \<Rightarrow> time \<Rightarrow> order_entry \<Rightarrow> order_entry" where
  "expire_entry ttl w m e =
     (if stale_entry ttl m e then case e of (_, h, reg) \<Rightarrow> (ERROR, h @ [(ERROR, w)], reg) else e)"

definition osm_expire_stale :: "time \<Rightarrow> time \<Rightarrow> osm \<Rightarrow> nat \<times> osm" where
  "osm_expire_stale w m s =
     (length (filter (\<lambda>p. stale_entry (osm_ttl s) m (snd p)) (osm_store s)),
      s\<lparr>osm_store := map (\<lambda>(t, e). (t, expire_entry (osm_ttl s) w m e)) (osm_store s)\<rparr>)"

definition osm_stats :: "osm \<Rightarrow> (order_state, nat) odict" where
  "osm_stats s = fold (\<lambda>(_, st, _, _) counts.
     od_put st ((case od_get counts st of None \<Rightarrow> 0 | Some n \<Rightarrow> n) + 1) counts) (osm_store s) []"

subsection \<open>Eviction\<close>

lemma evict_below [simp]: "int (length d) < mx \<Longrightarrow> evict_if_full mx d = (Inr (), d)"
  by (simp add: evict_if_full.simps)

lemma evict_ok:
  "0 < mx \<Longrightarrow> \<exists>d'. evict_if_full mx d = (Inr (), d') \<and> int (length d') < mx
     \<and> set d' \<subseteq> set d \<and> (od_wf d \<longrightarrow> od_wf d')"
proof (induction mx d rule: evict_if_full.induct)
  case (1 mx d)
  consider (below) "int (length d) < mx"
    | (finished) t where "mx \<le> int (length d)" "first_terminal d = Some t"
    | (oldest) p d' where "mx \<le> int (length d)" "first_terminal d = None" "d = p # d'"
    using "1.prems" by (cases d; cases "first_terminal d") (fastforce simp: not_le)+
  then show ?case
  proof cases
    case below
    then show ?thesis by simp
  next
    case (finished t)
    then have "evict_if_full mx d = evict_if_full mx (od_del t d)"
      by (simp add: evict_if_full.simps [of mx d])
    with finished "1.IH"(2) "1.prems" show ?thesis
      by (fastforce simp: od_set_del)
  next
    case (oldest p d')
    then have "evict_if_full mx d = evict_if_full mx d'"
      by (subst evict_if_full.simps) simp
    with oldest "1.IH"(1) "1.prems" show ?thesis by fastforce
  qed
qed

lemma evict_full_terminal:
  assumes "od_wf d" "int (length d) = mx" "first_terminal d = Some t"
  shows "evict_if_full mx d = (Inr (), od_del t d)"
proof -
  have "length (od_del t d) < length d"
    using assms by (intro length_od_del_less first_terminal_in)
  with assms show ?thesis by (simp add: evict_if_full.simps [of mx d])
qed

lemma evict_full_live:
  assumes "int (length d) = mx" "first_terminal d = None" "d \<noteq> []"
  shows "evict_if_full mx d = (Inr (), tl d)"
proof -
  from assms obtain p d' where d: "d = p # d'" by (cases d) auto
  with assms(1) have "int (length d') < mx" by simp
  then have "evict_if_full mx d' = (Inr (), d')" by simp
  moreover have "evict_if_full mx d = evict_if_full mx d'"
    using assms d by (subst evict_if_full.simps) simp
  ultimately show ?thesis using d by simp
qed

lemma first_terminal_terminal:
  "od_wf d \<Longrightarrow> first_terminal d = Some t \<Longrightarrow> \<exists>st h r. od_get d t = Some (st, h, r) \<and> osm_terminal st"
proof (induction d rule: first_terminal.induct)
  case (2 t' s h r d)
  then show ?case using first_terminal_in [of d t] by (auto split: if_splits)
qed simp

lemma first_terminal_None: "first_terminal d = None \<longleftrightarrow> (\<forall>(t, st, h, r) \<in> set d. \<not> osm_terminal st)"
  by (induction d rule: first_terminal.induct) auto

subsection \<open>The invariant\<close>

text \<open>
  The relation that histories follow: the table of the code, and the move to ERROR that the sweep of
  \<open>expire_stale_tickets\<close> makes from any live state without asking the table.
\<close>

definition osm_moves :: "order_state \<Rightarrow> order_state list" where
  "osm_moves s = osm_transitions s @ (if osm_terminal s \<or> s = ERROR then [] else [ERROR])"

interpretation osm_life: transition_table osm_moves osm_terminal
  by unfold_locales (auto simp: osm_moves_def osm_terminal_def)

lemma osm_life_edge_code: "osm_life.edge a b \<longleftrightarrow> b \<in> set (osm_moves a)"
  by (simp add: osm_life.edge_def)

lemma osm_life_path_code: "osm_life.path h \<longleftrightarrow> successively (\<lambda>a b. b \<in> set (osm_moves a)) h"
  by (simp add: osm_life.path_def osm_life.edge_def [abs_def])

definition entry_ok :: "order_entry \<Rightarrow> bool" where
  "entry_ok e = (case e of (st, h, reg) \<Rightarrow>
     h \<noteq> [] \<and> fst (hd h) = PENDING \<and> fst (last h) = st \<and> osm_life.path (map fst h))"

lemma entry_ok_fresh [simp]: "entry_ok (fresh_entry w m)"
  by (simp add: entry_ok_def fresh_entry_def)

lemma entry_ok_move:
  assumes "entry_ok (st, h, reg)" "new \<in> set (osm_moves st)"
  shows "entry_ok (new, h @ [(new, w)], reg)"
  using assms osm_life.path_snoc [of "map fst h" new]
  by (auto simp: entry_ok_def last_map osm_life_edge_code)

lemma entry_ok_expire: "entry_ok e \<Longrightarrow> entry_ok (expire_entry ttl w m e)"
  by (cases e) (auto simp: expire_entry_def stale_entry_def osm_moves_def intro!: entry_ok_move)

definition osm_inv :: "osm \<Rightarrow> bool" where
  "osm_inv s \<longleftrightarrow> 0 < osm_max s \<and> od_wf (osm_store s) \<and> int (length (osm_store s)) \<le> osm_max s
     \<and> (\<forall>e \<in> snd ` set (osm_store s). entry_ok e)"

lemma osm_inv_new: "0 < mx \<Longrightarrow> osm_inv (osm_new mx ttl)"
  by (simp add: osm_inv_def osm_new_def)

lemma osm_inv_put:
  assumes "osm_inv s" "t \<in> fst ` set (osm_store s)" "entry_ok e"
  shows "osm_inv (s\<lparr>osm_store := od_put t e (osm_store s)\<rparr>)"
  using assms by (auto simp: osm_inv_def length_od_put set_od_put)

lemma osm_register_ok:
  assumes "osm_inv s"
  shows "\<exists>s'. osm_register t w m s = (Inr (), s') \<and> osm_inv s' \<and> osm_max s' = osm_max s
     \<and> osm_ttl s' = osm_ttl s \<and> t \<in> fst ` set (osm_store s')"
proof (cases "od_get (osm_store s) t")
  case None
  obtain d where d: "evict_if_full (osm_max s) (osm_store s) = (Inr (), d)"
    "int (length d) < osm_max s" "set d \<subseteq> set (osm_store s)" "od_wf d"
    using evict_ok [of "osm_max s" "osm_store s"] assms by (auto simp: osm_inv_def)
  moreover have "od_get d t = None"
    using None d(3) by (auto simp: od_get_None_iff)
  ultimately show ?thesis
    using None assms
    by (fastforce simp: osm_register_def osm_inv_def length_od_put set_od_put)
next
  case (Some e)
  with assms show ?thesis by (auto simp: osm_register_def dest: od_get_Some_dom)
qed

lemma osm_inv_transition: "osm_inv s \<Longrightarrow> osm_inv (snd (osm_transition t new w m s))"
proof -
  assume "osm_inv s"
  then obtain s' where s': "osm_register t w m s = (Inr (), s')" "osm_inv s'"
    "t \<in> fst ` set (osm_store s')"
    using osm_register_ok by blast
  then obtain st h reg where e: "od_get (osm_store s') t = Some (st, h, reg)"
    by (metis od_get_None_iff option.exhaust prod_cases3)
  then have "entry_ok (st, h, reg)"
    using s'(2) by (force simp: osm_inv_def dest: od_get_SomeD)
  then show ?thesis
    using s' e by (auto simp: osm_transition_def osm_moves_def intro!: osm_inv_put entry_ok_move)
qed

lemma osm_inv_expire: "osm_inv s \<Longrightarrow> osm_inv (snd (osm_expire_stale w m s))"
  by (auto simp: osm_inv_def osm_expire_stale_def od_wf_def o_def case_prod_beta entry_ok_expire)

text \<open>Any sequence of calls, a refused one leaving the state it has reached.\<close>

datatype osm_op = OpRegister int time time | OpTransition int order_state time time | OpExpire time time

fun osm_step :: "osm_op \<Rightarrow> osm \<Rightarrow> osm" where
  "osm_step (OpRegister t w m) s = snd (osm_register t w m s)"
| "osm_step (OpTransition t new w m) s = snd (osm_transition t new w m s)"
| "osm_step (OpExpire w m) s = snd (osm_expire_stale w m s)"

lemma osm_register_config:
  "osm_max (snd (osm_register t w m s)) = osm_max s \<and> osm_ttl (snd (osm_register t w m s)) = osm_ttl s"
  by (simp add: osm_register_def split: sum.split prod.split)

lemma osm_step_config: "osm_max (osm_step e s) = osm_max s \<and> osm_ttl (osm_step e s) = osm_ttl s"
proof (cases e)
  case (OpTransition t new w m)
  then show ?thesis
    using osm_register_config [of t w m s]
    by (cases "osm_register t w m s")
      (simp add: osm_transition_def split: sum.split option.split prod.split)
qed (simp_all add: osm_register_config osm_expire_stale_def)

interpretation osm_machine: guarded_state osm_step osm_inv
proof unfold_locales
  fix s e assume "osm_inv s"
  then show "osm_inv (osm_step e s)"
    using osm_register_ok
    by (cases e) (auto intro: osm_inv_transition osm_inv_expire, metis snd_conv)
qed

lemma osm_inv_get:
  assumes "osm_inv s" "osm_get_state s t = Some st"
  obtains h reg where "od_get (osm_store s) t = Some (st, h, reg)" "entry_ok (st, h, reg)"
proof -
  from assms(2) obtain h reg where "od_get (osm_store s) t = Some (st, h, reg)"
    by (auto simp: osm_get_state_def)
  moreover from this assms(1) have "entry_ok (st, h, reg)"
    by (force simp: osm_inv_def dest: od_get_SomeD)
  ultimately show thesis by (rule that)
qed

subsection \<open>Properties\<close>

text \<open>
  Where a recorded move comes from: a transition of the table that was asked for this ticket, with its time stamp, or a sweep, which
  moves a live ticket to ERROR whatever the table says.
\<close>

definition recorded_move :: "osm_op set \<Rightarrow> int \<Rightarrow> order_state \<times> time \<Rightarrow> order_state \<times> time \<Rightarrow> bool" where
  "recorded_move ops t x y \<longleftrightarrow>
     (fst y \<in> set (osm_transitions (fst x)) \<and> (\<exists>m. OpTransition t (fst y) (snd y) m \<in> ops))
     \<or> (fst y = ERROR \<and> fst x \<noteq> ERROR \<and> \<not> osm_terminal (fst x) \<and> (\<exists>m. OpExpire (snd y) m \<in> ops))"

definition entry_recorded :: "osm_op set \<Rightarrow> int \<Rightarrow> order_entry \<Rightarrow> bool" where
  "entry_recorded ops t e = (case e of (st, h, reg) \<Rightarrow> h \<noteq> [] \<and> fst (last h) = st \<and> successively (recorded_move ops t) h)"

definition store_recorded :: "osm_op set \<Rightarrow> osm \<Rightarrow> bool" where
  "store_recorded ops s \<longleftrightarrow> (\<forall>(t, e) \<in> set (osm_store s). entry_recorded ops t e)"

lemma evict_subset: "set (snd (evict_if_full mx d)) \<subseteq> set d"
proof (induction mx d rule: evict_if_full.induct)
  case (1 mx d)
  show ?case
  proof (cases "first_terminal d")
    case None
    show ?thesis
    proof (cases d)
      case Nil
      then show ?thesis by (simp add: evict_if_full.simps)
    next
      case (Cons p d')
      have "set (snd (evict_if_full mx d')) \<subseteq> set d'" if "mx \<le> int (length d)" using 1(1) None Cons that by (cases p) auto
      then show ?thesis using None Cons by (subst evict_if_full.simps) auto
    qed
  next
    case (Some t)
    then show ?thesis using 1(2) [of t] by (subst evict_if_full.simps) (auto simp: od_set_del)
  qed
qed

lemma put_recorded: "store_recorded ops s \<Longrightarrow> entry_recorded ops t e \<Longrightarrow> store_recorded ops (s\<lparr>osm_store := od_put t e (osm_store s)\<rparr>)"
  using set_od_put_subset [of t e "osm_store s"] by (fastforce simp: store_recorded_def)

lemma register_recorded: "store_recorded ops s \<Longrightarrow> store_recorded ops (snd (osm_register t w m s))"
proof -
  assume r: "store_recorded ops s"
  obtain x d where d: "evict_if_full (osm_max s) (osm_store s) = (x, d)" by (cases "evict_if_full (osm_max s) (osm_store s)")
  then have "store_recorded ops (s\<lparr>osm_store := d\<rparr>)"
    using r evict_subset [of "osm_max s" "osm_store s"] by (auto simp: store_recorded_def)
  moreover have "entry_recorded ops t (fresh_entry w m)" by (simp add: entry_recorded_def fresh_entry_def)
  ultimately show ?thesis using r put_recorded [of ops "s\<lparr>osm_store := d\<rparr>" t "fresh_entry w m"]
    by (cases x) (simp_all add: osm_register_def d)
qed

lemma move_recorded:
  "entry_recorded ops t (st, h, reg) \<Longrightarrow> recorded_move ops t (last h) (new, w) \<Longrightarrow> entry_recorded ops t (new, h @ [(new, w)], reg)"
  by (simp add: entry_recorded_def successively_append_iff)

lemma step_recorded:
  assumes "store_recorded ops s" and "e \<in> ops"
  shows "store_recorded ops (osm_step e s)"
proof (cases e)
  case (OpRegister t w m)
  then show ?thesis using register_recorded [OF assms(1)] by simp
next
  case (OpTransition t new w m)
  define s' where "s' = snd (osm_register t w m s)"
  have s': "store_recorded ops s'" unfolding s'_def by (rule register_recorded [OF assms(1)])
  show ?thesis
  proof (cases "od_get (osm_store s') t")
    case (Some e)
    obtain st h reg where e: "e = (st, h, reg)" by (cases e)
    have "entry_recorded ops t (st, h, reg)" using s' od_get_SomeD [OF Some] by (auto simp: store_recorded_def e)
    moreover from this have "recorded_move ops t (last h) (new, w)" if "new \<in> set (osm_transitions st)"
      using that assms(2) OpTransition by (auto simp: recorded_move_def entry_recorded_def)
    ultimately have "store_recorded ops (s'\<lparr>osm_store := od_put t (new, h @ [(new, w)], reg) (osm_store s')\<rparr>)" if "new \<in> set (osm_transitions st)"
      using put_recorded [OF s'] move_recorded that by blast
    then show ?thesis using s' Some unfolding OpTransition s'_def
      by (cases "osm_register t w m s") (auto simp: osm_transition_def e split: sum.split)
  qed (use s' in \<open>cases "osm_register t w m s"; auto simp: OpTransition osm_transition_def s'_def split: sum.split\<close>)
next
  case (OpExpire w m)
  have "entry_recorded ops t (expire_entry ttl w m x)" if "entry_recorded ops t x" for t ttl x
    using that assms(2) OpExpire move_recorded [of ops t "fst x" "fst (snd x)" "snd (snd x)" ERROR w]
    by (cases x) (auto simp: expire_entry_def stale_entry_def recorded_move_def entry_recorded_def)
  then show ?thesis using assms(1) by (auto simp: OpExpire store_recorded_def osm_expire_stale_def)
qed

lemma run_recorded: "store_recorded (set ops) (fold osm_step ops (osm_new mx ttl))"
  by (rule fold_invariant [where Q = "\<lambda>e. e \<in> set ops"]) (simp_all add: step_recorded, simp add: store_recorded_def osm_new_def)

text \<open>
  C2: whatever is called, in whatever order, the recorded history of a tracked ticket starts with
  PENDING and ends with its current state. Every further entry comes from a call: either a transition of the
  table that was requested for this ticket, stamped with the time of the request, or, for a live ticket, ERROR with the time of a sweep of
  \<open>expire_stale_tickets\<close>, which does not look at the table. The store keeps unique tickets and its size bound.
\<close>

theorem osm_history_is_lifecycle_path:
  assumes "0 < mx" and "s = fold osm_step ops (osm_new mx ttl)"
  shows "int (length (osm_store s)) \<le> mx \<and> distinct (map fst (osm_store s)) \<and>
    (\<forall>t st. osm_get_state s t = Some st \<longrightarrow>
      (let h = osm_get_history s t in
        h \<noteq> [] \<and> fst (hd h) = PENDING \<and> fst (last h) = st
        \<and> successively (\<lambda>x y. (fst y \<in> set (osm_transitions (fst x)) \<and> (\<exists>m. OpTransition t (fst y) (snd y) m \<in> set ops))
            \<or> (fst y = ERROR \<and> fst x \<notin> {ERROR, CLOSED, REJECTED, CANCELLED} \<and> (\<exists>m. OpExpire (snd y) m \<in> set ops))) h))"
proof -
  have inv: "osm_inv s"
    using osm_machine.run_good osm_inv_new assms by blast
  have "osm_max s = mx"
    using osm_machine.run_relation [of "\<lambda>a b. osm_max b = osm_max a" "osm_new mx ttl" ops]
      osm_inv_new osm_step_config assms by (simp add: osm_new_def)
  moreover have "let h = osm_get_history s t in h \<noteq> [] \<and> fst (hd h) = PENDING \<and> fst (last h) = st
      \<and> successively (recorded_move (set ops) t) h" if st: "osm_get_state s t = Some st" for t st
  proof -
    obtain h reg where h: "od_get (osm_store s) t = Some (st, h, reg)" "entry_ok (st, h, reg)"
      using osm_inv_get [OF inv st] .
    then have "entry_recorded (set ops) t (st, h, reg)"
      using run_recorded [of ops mx ttl] od_get_SomeD [OF h(1)] unfolding assms(2) by (auto simp: store_recorded_def)
    then show ?thesis using h by (simp add: osm_get_history_def entry_ok_def entry_recorded_def)
  qed
  moreover have "recorded_move (set ops) t = (\<lambda>x y. (fst y \<in> set (osm_transitions (fst x)) \<and> (\<exists>m. OpTransition t (fst y) (snd y) m \<in> set ops))
      \<or> (fst y = ERROR \<and> fst x \<notin> {ERROR, CLOSED, REJECTED, CANCELLED} \<and> (\<exists>m. OpExpire (snd y) m \<in> set ops)))" for t
    by (auto simp: recorded_move_def osm_terminal_def fun_eq_iff)
  ultimately show ?thesis using inv by (auto simp: osm_inv_def od_wf_def)
qed

theorem osm_history_is_lifecycle_path_witness:
  "let ops = [OpTransition 7 SUBMITTED 1 1, OpTransition 7 CLOSED 2 2, OpExpire 99 99]; s = fold osm_step ops (osm_new 3 60) in
   osm_get_history s 7 = [(PENDING, 1), (SUBMITTED, 1), (ERROR, 99)] \<and> distinct (map fst (osm_store s))
   \<and> successively (\<lambda>x y. (fst y \<in> set (osm_transitions (fst x)) \<and> (\<exists>m. OpTransition 7 (fst y) (snd y) m \<in> set ops))
        \<or> (fst y = ERROR \<and> fst x \<notin> {ERROR, CLOSED, REJECTED, CANCELLED} \<and> (\<exists>m. OpExpire (snd y) m \<in> set ops))) (osm_get_history s 7)"
proof -
  let ?ops = "[OpTransition 7 SUBMITTED 1 1, OpTransition 7 CLOSED 2 2, OpExpire 99 99]"
  have "osm_get_history (fold osm_step ?ops (osm_new 3 60)) 7 = [(PENDING, 1), (SUBMITTED, 1), (ERROR, 99)]"
    "osm_get_state (fold osm_step ?ops (osm_new 3 60)) 7 = Some ERROR"
    by (simp_all add: osm_transition_def osm_register_def osm_new_def fresh_entry_def osm_get_state_def osm_get_history_def
        osm_expire_stale_def expire_entry_def stale_entry_def)
  then show ?thesis using osm_history_is_lifecycle_path [of 3 _ ?ops 60, OF _ refl] unfolding Let_def by simp
qed

text \<open>
  C6: a ticket in a terminal state never leaves it: any other requested state is refused with
  ValueError, and neither the store nor the history changes.
\<close>

theorem osm_terminal_is_final:
  assumes "osm_get_state s t = Some st" and "osm_terminal st"
  shows "osm_transition t new w m s = (if new = st then Inr () else Inl ValueError, s)"
proof -
  from assms(1) obtain h reg where "od_get (osm_store s) t = Some (st, h, reg)"
    by (auto simp: osm_get_state_def)
  with assms(2) show ?thesis
    by (auto simp: osm_transition_def osm_register_def osm_table.terminal_stuck)
qed

theorem osm_terminal_is_final_witness:
  "osm_transition 7 OPEN 9 9 \<lparr>osm_max = 3, osm_ttl = 60, osm_store = [(7, CLOSED, [(PENDING, 0)], 0)]\<rparr>
    = (Inl ValueError, \<lparr>osm_max = 3, osm_ttl = 60, osm_store = [(7, CLOSED, [(PENDING, 0)], 0)]\<rparr>)"
  using osm_terminal_is_final
    [of "\<lparr>osm_max = 3, osm_ttl = 60, osm_store = [(7, CLOSED, [(PENDING, 0)], 0)]\<rparr>" 7 CLOSED OPEN 9 9]
  by (simp add: osm_get_state_def)

text \<open>
  One sweep of \<open>expire_stale_tickets\<close> moves exactly the stale tickets to ERROR and returns their
  number: afterwards no ticket is stale, the stale ones are in ERROR with ERROR recorded, and every
  other entry is as before.
\<close>

theorem osm_expire_moves_exactly_the_stale:
  "let (n, s') = osm_expire_stale w m s in
     n = length (osm_stale_tickets m s) \<and> osm_stale_tickets m s' = [] \<and>
     (\<forall>t. od_get (osm_store s') t = (case od_get (osm_store s) t of
         None \<Rightarrow> None
       | Some (st, h, reg) \<Rightarrow>
           if \<not> osm_terminal st \<and> st \<noteq> ERROR \<and> osm_ttl s < m - reg
           then Some (ERROR, h @ [(ERROR, w)], reg) else Some (st, h, reg)))"
proof -
  have none: "\<not> stale_entry ttl m (expire_entry ttl w m e)" for ttl e
    by (cases e) (auto simp: expire_entry_def stale_entry_def)
  have get: "od_get (map (\<lambda>(t, e). (t, f e)) d) t = map_option f (od_get d t)"
    for f :: "order_entry \<Rightarrow> order_entry" and d :: order_store and t
    by (induction d) auto
  show ?thesis
    by (auto simp: osm_expire_stale_def osm_stale_tickets_def none get filter_map o_def
        case_prod_beta expire_entry_def stale_entry_def split: option.splits)
qed

text \<open>
  When the store is full and no ticket is terminal, registering a new ticket forgets the oldest
  live one, whatever its state (an open position included): its state becomes unknown.
\<close>

theorem osm_full_store_forgets_live_ticket:
  assumes "osm_inv s" and "osm_store s = (old, e) # rest" and "int (length (osm_store s)) = osm_max s"
    and "osm_active_tickets s = map fst (osm_store s)" and "osm_get_state s new = None"
  shows "\<exists>s'. osm_register new w m s = (Inr (), s') \<and> osm_get_state s' old = None
    \<and> osm_get_state s' new = Some PENDING"
proof -
  have "length (filter (\<lambda>(_, st, _, _). \<not> osm_terminal st) (osm_store s)) = length (osm_store s)"
    using assms(4) by (metis length_map osm_active_tickets_def)
  then have "filter (\<lambda>(_, st, _, _). \<not> osm_terminal st) (osm_store s) = osm_store s"
    by (metis (no_types, lifting) filter_True length_filter_less less_irrefl)
  then have "first_terminal (osm_store s) = None"
    by (simp add: first_terminal_None filter_id_conv)
  then have "evict_if_full (osm_max s) (osm_store s) = (Inr (), rest)"
    by (metis evict_full_live assms(2,3) list.distinct(1) list.sel(3))
  moreover have "od_get (osm_store s) new = None" "od_get rest old = None" "old \<noteq> new"
    using assms(1,2,5) by (auto simp: osm_get_state_def osm_inv_def od_get_None_iff)
  ultimately show ?thesis
    by (simp add: osm_register_def osm_get_state_def fresh_entry_def)
qed

theorem osm_full_store_forgets_live_ticket_witness:
  "\<exists>s'. osm_register 8 5 5 \<lparr>osm_max = 1, osm_ttl = 60,
       osm_store = [(7, OPEN, [(PENDING, 0), (SUBMITTED, 1), (OPEN, 2)], 0)]\<rparr> = (Inr (), s')
     \<and> osm_get_state s' 7 = None \<and> osm_get_state s' 8 = Some PENDING"
  by (rule osm_full_store_forgets_live_ticket)
    (auto simp: osm_inv_def entry_ok_def osm_life_path_code osm_moves_def
      osm_active_tickets_def osm_get_state_def)

end
