(* ===== verification/Circuit_Breaker.thy ===== *)
theory Circuit_Breaker
  imports Contracts
begin

section \<open>The circuit breaker\<close>

text \<open>
  \<open>src/backend/circuit_breaker.py\<close>: the CLOSED, OPEN, HALF_OPEN breaker that guards calls to the
  broker, its registry and the global trading halt. Each method holds the breaker's lock, so a call
  is one atomic step; \<open>now\<close> is the reading of \<open>time.monotonic\<close> it uses (several readings inside
  one call are taken to be equal). Callbacks are identified by numbers; what they are called with is
  the output \<open>cb_calls\<close>, and an exception in one is swallowed by the code, so it changes nothing.
\<close>

subsection \<open>State\<close>

datatype breaker_state = CB_CLOSED | CB_OPEN | CB_HALF_OPEN

record breaker_config =
  failure_threshold :: int
  failure_window_s :: real
  recovery_timeout_s :: real
  success_threshold :: int
  half_open_max_calls :: int
  timeout_s :: real

definition default_breaker_config :: breaker_config where
  "default_breaker_config = \<lparr>failure_threshold = 5, failure_window_s = 60, recovery_timeout_s = 30,
     success_threshold = 2, half_open_max_calls = 3, timeout_s = 0\<rparr>"

record breaker_stats =
  cb_state :: breaker_state
  failure_times :: "time list"
  successes :: int
  half_open_calls :: int
  opened_at :: "time option"
  half_open_entered :: "time option"
  last_failure_reason :: string

definition new_stats :: breaker_stats where
  "new_stats = \<lparr>cb_state = CB_CLOSED, failure_times = [], successes = 0, half_open_calls = 0,
     opened_at = None, half_open_entered = None, last_failure_reason = []\<rparr>"

datatype cb_call = CallbackCall nat string | AlertCall string breaker_state breaker_state

record breaker =
  cb_name :: string
  cb_config :: breaker_config
  cb_stats :: breaker_stats
  on_open :: "nat list"
  on_close :: "nat list"
  on_half_open :: "nat list"
  cb_alert :: bool
  cb_calls :: "cb_call list"

definition new_breaker :: "string \<Rightarrow> breaker_config option \<Rightarrow> bool \<Rightarrow> breaker" where
  "new_breaker name cfg alert = \<lparr>cb_name = name,
     cb_config = (case cfg of None \<Rightarrow> default_breaker_config | Some c \<Rightarrow> c),
     cb_stats = new_stats, on_open = [], on_close = [], on_half_open = [],
     cb_alert = alert, cb_calls = []\<rparr>"

subsection \<open>\<open>BreakerStats\<close>\<close>

definition stats_record_success :: "breaker_stats \<Rightarrow> breaker_stats" where
  "stats_record_success s =
     (let s' = (if cb_state s = CB_CLOSED then s\<lparr>failure_times := []\<rparr> else s)
      in s'\<lparr>successes := successes s' + 1\<rparr>)"

definition in_window :: "real \<Rightarrow> time \<Rightarrow> time list \<Rightarrow> time list" where
  "in_window w now ts = filter (\<lambda>t. now - t < w) ts"

definition stats_record_failure :: "string \<Rightarrow> real \<Rightarrow> time \<Rightarrow> breaker_stats \<Rightarrow> breaker_stats" where
  "stats_record_failure reason w now s =
     s\<lparr>failure_times := in_window w now (failure_times s) @ [now],
       last_failure_reason := reason, successes := 0\<rparr>"

definition failure_count :: "real \<Rightarrow> time \<Rightarrow> breaker_stats \<Rightarrow> int" where
  "failure_count w now s = int (length (in_window w now (failure_times s)))"

subsection \<open>Transitions and callbacks\<close>

definition fire_callbacks :: "nat list \<Rightarrow> breaker \<Rightarrow> breaker" where
  "fire_callbacks cbs b = b\<lparr>cb_calls := cb_calls b @ map (\<lambda>c. CallbackCall c (cb_name b)) cbs\<rparr>"

definition cb_transition :: "breaker_state \<Rightarrow> time \<Rightarrow> breaker \<Rightarrow> breaker" where
  "cb_transition new now b =
     (let old = cb_state (cb_stats b);
          s = (cb_stats b)\<lparr>cb_state := new\<rparr>;
          b1 = (case new of
             CB_OPEN \<Rightarrow> fire_callbacks (on_open b)
               (b\<lparr>cb_stats := s\<lparr>opened_at := Some now, successes := 0, half_open_calls := 0\<rparr>\<rparr>)
           | CB_HALF_OPEN \<Rightarrow> fire_callbacks (on_half_open b)
               (b\<lparr>cb_stats := s\<lparr>half_open_entered := Some now, half_open_calls := 0, successes := 0\<rparr>\<rparr>)
           | CB_CLOSED \<Rightarrow> fire_callbacks (on_close b)
               (b\<lparr>cb_stats := s\<lparr>opened_at := None, half_open_entered := None, successes := 0,
                  half_open_calls := 0\<rparr>\<rparr>))
      in if cb_alert b then b1\<lparr>cb_calls := cb_calls b1 @ [AlertCall (cb_name b) old new]\<rparr> else b1)"

subsection \<open>The three entry points\<close>

definition cb_check_state :: "time \<Rightarrow> breaker \<Rightarrow> bool \<times> breaker" where
  "cb_check_state now b =
     (case cb_state (cb_stats b) of
        CB_CLOSED \<Rightarrow> (True, b)
      | CB_OPEN \<Rightarrow>
          (case opened_at (cb_stats b) of
             None \<Rightarrow> (False, b)
           | Some t0 \<Rightarrow> if recovery_timeout_s (cb_config b) \<le> now - t0
                        then (True, cb_transition CB_HALF_OPEN now b) else (False, b))
      | CB_HALF_OPEN \<Rightarrow>
          if half_open_max_calls (cb_config b) \<le> half_open_calls (cb_stats b) then (False, b)
          else (True, b\<lparr>cb_stats := (cb_stats b)\<lparr>half_open_calls := half_open_calls (cb_stats b) + 1\<rparr>\<rparr>))"

definition cb_can_execute :: "time \<Rightarrow> breaker \<Rightarrow> bool \<times> breaker" where
  "cb_can_execute now b = cb_check_state now b"

definition cb_record_success :: "time \<Rightarrow> breaker \<Rightarrow> breaker" where
  "cb_record_success now b =
     (let b1 = b\<lparr>cb_stats := stats_record_success (cb_stats b)\<rparr> in
      if cb_state (cb_stats b1) = CB_HALF_OPEN
         \<and> success_threshold (cb_config b) \<le> successes (cb_stats b1)
      then cb_transition CB_CLOSED now b1 else b1)"

definition cb_record_failure :: "string \<Rightarrow> time \<Rightarrow> breaker \<Rightarrow> breaker" where
  "cb_record_failure reason now b =
     (let w = failure_window_s (cb_config b);
          b1 = b\<lparr>cb_stats := stats_record_failure reason w now (cb_stats b)\<rparr> in
      if cb_state (cb_stats b1) \<noteq> CB_OPEN
         \<and> failure_threshold (cb_config b) \<le> failure_count w now (cb_stats b1)
      then cb_transition CB_OPEN now (b1\<lparr>cb_stats := (cb_stats b1)\<lparr>last_failure_reason := reason\<rparr>\<rparr>)
      else b1)"

text \<open>\<open>__aenter__\<close> raises when the call is not admitted; \<open>__aexit__\<close> records how the body ended.\<close>

definition cb_aenter :: "time \<Rightarrow> breaker \<Rightarrow> (unit, breaker) outcome" where
  "cb_aenter now b = (case cb_can_execute now b of
      (True, b') \<Rightarrow> (Inr (), b')
    | (False, b') \<Rightarrow> (Inl (OtherError ''CircuitOpenError''), b'))"

definition cb_aexit :: "string option \<Rightarrow> time \<Rightarrow> breaker \<Rightarrow> breaker" where
  "cb_aexit exc_val now b = (case exc_val of
      None \<Rightarrow> cb_record_success now b
    | Some reason \<Rightarrow> cb_record_failure reason now b)"

record breaker_status =
  st_name :: string
  st_state :: breaker_state
  st_failures :: int
  st_last_reason :: string
  st_threshold :: int
  st_window :: real
  st_recovery :: real

definition cb_status :: "time \<Rightarrow> breaker \<Rightarrow> breaker_status" where
  "cb_status now b = \<lparr>st_name = cb_name b, st_state = cb_state (cb_stats b),
     st_failures = failure_count (failure_window_s (cb_config b)) now (cb_stats b),
     st_last_reason = last_failure_reason (cb_stats b),
     st_threshold = failure_threshold (cb_config b), st_window = failure_window_s (cb_config b),
     st_recovery = recovery_timeout_s (cb_config b)\<rparr>"

definition add_on_open :: "nat \<Rightarrow> breaker \<Rightarrow> breaker" where
  "add_on_open cb b = (if cb \<in> set (on_open b) then b else b\<lparr>on_open := on_open b @ [cb]\<rparr>)"

definition add_on_close :: "nat \<Rightarrow> breaker \<Rightarrow> breaker" where
  "add_on_close cb b = (if cb \<in> set (on_close b) then b else b\<lparr>on_close := on_close b @ [cb]\<rparr>)"

definition add_on_half_open :: "nat \<Rightarrow> breaker \<Rightarrow> breaker" where
  "add_on_half_open cb b =
     (if cb \<in> set (on_half_open b) then b else b\<lparr>on_half_open := on_half_open b @ [cb]\<rparr>)"

definition remove_on_open :: "nat \<Rightarrow> breaker \<Rightarrow> breaker" where
  "remove_on_open cb b = b\<lparr>on_open := filter (\<lambda>x. x \<noteq> cb) (on_open b)\<rparr>"

definition remove_on_close :: "nat \<Rightarrow> breaker \<Rightarrow> breaker" where
  "remove_on_close cb b = b\<lparr>on_close := filter (\<lambda>x. x \<noteq> cb) (on_close b)\<rparr>"

definition remove_on_half_open :: "nat \<Rightarrow> breaker \<Rightarrow> breaker" where
  "remove_on_half_open cb b = b\<lparr>on_half_open := filter (\<lambda>x. x \<noteq> cb) (on_half_open b)\<rparr>"

subsection \<open>The module's globals\<close>

record breaker_globals =
  g_halt :: bool
  g_registry :: "(string, breaker) odict"

definition halt_trading :: "breaker_globals \<Rightarrow> breaker_globals" where
  "halt_trading g = g\<lparr>g_halt := True\<rparr>"

definition resume_trading :: "breaker_globals \<Rightarrow> breaker_globals" where
  "resume_trading g = g\<lparr>g_halt := False\<rparr>"

definition is_halted :: "breaker_globals \<Rightarrow> bool" where
  "is_halted g = g_halt g"

definition get_breaker :: "string \<Rightarrow> breaker_config option \<Rightarrow> breaker_globals \<Rightarrow> breaker \<times> breaker_globals"
  where
  "get_breaker name cfg g =
     (case od_get (g_registry g) name of
        Some b \<Rightarrow> (b, g)
      | None \<Rightarrow> (let b = new_breaker name cfg False
                 in (b, g\<lparr>g_registry := od_put name b (g_registry g)\<rparr>)))"

definition get_mt5_breaker :: "breaker_globals \<Rightarrow> breaker \<times> breaker_globals" where
  "get_mt5_breaker g = get_breaker ''mt5'' None g"

definition get_all_breakers :: "breaker_globals \<Rightarrow> (string, breaker) odict" where
  "get_all_breakers g = g_registry g"

definition get_breaker_status :: "time \<Rightarrow> breaker_globals \<Rightarrow> (string, breaker_status) odict" where
  "get_breaker_status now g = map (\<lambda>(name, b). (name, cb_status now b)) (g_registry g)"

subsection \<open>Facts about one step\<close>

lemma fire_callbacks_frame [simp]:
  "cb_stats (fire_callbacks cbs b) = cb_stats b" "cb_config (fire_callbacks cbs b) = cb_config b"
  by (simp_all add: fire_callbacks_def)

lemma cb_transition_config [simp]: "cb_config (cb_transition new now b) = cb_config b"
  by (simp add: cb_transition_def Let_def split: breaker_state.split)

lemma cb_transition_stats:
  "cb_stats (cb_transition new now b) = (case new of
      CB_OPEN \<Rightarrow> (cb_stats b)\<lparr>cb_state := CB_OPEN, opened_at := Some now, successes := 0,
                   half_open_calls := 0\<rparr>
    | CB_HALF_OPEN \<Rightarrow> (cb_stats b)\<lparr>cb_state := CB_HALF_OPEN, half_open_entered := Some now,
                   half_open_calls := 0, successes := 0\<rparr>
    | CB_CLOSED \<Rightarrow> (cb_stats b)\<lparr>cb_state := CB_CLOSED, opened_at := None,
                   half_open_entered := None, successes := 0, half_open_calls := 0\<rparr>)"
  by (simp add: cb_transition_def Let_def split: breaker_state.split)

lemmas cb_ops = cb_can_execute_def cb_check_state_def cb_record_success_def cb_record_failure_def
  stats_record_success_def stats_record_failure_def Let_def

datatype cb_op = CanExecute time | RecordSuccess time | RecordFailure string time

fun cb_step :: "cb_op \<Rightarrow> breaker \<Rightarrow> breaker" where
  "cb_step (CanExecute now) b = snd (cb_can_execute now b)"
| "cb_step (RecordSuccess now) b = cb_record_success now b"
| "cb_step (RecordFailure r now) b = cb_record_failure r now b"

lemma cb_step_config [simp]: "cb_config (cb_step e b) = cb_config b"
  by (cases e) (simp_all add: cb_ops split: breaker_state.split option.split)

subsection \<open>The invariant and the diagram\<close>

definition cb_inv :: "breaker \<Rightarrow> bool" where
  "cb_inv b = (let s = cb_stats b; c = cb_config b in
     0 \<le> half_open_calls s \<and> half_open_calls s \<le> max 0 (half_open_max_calls c) \<and>
     (cb_state s = CB_OPEN \<longrightarrow> opened_at s \<noteq> None) \<and>
     (cb_state s = CB_CLOSED \<longrightarrow> opened_at s = None \<and> half_open_entered s = None) \<and>
     (cb_state s = CB_HALF_OPEN \<longrightarrow> half_open_entered s \<noteq> None \<and>
        (0 < success_threshold c \<longrightarrow> successes s < success_threshold c)))"

lemma cb_inv_new: "cb_inv (new_breaker name cfg alert)"
  by (simp add: cb_inv_def new_breaker_def new_stats_def)

lemma cb_inv_step: "cb_inv b \<Longrightarrow> cb_inv (cb_step e b)"
  by (cases e)
    (auto simp: cb_inv_def cb_ops cb_transition_stats split: breaker_state.split option.split)

interpretation cb_machine: guarded_state cb_step cb_inv
  by unfold_locales (rule cb_inv_step)

fun cb_diagram :: "breaker_state \<Rightarrow> breaker_state list" where
  "cb_diagram CB_CLOSED = [CB_OPEN]"
| "cb_diagram CB_OPEN = [CB_HALF_OPEN]"
| "cb_diagram CB_HALF_OPEN = [CB_CLOSED, CB_OPEN]"

interpretation cb_table: transition_table cb_diagram "\<lambda>_. False"
  by unfold_locales simp

text \<open>A step keeps the state or follows the diagram.\<close>

lemma cb_step_edge:
  "cb_state (cb_stats (cb_step e b)) = cb_state (cb_stats b)
   \<or> cb_table.edge (cb_state (cb_stats b)) (cb_state (cb_stats (cb_step e b)))"
  by (cases e; cases "cb_state (cb_stats b)")
    (auto simp: cb_table.edge_def cb_ops cb_transition_stats split: option.split)

text \<open>Asking for admission at a list of instants, with no call ending in between.\<close>

fun cb_admissions :: "time list \<Rightarrow> breaker \<Rightarrow> bool list \<times> breaker" where
  "cb_admissions [] b = ([], b)"
| "cb_admissions (now # ts) b =
     (let (r, b') = cb_can_execute now b; (rs, b'') = cb_admissions ts b' in (r # rs, b''))"

lemma cb_admissions_half_open:
  "cb_state (cb_stats b) = CB_HALF_OPEN \<Longrightarrow> half_open_calls (cb_stats b) \<le> half_open_max_calls (cb_config b) \<Longrightarrow>
   fst (cb_admissions ts b) =
     (let k = nat (half_open_max_calls (cb_config b) - half_open_calls (cb_stats b))
      in replicate (min k (length ts)) True @ replicate (length ts - k) False)"
proof (induction ts arbitrary: b)
  case (Cons now ts)
  show ?case
  proof (cases "half_open_max_calls (cb_config b) \<le> half_open_calls (cb_stats b)")
    case True
    with Cons.prems have "cb_can_execute now b = (False, b)" by (simp add: cb_ops)
    with True Cons show ?thesis by (simp add: case_prod_beta)
  next
    case False
    define b' where "b' = b\<lparr>cb_stats := (cb_stats b)\<lparr>half_open_calls := half_open_calls (cb_stats b) + 1\<rparr>\<rparr>"
    define k where "k = nat (half_open_max_calls (cb_config b) - half_open_calls (cb_stats b) - 1)"
    from False have k: "nat (half_open_max_calls (cb_config b) - half_open_calls (cb_stats b)) = Suc k"
      by (simp add: k_def)
    have "fst (cb_admissions ts b') = replicate (min k (length ts)) True @ replicate (length ts - k) False"
      using Cons.IH [of b'] Cons.prems False by (simp add: b'_def k_def Let_def algebra_simps)
    moreover have "cb_can_execute now b = (True, b')"
      using Cons.prems False by (simp add: cb_ops b'_def)
    ultimately show ?thesis by (simp add: case_prod_beta k Let_def)
  qed
qed simp

subsection \<open>Properties\<close>

text \<open>
  From a new breaker, whatever calls are made, the successive states follow the diagram
  CLOSED to OPEN to HALF_OPEN to CLOSED or OPEN, and the state stays consistent: an open breaker
  knows when it opened, a closed one carries no opening time, and the probe counter never exceeds
  its limit.
\<close>

theorem cb_runs_follow_diagram:
  assumes "b = fold cb_step ops (new_breaker name cfg alert)"
  shows "cb_inv b \<and>
    (\<forall>e. cb_state (cb_stats (cb_step e b)) \<in>
       insert (cb_state (cb_stats b)) (set (cb_diagram (cb_state (cb_stats b)))))"
  using cb_machine.run_good [OF cb_inv_new] cb_step_edge assms
  by (auto simp: cb_table.edge_def)

theorem cb_runs_follow_diagram_witness:
  "cb_inv (fold cb_step [RecordFailure ''x'' 1, CanExecute 2] (new_breaker ''mt5'' None True))"
  using cb_runs_follow_diagram [OF refl, of "[RecordFailure ''x'' 1, CanExecute 2]" "''mt5''" None True]
  by blast

text \<open>
  C9: each change of state has its guard: a breaker opens only on a recorded failure that makes the
  failures inside the window reach the threshold, leaves OPEN only through an admission request made
  at least the recovery timeout after it opened, and closes only from HALF_OPEN on a success that
  makes the consecutive successes reach the success threshold.
\<close>

theorem cb_transitions_are_guarded:
  assumes "cb_state (cb_stats (cb_step e b)) \<noteq> cb_state (cb_stats b)"
  shows "case cb_state (cb_stats (cb_step e b)) of
      CB_OPEN \<Rightarrow> (\<exists>r now. e = RecordFailure r now \<and> opened_at (cb_stats (cb_step e b)) = Some now \<and>
        failure_threshold (cb_config b) \<le> int (length (in_window (failure_window_s (cb_config b)) now
          (in_window (failure_window_s (cb_config b)) now (failure_times (cb_stats b)) @ [now]))))
    | CB_HALF_OPEN \<Rightarrow> (\<exists>now t0. e = CanExecute now \<and> cb_state (cb_stats b) = CB_OPEN \<and>
        opened_at (cb_stats b) = Some t0 \<and> recovery_timeout_s (cb_config b) \<le> now - t0)
    | CB_CLOSED \<Rightarrow> (\<exists>now. e = RecordSuccess now \<and> cb_state (cb_stats b) = CB_HALF_OPEN \<and>
        success_threshold (cb_config b) \<le> successes (cb_stats b) + 1)"
  using assms
  by (cases e; cases "cb_state (cb_stats b)")
    (auto simp: cb_ops cb_transition_stats failure_count_def split: option.splits if_splits)

theorem cb_transitions_are_guarded_witness:
  "let b = new_breaker ''mt5'' (Some (default_breaker_config\<lparr>failure_threshold := 1\<rparr>)) False in
   \<exists>r now. RecordFailure ''x'' 5 = RecordFailure r now
     \<and> opened_at (cb_stats (cb_step (RecordFailure ''x'' 5) b)) = Some now
     \<and> (1::int) \<le> int (length (in_window 60 now (in_window 60 now [] @ [now])))"
proof -
  let ?b = "new_breaker ''mt5'' (Some (default_breaker_config\<lparr>failure_threshold := 1\<rparr>)) False"
  have "cb_state (cb_stats (cb_step (RecordFailure ''x'' 5) ?b)) = CB_OPEN"
    by (simp add: cb_ops new_breaker_def new_stats_def default_breaker_config_def in_window_def
        failure_count_def cb_transition_stats)
  moreover have "cb_state (cb_stats ?b) = CB_CLOSED" "failure_times (cb_stats ?b) = []"
    "failure_threshold (cb_config ?b) = 1" "failure_window_s (cb_config ?b) = 60"
    by (simp_all add: new_breaker_def new_stats_def default_breaker_config_def)
  ultimately show ?thesis
    using cb_transitions_are_guarded [of "RecordFailure ''x'' 5" ?b] by (simp add: Let_def)
qed

text \<open>
  When a breaker that has been open for the recovery timeout is asked for admission and no call
  ends, it admits the first request and then \<open>half_open_max_calls\<close> more, one probe more than the
  limit, and rejects the rest.
\<close>

theorem cb_half_open_admits_one_probe_too_many:
  assumes "cb_state (cb_stats b) = CB_OPEN" and "opened_at (cb_stats b) = Some t0"
    and "recovery_timeout_s (cb_config b) \<le> now - t0" and "0 \<le> half_open_max_calls (cb_config b)"
    and "nat (half_open_max_calls (cb_config b)) \<le> length ts"
  shows "length (filter id (fst (cb_admissions (now # ts) b)))
     = nat (half_open_max_calls (cb_config b)) + 1"
proof -
  have "cb_can_execute now b = (True, cb_transition CB_HALF_OPEN now b)"
    using assms by (simp add: cb_ops)
  moreover have "fst (cb_admissions ts (cb_transition CB_HALF_OPEN now b)) =
      (let k = nat (half_open_max_calls (cb_config b))
       in replicate (min k (length ts)) True @ replicate (length ts - k) False)"
    using assms cb_admissions_half_open [of "cb_transition CB_HALF_OPEN now b" ts]
    by (simp add: cb_transition_stats)
  ultimately show ?thesis using assms(5) by (simp add: case_prod_beta Let_def)
qed

definition opened_breaker :: breaker where
  "opened_breaker = cb_step (RecordFailure ''timeout'' 0)
     (new_breaker ''mt5'' (Some (default_breaker_config\<lparr>failure_threshold := 1\<rparr>)) False)"

theorem cb_half_open_admits_one_probe_too_many_witness:
  "length (filter id (fst (cb_admissions [30, 30, 31, 32, 33, 34] opened_breaker))) = 4"
proof -
  have "cb_state (cb_stats opened_breaker) = CB_OPEN" "opened_at (cb_stats opened_breaker) = Some 0"
    "cb_config opened_breaker = default_breaker_config\<lparr>failure_threshold := 1\<rparr>"
    by (simp_all add: opened_breaker_def cb_ops new_breaker_def new_stats_def
        default_breaker_config_def in_window_def failure_count_def cb_transition_stats)
  then show ?thesis
    using cb_half_open_admits_one_probe_too_many [of opened_breaker 0 30 "[30, 31, 32, 33, 34]"]
    by (simp add: default_breaker_config_def)
qed

text \<open>
  A half-open breaker whose probes are used up, and whose last probe has ended without reaching
  either threshold, is stuck: at whatever later times admission is asked for, every request is
  rejected and the state never changes again, so the protected service stays cut off.
\<close>

theorem cb_exhausted_half_open_rejects_forever:
  assumes "cb_state (cb_stats b) = CB_HALF_OPEN"
    and "half_open_max_calls (cb_config b) \<le> half_open_calls (cb_stats b)"
  shows "cb_admissions ts b = (replicate (length ts) False, b)"
  using assms by (induction ts) (simp_all add: cb_ops)

text \<open>
  The witness reaches such a state from a new default breaker: it opens after five failures, and
  four late probes then fail, which leaves four failures in the window, below the threshold of five.
\<close>

definition wedged_breaker :: breaker where
  "wedged_breaker = fold cb_step
     [RecordFailure ''e'' 0, RecordFailure ''e'' 0, RecordFailure ''e'' 0, RecordFailure ''e'' 0,
      RecordFailure ''e'' 0, CanExecute 100, CanExecute 101, CanExecute 102, CanExecute 103,
      RecordFailure ''e'' 104, RecordFailure ''e'' 105, RecordFailure ''e'' 106, RecordFailure ''e'' 107]
     (new_breaker ''mt5'' None False)"

lemma wedged_breaker_facts:
  "cb_state (cb_stats wedged_breaker) = CB_HALF_OPEN" "half_open_calls (cb_stats wedged_breaker) = 3"
  "cb_config wedged_breaker = default_breaker_config"
  by (simp_all add: wedged_breaker_def cb_ops new_breaker_def new_stats_def
      default_breaker_config_def in_window_def failure_count_def cb_transition_stats)

theorem cb_exhausted_half_open_rejects_forever_witness:
  "cb_admissions [200, 10000, 1000000] wedged_breaker = ([False, False, False], wedged_breaker)"
  using cb_exhausted_half_open_rejects_forever [of wedged_breaker "[200, 10000, 1000000]"]
  by (simp add: wedged_breaker_facts default_breaker_config_def)

end
