(* ===== verification/Kill_Switch.thy ===== *)
theory Kill_Switch
  imports Contracts
begin

section \<open>The kill switch\<close>

text \<open>
  \<open>src/backend/risk/kill_switch.py\<close>: the emergency stop that \<open>check\<close> consults before every order.
  \<open>m\<close> is the monotonic clock of the flash-crash window, \<open>w\<close> the wall clock of the activation stamp.
  Activation messages are values of \<open>ks_reason\<close> that carry the numbers the strings print. The
  callbacks run on activation are identified by numbers; a timeout or an exception in one is
  swallowed, so the only trace they leave is the output \<open>ks_calls\<close>.
\<close>

datatype ks_reason =
    NoReason
  | BelowFloor real real
  | HardDrawdown real real
  | FlashCrash real real
  | ManualStop string

record ks_config =
  absolute_floor_usd :: real
  hard_drawdown_pct :: real
  flash_crash_pct :: real
  flash_window_seconds :: real
  ks_enabled :: bool

definition default_ks_config :: ks_config where
  "default_ks_config = \<lparr>absolute_floor_usd = 0, hard_drawdown_pct = 20, flash_crash_pct = 10,
     flash_window_seconds = 60, ks_enabled = True\<rparr>"

record ks_state =
  ks_active :: bool
  ks_reason_of :: ks_reason
  ks_activated_at :: "time option"
  ks_activation_equity :: real
  ks_hwm :: real
  ks_total_activations :: nat

record kill_switch =
  ks_config :: ks_config
  ks_state :: ks_state
  ks_callbacks :: "nat list"
  ks_history :: "(time \<times> real) list"
  ks_calls :: "(nat \<times> ks_reason \<times> real) list"

definition new_kill_switch :: "ks_config option \<Rightarrow> kill_switch" where
  "new_kill_switch cfg = \<lparr>
     ks_config = (case cfg of None \<Rightarrow> default_ks_config | Some c \<Rightarrow> c),
     ks_state = \<lparr>ks_active = False, ks_reason_of = NoReason, ks_activated_at = None,
       ks_activation_equity = 0, ks_hwm = 0, ks_total_activations = 0\<rparr>,
     ks_callbacks = [], ks_history = [], ks_calls = []\<rparr>"

definition register_callback :: "nat \<Rightarrow> kill_switch \<Rightarrow> kill_switch" where
  "register_callback cb k =
     (if cb \<in> set (ks_callbacks k) then k else k\<lparr>ks_callbacks := ks_callbacks k @ [cb]\<rparr>)"

definition remove_callback :: "nat \<Rightarrow> kill_switch \<Rightarrow> kill_switch" where
  "remove_callback cb k = k\<lparr>ks_callbacks := filter (\<lambda>c. c \<noteq> cb) (ks_callbacks k)\<rparr>"

text \<open>\<open>_activate\<close>\<close>

definition ks_do_activate :: "ks_reason \<Rightarrow> real \<Rightarrow> time \<Rightarrow> kill_switch \<Rightarrow> kill_switch" where
  "ks_do_activate reason equity w k =
     (if ks_active (ks_state k) then k
      else k\<lparr>ks_state := (ks_state k)\<lparr>ks_active := True, ks_reason_of := reason,
               ks_activated_at := Some w, ks_activation_equity := equity,
               ks_total_activations := ks_total_activations (ks_state k) + 1\<rparr>,
             ks_calls := ks_calls k @ map (\<lambda>cb. (cb, reason, equity)) (ks_callbacks k)\<rparr>)"

text \<open>
  \<open>raise KillSwitchActivatedError(reason=..., equity=..., threshold_pct=...)\<close>: the class imported
  from \<open>src/backend/core/exceptions.py\<close> is a plain subclass of \<open>Exception\<close> with an empty body, and
  \<open>Exception\<close> takes no keyword arguments, so building the exception raises TypeError.
\<close>

definition kill_switch_raise :: exc where
  "kill_switch_raise = TypeError"

definition raise_hwm :: "real \<Rightarrow> kill_switch \<Rightarrow> kill_switch" where
  "raise_hwm equity k =
     (if ks_hwm (ks_state k) < equity then k\<lparr>ks_state := (ks_state k)\<lparr>ks_hwm := equity\<rparr>\<rparr> else k)"

definition drawdown_pct :: "real \<Rightarrow> real \<Rightarrow> real" where
  "drawdown_pct hwm equity = (hwm - equity) / hwm * 100"

definition append_equity :: "time \<Rightarrow> real \<Rightarrow> kill_switch \<Rightarrow> kill_switch" where
  "append_equity m equity k =
     k\<lparr>ks_history := filter (\<lambda>(t, _). m - flash_window_seconds (ks_config k) \<le> t)
         (ks_history k @ [(m, equity)])\<rparr>"

definition flash_drop :: "real \<Rightarrow> kill_switch \<Rightarrow> real option" where
  "flash_drop equity k = (case ks_history k of
      (_, oldest) # _ # _ \<Rightarrow>
        if 0 < oldest then Some ((oldest - equity) / oldest * 100) else None
    | _ \<Rightarrow> None)"

text \<open>\<open>check(equity, balance)\<close>; the code never reads \<open>balance\<close>.\<close>

definition ks_check :: "real \<Rightarrow> real \<Rightarrow> time \<Rightarrow> time \<Rightarrow> kill_switch \<Rightarrow> (unit, kill_switch) outcome" where
  "ks_check equity balance w m k =
     (if \<not> ks_enabled (ks_config k) then (Inr (), k)
      else if ks_active (ks_state k) then (Inl kill_switch_raise, k)
      else
        (let k1 = raise_hwm equity k; c = ks_config k; hwm = ks_hwm (ks_state k1);
             dd = drawdown_pct hwm equity in
         if 0 < absolute_floor_usd c \<and> equity < absolute_floor_usd c
         then (Inl kill_switch_raise,
               ks_do_activate (BelowFloor equity (absolute_floor_usd c)) equity w k1)
         else if 0 < hwm \<and> hard_drawdown_pct c \<le> dd
         then (Inl kill_switch_raise,
               ks_do_activate (HardDrawdown dd (hard_drawdown_pct c)) equity w k1)
         else
           (let k2 = append_equity m equity k1 in
            case flash_drop equity k2 of
              Some d \<Rightarrow>
                if flash_crash_pct c \<le> d
                then (Inl kill_switch_raise,
                      ks_do_activate (FlashCrash d (flash_window_seconds c)) equity w k2)
                else (Inr (), k2)
            | None \<Rightarrow> (Inr (), k2))))"

definition ks_activate :: "string \<Rightarrow> real \<Rightarrow> time \<Rightarrow> kill_switch \<Rightarrow> kill_switch" where
  "ks_activate reason equity w k = ks_do_activate (ManualStop reason) equity w k"

definition ks_reset :: "string \<Rightarrow> string \<Rightarrow> kill_switch \<Rightarrow> bool \<times> kill_switch" where
  "ks_reset admin_token expected_token k =
     (if admin_token \<noteq> expected_token \<or> admin_token = [] then (False, k)
      else (True, k\<lparr>ks_state := (ks_state k)\<lparr>ks_active := False, ks_reason_of := NoReason,
                      ks_activated_at := None\<rparr>\<rparr>))"

definition ks_is_active :: "kill_switch \<Rightarrow> bool" where
  "ks_is_active k = ks_active (ks_state k)"

definition ks_get_status :: "kill_switch \<Rightarrow> ks_state \<times> ks_config" where
  "ks_get_status k = (ks_state k, ks_config k)"

text \<open>The module's singleton: the configuration of the first call wins.\<close>

definition get_kill_switch :: "ks_config option \<Rightarrow> kill_switch option \<Rightarrow> kill_switch \<times> kill_switch option"
  where
  "get_kill_switch cfg g = (case g of
      Some k \<Rightarrow> (k, g)
    | None \<Rightarrow> (let k = new_kill_switch cfg in (k, Some k)))"

subsection \<open>Runs\<close>

datatype ks_op = KsCheck real real time time | KsActivate string real time | KsReset string string

fun ks_step :: "ks_op \<Rightarrow> kill_switch \<Rightarrow> kill_switch" where
  "ks_step (KsCheck e b w m) k = snd (ks_check e b w m k)"
| "ks_step (KsActivate r e w) k = ks_activate r e w k"
| "ks_step (KsReset a x) k = snd (ks_reset a x k)"

lemmas ks_ops = ks_check_def ks_activate_def ks_reset_def ks_do_activate_def raise_hwm_def
  append_equity_def Let_def

lemma ks_step_config [simp]: "ks_config (ks_step e k) = ks_config k"
  by (cases e) (simp_all add: ks_ops split: option.split)

text \<open>An active switch has a reason and an activation time, and the history is inside the window.\<close>

definition ks_inv :: "kill_switch \<Rightarrow> bool" where
  "ks_inv k \<longleftrightarrow> (ks_active (ks_state k) \<longrightarrow>
     ks_reason_of (ks_state k) \<noteq> NoReason \<and> ks_activated_at (ks_state k) \<noteq> None
     \<and> 0 < ks_total_activations (ks_state k)) \<and> 0 \<le> ks_hwm (ks_state k)"

lemma ks_inv_new: "ks_inv (new_kill_switch cfg)"
  by (simp add: ks_inv_def new_kill_switch_def)

lemma ks_inv_step: "ks_inv k \<Longrightarrow> ks_inv (ks_step e k)"
  by (cases e) (auto simp: ks_inv_def ks_ops split: option.split)

interpretation ks_machine: guarded_state ks_step ks_inv
  by unfold_locales (rule ks_inv_step)

text \<open>Without an accepted reset, an active switch stays exactly as it is.\<close>

lemma ks_active_step:
  assumes "ks_active (ks_state k)" "\<And>a x. e = KsReset a x \<Longrightarrow> a \<noteq> x \<or> a = []"
  shows "ks_step e k = k"
  using assms by (cases e) (auto simp: ks_ops)

lemma ks_active_run:
  assumes "ks_active (ks_state k)" "\<And>a x. KsReset a x \<in> set ops \<Longrightarrow> a \<noteq> x \<or> a = []"
  shows "fold ks_step ops k = k"
  using assms(2)
proof (induction ops)
  case (Cons e ops)
  have "ks_step e k = k" by (rule ks_active_step [OF assms(1)]) (use Cons.prems in auto)
  with Cons show ?case by auto
qed simp

lemma ks_hwm_mono: "ks_hwm (ks_state k) \<le> ks_hwm (ks_state (ks_step e k))"
  by (cases e) (auto simp: ks_ops split: option.split)

subsection \<open>Properties\<close>

text \<open>
  C4: once the switch is active and enabled, every check of any equity raises until a reset with a
  non-empty matching token: no sequence of checks, activations and refused resets changes it.
\<close>

theorem kill_switch_is_latched:
  assumes "ks_active (ks_state k)" and "ks_enabled (ks_config k)"
    and "\<And>a x. KsReset a x \<in> set ops \<Longrightarrow> a \<noteq> x \<or> a = []"
  shows "fold ks_step ops k = k \<and> raised (ks_check e b w m (fold ks_step ops k)) = Some kill_switch_raise"
  using ks_active_run [OF assms(1,3)] assms(1,2) by (simp add: ks_check_def)

definition stopped_switch :: kill_switch where
  "stopped_switch = ks_activate ''ops'' 900 5 (new_kill_switch None)"

theorem kill_switch_is_latched_witness:
  "raised (ks_check 1000 1000 9 9
     (fold ks_step [KsCheck 5000 5000 6 6, KsReset ''x'' ''secret'', KsReset '''' ''''] stopped_switch))
   = Some kill_switch_raise"
proof -
  have "ks_active (ks_state stopped_switch)" "ks_enabled (ks_config stopped_switch)"
    by (simp_all add: stopped_switch_def new_kill_switch_def ks_ops default_ks_config_def)
  then show ?thesis
    using kill_switch_is_latched
      [of stopped_switch "[KsCheck 5000 5000 6 6, KsReset ''x'' ''secret'', KsReset '''' '''']"]
    by auto
qed

text \<open>
  C3: a check of an enabled, inactive switch lets the order through exactly when the equity is not
  below a positive floor, the drawdown from the high-water mark is below the hard limit, and the drop
  from the oldest equity of the window is below the flash limit; in every other case it raises and
  the switch is active with the equity recorded.
\<close>

theorem kill_switch_check_triggers:
  assumes "ks_enabled (ks_config k)" and "\<not> ks_active (ks_state k)"
  shows "let c = ks_config k; hwm = max (ks_hwm (ks_state k)) equity;
           recent = filter (\<lambda>(t, _). m - flash_window_seconds c \<le> t) (ks_history k @ [(m, equity)]);
           triggered = (0 < absolute_floor_usd c \<and> equity < absolute_floor_usd c)
             \<or> (0 < hwm \<and> hard_drawdown_pct c \<le> (hwm - equity) / hwm * 100)
             \<or> (2 \<le> length recent \<and> 0 < snd (hd recent)
                \<and> flash_crash_pct c \<le> (snd (hd recent) - equity) / snd (hd recent) * 100);
           (r, k') = ks_check equity balance w m k
         in (raised (r, k') = (if triggered then Some kill_switch_raise else None))
            \<and> ks_active (ks_state k') = triggered
            \<and> ks_hwm (ks_state k') = hwm
            \<and> (triggered \<longrightarrow> ks_activation_equity (ks_state k') = equity
                 \<and> ks_activated_at (ks_state k') = Some w)"
proof -
  let ?c = "ks_config k"
  let ?hwm = "max (ks_hwm (ks_state k)) equity"
  let ?recent = "filter (\<lambda>(t, _). m - flash_window_seconds ?c \<le> t) (ks_history k @ [(m, equity)])"
  have k1: "ks_hwm (ks_state (raise_hwm equity k)) = ?hwm" "ks_config (raise_hwm equity k) = ?c"
    "ks_active (ks_state (raise_hwm equity k)) = False" "ks_history (raise_hwm equity k) = ks_history k"
    using assms by (auto simp: raise_hwm_def)
  have k2: "ks_history (append_equity m equity (raise_hwm equity k)) = ?recent"
    "ks_state (append_equity m equity (raise_hwm equity k)) = ks_state (raise_hwm equity k)"
    using k1 by (simp_all add: append_equity_def)
  have drop: "flash_drop equity (append_equity m equity (raise_hwm equity k)) =
      (if 2 \<le> length ?recent \<and> 0 < snd (hd ?recent)
       then Some ((snd (hd ?recent) - equity) / snd (hd ?recent) * 100) else None)"
    unfolding flash_drop_def k2(1) by (auto split: list.split)
  show ?thesis
    using assms
    by (auto simp: ks_check_def Let_def k1 k2 drop drawdown_pct_def ks_do_activate_def)
qed

theorem kill_switch_check_triggers_witness:
  "raised (ks_check 790 790 7 7 (snd (ks_check 1000 1000 5 5 (new_kill_switch None))))
     = Some kill_switch_raise
   \<and> raised (ks_check 950 950 7 7 (snd (ks_check 1000 1000 5 5 (new_kill_switch None)))) = None"
proof -
  let ?k = "snd (ks_check 1000 1000 5 5 (new_kill_switch None))"
  have k: "ks_config ?k = default_ks_config" "ks_hwm (ks_state ?k) = 1000"
    "\<not> ks_active (ks_state ?k)" "ks_history ?k = [(5, 1000)]"
    by (simp_all add: ks_ops new_kill_switch_def default_ks_config_def drawdown_pct_def flash_drop_def)
  show ?thesis
    using kill_switch_check_triggers [where k = ?k and m = 7 and w = 7 and equity = 790 and balance = 790]
      kill_switch_check_triggers [where k = ?k and m = 7 and w = 7 and equity = 950 and balance = 950]
    by (simp add: k default_ks_config_def Let_def case_prod_beta)
qed

text \<open>
  The exception the checks raise is never KillSwitchActivatedError: it is TypeError, because the
  exception class takes no keyword arguments. A caller that catches only the documented exception
  does not catch a triggered kill switch.
\<close>

theorem kill_switch_never_raises_documented_error:
  "raised (ks_check equity balance w m k) \<noteq> Some (OtherError ''KillSwitchActivatedError'')
   \<and> (raised (ks_check equity balance w m k) \<noteq> None \<longleftrightarrow>
      raised (ks_check equity balance w m k) = Some TypeError)"
  by (simp add: ks_check_def kill_switch_raise_def Let_def split: option.split)

end
