(* ===== verification/Json.thy ===== *)
theory Json
  imports Contracts
begin

section \<open>JSON values\<close>

text \<open>
  Replies of HTTP services and bodies of webhooks are decoded JSON: a value of this type. An object
  is the list of its members; the code reads it with \<open>dict.get(key, default)\<close>, which raises
  AttributeError when the value is not an object.
\<close>

datatype json =
    JNull | JBool bool | JInt int | JFloat real | JStr string
  | JList "json list" | JObj "(string \<times> json) list"

fun json_members :: "json \<Rightarrow> exc + (string \<times> json) list" where
  "json_members (JObj ms) = Inr ms"
| "json_members _ = Inl AttributeError"

definition jget :: "string \<Rightarrow> json \<Rightarrow> (string \<times> json) list \<Rightarrow> json" where
  "jget k d ms = (case map_of ms k of None \<Rightarrow> d | Some v \<Rightarrow> v)"

text \<open>\<open>==\<close> between a number and an integer constant: Python identifies \<open>0\<close>, \<open>0.0\<close> and \<open>False\<close>.\<close>

fun json_eq_int :: "json \<Rightarrow> int \<Rightarrow> bool" where
  "json_eq_int (JInt i) n = (i = n)"
| "json_eq_int (JFloat x) n = (x = of_int n)"
| "json_eq_int (JBool b) n = ((if b then 1 else 0) = n)"
| "json_eq_int _ n = False"

text \<open>Truth value of a decoded value.\<close>

fun json_truthy :: "json \<Rightarrow> bool" where
  "json_truthy JNull = False"
| "json_truthy (JBool b) = b"
| "json_truthy (JInt i) = (i \<noteq> 0)"
| "json_truthy (JFloat x) = (x \<noteq> 0)"
| "json_truthy (JStr s) = (s \<noteq> [])"
| "json_truthy (JList xs) = (xs \<noteq> [])"
| "json_truthy (JObj ms) = (ms \<noteq> [])"

text \<open>\<open>float(v)\<close>; the parser of numeric strings is a parameter.\<close>

fun json_float :: "(string \<Rightarrow> real option) \<Rightarrow> json \<Rightarrow> exc + real" where
  "json_float parse (JInt i) = Inr (of_int i)"
| "json_float parse (JFloat x) = Inr x"
| "json_float parse (JBool b) = Inr (if b then 1 else 0)"
| "json_float parse (JStr s) = (case parse s of None \<Rightarrow> Inl ValueError | Some x \<Rightarrow> Inr x)"
| "json_float parse _ = Inl TypeError"

text \<open>\<open>[f(x) for x in xs]\<close> with an \<open>f\<close> that may raise.\<close>

fun map_exc :: "('a \<Rightarrow> exc + 'b) \<Rightarrow> 'a list \<Rightarrow> exc + 'b list" where
  "map_exc f [] = Inr []"
| "map_exc f (x # xs) =
     (case f x of Inl e \<Rightarrow> Inl e
      | Inr y \<Rightarrow> (case map_exc f xs of Inl e \<Rightarrow> Inl e | Inr ys \<Rightarrow> Inr (y # ys)))"

lemma map_exc_Inr: "map_exc f xs = Inr ys \<Longrightarrow> length ys = length xs \<and> (\<forall>i < length xs. f (xs ! i) = Inr (ys ! i))"
proof (induction xs arbitrary: ys)
  case (Cons x xs)
  then show ?case by (auto simp: nth_Cons split: sum.splits nat.splits)
qed simp

lemma map_exc_total: "(\<And>x. x \<in> set xs \<Longrightarrow> f x = Inr (g x)) \<Longrightarrow> map_exc f xs = Inr (map g xs)"
  by (induction xs) auto

text \<open>Iterating a decoded value: lists give their elements, strings their characters, objects their
  keys; other values are not iterable.\<close>

fun json_iter :: "json \<Rightarrow> exc + json list" where
  "json_iter (JList xs) = Inr xs"
| "json_iter (JStr s) = Inr (map (\<lambda>c. JStr [c]) s)"
| "json_iter (JObj ms) = Inr (map (\<lambda>m. JStr (fst m)) ms)"
| "json_iter _ = Inl TypeError"

end
