(* ===== verification/Mt5_Connector.thy ===== *)
theory Mt5_Connector
  imports Json
begin

section \<open>The MT5 connector\<close>

text \<open>
  \<open>src/backend/execution/mt5_connector.py\<close>: the client of the MT5 gateway. The gateway and the HTTP
  library are a parameter \<open>gw\<close> that maps a request and the gateway's own state to a reply and the
  next state, so nothing is assumed of what the broker does with a request. A reply is an
  \<open>aiohttp.ClientError\<close>, an expired total timeout (which is not a ClientError), a response that
  is not JSON, or a status with a decoded body. \<open>params\<close> of a GET and \<open>json\<close> of a POST are the
  \<open>rq_body\<close> of the request.
\<close>

datatype gw_method = GwGet | GwPost

record gw_request =
  rq_method :: gw_method
  rq_url :: string
  rq_body :: json
  rq_headers :: "(string \<times> string) list"
  rq_timeout :: real

datatype gw_reply =
    GwClientError
  | GwTimeout
  | GwNotJson nat
  | GwReply nat json

type_synonym 'g gateway = "gw_request \<Rightarrow> 'g \<Rightarrow> gw_reply \<times> 'g"

abbreviation MT5Error :: exc where "MT5Error \<equiv> OtherError ''MT5Error''"
abbreviation MT5NotConnectedError :: exc where "MT5NotConnectedError \<equiv> OtherError ''MT5NotConnectedError''"

record order_result =
  or_ticket :: json
  or_symbol :: string
  or_direction :: string
  or_volume :: real
  or_price :: json
  or_sl :: "real option"
  or_tp :: "real option"
  or_comment :: string
  or_retcode :: json

record symbol_info =
  si_symbol :: string
  si_bid :: json
  si_ask :: json
  si_spread :: json
  si_digits :: json
  si_contract_size :: json
  si_volume_min :: json
  si_volume_max :: json
  si_volume_step :: json
  si_point :: json

record mt5_position =
  ps_ticket :: json
  ps_symbol :: json
  ps_direction :: string
  ps_volume :: json
  ps_open_price :: json
  ps_sl :: json
  ps_tp :: json
  ps_profit :: json
  ps_comment :: json

record mt5_connector =
  mc_base_url :: string
  mc_api_key :: string
  mc_demo :: bool
  mc_timeout :: real
  mc_connected :: bool

definition strip_slashes :: "string \<Rightarrow> string" where
  "strip_slashes s = rev (dropWhile (\<lambda>c. c = CHR ''/'') (rev s))"

definition new_connector :: "string \<Rightarrow> string \<Rightarrow> bool \<Rightarrow> real \<Rightarrow> mt5_connector" where
  "new_connector url key demo timeout = \<lparr>mc_base_url = strip_slashes url, mc_api_key = key,
     mc_demo = demo, mc_timeout = timeout, mc_connected = False\<rparr>"

text \<open>\<open>_create_connector\<close>: the settings, or the demo connector when they cannot be loaded.\<close>

definition create_connector :: "(string \<times> string \<times> bool) option \<Rightarrow> mt5_connector" where
  "create_connector settings = (case settings of
      Some (url, key, demo) \<Rightarrow> new_connector url key demo 10
    | None \<Rightarrow> new_connector ''http://mt5-gateway:8080'' [] True 10)"

subsection \<open>Requests\<close>

definition mt5_headers :: "mt5_connector \<Rightarrow> (string \<times> string) list" where
  "mt5_headers c = (if mc_api_key c \<noteq> [] then [(''X-Gateway-Key'', mc_api_key c)] else [])"

definition mt5_request :: "gw_method \<Rightarrow> string \<Rightarrow> json \<Rightarrow> mt5_connector \<Rightarrow> gw_request" where
  "mt5_request meth path body c = \<lparr>rq_method = meth, rq_url = mc_base_url c @ path, rq_body = body,
     rq_headers = mt5_headers c, rq_timeout = mc_timeout c\<rparr>"

text \<open>How \<open>_get\<close> and \<open>_post\<close> treat the reply: only a ClientError clears the connection flag.\<close>

definition mt5_reply :: "gw_reply \<Rightarrow> mt5_connector \<Rightarrow> (json, mt5_connector) outcome" where
  "mt5_reply r c = (case r of
      GwClientError \<Rightarrow> (Inl MT5Error, c\<lparr>mc_connected := False\<rparr>)
    | GwTimeout \<Rightarrow> (Inl TimeoutError, c)
    | GwNotJson status \<Rightarrow> (Inl (if 400 \<le> status then MT5Error else ValueError), c)
    | GwReply status body \<Rightarrow> (if 400 \<le> status then Inl MT5Error else Inr body, c))"

definition mt5_send :: "'g gateway \<Rightarrow> gw_request \<Rightarrow> mt5_connector \<times> 'g \<Rightarrow> (json, mt5_connector \<times> 'g) outcome" where
  "mt5_send gw rq s = (case s of (c, g) \<Rightarrow> case gw rq g of (r, g') \<Rightarrow>
     case mt5_reply r c of (res, c') \<Rightarrow> (res, (c', g')))"

definition mt5_get :: "'g gateway \<Rightarrow> string \<Rightarrow> json \<Rightarrow> mt5_connector \<times> 'g \<Rightarrow> (json, mt5_connector \<times> 'g) outcome" where
  "mt5_get gw path params s = mt5_send gw (mt5_request GwGet path params (fst s)) s"

definition mt5_post :: "'g gateway \<Rightarrow> string \<Rightarrow> json \<Rightarrow> mt5_connector \<times> 'g \<Rightarrow> (json, mt5_connector \<times> 'g) outcome" where
  "mt5_post gw path payload s = mt5_send gw (mt5_request GwPost path payload (fst s)) s"

definition require_connected :: "(mt5_connector \<times> 'g \<Rightarrow> ('a, mt5_connector \<times> 'g) outcome)
    \<Rightarrow> mt5_connector \<times> 'g \<Rightarrow> ('a, mt5_connector \<times> 'g) outcome" where
  "require_connected body s =
     (if mc_connected (fst s) then body s else (Inl MT5NotConnectedError, s))"

text \<open>What the callers do with a decoded body.\<close>

definition with_body :: "(json \<Rightarrow> exc + 'a) \<Rightarrow> (json, 's) outcome \<Rightarrow> ('a, 's) outcome" where
  "with_body f r = (case r of (Inl e, s) \<Rightarrow> (Inl e, s) | (Inr b, s) \<Rightarrow> (f b, s))"

subsection \<open>Connecting\<close>

definition mt5_ping :: "'g gateway \<Rightarrow> mt5_connector \<times> 'g \<Rightarrow> (json, mt5_connector \<times> 'g) outcome" where
  "mt5_ping gw s = mt5_get gw ''/ping'' JNull s"

definition mt5_connect :: "'g gateway \<Rightarrow> mt5_connector \<times> 'g \<Rightarrow> (bool, mt5_connector \<times> 'g) outcome" where
  "mt5_connect gw s = (case mt5_get gw ''/ping'' JNull s of
      (Inr _, (c, g)) \<Rightarrow> (Inr True, (c\<lparr>mc_connected := True\<rparr>, g))
    | (Inl e, (c, g)) \<Rightarrow>
        if e = MT5Error then (Inr False, (c\<lparr>mc_connected := False\<rparr>, g)) else (Inl e, (c, g)))"

text \<open>
  \<open>connect_with_backoff\<close>: \<open>attempt\<close> is the loop variable, \<open>n\<close> the attempts left after it;
  \<open>jitter\<close> supplies \<open>random.uniform(0, 0.5)\<close>; the delays slept are the first component.
\<close>

fun backoff_loop :: "'g gateway \<Rightarrow> (nat \<Rightarrow> real) \<Rightarrow> real \<Rightarrow> nat \<Rightarrow> nat \<Rightarrow> mt5_connector \<times> 'g
    \<Rightarrow> real list \<times> (bool, mt5_connector \<times> 'g) outcome" where
  "backoff_loop gw jitter base attempt 0 s = ([], (Inr False, s))"
| "backoff_loop gw jitter base attempt (Suc n) s =
     (case mt5_connect gw s of
        (Inl e, s') \<Rightarrow> ([], (Inl e, s'))
      | (Inr ok, s') \<Rightarrow>
          if ok then ([], (Inr True, s'))
          else if 0 < n
          then (case backoff_loop gw jitter base (attempt + 1) n s' of (ds, r) \<Rightarrow>
                 ((base * 2 ^ (attempt - 1) + jitter attempt) # ds, r))
          else ([], (Inr False, s')))"

definition connect_with_backoff :: "'g gateway \<Rightarrow> (nat \<Rightarrow> real) \<Rightarrow> int \<Rightarrow> real \<Rightarrow> mt5_connector \<times> 'g
    \<Rightarrow> real list \<times> (bool, mt5_connector \<times> 'g) outcome" where
  "connect_with_backoff gw jitter retries base s = backoff_loop gw jitter base 1 (nat retries) s"

subsection \<open>Operations\<close>

definition get_account_info :: "'g gateway \<Rightarrow> mt5_connector \<times> 'g \<Rightarrow> (json, mt5_connector \<times> 'g) outcome" where
  "get_account_info gw = require_connected (mt5_get gw ''/account'' JNull)"

definition symbol_info_of :: "string \<Rightarrow> json \<Rightarrow> exc + symbol_info" where
  "symbol_info_of symb data = (case json_members data of Inl e \<Rightarrow> Inl e | Inr ms \<Rightarrow>
     Inr \<lparr>si_symbol = symb, si_bid = jget ''bid'' (JFloat 0) ms, si_ask = jget ''ask'' (JFloat 0) ms,
       si_spread = jget ''spread'' (JFloat 0) ms, si_digits = jget ''digits'' (JInt 5) ms,
       si_contract_size = jget ''trade_contract_size'' (JFloat 100000) ms,
       si_volume_min = jget ''volume_min'' (JFloat (1/100)) ms,
       si_volume_max = jget ''volume_max'' (JFloat 100) ms,
       si_volume_step = jget ''volume_step'' (JFloat (1/100)) ms,
       si_point = jget ''point'' (JFloat (1/100000)) ms\<rparr>)"

definition get_symbol_info :: "'g gateway \<Rightarrow> string \<Rightarrow> mt5_connector \<times> 'g \<Rightarrow> (symbol_info, mt5_connector \<times> 'g) outcome" where
  "get_symbol_info gw symb = require_connected (\<lambda>s. with_body (symbol_info_of symb)
     (mt5_get gw ''/symbol'' (JObj [(''symbol'', JStr symb)]) s))"

text \<open>\<open>data.get(key, data) if isinstance(data, dict) else data\<close>\<close>

definition unwrap_member :: "string \<Rightarrow> json \<Rightarrow> json" where
  "unwrap_member k data = (case data of JObj ms \<Rightarrow> jget k data ms | _ \<Rightarrow> data)"

definition get_candles :: "'g gateway \<Rightarrow> string \<Rightarrow> string \<Rightarrow> int \<Rightarrow> mt5_connector \<times> 'g \<Rightarrow> (json, mt5_connector \<times> 'g) outcome" where
  "get_candles gw symb tf count = require_connected (\<lambda>s. with_body (\<lambda>d. Inr (unwrap_member ''candles'' d))
     (mt5_post gw ''/candles'' (JObj [(''symbol'', JStr symb), (''timeframe'', JStr tf), (''count'', JInt count)]) s))"

definition json_opt :: "real option \<Rightarrow> json" where
  "json_opt x = (case x of None \<Rightarrow> JNull | Some v \<Rightarrow> JFloat v)"

definition order_payload :: "string \<Rightarrow> string \<Rightarrow> real \<Rightarrow> real option \<Rightarrow> real option \<Rightarrow> string \<Rightarrow> bool \<Rightarrow> json" where
  "order_payload symb dir vol sl tp comment demo = JObj [(''symbol'', JStr symb),
     (''direction'', JStr (py_upper dir)), (''lot'', JFloat vol), (''sl'', json_opt sl),
     (''tp'', json_opt tp), (''comment'', JStr comment), (''demo'', JBool demo)]"

definition order_result_of :: "string \<Rightarrow> string \<Rightarrow> real \<Rightarrow> real option \<Rightarrow> real option \<Rightarrow> string \<Rightarrow> json \<Rightarrow> exc + order_result" where
  "order_result_of symb dir vol sl tp comment data = (case json_members data of Inl e \<Rightarrow> Inl e | Inr ms \<Rightarrow>
     Inr \<lparr>or_ticket = jget ''ticket'' (JInt 0) ms, or_symbol = symb, or_direction = py_upper dir,
       or_volume = vol, or_price = jget ''price'' (JFloat 0) ms, or_sl = sl, or_tp = tp,
       or_comment = comment, or_retcode = jget ''retcode'' (JInt 0) ms\<rparr>)"

definition mt5_place_order :: "'g gateway \<Rightarrow> string \<Rightarrow> string \<Rightarrow> real \<Rightarrow> real option \<Rightarrow> real option \<Rightarrow> string
    \<Rightarrow> mt5_connector \<times> 'g \<Rightarrow> (order_result, mt5_connector \<times> 'g) outcome" where
  "mt5_place_order gw symb dir vol sl tp comment = require_connected (\<lambda>s.
     with_body (order_result_of symb dir vol sl tp comment)
       (mt5_post gw ''/order/open'' (order_payload symb dir vol sl tp comment (mc_demo (fst s))) s))"

definition mt5_close_position :: "'g gateway \<Rightarrow> int \<Rightarrow> mt5_connector \<times> 'g \<Rightarrow> (json, mt5_connector \<times> 'g) outcome" where
  "mt5_close_position gw ticket = require_connected
     (mt5_post gw ''/order/close'' (JObj [(''ticket'', JInt ticket)]))"

definition modify_position :: "'g gateway \<Rightarrow> int \<Rightarrow> real option \<Rightarrow> real option \<Rightarrow> mt5_connector \<times> 'g \<Rightarrow> (json, mt5_connector \<times> 'g) outcome" where
  "modify_position gw ticket sl tp = require_connected
     (mt5_post gw ''/order/modify'' (JObj [(''ticket'', JInt ticket), (''sl'', json_opt sl), (''tp'', json_opt tp)]))"

definition is_buy_type :: "json \<Rightarrow> bool" where
  "is_buy_type t \<longleftrightarrow> t = JStr ''buy'' \<or> t = JStr ''BUY'' \<or> json_eq_int t 0"

definition position_of :: "json \<Rightarrow> exc + mt5_position" where
  "position_of p = (case json_members p of Inl e \<Rightarrow> Inl e | Inr ms \<Rightarrow>
     Inr \<lparr>ps_ticket = jget ''ticket'' (JInt 0) ms, ps_symbol = jget ''symbol'' (JStr []) ms,
       ps_direction = (if is_buy_type (jget ''type'' (JStr ''buy'') ms) then ''BUY'' else ''SELL''),
       ps_volume = jget ''volume'' (JFloat 0) ms, ps_open_price = jget ''open_price'' (JFloat 0) ms,
       ps_sl = jget ''sl'' JNull ms, ps_tp = jget ''tp'' JNull ms,
       ps_profit = jget ''profit'' (JFloat 0) ms, ps_comment = jget ''comment'' (JStr []) ms\<rparr>)"

definition positions_of :: "json \<Rightarrow> exc + mt5_position list" where
  "positions_of data = (case json_members data of Inl e \<Rightarrow> Inl e | Inr ms \<Rightarrow>
     (case json_iter (jget ''positions'' (JList []) ms) of Inl e \<Rightarrow> Inl e
      | Inr ps \<Rightarrow> map_exc position_of ps))"

definition mt5_get_positions :: "'g gateway \<Rightarrow> mt5_connector \<times> 'g \<Rightarrow> (mt5_position list, mt5_connector \<times> 'g) outcome" where
  "mt5_get_positions gw = require_connected (\<lambda>s. with_body positions_of (mt5_get gw ''/positions'' JNull s))"

definition mt5_get_history :: "'g gateway \<Rightarrow> int \<Rightarrow> int \<Rightarrow> mt5_connector \<times> 'g \<Rightarrow> (json, mt5_connector \<times> 'g) outcome" where
  "mt5_get_history gw from_ts to_ts = require_connected (\<lambda>s. with_body (\<lambda>d. Inr (unwrap_member ''deals'' d))
     (mt5_get gw ''/history'' (JObj [(''from'', JInt from_ts), (''to'', JInt to_ts)]) s))"

definition calculate_margin :: "'g gateway \<Rightarrow> (string \<Rightarrow> real option) \<Rightarrow> string \<Rightarrow> real \<Rightarrow> string
    \<Rightarrow> mt5_connector \<times> 'g \<Rightarrow> (real, mt5_connector \<times> 'g) outcome" where
  "calculate_margin gw parse symb lot dir = require_connected (\<lambda>s. with_body
     (\<lambda>d. case json_members d of Inl e \<Rightarrow> Inl e | Inr ms \<Rightarrow> json_float parse (jget ''margin'' (JFloat 0) ms))
     (mt5_get gw ''/margin/calc'' (JObj [(''symbol'', JStr symb), (''volume'', JFloat lot),
        (''type'', JStr (py_upper dir))]) s))"

lemmas mt5_defs = mt5_get_def mt5_post_def mt5_send_def mt5_reply_def require_connected_def with_body_def

subsection \<open>A gateway that plays a script of replies\<close>

text \<open>It refuses connections when the script is used up.\<close>

fun scripted :: "gw_request \<Rightarrow> gw_reply list \<Rightarrow> gw_reply \<times> gw_reply list" where
  "scripted rq [] = (GwClientError, [])"
| "scripted rq (r # rs) = (r, rs)"

definition demo_connector :: mt5_connector where
  "demo_connector = create_connector None"

subsection \<open>What the gateway sees\<close>

text \<open>A gateway with a log of its exchanges.\<close>

type_synonym gw_log = "(gw_request \<times> gw_reply) list"

definition logged :: "'g gateway \<Rightarrow> (gw_log \<times> 'g) gateway" where
  "logged gw rq s = (case gw rq (snd s) of (r, g') \<Rightarrow> (r, (fst s @ [(rq, r)], g')))"

subsection \<open>Backing off\<close>

text \<open>What one reply to the ping makes of an attempt.\<close>

definition answer_of :: "gw_reply \<Rightarrow> exc + bool" where
  "answer_of r = (case r of
      GwClientError \<Rightarrow> Inr False
    | GwTimeout \<Rightarrow> Inl TimeoutError
    | GwNotJson status \<Rightarrow> (if 400 \<le> status then Inr False else Inl ValueError)
    | GwReply status _ \<Rightarrow> Inr (status < 400))"

definition the_ping :: "mt5_connector \<Rightarrow> gw_request" where
  "the_ping c = mt5_request GwGet ''/ping'' JNull c"

lemma attempt_eq:
  assumes "gw (the_ping c) g = (r, g1)"
  shows "mt5_connect (logged gw) (c, (l, g)) =
    (answer_of r, (c\<lparr>mc_connected := (case answer_of r of Inl e \<Rightarrow> mc_connected c | Inr ok \<Rightarrow> ok)\<rparr>, (l @ [(the_ping c, r)], g1)))"
  using assms by (cases r) (simp_all add: the_ping_def mt5_connect_def mt5_defs logged_def answer_of_def)

lemma one_attempt:
  assumes "gw (the_ping c) g = (r, g1)" and "mt5_connect (logged gw) (c, (l, g)) = (res, s')"
  shows "res = answer_of r" and "\<exists>c'. s' = (c', (l @ [(the_ping c, r)], g1)) \<and> the_ping c' = the_ping c"
    and "res = Inr ok \<Longrightarrow> mc_connected (fst s') = ok"
proof -
  let ?c1 = "c\<lparr>mc_connected := (case answer_of r of Inl e \<Rightarrow> mc_connected c | Inr ok \<Rightarrow> ok)\<rparr>"
  have eq: "(res, s') = (answer_of r, (?c1, (l @ [(the_ping c, r)], g1)))"
    using assms(2) attempt_eq [of gw c g r g1 l, OF assms(1)] by (rule trans [OF sym])
  show "res = answer_of r" using eq by (rule Pair_inject)
  have s': "s' = (?c1, (l @ [(the_ping c, r)], g1))" using eq by (rule Pair_inject)
  have "the_ping ?c1 = the_ping c" by (simp add: the_ping_def mt5_request_def mt5_headers_def)
  with s' show "\<exists>c'. s' = (c', (l @ [(the_ping c, r)], g1)) \<and> the_ping c' = the_ping c" by blast
  show "mc_connected (fst s') = ok" if "res = Inr ok" using that \<open>res = answer_of r\<close> by (simp add: s')
qed

lemma backoff_loop_spec:
  assumes "backoff_loop (logged gw) jitter base attempt (Suc n) (c, (l, g)) = (ds, (res, (c', (l', g'))))" and "1 \<le> attempt"
  shows "\<exists>m. l' = l @ m \<and> length m = Suc (length ds) \<and> length ds \<le> n \<and> map fst m = replicate (length m) (the_ping c)
    \<and> map (answer_of \<circ> snd) m = replicate (length ds) (Inr False) @ [res] \<and> (res = Inr False \<longrightarrow> length ds = n)
    \<and> ds = map (\<lambda>i. base * 2 ^ (attempt - 1 + i) + jitter (attempt + i)) [0..<length ds]
    \<and> (\<forall>ok. res = Inr ok \<longrightarrow> mc_connected c' = ok)"
  using assms
proof (induction n arbitrary: attempt c l g ds)
  case (Suc n)
  obtain r g1 where r: "gw (the_ping c) g = (r, g1)" by (meson surj_pair)
  obtain a s1 where conn: "mt5_connect (logged gw) (c, (l, g)) = (a, s1)" by (meson surj_pair)
  note one = one_attempt [of gw c g r g1 l a s1, OF r conn]
  obtain c1 where s1: "s1 = (c1, (l @ [(the_ping c, r)], g1))" "the_ping c1 = the_ping c" using one(2) by blast
  show ?case
  proof (cases "a = Inr False")
    case True
    obtain ds' r' where rec: "backoff_loop (logged gw) jitter base (attempt + 1) (Suc n) s1 = (ds', r')" by (meson surj_pair)
    have ds: "ds = (base * 2 ^ (attempt - 1) + jitter attempt) # ds'" and r': "r' = (res, (c', (l', g')))"
      using Suc.prems(1) conn True rec by (auto simp: backoff_loop.simps)
    from Suc.IH [OF rec [unfolded s1(1) r'] le_add2, unfolded s1(2)] obtain m where m: "l' = (l @ [(the_ping c, r)]) @ m" "length m = Suc (length ds')" "length ds' \<le> n"
        "map fst m = replicate (length m) (the_ping c)" "map (answer_of \<circ> snd) m = replicate (length ds') (Inr False) @ [res]"
        "res = Inr False \<longrightarrow> length ds' = n"
        "ds' = map (\<lambda>i. base * 2 ^ (attempt + 1 - 1 + i) + jitter (attempt + 1 + i)) [0..<length ds']"
        "\<forall>ok. res = Inr ok \<longrightarrow> mc_connected c' = ok"
      by blast
    have "ds = map (\<lambda>i. base * 2 ^ (attempt - 1 + i) + jitter (attempt + i)) [0..<length ds]"
      using Suc.prems(2) m(7) by (simp add: ds upt_conv_Cons map_Suc_upt [symmetric] o_def Suc_diff_Suc del: upt_Suc)
    then show ?thesis using m one(1) True
      by (intro exI [of _ "(the_ping c, r) # m"]) (auto simp: ds o_def)
  next
    case False
    then have "ds = []" "res = a" "s1 = (c', (l', g'))"
      using Suc.prems(1) conn by (auto simp: backoff_loop.simps split: sum.splits if_splits)
    then show ?thesis using False one s1 by (intro exI [of _ "[(the_ping c, r)]"]) auto
  qed
next
  case 0
  obtain r g1 where r: "gw (the_ping c) g = (r, g1)" by (meson surj_pair)
  obtain a s1 where conn: "mt5_connect (logged gw) (c, (l, g)) = (a, s1)" by (meson surj_pair)
  note one = one_attempt [of gw c g r g1 l a s1, OF r conn]
  have "ds = []" "res = a" "s1 = (c', (l', g'))"
    using 0(1) conn by (auto split: sum.splits if_splits)
  then show ?case using one by (intro exI [of _ "[(the_ping c, r)]"]) auto
qed

text \<open>
  C39: Connecting with backoff, seen from the gateway. With at least one attempt allowed, a new exchange log holds
  between one and \<open>retries\<close> requests, all of them the same \<open>GET /ping\<close>, one more than the delays slept;
  every reply but the last was a refusal and the last one decides the answer; False is only answered after exactly
  \<open>retries\<close> refusals; the i-th delay is \<open>base * 2^i\<close> plus its jitter; and the connection flag agrees with the answer.
\<close>

theorem connect_backoff_schedule:
  assumes "connect_with_backoff (logged gw) jitter retries base (c, ([], g)) = (ds, (res, (c', (sent, g'))))" and "0 < retries"
  shows "length sent = Suc (length ds) \<and> int (length sent) \<le> retries
    \<and> map fst sent = replicate (length sent) (the_ping c)
    \<and> map (answer_of \<circ> snd) sent = replicate (length ds) (Inr False) @ [res]
    \<and> (res = Inr False \<longrightarrow> int (length sent) = retries)
    \<and> ds = map (\<lambda>i. base * 2 ^ i + jitter (Suc i)) [0..<length ds]
    \<and> (\<forall>ok. res = Inr ok \<longrightarrow> mc_connected c' = ok)"
proof -
  obtain n where n: "nat retries = Suc n" using assms(2) by (metis gr0_implies_Suc zero_less_nat_eq)
  then have "retries = int n + 1" using assms(2) by linarith
  moreover have "backoff_loop (logged gw) jitter base 1 (Suc n) (c, ([], g)) = (ds, (res, (c', (sent, g'))))"
    using assms(1) n by (simp only: connect_with_backoff_def)
  ultimately show ?thesis using backoff_loop_spec [of gw jitter base 1 n c "[]" g ds res c' sent g'] by auto
qed

text \<open>A gateway that refuses the connection, then answers 503, then accepts; the same with two attempts only.\<close>

definition slow_gateway :: "gw_reply list" where
  "slow_gateway = [GwClientError, GwReply 503 JNull, GwReply 200 JNull]"

lemma backoff_example:
  "connect_with_backoff (logged scripted) (\<lambda>_. 0) 3 1 (demo_connector, ([], slow_gateway))
   = ([1, 2], (Inr True, (demo_connector\<lparr>mc_connected := True\<rparr>, (map (Pair (the_ping demo_connector)) slow_gateway, []))))"
  "connect_with_backoff (logged scripted) (\<lambda>_. 0) 2 1 (demo_connector, ([], slow_gateway))
   = ([1], (Inr False, (demo_connector, (map (Pair (the_ping demo_connector)) [GwClientError, GwReply 503 JNull], [GwReply 200 JNull]))))"
  by (simp_all add: connect_with_backoff_def numeral_3_eq_3 numeral_2_eq_2 mt5_connect_def mt5_defs demo_connector_def
      create_connector_def new_connector_def logged_def slow_gateway_def the_ping_def mt5_request_def mt5_headers_def)

theorem connect_backoff_schedule_witness:
  "(\<exists>c' sent g'. connect_with_backoff (logged scripted) (\<lambda>_. 0) 3 1 (demo_connector, ([], slow_gateway)) = ([1, 2], (Inr True, (c', (sent, g'))))
     \<and> length sent = 3 \<and> map (answer_of \<circ> snd) sent = [Inr False, Inr False, Inr True] \<and> mc_connected c')
   \<and> (\<exists>c' sent g'. connect_with_backoff (logged scripted) (\<lambda>_. 0) 2 1 (demo_connector, ([], slow_gateway)) = ([1], (Inr False, (c', (sent, g'))))
     \<and> length sent = 2 \<and> map (answer_of \<circ> snd) sent = [Inr False, Inr False] \<and> \<not> mc_connected c')"
  using connect_backoff_schedule [OF backoff_example(1)] connect_backoff_schedule [OF backoff_example(2)] backoff_example
  by (auto simp: numeral_2_eq_2)

definition ok_reply :: "gw_reply \<Rightarrow> bool" where
  "ok_reply r = (case r of GwReply status _ \<Rightarrow> status < 400 | _ \<Rightarrow> False)"

text \<open>
  \<open>link_up base log\<close>: some \<open>GET /ping\<close> of the log was answered without error, and no ClientError
  followed it. The log is read from its end.
\<close>

fun link_up_rev :: "string \<Rightarrow> gw_log \<Rightarrow> bool" where
  "link_up_rev base [] = False"
| "link_up_rev base ((rq, r) # l) =
     (r \<noteq> GwClientError \<and> (rq_url rq = base @ ''/ping'' \<and> ok_reply r \<or> link_up_rev base l))"

definition link_up :: "string \<Rightarrow> gw_log \<Rightarrow> bool" where
  "link_up base l = link_up_rev base (rev l)"

text \<open>Every request of the log that is not a ping was sent while the link was up.\<close>

definition guarded_log :: "string \<Rightarrow> gw_log \<Rightarrow> bool" where
  "guarded_log base l \<longleftrightarrow> (\<forall>i < length l. rq_url (fst (l ! i)) = base @ ''/ping'' \<or> link_up base (take i l))"

datatype mc_op =
    McConnect | McPing | McAccount | McSymbol string | McCandles string string int
  | McPlace string string real "real option" "real option" string | McClose int
  | McModify int "real option" "real option" | McPositions | McHistory int int | McMargin string real string

fun mc_step :: "'g gateway \<Rightarrow> mc_op \<Rightarrow> mt5_connector \<times> 'g \<Rightarrow> mt5_connector \<times> 'g" where
  "mc_step gw McConnect s = snd (mt5_connect gw s)"
| "mc_step gw McPing s = snd (mt5_ping gw s)"
| "mc_step gw McAccount s = snd (get_account_info gw s)"
| "mc_step gw (McSymbol y) s = snd (get_symbol_info gw y s)"
| "mc_step gw (McCandles y tf n) s = snd (get_candles gw y tf n s)"
| "mc_step gw (McPlace y d v sl tp c) s = snd (mt5_place_order gw y d v sl tp c s)"
| "mc_step gw (McClose t) s = snd (mt5_close_position gw t s)"
| "mc_step gw (McModify t sl tp) s = snd (modify_position gw t sl tp s)"
| "mc_step gw McPositions s = snd (mt5_get_positions gw s)"
| "mc_step gw (McHistory a b) s = snd (mt5_get_history gw a b s)"
| "mc_step gw (McMargin y v d) s = snd (calculate_margin gw (\<lambda>_. None) y v d s)"

definition mc_inv :: "string \<Rightarrow> mt5_connector \<times> gw_log \<times> 'g \<Rightarrow> bool" where
  "mc_inv base s \<longleftrightarrow> mc_base_url (fst s) = base \<and> guarded_log base (fst (snd s))
     \<and> (mc_connected (fst s) \<longrightarrow> link_up base (fst (snd s)))"

lemma link_up_snoc: "link_up base (l @ [(rq, r)]) \<longleftrightarrow>
    r \<noteq> GwClientError \<and> (rq_url rq = base @ ''/ping'' \<and> ok_reply r \<or> link_up base l)"
  by (simp add: link_up_def)

lemma guarded_log_snoc: "guarded_log base (l @ [(rq, r)]) \<longleftrightarrow>
    guarded_log base l \<and> (rq_url rq = base @ ''/ping'' \<or> link_up base l)"
  by (auto simp: guarded_log_def nth_append less_Suc_eq)

lemma mc_inv_send:
  assumes "mc_inv base s" and "rq_url rq = base @ ''/ping'' \<or> mc_connected (fst s)"
    and "mt5_send (logged gw) rq s = (res, s')"
  shows "mc_inv base s'"
  using assms
  by (auto simp: mt5_send_def mt5_reply_def logged_def mc_inv_def link_up_snoc guarded_log_snoc
      split: prod.splits gw_reply.splits if_splits)

lemma mc_inv_get: "mc_inv base s \<Longrightarrow> mc_connected (fst s) \<Longrightarrow> mc_inv base (snd (mt5_get (logged gw) path b s))"
  using mc_inv_send by (metis mt5_get_def prod.collapse)

lemma mc_inv_post: "mc_inv base s \<Longrightarrow> mc_connected (fst s) \<Longrightarrow> mc_inv base (snd (mt5_post (logged gw) path b s))"
  using mc_inv_send by (metis mt5_post_def prod.collapse)

lemma snd_with_body: "snd (with_body f r) = snd r"
  by (cases r) (auto simp: with_body_def split: sum.splits)

lemma snd_require_connected: "snd (require_connected body s) = (if mc_connected (fst s) then snd (body s) else s)"
  by (simp add: require_connected_def)

lemma mc_inv_ping: "mc_inv base s \<Longrightarrow> mc_inv base (snd (mt5_get (logged gw) ''/ping'' b s))"
  using mc_inv_send [of base s "mt5_request GwGet ''/ping'' b (fst s)" gw]
  by (cases "mt5_get (logged gw) ''/ping'' b s") (simp add: mt5_get_def mt5_request_def mc_inv_def)

lemma mc_inv_connect: assumes "mc_inv base s" shows "mc_inv base (snd (mt5_connect (logged gw) s))"
proof -
  obtain res c l g where r: "mt5_get (logged gw) ''/ping'' JNull s = (res, (c, l, g))"
    by (metis prod.collapse)
  with mc_inv_ping [OF assms, of gw JNull] have inv: "mc_inv base (c, l, g)" by simp
  have up: "link_up base l" if "res = Inr b" for b
    using r that assms
    by (auto simp: mt5_get_def mt5_send_def mt5_reply_def logged_def mt5_request_def mc_inv_def
        link_up_snoc ok_reply_def split: prod.splits gw_reply.splits if_splits)
  show ?thesis using inv up r by (auto simp: mt5_connect_def mc_inv_def split: sum.splits)
qed

lemma mc_inv_step: "mc_inv base s \<Longrightarrow> mc_inv base (mc_step (logged gw) e s)"
  by (cases e) (simp_all add: mc_inv_connect mc_inv_ping mc_inv_get mc_inv_post mt5_ping_def
      get_account_info_def get_symbol_info_def get_candles_def mt5_place_order_def mt5_close_position_def
      modify_position_def mt5_get_positions_def mt5_get_history_def calculate_margin_def
      snd_with_body snd_require_connected)

interpretation mc_machine: guarded_state "mc_step (logged gw)" "mc_inv base" for gw base
  by unfold_locales (rule mc_inv_step)

text \<open>
  C8: whatever operations a new connector is asked for and whatever the gateway answers, each
  request it sends other than a ping is preceded by a successful ping, with no network error
  between the two: nothing is traded on a connection that was never checked or is known broken.
\<close>

theorem connector_trades_only_on_a_checked_link:
  assumes "s = fold (mc_step (logged gw)) ops (new_connector url key demo timeout, ([], g))"
    and "i < length (fst (snd s))"
  shows "let l = fst (snd s); base = strip_slashes url in
     rq_url (fst (l ! i)) = base @ ''/ping'' \<or>
     (\<exists>j < i. rq_url (fst (l ! j)) = base @ ''/ping'' \<and> ok_reply (snd (l ! j)) \<and>
        (\<forall>k. j < k \<and> k < i \<longrightarrow> snd (l ! k) \<noteq> GwClientError))"
proof -
  have "mc_inv (strip_slashes url) s"
    unfolding assms(1)
    by (rule mc_machine.run_good) (simp add: mc_inv_def new_connector_def guarded_log_def)
  moreover have "link_up base l' \<Longrightarrow> \<exists>j < length l'. rq_url (fst (l' ! j)) = base @ ''/ping'' \<and> ok_reply (snd (l' ! j))
      \<and> (\<forall>k. j < k \<and> k < length l' \<longrightarrow> snd (l' ! k) \<noteq> GwClientError)" for base and l' :: gw_log
  proof (induction l' rule: rev_induct)
    case (snoc x xs)
    then show ?case
      by (cases x) (fastforce simp: link_up_snoc nth_append less_Suc_eq)
  qed (simp add: link_up_def)
  ultimately show ?thesis using assms(2)
    by (fastforce simp: mc_inv_def guarded_log_def Let_def)
qed

definition demo_run :: "mt5_connector \<times> gw_log \<times> gw_reply list" where
  "demo_run = fold (mc_step (logged scripted)) [McConnect, McClose 7]
     (new_connector ''http://gw/'' [] True 10, ([], [GwReply 200 JNull, GwReply 200 (JBool True)]))"

lemma demo_run_log: "map (rq_url \<circ> fst) (fst (snd demo_run)) = [''http://gw/ping'', ''http://gw/order/close'']"
  by (simp add: demo_run_def mt5_connect_def mt5_close_position_def mt5_defs mt5_request_def logged_def
      new_connector_def strip_slashes_def)

theorem connector_trades_only_on_a_checked_link_witness:
  "\<exists>j < 1. rq_url (fst (fst (snd demo_run) ! j)) = ''http://gw/ping''"
proof -
  have len: "1 < length (fst (snd demo_run))"
    using arg_cong [OF demo_run_log, of length] by simp
  have "rq_url (fst (fst (snd demo_run) ! 1)) = ''http://gw/order/close''"
    using arg_cong [OF demo_run_log, of "\<lambda>l. l ! 1"] len by simp
  moreover have "strip_slashes ''http://gw/'' = ''http://gw''" by (simp add: strip_slashes_def)
  ultimately show ?thesis
    using connector_trades_only_on_a_checked_link [OF demo_run_def len] by (auto simp: Let_def)
qed

text \<open>
  A gateway that does not answer within the timeout makes \<open>connect\<close> and \<open>connect_with_backoff\<close>
  raise TimeoutError: only network errors and error statuses are turned into False, so the first
  timeout ends the backoff with no retry, and a connection flag that was set stays set.
\<close>

theorem connect_timeout_escapes_backoff:
  assumes "gw (mt5_request GwGet ''/ping'' JNull c) g = (GwTimeout, g')" and "0 < retries"
  shows "connect_with_backoff gw jitter retries base (c, g) = ([], (Inl TimeoutError, (c, g')))"
proof -
  from assms(2) obtain n where "nat retries = Suc n" using gr0_implies_Suc zero_less_nat_eq by blast
  with assms(1) show ?thesis by (simp add: connect_with_backoff_def mt5_connect_def mt5_defs)
qed

theorem connect_timeout_escapes_backoff_witness:
  "connect_with_backoff scripted (\<lambda>_. 0) 5 1 (demo_connector, [GwTimeout, GwReply 200 JNull])
   = ([], (Inl TimeoutError, (demo_connector, [GwReply 200 JNull])))"
  by (rule connect_timeout_escapes_backoff) simp_all

end
