(* ===== verification/Execution_Service.thy ===== *)
theory Execution_Service
  imports Order_State_Machine Mt5_Connector
begin

section \<open>The execution service\<close>

text \<open>
  \<open>src/backend/execution/execution_service.py\<close>. The service is built on injected dependencies, the
  fields of \<open>exec_deps\<close>: the connector's two calls over its state \<open>'c\<close>, how \<open>ticket\<close> and
  \<open>open_price\<close> are read from the order it returns (attribute access may raise), the kill switch call
  (None when no kill switch was passed), the database client and the notifier. The order state
  machine is the one of \<open>Order_State_Machine\<close>. Rows, alerts and the delays slept are outputs in the
  state. \<open>clk i\<close> is the pair of clock readings of the i-th call of the state machine.
\<close>

record trade_signal =
  ts_symbol :: string
  ts_direction :: string
  ts_volume :: real
  ts_entry :: "real option"
  ts_sl :: "real option"
  ts_tp :: "real option"
  ts_strategy :: string
  ts_confidence :: real

datatype exec_error =
    KillSwitchActive | InvalidVolume | PositionNotFound | MaxRetriesExceeded | UnknownError
  | Raised exc

record execution_result =
  er_success :: bool
  er_ticket :: "int option"
  er_open_price :: "real option"
  er_error :: "exec_error option"

definition exec_failed :: "exec_error \<Rightarrow> execution_result" where
  "exec_failed e = \<lparr>er_success = False, er_ticket = None, er_open_price = None, er_error = Some e\<rparr>"

record exec_row =
  row_ticket :: int
  row_symbol :: string
  row_direction :: string
  row_volume :: real
  row_strategy :: string
  row_confidence :: real

record ('c, 'o) exec_deps =
  ed_place :: "trade_signal \<Rightarrow> 'c \<Rightarrow> ('o option, 'c) outcome"
  ed_close :: "int \<Rightarrow> 'c \<Rightarrow> (bool, 'c) outcome"
  ed_ticket :: "'o \<Rightarrow> int"
  ed_open_price :: "'o \<Rightarrow> exc + real"
  ed_kill :: "(exc + bool) option"
  ed_db :: "(exec_row \<Rightarrow> bool) option"
  ed_notifier :: "bool option"

record 'c exec_service =
  ex_conn :: 'c
  ex_osm :: osm
  ex_rows :: "exec_row list"
  ex_alerts :: "(trade_signal \<times> exc) list"
  ex_sleeps :: "real list"

definition max_retries :: nat where "max_retries = 3"
definition base_delay :: real where "base_delay = 1"

definition exec_sleep :: "real \<Rightarrow> 'c exec_service \<Rightarrow> 'c exec_service" where
  "exec_sleep d s = s\<lparr>ex_sleeps := ex_sleeps s @ [d]\<rparr>"

text \<open>\<open>_persist\<close>: \<open>ed_db\<close> tells whether the insert succeeds; a failed one is swallowed.\<close>

definition execution_row :: "('c, 'o) exec_deps \<Rightarrow> trade_signal \<Rightarrow> 'o \<Rightarrow> exec_row" where
  "execution_row d sg order = \<lparr>row_ticket = ed_ticket d order, row_symbol = ts_symbol sg,
     row_direction = ts_direction sg, row_volume = ts_volume sg, row_strategy = ts_strategy sg,
     row_confidence = ts_confidence sg\<rparr>"

definition persist_execution :: "('c, 'o) exec_deps \<Rightarrow> trade_signal \<Rightarrow> 'o \<Rightarrow> 'c exec_service \<Rightarrow> 'c exec_service" where
  "persist_execution d sg order s = (case ed_db d of None \<Rightarrow> s | Some insert_ok \<Rightarrow>
     if insert_ok (execution_row d sg order)
     then s\<lparr>ex_rows := ex_rows s @ [execution_row d sg order]\<rparr> else s)"

text \<open>
  \<open>_send_failure_alert\<close>: without an injected notifier the import of \<open>backend.telegram.notifier\<close>
  fails, the repository has no such module; \<open>Some ok\<close> is an injected one and whether it delivers.
\<close>

definition send_failure_alert :: "('c, 'o) exec_deps \<Rightarrow> trade_signal \<Rightarrow> exc \<Rightarrow> 'c exec_service \<Rightarrow> 'c exec_service" where
  "send_failure_alert d sg e s = (case ed_notifier d of
      None \<Rightarrow> s
    | Some ok \<Rightarrow> if ok then s\<lparr>ex_alerts := ex_alerts s @ [(sg, e)]\<rparr> else s)"

text \<open>
  The loop over the attempts, \<open>n\<close> of them left, with the test after it: a placed order that is None ends the
  loop and is reported with the last error. \<open>Raised e\<close> stands for the message of \<open>e\<close>, taken to be non-empty
  (\<open>last_error or "unknown"\<close>).
\<close>

definition no_order_error :: "exc option \<Rightarrow> exec_error" where
  "no_order_error last_error = (case last_error of None \<Rightarrow> UnknownError | Some e \<Rightarrow> Raised e)"

fun place_loop :: "('c, 'o) exec_deps \<Rightarrow> trade_signal \<Rightarrow> nat \<Rightarrow> exc option \<Rightarrow> 'c exec_service
    \<Rightarrow> (exec_error + 'o) \<times> 'c exec_service" where
  "place_loop d sg 0 last_error s =
     (Inl (no_order_error last_error), s)"
| "place_loop d sg (Suc n) last_error s =
     (case ed_place d sg (ex_conn s) of
        (Inr (Some order), c) \<Rightarrow> (Inr order, s\<lparr>ex_conn := c\<rparr>)
      | (Inr None, c) \<Rightarrow> (Inl (no_order_error last_error), s\<lparr>ex_conn := c\<rparr>)
      | (Inl e, c) \<Rightarrow>
          if 0 < n
          then place_loop d sg n (Some e)
                 (exec_sleep (base_delay * 2 ^ (max_retries - Suc n)) (s\<lparr>ex_conn := c\<rparr>))
          else (Inl (Raised e), send_failure_alert d sg e (s\<lparr>ex_conn := c\<rparr>)))"

definition execute :: "('c, 'o) exec_deps \<Rightarrow> (nat \<Rightarrow> time \<times> time) \<Rightarrow> trade_signal \<Rightarrow> 'c exec_service
    \<Rightarrow> (execution_result, 'c exec_service) outcome" where
  "execute d clk sg s =
     (case (case ed_kill d of None \<Rightarrow> Inr False | Some r \<Rightarrow> r) of
        Inl e \<Rightarrow> (Inl e, s)
      | Inr killed \<Rightarrow>
          if killed then (Inr (exec_failed KillSwitchActive), s)
          else if ts_volume sg \<le> 0 then (Inr (exec_failed InvalidVolume), s)
          else
            (case place_loop d sg max_retries None s of
               (Inl err, s1) \<Rightarrow> (Inr (exec_failed err), s1)
             | (Inr order, s1) \<Rightarrow>
                 (let t = ed_ticket d order;
                      s2 = s1\<lparr>ex_osm := snd (osm_transition t OPEN (fst (clk 0)) (snd (clk 0)) (ex_osm s1))\<rparr>;
                      s3 = persist_execution d sg order s2 in
                  case ed_open_price d order of
                    Inl e \<Rightarrow> (Inl e, s3)
                  | Inr p \<Rightarrow> (Inr \<lparr>er_success = True, er_ticket = Some t, er_open_price = Some p,
                               er_error = None\<rparr>, s3))))"

definition open_position :: "('c, 'o) exec_deps \<Rightarrow> (nat \<Rightarrow> time \<times> time) \<Rightarrow> trade_signal \<Rightarrow> 'c exec_service
    \<Rightarrow> (execution_result, 'c exec_service) outcome" where
  "open_position d clk sg s = execute d clk sg s"

text \<open>
  \<open>close\<close>: one attempt closes at the broker and then moves the ticket to CLOSED; an exception of
  either ends the attempt.
\<close>

definition close_attempt :: "('c, 'o) exec_deps \<Rightarrow> int \<Rightarrow> time \<times> time \<Rightarrow> 'c exec_service
    \<Rightarrow> (execution_result, 'c exec_service) outcome" where
  "close_attempt d ticket tm s = (case ed_close d ticket (ex_conn s) of
      (Inl e, c) \<Rightarrow> (Inl e, s\<lparr>ex_conn := c\<rparr>)
    | (Inr found, c) \<Rightarrow>
        if found
        then (case osm_transition ticket CLOSED (fst tm) (snd tm) (ex_osm s) of
                (Inl e, o') \<Rightarrow> (Inl e, s\<lparr>ex_conn := c, ex_osm := o'\<rparr>)
              | (Inr _, o') \<Rightarrow> (Inr \<lparr>er_success = True, er_ticket = Some ticket, er_open_price = None,
                    er_error = None\<rparr>, s\<lparr>ex_conn := c, ex_osm := o'\<rparr>))
        else (Inr (exec_failed PositionNotFound), s\<lparr>ex_conn := c\<rparr>))"

fun close_loop :: "('c, 'o) exec_deps \<Rightarrow> (nat \<Rightarrow> time \<times> time) \<Rightarrow> int \<Rightarrow> nat \<Rightarrow> 'c exec_service
    \<Rightarrow> execution_result \<times> 'c exec_service" where
  "close_loop d clk ticket 0 s = (exec_failed MaxRetriesExceeded, s)"
| "close_loop d clk ticket (Suc n) s =
     (case close_attempt d ticket (clk (max_retries - Suc n)) s of
        (Inr r, s1) \<Rightarrow> (r, s1)
      | (Inl e, s1) \<Rightarrow>
          if 0 < n then close_loop d clk ticket n (exec_sleep (base_delay * 2 ^ (max_retries - Suc n)) s1)
          else (exec_failed (Raised e), s1))"

definition close_trade :: "('c, 'o) exec_deps \<Rightarrow> (nat \<Rightarrow> time \<times> time) \<Rightarrow> int \<Rightarrow> 'c exec_service
    \<Rightarrow> execution_result \<times> 'c exec_service" where
  "close_trade d clk ticket s = close_loop d clk ticket max_retries s"

definition close_position :: "('c, 'o) exec_deps \<Rightarrow> (nat \<Rightarrow> time \<times> time) \<Rightarrow> int \<Rightarrow> 'c exec_service
    \<Rightarrow> execution_result \<times> 'c exec_service" where
  "close_position d clk ticket s = close_trade d clk ticket s"

text \<open>\<open>_LazyProxy.__getattr__\<close>: the first access builds the service, later ones find it.\<close>

definition lazy_service :: "(unit \<Rightarrow> 'c exec_service) \<Rightarrow> 'c exec_service option \<Rightarrow> 'c exec_service \<times> 'c exec_service option" where
  "lazy_service build inst = (case inst of None \<Rightarrow> (build (), Some (build ())) | Some s \<Rightarrow> (s, inst))"

subsection \<open>The retry loop\<close>

text \<open>The connector's state after its first \<open>k\<close> calls.\<close>

definition conn_after :: "('c, 'o) exec_deps \<Rightarrow> trade_signal \<Rightarrow> nat \<Rightarrow> 'c \<Rightarrow> 'c" where
  "conn_after d sg k c = ((\<lambda>c. snd (ed_place d sg c)) ^^ k) c"

lemma conn_after_0 [simp]: "conn_after d sg 0 c = c"
  by (simp add: conn_after_def)

lemma conn_after_Suc: "conn_after d sg (Suc k) c = conn_after d sg k (snd (ed_place d sg c))"
  by (simp add: conn_after_def funpow_Suc_right del: funpow.simps)

definition delays :: "nat \<Rightarrow> nat \<Rightarrow> real list" where
  "delays first k = map (\<lambda>i. base_delay * 2 ^ i) [first ..< first + k]"

lemma delays_Suc: "delays first (Suc k) = (base_delay * 2 ^ first) # delays (Suc first) k"
  by (simp add: delays_def upt_conv_Cons)

lemma delays_0 [simp]: "delays first 0 = []"
  by (simp add: delays_def)

lemma place_loop_success:
  assumes "k < n" and "n \<le> max_retries"
    and "\<And>i. i < k \<Longrightarrow> raised (ed_place d sg (conn_after d sg i (ex_conn s))) \<noteq> None"
    and "fst (ed_place d sg (conn_after d sg k (ex_conn s))) = Inr (Some order)"
  shows "place_loop d sg n last_error s = (Inr order,
     s\<lparr>ex_conn := conn_after d sg (Suc k) (ex_conn s),
       ex_sleeps := ex_sleeps s @ delays (max_retries - n) k\<rparr>)"
  using assms
proof (induction n arbitrary: k s last_error)
  case (Suc n)
  obtain r c where pl: "ed_place d sg (ex_conn s) = (r, c)" by (meson surj_pair)
  show ?case
  proof (cases k)
    case 0
    with Suc.prems pl show ?thesis by (simp add: conn_after_Suc)
  next
    case (Suc k')
    with Suc.prems(3) [of 0] pl obtain e where e: "r = Inl e" by (cases r) auto
    let ?s = "exec_sleep (base_delay * 2 ^ (max_retries - Suc n)) (s\<lparr>ex_conn := c\<rparr>)"
    have "place_loop d sg n (Some e) ?s = (Inr order, ?s\<lparr>ex_conn := conn_after d sg (Suc k') (ex_conn ?s),
       ex_sleeps := ex_sleeps ?s @ delays (max_retries - n) k'\<rparr>)"
    proof (rule Suc.IH)
      show "raised (ed_place d sg (conn_after d sg i (ex_conn ?s))) \<noteq> None" if "i < k'" for i
        using Suc.prems(3) [of "Suc i"] that Suc pl by (simp add: conn_after_Suc exec_sleep_def)
    qed (use Suc Suc.prems pl in \<open>auto simp: conn_after_Suc exec_sleep_def\<close>)
    then show ?thesis using Suc Suc.prems pl e
      by (auto simp: conn_after_Suc exec_sleep_def delays_Suc Suc_diff_Suc)
  qed
qed simp

lemma place_loop_failure:
  assumes "Suc n \<le> max_retries"
    and "\<And>i. i < Suc n \<Longrightarrow> raised (ed_place d sg (conn_after d sg i (ex_conn s))) \<noteq> None"
  shows "\<exists>e. raised (ed_place d sg (conn_after d sg n (ex_conn s))) = Some e \<and>
     place_loop d sg (Suc n) last_error s = (Inl (Raised e),
       send_failure_alert d sg e (s\<lparr>ex_conn := conn_after d sg (Suc n) (ex_conn s),
         ex_sleeps := ex_sleeps s @ delays (max_retries - Suc n) n\<rparr>))"
  using assms
proof (induction n arbitrary: s last_error)
  case 0
  then show ?case
    by (cases "ed_place d sg (ex_conn s)") (auto simp: conn_after_Suc raised_def split: sum.splits)
next
  case (Suc n)
  obtain e c where pl: "ed_place d sg (ex_conn s) = (Inl e, c)"
    using Suc.prems(2) [of 0] by (cases "ed_place d sg (ex_conn s)") (auto simp: raised_def split: sum.splits)
  let ?s = "exec_sleep (base_delay * 2 ^ (max_retries - Suc (Suc n))) (s\<lparr>ex_conn := c\<rparr>)"
  have after: "conn_after d sg i (ex_conn ?s) = conn_after d sg (Suc i) (ex_conn s)" for i
    by (simp add: conn_after_Suc pl exec_sleep_def)
  have "\<exists>e'. raised (ed_place d sg (conn_after d sg n (ex_conn ?s))) = Some e' \<and>
     place_loop d sg (Suc n) (Some e) ?s = (Inl (Raised e'),
       send_failure_alert d sg e' (?s\<lparr>ex_conn := conn_after d sg (Suc n) (ex_conn ?s),
         ex_sleeps := ex_sleeps ?s @ delays (max_retries - Suc n) n\<rparr>))"
  proof (rule Suc.IH)
    show "raised (ed_place d sg (conn_after d sg i (ex_conn ?s))) \<noteq> None" if "i < Suc n" for i
      using Suc.prems(2) [of "Suc i"] that by (simp add: after)
  qed (use Suc.prems(1) in simp)
  moreover have "place_loop d sg (Suc (Suc n)) last_error s = place_loop d sg (Suc n) (Some e) ?s"
    using pl by simp
  ultimately show ?case
    unfolding after using Suc.prems(1)
    by (auto simp: exec_sleep_def delays_Suc Suc_diff_Suc simp del: place_loop.simps)
qed

subsection \<open>Executing a signal\<close>

text \<open>
  While the kill switch answers that it is active, or when the volume is not positive, a signal
  is refused with the matching error and nothing happens: the broker is not called, no ticket is
  registered, no row is written, no alert is sent.
\<close>

theorem execute_refuses_untouched:
  assumes "ed_kill d = Some (Inr True) \<or> (ed_kill d \<in> {None, Some (Inr False)} \<and> ts_volume sg \<le> 0)"
  shows "execute d clk sg s =
    (Inr (exec_failed (if ed_kill d = Some (Inr True) then KillSwitchActive else InvalidVolume)), s)"
  using assms by (auto simp: execute_def)

text \<open>
  C7: a signal is placed until the first success and at most three times. If the \<open>k\<close>-th call
  succeeds, \<open>k < 3\<close>, the broker has been called \<open>k + 1\<close> times, the service has slept 1 and 2
  seconds in between, and the row of the order is persisted.
\<close>

theorem execute_places_until_first_success:
  assumes "ed_kill d \<in> {None, Some (Inr False)}" and "0 < ts_volume sg" and "k < 3"
    and "\<And>i. i < k \<Longrightarrow> raised (ed_place d sg (conn_after d sg i (ex_conn s))) \<noteq> None"
    and "fst (ed_place d sg (conn_after d sg k (ex_conn s))) = Inr (Some order)"
    and "ed_open_price d order = Inr p" and "ed_db d = Some insert_ok"
  shows "\<exists>s'. execute d clk sg s = (Inr \<lparr>er_success = True, er_ticket = Some (ed_ticket d order),
      er_open_price = Some p, er_error = None\<rparr>, s')
    \<and> ex_conn s' = conn_after d sg (k + 1) (ex_conn s)
    \<and> ex_sleeps s' = ex_sleeps s @ take k [1, 2]
    \<and> ex_rows s' = ex_rows s @ filter insert_ok [execution_row d sg order]
    \<and> ex_alerts s' = ex_alerts s"
proof -
  have loop: "place_loop d sg max_retries None s = (Inr order,
     s\<lparr>ex_conn := conn_after d sg (Suc k) (ex_conn s), ex_sleeps := ex_sleeps s @ delays 0 k\<rparr>)"
    using place_loop_success [of k max_retries d sg s order None] assms(3-5)
    by (simp add: max_retries_def)
  have "delays 0 k = take k [1, 2]"
    using \<open>k < 3\<close> by (auto simp: less_Suc_eq numeral_3_eq_3 delays_Suc base_delay_def)
  then show ?thesis
    using assms(1,2,6,7) loop
    by (auto simp: execute_def persist_execution_def Let_def simp del: place_loop.simps)
qed

text \<open>
  When the connector raises three times in a row the signal fails with the last exception, after
  exactly three calls of the broker, delays of 1 and 2 seconds, and one alert; no ticket is
  registered and no row written. A call that raised after the broker had filled the order is
  repeated like any other.
\<close>

theorem execute_gives_up_after_three_calls:
  assumes "ed_kill d \<in> {None, Some (Inr False)}" and "0 < ts_volume sg"
    and "\<And>i. i < 3 \<Longrightarrow> raised (ed_place d sg (conn_after d sg i (ex_conn s))) \<noteq> None"
    and "ed_notifier d = Some True"
  shows "\<exists>e. raised (ed_place d sg (conn_after d sg 2 (ex_conn s))) = Some e \<and>
    execute d clk sg s = (Inr (exec_failed (Raised e)),
      s\<lparr>ex_conn := conn_after d sg 3 (ex_conn s), ex_sleeps := ex_sleeps s @ [1, 2],
        ex_alerts := ex_alerts s @ [(sg, e)]\<rparr>)"
proof -
  have "delays 0 2 = [1, 2]" by (simp add: numeral_2_eq_2 delays_Suc base_delay_def)
  moreover obtain e where "raised (ed_place d sg (conn_after d sg 2 (ex_conn s))) = Some e"
    and "place_loop d sg max_retries None s = (Inl (Raised e), send_failure_alert d sg e
       (s\<lparr>ex_conn := conn_after d sg 3 (ex_conn s), ex_sleeps := ex_sleeps s @ delays 0 2\<rparr>))"
    using place_loop_failure [of 2 d sg s None] assms(3) by (auto simp: max_retries_def)
  ultimately show ?thesis
    using assms(1,2,4)
    by (auto simp: execute_def send_failure_alert_def simp del: place_loop.simps)
qed

text \<open>
  A connector that answers None instead of an order ends the attempts at once: the signal fails as unknown, with one
  call, no delay, no alert, no ticket and no row.
\<close>

lemma execute_without_an_order:
  assumes "ed_kill d \<in> {None, Some (Inr False)}" and "0 < ts_volume sg" and "ed_place d sg (ex_conn s) = (Inr None, c)"
  shows "execute d clk sg s = (Inr (exec_failed UnknownError), s\<lparr>ex_conn := c\<rparr>)"
  using assms by (auto simp: execute_def max_retries_def numeral_3_eq_3 no_order_error_def)

text \<open>
  A broker that fills every order but whose reply is lost: the count of fills is its state. The
  three calls of one signal open three positions.
\<close>

definition lossy_deps :: "(nat, unit) exec_deps" where
  "lossy_deps = \<lparr>ed_place = (\<lambda>_ fills. (Inl TimeoutError, fills + 1)), ed_close = (\<lambda>_ c. (Inr True, c)),
     ed_ticket = (\<lambda>_. 1), ed_open_price = (\<lambda>_. Inr 0), ed_kill = Some (Inr False), ed_db = None,
     ed_notifier = Some True\<rparr>"

definition demo_signal :: trade_signal where
  "demo_signal = \<lparr>ts_symbol = ''EURUSD'', ts_direction = ''BUY'', ts_volume = 1, ts_entry = None,
     ts_sl = None, ts_tp = None, ts_strategy = ''unknown'', ts_confidence = 0\<rparr>"

definition idle_service :: "'c \<Rightarrow> 'c exec_service" where
  "idle_service c = \<lparr>ex_conn = c, ex_osm = order_state_machine, ex_rows = [], ex_alerts = [], ex_sleeps = []\<rparr>"

theorem execute_refuses_untouched_witness:
  "execute (lossy_deps\<lparr>ed_kill := Some (Inr True)\<rparr>) clk demo_signal (idle_service 0)
   = (Inr (exec_failed KillSwitchActive), idle_service 0)"
  by (subst execute_refuses_untouched) simp_all

theorem execute_places_until_first_success_witness:
  "\<exists>s'. execute (lossy_deps\<lparr>ed_place := \<lambda>_ calls. (if calls = 0 then Inl TimeoutError else Inr (Some ()), calls + 1),
       ed_db := Some (\<lambda>_. True)\<rparr>) (\<lambda>_. (0, 0)) demo_signal (idle_service 0)
     = (Inr \<lparr>er_success = True, er_ticket = Some 1, er_open_price = Some 0, er_error = None\<rparr>, s')
     \<and> ex_conn s' = 2 \<and> ex_sleeps s' = [1]"
proof -
  let ?d = "lossy_deps\<lparr>ed_place := \<lambda>_ calls. (if calls = 0 then Inl TimeoutError else Inr (Some ()), calls + 1),
       ed_db := Some (\<lambda>_. True)\<rparr>"
  have "conn_after ?d demo_signal k 0 = k" for k
    by (induction k) (simp_all add: conn_after_def)
  then show ?thesis
    using execute_places_until_first_success
      [of ?d demo_signal 1 "idle_service 0" "()" 0 "\<lambda>_. True" "\<lambda>_. (0, 0)"]
    by (auto simp: lossy_deps_def demo_signal_def idle_service_def raised_def)
qed

theorem execute_gives_up_after_three_calls_witness:
  "execute lossy_deps (\<lambda>_. (0, 0)) demo_signal (idle_service 0) = (Inr (exec_failed (Raised TimeoutError)),
     (idle_service 0)\<lparr>ex_conn := 3, ex_sleeps := [1, 2], ex_alerts := [(demo_signal, TimeoutError)]\<rparr>)"
proof -
  have "conn_after lossy_deps demo_signal k 0 = k" for k
    by (induction k) (simp_all add: conn_after_def lossy_deps_def)
  then show ?thesis
    using execute_gives_up_after_three_calls [of lossy_deps demo_signal "idle_service 0" "\<lambda>_. (0, 0)"]
    by (auto simp: lossy_deps_def demo_signal_def idle_service_def raised_def)
qed

subsection \<open>Closing what was executed\<close>

lemma osm_refused_pending:
  assumes "osm_get_state o1 t = Some PENDING" and "new \<notin> set (osm_transitions PENDING)" and "new \<noteq> PENDING"
  shows "osm_transition t new w m o1 = (Inl ValueError, o1)"
proof -
  obtain h reg where "od_get (osm_store o1) t = Some (PENDING, h, reg)"
    using assms(1) by (auto simp: osm_get_state_def)
  then show ?thesis using assms(2,3) by (simp add: osm_transition_def osm_register_def)
qed

lemma osm_refused_unknown:
  assumes "osm_inv o1" and "osm_get_state o1 t = None" and "new \<notin> set (osm_transitions PENDING)" and "new \<noteq> PENDING"
  shows "osm_get_state (snd (osm_transition t new w m o1)) t = Some PENDING"
proof -
  have none: "od_get (osm_store o1) t = None" using assms(2) by (simp add: osm_get_state_def)
  obtain d where d: "evict_if_full (osm_max o1) (osm_store o1) = (Inr (), d)" "od_wf d"
    using evict_ok [of "osm_max o1" "osm_store o1"] assms(1) by (auto simp: osm_inv_def)
  let ?o = "o1\<lparr>osm_store := od_put t (fresh_entry w m) d\<rparr>"
  have "osm_register t w m o1 = (Inr (), ?o)" using none d by (simp add: osm_register_def)
  moreover have "od_get (osm_store ?o) t = Some (fresh_entry w m)" using d by simp
  ultimately have "osm_transition t new w m o1 = (Inl ValueError, ?o)"
    using assms(3,4) by (simp add: osm_transition_def fresh_entry_def)
  then show ?thesis using d by (simp add: osm_get_state_def fresh_entry_def)
qed

lemma close_attempt_pending:
  assumes "osm_get_state (ex_osm s) t = Some PENDING" and "close_attempt d t tm s = (r, s')"
  shows "ex_osm s' = ex_osm s \<and> (\<forall>x. r = Inr x \<longrightarrow> \<not> er_success x)"
  using assms osm_refused_pending [OF assms(1), of CLOSED]
  by (auto simp: close_attempt_def exec_failed_def split: prod.splits sum.splits if_splits)

lemma close_loop_pending:
  assumes "osm_get_state (ex_osm s) t = Some PENDING"
  shows "\<not> er_success (fst (close_loop d clk t n s))"
  using assms
proof (induction n arbitrary: s)
  case (Suc n)
  obtain r s1 where att: "close_attempt d t (clk (max_retries - Suc n)) s = (r, s1)" by (meson surj_pair)
  then have "ex_osm s1 = ex_osm s" and "\<And>x. r = Inr x \<Longrightarrow> \<not> er_success x"
    using close_attempt_pending [OF Suc.prems] by blast+
  with Suc att show ?case by (cases r) (auto simp: exec_sleep_def exec_failed_def)
qed (simp add: exec_failed_def)

lemma place_loop_osm: "ex_osm (snd (place_loop d sg n le s)) = ex_osm s"
  by (induction n arbitrary: le s)
     (auto simp: exec_sleep_def send_failure_alert_def split: prod.splits sum.splits option.splits)

lemma persist_osm [simp]: "ex_osm (persist_execution d sg order s) = ex_osm s"
  by (simp add: persist_execution_def split: option.split)

lemma execute_success_state:
  assumes "execute d clk sg s = (Inr r, s')" and "er_success r" and "er_ticket r = Some t"
  shows "ex_osm s' = snd (osm_transition t OPEN (fst (clk 0)) (snd (clk 0)) (ex_osm s))"
proof -
  obtain res s1 where loop: "place_loop d sg max_retries None s = (res, s1)" by (meson surj_pair)
  then have "ex_osm s1 = ex_osm s" using place_loop_osm by (metis snd_conv)
  then show ?thesis
    using assms loop by (auto simp: execute_def exec_failed_def Let_def split: sum.splits if_splits)
qed

text \<open>
  A successful execution of a ticket the state machine does not know leaves it PENDING, not
  OPEN: the table has no move from PENDING to OPEN, and the refusal is only logged. Closing that
  ticket can therefore never be reported as successful, whatever the broker answers: the move from
  PENDING to CLOSED raises inside the retry loop after the broker has closed the position.
\<close>

theorem executed_trade_cannot_be_closed:
  assumes "osm_inv (ex_osm s)" and "execute d clk sg s = (Inr r, s')"
    and "er_success r" and "er_ticket r = Some t" and "osm_get_state (ex_osm s) t = None"
  shows "osm_get_state (ex_osm s') t = Some PENDING \<and> \<not> er_success (fst (close_trade d' clk' t s'))"
proof -
  have "osm_get_state (ex_osm s') t = Some PENDING"
    using execute_success_state [OF assms(2-4)] osm_refused_unknown [OF assms(1,5), of OPEN] by simp
  with close_loop_pending [of s' t d' clk' max_retries] show ?thesis by (simp add: close_trade_def)
qed

definition prompt_deps :: "(nat, unit) exec_deps" where
  "prompt_deps = lossy_deps\<lparr>ed_place := (\<lambda>_ c. (Inr (Some ()), c + 1))\<rparr>"

theorem executed_trade_cannot_be_closed_witness:
  "\<exists>s'. execute prompt_deps (\<lambda>_. (0, 0)) demo_signal (idle_service 0)
     = (Inr \<lparr>er_success = True, er_ticket = Some 1, er_open_price = Some 0, er_error = None\<rparr>, s')
   \<and> \<not> er_success (fst (close_trade prompt_deps (\<lambda>_. (1, 1)) 1 s'))"
proof -
  obtain s' where s': "execute prompt_deps (\<lambda>_. (0, 0)) demo_signal (idle_service 0)
     = (Inr \<lparr>er_success = True, er_ticket = Some 1, er_open_price = Some 0, er_error = None\<rparr>, s')"
    by (simp add: execute_def prompt_deps_def lossy_deps_def demo_signal_def max_retries_def
        numeral_3_eq_3 Let_def)
  have "osm_inv (ex_osm (idle_service (0 :: nat)))" "osm_get_state (ex_osm (idle_service (0 :: nat))) 1 = None"
    by (simp_all add: idle_service_def order_state_machine_def osm_inv_new)
      (simp add: osm_get_state_def osm_new_def od_get_def)
  then show ?thesis using executed_trade_cannot_be_closed [OF _ s'] s' by auto
qed

subsection \<open>The production wiring\<close>

text \<open>
  What the lazy singleton builds: the real connector, no kill switch, no database client, no
  notifier. \<open>order.open_price\<close> is read from the connector's OrderResult, whose field is
  called \<open>price\<close>: AttributeError. The broker's ticket is an integer; a reply that truth-tests true
  counts as closed.
\<close>

definition singleton_deps :: "'g gateway \<Rightarrow> (mt5_connector \<times> 'g, order_result) exec_deps" where
  "singleton_deps gw = \<lparr>
     ed_place = (\<lambda>sg s. apfst (map_sum id Some)
       (mt5_place_order gw (ts_symbol sg) (ts_direction sg) (ts_volume sg) (ts_sl sg) (ts_tp sg) [] s)),
     ed_close = (\<lambda>t s. with_body (\<lambda>b. Inr (json_truthy b)) (mt5_close_position gw t s)),
     ed_ticket = (\<lambda>r. case or_ticket r of JInt n \<Rightarrow> n | _ \<Rightarrow> 0),
     ed_open_price = (\<lambda>_. Inl AttributeError),
     ed_kill = None, ed_db = None, ed_notifier = None\<rparr>"

lemma place_loop_Inr:
  assumes "place_loop d sg n le s = (Inr order, s')"
  shows "\<exists>k < n. fst (ed_place d sg (conn_after d sg k (ex_conn s))) = Inr (Some order)
     \<and> ex_conn s' = conn_after d sg (k + 1) (ex_conn s)"
  using assms
proof (induction n arbitrary: le s)
  case (Suc n)
  obtain r c where pl: "ed_place d sg (ex_conn s) = (r, c)" by (meson surj_pair)
  show ?case
  proof (cases r)
    case (Inr x)
    with Suc.prems pl show ?thesis by (cases x) (auto intro!: exI [of _ 0] simp: conn_after_Suc)
  next
    case (Inl e)
    with Suc.prems pl have "place_loop d sg n (Some e)
        (exec_sleep (base_delay * 2 ^ (max_retries - Suc n)) (s\<lparr>ex_conn := c\<rparr>)) = (Inr order, s')"
      by (auto split: if_splits)
    from Suc.IH [OF this] pl show ?thesis by (auto simp: exec_sleep_def conn_after_Suc)
  qed
qed simp

text \<open>
  With the production wiring no execution ever reports success. It returns a failure, or, when
  the broker has accepted the order, raises AttributeError while reading \<open>open_price\<close>: the caller of
  an order that was filled gets an exception and no ticket.
\<close>

theorem singleton_execution_never_succeeds:
  "case execute (singleton_deps gw) clk sg s of
     (Inr r, s') \<Rightarrow> \<not> er_success r
   | (Inl e, s') \<Rightarrow> e = AttributeError \<and> (\<exists>k < 3. \<exists>order.
       fst (ed_place (singleton_deps gw) sg (conn_after (singleton_deps gw) sg k (ex_conn s))) = Inr (Some order)
       \<and> ex_conn s' = conn_after (singleton_deps gw) sg (k + 1) (ex_conn s))"
proof -
  obtain res s1 where loop: "place_loop (singleton_deps gw) sg max_retries None s = (res, s1)"
    by (meson surj_pair)
  have kill: "ed_kill (singleton_deps gw) = None" and price: "\<And>r. ed_open_price (singleton_deps gw) r = Inl AttributeError"
    and db: "ed_db (singleton_deps gw) = None"
    by (simp_all add: singleton_deps_def)
  show ?thesis
  proof (cases res)
    case (Inr order)
    with place_loop_Inr [of "singleton_deps gw" sg max_retries None s order s1] loop
    show ?thesis by (auto simp: execute_def exec_failed_def kill price db persist_execution_def Let_def max_retries_def)
  qed (use loop in \<open>auto simp: execute_def exec_failed_def kill\<close>)
qed

end
