(* ===== verification/Position_Reconciliation.thy ===== *)
theory Position_Reconciliation
  imports Json
begin

section \<open>Position reconciliation\<close>

text \<open>
  \<open>src/backend/execution/position_reconciliation.py\<close>: a background task that compares the tickets the
  order state machine holds open with those the broker reports, rejects the ghosts and registers the
  orphans. The two collaborators are injected: \<open>positions\<close> and \<open>open_tickets\<close> are what their calls
  answer (None when the collaborator is missing), \<open>reject\<close> and \<open>register_orphan\<close> act on the
  state machine's state \<open>'s\<close>. An element of the positions is what \<open>"ticket" in p\<close> and
  \<open>p["ticket"]\<close> give: the ticket, None, or the exception of an object that is no container.
  The order in which Python iterates a set is the parameter \<open>iter\<close>.
\<close>

datatype mismatch_type = GHOST | ORPHAN

record mismatch =
  mm_ticket :: int
  mm_type :: mismatch_type

record reconciliation =
  rr_mismatches :: "mismatch list"
  rr_ghosts :: nat
  rr_orphans :: nat
  rr_actions :: nat

record reconciler =
  rc_auto_close_ghosts :: bool
  rc_auto_register_orphans :: bool

record 's reconciler_osm =
  ro_open_tickets :: "'s \<Rightarrow> exc + int list"
  ro_reject :: "int \<Rightarrow> 's \<Rightarrow> (unit, 's) outcome"
  ro_register_orphan :: "int \<Rightarrow> 's \<Rightarrow> (unit, 's) outcome"

definition empty_reconciliation :: reconciliation where
  "empty_reconciliation = \<lparr>rr_mismatches = [], rr_ghosts = 0, rr_orphans = 0, rr_actions = 0\<rparr>"

text \<open>\<open>_get_mt5_open_tickets\<close>: every exception is swallowed and the empty set returned.\<close>

definition mt5_open_tickets :: "(exc + (exc + int option) list) option \<Rightarrow> int set" where
  "mt5_open_tickets positions = (case positions of
      Some (Inr ps) \<Rightarrow> (case map_exc (\<lambda>p. p) ps of
          Inr ts \<Rightarrow> set (List.map_filter (\<lambda>t. t) ts)
        | Inl _ \<Rightarrow> {})
    | _ \<Rightarrow> {})"

definition osm_open_tickets :: "'s reconciler_osm option \<Rightarrow> 's \<Rightarrow> int set" where
  "osm_open_tickets osm s = (case osm of None \<Rightarrow> {} | Some m \<Rightarrow>
     (case ro_open_tickets m s of Inr ts \<Rightarrow> set ts | Inl _ \<Rightarrow> {}))"

text \<open>
  One pass of a \<open>for\<close> loop: record the mismatch and, when enabled, act on it; an exception of the
  action is logged. Without a state machine the call raises AttributeError, also swallowed.
\<close>

definition reconcile_one :: "mismatch_type \<Rightarrow> bool \<Rightarrow> (int \<Rightarrow> 's \<Rightarrow> (unit, 's) outcome) option \<Rightarrow> int
    \<Rightarrow> reconciliation \<times> 's \<Rightarrow> reconciliation \<times> 's" where
  "reconcile_one ty auto act t rs = (case rs of (r, s) \<Rightarrow>
     (let r1 = r\<lparr>rr_mismatches := rr_mismatches r @ [\<lparr>mm_ticket = t, mm_type = ty\<rparr>]\<rparr> in
      if auto then (case act of
          None \<Rightarrow> (r1, s)
        | Some a \<Rightarrow> (case a t s of
              (Inr _, s') \<Rightarrow> (r1\<lparr>rr_actions := rr_actions r + 1\<rparr>, s')
            | (Inl _, s') \<Rightarrow> (r1, s')))
      else (r1, s)))"

definition reconcile :: "(int set \<Rightarrow> int list) \<Rightarrow> reconciler \<Rightarrow> (exc + (exc + int option) list) option
    \<Rightarrow> 's reconciler_osm option \<Rightarrow> 's \<Rightarrow> reconciliation \<times> 's" where
  "reconcile iter rc positions osm s =
     (let broker = mt5_open_tickets positions; known = osm_open_tickets osm s;
          ghosts = known - broker; orphans = broker - known;
          r = empty_reconciliation\<lparr>rr_ghosts := card ghosts, rr_orphans := card orphans\<rparr>;
          rs = fold (reconcile_one GHOST (rc_auto_close_ghosts rc) (map_option ro_reject osm)) (iter ghosts) (r, s) in
      fold (reconcile_one ORPHAN (rc_auto_register_orphans rc) (map_option ro_register_orphan osm)) (iter orphans) rs)"

subsection \<open>What a run reports\<close>

definition mismatches_of :: "mismatch_type \<Rightarrow> reconciliation \<Rightarrow> int list" where
  "mismatches_of ty r = map mm_ticket (filter (\<lambda>m. mm_type m = ty) (rr_mismatches r))"

lemma reconcile_pass:
  assumes "fold (reconcile_one ty auto act) ts (r, s) = (r', s')"
  shows "rr_mismatches r' = rr_mismatches r @ map (\<lambda>t. \<lparr>mm_ticket = t, mm_type = ty\<rparr>) ts
    \<and> rr_ghosts r' = rr_ghosts r \<and> rr_orphans r' = rr_orphans r
    \<and> rr_actions r' \<le> rr_actions r + (if auto then length ts else 0)
    \<and> ((\<not> auto \<or> act = None) \<longrightarrow> s' = s \<and> rr_actions r' = rr_actions r)
    \<and> ((auto \<and> (\<exists>a. act = Some a \<and> (\<forall>t s. raised (a t s) = None))) \<longrightarrow>
        rr_actions r' = rr_actions r + length ts)"
  using assms
proof (induction ts arbitrary: r s)
  case (Cons t ts)
  obtain r1 s1 where one: "reconcile_one ty auto act t (r, s) = (r1, s1)" by (meson surj_pair)
  from Cons.prems one have "fold (reconcile_one ty auto act) ts (r1, s1) = (r', s')" by simp
  note Cons.IH [OF this]
  moreover have "rr_mismatches r1 = rr_mismatches r @ [\<lparr>mm_ticket = t, mm_type = ty\<rparr>]
    \<and> rr_ghosts r1 = rr_ghosts r \<and> rr_orphans r1 = rr_orphans r
    \<and> rr_actions r1 \<le> rr_actions r + (if auto then 1 else 0)
    \<and> ((\<not> auto \<or> act = None) \<longrightarrow> s1 = s \<and> rr_actions r1 = rr_actions r)
    \<and> ((auto \<and> (\<exists>a. act = Some a \<and> (\<forall>t s. raised (a t s) = None))) \<longrightarrow> rr_actions r1 = rr_actions r + 1)"
  proof (cases act)
    case None
    with one show ?thesis by (auto simp: reconcile_one_def Let_def split: if_splits)
  next
    case (Some a)
    obtain res s2 where "a t s = (res, s2)" by (meson surj_pair)
    with one Some show ?thesis
      by (cases res) (auto simp: reconcile_one_def Let_def raised_def split: if_splits dest!: spec2 [of _ t s])
  qed
  ultimately show ?case by (cases auto) auto
qed simp

definition iterates :: "(int set \<Rightarrow> int list) \<Rightarrow> bool" where
  "iterates iter \<longleftrightarrow> (\<forall>S. finite S \<longrightarrow> set (iter S) = S \<and> distinct (iter S))"

lemma finite_tickets: "finite (mt5_open_tickets positions)" "finite (osm_open_tickets osm s)"
  by (auto simp: mt5_open_tickets_def osm_open_tickets_def split: option.split sum.split)

lemma mismatches_of_map:
  "rr_mismatches r = map (\<lambda>t. \<lparr>mm_ticket = t, mm_type = ty'\<rparr>) ts
   \<Longrightarrow> mismatches_of ty r = (if ty = ty' then ts else [])"
  by (simp add: mismatches_of_def filter_map o_def)

lemma reconcile_parts:
  assumes "reconcile iter rc positions osm s = (r, s')"
  obtains "rr_mismatches r =
       map (\<lambda>t. \<lparr>mm_ticket = t, mm_type = GHOST\<rparr>) (iter (osm_open_tickets osm s - mt5_open_tickets positions))
     @ map (\<lambda>t. \<lparr>mm_ticket = t, mm_type = ORPHAN\<rparr>) (iter (mt5_open_tickets positions - osm_open_tickets osm s))"
    and "rr_ghosts r = card (osm_open_tickets osm s - mt5_open_tickets positions)"
    and "rr_orphans r = card (mt5_open_tickets positions - osm_open_tickets osm s)"
    and "rr_actions r \<le> length (rr_mismatches r)"
proof -
  let ?g = "iter (osm_open_tickets osm s - mt5_open_tickets positions)"
  let ?o = "iter (mt5_open_tickets positions - osm_open_tickets osm s)"
  let ?r = "empty_reconciliation\<lparr>rr_ghosts := card (osm_open_tickets osm s - mt5_open_tickets positions),
       rr_orphans := card (mt5_open_tickets positions - osm_open_tickets osm s)\<rparr>"
  obtain r1 s1 where g: "fold (reconcile_one GHOST (rc_auto_close_ghosts rc) (map_option ro_reject osm)) ?g (?r, s) = (r1, s1)"
    by (meson surj_pair)
  with assms have o1: "fold (reconcile_one ORPHAN (rc_auto_register_orphans rc) (map_option ro_register_orphan osm)) ?o (r1, s1) = (r, s')"
    by (simp add: reconcile_def Let_def)
  from reconcile_pass [OF g] reconcile_pass [OF o1] show ?thesis
    by (intro that) (auto simp: empty_reconciliation_def split: if_splits)
qed

text \<open>
  C10: a run reports each ticket that only the state machine knows once as a ghost and each ticket
  that only the broker knows once as an orphan, and nothing else; the counters agree with the list,
  and it never acts more often than there are mismatches.
\<close>

theorem reconcile_reports_the_difference:
  assumes "iterates iter" and "reconcile iter rc positions osm s = (r, s')"
  shows "set (mismatches_of GHOST r) = osm_open_tickets osm s - mt5_open_tickets positions
    \<and> set (mismatches_of ORPHAN r) = mt5_open_tickets positions - osm_open_tickets osm s
    \<and> distinct (map mm_ticket (rr_mismatches r))
    \<and> rr_ghosts r = length (mismatches_of GHOST r) \<and> rr_orphans r = length (mismatches_of ORPHAN r)
    \<and> rr_actions r \<le> rr_ghosts r + rr_orphans r"
proof -
  let ?G = "osm_open_tickets osm s - mt5_open_tickets positions"
  let ?O = "mt5_open_tickets positions - osm_open_tickets osm s"
  have G: "set (iter ?G) = ?G" "distinct (iter ?G)" "card ?G = length (iter ?G)"
    and O: "set (iter ?O) = ?O" "distinct (iter ?O)" "card ?O = length (iter ?O)"
    using assms(1) finite_tickets(1) [of positions] finite_tickets(2) [of osm s]
    by (simp_all add: iterates_def) (metis distinct_card finite_Diff)+
  obtain ms: "rr_mismatches r = map (\<lambda>t. \<lparr>mm_ticket = t, mm_type = GHOST\<rparr>) (iter ?G)
      @ map (\<lambda>t. \<lparr>mm_ticket = t, mm_type = ORPHAN\<rparr>) (iter ?O)"
    and n: "rr_ghosts r = card ?G" "rr_orphans r = card ?O" "rr_actions r \<le> length (rr_mismatches r)"
    using reconcile_parts [OF assms(2)] by blast
  have "mismatches_of GHOST r = iter ?G" "mismatches_of ORPHAN r = iter ?O"
    by (simp_all add: mismatches_of_def ms o_def)
  moreover have "map mm_ticket (rr_mismatches r) = iter ?G @ iter ?O" by (simp add: ms o_def)
  ultimately show ?thesis using G O n ms by auto
qed

lemma iterates_sorted: "iterates sorted_list_of_set"
  by (simp add: iterates_def)

definition quiet_osm :: "int list reconciler_osm" where
  "quiet_osm = \<lparr>ro_open_tickets = Inr, ro_reject = (\<lambda>t ts. (Inr (), removeAll t ts)),
     ro_register_orphan = (\<lambda>t ts. (Inr (), ts @ [t]))\<rparr>"

lemma reconcile_example:
  "reconcile sorted_list_of_set \<lparr>rc_auto_close_ghosts = True, rc_auto_register_orphans = True\<rparr>
     (Some (Inr [Inr (Some 2), Inr (Some 3)])) (Some quiet_osm) [1, 2]
   = (\<lparr>rr_mismatches = [\<lparr>mm_ticket = 1, mm_type = GHOST\<rparr>, \<lparr>mm_ticket = 3, mm_type = ORPHAN\<rparr>],
       rr_ghosts = 1, rr_orphans = 1, rr_actions = 2\<rparr>, [2, 3])"
proof -
  have "{1, 2} - {2, 3} = {1 :: int}" "{2, 3} - {1, 2} = {3 :: int}" by auto
  then show ?thesis
    by (simp add: reconcile_def mt5_open_tickets_def osm_open_tickets_def quiet_osm_def reconcile_one_def
        empty_reconciliation_def Let_def map_filter_simps)
qed

theorem reconcile_reports_the_difference_witness:
  "osm_open_tickets (Some quiet_osm) [1, 2] - mt5_open_tickets (Some (Inr [Inr (Some 2), Inr (Some 3)])) = {1}"
  using reconcile_reports_the_difference [OF iterates_sorted reconcile_example]
  by (simp add: mismatches_of_def)

text \<open>
  When the broker cannot be read, the open tickets of the broker count as none: every ticket the
  state machine holds open is reported as a ghost and, with the default setting, rejected. One
  failed request of the gateway makes the task reject the whole book.
\<close>

theorem gateway_failure_rejects_every_open_ticket:
  assumes "iterates iter" and "rc_auto_close_ghosts rc"
    and "ro_open_tickets m s = Inr open_list" and "\<And>t s. raised (ro_reject m t s) = None"
  shows "case reconcile iter rc (Some (Inl e)) (Some m) s of (r, s') \<Rightarrow>
      set (mismatches_of GHOST r) = set open_list \<and> mismatches_of ORPHAN r = []
      \<and> rr_actions r = card (set open_list)
      \<and> s' = fold (\<lambda>t s. snd (ro_reject m t s)) (iter (set open_list)) s"
proof -
  have none: "mt5_open_tickets (Some (Inl e)) = {}" by (simp add: mt5_open_tickets_def)
  have known: "osm_open_tickets (Some m) s = set open_list" using assms(3) by (simp add: osm_open_tickets_def)
  have it: "set (iter (set open_list)) = set open_list" "distinct (iter (set open_list))" "iter {} = []"
    using assms(1) by (auto simp: iterates_def)
  have state: "snd (fold (reconcile_one GHOST True (Some (ro_reject m))) ts (r, s))
      = fold (\<lambda>t s. snd (ro_reject m t s)) ts s" for ts r s
  proof (induction ts arbitrary: r s)
    case (Cons t ts)
    have ok: "raised (ro_reject m t s) = None" by (rule assms(4))
    obtain r1 where "reconcile_one GHOST True (Some (ro_reject m)) t (r, s) = (r1, snd (ro_reject m t s))"
      using ok by (cases "ro_reject m t s") (auto simp: reconcile_one_def Let_def raised_def split: sum.splits)
    with Cons show ?case by simp
  qed simp
  let ?r = "empty_reconciliation\<lparr>rr_ghosts := card (set open_list), rr_orphans := 0\<rparr>"
  obtain r s' where pass: "fold (reconcile_one GHOST True (Some (ro_reject m))) (iter (set open_list)) (?r, s) = (r, s')"
    by (meson surj_pair)
  have "reconcile iter rc (Some (Inl e)) (Some m) s = (r, s')"
    using pass assms(2) by (simp add: reconcile_def none known it Let_def)
  moreover have "rr_mismatches r = map (\<lambda>t. \<lparr>mm_ticket = t, mm_type = GHOST\<rparr>) (iter (set open_list))"
    using reconcile_pass [OF pass] by (simp add: empty_reconciliation_def)
  note mismatches_of_map [OF this]
  moreover have "rr_actions r = card (set open_list)"
    using reconcile_pass [OF pass] assms(4) it distinct_card [OF it(2)] by (auto simp: empty_reconciliation_def)
  moreover have "s' = fold (\<lambda>t s. snd (ro_reject m t s)) (iter (set open_list)) s"
    using state [of "iter (set open_list)" ?r s] pass by simp
  ultimately show ?thesis using it by simp
qed

theorem gateway_failure_rejects_every_open_ticket_witness:
  "snd (reconcile sorted_list_of_set \<lparr>rc_auto_close_ghosts = True, rc_auto_register_orphans = True\<rparr>
     (Some (Inl TimeoutError)) (Some quiet_osm) [7, 5]) = []"
proof -
  have ok: "raised (ro_reject quiet_osm t ts) = None" for t ts by (simp add: quiet_osm_def)
  have "sorted_list_of_set {5, 7 :: int} = [5, 7]" by simp
  then show ?thesis
    using gateway_failure_rejects_every_open_ticket [where m = quiet_osm and s = "[7, 5]" and e = TimeoutError
        and rc = "\<lparr>rc_auto_close_ghosts = True, rc_auto_register_orphans = True\<rparr>" and open_list = "[7, 5]",
        OF iterates_sorted _ _ ok]
    by (auto simp: quiet_osm_def insert_commute split: prod.splits)
qed

subsection \<open>The production wiring\<close>

text \<open>
  \<open>MT5Connector.get_positions\<close> returns dataclass objects, on which \<open>"ticket" in p\<close> raises TypeError,
  and \<open>OrderStateMachine\<close> has no method \<open>get_open_tickets\<close>, so both reads end in the empty set.
\<close>

lemma production_wiring_is_blind:
  assumes "\<And>p. p \<in> set ps \<Longrightarrow> p = Inl TypeError" and "ro_open_tickets m s = Inl AttributeError" and "iterates iter"
  shows "reconcile iter rc (Some (Inr ps)) (Some m) s = (empty_reconciliation, s)"
proof -
  have "mt5_open_tickets (Some (Inr ps)) = {}"
  proof (cases ps)
    case (Cons p qs)
    then have "p = Inl TypeError" by (intro assms(1)) simp
    with Cons show ?thesis by (simp add: mt5_open_tickets_def)
  qed (simp add: mt5_open_tickets_def map_filter_simps)
  moreover have "iter {} = []" using assms(3) by (auto simp: iterates_def)
  ultimately show ?thesis using assms(2)
    by (simp add: reconcile_def osm_open_tickets_def Let_def empty_reconciliation_def)
qed

end
