(* ===== verification/Failure_Recovery.thy ===== *)
theory Failure_Recovery
  imports Contracts "HOL-Library.Multiset"
begin

section \<open>The failure recovery engine\<close>

text \<open>
  \<open>src/backend/execution/failure_recovery.py\<close>: a bounded retry queue, one loop task that retries with
  exponential backoff, and a bounded dead-letter queue. The loop suspends while it sleeps and while
  it waits for the callback, so one iteration is two steps: \<open>retry_take\<close> takes an order and starts
  its delay, \<open>retry_done\<close> runs the callback and settles the order; other calls may happen between
  them. \<open>stop\<close> cancels the loop task, and the order it was working on is gone with it. The engine is started
  by one call of \<open>start\<close> at a time. Outputs kept beside the state: the delays slept, the orders the retry callback was
  called with and those for which it answered True, and the alerts, one log line (with its reason) and one call of the alert
  callback for every dead letter.
\<close>

record failed_order =
  fo_order_id :: string
  fo_signal_id :: string
  fo_error :: string
  fo_retcode :: int
  fo_attempts :: nat
  fo_last_attempt :: "time option"

text \<open>The reasons \<open>_send_to_dead_letter\<close> is called with.\<close>

datatype dead_reason = QueueFull | MaxRetriesZero | MaxRetriesExceeded | RequeueFull | NoRetryCallback

record recovery =
  fr_max_retries :: int
  fr_base_delay :: real
  fr_max_delay :: real
  fr_has_retry :: bool
  fr_queue :: "failed_order list"
  fr_running :: bool
  fr_inflight :: "failed_order option"
  fr_dead :: "failed_order list"
  fr_alerts :: "(failed_order \<times> dead_reason) list"
  fr_delays :: "real list"
  fr_retried :: "failed_order list"
  fr_recovered :: "failed_order list"

definition retry_queue_maxsize :: nat where "retry_queue_maxsize = 200"
definition max_dead_letter :: nat where "max_dead_letter = 500"

definition new_recovery :: "int \<Rightarrow> real \<Rightarrow> real \<Rightarrow> recovery" where
  "new_recovery n base mx = \<lparr>fr_max_retries = n, fr_base_delay = base, fr_max_delay = mx,
     fr_has_retry = False, fr_queue = [], fr_running = False, fr_inflight = None, fr_dead = [],
     fr_alerts = [], fr_delays = [], fr_retried = [], fr_recovered = []\<rparr>"

definition set_retry_callback :: "recovery \<Rightarrow> recovery" where
  "set_retry_callback s = s\<lparr>fr_has_retry := True\<rparr>"

definition recovery_start :: "recovery \<Rightarrow> recovery" where
  "recovery_start s = s\<lparr>fr_running := True\<rparr>"

definition recovery_stop :: "recovery \<Rightarrow> recovery" where
  "recovery_stop s = s\<lparr>fr_running := False, fr_inflight := None\<rparr>"

definition send_to_dead_letter :: "dead_reason \<Rightarrow> failed_order \<Rightarrow> recovery \<Rightarrow> recovery" where
  "send_to_dead_letter r f s = s\<lparr>fr_dead := take_last max_dead_letter (fr_dead s @ [f]),
     fr_alerts := fr_alerts s @ [(f, r)]\<rparr>"

text \<open>\<open>q.put_nowait\<close>, None for QueueFull\<close>

definition put_nowait :: "failed_order \<Rightarrow> recovery \<Rightarrow> recovery option" where
  "put_nowait f s = (if length (fr_queue s) < retry_queue_maxsize
     then Some (s\<lparr>fr_queue := fr_queue s @ [f]\<rparr>) else None)"

definition fresh_failure :: "string \<Rightarrow> string \<Rightarrow> string \<Rightarrow> int \<Rightarrow> failed_order" where
  "fresh_failure order signal err code = \<lparr>fo_order_id = order, fo_signal_id = signal, fo_error = err,
     fo_retcode = code, fo_attempts = 0, fo_last_attempt = None\<rparr>"

text \<open>\<open>handle_failure\<close> returns whether the strategy is RETRY.\<close>

definition handle_failure :: "string \<Rightarrow> string \<Rightarrow> string \<Rightarrow> int \<Rightarrow> recovery \<Rightarrow> bool \<times> recovery" where
  "handle_failure order signal err code s =
     (let f = fresh_failure order signal err code in
      if 0 < fr_max_retries s
      then (case put_nowait f s of
              Some s' \<Rightarrow> (True, s')
            | None \<Rightarrow> (False, send_to_dead_letter QueueFull f s))
      else (False, send_to_dead_letter MaxRetriesZero f s))"

text \<open>\<open>min(base * 2 ** (attempts - 1), max_delay)\<close>\<close>

definition retry_delay :: "recovery \<Rightarrow> nat \<Rightarrow> real" where
  "retry_delay s attempts = min (fr_base_delay s * (2 ^ attempts / 2)) (fr_max_delay s)"

definition retry_take :: "recovery \<Rightarrow> recovery" where
  "retry_take s = (case fr_queue s of
      [] \<Rightarrow> s
    | f # q \<Rightarrow>
        if \<not> fr_running s \<or> fr_inflight s \<noteq> None then s
        else (let s1 = s\<lparr>fr_queue := q\<rparr> in
          if fr_max_retries s \<le> int (fo_attempts f) then send_to_dead_letter MaxRetriesExceeded f s1
          else s1\<lparr>fr_inflight := Some f, fr_delays := fr_delays s @ [retry_delay s (fo_attempts f)]\<rparr>))"

text \<open>The rest of the iteration at time \<open>w\<close>; \<open>success\<close> is the callback's answer, False when it raised.\<close>

definition retry_done :: "bool \<Rightarrow> time \<Rightarrow> recovery \<Rightarrow> recovery" where
  "retry_done success w s = (case fr_inflight s of
      None \<Rightarrow> s
    | Some f0 \<Rightarrow>
        (let f = f0\<lparr>fo_attempts := fo_attempts f0 + 1, fo_last_attempt := Some w\<rparr>;
             s1 = s\<lparr>fr_inflight := None\<rparr> in
         if fr_has_retry s
         then (let s2 = s1\<lparr>fr_retried := fr_retried s @ [f]\<rparr> in
           if success then s2\<lparr>fr_recovered := fr_recovered s @ [f]\<rparr>
           else if int (fo_attempts f) < fr_max_retries s
           then (case put_nowait f s2 of
                   Some s3 \<Rightarrow> s3
                 | None \<Rightarrow> send_to_dead_letter RequeueFull f s2)
           else send_to_dead_letter NoRetryCallback f s2)
         else send_to_dead_letter NoRetryCallback f s1))"

definition dead_letter_count :: "recovery \<Rightarrow> nat" where
  "dead_letter_count s = length (fr_dead s)"

definition queue_size :: "recovery \<Rightarrow> nat" where
  "queue_size s = length (fr_queue s)"

interpretation dead_letters: bounded_log "send_to_dead_letter r" fr_dead "\<lambda>_. max_dead_letter" for r
  by unfold_locales (simp_all add: send_to_dead_letter_def)

subsection \<open>Accounting\<close>

datatype fr_op = FrFail string string string int | FrTake | FrDone bool time | FrStart | FrStop | FrCallback

fun fr_step :: "fr_op \<Rightarrow> recovery \<Rightarrow> recovery" where
  "fr_step (FrFail order signal err code) s = snd (handle_failure order signal err code s)"
| "fr_step FrTake s = retry_take s"
| "fr_step (FrDone ok w) s = retry_done ok w s"
| "fr_step FrStart s = recovery_start s"
| "fr_step FrStop s = recovery_stop s"
| "fr_step FrCallback s = set_retry_callback s"

definition ids :: "failed_order list \<Rightarrow> string multiset" where
  "ids fs = mset (map fo_order_id fs)"

lemma ids_simps [simp]: "ids [] = {#}" "ids (f # fs) = add_mset (fo_order_id f) (ids fs)"
    "ids (fs @ gs) = ids fs + ids gs"
  by (simp_all add: ids_def)

text \<open>The orders that the engine still knows, or has brought to success.\<close>

definition kept :: "recovery \<Rightarrow> string multiset" where
  "kept s = ids (fr_queue s) + ids (case fr_inflight s of None \<Rightarrow> [] | Some f \<Rightarrow> [f]) + ids (fr_recovered s) + ids (fr_dead s)"

fun handled :: "fr_op list \<Rightarrow> string multiset" where
  "handled [] = {#}"
| "handled (FrFail order _ _ _ # ops) = add_mset order (handled ops)"
| "handled (_ # ops) = handled ops"

lemmas fr_defs = handle_failure_def retry_take_def retry_done_def recovery_start_def recovery_stop_def
  set_retry_callback_def send_to_dead_letter_def put_nowait_def Let_def

lemma ids_take_last: "ids (take_last n fs) \<subseteq># ids fs"
proof -
  have "ids fs = ids (take (length fs - n) fs) + ids (drop (length fs - n) fs)" by (simp flip: ids_simps(3))
  then show ?thesis by (simp add: take_last_def)
qed

text \<open>The dead letters after one more: none is dropped while they are below the bound.\<close>

lemma dead_letter_ids:
  "ids (take_last max_dead_letter (d @ [f])) \<subseteq># add_mset (fo_order_id f) (ids d)"
  "length (take_last max_dead_letter (d @ [f])) < max_dead_letter \<Longrightarrow> take_last max_dead_letter (d @ [f]) = d @ [f]"
  using ids_take_last [of max_dead_letter "d @ [f]"] by (simp_all add: min_def split: if_splits)

lemma kept_add: "x \<subseteq># add_mset a y \<Longrightarrow> z + x \<subseteq># add_mset a (z + y)" for z :: "string multiset"
  by (metis mset_subset_eq_mono_add_right_cancel subset_mset.add_left_mono union_mset_add_mset_right)

text \<open>\<open>s\<close> keeps nothing beyond \<open>m\<close>, and all of it while the dead letters are below their bound.\<close>

definition orders_settled :: "recovery \<Rightarrow> string multiset \<Rightarrow> bool" where
  "orders_settled s m \<longleftrightarrow> kept s \<subseteq># m \<and> (length (fr_dead s) < max_dead_letter \<longrightarrow> kept s = m)"

lemma orders_settled_refl [simp]: "orders_settled s (kept s)"
  by (simp add: orders_settled_def)

lemma dead_settled: "orders_settled (send_to_dead_letter r f s) (add_mset (fo_order_id f) (kept s))"
  unfolding orders_settled_def kept_def send_to_dead_letter_def
  using kept_add [OF dead_letter_ids(1), of "ids (fr_queue s) + ids (case fr_inflight s of None \<Rightarrow> [] | Some f \<Rightarrow> [f]) + ids (fr_recovered s)" "fr_dead s" f]
    dead_letter_ids(2) [of "fr_dead s" f] by simp

lemma put_settled: "put_nowait f s = Some s' \<Longrightarrow> kept s' = add_mset (fo_order_id f) (kept s)"
  by (auto simp: put_nowait_def kept_def split: if_splits)

lemma put_or_dead_settled: "orders_settled (case put_nowait f s of Some s' \<Rightarrow> s' | None \<Rightarrow> send_to_dead_letter r f s) (add_mset (fo_order_id f) (kept s))"
  using put_settled [of f s] dead_settled by (simp add: orders_settled_def split: option.split)

lemma fail_settled: "orders_settled (snd (handle_failure order signal err code s)) (add_mset order (kept s))"
proof -
  let ?f = "fresh_failure order signal err code"
  have "snd (handle_failure order signal err code s) = (if 0 < fr_max_retries s then case put_nowait ?f s of Some s' \<Rightarrow> s' | None \<Rightarrow> send_to_dead_letter QueueFull ?f s
      else send_to_dead_letter MaxRetriesZero ?f s)"
    by (simp add: handle_failure_def Let_def split: option.split)
  moreover have "fo_order_id ?f = order" by (simp add: fresh_failure_def)
  ultimately show ?thesis using put_or_dead_settled [of QueueFull ?f s] dead_settled [of MaxRetriesZero ?f s] by simp
qed

lemma take_settled: "orders_settled (retry_take s) (kept s)"
proof (cases "fr_queue s")
  case (Cons f q)
  have "kept s = add_mset (fo_order_id f) (kept (s\<lparr>fr_queue := q\<rparr>))" by (simp add: kept_def Cons)
  then have "orders_settled (send_to_dead_letter MaxRetriesExceeded f (s\<lparr>fr_queue := q\<rparr>)) (kept s)" using dead_settled [of MaxRetriesExceeded f "s\<lparr>fr_queue := q\<rparr>"] by simp
  moreover have "kept (s\<lparr>fr_queue := q, fr_inflight := Some f, fr_delays := ds\<rparr>) = kept s" if "fr_inflight s = None" for ds using that by (simp add: kept_def Cons)
  ultimately show ?thesis by (simp add: retry_take_def Cons Let_def orders_settled_def)
qed (simp add: retry_take_def)

lemma done_settled: "orders_settled (retry_done success w s) (kept s)"
proof (cases "fr_inflight s")
  case (Some f0)
  define f where "f = f0\<lparr>fo_attempts := fo_attempts f0 + 1, fo_last_attempt := Some w\<rparr>"
  define s1 where "s1 = s\<lparr>fr_inflight := None\<rparr>"
  define s2 where "s2 = s1\<lparr>fr_retried := fr_retried s @ [f]\<rparr>"
  have k: "kept s = add_mset (fo_order_id f) (kept s1)" "kept s2 = kept s1" by (simp_all add: kept_def Some f_def s1_def s2_def)
  have "kept (s2\<lparr>fr_recovered := fr_recovered s @ [f]\<rparr>) = kept s" by (simp add: kept_def Some f_def s1_def s2_def)
  then have "orders_settled (s2\<lparr>fr_recovered := fr_recovered s @ [f]\<rparr>) (kept s)" by (simp add: orders_settled_def)
  then show ?thesis using put_or_dead_settled [of RequeueFull f s2] dead_settled [of NoRetryCallback f s2] dead_settled [of NoRetryCallback f s1]
    unfolding retry_done_def Some Let_def option.case f_def [symmetric] s1_def [symmetric] s2_def [symmetric] k by simp
qed (simp add: retry_done_def)

lemma step_settled: "orders_settled (fr_step e s) (kept s + handled [e]) \<or> e = FrStop"
proof (cases e)
  case (FrFail order signal err code)
  then show ?thesis using fail_settled [of order signal err code s] by simp
qed (simp_all add: take_settled done_settled, simp_all add: orders_settled_def kept_def recovery_start_def set_retry_callback_def)

lemma stop_kept: "kept (recovery_stop s) \<subseteq># kept s"
  by (simp add: kept_def recovery_stop_def)

lemma dead_below: "length (fr_dead (fr_step e s)) < max_dead_letter \<Longrightarrow> length (fr_dead s) < max_dead_letter"
  by (cases e) (auto simp: fr_defs split: list.splits option.splits if_splits)

lemma handled_snoc: "handled (ops @ [e]) = handled ops + handled [e]"
proof (induction ops)
  case (Cons a ops)
  then show ?case by (cases a) simp_all
qed simp

lemma run_settled:
  "kept (fold fr_step ops (new_recovery n base mx)) \<subseteq># handled ops
   \<and> (FrStop \<notin> set ops \<and> length (fr_dead (fold fr_step ops (new_recovery n base mx))) < max_dead_letter
        \<longrightarrow> kept (fold fr_step ops (new_recovery n base mx)) = handled ops)"
proof (induction ops rule: rev_induct)
  case (snoc e ops)
  let ?s = "fold fr_step ops (new_recovery n base mx)"
  have "kept (fr_step e ?s) \<subseteq># kept ?s + handled [e]"
    using step_settled [of e ?s] stop_kept [of ?s] by (auto simp: orders_settled_def)
  then have "kept (fr_step e ?s) \<subseteq># handled ops + handled [e]" using snoc.IH by (meson subset_mset.add_right_mono subset_mset.order_trans)
  moreover have "kept (fr_step e ?s) = handled ops + handled [e]"
    if "FrStop \<notin> set (ops @ [e])" "length (fr_dead (fr_step e ?s)) < max_dead_letter"
    using that snoc.IH dead_below [OF that(2)] step_settled [of e ?s] by (auto simp: orders_settled_def)
  ultimately show ?case by (simp add: handled_snoc)
qed (simp add: kept_def new_recovery_def)

definition fr_inv :: "recovery \<Rightarrow> bool" where
  "fr_inv s \<longleftrightarrow> length (fr_queue s) \<le> retry_queue_maxsize
     \<and> fr_dead s = take_last max_dead_letter (map fst (fr_alerts s))
     \<and> (\<forall>f \<in> set (fr_queue s) \<union> set_option (fr_inflight s). int (fo_attempts f) < fr_max_retries s)
     \<and> (\<forall>f \<in> set (fr_retried s). int (fo_attempts f) \<le> fr_max_retries s)"

lemma dead_snoc:
  "d = take_last n l \<Longrightarrow> take_last n (d @ [f]) = take_last n (l @ [f])"
  by (simp add: take_last_append_same)

lemma fr_inv_step: "fr_inv s \<Longrightarrow> fr_inv (fr_step e s)"
  by (cases e)
     (auto simp: fr_defs fr_inv_def fresh_failure_def dead_snoc split: list.split option.split)

interpretation recovery_machine: guarded_state fr_step fr_inv
  by unfold_locales (rule fr_inv_step)

text \<open>
  C11: however the calls interleave, the engine invents and duplicates nothing: the orders it has queued, is retrying, has brought to
  success or holds as dead letters are, with multiplicity, among those handed to it. As long as it was not stopped and the
  dead-letter queue is not full, they are all of them. The queue keeps its bound, the dead-letter queue holds the newest of the
  orders that were reported dead, and no order is retried more than \<open>max_retries\<close> times.
\<close>

theorem recovery_accounts_for_every_order:
  "let s = fold fr_step ops (new_recovery n base mx);
       known = mset (map fo_order_id (fr_queue s @ (case fr_inflight s of None \<Rightarrow> [] | Some f \<Rightarrow> [f]) @ fr_recovered s @ fr_dead s)) in
     known \<subseteq># handled ops \<and> (FrStop \<notin> set ops \<and> length (fr_dead s) < 500 \<longrightarrow> known = handled ops)
     \<and> length (fr_queue s) \<le> 200 \<and> fr_dead s = take_last 500 (map fst (fr_alerts s))
     \<and> list_all (\<lambda>f. int (fo_attempts f) \<le> fr_max_retries s) (fr_retried s)"
proof -
  have "fr_inv (fold fr_step ops (new_recovery n base mx))"
    by (rule recovery_machine.run_good)
       (simp add: fr_inv_def new_recovery_def retry_queue_maxsize_def)
  moreover have "kept s = mset (map fo_order_id (fr_queue s @ (case fr_inflight s of None \<Rightarrow> [] | Some f \<Rightarrow> [f]) @ fr_recovered s @ fr_dead s))" for s
    by (simp add: kept_def ids_def ac_simps)
  ultimately show ?thesis using run_settled [of ops n base mx]
    by (simp add: Let_def fr_inv_def list_all_iff retry_queue_maxsize_def max_dead_letter_def)
qed

theorem recovery_accounts_for_every_order_witness:
  "let ops = [FrCallback, FrStart, FrFail ''o1'' ''s1'' ''requote'' 10004, FrFail ''o2'' ''s2'' ''timeout'' 10012, FrTake, FrDone False 5, FrTake, FrDone True 9];
       s = fold fr_step ops (new_recovery 1 2 30) in
     {#''o1'', ''o2''#} = handled ops \<and> map fo_order_id (fr_recovered s) = [''o2''] \<and> map fo_order_id (fr_dead s) = [''o1'']
     \<and> mset (map fo_order_id (fr_queue s @ (case fr_inflight s of None \<Rightarrow> [] | Some f \<Rightarrow> [f]) @ fr_recovered s @ fr_dead s)) = handled ops"
proof -
  let ?ops = "[FrCallback, FrStart, FrFail ''o1'' ''s1'' ''requote'' 10004, FrFail ''o2'' ''s2'' ''timeout'' 10012, FrTake, FrDone False 5, FrTake, FrDone True 9]"
  have s: "map fo_order_id (fr_recovered (fold fr_step ?ops (new_recovery 1 2 30))) = [''o2'']"
    "map fo_order_id (fr_dead (fold fr_step ?ops (new_recovery 1 2 30))) = [''o1'']"
    by (simp_all add: fr_defs new_recovery_def fresh_failure_def retry_queue_maxsize_def max_dead_letter_def take_last_def)
  then have "length (fr_dead (fold fr_step ?ops (new_recovery 1 2 30))) = 1" by (metis length_map length_Cons list.size(3) One_nat_def)
  then show ?thesis using recovery_accounts_for_every_order [of ?ops 1 2 30] s unfolding Let_def by (simp del: fold.simps fold_simps)
qed

text \<open>An order whose retry is running when the engine is stopped is known to nobody afterwards.\<close>

lemma stop_loses_the_running_order:
  "fr_inflight s = Some f \<Longrightarrow> kept s = add_mset (fo_order_id f) (kept (recovery_stop s))"
  by (simp add: kept_def recovery_stop_def)

subsection \<open>The backoff schedule\<close>

text \<open>\<open>k\<close> iterations of the loop in which the callback fails.\<close>

definition failing_rounds :: "nat \<Rightarrow> time \<Rightarrow> fr_op list" where
  "failing_rounds k w = concat (replicate k [FrTake, FrDone False w])"

lemma failing_rounds_Suc: "failing_rounds (Suc k) w = FrTake # FrDone False w # failing_rounds k w"
  by (simp add: failing_rounds_def)

lemma failing_rounds_run:
  assumes "fr_queue s = [f]" "fr_inflight s = None" "fr_running s" "fr_has_retry s"
    and "int (fo_attempts f + Suc k) = fr_max_retries s"
  shows "\<exists>s' f'. fold fr_step (failing_rounds (Suc k) w) s = s' \<and> fr_queue s' = [] \<and> fr_inflight s' = None
    \<and> fo_order_id f' = fo_order_id f \<and> fo_attempts f' = fo_attempts f + Suc k
    \<and> fr_alerts s' = fr_alerts s @ [(f', NoRetryCallback)]
    \<and> fr_delays s' = fr_delays s @ map (retry_delay s) [fo_attempts f ..< fo_attempts f + Suc k]
    \<and> length (fr_retried s') = length (fr_retried s) + Suc k \<and> fr_recovered s' = fr_recovered s"
  using assms
proof (induction k arbitrary: s f)
  case 0
  then show ?case
    by (simp add: failing_rounds_Suc) (simp add: failing_rounds_def fr_defs retry_delay_def)
next
  case (Suc k)
  let ?f = "f\<lparr>fo_attempts := fo_attempts f + 1, fo_last_attempt := Some w\<rparr>"
  let ?s = "s\<lparr>fr_queue := [?f], fr_delays := fr_delays s @ [retry_delay s (fo_attempts f)],
      fr_retried := fr_retried s @ [?f]\<rparr>"
  have step: "fr_step (FrDone False w) (fr_step FrTake s) = ?s"
    using Suc.prems by (simp add: fr_defs retry_queue_maxsize_def)
  have delay: "retry_delay ?s = retry_delay s" by (simp add: retry_delay_def [abs_def])
  have run: "fold fr_step (failing_rounds (Suc (Suc k)) w) s = fold fr_step (failing_rounds (Suc k) w) ?s"
    by (subst failing_rounds_Suc) (simp add: step del: fr_step.simps)
  have upt: "[fo_attempts f ..< fo_attempts f + Suc (Suc k)]
      = fo_attempts f # [fo_attempts ?f ..< fo_attempts ?f + Suc k]"
    using upt_conv_Cons [of "fo_attempts f" "fo_attempts f + Suc (Suc k)"] by (simp del: upt_Suc)
  have IH: "\<exists>s' f'. fold fr_step (failing_rounds (Suc k) w) ?s = s' \<and> fr_queue s' = [] \<and> fr_inflight s' = None
    \<and> fo_order_id f' = fo_order_id ?f \<and> fo_attempts f' = fo_attempts ?f + Suc k
    \<and> fr_alerts s' = fr_alerts ?s @ [(f', NoRetryCallback)]
    \<and> fr_delays s' = fr_delays ?s @ map (retry_delay ?s) [fo_attempts ?f ..< fo_attempts ?f + Suc k]
    \<and> length (fr_retried s') = length (fr_retried ?s) + Suc k \<and> fr_recovered s' = fr_recovered ?s"
    by (rule Suc.IH) (use Suc.prems in simp_all)
  then obtain f' where "fo_order_id f' = fo_order_id f" "fo_attempts f' = fo_attempts f + Suc (Suc k)"
    "fr_alerts (fold fr_step (failing_rounds (Suc k) w) ?s) = fr_alerts s @ [(f', NoRetryCallback)]"
    by (auto simp del: upt_Suc)
  with IH show ?case
    unfolding run upt delay by (intro exI [of _ "fold fr_step (failing_rounds (Suc k) w) ?s"] exI [of _ f'])
      (auto simp del: upt_Suc)
qed

text \<open>
  An order whose retries all fail is retried exactly \<open>max_retries\<close> times, after delays of
  \<open>base/2, base, 2*base, ...\<close> capped at \<open>max_delay\<close> (the first delay is half the base delay), and
  then goes to the dead letters with the reason "no retry callback", although the callback is set.
\<close>

theorem recovery_retry_schedule:
  assumes "0 < n"
  shows "\<exists>f. let s = fold fr_step (FrCallback # FrStart # FrFail order signal err code # failing_rounds n w)
       (new_recovery (int n) base mx) in
     fr_alerts s = [(f, NoRetryCallback)] \<and> fo_order_id f = order \<and> fo_attempts f = n
     \<and> length (fr_retried s) = n \<and> fr_queue s = []
     \<and> fr_delays s = map (\<lambda>k. min (base / 2 * 2 ^ k) mx) [0 ..< n]"
proof -
  obtain k where k: "n = Suc k" using assms gr0_implies_Suc by blast
  let ?s = "fold fr_step [FrCallback, FrStart, FrFail order signal err code] (new_recovery (int n) base mx)"
  have s: "fr_queue ?s = [fresh_failure order signal err code]" "fr_inflight ?s = None" "fr_running ?s"
      "fr_has_retry ?s" "fr_max_retries ?s = int n" "fr_alerts ?s = []" "fr_delays ?s = []"
      "fr_retried ?s = []" "retry_delay ?s = (\<lambda>j. min (base / 2 * 2 ^ j) mx)"
    using k by (auto simp: fr_defs new_recovery_def retry_queue_maxsize_def retry_delay_def fun_eq_iff)
  have "fold fr_step (FrCallback # FrStart # FrFail order signal err code # failing_rounds n w)
      (new_recovery (int n) base mx) = fold fr_step (failing_rounds n w) ?s" by simp
  moreover have "fo_attempts (fresh_failure order signal err code) = 0"
      "fo_order_id (fresh_failure order signal err code) = order"
    by (simp_all add: fresh_failure_def)
  ultimately show ?thesis
    using failing_rounds_run [of ?s "fresh_failure order signal err code" k w] s k
    by (auto simp: Let_def simp del: fold.simps fr_step.simps)
qed

theorem recovery_retry_schedule_witness:
  "\<exists>f. let s = fold fr_step (FrCallback # FrStart # FrFail ''o1'' ''s1'' ''requote'' 10004 # failing_rounds 3 9)
       (new_recovery 3 2 30) in
     fr_alerts s = [(f, NoRetryCallback)] \<and> fo_attempts f = 3 \<and> fr_delays s = [1, 2, 4]"
  using recovery_retry_schedule [of 3 "''o1''" "''s1''" "''requote''" 10004 9 2 30]
  by (auto simp: Let_def upt_rec simp del: fold.simps fr_step.simps)

end
