(* ===== verification/Order_Journal.thy ===== *)
theory Order_Journal
  imports Contracts
begin

section \<open>The order journal\<close>

text \<open>
  \<open>src/backend/execution/order_journal.py\<close>: an append-only ring buffer of lifecycle events with
  queries and statistics. The frozen dataclass is the record \<open>journal_entry\<close>, an absent field is
  None. \<open>record_*\<close> take the entry's fresh id and time as \<open>eid\<close> and \<open>w\<close>; their \<open>**kw\<close> is \<open>kw\<close>, an
  update of the other fields. Persisting is a task created by \<open>record\<close> and run later, here the
  separate operation \<open>persist_entry\<close>.
\<close>

datatype journal_event =
    SIGNAL_RECEIVED | RISK_ASSESSED | RISK_BLOCKED | ORDER_SUBMITTED | ORDER_REJECTED | ORDER_FILLED
  | ORDER_PARTIAL | ORDER_CANCELLED | POSITION_CLOSED | RETRY_QUEUED | RETRY_EXECUTED | DEAD_LETTERED
  | CIRCUIT_OPENED | SLIPPAGE_RECORDED | JOURNAL_ERROR

record journal_entry =
  je_id :: string
  je_event :: journal_event
  je_time :: time
  je_signal_id :: "string option"
  je_order_id :: "string option"
  je_ticket :: "int option"
  je_user_id :: "string option"
  je_symbol :: "string option"
  je_direction :: "string option"
  je_lot_size :: "real option"
  je_price :: "real option"
  je_stop_loss :: "real option"
  je_take_profit :: "real option"
  je_risk_allowed :: "bool option"
  je_risk_reason :: "string option"
  je_pip_value_used :: "real option"
  je_fill_price :: "real option"
  je_fill_volume :: "real option"
  je_fill_latency_ms :: "real option"
  je_requested_price :: "real option"
  je_slippage_pips :: "real option"
  je_slippage_usd :: "real option"
  je_close_price :: "real option"
  je_close_reason :: "string option"
  je_pnl_usd :: "real option"
  je_duration_s :: "real option"
  je_breaker_name :: "string option"
  je_error_message :: "string option"
  je_error_type :: "string option"

definition blank_entry :: "string \<Rightarrow> journal_event \<Rightarrow> time \<Rightarrow> journal_entry" where
  "blank_entry eid ev w = \<lparr>je_id = eid, je_event = ev, je_time = w, je_signal_id = None, je_order_id = None,
     je_ticket = None, je_user_id = None, je_symbol = None, je_direction = None, je_lot_size = None,
     je_price = None, je_stop_loss = None, je_take_profit = None, je_risk_allowed = None,
     je_risk_reason = None, je_pip_value_used = None, je_fill_price = None, je_fill_volume = None,
     je_fill_latency_ms = None, je_requested_price = None, je_slippage_pips = None,
     je_slippage_usd = None, je_close_price = None, je_close_reason = None, je_pnl_usd = None,
     je_duration_s = None, je_breaker_name = None, je_error_message = None, je_error_type = None\<rparr>"

record order_journal =
  jr_entries :: "journal_entry list"
  jr_max :: nat
  jr_persist :: bool
  jr_pending :: "journal_entry list"
  jr_recorded :: nat
  jr_persisted :: nat
  jr_persist_errors :: nat

definition new_journal :: "nat \<Rightarrow> bool \<Rightarrow> order_journal" where
  "new_journal mx persist = \<lparr>jr_entries = [], jr_max = mx, jr_persist = persist, jr_pending = [],
     jr_recorded = 0, jr_persisted = 0, jr_persist_errors = 0\<rparr>"

definition get_order_journal :: "order_journal option \<Rightarrow> order_journal \<times> order_journal option" where
  "get_order_journal g = (case g of None \<Rightarrow> (new_journal 10000 False, Some (new_journal 10000 False))
     | Some j \<Rightarrow> (j, g))"

subsection \<open>Recording\<close>

definition jr_record :: "journal_entry \<Rightarrow> order_journal \<Rightarrow> order_journal" where
  "jr_record e j = j\<lparr>jr_entries := take_last (jr_max j) (jr_entries j @ [e]),
     jr_recorded := jr_recorded j + 1,
     jr_pending := jr_pending j @ (if jr_persist j then [e] else [])\<rparr>"

text \<open>\<open>_persist_entry\<close>, with whether the callback succeeds.\<close>

definition persist_entry :: "bool \<Rightarrow> order_journal \<Rightarrow> order_journal" where
  "persist_entry ok j = (case jr_pending j of [] \<Rightarrow> j | _ # es \<Rightarrow>
     if ok then j\<lparr>jr_pending := es, jr_persisted := jr_persisted j + 1\<rparr>
     else j\<lparr>jr_pending := es, jr_persist_errors := jr_persist_errors j + 1\<rparr>)"

text \<open>\<open>x or None\<close>\<close>

definition or_none :: "real \<Rightarrow> real option" where
  "or_none x = (if x = 0 then None else Some x)"

definition str_or_none :: "string \<Rightarrow> string option" where
  "str_or_none s = (if s = [] then None else Some s)"

type_synonym entry_kw = "journal_entry \<Rightarrow> journal_entry"

definition record_signal_received :: "string \<Rightarrow> time \<Rightarrow> string \<Rightarrow> string \<Rightarrow> string \<Rightarrow> entry_kw \<Rightarrow> order_journal \<Rightarrow> order_journal" where
  "record_signal_received eid w signal symbol dir kw = jr_record
     (kw ((blank_entry eid SIGNAL_RECEIVED w)\<lparr>je_signal_id := Some signal, je_symbol := Some symbol,
       je_direction := Some dir\<rparr>))"

definition record_risk_assessed :: "string \<Rightarrow> time \<Rightarrow> string \<Rightarrow> bool \<Rightarrow> real \<Rightarrow> string \<Rightarrow> real \<Rightarrow> entry_kw \<Rightarrow> order_journal \<Rightarrow> order_journal" where
  "record_risk_assessed eid w signal approved lot reason pip kw = jr_record
     (kw ((blank_entry eid (if approved then RISK_ASSESSED else RISK_BLOCKED) w)\<lparr>je_signal_id := Some signal,
       je_risk_allowed := Some approved, je_lot_size := Some lot, je_risk_reason := str_or_none reason,
       je_pip_value_used := or_none pip\<rparr>))"

definition record_order_submitted :: "string \<Rightarrow> time \<Rightarrow> string \<Rightarrow> string \<Rightarrow> string \<Rightarrow> string \<Rightarrow> real \<Rightarrow> real \<Rightarrow> real \<Rightarrow> real
    \<Rightarrow> entry_kw \<Rightarrow> order_journal \<Rightarrow> order_journal" where
  "record_order_submitted eid w signal order symbol dir lot price sl tp kw = jr_record
     (kw ((blank_entry eid ORDER_SUBMITTED w)\<lparr>je_signal_id := Some signal, je_order_id := Some order,
       je_symbol := Some symbol, je_direction := Some dir, je_lot_size := Some lot, je_price := Some price,
       je_stop_loss := or_none sl, je_take_profit := or_none tp\<rparr>))"

definition fill_slippage :: "real \<Rightarrow> real \<Rightarrow> real \<Rightarrow> real \<Rightarrow> real \<times> real" where
  "fill_slippage fill_price fill_volume requested pip_value =
     (if requested \<noteq> 0 \<and> fill_price \<noteq> 0 \<and> pip_value \<noteq> 0
      then (let pips = \<bar>fill_price - requested\<bar> / (1 / 10000) in (pips, pips * pip_value * fill_volume))
      else (0, 0))"

definition record_fill :: "string \<Rightarrow> time \<Rightarrow> string \<Rightarrow> string \<Rightarrow> int \<Rightarrow> real \<Rightarrow> real \<Rightarrow> real \<Rightarrow> real \<Rightarrow> real
    \<Rightarrow> entry_kw \<Rightarrow> order_journal \<Rightarrow> order_journal" where
  "record_fill eid w signal order ticket fill_price fill_volume requested pip_value latency kw =
     (case fill_slippage fill_price fill_volume requested pip_value of (pips, usd) \<Rightarrow> jr_record
       (kw ((blank_entry eid ORDER_FILLED w)\<lparr>je_signal_id := Some signal, je_order_id := Some order,
         je_ticket := Some ticket, je_fill_price := Some fill_price, je_fill_volume := Some fill_volume,
         je_requested_price := or_none requested, je_slippage_pips := or_none (py_round 2 pips),
         je_slippage_usd := or_none (py_round 4 usd), je_fill_latency_ms := or_none latency\<rparr>)))"

definition record_close :: "string \<Rightarrow> time \<Rightarrow> string \<Rightarrow> string \<Rightarrow> int \<Rightarrow> real \<Rightarrow> real \<Rightarrow> string \<Rightarrow> real
    \<Rightarrow> entry_kw \<Rightarrow> order_journal \<Rightarrow> order_journal" where
  "record_close eid w signal order ticket price pnl reason duration kw = jr_record
     (kw ((blank_entry eid POSITION_CLOSED w)\<lparr>je_signal_id := Some signal, je_order_id := Some order,
       je_ticket := Some ticket, je_close_price := Some price, je_pnl_usd := Some (py_round 2 pnl),
       je_close_reason := str_or_none reason, je_duration_s := or_none duration\<rparr>))"

definition record_circuit_open :: "string \<Rightarrow> time \<Rightarrow> string \<Rightarrow> string \<Rightarrow> string option \<Rightarrow> order_journal \<Rightarrow> order_journal" where
  "record_circuit_open eid w breaker reason signal = jr_record
     ((blank_entry eid CIRCUIT_OPENED w)\<lparr>je_signal_id := signal, je_breaker_name := Some breaker,
       je_error_message := Some reason\<rparr>)"

definition record_error :: "string \<Rightarrow> time \<Rightarrow> string \<Rightarrow> string \<Rightarrow> string option \<Rightarrow> string option \<Rightarrow> entry_kw \<Rightarrow> order_journal \<Rightarrow> order_journal" where
  "record_error eid w msg cls signal order kw = jr_record
     (kw ((blank_entry eid JOURNAL_ERROR w)\<lparr>je_signal_id := signal, je_order_id := order,
       je_error_message := Some msg, je_error_type := Some cls\<rparr>))"

subsection \<open>Queries\<close>

text \<open>\<open>xs[:limit]\<close> with a possibly negative limit.\<close>

definition py_head :: "int \<Rightarrow> 'a list \<Rightarrow> 'a list" where
  "py_head n xs = (if 0 \<le> n then take (nat n) xs else take (length xs - nat (- n)) xs)"

definition get_by_signal :: "string \<Rightarrow> order_journal \<Rightarrow> journal_entry list" where
  "get_by_signal s j = filter (\<lambda>e. je_signal_id e = Some s) (jr_entries j)"

definition get_by_order :: "string \<Rightarrow> order_journal \<Rightarrow> journal_entry list" where
  "get_by_order s j = filter (\<lambda>e. je_order_id e = Some s) (jr_entries j)"

definition get_by_ticket :: "int \<Rightarrow> order_journal \<Rightarrow> journal_entry list" where
  "get_by_ticket t j = filter (\<lambda>e. je_ticket e = Some t) (jr_entries j)"

definition get_by_symbol :: "string \<Rightarrow> int \<Rightarrow> order_journal \<Rightarrow> journal_entry list" where
  "get_by_symbol s limit j = py_head limit (filter (\<lambda>e. je_symbol e = Some (py_upper s)) (rev (jr_entries j)))"

definition get_by_event_type :: "journal_event \<Rightarrow> int \<Rightarrow> order_journal \<Rightarrow> journal_entry list" where
  "get_by_event_type ev limit j = py_head limit (filter (\<lambda>e. je_event e = ev) (rev (jr_entries j)))"

definition get_recent :: "int \<Rightarrow> order_journal \<Rightarrow> journal_entry list" where
  "get_recent limit j = py_head limit (rev (jr_entries j))"

record journal_stats =
  js_total_entries :: nat
  js_buffer_size :: nat
  js_fills :: nat
  js_closes :: nat
  js_blocked :: nat
  js_errors :: nat
  js_persisted :: nat
  js_persist_errors :: nat
  js_trades :: nat
  js_wins :: nat
  js_win_rate :: real
  js_net_usd :: real
  js_avg_usd :: real
  js_avg_pips :: real
  js_max_pips :: real
  js_avg_ms :: real
  js_max_ms :: real

definition events_of :: "journal_event \<Rightarrow> order_journal \<Rightarrow> journal_entry list" where
  "events_of ev j = filter (\<lambda>e. je_event e = ev) (jr_entries j)"

text \<open>\<open>round(sum(xs) / len(xs), n)\<close> and \<open>round(max(xs), n)\<close>, 0.0 for an empty list.\<close>

definition rounded_mean :: "nat \<Rightarrow> real list \<Rightarrow> real" where
  "rounded_mean n xs = (if xs = [] then 0 else py_round n (sum_list xs / length xs))"

definition rounded_max :: "nat \<Rightarrow> real list \<Rightarrow> real" where
  "rounded_max n xs = (if xs = [] then 0 else py_round n (Max (set xs)))"

definition journal_statistics :: "order_journal \<Rightarrow> journal_stats" where
  "journal_statistics j =
     (let fills = events_of ORDER_FILLED j; closes = events_of POSITION_CLOSED j;
          pnl = List.map_filter je_pnl_usd closes; slip = List.map_filter je_slippage_pips fills;
          lat = List.map_filter je_fill_latency_ms fills; wins = filter (\<lambda>p. 0 < p) pnl; n = length pnl in
      \<lparr>js_total_entries = jr_recorded j, js_buffer_size = length (jr_entries j), js_fills = length fills,
       js_closes = length closes, js_blocked = length (events_of RISK_BLOCKED j),
       js_errors = length (events_of JOURNAL_ERROR j), js_persisted = jr_persisted j,
       js_persist_errors = jr_persist_errors j, js_trades = n, js_wins = length wins,
       js_win_rate = (if n \<noteq> 0 then py_round 1 (real (length wins) / real n * 100) else 0),
       js_net_usd = (if pnl \<noteq> [] then py_round 2 (sum_list pnl) else 0),
       js_avg_usd = (if n \<noteq> 0 then py_round 2 (sum_list pnl / real n) else 0),
       js_avg_pips = rounded_mean 2 slip, js_max_pips = rounded_max 2 slip,
       js_avg_ms = rounded_mean 1 lat, js_max_ms = rounded_max 1 lat\<rparr>)"

subsection \<open>The ring buffer\<close>

lemma new_journal_sel [simp]:
  "jr_entries (new_journal mx p) = []" "jr_max (new_journal mx p) = mx" "jr_persist (new_journal mx p) = p"
  "jr_pending (new_journal mx p) = []" "jr_recorded (new_journal mx p) = 0"
  by (simp_all add: new_journal_def)

interpretation journal_log: bounded_log jr_record jr_entries jr_max
  by unfold_locales (simp_all add: jr_record_def)

lemma jr_recorded_all: "jr_recorded (fold jr_record es j) = jr_recorded j + length es"
  by (induction es arbitrary: j) (simp_all add: jr_record_def)

lemma jr_pending_all: "jr_pending (fold jr_record es j) = jr_pending j @ (if jr_persist j then es else [])"
proof (induction es arbitrary: j)
  case (Cons e es)
  have "jr_persist (jr_record e j) = jr_persist j" by (simp add: jr_record_def)
  with Cons [of "jr_record e j"] show ?case by (simp add: jr_record_def)
qed simp

text \<open>
  After any recordings a new journal holds exactly the newest \<open>max_entries\<close> entries in order of
  recording, unchanged; the total counts all of them, and each one is handed to the persistence
  callback once when there is one.
\<close>

theorem journal_holds_the_newest:
  "let j = fold jr_record es (new_journal mx persist) in
     jr_entries j = take_last mx es \<and> jr_recorded j = length es
     \<and> jr_pending j = (if persist then es else [])"
  using journal_log.items_push_all [of "new_journal mx persist" es]
  by (simp add: journal_log.fits_def jr_recorded_all jr_pending_all Let_def)

subsection \<open>Statistics\<close>

lemma mean_le_max: "xs \<noteq> [] \<Longrightarrow> sum_list xs / real (length xs) \<le> Max (set xs)" for xs :: "real list"
proof -
  assume "xs \<noteq> []"
  have "sum_list xs \<le> real (length ys) * m" if "ys = xs" "\<forall>x \<in> set xs. x \<le> m" for m ys
    using that(2) unfolding that(1) by (induction xs) (auto simp: algebra_simps)
  from this [of xs "Max (set xs)"] have "sum_list xs \<le> real (length xs) * Max (set xs)" by simp
  with \<open>xs \<noteq> []\<close> show ?thesis by (simp add: divide_le_eq mult.commute)
qed

lemma rounded_mean_le_max: "rounded_mean n xs \<le> rounded_max n xs"
  by (simp add: rounded_mean_def rounded_max_def py_round_mono mean_le_max)

lemma length_map_filter_le: "length (List.map_filter f xs) \<le> length xs"
  by (simp add: List.map_filter_def)

lemma events_disjoint:
  "length (events_of ORDER_FILLED j) + length (events_of POSITION_CLOSED j) + length (events_of RISK_BLOCKED j)
     + length (events_of JOURNAL_ERROR j) \<le> length (jr_entries j)"
proof -
  have "length (filter (\<lambda>e. je_event e = ORDER_FILLED) es) + length (filter (\<lambda>e. je_event e = POSITION_CLOSED) es)
     + length (filter (\<lambda>e. je_event e = RISK_BLOCKED) es) + length (filter (\<lambda>e. je_event e = JOURNAL_ERROR) es)
     \<le> length es" for es
    by (induction es) auto
  then show ?thesis by (simp add: events_of_def)
qed

text \<open>
  The statistics of any journal are consistent: the win rate is a percentage, the wins are at
  most the trades and the trades at most the closes, the event counts fit in the buffer, and each
  rounded average is at most the rounded maximum of the same values.
\<close>

theorem journal_statistics_consistent:
  "let s = journal_statistics j in
     0 \<le> js_win_rate s \<and> js_win_rate s \<le> 100 \<and> js_wins s \<le> js_trades s \<and> js_trades s \<le> js_closes s
     \<and> js_fills s + js_closes s + js_blocked s + js_errors s \<le> js_buffer_size s
     \<and> js_avg_pips s \<le> js_max_pips s \<and> js_avg_ms s \<le> js_max_ms s"
proof -
  let ?pnl = "List.map_filter je_pnl_usd (events_of POSITION_CLOSED j)"
  let ?w = "filter (\<lambda>p. 0 < p) ?pnl"
  have "real (length ?w) \<le> real (length ?pnl)" using length_filter_le by simp
  then have rate: "?pnl \<noteq> [] \<Longrightarrow> real (length ?w) / real (length ?pnl) * 100 \<le> of_int 1000 / 10 ^ 1"
    by (simp add: divide_le_eq)
  have "?pnl \<noteq> [] \<Longrightarrow> py_round 1 (real (length ?w) / real (length ?pnl) * 100) \<le> 100"
    using py_round_le [OF rate] by simp
  then show ?thesis
    using events_disjoint [of j]
    by (simp add: journal_statistics_def Let_def rounded_mean_le_max py_round_nonneg length_map_filter_le)
qed

end
