(* ===== verification/Semi_Auto.thy ===== *)
theory Semi_Auto
  imports Json
begin

section \<open>Semi-automatic execution\<close>

text \<open>
  \<open>src/backend/execution/semi_auto.py\<close>: runs a signal the trader approved. Risk manager, connector and
  state machine are injected and may be missing; they act on an environment \<open>'c\<close>. The risk
  manager answers a decoded dictionary, the connector one with the ticket.
\<close>

record semi_signal =
  sa_signal_id :: string
  sa_symbol :: string
  sa_action :: string
  sa_entry_price :: real
  sa_stop_loss :: real
  sa_take_profit_1 :: real
  sa_take_profit_2 :: real
  sa_lot_size :: real
  sa_risk_percent :: real
  sa_rr_ratio :: real
  sa_confidence :: real

text \<open>The keyword arguments of the connector call.\<close>

record semi_order =
  so_symbol :: string
  so_order_type :: string
  so_volume :: real
  so_price :: real
  so_sl :: real
  so_tp :: real
  so_comment :: string

datatype semi_error = SaReason json | SaNoConnector | SaException exc

record semi_result =
  sr_success :: bool
  sr_ticket :: json
  sr_error :: "semi_error option"

record 'c semi_deps =
  sd_risk :: "(semi_signal \<Rightarrow> exc + json) option"
  sd_place :: "(semi_order \<Rightarrow> 'c \<Rightarrow> (json, 'c) outcome) option"
  sd_transition :: "(json \<Rightarrow> 'c \<Rightarrow> (unit, 'c) outcome) option"

definition semi_failed :: "semi_error \<Rightarrow> semi_result" where
  "semi_failed e = \<lparr>sr_success = False, sr_ticket = JNull, sr_error = Some e\<rparr>"

definition semi_order_of :: "semi_signal \<Rightarrow> semi_order" where
  "semi_order_of sg = \<lparr>so_symbol = sa_symbol sg,
     so_order_type = (if sa_action sg = ''buy'' then ''ORDER_TYPE_BUY'' else ''ORDER_TYPE_SELL''),
     so_volume = sa_lot_size sg, so_price = sa_entry_price sg, so_sl = sa_stop_loss sg,
     so_tp = sa_take_profit_1 sg, so_comment = ''semi_auto:'' @ take 8 (sa_signal_id sg)\<rparr>"

text \<open>The risk pre-flight: an exception, a reason to refuse, or None to go on.\<close>

definition semi_preflight :: "(semi_signal \<Rightarrow> exc + json) option \<Rightarrow> semi_signal \<Rightarrow> exc + semi_error option" where
  "semi_preflight risk sg = (case risk of
      None \<Rightarrow> Inr None
    | Some check \<Rightarrow> (case check sg of
        Inl e \<Rightarrow> Inl e
      | Inr res \<Rightarrow> (case json_members res of
          Inl e \<Rightarrow> Inl e
        | Inr ms \<Rightarrow> Inr (if json_truthy (jget ''approved'' JNull ms) then None
            else Some (SaReason (jget ''reason'' (JStr ''risk check failed'') ms))))))"

text \<open>The body of the \<open>try\<close>: place the order, read the ticket, tell the state machine.\<close>

definition semi_place :: "'c semi_deps \<Rightarrow> (semi_order \<Rightarrow> 'c \<Rightarrow> (json, 'c) outcome) \<Rightarrow> semi_signal \<Rightarrow> 'c \<Rightarrow> (json, 'c) outcome" where
  "semi_place d place sg c = (case place (semi_order_of sg) c of
      (Inl e, c1) \<Rightarrow> (Inl e, c1)
    | (Inr res, c1) \<Rightarrow> (case json_members res of
        Inl e \<Rightarrow> (Inl e, c1)
      | Inr ms \<Rightarrow>
          (let ticket = jget ''ticket'' JNull ms in
           case sd_transition d of
             None \<Rightarrow> (Inr ticket, c1)
           | Some transition \<Rightarrow>
               if json_truthy ticket
               then (case transition ticket c1 of
                       (Inl e, c2) \<Rightarrow> (Inl e, c2)
                     | (Inr _, c2) \<Rightarrow> (Inr ticket, c2))
               else (Inr ticket, c1))))"

definition semi_execute :: "'c semi_deps \<Rightarrow> semi_signal \<Rightarrow> 'c \<Rightarrow> (semi_result, 'c) outcome" where
  "semi_execute d sg c = (case semi_preflight (sd_risk d) sg of
      Inl e \<Rightarrow> (Inl e, c)
    | Inr (Some reason) \<Rightarrow> (Inr (semi_failed reason), c)
    | Inr None \<Rightarrow> (case sd_place d of
        None \<Rightarrow> (Inr (semi_failed SaNoConnector), c)
      | Some place \<Rightarrow> (case semi_place d place sg c of
          (Inl e, c') \<Rightarrow> (Inr (semi_failed (SaException e)), c')
        | (Inr t, c') \<Rightarrow> (Inr \<lparr>sr_success = True, sr_ticket = t, sr_error = None\<rparr>, c'))))"

text \<open>\<open>reject\<close> only logs.\<close>

definition semi_reject :: "string \<Rightarrow> string \<Rightarrow> 'c \<Rightarrow> 'c" where
  "semi_reject signal reason c = c"

text \<open>
  The connector is called at most once and only for an approved signal: unless the risk manager
  is missing or answers a true \<open>approved\<close>, nothing is placed and the result is no success; and a
  success is reported only when the broker call returned.
\<close>

theorem semi_auto_places_only_approved:
  assumes "semi_execute d sg c = (r, c')"
  shows "(semi_preflight (sd_risk d) sg \<noteq> Inr None \<longrightarrow> c' = c \<and> (\<forall>x. r = Inr x \<longrightarrow> \<not> sr_success x))
    \<and> (\<forall>x. r = Inr x \<and> sr_success x \<longrightarrow> (\<exists>place res.
        sd_place d = Some place \<and> fst (place (semi_order_of sg) c) = Inr res))"
  using assms
  by (auto simp: semi_execute_def semi_place_def semi_failed_def Let_def
      split: sum.splits option.splits prod.splits if_splits)

definition demo_semi_signal :: semi_signal where
  "demo_semi_signal = \<lparr>sa_signal_id = ''sig-1'', sa_symbol = ''EURUSD'', sa_action = ''buy'', sa_entry_price = 1,
     sa_stop_loss = 0, sa_take_profit_1 = 2, sa_take_profit_2 = 3, sa_lot_size = 1, sa_risk_percent = 1,
     sa_rr_ratio = 2, sa_confidence = 1\<rparr>"

text \<open>A broker that counts its fills, a risk manager that refuses, a state machine that raises.\<close>

definition counting_deps :: "bool \<Rightarrow> nat semi_deps" where
  "counting_deps approve = \<lparr>sd_risk = Some (\<lambda>_. Inr (JObj [(''approved'', JBool approve)])),
     sd_place = Some (\<lambda>_ n. (Inr (JObj [(''ticket'', JInt 42)]), n + 1)),
     sd_transition = Some (\<lambda>_ n. (Inl ValueError, n))\<rparr>"

theorem semi_auto_places_only_approved_witness:
  "snd (semi_execute (counting_deps False) demo_semi_signal 0) = 0"
proof -
  have "semi_preflight (sd_risk (counting_deps False)) demo_semi_signal \<noteq> Inr None"
    by (simp add: semi_preflight_def counting_deps_def jget_def)
  then show ?thesis
    using semi_auto_places_only_approved [of "counting_deps False" demo_semi_signal 0
        "fst (semi_execute (counting_deps False) demo_semi_signal 0)"
        "snd (semi_execute (counting_deps False) demo_semi_signal 0)"] by simp
qed

text \<open>
  When the broker has placed the order and the state machine then raises (as the repository's
  one does: \<open>"submit"\<close> is no state and its \<open>transition\<close> is not awaitable), the handler reports
  failure without the ticket of the position that is now open.
\<close>

theorem semi_auto_hides_a_filled_order:
  assumes "semi_preflight (sd_risk d) sg = Inr None" and "sd_place d = Some place"
    and "place (semi_order_of sg) c = (Inr (JObj ms), c1)" and "json_truthy (jget ''ticket'' JNull ms)"
    and "sd_transition d = Some transition" and "transition (jget ''ticket'' JNull ms) c1 = (Inl e, c2)"
  shows "semi_execute d sg c = (Inr \<lparr>sr_success = False, sr_ticket = JNull, sr_error = Some (SaException e)\<rparr>, c2)"
  using assms by (simp add: semi_execute_def semi_place_def semi_failed_def)

theorem semi_auto_hides_a_filled_order_witness:
  "semi_execute (counting_deps True) demo_semi_signal 0
   = (Inr \<lparr>sr_success = False, sr_ticket = JNull, sr_error = Some (SaException ValueError)\<rparr>, 1)"
  by (rule semi_auto_hides_a_filled_order [where ms = "[(''ticket'', JInt 42)]"])
     (simp_all add: semi_preflight_def counting_deps_def jget_def)

end
