(* ===== verification/Equity_Protection.thy ===== *)
theory Equity_Protection
  imports Contracts
begin

section \<open>Equity protection\<close>

text \<open>
  \<open>src/backend/risk/equity_protection.py\<close>: halts trading on drawdown from the high-water mark or on
  the loss of the day. \<open>w\<close> is the wall clock in seconds, read once per call; a date is the number
  of the day. The halt reason carries the percentages its string prints.
\<close>

datatype protection_status = SAFE | WARNING | HALTED

datatype halt_reason = DrawdownReason real | DailyLossReason real | StoredReason string

record ep_config =
  daily_loss_limit_pct :: real
  total_drawdown_limit_pct :: real
  warning_drawdown_pct :: real
  cooldown_minutes :: int
  trailing_hwm :: bool

definition default_ep_config :: ep_config where
  "default_ep_config = \<lparr>daily_loss_limit_pct = 5, total_drawdown_limit_pct = 10, warning_drawdown_pct = 7,
     cooldown_minutes = 60, trailing_hwm = True\<rparr>"

record ep_state =
  ep_status :: protection_status
  ep_hwm :: real
  ep_equity :: real
  ep_daily_loss :: real
  ep_reset_date :: "int option"
  ep_halt_reason :: "halt_reason option"
  ep_halted_at :: "time option"
  ep_initialized :: bool

definition new_ep_state :: ep_state where
  "new_ep_state = \<lparr>ep_status = SAFE, ep_hwm = 0, ep_equity = 0, ep_daily_loss = 0, ep_reset_date = None,
     ep_halt_reason = None, ep_halted_at = None, ep_initialized = False\<rparr>"

definition day_of :: "time \<Rightarrow> int" where
  "day_of w = \<lfloor>w / 86400\<rfloor>"

definition cooldown_remaining :: "time \<Rightarrow> ep_state \<Rightarrow> real" where
  "cooldown_remaining w s = (case ep_halted_at s of None \<Rightarrow> 0 | Some t \<Rightarrow> max 0 (60 - (w - t) / 60))"

definition ep_initialize :: "real \<Rightarrow> time \<Rightarrow> ep_state \<Rightarrow> ep_state" where
  "ep_initialize balance w s = (let b = (if balance \<le> 0 then 10000 else balance) in
     s\<lparr>ep_hwm := b, ep_equity := b, ep_daily_loss := 0, ep_reset_date := Some (day_of w), ep_initialized := True\<rparr>)"

text \<open>\<open>_evaluate\<close>\<close>

definition ep_drawdown_pct :: "ep_state \<Rightarrow> real" where
  "ep_drawdown_pct s = max 0 ((ep_hwm s - ep_equity s) / ep_hwm s * 100)"

definition ep_daily_pct :: "ep_state \<Rightarrow> real" where
  "ep_daily_pct s = ep_daily_loss s / ep_hwm s * 100"

definition ep_evaluate :: "ep_config \<Rightarrow> time \<Rightarrow> ep_state \<Rightarrow> ep_state" where
  "ep_evaluate c w s =
     (if ep_hwm s \<le> 0 then s
      else if ep_status s = HALTED then
        (if 0 < cooldown_remaining w s then s
         else s\<lparr>ep_status := SAFE, ep_halt_reason := None, ep_halted_at := None\<rparr>)
      else if total_drawdown_limit_pct c \<le> ep_drawdown_pct s \<or> daily_loss_limit_pct c \<le> ep_daily_pct s then
        s\<lparr>ep_status := HALTED,
          ep_halt_reason := Some (if total_drawdown_limit_pct c \<le> ep_drawdown_pct s
             then DrawdownReason (ep_drawdown_pct s) else DailyLossReason (ep_daily_pct s)),
          ep_halted_at := Some w\<rparr>
      else if warning_drawdown_pct c \<le> ep_drawdown_pct s then s\<lparr>ep_status := WARNING\<rparr>
      else s\<lparr>ep_status := SAFE\<rparr>)"

definition ep_reset_daily :: "time \<Rightarrow> ep_state \<Rightarrow> ep_state" where
  "ep_reset_daily w s = (if ep_reset_date s \<noteq> Some (day_of w)
     then s\<lparr>ep_daily_loss := 0, ep_reset_date := Some (day_of w)\<rparr> else s)"

text \<open>What \<open>update_equity\<close> does before it evaluates.\<close>

definition ep_record_equity :: "ep_config \<Rightarrow> real \<Rightarrow> ep_state \<Rightarrow> ep_state" where
  "ep_record_equity c equity s =
     (let s1 = s\<lparr>ep_equity := equity,
            ep_daily_loss := ep_daily_loss s + (if equity < ep_equity s then ep_equity s - equity else 0)\<rparr> in
      if trailing_hwm c \<and> ep_hwm s1 < equity then s1\<lparr>ep_hwm := equity\<rparr> else s1)"

definition auto_init_guard :: "real \<Rightarrow> real \<Rightarrow> time \<Rightarrow> ep_state \<Rightarrow> ep_state" where
  "auto_init_guard equity balance w s =
     (if ep_initialized s then s else ep_initialize (if 0 < balance then balance else equity) w s)"

definition update_equity :: "ep_config \<Rightarrow> real \<Rightarrow> real \<Rightarrow> time \<Rightarrow> ep_state \<Rightarrow> ep_state" where
  "update_equity c equity balance w s =
     ep_evaluate c w (ep_record_equity c equity (ep_reset_daily w (auto_init_guard equity balance w s)))"

definition can_trade :: "ep_state \<Rightarrow> bool" where
  "can_trade s \<longleftrightarrow> ep_status s \<noteq> HALTED"

definition ep_check :: "ep_state \<Rightarrow> bool \<times> protection_status \<times> halt_reason option" where
  "ep_check s = (can_trade s, ep_status s, ep_halt_reason s)"

definition is_halted_check :: "ep_state \<Rightarrow> bool" where
  "is_halted_check s \<longleftrightarrow> ep_status s = HALTED"

definition maybe_reset_daily :: "time \<Rightarrow> ep_state \<Rightarrow> ep_state" where
  "maybe_reset_daily w s = ep_reset_daily w s"

text \<open>
  \<open>persist_halt_state\<close> writes a row, an exception of the database is swallowed;
  \<open>restore_halt_state\<close> reads it back: \<open>row\<close> is None when the read fails or finds nothing, and
  \<open>parsed\<close> is the stored time, \<open>Some None\<close> when it does not parse (the exception is swallowed
  after the status was restored).
\<close>

type_synonym ep_row = "protection_status \<times> halt_reason option \<times> time option"

definition persist_halt_state :: "ep_state \<Rightarrow> ep_row" where
  "persist_halt_state s = (ep_status s, ep_halt_reason s, ep_halted_at s)"

definition restore_halt_state :: "(protection_status \<times> halt_reason option \<times> time option option) option \<Rightarrow> ep_state \<Rightarrow> ep_state" where
  "restore_halt_state row s = (case row of
      Some (HALTED, reason, stamp) \<Rightarrow>
        (let s1 = s\<lparr>ep_status := HALTED, ep_halt_reason := reason\<rparr> in
         case stamp of Some (Some t) \<Rightarrow> s1\<lparr>ep_halted_at := Some t\<rparr> | _ \<Rightarrow> s1)
    | _ \<Rightarrow> s)"

definition get_equity_protection_engine :: "ep_state option \<Rightarrow> ep_state \<times> ep_state option" where
  "get_equity_protection_engine g = (case g of None \<Rightarrow> (new_ep_state, Some new_ep_state) | Some s \<Rightarrow> (s, g))"

subsection \<open>Invariant\<close>

definition ep_inv :: "ep_state \<Rightarrow> bool" where
  "ep_inv s \<longleftrightarrow> 0 \<le> ep_daily_loss s \<and> (ep_initialized s \<longrightarrow> 0 < ep_hwm s)
     \<and> (ep_status s = HALTED \<longleftrightarrow> ep_halted_at s \<noteq> None) \<and> (ep_status s = HALTED \<longrightarrow> ep_halt_reason s \<noteq> None)"

lemmas ep_defs = update_equity_def ep_evaluate_def ep_record_equity_def ep_reset_daily_def
  auto_init_guard_def ep_initialize_def Let_def

lemma ep_inv_new: "ep_inv new_ep_state"
  by (simp add: ep_inv_def new_ep_state_def)

lemma ep_inv_evaluate: "ep_inv s \<Longrightarrow> ep_inv (ep_evaluate c w s)"
  by (auto simp: ep_evaluate_def ep_inv_def)

lemma ep_inv_record: "ep_inv s \<Longrightarrow> ep_inv (ep_record_equity c e s)"
  by (auto simp: ep_record_equity_def ep_inv_def Let_def)

lemma ep_inv_prepare: "ep_inv s \<Longrightarrow> ep_inv (ep_reset_daily w (auto_init_guard e b w s))"
  by (auto simp: ep_inv_def ep_reset_daily_def auto_init_guard_def ep_initialize_def Let_def)

datatype ep_op = EpInitialize real time | EpUpdate real real time | EpResetDaily time

fun ep_step :: "ep_config \<Rightarrow> ep_op \<Rightarrow> ep_state \<Rightarrow> ep_state" where
  "ep_step c (EpInitialize b w) s = ep_initialize b w s"
| "ep_step c (EpUpdate e b w) s = update_equity c e b w s"
| "ep_step c (EpResetDaily w) s = maybe_reset_daily w s"

interpretation ep_machine: guarded_state "ep_step c" ep_inv for c
proof
  fix e s assume "ep_inv s"
  then show "ep_inv (ep_step c e s)"
    by (cases e) (auto simp: update_equity_def ep_inv_evaluate ep_inv_record ep_inv_prepare,
      auto simp: ep_inv_def ep_initialize_def maybe_reset_daily_def ep_reset_daily_def Let_def)
qed

subsection \<open>Halting and resuming\<close>

fun op_time :: "ep_op \<Rightarrow> time" where
  "op_time (EpInitialize b w) = w"
| "op_time (EpUpdate e b w) = w"
| "op_time (EpResetDaily w) = w"

lemma ep_cooling_step:
  assumes "ep_status s = HALTED" and "ep_halted_at s = Some t0" and "op_time e < t0 + 3600"
  shows "ep_status (ep_step c e s) = HALTED \<and> ep_halted_at (ep_step c e s) = Some t0"
  using assms by (cases e) (auto simp: ep_defs maybe_reset_daily_def cooldown_remaining_def field_simps)

text \<open>
  A halted engine stays halted for 60 minutes whatever equity it is told, whatever it is
  re-initialised with and whatever \<open>cooldown_minutes\<close> is configured: no operation at a time before
  the hour is over makes it tradable.
\<close>

theorem equity_halt_lasts_one_hour:
  assumes "ep_status s = HALTED" and "ep_halted_at s = Some t0"
    and "\<And>e. e \<in> set ops \<Longrightarrow> op_time e < t0 + 3600"
  shows "\<not> can_trade (fold (ep_step c) ops s) \<and> ep_halted_at (fold (ep_step c) ops s) = Some t0"
  using assms
proof (induction ops arbitrary: s)
  case (Cons e ops)
  have "op_time e < t0 + 3600" by (intro Cons.prems(3)) simp
  with Cons.prems(1,2) have "ep_status (ep_step c e s) = HALTED \<and> ep_halted_at (ep_step c e s) = Some t0"
    by (rule ep_cooling_step)
  with Cons show ?case by simp
qed (simp add: can_trade_def)

definition halted_engine :: ep_state where
  "halted_engine = fold (ep_step default_ep_config) [EpInitialize 10000 0, EpUpdate 8000 8000 60] new_ep_state"

lemma halted_engine_state: "ep_status halted_engine = HALTED" "ep_halted_at halted_engine = Some 60"
    "ep_hwm halted_engine = 10000" "ep_initialized halted_engine"
  by (simp_all add: halted_engine_def ep_defs ep_drawdown_pct_def ep_daily_pct_def new_ep_state_def
      default_ep_config_def day_of_def)

theorem equity_halt_lasts_one_hour_witness:
  "\<not> can_trade (fold (ep_step (default_ep_config\<lparr>cooldown_minutes := 5\<rparr>)) [EpUpdate 20000 20000 3000] halted_engine)"
  using equity_halt_lasts_one_hour [OF halted_engine_state(1,2), of "[EpUpdate 20000 20000 3000]"
      "default_ep_config\<lparr>cooldown_minutes := 5\<rparr>"] by simp

text \<open>
  An update of an engine that is not halted classifies it by the limits: it halts exactly when the
  drawdown from the high-water mark or the loss of the day has reached its limit, warns when only
  the warning level is reached, and is safe otherwise. A tradable engine is below both limits.
\<close>

theorem equity_update_classifies:
  assumes "ep_inv s" and "ep_status s \<noteq> HALTED" and "ep_initialized s"
  shows "let s' = update_equity c equity balance w s;
      loss = (if ep_reset_date s = Some (day_of w) then ep_daily_loss s else 0) + max 0 (ep_equity s - equity);
      hwm = (if trailing_hwm c then max (ep_hwm s) equity else ep_hwm s);
      dd = max 0 ((hwm - equity) / hwm * 100); daily = loss / hwm * 100 in
      ep_equity s' = equity \<and> ep_hwm s' = hwm \<and> ep_daily_loss s' = loss
      \<and> ep_status s' = (if total_drawdown_limit_pct c \<le> dd \<or> daily_loss_limit_pct c \<le> daily then HALTED
           else if warning_drawdown_pct c \<le> dd then WARNING else SAFE)"
proof -
  let ?s = "ep_record_equity c equity (ep_reset_daily w s)"
  have hwm: "ep_hwm ?s = (if trailing_hwm c then max (ep_hwm s) equity else ep_hwm s)"
    and loss: "ep_daily_loss ?s = (if ep_reset_date s = Some (day_of w) then ep_daily_loss s else 0) + max 0 (ep_equity s - equity)"
    and eq: "ep_equity ?s = equity" and st: "ep_status ?s = ep_status s"
    by (auto simp: ep_record_equity_def ep_reset_daily_def Let_def)
  have "0 < ep_hwm ?s" using assms hwm by (auto simp: ep_inv_def)
  moreover have "update_equity c equity balance w s = ep_evaluate c w ?s"
    using assms(3) by (simp add: update_equity_def auto_init_guard_def)
  ultimately show ?thesis
    using assms(2) st
    unfolding Let_def hwm [symmetric] loss [symmetric]
    by (simp add: ep_evaluate_def ep_drawdown_pct_def ep_daily_pct_def eq)
qed

theorem equity_update_classifies_witness:
  "ep_status (update_equity default_ep_config 9300 9300 10 (ep_initialize 10000 0 new_ep_state)) = HALTED"
proof -
  have "ep_inv (ep_initialize 10000 0 new_ep_state)" "ep_status (ep_initialize 10000 0 new_ep_state) \<noteq> HALTED"
    "ep_initialized (ep_initialize 10000 0 new_ep_state)"
    by (simp_all add: ep_inv_def ep_initialize_def new_ep_state_def)
  from equity_update_classifies [OF this, of default_ep_config 9300 9300 10] show ?thesis
    by (simp add: Let_def default_ep_config_def ep_initialize_def new_ep_state_def day_of_def)
qed

text \<open>
  The first update an hour after the halt makes the engine SAFE without looking at the limits:
  trading is allowed again at any equity, however deep the drawdown.
\<close>

theorem equity_resumes_without_evaluating:
  assumes "ep_inv s" and "ep_status s = HALTED" and "ep_halted_at s = Some t0" and "t0 + 3600 \<le> w"
    and "ep_initialized s"
  shows "can_trade (update_equity c equity balance w s)
    \<and> ep_status (update_equity c equity balance w s) = SAFE
    \<and> ep_equity (update_equity c equity balance w s) = equity"
proof -
  have "0 < ep_hwm s" using assms by (simp add: ep_inv_def)
  with assms show ?thesis
    by (auto simp: ep_defs can_trade_def cooldown_remaining_def field_simps)
qed

theorem equity_resumes_without_evaluating_witness:
  "can_trade (update_equity default_ep_config 1 1 3660 halted_engine)
   \<and> ep_hwm (update_equity default_ep_config 1 1 3660 halted_engine) = 10000"
proof -
  have inv: "ep_inv halted_engine" unfolding halted_engine_def by (rule ep_machine.run_good) (rule ep_inv_new)
  have "ep_hwm (update_equity default_ep_config 1 1 3660 halted_engine) = 10000"
    using halted_engine_state by (simp add: ep_defs)
  then show ?thesis
    using equity_resumes_without_evaluating [OF inv halted_engine_state(1,2) _ halted_engine_state(4),
        of 3660 default_ep_config 1 1] by simp
qed

text \<open>A halt that was persisted and restored keeps its cooldown when its time could be parsed.\<close>

lemma restore_persisted:
  assumes "ep_status s = HALTED" and "persist_halt_state s = (st, reason, stamp)"
  shows "ep_status (restore_halt_state (Some (st, reason, map_option Some stamp)) s0) = HALTED
    \<and> ep_halt_reason (restore_halt_state (Some (st, reason, map_option Some stamp)) s0) = ep_halt_reason s"
  using assms by (cases stamp) (auto simp: persist_halt_state_def restore_halt_state_def Let_def)

end
