(* ===== verification/Daily_Limits.thy ===== *)
theory Daily_Limits
  imports Contracts
begin

section \<open>Daily, weekly and monthly limits\<close>

text \<open>
  \<open>src/backend/risk/daily_limits.py\<close>. The clock is the UTC time in seconds with the year and month it
  falls in; a reset is a time, or the first day of a month. Reasons carry the numbers they print.
\<close>

datatype limit_status =
    LIMIT_OK | LIMIT_WARNING | DAILY_TRADES_HIT | DAILY_LOSS_HIT | WEEKLY_LOSS_HIT | MONTHLY_DRAWDOWN_HIT

datatype limit_reason =
    NoLimit | BalanceNotPositive | MonthlyDrawdown real real | WeeklyLoss real real | DailyLoss real real
  | DailyTrades int int | DailyLossWarning real | TradeCountWarning int int

datatype reset_at = ResetTime time | ResetMonth int int

record today_trades =
  trade_count :: int
  pnl_usd :: real
  risk_used_percent :: real

record limits_engine =
  max_daily_trades :: int
  max_daily_loss_pct :: real
  max_weekly_loss_pct :: real
  max_monthly_dd_pct :: real

definition default_limits :: limits_engine where
  "default_limits = \<lparr>max_daily_trades = 10, max_daily_loss_pct = 3, max_weekly_loss_pct = 7,
     max_monthly_dd_pct = 15\<rparr>"

definition warning_threshold :: real where "warning_threshold = 4 / 5"

record limits_result =
  lr_can_trade :: bool
  lr_status :: limit_status
  lr_reason :: limit_reason
  lr_trades_count :: int
  lr_trades_limit :: int
  lr_daily_pnl :: real
  lr_daily_limit :: real
  lr_weekly_pnl :: real
  lr_weekly_limit :: real
  lr_monthly_pnl :: real
  lr_monthly_limit :: real
  lr_next_reset :: "reset_at option"

record utc_clock =
  utc_now :: time
  utc_year :: int
  utc_month :: int

definition next_midnight_utc :: "utc_clock \<Rightarrow> reset_at" where
  "next_midnight_utc c = ResetTime (of_int (\<lfloor>utc_now c / 86400\<rfloor> + 1) * 86400)"

text \<open>Day 0 of the epoch is a Thursday; Monday is weekday 0.\<close>

definition utc_weekday :: "utc_clock \<Rightarrow> int" where
  "utc_weekday c = (\<lfloor>utc_now c / 86400\<rfloor> + 3) mod 7"

definition days_to_monday :: "utc_clock \<Rightarrow> int" where
  "days_to_monday c = (let d = (7 - utc_weekday c) mod 7 in if d \<noteq> 0 then d else 7)"

definition next_monday_utc :: "utc_clock \<Rightarrow> reset_at" where
  "next_monday_utc c = ResetTime (of_int (\<lfloor>utc_now c / 86400\<rfloor> + days_to_monday c) * 86400)"

definition next_month_utc :: "utc_clock \<Rightarrow> reset_at" where
  "next_month_utc c = (if utc_month c = 12 then ResetMonth (utc_year c + 1) 1
     else ResetMonth (utc_year c) (utc_month c + 1))"

definition loss_pct :: "real \<Rightarrow> real \<Rightarrow> real" where
  "loss_pct pnl balance = \<bar>min pnl 0\<bar> / balance * 100"

definition limits_report :: "limits_engine \<Rightarrow> today_trades \<Rightarrow> real \<Rightarrow> real \<Rightarrow> bool \<Rightarrow> limit_status \<Rightarrow> limit_reason
    \<Rightarrow> reset_at option \<Rightarrow> limits_result" where
  "limits_report e t week month ok st reason reset = \<lparr>lr_can_trade = ok, lr_status = st, lr_reason = reason,
     lr_trades_count = trade_count t, lr_trades_limit = max_daily_trades e, lr_daily_pnl = pnl_usd t,
     lr_daily_limit = max_daily_loss_pct e, lr_weekly_pnl = week, lr_weekly_limit = max_weekly_loss_pct e,
     lr_monthly_pnl = month, lr_monthly_limit = max_monthly_dd_pct e, lr_next_reset = reset\<rparr>"

text \<open>\<open>int(x)\<close> truncates towards zero.\<close>

definition py_trunc :: "real \<Rightarrow> int" where
  "py_trunc x = (if 0 \<le> x then \<lfloor>x\<rfloor> else \<lceil>x\<rceil>)"

definition limits_warning :: "limits_engine \<Rightarrow> today_trades \<Rightarrow> real \<Rightarrow> limit_reason" where
  "limits_warning e t daily =
     (if max_daily_loss_pct e * warning_threshold \<le> daily then DailyLossWarning daily
      else if py_trunc (of_int (max_daily_trades e) * warning_threshold) \<le> trade_count t
      then TradeCountWarning (trade_count t) (max_daily_trades e) else NoLimit)"

definition check_limits :: "limits_engine \<Rightarrow> utc_clock \<Rightarrow> real \<Rightarrow> today_trades \<Rightarrow> real \<Rightarrow> real \<Rightarrow> limits_result" where
  "check_limits e c balance t week month =
     (let rep = limits_report e t week month; daily = loss_pct (pnl_usd t) balance;
          weekly = loss_pct week balance; monthly = loss_pct month balance in
      if balance \<le> 0 then rep False DAILY_LOSS_HIT BalanceNotPositive (Some (next_midnight_utc c))
      else if max_monthly_dd_pct e \<le> monthly then
        rep False MONTHLY_DRAWDOWN_HIT (MonthlyDrawdown monthly (max_monthly_dd_pct e)) (Some (next_month_utc c))
      else if max_weekly_loss_pct e \<le> weekly then
        rep False WEEKLY_LOSS_HIT (WeeklyLoss weekly (max_weekly_loss_pct e)) (Some (next_monday_utc c))
      else if max_daily_loss_pct e \<le> daily then
        rep False DAILY_LOSS_HIT (DailyLoss daily (max_daily_loss_pct e)) (Some (next_midnight_utc c))
      else if max_daily_trades e \<le> trade_count t then
        rep False DAILY_TRADES_HIT (DailyTrades (trade_count t) (max_daily_trades e)) (Some (next_midnight_utc c))
      else (let warn = limits_warning e t daily in
        rep True (if warn \<noteq> NoLimit then LIMIT_WARNING else LIMIT_OK) warn None))"

text \<open>\<open>to_snapshot\<close> and \<open>from_snapshot\<close>: the counters are not part of the snapshot.\<close>

record limits_snapshot =
  sn_trades :: "int option"
  sn_daily :: "real option"
  sn_weekly :: "real option"
  sn_monthly :: "real option"
  sn_utc :: time

definition to_snapshot :: "limits_engine \<Rightarrow> time \<Rightarrow> limits_snapshot" where
  "to_snapshot e w = \<lparr>sn_trades = Some (max_daily_trades e), sn_daily = Some (max_daily_loss_pct e),
     sn_weekly = Some (max_weekly_loss_pct e), sn_monthly = Some (max_monthly_dd_pct e), sn_utc = w\<rparr>"

definition from_snapshot :: "limits_snapshot \<Rightarrow> limits_engine" where
  "from_snapshot s = \<lparr>max_daily_trades = (case sn_trades s of None \<Rightarrow> 10 | Some n \<Rightarrow> n),
     max_daily_loss_pct = (case sn_daily s of None \<Rightarrow> 3 | Some x \<Rightarrow> x),
     max_weekly_loss_pct = (case sn_weekly s of None \<Rightarrow> 7 | Some x \<Rightarrow> x),
     max_monthly_dd_pct = (case sn_monthly s of None \<Rightarrow> 15 | Some x \<Rightarrow> x)\<rparr>"

lemma snapshot_roundtrip: "from_snapshot (to_snapshot e w) = e"
  by (simp add: from_snapshot_def to_snapshot_def)

lemma resets_in_future:
  "case next_midnight_utc c of ResetTime t \<Rightarrow> utc_now c < t \<and> t \<le> utc_now c + 86400 | _ \<Rightarrow> False"
  "case next_monday_utc c of ResetTime t \<Rightarrow> utc_now c < t \<and> t \<le> utc_now c + 7 * 86400
      \<and> (\<lfloor>t / 86400\<rfloor> + 3) mod 7 = 0 | _ \<Rightarrow> False"
proof -
  let ?d = "\<lfloor>utc_now c / 86400\<rfloor>"
  have day: "of_int ?d * 86400 \<le> utc_now c" "utc_now c < (of_int ?d + 1) * 86400"
    by (linarith | simp add: field_simps)+
  then show "case next_midnight_utc c of ResetTime t \<Rightarrow> utc_now c < t \<and> t \<le> utc_now c + 86400 | _ \<Rightarrow> False"
    by (simp add: next_midnight_utc_def algebra_simps)
  have m: "1 \<le> days_to_monday c" "days_to_monday c \<le> 7" "(?d + days_to_monday c + 3) mod 7 = 0"
    unfolding days_to_monday_def utc_weekday_def Let_def by presburger+
  define k where "k = ?d + days_to_monday c"
  have "of_int (?d + 1) \<le> (of_int k :: real)" "(of_int k :: real) \<le> of_int (?d + 7)"
    using m(1,2) by (simp_all add: k_def del: of_int_add)
  then have "utc_now c < of_int k * 86400" "of_int k * 86400 \<le> utc_now c + 7 * 86400"
    using day by simp_all
  then show "case next_monday_utc c of ResetTime t \<Rightarrow> utc_now c < t \<and> t \<le> utc_now c + 7 * 86400
      \<and> (\<lfloor>t / 86400\<rfloor> + 3) mod 7 = 0 | _ \<Rightarrow> False"
    using m(3) unfolding next_monday_utc_def k_def [symmetric] by simp
qed

text \<open>
  Trading is allowed exactly when the balance is positive and every loss and the number of trades
  are below their limits; a refusal names the widest period whose limit is reached and says when
  it resets, and the daily and weekly resets lie in the future, within a day and a week, the weekly
  one on a Monday.
\<close>

theorem daily_limits_decision:
  "let r = check_limits e c balance t week month;
       monthly = loss_pct month balance; weekly = loss_pct week balance; daily = loss_pct (pnl_usd t) balance in
     lr_can_trade r = (0 < balance \<and> monthly < max_monthly_dd_pct e \<and> weekly < max_weekly_loss_pct e
        \<and> daily < max_daily_loss_pct e \<and> trade_count t < max_daily_trades e)
     \<and> (lr_status r = MONTHLY_DRAWDOWN_HIT) = (0 < balance \<and> max_monthly_dd_pct e \<le> monthly)
     \<and> (lr_status r = WEEKLY_LOSS_HIT) = (0 < balance \<and> monthly < max_monthly_dd_pct e \<and> max_weekly_loss_pct e \<le> weekly)
     \<and> (lr_next_reset r = None) = lr_can_trade r
     \<and> (case lr_next_reset r of Some (ResetTime tm) \<Rightarrow> utc_now c < tm \<and> tm \<le> utc_now c + 7 * 86400
        | Some (ResetMonth y m) \<Rightarrow> lr_status r = MONTHLY_DRAWDOWN_HIT | None \<Rightarrow> True)"
proof -
  obtain t1 where mid: "next_midnight_utc c = ResetTime t1" "utc_now c < t1" "t1 \<le> utc_now c + 7 * 86400"
    using resets_in_future(1) [of c] by (auto split: reset_at.splits)
  obtain t2 where mon: "next_monday_utc c = ResetTime t2" "utc_now c < t2" "t2 \<le> utc_now c + 7 * 86400"
    using resets_in_future(2) [of c] by (auto split: reset_at.splits)
  obtain y m where month: "next_month_utc c = ResetMonth y m"
    by (metis next_month_utc_def)
  show ?thesis
    using mid mon month
    by (cases "balance \<le> 0"; cases "max_monthly_dd_pct e \<le> loss_pct month balance";
        cases "max_weekly_loss_pct e \<le> loss_pct week balance";
        cases "max_daily_loss_pct e \<le> loss_pct (pnl_usd t) balance"; cases "max_daily_trades e \<le> trade_count t")
       (auto simp: check_limits_def limits_report_def Let_def)
qed

end
