(* ===== verification/Exposure_Control.thy ===== *)
theory Exposure_Control
  imports Contracts
begin

section \<open>Exposure control\<close>

text \<open>
  \<open>src/backend/risk/fail_mode.py\<close> and \<open>src/backend/risk/exposure_control.py\<close>: limits on the risk per
  account, symbol and currency and on the number of trades. A decision that raises is turned into a
  block or an approval by the fail mode; \<open>inner\<close> of \<open>exposure_check\<close> is what \<open>_check_inner\<close> gave. On
  well-typed positions it never raises, and is \<open>check_inner\<close>. Reasons carry the numbers of their text.
\<close>

datatype fail_mode = FAIL_CLOSED | FAIL_OPEN

definition coerce_fail_mode :: "fail_mode + string \<Rightarrow> exc + fail_mode" where
  "coerce_fail_mode v = (case v of
      Inl m \<Rightarrow> Inr m
    | Inr s \<Rightarrow> (let u = py_strip (py_upper s) in
        if u = ''FAIL_CLOSED'' then Inr FAIL_CLOSED else if u = ''FAIL_OPEN'' then Inr FAIL_OPEN
        else Inl ValueError))"

record exposure_config =
  max_total_exposure :: real
  max_per_currency :: real
  max_per_symbol :: real
  max_simultaneous :: int
  max_buy_trades :: int
  max_sell_trades :: int
  block_duplicates :: bool

definition default_exposure_config :: exposure_config where
  "default_exposure_config = \<lparr>max_total_exposure = 5, max_per_currency = 3, max_per_symbol = 2,
     max_simultaneous = 5, max_buy_trades = 3, max_sell_trades = 3, block_duplicates = True\<rparr>"

record exposure_position =
  xp_symbol :: string
  xp_direction :: string
  xp_risk :: real

datatype exposure_reason =
    NoBlock | TotalExposure real real | SymbolExposure string real real | CurrencyExposure string real real
  | MaxTrades int | MaxBuy int | MaxSell int | DuplicateTrade string string
  | FailClosedError exc | FailOpenIgnored

record exposure_snapshot =
  xs_total :: real
  xs_per_currency :: "(string, real) odict"
  xs_per_symbol :: "(string, real) odict"
  xs_open :: int
  xs_buy :: int
  xs_sell :: int
  xs_can_open :: bool
  xs_reason :: exposure_reason

record exposure_result =
  xr_can_trade :: bool
  xr_reason :: exposure_reason
  xr_snapshot :: exposure_snapshot
  xr_projected :: real

definition empty_snapshot :: "bool \<Rightarrow> exposure_reason \<Rightarrow> exposure_snapshot" where
  "empty_snapshot ok reason = \<lparr>xs_total = 0, xs_per_currency = [], xs_per_symbol = [], xs_open = 0,
     xs_buy = 0, xs_sell = 0, xs_can_open = ok, xs_reason = reason\<rparr>"

text \<open>\<open>_blocked_snapshot\<close> and \<open>_open_snapshot\<close>\<close>

definition blocked_snapshot :: "exposure_reason \<Rightarrow> exposure_snapshot" where
  "blocked_snapshot reason = empty_snapshot False reason"

definition open_snapshot :: exposure_snapshot where
  "open_snapshot = empty_snapshot True FailOpenIgnored"

definition symbol_currencies :: "(string \<times> string list) list" where
  "symbol_currencies =
    map (\<lambda>s. (s, [take 3 s, List.drop 3 s]))
      [''EURUSD'', ''GBPUSD'', ''AUDUSD'', ''NZDUSD'', ''USDCHF'', ''USDJPY'', ''USDCAD'', ''EURGBP'', ''EURJPY'',
       ''EURCHF'', ''EURCAD'', ''EURAUD'', ''EURNZD'', ''GBPJPY'', ''GBPCHF'', ''GBPCAD'', ''GBPAUD'', ''GBPNZD'',
       ''AUDJPY'', ''AUDCAD'', ''AUDCHF'', ''AUDNZD'', ''NZDJPY'', ''NZDCAD'', ''CADJPY'', ''CADCHF'', ''CHFJPY'',
       ''XAUUSD'', ''XAGUSD'', ''XPTUSD'', ''XPDUSD'', ''BTCUSD'', ''ETHUSD'', ''LTCUSD'', ''XRPUSD'']
    @ [(''US30'', [''USD'']), (''US500'', [''USD'']), (''NAS100'', [''USD''])]"

definition get_currencies :: "string \<Rightarrow> string list" where
  "get_currencies symbol = (let key = py_upper symbol in
     case map_of symbol_currencies key of
       Some cs \<Rightarrow> cs
     | None \<Rightarrow> if length key = 6 then [take 3 key, List.drop 3 key] else [key])"

text \<open>The loop over the open positions.\<close>

record exposure_tally =
  xt_currency :: "(string, real) odict"
  xt_symbol :: "(string, real) odict"
  xt_buy :: int
  xt_sell :: int

definition tally_one :: "exposure_position \<Rightarrow> exposure_tally \<Rightarrow> exposure_tally" where
  "tally_one p t = (let symb = py_upper (xp_symbol p) in
     t\<lparr>xt_symbol := od_add symb (xp_risk p) (xt_symbol t),
       xt_currency := fold (\<lambda>c. od_add c (xp_risk p)) (get_currencies symb) (xt_currency t),
       xt_buy := xt_buy t + (if py_upper (xp_direction p) = ''BUY'' then 1 else 0),
       xt_sell := xt_sell t + (if py_upper (xp_direction p) = ''BUY'' then 0 else 1)\<rparr>)"

definition tally :: "exposure_position list \<Rightarrow> exposure_tally" where
  "tally ps = fold tally_one ps \<lparr>xt_currency = [], xt_symbol = [], xt_buy = 0, xt_sell = 0\<rparr>"

definition total_risk :: "exposure_position list \<Rightarrow> real" where
  "total_risk ps = sum_list (map xp_risk ps)"

definition snapshot_inner :: "exposure_config \<Rightarrow> exposure_position list \<Rightarrow> exposure_snapshot" where
  "snapshot_inner c ps = \<lparr>xs_total = total_risk ps, xs_per_currency = xt_currency (tally ps),
     xs_per_symbol = xt_symbol (tally ps), xs_open = int (length ps), xs_buy = xt_buy (tally ps),
     xs_sell = xt_sell (tally ps), xs_can_open = (total_risk ps < max_total_exposure c), xs_reason = NoBlock\<rparr>"

text \<open>The first limit that the new trade would break.\<close>

definition exposure_block :: "exposure_config \<Rightarrow> string \<Rightarrow> string \<Rightarrow> real \<Rightarrow> exposure_position list \<Rightarrow> exposure_reason" where
  "exposure_block c symb dir risk ps =
     (let t = tally ps; total = total_risk ps + risk; per_sym = od_num (xt_symbol t) symb + risk;
          over = (\<lambda>ccy. max_per_currency c < od_num (xt_currency t) ccy + risk);
          buys = xt_buy t + (if dir = ''BUY'' then 1 else 0); sells = xt_sell t + (if dir = ''SELL'' then 1 else 0) in
      if max_total_exposure c < total then TotalExposure total (max_total_exposure c)
      else if max_per_symbol c < per_sym then SymbolExposure symb per_sym (max_per_symbol c)
      else case List.find over (get_currencies symb) of
        Some ccy \<Rightarrow> CurrencyExposure ccy (od_num (xt_currency t) ccy + risk) (max_per_currency c)
      | None \<Rightarrow>
          if max_simultaneous c < int (length ps) + 1 then MaxTrades (max_simultaneous c)
          else if max_buy_trades c < buys then MaxBuy (max_buy_trades c)
          else if max_sell_trades c < sells then MaxSell (max_sell_trades c)
          else if block_duplicates c
             \<and> list_ex (\<lambda>p. py_upper (xp_symbol p) = symb \<and> py_upper (xp_direction p) = dir) ps
          then DuplicateTrade dir symb
          else NoBlock)"

definition check_inner :: "exposure_config \<Rightarrow> string \<Rightarrow> string \<Rightarrow> real \<Rightarrow> exposure_position list \<Rightarrow> exposure_result" where
  "check_inner c new_symbol new_direction risk ps =
     (let block = exposure_block c (py_upper new_symbol) (py_upper new_direction) risk ps in
      \<lparr>xr_can_trade = (block = NoBlock), xr_reason = block,
       xr_snapshot = (snapshot_inner c ps)\<lparr>xs_can_open := (block = NoBlock), xs_reason := block\<rparr>,
       xr_projected = total_risk ps + risk\<rparr>)"

definition exposure_check :: "fail_mode \<Rightarrow> real \<Rightarrow> exc + exposure_result \<Rightarrow> exposure_result" where
  "exposure_check mode risk inner = (case inner of
      Inr r \<Rightarrow> r
    | Inl e \<Rightarrow> (case mode of
        FAIL_CLOSED \<Rightarrow> \<lparr>xr_can_trade = False, xr_reason = FailClosedError e,
          xr_snapshot = blocked_snapshot (FailClosedError e), xr_projected = 0\<rparr>
      | FAIL_OPEN \<Rightarrow> \<lparr>xr_can_trade = True, xr_reason = FailOpenIgnored, xr_snapshot = open_snapshot,
          xr_projected = risk\<rparr>))"

definition get_snapshot :: "fail_mode \<Rightarrow> exc + exposure_snapshot \<Rightarrow> exposure_snapshot" where
  "get_snapshot mode inner = (case inner of
      Inr s \<Rightarrow> s
    | Inl e \<Rightarrow> (case mode of FAIL_CLOSED \<Rightarrow> blocked_snapshot (FailClosedError e) | FAIL_OPEN \<Rightarrow> open_snapshot))"

subsection \<open>The dictionaries are the sums they stand for\<close>

definition symbol_risk :: "string \<Rightarrow> exposure_position list \<Rightarrow> real" where
  "symbol_risk symb ps = sum_list (map xp_risk (filter (\<lambda>p. py_upper (xp_symbol p) = symb) ps))"

definition currency_risk :: "string \<Rightarrow> exposure_position list \<Rightarrow> real" where
  "currency_risk ccy ps = sum_list (map (\<lambda>p. xp_risk p * real (count_list (get_currencies (xp_symbol p)) ccy)) ps)"

lemma get_currencies_upper [simp]: "get_currencies (py_upper s) = get_currencies s"
  by (simp add: get_currencies_def Let_def)

lemma tally_fold:
  "od_num (xt_symbol (fold tally_one ps t)) symb = od_num (xt_symbol t) symb + symbol_risk symb ps"
  "od_num (xt_currency (fold tally_one ps t)) ccy = od_num (xt_currency t) ccy + currency_risk ccy ps"
  "xt_buy (fold tally_one ps t) = xt_buy t + int (length (filter (\<lambda>p. py_upper (xp_direction p) = ''BUY'') ps))"
  "xt_sell (fold tally_one ps t) = xt_sell t + int (length (filter (\<lambda>p. py_upper (xp_direction p) \<noteq> ''BUY'') ps))"
  by (induction ps arbitrary: t)
     (auto simp: tally_one_def symbol_risk_def currency_risk_def od_num_add_all Let_def)

lemma tally_sums [simp]:
  "od_num (xt_symbol (tally ps)) symb = symbol_risk symb ps"
  "od_num (xt_currency (tally ps)) ccy = currency_risk ccy ps"
  "xt_buy (tally ps) = int (length (filter (\<lambda>p. py_upper (xp_direction p) = ''BUY'') ps))"
  "xt_sell (tally ps) = int (length (filter (\<lambda>p. py_upper (xp_direction p) \<noteq> ''BUY'') ps))"
  by (simp_all add: tally_def tally_fold)

text \<open>
  A new trade is approved exactly when every projected figure respects its limit: the total
  risk, the risk on its symbol, the risk on each of its currencies (a position counts for both of
  its currencies), the number of trades, of buys and of sells, and no open trade has the same
  symbol and direction when duplicates are blocked. Symbols and directions are compared in upper case.
\<close>

theorem exposure_approves_iff_within_limits:
  "let r = check_inner c new_symbol new_direction risk ps; symb = py_upper new_symbol; dir = py_upper new_direction;
       buys = length (filter (\<lambda>p. py_upper (xp_direction p) = ''BUY'') ps) in
   xr_can_trade r \<longleftrightarrow>
     total_risk ps + risk \<le> max_total_exposure c
     \<and> symbol_risk symb ps + risk \<le> max_per_symbol c
     \<and> list_all (\<lambda>ccy. currency_risk ccy ps + risk \<le> max_per_currency c) (get_currencies symb)
     \<and> int (length ps) + 1 \<le> max_simultaneous c
     \<and> int buys + (if dir = ''BUY'' then 1 else 0) \<le> max_buy_trades c
     \<and> int (length ps) - int buys + (if dir = ''SELL'' then 1 else 0) \<le> max_sell_trades c
     \<and> \<not> (block_duplicates c \<and>
           list_ex (\<lambda>p. py_upper (xp_symbol p) = symb \<and> py_upper (xp_direction p) = dir) ps)"
proof -
  let ?dir = "py_upper new_direction"
  let ?over = "\<lambda>ccy. max_per_currency c < currency_risk ccy ps + risk"
  let ?cs = "get_currencies (py_upper new_symbol)"
  have len: "int (length (filter (\<lambda>p. py_upper (xp_direction p) \<noteq> ''BUY'') ps))
      = int (length ps) - int (length (filter (\<lambda>p. py_upper (xp_direction p) = ''BUY'') ps))"
    using sum_length_filter_compl [of "\<lambda>p. py_upper (xp_direction p) = ''BUY''" ps] by simp
  have find: "(List.find ?over ?cs = None) = list_all (\<lambda>ccy. currency_risk ccy ps + risk \<le> max_per_currency c) ?cs"
    by (auto simp: find_None_iff list_all_iff not_less)
  show ?thesis
  proof (cases "List.find ?over ?cs")
    case None
    with find show ?thesis
      unfolding Let_def check_inner_def exposure_block_def tally_sums len by (simp add: not_less)
  next
    case (Some ccy)
    with find show ?thesis
      unfolding Let_def check_inner_def exposure_block_def tally_sums len by simp
  qed
qed

text \<open>
  In FAIL_CLOSED mode, the default, an exception inside the check or the snapshot always blocks;
  in FAIL_OPEN mode it always approves. A decision that did not raise is passed through.
\<close>

theorem exposure_fail_mode_decides_errors:
  "(xr_can_trade (exposure_check mode risk (Inl e)) \<longleftrightarrow> mode = FAIL_OPEN)
   \<and> (xs_can_open (get_snapshot mode (Inl e)) \<longleftrightarrow> mode = FAIL_OPEN)
   \<and> exposure_check mode risk (Inr r) = r"
  by (cases mode) (simp_all add: exposure_check_def get_snapshot_def blocked_snapshot_def open_snapshot_def
      empty_snapshot_def)

end
