(* ===== verification/Lot_Sizing.thy ===== *)
theory Lot_Sizing
  imports Contracts
begin

section \<open>Lot sizing\<close>

text \<open>
  \<open>src/backend/risk/lot_sizing.py\<close>: the pip value of a symbol (cache, broker, static table) and the
  lot from fixed fractional risk blended with a Kelly fraction, clamped and capped by the free
  margin. Floats are exact reals, so the \<open>isfinite\<close> tests always pass. The broker's answer is a
  parameter: an exception, or the tick value when the object has one.
\<close>

datatype pip_source = FromMt5 | StaticTable | StaticTableAs string | PipError

definition pip_value_table :: "(string \<times> real) list" where
  "pip_value_table = [(''EURUSD'', 10), (''GBPUSD'', 10), (''AUDUSD'', 10), (''NZDUSD'', 10),
    (''USDCAD'', 77/10), (''USDCHF'', 107/10), (''USDJPY'', 67/10),
    (''EURGBP'', 129/10), (''EURJPY'', 67/10), (''EURAUD'', 10), (''EURCHF'', 107/10), (''EURNZD'', 10), (''EURCAD'', 77/10),
    (''GBPJPY'', 67/10), (''GBPAUD'', 10), (''GBPCHF'', 107/10), (''GBPNZD'', 10), (''GBPCAD'', 77/10),
    (''AUDJPY'', 67/10), (''AUDCAD'', 77/10), (''AUDCHF'', 107/10), (''AUDNZD'', 10),
    (''CADJPY'', 67/10), (''CADCHF'', 107/10), (''CHFJPY'', 67/10),
    (''NZDCAD'', 77/10), (''NZDCHF'', 107/10), (''NZDJPY'', 67/10),
    (''XAUUSD'', 1), (''XAGUSD'', 50), (''XPTUSD'', 1), (''XPDUSD'', 1),
    (''USOIL'', 1), (''UKOIL'', 1), (''NATGAS'', 1),
    (''US30'', 1), (''US500'', 1), (''NAS100'', 1), (''GER40'', 1), (''UK100'', 1), (''JPN225'', 1/10), (''AUS200'', 1),
    (''BTCUSD'', 1), (''ETHUSD'', 1), (''LTCUSD'', 1), (''XRPUSD'', 1)]"

definition symbol_aliases :: "(string \<times> string) list" where
  "symbol_aliases = [(''GOLD'', ''XAUUSD''), (''SILVER'', ''XAGUSD''), (''PLATINUM'', ''XPTUSD''),
    (''PALLADIUM'', ''XPDUSD''), (''BTC'', ''BTCUSD''), (''ETH'', ''ETHUSD''), (''LTC'', ''LTCUSD''), (''XRP'', ''XRPUSD''),
    (''WTI'', ''USOIL''), (''BRENT'', ''UKOIL''), (''DAX'', ''GER40''), (''DAX40'', ''GER40''), (''FTSE'', ''UK100''),
    (''SP500'', ''US500''), (''SPX500'', ''US500''), (''SPX'', ''US500''), (''DOW'', ''US30''), (''DJ30'', ''US30''),
    (''NIKKEI'', ''JPN225''), (''ASX200'', ''AUS200'')]"

definition margin_pct_table :: "(string \<times> real) list" where
  "margin_pct_table = [(''EURUSD'', 1), (''GBPUSD'', 1), (''AUDUSD'', 1), (''NZDUSD'', 1), (''USDCAD'', 1),
    (''USDCHF'', 1), (''USDJPY'', 1), (''XAUUSD'', 2), (''XAGUSD'', 5), (''US30'', 1/2), (''US500'', 1/2),
    (''NAS100'', 1/2), (''BTCUSD'', 10), (''ETHUSD'', 10), (''USOIL'', 2), (''UKOIL'', 2)]"

definition default_margin_pct :: real where "default_margin_pct = 2"

record lot_config =
  lc_risk_percent :: real
  lc_min_lot :: real
  lc_max_lot :: real
  lc_lot_step :: real
  lc_kelly_fraction :: real
  lc_max_risk_pct :: real
  lc_margin_buffer_pct :: real

definition default_lot_config :: lot_config where
  "default_lot_config = \<lparr>lc_risk_percent = 1, lc_min_lot = 1/100, lc_max_lot = 10, lc_lot_step = 1/100,
     lc_kelly_fraction = 1/2, lc_max_risk_pct = 3, lc_margin_buffer_pct = 120\<rparr>"

datatype sizing_method = KellyBlend | FixedRisk | PipValueError

record lot_result =
  lz_lot :: real
  lz_pip_value :: real
  lz_risk_usd :: real
  lz_risk_percent :: real
  lz_kelly_lot :: real
  lz_source :: pip_source
  lz_symbol :: string
  lz_method :: sizing_method
  lz_margin_limited :: bool
  lz_margin_required :: real

type_synonym pip_cache = "(string, real \<times> time \<times> pip_source) odict"

record lot_sizer =
  ls_config :: lot_config
  ls_mt5 :: "(string \<Rightarrow> exc + real option) option"
  ls_cache :: pip_cache

definition UnknownSymbolError :: exc where "UnknownSymbolError = OtherError ''UnknownSymbolError''"

definition normal_symbol :: "string \<Rightarrow> string" where
  "normal_symbol s = py_strip (py_upper s)"

definition resolve_canonical :: "string \<Rightarrow> string" where
  "resolve_canonical symb = (case map_of symbol_aliases symb of None \<Rightarrow> symb | Some c \<Rightarrow> c)"

definition from_mt5 :: "(string \<Rightarrow> exc + real option) \<Rightarrow> string \<Rightarrow> exc + real" where
  "from_mt5 mt5 symb = (case mt5 symb of
      Inl e \<Rightarrow> Inl e
    | Inr (Some v) \<Rightarrow> if 0 < v then Inr v else Inl UnknownSymbolError
    | Inr None \<Rightarrow> Inl UnknownSymbolError)"

text \<open>\<open>get_pip_value\<close>: \<open>m\<close> is the monotonic time of the lookup, \<open>m'\<close> of the store.\<close>

definition store_pip :: "string \<Rightarrow> real \<Rightarrow> time \<Rightarrow> pip_source \<Rightarrow> lot_sizer \<Rightarrow> lot_sizer" where
  "store_pip symb v m src s = s\<lparr>ls_cache := od_put symb (v, m, src) (ls_cache s)\<rparr>"

definition static_pip :: "string \<Rightarrow> time \<Rightarrow> lot_sizer \<Rightarrow> (real \<times> pip_source, lot_sizer) outcome" where
  "static_pip symb m s = (let c = resolve_canonical symb in
     case map_of pip_value_table c of
       None \<Rightarrow> (Inl UnknownSymbolError, s)
     | Some v \<Rightarrow> (let src = (if c = symb then StaticTable else StaticTableAs c) in
         (Inr (v, src), store_pip symb v m src s)))"

definition get_pip_value :: "string \<Rightarrow> time \<Rightarrow> time \<Rightarrow> lot_sizer \<Rightarrow> (real \<times> pip_source, lot_sizer) outcome" where
  "get_pip_value symbol m m' s =
     (let symb = normal_symbol symbol;
          uncached = (case ls_mt5 s of
             None \<Rightarrow> static_pip symb m' s
           | Some mt5 \<Rightarrow> (case from_mt5 mt5 symb of
               Inr v \<Rightarrow> (Inr (v, FromMt5), store_pip symb v m' FromMt5 s)
             | Inl _ \<Rightarrow> static_pip symb m' s)) in
      case od_get (ls_cache s) symb of
        Some (v, t, src) \<Rightarrow> if m - t < 60 then (Inr (v, src), s) else uncached
      | None \<Rightarrow> uncached)"

subsection \<open>The calculation\<close>

record lot_request =
  lq_balance :: real
  lq_stop_pips :: real
  lq_symbol :: string
  lq_equity :: "real option"
  lq_free_margin :: "real option"
  lq_win_rate :: real
  lq_avg_rr :: real
  lq_volatility :: real
  lq_override_risk :: "real option"

definition eff_equity :: "lot_request \<Rightarrow> real" where
  "eff_equity q = (case lq_equity q of Some e \<Rightarrow> if 0 < e then e else lq_balance q | None \<Rightarrow> lq_balance q)"

definition eff_risk :: "lot_config \<Rightarrow> lot_request \<Rightarrow> real" where
  "eff_risk c q = min (case lq_override_risk q of Some r \<Rightarrow> if 0 < r then r else lc_risk_percent c
     | None \<Rightarrow> lc_risk_percent c) (lc_max_risk_pct c)"

definition fixed_lot :: "lot_config \<Rightarrow> lot_request \<Rightarrow> real \<Rightarrow> real" where
  "fixed_lot c q pip = (eff_equity q * (eff_risk c q / 100) * lq_volatility q) / (lq_stop_pips q * pip)"

definition kelly_p :: "lot_request \<Rightarrow> real" where
  "kelly_p q = max 0 (min (1/4) (if 0 < lq_avg_rr q then lq_win_rate q - (1 - lq_win_rate q) / lq_avg_rr q else 0))"

definition kelly_lot :: "lot_config \<Rightarrow> lot_request \<Rightarrow> real \<Rightarrow> real" where
  "kelly_lot c q pip = min ((eff_equity q * kelly_p q * lc_kelly_fraction c) / (lq_stop_pips q * pip))
     (2 * fixed_lot c q pip)"

definition blended_lot :: "lot_config \<Rightarrow> lot_request \<Rightarrow> real \<Rightarrow> real" where
  "blended_lot c q pip = 7/10 * fixed_lot c q pip + 3/10 * kelly_lot c q pip"

definition clamp_lot :: "lot_config \<Rightarrow> real \<Rightarrow> real" where
  "clamp_lot c x = max (lc_min_lot c) (min (lc_max_lot c) (max (1/100) (min 100 x)))"

definition is_alpha :: "char \<Rightarrow> bool" where
  "is_alpha c = (let n = (of_char c :: nat) in 65 \<le> n \<and> n \<le> 90 \<or> 97 \<le> n \<and> n \<le> 122)"

definition margin_per_lot :: "string \<Rightarrow> real" where
  "margin_per_lot symb =
     (if list_all is_alpha symb \<and> length symb = 6 then 100000 else 10000)
     * ((case map_of margin_pct_table symb of Some p \<Rightarrow> p | None \<Rightarrow> default_margin_pct) / 100)"

text \<open>The margin-aware cap: the lot, whether it was limited, and the margin of the lot before the cap.\<close>

definition margin_cap :: "lot_config \<Rightarrow> string \<Rightarrow> real option \<Rightarrow> real \<Rightarrow> real \<times> bool \<times> real" where
  "margin_cap c symb free fl = (case free of
      None \<Rightarrow> (fl, False, 0)
    | Some fm \<Rightarrow>
        if 0 < fm
        then (let per_lot = margin_per_lot symb;
                  affordable = (if 0 < per_lot then fm * (lc_margin_buffer_pct c / 100) / per_lot else fl) in
          if affordable < fl then (max (lc_min_lot c) (min fl affordable), True, fl * per_lot)
          else (fl, False, fl * per_lot))
        else (fl, False, 0))"

definition sized_result :: "lot_config \<Rightarrow> lot_request \<Rightarrow> real \<Rightarrow> pip_source \<Rightarrow> lot_result" where
  "sized_result c q pip src =
     (let symb = normal_symbol (lq_symbol q) in
      case margin_cap c symb (lq_free_margin q) (clamp_lot c (blended_lot c q pip)) of (fl, limited, margin) \<Rightarrow>
      \<lparr>lz_lot = fl, lz_pip_value = pip, lz_risk_usd = py_round 2 (fl * lq_stop_pips q * pip),
       lz_risk_percent = py_round 3 (if 0 < eff_equity q then fl * lq_stop_pips q * pip / eff_equity q * 100 else 0),
       lz_kelly_lot = py_round 4 (kelly_lot c q pip), lz_source = src, lz_symbol = symb,
       lz_method = (if 0 < kelly_p q then KellyBlend else FixedRisk), lz_margin_limited = limited,
       lz_margin_required = py_round 2 margin\<rparr>)"

definition pip_error_result :: "lot_config \<Rightarrow> lot_request \<Rightarrow> lot_result" where
  "pip_error_result c q = \<lparr>lz_lot = lc_min_lot c, lz_pip_value = 0, lz_risk_usd = 0, lz_risk_percent = 0,
     lz_kelly_lot = 0, lz_source = PipError, lz_symbol = normal_symbol (lq_symbol q), lz_method = PipValueError,
     lz_margin_limited = True, lz_margin_required = 0\<rparr>"

definition calculate_lot :: "lot_request \<Rightarrow> time \<Rightarrow> time \<Rightarrow> lot_sizer \<Rightarrow> (lot_result, lot_sizer) outcome" where
  "calculate_lot q m m' s =
     (if lq_stop_pips q \<le> 0 \<or> lq_balance q \<le> 0 then (Inl ValueError, s)
      else case get_pip_value (normal_symbol (lq_symbol q)) m m' s of
          (Inl _, s') \<Rightarrow> (Inr (pip_error_result (ls_config s) q), s')
        | (Inr (pip, src), s') \<Rightarrow> (Inr (sized_result (ls_config s) q pip src), s'))"

definition get_lot_sizer :: "(string \<Rightarrow> exc + real option) option \<Rightarrow> lot_sizer option \<Rightarrow> lot_sizer \<times> lot_sizer option" where
  "get_lot_sizer mt5 g = (case g of
      None \<Rightarrow> (let s = \<lparr>ls_config = default_lot_config, ls_mt5 = mt5, ls_cache = []\<rparr> in (s, Some s))
    | Some s \<Rightarrow> (s, g))"

subsection \<open>Pip values are positive\<close>

definition pip_inv :: "lot_sizer \<Rightarrow> bool" where
  "pip_inv s \<longleftrightarrow> (\<forall>(k, v, t, src) \<in> set (ls_cache s). 0 < v)"

lemma table_positive: "map_of pip_value_table c = Some v \<Longrightarrow> 0 < v"
proof -
  assume "map_of pip_value_table c = Some v"
  then have "(c, v) \<in> set pip_value_table" by (rule map_of_SomeD)
  moreover have "\<forall>(c, v) \<in> set pip_value_table. 0 < v" by (simp add: pip_value_table_def)
  ultimately show ?thesis by blast
qed

lemma store_pip_inv: "pip_inv s \<Longrightarrow> 0 < v \<Longrightarrow> pip_inv (store_pip symb v m src s)"
proof -
  have "set (od_put k x d) \<subseteq> insert (k, x) (set d)" for k and x :: "real \<times> time \<times> pip_source" and d
    by (induction d) auto
  then show "pip_inv s \<Longrightarrow> 0 < v \<Longrightarrow> pip_inv (store_pip symb v m src s)"
    unfolding pip_inv_def store_pip_def by fastforce
qed

lemma static_pip_positive:
  assumes "pip_inv s" and "static_pip symb m s = (r, s')"
  shows "pip_inv s' \<and> (\<forall>v src. r = Inr (v, src) \<longrightarrow> 0 < v)"
  using assms by (auto simp: static_pip_def Let_def dest: table_positive intro!: store_pip_inv split: option.splits)

lemma pip_value_positive:
  assumes "pip_inv s" and "get_pip_value symbol m m' s = (r, s')"
  shows "pip_inv s' \<and> (\<forall>v src. r = Inr (v, src) \<longrightarrow> 0 < v)"
proof -
  let ?s = "normal_symbol symbol"
  have mt5: "0 < v" if "from_mt5 f ?s = Inr v" for f v
    using that by (auto simp: from_mt5_def split: sum.splits option.splits if_splits)
  show ?thesis
  proof (cases "\<exists>v t src. od_get (ls_cache s) ?s = Some (v, t, src) \<and> m - t < 60")
    case True
    then obtain v t src where hit: "od_get (ls_cache s) ?s = Some (v, t, src)" "m - t < 60" by blast
    then have "0 < v" using assms(1) od_get_SomeD [OF hit(1)] by (auto simp: pip_inv_def)
    then show ?thesis using assms hit by (auto simp: get_pip_value_def Let_def)
  next
    case False
    then have "get_pip_value symbol m m' s = (case ls_mt5 s of
             None \<Rightarrow> static_pip ?s m' s
           | Some mt5 \<Rightarrow> (case from_mt5 mt5 ?s of
               Inr v \<Rightarrow> (Inr (v, FromMt5), store_pip ?s v m' FromMt5 s)
             | Inl _ \<Rightarrow> static_pip ?s m' s))"
      by (auto simp: get_pip_value_def Let_def split: option.split)
    then consider "get_pip_value symbol m m' s = static_pip ?s m' s"
      | v where "0 < v" "get_pip_value symbol m m' s = (Inr (v, FromMt5), store_pip ?s v m' FromMt5 s)"
      using mt5 by (auto split: option.splits sum.splits)
    then show ?thesis
    proof cases
      case 1
      with assms(2) static_pip_positive [OF assms(1), of ?s m' r s'] show ?thesis by simp
    next
      case (2 v)
      with assms show ?thesis by (auto intro!: store_pip_inv)
    qed
  qed
qed

subsection \<open>Bounds\<close>

lemma clamp_lot_bounds: "lc_min_lot c \<le> clamp_lot c x" "clamp_lot c x \<le> max (lc_min_lot c) (lc_max_lot c)"
    "clamp_lot c x \<le> max (max (lc_min_lot c) (1/100)) x"
  by (auto simp: clamp_lot_def)

lemma margin_cap_bounds:
  assumes "margin_cap c symb free fl = (fl', limited, margin)" and "lc_min_lot c \<le> fl"
  shows "lc_min_lot c \<le> fl' \<and> fl' \<le> fl"
  using assms by (auto simp: margin_cap_def Let_def split: option.splits if_splits)

lemma blended_le:
  assumes "0 \<le> fixed_lot c q pip" shows "blended_lot c q pip \<le> 13/10 * fixed_lot c q pip"
  using assms by (simp add: blended_lot_def kelly_lot_def min_def)

lemma fixed_nonneg:
  assumes "0 < lq_stop_pips q" "0 < lq_balance q" "0 < pip" "0 \<le> lq_volatility q" "0 \<le> eff_risk c q"
  shows "0 \<le> fixed_lot c q pip" "fixed_lot c q pip * lq_stop_pips q * pip = eff_equity q * (eff_risk c q / 100) * lq_volatility q"
proof -
  have "0 \<le> eff_equity q" using assms(2) by (auto simp: eff_equity_def split: option.split)
  with assms show "0 \<le> fixed_lot c q pip" by (simp add: fixed_lot_def)
  show "fixed_lot c q pip * lq_stop_pips q * pip = eff_equity q * (eff_risk c q / 100) * lq_volatility q"
    using assms(1,3) by (simp add: fixed_lot_def)
qed

text \<open>
  For any request the calculation either rejects a non-positive stop or balance with ValueError or
  returns a lot between the configured minimum and maximum; and the money at risk at the stop is
  at most 1.3 times the configured fraction of the equity (the Kelly part may add 30% to it),
  unless the lot is the minimum lot.
\<close>

theorem lot_and_risk_bounded:
  assumes "pip_inv s" and "calculate_lot q m m' s = (Inr r, s')" and "c = ls_config s"
    and "lc_min_lot c \<le> lc_max_lot c" and "0 \<le> lq_volatility q" and "0 \<le> eff_risk c q"
  shows "lc_min_lot c \<le> lz_lot r \<and> lz_lot r \<le> lc_max_lot c \<and>
    (lz_method r = PipValueError \<or> lz_lot r \<le> max (lc_min_lot c) (1/100) \<or>
     lz_lot r * lq_stop_pips q * lz_pip_value r
       \<le> 13/10 * (eff_equity q * (eff_risk c q / 100) * lq_volatility q))"
proof (cases "fst (get_pip_value (normal_symbol (lq_symbol q)) m m' s)")
  case (Inl e)
  then show ?thesis using assms(2-4)
    by (auto simp: calculate_lot_def pip_error_result_def split: if_splits prod.splits)
next
  case (Inr ps)
  obtain pip src where ps: "ps = (pip, src)" by (cases ps)
  obtain s2 where get: "get_pip_value (normal_symbol (lq_symbol q)) m m' s = (Inr (pip, src), s2)"
    using Inr ps by (metis prod.collapse)
  then have pos: "0 < pip" using pip_value_positive [OF assms(1)] by blast
  from assms(2) get have sl: "0 < lq_stop_pips q" "0 < lq_balance q" and r: "r = sized_result c q pip src"
    using assms(3) by (auto simp: calculate_lot_def not_le split: if_splits)
  obtain fl limited margin where cap: "margin_cap c (normal_symbol (lq_symbol q)) (lq_free_margin q)
      (clamp_lot c (blended_lot c q pip)) = (fl, limited, margin)" by (metis surj_pair)
  then have fl: "lc_min_lot c \<le> fl" "fl \<le> clamp_lot c (blended_lot c q pip)"
    using margin_cap_bounds clamp_lot_bounds(1) by blast+
  have lot: "lz_lot r = fl" "lz_pip_value r = pip" by (simp_all add: r sized_result_def cap)
  note fixed = fixed_nonneg [OF sl pos assms(5,6)]
  have "fl \<le> max (lc_min_lot c) (1/100) \<or> fl \<le> 13/10 * fixed_lot c q pip"
    using fl(2) clamp_lot_bounds(3) [of c "blended_lot c q pip"] blended_le [OF fixed(1)] by linarith
  moreover have "fl * lq_stop_pips q * pip \<le> 13/10 * (fixed_lot c q pip * lq_stop_pips q * pip)"
    if "fl \<le> 13/10 * fixed_lot c q pip"
    using mult_right_mono [OF that, of "lq_stop_pips q * pip"] sl pos by (simp add: mult.assoc)
  moreover have "fl \<le> lc_max_lot c"
    using fl(2) clamp_lot_bounds(2) [of c "blended_lot c q pip"] assms(4) by linarith
  ultimately show ?thesis using fl(1) fixed(2) unfolding lot by auto
qed

definition demo_request :: lot_request where
  "demo_request = \<lparr>lq_balance = 10000, lq_stop_pips = 10, lq_symbol = ''EURUSD'', lq_equity = None,
     lq_free_margin = Some 1000, lq_win_rate = 55/100, lq_avg_rr = 3/2, lq_volatility = 1, lq_override_risk = Some 3\<rparr>"

definition demo_sizer :: lot_sizer where
  "demo_sizer = \<lparr>ls_config = default_lot_config, ls_mt5 = None, ls_cache = []\<rparr>"

lemma demo_symbol [simp]: "normal_symbol ''EURUSD'' = ''EURUSD''"
  by (simp add: normal_symbol_def py_upper_def char_upper_def py_strip_def char_space_def)

lemma demo_pip: "get_pip_value ''EURUSD'' 0 0 demo_sizer
    = (Inr (10, StaticTable), store_pip ''EURUSD'' 10 0 StaticTable demo_sizer)"
  by (simp add: get_pip_value_def demo_sizer_def static_pip_def resolve_canonical_def symbol_aliases_def
      pip_value_table_def)

lemma demo_calculation: "calculate_lot demo_request 0 0 demo_sizer
    = (Inr (sized_result default_lot_config demo_request 10 StaticTable), store_pip ''EURUSD'' 10 0 StaticTable demo_sizer)"
  by (simp add: calculate_lot_def demo_request_def demo_pip) (simp add: demo_sizer_def)

lemma demo_blend: "blended_lot default_lot_config demo_request 10 = 39/10"
  by (simp add: blended_lot_def kelly_lot_def fixed_lot_def kelly_p_def eff_equity_def eff_risk_def
      demo_request_def default_lot_config_def min_def max_def)

text \<open>With 3% risk the blended lot is 3.9: 390 of 10000 are at risk, more than the 3% guard allows.\<close>

theorem lot_and_risk_bounded_witness:
  "1/100 \<le> lz_lot (sized_result default_lot_config (demo_request\<lparr>lq_free_margin := None\<rparr>) 10 StaticTable)
   \<and> lz_lot (sized_result default_lot_config (demo_request\<lparr>lq_free_margin := None\<rparr>) 10 StaticTable) = 39/10"
proof -
  let ?q = "demo_request\<lparr>lq_free_margin := None\<rparr>"
  have blend: "blended_lot default_lot_config ?q 10 = 39/10"
    by (simp add: blended_lot_def kelly_lot_def fixed_lot_def kelly_p_def eff_equity_def eff_risk_def
      demo_request_def default_lot_config_def min_def max_def)
  have calc: "calculate_lot ?q 0 0 demo_sizer
    = (Inr (sized_result default_lot_config ?q 10 StaticTable), store_pip ''EURUSD'' 10 0 StaticTable demo_sizer)"
    by (simp add: calculate_lot_def demo_request_def demo_pip) (simp add: demo_sizer_def)
  have "pip_inv demo_sizer" by (simp add: pip_inv_def demo_sizer_def)
  note bound = lot_and_risk_bounded [OF this calc refl]
  have cfg: "ls_config demo_sizer = default_lot_config" "lc_min_lot default_lot_config = 1/100"
    "lc_max_lot default_lot_config = 10"
    by (simp_all add: demo_sizer_def default_lot_config_def)
  have side: "0 \<le> lq_volatility ?q" "0 \<le> eff_risk default_lot_config ?q" "lq_free_margin ?q = None"
    by (simp_all add: demo_request_def eff_risk_def default_lot_config_def)
  have "lz_lot (sized_result default_lot_config ?q 10 StaticTable) = 39/10"
    unfolding sized_result_def blend by (simp add: margin_cap_def clamp_lot_def cfg side(3) Let_def)
  then show ?thesis using bound side unfolding cfg by simp
qed

text \<open>
  When the margin cap limits a lot above the minimum lot, the margin of the capped lot is the free
  margin times \<open>margin_buffer_pct / 100\<close>. With the default buffer of 120 this is 20% more than the
  margin there is: the buffer enlarges the allowance it is meant to shrink.
\<close>

theorem margin_cap_exceeds_free_margin:
  assumes "margin_cap c symb (Some fm) fl = (fl', True, margin)" and "lc_min_lot c < fl'"
  shows "fl' * margin_per_lot symb = fm * (lc_margin_buffer_pct c / 100)"
proof -
  have "0 < margin_per_lot symb"
  proof -
    have "\<forall>(k, p) \<in> set margin_pct_table. 0 < p" by (simp add: margin_pct_table_def)
    then have "map_of margin_pct_table symb = Some p \<Longrightarrow> 0 < p" for p
      using map_of_SomeD by fastforce
    then show ?thesis by (auto simp: margin_per_lot_def default_margin_pct_def split: option.split)
  qed
  with assms show ?thesis
    by (auto simp: margin_cap_def Let_def max_def min_def split: if_splits)
qed

theorem margin_cap_exceeds_free_margin_witness:
  "1000 < fst (margin_cap default_lot_config ''EURUSD'' (Some 1000) (39/10)) * margin_per_lot ''EURUSD''"
proof -
  have per: "margin_per_lot ''EURUSD'' = 1000"
    by (simp add: margin_per_lot_def is_alpha_def margin_pct_table_def)
  have cap: "margin_cap default_lot_config ''EURUSD'' (Some 1000) (39/10) = (6/5, True, 3900)"
    by (simp add: margin_cap_def per default_lot_config_def)
  from margin_cap_exceeds_free_margin [OF cap] show ?thesis
    unfolding cap by (simp add: default_lot_config_def)
qed

end
