(* ===== verification/Margin_Gate.thy ===== *)
theory Margin_Gate
  imports Contracts
begin

section \<open>The margin gate\<close>

text \<open>
  \<open>src/backend/risk/margin_gate.py\<close>. The broker is a parameter: \<open>mb_symbol_info\<close> answers the contract
  size of a symbol (an exception, a timeout being one, or None for an empty answer) and
  \<open>mb_calc_margin\<close> the margin of an order when the connector has \<open>order_calc_margin\<close>; the repository's
  connector has none. The reject reasons carry the numbers they print.
\<close>

record margin_broker =
  mb_symbol_info :: "string \<Rightarrow> exc + real option"
  mb_calc_margin :: "(string \<Rightarrow> real \<Rightarrow> string \<Rightarrow> exc + real option) option"

record margin_gate =
  mg_min_free_pct :: real
  mg_safety :: real
  mg_broker :: "margin_broker option"

definition new_margin_gate :: "margin_broker option \<Rightarrow> margin_gate" where
  "new_margin_gate b = \<lparr>mg_min_free_pct = 1/5, mg_safety = 6/5, mg_broker = b\<rparr>"

datatype margin_reason = LotNotPositive | InsufficientMargin real real | FreeBelowMinimum real real

record margin_result =
  mr_approved :: bool
  mr_required :: real
  mr_available :: real
  mr_level_pct :: real
  mr_reason :: "margin_reason option"

definition fallback_contract_sizes :: "(string \<times> real) list" where
  "fallback_contract_sizes = [(''XAUUSD'', 100), (''XAGUSD'', 5000), (''BTCUSD'', 1), (''ETHUSD'', 1),
     (''USOIL'', 1000), (''UKOIL'', 1000), (''NAS100'', 1), (''US30'', 1), (''SPX500'', 1)]"

definition forex_default_contract :: real where "forex_default_contract = 100000"

definition starts_with :: "string \<Rightarrow> string \<Rightarrow> bool" where
  "starts_with s p \<longleftrightarrow> take (length p) s = p"

definition fallback_contract_size :: "string \<Rightarrow> real" where
  "fallback_contract_size symbol = (case List.find (\<lambda>(k, _). starts_with (py_upper symbol) k) fallback_contract_sizes of
      Some (_, contract) \<Rightarrow> contract
    | None \<Rightarrow> forex_default_contract)"

definition get_contract_size :: "margin_gate \<Rightarrow> string \<Rightarrow> real" where
  "get_contract_size g symbol = (case mg_broker g of
      None \<Rightarrow> fallback_contract_size symbol
    | Some b \<Rightarrow> (case mb_symbol_info b symbol of
        Inr (Some cs) \<Rightarrow> if 0 < cs then cs else fallback_contract_size symbol
      | _ \<Rightarrow> fallback_contract_size symbol))"

definition table_margin :: "margin_gate \<Rightarrow> string \<Rightarrow> real \<Rightarrow> real \<Rightarrow> real" where
  "table_margin g symbol lot rate = lot * get_contract_size g symbol * (rate / 100) * mg_safety g"

definition required_margin :: "margin_gate \<Rightarrow> string \<Rightarrow> real \<Rightarrow> string \<Rightarrow> real \<Rightarrow> real" where
  "required_margin g symbol lot dir rate =
     (case mg_broker g of
        None \<Rightarrow> table_margin g symbol lot rate
      | Some b \<Rightarrow> (case mb_calc_margin b of
          None \<Rightarrow> table_margin g symbol lot rate
        | Some calc \<Rightarrow> (case calc symbol lot dir of
            Inr (Some m) \<Rightarrow> if 0 < m then m * mg_safety g else table_margin g symbol lot rate
          | _ \<Rightarrow> table_margin g symbol lot rate)))"

definition margin_check :: "margin_gate \<Rightarrow> string \<Rightarrow> real \<Rightarrow> real \<Rightarrow> real \<Rightarrow> real \<Rightarrow> real \<Rightarrow> string \<Rightarrow> real \<Rightarrow> margin_result" where
  "margin_check g symbol lot balance equity free used dir rate =
     (if lot \<le> 0 then \<lparr>mr_approved = False, mr_required = 0, mr_available = 0, mr_level_pct = 0,
         mr_reason = Some LotNotPositive\<rparr>
      else (let req = required_margin g symbol lot dir rate in
        if free < req then \<lparr>mr_approved = False, mr_required = req, mr_available = free, mr_level_pct = 0,
          mr_reason = Some (InsufficientMargin req free)\<rparr>
        else if 0 < equity \<and> free / equity < mg_min_free_pct g
        then \<lparr>mr_approved = False, mr_required = req, mr_available = free, mr_level_pct = free / equity * 100,
          mr_reason = Some (FreeBelowMinimum (free / equity) (mg_min_free_pct g))\<rparr>
        else \<lparr>mr_approved = True, mr_required = req, mr_available = free - req,
          mr_level_pct = (if 0 < used + req then equity / (used + req) * 100 else 9999), mr_reason = None\<rparr>))"

lemma margin_check_approved_iff:
  "mr_approved (margin_check g symbol lot balance equity free used dir rate) \<longleftrightarrow>
     0 < lot \<and> required_margin g symbol lot dir rate \<le> free \<and> (equity \<le> 0 \<or> mg_min_free_pct g \<le> free / equity)"
  by (auto simp: margin_check_def Let_def)

text \<open>
  With the repository's connector, whose contract size is positive, an order is approved exactly
  when its lot is positive, the free margin covers the required margin, and the free margin is at
  least the minimum fraction of a positive equity. The required margin is the lot times the contract
  size times the rate and the safety factor: no price enters it, for a metal or an index neither.
\<close>

theorem margin_gate_decision:
  assumes "mg_broker g = Some b" and "mb_calc_margin b = None" and "mb_symbol_info b symbol = Inr (Some cs)" and "0 < cs"
  shows "let r = margin_check g symbol lot balance equity free used dir rate in
     mr_approved r = (0 < lot \<and> lot * cs * (rate / 100) * mg_safety g \<le> free
        \<and> (equity \<le> 0 \<or> mg_min_free_pct g \<le> free / equity))
     \<and> mr_approved r = (mr_reason r = None)
     \<and> (mr_approved r \<longrightarrow> mr_available r = free - lot * cs * (rate / 100) * mg_safety g \<and> 0 \<le> mr_available r)"
proof -
  have "required_margin g symbol lot dir rate = lot * cs * (rate / 100) * mg_safety g"
    using assms by (simp add: required_margin_def table_margin_def get_contract_size_def)
  then show ?thesis
    by (cases "lot \<le> 0"; cases "free < lot * cs * (rate / 100) * mg_safety g";
        cases "0 < equity \<and> free / equity < mg_min_free_pct g")
       (auto simp: margin_check_def Let_def not_less)
qed

definition gold_broker :: margin_broker where
  "gold_broker = \<lparr>mb_symbol_info = (\<lambda>_. Inr (Some 100)), mb_calc_margin = None\<rparr>"

theorem margin_gate_decision_witness:
  "mr_approved (margin_check (new_margin_gate (Some gold_broker)) ''XAUUSD'' 1 1000 1000 201 0 ''BUY'' 2)
   \<and> mr_required (margin_check (new_margin_gate (Some gold_broker)) ''XAUUSD'' 1 1000 1000 201 0 ''BUY'' 2) = 12/5"
proof -
  have "mr_approved (margin_check (new_margin_gate (Some gold_broker)) ''XAUUSD'' 1 1000 1000 201 0 ''BUY'' 2)"
    using margin_gate_decision [of "new_margin_gate (Some gold_broker)" gold_broker "''XAUUSD''" 100 1 1000 1000 201 0 "''BUY''" 2]
    by (simp add: new_margin_gate_def gold_broker_def Let_def)
  then show ?thesis
    by (simp add: margin_check_def required_margin_def table_margin_def get_contract_size_def new_margin_gate_def
        gold_broker_def Let_def)
qed

end
