(* ===== verification/Portfolio_Risk.thy ===== *)
theory Portfolio_Risk
  imports Contracts
begin

section \<open>Portfolio risk\<close>

text \<open>
  \<open>src/backend/risk/portfolio_risk.py\<close>: the number of open positions and the net of bought and sold
  risk. The directions are compared with the canonical \<open>TradeDirection\<close> of \<open>src/backend/core/enums.py\<close>,
  whose values are the lower-case strings "buy" and "sell".
\<close>

datatype trade_direction = BUY | SELL | NEUTRAL

fun direction_value :: "trade_direction \<Rightarrow> string" where
  "direction_value BUY = ''buy''"
| "direction_value SELL = ''sell''"
| "direction_value NEUTRAL = ''neutral''"

record portfolio_config =
  pc_max_open :: int
  pc_max_net_delta :: real
  pc_max_correlated :: real
  pc_enabled :: bool

definition default_portfolio_config :: portfolio_config where
  "default_portfolio_config = \<lparr>pc_max_open = 10, pc_max_net_delta = 5, pc_max_correlated = 8, pc_enabled = True\<rparr>"

record portfolio_position =
  pp_symbol :: string
  pp_direction :: string
  pp_risk :: real

datatype portfolio_reason = PortfolioOk | PortfolioDisabled | MaxPositions int int | NetDelta real real

record portfolio_result =
  pr_approved :: bool
  pr_reason :: portfolio_reason
  pr_open :: int
  pr_net_delta :: real

text \<open>\<open>p.direction.upper() == TradeDirection.X\<close>: a \<open>str\<close> enumeration compares by its value.\<close>

definition is_direction :: "trade_direction \<Rightarrow> string \<Rightarrow> bool" where
  "is_direction d s \<longleftrightarrow> py_upper s = direction_value d"

definition direction_risk :: "trade_direction \<Rightarrow> portfolio_position list \<Rightarrow> real" where
  "direction_risk d ps = sum_list (map pp_risk (filter (\<lambda>p. is_direction d (pp_direction p)) ps))"

definition portfolio_check :: "portfolio_config \<Rightarrow> string \<Rightarrow> string \<Rightarrow> real \<Rightarrow> portfolio_position list \<Rightarrow> portfolio_result" where
  "portfolio_check c symbol dir risk ps =
     (if \<not> pc_enabled c then \<lparr>pr_approved = True, pr_reason = PortfolioDisabled, pr_open = 0, pr_net_delta = 0\<rparr>
      else if pc_max_open c \<le> int (length ps)
      then \<lparr>pr_approved = False, pr_reason = MaxPositions (int (length ps)) (pc_max_open c),
        pr_open = int (length ps), pr_net_delta = 0\<rparr>
      else (let buy = direction_risk BUY ps + (if is_direction BUY dir then risk else 0);
                sell = direction_risk SELL ps + (if is_direction BUY dir then 0 else risk);
                net = \<bar>buy - sell\<bar> in
        if pc_max_net_delta c < net
        then \<lparr>pr_approved = False, pr_reason = NetDelta net (pc_max_net_delta c), pr_open = int (length ps), pr_net_delta = net\<rparr>
        else \<lparr>pr_approved = True, pr_reason = PortfolioOk, pr_open = int (length ps), pr_net_delta = net\<rparr>))"

lemma char_upper_not_lower: "of_char (char_upper c) \<notin> {97 .. 122 :: nat}"
  by (auto simp: char_upper_def Let_def)

lemma upper_not_direction: "py_upper s \<noteq> direction_value d"
proof
  assume eq: "py_upper s = direction_value d"
  then obtain c where "char_upper c = hd (direction_value d)"
    by (cases s; cases d) (auto simp: py_upper_def)
  then show False using char_upper_not_lower [of c] by (cases d) auto
qed

text \<open>
  The open positions never count towards the net delta: an upper-cased direction never equals a
  lower-case enumeration value. Below the maximum number of positions, an enabled gate approves a
  trade exactly when its own risk is within the limit, however one-sided the book is.
\<close>

theorem portfolio_net_delta_ignores_positions:
  "pr_approved (portfolio_check c symbol dir risk ps) =
     (if pc_enabled c then int (length ps) < pc_max_open c \<and> \<bar>risk\<bar> \<le> pc_max_net_delta c else True)"
proof -
  have "\<not> is_direction d s" for d s by (simp add: is_direction_def upper_not_direction)
  then show ?thesis by (auto simp: portfolio_check_def direction_risk_def Let_def not_le)
qed

end
