(* ===== verification/News_Filter.thy ===== *)
theory News_Filter
  imports Contracts
begin

section \<open>The news filter\<close>

text \<open>
  \<open>src/backend/risk/news_filter.py\<close>: a bounded calendar of events and the blackout window around
  them. Times are UTC seconds; the constructor of an event upper-cases its currency.
\<close>

record news_event =
  ne_currency :: string
  ne_impact :: string
  ne_time :: time
  ne_title :: string

definition make_event :: "string \<Rightarrow> string \<Rightarrow> time \<Rightarrow> string \<Rightarrow> news_event" where
  "make_event ccy impact w title = \<lparr>ne_currency = py_upper ccy, ne_impact = impact, ne_time = w, ne_title = title\<rparr>"

record news_gate =
  ng_before :: real
  ng_after :: real
  ng_min_impact :: string
  ng_refresh :: real
  ng_events :: "news_event list"
  ng_last_refresh :: "time option"

definition new_news_gate :: "real \<Rightarrow> real \<Rightarrow> string \<Rightarrow> real \<Rightarrow> news_gate" where
  "new_news_gate before after impact refresh = \<lparr>ng_before = before, ng_after = after, ng_min_impact = impact,
     ng_refresh = refresh, ng_events = [], ng_last_refresh = None\<rparr>"

definition max_events :: nat where "max_events = 500"

definition impact_ranks :: "(string \<times> nat) list" where
  "impact_ranks = [(''low'', 1), (''medium'', 2), (''high'', 3), (''fomc'', 4)]"

definition impact_rank :: "string \<Rightarrow> nat \<Rightarrow> nat" where
  "impact_rank s d = (case map_of impact_ranks s of Some n \<Rightarrow> n | None \<Rightarrow> d)"

definition load_events :: "news_event list \<Rightarrow> news_gate \<Rightarrow> news_gate" where
  "load_events evs g = g\<lparr>ng_events := (if max_events < length evs then take_last max_events evs else evs)\<rparr>"

definition add_event :: "news_event \<Rightarrow> news_gate \<Rightarrow> news_gate" where
  "add_event ev g = g\<lparr>ng_events := (if max_events \<le> length (ng_events g)
     then take_last (max_events - 1) (ng_events g) else ng_events g) @ [ev]\<rparr>"

definition clear_events :: "news_gate \<Rightarrow> news_gate" where
  "clear_events g = g\<lparr>ng_events := []\<rparr>"

definition event_count :: "news_gate \<Rightarrow> nat" where
  "event_count g = length (ng_events g)"

text \<open>\<open>sub in s\<close> for strings\<close>

definition str_in :: "string \<Rightarrow> string \<Rightarrow> bool" where
  "str_in sub s \<longleftrightarrow> list_ex (\<lambda>n. take (length sub) (List.drop n s) = sub) [0 ..< Suc (length s)]"

definition major_currencies :: "string list" where
  "major_currencies = [''USD'', ''EUR'', ''GBP'', ''JPY'', ''AUD'', ''CAD'', ''CHF'', ''NZD'']"

text \<open>The two tests that let the loop \<open>continue\<close> on the currency, the one on the impact, and the window.\<close>

definition event_concerns :: "string \<Rightarrow> news_event \<Rightarrow> bool" where
  "event_concerns symb ev = (let ccy = py_upper (ne_currency ev) in
     \<not> (\<not> str_in ccy symb \<and> ccy \<notin> set major_currencies)
     \<and> \<not> (take 3 symb \<noteq> ccy \<and> List.drop 3 symb \<noteq> ccy))"

definition event_triggers :: "news_gate \<Rightarrow> string \<Rightarrow> time \<Rightarrow> news_event \<Rightarrow> bool" where
  "event_triggers g symb now ev \<longleftrightarrow> event_concerns symb ev
     \<and> \<not> impact_rank (py_lower (ne_impact ev)) 0 < impact_rank (ng_min_impact g) 3
     \<and> - ng_after g \<le> ne_time ev - now \<and> ne_time ev - now \<le> ng_before g"

text \<open>\<open>check\<close>: the events that block, none when trading is allowed.\<close>

definition news_check :: "news_gate \<Rightarrow> string \<Rightarrow> time \<Rightarrow> bool \<times> news_event list" where
  "news_check g symbol now =
     (let triggered = filter (event_triggers g (py_upper (take 6 symbol)) now) (ng_events g) in
      (triggered \<noteq> [], triggered))"

text \<open>\<open>refresh_if_needed\<close> with what \<open>provider.fetch()\<close> gives.\<close>

definition refresh_if_needed :: "exc + news_event list \<Rightarrow> time \<Rightarrow> news_gate \<Rightarrow> news_gate" where
  "refresh_if_needed fetched now g =
     (if (case ng_last_refresh g of None \<Rightarrow> True | Some t \<Rightarrow> ng_refresh g < now - t)
      then (case fetched of
          Inr evs \<Rightarrow> (load_events evs g)\<lparr>ng_last_refresh := Some now\<rparr>
        | Inl _ \<Rightarrow> g)
      else g)"

definition news_snapshot :: "news_gate \<Rightarrow> nat \<times> real \<times> real \<times> string" where
  "news_snapshot g = (length (ng_events g), ng_before g, ng_after g, ng_min_impact g)"

subsection \<open>The calendar\<close>

lemma take_last_snoc:
  assumes "0 < n" and "n \<le> length xs" shows "take_last (n - 1) xs @ [x] = take_last n (xs @ [x])"
  using assms by (simp add: take_last_def Suc_diff_le)

interpretation calendar: bounded_log add_event ng_events "\<lambda>_. max_events"
proof
  fix g :: news_gate and ev
  assume "length (ng_events g) \<le> max_events"
  then show "ng_events (add_event ev g) = take_last max_events (ng_events g @ [ev])"
    using take_last_snoc [of max_events "ng_events g" ev]
    by (cases "length (ng_events g) = max_events") (simp_all add: add_event_def max_events_def)
qed simp

lemma load_events_last: "ng_events (load_events evs g) = take_last max_events evs"
  by (simp add: load_events_def)

lemma str_in_middle: "str_in b (a @ b @ c)"
  by (auto simp: str_in_def list_ex_iff intro!: bexI [of _ "length a"])

lemma str_in_prefix: "str_in (take n s) s"
  using str_in_middle [of "take n s" "[]" "List.drop n s"] by simp

lemma str_in_suffix: "str_in (List.drop n s) s"
  using str_in_middle [of "List.drop n s" "take n s" "[]"] by simp

text \<open>The first of the two currency tests is implied by the second.\<close>

lemma event_concerns_iff:
  "event_concerns symb ev \<longleftrightarrow> py_upper (ne_currency ev) \<in> {take 3 symb, List.drop 3 symb}"
  using str_in_prefix [of 3 symb] str_in_suffix [of 3 symb] by (auto simp: event_concerns_def Let_def)

text \<open>
  After any additions to a loaded calendar, the filter blocks exactly when one of the last 500
  events is of the base or quote currency of the symbol, has at least the configured impact, and
  lies between \<open>after\<close> seconds in the past and \<open>before\<close> seconds in the future; an unknown impact
  never blocks, FOMC always does.
\<close>

theorem news_blackout_exact:
  "let g' = fold add_event evs (load_events loaded g); symb = py_upper (take 6 symbol);
       concerned = (\<lambda>ev. py_upper (ne_currency ev) \<in> {take 3 symb, List.drop 3 symb}
          \<and> impact_rank (ng_min_impact g) 3 \<le> impact_rank (py_lower (ne_impact ev)) 0
          \<and> now - ng_after g \<le> ne_time ev \<and> ne_time ev \<le> now + ng_before g) in
     news_check g' symbol now = (list_ex concerned (take_last 500 (take_last 500 loaded @ evs)),
        filter concerned (take_last 500 (take_last 500 loaded @ evs)))"
proof -
  have fits: "calendar.fits (load_events loaded g)" by (simp add: calendar.fits_def load_events_last)
  have cfg: "ng_before (fold add_event es h) = ng_before h \<and> ng_after (fold add_event es h) = ng_after h
      \<and> ng_min_impact (fold add_event es h) = ng_min_impact h" for es and h :: news_gate
    by (induction es arbitrary: h) (simp_all add: add_event_def)
  have loaded: "ng_before (load_events loaded g) = ng_before g" "ng_after (load_events loaded g) = ng_after g"
      "ng_min_impact (load_events loaded g) = ng_min_impact g"
    by (simp_all add: load_events_def)
  have events: "ng_events (fold add_event evs (load_events loaded g)) = take_last 500 (take_last 500 loaded @ evs)"
    using calendar.items_push_all [OF fits, of evs] by (simp add: load_events_last max_events_def)
  have trig: "event_triggers (fold add_event evs (load_events loaded g)) symb now =
      (\<lambda>ev. py_upper (ne_currency ev) \<in> {take 3 symb, List.drop 3 symb}
          \<and> impact_rank (ng_min_impact g) 3 \<le> impact_rank (py_lower (ne_impact ev)) 0
          \<and> now - ng_after g \<le> ne_time ev \<and> ne_time ev \<le> now + ng_before g)" for symb
    by (auto simp: event_triggers_def event_concerns_iff cfg loaded not_less fun_eq_iff)
  show ?thesis
    by (simp only: Let_def news_check_def trig events) (auto simp: list_ex_iff filter_empty_conv)
qed

end
