(* ===== verification/Volatility_Filter.thy ===== *)
theory Volatility_Filter
  imports News_Filter
begin

section \<open>The volatility filter\<close>

text \<open>
  \<open>src/backend/risk/volatility_filter.py\<close>: blocks on an ATR far from its recent mean. An ATR argument
  of None is NaN. The events it loads are those of \<open>News_Filter\<close> (the import of the canonical class
  succeeds), and that class has no attribute \<open>symbol\<close>, which the loop over the events reads first.
\<close>

record vol_config =
  vc_max_mult :: real
  vc_min_mult :: real
  vc_news_pre :: int
  vc_news_post :: int
  vc_enabled :: bool

definition default_vol_config :: vol_config where
  "default_vol_config = \<lparr>vc_max_mult = 3, vc_min_mult = 3/10, vc_news_pre = 30, vc_news_post = 15, vc_enabled = True\<rparr>"

datatype vol_reason = VolDisabled | VolInvalid "real option" | AtrTooHigh real real | AtrTooLow real real | VolOk

record vol_result =
  vr_can_trade :: bool
  vr_reason :: vol_reason
  vr_ratio :: real
  vr_news_blocked :: bool

record vol_filter =
  vf_config :: vol_config
  vf_events :: "news_event list"
  vf_history :: "(string, real list) odict"

definition new_vol_filter :: "vol_config option \<Rightarrow> vol_filter" where
  "new_vol_filter c = \<lparr>vf_config = (case c of None \<Rightarrow> default_vol_config | Some x \<Rightarrow> x), vf_events = [], vf_history = []\<rparr>"

definition load_news_events :: "news_event list \<Rightarrow> vol_filter \<Rightarrow> vol_filter" where
  "load_news_events evs v = v\<lparr>vf_events := evs\<rparr>"

text \<open>\<open>update_atr\<close>: append, and cut to the last hundred when longer.\<close>

definition push_atr :: "real \<Rightarrow> real list \<Rightarrow> real list" where
  "push_atr atr h = (let h' = h @ [atr] in if 100 < length h' then take_last 100 h' else h')"

definition atr_history :: "vol_filter \<Rightarrow> string \<Rightarrow> real list" where
  "atr_history v symbol = (case od_get (vf_history v) symbol of None \<Rightarrow> [] | Some h \<Rightarrow> h)"

definition update_atr :: "string \<Rightarrow> real \<Rightarrow> vol_filter \<Rightarrow> vol_filter" where
  "update_atr symbol atr v = v\<lparr>vf_history := od_put symbol (push_atr atr (atr_history v symbol)) (vf_history v)\<rparr>"

definition mean :: "real list \<Rightarrow> real" where
  "mean xs = sum_list xs / length xs"

text \<open>The two ATR tests: the refusal, or None when both pass or there is too little history.\<close>

definition atr_refusal :: "vol_config \<Rightarrow> real list \<Rightarrow> real \<Rightarrow> vol_result option" where
  "atr_refusal c hist atr =
     (if 10 \<le> length hist
      then (let normal = mean (take_last 20 hist); ratio = atr / normal in
        if 0 < normal \<and> 0 \<le> atr
        then if vc_max_mult c < ratio
             then Some \<lparr>vr_can_trade = False, vr_reason = AtrTooHigh ratio (vc_max_mult c), vr_ratio = ratio, vr_news_blocked = False\<rparr>
             else if ratio < vc_min_mult c
             then Some \<lparr>vr_can_trade = False, vr_reason = AtrTooLow ratio (vc_min_mult c), vr_ratio = ratio, vr_news_blocked = False\<rparr>
             else None
        else None)
      else None)"

definition vol_check :: "vol_filter \<Rightarrow> string \<Rightarrow> real option \<Rightarrow> exc + vol_result" where
  "vol_check v symbol atr =
     (if \<not> vc_enabled (vf_config v)
      then Inr \<lparr>vr_can_trade = True, vr_reason = VolDisabled, vr_ratio = 1, vr_news_blocked = False\<rparr>
      else if (case atr of None \<Rightarrow> True | Some a \<Rightarrow> a < 0)
      then Inr \<lparr>vr_can_trade = False, vr_reason = VolInvalid atr, vr_ratio = 0, vr_news_blocked = False\<rparr>
      else case atr_refusal (vf_config v) (atr_history v symbol) (the atr) of
          Some r \<Rightarrow> Inr r
        | None \<Rightarrow> (case vf_events v of
            [] \<Rightarrow> Inr \<lparr>vr_can_trade = True, vr_reason = VolOk, vr_ratio = 1, vr_news_blocked = False\<rparr>
          | _ # _ \<Rightarrow> Inl AttributeError))"

definition vol_check_async :: "vol_filter \<Rightarrow> string \<Rightarrow> real option \<Rightarrow> exc + vol_result" where
  "vol_check_async v symbol atr = vol_check v symbol atr"

interpretation atr_log: bounded_log push_atr "\<lambda>h. h" "\<lambda>_. 100"
  by unfold_locales (simp_all add: push_atr_def Let_def)

lemma atr_history_update:
  "atr_history (update_atr s x v) s' = (if s' = s then push_atr x (atr_history v s) else atr_history v s')"
  by (simp add: atr_history_def update_atr_def)

lemma atr_history_updates:
  "atr_history (fold (\<lambda>(s, x). update_atr s x) us v) symbol
   = fold push_atr (map snd (filter (\<lambda>u. fst u = symbol) us)) (atr_history v symbol)"
  by (induction us arbitrary: v) (auto simp: atr_history_update)

text \<open>
  After any updates a new enabled filter keeps the last 100 samples of each symbol and judges a
  valid ATR against the mean of the last 20: with ten samples and a positive mean it refuses exactly
  when the ratio leaves the configured band, and with less history it lets the trade through.
  But when any news event is loaded, a trade that is not refused raises AttributeError instead:
  the blackout windows never apply.
\<close>

theorem volatility_decision:
  assumes "vc_enabled c" and "0 \<le> atr"
  shows "let v = load_news_events evs (fold (\<lambda>(s, x). update_atr s x) us (new_vol_filter (Some c)));
       hist = take_last 100 (map snd (filter (\<lambda>u. fst u = symbol) us)); ratio = atr / mean (take_last 20 hist);
       refused = (10 \<le> length hist \<and> 0 < mean (take_last 20 hist) \<and> (vc_max_mult c < ratio \<or> ratio < vc_min_mult c)) in
     case vol_check v symbol (Some atr) of
       Inr r \<Rightarrow> vr_can_trade r = (\<not> refused) \<and> (evs = [] \<or> refused)
     | Inl e \<Rightarrow> e = AttributeError \<and> \<not> refused \<and> evs \<noteq> []"
proof -
  let ?v = "load_news_events evs (fold (\<lambda>(s, x). update_atr s x) us (new_vol_filter (Some c)))"
  let ?hist = "take_last 100 (map snd (filter (\<lambda>u. fst u = symbol) us))"
  have "vf_config (fold (\<lambda>(s, x). update_atr s x) us v) = vf_config v" for v
    by (induction us arbitrary: v) (auto simp: update_atr_def)
  then have cfg: "vf_config ?v = c" by (simp add: load_news_events_def new_vol_filter_def)
  have "atr_history (new_vol_filter (Some c)) symbol = []" by (simp add: atr_history_def new_vol_filter_def)
  then have hist: "atr_history ?v symbol = ?hist"
    using atr_log.items_push_all [of "[]" "map snd (filter (\<lambda>u. fst u = symbol) us)"]
      atr_history_updates [of us "new_vol_filter (Some c)" symbol]
    by (simp add: atr_log.fits_def load_news_events_def atr_history_def)
  have evs: "vf_events ?v = evs" by (simp add: load_news_events_def)
  show ?thesis
    using assms unfolding Let_def vol_check_def cfg hist evs
    by (auto simp: atr_refusal_def Let_def split: list.split)
qed

theorem volatility_decision_witness:
  "case vol_check (load_news_events [make_event ''USD'' ''high'' 0 ''NFP''] (new_vol_filter (Some default_vol_config)))
      ''EURUSD'' (Some 1) of Inr r \<Rightarrow> False | Inl e \<Rightarrow> e = AttributeError"
  using volatility_decision [of default_vol_config 1 "[make_event ''USD'' ''high'' 0 ''NFP'']" "[]" "''EURUSD''"]
  by (simp add: default_vol_config_def Let_def split: sum.splits)

end
