(* ===== verification/Correlation_Filter.thy ===== *)
theory Correlation_Filter
  imports Exposure_Control
begin

section \<open>The correlation filter\<close>

text \<open>
  \<open>src/backend/risk/correlation_filter.py\<close>: rolling returns per symbol, Pearson correlations with a
  cache, a static fallback table, and the decision on the net correlated exposure. Strings are
  ordered by their character codes, as Python orders them; the clock is read once per call.
\<close>

subsection \<open>Rolling returns\<close>

record price_window =
  pw_size :: nat
  pw_returns :: "real list"
  pw_last :: "real option"

definition new_window :: "nat \<Rightarrow> price_window" where
  "new_window n = \<lparr>pw_size = n, pw_returns = [], pw_last = None\<rparr>"

definition window_add :: "real \<Rightarrow> price_window \<Rightarrow> price_window" where
  "window_add price w =
     (let w1 = (case pw_last w of
          Some p \<Rightarrow> if p \<noteq> 0
            then (let rs = pw_returns w @ [(price - p) / p] in
              w\<lparr>pw_returns := (if pw_size w < length rs then tl rs else rs)\<rparr>)
            else w
        | None \<Rightarrow> w) in
      w1\<lparr>pw_last := Some price\<rparr>)"

definition window_ready :: "price_window \<Rightarrow> bool" where
  "window_ready w \<longleftrightarrow> 3 \<le> length (pw_returns w)"

subsection \<open>Pearson correlation\<close>

definition mean_of :: "real list \<Rightarrow> real" where
  "mean_of xs = sum_list xs / length xs"

definition deviations :: "real list \<Rightarrow> real list" where
  "deviations xs = map (\<lambda>v. v - mean_of xs) xs"

definition dot :: "real list \<Rightarrow> real list \<Rightarrow> real" where
  "dot xs ys = sum_list (map2 (*) xs ys)"

definition pearson :: "real list \<Rightarrow> real list \<Rightarrow> real" where
  "pearson xs ys =
     (let n = min (length xs) (length ys) in
      if n < 3 then 0
      else (let x = take_last n xs; y = take_last n ys; num = dot (deviations x) (deviations y);
                dx = sqrt (sum_list (map (\<lambda>v. v\<^sup>2) (deviations x)));
                dy = sqrt (sum_list (map (\<lambda>v. v\<^sup>2) (deviations y))) in
        if 0 < dx * dy then py_round 4 (num / (dx * dy)) else 0))"

subsection \<open>The engine\<close>

fun str_le :: "string \<Rightarrow> string \<Rightarrow> bool" where
  "str_le [] _ = True"
| "str_le (_ # _) [] = False"
| "str_le (a # s) (b # t) = ((of_char a :: nat) < of_char b \<or> a = b \<and> str_le s t)"

definition canonical_pair :: "string \<Rightarrow> string \<Rightarrow> string \<times> string" where
  "canonical_pair a b = (let a = py_upper a; b = py_upper b in if str_le a b then (a, b) else (b, a))"

record corr_engine =
  ce_window :: nat
  ce_ttl :: real
  ce_windows :: "(string, price_window) odict"
  ce_cache :: "(string \<times> string, real \<times> time) odict"

definition new_engine :: "nat \<Rightarrow> real \<Rightarrow> corr_engine" where
  "new_engine n ttl = \<lparr>ce_window = n, ce_ttl = ttl, ce_windows = [], ce_cache = []\<rparr>"

definition engine_add_price :: "string \<Rightarrow> real \<Rightarrow> corr_engine \<Rightarrow> corr_engine" where
  "engine_add_price symbol price e =
     (let symb = py_upper symbol;
          w = (case od_get (ce_windows e) symb of None \<Rightarrow> new_window (ce_window e) | Some w \<Rightarrow> w) in
      e\<lparr>ce_windows := od_put symb (window_add price w) (ce_windows e),
        ce_cache := filter (\<lambda>(k, _). symb \<noteq> fst k \<and> symb \<noteq> snd k) (ce_cache e)\<rparr>)"

text \<open>What a fresh computation would give.\<close>

definition fresh_correlation :: "corr_engine \<Rightarrow> string \<times> string \<Rightarrow> real option" where
  "fresh_correlation e k = (case (od_get (ce_windows e) (fst k), od_get (ce_windows e) (snd k)) of
      (Some wa, Some wb) \<Rightarrow>
        if window_ready wa \<and> window_ready wb then Some (pearson (pw_returns wa) (pw_returns wb)) else None
    | _ \<Rightarrow> None)"

definition engine_correlation :: "string \<Rightarrow> string \<Rightarrow> time \<Rightarrow> corr_engine \<Rightarrow> real option \<times> corr_engine" where
  "engine_correlation a b m e =
     (let k = canonical_pair a b;
          compute = (case fresh_correlation e k of
              None \<Rightarrow> (None, e)
            | Some c \<Rightarrow> (Some c, e\<lparr>ce_cache := od_put k (c, m) (ce_cache e)\<rparr>)) in
      if fst k = snd k then (Some 1, e)
      else case od_get (ce_cache e) k of
          Some (c, t) \<Rightarrow> if m - t < ce_ttl e then (Some c, e) else compute
        | None \<Rightarrow> compute)"

definition get_tracked_symbols :: "corr_engine \<Rightarrow> string list" where
  "get_tracked_symbols e = map fst (ce_windows e)"

text \<open>\<open>cache_stats\<close>: symbols, entries and live entries.\<close>

definition cache_stats :: "time \<Rightarrow> corr_engine \<Rightarrow> nat \<times> nat \<times> nat" where
  "cache_stats m e = (length (ce_windows e), length (ce_cache e),
     length (filter (\<lambda>(_, _, t). m - t < ce_ttl e) (ce_cache e)))"

definition static_table :: "((string \<times> string) \<times> real) list" where
  "static_table = [((''EURUSD'', ''GBPUSD''), 17/20), ((''EURUSD'', ''AUDUSD''), 7/10),
     ((''EURUSD'', ''NZDUSD''), 13/20), ((''GBPUSD'', ''AUDUSD''), 18/25), ((''USDCHF'', ''EURUSD''), - (22/25)),
     ((''USDCHF'', ''GBPUSD''), - (3/4)), ((''USDJPY'', ''EURJPY''), 39/50), ((''XAUUSD'', ''EURUSD''), 11/20)]"

definition static_correlation :: "string \<Rightarrow> string \<Rightarrow> real option" where
  "static_correlation a b = map_of static_table (canonical_pair a b)"

subsection \<open>The decision\<close>

record corr_config =
  co_max_exposure :: real
  co_penalty_threshold :: real
  co_window :: nat
  co_ttl :: real
  co_fail_mode :: fail_mode

definition default_corr_config :: corr_config where
  "default_corr_config = \<lparr>co_max_exposure = 4/5, co_penalty_threshold = 3/5, co_window = 50, co_ttl = 60,
     co_fail_mode = FAIL_CLOSED\<rparr>"

record corr_position =
  cp_symbol :: string
  cp_direction :: string
  cp_risk :: real

datatype corr_source = NoSource | Rolling | Static | SourceError
datatype corr_reason = CorrNone | CorrBlocked real real string real | CorrPenalty real real | CorrFailClosed exc | CorrFailOpen exc

record corr_result =
  cr_can_trade :: bool
  cr_multiplier :: real
  cr_score :: real
  cr_reason :: corr_reason
  cr_source :: corr_source

text \<open>\<open>_get_correlation\<close>: the rolling value, else the static one.\<close>

definition lookup_correlation :: "string \<Rightarrow> string \<Rightarrow> time \<Rightarrow> corr_engine \<Rightarrow> (real option \<times> corr_source) \<times> corr_engine" where
  "lookup_correlation a b m e = (case engine_correlation a b m e of
      (Some c, e') \<Rightarrow> ((Some c, Rolling), e')
    | (None, e') \<Rightarrow> (case static_correlation a b of
        Some c \<Rightarrow> ((Some c, Static), e') | None \<Rightarrow> ((None, NoSource), e')))"

record corr_scan =
  sc_max :: real
  sc_pair :: string
  sc_net :: real
  sc_source :: corr_source

text \<open>One pass of the loop over the open positions.\<close>

definition scan_position :: "string \<Rightarrow> string \<Rightarrow> time \<Rightarrow> corr_position \<Rightarrow> corr_scan \<times> corr_engine \<Rightarrow> corr_scan \<times> corr_engine" where
  "scan_position symbol dir m p st = (case st of (s, e) \<Rightarrow>
     (case lookup_correlation symbol (cp_symbol p) m e of
        ((None, _), e') \<Rightarrow> (s, e')
      | ((Some c, src), e') \<Rightarrow>
          (let s1 = s\<lparr>sc_net := sc_net s + c * (if dir = cp_direction p then 1 else -1) * cp_risk p\<rparr> in
           if \<bar>sc_max s\<bar> < \<bar>c\<bar> then (s1\<lparr>sc_max := c, sc_pair := cp_symbol p, sc_source := src\<rparr>, e') else (s1, e'))))"

definition penalty_multiplier :: "corr_config \<Rightarrow> real \<Rightarrow> real" where
  "penalty_multiplier c net = py_round 2 (max (3/10)
     (1 - (net - co_penalty_threshold c) / (co_max_exposure c - co_penalty_threshold c)))"

definition corr_decide :: "corr_config \<Rightarrow> corr_scan \<Rightarrow> corr_result" where
  "corr_decide c s = (let net = \<bar>sc_net s\<bar> in
     if co_max_exposure c \<le> net
     then \<lparr>cr_can_trade = False, cr_multiplier = 0, cr_score = net,
       cr_reason = CorrBlocked net (co_max_exposure c) (sc_pair s) (sc_max s), cr_source = sc_source s\<rparr>
     else if co_penalty_threshold c \<le> net
     then \<lparr>cr_can_trade = True, cr_multiplier = penalty_multiplier c net, cr_score = net,
       cr_reason = CorrPenalty net (penalty_multiplier c net), cr_source = sc_source s\<rparr>
     else \<lparr>cr_can_trade = True, cr_multiplier = 1, cr_score = net, cr_reason = CorrNone, cr_source = sc_source s\<rparr>)"

definition corr_check_inner :: "corr_config \<Rightarrow> string \<Rightarrow> string \<Rightarrow> corr_position list \<Rightarrow> real \<Rightarrow> time \<Rightarrow> corr_engine
    \<Rightarrow> corr_result \<times> corr_engine" where
  "corr_check_inner c symbol dir ps base m e =
     (if ps = [] then (\<lparr>cr_can_trade = True, cr_multiplier = 1, cr_score = 0, cr_reason = CorrNone, cr_source = NoSource\<rparr>, e)
      else case fold (scan_position symbol dir m) ps (\<lparr>sc_max = 0, sc_pair = [], sc_net = 0, sc_source = NoSource\<rparr>, e) of
        (s, e') \<Rightarrow> (corr_decide c s, e'))"

definition corr_check :: "fail_mode \<Rightarrow> exc + corr_result \<Rightarrow> corr_result" where
  "corr_check mode inner = (case inner of
      Inr r \<Rightarrow> r
    | Inl x \<Rightarrow> (case mode of
        FAIL_CLOSED \<Rightarrow> \<lparr>cr_can_trade = False, cr_multiplier = 0, cr_score = 0, cr_reason = CorrFailClosed x, cr_source = SourceError\<rparr>
      | FAIL_OPEN \<Rightarrow> \<lparr>cr_can_trade = True, cr_multiplier = 1, cr_score = 0, cr_reason = CorrFailOpen x, cr_source = SourceError\<rparr>))"

text \<open>The synchronous \<open>get_correlation\<close> reads the static table only.\<close>

definition filter_correlation :: "string \<Rightarrow> string \<Rightarrow> real option" where
  "filter_correlation a b = (if py_upper a = py_upper b then Some 1 else static_correlation a b)"

fun matrix_row :: "string \<Rightarrow> string list \<Rightarrow> time \<Rightarrow> ((string \<times> string), real) odict \<times> corr_engine
    \<Rightarrow> ((string \<times> string), real) odict \<times> corr_engine" where
  "matrix_row a [] m me = me"
| "matrix_row a (b # bs) m (mx, e) =
     (if a = b then matrix_row a bs m (od_put (canonical_pair a b) 1 mx, e)
      else case lookup_correlation a b m e of
        ((c, _), e') \<Rightarrow> matrix_row a bs m (od_put (canonical_pair a b) (case c of None \<Rightarrow> 0 | Some x \<Rightarrow> x) mx, e'))"

fun portfolio_matrix :: "string list \<Rightarrow> time \<Rightarrow> ((string \<times> string), real) odict \<times> corr_engine
    \<Rightarrow> ((string \<times> string), real) odict \<times> corr_engine" where
  "portfolio_matrix [] m me = me"
| "portfolio_matrix (a # as) m me = portfolio_matrix as m (matrix_row a (a # as) m me)"

subsection \<open>Correlations are between -1 and 1\<close>

lemma square_sum_nonneg: "0 \<le> sum_list (map (\<lambda>v. v\<^sup>2) xs)" for xs :: "real list"
  by (intro sum_list_nonneg) auto

text \<open>Cauchy-Schwarz on lists.\<close>

lemma dot_square_le: "(dot xs ys)\<^sup>2 \<le> sum_list (map (\<lambda>v. v\<^sup>2) xs) * sum_list (map (\<lambda>v. v\<^sup>2) ys)"
proof (induction xs ys rule: list_induct2')
  case (4 x xs y ys)
  let ?a = "sum_list (map (\<lambda>v. v\<^sup>2) xs)" and ?b = "sum_list (map (\<lambda>v. v\<^sup>2) ys)" and ?d = "dot xs ys"
  have a: "0 \<le> ?a" and b: "0 \<le> ?b" by (rule square_sum_nonneg)+
  have "\<bar>?d\<bar> \<le> sqrt ?a * sqrt ?b"
    using real_sqrt_le_mono [OF 4] by (simp add: real_sqrt_mult)
  then have "x * y * ?d * 2 \<le> 2 * (\<bar>x\<bar> * sqrt ?b) * (\<bar>y\<bar> * sqrt ?a)"
  proof -
    have "x * y * ?d \<le> \<bar>x\<bar> * \<bar>y\<bar> * \<bar>?d\<bar>" by (metis abs_ge_self abs_mult)
    also have "\<dots> \<le> \<bar>x\<bar> * \<bar>y\<bar> * (sqrt ?a * sqrt ?b)"
      using \<open>\<bar>?d\<bar> \<le> _\<close> by (intro mult_left_mono) auto
    finally show ?thesis by (simp add: ac_simps)
  qed
  also have "\<dots> \<le> (\<bar>x\<bar> * sqrt ?b)\<^sup>2 + (\<bar>y\<bar> * sqrt ?a)\<^sup>2"
    by (rule sum_squares_bound)
  also have "\<dots> = x\<^sup>2 * ?b + y\<^sup>2 * ?a" using a b by (simp add: power_mult_distrib)
  finally have "2 * (x * y * ?d) \<le> x\<^sup>2 * ?b + y\<^sup>2 * ?a" by simp
  moreover have "dot (x # xs) (y # ys) = x * y + ?d" by (simp add: dot_def)
  ultimately show ?case using 4 by (simp add: power2_sum algebra_simps power_mult_distrib)
qed (simp_all add: dot_def square_sum_nonneg)

lemma pearson_bounds: "- 1 \<le> pearson xs ys \<and> pearson xs ys \<le> 1"
proof -
  let ?n = "min (length xs) (length ys)"
  let ?x = "deviations (take_last ?n xs)" and ?y = "deviations (take_last ?n ys)"
  let ?dx = "sqrt (sum_list (map (\<lambda>v. v\<^sup>2) ?x))" and ?dy = "sqrt (sum_list (map (\<lambda>v. v\<^sup>2) ?y))"
  have "\<bar>dot ?x ?y\<bar> \<le> ?dx * ?dy"
    using real_sqrt_le_mono [OF dot_square_le [of ?x ?y]] by (simp add: real_sqrt_mult)
  then have "- 1 \<le> dot ?x ?y / (?dx * ?dy) \<and> dot ?x ?y / (?dx * ?dy) \<le> 1" if "0 < ?dx * ?dy"
    using that by (simp add: le_divide_eq divide_le_eq abs_le_iff)
  then have "0 < ?dx * ?dy \<Longrightarrow> - 1 \<le> py_round 4 (dot ?x ?y / (?dx * ?dy)) \<and> py_round 4 (dot ?x ?y / (?dx * ?dy)) \<le> 1"
    using py_round_ge [of "- 10000" 4] py_round_le [of _ 10000 4] by simp
  then show ?thesis by (simp add: pearson_def Let_def)
qed

subsection \<open>The cache is transparent\<close>

definition corr_inv :: "corr_engine \<Rightarrow> bool" where
  "corr_inv e \<longleftrightarrow> (\<forall>(k, c, t) \<in> set (ce_cache e). fst k \<noteq> snd k \<and> fresh_correlation e k = Some c)"

lemma corr_invI:
  "(\<And>k c t. (k, c, t) \<in> set (ce_cache e) \<Longrightarrow> fst k \<noteq> snd k \<and> fresh_correlation e k = Some c) \<Longrightarrow> corr_inv e"
  unfolding corr_inv_def by blast

lemma corr_invD: "corr_inv e \<Longrightarrow> (k, c, t) \<in> set (ce_cache e) \<Longrightarrow> fst k \<noteq> snd k \<and> fresh_correlation e k = Some c"
  unfolding corr_inv_def by blast

lemma corr_inv_new: "corr_inv (new_engine n ttl)"
  by (simp add: corr_inv_def new_engine_def)

lemma fresh_add_price:
  assumes "py_upper symbol \<noteq> fst k" and "py_upper symbol \<noteq> snd k"
  shows "fresh_correlation (engine_add_price symbol price e) k = fresh_correlation e k"
  using assms by (simp add: fresh_correlation_def engine_add_price_def Let_def)

lemma corr_inv_add: "corr_inv e \<Longrightarrow> corr_inv (engine_add_price symbol price e)"
proof -
  assume inv: "corr_inv e"
  have "ce_cache (engine_add_price symbol price e)
      = filter (\<lambda>(k, _). py_upper symbol \<noteq> fst k \<and> py_upper symbol \<noteq> snd k) (ce_cache e)"
    by (simp add: engine_add_price_def Let_def)
  then have kept: "(k, c, t) \<in> set (ce_cache e)" "py_upper symbol \<noteq> fst k" "py_upper symbol \<noteq> snd k"
    if "(k, c, t) \<in> set (ce_cache (engine_add_price symbol price e))" for k c t
    using that by auto
  show ?thesis
  proof (rule corr_invI)
    fix k c t assume in_new: "(k, c, t) \<in> set (ce_cache (engine_add_price symbol price e))"
    from corr_invD [OF inv kept(1) [OF in_new]]
    show "fst k \<noteq> snd k \<and> fresh_correlation (engine_add_price symbol price e) k = Some c"
      using fresh_add_price [OF kept(2,3) [OF in_new], of price e] by simp
  qed
qed

lemma fresh_cache_irrelevant [simp]: "fresh_correlation (e\<lparr>ce_cache := c\<rparr>) k = fresh_correlation e k"
  by (simp add: fresh_correlation_def)

lemma engine_correlation_spec:
  assumes "corr_inv e" and "engine_correlation a b m e = (r, e')"
  shows "corr_inv e' \<and> ce_windows e' = ce_windows e
    \<and> r = (let k = canonical_pair a b in if fst k = snd k then Some 1 else fresh_correlation e k)"
proof -
  let ?k = "canonical_pair a b"
  have put: "corr_inv (e\<lparr>ce_cache := od_put ?k (c, m) (ce_cache e)\<rparr>)"
    if new: "fst ?k \<noteq> snd ?k" "fresh_correlation e ?k = Some c" for c
  proof (rule corr_invI)
    fix k d t assume "(k, d, t) \<in> set (ce_cache (e\<lparr>ce_cache := od_put ?k (c, m) (ce_cache e)\<rparr>))"
    then have "(k, d, t) = (?k, c, m) \<or> (k, d, t) \<in> set (ce_cache e)"
      using set_od_put_subset [of ?k "(c, m)" "ce_cache e"] by auto
    then have "fst k \<noteq> snd k \<and> fresh_correlation e k = Some d"
      using new corr_invD [OF assms(1), of k d t] by blast
    then show "fst k \<noteq> snd k \<and> fresh_correlation (e\<lparr>ce_cache := od_put ?k (c, m) (ce_cache e)\<rparr>) k = Some d"
      by simp
  qed
  have hit: "fresh_correlation e ?k = Some c" if "od_get (ce_cache e) ?k = Some (c, t)" for c t
    using corr_invD [OF assms(1) od_get_SomeD [OF that]] by simp
  show ?thesis
    using assms put hit
    by (auto simp: engine_correlation_def Let_def split: option.splits if_splits)
qed

datatype corr_op = CoAdd string real | CoGet string string time

fun corr_step :: "corr_op \<Rightarrow> corr_engine \<Rightarrow> corr_engine" where
  "corr_step (CoAdd s p) e = engine_add_price s p e"
| "corr_step (CoGet a b m) e = snd (engine_correlation a b m e)"

interpretation corr_machine: guarded_state corr_step corr_inv
proof
  fix op e assume "corr_inv e"
  then show "corr_inv (corr_step op e)"
    using engine_correlation_spec by (cases op) (auto simp: corr_inv_add, metis prod.collapse)
qed

text \<open>
  The correlation cache never changes an answer. After any prices and queries, whatever the time
  to live, \<open>get_correlation\<close> answers 1 for a symbol with itself and otherwise what computing the
  correlation afresh from the current windows gives (None with fewer than three returns); a value
  is between -1 and 1.
\<close>

theorem correlation_cache_transparent:
  "let e = fold corr_step ops (new_engine n ttl); k = canonical_pair a b; r = fst (engine_correlation a b m e) in
     r = (if fst k = snd k then Some 1 else fresh_correlation e k) \<and> list_all (\<lambda>c. \<bar>c\<bar> \<le> 1) (case r of None \<Rightarrow> [] | Some c \<Rightarrow> [c])"
proof -
  have "corr_inv (fold corr_step ops (new_engine n ttl))"
    by (rule corr_machine.run_good) (rule corr_inv_new)
  then have r: "fst (engine_correlation a b m (fold corr_step ops (new_engine n ttl)))
      = (let k = canonical_pair a b in if fst k = snd k then Some 1
         else fresh_correlation (fold corr_step ops (new_engine n ttl)) k)"
    using engine_correlation_spec by (metis prod.collapse)
  show ?thesis
    using pearson_bounds
    by (auto simp: r Let_def fresh_correlation_def abs_le_iff split: option.splits if_splits)
qed

subsection \<open>The static table\<close>

lemma str_le_total: "str_le a b \<or> str_le b a"
  by (induction a b rule: str_le.induct) auto

lemma canonical_ordered: "canonical_pair a b = (x, y) \<Longrightarrow> str_le x y"
  using str_le_total by (auto simp: canonical_pair_def Let_def split: if_splits)

text \<open>
  Only two of the eight entries of the static table can ever be found: a lookup sorts the pair
  first, and six keys are not sorted. The fallback knows no correlation of USDCHF, USDJPY, AUDUSD or
  gold with anything.
\<close>

theorem static_table_mostly_unreachable:
  "static_correlation a b =
     (if canonical_pair a b = (''EURUSD'', ''GBPUSD'') then Some (17/20)
      else if canonical_pair a b = (''EURUSD'', ''NZDUSD'') then Some (13/20) else None)"
proof -
  obtain x y where k: "canonical_pair a b = (x, y)" by (cases "canonical_pair a b")
  have "\<not> str_le ''EURUSD'' ''AUDUSD''" "\<not> str_le ''GBPUSD'' ''AUDUSD''" "\<not> str_le ''USDCHF'' ''EURUSD''"
    "\<not> str_le ''USDCHF'' ''GBPUSD''" "\<not> str_le ''USDJPY'' ''EURJPY''" "\<not> str_le ''XAUUSD'' ''EURUSD''"
    by simp_all
  with canonical_ordered [OF k] have no: "(x, y) \<notin> {(''EURUSD'', ''AUDUSD''), (''GBPUSD'', ''AUDUSD''), (''USDCHF'', ''EURUSD''),
     (''USDCHF'', ''GBPUSD''), (''USDJPY'', ''EURJPY''), (''XAUUSD'', ''EURUSD'')}" by blast
  then show ?thesis by (simp add: static_correlation_def k static_table_def)
qed

subsection \<open>The net exposure\<close>

definition known_correlation :: "corr_engine \<Rightarrow> string \<Rightarrow> string \<Rightarrow> real option" where
  "known_correlation e a b = (let k = canonical_pair a b in
     if fst k = snd k then Some 1
     else case fresh_correlation e k of Some c \<Rightarrow> Some c | None \<Rightarrow> static_correlation a b)"

definition net_exposure :: "corr_engine \<Rightarrow> string \<Rightarrow> string \<Rightarrow> corr_position list \<Rightarrow> real" where
  "net_exposure e symbol dir ps = sum_list (map (\<lambda>p. case known_correlation e symbol (cp_symbol p) of
      None \<Rightarrow> 0 | Some c \<Rightarrow> c * (if dir = cp_direction p then 1 else -1) * cp_risk p) ps)"

lemma lookup_spec:
  assumes "corr_inv e" and "lookup_correlation a b m e = ((r, src), e')"
  shows "corr_inv e' \<and> ce_windows e' = ce_windows e \<and> r = known_correlation e a b"
proof -
  obtain r0 e0 where eng: "engine_correlation a b m e = (r0, e0)" by (meson surj_pair)
  from engine_correlation_spec [OF assms(1) this] assms(2) show ?thesis
    by (auto simp: lookup_correlation_def eng known_correlation_def Let_def split: option.splits if_splits)
qed

lemma net_exposure_windows: "ce_windows e' = ce_windows e \<Longrightarrow> net_exposure e' = net_exposure e"
proof -
  assume "ce_windows e' = ce_windows e"
  then have "fresh_correlation e' k = fresh_correlation e k" for k by (simp add: fresh_correlation_def)
  note fresh = this
  have "known_correlation e' a b = known_correlation e a b" for a b by (simp add: known_correlation_def fresh Let_def)
  then show ?thesis by (intro ext) (simp add: net_exposure_def)
qed

lemma scan_position_spec:
  "lookup_correlation symbol (cp_symbol p) m e = ((r, src), e1) \<Longrightarrow>
     snd (scan_position symbol dir m p (s, e)) = e1
     \<and> sc_net (fst (scan_position symbol dir m p (s, e)))
       = sc_net s + (case r of None \<Rightarrow> 0 | Some c \<Rightarrow> c * (if dir = cp_direction p then 1 else -1) * cp_risk p)"
  by (cases r) (auto simp: scan_position_def Let_def)

lemma scan_net:
  assumes "corr_inv e" and "fold (scan_position symbol dir m) ps (s, e) = (s', e')"
  shows "sc_net s' = sc_net s + net_exposure e symbol dir ps \<and> corr_inv e'"
  using assms
proof (induction ps arbitrary: s e)
  case (Cons p ps)
  obtain r src e1 where look: "lookup_correlation symbol (cp_symbol p) m e = ((r, src), e1)" by (metis surj_pair)
  note spec = lookup_spec [OF Cons.prems(1) look]
  obtain s1 where one: "scan_position symbol dir m p (s, e) = (s1, e1)"
    and net: "sc_net s1 = sc_net s + (case r of None \<Rightarrow> 0 | Some c \<Rightarrow> c * (if dir = cp_direction p then 1 else -1) * cp_risk p)"
    using scan_position_spec [OF look, of dir s] by (metis prod.collapse)
  have "sc_net s' = sc_net s1 + net_exposure e1 symbol dir ps \<and> corr_inv e'"
  proof (rule Cons.IH)
    show "corr_inv e1" using spec by blast
    show "fold (scan_position symbol dir m) ps (s1, e1) = (s', e')" using Cons.prems(2) one by simp
  qed
  moreover have "net_exposure e1 symbol dir ps = net_exposure e symbol dir ps"
    using spec net_exposure_windows [of e1 e] by presburger
  moreover have "net_exposure e symbol dir (p # ps) = (case r of None \<Rightarrow> 0
      | Some c \<Rightarrow> c * (if dir = cp_direction p then 1 else -1) * cp_risk p) + net_exposure e symbol dir ps"
    using spec by (simp add: net_exposure_def)
  ultimately show ?case using net by linarith
qed (simp add: net_exposure_def)

lemma penalty_bounds:
  assumes "co_penalty_threshold c \<le> net" and "co_penalty_threshold c < co_max_exposure c"
  shows "3/10 \<le> penalty_multiplier c net \<and> penalty_multiplier c net \<le> 1"
proof -
  let ?x = "max (3/10) (1 - (net - co_penalty_threshold c) / (co_max_exposure c - co_penalty_threshold c))"
  have "?x \<le> of_int 100 / 10 ^ 2" "of_int 30 / 10 ^ 2 \<le> ?x" using assms by (auto simp: field_simps)
  then show ?thesis
    using py_round_le [of ?x 100 2] py_round_ge [of 30 2 ?x] by (simp add: penalty_multiplier_def)
qed

text \<open>
  The filter scores a trade by the absolute net of its correlations with the open positions,
  each weighted with the position's risk and counted negative for the opposite direction, unknown
  correlations counting nothing. It refuses exactly when the score reaches the maximum; below it the
  risk multiplier is between 0.3 and 1, and is 1 when the score is below the penalty threshold.
\<close>

theorem correlation_decision:
  assumes "corr_inv e" and "co_penalty_threshold c < co_max_exposure c" and "0 < co_max_exposure c"
  shows "let r = fst (corr_check_inner c symbol dir ps base m e); net = \<bar>net_exposure e symbol dir ps\<bar> in
    cr_score r = net \<and> cr_can_trade r = (net < co_max_exposure c)
    \<and> (if net < co_max_exposure c then 3/10 \<le> cr_multiplier r \<and> cr_multiplier r \<le> 1 else cr_multiplier r = 0)
    \<and> (net < co_penalty_threshold c \<longrightarrow> cr_multiplier r = 1)"
proof (cases "ps = []")
  case True
  with assms show ?thesis by (simp add: corr_check_inner_def net_exposure_def)
next
  case False
  obtain s e' where scan: "fold (scan_position symbol dir m) ps (\<lparr>sc_max = 0, sc_pair = [], sc_net = 0, sc_source = NoSource\<rparr>, e) = (s, e')"
    by (meson surj_pair)
  from scan_net [OF assms(1) scan] have net: "sc_net s = net_exposure e symbol dir ps" by simp
  show ?thesis
    using False assms(2) penalty_bounds [OF _ assms(2)]
    by (auto simp: corr_check_inner_def scan corr_decide_def net Let_def)
qed

definition two_eur :: "corr_position list" where
  "two_eur = [\<lparr>cp_symbol = ''EURUSD'', cp_direction = ''BUY'', cp_risk = 1/2\<rparr>]"

theorem correlation_decision_witness:
  "cr_can_trade (fst (corr_check_inner default_corr_config ''EURUSD'' ''BUY'' two_eur 1 0 (new_engine 50 60)))
   \<and> net_exposure (new_engine 50 60) ''EURUSD'' ''BUY'' two_eur = 1/2"
proof -
  have "fst (canonical_pair a a) = snd (canonical_pair a a)" for a by (simp add: canonical_pair_def Let_def)
  then have net: "net_exposure (new_engine 50 60) ''EURUSD'' ''BUY'' two_eur = 1/2"
    by (simp add: net_exposure_def two_eur_def known_correlation_def Let_def)
  show ?thesis
    using correlation_decision [OF corr_inv_new [of 50 60], where c = default_corr_config
        and symbol = "''EURUSD''" and dir = "''BUY''" and ps = two_eur and base = 1 and m = 0] net
    by (simp add: default_corr_config_def Let_def)
qed

end
