(* ===== verification/Risk_Orchestrator.thy ===== *)
theory Risk_Orchestrator
  imports Kill_Switch Margin_Gate
begin

section \<open>The risk orchestrator\<close>

text \<open>
  \<open>src/backend/risk/risk_orchestrator.py\<close>: eight gates in sequence. What gates 2 to 6 and 8 do is decided
  by a dynamic import and a call of the imported class, so each is an \<open>answer\<close>: the class is not there, the
  call timed out, it raised, or it returned a result that may or may not have an \<open>approved\<close> attribute.
  Gates 1 and 7 are the kill switch and the margin gate of this development. \<open>repo_gates\<close> is what
  the imports give in this repository.
\<close>

record risk_input =
  ri_symbol :: string
  ri_direction :: string
  ri_volume :: real
  ri_entry :: real
  ri_sl :: "real option"
  ri_tp :: "real option"
  ri_equity :: real
  ri_balance :: real
  ri_free_margin :: real
  ri_used_margin :: real

datatype gate = GATE_1 | GATE_2 | GATE_3 | GATE_4 | GATE_5 | GATE_6 | GATE_7 | GATE_8

datatype answer = NotInstalled | TimedOut | GateRaised exc | Answered "bool option" string

datatype sizer_answer = SizerMissing | SizerTimedOut | SizerRaised exc | Sized real

datatype gate_detail = Passed | Skipped | GateText string | MarginDetail real real real | SizerDetail real

datatype reject_reason = KillSwitchReason exc | GateReason string | MarginReason margin_reason

record risk_result =
  rk_approved :: bool
  rk_volume :: real
  rk_gate :: "gate option"
  rk_reason :: "reject_reason option"
  rk_details :: "(gate \<times> gate_detail) list"

definition risk_reject :: "gate \<Rightarrow> reject_reason \<Rightarrow> (gate \<times> gate_detail) list \<Rightarrow> risk_result" where
  "risk_reject g r ds = \<lparr>rk_approved = False, rk_volume = 0, rk_gate = Some g, rk_reason = Some r, rk_details = ds\<rparr>"

text \<open>Gates 2 to 6: a rejection, or the details with which the pipeline goes on.\<close>

definition run_gate :: "gate \<times> answer \<Rightarrow> (gate \<times> gate_detail) list \<Rightarrow> risk_result + (gate \<times> gate_detail) list" where
  "run_gate ga ds = (case ga of (g, a) \<Rightarrow> (case a of
      NotInstalled \<Rightarrow> Inr (ds @ [(g, Skipped)])
    | TimedOut \<Rightarrow> Inr ds
    | GateRaised _ \<Rightarrow> Inr ds
    | Answered approved reason \<Rightarrow>
        (let ds' = ds @ [(g, GateText reason)] in
         if approved = Some False then Inl (risk_reject g (GateReason reason) ds') else Inr ds')))"

fun run_gates :: "(gate \<times> answer) list \<Rightarrow> (gate \<times> gate_detail) list \<Rightarrow> risk_result + (gate \<times> gate_detail) list" where
  "run_gates [] ds = Inr ds"
| "run_gates (ga # gas) ds = (case run_gate ga ds of Inl r \<Rightarrow> Inl r | Inr ds' \<Rightarrow> run_gates gas ds')"

text \<open>Gate 7. None for the answer stands for a timeout or an exception of the gate.\<close>

datatype margin_answer = MarginMissing | MarginFailed | MarginAnswered margin_result

definition run_margin :: "margin_answer \<Rightarrow> (gate \<times> gate_detail) list \<Rightarrow> risk_result + (gate \<times> gate_detail) list" where
  "run_margin a ds = (case a of
      MarginMissing \<Rightarrow> Inr (ds @ [(GATE_7, Skipped)])
    | MarginFailed \<Rightarrow> Inr ds
    | MarginAnswered r \<Rightarrow>
        (let ds' = ds @ [(GATE_7, MarginDetail (mr_required r) (mr_available r) (mr_level_pct r))] in
         if mr_approved r then Inr ds'
         else Inl (risk_reject GATE_7
           (case mr_reason r of Some m \<Rightarrow> MarginReason m | None \<Rightarrow> GateReason ''margin insufficient'') ds')))"

definition run_sizer :: "real \<Rightarrow> sizer_answer \<Rightarrow> (gate \<times> gate_detail) list \<Rightarrow> risk_result" where
  "run_sizer volume a ds =
     (let approve = (\<lambda>v ds. \<lparr>rk_approved = True, rk_volume = v, rk_gate = None, rk_reason = None, rk_details = ds\<rparr>) in
      case a of
        SizerMissing \<Rightarrow> approve volume (ds @ [(GATE_8, Skipped)])
      | SizerTimedOut \<Rightarrow> approve volume ds
      | SizerRaised _ \<Rightarrow> approve volume ds
      | Sized v \<Rightarrow> (let v' = (if 0 < v then v else volume) in approve v' (ds @ [(GATE_8, SizerDetail v')])))"

record gate_answers =
  ga_middle :: "(gate \<times> answer) list"
  ga_margin :: "risk_input \<Rightarrow> margin_answer"
  ga_sizer :: sizer_answer

definition assess :: "gate_answers \<Rightarrow> risk_input \<Rightarrow> time \<Rightarrow> time \<Rightarrow> kill_switch \<Rightarrow> risk_result \<times> kill_switch" where
  "assess g i w m k = (case ks_check (ri_equity i) (ri_balance i) w m k of
      (Inl e, k') \<Rightarrow> (risk_reject GATE_1 (KillSwitchReason e) [], k')
    | (Inr _, k') \<Rightarrow>
        ((case run_gates (ga_middle g) [(GATE_1, Passed)] of
            Inl r \<Rightarrow> r
          | Inr ds \<Rightarrow> (case run_margin (ga_margin g i) ds of
              Inl r \<Rightarrow> r
            | Inr ds' \<Rightarrow> run_sizer (ri_volume i) (ga_sizer g) ds')), k'))"

text \<open>
  The gates of this repository. The modules define no \<open>NewsFilter\<close>, \<open>DailyLimits\<close> or \<open>ExposureControl\<close>, there
  is no module \<open>session_filter\<close> or \<open>lot_sizer\<close>; \<open>CorrelationFilter\<close> exists but its \<open>check\<close> lacks a
  fourth argument and raises TypeError.
\<close>

definition repo_gates :: "margin_gate \<Rightarrow> gate_answers" where
  "repo_gates mg = \<lparr>
     ga_middle = [(GATE_2, NotInstalled), (GATE_3, NotInstalled), (GATE_4, NotInstalled),
       (GATE_5, GateRaised TypeError), (GATE_6, NotInstalled)],
     ga_margin = (\<lambda>i. MarginAnswered (margin_check mg (ri_symbol i) (ri_volume i) (ri_balance i) (ri_equity i)
        (ri_free_margin i) (ri_used_margin i) (ri_direction i) 2)),
     ga_sizer = SizerMissing\<rparr>"

definition get_risk_orchestrator :: "gate_answers \<Rightarrow> gate_answers option \<Rightarrow> gate_answers \<times> gate_answers option" where
  "get_risk_orchestrator fresh g = (case g of None \<Rightarrow> (fresh, Some fresh) | Some o' \<Rightarrow> (o', g))"

subsection \<open>What an approval means\<close>

definition gate_lets_through :: "answer \<Rightarrow> bool" where
  "gate_lets_through a \<longleftrightarrow> (case a of Answered (Some False) _ \<Rightarrow> False | _ \<Rightarrow> True)"

lemma run_gate_let: "(\<exists>ds'. run_gate (g, a) ds = Inr ds') \<longleftrightarrow> gate_lets_through a"
  by (cases a) (auto simp: run_gate_def gate_lets_through_def Let_def split: option.splits bool.splits)

lemma run_gate_reject: "run_gate ga ds = Inl r \<Longrightarrow> rk_gate r = Some (fst ga) \<and> \<not> rk_approved r \<and> \<not> gate_lets_through (snd ga)"
  by (cases ga; cases "snd ga") (auto simp: run_gate_def risk_reject_def gate_lets_through_def Let_def split: if_splits)

lemma run_gates_let: "(\<exists>ds'. run_gates gas ds = Inr ds') \<longleftrightarrow> list_all (\<lambda>ga. gate_lets_through (snd ga)) gas"
proof (induction gas arbitrary: ds)
  case (Cons ga gas)
  obtain g a where ga: "ga = (g, a)" by (cases ga)
  show ?case
  proof (cases "run_gate ga ds")
    case (Inl r)
    with run_gate_reject [OF Inl] show ?thesis by simp
  next
    case (Inr ds1)
    with run_gate_let [of g a ds] ga Cons.IH show ?thesis by auto
  qed
qed simp

lemma run_gates_reject:
  "run_gates gas ds = Inl r \<Longrightarrow> \<not> rk_approved r \<and> (\<exists>pre ga post. gas = pre @ ga # post
     \<and> list_all (\<lambda>x. gate_lets_through (snd x)) pre \<and> \<not> gate_lets_through (snd ga) \<and> rk_gate r = Some (fst ga))"
proof (induction gas arbitrary: ds)
  case (Cons ga gas)
  show ?case
  proof (cases "run_gate ga ds")
    case (Inl r')
    with Cons.prems run_gate_reject [OF Inl] show ?thesis
      by (intro conjI exI [of _ "[]"] exI [of _ ga] exI [of _ gas]) auto
  next
    case (Inr ds1)
    with Cons.prems have "run_gates gas ds1 = Inl r" by simp
    from Cons.IH [OF this] obtain pre x post where *: "\<not> rk_approved r" "gas = pre @ x # post"
      "list_all (\<lambda>x. gate_lets_through (snd x)) pre" "\<not> gate_lets_through (snd x)" "rk_gate r = Some (fst x)" by blast
    have "gate_lets_through (snd ga)" using run_gate_let [of "fst ga" "snd ga" ds] Inr by auto
    with * show ?thesis by (intro conjI exI [of _ "ga # pre"] exI [of _ x] exI [of _ post]) auto
  qed
qed simp

lemma run_margin_let: "(\<exists>ds'. run_margin a ds = Inr ds') \<longleftrightarrow> (case a of MarginAnswered r \<Rightarrow> mr_approved r | _ \<Rightarrow> True)"
  by (cases a) (auto simp: run_margin_def Let_def)

lemma run_margin_reject: "run_margin a ds = Inl r \<Longrightarrow> \<not> rk_approved r \<and> rk_gate r = Some GATE_7"
  by (cases a) (auto simp: run_margin_def risk_reject_def Let_def split: if_splits)

lemma run_sizer_approves: "rk_approved (run_sizer v a ds)"
  "rk_volume (run_sizer v a ds) = (case a of Sized x \<Rightarrow> if 0 < x then x else v | _ \<Rightarrow> v)"
  by (cases a; simp add: run_sizer_def Let_def)+

text \<open>
  C5: a trade is approved exactly when the kill switch lets it through, no gate from 2 to 6 answered with
  a false \<open>approved\<close> and the margin gate did not answer with a refusal. Only the first gate fails
  closed: a gate that is missing, times out, raises or answers without the attribute lets the trade
  pass. The approved volume is what a sizer answered when positive, else the requested volume.
\<close>

theorem orchestrator_approval_exact:
  "let r = fst (assess g i w m k) in
     rk_approved r = (fst (ks_check (ri_equity i) (ri_balance i) w m k) = Inr ()
       \<and> list_all (\<lambda>ga. gate_lets_through (snd ga)) (ga_middle g)
       \<and> (case ga_margin g i of MarginAnswered x \<Rightarrow> mr_approved x | _ \<Rightarrow> True))
     \<and> rk_approved r = (rk_gate r = None)
     \<and> (if rk_approved r then rk_volume r = (case ga_sizer g of Sized x \<Rightarrow> if 0 < x then x else ri_volume i | _ \<Rightarrow> ri_volume i)
        else rk_volume r = 0)"
proof -
  obtain res k' where ks: "ks_check (ri_equity i) (ri_balance i) w m k = (res, k')" by (meson surj_pair)
  have vol: "rk_volume r = 0" if "run_gates gas ds = Inl r" for gas ds r
    using that by (induction gas arbitrary: ds)
      (auto simp: run_gate_def risk_reject_def Let_def split: sum.splits answer.splits if_splits)
  show ?thesis
  proof (cases res)
    case (Inl e)
    then show ?thesis by (simp add: assess_def ks risk_reject_def)
  next
    case (Inr u)
    show ?thesis
    proof (cases "run_gates (ga_middle g) [(GATE_1, Passed)]")
      case (Inl r)
      with run_gates_reject [OF Inl] run_gates_let [of "ga_middle g" "[(GATE_1, Passed)]"] \<open>res = Inr u\<close> vol [OF Inl]
      show ?thesis by (auto simp: assess_def ks)
    next
      case middle: (Inr ds)
      then have all: "list_all (\<lambda>ga. gate_lets_through (snd ga)) (ga_middle g)" using run_gates_let by blast
      show ?thesis
      proof (cases "run_margin (ga_margin g i) ds")
        case (Inl r)
        have "rk_volume r = 0"
          using Inl by (auto simp: run_margin_def risk_reject_def Let_def split: margin_answer.splits if_splits)
        with Inl run_margin_reject [OF Inl] run_margin_let [of "ga_margin g i" ds] middle all \<open>res = Inr u\<close>
        show ?thesis by (auto simp: assess_def ks)
      next
        case (Inr ds')
        moreover have "rk_gate (run_sizer v a ds) = None" for v a ds by (cases a) (simp_all add: run_sizer_def Let_def)
        ultimately show ?thesis
          using run_margin_let [of "ga_margin g i" ds] middle all \<open>res = Inr u\<close>
          by (auto simp: assess_def ks run_sizer_approves)
      qed
    qed
  qed
qed

text \<open>
  With the modules of this repository only the kill switch and the margin gate decide: the news,
  session, daily-loss, correlation and exposure gates never reject anything, and an approved trade is
  approved with the volume it asked for, never a sized one.
\<close>

theorem repository_gates_only_two_decide:
  "let r = fst (assess (repo_gates mg) i w m k) in
     rk_approved r = (fst (ks_check (ri_equity i) (ri_balance i) w m k) = Inr ()
       \<and> mr_approved (margin_check mg (ri_symbol i) (ri_volume i) (ri_balance i) (ri_equity i)
          (ri_free_margin i) (ri_used_margin i) (ri_direction i) 2))
     \<and> rk_gate r \<in> {None, Some GATE_1, Some GATE_7}
     \<and> rk_volume r = (if rk_approved r then ri_volume i else 0)"
proof -
  obtain res k' where ks: "ks_check (ri_equity i) (ri_balance i) w m k = (res, k')" by (meson surj_pair)
  show ?thesis
  proof (cases res)
    case (Inr u)
    show ?thesis
      by (cases "mr_approved (margin_check mg (ri_symbol i) (ri_volume i) (ri_balance i) (ri_equity i)
          (ri_free_margin i) (ri_used_margin i) (ri_direction i) 2)")
        (simp_all add: assess_def ks Inr repo_gates_def run_gate_def run_margin_def run_sizer_def risk_reject_def Let_def)
  qed (simp add: assess_def ks risk_reject_def)
qed

end
