(* ===== verification/Voting.thy ===== *)
theory Voting
  imports Contracts
begin

section \<open>The voting engine\<close>

text \<open>
  \<open>src/backend/agents/voting_engine.py\<close> over the types of \<open>src/backend/agents/base_agent.py\<close>: collecting
  the votes of the agents, the veto of the risk agent, the quorum and the weighted tally. What
  \<open>asyncio.gather\<close> over the agents does is a parameter: it raises, times out, or gives per agent a vote or
  the exception it raised. \<open>VoteSignal\<close> has no member \<open>VETO\<close>, so evaluating \<open>VoteSignal.VETO\<close>
  raises AttributeError; \<open>and\<close> evaluates it for a vote of the risk agent only.
\<close>

datatype vote_signal = VBUY | VSELL | VNEUTRAL | VABSTAIN

record vote_result =
  vt_agent :: string
  vt_signal :: vote_signal
  vt_confidence :: real
  vt_weight :: real
  vt_reason :: string
  vt_error :: "exc option"

record agent =
  ag_id :: string
  ag_weight :: real

record voting_config =
  vg_timeout :: real
  vg_min_agents :: int
  vg_quorum_pct :: real
  vg_confidence_floor :: real
  vg_sequential_fallback :: bool

definition default_voting_config :: voting_config where
  "default_voting_config = \<lparr>vg_timeout = 10, vg_min_agents = 3, vg_quorum_pct = 3/5, vg_confidence_floor = 55,
     vg_sequential_fallback = True\<rparr>"

datatype vote_reason =
    NoAgents | RiskVeto string | QuorumNotMet int int | ZeroWeight | BelowFloor real real
  | BuyQuorum real | SellQuorum real | NoQuorum real real

record final_vote =
  fv_signal :: vote_signal
  fv_confidence :: real
  fv_reason :: vote_reason
  fv_votes :: "vote_result list"
  fv_blocked :: bool

definition fv_approved :: "final_vote \<Rightarrow> bool" where
  "fv_approved f \<longleftrightarrow> \<not> fv_blocked f \<and> fv_signal f \<in> {VBUY, VSELL}"

definition abstain :: "real \<Rightarrow> vote_reason \<Rightarrow> vote_result list \<Rightarrow> final_vote" where
  "abstain conf reason votes = \<lparr>fv_signal = VABSTAIN, fv_confidence = conf, fv_reason = reason, fv_votes = votes,
     fv_blocked = False\<rparr>"

text \<open>\<open>BaseAgent.analyze\<close>: an exception becomes an abstention.\<close>

definition agent_error_vote :: "agent \<Rightarrow> exc \<Rightarrow> vote_result" where
  "agent_error_vote a e = \<lparr>vt_agent = ag_id a, vt_signal = VABSTAIN, vt_confidence = 0, vt_weight = ag_weight a,
     vt_reason = ''error'', vt_error = Some e\<rparr>"

definition agent_analyze :: "agent \<Rightarrow> exc + vote_result \<Rightarrow> vote_result" where
  "agent_analyze a r = (case r of Inl e \<Rightarrow> agent_error_vote a e | Inr v \<Rightarrow> v)"

definition weighted_confidence :: "vote_result \<Rightarrow> real" where
  "weighted_confidence v = vt_confidence v * vt_weight v"

subsection \<open>Collecting\<close>

text \<open>\<open>_process_raw\<close> and the body of \<open>_run_sequential_safe\<close>: one vote per agent.\<close>

definition process_raw :: "(agent \<times> (exc + vote_result)) list \<Rightarrow> vote_result list" where
  "process_raw raw = map (\<lambda>(a, r). case r of Inl e \<Rightarrow> agent_error_vote a e | Inr v \<Rightarrow> v) raw"

datatype gathered = GatherRaised exc | GatherTimeout | GatherDone "(agent \<times> (exc + vote_result)) list"

definition gather_votes :: "voting_config \<Rightarrow> gathered \<Rightarrow> (agent \<times> (exc + vote_result)) list \<Rightarrow> exc + vote_result list" where
  "gather_votes c g sequential = (case g of
      GatherRaised e \<Rightarrow> Inl e
    | GatherTimeout \<Rightarrow> Inr (if vg_sequential_fallback c then process_raw sequential else [])
    | GatherDone raw \<Rightarrow> Inr (process_raw raw))"

definition risk_agent_name :: string where "risk_agent_name = ''risk_agent''"

definition check_risk_veto :: "vote_result list \<Rightarrow> exc + string option" where
  "check_risk_veto votes = (if list_ex (\<lambda>v. vt_agent v = risk_agent_name) votes then Inl AttributeError else Inr None)"

subsection \<open>The tally\<close>

definition vote_weight :: "vote_result \<Rightarrow> real" where
  "vote_weight v = max 0 (vt_weight v)"

record vote_sums =
  tl_buy :: real
  tl_sell :: real
  tl_abstain :: real
  tl_total :: real
  tl_conf :: real

definition tally_vote :: "vote_result \<Rightarrow> vote_sums \<Rightarrow> vote_sums" where
  "tally_vote v t = (let w = vote_weight v;
       t1 = t\<lparr>tl_total := tl_total t + w, tl_conf := tl_conf t + vt_confidence v * w\<rparr> in
     case vt_signal v of
       VBUY \<Rightarrow> t1\<lparr>tl_buy := tl_buy t + w\<rparr>
     | VSELL \<Rightarrow> t1\<lparr>tl_sell := tl_sell t + w\<rparr>
     | _ \<Rightarrow> t1\<lparr>tl_abstain := tl_abstain t + w\<rparr>)"

definition tally_votes :: "vote_result list \<Rightarrow> vote_sums" where
  "tally_votes votes = fold tally_vote votes \<lparr>tl_buy = 0, tl_sell = 0, tl_abstain = 0, tl_total = 0, tl_conf = 0\<rparr>"

definition tally_result :: "voting_config \<Rightarrow> vote_result list \<Rightarrow> final_vote" where
  "tally_result c votes =
     (let t = tally_votes votes; avg = tl_conf t / tl_total t; buy = tl_buy t / tl_total t; sell = tl_sell t / tl_total t in
      if tl_total t = 0 then abstain 0 ZeroWeight votes
      else if avg < vg_confidence_floor c then abstain avg (BelowFloor avg (vg_confidence_floor c)) votes
      else if vg_quorum_pct c \<le> buy then (abstain avg (BuyQuorum buy) votes)\<lparr>fv_signal := VBUY\<rparr>
      else if vg_quorum_pct c \<le> sell then (abstain avg (SellQuorum sell) votes)\<lparr>fv_signal := VSELL\<rparr>
      else abstain avg (NoQuorum buy sell) votes)"

definition run_vote :: "voting_config \<Rightarrow> agent list \<Rightarrow> gathered \<Rightarrow> (agent \<times> (exc + vote_result)) list \<Rightarrow> exc + final_vote" where
  "run_vote c agents g sequential =
     (if agents = [] then Inr (abstain 0 NoAgents [])
      else case gather_votes c g sequential of
        Inl e \<Rightarrow> Inl e
      | Inr votes \<Rightarrow> (case check_risk_veto votes of
          Inl e \<Rightarrow> Inl e
        | Inr (Some veto) \<Rightarrow> Inr ((abstain 0 (RiskVeto veto) votes)\<lparr>fv_blocked := True\<rparr>)
        | Inr None \<Rightarrow>
            (let active = int (length (filter (\<lambda>v. vt_signal v \<noteq> VABSTAIN) votes)) in
             if active < vg_min_agents c then Inr (abstain 0 (QuorumNotMet active (vg_min_agents c)) votes)
             else Inr (tally_result c votes))))"

subsection \<open>The tally as sums\<close>

definition side_weight :: "vote_signal \<Rightarrow> vote_result list \<Rightarrow> real" where
  "side_weight s votes = sum_list (map vote_weight (filter (\<lambda>v. vt_signal v = s) votes))"

definition total_weight :: "vote_result list \<Rightarrow> real" where
  "total_weight votes = sum_list (map vote_weight votes)"

lemma vote_tally_fold:
  "tl_buy (fold tally_vote votes t) = tl_buy t + side_weight VBUY votes
   \<and> tl_sell (fold tally_vote votes t) = tl_sell t + side_weight VSELL votes
   \<and> tl_total (fold tally_vote votes t) = tl_total t + total_weight votes
   \<and> tl_conf (fold tally_vote votes t) = tl_conf t + sum_list (map (\<lambda>v. vt_confidence v * vote_weight v) votes)"
  by (induction votes arbitrary: t)
     (auto simp: tally_vote_def side_weight_def total_weight_def Let_def split: vote_signal.splits)

lemma tally_votes_sums [simp]:
  "tl_buy (tally_votes votes) = side_weight VBUY votes" "tl_sell (tally_votes votes) = side_weight VSELL votes"
  "tl_total (tally_votes votes) = total_weight votes"
  "tl_conf (tally_votes votes) = sum_list (map (\<lambda>v. vt_confidence v * vote_weight v) votes)"
  using vote_tally_fold [of votes] by (simp_all add: tally_votes_def)

lemma vote_weight_nonneg [simp]: "0 \<le> vote_weight v"
  by (simp add: vote_weight_def)

lemma total_weight_nonneg: "0 \<le> total_weight votes"
  by (auto simp: total_weight_def intro!: sum_list_nonneg)

lemma side_weights_le: "side_weight VBUY votes + side_weight VSELL votes \<le> total_weight votes"
proof (induction votes)
  case (Cons v votes)
  show ?case using Cons
    unfolding side_weight_def total_weight_def by (cases "vt_signal v") (simp_all add: add_increasing)
qed (simp add: side_weight_def total_weight_def)

lemma side_weight_nonneg: "0 \<le> side_weight s votes"
  by (auto simp: side_weight_def intro!: sum_list_nonneg)

text \<open>
  A cycle approves a trade only with real support: enough agents did not abstain, the weighted
  mean confidence reaches the floor, the votes for the chosen side carry at least the quorum of the
  total weight, and no vote came from the risk agent. With a quorum above one half the other side
  could not have been chosen, whatever the order of the votes.
\<close>

theorem approved_vote_has_support:
  assumes "run_vote c agents g sequential = Inr f" and "fv_approved f" and "1/2 < vg_quorum_pct c"
  shows "0 < total_weight (fv_votes f)
    \<and> vg_min_agents c \<le> int (length (filter (\<lambda>v. vt_signal v \<noteq> VABSTAIN) (fv_votes f)))
    \<and> vg_confidence_floor c \<le> fv_confidence f
    \<and> vg_quorum_pct c * total_weight (fv_votes f) \<le> side_weight (fv_signal f) (fv_votes f)
    \<and> side_weight (if fv_signal f = VBUY then VSELL else VBUY) (fv_votes f) < vg_quorum_pct c * total_weight (fv_votes f)
    \<and> \<not> list_ex (\<lambda>v. vt_agent v = risk_agent_name) (fv_votes f)"
proof -
  obtain votes where votes: "f = tally_result c votes" "vg_min_agents c \<le> int (length (filter (\<lambda>v. vt_signal v \<noteq> VABSTAIN) votes))"
    "\<not> list_ex (\<lambda>v. vt_agent v = risk_agent_name) votes"
    using assms(1,2) by (auto simp: run_vote_def abstain_def fv_approved_def check_risk_veto_def Let_def
        split: if_splits sum.splits option.splits)
  let ?T = "total_weight votes"
  have pos: "0 < ?T" using assms(2) votes(1) total_weight_nonneg [of votes]
    by (auto simp: tally_result_def abstain_def fv_approved_def Let_def split: if_splits)
  have half: "?T < 2 * (vg_quorum_pct c * ?T)" using mult_strict_right_mono [OF assms(3) pos] by simp
  have f: "fv_votes f = votes" "vg_confidence_floor c \<le> fv_confidence f"
    "vg_quorum_pct c * ?T \<le> side_weight (fv_signal f) votes" "fv_signal f \<in> {VBUY, VSELL}"
    using assms(2) votes(1) pos
    by (auto simp: tally_result_def abstain_def fv_approved_def Let_def le_divide_eq divide_less_eq not_less split: if_splits)
  moreover have "side_weight (if fv_signal f = VBUY then VSELL else VBUY) votes < vg_quorum_pct c * ?T"
    using f(3,4) half side_weights_le [of votes] by auto
  ultimately show ?thesis using votes pos by simp
qed

definition buy_vote :: "string \<Rightarrow> vote_result" where
  "buy_vote name = \<lparr>vt_agent = name, vt_signal = VBUY, vt_confidence = 80, vt_weight = 1, vt_reason = [], vt_error = None\<rparr>"

definition buy_agents :: "(agent \<times> (exc + vote_result)) list" where
  "buy_agents = map (\<lambda>n. (\<lparr>ag_id = n, ag_weight = 1\<rparr>, Inr (buy_vote n))) [''smc'', ''ml'', ''news'']"

lemma buy_run: "run_vote default_voting_config (map fst buy_agents) (GatherDone buy_agents) []
    = Inr \<lparr>fv_signal = VBUY, fv_confidence = 80, fv_reason = BuyQuorum 1, fv_votes = map buy_vote [''smc'', ''ml'', ''news''],
        fv_blocked = False\<rparr>"
  by (simp add: run_vote_def gather_votes_def process_raw_def buy_agents_def buy_vote_def check_risk_veto_def
      risk_agent_name_def default_voting_config_def tally_result_def tally_votes_def tally_vote_def vote_weight_def
      abstain_def Let_def)

theorem approved_vote_has_support_witness:
  "0 < total_weight (map buy_vote [''smc'', ''ml'', ''news'']) \<and>
   side_weight VSELL (map buy_vote [''smc'', ''ml'', ''news'']) < 3/5 * total_weight (map buy_vote [''smc'', ''ml'', ''news''])"
  using approved_vote_has_support [OF buy_run] by (simp add: fv_approved_def default_voting_config_def)

text \<open>
  The veto of the risk agent does not exist: whenever a vote of the risk agent is among the
  collected ones, of whatever signal, the cycle raises AttributeError and returns no decision; and no
  cycle ever returns a blocked vote.
\<close>

theorem risk_veto_never_blocks:
  "(case run_vote c agents g sequential of
      Inr f \<Rightarrow> \<not> fv_blocked f \<and> \<not> list_ex (\<lambda>v. vt_agent v = ''risk_agent'') (fv_votes f)
    | Inl e \<Rightarrow> agents \<noteq> [] \<and> (e = AttributeError \<or> g = GatherRaised e))"
proof (cases "gather_votes c g sequential")
  case (Inl e)
  then show ?thesis by (auto simp: run_vote_def abstain_def gather_votes_def split: gathered.splits)
next
  case (Inr votes)
  have "fv_votes (tally_result c votes) = votes" "\<not> fv_blocked (tally_result c votes)"
    by (simp_all add: tally_result_def abstain_def Let_def)
  with Inr show ?thesis
    by (auto simp: run_vote_def abstain_def check_risk_veto_def risk_agent_name_def Let_def)
qed

end
