(* ===== verification/Decision_Engine.thy ===== *)
theory Decision_Engine
  imports Json
begin

section \<open>The decision engine\<close>

text \<open>
  \<open>src/backend/analysis/decision_engine.py\<close>: the weighted sum of the votes of the engines. Signals are
  strings; the scores are a dictionary in insertion order, and \<open>max\<close> returns the first key of maximal
  score.
\<close>

record engine_vote =
  ev_source :: string
  ev_signal :: string
  ev_confidence :: real
  ev_reason :: string

datatype decision_reason = NoVotes | ZeroTotalWeight | Disagreement "string set" | WeightedScores real real real

record final_decision =
  fd_signal :: string
  fd_confidence :: real
  fd_votes :: "engine_vote list"
  fd_reason :: decision_reason
  fd_approved :: bool

record decision_engine =
  de_min_confidence :: real
  de_require_agreement :: bool

definition source_weights :: "(string \<times> real) list" where
  "source_weights = [(''SMC'', 1), (''PA'', 1), (''ML'', 3/2), (''NEWS'', 1/2)]"

definition source_weight :: "string \<Rightarrow> real" where
  "source_weight s = (case map_of source_weights s of Some w \<Rightarrow> w | None \<Rightarrow> 1)"

definition initial_scores :: "(string, real) odict" where
  "initial_scores = [(''BUY'', 0), (''SELL'', 0), (''NO_TRADE'', 0)]"

definition score_vote :: "engine_vote \<Rightarrow> (string, real) odict \<Rightarrow> (string, real) odict" where
  "score_vote v d = od_add (ev_signal v) (source_weight (ev_source v) * ev_confidence v) d"

definition scores_of :: "engine_vote list \<Rightarrow> (string, real) odict" where
  "scores_of vs = fold score_vote vs initial_scores"

definition votes_weight :: "engine_vote list \<Rightarrow> real" where
  "votes_weight vs = sum_list (map (\<lambda>v. source_weight (ev_source v)) vs)"

text \<open>\<open>max(d, key=d.get)\<close>: the first maximal key.\<close>

fun first_max :: "string \<times> real \<Rightarrow> (string, real) odict \<Rightarrow> string \<times> real" where
  "first_max b [] = b"
| "first_max b (p # d) = first_max (if snd b < snd p then p else b) d"

definition winner :: "(string, real) odict \<Rightarrow> string \<times> real" where
  "winner d = first_max (hd d) (tl d)"

definition decide :: "decision_engine \<Rightarrow> engine_vote list \<Rightarrow> final_decision" where
  "decide e vs =
     (if vs = [] then \<lparr>fd_signal = ''NO_TRADE'', fd_confidence = 0, fd_votes = [], fd_reason = NoVotes, fd_approved = False\<rparr>
      else (let scores = scores_of vs; total = votes_weight vs in
        if total = 0 then \<lparr>fd_signal = ''NO_TRADE'', fd_confidence = 0, fd_votes = vs, fd_reason = ZeroTotalWeight, fd_approved = False\<rparr>
        else (let w = fst (winner scores); confidence = snd (winner scores) / total;
                  active = set (map ev_signal vs) - {''NO_TRADE''} in
          if de_require_agreement e \<and> 1 < card active
          then \<lparr>fd_signal = ''NO_TRADE'', fd_confidence = confidence, fd_votes = vs, fd_reason = Disagreement active, fd_approved = False\<rparr>
          else \<lparr>fd_signal = w, fd_confidence = confidence, fd_votes = vs,
             fd_reason = WeightedScores (od_num scores ''BUY'') (od_num scores ''SELL'') (od_num scores ''NO_TRADE''),
             fd_approved = (de_min_confidence e \<le> confidence \<and> w \<noteq> ''NO_TRADE'')\<rparr>)))"

text \<open>
  \<open>get_final_signal\<close>: each result is None or a decoded dictionary; \<open>str\<close> of a value and the parsing of a
  numeric string are parameters. A TypeError or ValueError skips the source, an AttributeError of a
  result that is no dictionary propagates.
\<close>

definition parse_vote :: "(json \<Rightarrow> string) \<Rightarrow> (string \<Rightarrow> real option) \<Rightarrow> string \<Rightarrow> json \<Rightarrow> exc + engine_vote" where
  "parse_vote str_of parse source r = (case json_members r of
      Inl e \<Rightarrow> Inl e
    | Inr ms \<Rightarrow> (case json_float parse (jget ''confidence'' (JFloat 0) ms) of
        Inl e \<Rightarrow> Inl e
      | Inr conf \<Rightarrow> Inr \<lparr>ev_source = source, ev_signal = py_upper (str_of (jget ''signal'' (JStr ''NO_TRADE'') ms)),
          ev_confidence = conf, ev_reason = str_of (jget ''reason'' (JStr []) ms)\<rparr>))"

fun parse_votes :: "(json \<Rightarrow> string) \<Rightarrow> (string \<Rightarrow> real option) \<Rightarrow> (string \<times> json option) list \<Rightarrow> exc + engine_vote list" where
  "parse_votes str_of parse [] = Inr []"
| "parse_votes str_of parse ((source, None) # rs) = parse_votes str_of parse rs"
| "parse_votes str_of parse ((source, Some r) # rs) = (case parse_vote str_of parse source r of
      Inr v \<Rightarrow> (case parse_votes str_of parse rs of Inl e \<Rightarrow> Inl e | Inr vs \<Rightarrow> Inr (v # vs))
    | Inl e \<Rightarrow> if e = TypeError \<or> e = ValueError then parse_votes str_of parse rs else Inl e)"

definition get_final_signal :: "(json \<Rightarrow> string) \<Rightarrow> (string \<Rightarrow> real option) \<Rightarrow> decision_engine
    \<Rightarrow> json option \<Rightarrow> json option \<Rightarrow> json option \<Rightarrow> json option \<Rightarrow> exc + final_decision" where
  "get_final_signal str_of parse e smc pa ml news =
     (case parse_votes str_of parse [(''SMC'', smc), (''PA'', pa), (''ML'', ml), (''NEWS'', news)] of
        Inl x \<Rightarrow> Inl x | Inr vs \<Rightarrow> Inr (decide e vs))"

subsection \<open>The winner is a maximum\<close>

definition signal_score :: "string \<Rightarrow> engine_vote list \<Rightarrow> real" where
  "signal_score s vs = sum_list (map (\<lambda>v. source_weight (ev_source v) * ev_confidence v) (filter (\<lambda>v. ev_signal v = s) vs))"

lemma score_fold: "od_num (fold score_vote vs d) s = od_num d s + signal_score s vs"
  by (induction vs arbitrary: d) (auto simp: score_vote_def signal_score_def)

lemma scores_of_num [simp]: "od_num (scores_of vs) s = signal_score s vs"
  by (simp add: scores_of_def score_fold) (simp add: initial_scores_def od_num_def)

lemma scores_dom: "fst ` set (fold score_vote vs d) = fst ` set d \<union> ev_signal ` set vs"
  by (induction vs arbitrary: d) (auto simp: score_vote_def od_add_def)

lemma scores_wf: "od_wf d \<Longrightarrow> od_wf (fold score_vote vs d)"
  by (induction vs arbitrary: d) (simp_all add: score_vote_def od_add_def)

lemma scores_of_shape: "od_wf (scores_of vs)" "fst ` set (scores_of vs) = {''BUY'', ''SELL'', ''NO_TRADE''} \<union> ev_signal ` set vs"
    "scores_of vs \<noteq> []"
proof -
  have "od_wf initial_scores" by (simp add: initial_scores_def)
  then show "od_wf (scores_of vs)" by (simp add: scores_of_def scores_wf)
  show *: "fst ` set (scores_of vs) = {''BUY'', ''SELL'', ''NO_TRADE''} \<union> ev_signal ` set vs"
    by (simp add: scores_of_def scores_dom) (auto simp: initial_scores_def)
  show "scores_of vs \<noteq> []"
  proof
    assume none: "scores_of vs = []"
    from * show False unfolding none by simp
  qed
qed

lemma first_max_spec: "first_max b d \<in> insert b (set d) \<and> (\<forall>p \<in> insert b (set d). snd p \<le> snd (first_max b d))"
proof (induction d arbitrary: b)
  case (Cons p d)
  let ?c = "if snd b < snd p then p else b"
  let ?m = "first_max ?c d"
  have IH: "?m \<in> insert ?c (set d)" "\<And>q. q \<in> insert ?c (set d) \<Longrightarrow> snd q \<le> snd ?m" using Cons [of ?c] by blast+
  have "snd b \<le> snd ?c" "snd p \<le> snd ?c" by auto
  moreover have "snd ?c \<le> snd ?m" by (rule IH(2)) simp
  ultimately have "snd q \<le> snd ?m" if "q \<in> insert b (set (p # d))" for q
    using that IH(2) [of q] by fastforce
  moreover have "?m \<in> insert b (set (p # d))" using IH(1) by (cases "snd b < snd p") auto
  ultimately show ?case by (simp only: first_max.simps) blast
qed simp

lemma winner_spec:
  "snd (winner (scores_of vs)) = signal_score (fst (winner (scores_of vs))) vs"
  "signal_score s vs \<le> snd (winner (scores_of vs)) \<or> (s \<notin> {''BUY'', ''SELL'', ''NO_TRADE''} \<union> ev_signal ` set vs)"
proof -
  let ?d = "scores_of vs"
  have d: "insert (hd ?d) (set (tl ?d)) = set ?d" using scores_of_shape(3) [of vs] by (cases ?d) auto
  note max = first_max_spec [of "hd ?d" "tl ?d", unfolded d, folded winner_def]
  have get: "snd p = signal_score (fst p) vs" if "p \<in> set ?d" for p
  proof -
    have "od_get ?d (fst p) = Some (snd p)" using od_get_in [OF scores_of_shape(1)] that by simp
    then show ?thesis using scores_of_num [of vs "fst p"] by (simp add: od_num_def)
  qed
  show "snd (winner ?d) = signal_score (fst (winner ?d)) vs" using get max by blast
  show "signal_score s vs \<le> snd (winner ?d) \<or> s \<notin> {''BUY'', ''SELL'', ''NO_TRADE''} \<union> ev_signal ` set vs"
  proof (cases "s \<in> fst ` set ?d")
    case True
    then obtain p where "p \<in> set ?d" "fst p = s" by auto
    with get max show ?thesis by metis
  qed (simp add: scores_of_shape(2))
qed

lemma signal_score_le_weight:
  assumes "\<And>v. v \<in> set vs \<Longrightarrow> 0 \<le> ev_confidence v \<and> ev_confidence v \<le> 1"
  shows "0 \<le> signal_score s vs \<and> signal_score s vs \<le> votes_weight vs"
  using assms
proof (induction vs)
  case (Cons v vs)
  have w: "0 \<le> source_weight (ev_source v)" by (auto simp: source_weight_def source_weights_def split: option.split)
  have "0 \<le> source_weight (ev_source v) * ev_confidence v"
    "source_weight (ev_source v) * ev_confidence v \<le> source_weight (ev_source v)"
    using Cons.prems [of v] w mult_left_le by auto
  with Cons w show ?case by (fastforce simp: signal_score_def votes_weight_def)
qed (simp add: signal_score_def votes_weight_def)

text \<open>
  An approved decision is the signal of maximal weighted score among BUY, SELL, NO_TRADE and the
  signals voted, is not NO_TRADE, and its confidence, the score over the total weight, reaches the
  minimum and is at most 1 when the votes are; when agreement is required, all votes that are not
  NO_TRADE are for it.
\<close>

theorem approved_decision_is_weighted_winner:
  assumes "fd_approved (decide e vs)"
    and "\<And>v. v \<in> set vs \<Longrightarrow> 0 \<le> ev_confidence v \<and> ev_confidence v \<le> 1"
  shows "let f = decide e vs in fd_signal f \<noteq> ''NO_TRADE'' \<and> de_min_confidence e \<le> fd_confidence f
    \<and> 0 \<le> fd_confidence f \<and> fd_confidence f \<le> 1
    \<and> fd_confidence f * votes_weight vs = signal_score (fd_signal f) vs
    \<and> (\<forall>s \<in> {''BUY'', ''SELL'', ''NO_TRADE''} \<union> ev_signal ` set vs. signal_score s vs \<le> signal_score (fd_signal f) vs)
    \<and> (de_require_agreement e \<longrightarrow> card (set (map ev_signal vs) - {''NO_TRADE''}) \<le> 1)"
proof -
  let ?w = "winner (scores_of vs)"
  have total: "votes_weight vs \<noteq> 0" "vs \<noteq> []"
    and f: "fd_signal (decide e vs) = fst ?w" "fd_confidence (decide e vs) = snd ?w / votes_weight vs"
      "fst ?w \<noteq> ''NO_TRADE''" "de_min_confidence e \<le> snd ?w / votes_weight vs"
      "de_require_agreement e \<Longrightarrow> card (set (map ev_signal vs) - {''NO_TRADE''}) \<le> 1"
    using assms(1) by (auto simp: decide_def Let_def split: if_splits)
  have score: "0 \<le> signal_score (fst ?w) vs \<and> signal_score (fst ?w) vs \<le> votes_weight vs"
    by (rule signal_score_le_weight) (rule assms(2))
  then have pos: "0 < votes_weight vs" using total by linarith
  have "0 \<le> snd ?w / votes_weight vs \<and> snd ?w / votes_weight vs \<le> 1"
    using score pos winner_spec(1) [of vs] by (simp add: divide_le_eq)
  moreover have "signal_score s vs \<le> signal_score (fst ?w) vs"
    if "s \<in> {''BUY'', ''SELL'', ''NO_TRADE''} \<union> ev_signal ` set vs" for s
    using winner_spec(2) [where s = s and vs = vs] that unfolding winner_spec(1) by blast
  ultimately show ?thesis
    using f(3-5) total(1) winner_spec(1) [of vs] unfolding Let_def f(1,2) by (intro conjI ballI impI) auto
qed

definition ml_buy :: "engine_vote list" where
  "ml_buy = [\<lparr>ev_source = ''ML'', ev_signal = ''BUY'', ev_confidence = 9/10, ev_reason = []\<rparr>,
     \<lparr>ev_source = ''PA'', ev_signal = ''NO_TRADE'', ev_confidence = 1/5, ev_reason = []\<rparr>]"

lemma ml_buy_winner: "winner (scores_of ml_buy) = (''BUY'', 27/20)"
  by (simp add: scores_of_def ml_buy_def score_vote_def initial_scores_def od_add_def od_num_def source_weight_def
      source_weights_def winner_def)

theorem approved_decision_is_weighted_winner_witness:
  "fd_approved (decide \<lparr>de_min_confidence = 1/2, de_require_agreement = True\<rparr> ml_buy)
   \<and> signal_score ''SELL'' ml_buy \<le> signal_score ''BUY'' ml_buy"
proof -
  let ?e = "\<lparr>de_min_confidence = 1/2, de_require_agreement = True\<rparr>"
  have weight: "votes_weight ml_buy = 5/2"
    by (simp add: votes_weight_def ml_buy_def source_weight_def source_weights_def)
  have "set (map ev_signal ml_buy) - {''NO_TRADE''} = {''BUY''}" by (auto simp: ml_buy_def)
  then have dec: "fd_approved (decide ?e ml_buy)" "fd_signal (decide ?e ml_buy) = ''BUY''"
    by (simp_all add: decide_def ml_buy_winner weight Let_def) (simp_all add: ml_buy_def)
  have "0 \<le> ev_confidence v \<and> ev_confidence v \<le> 1" if "v \<in> set ml_buy" for v using that by (auto simp: ml_buy_def)
  from approved_decision_is_weighted_winner [OF dec(1) this] dec show ?thesis by (simp add: Let_def)
qed

end
