(* ===== verification/Refresh_Rotation.thy ===== *)
theory Refresh_Rotation
  imports Contracts
begin

section \<open>Rotation of refresh tokens\<close>

text \<open>
  \<open>src/backend/core/refresh_rotation.py\<close>: single-use refresh tokens, families that a reuse revokes, the
  session limit per user and the bounded audit trail. SHA-256 is the parameter \<open>h\<close>; what \<open>uuid4\<close> gives and
  the clock are arguments of the operations, one clock reading per call. \<open>record\<close> in \<open>rotate\<close> is the object of
  the store, so its updates are updates of the store entry.
\<close>

record rt_record =
  rt_hash :: string
  rt_user :: string
  rt_family :: string
  rt_issued :: time
  rt_expires :: time
  rt_used :: bool
  rt_replaced_by :: "string option"

datatype rt_event =
    SessionEvicted string | Issued string | TokenExpired | ReuseDetected string | Rotated string
  | RevokeAll nat | RevokeOne string

record rt_audit_entry =
  ra_ts :: time
  ra_event :: rt_event
  ra_user :: string

record rt_store =
  rs_store :: "(string, rt_record) odict"
  rs_families :: "(string, string set) odict"
  rs_audit :: "rt_audit_entry list"
  rs_max_sessions :: int
  rs_ttl_days :: real
  rs_max_audit :: nat

definition new_rt_store :: "int \<Rightarrow> real \<Rightarrow> rt_store" where
  "new_rt_store max_sessions ttl_days = \<lparr>rs_store = [], rs_families = [], rs_audit = [],
     rs_max_sessions = max_sessions, rs_ttl_days = ttl_days, rs_max_audit = 5000\<rparr>"

definition refresh_store :: rt_store where
  "refresh_store = new_rt_store 5 30"

subsection \<open>Operations\<close>

definition rt_push :: "rt_audit_entry \<Rightarrow> rt_store \<Rightarrow> rt_store" where
  "rt_push e s = (let audit = rs_audit s @ [e] in
     s\<lparr>rs_audit := if length audit > rs_max_audit s then take_last (rs_max_audit s) audit else audit\<rparr>)"

definition rt_log :: "time \<Rightarrow> rt_event \<Rightarrow> string \<Rightarrow> rt_store \<Rightarrow> rt_store" where
  "rt_log now ev user s = rt_push \<lparr>ra_ts = now, ra_event = ev, ra_user = user\<rparr> s"

definition rt_active :: "time \<Rightarrow> string \<Rightarrow> rt_record \<Rightarrow> bool" where
  "rt_active now user r \<longleftrightarrow> rt_user r = user \<and> \<not> rt_used r \<and> rt_expires r > now"

definition count_active_sessions :: "time \<Rightarrow> string \<Rightarrow> rt_store \<Rightarrow> nat" where
  "count_active_sessions now user s = length (filter (rt_active now user) (map snd (rs_store s)))"

text \<open>\<open>min(active, key=issued_at)\<close>: the first of the least.\<close>

fun earliest :: "rt_record \<Rightarrow> rt_record list \<Rightarrow> rt_record" where
  "earliest best [] = best"
| "earliest best (r # rs) = earliest (if rt_issued r < rt_issued best then r else best) rs"

definition oldest_session_hash :: "time \<Rightarrow> string \<Rightarrow> rt_store \<Rightarrow> string option" where
  "oldest_session_hash now user s =
     (case filter (rt_active now user) (map snd (rs_store s)) of
        [] \<Rightarrow> None
      | r # rs \<Rightarrow> Some (rt_hash (earliest r rs)))"

definition evict_session :: "time \<Rightarrow> string \<Rightarrow> rt_store \<Rightarrow> rt_store" where
  "evict_session now user s =
     (if rs_max_sessions s \<le> int (count_active_sessions now user s) then
        (case oldest_session_hash now user s of
           None \<Rightarrow> s
         | Some oldest \<Rightarrow> if oldest = [] then s else
             rt_log now (SessionEvicted (take 8 oldest)) user (s\<lparr>rs_store := od_del oldest (rs_store s)\<rparr>))
      else s)"

definition rt_issue ::
  "(string \<Rightarrow> string) \<Rightarrow> time \<Rightarrow> string \<Rightarrow> string \<Rightarrow> string \<Rightarrow> string option \<Rightarrow> rt_store \<Rightarrow> string \<times> rt_store" where
  "rt_issue h now token fresh_family user family s =
     (let s1 = evict_session now user s;
          th = h token;
          fid = (case family of Some f \<Rightarrow> if f = [] then fresh_family else f | None \<Rightarrow> fresh_family);
          r = \<lparr>rt_hash = th, rt_user = user, rt_family = fid, rt_issued = now,
               rt_expires = now + rs_ttl_days s * 86400, rt_used = False, rt_replaced_by = None\<rparr>;
          fams = (case od_get (rs_families s1) user of None \<Rightarrow> {} | Some F \<Rightarrow> F)
      in (token, rt_log now (Issued (take 8 fid)) user
            (s1\<lparr>rs_store := od_put th r (rs_store s1), rs_families := od_put user (insert fid fams) (rs_families s1)\<rparr>)))"

definition revoke_family :: "string \<Rightarrow> string \<Rightarrow> rt_store \<Rightarrow> rt_store" where
  "revoke_family user family s =
     s\<lparr>rs_store := filter (\<lambda>p. \<not> (rt_user (snd p) = user \<and> rt_family (snd p) = family)) (rs_store s),
       rs_families := (case od_get (rs_families s) user of
          None \<Rightarrow> rs_families s
        | Some F \<Rightarrow> od_put user (F - {family}) (rs_families s))\<rparr>"

text \<open>
  \<open>record.replaced_by = ...\<close> after \<open>issue\<close> reaches the store only if the new token did not take the
  key of the old one.
\<close>

definition rt_rotate ::
  "(string \<Rightarrow> string) \<Rightarrow> time \<Rightarrow> string \<Rightarrow> string \<Rightarrow> string \<Rightarrow> rt_store \<Rightarrow> string option \<times> rt_store" where
  "rt_rotate h now old token fresh_family s =
     (let th = h old in
      case od_get (rs_store s) th of
        None \<Rightarrow> (None, s)
      | Some r \<Rightarrow>
          if now > rt_expires r then
            (None, rt_log now TokenExpired (rt_user r) (s\<lparr>rs_store := od_del th (rs_store s)\<rparr>))
          else if rt_used r then
            (None, revoke_family (rt_user r) (rt_family r)
                     (rt_log now (ReuseDetected (take 8 (rt_family r))) (rt_user r) s))
          else
            (let s1 = s\<lparr>rs_store := od_put th (r\<lparr>rt_used := True\<rparr>) (rs_store s)\<rparr>;
                 (new, s2) = rt_issue h now token fresh_family (rt_user r) (Some (rt_family r)) s1;
                 s3 = (if h new = th then s2 else
                         s2\<lparr>rs_store := od_put th (r\<lparr>rt_used := True, rt_replaced_by := Some (h new)\<rparr>) (rs_store s2)\<rparr>)
             in (Some new, rt_log now (Rotated (take 8 (rt_family r))) (rt_user r) s3)))"

definition revoke_user :: "time \<Rightarrow> string \<Rightarrow> rt_store \<Rightarrow> nat \<times> rt_store" where
  "revoke_user now user s =
     (let to_del = filter (\<lambda>p. rt_user (snd p) = user) (rs_store s) in
      (length to_del, rt_log now (RevokeAll (length to_del)) user
         (s\<lparr>rs_store := filter (\<lambda>p. rt_user (snd p) \<noteq> user) (rs_store s),
            rs_families := od_del user (rs_families s)\<rparr>)))"

definition revoke_token :: "(string \<Rightarrow> string) \<Rightarrow> time \<Rightarrow> string \<Rightarrow> rt_store \<Rightarrow> bool \<times> rt_store" where
  "revoke_token h now raw s =
     (case od_get (rs_store s) (h raw) of
        None \<Rightarrow> (False, s)
      | Some r \<Rightarrow> (True, rt_log now (RevokeOne (take 8 (h raw))) (rt_user r)
                            (s\<lparr>rs_store := od_del (h raw) (rs_store s)\<rparr>)))"

definition rt_validate :: "(string \<Rightarrow> string) \<Rightarrow> time \<Rightarrow> string \<Rightarrow> rt_store \<Rightarrow> rt_record option" where
  "rt_validate h now raw s =
     (case od_get (rs_store s) (h raw) of
        None \<Rightarrow> None
      | Some r \<Rightarrow> if rt_used r \<or> now > rt_expires r then None else Some r)"

text \<open>\<open>entries[-limit:]\<close>; for \<open>limit = 0\<close> that is the whole list.\<close>

definition get_audit :: "string option \<Rightarrow> int \<Rightarrow> rt_store \<Rightarrow> rt_audit_entry list" where
  "get_audit user limit s =
     (let entries = (case user of
            None \<Rightarrow> rs_audit s
          | Some u \<Rightarrow> if u = [] then rs_audit s else filter (\<lambda>e. ra_user e = u) (rs_audit s)) in
      if 0 < limit then take_last (nat limit) entries else List.drop (nat (- limit)) entries)"

definition active_session_count :: "time \<Rightarrow> string \<Rightarrow> rt_store \<Rightarrow> nat" where
  "active_session_count now user s = count_active_sessions now user s"

definition rt_purge_expired :: "time \<Rightarrow> rt_store \<Rightarrow> nat \<times> rt_store" where
  "rt_purge_expired now s =
     (length (filter (\<lambda>p. rt_expires (snd p) < now) (rs_store s)),
      s\<lparr>rs_store := filter (\<lambda>p. \<not> rt_expires (snd p) < now) (rs_store s)\<rparr>)"

subsection \<open>The audit trail is a bounded log\<close>

interpretation rt_audit_log: bounded_log rt_push rs_audit rs_max_audit
  by unfold_locales (auto simp: rt_push_def Let_def take_last_def)

lemma rt_log_frame [simp]:
  "rs_store (rt_log now ev u s) = rs_store s" "rs_families (rt_log now ev u s) = rs_families s"
  "rs_max_sessions (rt_log now ev u s) = rs_max_sessions s" "rs_ttl_days (rt_log now ev u s) = rs_ttl_days s"
  "rs_max_audit (rt_log now ev u s) = rs_max_audit s"
  by (simp_all add: rt_log_def rt_push_def Let_def)

subsection \<open>Runs\<close>

text \<open>The operations that change the store, with what the caller, the clock and \<open>uuid4\<close> supply.\<close>

datatype rt_op =
    OpIssue time string string string "string option"
  | OpRotate time string string string
  | OpRevokeUser time string
  | OpRevokeToken time string
  | OpPurge time

fun rt_step :: "(string \<Rightarrow> string) \<Rightarrow> rt_op \<Rightarrow> rt_store \<Rightarrow> rt_store" where
  "rt_step h (OpIssue now token fam user family) s = snd (rt_issue h now token fam user family s)"
| "rt_step h (OpRotate now old token fam) s = snd (rt_rotate h now old token fam s)"
| "rt_step h (OpRevokeUser now user) s = snd (revoke_user now user s)"
| "rt_step h (OpRevokeToken now raw) s = snd (revoke_token h now raw s)"
| "rt_step h (OpPurge now) s = snd (rt_purge_expired now s)"

fun op_time :: "rt_op \<Rightarrow> time" where
  "op_time (OpIssue now _ _ _ _) = now"
| "op_time (OpRotate now _ _ _) = now"
| "op_time (OpRevokeUser now _) = now"
| "op_time (OpRevokeToken now _) = now"
| "op_time (OpPurge now) = now"

text \<open>The token an operation may put into the store.\<close>

fun op_token :: "rt_op \<Rightarrow> string option" where
  "op_token (OpIssue _ token _ _ _) = Some token"
| "op_token (OpRotate _ _ token _) = Some token"
| "op_token _ = None"

subsection \<open>The session limit\<close>

text \<open>
  Every record is stored under its own hash, which is not empty, and no user has more active sessions
  than the limit \<open>m\<close>.
\<close>

definition live :: "time \<Rightarrow> string \<Rightarrow> (string, rt_record) odict \<Rightarrow> nat" where
  "live now u d = length (filter (\<lambda>p. rt_active now u (snd p)) d)"

definition rt_good :: "int \<Rightarrow> time \<Rightarrow> (string, rt_record) odict \<Rightarrow> bool" where
  "rt_good m now d \<longleftrightarrow> od_wf d \<and> (\<forall>p \<in> set d. rt_hash (snd p) = fst p \<and> fst p \<noteq> [])
     \<and> (\<forall>u. int (live now u d) \<le> m)"

lemma count_active: "count_active_sessions now u s = live now u (rs_store s)"
  by (simp add: count_active_sessions_def live_def filter_map o_def)

lemma live_filter: "live now u (filter P d) \<le> live now u d"
  unfolding live_def by (rule length_filter_filter)

lemma live_put: "live now u (od_put k r d) \<le> live now u d + (if rt_active now u r then 1 else 0)"
  using length_filter_od_put [where P = "\<lambda>p. rt_active now u (snd p)" and k = k and v = r and d = d]
  by (simp add: live_def)

lemma live_del: "od_wf d \<Longrightarrow> (k, r) \<in> set d \<Longrightarrow> rt_active now u r \<Longrightarrow> Suc (live now u (od_del k d)) = live now u d"
  using length_filter_od_del [where P = "\<lambda>p. rt_active now u (snd p)" and k = k and v = r and d = d]
  by (simp add: live_def)

lemma live_later: "t \<le> now \<Longrightarrow> live now u d \<le> live t u d"
  unfolding live_def by (rule length_filter_imp) (auto simp: rt_active_def)

lemma rt_goodD:
  "rt_good m now d \<Longrightarrow> od_wf d" "rt_good m now d \<Longrightarrow> int (live now u d) \<le> m"
  "rt_good m now d \<Longrightarrow> (k, r) \<in> set d \<Longrightarrow> rt_hash r = k \<and> k \<noteq> []"
  by (auto simp: rt_good_def)

lemma rt_good_shrink:
  assumes "rt_good m t d" and "od_wf e" and "set e \<subseteq> set d" and "\<And>u. live now u e \<le> live t u d"
  shows "rt_good m now e"
proof -
  have "int (live now u e) \<le> m" for u
    using assms(4) [of u] rt_goodD(2) [OF assms(1), of u] by linarith
  moreover have "\<forall>p \<in> set e. rt_hash (snd p) = fst p \<and> fst p \<noteq> []" using assms(1,3) unfolding rt_good_def by blast
  ultimately show ?thesis using assms(2) by (simp add: rt_good_def)
qed

lemma rt_good_filter: "rt_good m now d \<Longrightarrow> rt_good m now (filter P d)"
  by (rule rt_good_shrink) (auto simp: rt_goodD live_filter)

lemma rt_good_del: "rt_good m now d \<Longrightarrow> rt_good m now (od_del k d)"
  unfolding od_del_def by (rule rt_good_filter)

lemma rt_good_later: "rt_good m t d \<Longrightarrow> t \<le> now \<Longrightarrow> rt_good m now d"
  by (rule rt_good_shrink) (auto simp: rt_goodD live_later)

lemma rt_good_put:
  assumes "rt_good m now d" and "rt_hash r = k" and "k \<noteq> []"
    and "rt_active now (rt_user r) r \<Longrightarrow> int (live now (rt_user r) d) < m"
  shows "rt_good m now (od_put k r d)"
proof -
  have "int (live now u (od_put k r d)) \<le> m" for u
  proof (cases "rt_active now u r")
    case True
    then have "rt_user r = u" by (simp add: rt_active_def)
    with True assms(4) live_put [of now u k r d] show ?thesis by simp
  next
    case False
    then show ?thesis using live_put [of now u k r d] rt_goodD(2) [OF assms(1), of u] by simp
  qed
  with assms show ?thesis by (auto simp: rt_good_def set_od_put)
qed

lemma earliest_in: "earliest b rs \<in> set (b # rs)"
  by (induction rs arbitrary: b) (auto split: if_splits)

lemma oldest_session_hash_active:
  assumes "oldest_session_hash now u s = Some th" and "rt_good m now (rs_store s)"
  obtains r where "(th, r) \<in> set (rs_store s)" and "rt_active now u r" and "th \<noteq> []"
proof -
  obtain r rs where "filter (rt_active now u) (map snd (rs_store s)) = r # rs" and th: "th = rt_hash (earliest r rs)"
    using assms(1) by (auto simp: oldest_session_hash_def split: list.splits)
  then have "earliest r rs \<in> set (filter (rt_active now u) (map snd (rs_store s)))"
    using earliest_in [of r rs] by simp
  then show thesis using assms(2) th that unfolding rt_good_def by fastforce
qed

lemma oldest_session_hash_None:
  "oldest_session_hash now u s = None \<longleftrightarrow> count_active_sessions now u s = 0"
  by (simp add: oldest_session_hash_def count_active_sessions_def del: length_filter_map split: list.splits)

text \<open>Eviction makes room: afterwards the user has fewer sessions than the limit.\<close>

lemma evict_session_room:
  assumes "rt_good (rs_max_sessions s) now (rs_store s)" and "1 \<le> rs_max_sessions s"
  shows "int (live now u (rs_store (evict_session now u s))) < rs_max_sessions s"
proof (cases "rs_max_sessions s \<le> int (count_active_sessions now u s)")
  case True
  with assms(2) obtain th where th: "oldest_session_hash now u s = Some th"
    using oldest_session_hash_None [of now u s] by (cases "oldest_session_hash now u s") auto
  then obtain r where r: "(th, r) \<in> set (rs_store s)" "rt_active now u r" "th \<noteq> []"
    using assms(1) by (rule oldest_session_hash_active)
  then have "Suc (live now u (od_del th (rs_store s))) = live now u (rs_store s)"
    using assms(1) by (auto simp: rt_good_def intro: live_del)
  moreover have "int (live now u (rs_store s)) \<le> rs_max_sessions s" using assms(1) by (simp add: rt_good_def)
  ultimately show ?thesis using True th r(3) by (simp add: evict_session_def)
qed (simp add: evict_session_def count_active)

lemma evict_session_frame [simp]:
  "rs_max_sessions (evict_session now u s) = rs_max_sessions s" "rs_ttl_days (evict_session now u s) = rs_ttl_days s"
  "rs_families (evict_session now u s) = rs_families s"
  by (simp_all add: evict_session_def split: option.splits)

lemma evict_session_good: "rt_good m now (rs_store s) \<Longrightarrow> rt_good m now (rs_store (evict_session now u s))"
  by (simp add: evict_session_def rt_good_del split: option.splits)

lemma issue_store:
  obtains r where "rs_store (snd (rt_issue h now token fam u f s)) = od_put (h token) r (rs_store (evict_session now u s))"
    and "rt_hash r = h token" and "rt_user r = u" and "\<not> rt_used r"
  by (rule that [of "\<lparr>rt_hash = h token, rt_user = u,
      rt_family = (case f of Some g \<Rightarrow> if g = [] then fam else g | None \<Rightarrow> fam), rt_issued = now,
      rt_expires = now + rs_ttl_days s * 86400, rt_used = False, rt_replaced_by = None\<rparr>"])
    (simp_all add: rt_issue_def Let_def)

lemma issue_max [simp]: "rs_max_sessions (snd (rt_issue h now token fam u f s)) = rs_max_sessions s"
  by (simp add: rt_issue_def Let_def)

lemma issue_good:
  assumes "rt_good (rs_max_sessions s) now (rs_store s)" and "1 \<le> rs_max_sessions s" and "h token \<noteq> []"
  shows "rt_good (rs_max_sessions s) now (rs_store (snd (rt_issue h now token fam u f s)))"
proof -
  obtain r where r: "rs_store (snd (rt_issue h now token fam u f s)) = od_put (h token) r (rs_store (evict_session now u s))"
    "rt_hash r = h token" "rt_user r = u" by (rule issue_store)
  show ?thesis unfolding r(1)
    by (rule rt_good_put) (use r assms evict_session_room evict_session_good in auto)
qed

text \<open>What a successful rotation does to the store: mark the old record, issue, note the successor.\<close>

lemma rotate_cases:
  obtains (unknown) "od_get (rs_store s) (h old) = None" "rt_rotate h now old token fam s = (None, s)"
  | (expired) r where "od_get (rs_store s) (h old) = Some r" "now > rt_expires r"
      "fst (rt_rotate h now old token fam s) = None"
      "rs_store (snd (rt_rotate h now old token fam s)) = od_del (h old) (rs_store s)"
      "rs_max_sessions (snd (rt_rotate h now old token fam s)) = rs_max_sessions s"
  | (reused) r where "od_get (rs_store s) (h old) = Some r" "now \<le> rt_expires r" "rt_used r"
      "fst (rt_rotate h now old token fam s) = None"
      "rs_store (snd (rt_rotate h now old token fam s))
         = filter (\<lambda>p. \<not> (rt_user (snd p) = rt_user r \<and> rt_family (snd p) = rt_family r)) (rs_store s)"
      "rs_max_sessions (snd (rt_rotate h now old token fam s)) = rs_max_sessions s"
  | (rotated) r s1 s2 x where "od_get (rs_store s) (h old) = Some r" "now \<le> rt_expires r" "\<not> rt_used r"
      "fst (rt_rotate h now old token fam s) = Some token"
      "s1 = s\<lparr>rs_store := od_put (h old) (r\<lparr>rt_used := True\<rparr>) (rs_store s)\<rparr>"
      "s2 = snd (rt_issue h now token fam (rt_user r) (Some (rt_family r)) s1)"
      "rs_store (snd (rt_rotate h now old token fam s)) = (if h token = h old then rs_store s2 else
         od_put (h old) (r\<lparr>rt_used := True, rt_replaced_by := x\<rparr>) (rs_store s2))"
      "rs_max_sessions (snd (rt_rotate h now old token fam s)) = rs_max_sessions s"
proof (cases "od_get (rs_store s) (h old)")
  case None
  then show thesis by (intro unknown) (simp_all add: rt_rotate_def)
next
  case (Some r)
  consider "now > rt_expires r" | "now \<le> rt_expires r" "rt_used r" | "now \<le> rt_expires r" "\<not> rt_used r" by linarith
  then show thesis
  proof cases
    case 1
    then show thesis by (intro expired [OF Some]) (simp_all add: rt_rotate_def Some)
  next
    case 2
    then show thesis by (intro reused [OF Some]) (simp_all add: rt_rotate_def revoke_family_def Some)
  next
    case 3
    let ?s1 = "s\<lparr>rs_store := od_put (h old) (r\<lparr>rt_used := True\<rparr>) (rs_store s)\<rparr>"
    let ?s2 = "snd (rt_issue h now token fam (rt_user r) (Some (rt_family r)) ?s1)"
    have "fst (rt_issue h now token fam (rt_user r) (Some (rt_family r)) ?s1) = token"
      by (simp add: rt_issue_def Let_def)
    then have rotate: "rt_rotate h now old token fam s = (Some token, rt_log now (Rotated (take 8 (rt_family r))) (rt_user r)
        (if h token = h old then ?s2 else
           ?s2\<lparr>rs_store := od_put (h old) (r\<lparr>rt_used := True, rt_replaced_by := Some (h token)\<rparr>) (rs_store ?s2)\<rparr>))"
      using 3 by (simp add: rt_rotate_def Some Let_def split_beta)
    show thesis by (rule rotated [OF Some 3 _ refl refl]) (auto simp: rotate)
  qed
qed

lemma rotate_good:
  assumes "rt_good (rs_max_sessions s) now (rs_store s)" and "1 \<le> rs_max_sessions s" and "h token \<noteq> []"
  shows "rt_good (rs_max_sessions s) now (rs_store (snd (rt_rotate h now old token fam s)))"
proof (cases rule: rotate_cases [where s = s and h = h and old = old and now = now and token = token and fam = fam])
  case unknown
  with assms show ?thesis by simp
next
  case (expired r)
  with assms show ?thesis by (simp add: rt_good_del)
next
  case (reused r)
  with assms show ?thesis by (simp add: rt_good_filter)
next
  case (rotated r s1 s2 x)
  have r: "rt_hash r = h old" "h old \<noteq> []" using rt_goodD(3) [OF assms(1) od_get_SomeD [OF rotated(1)]] by auto
  have "rt_good (rs_max_sessions s) now (rs_store s1)" unfolding rotated(5)
    by (simp, rule rt_good_put) (use assms(1) r in \<open>auto simp: rt_active_def\<close>)
  then have s2: "rt_good (rs_max_sessions s) now (rs_store s2)" unfolding rotated(6)
    using issue_good [of s1 now h token] assms(2,3) by (simp add: rotated(5))
  have "rt_good (rs_max_sessions s) now (od_put (h old) (r\<lparr>rt_used := True, rt_replaced_by := x\<rparr>) (rs_store s2))"
    by (rule rt_good_put) (use s2 r in \<open>auto simp: rt_active_def\<close>)
  with s2 rotated(7) show ?thesis by simp
qed

lemma rotate_max [simp]: "rs_max_sessions (snd (rt_rotate h now old token fam s)) = rs_max_sessions s"
  by (cases rule: rotate_cases [where s = s and h = h and old = old and now = now and token = token and fam = fam]) simp_all

lemma rt_step_max [simp]: "rs_max_sessions (rt_step h e s) = rs_max_sessions s"
  by (cases e) (simp_all add: revoke_user_def revoke_token_def rt_purge_expired_def Let_def split: option.splits)

lemma rt_step_good:
  assumes "rt_good (rs_max_sessions s) (op_time e) (rs_store s)" and "1 \<le> rs_max_sessions s" and "\<And>t. h t \<noteq> []"
  shows "rt_good (rs_max_sessions s) (op_time e) (rs_store (rt_step h e s))"
proof (cases e)
  case (OpIssue now token fam user f)
  with assms show ?thesis by (simp add: issue_good)
next
  case (OpRotate now old token fam)
  with assms show ?thesis by (simp add: rotate_good)
next
  case (OpRevokeUser now user)
  with assms show ?thesis by (simp add: revoke_user_def Let_def rt_good_filter)
next
  case (OpRevokeToken now raw)
  with assms show ?thesis by (auto simp: revoke_token_def rt_good_del split: option.splits)
next
  case (OpPurge now)
  with assms show ?thesis by (simp add: rt_purge_expired_def rt_good_filter)
qed

lemma rt_run_good:
  assumes "rt_good (rs_max_sessions s) t (rs_store s)" and "1 \<le> rs_max_sessions s" and "\<And>t. h t \<noteq> []"
    and "sorted (t # map op_time ops @ [now])"
  shows "rt_good (rs_max_sessions s) now (rs_store (fold (rt_step h) ops s))"
  using assms(1,2,4)
proof (induction ops arbitrary: s t)
  case Nil
  then show ?case by (auto intro: rt_good_later)
next
  case (Cons e ops)
  have "rt_good (rs_max_sessions s) (op_time e) (rs_store s)" using Cons.prems by (auto intro: rt_good_later)
  then have "rt_good (rs_max_sessions s) (op_time e) (rs_store (rt_step h e s))"
    using Cons.prems(2) assms(3) by (rule rt_step_good)
  then show ?case using Cons.IH [of "rt_step h e s" "op_time e"] Cons.prems(2,3) by simp
qed

text \<open>
  C13: at no time does a user have more active sessions than the limit, whatever was issued, rotated,
  revoked and purged before, in whatever order, as long as the clock does not go back.
\<close>

theorem session_limit_always_holds:
  assumes "1 \<le> m" and "\<And>t. h t \<noteq> []" and "sorted (map op_time ops @ [now])"
  shows "int (active_session_count now user (fold (rt_step h) ops (new_rt_store m ttl))) \<le> m"
proof -
  let ?t = "hd (map op_time ops @ [now])"
  have "sorted (?t # map op_time ops @ [now])" using assms(3) by (cases ops) auto
  then have "rt_good m now (rs_store (fold (rt_step h) ops (new_rt_store m ttl)))"
    using rt_run_good [of "new_rt_store m ttl" ?t h ops now] assms(1,2)
    by (simp add: new_rt_store_def rt_good_def live_def)
  then show ?thesis by (simp add: active_session_count_def count_active rt_goodD(2))
qed

text \<open>The default store, two devices logging in and one refreshing.\<close>

definition sample_ops :: "rt_op list" where
  "sample_ops = [OpIssue 100 ''t1'' ''f1'' ''ann'' None, OpIssue 200 ''t2'' ''f2'' ''ann'' None,
     OpRotate 300 ''t1'' ''t3'' ''-'']"

definition sample_hash :: "string \<Rightarrow> string" where
  "sample_hash t = CHR ''#'' # t"

theorem session_limit_always_holds_witness:
  "int (active_session_count 400 ''ann'' (fold (rt_step sample_hash) sample_ops (new_rt_store 5 30))) \<le> 5"
  by (rule session_limit_always_holds) (simp_all add: sample_hash_def sample_ops_def)

subsection \<open>Single use\<close>

text \<open>All that the store holds under \<open>k\<close> is the used form of \<open>r\<close>.\<close>

definition spent :: "string \<Rightarrow> rt_record \<Rightarrow> rt_store \<Rightarrow> bool" where
  "spent k r s \<longleftrightarrow> (\<forall>q. (k, q) \<in> set (rs_store s) \<longrightarrow> rt_used q \<and> rt_user q = rt_user r \<and> rt_family q = rt_family r
     \<and> rt_expires q = rt_expires r)"

lemma spent_shrink: "spent k r s \<Longrightarrow> set (rs_store t) \<subseteq> set (rs_store s) \<Longrightarrow> spent k r t"
  by (auto simp: spent_def)

lemma spent_put:
  assumes "spent k r s" and "rs_store t = od_put k' q (rs_store s)" and "k' \<noteq> k \<or> spent k r (s\<lparr>rs_store := [(k, q)]\<rparr>)"
  shows "spent k r t"
  using assms set_od_put_subset [of k' q "rs_store s"] by (auto simp: spent_def)

lemma set_evict_session: "set (rs_store (evict_session now u s)) \<subseteq> set (rs_store s)"
  by (auto simp: evict_session_def od_set_del split: option.splits)

lemma spent_issue: "spent k r s \<Longrightarrow> h token \<noteq> k \<Longrightarrow> spent k r (snd (rt_issue h now token fam u f s))"
proof -
  assume prems: "spent k r s" "h token \<noteq> k"
  obtain q where "rs_store (snd (rt_issue h now token fam u f s)) = od_put (h token) q (rs_store (evict_session now u s))"
    by (rule issue_store)
  then show "spent k r (snd (rt_issue h now token fam u f s))"
    by (rule spent_put [OF spent_shrink [OF prems(1) set_evict_session]]) (simp add: prems(2))
qed

text \<open>A rotation leaves what the store holds under a key: unchanged, gone, or marked as used.\<close>

lemma spent_rotate:
  assumes "spent k r s" and "h token \<noteq> k"
  shows "spent k r (snd (rt_rotate h now old token fam s))"
proof (cases rule: rotate_cases [where s = s and h = h and old = old and now = now and token = token and fam = fam])
  case unknown
  with assms show ?thesis by simp
next
  case (expired q)
  with assms show ?thesis by (auto intro: spent_shrink simp: od_set_del)
next
  case (reused q)
  with assms show ?thesis by (auto intro: spent_shrink)
next
  case (rotated q s1 s2 x)
  have q: "h old = k \<Longrightarrow> False" using assms(1) rotated(3) od_get_SomeD [OF rotated(1)] by (auto simp: spent_def)
  have "spent k r s1" by (rule spent_put [OF assms(1)]) (use q rotated(5) in auto)
  then have s2: "spent k r s2" unfolding rotated(6) by (rule spent_issue [where u = "rt_user q"]) (rule assms(2))
  then show ?thesis
    using q rotated(7) by (cases "h token = h old") (auto intro: spent_put spent_shrink)
qed

lemma spent_run:
  assumes "spent k r s" and "\<And>e t. e \<in> set ops \<Longrightarrow> op_token e = Some t \<Longrightarrow> h t \<noteq> k"
  shows "spent k r (fold (rt_step h) ops s)"
  using assms
proof (induction ops arbitrary: s)
  case (Cons e ops)
  have fresh: "op_token e = Some t \<Longrightarrow> h t \<noteq> k" for t using Cons.prems(2) [of e t] by simp
  have "spent k r (rt_step h e s)"
  proof (cases e)
    case (OpIssue now token fam user f)
    then show ?thesis using Cons.prems(1) fresh [of token] by (simp add: spent_issue)
  next
    case (OpRotate now old token fam)
    then show ?thesis using Cons.prems(1) fresh [of token] by (simp add: spent_rotate)
  next
    case (OpRevokeUser now user)
    then show ?thesis using Cons.prems(1) by (auto simp: revoke_user_def Let_def intro: spent_shrink)
  next
    case (OpRevokeToken now raw)
    then show ?thesis using Cons.prems(1) by (auto simp: revoke_token_def od_set_del intro: spent_shrink split: option.splits)
  next
    case (OpPurge now)
    then show ?thesis using Cons.prems(1) by (auto simp: rt_purge_expired_def intro: spent_shrink)
  qed
  moreover have "h t \<noteq> k" if "f \<in> set ops" "op_token f = Some t" for f t
    using Cons.prems(2) [of f t] that by simp
  ultimately show ?case using Cons.IH [of "rt_step h e s"] by simp
qed simp

lemma evict_session_wf: "od_wf (rs_store s) \<Longrightarrow> od_wf (rs_store (evict_session now u s))"
  by (simp add: evict_session_def split: option.splits)

lemma issue_wf: "od_wf (rs_store s) \<Longrightarrow> od_wf (rs_store (snd (rt_issue h now token fam u f s)))"
  by (rule issue_store [of h now token fam u f s]) (simp add: evict_session_wf)

interpretation rt_runs: guarded_state "rt_step h" "\<lambda>s. od_wf (rs_store s)" for h
proof
  fix s :: rt_store and e assume wf: "od_wf (rs_store s)"
  show "od_wf (rs_store (rt_step h e s))"
  proof (cases e)
    case (OpRotate now old token fam)
    from wf show ?thesis unfolding OpRotate rt_step.simps
      by (cases rule: rotate_cases [where s = s and h = h and old = old and now = now and token = token and fam = fam])
        (simp_all add: issue_wf)
  qed (use wf in \<open>auto simp: issue_wf revoke_user_def revoke_token_def rt_purge_expired_def Let_def split: option.splits\<close>)
qed

lemma validate_spent: "spent (h old) r s \<Longrightarrow> rt_validate h now old s = None"
  using od_get_SomeD by (fastforce simp: rt_validate_def spent_def split: option.splits)

text \<open>
  C12: a refresh token is good once. After a successful rotation of a token, whatever operations follow
  (their new tokens having other hashes), the old token is never valid again and presenting it again never
  yields a token; and if its record is still there and not expired, presenting it again takes every
  session of its family out of the store, the successors included, and leaves all others as they were.
\<close>

theorem refresh_token_is_single_use:
  assumes "s = fold (rt_step h) before (new_rt_store m ttl)"
    and "rt_rotate h now old token fam s = (Some new, s1)"
    and "h token \<noteq> h old" and "\<And>e t. e \<in> set after \<Longrightarrow> op_token e = Some t \<Longrightarrow> h t \<noteq> h old"
  shows "let s' = fold (rt_step h) after s1; again = rt_rotate h later old token' fam' s' in
    rt_validate h later old s' = None \<and> fst again = None
    \<and> (case od_get (rs_store s) (h old) of None \<Rightarrow> False | Some r \<Rightarrow>
         od_get (rs_store s') (h old) \<noteq> None \<and> later \<le> rt_expires r \<longrightarrow>
           set (rs_store (snd again))
             = {p \<in> set (rs_store s'). \<not> (rt_user (snd p) = rt_user r \<and> rt_family (snd p) = rt_family r)})"
proof -
  define s' where "s' = fold (rt_step h) after s1"
  have wf: "od_wf (rs_store s)" unfolding assms(1) by (rule rt_runs.run_good) (simp add: new_rt_store_def)
  obtain r where r: "od_get (rs_store s) (h old) = Some r" and "spent (h old) r s1"
  proof (cases rule: rotate_cases [where s = s and h = h and old = old and now = now and token = token and fam = fam])
    case (rotated r s2 s3 x)
    then have "od_wf (rs_store s3)" using wf by (simp add: issue_wf)
    then have "spent (h old) r s1" using rotated(7) assms(2,3) by (auto simp: spent_def set_od_put)
    with rotated(1) show thesis by (rule that)
  qed (use assms(2) in auto)
  then have spent: "spent (h old) r s'" unfolding s'_def using assms(4) by (intro spent_run)
  have valid: "rt_validate h later old s' = None" by (rule validate_spent) (rule spent)
  show ?thesis unfolding Let_def s'_def [symmetric] r option.case
  proof (intro conjI impI valid)
    let ?again = "rt_rotate h later old token' fam' s'"
    show "fst ?again = None"
      by (cases rule: rotate_cases [where s = s' and h = h and old = old and now = later and token = token' and fam = fam'])
        (use spent od_get_SomeD in \<open>fastforce simp: spent_def\<close>)+
    assume there: "od_get (rs_store s') (h old) \<noteq> None \<and> later \<le> rt_expires r"
    then obtain q where q: "od_get (rs_store s') (h old) = Some q" by auto
    then have "rt_used q" "rt_user q = rt_user r" "rt_family q = rt_family r" "rt_expires q = rt_expires r"
      using spent od_get_SomeD [OF q] by (auto simp: spent_def)
    with there q show "set (rs_store (snd ?again))
        = {p \<in> set (rs_store s'). \<not> (rt_user (snd p) = rt_user r \<and> rt_family (snd p) = rt_family r)}"
      by (simp add: rt_rotate_def revoke_family_def)
  qed
qed

text \<open>The witness replays the token that \<open>sample_ops\<close> rotated.\<close>

lemma sample_rotation:
  "fst (rt_rotate sample_hash 300 ''t1'' ''t3'' ''-'' (fold (rt_step sample_hash) (take 2 sample_ops) (new_rt_store 5 30))) = Some ''t3''"
  by (simp add: sample_ops_def sample_hash_def rt_rotate_def rt_issue_def evict_session_def count_active_sessions_def
      rt_active_def new_rt_store_def rt_log_def rt_push_def numeral_2_eq_2 Let_def)

theorem refresh_token_is_single_use_witness:
  "rt_validate sample_hash 400 ''t1'' (fold (rt_step sample_hash) [OpRotate 350 ''t3'' ''t4'' ''-'']
      (snd (rt_rotate sample_hash 300 ''t1'' ''t3'' ''-''
        (fold (rt_step sample_hash) (take 2 sample_ops) (new_rt_store 5 30))))) = None"
proof -
  let ?s = "fold (rt_step sample_hash) (take 2 sample_ops) (new_rt_store 5 30)"
  have rotated: "rt_rotate sample_hash 300 ''t1'' ''t3'' ''-'' ?s
      = (Some ''t3'', snd (rt_rotate sample_hash 300 ''t1'' ''t3'' ''-'' ?s))"
    using sample_rotation by (metis prod.collapse)
  have fresh: "sample_hash ''t3'' \<noteq> sample_hash ''t1''" by (simp add: sample_hash_def)
  have later: "sample_hash t \<noteq> sample_hash ''t1''"
    if "e \<in> set [OpRotate 350 ''t3'' ''t4'' ''-'']" "op_token e = Some t" for e t using that by (auto simp: sample_hash_def)
  show ?thesis
    by (rule refresh_token_is_single_use [OF refl rotated fresh later, unfolded Let_def, THEN conjunct1])
qed

end
