(* ===== verification/Rate_Limit.thy ===== *)
theory Rate_Limit
  imports Contracts
begin

section \<open>Rate limiting\<close>

text \<open>
  \<open>src/backend/middleware/rate_limit.py\<close>: the client address behind proxies, the multiplier per address,
  the sliding window in memory and in Redis, the middleware that chooses between them, the WebSocket
  limiter, the token bucket and the periodic cleanup. The clock readings are arguments; the reply of the
  Redis pipeline is a parameter; header lookup is what Starlette's \<open>request.headers.get\<close> gives.
\<close>

type_synonym windows = "(string, time list) odict"

record limiter_state =
  lm_windows :: windows
  lm_rates :: "(string, real) odict"
  lm_redis :: bool

subsection \<open>The client address\<close>

definition before_comma :: "string \<Rightarrow> string" where
  "before_comma v = takeWhile (\<lambda>c. c \<noteq> CHR '','') v"

fun first_header :: "(string \<Rightarrow> string option) \<Rightarrow> string list \<Rightarrow> string option" where
  "first_header get [] = None"
| "first_header get (k # ks) =
     (case get k of
        None \<Rightarrow> first_header get ks
      | Some v \<Rightarrow> if v = [] then first_header get ks else Some (py_strip (before_comma v)))"

definition extract_real_ip :: "(string \<Rightarrow> string option) \<Rightarrow> string option \<Rightarrow> string" where
  "extract_real_ip get client =
     (case first_header get [''X-Forwarded-For'', ''X-Real-IP'', ''CF-Connecting-IP''] of
        Some ip \<Rightarrow> ip
      | None \<Rightarrow> (case client of Some host \<Rightarrow> host | None \<Rightarrow> ''unknown''))"

subsection \<open>The multiplier of an address\<close>

definition rate_of :: "string \<Rightarrow> (string, real) odict \<Rightarrow> real" where
  "rate_of ip rates = (case od_get rates ip of Some r \<Rightarrow> r | None \<Rightarrow> 1)"

definition reduce_rate_limit_for_ip :: "string \<Rightarrow> real \<Rightarrow> limiter_state \<Rightarrow> limiter_state" where
  "reduce_rate_limit_for_ip ip factor s =
     s\<lparr>lm_rates := od_put ip (max (1/10) (rate_of ip (lm_rates s) * factor)) (lm_rates s)\<rparr>"

text \<open>Python's \<open>int\<close> on a float truncates towards zero.\<close>

definition py_int :: "real \<Rightarrow> int" where
  "py_int x = (if 0 \<le> x then \<lfloor>x\<rfloor> else \<lceil>x\<rceil>)"

definition effective_limit :: "int \<Rightarrow> real \<Rightarrow> int" where
  "effective_limit limit multiplier = max 1 (py_int (of_int limit * multiplier))"

subsection \<open>The sliding windows\<close>

definition window_of :: "string \<Rightarrow> windows \<Rightarrow> time list" where
  "window_of ip ws = (case od_get ws ip of Some dq \<Rightarrow> dq | None \<Rightarrow> [])"

definition is_allowed_memory :: "string \<Rightarrow> int \<Rightarrow> real \<Rightarrow> time \<Rightarrow> windows \<Rightarrow> bool \<times> windows" where
  "is_allowed_memory ip limit window now ws =
     (let dq = dropWhile (\<lambda>t. t < now - window) (window_of ip ws) in
      if limit \<le> int (length dq) then (False, od_put ip dq ws)
      else (True, od_put ip (dq @ [now]) ws))"

text \<open>The pipeline replies with one value per command, or the call raises; \<open>int(results[2])\<close> may raise as well.\<close>

definition is_allowed_redis :: "bool \<Rightarrow> exc + int list \<Rightarrow> int \<Rightarrow> bool" where
  "is_allowed_redis client reply limit =
     (if \<not> client then True
      else case reply of
        Inl e \<Rightarrow> True
      | Inr results \<Rightarrow> if length results \<le> 2 then True else results ! 2 \<le> limit)"

datatype verdict = ToApp | TooManyRequests

definition rate_limit_call ::
  "int \<Rightarrow> real \<Rightarrow> string \<Rightarrow> string \<Rightarrow> exc + int list \<Rightarrow> time \<Rightarrow> limiter_state \<Rightarrow> verdict \<times> limiter_state" where
  "rate_limit_call limit window scope_type ip reply now s =
     (if scope_type \<notin> {''http'', ''websocket''} then (ToApp, s)
      else
        (let eff = effective_limit limit (rate_of ip (lm_rates s));
             (allowed, ws) = (if lm_redis s then (is_allowed_redis (lm_redis s) reply eff, lm_windows s)
                              else is_allowed_memory ip eff window now (lm_windows s))
         in (if allowed then ToApp else TooManyRequests, s\<lparr>lm_windows := ws\<rparr>)))"

definition ws_is_allowed :: "int \<Rightarrow> string \<Rightarrow> time \<Rightarrow> windows \<Rightarrow> bool \<times> windows" where
  "ws_is_allowed limit conn_id now ws =
     (let dq = dropWhile (\<lambda>t. t < now - 60) (window_of conn_id ws) in
      if limit \<le> int (length dq) then (False, od_put conn_id dq ws)
      else (True, od_put conn_id (dq @ [now]) ws))"

text \<open>One turn of the cleanup loop.\<close>

definition cleanup_windows :: "time \<Rightarrow> windows \<Rightarrow> windows" where
  "cleanup_windows now ws = filter (\<lambda>p. \<not> (snd p \<noteq> [] \<and> last (snd p) < now - 3600)) ws"

text \<open>
  \<open>connect\<close> is what the import and \<open>from_url\<close> answer. After them the client is kept, whatever its \<open>ping\<close> says: the log call of a
  success has a format argument and raises inside the \<open>try\<close>, and so does that of the handler, before the client is dropped.
\<close>

definition init_redis :: "string \<Rightarrow> exc + unit \<Rightarrow> limiter_state \<Rightarrow> (unit, limiter_state) outcome" where
  "init_redis url connect s =
     (if url = [] then (Inr (), s)
      else (log_with_argument, case connect of Inl e \<Rightarrow> s | Inr _ \<Rightarrow> s\<lparr>lm_redis := True\<rparr>))"

lemma init_redis_raises: "url \<noteq> [] \<Longrightarrow> fst (init_redis url connect s) = Inl TypeError"
  by (simp add: init_redis_def log_with_argument_def)

definition close_redis :: "limiter_state \<Rightarrow> limiter_state" where
  "close_redis s = s\<lparr>lm_redis := False\<rparr>"

subsection \<open>The token bucket\<close>

record bucket =
  bk_rate :: real
  bk_burst :: real
  bk_tokens :: "(string, real) odict"
  bk_last :: "(string, time) odict"

definition new_bucket :: "real \<Rightarrow> real \<Rightarrow> bucket" where
  "new_bucket rate burst = \<lparr>bk_rate = rate, bk_burst = burst, bk_tokens = [], bk_last = []\<rparr>"

definition tokens_at :: "string \<Rightarrow> time \<Rightarrow> bucket \<Rightarrow> real" where
  "tokens_at ip now b =
     (let elapsed = now - (case od_get (bk_last b) ip of Some t \<Rightarrow> t | None \<Rightarrow> now) in
      min (bk_burst b) ((case od_get (bk_tokens b) ip of Some x \<Rightarrow> x | None \<Rightarrow> bk_burst b) + elapsed * bk_rate b))"

definition bucket_is_allowed :: "string \<Rightarrow> time \<Rightarrow> bucket \<Rightarrow> bool \<times> bucket" where
  "bucket_is_allowed ip now b =
     (if tokens_at ip now b < 1 then (False, b)
      else (True, b\<lparr>bk_tokens := od_put ip (tokens_at ip now b - 1) (bk_tokens b),
                    bk_last := od_put ip now (bk_last b)\<rparr>))"

subsection \<open>Runs of the sliding window\<close>

text \<open>
  The requests that reach the in-memory window of one middleware and the turns of the cleanup task; the
  history collects what was admitted.
\<close>

datatype window_op = Request string int time | Cleanup time

fun window_time :: "window_op \<Rightarrow> time" where
  "window_time (Request _ _ t) = t"
| "window_time (Cleanup t) = t"

fun window_step :: "real \<Rightarrow> window_op \<Rightarrow> windows \<times> (string \<times> time) list \<Rightarrow> windows \<times> (string \<times> time) list" where
  "window_step w (Request ip limit now) (ws, hist) =
     (let (ok, ws') = is_allowed_memory ip limit w now ws in (ws', if ok then hist @ [(ip, now)] else hist))"
| "window_step w (Cleanup now) (ws, hist) = (cleanup_windows now ws, hist)"

definition hist_of :: "string \<Rightarrow> (string \<times> time) list \<Rightarrow> time list" where
  "hist_of ip hist = map snd (filter (\<lambda>p. fst p = ip) hist)"

definition count_in :: "time \<Rightarrow> time \<Rightarrow> time list \<Rightarrow> nat" where
  "count_in a b ts = length (filter (\<lambda>t. a \<le> t \<and> t \<le> b) ts)"

lemma ws_is_allowed_memory: "ws_is_allowed limit c now ws = is_allowed_memory c limit 60 now ws"
  by (simp add: ws_is_allowed_def is_allowed_memory_def)

lemma hist_of_snoc [simp]: "hist_of ip (hist @ [p]) = hist_of ip hist @ (if fst p = ip then [snd p] else [])"
  by (simp add: hist_of_def)

lemma hist_of_Nil [simp]: "hist_of ip [] = []"
  by (simp add: hist_of_def)

lemma window_of_put [simp]: "window_of ip (od_put k dq ws) = (if ip = k then dq else window_of ip ws)"
  by (simp add: window_of_def)

lemma dropWhile_sorted: "sorted (D :: time list) \<Longrightarrow> dropWhile (\<lambda>t. t < a) D = filter (\<lambda>t. a \<le> t) D"
  by (induction D) (auto simp: not_less intro!: filter_True [symmetric] intro: order_trans)

lemma sorted_le_last: "sorted (xs :: time list) \<Longrightarrow> x \<in> set xs \<Longrightarrow> x \<le> last xs"
  by (induction xs) auto

lemma window_cleanup: "od_wf ws \<Longrightarrow> window_of ip (cleanup_windows now ws) =
    (if window_of ip ws \<noteq> [] \<and> last (window_of ip ws) < now - 3600 then [] else window_of ip ws)"
  by (auto simp: window_of_def cleanup_windows_def od_get_filter split: option.splits)

text \<open>
  Up to clock \<open>c\<close>: the window of an address holds, sorted, all its admitted requests that are not older
  than the window, and no span of the window's length saw more than \<open>L\<close> of them.
\<close>

definition window_ok :: "real \<Rightarrow> nat \<Rightarrow> time \<Rightarrow> windows \<times> (string \<times> time) list \<Rightarrow> bool" where
  "window_ok w L c s \<longleftrightarrow> od_wf (fst s) \<and> (\<forall>ip. sorted (window_of ip (fst s))
     \<and> (\<forall>t \<in> set (window_of ip (fst s)) \<union> set (hist_of ip (snd s)). t \<le> c)
     \<and> filter (\<lambda>t. c - w \<le> t) (window_of ip (fst s)) = filter (\<lambda>t. c - w \<le> t) (hist_of ip (snd s))
     \<and> (\<forall>t. count_in (t - w) t (hist_of ip (snd s)) \<le> L))"

lemma window_okI:
  assumes "od_wf ws" and "\<And>ip. sorted (window_of ip ws)" and "\<And>ip t. t \<in> set (window_of ip ws) \<Longrightarrow> t \<le> c"
    and "\<And>ip t. t \<in> set (hist_of ip hist) \<Longrightarrow> t \<le> c"
    and "\<And>ip. filter (\<lambda>t. c - w \<le> t) (window_of ip ws) = filter (\<lambda>t. c - w \<le> t) (hist_of ip hist)"
    and "\<And>ip t. count_in (t - w) t (hist_of ip hist) \<le> L"
  shows "window_ok w L c (ws, hist)"
  using assms by (auto simp: window_ok_def)

lemma window_okD:
  assumes "window_ok w L c (ws, hist)"
  shows "od_wf ws" "sorted (window_of ip ws)" "t \<in> set (window_of ip ws) \<Longrightarrow> t \<le> c"
    "t \<in> set (hist_of ip hist) \<Longrightarrow> t \<le> c"
    "filter (\<lambda>t. c - w \<le> t) (window_of ip ws) = filter (\<lambda>t. c - w \<le> t) (hist_of ip hist)"
    "count_in (t - w) t (hist_of ip hist) \<le> L"
  using assms by (auto simp: window_ok_def)

lemma filter_later:
  assumes "filter (\<lambda>t. c - w \<le> t) xs = filter (\<lambda>t. c - w \<le> t) ys" and "(c :: time) \<le> now"
  shows "filter (\<lambda>t. now - w \<le> t) xs = filter (\<lambda>t. now - w \<le> t) ys"
proof -
  have *: "filter (\<lambda>t. now - w \<le> t) zs = filter (\<lambda>t. now - w \<le> t) (filter (\<lambda>t. c - w \<le> t) zs)" for zs
    using assms(2) by (auto intro!: filter_cong)
  show ?thesis by (subst (1 2) *) (simp only: assms(1))
qed

lemma window_ok_later: "window_ok w L c (ws, hist) \<Longrightarrow> c \<le> now \<Longrightarrow> window_ok w L now (ws, hist)"
  by (rule window_okI) (auto dest: window_okD intro: filter_later order_trans)

lemma allowed_exact:
  assumes "window_ok w L now (ws, hist)"
  shows "dropWhile (\<lambda>t. t < now - w) (window_of ip ws) = filter (\<lambda>t. now - w \<le> t) (hist_of ip hist)"
  using window_okD(2,5) [OF assms, of ip] by (simp add: dropWhile_sorted)

lemma is_allowed_memory_cases:
  assumes "window_ok w L now (ws, hist)" and "dq = filter (\<lambda>t. now - w \<le> t) (hist_of ip hist)"
  shows "is_allowed_memory ip limit w now ws
    = (int (length dq) < limit, od_put ip (if int (length dq) < limit then dq @ [now] else dq) ws)"
  using allowed_exact [OF assms(1), of ip] assms(2) by (simp add: is_allowed_memory_def Let_def)

lemma count_in_snoc: "count_in a b (ts @ [x]) = count_in a b ts + (if a \<le> x \<and> x \<le> b then 1 else 0)"
  by (simp add: count_in_def)

lemma window_ok_request:
  assumes ok: "window_ok w L now (ws, hist)" and "0 \<le> w" and "limit \<le> int L"
  shows "window_ok w L now (window_step w (Request ip limit now) (ws, hist))"
proof -
  define dq where "dq = filter (\<lambda>t. now - w \<le> t) (hist_of ip hist)"
  note call = is_allowed_memory_cases [OF ok dq_def, where limit = limit]
  have dq: "sorted dq" "\<And>t. t \<in> set dq \<Longrightarrow> t \<le> now"
    using window_okD(2,5) [OF ok, of ip] window_okD(4) [OF ok]
    unfolding dq_def by (auto simp: sorted_filter [of "\<lambda>t. t", simplified] dest: sym)
  show ?thesis
  proof (cases "int (length dq) < limit")
    case False
    then have step: "window_step w (Request ip limit now) (ws, hist) = (od_put ip dq ws, hist)" by (simp add: call)
    show ?thesis unfolding step
      by (rule window_okI) (use window_okD [OF ok] dq in \<open>auto simp: dq_def split: if_splits\<close>)
  next
    case True
    then have step: "window_step w (Request ip limit now) (ws, hist) = (od_put ip (dq @ [now]) ws, hist @ [(ip, now)])"
      by (simp add: call)
    have "count_in (t - w) t (hist_of ip hist @ [now]) \<le> L" for t
    proof (cases "now \<le> t")
      case True
      then have "count_in (t - w) t (hist_of ip hist) \<le> length dq"
        unfolding count_in_def dq_def by (intro length_filter_imp) auto
      then show ?thesis using \<open>int (length dq) < limit\<close> assms(3) by (simp add: count_in_snoc)
    next
      case False
      then show ?thesis using window_okD(6) [OF ok] by (simp add: count_in_snoc)
    qed
    then show ?thesis unfolding step
      by (intro window_okI) (use window_okD [OF ok] dq assms(2) in \<open>auto simp: dq_def sorted_append split: if_splits\<close>)
  qed
qed

lemma window_ok_cleanup:
  assumes ok: "window_ok w L now (ws, hist)" and "w \<le> 3600"
  shows "window_ok w L now (window_step w (Cleanup now) (ws, hist))"
proof -
  note wf = window_okD(1) [OF ok]
  have "filter (\<lambda>t. now - w \<le> t) (window_of ip ws) = []"
    if "window_of ip ws \<noteq> []" "last (window_of ip ws) < now - 3600" for ip
  proof -
    have "t \<le> last (window_of ip ws)" if "t \<in> set (window_of ip ws)" for t
      by (rule sorted_le_last) (rule window_okD(2) [OF ok], rule that)
    then show ?thesis using that(2) assms(2) by (fastforce simp: filter_empty_conv)
  qed
  then have same: "filter (\<lambda>t. now - w \<le> t) (window_of ip (cleanup_windows now ws)) = filter (\<lambda>t. now - w \<le> t) (window_of ip ws)"
    and sub: "set (window_of ip (cleanup_windows now ws)) \<subseteq> set (window_of ip ws)"
    and sorted: "sorted (window_of ip (cleanup_windows now ws))" for ip
    using window_okD(2) [OF ok, of ip] by (simp_all add: window_cleanup [OF wf])
  show ?thesis unfolding window_step.simps
  proof (rule window_okI)
    show "od_wf (cleanup_windows now ws)" using wf by (simp add: cleanup_windows_def)
    show "t \<le> now" if "t \<in> set (window_of ip (cleanup_windows now ws))" for ip t
      using that sub window_okD(3) [OF ok] by blast
  qed (use sorted same window_okD(4,5,6) [OF ok] in \<open>simp_all\<close>)
qed

lemma window_ok_run:
  assumes "window_ok w L c s" and "0 \<le> w" and "w \<le> 3600"
    and "\<And>ip l t. Request ip l t \<in> set ops \<Longrightarrow> l \<le> int L" and "sorted (c # map window_time ops @ [now])"
  shows "window_ok w L now (fold (window_step w) ops s)"
  using assms(1,4,5)
proof (induction ops arbitrary: c s)
  case Nil
  then show ?case by (cases s) (auto intro: window_ok_later)
next
  case (Cons e ops)
  obtain ws hist where s: "s = (ws, hist)" by (cases s)
  have "window_ok w L (window_time e) (ws, hist)" using Cons.prems(1,3) s by (auto intro: window_ok_later)
  then have "window_ok w L (window_time e) (window_step w e (ws, hist))"
    using Cons.prems(2) assms(2,3) by (cases e) (auto simp del: window_step.simps intro: window_ok_request window_ok_cleanup)
  moreover have "l \<le> int L" if "Request ip l t \<in> set ops" for ip l t using Cons.prems(2) [of ip l t] that by simp
  ultimately show ?case using Cons.IH [of "window_time e" "window_step w e s"] Cons.prems(3) s by simp
qed

text \<open>
  C14: the in-memory limiter is an exact sliding window: after any requests of any addresses and any turns
  of the cleanup, in clock order, a request is admitted exactly when fewer than its limit were admitted for
  its address within the window before it; so no span of the window's length ever sees more than the largest
  limit. The cleanup is invisible because a window is at most an hour.
\<close>

theorem sliding_window_is_exact:
  assumes "sorted (map window_time ops @ [now])" and "0 \<le> w" and "w \<le> 3600"
    and "\<And>ip l t. Request ip l t \<in> set ops \<Longrightarrow> l \<le> int L"
  shows "case fold (window_step w) ops ([], []) of (ws, hist) \<Rightarrow>
    (fst (is_allowed_memory ip limit w now ws) \<longleftrightarrow> int (count_in (now - w) now (hist_of ip hist)) < limit)
    \<and> count_in (t - w) t (hist_of ip hist) \<le> L"
proof -
  obtain ws hist where run: "fold (window_step w) ops ([], []) = (ws, hist)" by (meson surj_pair)
  let ?c = "hd (map window_time ops @ [now])"
  have "sorted (?c # map window_time ops @ [now])" using assms(1) by (cases ops) auto
  moreover have "window_ok w L ?c ([], [])" by (rule window_okI) (auto simp: window_of_def count_in_def)
  ultimately have ok: "window_ok w L now (ws, hist)"
    using window_ok_run [where s = "([], [])" and ops = ops and now = now] assms(2-4) run by metis
  have "filter (\<lambda>t. now - w \<le> t) (hist_of ip hist) = filter (\<lambda>t. now - w \<le> t \<and> t \<le> now) (hist_of ip hist)"
    using window_okD(4) [OF ok] by (intro filter_cong) auto
  then show ?thesis
    using is_allowed_memory_cases [OF ok refl] window_okD(6) [OF ok] by (simp add: run count_in_def)
qed

definition sample_requests :: "window_op list" where
  "sample_requests = [Request ''a'' 1 0, Request ''a'' 1 30, Cleanup 40, Request ''a'' 1 61]"

theorem sliding_window_is_exact_witness:
  "case fold (window_step 60) sample_requests ([], []) of (ws, hist) \<Rightarrow>
    (fst (is_allowed_memory ''a'' 1 60 100 ws) \<longleftrightarrow> int (count_in (100 - 60) 100 (hist_of ''a'' hist)) < 1)
    \<and> count_in (100 - 60) 100 (hist_of ''a'' hist) \<le> 1"
  by (rule sliding_window_is_exact) (auto simp: sample_requests_def)

subsection \<open>Runs of the token bucket\<close>

definition bucket_step :: "string \<times> time \<Rightarrow> bucket \<times> (string \<times> time) list \<Rightarrow> bucket \<times> (string \<times> time) list" where
  "bucket_step r s = (let (ok, b) = bucket_is_allowed (fst r) (snd r) (fst s) in (b, if ok then snd s @ [r] else snd s))"

definition bucket_ok :: "real \<Rightarrow> real \<Rightarrow> string \<Rightarrow> time \<Rightarrow> time \<Rightarrow> bucket \<times> (string \<times> time) list \<Rightarrow> bool" where
  "bucket_ok rate burst ip a c s \<longleftrightarrow> bk_rate (fst s) = rate \<and> bk_burst (fst s) = burst
     \<and> (od_get (bk_tokens (fst s)) ip = None \<longleftrightarrow> od_get (bk_last (fst s)) ip = None)
     \<and> (\<forall>x. od_get (bk_tokens (fst s)) ip = Some x \<longrightarrow> 0 \<le> x)
     \<and> (\<forall>x. od_get (bk_last (fst s)) ip = Some x \<longrightarrow> x \<le> c)
     \<and> (\<forall>t \<in> set (hist_of ip (snd s)). t \<le> c)
     \<and> (a \<le> c \<longrightarrow> count_in a c (hist_of ip (snd s)) + tokens_at ip c (fst s) \<le> burst + rate * (c - a))"

lemma tokens_le_burst: "tokens_at ip now b \<le> bk_burst b"
  by (simp add: tokens_at_def)

lemma bucket_ok_later:
  assumes "bucket_ok rate burst ip a c s" and "c \<le> now" and "0 \<le> rate"
  shows "bucket_ok rate burst ip a now s"
proof -
  let ?b = "fst s" let ?h = "hist_of ip (snd s)"
  have same: "count_in a now ?h = count_in a c ?h"
    using assms(1,2) unfolding bucket_ok_def count_in_def
    by (intro arg_cong [where f = length] filter_cong) auto
  have grow: "tokens_at ip now ?b \<le> tokens_at ip c ?b + rate * (now - c)"
  proof (cases "od_get (bk_last ?b) ip")
    case None
    with assms show ?thesis by (simp add: bucket_ok_def tokens_at_def)
  next
    case (Some l)
    have "0 \<le> rate * (now - c)" using assms(2,3) by simp
    with Some assms(1) show ?thesis by (auto simp: bucket_ok_def tokens_at_def Let_def algebra_simps)
  qed
  have "count_in a now ?h + tokens_at ip now ?b \<le> burst + rate * (now - a)" if "a \<le> now"
  proof (cases "a \<le> c")
    case True
    then have "count_in a c ?h + tokens_at ip c ?b \<le> burst + rate * (c - a)" using assms(1) by (simp add: bucket_ok_def)
    with grow show ?thesis unfolding same by (simp add: algebra_simps)
  next
    case False
    then have "count_in a c ?h = 0" by (auto simp: count_in_def)
    moreover have "0 \<le> rate * (now - a)" using that assms(3) by simp
    ultimately show ?thesis using tokens_le_burst [of ip now ?b] assms(1) unfolding same by (simp add: bucket_ok_def)
  qed
  with assms(1,2) show ?thesis unfolding bucket_ok_def by (auto intro: order_trans)
qed

lemma bucket_ok_step:
  assumes ok: "bucket_ok rate burst ip a now s"
  shows "bucket_ok rate burst ip a now (bucket_step (i, now) s)"
proof (cases "tokens_at i now (fst s) < 1")
  case True
  with ok show ?thesis by (simp add: bucket_step_def bucket_is_allowed_def bucket_ok_def)
next
  case False
  define b where "b = (fst s)\<lparr>bk_tokens := od_put i (tokens_at i now (fst s) - 1) (bk_tokens (fst s)),
      bk_last := od_put i now (bk_last (fst s))\<rparr>"
  have step: "bucket_step (i, now) s = (b, snd s @ [(i, now)])"
    using False by (simp add: bucket_step_def bucket_is_allowed_def b_def)
  show ?thesis
  proof (cases "i = ip")
    case True
    have "tokens_at ip now b = tokens_at ip now (fst s) - 1"
      using True tokens_le_burst [of ip now "fst s"] unfolding tokens_at_def [of ip now b] by (simp add: b_def)
    then show ?thesis using ok False True unfolding step
      by (auto simp: bucket_ok_def b_def count_in_snoc)
  next
    case False
    then have "tokens_at ip now b = tokens_at ip now (fst s)" by (simp add: tokens_at_def b_def split: option.split)
    then show ?thesis using ok False unfolding step by (simp add: bucket_ok_def b_def)
  qed
qed

lemma bucket_ok_run:
  assumes "bucket_ok rate burst ip a c s" and "0 \<le> rate" and "sorted (c # map snd rs @ [now])"
  shows "bucket_ok rate burst ip a now (fold bucket_step rs s)"
  using assms(1,3)
proof (induction rs arbitrary: c s)
  case Nil
  then show ?case using assms(2) by (auto intro: bucket_ok_later)
next
  case (Cons r rs)
  have "bucket_ok rate burst ip a (snd r) s" using Cons.prems assms(2) by (auto intro: bucket_ok_later)
  then have "bucket_ok rate burst ip a (snd r) (bucket_step r s)" using bucket_ok_step [of rate burst ip a "snd r" s "fst r"] by simp
  then show ?case using Cons.IH Cons.prems(2) by simp
qed

lemma tokens_nonneg:
  assumes "bucket_ok rate burst ip a c s" and "0 \<le> rate" and "0 \<le> burst"
  shows "0 \<le> tokens_at ip c (fst s)"
  using assms by (auto simp: bucket_ok_def tokens_at_def Let_def split: option.splits)

text \<open>
  The token bucket bounds bursts: from any time on, an address is granted at most the burst size plus
  the refill rate times the time passed, whatever requests of all addresses came in between.
\<close>

theorem token_bucket_bounds_bursts:
  assumes "sorted (map snd rs @ [now])" and "0 \<le> rate" and "0 \<le> burst" and "a \<le> now"
  shows "real (count_in a now (hist_of ip (snd (fold bucket_step rs (new_bucket rate burst, []))))) \<le> burst + rate * (now - a)"
proof -
  let ?c = "hd (map snd rs @ [now])" let ?s = "(new_bucket rate burst, [])"
  have "sorted (?c # map snd rs @ [now])" using assms(1) by (cases rs) auto
  moreover have "bucket_ok rate burst ip a ?c ?s"
    using assms(2) by (simp add: bucket_ok_def new_bucket_def tokens_at_def count_in_def)
  ultimately have "bucket_ok rate burst ip a now (fold bucket_step rs ?s)" using assms(2) by (intro bucket_ok_run)
  from this tokens_nonneg [OF this assms(2,3)] show ?thesis using assms(4) by (simp add: bucket_ok_def)
qed

theorem token_bucket_bounds_bursts_witness:
  "real (count_in 0 5 (hist_of ''a'' (snd (fold bucket_step [(''a'', 0), (''b'', 1), (''a'', 1), (''a'', 2)] (new_bucket 1 2, [])))))
    \<le> 2 + 1 * (5 - 0)"
  by (rule token_bucket_bounds_bursts) simp_all

end
