(* ===== verification/Billing_Provider.thy ===== *)
theory Billing_Provider
  imports Json
begin

section \<open>Payment providers\<close>

text \<open>
  \<open>src/backend/billing/provider.py\<close>: the four providers behind one interface. A provider is a value of
  the datatype; the mock's store is part of it, since confirming a payment updates it. HMAC-SHA256, the JSON
  decoder and what \<open>uuid4\<close> gives are parameters; strings are ASCII. The description and the metadata of a request
  and the error text of a result, which nothing reads, are left out.
\<close>

datatype currency = USD | IRR | EUR

datatype payment_status = PAY_PENDING | PAY_SUCCEEDED | PAY_FAILED | PAY_REFUNDED | PAY_CANCELLED

datatype provider_name = STRIPE | ZARINPAL | MANUAL | MOCK

datatype webhook_event_type = PAYMENT_SUCCEEDED | PAYMENT_FAILED | SUBSCRIPTION_CANCELLED | REFUND_ISSUED

type_synonym members = "(string \<times> json) list"

record payment_request =
  rq_user_id :: string
  rq_plan_id :: string
  rq_amount :: int
  rq_currency :: currency
  rq_idempotency_key :: string

record payment_result =
  pr_provider :: provider_name
  pr_invoice_id :: string
  pr_status :: payment_status
  pr_checkout_url :: string
  pr_raw :: members

record webhook_event =
  we_provider :: provider_name
  we_event_type :: webhook_event_type
  we_invoice_id :: json
  we_user_id :: json
  we_amount :: json
  we_currency :: currency
  we_raw :: members

datatype provider =
    MockProvider bool "(string, payment_result) odict"
  | ManualProvider
  | StripeProvider string string
  | ZarinpalProvider string string bool

fun currency_value :: "currency \<Rightarrow> string" where
  "currency_value USD = ''usd''"
| "currency_value IRR = ''irr''"
| "currency_value EUR = ''eur''"

text \<open>\<open>Currency(v)\<close> and \<open>WebhookEventType(v)\<close>: the member with that value, or ValueError.\<close>

definition currency_of :: "json \<Rightarrow> exc + currency" where
  "currency_of v = (if v = JStr ''usd'' then Inr USD else if v = JStr ''irr'' then Inr IRR
     else if v = JStr ''eur'' then Inr EUR else Inl ValueError)"

definition event_type_of :: "json \<Rightarrow> exc + webhook_event_type" where
  "event_type_of v = (if v = JStr ''payment.succeeded'' then Inr PAYMENT_SUCCEEDED
     else if v = JStr ''payment.failed'' then Inr PAYMENT_FAILED
     else if v = JStr ''subscription.cancelled'' then Inr SUBSCRIPTION_CANCELLED
     else if v = JStr ''refund.issued'' then Inr REFUND_ISSUED else Inl ValueError)"

text \<open>A decoded list or object is not hashable, so it cannot be looked up in a dictionary.\<close>

fun json_hashable :: "json \<Rightarrow> bool" where
  "json_hashable (JList _) = False"
| "json_hashable (JObj _) = False"
| "json_hashable _ = True"

definition dict_lookup :: "(string \<times> 'a) list \<Rightarrow> json \<Rightarrow> exc + 'a option" where
  "dict_lookup d v = (if \<not> json_hashable v then Inl TypeError
     else Inr (case v of JStr s \<Rightarrow> map_of d s | _ \<Rightarrow> None))"

subsection \<open>Creating a payment\<close>

type_synonym mock_store = "(string, payment_result) odict"

definition mock_create :: "bool \<Rightarrow> payment_request \<Rightarrow> mock_store \<Rightarrow> payment_result \<times> mock_store" where
  "mock_create auto_succeed req store =
     (let invoice_id = ''mock_'' @ take 8 (rq_idempotency_key req);
          r = \<lparr>pr_provider = MOCK, pr_invoice_id = invoice_id,
               pr_status = (if auto_succeed then PAY_SUCCEEDED else PAY_PENDING),
               pr_checkout_url = ''https://mock.pay/'' @ invoice_id,
               pr_raw = [(''amount'', JInt (rq_amount req)), (''currency'', JStr (currency_value (rq_currency req))),
                         (''plan'', JStr (rq_plan_id req))]\<rparr>
      in (r, od_put invoice_id r store))"

definition manual_create :: "string \<Rightarrow> payment_request \<Rightarrow> payment_result" where
  "manual_create hex req = \<lparr>pr_provider = MANUAL, pr_invoice_id = ''man_'' @ take 12 hex, pr_status = PAY_PENDING,
     pr_checkout_url = [],
     pr_raw = [(''amount'', JInt (rq_amount req)), (''currency'', JStr (currency_value (rq_currency req))),
               (''plan'', JStr (rq_plan_id req))]\<rparr>"

definition stripe_create :: "string \<Rightarrow> payment_request \<Rightarrow> payment_result" where
  "stripe_create hex req =
     (let invoice_id = ''cs_'' @ take 24 hex in
      \<lparr>pr_provider = STRIPE, pr_invoice_id = invoice_id, pr_status = PAY_PENDING,
       pr_checkout_url = ''https://checkout.stripe.com/pay/'' @ invoice_id,
       pr_raw = [(''amount'', JInt (rq_amount req)), (''currency'', JStr (currency_value (rq_currency req)))]\<rparr>)"

definition zarinpal_base :: "bool \<Rightarrow> string" where
  "zarinpal_base sandbox = (if sandbox then ''https://sandbox.zarinpal.com/pg'' else ''https://api.zarinpal.com/pg'')"

definition zarinpal_create :: "bool \<Rightarrow> string \<Rightarrow> payment_request \<Rightarrow> payment_result" where
  "zarinpal_create sandbox hex req =
     (let authority = ''ZAP_'' @ take 24 hex in
      \<lparr>pr_provider = ZARINPAL, pr_invoice_id = authority, pr_status = PAY_PENDING,
       pr_checkout_url = zarinpal_base sandbox @ ''/StartPay/'' @ authority,
       pr_raw = [(''amount'', JInt (rq_amount req)), (''currency'', JStr ''IRR'')]\<rparr>)"

fun create_payment :: "provider \<Rightarrow> string \<Rightarrow> payment_request \<Rightarrow> payment_result \<times> provider" where
  "create_payment (MockProvider auto_succeed store) hex req =
     (let (r, store') = mock_create auto_succeed req store in (r, MockProvider auto_succeed store'))"
| "create_payment ManualProvider hex req = (manual_create hex req, ManualProvider)"
| "create_payment (StripeProvider key secret) hex req = (stripe_create hex req, StripeProvider key secret)"
| "create_payment (ZarinpalProvider merchant secret sandbox) hex req =
     (zarinpal_create sandbox hex req, ZarinpalProvider merchant secret sandbox)"

subsection \<open>Confirming a payment\<close>

definition confirmed :: "provider_name \<Rightarrow> string \<Rightarrow> payment_status \<Rightarrow> members \<Rightarrow> payment_result" where
  "confirmed name invoice_id status raw = \<lparr>pr_provider = name, pr_invoice_id = invoice_id, pr_status = status,
     pr_checkout_url = [], pr_raw = raw\<rparr>"

definition mock_confirm :: "string \<Rightarrow> mock_store \<Rightarrow> payment_result \<times> mock_store" where
  "mock_confirm invoice_id store =
     (case od_get store invoice_id of
        Some r \<Rightarrow> (let r' = r\<lparr>pr_status := PAY_SUCCEEDED\<rparr> in (r', od_put invoice_id r' store))
      | None \<Rightarrow> (confirmed MOCK invoice_id PAY_FAILED [], store))"

definition manual_confirm :: "string \<Rightarrow> members \<Rightarrow> payment_result" where
  "manual_confirm invoice_id raw = confirmed MANUAL invoice_id PAY_SUCCEEDED raw"

definition stripe_status_map :: "(string \<times> payment_status) list" where
  "stripe_status_map = [(''complete'', PAY_SUCCEEDED), (''payment_succeeded'', PAY_SUCCEEDED),
     (''payment_failed'', PAY_FAILED), (''refunded'', PAY_REFUNDED)]"

definition stripe_confirm :: "string \<Rightarrow> members \<Rightarrow> exc + payment_result" where
  "stripe_confirm invoice_id raw =
     (case dict_lookup stripe_status_map (jget ''status'' (JStr []) raw) of
        Inl e \<Rightarrow> Inl e
      | Inr found \<Rightarrow> Inr (confirmed STRIPE invoice_id (case found of Some st \<Rightarrow> st | None \<Rightarrow> PAY_PENDING) raw))"

text \<open>\<open>raw.get("Status") == "OK" or raw.get("data", {}).get("code") == 100\<close>\<close>

definition zarinpal_ok :: "members \<Rightarrow> exc + bool" where
  "zarinpal_ok raw =
     (if jget ''Status'' JNull raw = JStr ''OK'' then Inr True
      else case json_members (jget ''data'' (JObj []) raw) of
        Inl e \<Rightarrow> Inl e
      | Inr ms \<Rightarrow> Inr (json_eq_int (jget ''code'' JNull ms) 100))"

definition zarinpal_confirm :: "string \<Rightarrow> members \<Rightarrow> exc + payment_result" where
  "zarinpal_confirm invoice_id raw =
     (case zarinpal_ok raw of
        Inl e \<Rightarrow> Inl e
      | Inr ok \<Rightarrow> Inr (confirmed ZARINPAL invoice_id (if ok then PAY_SUCCEEDED else PAY_FAILED) raw))"

fun confirm_payment :: "provider \<Rightarrow> string \<Rightarrow> members \<Rightarrow> (payment_result, provider) outcome" where
  "confirm_payment (MockProvider auto_succeed store) invoice_id raw =
     (let (r, store') = mock_confirm invoice_id store in (Inr r, MockProvider auto_succeed store'))"
| "confirm_payment ManualProvider invoice_id raw = (Inr (manual_confirm invoice_id raw), ManualProvider)"
| "confirm_payment (StripeProvider key secret) invoice_id raw = (stripe_confirm invoice_id raw, StripeProvider key secret)"
| "confirm_payment (ZarinpalProvider merchant secret sandbox) invoice_id raw =
     (zarinpal_confirm invoice_id raw, ZarinpalProvider merchant secret sandbox)"

subsection \<open>Webhooks\<close>

text \<open>The parts \<open>t=...,v1=...\<close> of a Stripe signature; a later part of the same name wins.\<close>

definition signature_parts :: "string \<Rightarrow> (string, string) odict" where
  "signature_parts signature =
     fold (\<lambda>p. od_put (py_split CHR ''='' p ! 0) (py_split CHR ''='' p ! 1))
       (filter (\<lambda>p. CHR ''='' \<in> set p) (py_split CHR '','' signature)) []"

definition part_of :: "(string, string) odict \<Rightarrow> string \<Rightarrow> string \<Rightarrow> string" where
  "part_of parts k d = (case od_get parts k of Some v \<Rightarrow> v | None \<Rightarrow> d)"

definition hmac_verify :: "(string \<Rightarrow> string \<Rightarrow> string) \<Rightarrow> string \<Rightarrow> string \<Rightarrow> string \<Rightarrow> bool" where
  "hmac_verify hmac payload signature secret = (hmac secret payload = signature)"

definition stripe_verify :: "(string \<Rightarrow> string \<Rightarrow> string) \<Rightarrow> string \<Rightarrow> string \<Rightarrow> string \<Rightarrow> bool" where
  "stripe_verify hmac payload signature secret =
     (let parts = signature_parts signature in
      hmac secret (part_of parts ''t'' ''0'' @ ''.'' @ payload) = part_of parts ''v1'' [])"

fun verify_webhook :: "(string \<Rightarrow> string \<Rightarrow> string) \<Rightarrow> provider \<Rightarrow> string \<Rightarrow> string \<Rightarrow> string \<Rightarrow> bool" where
  "verify_webhook hmac (MockProvider _ _) payload signature secret = hmac_verify hmac payload signature secret"
| "verify_webhook hmac ManualProvider payload signature secret = False"
| "verify_webhook hmac (StripeProvider _ _) payload signature secret = stripe_verify hmac payload signature secret"
| "verify_webhook hmac (ZarinpalProvider _ _ _) payload signature secret = hmac_verify hmac payload signature secret"

definition stripe_event_map :: "(string \<times> webhook_event_type) list" where
  "stripe_event_map = [(''checkout.session.completed'', PAYMENT_SUCCEEDED),
     (''payment_intent.payment_failed'', PAYMENT_FAILED),
     (''customer.subscription.deleted'', SUBSCRIPTION_CANCELLED), (''charge.refunded'', REFUND_ISSUED)]"

definition mock_event :: "members \<Rightarrow> exc + webhook_event" where
  "mock_event data =
     (let etype = (case event_type_of (jget ''event'' (JStr ''payment.succeeded'') data) of
                     Inl _ \<Rightarrow> PAYMENT_SUCCEEDED | Inr t \<Rightarrow> t) in
      case currency_of (jget ''currency'' (JStr ''usd'') data) of
        Inl e \<Rightarrow> Inl e
      | Inr cur \<Rightarrow> Inr \<lparr>we_provider = MOCK, we_event_type = etype, we_invoice_id = jget ''invoice_id'' (JStr []) data,
          we_user_id = jget ''user_id'' (JStr []) data, we_amount = jget ''amount'' (JInt 0) data,
          we_currency = cur, we_raw = data\<rparr>)"

definition stripe_event :: "members \<Rightarrow> exc + webhook_event" where
  "stripe_event data =
     (case dict_lookup stripe_event_map (jget ''type'' (JStr []) data) of
        Inl e \<Rightarrow> Inl e
      | Inr found \<Rightarrow>
          (case json_members (jget ''data'' (JObj []) data) of
             Inl e \<Rightarrow> Inl e
           | Inr inner \<Rightarrow>
               (case json_members (jget ''object'' (JObj []) inner) of
                  Inl e \<Rightarrow> Inl e
                | Inr obj \<Rightarrow>
                    (case currency_of (jget ''currency'' (JStr ''usd'') obj) of
                       Inl e \<Rightarrow> Inl e
                     | Inr cur \<Rightarrow> Inr \<lparr>we_provider = STRIPE,
                         we_event_type = (case found of Some t \<Rightarrow> t | None \<Rightarrow> PAYMENT_SUCCEEDED),
                         we_invoice_id = jget ''id'' (jget ''id'' (JStr []) data) obj, we_user_id = JStr [],
                         we_amount = jget ''amount_total'' (JInt 0) obj, we_currency = cur, we_raw = data\<rparr>))))"

definition zarinpal_event :: "members \<Rightarrow> webhook_event" where
  "zarinpal_event data = \<lparr>we_provider = ZARINPAL,
     we_event_type = (if jget ''Status'' JNull data = JStr ''OK'' then PAYMENT_SUCCEEDED else PAYMENT_FAILED),
     we_invoice_id = jget ''Authority'' (jget ''invoice_id'' (JStr []) data) data, we_user_id = JStr [],
     we_amount = jget ''Amount'' (JInt 0) data, we_currency = IRR, we_raw = data\<rparr>"

text \<open>\<open>loads\<close> is \<open>json.loads\<close>: it raises ValueError on what is not JSON.\<close>

definition parse_webhook :: "(string \<Rightarrow> exc + json) \<Rightarrow> provider \<Rightarrow> string \<Rightarrow> exc + webhook_event" where
  "parse_webhook loads p payload =
     (case p of
        ManualProvider \<Rightarrow> Inl (OtherError ''NotImplementedError'')
      | _ \<Rightarrow>
          (case loads payload of
             Inl e \<Rightarrow> Inl e
           | Inr v \<Rightarrow>
               (case json_members v of
                  Inl e \<Rightarrow> Inl e
                | Inr data \<Rightarrow>
                    (case p of
                       MockProvider _ _ \<Rightarrow> mock_event data
                     | StripeProvider _ _ \<Rightarrow> stripe_event data
                     | _ \<Rightarrow> Inr (zarinpal_event data)))))"

text \<open>\<open>get_provider\<close>: a missing mandatory key raises KeyError; \<open>cfg\<close> has the string entries of the configuration.\<close>

definition get_provider :: "provider_name \<Rightarrow> (string, string) odict \<Rightarrow> bool \<Rightarrow> bool \<Rightarrow> exc + provider" where
  "get_provider name cfg sandbox auto_succeed =
     (case name of
        STRIPE \<Rightarrow> (case od_get cfg ''api_key'' of None \<Rightarrow> Inl KeyError
                    | Some key \<Rightarrow> Inr (StripeProvider key (part_of cfg ''webhook_secret'' [])))
      | ZARINPAL \<Rightarrow> (case od_get cfg ''merchant_id'' of None \<Rightarrow> Inl KeyError
                    | Some m \<Rightarrow> Inr (ZarinpalProvider m (part_of cfg ''webhook_secret'' []) sandbox))
      | MANUAL \<Rightarrow> Inr ManualProvider
      | MOCK \<Rightarrow> Inr (MockProvider auto_succeed []))"

text \<open>\<open>force_fail\<close> and \<open>force_refund\<close> of the mock.\<close>

definition mock_force :: "payment_status \<Rightarrow> string \<Rightarrow> provider \<Rightarrow> provider" where
  "mock_force st invoice_id p =
     (case p of
        MockProvider a store \<Rightarrow>
          (case od_get store invoice_id of
             Some r \<Rightarrow> MockProvider a (od_put invoice_id (r\<lparr>pr_status := st\<rparr>) store)
           | None \<Rightarrow> p)
      | _ \<Rightarrow> p)"

end
