(* ===== verification/Billing.thy ===== *)
theory Billing
  imports Billing_Provider
begin

section \<open>The billing engine\<close>

text \<open>
  \<open>src/backend/billing/engine.py\<close>: checkout with its idempotency window, confirmation by webhook or by an
  administrator, the life cycle of a subscription, dunning and refunds. One clock reading and the values
  \<open>uuid4\<close> gives are arguments of the operations. The two optional callbacks are logs of what they were called
  with; callbacks that raise are not modelled. An invoice or subscription object lives in exactly one store
  entry, so updating it is updating the entry.
\<close>

datatype sub_status = TRIAL | ACTIVE | PAST_DUE | SUSPENDED | EXPIRED | CANCELLED | REVOKED

fun sub_fsm :: "sub_status \<Rightarrow> sub_status list" where
  "sub_fsm TRIAL = [ACTIVE, EXPIRED, CANCELLED]"
| "sub_fsm ACTIVE = [PAST_DUE, EXPIRED, CANCELLED, SUSPENDED]"
| "sub_fsm PAST_DUE = [ACTIVE, SUSPENDED, EXPIRED, CANCELLED]"
| "sub_fsm SUSPENDED = [ACTIVE, REVOKED, CANCELLED]"
| "sub_fsm EXPIRED = [ACTIVE]"
| "sub_fsm CANCELLED = [ACTIVE]"
| "sub_fsm REVOKED = []"

datatype sub_reason =
    AdminReason string | PaymentConfirmed string | PaymentFailed int | DunningReached int
  | RefundIssued | PreRevoke

record sub_transition =
  st_from :: sub_status
  st_to :: sub_status
  st_ts :: time
  st_reason :: sub_reason

record subscription =
  sb_sub_id :: string
  sb_user_id :: string
  sb_plan_id :: string
  sb_status :: sub_status
  sb_created_at :: time
  sb_expires_at :: time
  sb_trial_ends_at :: time
  sb_cancelled_at :: "time option"
  sb_dunning_count :: int
  sb_license_key :: string
  sb_transitions :: "sub_transition list"

definition sub_transition_error :: exc where
  "sub_transition_error = OtherError ''SubscriptionTransitionError''"

definition sub_move :: "sub_status \<Rightarrow> sub_reason \<Rightarrow> time \<Rightarrow> subscription \<Rightarrow> (unit, subscription) outcome" where
  "sub_move new reason now sub =
     (if new \<notin> set (sub_fsm (sb_status sub)) then (Inl sub_transition_error, sub)
      else (Inr (), sub\<lparr>sb_transitions := sb_transitions sub @
              [\<lparr>st_from = sb_status sub, st_to = new, st_ts = now, st_reason = reason\<rparr>], sb_status := new\<rparr>))"

definition sub_is_active :: "subscription \<Rightarrow> bool" where
  "sub_is_active sub \<longleftrightarrow> sb_status sub \<in> {TRIAL, ACTIVE, PAST_DUE}"

text \<open>\<open>int\<close> truncates towards zero; below zero \<open>max\<close> gives 0 anyway.\<close>

definition days_remaining :: "time \<Rightarrow> subscription \<Rightarrow> int" where
  "days_remaining now sub = (if sb_expires_at sub = 0 then 0 else max 0 \<lfloor>(sb_expires_at sub - now) / 86400\<rfloor>)"

definition sub_is_terminal :: "subscription \<Rightarrow> bool" where
  "sub_is_terminal sub \<longleftrightarrow> sb_status sub = REVOKED"

interpretation sub_table: transition_table sub_fsm "\<lambda>s. s = REVOKED"
  by unfold_locales simp

subsection \<open>Plans and invoices\<close>

record plan =
  pl_price_usd :: int
  pl_price_irr :: int
  pl_days :: int
  pl_label :: string
  pl_features :: "string list"
  pl_max_devices :: int
  pl_max_positions :: int

definition plans :: "(string \<times> plan) list" where
  "plans =
    [(''trial'', \<lparr>pl_price_usd = 0, pl_price_irr = 0, pl_days = 14, pl_label = ''Trial'',
       pl_features = [''signals_read'', ''signals_write'', ''dashboard''],
       pl_max_devices = 1, pl_max_positions = 3\<rparr>),
     (''basic'', \<lparr>pl_price_usd = 2900, pl_price_irr = 4900000, pl_days = 30, pl_label = ''Basic'',
       pl_features = [''signals_read'', ''signals_write'', ''dashboard'', ''mt5''],
       pl_max_devices = 2, pl_max_positions = 10\<rparr>),
     (''pro'', \<lparr>pl_price_usd = 7900, pl_price_irr = 12900000, pl_days = 30, pl_label = ''Pro'',
       pl_features = [''signals_read'', ''signals_write'', ''dashboard'', ''mt5'', ''ai'', ''analytics''],
       pl_max_devices = 5, pl_max_positions = 50\<rparr>),
     (''vip'', \<lparr>pl_price_usd = 14900, pl_price_irr = 24900000, pl_days = 30, pl_label = ''VIP'',
       pl_features = [''signals_read'', ''signals_write'', ''dashboard'', ''mt5'', ''ai'', ''analytics'', ''institutional''],
       pl_max_devices = 10, pl_max_positions = 200\<rparr>),
     (''annual'', \<lparr>pl_price_usd = 79900, pl_price_irr = 129900000, pl_days = 365, pl_label = ''Annual Pro'',
       pl_features = [''signals_read'', ''signals_write'', ''dashboard'', ''mt5'', ''ai'', ''analytics'', ''institutional''],
       pl_max_devices = 10, pl_max_positions = 500\<rparr>)]"

definition dunning_threshold :: int where "dunning_threshold = 3"

record invoice =
  iv_invoice_id :: string
  iv_user_id :: string
  iv_plan_id :: string
  iv_amount :: int
  iv_currency :: currency
  iv_provider :: provider_name
  iv_status :: payment_status
  iv_checkout_url :: string
  iv_created_at :: time
  iv_confirmed_at :: "time option"
  iv_raw :: members
  iv_idempotency_key :: string

datatype billing_event =
    CheckoutCreated string string | PaymentConfirmedEvent string | AdminConfirmed string string
  | SubSuspended string | SubRevoked string | SubCancelled string | PaymentFailedEvent int | PaymentRefunded string

record billing_audit =
  ba_event :: billing_event
  ba_user_id :: string
  ba_ts :: time

record billing =
  be_provider :: provider
  be_has_activate :: bool
  be_has_change :: bool
  be_invoices :: "(string, invoice) odict"
  be_subscriptions :: "(string, subscription) odict"
  be_idempotency :: "(string, string) odict"
  be_audit :: "billing_audit list"
  be_activations :: "(string \<times> string) list"
  be_changes :: "subscription list"

definition new_billing :: "provider \<Rightarrow> bool \<Rightarrow> bool \<Rightarrow> billing" where
  "new_billing p on_activate on_change = \<lparr>be_provider = p, be_has_activate = on_activate, be_has_change = on_change,
     be_invoices = [], be_subscriptions = [], be_idempotency = [], be_audit = [], be_activations = [], be_changes = []\<rparr>"

definition audit_event :: "time \<Rightarrow> string \<Rightarrow> billing_event \<Rightarrow> billing \<Rightarrow> billing" where
  "audit_event now user ev b = b\<lparr>be_audit := be_audit b @ [\<lparr>ba_event = ev, ba_user_id = user, ba_ts = now\<rparr>]\<rparr>"

definition put_sub :: "subscription \<Rightarrow> billing \<Rightarrow> billing" where
  "put_sub sub b = b\<lparr>be_subscriptions := od_put (sb_user_id sub) sub (be_subscriptions b)\<rparr>"

definition put_invoice :: "invoice \<Rightarrow> billing \<Rightarrow> billing" where
  "put_invoice iv b = b\<lparr>be_invoices := od_put (iv_invoice_id iv) iv (be_invoices b)\<rparr>"

definition notify :: "subscription \<Rightarrow> billing \<Rightarrow> billing" where
  "notify sub b = (if be_has_change b then b\<lparr>be_changes := be_changes b @ [sub]\<rparr> else b)"

definition truncated :: "real \<Rightarrow> int" where
  "truncated x = (if 0 \<le> x then \<lfloor>x\<rfloor> else \<lceil>x\<rceil>)"

definition idem_key :: "time \<Rightarrow> string \<Rightarrow> string \<Rightarrow> string" where
  "idem_key now user plan = user @ '':'' @ plan @ '':'' @ int_digits (truncated now div 3600)"

subsection \<open>Activation, failed payments and refunds\<close>

record fresh_ids =
  fr_hex :: string
  fr_license :: string
  fr_sub_id :: string

text \<open>The license key is \<open>BOT12-\<close> and 16 hexadecimal digits, so it is never empty.\<close>

definition new_subscription :: "time \<Rightarrow> fresh_ids \<Rightarrow> string \<Rightarrow> string \<Rightarrow> plan \<Rightarrow> subscription" where
  "new_subscription now ids user plan_id plan =
     (let trial = (plan_id = ''trial''); ends = now + of_int (pl_days plan) * 86400 in
      \<lparr>sb_sub_id = fr_sub_id ids, sb_user_id = user, sb_plan_id = plan_id,
       sb_status = (if trial then TRIAL else ACTIVE), sb_created_at = now, sb_expires_at = ends,
       sb_trial_ends_at = (if trial then ends else 0), sb_cancelled_at = None, sb_dunning_count = 0,
       sb_license_key = ''BOT12-'' @ py_upper (take 16 (fr_license ids)), sb_transitions = []\<rparr>)"

definition renew_subscription :: "time \<Rightarrow> string \<Rightarrow> string \<Rightarrow> plan \<Rightarrow> subscription \<Rightarrow> subscription" where
  "renew_subscription now invoice_id plan_id plan sub =
     (let sub1 = (if sb_status sub \<in> {TRIAL, PAST_DUE, EXPIRED, CANCELLED, SUSPENDED} \<and> ACTIVE \<in> set (sub_fsm (sb_status sub))
                  then snd (sub_move ACTIVE (PaymentConfirmed invoice_id) now sub) else sub) in
      sub1\<lparr>sb_plan_id := plan_id, sb_expires_at := now + of_int (pl_days plan) * 86400, sb_dunning_count := 0\<rparr>)"

definition activate_sub :: "time \<Rightarrow> fresh_ids \<Rightarrow> invoice \<Rightarrow> billing \<Rightarrow> (unit, billing) outcome" where
  "activate_sub now ids iv b =
     (case map_of plans (iv_plan_id iv) of
        None \<Rightarrow> (Inl KeyError, b)
      | Some plan \<Rightarrow>
          (let sub = (case od_get (be_subscriptions b) (iv_user_id iv) of
                 None \<Rightarrow> new_subscription now ids (iv_user_id iv) (iv_plan_id iv) plan
               | Some s \<Rightarrow> renew_subscription now (iv_invoice_id iv) (iv_plan_id iv) plan s);
               b1 = put_sub sub b;
               b2 = (if be_has_activate b1 \<and> sb_license_key sub \<noteq> []
                     then b1\<lparr>be_activations := be_activations b1 @ [(iv_user_id iv, sb_license_key sub)]\<rparr> else b1)
           in (Inr (), notify sub b2)))"

text \<open>What a failed payment and a refund do to the subscription.\<close>

definition dunning_step :: "time \<Rightarrow> subscription \<Rightarrow> (unit, subscription) outcome" where
  "dunning_step now sub =
     (let n = sb_dunning_count sub + 1; sub1 = sub\<lparr>sb_dunning_count := n\<rparr> in
      if sb_status sub1 = ACTIVE then sub_move PAST_DUE (PaymentFailed n) now sub1
      else if sb_status sub1 = PAST_DUE \<and> dunning_threshold \<le> n
      then sub_move SUSPENDED (DunningReached n) now sub1
      else (Inr (), sub1))"

definition refund_step :: "time \<Rightarrow> subscription \<Rightarrow> (unit, subscription) outcome" where
  "refund_step now sub =
     (if sb_status sub = ACTIVE \<and> SUSPENDED \<in> set (sub_fsm (sb_status sub))
      then sub_move SUSPENDED RefundIssued now sub else (Inr (), sub))"

definition handle_payment_failure :: "time \<Rightarrow> invoice \<Rightarrow> billing \<Rightarrow> (unit, billing) outcome" where
  "handle_payment_failure now iv b =
     (case od_get (be_subscriptions b) (iv_user_id iv) of
        None \<Rightarrow> (Inr (), b)
      | Some sub \<Rightarrow>
          (let (r, sub1) = dunning_step now sub;
               b1 = put_sub sub1 (audit_event now (iv_user_id iv) (PaymentFailedEvent (sb_dunning_count sub1)) b)
           in case r of Inl e \<Rightarrow> (Inl e, b1) | Inr _ \<Rightarrow> (Inr (), notify sub1 b1)))"

definition handle_refund :: "time \<Rightarrow> invoice \<Rightarrow> billing \<Rightarrow> (unit, billing) outcome" where
  "handle_refund now iv b =
     (case od_get (be_subscriptions b) (iv_user_id iv) of
        None \<Rightarrow> (Inr (), b)
      | Some sub \<Rightarrow>
          (let (r, sub1) = refund_step now sub;
               b1 = put_sub sub1 (audit_event now (iv_user_id iv) (PaymentRefunded (iv_invoice_id iv)) b)
           in case r of Inl e \<Rightarrow> (Inl e, b1) | Inr _ \<Rightarrow> (Inr (), notify sub1 b1)))"

subsection \<open>The operations\<close>

text \<open>The invoice for what the provider answered.\<close>

definition invoice_of :: "time \<Rightarrow> payment_request \<Rightarrow> payment_result \<Rightarrow> invoice" where
  "invoice_of now req res = \<lparr>iv_invoice_id = pr_invoice_id res, iv_user_id = rq_user_id req, iv_plan_id = rq_plan_id req,
     iv_amount = rq_amount req, iv_currency = rq_currency req, iv_provider = pr_provider res, iv_status = pr_status res,
     iv_checkout_url = pr_checkout_url res, iv_created_at = now, iv_confirmed_at = None, iv_raw = pr_raw res,
     iv_idempotency_key = rq_idempotency_key req\<rparr>"

definition store_invoice :: "time \<Rightarrow> string \<Rightarrow> invoice \<Rightarrow> provider \<Rightarrow> billing \<Rightarrow> billing" where
  "store_invoice now key iv p b =
     (let b1 = put_invoice iv (b\<lparr>be_provider := p\<rparr>);
          b2 = b1\<lparr>be_idempotency := od_put key (iv_invoice_id iv) (be_idempotency b1)\<rparr>
      in audit_event now (iv_user_id iv) (CheckoutCreated (iv_plan_id iv) (iv_invoice_id iv)) b2)"

definition checkout :: "time \<Rightarrow> fresh_ids \<Rightarrow> string \<Rightarrow> string \<Rightarrow> currency \<Rightarrow> billing \<Rightarrow> (invoice, billing) outcome" where
  "checkout now ids user plan_id cur b =
     (case map_of plans plan_id of
        None \<Rightarrow> (Inl ValueError, b)
      | Some plan \<Rightarrow>
          (let key = idem_key now user plan_id in
           case (case od_get (be_idempotency b) key of None \<Rightarrow> None | Some i \<Rightarrow> od_get (be_invoices b) i) of
             Some existing \<Rightarrow> (Inr existing, b)
           | None \<Rightarrow>
               (let amount = (if cur = IRR then pl_price_irr plan else pl_price_usd plan);
                    req = \<lparr>rq_user_id = user, rq_plan_id = plan_id, rq_amount = amount, rq_currency = cur,
                           rq_idempotency_key = key\<rparr>;
                    (res, p) = create_payment (be_provider b) (fr_hex ids) req;
                    iv = invoice_of now req res;
                    b1 = store_invoice now key iv p b
                in if iv_status iv = PAY_SUCCEEDED
                   then (case activate_sub now ids iv b1 of
                           (Inl e, b2) \<Rightarrow> (Inl e, b2)
                         | (Inr _, b2) \<Rightarrow> (Inr iv, b2))
                   else (Inr iv, b1))))"

text \<open>What follows once the invoice carries the provider's status.\<close>

definition settle_invoice :: "time \<Rightarrow> fresh_ids \<Rightarrow> invoice \<Rightarrow> billing \<Rightarrow> (invoice, billing) outcome" where
  "settle_invoice now ids iv b =
     (case iv_status iv of
        PAY_SUCCEEDED \<Rightarrow>
          (let iv1 = iv\<lparr>iv_confirmed_at := Some now\<rparr> in
           case activate_sub now ids iv1 (put_invoice iv1 b) of
             (Inl e, b1) \<Rightarrow> (Inl e, b1)
           | (Inr _, b1) \<Rightarrow> (Inr iv1, audit_event now (iv_user_id iv) (PaymentConfirmedEvent (iv_invoice_id iv)) b1))
      | PAY_FAILED \<Rightarrow>
          (case handle_payment_failure now iv b of (Inl e, b1) \<Rightarrow> (Inl e, b1) | (Inr _, b1) \<Rightarrow> (Inr iv, b1))
      | PAY_REFUNDED \<Rightarrow>
          (case handle_refund now iv b of (Inl e, b1) \<Rightarrow> (Inl e, b1) | (Inr _, b1) \<Rightarrow> (Inr iv, b1))
      | _ \<Rightarrow> (Inr iv, b))"

definition confirm_from_webhook :: "time \<Rightarrow> fresh_ids \<Rightarrow> json \<Rightarrow> members \<Rightarrow> billing \<Rightarrow> (invoice, billing) outcome" where
  "confirm_from_webhook now ids invoice_id raw b =
     (case dict_lookup (be_invoices b) invoice_id of
        Inl e \<Rightarrow> (Inl e, b)
      | Inr None \<Rightarrow> (Inl KeyError, b)
      | Inr (Some iv) \<Rightarrow>
          if iv_status iv = PAY_SUCCEEDED then (Inr iv, b)
          else case confirm_payment (be_provider b) (iv_invoice_id iv) raw of
            (Inl e, p) \<Rightarrow> (Inl e, b\<lparr>be_provider := p\<rparr>)
          | (Inr res, p) \<Rightarrow>
              (let iv1 = iv\<lparr>iv_status := pr_status res, iv_raw := fold (\<lambda>(k, v). od_put k v) raw (iv_raw iv)\<rparr> in
               settle_invoice now ids iv1 (put_invoice iv1 (b\<lparr>be_provider := p\<rparr>))))"

definition admin_confirm :: "time \<Rightarrow> fresh_ids \<Rightarrow> string \<Rightarrow> string \<Rightarrow> billing \<Rightarrow> (invoice, billing) outcome" where
  "admin_confirm now ids invoice_id actor b =
     (case od_get (be_invoices b) invoice_id of
        None \<Rightarrow> (Inl KeyError, b)
      | Some iv \<Rightarrow>
          if iv_status iv = PAY_SUCCEEDED then (Inr iv, b)
          else
            (let iv1 = iv\<lparr>iv_status := PAY_SUCCEEDED, iv_confirmed_at := Some now\<rparr> in
             case activate_sub now ids iv1 (put_invoice iv1 b) of
               (Inl e, b1) \<Rightarrow> (Inl e, b1)
             | (Inr _, b1) \<Rightarrow> (Inr iv1, audit_event now (iv_user_id iv) (AdminConfirmed invoice_id actor) b1)))"

definition get_or_raise :: "json \<Rightarrow> billing \<Rightarrow> exc + subscription" where
  "get_or_raise user b =
     (case dict_lookup (be_subscriptions b) user of
        Inl e \<Rightarrow> Inl e
      | Inr None \<Rightarrow> Inl KeyError
      | Inr (Some sub) \<Rightarrow> Inr sub)"

definition suspend :: "time \<Rightarrow> string \<Rightarrow> string \<Rightarrow> billing \<Rightarrow> (subscription, billing) outcome" where
  "suspend now user reason b =
     (case get_or_raise (JStr user) b of
        Inl e \<Rightarrow> (Inl e, b)
      | Inr sub \<Rightarrow>
          (case sub_move SUSPENDED (AdminReason reason) now sub of
             (Inl e, sub1) \<Rightarrow> (Inl e, put_sub sub1 b)
           | (Inr _, sub1) \<Rightarrow> (Inr sub1, audit_event now user (SubSuspended reason) (notify sub1 (put_sub sub1 b)))))"

definition pre_revoke :: "time \<Rightarrow> subscription \<Rightarrow> subscription" where
  "pre_revoke now sub =
     (if sb_status sub \<noteq> SUSPENDED \<and> SUSPENDED \<in> set (sub_fsm (sb_status sub))
      then snd (sub_move SUSPENDED PreRevoke now sub) else sub)"

definition revoke :: "time \<Rightarrow> string \<Rightarrow> string \<Rightarrow> billing \<Rightarrow> (subscription, billing) outcome" where
  "revoke now user reason b =
     (case get_or_raise (JStr user) b of
        Inl e \<Rightarrow> (Inl e, b)
      | Inr sub \<Rightarrow>
          (case sub_move REVOKED (AdminReason reason) now (pre_revoke now sub) of
             (Inl e, sub1) \<Rightarrow> (Inl e, put_sub sub1 b)
           | (Inr _, sub1) \<Rightarrow> (Inr sub1, audit_event now user (SubRevoked reason) (notify sub1 (put_sub sub1 b)))))"

definition cancel :: "time \<Rightarrow> json \<Rightarrow> string \<Rightarrow> billing \<Rightarrow> (subscription, billing) outcome" where
  "cancel now user reason b =
     (case get_or_raise user b of
        Inl e \<Rightarrow> (Inl e, b)
      | Inr sub \<Rightarrow>
          (case sub_move CANCELLED (AdminReason reason) now sub of
             (Inl e, sub1) \<Rightarrow> (Inl e, put_sub sub1 b)
           | (Inr _, sub1) \<Rightarrow>
               (let sub2 = sub1\<lparr>sb_cancelled_at := Some now\<rparr> in
                (Inr sub2, audit_event now (sb_user_id sub) (SubCancelled reason) (notify sub2 (put_sub sub2 b))))))"

definition get_subscription :: "billing \<Rightarrow> string \<Rightarrow> subscription option" where
  "get_subscription b user = od_get (be_subscriptions b) user"

definition get_invoice :: "billing \<Rightarrow> string \<Rightarrow> invoice option" where
  "get_invoice b invoice_id = od_get (be_invoices b) invoice_id"

definition list_invoices :: "billing \<Rightarrow> string \<Rightarrow> invoice list" where
  "list_invoices b user = filter (\<lambda>iv. iv_user_id iv = user) (map snd (be_invoices b))"

definition billing_audit_log :: "billing \<Rightarrow> string option \<Rightarrow> billing_audit list" where
  "billing_audit_log b user =
     (case user of
        None \<Rightarrow> be_audit b
      | Some u \<Rightarrow> if u = [] then be_audit b else filter (\<lambda>e. ba_user_id e = u) (be_audit b))"

subsection \<open>Runs\<close>

datatype billing_op =
    Checkout time fresh_ids string string currency
  | Confirm time fresh_ids json members
  | AdminConfirm time fresh_ids string string
  | Suspend time string string
  | Revoke time string string
  | Cancel time json string

fun billing_step :: "billing_op \<Rightarrow> billing \<Rightarrow> billing" where
  "billing_step (Checkout now ids user plan_id cur) b = snd (checkout now ids user plan_id cur b)"
| "billing_step (Confirm now ids invoice_id raw) b = snd (confirm_from_webhook now ids invoice_id raw b)"
| "billing_step (AdminConfirm now ids invoice_id actor) b = snd (admin_confirm now ids invoice_id actor b)"
| "billing_step (Suspend now user reason) b = snd (suspend now user reason b)"
| "billing_step (Revoke now user reason) b = snd (revoke now user reason b)"
| "billing_step (Cancel now user reason) b = snd (cancel now user reason b)"

subsection \<open>How a subscription may change\<close>

text \<open>All states it went through, oldest first.\<close>

definition sub_history :: "subscription \<Rightarrow> sub_status list" where
  "sub_history sub = map st_from (sb_transitions sub) @ [sb_status sub]"

definition evolves :: "subscription \<Rightarrow> subscription \<Rightarrow> bool" where
  "evolves s t \<longleftrightarrow> sb_user_id t = sb_user_id s \<and> sb_sub_id t = sb_sub_id s \<and> sb_license_key t = sb_license_key s
     \<and> (\<exists>ts. sb_transitions t = sb_transitions s @ ts) \<and> (\<exists>h. sub_history t = sub_history s @ h)
     \<and> (sub_table.path (sub_history s) \<longrightarrow> sub_table.path (sub_history t))"

lemma sub_history_updates [simp]:
  "sub_history (s\<lparr>sb_plan_id := a\<rparr>) = sub_history s" "sub_history (s\<lparr>sb_expires_at := c\<rparr>) = sub_history s"
  "sub_history (s\<lparr>sb_dunning_count := n\<rparr>) = sub_history s" "sub_history (s\<lparr>sb_cancelled_at := x\<rparr>) = sub_history s"
  by (simp_all add: sub_history_def)

lemma evolves_updates [simp]:
  "evolves s (t\<lparr>sb_plan_id := a\<rparr>) = evolves s t" "evolves s (t\<lparr>sb_expires_at := c\<rparr>) = evolves s t"
  "evolves s (t\<lparr>sb_dunning_count := n\<rparr>) = evolves s t" "evolves s (t\<lparr>sb_cancelled_at := x\<rparr>) = evolves s t"
  "evolves (s\<lparr>sb_dunning_count := n\<rparr>) t = evolves s t"
  by (simp_all add: evolves_def)

lemma evolves_refl [simp]: "evolves s s"
  by (simp add: evolves_def)

lemma evolves_trans: "evolves s t \<Longrightarrow> evolves t u \<Longrightarrow> evolves s u"
  by (auto simp: evolves_def)

lemma evolves_move [simp]: "evolves s (snd (sub_move new r now s))"
proof (cases "new \<in> set (sub_fsm (sb_status s))")
  case True
  then have "sub_table.edge (last (sub_history s)) new" by (simp add: sub_table.edge_def sub_history_def)
  then have "sub_table.path (sub_history s) \<longrightarrow> sub_table.path (sub_history s @ [new])"
    using sub_table.path_snoc [of "sub_history s" new] by (simp add: sub_history_def)
  with True show ?thesis by (simp add: evolves_def sub_move_def sub_history_def)
qed (simp add: sub_move_def)

lemma sub_move_cases:
  "(\<exists>e. sub_move new r now s = (Inl e, s)) \<or> (\<exists>t. sub_move new r now s = (Inr (), t) \<and> evolves s t)"
  using evolves_move [of s new r now] by (auto simp: sub_move_def)

lemma evolves_renew [simp]: "evolves s (renew_subscription now i a plan s)"
  by (simp add: renew_subscription_def Let_def)

lemma evolves_pre_revoke [simp]: "evolves s (pre_revoke now s)"
  by (simp add: pre_revoke_def)

lemma evolves_revoked:
  assumes "evolves s t" and "sub_table.path (sub_history t)" and "sb_status s = REVOKED"
  shows "sb_status t = REVOKED \<and> sb_transitions t = sb_transitions s"
proof -
  obtain h ts where h: "sub_history t = sub_history s @ h" and ts: "sb_transitions t = sb_transitions s @ ts"
    using assms(1) by (auto simp: evolves_def)
  have "h = []" using assms(2,3) h by (intro sub_table.terminal_only_last [of "map st_from (sb_transitions s)" REVOKED h])
      (simp_all add: sub_history_def)
  then have "sub_history t = sub_history s" "length ts = 0"
    using h ts arg_cong [OF h, of length] by (simp_all add: sub_history_def)
  with assms(3) ts show ?thesis by (simp add: sub_history_def)
qed

text \<open>One operation creates one subscription, lets one evolve, or leaves all alone.\<close>

definition fresh_sub :: "string \<Rightarrow> subscription \<Rightarrow> bool" where
  "fresh_sub u s \<longleftrightarrow> sb_user_id s = u \<and> sb_transitions s = [] \<and> sb_status s \<in> {TRIAL, ACTIVE}"

definition subs_change :: "(string, subscription) odict \<Rightarrow> (string, subscription) odict \<Rightarrow> bool" where
  "subs_change d d' \<longleftrightarrow> d' = d \<or> (\<exists>u t. d' = od_put u t d \<and>
     (case od_get d u of None \<Rightarrow> fresh_sub u t | Some s \<Rightarrow> evolves s t))"

lemma subs_change_same [simp]: "subs_change d d"
  by (simp add: subs_change_def)

lemma subs_change_evolve: "od_get d u = Some s \<Longrightarrow> evolves s t \<Longrightarrow> subs_change d (od_put u t d)"
  unfolding subs_change_def by (intro disjI2 exI conjI) (rule refl, simp)

lemma subs_change_fresh: "od_get d u = None \<Longrightarrow> fresh_sub u t \<Longrightarrow> subs_change d (od_put u t d)"
  unfolding subs_change_def by (intro disjI2 exI conjI) (rule refl, simp)

lemma billing_frame [simp]:
  "be_subscriptions (audit_event now u ev b) = be_subscriptions b" "be_subscriptions (notify s b) = be_subscriptions b"
  "be_subscriptions (put_invoice iv b) = be_subscriptions b"
  "be_subscriptions (store_invoice now key iv p b) = be_subscriptions b"
  "be_subscriptions (put_sub s b) = od_put (sb_user_id s) s (be_subscriptions b)"
  by (simp_all add: audit_event_def notify_def put_invoice_def put_sub_def store_invoice_def Let_def)

definition subs_keyed :: "(string, subscription) odict \<Rightarrow> bool" where
  "subs_keyed d \<longleftrightarrow> (\<forall>u s. od_get d u = Some s \<longrightarrow> sb_user_id s = u)"

lemma od_put_twice [simp]: "od_put k v (od_put k w d) = od_put k v d"
  by (induction d) auto

lemma od_put_self [simp]: "od_get d k = Some v \<Longrightarrow> od_put k v d = d"
  by (induction d) (auto split: if_splits)

lemma activate_subs:
  assumes "subs_keyed (be_subscriptions b)"
  shows "subs_change (be_subscriptions b) (be_subscriptions (snd (activate_sub now ids iv b)))"
proof (cases "map_of plans (iv_plan_id iv)")
  case (Some plan)
  show ?thesis
  proof (cases "od_get (be_subscriptions b) (iv_user_id iv)")
    case None
    have "fresh_sub (iv_user_id iv) (new_subscription now ids (iv_user_id iv) (iv_plan_id iv) plan)"
      by (simp add: fresh_sub_def new_subscription_def Let_def)
    moreover have "sb_user_id (new_subscription now ids (iv_user_id iv) (iv_plan_id iv) plan) = iv_user_id iv"
      by (simp add: new_subscription_def Let_def)
    ultimately show ?thesis using Some None by (auto simp: activate_sub_def Let_def intro: subs_change_fresh)
  next
    case (Some s)
    have "evolves s (renew_subscription now (iv_invoice_id iv) (iv_plan_id iv) plan s)" by simp
    then have "sb_user_id (renew_subscription now (iv_invoice_id iv) (iv_plan_id iv) plan s) = iv_user_id iv"
      using assms Some by (auto simp: evolves_def subs_keyed_def)
    with Some \<open>map_of plans _ = _\<close> show ?thesis by (auto simp: activate_sub_def Let_def intro: subs_change_evolve)
  qed
qed (simp add: activate_sub_def)

lemma sub_keyD: "subs_keyed d \<Longrightarrow> od_get d u = Some s \<Longrightarrow> evolves s t \<Longrightarrow> sb_user_id t = u"
  by (auto simp: evolves_def subs_keyed_def)

lemma evolves_move_dunning [simp]: "evolves s (snd (sub_move new r now (s\<lparr>sb_dunning_count := n\<rparr>)))"
  by (rule evolves_move [of "s\<lparr>sb_dunning_count := n\<rparr>", unfolded evolves_updates])

lemma notified_subs [simp]: "be_subscriptions (snd (case r of Inl e \<Rightarrow> (Inl e, b) | Inr x \<Rightarrow> (Inr (), notify s b))) = be_subscriptions b"
  by (cases r) simp_all

text \<open>The frame of failed payments and refunds: the payer's subscription evolves.\<close>

lemma evolves_dunning [simp]: "evolves s (snd (dunning_step now s))"
  by (simp add: dunning_step_def Let_def)

lemma evolves_refund [simp]: "evolves s (snd (refund_step now s))"
  by (simp add: refund_step_def)

lemma put_evolved:
  assumes "subs_keyed (be_subscriptions b)" and "od_get (be_subscriptions b) u = Some s" and "evolves s t"
    and "be_subscriptions b' = be_subscriptions (put_sub t b)"
  shows "subs_change (be_subscriptions b) (be_subscriptions b')"
  using subs_change_evolve [OF assms(2,3)] sub_keyD [OF assms(1-3)] assms(4) by simp

lemma failure_subs:
  assumes "subs_keyed (be_subscriptions b)"
  shows "subs_change (be_subscriptions b) (be_subscriptions (snd (handle_payment_failure now iv b)))"
proof (cases "od_get (be_subscriptions b) (iv_user_id iv)")
  case (Some s)
  then show ?thesis
    by (intro put_evolved [OF assms Some evolves_dunning [of s now]]) (simp add: handle_payment_failure_def Let_def split_beta)
qed (simp add: handle_payment_failure_def)

lemma refund_subs:
  assumes "subs_keyed (be_subscriptions b)"
  shows "subs_change (be_subscriptions b) (be_subscriptions (snd (handle_refund now iv b)))"
proof (cases "od_get (be_subscriptions b) (iv_user_id iv)")
  case (Some s)
  then show ?thesis
    by (intro put_evolved [OF assms Some evolves_refund [of s now]]) (simp add: handle_refund_def Let_def split_beta)
qed (simp add: handle_refund_def)

lemma checkout_subs:
  assumes "subs_keyed (be_subscriptions b)"
  shows "subs_change (be_subscriptions b) (be_subscriptions (snd (checkout now ids u p cur b)))"
proof -
  have "subs_change (be_subscriptions b) (be_subscriptions (snd (case activate_sub now ids iv c of
      (Inl e, c') \<Rightarrow> (Inl e, c') | (Inr _, c') \<Rightarrow> (Inr iv, c'))))"
    if "be_subscriptions c = be_subscriptions b" for c iv
    using activate_subs [of c now ids iv] assms that by (auto split: prod.split sum.split)
  then show ?thesis by (simp add: checkout_def Let_def split_beta split: option.split)
qed

lemma dict_lookup_Some: "dict_lookup d v = Inr (Some x) \<Longrightarrow> \<exists>k. v = JStr k \<and> od_get d k = Some x"
  by (auto simp: dict_lookup_def od_get_def split: if_splits json.splits)

lemma dict_lookup_JStr [simp]: "dict_lookup d (JStr k) = Inr (od_get d k)"
  by (simp add: dict_lookup_def od_get_def)

lemma get_or_raise_Inr: "get_or_raise v b = Inr s \<Longrightarrow> \<exists>u. v = JStr u \<and> od_get (be_subscriptions b) u = Some s"
  by (auto simp: get_or_raise_def split: sum.splits option.splits dest: dict_lookup_Some)

lemma passed_subs [simp]:
  "be_subscriptions (snd (case x of (Inl e, c') \<Rightarrow> (Inl e, c') | (Inr _, c') \<Rightarrow> (Inr iv, f c')))
    = (case fst x of Inl e \<Rightarrow> be_subscriptions (snd x) | Inr _ \<Rightarrow> be_subscriptions (f (snd x)))"
  by (cases x) (simp split: sum.split)

lemma settle_subs:
  assumes "subs_keyed (be_subscriptions b)"
  shows "subs_change (be_subscriptions b) (be_subscriptions (snd (settle_invoice now ids iv b)))"
  using activate_subs [of "put_invoice (iv\<lparr>iv_confirmed_at := Some now\<rparr>) b" now ids "iv\<lparr>iv_confirmed_at := Some now\<rparr>"]
    failure_subs [of b now iv] refund_subs [of b now iv] assms
  by (cases "iv_status iv") (simp_all add: settle_invoice_def Let_def split: sum.split)

lemma confirm_subs:
  assumes "subs_keyed (be_subscriptions b)"
  shows "subs_change (be_subscriptions b) (be_subscriptions (snd (confirm_from_webhook now ids i raw b)))"
proof -
  have "subs_change (be_subscriptions b) (be_subscriptions (snd (settle_invoice now ids iv (put_invoice iv (b\<lparr>be_provider := p\<rparr>)))))"
    for iv p using settle_subs [of "put_invoice iv (b\<lparr>be_provider := p\<rparr>)" now ids iv] assms by simp
  then show ?thesis
    by (auto simp: confirm_from_webhook_def Let_def split: sum.split option.split prod.split)
qed

lemma admin_confirm_subs:
  assumes "subs_keyed (be_subscriptions b)"
  shows "subs_change (be_subscriptions b) (be_subscriptions (snd (admin_confirm now ids i actor b)))"
proof (cases "od_get (be_invoices b) i")
  case (Some iv)
  define iv1 where "iv1 = iv\<lparr>iv_status := PAY_SUCCEEDED, iv_confirmed_at := Some now\<rparr>"
  show ?thesis using activate_subs [of "put_invoice iv1 b" now ids iv1] assms Some
    by (simp add: admin_confirm_def Let_def iv1_def [symmetric] split: sum.split)
qed (simp add: admin_confirm_def)

lemma moved_subs:
  assumes "subs_keyed (be_subscriptions b)" and "od_get (be_subscriptions b) u = Some s" and "evolves s s'"
    and "sub_move new r now s' = (x, t)"
  shows "subs_change (be_subscriptions b) (od_put (sb_user_id t) t (be_subscriptions b))"
    "subs_change (be_subscriptions b) (od_put (sb_user_id t) (t\<lparr>sb_cancelled_at := c\<rparr>) (be_subscriptions b))"
proof -
  have t: "evolves s t" using evolves_trans [OF assms(3) evolves_move [of s' new r now]] assms(4) by simp
  then have "evolves s (t\<lparr>sb_cancelled_at := c\<rparr>)" by simp
  then show "subs_change (be_subscriptions b) (od_put (sb_user_id t) t (be_subscriptions b))"
    "subs_change (be_subscriptions b) (od_put (sb_user_id t) (t\<lparr>sb_cancelled_at := c\<rparr>) (be_subscriptions b))"
    using t sub_keyD [OF assms(1,2) t] subs_change_evolve [OF assms(2)] by simp_all
qed

lemma suspend_subs:
  assumes "subs_keyed (be_subscriptions b)"
  shows "subs_change (be_subscriptions b) (be_subscriptions (snd (suspend now u reason b)))"
proof (cases "get_or_raise (JStr u) b")
  case (Inr s)
  then show ?thesis using get_or_raise_Inr [OF Inr] moved_subs(1) [OF assms _ evolves_refl]
    by (auto simp: suspend_def split: sum.split prod.split)
qed (simp add: suspend_def)

lemma revoke_subs:
  assumes "subs_keyed (be_subscriptions b)"
  shows "subs_change (be_subscriptions b) (be_subscriptions (snd (revoke now u reason b)))"
proof (cases "get_or_raise (JStr u) b")
  case (Inr s)
  then show ?thesis using get_or_raise_Inr [OF Inr] moved_subs(1) [OF assms _ evolves_pre_revoke]
    by (auto simp: revoke_def split: sum.split prod.split)
qed (simp add: revoke_def)

lemma cancel_subs:
  assumes "subs_keyed (be_subscriptions b)"
  shows "subs_change (be_subscriptions b) (be_subscriptions (snd (cancel now v reason b)))"
proof (cases "get_or_raise v b")
  case (Inr s)
  then show ?thesis using get_or_raise_Inr [OF Inr] moved_subs [OF assms _ evolves_refl]
    by (auto simp: cancel_def Let_def split: sum.split prod.split)
qed (simp add: cancel_def)

lemma step_subs:
  "subs_keyed (be_subscriptions b) \<Longrightarrow> subs_change (be_subscriptions b) (be_subscriptions (billing_step e b))"
  by (cases e) (simp_all add: checkout_subs confirm_subs admin_confirm_subs suspend_subs revoke_subs cancel_subs)

subsection \<open>The life cycle\<close>

definition sub_ok :: "string \<Rightarrow> subscription \<Rightarrow> bool" where
  "sub_ok u s \<longleftrightarrow> sb_user_id s = u \<and> sub_table.path (sub_history s) \<and> hd (sub_history s) \<in> {TRIAL, ACTIVE}"

definition subs_ok :: "billing \<Rightarrow> bool" where
  "subs_ok b \<longleftrightarrow> (\<forall>u s. od_get (be_subscriptions b) u = Some s \<longrightarrow> sub_ok u s)"

lemma subs_ok_keyed: "subs_ok b \<Longrightarrow> subs_keyed (be_subscriptions b)"
  by (simp add: subs_ok_def subs_keyed_def sub_ok_def)

lemma fresh_sub_ok: "fresh_sub u s \<Longrightarrow> sub_ok u s"
  by (auto simp: fresh_sub_def sub_ok_def sub_history_def)

lemma evolves_ok: "sub_ok u s \<Longrightarrow> evolves s t \<Longrightarrow> sub_ok u t"
proof -
  assume ok: "sub_ok u s" "evolves s t"
  then obtain h where "sub_history t = sub_history s @ h" by (auto simp: evolves_def)
  moreover have "sub_history s \<noteq> []" by (simp add: sub_history_def)
  ultimately have "hd (sub_history t) = hd (sub_history s)" by simp
  with ok show "sub_ok u t" by (auto simp: sub_ok_def evolves_def)
qed

interpretation billing_runs: guarded_state billing_step subs_ok
proof
  fix b e assume ok: "subs_ok b"
  from step_subs [OF subs_ok_keyed [OF ok], of e] show "subs_ok (billing_step e b)"
    using ok unfolding subs_change_def subs_ok_def
    by (fastforce split: option.splits if_splits intro: fresh_sub_ok evolves_ok)
qed

definition subs_evolve :: "billing \<Rightarrow> billing \<Rightarrow> bool" where
  "subs_evolve b c \<longleftrightarrow> (\<forall>u s. od_get (be_subscriptions b) u = Some s \<longrightarrow>
     (\<exists>t. od_get (be_subscriptions c) u = Some t \<and> evolves s t))"

lemma subs_evolve_step: "subs_ok b \<Longrightarrow> subs_evolve b (billing_step e b)"
  using step_subs [OF subs_ok_keyed, of b e] unfolding subs_change_def subs_evolve_def
  by (auto split: option.splits if_splits)

lemma subs_evolve_trans: "subs_evolve b c \<Longrightarrow> subs_evolve c d \<Longrightarrow> subs_evolve b d"
  unfolding subs_evolve_def by (meson evolves_trans)

lemma subs_evolve_run: "subs_ok b \<Longrightarrow> subs_evolve b (fold billing_step ops b)"
  by (rule billing_runs.run_relation [where R = subs_evolve])
     (auto intro: subs_evolve_trans subs_evolve_step, simp add: subs_evolve_def)

lemma subs_ok_new [simp]: "subs_ok (new_billing p oa oc)"
  by (simp add: subs_ok_def new_billing_def)

text \<open>
  C19: whatever operations the engine runs, every subscription has lived a path of the life-cycle table that
  starts at TRIAL or ACTIVE; further operations only extend its log, never change its identity or license key,
  and never take it away; and once it is revoked, no payment, refund, cancellation or administrator changes its
  status again.
\<close>

theorem subscription_life_cycle:
  "let b = fold billing_step ops (new_billing p oa oc); c = fold billing_step later b in
   case get_subscription b u of
     None \<Rightarrow> True
   | Some s \<Rightarrow> sub_table.path (sub_history s) \<and> hd (sub_history s) \<in> {TRIAL, ACTIVE} \<and>
       (case get_subscription c u of
          None \<Rightarrow> False
        | Some t \<Rightarrow> sub_table.path (sub_history t) \<and> sb_sub_id t = sb_sub_id s \<and> sb_license_key t = sb_license_key s
            \<and> take (length (sb_transitions s)) (sb_transitions t) = sb_transitions s
            \<and> (if sb_status s = REVOKED then sb_status t = REVOKED \<and> sb_transitions t = sb_transitions s else True))"
proof -
  let ?b = "fold billing_step ops (new_billing p oa oc)"
  have ok: "subs_ok ?b" by (rule billing_runs.run_good) simp
  show ?thesis
  proof (cases "get_subscription ?b u")
    case (Some s)
    then have s: "sub_ok u s" using ok by (simp add: subs_ok_def get_subscription_def)
    obtain t where t: "get_subscription (fold billing_step later ?b) u = Some t" "evolves s t"
      using subs_evolve_run [OF ok, of later] Some unfolding subs_evolve_def get_subscription_def by blast
    with s have "sub_table.path (sub_history t)" by (auto simp: sub_ok_def evolves_def)
    with Some s t evolves_revoked [OF t(2)] show ?thesis
      by (auto simp: sub_ok_def evolves_def Let_def)
  qed (simp add: Let_def)
qed

text \<open>
  A user whose subscription was revoked pays again: the checkout succeeds and calls the license callback
  with the old key, although the subscription stays revoked. The plan and the expiry date are renewed as well.
\<close>

theorem revoked_user_pays_and_gets_the_license:
  assumes "od_get (be_subscriptions b) user = Some sub" and "sb_status sub = REVOKED" and "sb_user_id sub = user"
    and "map_of plans plan_id = Some plan" and "od_get (be_idempotency b) (idem_key now user plan_id) = None"
    and "be_provider b = MockProvider True store" and "be_has_activate b" and "sb_license_key sub \<noteq> []"
  shows "case checkout now ids user plan_id cur b of (r, c) \<Rightarrow>
    map_option (\<lambda>s. (sb_status s, sb_plan_id s, sb_expires_at s)) (get_subscription c user)
      = Some (REVOKED, plan_id, now + of_int (pl_days plan) * 86400)
    \<and> be_activations c = be_activations b @ [(user, sb_license_key sub)]"
proof -
  have renewed: "renew_subscription now i plan_id plan sub = sub\<lparr>sb_plan_id := plan_id,
      sb_expires_at := now + of_int (pl_days plan) * 86400, sb_dunning_count := 0\<rparr>" for i
    using assms(2) by (simp add: renew_subscription_def Let_def)
  show ?thesis
    using assms by (simp add: checkout_def mock_create_def Let_def invoice_of_def activate_sub_def store_invoice_def audit_event_def
        put_invoice_def put_sub_def notify_def get_subscription_def renewed)
qed

definition no_ids :: fresh_ids where
  "no_ids = \<lparr>fr_hex = ''0'', fr_license = ''123'', fr_sub_id = ''s1''\<rparr>"

text \<open>A user buys the basic plan from the mock provider and is revoked.\<close>

definition revoked_state :: billing where
  "revoked_state = fold billing_step [Checkout 0 no_ids ''ann'' ''basic'' USD, Revoke 10 ''ann'' ''fraud'']
     (new_billing (MockProvider True []) True False)"

lemmas billing_eval = checkout_def mock_create_def mock_confirm_def invoice_of_def activate_sub_def store_invoice_def audit_event_def put_invoice_def
  put_sub_def notify_def renew_subscription_def new_subscription_def sub_move_def no_ids_def new_billing_def Let_def

lemma char_of_48 [simp]: "char_of (48 :: nat) = CHR ''0''"
  by code_simp

lemma idem_key_0: "idem_key 0 ''ann'' ''basic'' = ''ann:basic:0''"
  by (simp add: idem_key_def truncated_def int_digits_def nat_digits.simps)

lemma revoked_state_facts:
  "map_option (\<lambda>s. (sb_status s, sb_user_id s, sb_license_key s)) (od_get (be_subscriptions revoked_state) ''ann'')
     = Some (REVOKED, ''ann'', ''BOT12-123'')"
  "od_get (be_idempotency revoked_state) ''ann:pro:0'' = None" "be_has_activate revoked_state"
  "\<exists>store. be_provider revoked_state = MockProvider True store"
  by (simp_all add: revoked_state_def billing_eval plans_def idem_key_0 revoke_def pre_revoke_def get_or_raise_def
      py_upper_def char_upper_def)

theorem revoked_user_pays_and_gets_the_license_witness:
  "case checkout 20 no_ids ''ann'' ''pro'' USD revoked_state of (r, c) \<Rightarrow>
    map_option (\<lambda>s. (sb_status s, sb_plan_id s, sb_expires_at s)) (get_subscription c ''ann'')
      = Some (REVOKED, ''pro'', 20 + of_int 30 * 86400)
    \<and> be_activations c = be_activations revoked_state @ [(''ann'', ''BOT12-123'')]"
proof -
  obtain sub where sub: "od_get (be_subscriptions revoked_state) ''ann'' = Some sub" "sb_status sub = REVOKED"
    "sb_user_id sub = ''ann''" "sb_license_key sub = ''BOT12-123''"
    using revoked_state_facts(1) by auto
  obtain store where store: "be_provider revoked_state = MockProvider True store" using revoked_state_facts(4) by blast
  have key: "idem_key 20 ''ann'' ''pro'' = ''ann:pro:0''"
    by (simp add: idem_key_def truncated_def int_digits_def nat_digits.simps)
  obtain plan where plan: "map_of plans ''pro'' = Some plan" "pl_days plan = 30" by (simp add: plans_def)
  from revoked_user_pays_and_gets_the_license [OF sub(1-3) plan(1) revoked_state_facts(2) [folded key] store revoked_state_facts(3)]
  show ?thesis using sub(4) plan(2) by simp
qed

subsection \<open>Idempotent checkout\<close>

lemma activate_ok:
  assumes "map_of plans (iv_plan_id iv) = Some plan"
  shows "\<exists>c. activate_sub now ids iv b = (Inr (), c) \<and> be_invoices c = be_invoices b \<and> be_idempotency c = be_idempotency b"
  using assms by (simp add: activate_sub_def Let_def notify_def put_sub_def)

text \<open>
  Checking out is idempotent within an hour: repeating the checkout of a plan before the clock hour ends,
  with whatever currency, gives the same invoice and changes nothing, so nothing is charged, activated or
  logged twice; and the first one succeeded with an invoice for that user and plan key.
\<close>

theorem checkout_is_idempotent:
  assumes "map_of plans plan_id = Some plan" and "truncated later div 3600 = truncated now div 3600"
  shows "let first = checkout now ids user plan_id cur b in
    checkout later ids' user plan_id cur' (snd first) = first \<and> (\<exists>iv. fst first = Inr iv)"
proof -
  let ?key = "idem_key now user plan_id"
  have key: "idem_key later user plan_id = ?key" by (simp add: idem_key_def assms(2))
  define found where "found = (\<lambda>b :: billing. case od_get (be_idempotency b) ?key of None \<Rightarrow> None | Some i \<Rightarrow> od_get (be_invoices b) i)"
  have again: "checkout later ids' user plan_id cur' c = (Inr iv, c)" if "found c = Some iv" for c :: billing and iv
    using that assms(1) by (simp add: checkout_def Let_def key found_def)
  have "\<exists>iv c. checkout now ids user plan_id cur b = (Inr iv, c) \<and> found c = Some iv"
  proof (cases "found b")
    case None
    define req where "req = \<lparr>rq_user_id = user, rq_plan_id = plan_id,
        rq_amount = (if cur = IRR then pl_price_irr plan else pl_price_usd plan), rq_currency = cur, rq_idempotency_key = ?key\<rparr>"
    obtain res p where create: "create_payment (be_provider b) (fr_hex ids) req = (res, p)" by (meson surj_pair)
    define iv where "iv = invoice_of now req res"
    define c where "c = store_invoice now ?key iv p b"
    have c: "found c = Some iv" "be_invoices c = be_invoices (put_invoice iv b)"
      by (simp_all add: c_def store_invoice_def found_def audit_event_def put_invoice_def Let_def)
    have "iv_plan_id iv = plan_id" by (simp add: iv_def invoice_of_def req_def)
    then obtain d where d: "activate_sub now ids iv c = (Inr (), d)" "be_invoices d = be_invoices c" "be_idempotency d = be_idempotency c"
      using activate_ok [of iv plan now ids c] assms(1) by auto
    have "checkout now ids user plan_id cur b = (Inr iv, if iv_status iv = PAY_SUCCEEDED then d else c)"
      using None assms(1) d(1) by (simp add: checkout_def Let_def found_def req_def [symmetric] create iv_def [symmetric] c_def [symmetric])
    moreover have "found d = found c" using d by (simp add: found_def split: option.split)
    ultimately show ?thesis using c by simp
  qed (use assms(1) in \<open>auto simp: checkout_def Let_def found_def\<close>)
  then show ?thesis using again by auto
qed

theorem checkout_is_idempotent_witness:
  "let first = checkout 0 no_ids ''ann'' ''basic'' USD (new_billing (MockProvider True []) True False) in
    checkout 3599 no_ids ''ann'' ''basic'' IRR (snd first) = first \<and> (\<exists>iv. fst first = Inr iv)"
proof -
  obtain plan where plan: "map_of plans ''basic'' = Some plan" by (simp add: plans_def)
  show ?thesis by (rule checkout_is_idempotent [OF plan]) (simp add: truncated_def)
qed

end
