(* ===== verification/Webhook.thy ===== *)
theory Webhook
  imports Billing
begin

section \<open>The webhook processor\<close>

text \<open>
  \<open>src/backend/billing/webhook.py\<close>: size cap, clock tolerance, signature, duplicate detection by event id,
  and the dispatch of the parsed event to the billing engine. HMAC and the JSON decoder are parameters, bundled
  in \<open>codec\<close>. An event id is the caller's string or, when that is empty, the decoded \<open>invoice_id\<close>.
\<close>

record codec =
  cd_hmac :: "string \<Rightarrow> string \<Rightarrow> string"
  cd_loads :: "string \<Rightarrow> exc + json"

datatype webhook_action =
    RejectedTooLarge | RejectedStale real | RejectedBadSignature | DuplicateSkipped
  | Processed webhook_event_type json | DispatchKeyError

record webhook_audit =
  wa_action :: webhook_action
  wa_event_id :: json
  wa_ts :: time

record webhook_processor =
  wh_engine :: billing
  wh_provider :: provider
  wh_secret :: string
  wh_seen :: "json list"
  wh_audit :: "webhook_audit list"

datatype webhook_result = Duplicate json | Accepted json webhook_event_type

definition max_payload_bytes :: nat where "max_payload_bytes = 1 * 1024 * 1024"
definition timestamp_tolerance :: real where "timestamp_tolerance = 300"
definition nonce_store_max :: nat where "nonce_store_max = 100000"

definition new_processor :: "billing \<Rightarrow> provider \<Rightarrow> string \<Rightarrow> webhook_processor" where
  "new_processor engine provider secret = \<lparr>wh_engine = engine, wh_provider = provider, wh_secret = secret,
     wh_seen = [], wh_audit = []\<rparr>"

definition wh_log :: "time \<Rightarrow> webhook_action \<Rightarrow> json \<Rightarrow> webhook_processor \<Rightarrow> webhook_processor" where
  "wh_log now act eid w = w\<lparr>wh_audit := wh_audit w @ [\<lparr>wa_action = act, wa_event_id = eid, wa_ts = now\<rparr>]\<rparr>"

definition set_add :: "json \<Rightarrow> json list \<Rightarrow> json list" where
  "set_add v xs = (if v \<in> set xs then xs else xs @ [v])"

text \<open>What the event asks of the engine; a cancellation without a user asks nothing.\<close>

definition dispatch_call :: "time \<Rightarrow> fresh_ids \<Rightarrow> webhook_event \<Rightarrow> billing \<Rightarrow> (unit, billing) outcome" where
  "dispatch_call now ids ev b =
     (case we_event_type ev of
        PAYMENT_SUCCEEDED \<Rightarrow> (let (r, c) = confirm_from_webhook now ids (we_invoice_id ev) (we_raw ev) b in (map_sum id (\<lambda>_. ()) r, c))
      | PAYMENT_FAILED \<Rightarrow> (let (r, c) = confirm_from_webhook now ids (we_invoice_id ev) (we_raw ev) b in (map_sum id (\<lambda>_. ()) r, c))
      | SUBSCRIPTION_CANCELLED \<Rightarrow>
          (if json_truthy (we_user_id ev)
           then (let (r, c) = cancel now (we_user_id ev) ''provider_cancelled'' b in (map_sum id (\<lambda>_. ()) r, c))
           else (Inr (), b))
      | REFUND_ISSUED \<Rightarrow>
          (let (r, c) = confirm_from_webhook now ids (we_invoice_id ev) (od_put ''status'' (JStr ''refunded'') (we_raw ev)) b
           in (map_sum id (\<lambda>_. ()) r, c)))"

definition dispatch :: "time \<Rightarrow> fresh_ids \<Rightarrow> webhook_event \<Rightarrow> webhook_processor \<Rightarrow> (bool, webhook_processor) outcome" where
  "dispatch now ids ev w =
     (let (r, b) = dispatch_call now ids ev (wh_engine w); w1 = w\<lparr>wh_engine := b\<rparr> in
      case r of
        Inr _ \<Rightarrow> (Inr True, w1)
      | Inl e \<Rightarrow> if e = KeyError then (Inr False, wh_log now DispatchKeyError (we_invoice_id ev) w1) else (Inl e, w1))"

definition remember :: "json \<Rightarrow> webhook_processor \<Rightarrow> webhook_processor" where
  "remember eid w = (if length (wh_seen w) < nonce_store_max then w\<lparr>wh_seen := set_add eid (wh_seen w)\<rparr> else w)"

definition process_event :: "time \<Rightarrow> fresh_ids \<Rightarrow> webhook_event \<Rightarrow> json \<Rightarrow> webhook_processor \<Rightarrow> (webhook_result, webhook_processor) outcome" where
  "process_event now ids ev eid w =
     (case dispatch now ids ev w of
        (Inl e, w1) \<Rightarrow> (Inl e, w1)
      | (Inr _, w1) \<Rightarrow> (Inr (Accepted eid (we_event_type ev)), wh_log now (Processed (we_event_type ev) (we_invoice_id ev)) eid w1))"

text \<open>From the first look at the event id on: everything before was the checks of the envelope.\<close>

definition process_authentic ::
  "codec \<Rightarrow> time \<Rightarrow> fresh_ids \<Rightarrow> string \<Rightarrow> string \<Rightarrow> webhook_processor \<Rightarrow> (webhook_result, webhook_processor) outcome" where
  "process_authentic cd now ids payload event_id w =
     (if event_id \<noteq> [] \<and> JStr event_id \<in> set (wh_seen w)
      then (Inr (Duplicate (JStr event_id)), wh_log now DuplicateSkipped (JStr event_id) w)
      else case parse_webhook (cd_loads cd) (wh_provider w) payload of
        Inl e \<Rightarrow> (Inl e, w)
      | Inr ev \<Rightarrow>
          (let eid = (if event_id \<noteq> [] then JStr event_id
                      else if json_truthy (we_invoice_id ev) then we_invoice_id ev
                      else JStr (''evt_'' @ int_digits (truncated now)))
           in if length (wh_seen w) < nonce_store_max \<and> \<not> json_hashable eid then (Inl TypeError, w)
              else process_event now ids ev eid (remember eid w)))"

definition process ::
  "codec \<Rightarrow> time \<Rightarrow> fresh_ids \<Rightarrow> string \<Rightarrow> string \<Rightarrow> string \<Rightarrow> time option \<Rightarrow> webhook_processor
     \<Rightarrow> (webhook_result, webhook_processor) outcome" where
  "process cd now ids payload signature event_id timestamp w =
     (if max_payload_bytes < length payload
      then (Inl (OtherError ''PayloadTooLargeError''), wh_log now RejectedTooLarge (JStr event_id) w)
      else
        (let drift = (case timestamp of None \<Rightarrow> 0 | Some t \<Rightarrow> \<bar>now - t\<bar>) in
         if timestamp \<noteq> None \<and> timestamp_tolerance < drift
         then (Inl (OtherError ''StaleTimestampError''), wh_log now (RejectedStale drift) (JStr event_id) w)
         else if \<not> verify_webhook (cd_hmac cd) (wh_provider w) payload signature (wh_secret w)
         then (Inl (OtherError ''InvalidSignatureError''), wh_log now RejectedBadSignature (JStr event_id) w)
         else process_authentic cd now ids payload event_id w))"

definition wh_audit_log :: "webhook_processor \<Rightarrow> webhook_audit list" where
  "wh_audit_log w = wh_audit w"

definition seen_count :: "webhook_processor \<Rightarrow> nat" where
  "seen_count w = length (wh_seen w)"

subsection \<open>Deliveries and other uses of the engine\<close>

datatype webhook_op =
    Deliver time fresh_ids string string string "time option"
  | Engine billing_op

fun webhook_step :: "codec \<Rightarrow> webhook_op \<Rightarrow> webhook_processor \<Rightarrow> webhook_processor" where
  "webhook_step cd (Deliver now ids payload signature event_id timestamp) w
     = snd (process cd now ids payload signature event_id timestamp w)"
| "webhook_step cd (Engine e) w = w\<lparr>wh_engine := billing_step e (wh_engine w)\<rparr>"

lemma wh_log_frame [simp]:
  "wh_engine (wh_log now a i w) = wh_engine w" "wh_seen (wh_log now a i w) = wh_seen w"
  "wh_provider (wh_log now a i w) = wh_provider w" "wh_secret (wh_log now a i w) = wh_secret w"
  by (simp_all add: wh_log_def)

lemma dispatch_frame [simp]:
  "wh_seen (snd (dispatch now ids ev w)) = wh_seen w"
  by (simp add: dispatch_def Let_def split: prod.split sum.split)

lemma process_event_frame [simp]: "wh_seen (snd (process_event now ids ev eid w)) = wh_seen w"
  using dispatch_frame [of now ids ev w]
  by (auto simp: process_event_def simp del: dispatch_frame split: prod.split sum.split)

lemma remember_mono: "x \<in> set (wh_seen w) \<Longrightarrow> x \<in> set (wh_seen (remember v w))"
  by (simp add: remember_def set_add_def)

lemma process_seen:
  "x \<in> set (wh_seen w) \<Longrightarrow> x \<in> set (wh_seen (snd (process cd now ids payload signature event_id timestamp w)))"
  by (simp add: process_def process_authentic_def Let_def remember_mono split: sum.split)

lemma seen_grows: "x \<in> set (wh_seen w) \<Longrightarrow> x \<in> set (wh_seen (fold (webhook_step cd) ops w))"
proof (induction ops arbitrary: w)
  case (Cons e ops)
  have "x \<in> set (wh_seen (webhook_step cd e w))" using Cons.prems by (cases e) (simp_all add: process_seen)
  then show ?case using Cons.IH by simp
qed simp

lemma process_refused:
  assumes "JStr event_id \<in> set (wh_seen w)" and "event_id \<noteq> []"
  shows "wh_engine (snd (process cd now ids payload signature event_id timestamp w)) = wh_engine w
    \<and> (case fst (process cd now ids payload signature event_id timestamp w) of
         Inr r \<Rightarrow> r = Duplicate (JStr event_id)
       | Inl e \<Rightarrow> e \<in> {OtherError ''PayloadTooLargeError'', OtherError ''StaleTimestampError'', OtherError ''InvalidSignatureError''})"
  using assms by (simp add: process_def process_authentic_def Let_def)

text \<open>
  C20: an event id is dispatched once. When a delivery with a non-empty event id was accepted while the store
  of ids had room, then after any further deliveries and other uses of the engine, delivering that id again,
  with whatever payload, signature and time stamp, does not touch the engine: it is answered as a duplicate or
  refused.
\<close>

theorem webhook_event_dispatched_once:
  assumes "fst (process cd now ids payload signature event_id timestamp w) = Inr r" and "event_id \<noteq> []"
    and "length (wh_seen w) < nonce_store_max"
  shows "let w' = fold (webhook_step cd) ops (snd (process cd now ids payload signature event_id timestamp w));
      again = process cd now' ids' payload' signature' event_id timestamp' w' in
    wh_engine (snd again) = wh_engine w'
    \<and> (case fst again of
         Inr r' \<Rightarrow> r' = Duplicate (JStr event_id)
       | Inl e \<Rightarrow> e \<in> {OtherError ''PayloadTooLargeError'', OtherError ''StaleTimestampError'', OtherError ''InvalidSignatureError''})"
proof -
  have "JStr event_id \<in> set (wh_seen (snd (process cd now ids payload signature event_id timestamp w)))"
    using assms by (auto simp: process_def process_authentic_def remember_def set_add_def Let_def split: sum.splits if_splits)
  then show ?thesis unfolding Let_def using assms(2) by (intro process_refused seen_grows)
qed

text \<open>
  C21: only authentic deliveries reach the engine: whenever processing a delivery changes the billing engine,
  the payload was within the size cap, its time stamp, if given, within five minutes of the clock, its signature
  verified under the provider's scheme, and its event id not seen before.
\<close>

theorem only_authentic_webhooks_reach_billing:
  assumes "wh_engine (snd (process cd now ids payload signature event_id timestamp w)) \<noteq> wh_engine w"
  shows "length payload \<le> 1048576
    \<and> (case timestamp of None \<Rightarrow> True | Some t \<Rightarrow> \<bar>now - t\<bar> \<le> 300)
    \<and> verify_webhook (cd_hmac cd) (wh_provider w) payload signature (wh_secret w)
    \<and> (event_id = [] \<or> JStr event_id \<notin> set (wh_seen w))"
  using assms by (auto simp: process_def process_authentic_def max_payload_bytes_def timestamp_tolerance_def Let_def
      split: if_splits option.splits)

text \<open>
  Refunding a paid invoice does nothing: when the invoice of an authentic refund webhook has been paid, the
  engine is left as it was, so the subscription keeps running and no refund is logged in its audit trail; the
  webhook is acknowledged as processed.
\<close>

theorem refund_of_paid_invoice_is_ignored:
  assumes "od_get (be_invoices (wh_engine w)) i = Some iv" and "iv_status iv = PAY_SUCCEEDED"
    and "parse_webhook (cd_loads cd) (wh_provider w) payload = Inr ev"
    and "we_event_type ev = REFUND_ISSUED" and "we_invoice_id ev = JStr i"
    and "event_id \<noteq> []" and "JStr event_id \<notin> set (wh_seen w)"
    and "verify_webhook (cd_hmac cd) (wh_provider w) payload signature (wh_secret w)" and "length payload \<le> max_payload_bytes"
  shows "case process cd now ids payload signature event_id None w of (r, w') \<Rightarrow>
    r = Inr (Accepted (JStr event_id) REFUND_ISSUED) \<and> wh_engine w' = wh_engine w"
proof -
  have "confirm_from_webhook now ids (JStr i) raw (wh_engine w) = (Inr iv, wh_engine w)" for raw
    using assms(1,2) by (simp add: confirm_from_webhook_def)
  then have "dispatch now ids ev v = (Inr True, v)" if "wh_engine v = wh_engine w" for v
    using assms(4,5) that by (cases v) (simp add: dispatch_def dispatch_call_def Let_def)
  moreover have "wh_engine (remember x w) = wh_engine w" for x by (simp add: remember_def)
  ultimately show ?thesis using assms(3-9)
    by (simp add: process_def process_authentic_def process_event_def Let_def)
qed

text \<open>The witnesses: a paid basic plan of the mock provider, a signature scheme that pairs secret and payload.\<close>

definition demo_codec :: "webhook_event_type \<Rightarrow> codec" where
  "demo_codec t = \<lparr>cd_hmac = (\<lambda>secret payload. secret @ payload),
     cd_loads = (\<lambda>payload. Inr (JObj [(''event'', JStr (if t = REFUND_ISSUED then ''refund.issued'' else ''payment.succeeded'')),
       (''invoice_id'', JStr ''mock_ann:basi'')]))\<rparr>"

definition paid_processor :: webhook_processor where
  "paid_processor = new_processor (snd (checkout 0 no_ids ''ann'' ''basic'' USD (new_billing (MockProvider True []) True False)))
     (MockProvider True []) ''s''"

lemma paid_invoice: "map_option iv_status (od_get (be_invoices (wh_engine paid_processor)) ''mock_ann:basi'') = Some PAY_SUCCEEDED"
  by (simp add: paid_processor_def new_processor_def billing_eval plans_def idem_key_0)

lemma paid_processor_sel [simp]: "wh_provider paid_processor = MockProvider True []" "wh_secret paid_processor = ''s''"
  "wh_seen paid_processor = []"
  by (simp_all add: paid_processor_def new_processor_def)

theorem refund_of_paid_invoice_is_ignored_witness:
  "case process (demo_codec REFUND_ISSUED) 50 no_ids ''p'' ''sp'' ''e1'' None paid_processor of (r, w') \<Rightarrow>
    r = Inr (Accepted (JStr ''e1'') REFUND_ISSUED) \<and> wh_engine w' = wh_engine paid_processor"
proof -
  obtain iv where iv: "od_get (be_invoices (wh_engine paid_processor)) ''mock_ann:basi'' = Some iv" "iv_status iv = PAY_SUCCEEDED"
    using paid_invoice by auto
  obtain ev where "parse_webhook (cd_loads (demo_codec REFUND_ISSUED)) (wh_provider paid_processor) ''p'' = Inr ev"
    "we_event_type ev = REFUND_ISSUED" "we_invoice_id ev = JStr ''mock_ann:basi''"
    by (simp add: parse_webhook_def demo_codec_def mock_event_def event_type_of_def currency_of_def jget_def)
  from refund_of_paid_invoice_is_ignored [OF iv this] show ?thesis
    by (simp add: demo_codec_def hmac_verify_def max_payload_bytes_def)
qed

definition unpaid_processor :: webhook_processor where
  "unpaid_processor = new_processor (snd (checkout 0 no_ids ''ann'' ''basic'' USD (new_billing (MockProvider False []) True False)))
     (MockProvider False []) ''s''"

text \<open>The first delivery confirms the payment and creates the subscription.\<close>

lemma unpaid_delivery:
  "fst (process (demo_codec PAYMENT_SUCCEEDED) 50 no_ids ''p'' ''sp'' ''e1'' None unpaid_processor)
     = Inr (Accepted (JStr ''e1'') PAYMENT_SUCCEEDED)"
  "get_subscription (wh_engine (snd (process (demo_codec PAYMENT_SUCCEEDED) 50 no_ids ''p'' ''sp'' ''e1'' None unpaid_processor))) ''ann'' \<noteq> None"
  "get_subscription (wh_engine unpaid_processor) ''ann'' = None"
  by (simp_all add: process_def process_authentic_def process_event_def dispatch_def dispatch_call_def remember_def set_add_def
      parse_webhook_def demo_codec_def mock_event_def event_type_of_def currency_of_def jget_def unpaid_processor_def
      new_processor_def billing_eval plans_def idem_key_0 confirm_from_webhook_def settle_invoice_def get_subscription_def
      max_payload_bytes_def nonce_store_max_def hmac_verify_def wh_log_def)

theorem webhook_event_dispatched_once_witness:
  "let w' = snd (process (demo_codec PAYMENT_SUCCEEDED) 50 no_ids ''p'' ''sp'' ''e1'' None unpaid_processor) in
    wh_engine (snd (process (demo_codec PAYMENT_SUCCEEDED) 60 no_ids ''p'' ''sp'' ''e1'' None w')) = wh_engine w'"
  using webhook_event_dispatched_once [OF unpaid_delivery(1), where ops = "[]"]
  by (simp add: Let_def unpaid_processor_def new_processor_def nonce_store_max_def)

theorem only_authentic_webhooks_reach_billing_witness:
  "verify_webhook (cd_hmac (demo_codec PAYMENT_SUCCEEDED)) (MockProvider False []) ''p'' ''sp'' ''s''"
proof -
  let ?call = "process (demo_codec PAYMENT_SUCCEEDED) 50 no_ids ''p'' ''sp'' ''e1'' None unpaid_processor"
  have "wh_engine (snd ?call) \<noteq> wh_engine unpaid_processor" using unpaid_delivery(2,3) by metis
  from only_authentic_webhooks_reach_billing [OF this] show ?thesis by (simp add: unpaid_processor_def new_processor_def)
qed

end
