(* ===== verification/Hash_Chain.thy ===== *)
theory Hash_Chain
  imports Contracts
begin

section \<open>Hash chains\<close>

text \<open>
  Two logs of the program, the audit chain and the audit trail of the key store, are tamper-evident in the
  same way: the hash of a record covers the hash of the record before it, and a verifier walks the records
  from a genesis hash. The walk is defined here once, over the test \<open>ok p r\<close> that record \<open>r\<close> fits after the
  hash \<open>p\<close>; the contract is that sealing makes records that fit.
\<close>

fun verify_from :: "('h \<Rightarrow> 'r \<Rightarrow> bool) \<Rightarrow> ('r \<Rightarrow> 'h) \<Rightarrow> 'h \<Rightarrow> 'r list \<Rightarrow> bool" where
  "verify_from ok hash_of p [] = True"
| "verify_from ok hash_of p (r # rs) = (ok p r \<and> verify_from ok hash_of (hash_of r) rs)"

text \<open>The walk that reports every record that does not fit after the stored hash of its predecessor.\<close>

fun broken_from :: "('h \<Rightarrow> 'r \<Rightarrow> bool) \<Rightarrow> ('r \<Rightarrow> 'h) \<Rightarrow> 'h \<Rightarrow> 'r list \<Rightarrow> 'r list" where
  "broken_from ok hash_of p [] = []"
| "broken_from ok hash_of p (r # rs) = (if ok p r then [] else [r]) @ broken_from ok hash_of (hash_of r) rs"

definition last_hash :: "('r \<Rightarrow> 'h) \<Rightarrow> 'h \<Rightarrow> 'r list \<Rightarrow> 'h" where
  "last_hash hash_of p rs = (if rs = [] then p else hash_of (last rs))"

lemma last_hash_simps [simp]:
  "last_hash hash_of p [] = p" "last_hash hash_of p (r # rs) = last_hash hash_of (hash_of r) rs"
  "last_hash hash_of p (rs @ [r]) = hash_of r"
  by (simp_all add: last_hash_def)

lemma verify_append:
  "verify_from ok hash_of p (rs @ ts) \<longleftrightarrow>
    verify_from ok hash_of p rs \<and> verify_from ok hash_of (last_hash hash_of p rs) ts"
  by (induction rs arbitrary: p) auto

lemma verify_iff_none_broken: "verify_from ok hash_of p rs \<longleftrightarrow> broken_from ok hash_of p rs = []"
  by (induction rs arbitrary: p) auto

lemma broken_append:
  "broken_from ok hash_of p (rs @ ts) = broken_from ok hash_of p rs @ broken_from ok hash_of (last_hash hash_of p rs) ts"
  by (induction rs arbitrary: p) auto

text \<open>
  Dropping records from the front leaves a list that fits after the hash of the last one dropped.
\<close>

lemma verify_suffix: "verify_from ok hash_of p rs \<Longrightarrow> verify_from ok hash_of (last_hash hash_of p (take n rs)) (List.drop n rs)"
  using verify_append [of ok hash_of p "take n rs" "List.drop n rs"] by simp

text \<open>Two verified lists with the same last hash agree record by record, if a hash determines what it covers.\<close>

lemma verified_determined:
  assumes "verify_from ok hash_of g rs" and "verify_from ok hash_of g ts"
    and "last_hash hash_of g rs = last_hash hash_of g ts" and "length rs = length ts"
    and det: "\<And>p q r t. r \<in> set rs \<Longrightarrow> t \<in> set ts \<Longrightarrow> ok p r \<Longrightarrow> ok q t \<Longrightarrow> hash_of r = hash_of t \<Longrightarrow> p = q \<and> c r = c t"
  shows "map c rs = map c ts"
  using assms
proof (induction rs arbitrary: ts rule: rev_induct)
  case (snoc r rs)
  obtain t ts' where ts: "ts = ts' @ [t]" using snoc.prems(4) by (cases ts rule: rev_cases) auto
  have "ok (last_hash hash_of g rs) r" "ok (last_hash hash_of g ts') t" "hash_of r = hash_of t"
    "verify_from ok hash_of g rs" "verify_from ok hash_of g ts'"
    using snoc.prems(1-3) ts by (simp_all add: verify_append)
  moreover from this have "last_hash hash_of g rs = last_hash hash_of g ts'" "c r = c t"
    using snoc.prems(5) [of r t] ts by auto
  ultimately show ?case using snoc.IH [of ts'] snoc.prems(4,5) ts by auto
qed simp

locale hash_chain =
  fixes ok :: "'h \<Rightarrow> 'r \<Rightarrow> bool"
    and hash_of :: "'r \<Rightarrow> 'h"
    and seal :: "'h \<Rightarrow> 'c \<Rightarrow> 'r"
  assumes seal_ok: "ok p (seal p c)"
begin

text \<open>Whoever only ever seals after the last hash has a chain that verifies.\<close>

fun sealed :: "'h \<Rightarrow> 'c list \<Rightarrow> 'r list" where
  "sealed p [] = []"
| "sealed p (c # cs) = seal p c # sealed (hash_of (seal p c)) cs"

lemma verify_sealed: "verify_from ok hash_of p (sealed p cs)"
  by (induction cs arbitrary: p) (simp_all add: seal_ok)

lemma verify_snoc:
  "verify_from ok hash_of p rs \<Longrightarrow> verify_from ok hash_of p (rs @ [seal (last_hash hash_of p rs) c])"
  by (simp add: verify_append seal_ok)

text \<open>
  A log that keeps the last \<open>m\<close> of the \<open>n\<close> records sealed so far: what it holds verifies after some hash, which is the
  genesis hash \<open>g\<close> as long as nothing was dropped.
\<close>

definition tail_ok :: "'h \<Rightarrow> nat \<Rightarrow> 'r list \<Rightarrow> 'h \<Rightarrow> nat \<Rightarrow> bool" where
  "tail_ok g m rs h n \<longleftrightarrow> (\<exists>p. verify_from ok hash_of p rs \<and> h = last_hash hash_of p rs \<and> (n \<le> m \<longrightarrow> p = g \<and> length rs = n))"

lemma tail_new: "tail_ok g m [] g 0"
  by (simp add: tail_ok_def)

lemma tail_push:
  assumes t: "tail_ok g m rs h n" and "0 < m" and r: "r = seal h c"
  shows "tail_ok g m (take_last m (rs @ [r])) (hash_of r) (Suc n)"
proof -
  obtain p where p: "verify_from ok hash_of p rs" "h = last_hash hash_of p rs" "n \<le> m \<longrightarrow> p = g \<and> length rs = n"
    using t by (auto simp: tail_ok_def)
  define ts where "ts = rs @ [r]"
  define k where "k = length ts - m"
  define q where "q = last_hash hash_of p (take k ts)"
  have v: "verify_from ok hash_of p ts" using verify_snoc [OF p(1), of c] p(2) r by (simp add: ts_def)
  have 1: "verify_from ok hash_of q (take_last m ts)"
    unfolding q_def take_last_def k_def by (rule verify_suffix [OF v])
  have "take_last m ts \<noteq> []" using \<open>0 < m\<close> by (simp add: ts_def take_last_def)
  moreover have "last (take_last m ts) = r" unfolding ts_def by (rule take_last_snoc_last [OF \<open>0 < m\<close>])
  ultimately have 2: "hash_of r = last_hash hash_of q (take_last m ts)" by (simp add: last_hash_def)
  have 3: "q = g \<and> length (take_last m ts) = Suc n" if "Suc n \<le> m"
  proof -
    have "p = g" "length ts = Suc n" using p(3) that by (simp_all add: ts_def)
    then show ?thesis using that by (simp add: q_def k_def)
  qed
  show ?thesis unfolding tail_ok_def using 1 2 3 ts_def by (intro exI [of _ q]) simp
qed

lemma tail_verifies: "tail_ok g m rs h n \<Longrightarrow> n \<le> m \<Longrightarrow> verify_from ok hash_of g rs"
  by (auto simp: tail_ok_def)

end

text \<open>Records that also store the hash they were sealed after fit in one place only.\<close>

locale linked_chain = hash_chain ok hash_of seal
  for ok :: "'h \<Rightarrow> 'r \<Rightarrow> bool" and hash_of :: "'r \<Rightarrow> 'h" and seal :: "'h \<Rightarrow> 'c \<Rightarrow> 'r" +
  fixes prev_of :: "'r \<Rightarrow> 'h"
  assumes ok_prev: "ok p r \<Longrightarrow> prev_of r = p"
begin

lemma verify_head: "verify_from ok hash_of p (r # rs) \<Longrightarrow> prev_of r = p"
  by (simp add: ok_prev)

lemma shortened_fails:
  assumes "verify_from ok hash_of p rs" and "n < length rs" and "last_hash hash_of p (take n rs) \<noteq> p"
  shows "\<not> verify_from ok hash_of p (List.drop n rs)"
proof -
  obtain r ts where d: "List.drop n rs = r # ts" using assms(2) by (cases "List.drop n rs") auto
  with verify_suffix [OF assms(1), of n] have "prev_of r = last_hash hash_of p (take n rs)" by (simp add: ok_prev)
  with assms(3) d show ?thesis using verify_head by fastforce
qed

end

end
