(* ===== verification/Audit_Log.thy ===== *)
theory Audit_Log
  imports Hash_Chain Json
begin

section \<open>The tamper-evident audit log\<close>

text \<open>
  \<open>src/backend/core/audit_log_v21.py\<close>: the HMAC chain of audit records with its eviction by age and number,
  verification, tamper localisation and queries, and the logger over it. HMAC-SHA256 under the chain's secret
  (\<open>au_hmac\<close>), \<open>json.dumps(..., sort_keys=True)\<close> (\<open>au_dumps\<close>) and \<open>str\<close> of a float (\<open>au_show\<close>) are
  parameters; record ids and the clock are arguments. Every call holds the lock, so calls are atomic.
\<close>

datatype severity = INFO | WARNING | CRITICAL

record audit_codec =
  au_hmac :: "string \<Rightarrow> string"
  au_dumps :: "json \<Rightarrow> string"
  au_show :: "real \<Rightarrow> string"

text \<open>Severity and category of each event.\<close>

definition event_meta :: "(string \<times> severity \<times> string) list" where
  "event_meta =
    [(''auth.login.ok'', INFO, ''auth''), (''auth.login.fail'', WARNING, ''auth''),
     (''auth.login.lockout'', CRITICAL, ''auth''), (''auth.logout'', INFO, ''auth''),
     (''auth.register'', INFO, ''auth''), (''auth.token.refresh'', INFO, ''auth''),
     (''auth.token.revoke'', WARNING, ''auth''), (''auth.token.reuse_detected'', CRITICAL, ''auth''),
     (''rbac.permission_denied'', WARNING, ''rbac''), (''rbac.role_changed'', CRITICAL, ''rbac''),
     (''rbac.escalation_attempt'', CRITICAL, ''rbac''), (''rbac.user_blocked'', CRITICAL, ''rbac''),
     (''rbac.user_unblocked'', WARNING, ''rbac''), (''rbac.user_deleted'', CRITICAL, ''rbac''),
     (''license.issued'', INFO, ''license''), (''license.activated'', INFO, ''license''),
     (''license.expired'', WARNING, ''license''), (''license.revoked'', CRITICAL, ''license''),
     (''license.suspended'', CRITICAL, ''license''), (''license.reactivated'', INFO, ''license''),
     (''license.device.add'', INFO, ''license''), (''license.device.remove'', WARNING, ''license''),
     (''billing.checkout'', INFO, ''billing''), (''billing.payment.ok'', INFO, ''billing''),
     (''billing.payment.fail'', WARNING, ''billing''), (''billing.refund'', CRITICAL, ''billing''),
     (''billing.plan.changed'', WARNING, ''billing''), (''billing.subscription.cancel'', WARNING, ''billing''),
     (''billing.webhook.ok'', INFO, ''billing''), (''billing.webhook.fail'', WARNING, ''billing''),
     (''trade.open'', INFO, ''trading''), (''trade.close'', INFO, ''trading''),
     (''trade.cancel'', WARNING, ''trading''), (''trade.duplicate_blocked'', WARNING, ''trading''),
     (''signal.emit'', INFO, ''trading''), (''signal.dedup_blocked'', INFO, ''trading''),
     (''signal.expire'', INFO, ''trading''), (''reconciliation.mismatch'', CRITICAL, ''trading''),
     (''risk.drawdown.alert'', WARNING, ''risk''), (''risk.drawdown.critical'', CRITICAL, ''risk''),
     (''risk.kill_switch.activated'', CRITICAL, ''risk''), (''risk.kill_switch.reset'', WARNING, ''risk''),
     (''risk.halt'', CRITICAL, ''risk''), (''risk.resume'', WARNING, ''risk''),
     (''risk.limit.breach'', CRITICAL, ''risk''), (''risk.heartbeat.loss'', CRITICAL, ''risk''),
     (''admin.settings.changed'', CRITICAL, ''admin''), (''admin.cross_tenant.access'', CRITICAL, ''admin''),
     (''admin.audit.export'', WARNING, ''admin''), (''admin.audit.chain_verify'', INFO, ''admin''),
     (''admin.impersonate'', CRITICAL, ''admin''), (''admin.force_logout'', CRITICAL, ''admin''),
     (''admin.db.migration'', CRITICAL, ''admin''), (''admin.config.change'', CRITICAL, ''admin''),
     (''tenant.create'', INFO, ''tenant''), (''tenant.suspend'', CRITICAL, ''tenant''),
     (''tenant.reactivate'', WARNING, ''tenant''), (''tenant.data.access'', WARNING, ''tenant''),
     (''tenant.purge'', CRITICAL, ''tenant''), (''tenant.plan.change'', WARNING, ''tenant''),
     (''dashboard.access'', INFO, ''misc''), (''dashboard.export'', WARNING, ''misc''),
     (''data.access.sensitive'', WARNING, ''misc''), (''system.error'', CRITICAL, ''misc'')]"

definition requires_reason :: "string list" where
  "requires_reason =
    [''license.revoked'', ''license.suspended'', ''rbac.role_changed'', ''rbac.user_blocked'',
     ''rbac.user_deleted'', ''risk.kill_switch.activated'', ''risk.kill_switch.reset'', ''risk.halt'',
     ''billing.refund'', ''admin.impersonate'', ''admin.force_logout'', ''tenant.suspend'', ''tenant.purge'']"

record audit_record =
  ar_id :: string
  ar_seq :: nat
  ar_event :: string
  ar_severity :: severity
  ar_ts :: time
  ar_user_id :: string
  ar_tenant_id :: string
  ar_actor_id :: string
  ar_ip :: string
  ar_reason :: string
  ar_detail :: "(string \<times> json) list"
  ar_chain_hash :: string
  ar_prev_hash :: string

record audit_chain =
  ac_records :: "audit_record list"
  ac_seq :: nat
  ac_prev :: string

definition max_records :: nat where "max_records = 50000"
definition max_age_hours :: real where "max_age_hours = 720"

definition genesis_hash :: "audit_codec \<Rightarrow> string" where
  "genesis_hash cd = au_hmac cd ''GENESIS:AUDIT:CHAIN:V21''"

definition new_audit_chain :: "audit_codec \<Rightarrow> audit_chain" where
  "new_audit_chain cd = \<lparr>ac_records = [], ac_seq = 0, ac_prev = genesis_hash cd\<rparr>"

subsection \<open>Recording\<close>

definition canonical :: "audit_codec \<Rightarrow> string \<Rightarrow> string \<Rightarrow> time \<Rightarrow> string \<Rightarrow> string \<Rightarrow> string \<Rightarrow> (string \<times> json) list \<Rightarrow> string" where
  "canonical cd rid ev ts uid tid reason detail =
     au_dumps cd (JObj [(''id'', JStr rid), (''event'', JStr ev), (''ts'', JStr (au_show cd ts)), (''user_id'', JStr uid),
       (''tenant_id'', JStr tid), (''reason'', JStr reason), (''detail'', JStr (au_dumps cd (JObj detail)))])"

definition compute_hash ::
  "audit_codec \<Rightarrow> string \<Rightarrow> string \<Rightarrow> string \<Rightarrow> time \<Rightarrow> string \<Rightarrow> string \<Rightarrow> string \<Rightarrow> (string \<times> json) list \<Rightarrow> string" where
  "compute_hash cd prev rid ev ts uid tid reason detail
     = au_hmac cd (prev @ '':'' @ canonical cd rid ev ts uid tid reason detail)"

record audit_entry =
  ae_id :: string
  ae_event :: string
  ae_user_id :: string
  ae_tenant_id :: string
  ae_actor_id :: string
  ae_ip :: string
  ae_reason :: string
  ae_detail :: "(string \<times> json) list"

definition event_severity :: "string \<Rightarrow> severity" where
  "event_severity ev = (case map_of event_meta ev of Some (sev, _) \<Rightarrow> sev | None \<Rightarrow> INFO)"

definition seal_record :: "audit_codec \<Rightarrow> string \<Rightarrow> nat \<times> time \<times> audit_entry \<Rightarrow> audit_record" where
  "seal_record cd prev c = (case c of (seq, ts, e) \<Rightarrow>
     \<lparr>ar_id = ae_id e, ar_seq = seq, ar_event = ae_event e, ar_severity = event_severity (ae_event e), ar_ts = ts,
      ar_user_id = ae_user_id e, ar_tenant_id = ae_tenant_id e, ar_actor_id = ae_actor_id e, ar_ip = ae_ip e,
      ar_reason = ae_reason e, ar_detail = ae_detail e,
      ar_chain_hash = compute_hash cd prev (ae_id e) (ae_event e) ts (ae_user_id e) (ae_tenant_id e) (ae_reason e) (ae_detail e),
      ar_prev_hash = prev\<rparr>)"

text \<open>\<open>_evict\<close>: first by age from the front, then down to the maximal number.\<close>

definition audit_evict :: "time \<Rightarrow> audit_record list \<Rightarrow> audit_record list" where
  "audit_evict now rs = take_last max_records (dropWhile (\<lambda>r. ar_ts r < now - max_age_hours * 3600) rs)"

definition missing_reason :: "string \<Rightarrow> string \<Rightarrow> bool" where
  "missing_reason ev reason \<longleftrightarrow> ev \<in> set requires_reason \<and> py_strip reason = []"

text \<open>\<open>MissingReasonError\<close> is a subclass of ValueError.\<close>

definition audit_append :: "audit_codec \<Rightarrow> time \<Rightarrow> audit_entry \<Rightarrow> audit_chain \<Rightarrow> (audit_record, audit_chain) outcome" where
  "audit_append cd now e a =
     (if missing_reason (ae_event e) (ae_reason e) then (Inl ValueError, a)
      else
        (let r = seal_record cd (ac_prev a) (ac_seq a + 1, now, e) in
         (Inr r, \<lparr>ac_records = audit_evict now (ac_records a @ [r]), ac_seq = ac_seq a + 1, ac_prev = ar_chain_hash r\<rparr>)))"

text \<open>
  The whole of \<open>record\<close>: a detail with a value that \<open>json.dumps\<close> does not know is \<open>None\<close> here. The number has been
  counted up by then, so the TypeError leaves a gap in the numbering; \<open>audit_append\<close> is the case of a JSON detail.
\<close>

definition audit_record_any :: "audit_codec \<Rightarrow> time \<Rightarrow> audit_entry \<Rightarrow> (string \<times> json) list option \<Rightarrow> audit_chain \<Rightarrow> (audit_record, audit_chain) outcome" where
  "audit_record_any cd now e detail a =
     (if missing_reason (ae_event e) (ae_reason e) then (Inl ValueError, a)
      else (case detail of
          None \<Rightarrow> (Inl TypeError, a\<lparr>ac_seq := ac_seq a + 1\<rparr>)
        | Some ms \<Rightarrow> audit_append cd now (e\<lparr>ae_detail := ms\<rparr>) a))"

lemma failed_record_leaves_a_gap:
  assumes "\<not> missing_reason (ae_event e) (ae_reason e)" and "\<not> missing_reason (ae_event e') (ae_reason e')"
  shows "\<exists>a' r a''. audit_record_any cd now e None a = (Inl TypeError, a') \<and> ac_records a' = ac_records a
    \<and> audit_record_any cd now' e' (Some ms) a' = (Inr r, a'') \<and> ar_seq r = ac_seq a + 2 \<and> ar_prev_hash r = ac_prev a"
  using assms by (simp add: audit_record_any_def audit_append_def seal_record_def Let_def)

subsection \<open>Verifying and querying\<close>

definition record_fits :: "audit_codec \<Rightarrow> string \<Rightarrow> audit_record \<Rightarrow> bool" where
  "record_fits cd prev r \<longleftrightarrow> ar_chain_hash r = compute_hash cd prev (ar_id r) (ar_event r) (ar_ts r) (ar_user_id r)
      (ar_tenant_id r) (ar_reason r) (ar_detail r) \<and> ar_prev_hash r = prev"

definition verify_chain :: "audit_codec \<Rightarrow> audit_chain \<Rightarrow> bool" where
  "verify_chain cd a = verify_from (record_fits cd) ar_chain_hash (genesis_hash cd) (ac_records a)"

definition detect_tamper :: "audit_codec \<Rightarrow> audit_chain \<Rightarrow> nat list" where
  "detect_tamper cd a = map ar_seq (broken_from (record_fits cd) ar_chain_hash (genesis_hash cd) (ac_records a))"

record audit_filter =
  af_user_id :: string
  af_tenant_id :: string
  af_event :: string
  af_severity :: "severity option"
  af_since :: time
  af_until :: time

text \<open>A filter that is empty or zero is not applied.\<close>

definition audit_matches :: "audit_filter \<Rightarrow> audit_record \<Rightarrow> bool" where
  "audit_matches f r \<longleftrightarrow> (af_user_id f = [] \<or> ar_user_id r = af_user_id f) \<and> (af_tenant_id f = [] \<or> ar_tenant_id r = af_tenant_id f)
     \<and> (af_event f = [] \<or> ar_event r = af_event f) \<and> (case af_severity f of None \<Rightarrow> True | Some s \<Rightarrow> ar_severity r = s)
     \<and> (af_since f = 0 \<or> af_since f \<le> ar_ts r) \<and> (af_until f = 0 \<or> ar_ts r \<le> af_until f)"

text \<open>The loop appends a match before it compares the number with the limit.\<close>

fun query_loop :: "audit_filter \<Rightarrow> int \<Rightarrow> audit_record list \<Rightarrow> audit_record list \<Rightarrow> audit_record list" where
  "query_loop f limit out [] = out"
| "query_loop f limit out (r # rs) =
     (if \<not> audit_matches f r then query_loop f limit out rs
      else (let out' = out @ [r] in if limit \<le> int (length out') then out' else query_loop f limit out' rs))"

definition audit_query :: "audit_filter \<Rightarrow> int \<Rightarrow> audit_chain \<Rightarrow> audit_record list" where
  "audit_query f limit a = query_loop f limit [] (rev (ac_records a))"

record audit_summary =
  as_total :: nat
  as_critical :: nat
  as_last_hash :: string
  as_genesis :: string
  as_seq_max :: nat

definition audit_summary_of :: "audit_codec \<Rightarrow> audit_chain \<Rightarrow> audit_summary" where
  "audit_summary_of cd a =
     (let rs = ac_records a in
      \<lparr>as_total = length rs, as_critical = length (filter (\<lambda>r. ar_severity r = CRITICAL) rs),
       as_last_hash = (if rs = [] then genesis_hash cd else ar_chain_hash (last rs)), as_genesis = genesis_hash cd,
       as_seq_max = (if rs = [] then 0 else ar_seq (last rs))\<rparr>)"

fun severity_value :: "severity \<Rightarrow> string" where
  "severity_value INFO = ''INFO''"
| "severity_value WARNING = ''WARNING''"
| "severity_value CRITICAL = ''CRITICAL''"

definition record_json :: "audit_record \<Rightarrow> json" where
  "record_json r = JObj [(''id'', JStr (ar_id r)), (''seq'', JInt (int (ar_seq r))), (''event'', JStr (ar_event r)),
     (''severity'', JStr (severity_value (ar_severity r))), (''ts'', JFloat (ar_ts r)), (''user_id'', JStr (ar_user_id r)),
     (''tenant_id'', JStr (ar_tenant_id r)), (''actor_id'', JStr (ar_actor_id r)), (''ip'', JStr (ar_ip r)),
     (''reason'', JStr (ar_reason r)), (''detail'', JObj (ar_detail r)), (''chain_hash'', JStr (ar_chain_hash r)),
     (''prev_hash'', JStr (ar_prev_hash r))]"

definition export_jsonl :: "audit_codec \<Rightarrow> audit_chain \<Rightarrow> string" where
  "export_jsonl cd a = py_join [CHR 0x0A] (map (\<lambda>r. au_dumps cd (record_json r)) (ac_records a))"

subsection \<open>The logger\<close>

text \<open>
  The convenience methods of the logger: the event each records and whether its caller must pass a reason. The
  write hooks are identified by numbers and exceptions in them are swallowed, so their trace is the log.
\<close>

definition logger_methods :: "(string \<times> string \<times> bool) list" where
  "logger_methods =
    [(''auth_login_ok'', ''auth.login.ok'', False), (''auth_login_fail'', ''auth.login.fail'', False),
     (''auth_login_lockout'', ''auth.login.lockout'', False), (''auth_logout'', ''auth.logout'', False),
     (''auth_token_reuse'', ''auth.token.reuse_detected'', False),
     (''rbac_role_changed'', ''rbac.role_changed'', True),
     (''rbac_user_blocked'', ''rbac.user_blocked'', True),
     (''rbac_user_deleted'', ''rbac.user_deleted'', True),
     (''rbac_escalation_attempt'', ''rbac.escalation_attempt'', False),
     (''license_issued'', ''license.issued'', False), (''license_activated'', ''license.activated'', False),
     (''license_expired'', ''license.expired'', False), (''license_revoked'', ''license.revoked'', True),
     (''license_suspended'', ''license.suspended'', True),
     (''license_device_add'', ''license.device.add'', False),
     (''license_device_remove'', ''license.device.remove'', False),
     (''billing_checkout'', ''billing.checkout'', False),
     (''billing_payment_ok'', ''billing.payment.ok'', False),
     (''billing_payment_fail'', ''billing.payment.fail'', False),
     (''billing_refund'', ''billing.refund'', True), (''billing_webhook_ok'', ''billing.webhook.ok'', False),
     (''billing_webhook_fail'', ''billing.webhook.fail'', False), (''trade_open'', ''trade.open'', False),
     (''trade_close'', ''trade.close'', False),
     (''trade_duplicate_blocked'', ''trade.duplicate_blocked'', False),
     (''signal_emit'', ''signal.emit'', False), (''signal_dedup_blocked'', ''signal.dedup_blocked'', False),
     (''recon_mismatch'', ''reconciliation.mismatch'', False),
     (''reconciliation_mismatch'', ''reconciliation.mismatch'', False),
     (''risk_drawdown_alert'', ''risk.drawdown.alert'', False),
     (''risk_drawdown_critical'', ''risk.drawdown.critical'', False),
     (''risk_kill_switch_on'', ''risk.kill_switch.activated'', True),
     (''risk_kill_switch_off'', ''risk.kill_switch.reset'', True), (''risk_halt'', ''risk.halt'', True),
     (''risk_heartbeat_loss'', ''risk.heartbeat.loss'', False),
     (''admin_audit_export'', ''admin.audit.export'', False),
     (''admin_chain_verify'', ''admin.audit.chain_verify'', False),
     (''admin_impersonate'', ''admin.impersonate'', True),
     (''admin_force_logout'', ''admin.force_logout'', True), (''tenant_suspend'', ''tenant.suspend'', True),
     (''tenant_purge'', ''tenant.purge'', True)]"

record audit_logger =
  lg_chain :: audit_chain
  lg_hooks :: "nat list"
  lg_fired :: "(nat \<times> audit_record) list"

definition logger_record :: "audit_codec \<Rightarrow> time \<Rightarrow> audit_entry \<Rightarrow> (string \<times> json) list \<Rightarrow> audit_logger \<Rightarrow> (audit_record, audit_logger) outcome" where
  "logger_record cd now e kw l =
     (case audit_append cd now (e\<lparr>ae_detail := fold (\<lambda>(k, v). od_put k v) kw (ae_detail e)\<rparr>) (lg_chain l) of
        (Inl x, a) \<Rightarrow> (Inl x, l\<lparr>lg_chain := a\<rparr>)
      | (Inr r, a) \<Rightarrow> (Inr r, l\<lparr>lg_chain := a, lg_fired := lg_fired l @ map (\<lambda>h. (h, r)) (lg_hooks l)\<rparr>))"

definition add_write_hook :: "nat \<Rightarrow> audit_logger \<Rightarrow> audit_logger" where
  "add_write_hook h l = l\<lparr>lg_hooks := lg_hooks l @ [h]\<rparr>"

text \<open>A convenience method: None when there is no method of that name.\<close>

definition logger_call ::
  "audit_codec \<Rightarrow> time \<Rightarrow> string \<Rightarrow> audit_entry \<Rightarrow> (string \<times> json) list \<Rightarrow> audit_logger \<Rightarrow> (audit_record, audit_logger) outcome option" where
  "logger_call cd now method e kw l =
     (case map_of logger_methods method of
        None \<Rightarrow> None
      | Some (ev, _) \<Rightarrow> Some (logger_record cd now (e\<lparr>ae_event := ev\<rparr>) kw l))"

interpretation audit_links: linked_chain "record_fits cd" ar_chain_hash "seal_record cd" ar_prev_hash for cd
  by unfold_locales (auto simp: record_fits_def seal_record_def split: prod.split)

subsection \<open>Runs\<close>

definition audit_step :: "audit_codec \<Rightarrow> time \<times> audit_entry \<Rightarrow> audit_chain \<Rightarrow> audit_chain" where
  "audit_step cd op a = snd (audit_append cd (fst op) (snd op) a)"

text \<open>The records held are the newest of all records ever sealed, in order.\<close>

definition sealed_history :: "audit_codec \<Rightarrow> audit_record list \<Rightarrow> audit_chain \<Rightarrow> bool" where
  "sealed_history cd full a \<longleftrightarrow> verify_from (record_fits cd) ar_chain_hash (genesis_hash cd) full
     \<and> map ar_seq full = [1..<Suc (ac_seq a)] \<and> ac_prev a = last_hash ar_chain_hash (genesis_hash cd) full
     \<and> (\<exists>n. n \<le> length full \<and> ac_records a = List.drop n full) \<and> (full \<noteq> [] \<longrightarrow> ac_records a \<noteq> [])
     \<and> length (ac_records a) \<le> max_records"

lemma audit_evict_drop: "\<exists>n. audit_evict now rs = List.drop n rs"
proof -
  have "\<exists>m. dropWhile P rs = List.drop m rs" for P :: "audit_record \<Rightarrow> bool"
    using dropWhile_eq_drop by blast
  then show ?thesis unfolding audit_evict_def take_last_def by (metis drop_drop)
qed

lemma audit_evict_keeps_new:
  assumes "ar_ts r = now" shows "audit_evict now (rs @ [r]) \<noteq> []"
proof -
  have "\<not> ar_ts r < now - max_age_hours * 3600" using assms by (simp add: max_age_hours_def)
  then have "dropWhile (\<lambda>r. ar_ts r < now - max_age_hours * 3600) (rs @ [r]) \<noteq> []" by (simp add: dropWhile_append1)
  moreover have "take_last max_records xs = [] \<longleftrightarrow> xs = []" for xs :: "audit_record list"
    by (metis length_0_conv length_take_last max_records_def min_0R min_def zero_neq_numeral)
  ultimately show ?thesis by (simp add: audit_evict_def)
qed

lemma sealed_history_step:
  assumes "sealed_history cd full a"
  shows "\<exists>full'. sealed_history cd full' (audit_step cd op a)"
proof (cases "missing_reason (ae_event (snd op)) (ae_reason (snd op))")
  case True
  with assms show ?thesis by (auto simp: audit_step_def audit_append_def)
next
  case False
  define r where "r = seal_record cd (ac_prev a) (ac_seq a + 1, fst op, snd op)"
  have r: "ar_ts r = fst op" "ar_seq r = Suc (ac_seq a)" by (simp_all add: r_def seal_record_def split: prod.split)
  have step: "audit_step cd op a = \<lparr>ac_records = audit_evict (fst op) (ac_records a @ [r]), ac_seq = Suc (ac_seq a),
      ac_prev = ar_chain_hash r\<rparr>"
    using False by (simp add: audit_step_def audit_append_def Let_def r_def)
  obtain n where n: "n \<le> length full" "ac_records a = List.drop n full" using assms by (auto simp: sealed_history_def)
  obtain m where m: "audit_evict (fst op) (ac_records a @ [r]) = List.drop m (ac_records a @ [r])"
    using audit_evict_drop by blast
  have "ac_records a @ [r] = List.drop n (full @ [r])" using n by simp
  then have drop: "audit_evict (fst op) (ac_records a @ [r]) = List.drop (m + n) (full @ [r])" using m drop_drop by metis
  have cut: "\<exists>k. k \<le> Suc (length full) \<and> audit_evict (fst op) (ac_records a @ [r]) = List.drop k (full @ [r])"
    using drop by (cases "m + n \<le> Suc (length full)") (blast, auto intro: exI [of _ "Suc (length full)"])
  have prev: "ac_prev a = last_hash ar_chain_hash (genesis_hash cd) full" using assms by (simp add: sealed_history_def)
  have fits: "verify_from (record_fits cd) ar_chain_hash (genesis_hash cd) (full @ [r])"
    using assms audit_links.verify_snoc [of cd "genesis_hash cd" full "(ac_seq a + 1, op)"]
    by (simp add: sealed_history_def r_def)
  have "map ar_seq (full @ [r]) = [1..<Suc (Suc (ac_seq a))]" using assms r(2) by (simp add: sealed_history_def)
  then have "sealed_history cd (full @ [r]) (audit_step cd op a)"
    using fits cut audit_evict_keeps_new [OF r(1), of "ac_records a"]
    by (simp add: sealed_history_def step del: map_append upt_Suc) (simp add: audit_evict_def)
  then show ?thesis by blast
qed

lemma sealed_history_run:
  "sealed_history cd full a \<Longrightarrow> \<exists>full'. sealed_history cd full' (fold (audit_step cd) ops a)"
proof (induction ops arbitrary: full a)
  case (Cons op ops)
  then show ?case using sealed_history_step [OF Cons.prems, of op] by auto
qed auto

lemma sealed_history_new: "sealed_history cd [] (new_audit_chain cd)"
  by (simp add: sealed_history_def new_audit_chain_def)

text \<open>Every record of a verified chain was sealed after the genesis hash or an HMAC value.\<close>

lemma verified_prev:
  "verify_from (record_fits cd) ar_chain_hash p rs \<Longrightarrow> r \<in> set rs \<Longrightarrow> ar_prev_hash r = p \<or> (\<exists>m. ar_prev_hash r = au_hmac cd m)"
proof (induction rs arbitrary: p)
  case (Cons s rs)
  show ?case
  proof (cases "r = s")
    case True
    with Cons.prems show ?thesis by (simp add: record_fits_def)
  next
    case False
    then have "ar_prev_hash r = ar_chain_hash s \<or> (\<exists>m. ar_prev_hash r = au_hmac cd m)" using Cons by auto
    moreover have "\<exists>m. ar_chain_hash s = au_hmac cd m" using Cons.prems(1) by (auto simp: record_fits_def compute_hash_def)
    ultimately show ?thesis by metis
  qed
qed simp

lemma last_hash_hmac:
  assumes "verify_from (record_fits cd) ar_chain_hash (genesis_hash cd) rs" and "rs \<noteq> []"
  shows "\<exists>p m. last_hash ar_chain_hash (genesis_hash cd) rs = au_hmac cd (au_hmac cd p @ '':'' @ m)"
proof -
  obtain ts t where rs: "rs = ts @ [t]" using assms(2) by (cases rs rule: rev_cases) auto
  obtain q where "ar_prev_hash t = au_hmac cd q"
    using verified_prev [OF assms(1), of t] rs by (auto simp: genesis_hash_def)
  moreover have "ar_chain_hash t = au_hmac cd (ar_prev_hash t @ '':'' @ canonical cd (ar_id t) (ar_event t) (ar_ts t) (ar_user_id t)
      (ar_tenant_id t) (ar_reason t) (ar_detail t))"
    using assms(1) rs by (auto simp: verify_append record_fits_def compute_hash_def)
  ultimately show ?thesis unfolding rs by (metis last_hash_simps(3))
qed

text \<open>
  C16: whatever is recorded (with details that are JSON values), refused for a missing reason and evicted, the records held are linked, numbered
  consecutively up to the newest, at most the maximal number, and every record links to the hash the next one
  is sealed after. The verification accepts the chain exactly as long as nothing was evicted: from the first
  eviction on, by age or by number, an untouched chain is reported as tampered, provided no record's HMAC
  collides with the genesis hash.
\<close>

theorem audit_chain_verifies_until_eviction:
  assumes "\<And>p m. au_hmac cd (au_hmac cd p @ '':'' @ m) \<noteq> genesis_hash cd"
  shows "let a = fold (audit_step cd) ops (new_audit_chain cd); rs = ac_records a in
    map ar_seq rs = [Suc (ac_seq a) - length rs..<Suc (ac_seq a)] \<and> length rs \<le> max_records
    \<and> ac_prev a = last_hash ar_chain_hash (genesis_hash cd) rs
    \<and> (case rs of [] \<Rightarrow> ac_seq a = 0 | r # _ \<Rightarrow> verify_from (record_fits cd) ar_chain_hash (ar_prev_hash r) rs)
    \<and> verify_chain cd a = (length rs = ac_seq a)"
proof -
  define a where "a = fold (audit_step cd) ops (new_audit_chain cd)"
  obtain full where full: "sealed_history cd full a"
    using sealed_history_run [OF sealed_history_new] unfolding a_def by blast
  then obtain n where n: "n \<le> length full" "ac_records a = List.drop n full" by (auto simp: sealed_history_def)
  have valid: "verify_from (record_fits cd) ar_chain_hash (genesis_hash cd) full" using full by (simp add: sealed_history_def)
  have seqs: "map ar_seq full = [1..<Suc (ac_seq a)]" using full by (simp add: sealed_history_def)
  then have len: "length full = ac_seq a" by (metis diff_Suc_1 length_map length_upt)
  have nonempty: "full \<noteq> [] \<Longrightarrow> n < length full" using full n by (auto simp: sealed_history_def)
  have held: "map ar_seq (ac_records a) = [Suc (ac_seq a) - length (ac_records a)..<Suc (ac_seq a)]"
    using n len by (simp add: drop_map [symmetric] seqs drop_upt)
  have suffix: "verify_from (record_fits cd) ar_chain_hash (last_hash ar_chain_hash (genesis_hash cd) (take n full)) (ac_records a)"
    using verify_suffix [OF valid, of n] n(2) by simp
  have links: "case ac_records a of [] \<Rightarrow> ac_seq a = 0
      | r # _ \<Rightarrow> verify_from (record_fits cd) ar_chain_hash (ar_prev_hash r) (ac_records a)"
  proof (cases "ac_records a")
    case Nil
    then show ?thesis using full len by (auto simp: sealed_history_def)
  next
    case (Cons r rs)
    with suffix show ?thesis using audit_links.verify_head [OF suffix [unfolded Cons]] by simp
  qed
  have verdict: "verify_chain cd a = (length (ac_records a) = ac_seq a)"
  proof (cases "n = 0")
    case True
    with n valid len show ?thesis by (simp add: verify_chain_def)
  next
    case False
    then have "take n full \<noteq> []" "full \<noteq> []" using n(1) by auto
    moreover have "verify_from (record_fits cd) ar_chain_hash (genesis_hash cd) (take n full)"
      using valid verify_append [of "record_fits cd" ar_chain_hash "genesis_hash cd" "take n full" "List.drop n full"] by simp
    ultimately have "last_hash ar_chain_hash (genesis_hash cd) (take n full) \<noteq> genesis_hash cd"
      using last_hash_hmac assms by metis
    then have "\<not> verify_chain cd a"
      using audit_links.shortened_fails [OF valid] nonempty \<open>full \<noteq> []\<close> n(2) by (simp add: verify_chain_def)
    moreover have "length (ac_records a) \<noteq> ac_seq a" using n len False by simp
    ultimately show ?thesis by simp
  qed
  have "ac_prev a = last_hash ar_chain_hash (genesis_hash cd) (ac_records a)"
    using full n nonempty by (cases "full = []") (auto simp: sealed_history_def last_hash_def)
  then show ?thesis using held links verdict full unfolding Let_def a_def [symmetric] by (simp add: sealed_history_def)
qed

text \<open>An HMAC whose values are single letters, for the examples.\<close>

definition letter_codec :: audit_codec where
  "letter_codec = \<lparr>au_hmac = (\<lambda>m. if take 7 m = ''GENESIS'' then ''g'' else ''h''), au_dumps = (\<lambda>_. []), au_show = (\<lambda>_. [])\<rparr>"

definition login_entry :: audit_entry where
  "login_entry = \<lparr>ae_id = ''r'', ae_event = ''auth.login.ok'', ae_user_id = ''u'', ae_tenant_id = [], ae_actor_id = [],
     ae_ip = ''10.0.0.1'', ae_reason = [], ae_detail = []\<rparr>"

lemma audit_chain_verifies_until_eviction_witness:
  "\<not> verify_chain letter_codec
      (fold (audit_step letter_codec) [(0, login_entry), (800 * 3600, login_entry)] (new_audit_chain letter_codec))"
proof -
  have "au_hmac letter_codec (au_hmac letter_codec p @ '':'' @ m) \<noteq> genesis_hash letter_codec" for p m
    by (simp add: letter_codec_def genesis_hash_def)
  note verdict = audit_chain_verifies_until_eviction [OF this, of "[(0, login_entry), (800 * 3600, login_entry)]"]
  have "let a = fold (audit_step letter_codec) [(0, login_entry), (800 * 3600, login_entry)] (new_audit_chain letter_codec)
      in length (ac_records a) = 1 \<and> ac_seq a = 2"
    by (simp add: audit_step_def audit_append_def missing_reason_def requires_reason_def login_entry_def new_audit_chain_def
        seal_record_def audit_evict_def max_age_hours_def max_records_def Let_def)
  with verdict show ?thesis by (simp add: Let_def)
qed

subsection \<open>What the chain proves\<close>

lemma separator_unique:
  "c \<notin> set p \<Longrightarrow> c \<notin> set q \<Longrightarrow> p @ c # x = q @ c # y \<Longrightarrow> p = q \<and> x = y"
proof (induction p arbitrary: q)
  case Nil
  then show ?case by (cases q) auto
next
  case (Cons a p)
  then show ?case by (cases q) auto
qed

definition sealed_text :: "audit_codec \<Rightarrow> audit_record \<Rightarrow> string" where
  "sealed_text cd r = canonical cd (ar_id r) (ar_event r) (ar_ts r) (ar_user_id r) (ar_tenant_id r) (ar_reason r) (ar_detail r)"

lemma record_fits_text:
  "record_fits cd p r \<longleftrightarrow> ar_chain_hash r = au_hmac cd (p @ '':'' @ sealed_text cd r) \<and> ar_prev_hash r = p"
  by (simp add: record_fits_def compute_hash_def sealed_text_def)

text \<open>
  Tampering is evident. Of two chains of the same length that both verify and that show the same last hash in
  their summaries, every record has the same sealed text, the same hash and the same link, in the same order,
  provided the HMAC separates the texts that the two chains seal and its values are free of the separator.
\<close>

theorem audit_tampering_is_evident:
  assumes "verify_chain cd a" and "verify_chain cd b"
    and "as_last_hash (audit_summary_of cd a) = as_last_hash (audit_summary_of cd b)"
    and "length (ac_records a) = length (ac_records b)"
    and inj: "inj_on (au_hmac cd) ((\<lambda>r. ar_prev_hash r @ '':'' @ sealed_text cd r) ` set (ac_records a @ ac_records b))"
    and hex: "\<And>m. CHR '':'' \<notin> set (au_hmac cd m)"
  shows "map (\<lambda>r. (sealed_text cd r, ar_chain_hash r, ar_prev_hash r)) (ac_records a)
    = map (\<lambda>r. (sealed_text cd r, ar_chain_hash r, ar_prev_hash r)) (ac_records b)"
proof (rule verified_determined [of "record_fits cd" ar_chain_hash "genesis_hash cd"])
  show va: "verify_from (record_fits cd) ar_chain_hash (genesis_hash cd) (ac_records a)"
    and vb: "verify_from (record_fits cd) ar_chain_hash (genesis_hash cd) (ac_records b)"
    using assms(1,2) by (simp_all add: verify_chain_def)
  have clean: "CHR '':'' \<notin> set (ar_prev_hash r)" if "r \<in> set (ac_records a) \<or> r \<in> set (ac_records b)" for r
    using that verified_prev [OF va] verified_prev [OF vb] hex unfolding genesis_hash_def by metis
  show "last_hash ar_chain_hash (genesis_hash cd) (ac_records a) = last_hash ar_chain_hash (genesis_hash cd) (ac_records b)"
    using assms(3) by (simp add: audit_summary_of_def last_hash_def Let_def)
  show "length (ac_records a) = length (ac_records b)" by (fact assms(4))
  fix p q r t
  assume rt: "r \<in> set (ac_records a)" "t \<in> set (ac_records b)" and fits: "record_fits cd p r" "record_fits cd q t"
    and same: "ar_chain_hash r = ar_chain_hash t"
  have "ar_prev_hash r @ CHR '':'' # sealed_text cd r = ar_prev_hash t @ CHR '':'' # sealed_text cd t"
    using inj_onD [OF inj, of "ar_prev_hash r @ '':'' @ sealed_text cd r" "ar_prev_hash t @ '':'' @ sealed_text cd t"]
      fits same rt by (simp add: record_fits_text)
  then have "ar_prev_hash r = ar_prev_hash t \<and> sealed_text cd r = sealed_text cd t"
    using separator_unique clean rt by metis
  then show "p = q \<and> (sealed_text cd r, ar_chain_hash r, ar_prev_hash r) = (sealed_text cd t, ar_chain_hash t, ar_prev_hash t)"
    using fits same by (simp add: record_fits_text)
qed

lemma audit_tampering_is_evident_witness:
  "let a = fold (audit_step letter_codec) [(0, login_entry)] (new_audit_chain letter_codec)
   in map (\<lambda>r. (sealed_text letter_codec r, ar_chain_hash r, ar_prev_hash r)) (ac_records a)
        = map (\<lambda>r. (sealed_text letter_codec r, ar_chain_hash r, ar_prev_hash r)) (map (\<lambda>r. r\<lparr>ar_ip := ''10.0.0.2''\<rparr>) (ac_records a))"
proof -
  define a where "a = fold (audit_step letter_codec) [(0, login_entry)] (new_audit_chain letter_codec)"
  define b where "b = a\<lparr>ac_records := map (\<lambda>r. r\<lparr>ar_ip := ''10.0.0.2''\<rparr>) (ac_records a)\<rparr>"
  have a: "a = \<lparr>ac_records = [seal_record letter_codec ''g'' (1, 0, login_entry)], ac_seq = 1, ac_prev = ''h''\<rparr>"
    by (simp add: a_def audit_step_def audit_append_def missing_reason_def requires_reason_def login_entry_def
        new_audit_chain_def seal_record_def audit_evict_def max_age_hours_def max_records_def letter_codec_def genesis_hash_def
        compute_hash_def canonical_def Let_def)
  have "verify_chain letter_codec a" "verify_chain letter_codec b"
    by (simp_all add: b_def a verify_chain_def record_fits_def seal_record_def letter_codec_def genesis_hash_def)
  moreover have "as_last_hash (audit_summary_of letter_codec a) = as_last_hash (audit_summary_of letter_codec b)"
    "length (ac_records a) = length (ac_records b)"
    by (simp_all add: b_def a audit_summary_of_def seal_record_def Let_def)
  moreover have "inj_on (au_hmac letter_codec)
      ((\<lambda>r. ar_prev_hash r @ '':'' @ sealed_text letter_codec r) ` set (ac_records a @ ac_records b))"
    by (simp add: b_def a sealed_text_def seal_record_def)
  moreover have "CHR '':'' \<notin> set (au_hmac letter_codec m)" for m by (simp add: letter_codec_def)
  ultimately have "map (\<lambda>r. (sealed_text letter_codec r, ar_chain_hash r, ar_prev_hash r)) (ac_records a)
    = map (\<lambda>r. (sealed_text letter_codec r, ar_chain_hash r, ar_prev_hash r)) (ac_records b)"
    by (rule audit_tampering_is_evident)
  then show ?thesis unfolding Let_def a_def [symmetric] by (simp add: b_def)
qed

text \<open>What the chain does not prove: number, severity, actor and address of a record are outside the seal.\<close>

lemma unsealed_fields_can_change:
  "verify_chain cd (a\<lparr>ac_records := map (\<lambda>r. r\<lparr>ar_seq := sq r, ar_severity := sv r, ar_actor_id := ac r, ar_ip := ip r\<rparr>) (ac_records a)\<rparr>)
     = verify_chain cd a"
proof -
  have "verify_from (record_fits cd) ar_chain_hash p (map (\<lambda>r. r\<lparr>ar_seq := sq r, ar_severity := sv r, ar_actor_id := ac r, ar_ip := ip r\<rparr>) rs)
    = verify_from (record_fits cd) ar_chain_hash p rs" for p rs
    by (induction rs arbitrary: p) (simp_all add: record_fits_def)
  then show ?thesis by (simp add: verify_chain_def)
qed

text \<open>A query with a positive limit returns the newest matches; with limit 0 it still returns one.\<close>

lemma query_loop_take:
  "int (length out) < limit \<Longrightarrow> query_loop f limit out rs = take (nat limit) (out @ filter (audit_matches f) rs)"
proof (induction rs arbitrary: out)
  case (Cons r rs)
  show ?case
  proof (cases "audit_matches f r \<and> limit \<le> int (Suc (length out))")
    case True
    with Cons.prems have limit: "limit = int (Suc (length out))" by auto
    show ?thesis using True unfolding limit nat_int by (simp add: Let_def)
  next
    case False
    then have "audit_matches f r \<Longrightarrow> int (length (out @ [r])) < limit" by simp
    with Cons False show ?thesis by (cases "audit_matches f r") (auto simp: Let_def simp del: take_append)
  qed
qed simp

lemma audit_query_take: "0 < limit \<Longrightarrow> audit_query f limit a = take (nat limit) (filter (audit_matches f) (rev (ac_records a)))"
  by (simp add: audit_query_def query_loop_take)

lemma query_limit_zero:
  "audit_query f 0 a = (case filter (audit_matches f) (rev (ac_records a)) of [] \<Rightarrow> [] | r # _ \<Rightarrow> [r])"
proof -
  have "query_loop f 0 [] rs = (case filter (audit_matches f) rs of [] \<Rightarrow> [] | r # _ \<Rightarrow> [r])" for rs
    by (induction rs) simp_all
  then show ?thesis by (simp add: audit_query_def)
qed

end
