(* ===== verification/Key_Rotation.thy ===== *)
theory Key_Rotation
  imports Hash_Chain Json
begin

section \<open>Key rotation\<close>

text \<open>
  \<open>src/backend/core/secret_rotation.py\<close>: versioned keys with their life cycle, rotation policies, the audit chain
  of the key store, payload signatures, compromise reports, scheduled and automatic rotation. HMAC-SHA256 (under
  the chain's secret, the master secret and a key's own material) and \<open>json.dumps\<close> are parameters; fresh ids and
  key material and the clock are arguments. Key types are their string values: every operation reads
  \<open>.value\<close> first. A key object lives in the store under its id, so a key is mutated by putting it back.
\<close>

datatype key_status = KActive | KGrace | KRevoked | KExpired | KPending

datatype rotation_trigger = Scheduled | Compromise | Manual | PolicyAge | PolicyUse | Bootstrap

abbreviation KeyNotFoundError :: exc where "KeyNotFoundError \<equiv> OtherError ''KeyNotFoundError''"
abbreviation KeyRevokedError :: exc where "KeyRevokedError \<equiv> OtherError ''KeyRevokedError''"
abbreviation KeyExpiredError :: exc where "KeyExpiredError \<equiv> OtherError ''KeyExpiredError''"
abbreviation ReasonError :: exc where "ReasonError \<equiv> OtherError ''MissingReasonError''"
abbreviation PolicyViolationError :: exc where "PolicyViolationError \<equiv> OtherError ''PolicyViolationError''"

record key_codec =
  kc_chain :: "string \<Rightarrow> string"
  kc_dumps :: "json \<Rightarrow> string"
  kc_master :: "string \<Rightarrow> string"
  kc_mac :: "string \<Rightarrow> string \<Rightarrow> string"

definition blank :: "string option \<Rightarrow> bool" where
  "blank r = (case r of None \<Rightarrow> True | Some s \<Rightarrow> py_strip s = [])"

definition opt_json :: "string option \<Rightarrow> json" where
  "opt_json s = (case s of None \<Rightarrow> JNull | Some t \<Rightarrow> JStr t)"

subsection \<open>The audit chain of the key store\<close>

record key_entry =
  ke_seq :: nat
  ke_action :: string
  ke_key_id :: string
  ke_key_type :: string
  ke_version :: nat
  ke_actor :: string
  ke_tenant :: "string option"
  ke_reason :: "string option"
  ke_detail :: "(string \<times> json) list"
  ke_ts :: time
  ke_prev_hash :: string
  ke_chain_hash :: string

record secret_chain =
  sc_entries :: "key_entry list"
  sc_seq :: nat
  sc_prev :: string

definition max_entries :: nat where "max_entries = 10000"

definition secret_genesis :: "key_codec \<Rightarrow> string" where
  "secret_genesis kc = kc_chain kc ''GENESIS:SECRET:CHAIN:V29''"

definition new_secret_chain :: "key_codec \<Rightarrow> secret_chain" where
  "new_secret_chain kc = \<lparr>sc_entries = [], sc_seq = 0, sc_prev = secret_genesis kc\<rparr>"

definition actions_with_reason :: "string list" where
  "actions_with_reason = [''key.revoked'', ''key.compromise_ack'', ''key.emergency_rotation'', ''key.expired'']"

definition entry_text :: "key_codec \<Rightarrow> key_entry \<Rightarrow> string" where
  "entry_text kc e = kc_dumps kc (JObj [(''action'', JStr (ke_action e)), (''key_id'', JStr (ke_key_id e)),
     (''key_type'', JStr (ke_key_type e)), (''version'', JInt (int (ke_version e))), (''actor'', JStr (ke_actor e)),
     (''tenant_id'', opt_json (ke_tenant e)), (''reason'', opt_json (ke_reason e)), (''detail'', JObj (ke_detail e))])"

text \<open>An entry is drafted with empty hashes and sealed after the previous hash.\<close>

definition seal_entry :: "key_codec \<Rightarrow> string \<Rightarrow> key_entry \<Rightarrow> key_entry" where
  "seal_entry kc prev e = e\<lparr>ke_prev_hash := prev, ke_chain_hash := kc_chain kc (prev @ '':'' @ entry_text kc e)\<rparr>"

definition secret_record ::
  "key_codec \<Rightarrow> time \<Rightarrow> string \<Rightarrow> string \<Rightarrow> string \<Rightarrow> nat \<Rightarrow> string \<Rightarrow> string option \<Rightarrow> string option
    \<Rightarrow> secret_chain \<Rightarrow> (key_entry, secret_chain) outcome" where
  "secret_record kc now action kid kt v actor tid reason c =
     (if action \<in> set actions_with_reason \<and> blank reason then (Inl ReasonError, c)
      else
        (let e = seal_entry kc (sc_prev c)
             \<lparr>ke_seq = sc_seq c + 1, ke_action = action, ke_key_id = kid, ke_key_type = kt, ke_version = v, ke_actor = actor,
              ke_tenant = tid, ke_reason = reason, ke_detail = [], ke_ts = now, ke_prev_hash = [], ke_chain_hash = []\<rparr>
         in (Inr e, \<lparr>sc_entries = take_last max_entries (sc_entries c @ [e]), sc_seq = sc_seq c + 1, sc_prev = ke_chain_hash e\<rparr>)))"

text \<open>The verifier compares the hash only: the stored link \<open>prev_hash\<close> is never looked at.\<close>

definition entry_fits :: "key_codec \<Rightarrow> string \<Rightarrow> key_entry \<Rightarrow> bool" where
  "entry_fits kc prev e \<longleftrightarrow> ke_chain_hash e = kc_chain kc (prev @ '':'' @ entry_text kc e)"

definition secret_verify :: "key_codec \<Rightarrow> secret_chain \<Rightarrow> bool" where
  "secret_verify kc c = verify_from (entry_fits kc) ke_chain_hash (secret_genesis kc) (sc_entries c)"

definition detect_tampered :: "key_codec \<Rightarrow> secret_chain \<Rightarrow> nat list" where
  "detect_tampered kc c = map ke_seq (broken_from (entry_fits kc) ke_chain_hash (secret_genesis kc) (sc_entries c))"

text \<open>Empty arguments do not filter; a limit of 0 or less means no limit.\<close>

definition secret_query :: "string \<Rightarrow> string \<Rightarrow> string \<Rightarrow> int \<Rightarrow> secret_chain \<Rightarrow> key_entry list" where
  "secret_query kid action kt limit c =
     (let es = rev (sc_entries c);
          es1 = (if kid \<noteq> [] then filter (\<lambda>e. ke_key_id e = kid) es else es);
          es2 = (if action \<noteq> [] then filter (\<lambda>e. ke_action e = action) es1 else es1);
          es3 = (if kt \<noteq> [] then filter (\<lambda>e. ke_key_type e = kt) es2 else es2)
      in if limit > 0 then take (nat limit) es3 else es3)"

interpretation secret_links: hash_chain "entry_fits kc" ke_chain_hash "seal_entry kc" for kc
  by unfold_locales (simp add: entry_fits_def seal_entry_def entry_text_def)

subsection \<open>Keys and policies\<close>

record rotation_policy =
  rp_max_age_days :: int
  rp_grace_days :: int
  rp_max_uses :: int
  rp_auto :: bool

record key_version =
  kv_id :: string
  kv_type :: string
  kv_version :: nat
  kv_status :: key_status
  kv_created :: time
  kv_activated :: "time option"
  kv_expires :: "time option"
  kv_rotated :: "time option"
  kv_revoked :: "time option"
  kv_uses :: int
  kv_tenant :: "string option"
  kv_raw :: string
  kv_signature :: string
  kv_trigger :: rotation_trigger
  kv_reason :: "string option"

definition policy :: "int \<Rightarrow> int \<Rightarrow> int \<Rightarrow> bool \<Rightarrow> rotation_policy" where
  "policy age grace uses auto = \<lparr>rp_max_age_days = age, rp_grace_days = grace, rp_max_uses = uses, rp_auto = auto\<rparr>"

definition policy_defaults :: "(string, rotation_policy) odict" where
  "policy_defaults =
    [(''jwt_signing'', policy 30 7 0 True), (''jwt_refresh'', policy 90 14 0 True),
     (''encryption_dek'', policy 90 30 1000000 True), (''encryption_kek'', policy 365 60 0 False),
     (''signing_artifact'', policy 180 30 0 True), (''webhook_hmac'', policy 60 14 0 True),
     (''audit_chain'', policy 365 90 0 False), (''api_secret'', policy 90 7 0 True),
     (''backup_encrypt'', policy 365 60 0 False), (''tenant_isolation'', policy 180 30 0 True)]"

definition max_age_seconds :: "rotation_policy \<Rightarrow> real" where
  "max_age_seconds p = of_int (rp_max_age_days p) * 86400"

definition grace_seconds :: "rotation_policy \<Rightarrow> real" where
  "grace_seconds p = of_int (rp_grace_days p) * 86400"

definition usable_for_verify :: "key_version \<Rightarrow> bool" where
  "usable_for_verify kv \<longleftrightarrow> kv_status kv \<in> {KActive, KGrace}"

text \<open>Sizes of fresh key material, in bytes.\<close>

definition key_sizes :: "(string \<times> nat) list" where
  "key_sizes = [(''jwt_signing'', 64), (''jwt_refresh'', 64), (''encryption_dek'', 32), (''encryption_kek'', 32),
     (''signing_artifact'', 64), (''webhook_hmac'', 32), (''audit_chain'', 32), (''api_secret'', 32),
     (''backup_encrypt'', 32), (''tenant_isolation'', 32)]"

definition key_size :: "string \<Rightarrow> nat" where
  "key_size kt = (case map_of key_sizes kt of None \<Rightarrow> 32 | Some n \<Rightarrow> n)"

definition key_sign :: "key_codec \<Rightarrow> key_version \<Rightarrow> string" where
  "key_sign kc kv = kc_master kc (kc_dumps kc (JObj [(''key_id'', JStr (kv_id kv)), (''key_type'', JStr (kv_type kv)),
     (''version'', JInt (int (kv_version kv))), (''tenant_id'', opt_json (kv_tenant kv))]))"

definition self_auth_valid :: "key_codec \<Rightarrow> key_version \<Rightarrow> bool" where
  "self_auth_valid kc kv \<longleftrightarrow> key_sign kc kv = kv_signature kv"

record lifecycle =
  lc_store :: "(string, key_version) odict"
  lc_audit :: secret_chain
  lc_policies :: "(string, rotation_policy) odict"
  lc_versions :: "(string, nat) odict"
  lc_hooks :: "nat list"
  lc_fired :: "(nat \<times> string \<times> key_version) list"

definition new_lifecycle :: "key_codec \<Rightarrow> lifecycle" where
  "new_lifecycle kc = \<lparr>lc_store = [], lc_audit = new_secret_chain kc, lc_policies = policy_defaults, lc_versions = [],
     lc_hooks = [], lc_fired = []\<rparr>"

subsection \<open>The store\<close>

definition key_add :: "key_version \<Rightarrow> lifecycle \<Rightarrow> lifecycle" where
  "key_add kv lc = lc\<lparr>lc_store := od_put (kv_id kv) kv (lc_store lc)\<rparr>"

definition key_get :: "string \<Rightarrow> lifecycle \<Rightarrow> exc + key_version" where
  "key_get kid lc = (case od_get (lc_store lc) kid of None \<Rightarrow> Inl KeyNotFoundError | Some kv \<Rightarrow> Inr kv)"

definition of_tenant :: "string option \<Rightarrow> key_version \<Rightarrow> bool" where
  "of_tenant tid kv \<longleftrightarrow> tid = None \<or> kv_tenant kv = tid"

fun newest_of :: "key_version \<Rightarrow> key_version list \<Rightarrow> key_version" where
  "newest_of b [] = b"
| "newest_of b (k # ks) = newest_of (if kv_version b < kv_version k then k else b) ks"

definition active_key :: "string \<Rightarrow> string option \<Rightarrow> lifecycle \<Rightarrow> exc + key_version" where
  "active_key kt tid lc =
     (case filter (\<lambda>kv. kv_type kv = kt \<and> kv_status kv = KActive \<and> of_tenant tid kv) (map snd (lc_store lc)) of
        [] \<Rightarrow> Inl KeyNotFoundError
      | k # ks \<Rightarrow> Inr (newest_of k ks))"

definition usable_keys :: "string \<Rightarrow> string option \<Rightarrow> lifecycle \<Rightarrow> key_version list" where
  "usable_keys kt tid lc = filter (\<lambda>kv. kv_type kv = kt \<and> usable_for_verify kv \<and> of_tenant tid kv) (map snd (lc_store lc))"

text \<open>Here an empty tenant does not filter.\<close>

definition list_by_type :: "string \<Rightarrow> string option \<Rightarrow> lifecycle \<Rightarrow> key_version list" where
  "list_by_type kt tid lc =
     filter (\<lambda>kv. kv_type kv = kt \<and> (tid = None \<or> tid = Some [] \<or> kv_tenant kv = tid)) (map snd (lc_store lc))"

definition all_keys :: "string option \<Rightarrow> key_status option \<Rightarrow> lifecycle \<Rightarrow> key_version list" where
  "all_keys tid st lc = filter (\<lambda>kv. (tid = None \<or> tid = Some [] \<or> kv_tenant kv = tid) \<and> (st = None \<or> st = Some (kv_status kv)))
     (map snd (lc_store lc))"

definition with_status :: "time \<Rightarrow> key_status \<Rightarrow> string option \<Rightarrow> key_version \<Rightarrow> key_version" where
  "with_status now st reason kv =
     (let kv1 = kv\<lparr>kv_status := st\<rparr>;
          kv2 = (if reason \<noteq> None \<and> reason \<noteq> Some [] then kv1\<lparr>kv_reason := reason\<rparr> else kv1)
      in if st = KRevoked then kv2\<lparr>kv_revoked := Some now\<rparr> else kv2)"

definition update_status :: "time \<Rightarrow> string \<Rightarrow> key_status \<Rightarrow> string option \<Rightarrow> lifecycle \<Rightarrow> (unit, lifecycle) outcome" where
  "update_status now kid st reason lc =
     (case od_get (lc_store lc) kid of
        None \<Rightarrow> (Inl KeyNotFoundError, lc)
      | Some kv \<Rightarrow> (Inr (), lc\<lparr>lc_store := od_put kid (with_status now st reason kv) (lc_store lc)\<rparr>))"

text \<open>A field assignment to the object with this id.\<close>

definition key_mutate :: "string \<Rightarrow> (key_version \<Rightarrow> key_version) \<Rightarrow> lifecycle \<Rightarrow> lifecycle" where
  "key_mutate kid f lc = (case od_get (lc_store lc) kid of None \<Rightarrow> lc
     | Some kv \<Rightarrow> lc\<lparr>lc_store := od_put kid (f kv) (lc_store lc)\<rparr>)"

definition increment_use :: "string \<Rightarrow> lifecycle \<Rightarrow> int \<times> lifecycle" where
  "increment_use kid lc = (case od_get (lc_store lc) kid of None \<Rightarrow> (0, lc)
     | Some kv \<Rightarrow> (kv_uses kv + 1, key_mutate kid (\<lambda>k. k\<lparr>kv_uses := kv_uses k + 1\<rparr>) lc))"

subsection \<open>Policies\<close>

definition tenant_policy_key :: "string \<Rightarrow> string option \<Rightarrow> string option" where
  "tenant_policy_key kt tid = (case tid of None \<Rightarrow> None | Some t \<Rightarrow> if t = [] then None else Some (kt @ '':'' @ t))"

text \<open>The last resort, \<open>KeyType(kt)\<close>, raises: a known type always has its policy.\<close>

definition get_policy :: "string \<Rightarrow> string option \<Rightarrow> lifecycle \<Rightarrow> exc + rotation_policy" where
  "get_policy kt tid lc =
     (case Option.bind (tenant_policy_key kt tid) (od_get (lc_policies lc)) of
        Some p \<Rightarrow> Inr p
      | None \<Rightarrow> (case od_get (lc_policies lc) kt of Some p \<Rightarrow> Inr p | None \<Rightarrow> Inl ValueError))"

definition set_policy :: "string \<Rightarrow> rotation_policy \<Rightarrow> string option \<Rightarrow> lifecycle \<Rightarrow> lifecycle" where
  "set_policy kt p tid lc =
     lc\<lparr>lc_policies := od_put (case tenant_policy_key kt tid of Some k \<Rightarrow> k | None \<Rightarrow> kt) p (lc_policies lc)\<rparr>"

definition needs_rotation :: "time \<Rightarrow> key_version \<Rightarrow> lifecycle \<Rightarrow> exc + bool" where
  "needs_rotation now kv lc =
     (case get_policy (kv_type kv) (kv_tenant kv) lc of
        Inl e \<Rightarrow> Inl e
      | Inr p \<Rightarrow> Inr (case kv_activated kv of
            None \<Rightarrow> False
          | Some t \<Rightarrow> rp_auto p \<and> kv_status kv = KActive
              \<and> (max_age_seconds p > 0 \<and> now - t \<ge> max_age_seconds p \<or> rp_max_uses p > 0 \<and> kv_uses kv \<ge> rp_max_uses p)))"

definition is_grace_expired :: "time \<Rightarrow> key_version \<Rightarrow> bool" where
  "is_grace_expired now kv = (case kv_expires kv of None \<Rightarrow> False | Some t \<Rightarrow> kv_status kv = KGrace \<and> now \<ge> t)"

definition due_soon :: "time \<Rightarrow> key_version \<Rightarrow> real \<Rightarrow> lifecycle \<Rightarrow> exc + bool" where
  "due_soon now kv warn lc =
     (case get_policy (kv_type kv) (kv_tenant kv) lc of
        Inl e \<Rightarrow> Inl e
      | Inr p \<Rightarrow> Inr (case kv_activated kv of
            None \<Rightarrow> False
          | Some t \<Rightarrow> kv_status kv = KActive \<and> max_age_seconds p > 0 \<and> max_age_seconds p - (now - t) \<le> warn))"

subsection \<open>The life cycle\<close>

text \<open>The counter key is a formatted string, so no tenant and the tenant named None share one counter.\<close>

definition counter_key :: "string \<Rightarrow> string option \<Rightarrow> string" where
  "counter_key kt tid = kt @ '':'' @ (case tid of None \<Rightarrow> ''None'' | Some t \<Rightarrow> t)"

definition version_count :: "(string, nat) odict \<Rightarrow> string \<Rightarrow> nat" where
  "version_count vs k = (case od_get vs k of None \<Rightarrow> 0 | Some n \<Rightarrow> n)"

definition next_version :: "string \<Rightarrow> string option \<Rightarrow> lifecycle \<Rightarrow> nat \<times> lifecycle" where
  "next_version kt tid lc =
     (let k = counter_key kt tid; v = version_count (lc_versions lc) k + 1
      in (v, lc\<lparr>lc_versions := od_put k v (lc_versions lc)\<rparr>))"

definition fresh_key ::
  "key_codec \<Rightarrow> time \<Rightarrow> string \<times> string \<Rightarrow> string \<Rightarrow> nat \<Rightarrow> bool \<Rightarrow> string option \<Rightarrow> rotation_trigger \<Rightarrow> key_version" where
  "fresh_key kc now fresh kt v act tid trigger =
     (let kv = \<lparr>kv_id = fst fresh, kv_type = kt, kv_version = v, kv_status = (if act then KActive else KPending),
            kv_created = now, kv_activated = (if act then Some now else None), kv_expires = None, kv_rotated = None,
            kv_revoked = None, kv_uses = 0, kv_tenant = tid, kv_raw = snd fresh, kv_signature = [], kv_trigger = trigger,
            kv_reason = None\<rparr>
      in kv\<lparr>kv_signature := key_sign kc kv\<rparr>)"

definition fire_hooks :: "string \<Rightarrow> key_version \<Rightarrow> lifecycle \<Rightarrow> lifecycle" where
  "fire_hooks ev kv lc = lc\<lparr>lc_fired := lc_fired lc @ map (\<lambda>h. (h, ev, kv)) (lc_hooks lc)\<rparr>"

definition add_rotation_hook :: "nat \<Rightarrow> lifecycle \<Rightarrow> lifecycle" where
  "add_rotation_hook h lc = lc\<lparr>lc_hooks := lc_hooks lc @ [h]\<rparr>"

text \<open>An audit record about a key.\<close>

definition audit_key ::
  "key_codec \<Rightarrow> time \<Rightarrow> string \<Rightarrow> key_version \<Rightarrow> string \<Rightarrow> string option \<Rightarrow> lifecycle \<Rightarrow> (unit, lifecycle) outcome" where
  "audit_key kc now action kv actor reason lc =
     (case secret_record kc now action (kv_id kv) (kv_type kv) (kv_version kv) actor (kv_tenant kv) reason (lc_audit lc) of
        (Inl e, c) \<Rightarrow> (Inl e, lc\<lparr>lc_audit := c\<rparr>)
      | (Inr _, c) \<Rightarrow> (Inr (), lc\<lparr>lc_audit := c\<rparr>))"

definition generate_key ::
  "key_codec \<Rightarrow> time \<Rightarrow> string \<times> string \<Rightarrow> string \<Rightarrow> string \<Rightarrow> string option \<Rightarrow> bool \<Rightarrow> lifecycle \<Rightarrow> key_version \<times> lifecycle" where
  "generate_key kc now fresh kt actor tid act lc =
     (let (v, lc1) = next_version kt tid lc;
          kv = fresh_key kc now fresh kt v act tid Bootstrap;
          lc2 = snd (audit_key kc now ''key.generated'' kv actor None (key_add kv lc1));
          lc3 = (if act then snd (audit_key kc now ''key.activated'' kv actor None lc2) else lc2)
      in (kv, fire_hooks ''generate'' kv lc3))"

definition activate_key :: "key_codec \<Rightarrow> time \<Rightarrow> string \<Rightarrow> string \<Rightarrow> lifecycle \<Rightarrow> (key_version, lifecycle) outcome" where
  "activate_key kc now kid actor lc =
     (case key_get kid lc of
        Inl e \<Rightarrow> (Inl e, lc)
      | Inr kv \<Rightarrow>
          if kv_status kv \<noteq> KPending then (Inl PolicyViolationError, lc)
          else
            (let kv' = kv\<lparr>kv_status := KActive, kv_activated := Some now\<rparr>;
                 lc1 = key_mutate kid (\<lambda>_. kv') lc;
                 lc2 = snd (audit_key kc now ''key.activated'' kv' actor None lc1)
             in (Inr kv', fire_hooks ''activate'' kv' lc2)))"

text \<open>The replaced key keeps verifying until its grace period ends.\<close>

definition retire :: "time \<Rightarrow> real \<Rightarrow> string \<Rightarrow> lifecycle \<Rightarrow> lifecycle" where
  "retire now grace kid lc =
     key_mutate kid (\<lambda>k. k\<lparr>kv_expires := Some (now + grace), kv_rotated := Some now\<rparr>) (snd (update_status now kid KGrace None lc))"

definition rotate_key ::
  "key_codec \<Rightarrow> time \<Rightarrow> string \<times> string \<Rightarrow> string \<Rightarrow> string \<Rightarrow> string \<Rightarrow> rotation_trigger \<Rightarrow> string option
    \<Rightarrow> lifecycle \<Rightarrow> (string option \<times> key_version, lifecycle) outcome" where
  "rotate_key kc now fresh kt actor reason trigger tid lc =
     (if blank (Some reason) then (Inl ReasonError, lc)
      else
        (let old = (case active_key kt tid lc of Inl _ \<Rightarrow> None | Inr k \<Rightarrow> Some (kv_id k)) in
         case get_policy kt tid lc of
           Inl e \<Rightarrow> (Inl e, lc)
         | Inr p \<Rightarrow>
             (let (v, lc1) = next_version kt tid lc;
                  kv = fresh_key kc now fresh kt v True tid trigger;
                  lc2 = key_add kv lc1;
                  lc3 = (case old of None \<Rightarrow> lc2 | Some kid \<Rightarrow> retire now (grace_seconds p) kid lc2);
                  lc4 = snd (audit_key kc now ''key.rotated'' kv actor (Some reason) lc3)
              in (Inr (old, kv), fire_hooks ''rotate'' kv lc4))))"

definition revoke_key :: "key_codec \<Rightarrow> time \<Rightarrow> string \<Rightarrow> string \<Rightarrow> string \<Rightarrow> lifecycle \<Rightarrow> (key_version, lifecycle) outcome" where
  "revoke_key kc now kid actor reason lc =
     (if blank (Some reason) then (Inl ReasonError, lc)
      else case key_get kid lc of
        Inl e \<Rightarrow> (Inl e, lc)
      | Inr kv \<Rightarrow>
          (let kv' = with_status now KRevoked (Some reason) kv;
               lc1 = snd (update_status now kid KRevoked (Some reason) lc);
               lc2 = snd (audit_key kc now ''key.revoked'' kv' actor (Some reason) lc1)
           in (Inr kv', fire_hooks ''revoke'' kv' lc2)))"

definition record_access :: "key_codec \<Rightarrow> time \<Rightarrow> string \<Rightarrow> string \<Rightarrow> lifecycle \<Rightarrow> (unit, lifecycle) outcome" where
  "record_access kc now kid actor lc =
     (case key_get kid lc of
        Inl e \<Rightarrow> (Inl e, lc)
      | Inr kv \<Rightarrow>
          if kv_status kv = KRevoked then (Inl KeyRevokedError, lc)
          else if kv_status kv = KExpired then (Inl KeyExpiredError, lc)
          else audit_key kc now ''key.accessed'' kv actor None (snd (increment_use kid lc)))"

definition expire_one :: "key_codec \<Rightarrow> time \<Rightarrow> string \<Rightarrow> key_version \<Rightarrow> string list \<times> lifecycle \<Rightarrow> string list \<times> lifecycle" where
  "expire_one kc now actor kv acc =
     (if is_grace_expired now kv
      then (fst acc @ [kv_id kv],
            snd (audit_key kc now ''key.expired'' kv actor (Some ''grace period ended'')
              (snd (update_status now (kv_id kv) KExpired None (snd acc)))))
      else acc)"

definition expire_grace_keys :: "key_codec \<Rightarrow> time \<Rightarrow> string \<Rightarrow> lifecycle \<Rightarrow> string list \<times> lifecycle" where
  "expire_grace_keys kc now actor lc = fold (expire_one kc now actor) (all_keys None (Some KGrace) lc) ([], lc)"

definition sign_payload :: "key_codec \<Rightarrow> string \<Rightarrow> string \<Rightarrow> lifecycle \<Rightarrow> exc + string" where
  "sign_payload kc payload kid lc =
     (case key_get kid lc of
        Inl e \<Rightarrow> Inl e
      | Inr kv \<Rightarrow> if kv_status kv = KRevoked then Inl KeyRevokedError
          else if kv_raw kv = [] then Inl PolicyViolationError
          else Inr (kc_mac kc (kv_raw kv) payload))"

definition verify_payload :: "key_codec \<Rightarrow> string \<Rightarrow> string \<Rightarrow> string \<Rightarrow> string option \<Rightarrow> lifecycle \<Rightarrow> bool" where
  "verify_payload kc payload sig kt tid lc \<longleftrightarrow>
     list_ex (\<lambda>kv. kv_raw kv \<noteq> [] \<and> kc_mac kc (kv_raw kv) payload = sig) (usable_keys kt tid lc)"

subsection \<open>Compromise reports\<close>

definition runbook :: "string list" where
  "runbook =
    [''STEP-1: Immediately revoke compromised key (status=REVOKED)'',
     ''STEP-2: Generate emergency replacement key'',
     ''STEP-3: Activate new key (zero-downtime cutover)'',
     ''STEP-4: Reject all tokens/signatures from revoked key'',
     ''STEP-5: Notify security team via P1 alert'',
     ''STEP-6: Audit all recent accesses of compromised key'',
     ''STEP-7: Rotate all derived/dependent keys'',
     ''STEP-8: Verify new key works end-to-end'',
     ''STEP-9: Update key registry and downstream configs'',
     ''STEP-10: Post-mortem: root cause + timeline + remediation'']"

record compromise_report =
  cr_id :: string
  cr_key_id :: string
  cr_key_type :: string
  cr_version :: nat
  cr_reported_by :: string
  cr_reported_at :: time
  cr_reason :: string
  cr_new_key :: "string option"
  cr_resolved :: bool
  cr_resolved_at :: "time option"
  cr_resolved_by :: "string option"
  cr_steps :: "string list"

record rotation_job =
  rj_type :: string
  rj_at :: time
  rj_actor :: string
  rj_tenant :: "string option"
  rj_done :: bool
  rj_created :: time

record rotation_system =
  sr_life :: lifecycle
  sr_reports :: "(string, compromise_report) odict"
  sr_jobs :: "(string, rotation_job) odict"

definition new_rotation_system :: "key_codec \<Rightarrow> rotation_system" where
  "new_rotation_system kc = \<lparr>sr_life = new_lifecycle kc, sr_reports = [], sr_jobs = []\<rparr>"

definition report_compromise ::
  "key_codec \<Rightarrow> time \<Rightarrow> string \<times> string \<Rightarrow> string \<Rightarrow> string \<Rightarrow> string \<Rightarrow> string \<Rightarrow> rotation_system
    \<Rightarrow> (compromise_report, rotation_system) outcome" where
  "report_compromise kc now fresh rid kid by_whom reason s =
     (if blank (Some reason) then (Inl ReasonError, s)
      else case key_get kid (sr_life s) of
        Inl e \<Rightarrow> (Inl e, s)
      | Inr kv \<Rightarrow>
          (let lc1 = snd (update_status now kid KRevoked (Some reason) (sr_life s));
               lc2 = snd (audit_key kc now ''key.compromise_ack'' kv by_whom (Some reason) lc1)
           in case rotate_key kc now fresh (kv_type kv) by_whom (''emergency rotation: '' @ reason) Compromise (kv_tenant kv) lc2 of
             (Inl e, lc3) \<Rightarrow> (Inl e, s\<lparr>sr_life := lc3\<rparr>)
           | (Inr (_, new), lc3) \<Rightarrow>
               (let lc4 = snd (audit_key kc now ''key.emergency_rotation'' new by_whom (Some (''emergency: '' @ reason)) lc3);
                    r = \<lparr>cr_id = rid, cr_key_id = kid, cr_key_type = kv_type kv, cr_version = kv_version kv,
                         cr_reported_by = by_whom, cr_reported_at = now, cr_reason = reason, cr_new_key = Some (kv_id new),
                         cr_resolved = False, cr_resolved_at = None, cr_resolved_by = None, cr_steps = take 5 runbook\<rparr>
                in (Inr r, s\<lparr>sr_life := lc4, sr_reports := od_put rid r (sr_reports s)\<rparr>))))"

definition resolve_report :: "time \<Rightarrow> string \<Rightarrow> string \<Rightarrow> rotation_system \<Rightarrow> (compromise_report, rotation_system) outcome" where
  "resolve_report now rid by_whom s =
     (case od_get (sr_reports s) rid of
        None \<Rightarrow> (Inl KeyNotFoundError, s)
      | Some r \<Rightarrow>
          (let r' = r\<lparr>cr_resolved := True, cr_resolved_at := Some now, cr_resolved_by := Some by_whom, cr_steps := runbook\<rparr>
           in (Inr r', s\<lparr>sr_reports := od_put rid r' (sr_reports s)\<rparr>)))"

definition list_reports :: "bool option \<Rightarrow> rotation_system \<Rightarrow> compromise_report list" where
  "list_reports res s = filter (\<lambda>r. res = None \<or> res = Some (cr_resolved r)) (map snd (sr_reports s))"

definition open_reports :: "rotation_system \<Rightarrow> compromise_report list" where
  "open_reports s = list_reports (Some False) s"

subsection \<open>The scheduler\<close>

definition schedule :: "time \<Rightarrow> string \<Rightarrow> string \<Rightarrow> time \<Rightarrow> string \<Rightarrow> string option \<Rightarrow> rotation_system \<Rightarrow> rotation_system" where
  "schedule now jid kt due actor tid s =
     s\<lparr>sr_jobs := od_put jid \<lparr>rj_type = kt, rj_at = due, rj_actor = actor, rj_tenant = tid, rj_done = False, rj_created = now\<rparr> (sr_jobs s)\<rparr>"

text \<open>
  A job that raises stays pending. The \<open>i\<close>-th rotation of a pass draws the \<open>i\<close>-th fresh id and key material.
\<close>

definition run_job :: "key_codec \<Rightarrow> time \<Rightarrow> (nat \<Rightarrow> string \<times> string) \<Rightarrow> nat \<times> string \<times> rotation_job
    \<Rightarrow> string list \<times> rotation_system \<Rightarrow> string list \<times> rotation_system" where
  "run_job kc now fresh ij acc = (case (ij, acc) of ((i, jid, j), (done_ids, s)) \<Rightarrow>
     (case rotate_key kc now (fresh i) (rj_type j) (rj_actor j) ''scheduled rotation'' Scheduled (rj_tenant j) (sr_life s) of
        (Inl e, lc) \<Rightarrow> (done_ids, s\<lparr>sr_life := lc\<rparr>)
      | (Inr _, lc) \<Rightarrow> (done_ids @ [jid], s\<lparr>sr_life := lc, sr_jobs := od_put jid (j\<lparr>rj_done := True\<rparr>) (sr_jobs s)\<rparr>)))"

definition scan_due :: "key_codec \<Rightarrow> time \<Rightarrow> (nat \<Rightarrow> string \<times> string) \<Rightarrow> rotation_system \<Rightarrow> string list \<times> rotation_system" where
  "scan_due kc now fresh s =
     (let due = filter (\<lambda>p. \<not> rj_done (snd p) \<and> rj_at (snd p) \<le> now) (sr_jobs s)
      in fold (run_job kc now fresh) (enumerate 0 due) ([], s))"

definition pending_jobs :: "rotation_system \<Rightarrow> (string \<times> rotation_job) list" where
  "pending_jobs s = filter (\<lambda>p. \<not> rj_done (snd p)) (sr_jobs s)"

definition scan_due_soon :: "time \<Rightarrow> real \<Rightarrow> rotation_system \<Rightarrow> exc + key_version list" where
  "scan_due_soon now warn s =
     (let ks = all_keys None None (sr_life s) in
      case map_exc (\<lambda>kv. due_soon now kv warn (sr_life s)) ks of
        Inl e \<Rightarrow> Inl e
      | Inr bs \<Rightarrow> Inr (map fst (filter snd (zip ks bs))))"

text \<open>
  \<open>auto_rotate_all\<close> walks a snapshot of the keys, but the objects are shared: whether one needs rotation is read
  when its turn comes. A policy lookup that raises ends the pass; a rotation that raises is skipped.
\<close>

fun auto_rotate :: "key_codec \<Rightarrow> time \<Rightarrow> (nat \<Rightarrow> string \<times> string) \<Rightarrow> string \<Rightarrow> nat \<Rightarrow> string list \<Rightarrow> lifecycle
    \<Rightarrow> (key_version list, lifecycle) outcome" where
  "auto_rotate kc now fresh actor i [] lc = (Inr [], lc)"
| "auto_rotate kc now fresh actor i (kid # kids) lc =
     (case key_get kid lc of
        Inl _ \<Rightarrow> auto_rotate kc now fresh actor (Suc i) kids lc
      | Inr kv \<Rightarrow>
          (case needs_rotation now kv lc of
             Inl e \<Rightarrow> (Inl e, lc)
           | Inr need \<Rightarrow>
               if \<not> need then auto_rotate kc now fresh actor (Suc i) kids lc
               else
                 (case rotate_key kc now (fresh i) (kv_type kv) actor ''auto-rotation by policy'' PolicyAge (kv_tenant kv) lc of
                    (Inl _, lc1) \<Rightarrow> auto_rotate kc now fresh actor (Suc i) kids lc1
                  | (Inr (_, new), lc1) \<Rightarrow>
                      (case auto_rotate kc now fresh actor (Suc i) kids lc1 of
                         (Inl e, lc2) \<Rightarrow> (Inl e, lc2)
                       | (Inr news, lc2) \<Rightarrow> (Inr (new # news), lc2)))))"

definition auto_rotate_all :: "key_codec \<Rightarrow> time \<Rightarrow> (nat \<Rightarrow> string \<times> string) \<Rightarrow> string \<Rightarrow> lifecycle \<Rightarrow> (key_version list, lifecycle) outcome" where
  "auto_rotate_all kc now fresh actor lc = auto_rotate kc now fresh actor 0 (map kv_id (all_keys None None lc)) lc"

text \<open>\<open>expires_at or now\<close>: an absent expiry counts from now, and so does an expiry of zero.\<close>

definition extend_grace :: "key_codec \<Rightarrow> time \<Rightarrow> string \<Rightarrow> real \<Rightarrow> string \<Rightarrow> string \<Rightarrow> lifecycle \<Rightarrow> (key_version, lifecycle) outcome" where
  "extend_grace kc now kid extra actor reason lc =
     (if blank (Some reason) then (Inl ReasonError, lc)
      else case key_get kid lc of
        Inl e \<Rightarrow> (Inl e, lc)
      | Inr kv \<Rightarrow>
          if kv_status kv \<noteq> KGrace then (Inl PolicyViolationError, lc)
          else
            (let old_exp = (case kv_expires kv of None \<Rightarrow> now | Some t \<Rightarrow> if t = 0 then now else t);
                 kv' = kv\<lparr>kv_expires := Some (old_exp + extra)\<rparr>;
                 lc1 = key_mutate kid (\<lambda>_. kv') lc
             in (Inr kv', snd (audit_key kc now ''key.grace_extended'' kv' actor (Some reason) lc1))))"

subsection \<open>The administration facade\<close>

fun status_name :: "key_status \<Rightarrow> string" where
  "status_name KActive = ''active''"
| "status_name KGrace = ''grace''"
| "status_name KRevoked = ''revoked''"
| "status_name KExpired = ''expired''"
| "status_name KPending = ''pending''"

record rotation_summary =
  rs_total_keys :: nat
  rs_by_status :: "(string, nat) odict"
  rs_open_compromises :: nat
  rs_pending_rotations :: nat
  rs_audit_total :: nat
  rs_chain_valid :: bool

definition count_statuses :: "key_version list \<Rightarrow> (string, nat) odict" where
  "count_statuses ks = fold (\<lambda>kv d. od_put (status_name (kv_status kv)) (version_count d (status_name (kv_status kv)) + 1) d) ks []"

definition rotation_summary_of :: "key_codec \<Rightarrow> time \<Rightarrow> string option \<Rightarrow> rotation_system \<Rightarrow> exc + rotation_summary" where
  "rotation_summary_of kc now tid s =
     (let ks = all_keys tid None (sr_life s) in
      case scan_due_soon now 86400 s of
        Inl e \<Rightarrow> Inl e
      | Inr due \<Rightarrow> Inr \<lparr>rs_total_keys = length ks, rs_by_status = count_statuses ks, rs_open_compromises = length (open_reports s),
          rs_pending_rotations = length due, rs_audit_total = sc_seq (lc_audit (sr_life s)),
          rs_chain_valid = secret_verify kc (lc_audit (sr_life s))\<rparr>)"

text \<open>The keys a health check reports, in store order.\<close>

definition health_issues :: "time \<Rightarrow> lifecycle \<Rightarrow> exc + string list" where
  "health_issues now lc =
     (let ks = all_keys None None lc in
      case map_exc (\<lambda>kv. needs_rotation now kv lc) ks of
        Inl e \<Rightarrow> Inl e
      | Inr bs \<Rightarrow> Inr (map (\<lambda>p. kv_id (fst p)) (filter snd (zip ks bs))))"

definition bulk_one :: "key_codec \<Rightarrow> time \<Rightarrow> (nat \<Rightarrow> string \<times> string) \<Rightarrow> string \<Rightarrow> string \<Rightarrow> string option \<Rightarrow> nat \<times> string
    \<Rightarrow> (string, key_version) odict \<times> lifecycle \<Rightarrow> (string, key_version) odict \<times> lifecycle" where
  "bulk_one kc now fresh actor reason tid ik acc =
     (case rotate_key kc now (fresh (fst ik)) (snd ik) actor reason Manual tid (snd acc) of
        (Inl _, lc) \<Rightarrow> (fst acc, lc)
      | (Inr (_, new), lc) \<Rightarrow> (od_put (snd ik) new (fst acc), lc))"

definition bulk_rotate :: "key_codec \<Rightarrow> time \<Rightarrow> (nat \<Rightarrow> string \<times> string) \<Rightarrow> string list \<Rightarrow> string \<Rightarrow> string \<Rightarrow> string option
    \<Rightarrow> lifecycle \<Rightarrow> (string, key_version) odict \<times> lifecycle" where
  "bulk_rotate kc now fresh kts actor reason tid lc = fold (bulk_one kc now fresh actor reason tid) (enumerate 0 kts) ([], lc)"

definition key_audit_trail :: "string \<Rightarrow> lifecycle \<Rightarrow> key_entry list" where
  "key_audit_trail kid lc = secret_query kid [] [] 0 (lc_audit lc)"

subsection \<open>Runs\<close>

datatype key_op =
    OpGenerate string string "string option" bool
  | OpActivate string string
  | OpRotate string string string rotation_trigger "string option"
  | OpRevoke string string string
  | OpAccess string string
  | OpExpire string
  | OpSetPolicy string rotation_policy "string option"
  | OpExtend string real string string
  | OpCompromise string string string string
  | OpResolve string string
  | OpSchedule string string time string "string option"
  | OpScanDue
  | OpAutoRotate string
  | OpBulk "string list" string string "string option"
  | OpHook nat

definition on_life :: "(lifecycle \<Rightarrow> lifecycle) \<Rightarrow> rotation_system \<Rightarrow> rotation_system" where
  "on_life f s = s\<lparr>sr_life := f (sr_life s)\<rparr>"

text \<open>Each operation comes with the clock and its supply of fresh ids and key material.\<close>

type_synonym key_event = "time \<times> (nat \<Rightarrow> string \<times> string) \<times> key_op"

fun key_step :: "key_codec \<Rightarrow> key_event \<Rightarrow> rotation_system \<Rightarrow> rotation_system" where
  "key_step kc (now, fresh, OpGenerate kt actor tid act) s = on_life (\<lambda>lc. snd (generate_key kc now (fresh 0) kt actor tid act lc)) s"
| "key_step kc (now, fresh, OpActivate kid actor) s = on_life (\<lambda>lc. snd (activate_key kc now kid actor lc)) s"
| "key_step kc (now, fresh, OpRotate kt actor reason trigger tid) s =
     on_life (\<lambda>lc. snd (rotate_key kc now (fresh 0) kt actor reason trigger tid lc)) s"
| "key_step kc (now, fresh, OpRevoke kid actor reason) s = on_life (\<lambda>lc. snd (revoke_key kc now kid actor reason lc)) s"
| "key_step kc (now, fresh, OpAccess kid actor) s = on_life (\<lambda>lc. snd (record_access kc now kid actor lc)) s"
| "key_step kc (now, fresh, OpExpire actor) s = on_life (\<lambda>lc. snd (expire_grace_keys kc now actor lc)) s"
| "key_step kc (now, fresh, OpSetPolicy kt p tid) s = on_life (set_policy kt p tid) s"
| "key_step kc (now, fresh, OpExtend kid extra actor reason) s = on_life (\<lambda>lc. snd (extend_grace kc now kid extra actor reason lc)) s"
| "key_step kc (now, fresh, OpCompromise rid kid by_whom reason) s = snd (report_compromise kc now (fresh 0) rid kid by_whom reason s)"
| "key_step kc (now, fresh, OpResolve rid by_whom) s = snd (resolve_report now rid by_whom s)"
| "key_step kc (now, fresh, OpSchedule jid kt due actor tid) s = schedule now jid kt due actor tid s"
| "key_step kc (now, fresh, OpScanDue) s = snd (scan_due kc now fresh s)"
| "key_step kc (now, fresh, OpAutoRotate actor) s = on_life (\<lambda>lc. snd (auto_rotate_all kc now fresh actor lc)) s"
| "key_step kc (now, fresh, OpBulk kts actor reason tid) s = on_life (\<lambda>lc. snd (bulk_rotate kc now fresh kts actor reason tid lc)) s"
| "key_step kc (now, fresh, OpHook h) s = on_life (add_rotation_hook h) s"

text \<open>The ids that the keys created by an operation may get.\<close>

definition ids_of :: "key_event \<Rightarrow> string set" where
  "ids_of ev = range (\<lambda>i. fst (fst (snd ev) i))"

subsection \<open>The life cycle of a key\<close>

fun key_succs :: "key_status \<Rightarrow> key_status list" where
  "key_succs KPending = [KActive, KRevoked]"
| "key_succs KActive = [KGrace, KRevoked]"
| "key_succs KGrace = [KExpired, KRevoked]"
| "key_succs KExpired = [KRevoked]"
| "key_succs KRevoked = []"

interpretation key_fsm: transition_table key_succs "\<lambda>s. s = KRevoked"
  by unfold_locales simp

definition key_advances :: "key_version \<Rightarrow> key_version \<Rightarrow> bool" where
  "key_advances a b \<longleftrightarrow> kv_id b = kv_id a \<and> kv_type b = kv_type a \<and> kv_version b = kv_version a \<and> kv_created b = kv_created a
     \<and> kv_tenant b = kv_tenant a \<and> kv_raw b = kv_raw a \<and> kv_signature b = kv_signature a \<and> kv_uses a \<le> kv_uses b
     \<and> key_fsm.edge\<^sup>*\<^sup>* (kv_status a) (kv_status b)"

lemma key_advances_refl [simp]: "key_advances k k"
  by (simp add: key_advances_def)

lemma key_advances_trans: "key_advances a b \<Longrightarrow> key_advances b c \<Longrightarrow> key_advances a c"
  unfolding key_advances_def by (metis order_trans rtranclp_trans)

lemma revoked_is_reachable: "key_fsm.edge\<^sup>*\<^sup>* s KRevoked"
  by (cases s) (auto simp: key_fsm.edge_def)

lemma advance_edges:
  "key_fsm.edge\<^sup>*\<^sup>* KPending KActive" "key_fsm.edge\<^sup>*\<^sup>* KActive KGrace" "key_fsm.edge\<^sup>*\<^sup>* KGrace KExpired"
  by (auto simp: key_fsm.edge_def)

lemma with_status_advances:
  "key_fsm.edge\<^sup>*\<^sup>* (kv_status kv) st \<Longrightarrow> key_advances kv (with_status now st r kv)"
  by (simp add: key_advances_def with_status_def Let_def)

text \<open>The store and the version counters of a manager, and its audit chain.\<close>

definition store_ok :: "lifecycle \<Rightarrow> bool" where
  "store_ok lc \<longleftrightarrow> od_wf (lc_store lc) \<and> (\<forall>(k, kv) \<in> set (lc_store lc). kv_id kv = k
     \<and> kv_version kv \<le> version_count (lc_versions lc) (counter_key (kv_type kv) (kv_tenant kv)))"

definition chain_ok :: "key_codec \<Rightarrow> secret_chain \<Rightarrow> bool" where
  "chain_ok kc c \<longleftrightarrow> (\<exists>full. verify_from (entry_fits kc) ke_chain_hash (secret_genesis kc) full \<and> length full = sc_seq c
     \<and> map ke_seq full = [1..<Suc (length full)]
     \<and> sc_prev c = last_hash ke_chain_hash (secret_genesis kc) full \<and> sc_entries c = take_last max_entries full)"

definition life_ok :: "key_codec \<Rightarrow> lifecycle \<Rightarrow> bool" where
  "life_ok kc lc \<longleftrightarrow> store_ok lc \<and> chain_ok kc (lc_audit lc)"

text \<open>What every operation does to the keys that it does not create.\<close>

definition evolves :: "key_codec \<Rightarrow> string set \<Rightarrow> lifecycle \<Rightarrow> lifecycle \<Rightarrow> bool" where
  "evolves kc F lc lc' \<longleftrightarrow> (life_ok kc lc \<longrightarrow> life_ok kc lc' \<and>
     (\<forall>k kv. od_get (lc_store lc) k = Some kv \<longrightarrow> k \<notin> F \<longrightarrow>
        (\<exists>kv'. od_get (lc_store lc') k = Some kv' \<and> key_advances kv kv')))"

lemma key_evolves_refl [simp]: "evolves kc F lc lc"
  by (auto simp: evolves_def)

lemma key_evolves_trans: "evolves kc F a b \<Longrightarrow> evolves kc F b c \<Longrightarrow> evolves kc F a c"
  unfolding evolves_def by (meson key_advances_trans)

lemma store_okD: "store_ok lc \<Longrightarrow> od_get (lc_store lc) k = Some kv \<Longrightarrow> kv_id kv = k
    \<and> kv_version kv \<le> version_count (lc_versions lc) (counter_key (kv_type kv) (kv_tenant kv))"
  unfolding store_ok_def by (drule od_get_SomeD) auto

lemma key_evolves_same_store:
  "lc_store lc' = lc_store lc \<Longrightarrow> lc_versions lc' = lc_versions lc \<Longrightarrow> lc_audit lc' = lc_audit lc \<Longrightarrow> evolves kc F lc lc'"
  by (auto simp: evolves_def life_ok_def store_ok_def)

lemma key_evolves_mutate:
  assumes "\<And>kv. od_get (lc_store lc) kid = Some kv \<Longrightarrow> store_ok lc \<Longrightarrow> key_advances kv (f kv)"
  shows "evolves kc F lc (key_mutate kid f lc)"
proof (cases "od_get (lc_store lc) kid")
  case (Some kv)
  have "life_ok kc (key_mutate kid f lc)" if ok: "life_ok kc lc"
  proof -
    have adv: "key_advances kv (f kv)" using assms Some ok by (simp add: life_ok_def)
    have "od_wf (lc_store lc)" using ok by (simp add: life_ok_def store_ok_def)
    then show ?thesis using ok Some adv store_okD [of lc kid kv]
      by (auto simp: life_ok_def store_ok_def key_mutate_def set_od_put key_advances_def)
  qed
  then show ?thesis using assms Some by (auto simp: evolves_def key_mutate_def life_ok_def)
qed (simp add: key_mutate_def)

lemma update_status_eq: "snd (update_status now kid st r lc) = key_mutate kid (with_status now st r) lc"
  by (simp add: update_status_def key_mutate_def split: option.split)

lemma key_evolves_next_version: "evolves kc F lc (snd (next_version kt tid lc))"
proof -
  have "version_count (lc_versions lc) k \<le> version_count (lc_versions (snd (next_version kt tid lc))) k" for k
    by (simp add: next_version_def version_count_def Let_def split: option.split)
  then have "store_ok lc \<Longrightarrow> store_ok (snd (next_version kt tid lc))"
    by (fastforce simp: store_ok_def next_version_def Let_def intro: order_trans)
  then show ?thesis by (auto simp: evolves_def life_ok_def next_version_def Let_def)
qed

lemma key_evolves_add:
  assumes "kv_id kv \<in> F" and "kv_version kv \<le> version_count (lc_versions lc) (counter_key (kv_type kv) (kv_tenant kv))"
  shows "evolves kc F lc (key_add kv lc)"
  using assms by (auto simp: evolves_def life_ok_def store_ok_def key_add_def set_od_put)

lemma chain_ok_append:
  assumes "chain_ok kc c" and "sc_prev c = p" and "ke_seq e = Suc (sc_seq c)"
  shows "chain_ok kc \<lparr>sc_entries = take_last max_entries (sc_entries c @ [seal_entry kc p e]), sc_seq = sc_seq c + 1,
    sc_prev = ke_chain_hash (seal_entry kc p e)\<rparr>"
proof -
  obtain full where full: "verify_from (entry_fits kc) ke_chain_hash (secret_genesis kc) full" "length full = sc_seq c"
    "map ke_seq full = [1..<Suc (length full)]" "p = last_hash ke_chain_hash (secret_genesis kc) full"
    "sc_entries c = take_last max_entries full"
    using assms(1,2) by (auto simp: chain_ok_def)
  have "ke_seq (seal_entry kc p e) = Suc (length full)" using assms(3) full(2) by (simp add: seal_entry_def)
  then show ?thesis unfolding chain_ok_def
    using full secret_links.verify_snoc [OF full(1), of e] take_last_append_same [of max_entries full]
    by (intro exI [of _ "full @ [seal_entry kc p e]"]) simp
qed

lemma key_evolves_audit_key: "evolves kc F lc (snd (audit_key kc now action kv actor r lc))"
proof -
  have "chain_ok kc (lc_audit lc) \<Longrightarrow> chain_ok kc (lc_audit (snd (audit_key kc now action kv actor r lc)))"
    using chain_ok_append [of kc "lc_audit lc"] by (simp add: audit_key_def secret_record_def Let_def)
  moreover have "lc_store (snd (audit_key kc now action kv actor r lc)) = lc_store lc"
    "lc_versions (snd (audit_key kc now action kv actor r lc)) = lc_versions lc"
    by (simp_all add: audit_key_def split: prod.split sum.split)
  ultimately show ?thesis by (auto simp: evolves_def life_ok_def store_ok_def)
qed

lemma key_evolves_fire: "evolves kc F lc (fire_hooks ev kv lc)"
  by (rule key_evolves_same_store) (simp_all add: fire_hooks_def)

lemma newest_of_spec:
  "newest_of b ks \<in> set (b # ks) \<and> (\<forall>k \<in> set (b # ks). kv_version k \<le> kv_version (newest_of b ks))"
proof (induction ks arbitrary: b)
  case (Cons k ks)
  let ?m = "if kv_version b < kv_version k then k else b"
  note IH = Cons.IH [of ?m]
  from IH have "newest_of ?m ks \<in> set (b # k # ks)" by (auto split: if_splits)
  moreover from IH have "kv_version b \<le> kv_version (newest_of ?m ks)" "kv_version k \<le> kv_version (newest_of ?m ks)"
    by (auto split: if_splits)
  ultimately show ?case using IH by simp
qed simp

lemma active_keyD:
  assumes "active_key kt tid lc = Inr k"
  shows "k \<in> snd ` set (lc_store lc) \<and> kv_type k = kt \<and> kv_status k = KActive \<and> of_tenant tid k"
proof -
  obtain b ks where c: "filter (\<lambda>kv. kv_type kv = kt \<and> kv_status kv = KActive \<and> of_tenant tid kv) (map snd (lc_store lc)) = b # ks"
    "k = newest_of b ks"
    using assms by (auto simp: active_key_def split: list.splits)
  then have "k \<in> set (b # ks)" using newest_of_spec by blast
  then show ?thesis unfolding c(1) [symmetric] by auto
qed

lemma active_key_stored: "store_ok lc \<Longrightarrow> active_key kt tid lc = Inr k \<Longrightarrow> od_get (lc_store lc) (kv_id k) = Some k"
proof -
  assume ok: "store_ok lc" and "active_key kt tid lc = Inr k"
  then obtain key where key: "(key, k) \<in> set (lc_store lc)" using active_keyD by fastforce
  with ok have "kv_id k = key" "od_wf (lc_store lc)" by (auto simp: store_ok_def)
  with key show "od_get (lc_store lc) (kv_id k) = Some k" using od_get_in by fast
qed

lemma key_evolves_retire:
  assumes "\<And>kv. od_get (lc_store lc) kid = Some kv \<Longrightarrow> store_ok lc \<Longrightarrow> kv_status kv = KActive"
  shows "evolves kc F lc (retire now g kid lc)"
proof -
  have "evolves kc F lc (key_mutate kid (with_status now KGrace None) lc)"
    using assms by (intro key_evolves_mutate with_status_advances) (simp add: advance_edges)
  then show ?thesis unfolding retire_def update_status_eq
    by (rule key_evolves_trans) (rule key_evolves_mutate, simp add: key_advances_def)
qed

lemma fresh_key_simps [simp]:
  "kv_id (fresh_key kc now fresh kt v act tid tr) = fst fresh" "kv_type (fresh_key kc now fresh kt v act tid tr) = kt"
  "kv_version (fresh_key kc now fresh kt v act tid tr) = v" "kv_tenant (fresh_key kc now fresh kt v act tid tr) = tid"
  "kv_status (fresh_key kc now fresh kt v act tid tr) = (if act then KActive else KPending)"
  "kv_raw (fresh_key kc now fresh kt v act tid tr) = snd fresh"
  "key_sign kc (fresh_key kc now fresh kt v act tid tr) = kv_signature (fresh_key kc now fresh kt v act tid tr)"
  by (simp_all add: fresh_key_def key_sign_def Let_def)

lemma next_version_counts:
  "next_version kt tid lc = (v, lc1) \<Longrightarrow> version_count (lc_versions lc1) (counter_key kt tid) = v \<and> lc_store lc1 = lc_store lc
     \<and> lc_policies lc1 = lc_policies lc \<and> v = Suc (version_count (lc_versions lc) (counter_key kt tid))"
  by (auto simp: next_version_def Let_def version_count_def)

lemma key_evolves_generate:
  assumes "fst fresh \<in> F" shows "evolves kc F lc (snd (generate_key kc now fresh kt actor tid act lc))"
proof -
  obtain v lc1 where nv: "next_version kt tid lc = (v, lc1)" by fastforce
  let ?kv = "fresh_key kc now fresh kt v act tid Bootstrap"
  have "evolves kc F lc lc1" using key_evolves_next_version [of kc F lc kt tid] nv by simp
  moreover have "evolves kc F lc1 (key_add ?kv lc1)" by (rule key_evolves_add) (use assms next_version_counts [OF nv] in auto)
  ultimately have "evolves kc F lc (key_add ?kv lc1)" by (rule key_evolves_trans)
  then have "evolves kc F lc (snd (audit_key kc now ''key.generated'' ?kv actor None (key_add ?kv lc1)))"
    using key_evolves_audit_key by (rule key_evolves_trans)
  then show ?thesis unfolding generate_key_def nv Let_def
    by (auto intro: key_evolves_trans [OF _ key_evolves_fire] key_evolves_trans [OF key_evolves_trans [OF _ key_evolves_audit_key] key_evolves_fire])
qed

lemma key_evolves_rotate:
  assumes "fst fresh \<in> F" shows "evolves kc F lc (snd (rotate_key kc now fresh kt actor reason trigger tid lc))"
proof (cases "blank (Some reason) \<or> (\<exists>e. get_policy kt tid lc = Inl e)")
  case True
  then show ?thesis by (auto simp: rotate_key_def Let_def)
next
  case False
  then obtain p where p: "\<not> blank (Some reason)" "get_policy kt tid lc = Inr p" by (cases "get_policy kt tid lc") auto
  obtain v lc1 where nv: "next_version kt tid lc = (v, lc1)" by fastforce
  define kv where "kv = fresh_key kc now fresh kt v True tid trigger"
  define old where "old = (case active_key kt tid lc of Inl _ \<Rightarrow> None | Inr k \<Rightarrow> Some (kv_id k))"
  define lc3 where "lc3 = (case old of None \<Rightarrow> key_add kv lc1 | Some kid \<Rightarrow> retire now (grace_seconds p) kid (key_add kv lc1))"
  have r: "snd (rotate_key kc now fresh kt actor reason trigger tid lc)
      = fire_hooks ''rotate'' kv (snd (audit_key kc now ''key.rotated'' kv actor (Some reason) lc3))"
    unfolding lc3_def old_def kv_def using p by (simp add: rotate_key_def nv Let_def)
  have "evolves kc F lc (key_add kv lc1)"
    using key_evolves_next_version [of kc F lc kt tid] next_version_counts [OF nv] assms
    by (intro key_evolves_trans [OF _ key_evolves_add]) (auto simp: kv_def nv)
  moreover have "evolves kc F lc lc3"
  proof (cases "life_ok kc lc")
    case True
    have "evolves kc F (key_add kv lc1) lc3"
    proof (cases "active_key kt tid lc")
      case (Inr k)
      have "kv_status k' = KActive" if "od_get (lc_store (key_add kv lc1)) (kv_id k) = Some k'" for k'
        using that active_key_stored [of lc kt tid k] Inr True active_keyD [OF Inr] next_version_counts [OF nv]
        by (auto simp: key_add_def kv_def life_ok_def split: if_splits)
      then show ?thesis using Inr by (simp add: lc3_def old_def key_evolves_retire)
    qed (simp add: lc3_def old_def)
    with calculation show ?thesis by (rule key_evolves_trans)
  qed (simp add: evolves_def)
  ultimately show ?thesis unfolding r by (meson key_evolves_audit_key key_evolves_fire key_evolves_trans)
qed

lemma key_evolves_activate: "evolves kc F lc (snd (activate_key kc now kid actor lc))"
proof -
  have "evolves kc F lc (key_mutate kid (\<lambda>_. kv\<lparr>kv_status := KActive, kv_activated := Some now\<rparr>) lc)"
    if "key_get kid lc = Inr kv" "kv_status kv = KPending" for kv
    using that by (intro key_evolves_mutate) (auto simp: key_get_def key_advances_def advance_edges split: option.splits)
  then show ?thesis unfolding activate_key_def Let_def
    by (auto split: sum.split intro: key_evolves_trans [OF key_evolves_trans [OF _ key_evolves_audit_key] key_evolves_fire])
qed

lemma key_evolves_status_revoked: "evolves kc F lc (snd (update_status now kid KRevoked r lc))"
  unfolding update_status_eq by (intro key_evolves_mutate with_status_advances revoked_is_reachable)

lemma key_evolves_revoke: "evolves kc F lc (snd (revoke_key kc now kid actor reason lc))"
  unfolding revoke_key_def Let_def
  by (auto split: sum.split intro: key_evolves_trans [OF key_evolves_trans [OF key_evolves_status_revoked key_evolves_audit_key] key_evolves_fire])

lemma key_evolves_access: "evolves kc F lc (snd (record_access kc now kid actor lc))"
proof -
  have "evolves kc F lc (snd (increment_use kid lc))"
    by (auto simp: increment_use_def key_advances_def split: option.split intro!: key_evolves_mutate)
  then show ?thesis unfolding record_access_def
    by (auto split: sum.split intro: key_evolves_trans [OF _ key_evolves_audit_key])
qed

lemma key_evolves_extend: "evolves kc F lc (snd (extend_grace kc now kid extra actor reason lc))"
proof -
  have "evolves kc F lc (key_mutate kid (\<lambda>_. kv\<lparr>kv_expires := t\<rparr>) lc)" if "key_get kid lc = Inr kv" for kv t
    using that by (intro key_evolves_mutate) (auto simp: key_get_def key_advances_def split: option.splits)
  then show ?thesis unfolding extend_grace_def Let_def
    by (auto split: sum.split intro: key_evolves_trans [OF _ key_evolves_audit_key])
qed

lemma audit_key_simps [simp]:
  "lc_store (snd (audit_key kc now action kv actor r lc)) = lc_store lc"
  "lc_policies (snd (audit_key kc now action kv actor r lc)) = lc_policies lc"
  "lc_versions (snd (audit_key kc now action kv actor r lc)) = lc_versions lc"
  "lc_hooks (snd (audit_key kc now action kv actor r lc)) = lc_hooks lc"
  by (simp_all add: audit_key_def split: prod.split sum.split)

lemma key_mutate_get: "od_get (lc_store (key_mutate kid f lc)) k =
    (if k = kid then map_option f (od_get (lc_store lc) kid) else od_get (lc_store lc) k)"
  by (simp add: key_mutate_def split: option.split)

lemma expire_one_get:
  "od_get (lc_store (snd (expire_one kc now actor kv acc))) k = (if is_grace_expired now kv \<and> k = kv_id kv
     then map_option (with_status now KExpired None) (od_get (lc_store (snd acc)) k) else od_get (lc_store (snd acc)) k)"
  by (simp add: expire_one_def update_status_eq key_mutate_get)

text \<open>The keys of the pass are still what the snapshot shows when their turn comes.\<close>

definition live :: "key_version list \<Rightarrow> lifecycle \<Rightarrow> bool" where
  "live ks lc \<longleftrightarrow> distinct (map kv_id ks) \<and> (\<forall>kv \<in> set ks. od_get (lc_store lc) (kv_id kv) = Some kv)"

lemma live_Cons: "live (kv # ks) lc \<longleftrightarrow> od_get (lc_store lc) (kv_id kv) = Some kv \<and> (\<forall>k \<in> set ks. kv_id k \<noteq> kv_id kv) \<and> live ks lc"
proof -
  have "kv_id kv \<notin> kv_id ` set ks \<longleftrightarrow> (\<forall>k \<in> set ks. kv_id k \<noteq> kv_id kv)" by (metis image_iff)
  then show ?thesis unfolding live_def by (simp only: list.map distinct.simps set_map list.set ball_simps) blast
qed

lemma live_get: "live ks lc \<Longrightarrow> k \<in> set ks \<Longrightarrow> od_get (lc_store lc) (kv_id k) = Some k"
  by (simp add: live_def)

lemma live_step: "live (kv # ks) (snd acc) \<Longrightarrow> live ks (snd (expire_one kc now actor kv acc))"
proof -
  assume l: "live (kv # ks) (snd acc)"
  have "od_get (lc_store (snd (expire_one kc now actor kv acc))) (kv_id k) = Some k" if "k \<in> set ks" for k
  proof -
    have "kv_id k \<noteq> kv_id kv" "od_get (lc_store (snd acc)) (kv_id k) = Some k"
      using l that live_get unfolding live_Cons by blast+
    then show ?thesis by (simp add: expire_one_get)
  qed
  moreover have "distinct (map kv_id ks)" using l by (simp add: live_def)
  ultimately show ?thesis unfolding live_def by blast
qed

lemma key_evolves_expire_one:
  assumes "live (kv # ks) (snd acc)" shows "evolves kc F (snd acc) (snd (expire_one kc now actor kv acc))"
proof (cases "is_grace_expired now kv")
  case True
  then have "kv_status kv = KGrace" by (simp add: is_grace_expired_def split: option.splits)
  then have "evolves kc F (snd acc) (key_mutate (kv_id kv) (with_status now KExpired None) (snd acc))"
    using assms by (intro key_evolves_mutate with_status_advances) (simp add: live_def advance_edges)
  from key_evolves_trans [OF this key_evolves_audit_key] True show ?thesis by (simp add: expire_one_def update_status_eq)
qed (simp add: expire_one_def)

lemma key_evolves_expire_all: "live ks (snd acc) \<Longrightarrow> evolves kc F (snd acc) (snd (fold (expire_one kc now actor) ks acc))"
proof (induction ks arbitrary: acc)
  case (Cons kv ks)
  then show ?case
    using key_evolves_trans [OF key_evolves_expire_one [OF Cons.prems] Cons.IH [OF live_step [OF Cons.prems]]] by simp
qed simp

lemma expire_all_get:
  "live ks (snd acc) \<Longrightarrow> od_get (lc_store (snd (fold (expire_one kc now actor) ks acc))) k =
    (if \<exists>kv \<in> set ks. kv_id kv = k \<and> is_grace_expired now kv
     then map_option (with_status now KExpired None) (od_get (lc_store (snd acc)) k) else od_get (lc_store (snd acc)) k)"
proof (induction ks arbitrary: acc)
  case (Cons kv ks)
  then have "k = kv_id kv \<Longrightarrow> \<not> (\<exists>kva \<in> set ks. kv_id kva = k \<and> is_grace_expired now kva)" by (auto simp: live_Cons)
  then show ?case using Cons.IH [OF live_step [OF Cons.prems]] by (auto simp: expire_one_get)
qed simp

lemma live_all_keys:
  assumes "store_ok lc" shows "live (all_keys None st lc) lc"
proof -
  have "map kv_id (map snd (lc_store lc)) = map fst (lc_store lc)" using assms by (auto simp: store_ok_def)
  then have "distinct (map kv_id (map snd (lc_store lc)))" using assms unfolding store_ok_def od_wf_def by argo
  then have "distinct (map kv_id (all_keys None st lc))" unfolding all_keys_def by (rule distinct_map_filter)
  moreover have "od_get (lc_store lc) (kv_id kv) = Some kv" if "(k, kv) \<in> set (lc_store lc)" for k kv
    using that assms od_get_in [of "lc_store lc" k kv] by (auto simp: store_ok_def)
  ultimately show ?thesis by (auto simp: live_def all_keys_def)
qed

lemma key_evolves_expire: "evolves kc F lc (snd (expire_grace_keys kc now actor lc))"
proof (cases "store_ok lc")
  case True
  then show ?thesis using key_evolves_expire_all [OF live_all_keys, of "([], lc)"] by (simp add: expire_grace_keys_def)
qed (simp add: evolves_def life_ok_def)

lemma expire_grace_get:
  assumes "store_ok lc"
  shows "od_get (lc_store (snd (expire_grace_keys kc now actor lc))) k =
    map_option (\<lambda>kv. if is_grace_expired now kv then kv\<lparr>kv_status := KExpired\<rparr> else kv) (od_get (lc_store lc) k)"
proof -
  have "(\<exists>kv \<in> set (all_keys None (Some KGrace) lc). kv_id kv = k \<and> is_grace_expired now kv)
      \<longleftrightarrow> (\<exists>kv. od_get (lc_store lc) k = Some kv \<and> is_grace_expired now kv)" (is "?l \<longleftrightarrow> ?r")
  proof
    assume ?l
    then show ?r using live_get [OF live_all_keys [OF assms]] by blast
  next
    assume ?r
    then obtain kv where kv: "od_get (lc_store lc) k = Some kv" "is_grace_expired now kv" by blast
    then have "(k, kv) \<in> set (lc_store lc)" "kv_id kv = k" "kv_status kv = KGrace"
      using od_get_SomeD store_okD [OF assms kv(1)] by (auto simp: is_grace_expired_def split: option.splits)
    with kv(2) show ?l by (force simp: all_keys_def)
  qed
  then show ?thesis unfolding expire_grace_keys_def
    using expire_all_get [of "all_keys None (Some KGrace) lc" "([], lc)"] live_all_keys [OF assms]
    by (cases "od_get (lc_store lc) k") (auto simp: with_status_def)
qed

lemma key_evolves_auto: "range (\<lambda>i. fst (fresh i)) \<subseteq> F \<Longrightarrow> evolves kc F lc (snd (auto_rotate kc now fresh actor i kids lc))"
proof (induction kids arbitrary: i lc)
  case (Cons kid kids)
  have rot: "evolves kc F lc (snd (rotate_key kc now (fresh i) kt actor reason trigger tid lc))" for kt reason trigger tid
    by (rule key_evolves_rotate) (use Cons.prems in auto)
  have "evolves kc F lc (snd (auto_rotate kc now fresh actor (Suc i) kids (snd (rotate_key kc now (fresh i) kt actor reason trigger tid lc))))"
    for kt reason trigger tid using rot Cons.IH [OF Cons.prems] by (rule key_evolves_trans)
  then have "evolves kc F lc (snd (auto_rotate kc now fresh actor (Suc i) kids lc1))"
    if "rotate_key kc now (fresh i) kt actor reason trigger tid lc = (r, lc1)" for kt reason trigger tid r lc1
    using that by (metis snd_conv)
  with Cons.IH [OF Cons.prems] show ?case
    by (simp split: sum.split prod.split) (metis snd_conv)
qed simp

lemma key_evolves_auto_all: "range (\<lambda>i. fst (fresh i)) \<subseteq> F \<Longrightarrow> evolves kc F lc (snd (auto_rotate_all kc now fresh actor lc))"
  unfolding auto_rotate_all_def by (rule key_evolves_auto)

lemma key_evolves_bulk:
  "range (\<lambda>i. fst (fresh i)) \<subseteq> F \<Longrightarrow> evolves kc F (snd acc) (snd (fold (bulk_one kc now fresh actor reason tid) iks acc))"
proof (induction iks arbitrary: acc)
  case (Cons ik iks)
  have "snd (bulk_one kc now fresh actor reason tid ik acc)
      = snd (rotate_key kc now (fresh (fst ik)) (snd ik) actor reason Manual tid (snd acc))"
    by (simp add: bulk_one_def split: prod.split sum.split)
  moreover have "evolves kc F (snd acc) (snd (rotate_key kc now (fresh (fst ik)) (snd ik) actor reason Manual tid (snd acc)))"
    by (rule key_evolves_rotate) (use Cons.prems in auto)
  ultimately show ?case
    using key_evolves_trans [OF _ Cons.IH [OF Cons.prems, of "bulk_one kc now fresh actor reason tid ik acc"]] by simp
qed simp

lemma key_evolves_jobs:
  "range (\<lambda>i. fst (fresh i)) \<subseteq> F \<Longrightarrow> evolves kc F (sr_life (snd acc)) (sr_life (snd (fold (run_job kc now fresh) jobs acc)))"
proof (induction jobs arbitrary: acc)
  case (Cons ij jobs)
  obtain i jid j where ij: "ij = (i, jid, j)" by (cases ij)
  have "sr_life (snd (run_job kc now fresh ij acc))
      = snd (rotate_key kc now (fresh i) (rj_type j) (rj_actor j) ''scheduled rotation'' Scheduled (rj_tenant j) (sr_life (snd acc)))"
    by (simp add: run_job_def ij split: prod.split sum.split)
  moreover have "evolves kc F (sr_life (snd acc))
      (snd (rotate_key kc now (fresh i) (rj_type j) (rj_actor j) ''scheduled rotation'' Scheduled (rj_tenant j) (sr_life (snd acc))))"
    by (rule key_evolves_rotate) (use Cons.prems in auto)
  ultimately show ?case
    using key_evolves_trans [OF _ Cons.IH [OF Cons.prems, of "run_job kc now fresh ij acc"]] by simp
qed simp

lemma key_evolves_compromise:
  assumes "fst fresh \<in> F"
  shows "evolves kc F (sr_life s) (sr_life (snd (report_compromise kc now fresh rid kid by_whom reason s)))"
proof -
  have "evolves kc F (sr_life s) (snd (rotate_key kc now fresh kt by_whom r Compromise tid
      (snd (audit_key kc now ''key.compromise_ack'' kv by_whom (Some reason) (snd (update_status now kid KRevoked (Some reason) (sr_life s)))))))"
    for kt r tid kv
    by (rule key_evolves_trans [OF key_evolves_trans [OF key_evolves_status_revoked key_evolves_audit_key] key_evolves_rotate [OF assms]])
  note rotated = this
  show ?thesis
  proof (cases "blank (Some reason) \<or> (\<exists>e. key_get kid (sr_life s) = Inl e)")
    case True
    then show ?thesis by (auto simp: report_compromise_def)
  next
    case False
    then obtain kv where kv: "\<not> blank (Some reason)" "key_get kid (sr_life s) = Inr kv"
      by (cases "key_get kid (sr_life s)") auto
    define lc2 where "lc2 = snd (audit_key kc now ''key.compromise_ack'' kv by_whom (Some reason)
        (snd (update_status now kid KRevoked (Some reason) (sr_life s))))"
    obtain res lc3 where r: "rotate_key kc now fresh (kv_type kv) by_whom (''emergency rotation: '' @ reason) Compromise (kv_tenant kv) lc2
        = (res, lc3)" by fastforce
    have "evolves kc F (sr_life s) lc3"
      using rotated [of "kv_type kv" "''emergency rotation: '' @ reason" "kv_tenant kv" kv] r by (simp add: lc2_def)
    then show ?thesis using kv r unfolding report_compromise_def lc2_def
      by (cases res) (auto simp: Let_def intro: key_evolves_trans [OF _ key_evolves_audit_key])
  qed
qed

lemma key_step_evolves: "evolves kc (ids_of ev) (sr_life s) (sr_life (key_step kc ev s))"
proof (cases ev)
  case (fields now fresh op)
  have ids: "fst (fresh 0) \<in> ids_of ev" "range (\<lambda>i. fst (fresh i)) \<subseteq> ids_of ev" by (auto simp: ids_of_def fields)
  show ?thesis
  proof (cases op)
    case (OpAutoRotate actor)
    then show ?thesis using key_evolves_auto_all [OF ids(2)] by (simp add: fields on_life_def)
  next
    case (OpBulk kts actor reason tid)
    then show ?thesis using key_evolves_bulk [OF ids(2), where acc = "([], sr_life s)"] by (simp add: fields on_life_def bulk_rotate_def)
  next
    case OpScanDue
    then show ?thesis using key_evolves_jobs [OF ids(2), where acc = "([], s)"] by (simp add: fields scan_due_def)
  next
    case (OpGenerate kt actor tid act)
    then show ?thesis using key_evolves_generate [OF ids(1)] by (simp add: fields on_life_def)
  next
    case (OpRotate kt actor reason trigger tid)
    then show ?thesis using key_evolves_rotate [OF ids(1)] by (simp add: fields on_life_def)
  next
    case (OpCompromise rid kid by_whom reason)
    then show ?thesis using key_evolves_compromise [OF ids(1)] by (simp add: fields)
  qed (simp_all add: fields on_life_def key_evolves_activate key_evolves_revoke key_evolves_access key_evolves_expire key_evolves_extend
      key_evolves_same_store set_policy_def add_rotation_hook_def schedule_def resolve_report_def Let_def split: option.split)
qed

lemma key_evolves_mono: "evolves kc F a b \<Longrightarrow> F \<subseteq> G \<Longrightarrow> evolves kc G a b"
  unfolding evolves_def by blast

lemma key_run_evolves: "evolves kc (\<Union> (ids_of ` set evs)) (sr_life s) (sr_life (fold (key_step kc) evs s))"
proof (induction evs arbitrary: s)
  case (Cons ev evs)
  have "evolves kc (\<Union> (ids_of ` set (ev # evs))) (sr_life s) (sr_life (key_step kc ev s))"
    by (rule key_evolves_mono [OF key_step_evolves]) simp
  moreover have "evolves kc (\<Union> (ids_of ` set (ev # evs))) (sr_life (key_step kc ev s)) (sr_life (fold (key_step kc) evs (key_step kc ev s)))"
    by (rule key_evolves_mono [OF Cons.IH]) auto
  ultimately show ?case using key_evolves_trans by simp
qed simp

interpretation key_runs: guarded_state "key_step kc" "\<lambda>s. life_ok kc (sr_life s)" for kc
  by unfold_locales (use key_step_evolves in \<open>simp add: evolves_def\<close>)

lemma life_ok_new: "life_ok kc (new_lifecycle kc)"
  by (auto simp: life_ok_def store_ok_def chain_ok_def new_lifecycle_def new_secret_chain_def)

lemma life_ok_run: "life_ok kc (sr_life (fold (key_step kc) evs (new_rotation_system kc)))"
  by (rule key_runs.run_good) (simp add: new_rotation_system_def life_ok_new)

lemma store_ok_in: "store_ok lc \<Longrightarrow> (k, kv) \<in> set (lc_store lc) \<Longrightarrow> od_get (lc_store lc) (kv_id kv) = Some kv"
  using od_get_in [of "lc_store lc" k kv] by (auto simp: store_ok_def)

lemma usable_keysD: "store_ok lc \<Longrightarrow> kv \<in> set (usable_keys kt tid lc) \<Longrightarrow> od_get (lc_store lc) (kv_id kv) = Some kv \<and> usable_for_verify kv"
  by (auto simp: usable_keys_def intro: store_ok_in)

lemma usable_keysI:
  "od_get (lc_store lc) k = Some kv \<Longrightarrow> kv_type kv = kt \<Longrightarrow> usable_for_verify kv \<Longrightarrow> of_tenant tid kv \<Longrightarrow> kv \<in> set (usable_keys kt tid lc)"
  by (force simp: usable_keys_def dest: od_get_SomeD)

text \<open>
  C15: a key only moves forward. Whatever operations follow, in any order and with any clock, a key that exists
  keeps its identity, version, owner, material and signature, its use count never falls, and its status moves only along
  pending, active, grace, expired or to revoked. A revoked key stays revoked for ever: it does not sign, it is in
  no list of usable keys, so no signature is verified with it, and it is never the active key, provided that later
  operations do not draw its id again.
\<close>

theorem keys_only_move_forward:
  assumes "s = fold (key_step kc) evs (new_rotation_system kc)" and "od_get (lc_store (sr_life s)) kid = Some kv"
    and "kid \<notin> \<Union> (ids_of ` set evs')"
  shows "let lc = sr_life (fold (key_step kc) evs' s) in
    (case od_get (lc_store lc) kid of
       None \<Rightarrow> False
     | Some kv' \<Rightarrow> key_advances kv kv' \<and>
         (if kv_status kv = KRevoked
          then kv_status kv' = KRevoked \<and> sign_payload kc payload kid lc = Inl KeyRevokedError
            \<and> kid \<notin> kv_id ` set (usable_keys kt tid lc) \<and> kid \<notin> kv_id ` {k. active_key kt tid lc = Inr k}
          else True))"
proof -
  define lc where "lc = sr_life (fold (key_step kc) evs' s)"
  have ok: "life_ok kc (sr_life s)" using life_ok_run assms(1) by simp
  then have "life_ok kc lc" unfolding lc_def by (rule key_runs.run_good)
  then have store: "store_ok lc" by (simp add: life_ok_def)
  obtain kv' where kv': "od_get (lc_store lc) kid = Some kv'" "key_advances kv kv'"
    using key_run_evolves [of kc evs' s] ok assms(2,3) unfolding evolves_def lc_def by blast
  have "kv_status kv' = KRevoked" if "kv_status kv = KRevoked"
    using that kv'(2) key_fsm.terminal_absorbing [of KRevoked "kv_status kv'"] by (simp add: key_advances_def)
  moreover have "kid \<notin> kv_id ` set (usable_keys kt tid lc)" if "kv_status kv' = KRevoked"
    using that kv'(1) usable_keysD [OF store] by (fastforce simp: usable_for_verify_def)
  moreover have "kid \<notin> kv_id ` {k. active_key kt tid lc = Inr k}" if "kv_status kv' = KRevoked"
    using that kv'(1) active_key_stored [OF store] active_keyD by fastforce
  ultimately show ?thesis using kv' unfolding Let_def lc_def [symmetric]
    by (auto simp: sign_payload_def key_get_def)
qed

definition plain_codec :: key_codec where
  "plain_codec = \<lparr>kc_chain = (\<lambda>m. m), kc_dumps = (\<lambda>_. []), kc_master = (\<lambda>m. m), kc_mac = (\<lambda>k m. k @ m)\<rparr>"

definition numbered :: "string \<Rightarrow> nat \<Rightarrow> string \<times> string" where
  "numbered p i = (p @ replicate i CHR ''i'', ''raw'')"

lemma keys_only_move_forward_witness:
  "let s = fold (key_step plain_codec) [(0, numbered ''a'', OpGenerate ''api_secret'' ''ops'' (Some ''t'') True),
      (1, numbered ''b'', OpRevoke ''a'' ''ops'' ''leaked'')] (new_rotation_system plain_codec);
     lc = sr_life (fold (key_step plain_codec) [(2, numbered ''c'', OpActivate ''a'' ''ops'')] s)
   in sign_payload plain_codec ''m'' ''a'' lc = Inl KeyRevokedError"
proof -
  define s where "s = fold (key_step plain_codec) [(0, numbered ''a'', OpGenerate ''api_secret'' ''ops'' (Some ''t'') True),
      (1, numbered ''b'', OpRevoke ''a'' ''ops'' ''leaked'')] (new_rotation_system plain_codec)"
  have "blank (Some ''leaked'') = False" by code_simp
  then have "\<exists>kv. od_get (lc_store (sr_life s)) ''a'' = Some kv \<and> kv_status kv = KRevoked"
    by (simp add: s_def on_life_def new_rotation_system_def new_lifecycle_def generate_key_def next_version_def Let_def
        key_add_def revoke_key_def key_get_def numbered_def update_status_def with_status_def fire_hooks_def
        fresh_key_def)
  then obtain kv where kv: "od_get (lc_store (sr_life s)) ''a'' = Some kv" "kv_status kv = KRevoked" by blast
  have "''a'' \<notin> \<Union> (ids_of ` set [(2, numbered ''c'', OpActivate ''a'' ''ops'')])" by (auto simp: ids_of_def numbered_def)
  from keys_only_move_forward [OF s_def kv(1) this, of "''m''" "''api_secret''" None] kv(2) show ?thesis
    unfolding Let_def s_def [symmetric] by (simp split: option.splits)
qed

subsection \<open>Rotation without downtime\<close>

lemma rotate_key_get:
  assumes ok: "store_ok lc" and old: "active_key kt tid lc = Inr old" and new_id: "fst fresh \<notin> fst ` set (lc_store lc)"
    and rot: "rotate_key kc now fresh kt actor reason trigger tid lc = (Inr (old_id, new), lc')"
    and pol: "get_policy kt tid lc = Inr p"
  shows "old_id = Some (kv_id old)" and "kv_id new = fst fresh \<and> kv_type new = kt \<and> kv_tenant new = tid \<and> kv_status new = KActive
      \<and> kv_raw new = snd fresh \<and> self_auth_valid kc new
      \<and> kv_version new = Suc (version_count (lc_versions lc) (counter_key kt tid))"
    and "od_get (lc_store lc') k = (if k = fst fresh then Some new else if k = kv_id old
      then Some (old\<lparr>kv_status := KGrace, kv_expires := Some (now + grace_seconds p), kv_rotated := Some now\<rparr>)
      else od_get (lc_store lc) k)"
proof -
  obtain v lc1 where nv: "next_version kt tid lc = (v, lc1)" by fastforce
  note counts = next_version_counts [OF nv]
  have "\<not> blank (Some reason)" using rot by (auto simp: rotate_key_def)
  then have r: "old_id = Some (kv_id old)" "new = fresh_key kc now fresh kt v True tid trigger"
    "lc_store lc' = lc_store (retire now (grace_seconds p) (kv_id old) (key_add new lc1))"
    using rot by (auto simp: rotate_key_def old pol nv Let_def fire_hooks_def)
  show "old_id = Some (kv_id old)" by (fact r(1))
  show "kv_id new = fst fresh \<and> kv_type new = kt \<and> kv_tenant new = tid \<and> kv_status new = KActive \<and> kv_raw new = snd fresh
      \<and> self_auth_valid kc new \<and> kv_version new = Suc (version_count (lc_versions lc) (counter_key kt tid))"
    using counts by (simp add: r(2) self_auth_valid_def)
  have stored: "od_get (lc_store lc) (kv_id old) = Some old" by (rule active_key_stored [OF ok old])
  then have "fst fresh \<noteq> kv_id old" using new_id od_get_Some_dom by metis
  then show "od_get (lc_store lc') k = (if k = fst fresh then Some new else if k = kv_id old
      then Some (old\<lparr>kv_status := KGrace, kv_expires := Some (now + grace_seconds p), kv_rotated := Some now\<rparr>)
      else od_get (lc_store lc) k)"
    using stored counts unfolding r(3) retire_def update_status_eq
    by (auto simp: key_mutate_get key_add_def r(2) with_status_def)
qed

lemma newest_of_strict:
  assumes "new \<in> set (b # ks)" and "\<And>k. k \<in> set (b # ks) \<Longrightarrow> k \<noteq> new \<Longrightarrow> kv_version k < kv_version new"
  shows "newest_of b ks = new"
  using newest_of_spec [of b ks] assms by (meson leD)

lemma active_key_newest:
  assumes "store_ok lc" and "od_get (lc_store lc) (kv_id new) = Some new" and "kv_type new = kt" and "kv_status new = KActive"
    and "of_tenant tid new"
    and "\<And>k. od_get (lc_store lc) (kv_id k) = Some k \<Longrightarrow> k \<noteq> new \<Longrightarrow> kv_type k = kt \<Longrightarrow> kv_status k = KActive \<Longrightarrow> of_tenant tid k
      \<Longrightarrow> kv_version k < kv_version new"
  shows "active_key kt tid lc = Inr new"
proof -
  let ?c = "filter (\<lambda>kv. kv_type kv = kt \<and> kv_status kv = KActive \<and> of_tenant tid kv) (map snd (lc_store lc))"
  have "new \<in> set ?c" using assms(2-5) by (force dest: od_get_SomeD)
  then obtain b ks where c: "?c = b # ks" by (cases ?c) auto
  have "kv_version k < kv_version new" if "k \<in> set (b # ks)" "k \<noteq> new" for k
    using that(1) unfolding c [symmetric] using assms(6) [of k] that(2) store_ok_in [OF assms(1)] by auto
  then show ?thesis using newest_of_strict [of new b ks] \<open>new \<in> set ?c\<close> c by (simp add: active_key_def)
qed

lemma get_policy_of_rotation:
  "rotate_key kc now fresh kt actor reason trigger tid lc = (Inr r, lc') \<Longrightarrow> \<exists>p. get_policy kt tid lc = Inr p"
  by (cases "get_policy kt tid lc") (auto simp: rotate_key_def Let_def split: if_splits)

text \<open>
  Rotation without downtime. After a tenant's key is rotated at a time \<open>now\<close>, the new key, one version above
  every earlier one, is the active key, is self-authenticating and what it signs verifies; what the replaced key has signed still
  verifies before and after every expiry pass up to the end of the grace period of the policy, and the first pass
  after it takes the replaced key out of use.
\<close>

theorem rotation_has_no_downtime:
  assumes "lc = sr_life (fold (key_step kc) evs (new_rotation_system kc))"
    and "active_key kt (Some t) lc = Inr old" and "kv_raw old \<noteq> []" and "snd fresh \<noteq> []" and "fst fresh \<notin> fst ` set (lc_store lc)"
    and "rotate_key kc now fresh kt actor reason trigger (Some t) lc = (Inr (replaced, new), lc')"
    and "get_policy kt (Some t) lc = Inr p"
  shows "let later = snd (expire_grace_keys kc now' actor' lc') in
    replaced = Some (kv_id old) \<and> active_key kt (Some t) lc' = Inr new \<and> kv_version old < kv_version new \<and> self_auth_valid kc new
    \<and> (case sign_payload kc payload (kv_id new) lc' of
         Inl _ \<Rightarrow> False
       | Inr sig \<Rightarrow> verify_payload kc payload sig kt (Some t) lc' \<and> verify_payload kc payload sig kt (Some t) later)
    \<and> verify_payload kc payload (kc_mac kc (kv_raw old) payload) kt (Some t) lc'
    \<and> (if now' < now + grace_seconds p
       then verify_payload kc payload (kc_mac kc (kv_raw old) payload) kt (Some t) later
       else kv_id old \<notin> kv_id ` set (usable_keys kt (Some t) later))"
proof -
  have ok: "life_ok kc lc" unfolding assms(1) by (rule life_ok_run)
  then have store: "store_ok lc" by (simp add: life_ok_def)
  note get = rotate_key_get [OF store assms(2,5,6,7)]
  have "snd (rotate_key kc now fresh kt actor reason trigger (Some t) lc) = lc'" using assms(6) by simp
  with key_evolves_rotate [of fresh "{fst fresh}" kc lc now kt actor reason trigger "Some t"] ok have ok': "life_ok kc lc'"
    by (simp add: evolves_def)
  then have store': "store_ok lc'" by (simp add: life_ok_def)
  define later where "later = snd (expire_grace_keys kc now' actor' lc')"
  have "life_ok kc later" using key_evolves_expire [of kc "{}" lc' now' actor'] ok' by (simp add: later_def evolves_def)
  then have store'': "store_ok later" by (simp add: life_ok_def)
  note expire = expire_grace_get [OF store', of kc now' actor', folded later_def]
  have old: "od_get (lc_store lc) (kv_id old) = Some old" by (rule active_key_stored [OF store assms(2)])
  have old_is: "kv_type old = kt" "kv_status old = KActive" "kv_tenant old = Some t"
    using active_keyD [OF assms(2)] by (auto simp: of_tenant_def)
  have distinct: "kv_id old \<noteq> fst fresh" using od_get_Some_dom [OF old] assms(5) by metis
  define grace_key where "grace_key = old\<lparr>kv_status := KGrace, kv_expires := Some (now + grace_seconds p), kv_rotated := Some now\<rparr>"
  have in': "od_get (lc_store lc') (kv_id new) = Some new" "od_get (lc_store lc') (kv_id old) = Some grace_key"
    using get distinct by (simp_all add: grace_key_def)
  have below: "kv_version k < kv_version new" if "od_get (lc_store lc) (kv_id k) = Some k" "kv_type k = kt" "kv_tenant k = Some t" for k
    using store_okD [OF store that(1)] that(2,3) get(2) by (simp add: less_Suc_eq_le)
  have "active_key kt (Some t) lc' = Inr new"
  proof (rule active_key_newest [OF store' in'(1)])
    fix k assume k: "od_get (lc_store lc') (kv_id k) = Some k" "k \<noteq> new" "kv_type k = kt" "kv_status k = KActive" "of_tenant (Some t) k"
    then have "k \<noteq> grace_key" "kv_id k \<noteq> fst fresh" using in' get(2) by (auto simp: grace_key_def)
    then have "od_get (lc_store lc) (kv_id k) = Some k" using k(1) get(3) [of "kv_id k"] by (auto simp: grace_key_def split: if_splits)
    then show "kv_version k < kv_version new" using below k by (simp add: of_tenant_def)
  qed (use get(2) in \<open>simp_all add: of_tenant_def\<close>)
  moreover have "kv_version old < kv_version new" using below old old_is by simp
  moreover have "new \<in> set (usable_keys kt (Some t) lc')"
    using get(2) by (intro usable_keysI [OF in'(1)]) (simp_all add: usable_for_verify_def of_tenant_def)
  moreover have "grace_key \<in> set (usable_keys kt (Some t) lc')"
    using old_is by (intro usable_keysI [OF in'(2)]) (simp_all add: grace_key_def usable_for_verify_def of_tenant_def)
  moreover have "new \<in> set (usable_keys kt (Some t) later)"
    using get(2) in'(1) by (intro usable_keysI [of later "kv_id new"])
      (auto simp: expire is_grace_expired_def usable_for_verify_def of_tenant_def split: option.split)
  moreover have "grace_key \<in> set (usable_keys kt (Some t) later)" if "now' < now + grace_seconds p"
    using that in'(2) old_is by (intro usable_keysI [of later "kv_id old"])
      (auto simp: expire is_grace_expired_def usable_for_verify_def of_tenant_def grace_key_def)
  moreover have "kv_id old \<notin> kv_id ` set (usable_keys kt (Some t) later)" if late: "\<not> now' < now + grace_seconds p"
  proof
    assume "kv_id old \<in> kv_id ` set (usable_keys kt (Some t) later)"
    then obtain k where "od_get (lc_store later) (kv_id old) = Some k" "usable_for_verify k"
      using usable_keysD [OF store''] by fastforce
    then show False using late in'(2) by (auto simp: expire is_grace_expired_def grace_key_def usable_for_verify_def)
  qed
  moreover have "sign_payload kc payload (kv_id new) lc' = Inr (kc_mac kc (kv_raw new) payload)"
    using in'(1) get(2) assms(4) by (simp add: sign_payload_def key_get_def)
  moreover have "kv_raw new \<noteq> []" "kv_raw grace_key = kv_raw old" using get(2) assms(4) by (simp_all add: grace_key_def)
  ultimately show ?thesis using get(1,2) assms(3) unfolding Let_def later_def [symmetric] verify_payload_def list_ex_iff
    by (simp add: bexI) (metis (no_types, lifting))
qed

lemma rotation_has_no_downtime_witness:
  "let lc = sr_life (fold (key_step plain_codec) [(0, numbered ''a'', OpGenerate ''api_secret'' ''ops'' (Some ''t'') True)]
        (new_rotation_system plain_codec));
     lc' = snd (rotate_key plain_codec 10 (''b'', ''raw2'') ''api_secret'' ''ops'' ''yearly'' Manual (Some ''t'') lc)
   in verify_payload plain_codec ''m'' ''rawm'' ''api_secret'' (Some ''t'') (snd (expire_grace_keys plain_codec 20 ''s'' lc'))"
proof -
  define lc where "lc = sr_life (fold (key_step plain_codec) [(0, numbered ''a'', OpGenerate ''api_secret'' ''ops'' (Some ''t'') True)]
        (new_rotation_system plain_codec))"
  have lc: "active_key ''api_secret'' (Some ''t'') lc = Inr (fresh_key plain_codec 0 (''a'', ''raw'') ''api_secret'' 1 True (Some ''t'') Bootstrap)"
    "fst ` set (lc_store lc) = {''a''}" "get_policy ''api_secret'' (Some ''t'') lc = Inr (policy 90 7 0 True)"
    by (simp_all add: lc_def on_life_def new_rotation_system_def new_lifecycle_def generate_key_def next_version_def Let_def numbered_def
        key_add_def fire_hooks_def active_key_def of_tenant_def version_count_def get_policy_def tenant_policy_key_def
        policy_defaults_def audit_key_def secret_record_def actions_with_reason_def)
  have "\<not> blank (Some ''yearly'')" by code_simp
  then obtain r lc' where rot: "rotate_key plain_codec 10 (''b'', ''raw2'') ''api_secret'' ''ops'' ''yearly'' Manual (Some ''t'') lc = (Inr r, lc')"
    by (cases "next_version ''api_secret'' (Some ''t'') lc") (simp add: rotate_key_def lc Let_def)
  obtain replaced new where r: "r = (replaced, new)" by (cases r)
  have mac: "kc_mac plain_codec k m = k @ m" for k m by (simp add: plain_codec_def)
  have "kv_raw (fresh_key plain_codec 0 (''a'', ''raw'') ''api_secret'' 1 True (Some ''t'') Bootstrap) \<noteq> []" by simp
  moreover have "fst (''b'', ''raw2'') \<notin> fst ` set (lc_store lc)" using lc(2) by simp
  ultimately show ?thesis
    using rotation_has_no_downtime [OF lc_def lc(1) _ _ _ rot [unfolded r] lc(3), where payload = "''m''" and now' = 20 and actor' = "''s''"]
    unfolding Let_def lc_def [symmetric] by (simp add: rot mac grace_seconds_def policy_def)
qed

subsection \<open>Further facts\<close>

text \<open>Up to 10,000 entries the audit chain of a run verifies and shows no broken entry.\<close>

lemma secret_chain_verifies:
  "let c = lc_audit (sr_life (fold (key_step kc) evs (new_rotation_system kc))) in
    if sc_seq c \<le> max_entries
    then secret_verify kc c \<and> detect_tampered kc c = [] \<and> map ke_seq (sc_entries c) = [1..<Suc (sc_seq c)]
    else length (sc_entries c) = max_entries"
proof -
  define c where "c = lc_audit (sr_life (fold (key_step kc) evs (new_rotation_system kc)))"
  obtain full where full: "verify_from (entry_fits kc) ke_chain_hash (secret_genesis kc) full" "length full = sc_seq c"
    "map ke_seq full = [1..<Suc (length full)]" "sc_entries c = take_last max_entries full"
    using life_ok_run [of kc evs] by (auto simp: life_ok_def chain_ok_def c_def)
  then show ?thesis unfolding Let_def c_def [symmetric]
    by (auto simp: secret_verify_def detect_tampered_def verify_iff_none_broken min_def)
qed

text \<open>The stored link is not verified: changing it in every entry goes unnoticed.\<close>

lemma unverified_links:
  "secret_verify kc (c\<lparr>sc_entries := map (\<lambda>e. e\<lparr>ke_prev_hash := f e, ke_seq := g e, ke_ts := h e\<rparr>) (sc_entries c)\<rparr>) = secret_verify kc c"
proof -
  have "verify_from (entry_fits kc) ke_chain_hash p (map (\<lambda>e. e\<lparr>ke_prev_hash := f e, ke_seq := g e, ke_ts := h e\<rparr>) es)
    = verify_from (entry_fits kc) ke_chain_hash p es" for p es
    by (induction es arbitrary: p) (simp_all add: entry_fits_def entry_text_def)
  then show ?thesis by (simp add: secret_verify_def)
qed

text \<open>Signing refuses revoked keys only: an expired key, or one never activated, still signs, and nothing verifies it.\<close>

lemma unusable_key_still_signs:
  "store_ok lc \<Longrightarrow> od_get (lc_store lc) kid = Some kv \<Longrightarrow> kv_status kv \<in> {KExpired, KPending} \<Longrightarrow> kv_raw kv \<noteq> [] \<Longrightarrow>
    sign_payload kc payload kid lc = Inr (kc_mac kc (kv_raw kv) payload) \<and> kid \<notin> kv_id ` set (usable_keys kt tid lc)"
  using usable_keysD [of lc] by (fastforce simp: sign_payload_def key_get_def usable_for_verify_def)

text \<open>A rotation without a tenant puts the newest active key of any tenant into its grace period.\<close>

lemma rotation_crosses_tenants:
  "(case rotate_key plain_codec 10 (''b'', ''raw'') ''api_secret'' ''ops'' ''manual'' Manual None
      (snd (generate_key plain_codec 0 (''a'', ''raw'') ''api_secret'' ''ops'' (Some ''tenant'') True (new_lifecycle plain_codec))) of
    (Inl _, _) \<Rightarrow> False
  | (Inr (old, _), lc) \<Rightarrow> old = Some ''a'' \<and> active_key ''api_secret'' (Some ''tenant'') lc = Inl KeyNotFoundError)"
proof -
  have "\<not> blank (Some ''manual'')" by code_simp
  then show ?thesis
    by (simp add: rotate_key_def generate_key_def next_version_def new_lifecycle_def Let_def key_add_def fire_hooks_def active_key_def
        of_tenant_def get_policy_def tenant_policy_key_def policy_defaults_def retire_def update_status_eq key_mutate_def with_status_def)
qed

end
