(* ===== verification/Candles.thy ===== *)
theory Candles
  imports Prelude
begin

section \<open>Candles and market context\<close>

text \<open>
  The data of \<open>src/backend/analysis/price_action_engine.py\<close> and its \<open>ContextAnalyzer\<close>: candles with their derived
  measures, volatility, trend votes, session and kill zone, the zones handed over by the SMC engine, and support and
  resistance levels. \<open>numpy.mean\<close> and \<open>numpy.percentile\<close> are parameters. A \<open>datetime\<close> is its wall-clock
  reading in seconds.
\<close>

record numpy =
  np_mean :: "real list \<Rightarrow> real"
  np_percentile :: "real list \<Rightarrow> real \<Rightarrow> real"

abbreviation IndexError :: exc where "IndexError \<equiv> OtherError ''IndexError''"

record candle =
  c_index :: nat
  c_time :: time
  c_open :: real
  c_high :: real
  c_low :: real
  c_close :: real
  c_volume :: real
  c_body :: real
  c_upper_wick :: real
  c_lower_wick :: real
  c_total_range :: real
  c_body_ratio :: real
  c_bullish :: bool

text \<open>\<open>__post_init__\<close> computes the derived fields.\<close>

definition make_candle :: "nat \<Rightarrow> time \<Rightarrow> real \<Rightarrow> real \<Rightarrow> real \<Rightarrow> real \<Rightarrow> real \<Rightarrow> candle" where
  "make_candle i t op hi lo cl vol =
     (let body = \<bar>cl - op\<bar>; rng = hi - lo in
      \<lparr>c_index = i, c_time = t, c_open = op, c_high = hi, c_low = lo, c_close = cl, c_volume = vol, c_body = body,
       c_upper_wick = hi - max op cl, c_lower_wick = min op cl - lo, c_total_range = rng,
       c_body_ratio = (if rng > 0 then body / rng else 0), c_bullish = (cl \<ge> op)\<rparr>)"

text \<open>\<open>xs[-k]\<close> and \<open>xs[-k:]\<close>.\<close>

definition from_end :: "nat \<Rightarrow> 'a list \<Rightarrow> 'a" where
  "from_end k xs = xs ! (length xs - k)"

definition tail_slice :: "nat \<Rightarrow> 'a list \<Rightarrow> 'a list" where
  "tail_slice k xs = (if k = 0 then xs else take_last k xs)"

definition list_max :: "real list \<Rightarrow> real" where "list_max xs = foldl max (hd xs) (tl xs)"
definition list_min :: "real list \<Rightarrow> real" where "list_min xs = foldl min (hd xs) (tl xs)"

text \<open>\<open>sorted(set(xs), reverse=True)[:k]\<close>.\<close>

definition top_levels :: "nat \<Rightarrow> real list \<Rightarrow> real list" where
  "top_levels k xs = take k (rev (sort (remdups xs)))"

lemma top_levels_sorted:
  "length (top_levels k xs) \<le> k" "distinct (top_levels k xs)" "set (top_levels k xs) \<subseteq> set xs"
  "sorted_wrt (>) (top_levels k xs)"
proof -
  show "length (top_levels k xs) \<le> k" "distinct (top_levels k xs)" "set (top_levels k xs) \<subseteq> set xs"
    using set_take_subset [of k "rev (sort (remdups xs))"] by (auto simp: top_levels_def)
  have "sorted_wrt (<) (sort (remdups xs))" by (simp add: strict_sorted_iff)
  then show "sorted_wrt (>) (top_levels k xs)" by (simp add: top_levels_def sorted_wrt_take sorted_wrt_rev)
qed

text \<open>The levels kept are the highest.\<close>

lemma top_levels_highest:
  assumes "x \<in> set xs" and "x \<notin> set (top_levels k xs)" and "y \<in> set (top_levels k xs)" shows "x < y"
proof -
  let ?r = "rev (sort (remdups xs))"
  have "sorted_wrt (<) (sort (remdups xs))" by (simp add: strict_sorted_iff)
  then have "sorted_wrt (>) (take k ?r @ List.drop k ?r)" by (simp add: sorted_wrt_rev)
  moreover have "x \<in> set (List.drop k ?r)"
    using assms(1,2) set_append [of "take k ?r" "List.drop k ?r"] by (auto simp: top_levels_def)
  ultimately show ?thesis using assms(3) by (auto simp: top_levels_def sorted_wrt_append simp del: append_take_drop_id)
qed

subsection \<open>Context\<close>

datatype trend = Bullish | Bearish | NeutralTrend | Ranging | UndefinedTrend

datatype session = Sydney | Tokyo | London | NewYork | OverlapLondonNy | OverlapTokyoLondon | Closed

record zone =
  z_type :: string
  z_direction :: string
  z_high :: real
  z_low :: real
  z_mid :: real
  z_strength :: real

record market_context =
  mc_trend :: trend
  mc_trend_strength :: real
  mc_last_event :: "string option"
  mc_swept :: bool
  mc_sweep_direction :: "string option"
  mc_blocks :: "zone list"
  mc_fvgs :: "zone list"
  mc_supports :: "real list"
  mc_resistances :: "real list"
  mc_atr :: real
  mc_volatility :: real
  mc_avg_range :: real
  mc_session :: session
  mc_killzone :: bool
  mc_killzone_name :: "string option"
  mc_premium_discount :: string
  mc_equilibrium :: "real \<times> real"
  mc_price :: real

definition empty_context :: market_context where
  "empty_context = \<lparr>mc_trend = NeutralTrend, mc_trend_strength = 0, mc_last_event = None, mc_swept = False,
     mc_sweep_direction = None, mc_blocks = [], mc_fvgs = [], mc_supports = [], mc_resistances = [], mc_atr = 0,
     mc_volatility = 50, mc_avg_range = 0, mc_session = London, mc_killzone = False, mc_killzone_name = None,
     mc_premium_discount = ''equilibrium'', mc_equilibrium = (0, 0), mc_price = 0\<rparr>"

record context_config =
  cc_atr_period :: nat
  cc_range_period :: nat

definition true_range :: "candle \<Rightarrow> candle \<Rightarrow> real" where
  "true_range prev c = max (c_high c - c_low c) (max \<bar>c_high c - c_close prev\<bar> \<bar>c_low c - c_close prev\<bar>)"

text \<open>The true ranges of the candles from index \<open>max 1 (n - period)\<close> on.\<close>

definition true_ranges :: "nat \<Rightarrow> candle list \<Rightarrow> real list" where
  "true_ranges period cs = map (\<lambda>i. true_range (cs ! (i - 1)) (cs ! i)) [max 1 (length cs - period)..<length cs]"

definition calc_volatility :: "numpy \<Rightarrow> context_config \<Rightarrow> candle list \<Rightarrow> market_context \<Rightarrow> market_context" where
  "calc_volatility np cfg cs ctx =
     (let period = min (cc_atr_period cfg) (length cs - 1) in
      if period < 1 then ctx
      else
        (let trs = true_ranges period cs;
             atr = np_mean np trs;
             ctx1 = (if trs \<noteq> [] then ctx\<lparr>mc_atr := atr, mc_avg_range := atr\<rparr> else ctx)
         in if length trs \<ge> 10
            then (let alls = true_ranges (cc_range_period cfg) cs in
                  if alls \<noteq> [] \<and> mc_atr ctx1 > 0
                  then ctx1\<lparr>mc_volatility := min 100 (max 0 (np_percentile np alls 80 / mc_atr ctx1 * 50))\<rparr>
                  else ctx1)
            else ctx1))"

subsection \<open>Trend votes\<close>

text \<open>Per look-back: one vote of the averages and one of the halves' highs and lows.\<close>

definition average_vote :: "numpy \<Rightarrow> candle list \<Rightarrow> int" where
  "average_vote np recent =
     (let closes = map c_close recent; fast = np_mean np (take_last 10 closes); slow = np_mean np closes in
      if fast > slow * 1001 / 1000 then 1 else if fast < slow * 999 / 1000 then -1 else 0)"

definition halves_vote :: "candle list \<Rightarrow> int" where
  "halves_vote recent =
     (let mid = length recent div 2; highs = map c_high recent; lows = map c_low recent;
          h1 = list_max (take mid highs); h2 = list_max (List.drop mid highs);
          l1 = list_min (take mid lows); l2 = list_min (List.drop mid lows)
      in if h2 > h1 \<and> l2 > l1 then 1 else if h2 < h1 \<and> l2 < l1 then -1 else 0)"

definition trend_votes :: "numpy \<Rightarrow> candle list \<Rightarrow> int list" where
  "trend_votes np cs = concat (map (\<lambda>lookback. if length cs < lookback then []
      else [average_vote np (take_last lookback cs), halves_vote (take_last lookback cs)]) [20, 50])"

definition detect_trend :: "numpy \<Rightarrow> candle list \<Rightarrow> market_context \<Rightarrow> market_context" where
  "detect_trend np cs ctx =
     (let vs = trend_votes np cs;
          bull = length (filter (\<lambda>v. v = 1) vs); bear = length (filter (\<lambda>v. v = -1) vs);
          share = \<lambda>k. min (real k / real (max (bull + bear) 1) * 100) 100
      in if bull \<ge> 2 then ctx\<lparr>mc_trend := Bullish, mc_trend_strength := share bull\<rparr>
         else if bear \<ge> 2 then ctx\<lparr>mc_trend := Bearish, mc_trend_strength := share bear\<rparr>
         else ctx\<lparr>mc_trend := NeutralTrend, mc_trend_strength := 30\<rparr>)"

subsection \<open>Session and kill zone\<close>

definition second_of_day :: "time \<Rightarrow> real" where
  "second_of_day t = t - 86400 * of_int \<lfloor>t / 86400\<rfloor>"

text \<open>\<open>hour + minute / 60\<close>.\<close>

definition decimal_hour :: "time \<Rightarrow> real" where
  "decimal_hour t = of_int \<lfloor>second_of_day t / 60\<rfloor> / 60"

definition pa_sessions :: "(session \<times> real \<times> real) list" where
  "pa_sessions = [(Sydney, 22, 7), (Tokyo, 0, 9), (London, 8, 17), (NewYork, 13, 22)]"

definition killzones :: "(string \<times> real \<times> real) list" where
  "killzones = [(''london'', 8, 11), (''new_york'', 27 / 2, 16), (''tokyo'', 1 / 2, 2)]"

definition session_active :: "real \<Rightarrow> session \<times> real \<times> real \<Rightarrow> bool" where
  "session_active h s = (case s of (_, a, b) \<Rightarrow> if a > b then h \<ge> a \<or> h < b else a \<le> h \<and> h < b)"

definition determine_session :: "time \<Rightarrow> market_context \<Rightarrow> market_context" where
  "determine_session t ctx =
     (let h = decimal_hour t;
          ctx1 = (case find (session_active h) pa_sessions of None \<Rightarrow> ctx | Some s \<Rightarrow> ctx\<lparr>mc_session := fst s\<rparr>)
      in case find (\<lambda>(_, a, b). a \<le> h \<and> h < b) killzones of
           None \<Rightarrow> ctx1
         | Some z \<Rightarrow> ctx1\<lparr>mc_killzone := True, mc_killzone_name := Some (fst z)\<rparr>)"

subsection \<open>Zones of the SMC engine\<close>

text \<open>The dictionary the SMC engine hands over; an absent member is None.\<close>

record smc_zone =
  sz_type :: "string option"
  sz_direction :: "string option"
  sz_high :: "real option"
  sz_low :: "real option"
  sz_mid :: "real option"
  sz_score :: "real option"

record smc_context =
  sm_last_event :: "string option"
  sm_swept :: "bool option"
  sm_sweep_direction :: "string option"
  sm_blocks :: "smc_zone list"
  sm_fvgs :: "smc_zone list"
  sm_premium_discount :: "string option"
  sm_equilibrium :: "real list option"

definition or_else :: "'a option \<Rightarrow> 'a \<Rightarrow> 'a" where
  "or_else x d = (case x of None \<Rightarrow> d | Some y \<Rightarrow> y)"

definition block_of :: "smc_zone \<Rightarrow> zone" where
  "block_of b = \<lparr>z_type = or_else (sz_type b) ''order_block'', z_direction = or_else (sz_direction b) ''bullish'',
     z_high = or_else (sz_high b) 0, z_low = or_else (sz_low b) 0, z_mid = or_else (sz_mid b) 0, z_strength = or_else (sz_score b) 5\<rparr>"

definition fvg_of :: "smc_zone \<Rightarrow> zone" where
  "fvg_of f = \<lparr>z_type = or_else (sz_type f) ''bullish_fvg'', z_direction = [],
     z_high = or_else (sz_high f) 0, z_low = or_else (sz_low f) 0, z_mid = or_else (sz_mid f) 0, z_strength = 0\<rparr>"

text \<open>A block without a direction is stored as bullish, but its level counts as resistance.\<close>

definition add_block :: "smc_zone \<Rightarrow> market_context \<Rightarrow> market_context" where
  "add_block b ctx =
     (let ctx1 = ctx\<lparr>mc_blocks := mc_blocks ctx @ [block_of b]\<rparr> in
      if sz_direction b = Some ''bullish'' then ctx1\<lparr>mc_supports := mc_supports ctx1 @ [or_else (sz_low b) 0]\<rparr>
      else ctx1\<lparr>mc_resistances := mc_resistances ctx1 @ [or_else (sz_high b) 0]\<rparr>)"

definition extract_smc :: "smc_context \<Rightarrow> market_context \<Rightarrow> market_context" where
  "extract_smc s ctx =
     (let ctx1 = ctx\<lparr>mc_last_event := sm_last_event s, mc_swept := or_else (sm_swept s) False,
            mc_sweep_direction := sm_sweep_direction s\<rparr>;
          ctx2 = fold add_block (sm_blocks s) ctx1;
          ctx3 = ctx2\<lparr>mc_fvgs := mc_fvgs ctx2 @ map fvg_of (sm_fvgs s),
            mc_premium_discount := or_else (sm_premium_discount s) ''equilibrium''\<rparr>
      in case sm_equilibrium s of Some [a, b] \<Rightarrow> ctx3\<lparr>mc_equilibrium := (a, b)\<rparr> | _ \<Rightarrow> ctx3)"

subsection \<open>Support and resistance\<close>

definition local_high :: "candle list \<Rightarrow> nat \<Rightarrow> bool" where
  "local_high cs i \<longleftrightarrow> (\<forall>j \<in> {i - 2, i - 1, i + 1, i + 2}. c_high (cs ! j) < c_high (cs ! i))"

definition local_low :: "candle list \<Rightarrow> nat \<Rightarrow> bool" where
  "local_low cs i \<longleftrightarrow> (\<forall>j \<in> {i - 2, i - 1, i + 1, i + 2}. c_low (cs ! i) < c_low (cs ! j))"

definition extract_levels :: "candle list \<Rightarrow> market_context \<Rightarrow> market_context" where
  "extract_levels cs ctx =
     (let recent = take_last 50 cs; inner = [2..<length recent - 2];
          highs = map (\<lambda>i. c_high (recent ! i)) (filter (local_high recent) inner);
          lows = map (\<lambda>i. c_low (recent ! i)) (filter (local_low recent) inner)
      in ctx\<lparr>mc_resistances := top_levels 10 (mc_resistances ctx @ highs), mc_supports := top_levels 10 (mc_supports ctx @ lows)\<rparr>)"

definition analyze_context :: "numpy \<Rightarrow> context_config \<Rightarrow> candle list \<Rightarrow> time \<Rightarrow> smc_context option \<Rightarrow> market_context" where
  "analyze_context np cfg cs t smc =
     (if length cs < 20 then empty_context
      else
        (let ctx1 = determine_session t (detect_trend np cs (calc_volatility np cfg cs empty_context));
             ctx2 = (case smc of None \<Rightarrow> ctx1 | Some s \<Rightarrow> extract_smc s ctx1)
         in extract_levels cs ctx2))"

subsection \<open>Facts about the context\<close>

lemma block_fields:
  "mc_trend (fold add_block bs ctx) = mc_trend ctx" "mc_trend_strength (fold add_block bs ctx) = mc_trend_strength ctx"
  "mc_volatility (fold add_block bs ctx) = mc_volatility ctx" "mc_blocks (fold add_block bs ctx) = mc_blocks ctx @ map block_of bs"
  by (induction bs arbitrary: ctx) (simp_all add: add_block_def Let_def)

lemma smc_keeps_trend:
  "mc_trend (extract_smc s ctx) = mc_trend ctx" "mc_trend_strength (extract_smc s ctx) = mc_trend_strength ctx"
  "mc_volatility (extract_smc s ctx) = mc_volatility ctx"
  by (simp_all add: extract_smc_def Let_def block_fields split: option.split list.split)

lemma session_keeps_trend:
  "mc_trend (determine_session t ctx) = mc_trend ctx" "mc_trend_strength (determine_session t ctx) = mc_trend_strength ctx"
  "mc_volatility (determine_session t ctx) = mc_volatility ctx"
  by (simp_all add: determine_session_def Let_def split: option.split)

lemma levels_keep_trend:
  "mc_trend (extract_levels cs ctx) = mc_trend ctx" "mc_trend_strength (extract_levels cs ctx) = mc_trend_strength ctx"
  "mc_volatility (extract_levels cs ctx) = mc_volatility ctx"
  by (simp_all add: extract_levels_def Let_def)

text \<open>The first session of the table wins, so the overlaps are decided by its order.\<close>

lemma decimal_hour_range: "0 \<le> decimal_hour t \<and> decimal_hour t < 24"
proof -
  have "0 \<le> second_of_day t" "second_of_day t < 86400" unfolding second_of_day_def by linarith+
  then have "0 \<le> \<lfloor>second_of_day t / 60\<rfloor>" "\<lfloor>second_of_day t / 60\<rfloor> < 1440" by (simp_all add: floor_less_iff)
  then show ?thesis by (simp add: decimal_hour_def)
qed

lemma session_table:
  "mc_session (determine_session t ctx) = (let h = decimal_hour t in
    if h < 7 \<or> h \<ge> 22 then Sydney else if h < 9 then Tokyo else if h < 17 then London else NewYork)"
  using decimal_hour_range [of t]
  by (simp add: determine_session_def pa_sessions_def session_active_def Let_def split: option.split)

end
