(* ===== verification/Candle_Patterns.thy ===== *)
theory Candle_Patterns
  imports Candles
begin

section \<open>Candle patterns\<close>

text \<open>
  The \<open>CandlePatternDetector\<close> of \<open>src/backend/analysis/price_action_engine.py\<close>: eight detectors over the last
  candles, the context bonuses they share and the final scores. A detector first decides the shape of the pattern
  and then scores it; the direction strings of an analysis are a datatype.
\<close>

datatype pa_direction = PaBullish | PaBearish | PaNeutral

datatype pa_pattern =
    PIN_BAR | ENGULFING | FAKEY | INSIDE_BAR | OUTSIDE_BAR | DOJI | MORNING_STAR | EVENING_STAR
  | THREE_SOLDIERS | THREE_CROWS | BREAKOUT | RETEST | COMPRESSION | EXPANSION

datatype pa_reason =
    WickRejection | BodyEngulf | FalseBreak | InsideStructure | OutsideExpansion | Indecision | ReversalCandidate
  | TrendAligned | TrendOpposing | AtSupport | AtResistance | InBlockZone | InFvgZone | AfterLiquiditySweep | InKillzone
  | LevelBreak | LevelRetest | RangeCompression | VolatilityExpansion | StrongCandle

datatype detail = DNum real | DStr string | DBool bool | DTime time

record pa_analysis =
  pa_pattern :: pa_pattern
  pa_detected :: bool
  pa_dir :: pa_direction
  pa_indices :: "nat list"
  pa_times :: "time list"
  pa_base :: real
  pa_confidence :: real
  pa_quality :: real
  pa_invalidation :: real
  pa_entry :: real
  pa_stop :: real
  pa_target :: real
  pa_reasons :: "pa_reason list"
  pa_bonuses :: "(string, real) odict"
  pa_details :: "(string, detail) odict"

definition empty_pa :: "pa_pattern \<Rightarrow> pa_analysis" where
  "empty_pa p = \<lparr>pa_pattern = p, pa_detected = False, pa_dir = PaNeutral, pa_indices = [], pa_times = [], pa_base = 0,
     pa_confidence = 0, pa_quality = 0, pa_invalidation = 0, pa_entry = 0, pa_stop = 0, pa_target = 0, pa_reasons = [],
     pa_bonuses = [], pa_details = []\<rparr>"

record pattern_config =
  pc_pin_wick :: real
  pc_pin_body :: real
  pc_engulf :: real
  pc_doji :: real

definition default_pattern_config :: pattern_config where
  "default_pattern_config = \<lparr>pc_pin_wick = 6 / 10, pc_pin_body = 35 / 100, pc_engulf = 12 / 10, pc_doji = 1 / 10\<rparr>"

text \<open>A detected analysis before it is scored.\<close>

definition start_pa :: "pa_pattern \<Rightarrow> pa_direction \<Rightarrow> real \<Rightarrow> (string, detail) odict \<Rightarrow> pa_reason \<Rightarrow> pa_analysis" where
  "start_pa p d base details code =
     (empty_pa p)\<lparr>pa_detected := True, pa_dir := d, pa_base := base, pa_details := details, pa_reasons := [code]\<rparr>"

definition add_bonus :: "string \<Rightarrow> real \<Rightarrow> pa_analysis \<Rightarrow> pa_analysis" where
  "add_bonus k x a = a\<lparr>pa_bonuses := od_put k x (pa_bonuses a)\<rparr>"

definition add_reason :: "pa_reason \<Rightarrow> pa_analysis \<Rightarrow> pa_analysis" where
  "add_reason r a = a\<lparr>pa_reasons := pa_reasons a @ [r]\<rparr>"

definition add_detail :: "string \<Rightarrow> detail \<Rightarrow> pa_analysis \<Rightarrow> pa_analysis" where
  "add_detail k x a = a\<lparr>pa_details := od_put k x (pa_details a)\<rparr>"

abbreviation credit :: "string \<Rightarrow> real \<Rightarrow> pa_reason \<Rightarrow> pa_analysis \<Rightarrow> pa_analysis" where
  "credit k x r a \<equiv> add_reason r (add_bonus k x a)"

subsection \<open>Context bonuses\<close>

fun with_trend :: "trend \<Rightarrow> pa_direction \<Rightarrow> bool" where
  "with_trend Bullish PaBullish = True"
| "with_trend Bearish PaBearish = True"
| "with_trend _ _ = False"

fun against_trend :: "trend \<Rightarrow> pa_direction \<Rightarrow> bool" where
  "against_trend Bullish PaBearish = True"
| "against_trend Bearish PaBullish = True"
| "against_trend _ _ = False"

definition candle_mid :: "candle \<Rightarrow> real" where
  "candle_mid c = (c_high c + c_low c) / 2"

definition near_level :: "market_context \<Rightarrow> real \<Rightarrow> real \<Rightarrow> bool" where
  "near_level ctx x level \<longleftrightarrow> \<bar>x - level\<bar> < mc_atr ctx * (1 / 2)"

definition in_zone :: "real \<Rightarrow> zone \<Rightarrow> bool" where
  "in_zone x z \<longleftrightarrow> z_low z \<le> x \<and> x \<le> z_high z"

definition trend_bonus :: "market_context \<Rightarrow> pa_analysis \<Rightarrow> pa_analysis" where
  "trend_bonus ctx a =
     (if with_trend (mc_trend ctx) (pa_dir a) then credit ''trend_aligned'' 15 TrendAligned a
      else if against_trend (mc_trend ctx) (pa_dir a) then credit ''counter_trend'' 5 TrendOpposing a
      else a)"

text \<open>Only the first level near the candle is looked at, and only three levels are searched.\<close>

definition level_bonus :: "market_context \<Rightarrow> candle \<Rightarrow> pa_analysis \<Rightarrow> pa_analysis" where
  "level_bonus ctx c a =
     (let near = \<lambda>levels. find (near_level ctx (candle_mid c)) (take 3 levels) \<noteq> None;
          a1 = (if near (mc_supports ctx) \<and> pa_dir a = PaBullish then credit ''at_support'' 15 AtSupport a else a)
      in if near (mc_resistances ctx) \<and> pa_dir a = PaBearish then credit ''at_resistance'' 15 AtResistance a1 else a1)"

definition zone_bonus :: "market_context \<Rightarrow> candle \<Rightarrow> pa_analysis \<Rightarrow> pa_analysis" where
  "zone_bonus ctx c a =
     (let a1 = (case find (in_zone (candle_mid c)) (mc_blocks ctx) of
            None \<Rightarrow> a
          | Some b \<Rightarrow> if z_direction b = ''bullish'' \<and> pa_dir a = PaBullish \<or> z_direction b = ''bearish'' \<and> pa_dir a = PaBearish
              then credit ''in_block_zone'' 15 InBlockZone a else a)
      in if find (in_zone (candle_mid c)) (mc_fvgs ctx) \<noteq> None then credit ''in_fvg_zone'' 10 InFvgZone a1 else a1)"

definition setting_bonus :: "market_context \<Rightarrow> candle \<Rightarrow> pa_analysis \<Rightarrow> pa_analysis" where
  "setting_bonus ctx c a =
     (let a1 = (if mc_swept ctx \<and> (mc_sweep_direction ctx = Some ''sell_side_hit'' \<and> pa_dir a = PaBullish
              \<or> mc_sweep_direction ctx = Some ''buy_side_hit'' \<and> pa_dir a = PaBearish)
            then credit ''after_sweep'' 20 AfterLiquiditySweep a else a);
          a2 = (if mc_killzone ctx then credit ''killzone'' 10 InKillzone a1 else a1);
          a3 = (if c_body_ratio c \<ge> 7 / 10 then credit ''strong_candle'' 10 StrongCandle a2 else a2)
      in if c_volume c > 0 then add_detail ''volume'' (DNum (c_volume c)) a3 else a3)"

definition context_bonuses :: "market_context \<Rightarrow> candle \<Rightarrow> pa_analysis \<Rightarrow> pa_analysis" where
  "context_bonuses ctx c a = setting_bonus ctx c (zone_bonus ctx c (level_bonus ctx c (trend_bonus ctx a)))"

subsection \<open>Final scores\<close>

definition bonus_sum :: "pa_analysis \<Rightarrow> real" where
  "bonus_sum a = sum_list (map snd (pa_bonuses a))"

definition strength_of :: "real \<Rightarrow> string" where
  "strength_of conf = (if conf \<ge> 80 then ''very_strong'' else if conf \<ge> 60 then ''strong''
     else if conf \<ge> 40 then ''moderate'' else ''weak'')"

definition final_scores :: "pa_analysis \<Rightarrow> pa_analysis" where
  "final_scores a =
     (let conf = min (min (pa_base a * 4) 60 + bonus_sum a) 100;
          qual = min (40 + real (length (pa_reasons a)) * 10 + bonus_sum a * (3 / 10)) 100
      in add_detail ''strength'' (DStr (strength_of conf)) (a\<lparr>pa_confidence := conf, pa_quality := qual\<rparr>))"

definition mark :: "candle list \<Rightarrow> pa_analysis \<Rightarrow> pa_analysis" where
  "mark cs a = a\<lparr>pa_indices := map c_index cs, pa_times := map c_time cs\<rparr>"

text \<open>The level at which the pattern is invalid: below a bullish one, above a bearish one.\<close>

definition invalid_at :: "real \<Rightarrow> real \<Rightarrow> real \<Rightarrow> pa_analysis \<Rightarrow> pa_analysis" where
  "invalid_at low high margin a =
     a\<lparr>pa_invalidation := (if pa_dir a = PaBullish then low - margin else high + margin)\<rparr>"

subsection \<open>One candle\<close>

definition pin_shape :: "pattern_config \<Rightarrow> candle \<Rightarrow> pa_analysis option" where
  "pin_shape cfg c =
     (if c_total_range c = 0 then None
      else
        (let up = c_upper_wick c / c_total_range c; down = c_lower_wick c / c_total_range c; body = c_body_ratio c in
         if down \<ge> pc_pin_wick cfg \<and> body \<le> pc_pin_body cfg \<and> up \<le> 15 / 100
         then Some (start_pa PIN_BAR PaBullish 8 [(''wick_level'', DNum (c_low c)), (''wick_ratio'', DNum down), (''body_ratio'', DNum body)] WickRejection)
         else if up \<ge> pc_pin_wick cfg \<and> body \<le> pc_pin_body cfg \<and> down \<le> 15 / 100
         then Some (start_pa PIN_BAR PaBearish 8 [(''wick_level'', DNum (c_high c)), (''wick_ratio'', DNum up), (''body_ratio'', DNum body)] WickRejection)
         else None))"

definition detect_pin_bar :: "pattern_config \<Rightarrow> candle list \<Rightarrow> market_context \<Rightarrow> pa_analysis" where
  "detect_pin_bar cfg cs ctx =
     (if cs = [] then empty_pa PIN_BAR
      else
        (let c = last cs in
         case pin_shape cfg c of
           None \<Rightarrow> empty_pa PIN_BAR
         | Some a \<Rightarrow> mark [c] (invalid_at (c_low c) (c_high c) (mc_atr ctx * (1 / 2)) (final_scores (context_bonuses ctx c a)))))"

definition doji_shape :: "pattern_config \<Rightarrow> candle \<Rightarrow> pa_analysis option" where
  "doji_shape cfg c =
     (if c_body_ratio c \<le> pc_doji cfg \<and> c_total_range c > 0
      then Some (start_pa DOJI PaNeutral 4 [(''mid_level'', DNum (candle_mid c)), (''body_ratio'', DNum (c_body_ratio c)),
             (''range'', DNum (c_total_range c))] Indecision)
      else None)"

definition doji_bonuses :: "market_context \<Rightarrow> candle \<Rightarrow> pa_analysis \<Rightarrow> pa_analysis" where
  "doji_bonuses ctx c a =
     (let near = \<lambda>levels. find (near_level ctx (candle_mid c)) (take 3 levels) \<noteq> None;
          a1 = (if near (mc_supports ctx) then credit ''at_support'' 10 AtSupport a else a);
          a2 = (if near (mc_resistances ctx) then credit ''at_resistance'' 10 AtResistance a1 else a1)
      in if mc_trend_strength ctx > 60 then credit ''potential_reversal'' 10 ReversalCandidate a2 else a2)"

definition detect_doji :: "pattern_config \<Rightarrow> candle list \<Rightarrow> market_context \<Rightarrow> pa_analysis" where
  "detect_doji cfg cs ctx =
     (if cs = [] then empty_pa DOJI
      else
        (let c = last cs in
         case doji_shape cfg c of
           None \<Rightarrow> empty_pa DOJI
         | Some a \<Rightarrow> mark [c] (final_scores (doji_bonuses ctx c a))))"

subsection \<open>Two candles\<close>

definition engulf_shape :: "pattern_config \<Rightarrow> candle \<Rightarrow> candle \<Rightarrow> pa_analysis option" where
  "engulf_shape cfg prev cur =
     (let covers = min (c_open cur) (c_close cur) \<le> min (c_open prev) (c_close prev)
            \<and> max (c_open cur) (c_close cur) \<ge> max (c_open prev) (c_close prev) \<and> c_body cur \<ge> c_body prev * pc_engulf cfg;
          details = [(''engulf_ratio'', DNum (c_body cur / max (c_body prev) (1 / 10000))), (''prev_body'', DNum (c_body prev)),
            (''curr_body'', DNum (c_body cur))]
      in if c_bullish cur \<and> \<not> c_bullish prev \<and> covers then Some (start_pa ENGULFING PaBullish 10 details BodyEngulf)
         else if \<not> c_bullish cur \<and> c_bullish prev \<and> covers then Some (start_pa ENGULFING PaBearish 10 details BodyEngulf)
         else None)"

definition detect_engulfing :: "pattern_config \<Rightarrow> candle list \<Rightarrow> market_context \<Rightarrow> pa_analysis" where
  "detect_engulfing cfg cs ctx =
     (if length cs < 2 then empty_pa ENGULFING
      else
        (let prev = from_end 2 cs; cur = from_end 1 cs in
         case engulf_shape cfg prev cur of
           None \<Rightarrow> empty_pa ENGULFING
         | Some a \<Rightarrow>
             (let a1 = context_bonuses ctx cur a;
                  a2 = (if c_body_ratio cur \<ge> 7 / 10 then credit ''strong_body'' 10 StrongCandle a1 else a1);
                  a3 = invalid_at (c_low cur) (c_high cur) (mc_atr ctx * (1 / 2)) (final_scores a2)
              in mark [prev, cur] (a3\<lparr>pa_entry := c_close cur\<rparr>))))"

definition inside_shape :: "candle \<Rightarrow> candle \<Rightarrow> pa_analysis option" where
  "inside_shape mother inside =
     (if c_high inside \<le> c_high mother \<and> c_low inside \<ge> c_low mother
      then Some (start_pa INSIDE_BAR PaNeutral 5 [(''mother_high'', DNum (c_high mother)), (''mother_low'', DNum (c_low mother)),
             (''mother_range'', DNum (c_total_range mother)), (''inside_range'', DNum (c_total_range inside))] InsideStructure)
      else None)"

text \<open>A strongly compressed inside bar appends a reason code that does not exist.\<close>

definition detect_inside_bar :: "candle list \<Rightarrow> market_context \<Rightarrow> exc + pa_analysis" where
  "detect_inside_bar cs ctx =
     (if length cs < 2 then Inr (empty_pa INSIDE_BAR)
      else
        (let mother = from_end 2 cs; inside = from_end 1 cs in
         case inside_shape mother inside of
           None \<Rightarrow> Inr (empty_pa INSIDE_BAR)
         | Some a \<Rightarrow>
             (let a1 = context_bonuses ctx inside a;
                  a2 = (if c_total_range mother > mc_avg_range ctx * (12 / 10) then add_bonus ''large_mother'' 10 a1 else a1)
              in if c_total_range inside < c_total_range mother * (3 / 10) then Inl AttributeError
                 else
                   (let a3 = (final_scores a2)\<lparr>pa_invalidation := (c_high mother + c_low mother) / 2\<rparr>;
                        a4 = add_detail ''breakout_level_low'' (DNum (c_low mother)) (add_detail ''breakout_level_high'' (DNum (c_high mother)) a3)
                    in Inr (mark [mother, inside] a4)))))"

definition outside_shape :: "candle \<Rightarrow> candle \<Rightarrow> pa_analysis option" where
  "outside_shape prev cur =
     (if c_high cur > c_high prev \<and> c_low cur < c_low prev \<and> c_body_ratio cur \<ge> 1 / 2
      then Some (start_pa OUTSIDE_BAR (if c_bullish cur then PaBullish else PaBearish) 9
             [(''prev_high'', DNum (c_high prev)), (''prev_low'', DNum (c_low prev)), (''curr_high'', DNum (c_high cur)),
              (''curr_low'', DNum (c_low cur)), (''expansion_up'', DNum (c_high cur - c_high prev)),
              (''expansion_down'', DNum (c_low prev - c_low cur))] OutsideExpansion)
      else None)"

definition detect_outside_bar :: "candle list \<Rightarrow> market_context \<Rightarrow> pa_analysis" where
  "detect_outside_bar cs ctx =
     (if length cs < 2 then empty_pa OUTSIDE_BAR
      else
        (let prev = from_end 2 cs; cur = from_end 1 cs in
         case outside_shape prev cur of
           None \<Rightarrow> empty_pa OUTSIDE_BAR
         | Some a \<Rightarrow>
             (let a1 = context_bonuses ctx cur a;
                  a2 = (if with_trend (mc_trend ctx) (pa_dir a1) then credit ''trend_aligned'' 15 TrendAligned a1 else a1)
              in mark [prev, cur] (invalid_at (c_low cur) (c_high cur) (mc_atr ctx * (1 / 2)) (final_scores a2)))))"

subsection \<open>Three and four candles\<close>

definition star_shape :: "candle \<Rightarrow> candle \<Rightarrow> candle \<Rightarrow> pa_analysis option" where
  "star_shape first middle last_c =
     (let small = c_body middle < c_body first * (4 / 10) \<and> c_body last_c > c_body middle * 2;
          mid = (c_open first + c_close first) / 2;
          details = [(''first_body'', DNum (c_body first)), (''middle_body'', DNum (c_body middle)), (''last_body'', DNum (c_body last_c)),
            (''reversal_strength'', DNum (c_body last_c / max (c_body middle) (1 / 10000)))]
      in if \<not> c_bullish first \<and> c_bullish last_c \<and> small \<and> c_close last_c > mid
         then Some (start_pa MORNING_STAR PaBullish 12 details ReversalCandidate)
         else if c_bullish first \<and> \<not> c_bullish last_c \<and> small \<and> c_close last_c < mid
         then Some (start_pa EVENING_STAR PaBearish 12 details ReversalCandidate)
         else None)"

definition detect_star_pattern :: "candle list \<Rightarrow> market_context \<Rightarrow> pa_analysis" where
  "detect_star_pattern cs ctx =
     (if length cs < 3 then empty_pa MORNING_STAR
      else
        (let c1 = from_end 3 cs; c2 = from_end 2 cs; c3 = from_end 1 cs in
         case star_shape c1 c2 c3 of
           None \<Rightarrow> empty_pa MORNING_STAR
         | Some a \<Rightarrow>
             (let a1 = context_bonuses ctx c3 a;
                  a2 = (if pa_dir a1 = PaBullish \<and> mc_premium_discount ctx = ''discount'' then add_bonus ''in_discount_zone'' 10 a1
                    else if pa_dir a1 = PaBearish \<and> mc_premium_discount ctx = ''premium'' then add_bonus ''in_premium_zone'' 10 a1 else a1)
              in mark [c1, c2, c3] (invalid_at (min (c_low c1) (min (c_low c2) (c_low c3))) (max (c_high c1) (max (c_high c2) (c_high c3)))
                   (mc_atr ctx * (3 / 10)) (final_scores a2)))))"

definition small_wicks :: "(candle \<Rightarrow> real) \<Rightarrow> candle list \<Rightarrow> bool" where
  "small_wicks wick cs \<longleftrightarrow> list_all (\<lambda>c. wick c < c_body c * (1 / 2)) cs"

definition march_details :: "real \<Rightarrow> candle \<Rightarrow> candle \<Rightarrow> candle \<Rightarrow> (string, detail) odict" where
  "march_details move c1 c2 c3 =
     [(''total_move'', DNum move), (''avg_body'', DNum ((c_body c1 + c_body c2 + c_body c3) / 3)), (''small_wicks'', DBool True)]"

definition march_shape :: "candle \<Rightarrow> candle \<Rightarrow> candle \<Rightarrow> pa_analysis option" where
  "march_shape c1 c2 c3 =
     (if c_bullish c1 \<and> c_bullish c2 \<and> c_bullish c3 \<and> c_close c2 > c_close c1 \<and> c_close c3 > c_close c2
      then if small_wicks c_upper_wick [c1, c2, c3]
        then Some (start_pa THREE_SOLDIERS PaBullish 11 (march_details (c_close c3 - c_open c1) c1 c2 c3) TrendAligned) else None
      else if \<not> c_bullish c1 \<and> \<not> c_bullish c2 \<and> \<not> c_bullish c3 \<and> c_close c2 < c_close c1 \<and> c_close c3 < c_close c2
      then if small_wicks c_lower_wick [c1, c2, c3]
        then Some (start_pa THREE_CROWS PaBearish 11 (march_details (c_open c1 - c_close c3) c1 c2 c3) TrendAligned) else None
      else None)"

definition detect_three_soldiers_crows :: "candle list \<Rightarrow> market_context \<Rightarrow> pa_analysis" where
  "detect_three_soldiers_crows cs ctx =
     (if length cs < 3 then empty_pa THREE_SOLDIERS
      else
        (let c1 = from_end 3 cs; c2 = from_end 2 cs; c3 = from_end 1 cs in
         case march_shape c1 c2 c3 of
           None \<Rightarrow> empty_pa THREE_SOLDIERS
         | Some a \<Rightarrow>
             (let a1 = context_bonuses ctx c3 a;
                  a2 = (if with_trend (mc_trend ctx) (pa_dir a1) then add_bonus ''trend_continuation'' 15 a1 else a1)
              in mark [c1, c2, c3] (invalid_at (c_open c1) (c_open c1) (mc_atr ctx * (1 / 2)) (final_scores a2)))))"

definition fakey_shape :: "market_context \<Rightarrow> candle \<Rightarrow> candle \<Rightarrow> candle \<Rightarrow> candle \<Rightarrow> pa_analysis option" where
  "fakey_shape ctx mother inside test signal =
     (if \<not> (c_high inside \<le> c_high mother \<and> c_low inside \<ge> c_low mother) then None
      else if c_body_ratio mother < 4 / 10 \<or> c_total_range mother < mc_avg_range ctx * (8 / 10) then None
      else if c_high test > c_high inside \<and> c_close signal < c_high inside \<and> c_close signal < c_high mother
      then Some (start_pa FAKEY PaBearish 15 [(''mother_range'', DNum (c_total_range mother)), (''false_break_level'', DNum (c_high inside)),
             (''test_high'', DNum (c_high test))] FalseBreak)
      else if c_low test < c_low inside \<and> c_close signal > c_low inside \<and> c_close signal > c_low mother
      then Some (start_pa FAKEY PaBullish 15 [(''mother_range'', DNum (c_total_range mother)), (''false_break_level'', DNum (c_low inside)),
             (''test_low'', DNum (c_low test))] FalseBreak)
      else None)"

definition detect_fakey :: "candle list \<Rightarrow> market_context \<Rightarrow> pa_analysis" where
  "detect_fakey cs ctx =
     (let none = (empty_pa FAKEY)\<lparr>pa_base := 15\<rparr> in
      if length cs < 4 then none
      else
        (let mother = from_end 4 cs; inside = from_end 3 cs; test = from_end 2 cs; signal = from_end 1 cs in
         case fakey_shape ctx mother inside test signal of
           None \<Rightarrow> none
         | Some a \<Rightarrow>
             (let a1 = context_bonuses ctx signal a;
                  a2 = (if against_trend (mc_trend ctx) (pa_dir a1) then credit ''counter_trend_reversal'' 15 ReversalCandidate a1 else a1);
                  a3 = invalid_at (c_low mother) (c_high mother) (mc_atr ctx * (3 / 10)) (final_scores a2)
              in mark [mother, inside, test, signal]
                   (a3\<lparr>pa_entry := c_close signal, pa_stop := (if pa_dir a3 = PaBullish then c_low mother else c_high mother)\<rparr>))))"

subsection \<open>What the detectors guarantee\<close>

text \<open>A detected pattern that has not been scored yet: its bonuses are never negative.\<close>

definition raw_ok :: "pa_analysis \<Rightarrow> bool" where
  "raw_ok a \<longleftrightarrow> pa_detected a \<and> pa_reasons a \<noteq> [] \<and> (\<forall>x \<in> snd ` set (pa_bonuses a). 0 \<le> x) \<and> 4 \<le> pa_base a \<and> pa_base a \<le> 15"

definition scored :: "pa_analysis \<Rightarrow> bool" where
  "scored a \<longleftrightarrow> raw_ok a \<and> pa_confidence a = min (min (pa_base a * 4) 60 + bonus_sum a) 100
     \<and> pa_quality a = min (40 + real (length (pa_reasons a)) * 10 + bonus_sum a * (3 / 10)) 100
     \<and> od_get (pa_details a) ''strength'' = Some (DStr (strength_of (pa_confidence a)))"

lemma credit_keeps [simp]:
  "pa_dir (add_reason r a) = pa_dir a" "pa_dir (add_bonus k x a) = pa_dir a" "pa_dir (add_detail k d a) = pa_dir a"
  "pa_pattern (add_reason r a) = pa_pattern a" "pa_pattern (add_bonus k x a) = pa_pattern a" "pa_pattern (add_detail k d a) = pa_pattern a"
  by (simp_all add: add_reason_def add_bonus_def add_detail_def)

lemma raw_ok_reason [simp]: "raw_ok a \<Longrightarrow> raw_ok (add_reason r a)"
  by (simp add: raw_ok_def add_reason_def)

lemma raw_ok_bonus [simp]: "0 \<le> x \<Longrightarrow> raw_ok a \<Longrightarrow> raw_ok (add_bonus k x a)"
  using set_od_put_subset [of k x "pa_bonuses a"] by (fastforce simp: raw_ok_def add_bonus_def)

lemma raw_ok_detail [simp]: "raw_ok (add_detail k d a) = raw_ok a"
  by (simp add: raw_ok_def add_detail_def)

lemma raw_ok_start [simp]: "4 \<le> b \<Longrightarrow> b \<le> 15 \<Longrightarrow> raw_ok (start_pa p d b details r)"
  by (simp add: raw_ok_def start_pa_def empty_pa_def)

text \<open>One fact per stage of the bonuses.\<close>

lemma raw_ok_stages:
  "raw_ok a \<Longrightarrow> raw_ok (trend_bonus ctx a)" "raw_ok a \<Longrightarrow> raw_ok (level_bonus ctx c a)"
  "raw_ok a \<Longrightarrow> raw_ok (zone_bonus ctx c a)" "raw_ok a \<Longrightarrow> raw_ok (setting_bonus ctx c a)"
     apply (simp add: trend_bonus_def)
    apply (simp add: level_bonus_def Let_def)
   apply (simp add: zone_bonus_def Let_def split: option.split)
  apply (simp add: setting_bonus_def Let_def)
  done

lemma stages_keep:
  "pa_dir (trend_bonus ctx a) = pa_dir a" "pa_dir (level_bonus ctx c a) = pa_dir a"
  "pa_dir (zone_bonus ctx c a) = pa_dir a" "pa_dir (setting_bonus ctx c a) = pa_dir a"
     apply (simp add: trend_bonus_def)
    apply (simp add: level_bonus_def Let_def)
   apply (simp add: zone_bonus_def Let_def split: option.split)
  apply (simp add: setting_bonus_def Let_def)
  done

lemma raw_ok_context [simp]: "raw_ok a \<Longrightarrow> raw_ok (context_bonuses ctx c a)"
  unfolding context_bonuses_def by (intro raw_ok_stages)

lemma context_bonuses_keeps [simp]: "pa_dir (context_bonuses ctx c a) = pa_dir a"
  by (simp add: context_bonuses_def stages_keep)

lemma scored_final: "raw_ok a \<Longrightarrow> scored (final_scores a)"
  by (simp add: scored_def raw_ok_def final_scores_def add_detail_def bonus_sum_def Let_def)

lemma scored_keep [simp]:
  "scored (mark cs a) = scored a" "scored (invalid_at l h m a) = scored a" "scored (a\<lparr>pa_entry := x\<rparr>) = scored a"
  "scored (a\<lparr>pa_stop := x\<rparr>) = scored a" "scored (a\<lparr>pa_invalidation := x\<rparr>) = scored a"
  "k \<noteq> ''strength'' \<Longrightarrow> scored (add_detail k d a) = scored a"
  by (simp_all add: scored_def raw_ok_def mark_def invalid_at_def bonus_sum_def add_detail_def)

lemma scored_bounds: "scored a \<Longrightarrow> 16 \<le> pa_confidence a \<and> pa_confidence a \<le> 100 \<and> 50 \<le> pa_quality a \<and> pa_quality a \<le> 100"
proof -
  assume s: "scored a"
  then have b: "0 \<le> bonus_sum a" "4 \<le> pa_base a" by (auto simp: scored_def raw_ok_def bonus_sum_def intro!: sum_list_nonneg)
  have "1 \<le> length (pa_reasons a)" using s by (simp add: scored_def raw_ok_def Suc_le_eq)
  then have "10 \<le> real (length (pa_reasons a)) * 10" by linarith
  with s b show ?thesis by (auto simp: scored_def min_def)
qed

lemma shapes_ok:
  "pin_shape cfg c = Some a \<Longrightarrow> raw_ok a" "doji_shape cfg c = Some a \<Longrightarrow> raw_ok a" "engulf_shape cfg c d = Some a \<Longrightarrow> raw_ok a"
  "inside_shape c d = Some a \<Longrightarrow> raw_ok a" "outside_shape c d = Some a \<Longrightarrow> raw_ok a" "star_shape c d e = Some a \<Longrightarrow> raw_ok a"
  "march_shape c d e = Some a \<Longrightarrow> raw_ok a" "fakey_shape ctx c d e f = Some a \<Longrightarrow> raw_ok a"
  by (auto simp: pin_shape_def doji_shape_def engulf_shape_def inside_shape_def outside_shape_def star_shape_def march_shape_def
      fakey_shape_def Let_def split: if_splits)

definition clean_or_scored :: "pa_analysis \<Rightarrow> bool" where
  "clean_or_scored a \<longleftrightarrow> (if pa_detected a then scored a else pa_confidence a = 0)"

lemma clean_empty [simp]: "clean_or_scored (empty_pa p)" "clean_or_scored ((empty_pa p)\<lparr>pa_base := b\<rparr>)"
  by (simp_all add: clean_or_scored_def empty_pa_def)

lemma clean_scored: "scored a \<Longrightarrow> clean_or_scored a"
  by (simp add: clean_or_scored_def scored_def raw_ok_def)

lemma doji_bonuses_ok: "raw_ok a \<Longrightarrow> raw_ok (doji_bonuses ctx c a)"
  by (simp add: doji_bonuses_def Let_def)

lemma detectors_score:
  "clean_or_scored (detect_pin_bar cfg cs ctx)" "clean_or_scored (detect_engulfing cfg cs ctx)" "clean_or_scored (detect_fakey cs ctx)"
  "clean_or_scored (detect_outside_bar cs ctx)" "clean_or_scored (detect_doji cfg cs ctx)" "clean_or_scored (detect_star_pattern cs ctx)"
  "clean_or_scored (detect_three_soldiers_crows cs ctx)"
        apply (simp add: detect_pin_bar_def Let_def shapes_ok scored_final clean_scored split: option.split)
       apply (simp add: detect_engulfing_def Let_def shapes_ok scored_final clean_scored split: option.split)
      apply (simp add: detect_fakey_def Let_def shapes_ok scored_final clean_scored split: option.split)
     apply (simp add: detect_outside_bar_def Let_def shapes_ok scored_final clean_scored split: option.split)
    apply (simp add: detect_doji_def Let_def shapes_ok doji_bonuses_ok scored_final clean_scored split: option.split)
   apply (simp add: detect_star_pattern_def Let_def shapes_ok scored_final clean_scored split: option.split)
  apply (simp add: detect_three_soldiers_crows_def Let_def shapes_ok scored_final clean_scored split: option.split)
  done

lemma inside_bar_scores: "detect_inside_bar cs ctx = Inr a \<Longrightarrow> clean_or_scored a"
  by (auto simp: detect_inside_bar_def Let_def shapes_ok scored_final clean_scored split: option.splits if_splits)

text \<open>
  The seal of an inside bar decides between a neutral pattern and an exception: an inside bar below 30 % of its
  mother bar always raises.
\<close>

lemma compressed_inside_bar_raises:
  "2 \<le> length cs \<Longrightarrow> c_high (from_end 1 cs) \<le> c_high (from_end 2 cs) \<Longrightarrow> c_low (from_end 2 cs) \<le> c_low (from_end 1 cs) \<Longrightarrow>
    c_total_range (from_end 1 cs) < c_total_range (from_end 2 cs) * (3 / 10) \<Longrightarrow> detect_inside_bar cs ctx = Inl AttributeError"
  by (simp add: detect_inside_bar_def inside_shape_def Let_def)

text \<open>An opposing trend still raises the confidence of a pattern, and its reason code the quality.\<close>

lemma opposing_trend_is_rewarded:
  "against_trend (mc_trend ctx) (pa_dir a) \<Longrightarrow> pa_bonuses a = [] \<Longrightarrow> bonus_sum (trend_bonus ctx a) = 5 \<and> TrendOpposing \<in> set (pa_reasons (trend_bonus ctx a))"
  by (cases "mc_trend ctx"; cases "pa_dir a") (simp_all add: trend_bonus_def add_reason_def add_bonus_def bonus_sum_def)

end
