(* ===== verification/Price_Action.thy ===== *)
theory Price_Action
  imports Candle_Patterns Contracts
begin

section \<open>Price structure and the price-action engine\<close>

text \<open>
  The \<open>PriceStructureAnalyzer\<close> of \<open>src/backend/analysis/price_action_engine.py\<close>, which remembers breakouts and the
  last compression between calls, and the \<open>PriceActionEngine\<close> over it and the candle patterns: analysis of a
  window of candles, total score, direction, standard signals and key levels.
\<close>

record structure_config =
  sc_lookback :: nat
  sc_compression :: real
  sc_expansion :: real

definition default_structure_config :: structure_config where
  "default_structure_config = \<lparr>sc_lookback = 10, sc_compression = 1 / 2, sc_expansion = 3 / 2\<rparr>"

record past_breakout =
  bk_level :: real
  bk_dir :: pa_direction
  bk_time :: time
  bk_index :: nat

record structure_state =
  ss_breakouts :: "past_breakout list"
  ss_compressed_at :: "time option"
  ss_compression_level :: real

definition new_structure_state :: structure_state where
  "new_structure_state = \<lparr>ss_breakouts = [], ss_compressed_at = None, ss_compression_level = 0\<rparr>"

subsection \<open>Breakout and retest\<close>

definition breaks_up :: "candle \<Rightarrow> candle \<Rightarrow> real \<Rightarrow> bool" where
  "breaks_up prev cur r \<longleftrightarrow> c_close prev < r \<and> c_close cur > r \<and> c_body_ratio cur \<ge> 1 / 2 \<and> c_bullish cur"

definition breaks_down :: "candle \<Rightarrow> candle \<Rightarrow> real \<Rightarrow> bool" where
  "breaks_down prev cur s \<longleftrightarrow> c_close prev > s \<and> c_close cur < s \<and> c_body_ratio cur \<ge> 1 / 2 \<and> \<not> c_bullish cur"

definition broken_level :: "market_context \<Rightarrow> candle \<Rightarrow> candle \<Rightarrow> (pa_direction \<times> real) option" where
  "broken_level ctx prev cur =
     (case find (breaks_up prev cur) (take 5 (mc_resistances ctx)) of
        Some r \<Rightarrow> Some (PaBullish, r)
      | None \<Rightarrow> (case find (breaks_down prev cur) (take 5 (mc_supports ctx)) of
            Some s \<Rightarrow> Some (PaBearish, s) | None \<Rightarrow> None))"

definition score_breakout :: "market_context \<Rightarrow> pa_analysis \<Rightarrow> pa_analysis" where
  "score_breakout ctx a =
     (let a1 = (if mc_killzone ctx then credit ''killzone_breakout'' 15 InKillzone a else a)
      in a1\<lparr>pa_confidence := min (min (pa_base a1 * 5) 50 + bonus_sum a1) 100, pa_quality := min (50 + bonus_sum a1) 100\<rparr>)"

definition detect_breakout :: "candle list \<Rightarrow> market_context \<Rightarrow> structure_state \<Rightarrow> pa_analysis \<times> structure_state" where
  "detect_breakout cs ctx st =
     (if length cs < 2 then (empty_pa BREAKOUT, st)
      else
        (let prev = from_end 2 cs; cur = from_end 1 cs in
         case broken_level ctx prev cur of
           None \<Rightarrow> (empty_pa BREAKOUT, st)
         | Some (d, level) \<Rightarrow>
             (let a = start_pa BREAKOUT d 10 [(''level'', DNum level),
                    (''break_type'', DStr (if d = PaBullish then ''resistance'' else ''support'')),
                    (''candle_body_ratio'', DNum (c_body_ratio cur))] LevelBreak;
                  a1 = a\<lparr>pa_invalidation := (if d = PaBullish then level - mc_atr ctx else level + mc_atr ctx)\<rparr>
              in (mark [cur] (score_breakout ctx a1),
                  st\<lparr>ss_breakouts := ss_breakouts st @ [\<lparr>bk_level = level, bk_dir = d, bk_time = c_time cur, bk_index = c_index cur\<rparr>]\<rparr>))))"

text \<open>A breakout is recent while the index of the last candle, in its own window, is at most 5 above its index.\<close>

definition retests :: "market_context \<Rightarrow> candle \<Rightarrow> past_breakout \<Rightarrow> bool" where
  "retests ctx cur b \<longleftrightarrow> \<bar>c_close cur - bk_level b\<bar> < mc_atr ctx * (3 / 10)
     \<and> (bk_dir b = PaBullish \<and> c_bullish cur \<or> bk_dir b = PaBearish \<and> \<not> c_bullish cur)"

definition recent_breakout :: "candle \<Rightarrow> past_breakout \<Rightarrow> bool" where
  "recent_breakout cur b \<longleftrightarrow> int (c_index cur) - int (bk_index b) \<le> 5"

definition detect_retest :: "candle list \<Rightarrow> market_context \<Rightarrow> structure_state \<Rightarrow> pa_analysis" where
  "detect_retest cs ctx st =
     (if length cs < 3 \<or> ss_breakouts st = [] then empty_pa RETEST
      else
        (let cur = from_end 1 cs in
         case find (retests ctx cur) (filter (recent_breakout cur) (ss_breakouts st)) of
           None \<Rightarrow> empty_pa RETEST
         | Some b \<Rightarrow>
             (let a = start_pa RETEST (bk_dir b) 8 [(''level'', DNum (bk_level b)), (''original_breakout_time'', DTime (bk_time b)),
                    (''retest_type'', DStr (if bk_dir b = PaBullish then ''support_flip'' else ''resistance_flip''))] LevelRetest
              in mark [cur] (a\<lparr>pa_invalidation := bk_level b, pa_confidence := min (pa_base a * 5 + 20) 85, pa_quality := min 60 100\<rparr>))))"

subsection \<open>Compression and expansion\<close>

definition compression_analysis :: "numpy \<Rightarrow> market_context \<Rightarrow> candle list \<Rightarrow> real \<Rightarrow> real \<Rightarrow> pa_analysis" where
  "compression_analysis np ctx recent recent_avg prev_avg =
     (let ratio = recent_avg / prev_avg; hi = list_max (map c_high recent); lo = list_min (map c_low recent);
          a = start_pa COMPRESSION PaNeutral 7 [(''compression_ratio'', DNum ratio), (''avg_range'', DNum recent_avg),
            (''prev_avg_range'', DNum prev_avg), (''high'', DNum hi), (''low'', DNum lo), (''mid_level'', DNum ((hi + lo) / 2))] RangeCompression;
          a1 = (if mc_volatility ctx < 30 then add_bonus ''low_volatility'' 10 a else a)
      in mark (take_last 3 recent) (a1\<lparr>pa_confidence := min (pa_base a1 * 5 + 10) 70, pa_quality := min (50 + ratio * 50) 80\<rparr>))"

definition detect_compression :: "numpy \<Rightarrow> structure_config \<Rightarrow> candle list \<Rightarrow> market_context \<Rightarrow> pa_analysis" where
  "detect_compression np cfg cs ctx =
     (let k = sc_lookback cfg in
      if length cs < k * 2 then empty_pa COMPRESSION
      else
        (let recent = tail_slice k cs; recent_avg = np_mean np (map c_total_range recent);
             prev = take k (take_last (2 * k) cs); prev_avg = np_mean np (map c_total_range prev)
         in if prev_avg = 0 then empty_pa COMPRESSION
            else if recent_avg / prev_avg < sc_compression cfg then compression_analysis np ctx recent recent_avg prev_avg
            else empty_pa COMPRESSION))"

definition expansion_analysis :: "market_context \<Rightarrow> candle list \<Rightarrow> real \<Rightarrow> real \<Rightarrow> pa_analysis" where
  "expansion_analysis ctx recent avg ratio =
     (let move = sum_list (map (\<lambda>c. c_close c - c_open c) recent);
          a = start_pa EXPANSION (if move > 0 then PaBullish else PaBearish) 9 [(''expansion_ratio'', DNum ratio),
            (''avg_expansion_range'', DNum avg), (''total_move'', DNum move)] VolatilityExpansion;
          a1 = (if mc_volatility ctx > 70 then add_bonus ''high_volatility'' 10 a else a)
      in mark recent (a1\<lparr>pa_confidence := min (pa_base a1 * 5 + 15) 80, pa_quality := min (60 + ratio * 10) 90\<rparr>))"

text \<open>Called while a compression is remembered; after four hours it is forgotten.\<close>

definition detect_expansion :: "numpy \<Rightarrow> structure_config \<Rightarrow> candle list \<Rightarrow> market_context \<Rightarrow> time \<Rightarrow> structure_state
    \<Rightarrow> pa_analysis \<times> structure_state" where
  "detect_expansion np cfg cs ctx t st =
     (if length cs < 3 then (empty_pa EXPANSION, st)
      else case ss_compressed_at st of
        Some t0 \<Rightarrow>
          if t - t0 > 3600 * 4 then (empty_pa EXPANSION, st\<lparr>ss_compressed_at := None\<rparr>)
          else
            (let recent = take_last 3 cs; avg = np_mean np (map c_total_range recent) in
             if mc_avg_range ctx > 0 \<and> avg / mc_avg_range ctx \<ge> sc_expansion cfg
             then (expansion_analysis ctx recent avg (avg / mc_avg_range ctx), st\<lparr>ss_compressed_at := None\<rparr>)
             else (empty_pa EXPANSION, st))
      | None \<Rightarrow> (empty_pa EXPANSION, st))"

definition detail_num :: "string \<Rightarrow> pa_analysis \<Rightarrow> real" where
  "detail_num k a = (case od_get (pa_details a) k of Some (DNum x) \<Rightarrow> x | _ \<Rightarrow> 0)"

definition note_compression :: "time \<Rightarrow> pa_analysis \<Rightarrow> structure_state \<Rightarrow> structure_state" where
  "note_compression t a st =
     (if pa_detected a then st\<lparr>ss_compressed_at := Some t, ss_compression_level := detail_num ''mid_level'' a\<rparr> else st)"

definition analyze_structure :: "numpy \<Rightarrow> structure_config \<Rightarrow> candle list \<Rightarrow> market_context \<Rightarrow> time \<Rightarrow> structure_state
    \<Rightarrow> pa_analysis list \<times> structure_state" where
  "analyze_structure np cfg cs ctx t st =
     (if length cs < 20 then ([], st)
      else
        (let (brk, st1) = detect_breakout cs ctx st;
             ret = detect_retest cs ctx st1;
             comp = detect_compression np cfg cs ctx;
             st2 = note_compression t comp st1;
             (ex, st3) = (if ss_compressed_at st2 \<noteq> None then detect_expansion np cfg cs ctx t st2 else (empty_pa EXPANSION, st2))
         in (filter pa_detected [brk, ret, comp, ex], st3)))"

subsection \<open>The engine\<close>

record engine_config =
  ec_context :: context_config
  ec_pattern :: pattern_config
  ec_structure :: structure_config
  ec_min_confidence :: real

record price_engine =
  pe_config :: engine_config
  pe_structure :: structure_state
  pe_symbol :: string
  pe_timeframe :: string

text \<open>Every constructor calls \<open>config.get\<close> on its argument, not on \<open>self.config\<close>: without a configuration it raises.\<close>

definition new_price_engine :: "engine_config option \<Rightarrow> exc + price_engine" where
  "new_price_engine cfg = (case cfg of
      None \<Rightarrow> Inl AttributeError
    | Some c \<Rightarrow> Inr \<lparr>pe_config = c, pe_structure = new_structure_state, pe_symbol = [], pe_timeframe = ''H1''\<rparr>)"

fun pattern_weight :: "pa_pattern \<Rightarrow> real" where
  "pattern_weight PIN_BAR = 1"
| "pattern_weight ENGULFING = 12 / 10"
| "pattern_weight FAKEY = 15 / 10"
| "pattern_weight INSIDE_BAR = 5 / 10"
| "pattern_weight OUTSIDE_BAR = 9 / 10"
| "pattern_weight DOJI = 4 / 10"
| "pattern_weight MORNING_STAR = 13 / 10"
| "pattern_weight EVENING_STAR = 13 / 10"
| "pattern_weight THREE_SOLDIERS = 11 / 10"
| "pattern_weight THREE_CROWS = 11 / 10"
| "pattern_weight BREAKOUT = 12 / 10"
| "pattern_weight RETEST = 1"
| "pattern_weight COMPRESSION = 6 / 10"
| "pattern_weight EXPANSION = 1"

record market_data =
  md_opens :: "real list"
  md_highs :: "real list"
  md_lows :: "real list"
  md_closes :: "real list"
  md_times :: "time list"
  md_volumes :: "real list"

text \<open>The columns are indexed by the positions of the opens: a shorter column raises.\<close>

definition convert_candles :: "time \<Rightarrow> market_data \<Rightarrow> exc + candle list" where
  "convert_candles now d =
     (let n = length (md_opens d) in
      if length (md_highs d) < n \<or> length (md_lows d) < n \<or> length (md_closes d) < n then Inl IndexError
      else Inr (map (\<lambda>i. make_candle i (if i < length (md_times d) then md_times d ! i else now) (md_opens d ! i) (md_highs d ! i)
          (md_lows d ! i) (md_closes d ! i) (if i < length (md_volumes d) then md_volumes d ! i else 0)) [0..<n]))"

text \<open>The detectors in the order the engine calls them; an exception of the inside bar ends the analysis.\<close>

definition detect_all_patterns :: "engine_config \<Rightarrow> candle list \<Rightarrow> market_context \<Rightarrow> exc + pa_analysis list" where
  "detect_all_patterns cfg cs ctx =
     (let pc = ec_pattern cfg in
      case detect_inside_bar cs ctx of
        Inl e \<Rightarrow> Inl e
      | Inr inside \<Rightarrow>
          Inr (filter (\<lambda>a. pa_detected a \<and> pa_confidence a \<ge> ec_min_confidence cfg)
            [detect_pin_bar pc cs ctx, detect_engulfing pc cs ctx, detect_fakey cs ctx, inside, detect_outside_bar cs ctx,
             detect_doji pc cs ctx, detect_star_pattern cs ctx, detect_three_soldiers_crows cs ctx]))"

definition direction_score :: "pa_direction \<Rightarrow> real \<Rightarrow> pa_analysis list \<Rightarrow> real" where
  "direction_score d unit_score as = sum_list (map (\<lambda>a. pa_confidence a * pattern_weight (pa_pattern a) / 100 * unit_score)
     (filter (\<lambda>a. pa_dir a = d) as))"

definition calculate_total :: "pa_analysis list \<Rightarrow> pa_analysis list \<Rightarrow> real \<times> pa_direction" where
  "calculate_total pats structs =
     (let bull = direction_score PaBullish 20 pats + direction_score PaBullish 15 structs;
          bear = direction_score PaBearish 20 pats + direction_score PaBearish 15 structs
      in (min (max bull bear) 100,
          if bull > bear * (13 / 10) then PaBullish else if bear > bull * (13 / 10) then PaBearish else PaNeutral))"

record pa_signal =
  sg_symbol :: string
  sg_timeframe :: string
  sg_pattern :: pa_pattern
  sg_dir :: pa_direction
  sg_confidence :: real
  sg_quality :: real
  sg_entry :: "(string \<times> real) list"
  sg_invalidation :: real
  sg_reasons :: "pa_reason list"
  sg_created :: time
  sg_details :: "(string, detail) odict"

definition signal_of :: "price_engine \<Rightarrow> time \<Rightarrow> (string \<times> real) list \<Rightarrow> pa_analysis \<Rightarrow> pa_signal" where
  "signal_of e now entry a = \<lparr>sg_symbol = pe_symbol e, sg_timeframe = pe_timeframe e, sg_pattern = pa_pattern a, sg_dir = pa_dir a,
     sg_confidence = pa_confidence a, sg_quality = pa_quality a, sg_entry = entry, sg_invalidation = pa_invalidation a,
     sg_reasons = pa_reasons a, sg_created = now, sg_details = pa_details a\<rparr>"

text \<open>The numbers of the entry context; it also repeats the name of the pattern.\<close>

definition pattern_entry :: "pa_analysis \<Rightarrow> (string \<times> real) list" where
  "pattern_entry a = [(''entry_price'', if pa_entry a > 0 then pa_entry a else detail_num ''mid_level'' a),
     (''stop_loss'', if pa_stop a > 0 then pa_stop a else pa_invalidation a),
     (''take_profit'', if pa_target a > 0 then pa_target a else 0)]"

definition standard_signals :: "price_engine \<Rightarrow> time \<Rightarrow> pa_analysis list \<Rightarrow> pa_analysis list \<Rightarrow> pa_signal list" where
  "standard_signals e now pats structs =
     map (\<lambda>a. signal_of e now (pattern_entry a) a) (filter (\<lambda>a. pa_dir a \<noteq> PaNeutral) pats)
     @ map (\<lambda>a. signal_of e now [(''level'', detail_num ''level'' a)] a) (filter (\<lambda>a. pa_dir a \<noteq> PaNeutral) structs)"

definition pattern_levels :: "pa_direction \<Rightarrow> pa_analysis \<Rightarrow> real list" where
  "pattern_levels side a =
     (if pa_dir a = side \<and> pa_invalidation a > 0 then [pa_invalidation a] else [])
     @ (let w = detail_num ''wick_level'' a in
        if w \<noteq> 0 \<and> ((side = PaBullish) = (pa_dir a = PaBullish)) then [w] else [])"

definition structure_levels :: "pa_direction \<Rightarrow> pa_analysis \<Rightarrow> real list" where
  "structure_levels side a =
     (let l = detail_num ''level'' a in if l > 0 \<and> ((side = PaBearish) = (pa_dir a = PaBullish)) then [l] else [])"

text \<open>Supports and resistances. A broken resistance is listed as a resistance, a broken support as a support.\<close>

definition key_levels :: "candle list \<Rightarrow> pa_analysis list \<Rightarrow> pa_analysis list \<Rightarrow> real list \<times> real list" where
  "key_levels cs pats structs =
     (let recent = take_last 20 cs;
          extra = \<lambda>x. if length cs \<ge> 20 then [x] else [];
          sup = concat (map (pattern_levels PaBullish) pats) @ concat (map (structure_levels PaBullish) structs)
            @ extra (list_min (map c_low recent));
          res = concat (map (pattern_levels PaBearish) pats) @ concat (map (structure_levels PaBearish) structs)
            @ extra (list_max (map c_high recent))
      in (top_levels 5 sup, top_levels 5 res))"

record pa_result =
  pr_symbol :: string
  pr_timeframe :: string
  pr_score :: real
  pr_dir :: pa_direction
  pr_context :: market_context
  pr_patterns :: "pa_analysis list"
  pr_structures :: "pa_analysis list"
  pr_signals :: "pa_signal list"
  pr_levels :: "real list \<times> real list"

definition empty_result :: "price_engine \<Rightarrow> pa_result" where
  "empty_result e = \<lparr>pr_symbol = pe_symbol e, pr_timeframe = pe_timeframe e, pr_score = 0, pr_dir = PaNeutral, pr_context = empty_context,
     pr_patterns = [], pr_structures = [], pr_signals = [], pr_levels = ([], [])\<rparr>"

text \<open>Without times the engine makes some up, newest first, so the last one is the oldest.\<close>

definition last_time :: "time \<Rightarrow> time list \<Rightarrow> nat \<Rightarrow> time" where
  "last_time now ts n = (if ts \<noteq> [] then last ts else if n = 0 then now else now - real (n - 1) * 900)"

definition pa_analyze ::
  "numpy \<Rightarrow> time \<Rightarrow> string \<Rightarrow> market_data \<Rightarrow> string \<Rightarrow> smc_context option \<Rightarrow> price_engine \<Rightarrow> (pa_result, price_engine) outcome" where
  "pa_analyze np now symb d tf smc e0 =
     (let e = e0\<lparr>pe_symbol := symb, pe_timeframe := tf\<rparr>; cfg = pe_config e in
      if md_opens d = [] \<or> md_highs d = [] \<or> md_lows d = [] \<or> md_closes d = [] \<or> length (md_highs d) < 20
      then (Inr (empty_result e), e)
      else case convert_candles now d of
        Inl x \<Rightarrow> (Inl x, e)
      | Inr cs \<Rightarrow>
          (let t = last_time now (md_times d) (length cs);
               ctx = (analyze_context np (ec_context cfg) cs t smc)\<lparr>mc_price := last (md_closes d)\<rparr>
           in case detect_all_patterns cfg cs ctx of
                Inl x \<Rightarrow> (Inl x, e)
              | Inr pats \<Rightarrow>
                  (let (structs, st) = analyze_structure np (ec_structure cfg) cs ctx t (pe_structure e);
                       (score, d) = calculate_total pats structs
                   in (Inr \<lparr>pr_symbol = symb, pr_timeframe = tf, pr_score = score, pr_dir = d, pr_context = ctx, pr_patterns = pats,
                         pr_structures = structs, pr_signals = standard_signals e now pats structs, pr_levels = key_levels cs pats structs\<rparr>,
                       e\<lparr>pe_structure := st\<rparr>))))"

subsection \<open>Reading a result\<close>

definition entry_signals :: "real \<Rightarrow> pa_result \<Rightarrow> pa_signal list" where
  "entry_signals m r = filter (\<lambda>s. sg_confidence s \<ge> m \<and> sg_dir s \<noteq> PaNeutral) (pr_signals r)"

definition signal_key :: "pa_signal \<Rightarrow> real" where
  "signal_key s = sg_confidence s * (1 + sg_quality s / 200)"

fun best_signal :: "pa_signal \<Rightarrow> pa_signal list \<Rightarrow> pa_signal" where
  "best_signal b [] = b"
| "best_signal b (s # ss) = best_signal (if signal_key b < signal_key s then s else b) ss"

definition strongest_signal :: "pa_result \<Rightarrow> pa_signal option" where
  "strongest_signal r = (case pr_signals r of [] \<Rightarrow> None | s # ss \<Rightarrow> Some (best_signal s ss))"

subsection \<open>Bounds of the scores\<close>

lemma breakout_scores:
  "fst (detect_breakout cs ctx st) = a \<Longrightarrow> pa_detected a \<Longrightarrow> pa_confidence a \<in> {50, 65} \<and> pa_dir a \<noteq> PaNeutral \<and> pa_pattern a = BREAKOUT
     \<and> pa_quality a \<le> 100"
  by (auto simp: detect_breakout_def broken_level_def score_breakout_def Let_def start_pa_def empty_pa_def mark_def add_bonus_def
      add_reason_def bonus_sum_def split: option.splits if_splits)

lemma retest_scores:
  "detect_retest cs ctx st = a \<Longrightarrow> pa_detected a \<Longrightarrow> pa_confidence a = 60 \<and> pa_quality a = 60 \<and> pa_dir a \<noteq> PaNeutral \<and> pa_pattern a = RETEST"
  by (auto simp: detect_retest_def Let_def start_pa_def empty_pa_def mark_def retests_def find_Some_iff split: option.splits if_splits)

lemma compression_scores:
  "detect_compression np cfg cs ctx = a \<Longrightarrow> pa_detected a \<Longrightarrow>
    pa_confidence a = 45 \<and> pa_quality a \<le> 80 \<and> pa_dir a = PaNeutral \<and> pa_pattern a = COMPRESSION"
  by (auto simp: detect_compression_def compression_analysis_def Let_def start_pa_def empty_pa_def mark_def add_bonus_def split: if_splits)

lemma expansion_scores:
  "fst (detect_expansion np cfg cs ctx t st) = a \<Longrightarrow> pa_detected a \<Longrightarrow>
    pa_confidence a = 60 \<and> pa_quality a \<le> 90 \<and> pa_dir a \<noteq> PaNeutral \<and> pa_pattern a = EXPANSION"
  by (auto simp: detect_expansion_def expansion_analysis_def Let_def start_pa_def empty_pa_def mark_def add_bonus_def
      split: option.splits if_splits)

definition structure_ok :: "pa_analysis \<Rightarrow> bool" where
  "structure_ok a \<longleftrightarrow> pa_detected a \<and> 45 \<le> pa_confidence a \<and> pa_confidence a \<le> 65 \<and> pa_quality a \<le> 100
     \<and> pa_pattern a \<in> {BREAKOUT, RETEST, COMPRESSION, EXPANSION} \<and> (pa_dir a = PaNeutral \<longleftrightarrow> pa_pattern a = COMPRESSION)"

text \<open>One analysis, its parts named.\<close>

lemma analyze_structure_parts:
  assumes "20 \<le> length cs" and "detect_breakout cs ctx st = (brk, st1)" and "st2 = note_compression t (detect_compression np cfg cs ctx) st1"
  shows "fst (analyze_structure np cfg cs ctx t st) = filter pa_detected [brk, detect_retest cs ctx st1, detect_compression np cfg cs ctx,
        if ss_compressed_at st2 \<noteq> None then fst (detect_expansion np cfg cs ctx t st2) else empty_pa EXPANSION]"
    and "snd (analyze_structure np cfg cs ctx t st) = (if ss_compressed_at st2 \<noteq> None then snd (detect_expansion np cfg cs ctx t st2) else st2)"
  using assms by (simp_all add: analyze_structure_def Let_def split: prod.split)

lemma structures_ok: "a \<in> set (fst (analyze_structure np cfg cs ctx t st)) \<Longrightarrow> structure_ok a"
proof -
  assume a: "a \<in> set (fst (analyze_structure np cfg cs ctx t st))"
  obtain brk st1 where b: "detect_breakout cs ctx st = (brk, st1)" by fastforce
  define comp where "comp = detect_compression np cfg cs ctx"
  define st2 where "st2 = note_compression t comp st1"
  have empty: "\<not> pa_detected (empty_pa EXPANSION)" by (simp add: empty_pa_def)
  have len: "20 \<le> length cs" using a by (cases "length cs < 20") (simp_all add: analyze_structure_def)
  note parts = analyze_structure_parts(1) [OF len b st2_def [unfolded comp_def]]
  have det: "pa_detected a" using a unfolding parts set_filter by blast
  have "a \<in> set [brk, detect_retest cs ctx st1, comp,
      if ss_compressed_at st2 \<noteq> None then fst (detect_expansion np cfg cs ctx t st2) else empty_pa EXPANSION]"
    using a unfolding parts set_filter comp_def by blast
  with det empty have "pa_detected a" "a = brk \<or> a = detect_retest cs ctx st1 \<or> a = comp \<or> a = fst (detect_expansion np cfg cs ctx t st2)"
    by (simp_all only: list.set insert_iff empty_iff) (metis (full_types))
  then consider "fst (detect_breakout cs ctx st) = a" | "detect_retest cs ctx st1 = a" | "detect_compression np cfg cs ctx = a"
    | "fst (detect_expansion np cfg cs ctx t st2) = a" unfolding b comp_def fst_conv by blast
  then show ?thesis
  proof cases
    case 1
    then show ?thesis using breakout_scores [OF 1 det] det by (auto simp: structure_ok_def)
  next
    case 2
    then show ?thesis using retest_scores [OF 2 det] det by (auto simp: structure_ok_def)
  next
    case 3
    then show ?thesis using compression_scores [OF 3 det] det by (auto simp: structure_ok_def)
  next
    case 4
    then show ?thesis using expansion_scores [OF 4 det] det by (auto simp: structure_ok_def)
  qed
qed

lemma patterns_ok:
  assumes "detect_all_patterns cfg cs ctx = Inr pats" and "a \<in> set pats"
  shows "scored a \<and> ec_min_confidence cfg \<le> pa_confidence a"
proof -
  obtain inside where i: "detect_inside_bar cs ctx = Inr inside" using assms(1)
    by (cases "detect_inside_bar cs ctx") (auto simp: detect_all_patterns_def Let_def)
  define pc where "pc = ec_pattern cfg"
  define all where "all = [detect_pin_bar pc cs ctx, detect_engulfing pc cs ctx, detect_fakey cs ctx, inside, detect_outside_bar cs ctx,
     detect_doji pc cs ctx, detect_star_pattern cs ctx, detect_three_soldiers_crows cs ctx]"
  have "pats = filter (\<lambda>a. pa_detected a \<and> pa_confidence a \<ge> ec_min_confidence cfg) all"
    using assms(1) by (simp add: detect_all_patterns_def i Let_def all_def pc_def del: filter.simps)
  then have "a \<in> set all" "pa_detected a" "ec_min_confidence cfg \<le> pa_confidence a" using assms(2) by simp_all
  moreover have "list_all clean_or_scored all" using detectors_score inside_bar_scores [OF i] by (simp add: all_def)
  ultimately have "clean_or_scored a" "pa_detected a" "ec_min_confidence cfg \<le> pa_confidence a" by (simp_all add: list_all_iff)
  then show ?thesis by (simp add: clean_or_scored_def)
qed

lemma direction_score_nonneg: "(\<And>a. a \<in> set as \<Longrightarrow> 0 \<le> pa_confidence a) \<Longrightarrow> 0 \<le> u \<Longrightarrow> 0 \<le> direction_score d u as"
proof -
  assume "\<And>a. a \<in> set as \<Longrightarrow> 0 \<le> pa_confidence a" "0 \<le> u"
  moreover have "0 \<le> pattern_weight p" for p by (cases p) simp_all
  ultimately show ?thesis unfolding direction_score_def by (intro sum_list_nonneg) auto
qed

text \<open>
  What an analysis reports is bounded and directed. In every result the total score lies between 0 and 100 and is the capped
  larger side; the direction is bullish or bearish only when that side outweighs the other by more than 30 %,
  and never both; every signal has a direction, a confidence and a quality of at most 100, and comes from a pattern
  that reaches the configured confidence or from a structure of confidence 45 to 65; and at most five supports
  and five resistances are reported, sorted from the highest down.
\<close>

theorem analysis_is_bounded:
  "case pa_analyze np now symb d tf smc e of
     (Inl _, _) \<Rightarrow> True
   | (Inr r, _) \<Rightarrow>
       let bull = direction_score PaBullish 20 (pr_patterns r) + direction_score PaBullish 15 (pr_structures r);
           bear = direction_score PaBearish 20 (pr_patterns r) + direction_score PaBearish 15 (pr_structures r)
       in 0 \<le> pr_score r \<and> pr_score r \<le> 100 \<and> pr_score r = min (max bull bear) 100
        \<and> (pr_dir r = PaBullish \<longleftrightarrow> bull > bear * (13 / 10)) \<and> (pr_dir r = PaBearish \<longleftrightarrow> bear > bull * (13 / 10))
        \<and> list_all (\<lambda>s. sg_dir s \<noteq> PaNeutral \<and> 16 \<le> sg_confidence s \<and> sg_confidence s \<le> 100 \<and> sg_quality s \<le> 100
            \<and> (ec_min_confidence (pe_config e) \<le> sg_confidence s \<or> sg_pattern s \<in> {BREAKOUT, RETEST, EXPANSION})) (pr_signals r)
        \<and> length (fst (pr_levels r)) \<le> 5 \<and> length (snd (pr_levels r)) \<le> 5
        \<and> sorted_wrt (>) (fst (pr_levels r)) \<and> sorted_wrt (>) (snd (pr_levels r))"
proof (cases "pa_analyze np now symb d tf smc e")
  case (Pair res e')
  show ?thesis
  proof (cases res)
    case (Inr r)
    define e1 where "e1 = e\<lparr>pe_symbol := symb, pe_timeframe := tf\<rparr>"
    consider (empty) "r = empty_result e1"
      | (full) cs ctx t pats structs st where "detect_all_patterns (pe_config e) cs ctx = Inr pats"
          "analyze_structure np (ec_structure (pe_config e)) cs ctx t (pe_structure e) = (structs, st)"
          "pr_score r = fst (calculate_total pats structs)" "pr_dir r = snd (calculate_total pats structs)"
          "pr_patterns r = pats" "pr_structures r = structs" "pr_signals r = standard_signals e1 now pats structs"
          "pr_levels r = key_levels cs pats structs"
      using Pair Inr by (auto simp: pa_analyze_def e1_def Let_def split: if_splits sum.splits prod.splits)
    then show ?thesis
    proof cases
      case empty
      then show ?thesis unfolding Pair Inr by (simp add: empty_result_def direction_score_def)
    next
      case full
      note pats = patterns_ok [OF full(1)]
      have structs: "a \<in> set structs \<Longrightarrow> structure_ok a" for a using structures_ok full(2) by (metis fst_conv)
      have conf: "a \<in> set pats \<or> a \<in> set structs \<Longrightarrow> 0 \<le> pa_confidence a" for a
        using pats structs scored_bounds [of a] by (fastforce simp: structure_ok_def)
      define bull where "bull = direction_score PaBullish 20 pats + direction_score PaBullish 15 structs"
      define bear where "bear = direction_score PaBearish 20 pats + direction_score PaBearish 15 structs"
      have nonneg: "0 \<le> bull" "0 \<le> bear" unfolding bull_def bear_def using conf by (simp_all add: direction_score_nonneg)
      have total: "pr_score r = min (max bull bear) 100"
        "pr_dir r = (if bull > bear * (13 / 10) then PaBullish else if bear > bull * (13 / 10) then PaBearish else PaNeutral)"
        using full(3,4) by (simp_all add: calculate_total_def bull_def bear_def Let_def)
      have "list_all (\<lambda>s. sg_dir s \<noteq> PaNeutral \<and> 16 \<le> sg_confidence s \<and> sg_confidence s \<le> 100 \<and> sg_quality s \<le> 100
            \<and> (ec_min_confidence (pe_config e) \<le> sg_confidence s \<or> sg_pattern s \<in> {BREAKOUT, RETEST, EXPANSION})) (pr_signals r)"
        unfolding full(7) list_all_iff standard_signals_def
        using pats scored_bounds structs by (fastforce simp: signal_of_def structure_ok_def)
      moreover have "(bull > bear * (13 / 10)) \<Longrightarrow> \<not> bear > bull * (13 / 10)" using nonneg by simp
      moreover have "length (fst (pr_levels r)) \<le> 5 \<and> length (snd (pr_levels r)) \<le> 5
          \<and> sorted_wrt (>) (fst (pr_levels r)) \<and> sorted_wrt (>) (snd (pr_levels r))"
        unfolding full(8) by (simp add: key_levels_def top_levels_sorted Let_def)
      ultimately show ?thesis unfolding Pair Inr Let_def full(5,6) bull_def [symmetric] bear_def [symmetric] prod.case sum.case
        using total nonneg by auto
    qed
  qed (simp add: Pair)
qed

subsection \<open>Expansion after compression\<close>

definition reports :: "pa_pattern \<Rightarrow> pa_analysis list \<Rightarrow> bool" where
  "reports p as \<longleftrightarrow> list_ex (\<lambda>a. pa_pattern a = p) as"

text \<open>The log of a run: when each analysis was made and what structures it reported.\<close>

type_synonym structure_input = "candle list \<times> market_context \<times> time"

fun structure_log :: "numpy \<Rightarrow> structure_config \<Rightarrow> structure_input list \<Rightarrow> structure_state \<Rightarrow> (time \<times> pa_analysis list) list" where
  "structure_log np cfg [] st = []"
| "structure_log np cfg ((cs, ctx, t) # ins) st =
     (t, fst (analyze_structure np cfg cs ctx t st)) # structure_log np cfg ins (snd (analyze_structure np cfg cs ctx t st))"

definition quiet :: "(time \<times> pa_analysis list) list \<Rightarrow> nat \<Rightarrow> nat \<Rightarrow> bool" where
  "quiet L j i \<longleftrightarrow> list_all (\<lambda>k. \<not> reports EXPANSION (snd (L ! k))) [j..<i]"

text \<open>Entry \<open>j\<close> reported the compression of time \<open>t0\<close>, and no expansion was reported since.\<close>

definition backed :: "(time \<times> pa_analysis list) list \<Rightarrow> time option \<Rightarrow> bool" where
  "backed L c \<longleftrightarrow> (case c of None \<Rightarrow> True
     | Some t0 \<Rightarrow> \<exists>j < length L. fst (L ! j) = t0 \<and> reports COMPRESSION (snd (L ! j)) \<and> quiet L j (length L))"

lemma quiet_prefix: "i \<le> length L \<Longrightarrow> quiet (L @ M) j i = quiet L j i"
  unfolding quiet_def list_all_iff by (auto simp: nth_append)

lemma quiet_extend: "quiet L j (length L) \<Longrightarrow> \<not> reports EXPANSION (snd x) \<Longrightarrow> quiet (L @ [x]) j (Suc (length L))"
  unfolding quiet_def list_all_iff by (auto simp: nth_append less_Suc_eq)

lemma breakout_keeps_compression: "ss_compressed_at (snd (detect_breakout cs ctx st)) = ss_compressed_at st"
  by (auto simp: detect_breakout_def Let_def split: option.split)

lemma detector_patterns:
  "pa_pattern (fst (detect_breakout cs ctx st)) = BREAKOUT" "pa_pattern (detect_retest cs ctx st) = RETEST"
  "pa_pattern (detect_compression np cfg cs ctx) = COMPRESSION" "pa_pattern (fst (detect_expansion np cfg cs ctx t st)) = EXPANSION"
     apply (simp add: detect_breakout_def Let_def start_pa_def empty_pa_def mark_def score_breakout_def add_bonus_def add_reason_def split: option.split)
    apply (simp add: detect_retest_def Let_def start_pa_def empty_pa_def mark_def split: option.split)
   apply (simp add: detect_compression_def compression_analysis_def Let_def start_pa_def empty_pa_def mark_def add_bonus_def)
  apply (simp add: detect_expansion_def expansion_analysis_def Let_def start_pa_def empty_pa_def mark_def add_bonus_def split: option.split)
  done

lemma expansion_effect:
  "3 \<le> length cs \<Longrightarrow> case detect_expansion np cfg cs ctx t st of (a, st') \<Rightarrow>
     (if pa_detected a then (\<exists>t0. ss_compressed_at st = Some t0 \<and> t - t0 \<le> 3600 * 4) \<and> ss_compressed_at st' = None
      else ss_compressed_at st' = None \<or> ss_compressed_at st' = ss_compressed_at st)"
  by (auto simp: detect_expansion_def expansion_analysis_def Let_def start_pa_def empty_pa_def mark_def add_bonus_def split: option.split)

text \<open>What one analysis reports, and what it remembers of the compression.\<close>

lemma analysis_effect:
  fixes np cfg cs ctx t st
  assumes "20 \<le> length cs"
  defines "r \<equiv> analyze_structure np cfg cs ctx t st" and "det \<equiv> pa_detected (detect_compression np cfg cs ctx)"
  defines "c \<equiv> (if det then Some t else ss_compressed_at st)"
  shows "reports COMPRESSION (fst r) = det"
    and "if reports EXPANSION (fst r) then (\<exists>t0. c = Some t0 \<and> t - t0 \<le> 3600 * 4) \<and> ss_compressed_at (snd r) = None
         else ss_compressed_at (snd r) = None \<or> ss_compressed_at (snd r) = c"
proof -
  obtain brk st1 where b: "detect_breakout cs ctx st = (brk, st1)" by fastforce
  define st2 where "st2 = note_compression t (detect_compression np cfg cs ctx) st1"
  note parts = analyze_structure_parts [OF assms(1) b st2_def, folded r_def]
  have c2: "ss_compressed_at st2 = c"
    using breakout_keeps_compression [of cs ctx st] b by (simp add: st2_def note_compression_def c_def det_def)
  have pats: "pa_pattern brk = BREAKOUT" using detector_patterns(1) [of cs ctx st] b by simp
  show "reports COMPRESSION (fst r) = det"
    unfolding parts(1) using pats detector_patterns by (auto simp: reports_def det_def empty_pa_def)
  define ex where "ex = (if ss_compressed_at st2 \<noteq> None then fst (detect_expansion np cfg cs ctx t st2) else empty_pa EXPANSION)"
  have "reports EXPANSION (fst r) = pa_detected ex"
    unfolding parts(1) ex_def [symmetric] using pats detector_patterns by (auto simp: reports_def ex_def empty_pa_def)
  then show "if reports EXPANSION (fst r) then (\<exists>t0. c = Some t0 \<and> t - t0 \<le> 3600 * 4) \<and> ss_compressed_at (snd r) = None
       else ss_compressed_at (snd r) = None \<or> ss_compressed_at (snd r) = c"
    using expansion_effect [where cs = cs and np = np and cfg = cfg and ctx = ctx and t = t and st = st2] assms(1) c2 unfolding parts(2)
    by (cases "detect_expansion np cfg cs ctx t st2") (auto simp: ex_def empty_pa_def)
qed

definition expansion_backed :: "(time \<times> pa_analysis list) list \<Rightarrow> nat \<Rightarrow> bool" where
  "expansion_backed L i \<longleftrightarrow> (if reports EXPANSION (snd (L ! i))
     then list_ex (\<lambda>j. reports COMPRESSION (snd (L ! j)) \<and> fst (L ! i) - fst (L ! j) \<le> 3600 * 4 \<and> quiet L j i) [0..<Suc i] else True)"

lemma short_window_reports_nothing: "length cs < 20 \<Longrightarrow> analyze_structure np cfg cs ctx t st = ([], st)"
  by (simp add: analyze_structure_def)

lemma backed_step:
  fixes np cfg cs ctx t st
  assumes "backed L (ss_compressed_at st)"
  defines "x \<equiv> (t, fst (analyze_structure np cfg cs ctx t st))"
  shows "backed (L @ [x]) (ss_compressed_at (snd (analyze_structure np cfg cs ctx t st)))" and "expansion_backed (L @ [x]) (length L)"
proof -
  have carry: "backed (L @ [x]) (Some t0)" if "backed L (Some t0)" "\<not> reports EXPANSION (snd x)" for t0
    using that quiet_extend [of L _ x] by (fastforce simp: backed_def nth_append)
  have "backed (L @ [x]) (ss_compressed_at (snd (analyze_structure np cfg cs ctx t st))) \<and> expansion_backed (L @ [x]) (length L)"
  proof (cases "length cs < 20")
    case True
    then have x: "snd x = []" "snd (analyze_structure np cfg cs ctx t st) = st"
      by (simp_all add: x_def short_window_reports_nothing)
    then show ?thesis using assms(1) carry
      by (cases "ss_compressed_at st") (auto simp: expansion_backed_def reports_def backed_def)
  next
    case False
    then have len: "20 \<le> length cs" by simp
    define c where "c = (if pa_detected (detect_compression np cfg cs ctx) then Some t else ss_compressed_at st)"
    define c' where "c' = ss_compressed_at (snd (analyze_structure np cfg cs ctx t st))"
    note eff = analysis_effect [OF len, of np cfg ctx t st, folded c_def c'_def]
    have src: "\<exists>j \<le> length L. fst ((L @ [x]) ! j) = t0 \<and> reports COMPRESSION (snd ((L @ [x]) ! j)) \<and> quiet (L @ [x]) j (length L)"
      if "c = Some t0" for t0
    proof (cases "pa_detected (detect_compression np cfg cs ctx)")
      case True
      then have "t0 = t" "reports COMPRESSION (snd x)" using that eff(1) by (simp_all add: c_def x_def)
      then show ?thesis by (intro exI [of _ "length L"]) (simp add: x_def quiet_def)
    next
      case False
      then have "backed L (Some t0)" using that assms(1) by (simp add: c_def)
      then show ?thesis by (fastforce simp: backed_def nth_append quiet_prefix intro: less_imp_le)
    qed
    show ?thesis
    proof (cases "reports EXPANSION (snd x)")
      case True
      then have none: "c' = None" and "\<exists>t0. c = Some t0 \<and> t - t0 \<le> 3600 * 4" using eff(2) by (auto simp: x_def)
      then obtain t0 where t0: "c = Some t0" "t - t0 \<le> 3600 * 4" by blast
      from src [OF t0(1)] obtain j where j: "j \<le> length L" "fst ((L @ [x]) ! j) = t0" "reports COMPRESSION (snd ((L @ [x]) ! j))"
        "quiet (L @ [x]) j (length L)" by blast
      have "expansion_backed (L @ [x]) (length L)"
        unfolding expansion_backed_def list_ex_iff using j t0(2) by (auto simp: x_def intro!: bexI [of _ j])
      then show ?thesis using none by (simp add: backed_def c'_def)
    next
      case False
      have "backed (L @ [x]) c" if "c = Some t0" for t0
      proof -
        from src [OF that] obtain j where j: "j \<le> length L" "fst ((L @ [x]) ! j) = t0" "reports COMPRESSION (snd ((L @ [x]) ! j))"
          "quiet (L @ [x]) j (length L)" by blast
        then have "quiet (L @ [x]) j (Suc (length L))"
          using False by (auto simp: quiet_def)
        with j that show ?thesis by (auto simp: backed_def intro!: exI [of _ j])
      qed
      then have "backed (L @ [x]) c'" using eff(2) False by (cases c) (auto simp: x_def backed_def)
      then show ?thesis using False by (simp add: expansion_backed_def c'_def)
    qed
  qed
  then show "backed (L @ [x]) (ss_compressed_at (snd (analyze_structure np cfg cs ctx t st)))" "expansion_backed (L @ [x]) (length L)"
    by blast+
qed

lemma expansion_backed_prefix: "i < length L \<Longrightarrow> expansion_backed (L @ M) i = expansion_backed L i"
  by (auto simp: expansion_backed_def list_ex_iff nth_append quiet_prefix)

lemma structure_log_backed:
  "backed L (ss_compressed_at st) \<Longrightarrow> i < length (structure_log np cfg ins st) \<Longrightarrow>
    expansion_backed (L @ structure_log np cfg ins st) (length L + i)"
proof (induction ins arbitrary: L st i)
  case (Cons inp ins)
  obtain cs ctx t where inp: "inp = (cs, ctx, t)" by (cases inp)
  define x where "x = (t, fst (analyze_structure np cfg cs ctx t st))"
  define st' where "st' = snd (analyze_structure np cfg cs ctx t st)"
  note step = backed_step [OF Cons.prems(1), of t np cfg cs ctx, folded x_def st'_def]
  have log: "structure_log np cfg (inp # ins) st = x # structure_log np cfg ins st'" by (simp add: inp x_def st'_def)
  show ?case
  proof (cases i)
    case 0
    then show ?thesis using step(2) expansion_backed_prefix [of "length L" "L @ [x]" "structure_log np cfg ins st'"] by (simp add: log)
  next
    case (Suc k)
    then show ?thesis using Cons.IH [OF step(1), of k] Cons.prems(2) by (simp add: log)
  qed
qed simp

text \<open>
  An expansion is only reported after a compression. In the log of any run of the structure analyzer, whatever
  windows, contexts and times it is given, every reported expansion has a compression reported at most four
  hours before it, in the same or an earlier analysis, with no other expansion reported in between: each
  compression supports at most one expansion.
\<close>

theorem expansion_follows_compression:
  "let L = structure_log np cfg ins new_structure_state in
   list_all (\<lambda>i. if reports EXPANSION (snd (L ! i))
      then list_ex (\<lambda>j. reports COMPRESSION (snd (L ! j)) \<and> fst (L ! i) - fst (L ! j) \<le> 3600 * 4
             \<and> list_all (\<lambda>k. \<not> reports EXPANSION (snd (L ! k))) [j..<i]) [0..<Suc i]
      else True) [0..<length L]"
proof -
  have "expansion_backed (structure_log np cfg ins new_structure_state) i" if "i < length (structure_log np cfg ins new_structure_state)" for i
    using structure_log_backed [of "[]" new_structure_state i np cfg ins] that by (simp add: backed_def new_structure_state_def)
  then show ?thesis unfolding Let_def quiet_def [symmetric] expansion_backed_def [symmetric] by (simp add: list_all_iff)
qed

subsection \<open>Breakouts are remembered for ever\<close>

type_synonym pa_request = "time \<times> string \<times> market_data \<times> string \<times> smc_context option"

definition pa_step :: "numpy \<Rightarrow> pa_request \<Rightarrow> price_engine \<Rightarrow> price_engine" where
  "pa_step np r e = (case r of (now, symb, d, tf, smc) \<Rightarrow> snd (pa_analyze np now symb d tf smc e))"

abbreviation request_data :: "pa_request \<Rightarrow> market_data" where
  "request_data r \<equiv> fst (snd (snd r))"

abbreviation remembered :: "price_engine \<Rightarrow> past_breakout list" where
  "remembered e \<equiv> ss_breakouts (pe_structure e)"

definition only_grows :: "nat \<Rightarrow> past_breakout list \<Rightarrow> past_breakout list \<Rightarrow> bool" where
  "only_grows n bs bs' \<longleftrightarrow> (\<exists>new. bs' = bs @ new \<and> (\<forall>b \<in> set new. bk_index b = n - 1))"

lemma only_grows_refl [simp]: "only_grows n bs bs"
  by (simp add: only_grows_def)

lemma only_grows_trans: "only_grows n a b \<Longrightarrow> only_grows n b c \<Longrightarrow> only_grows n a c"
  by (fastforce simp: only_grows_def)

lemma convert_last_index:
  "convert_candles now d = Inr cs \<Longrightarrow> md_opens d \<noteq> [] \<Longrightarrow> c_index (from_end 1 cs) = length (md_opens d) - 1 \<and> length cs = length (md_opens d)"
  by (auto simp: convert_candles_def Let_def from_end_def make_candle_def split: if_splits)

lemma breakout_grows: "only_grows n (ss_breakouts st) (ss_breakouts (snd (detect_breakout cs ctx st)))"
  if "c_index (from_end 1 cs) = n - 1"
  using that by (auto simp: detect_breakout_def only_grows_def Let_def split: option.split)

lemma expansion_keeps_breakouts: "ss_breakouts (snd (detect_expansion np cfg cs ctx t st)) = ss_breakouts st"
  by (auto simp: detect_expansion_def Let_def split: option.split)

lemma structure_grows:
  assumes "c_index (from_end 1 cs) = n - 1"
  shows "only_grows n (ss_breakouts st) (ss_breakouts (snd (analyze_structure np cfg cs ctx t st)))"
proof (cases "20 \<le> length cs")
  case True
  obtain brk st1 where b: "detect_breakout cs ctx st = (brk, st1)" by fastforce
  have "ss_breakouts (note_compression t a st1) = ss_breakouts st1" for a by (simp add: note_compression_def)
  then show ?thesis using breakout_grows [OF assms, of st ctx] analyze_structure_parts(2) [OF True b refl] b
    by (simp add: expansion_keeps_breakouts)
qed (simp add: short_window_reports_nothing)

lemma pa_step_grows: "only_grows (length (md_opens (request_data r))) (remembered e) (remembered (pa_step np r e))"
proof (cases r)
  case (fields now symb d tf smc)
  show ?thesis
  proof (cases "md_opens d = [] \<or> md_highs d = [] \<or> md_lows d = [] \<or> md_closes d = [] \<or> length (md_highs d) < 20
      \<or> (\<exists>x. convert_candles now d = Inl x)")
    case True
    then show ?thesis by (auto simp: fields pa_step_def pa_analyze_def Let_def split: sum.split)
  next
    case False
    then obtain cs where cs: "convert_candles now d = Inr cs" by (cases "convert_candles now d") auto
    with False have idx: "c_index (from_end 1 cs) = length (md_opens d) - 1" using convert_last_index by blast
    show ?thesis using False structure_grows [OF idx]
      by (auto simp: fields pa_step_def pa_analyze_def cs Let_def split: sum.split prod.split) (metis snd_conv)
  qed
qed

lemma pa_run_grows:
  "list_all (\<lambda>r. length (md_opens (request_data r)) = n) rs \<Longrightarrow> only_grows n (remembered e) (remembered (fold (pa_step np) rs e))"
proof (induction rs arbitrary: e)
  case (Cons r rs)
  then have "only_grows n (remembered e) (remembered (pa_step np r e))" using pa_step_grows [of r e np] by simp
  with Cons show ?case using only_grows_trans by fastforce
qed simp

text \<open>
  The window of five candles for a retest never closes. When an engine is fed windows of the same length, as a
  periodic analysis does, every breakout it ever recorded stays recorded and still counts as recent in the next
  analysis, however long ago it happened: its index is its place in its own window.
\<close>

theorem breakouts_never_expire:
  "case new_price_engine (Some cfg) of Inl _ \<Rightarrow> False | Inr e \<Rightarrow>
     (let b1 = remembered (fold (pa_step np) rs1 e); b2 = remembered (fold (pa_step np) (rs1 @ rs2) e) in
      if list_all (\<lambda>r. length (md_opens (request_data r)) = n) (rs1 @ rs2)
      then take (length b1) b2 = b1
        \<and> (case convert_candles now d of
             Inl _ \<Rightarrow> True
           | Inr cs \<Rightarrow> if length (md_opens d) = n \<and> 0 < n then filter (recent_breakout (from_end 1 cs)) b2 = b2 else True)
      else True)"
proof -
  obtain e where e: "new_price_engine (Some cfg) = Inr e" "remembered e = []"
    by (simp add: new_price_engine_def new_structure_state_def)
  show ?thesis
  proof (cases "list_all (\<lambda>r. length (md_opens (request_data r)) = n) (rs1 @ rs2)")
    case True
    define e1 where "e1 = fold (pa_step np) rs1 e"
    have g1: "only_grows n [] (remembered e1)" using pa_run_grows [of n rs1 e np] True e(2) by (simp add: e1_def)
    moreover have g2: "only_grows n (remembered e1) (remembered (fold (pa_step np) rs2 e1))" using pa_run_grows True by simp
    ultimately have idx: "\<forall>b \<in> set (remembered (fold (pa_step np) rs2 e1)). bk_index b = n - 1"
      by (auto simp: only_grows_def)
    have "filter (recent_breakout (from_end 1 cs)) (remembered (fold (pa_step np) rs2 e1)) = remembered (fold (pa_step np) rs2 e1)"
      if "convert_candles now d = Inr cs" "length (md_opens d) = n" "0 < n" for cs
    proof -
      have "c_index (from_end 1 cs) = n - 1" using convert_last_index [OF that(1)] that(2,3) by auto
      then show ?thesis using idx by (auto simp: filter_id_conv recent_breakout_def)
    qed
    then show ?thesis using g2 True unfolding e(1) sum.case Let_def
      by (auto simp: only_grows_def e1_def split: sum.split)
  next
    case False
    then show ?thesis unfolding e(1) sum.case Let_def by argo
  qed
qed

text \<open>The candle that breaks a level also retests it, when it closes close to it: one event counts as two structures.\<close>

lemma breakout_retests_itself:
  assumes "3 \<le> length cs" and "broken_level ctx (from_end 2 cs) (from_end 1 cs) = Some (dir, level)"
    and "\<bar>c_close (from_end 1 cs) - level\<bar> < mc_atr ctx * (3 / 10)"
  shows "pa_detected (fst (detect_breakout cs ctx st)) \<and> pa_detected (detect_retest cs ctx (snd (detect_breakout cs ctx st)))"
proof -
  define cur where "cur = from_end 1 cs"
  define b where "b = \<lparr>bk_level = level, bk_dir = dir, bk_time = c_time cur, bk_index = c_index cur\<rparr>"
  have dir: "dir = PaBullish \<and> c_bullish cur \<or> dir = PaBearish \<and> \<not> c_bullish cur"
    using assms(2) by (auto simp: broken_level_def cur_def find_Some_iff breaks_up_def breaks_down_def split: option.splits)
  have st: "ss_breakouts (snd (detect_breakout cs ctx st)) = ss_breakouts st @ [b]" "pa_detected (fst (detect_breakout cs ctx st))"
    using assms(1,2) by (simp_all add: detect_breakout_def Let_def b_def cur_def mark_def score_breakout_def add_bonus_def add_reason_def
        start_pa_def)
  have "retests ctx cur b" "recent_breakout cur b" using dir assms(3) by (simp_all add: retests_def b_def cur_def recent_breakout_def)
  then have "find (retests ctx cur) (filter (recent_breakout cur) (ss_breakouts st @ [b])) \<noteq> None"
    unfolding find_None_iff by auto
  then obtain b' where "find (retests ctx cur) (filter (recent_breakout cur) (ss_breakouts st @ [b])) = Some b'" by blast
  then have "pa_detected (detect_retest cs ctx (snd (detect_breakout cs ctx st)))"
    using assms(1) unfolding detect_retest_def cur_def [symmetric] Let_def st(1) by (simp add: start_pa_def mark_def del: filter_append)
  then show ?thesis using st(2) by blast
qed

text \<open>
  A compressed inside bar stops the analysis. Whenever the last candle lies inside the one before it and
  has less than 30 % of its range, the whole analysis raises AttributeError, because the detector appends a reason
  code that does not exist; no pattern, structure or signal of that window is reported, and the remembered structure is
  unchanged.
\<close>

theorem compressed_inside_bar_stops_analysis:
  "case convert_candles now d of
     Inl _ \<Rightarrow> True
   | Inr cs \<Rightarrow>
       (let mother = from_end 2 cs; inside = from_end 1 cs in
        if 20 \<le> length cs \<and> c_high inside \<le> c_high mother \<and> c_low mother \<le> c_low inside
          \<and> c_total_range inside < c_total_range mother * (3 / 10)
        then pa_analyze np now symb d tf smc e = (Inl AttributeError, e\<lparr>pe_symbol := symb, pe_timeframe := tf\<rparr>)
        else True)"
proof (cases "convert_candles now d")
  case (Inr cs)
  have len: "length cs = length (md_opens d)" "length (md_opens d) \<le> length (md_highs d)" "length (md_opens d) \<le> length (md_lows d)"
    "length (md_opens d) \<le> length (md_closes d)"
    using Inr by (auto simp: convert_candles_def Let_def split: if_splits)
  have "pa_analyze np now symb d tf smc e = (Inl AttributeError, e\<lparr>pe_symbol := symb, pe_timeframe := tf\<rparr>)"
    if c: "20 \<le> length cs" "c_high (from_end 1 cs) \<le> c_high (from_end 2 cs)" "c_low (from_end 2 cs) \<le> c_low (from_end 1 cs)"
      "c_total_range (from_end 1 cs) < c_total_range (from_end 2 cs) * (3 / 10)"
  proof -
    have "detect_inside_bar cs ctx = Inl AttributeError" for ctx using c by (intro compressed_inside_bar_raises) simp_all
    then have "detect_all_patterns (pe_config e) cs ctx = Inl AttributeError" for ctx by (simp add: detect_all_patterns_def Let_def)
    moreover have "md_opens d \<noteq> []" "md_highs d \<noteq> []" "md_lows d \<noteq> []" "md_closes d \<noteq> []" "\<not> length (md_highs d) < 20"
      using len c(1) by auto
    ultimately show ?thesis by (simp add: pa_analyze_def Inr Let_def)
  qed
  then show ?thesis by (simp add: Inr Let_def)
qed simp

text \<open>Without times the session of the newest candle is looked up for the time of the oldest.\<close>

lemma made_up_times_run_backwards: "0 < n \<Longrightarrow> last_time now [] n = now - real (n - 1) * 900"
  by (simp add: last_time_def)

end
