(* ===== verification/Smc_Engine.thy ===== *)
theory Smc_Engine
  imports Candles
begin

section \<open>Smart-money concepts\<close>

text \<open>
  \<open>src/backend/analysis/smc_engine.py\<close>: swings, bias, order blocks, fair-value gaps, liquidity zones and structure
  events of a window of candles, the confidence built from them, and the analyzers that wrap them for the voting
  agents. Time stamps of candles are strings that are only passed on.
\<close>

datatype bias = BullishBias | BearishBias | NeutralBias

datatype structure_event = BOS | CHoCH | NoEvent

record smc_candle =
  k_timestamp :: string
  k_open :: real
  k_high :: real
  k_low :: real
  k_close :: real
  k_volume :: real

definition k_bullish :: "smc_candle \<Rightarrow> bool" where "k_bullish c \<longleftrightarrow> k_close c > k_open c"
definition k_bearish :: "smc_candle \<Rightarrow> bool" where "k_bearish c \<longleftrightarrow> k_close c < k_open c"

record order_block =
  ob_index :: nat
  ob_timestamp :: string
  ob_high :: real
  ob_low :: real
  ob_bullish :: bool
  ob_strength :: real
  ob_mitigated :: bool

record fair_value_gap =
  fg_index :: nat
  fg_timestamp :: string
  fg_top :: real
  fg_bottom :: real
  fg_bullish :: bool
  fg_filled :: bool
  fg_fill_pct :: real

record liquidity_zone =
  lz_price :: real
  lz_buy_side :: bool
  lz_strength :: real
  lz_swept :: bool

datatype smc_note =
    NoteBias bias | NoteEvent structure_event | NoteActiveBlocks nat | NoteGaps nat
  | NoteHighConfidence | NoteMediumConfidence | NoteLowConfidence
  | NoteInsufficient | NoteLimited nat | NoteError exc

record smc_analysis =
  an_bias :: bias
  an_event :: structure_event
  an_blocks :: "order_block list"
  an_gaps :: "fair_value_gap list"
  an_liquidity :: "liquidity_zone list"
  an_swing_high :: "real option"
  an_swing_low :: "real option"
  an_confidence :: real
  an_notes :: "smc_note list"

record smc_engine =
  en_ob_lookback :: nat
  en_fvg_min :: real
  en_swing_lookback :: nat
  en_min_impulse :: real

definition default_smc_engine :: smc_engine where
  "default_smc_engine = \<lparr>en_ob_lookback = 5, en_fvg_min = 2 / 10000, en_swing_lookback = 10, en_min_impulse = 5 / 10000\<rparr>"

subsection \<open>Swings and bias\<close>

definition swing_window :: "nat \<Rightarrow> nat \<Rightarrow> smc_candle list \<Rightarrow> smc_candle list" where
  "swing_window lb i cs = take (2 * lb + 1) (List.drop (i - lb) cs)"

definition keep_max :: "real \<Rightarrow> real option \<Rightarrow> real option" where
  "keep_max x acc = (case acc of None \<Rightarrow> Some x | Some y \<Rightarrow> if x > y then Some x else acc)"

definition keep_min :: "real \<Rightarrow> real option \<Rightarrow> real option" where
  "keep_min x acc = (case acc of None \<Rightarrow> Some x | Some y \<Rightarrow> if x < y then Some x else acc)"

definition is_swing_high :: "nat \<Rightarrow> smc_candle list \<Rightarrow> nat \<Rightarrow> bool" where
  "is_swing_high lb cs i \<longleftrightarrow> k_high (cs ! i) = list_max (map k_high (swing_window lb i cs))"

definition is_swing_low :: "nat \<Rightarrow> smc_candle list \<Rightarrow> nat \<Rightarrow> bool" where
  "is_swing_low lb cs i \<longleftrightarrow> k_low (cs ! i) = list_min (map k_low (swing_window lb i cs))"

definition find_swings :: "smc_engine \<Rightarrow> smc_candle list \<Rightarrow> real option \<times> real option" where
  "find_swings e cs =
     (let n = length cs; lb = min (en_swing_lookback e) (n div 2); idx = [lb..<n - lb]
      in (fold keep_max (map (\<lambda>i. k_high (cs ! i)) (filter (is_swing_high lb cs) idx)) None,
          fold keep_min (map (\<lambda>i. k_low (cs ! i)) (filter (is_swing_low lb cs) idx)) None))"

definition determine_bias :: "smc_engine \<Rightarrow> smc_candle list \<Rightarrow> bias" where
  "determine_bias e cs =
     (let recent = tail_slice (en_swing_lookback e) cs; a = hd recent; b = last recent in
      if k_high b > k_high a \<and> k_low b > k_low a then BullishBias
      else if k_low b < k_low a \<and> k_high b < k_high a then BearishBias
      else NeutralBias)"

subsection \<open>Order blocks\<close>

definition measure_impulse :: "smc_candle list \<Rightarrow> nat \<Rightarrow> nat \<Rightarrow> real" where
  "measure_impulse cs a b =
     (if a \<ge> length cs \<or> b > length cs then 0
      else (let s = take (b - a) (List.drop a cs) in if s = [] then 0 else k_close (last s) - k_open (hd s)))"

definition block_impulse :: "smc_engine \<Rightarrow> smc_candle list \<Rightarrow> nat \<Rightarrow> real" where
  "block_impulse e cs i = measure_impulse cs (i + 1) (i + en_ob_lookback e)"

text \<open>Whether the candle before an impulse runs against it.\<close>

definition block_candidate :: "smc_engine \<Rightarrow> smc_candle list \<Rightarrow> nat \<Rightarrow> bool" where
  "block_candidate e cs i \<longleftrightarrow> (let x = block_impulse e cs i; c = cs ! i in
     \<not> \<bar>x\<bar> < en_min_impulse e \<and> (x > 0 \<and> k_bearish c \<or> x < 0 \<and> k_bullish c))"

definition block_contains :: "order_block \<Rightarrow> real \<Rightarrow> bool" where
  "block_contains b p \<longleftrightarrow> ob_low b \<le> p \<and> p \<le> ob_high b"

definition block_at :: "smc_engine \<Rightarrow> smc_candle list \<Rightarrow> nat \<Rightarrow> order_block" where
  "block_at e cs i =
     (let x = block_impulse e cs i; c = cs ! i;
          b = \<lparr>ob_index = i, ob_timestamp = k_timestamp c, ob_high = k_high c, ob_low = k_low c, ob_bullish = (x > 0),
            ob_strength = min 1 (\<bar>x\<bar> / (en_min_impulse e * 5)), ob_mitigated = False\<rparr>
      in b\<lparr>ob_mitigated := block_contains b (k_close (last cs))\<rparr>)"

definition candidates :: "smc_engine \<Rightarrow> smc_candle list \<Rightarrow> nat list" where
  "candidates e cs = filter (block_candidate e cs) [1..<length cs - en_ob_lookback e]"

text \<open>
  The blocks are found in ascending order, so the descending sort by strength and index is the reverse of a stable
  sort by strength. With a minimal impulse of zero the strength divides by zero.
\<close>

definition find_order_blocks :: "smc_engine \<Rightarrow> smc_candle list \<Rightarrow> exc + order_block list" where
  "find_order_blocks e cs =
     (if candidates e cs \<noteq> [] \<and> en_min_impulse e = 0 then Inl ZeroDivisionError
      else Inr (take 5 (rev (sort_key ob_strength (map (block_at e cs) (candidates e cs))))))"

subsection \<open>Fair-value gaps\<close>

definition fg_size :: "fair_value_gap \<Rightarrow> real" where "fg_size g = fg_top g - fg_bottom g"

definition set_fill :: "real \<Rightarrow> fair_value_gap \<Rightarrow> fair_value_gap" where
  "set_fill pen g = (let pct = (if fg_size g \<noteq> 0 then min 1 (pen / fg_size g) else 0) in g\<lparr>fg_fill_pct := pct, fg_filled := (pct \<ge> 1 / 2)\<rparr>)"

definition bullish_gap :: "smc_candle list \<Rightarrow> nat \<Rightarrow> fair_value_gap" where
  "bullish_gap cs i =
     (let g = \<lparr>fg_index = i, fg_timestamp = k_timestamp (cs ! i), fg_top = k_low (cs ! (i + 1)), fg_bottom = k_high (cs ! (i - 1)),
            fg_bullish = True, fg_filled = False, fg_fill_pct = 0\<rparr>; last_close = k_close (last cs)
      in if last_close \<le> fg_top g then set_fill (max 0 (last_close - fg_bottom g)) g else g)"

definition bearish_gap :: "smc_candle list \<Rightarrow> nat \<Rightarrow> fair_value_gap" where
  "bearish_gap cs i =
     (let g = \<lparr>fg_index = i, fg_timestamp = k_timestamp (cs ! i), fg_top = k_low (cs ! (i - 1)), fg_bottom = k_high (cs ! (i + 1)),
            fg_bullish = False, fg_filled = False, fg_fill_pct = 0\<rparr>; last_close = k_close (last cs)
      in if last_close \<ge> fg_bottom g then set_fill (max 0 (fg_top g - last_close)) g else g)"

definition gap_at :: "smc_engine \<Rightarrow> smc_candle list \<Rightarrow> nat \<Rightarrow> fair_value_gap option" where
  "gap_at e cs i =
     (let prev = cs ! (i - 1); nxt = cs ! (i + 1) in
      if k_low nxt > k_high prev \<and> k_low nxt - k_high prev \<ge> en_fvg_min e then Some (bullish_gap cs i)
      else if k_high nxt < k_low prev \<and> k_low prev - k_high nxt \<ge> en_fvg_min e then Some (bearish_gap cs i)
      else None)"

definition find_fvgs :: "smc_engine \<Rightarrow> smc_candle list \<Rightarrow> fair_value_gap list" where
  "find_fvgs e cs = take_last 5 (filter (\<lambda>g. \<not> fg_filled g) (List.map_filter (gap_at e cs) [1..<length cs - 1]))"

subsection \<open>Liquidity\<close>

definition price_tolerance :: real where "price_tolerance = 2 / 10000"

text \<open>A price joins the first recorded price within the tolerance, or starts a new one.\<close>

definition touch :: "real \<Rightarrow> (real, nat) odict \<Rightarrow> (real, nat) odict" where
  "touch x d = (case find (\<lambda>p. \<bar>x - fst p\<bar> \<le> price_tolerance) d of
      None \<Rightarrow> od_put x 1 d
    | Some (p, n) \<Rightarrow> od_put p (n + 1) d)"

definition touches :: "real list \<Rightarrow> (real, nat) odict" where
  "touches xs = fold touch xs []"

text \<open>Zones of at least the minimal number of touches, strongest first; equal strengths keep their order.\<close>

definition liquidity_levels :: "nat \<Rightarrow> smc_candle list \<Rightarrow> liquidity_zone list" where
  "liquidity_levels m cs =
     (let last_close = k_close (last cs);
          zone = \<lambda>buy p. \<lparr>lz_price = fst p, lz_buy_side = buy, lz_strength = real (snd p),
            lz_swept = (if buy then last_close > fst p else last_close < fst p)\<rparr>;
          pick = filter (\<lambda>p. snd p \<ge> m)
      in take 10 (sort_key (\<lambda>z. - lz_strength z) (map (zone True) (pick (touches (map k_high cs)))
           @ map (zone False) (pick (touches (map k_low cs))))))"

subsection \<open>Structure events and confidence\<close>

definition detect_structure_event :: "smc_candle list \<Rightarrow> real option \<Rightarrow> real option \<Rightarrow> structure_event" where
  "detect_structure_event cs sh sl =
     (case (sh, sl) of
        (Some hi, Some lo) \<Rightarrow>
          (let recent = take_last 5 cs; rh = list_max (map k_high recent); rl = list_min (map k_low recent);
               mid = (hi + lo) / 2; cur = k_close (last cs)
           in if rh > hi \<or> rl < lo then CHoCH
              else if cur > mid \<and> rh > hi * (995 / 1000) then BOS
              else if cur < mid \<and> rl < lo * (1005 / 1000) then BOS
              else NoEvent)
      | _ \<Rightarrow> NoEvent)"

definition smc_confidence :: "bias \<Rightarrow> order_block list \<Rightarrow> fair_value_gap list \<Rightarrow> structure_event \<Rightarrow> real" where
  "smc_confidence b obs gaps ev =
     (let strong = length (filter (\<lambda>ob. ob_strength ob > 6 / 10 \<and> \<not> ob_mitigated ob) obs)
      in min 1 ((if b \<noteq> NeutralBias then 30 / 100 else 0)
           + (if strong \<noteq> 0 then min (25 / 100) (10 / 100 * real strong) else 0)
           + (if gaps \<noteq> [] then min (20 / 100) (8 / 100 * real (length gaps)) else 0)
           + (case ev of BOS \<Rightarrow> 15 / 100 | CHoCH \<Rightarrow> 25 / 100 | NoEvent \<Rightarrow> 0)))"

definition smc_notes :: "bias \<Rightarrow> order_block list \<Rightarrow> fair_value_gap list \<Rightarrow> structure_event \<Rightarrow> real \<Rightarrow> smc_note list" where
  "smc_notes b obs gaps ev conf =
     (let act = length (filter (\<lambda>ob. \<not> ob_mitigated ob) obs)
      in [NoteBias b] @ (if ev \<noteq> NoEvent then [NoteEvent ev] else []) @ (if act \<noteq> 0 then [NoteActiveBlocks act] else [])
         @ (if gaps \<noteq> [] then [NoteGaps (length gaps)] else [])
         @ [if conf \<ge> 75 / 100 then NoteHighConfidence else if conf \<ge> 1 / 2 then NoteMediumConfidence else NoteLowConfidence])"

definition smc_analyse :: "smc_engine \<Rightarrow> smc_candle list \<Rightarrow> exc + smc_analysis" where
  "smc_analyse e cs =
     (if length cs < 20 then Inl ValueError
      else
        (let (sh, sl) = find_swings e cs; b = determine_bias e cs in
         case find_order_blocks e cs of
           Inl x \<Rightarrow> Inl x
         | Inr obs \<Rightarrow>
             (let gaps = find_fvgs e cs; liq = liquidity_levels 2 cs; ev = detect_structure_event cs sh sl;
                  conf = smc_confidence b obs gaps ev
              in Inr \<lparr>an_bias = b, an_event = ev, an_blocks = obs, an_gaps = gaps, an_liquidity = liq, an_swing_high = sh,
                   an_swing_low = sl, an_confidence = conf, an_notes = smc_notes b obs gaps ev conf\<rparr>)))"

subsection \<open>The public analyzers\<close>

record candle_columns =
  cl_timestamps :: "string list"
  cl_opens :: "real list"
  cl_highs :: "real list"
  cl_lows :: "real list"
  cl_closes :: "real list"
  cl_volumes :: "real list"

record smc_data =
  dt_symbol :: string
  dt_timeframe :: string
  dt_candles :: "candle_columns option"

text \<open>Columns of unequal length are cut to the shortest; a value that is not a dictionary gives no candles. Missing
  time stamps are the printed positions (\<open>show_pos\<close>).\<close>

definition data_candles :: "(nat \<Rightarrow> string) \<Rightarrow> smc_data \<Rightarrow> smc_candle list" where
  "data_candles show_pos d =
     (case dt_candles d of
        None \<Rightarrow> []
      | Some c \<Rightarrow>
          (let n = min (min (length (cl_opens c)) (length (cl_highs c))) (min (length (cl_lows c)) (length (cl_closes c)))
           in map (\<lambda>i. \<lparr>k_timestamp = (if i < length (cl_timestamps c) then cl_timestamps c ! i else show_pos i),
                k_open = cl_opens c ! i, k_high = cl_highs c ! i, k_low = cl_lows c ! i, k_close = cl_closes c ! i,
                k_volume = (if i < length (cl_volumes c) then cl_volumes c ! i else 0)\<rparr>) [0..<n]))"

datatype smc_trend = TrendBullish | TrendBearish | TrendSideways

record smc_result =
  sr_trend :: smc_trend
  sr_bias :: bias
  sr_events :: "(structure_event \<times> bool \<times> real \<times> nat) list"
  sr_swing_highs :: "real list"
  sr_swing_lows :: "real list"
  sr_blocks :: "order_block list"
  sr_gaps :: "fair_value_gap list"
  sr_liquidity :: "liquidity_zone list"
  sr_score :: real
  sr_confidence :: real
  sr_notes :: "smc_note list"
  sr_symbol :: string
  sr_timeframe :: string

fun bias_trend :: "bias \<Rightarrow> smc_trend" where
  "bias_trend BullishBias = TrendBullish"
| "bias_trend BearishBias = TrendBearish"
| "bias_trend NeutralBias = TrendSideways"

definition plain_result :: "smc_data \<Rightarrow> bias \<Rightarrow> smc_result" where
  "plain_result d b = \<lparr>sr_trend = bias_trend b, sr_bias = b, sr_events = [], sr_swing_highs = [], sr_swing_lows = [], sr_blocks = [],
     sr_gaps = [], sr_liquidity = [], sr_score = 0, sr_confidence = 0, sr_notes = [], sr_symbol = dt_symbol d,
     sr_timeframe = dt_timeframe d\<rparr>"

text \<open>\<open>BlockZone\<close> clamps the strength; the direction of an event is bearish unless the bias is bullish.\<close>

definition clamp_block :: "order_block \<Rightarrow> order_block" where
  "clamp_block b = b\<lparr>ob_strength := max 0 (min 1 (ob_strength b))\<rparr>"

definition analysis_result :: "smc_data \<Rightarrow> smc_candle list \<Rightarrow> smc_analysis \<Rightarrow> smc_result" where
  "analysis_result d cs a =
     (plain_result d (an_bias a))
       \<lparr>sr_events := (if an_event a \<noteq> NoEvent
          then [(an_event a, an_bias a = BullishBias, if cs \<noteq> [] then k_close (last cs) else 0, length cs - 1)] else []),
        sr_swing_highs := (case an_swing_high a of None \<Rightarrow> [] | Some x \<Rightarrow> [x]),
        sr_swing_lows := (case an_swing_low a of None \<Rightarrow> [] | Some x \<Rightarrow> [x]),
        sr_blocks := map clamp_block (an_blocks a), sr_gaps := an_gaps a, sr_liquidity := an_liquidity a,
        sr_score := py_round 1 (an_confidence a * 100), sr_confidence := an_confidence a, sr_notes := an_notes a\<rparr>"

text \<open>Between a first and a later close.\<close>

definition close_bias :: "real \<Rightarrow> real \<Rightarrow> bias" where
  "close_bias from_close to_close = (if to_close > from_close then BullishBias else if to_close < from_close then BearishBias else NeutralBias)"

definition analyze_market_structure :: "smc_engine \<Rightarrow> (nat \<Rightarrow> string) \<Rightarrow> smc_data \<Rightarrow> smc_result" where
  "analyze_market_structure e show_pos d =
     (let cs = data_candles show_pos d in
      if length cs < 5 then (plain_result d NeutralBias)\<lparr>sr_notes := [NoteInsufficient]\<rparr>
      else if length cs < 20
      then (plain_result d (close_bias (k_close (hd cs)) (k_close (last cs))))
             \<lparr>sr_score := 30, sr_confidence := 3 / 10, sr_notes := [NoteLimited (length cs)]\<rparr>
      else (case smc_analyse e cs of
              Inl x \<Rightarrow> (plain_result d NeutralBias)\<lparr>sr_notes := [NoteError x]\<rparr>
            | Inr a \<Rightarrow> analysis_result d cs a))"

definition analyze_liquidity :: "nat \<Rightarrow> (nat \<Rightarrow> string) \<Rightarrow> smc_data \<Rightarrow> smc_result" where
  "analyze_liquidity m show_pos d =
     (let cs = data_candles show_pos d in
      if length cs < 5 then plain_result d NeutralBias
      else
        (let levels = liquidity_levels m cs; n = real (length levels) in
         (plain_result d (close_bias (k_close (cs ! (length cs div 2))) (k_close (last cs))))
           \<lparr>sr_liquidity := levels, sr_score := min 100 (n * 10), sr_confidence := min 1 (n * (1 / 10))\<rparr>))"

definition analyze_order_blocks :: "smc_engine \<Rightarrow> (nat \<Rightarrow> string) \<Rightarrow> smc_data \<Rightarrow> exc + smc_result" where
  "analyze_order_blocks e show_pos d =
     (let cs = data_candles show_pos d in
      if length cs < 10 then Inr (plain_result d NeutralBias)
      else case find_order_blocks e cs of
        Inl x \<Rightarrow> Inl x
      | Inr obs \<Rightarrow> Inr ((plain_result d (determine_bias e cs))\<lparr>sr_blocks := map clamp_block obs,
          sr_score := min 100 (real (length obs) * 20), sr_confidence := min 1 (real (length obs) * (2 / 10))\<rparr>))"

definition analyze_fvgs :: "smc_engine \<Rightarrow> (nat \<Rightarrow> string) \<Rightarrow> smc_data \<Rightarrow> smc_result" where
  "analyze_fvgs e show_pos d =
     (let cs = data_candles show_pos d in
      if length cs < 3 then plain_result d NeutralBias
      else
        (let gaps = find_fvgs e cs; n = real (length gaps) in
         (plain_result d (if length cs \<ge> 10 then determine_bias e cs else NeutralBias))
           \<lparr>sr_gaps := gaps, sr_score := min 100 (n * 15), sr_confidence := min 1 (n * (15 / 100))\<rparr>))"

subsection \<open>Kill zones\<close>

definition smc_kill_zones :: "(string \<times> int \<times> int) list" where
  "smc_kill_zones = [(''asian_open'', 0, 3), (''london_open'', 6, 10), (''new_york_open'', 12, 16), (''london_close'', 15, 17)]"

definition dead_hours :: "(int \<times> int) list" where
  "dead_hours = [(17, 24), (0, 1)]"

text \<open>Active flag and name of the zone of an hour.\<close>

definition is_kill_zone :: "(string \<times> int \<times> int) list \<Rightarrow> int \<Rightarrow> bool \<times> string" where
  "is_kill_zone zones h =
     (case find (\<lambda>(_, a, b). a \<le> h \<and> h < b) zones of
        Some z \<Rightarrow> (True, fst z)
      | None \<Rightarrow> (False, if list_ex (\<lambda>(a, b). a \<le> h \<and> h < b) dead_hours then ''dead_zone'' else ''transition''))"

subsection \<open>Which gaps are reported\<close>

lemma gap_at_cases:
  assumes "gap_at e cs i = Some g"
  shows "fg_bottom g < fg_top g \<and> fg_top g - fg_bottom g \<ge> en_fvg_min e \<and> (g = bullish_gap cs i \<or> g = bearish_gap cs i)"
  using assms by (auto simp: gap_at_def bullish_gap_def bearish_gap_def set_fill_def Let_def split: if_splits)

lemma set_fill_simps [simp]:
  "fg_top (set_fill p g) = fg_top g" "fg_bottom (set_fill p g) = fg_bottom g" "fg_bullish (set_fill p g) = fg_bullish g"
  "fg_size (set_fill p g) = fg_size g"
  by (simp_all add: set_fill_def Let_def fg_size_def)

lemma set_fill_filled: "0 < fg_size g \<Longrightarrow> fg_filled (set_fill p g) = (fg_size g / 2 \<le> p)"
  by (simp add: set_fill_def Let_def min_def field_simps)

lemma gap_fields [simp]:
  "fg_bullish (bullish_gap cs i)" "\<not> fg_bullish (bearish_gap cs i)"
  by (simp_all add: bullish_gap_def bearish_gap_def Let_def)

lemma bullish_gap_filled:
  assumes "fg_bottom (bullish_gap cs i) < fg_top (bullish_gap cs i)"
  shows "fg_filled (bullish_gap cs i) \<longleftrightarrow> (fg_bottom (bullish_gap cs i) + fg_top (bullish_gap cs i)) / 2 \<le> k_close (last cs)
    \<and> k_close (last cs) \<le> fg_top (bullish_gap cs i)"
proof -
  define g where "g = \<lparr>fg_index = i, fg_timestamp = k_timestamp (cs ! i), fg_top = k_low (cs ! (i + 1)), fg_bottom = k_high (cs ! (i - 1)),
            fg_bullish = True, fg_filled = False, fg_fill_pct = 0\<rparr>"
  have b: "bullish_gap cs i = (if k_close (last cs) \<le> fg_top g then set_fill (max 0 (k_close (last cs) - fg_bottom g)) g else g)"
    by (simp add: bullish_gap_def g_def Let_def)
  then have bounds: "fg_top (bullish_gap cs i) = fg_top g" "fg_bottom (bullish_gap cs i) = fg_bottom g" by simp_all
  then have size: "0 < fg_size g" using assms by (simp add: fg_size_def)
  have "\<not> fg_filled g" by (simp add: g_def)
  then show ?thesis unfolding bounds using size set_fill_filled [OF size, of "max 0 (k_close (last cs) - fg_bottom g)"] b
    by (auto simp: fg_size_def max_def field_simps split: if_splits)
qed

lemma bearish_gap_filled:
  assumes "fg_bottom (bearish_gap cs i) < fg_top (bearish_gap cs i)"
  shows "fg_filled (bearish_gap cs i) \<longleftrightarrow> fg_bottom (bearish_gap cs i) \<le> k_close (last cs)
    \<and> k_close (last cs) \<le> (fg_bottom (bearish_gap cs i) + fg_top (bearish_gap cs i)) / 2"
proof -
  define g where "g = \<lparr>fg_index = i, fg_timestamp = k_timestamp (cs ! i), fg_top = k_low (cs ! (i - 1)), fg_bottom = k_high (cs ! (i + 1)),
            fg_bullish = False, fg_filled = False, fg_fill_pct = 0\<rparr>"
  have b: "bearish_gap cs i = (if k_close (last cs) \<ge> fg_bottom g then set_fill (max 0 (fg_top g - k_close (last cs))) g else g)"
    by (simp add: bearish_gap_def g_def Let_def)
  then have bounds: "fg_top (bearish_gap cs i) = fg_top g" "fg_bottom (bearish_gap cs i) = fg_bottom g" by simp_all
  then have size: "0 < fg_size g" using assms by (simp add: fg_size_def)
  have "\<not> fg_filled g" by (simp add: g_def)
  then show ?thesis unfolding bounds using size set_fill_filled [OF size, of "max 0 (fg_top g - k_close (last cs))"] b
    by (auto simp: fg_size_def max_def field_simps split: if_splits)
qed

text \<open>The half of a gap that price reaches first when it comes back.\<close>

definition in_near_half :: "real \<Rightarrow> fair_value_gap \<Rightarrow> bool" where
  "in_near_half x g \<longleftrightarrow> (if fg_bullish g then (fg_bottom g + fg_top g) / 2 \<le> x \<and> x \<le> fg_top g
     else fg_bottom g \<le> x \<and> x \<le> (fg_bottom g + fg_top g) / 2)"

text \<open>
  Which fair-value gaps are reported. The reported gaps are the last five, in order of their candles, of the
  three-candle gaps of at least the minimal size whose near half, the half that price meets first when it
  returns, does not contain the last close. So a gap counts as filled as soon as it is touched, and as open
  again once price has crossed its middle, even when it has been crossed completely.
\<close>

theorem reported_gaps_exact:
  "find_fvgs e cs = take_last 5 (filter (\<lambda>g. \<not> in_near_half (k_close (last cs)) g)
     (List.map_filter (gap_at e cs) [1..<length cs - 1]))"
proof -
  have "fg_filled g = in_near_half (k_close (last cs)) g" if g: "g \<in> set (List.map_filter (gap_at e cs) [1..<length cs - 1])" for g
  proof -
    obtain i where "gap_at e cs i \<noteq> None" "g = the (gap_at e cs i)" using g by (auto simp: List.map_filter_def)
    then have "gap_at e cs i = Some g" by simp
    from gap_at_cases [OF this] have "fg_bottom g < fg_top g" "g = bullish_gap cs i \<or> g = bearish_gap cs i" by blast+
    then show ?thesis using bullish_gap_filled [of cs i] bearish_gap_filled [of cs i] by (auto simp: in_near_half_def)
  qed
  then show ?thesis unfolding find_fvgs_def by (metis (no_types, lifting) filter_cong)
qed

text \<open>A bullish gap far below which the market closes is reported with a fill of 0 %.\<close>

lemma crossed_gap_is_untouched:
  "k_close (last cs) \<le> fg_bottom (bullish_gap cs i) \<Longrightarrow> fg_fill_pct (bullish_gap cs i) = 0"
  by (auto simp: bullish_gap_def set_fill_def Let_def split: if_splits)

subsection \<open>Liquidity clusters\<close>

definition apart :: "(real, nat) odict \<Rightarrow> bool" where
  "apart d \<longleftrightarrow> sorted_wrt (\<lambda>p q. \<bar>fst q - fst p\<bar> > price_tolerance) d"

lemma apart_keys: "map fst d = map fst d' \<Longrightarrow> apart d = apart d'"
proof -
  have "apart d = sorted_wrt (\<lambda>p q. \<bar>q - p\<bar> > price_tolerance) (map fst d)" for d by (simp add: apart_def sorted_wrt_map)
  then show "map fst d = map fst d' \<Longrightarrow> apart d = apart d'" by simp
qed

lemma apart_distinct: "apart d \<Longrightarrow> od_wf d"
  unfolding apart_def by (induction d) (force simp: price_tolerance_def)+

lemma sum_put:
  "od_wf d \<Longrightarrow> (p, n) \<in> set d \<Longrightarrow> sum_list (map snd (od_put p (n + 1) d)) = sum_list (map snd d) + (1::nat)"
proof (induction d)
  case (Cons a d)
  show ?case
  proof (cases "fst a = p")
    case True
    with Cons.prems have "snd a = n" by (metis Cons.prems(2) fst_conv image_eqI insert_iff list.set(2) od_wf_Cons prod.exhaust_sel prod.inject)
    with True show ?thesis by simp
  next
    case False
    with Cons show ?thesis by auto
  qed
qed simp

lemma touch_effect:
  assumes "apart d"
  shows "apart (touch x d) \<and> sum_list (map snd (touch x d)) = Suc (sum_list (map snd d)) \<and> od_keys d = take (length d) (od_keys (touch x d))
    \<and> (\<exists>p \<in> set (touch x d). \<bar>x - fst p\<bar> \<le> price_tolerance)"
proof (cases "find (\<lambda>p. \<bar>x - fst p\<bar> \<le> price_tolerance) d")
  case None
  then have far: "\<forall>p \<in> set d. \<bar>x - fst p\<bar> > price_tolerance" by (auto simp: find_None_iff)
  then have "x \<notin> fst ` set d" by (auto simp: price_tolerance_def)
  then have "touch x d = d @ [(x, 1)]" using None by (simp add: touch_def od_put_new)
  then show ?thesis using assms far by (auto simp: apart_def sorted_wrt_append price_tolerance_def)
next
  case (Some a)
  obtain p n where a: "a = (p, n)" by (cases a)
  have "(p, n) \<in> set d \<and> \<bar>x - fst (p, n)\<bar> \<le> price_tolerance" using Some unfolding a find_Some_iff by (metis nth_mem)
  then have near: "(p, n) \<in> set d" "\<bar>x - p\<bar> \<le> price_tolerance" by simp_all
  have t: "touch x d = od_put p (n + 1) d" using Some a by (simp add: touch_def)
  have keys: "od_keys (od_put p (n + 1) d) = od_keys d" using near(1) by (auto simp: od_keys_put image_iff intro: bexI [of _ "(p, n)"])
  then have "apart (od_put p (n + 1) d)" using apart_keys assms by metis
  moreover have "p \<in> fst ` set (od_put p (n + 1) d)" by simp
  then have "\<exists>q \<in> set (od_put p (n + 1) d). \<bar>x - fst q\<bar> \<le> price_tolerance" using near(2) by (metis image_iff)
  moreover have "od_keys d = take (length d) (od_keys (od_put p (n + 1) d))" unfolding keys by simp
  moreover have "sum_list (map snd (od_put p (n + 1) d)) = Suc (sum_list (map snd d))"
    using sum_put [OF apart_distinct [OF assms] near(1)] by simp
  ultimately show ?thesis unfolding t by blast
qed

lemma touches_from:
  "apart d \<Longrightarrow> apart (fold touch xs d) \<and> sum_list (map snd (fold touch xs d)) = sum_list (map snd d) + length xs
    \<and> (\<forall>x. (x \<in> set xs \<or> (\<exists>p \<in> set d. \<bar>x - fst p\<bar> \<le> price_tolerance)) \<longrightarrow> (\<exists>p \<in> set (fold touch xs d). \<bar>x - fst p\<bar> \<le> price_tolerance))"
proof (induction xs arbitrary: d)
  case (Cons y ys)
  note t = touch_effect [OF Cons.prems, of y]
  have keep: "\<exists>p \<in> set (touch y d). \<bar>x - fst p\<bar> \<le> price_tolerance" if near: "\<exists>p \<in> set d. \<bar>x - fst p\<bar> \<le> price_tolerance" for x
  proof -
    have "fst ` set d \<subseteq> fst ` set (touch y d)" using t by (metis set_map set_take_subset)
    moreover obtain p where "p \<in> set d" "\<bar>x - fst p\<bar> \<le> price_tolerance" using near by blast
    ultimately show ?thesis by (metis image_iff subset_eq)
  qed
  from Cons.IH [of "touch y d"] t keep show ?case by auto
qed auto

text \<open>
  Liquidity clusters count every candle once. The clusters built from a list of prices lie more than the tolerance
  apart, every price lies within the tolerance of some cluster, and the touches add up to the number of
  prices; so the zones reported for two touches or more never count a candle twice on one side.
\<close>

theorem liquidity_counts_every_price_once:
  "let d = touches xs in sorted_wrt (\<lambda>p q. \<bar>fst q - fst p\<bar> > price_tolerance) d \<and> sum_list (map snd d) = length xs
     \<and> list_all (\<lambda>x. list_ex (\<lambda>p. \<bar>x - fst p\<bar> \<le> price_tolerance) d) xs"
  using touches_from [of "[]" xs] by (auto simp: touches_def apart_def list_all_iff list_ex_iff)

subsection \<open>Order blocks and bounds\<close>

lemma sorted_rev_key: "sorted_wrt (\<lambda>a b. f b \<le> f a) (take n (rev (sort_key f xs)))" for f :: "'a \<Rightarrow> real"
proof -
  have "sorted_wrt (\<lambda>a b. f a \<le> f b) (sort_key f xs)" using sorted_sort_key [of f xs] by (simp add: sorted_wrt_map)
  then show ?thesis by (simp add: sorted_wrt_take sorted_wrt_rev)
qed

lemma strongest_blocks:
  assumes "find_order_blocks e cs = Inr obs"
  shows "length obs \<le> 5 \<and> sorted_wrt (\<lambda>a b. ob_strength b \<le> ob_strength a) obs
    \<and> (\<forall>b \<in> set obs. \<exists>i \<in> set (candidates e cs). b = block_at e cs i)"
proof -
  have obs: "obs = take 5 (rev (sort_key ob_strength (map (block_at e cs) (candidates e cs))))"
    using assms by (simp add: find_order_blocks_def split: if_splits)
  have "set obs \<subseteq> set (map (block_at e cs) (candidates e cs))" unfolding obs by (metis set_take_subset set_rev set_sort)
  then show ?thesis using obs sorted_rev_key by auto
qed

lemma smc_confidence_range: "0 \<le> smc_confidence b obs gaps ev \<and> smc_confidence b obs gaps ev \<le> 1"
  by (cases ev) (auto simp: smc_confidence_def Let_def)

lemma analyzer_bounds:
  "let r = analyze_market_structure e show_pos d in 0 \<le> sr_confidence r \<and> sr_confidence r \<le> 1 \<and> 0 \<le> sr_score r \<and> sr_score r \<le> 100"
proof -
  have "0 \<le> an_confidence a \<and> an_confidence a \<le> 1" if "smc_analyse e cs = Inr a" for a cs
    using that smc_confidence_range by (auto simp: smc_analyse_def Let_def split: if_splits prod.splits sum.splits)
  then have "0 \<le> sr_confidence (analysis_result d cs a) \<and> sr_confidence (analysis_result d cs a) \<le> 1
      \<and> 0 \<le> sr_score (analysis_result d cs a) \<and> sr_score (analysis_result d cs a) \<le> 100" if "smc_analyse e cs = Inr a" for a cs
    using that py_round_le [of "an_confidence a * 100" 1000 1] py_round_ge [of 0 1 "an_confidence a * 100"]
    by (force simp: analysis_result_def plain_result_def)
  then show ?thesis by (auto simp: analyze_market_structure_def Let_def plain_result_def split: sum.split)
qed

text \<open>The hour 0 belongs to the Asian open, so the dead hour recorded for it is never reported.\<close>

lemma kill_zone_hours:
  "is_kill_zone smc_kill_zones h = (if 0 \<le> h \<and> h < 3 then (True, ''asian_open'') else if 6 \<le> h \<and> h < 10 then (True, ''london_open'')
     else if 12 \<le> h \<and> h < 16 then (True, ''new_york_open'') else if h = 16 then (True, ''london_close'')
     else if 17 \<le> h \<and> h < 24 then (False, ''dead_zone'') else (False, ''transition''))"
  by (simp add: is_kill_zone_def smc_kill_zones_def dead_hours_def)

end
