(* ===== verification/Smc_Scoring.thy ===== *)
theory Smc_Scoring
  imports Prelude
begin

section \<open>Scoring of zones\<close>

text \<open>
  \<open>src/backend/analysis/smc_scoring.py\<close>: the four component scores of a zone, their weighted total, the grade, the
  recommended risk-reward ratio, and the choice of the best tradeable zone.
\<close>

datatype zone_type = OrderBlock | MitigationBlock | BreakerBlock | RejectionBlock | Fvg | Ifvg | Liquidity
  | SessionLiquidity | Equilibrium

datatype market_bias = BullishMarket | BearishMarket | NeutralMarket | RangingMarket

record zone_input =
  zi_type :: zone_type
  zi_direction :: string
  zi_touches :: int
  zi_age :: int
  zi_volume :: real
  zi_premium :: real
  zi_kill_zone :: bool
  zi_htf :: bool
  zi_mtf :: bool
  zi_bias :: market_bias
  zi_bos :: bool
  zi_choch :: bool
  zi_swept :: bool
  zi_fvg_near :: bool
  zi_rejection :: real
  zi_imbalance :: real
  zi_near_ob :: bool

definition clamp100 :: "real \<Rightarrow> real" where
  "clamp100 x = min 100 (max 0 x)"

fun zone_base :: "zone_type \<Rightarrow> real" where
  "zone_base OrderBlock = 85"
| "zone_base BreakerBlock = 80"
| "zone_base MitigationBlock = 75"
| "zone_base RejectionBlock = 70"
| "zone_base Fvg = 65"
| "zone_base Ifvg = 60"
| "zone_base Liquidity = 70"
| "zone_base SessionLiquidity = 75"
| "zone_base Equilibrium = 55"

definition base_score :: "zone_input \<Rightarrow> real" where
  "base_score i = clamp100 (zone_base (zi_type i)
     + (if zi_touches i > 3 then - (of_int (zi_touches i - 3) * 5) else if zi_touches i = 0 then 5 else 0)
     + (if zi_rejection i > 7 / 10 then zi_rejection i * 10 else 0)
     + (if zi_type i \<in> {Fvg, Ifvg} \<and> zi_imbalance i > 0 then min 10 (zi_imbalance i / 10) else 0))"

definition bias_term :: "zone_input \<Rightarrow> real" where
  "bias_term i =
     (if zi_bias i = BullishMarket \<and> zi_direction i = ''bullish'' then 10
      else if zi_bias i = BearishMarket \<and> zi_direction i = ''bearish'' then 10
      else if zi_bias i = RangingMarket then -5 else 0)"

definition structure_score :: "zone_input \<Rightarrow> real" where
  "structure_score i = clamp100 (50 + (if zi_htf i then 25 else -20) + (if zi_mtf i then 15 else -10)
     + (if zi_bos i then 15 else 0) + (if zi_choch i then 20 else 0) + bias_term i
     + (if zi_swept i then 10 else 0) + (if zi_near_ob i then 8 else 0))"

definition location_term :: "zone_input \<Rightarrow> real" where
  "location_term i =
     (if zi_direction i = ''bullish''
      then (if zi_premium i < 35 / 100 then 25 else if zi_premium i < 45 / 100 then 15 else -20)
      else if zi_direction i = ''bearish''
      then (if zi_premium i > 65 / 100 then 25 else if zi_premium i > 55 / 100 then 15 else -20)
      else 0)"

definition volume_term :: "zone_input \<Rightarrow> real" where
  "volume_term i = (if zi_volume i > 2 then 15 else if zi_volume i > 3 / 2 then 10 else if zi_volume i < 8 / 10 then -10 else 0)"

definition confluence_score :: "zone_input \<Rightarrow> real" where
  "confluence_score i = clamp100 (40 + location_term i + volume_term i + (if zi_fvg_near i then 12 else 0))"

definition age_term :: "zone_input \<Rightarrow> real" where
  "age_term i = (if zi_age i \<le> 5 then 20 else if zi_age i \<le> 15 then 10 else if zi_age i \<le> 30 then 0 else if zi_age i \<le> 60 then -10 else -25)"

definition timing_score :: "zone_input \<Rightarrow> real" where
  "timing_score i = clamp100 (50 + (if zi_kill_zone i then 35 else 0) + age_term i)"

definition zone_grade :: "real \<Rightarrow> string" where
  "zone_grade x = (if x \<ge> 90 then ''A+'' else if x \<ge> 80 then ''A'' else if x \<ge> 70 then ''B'' else if x \<ge> 60 then ''C''
     else if x \<ge> 50 then ''D'' else ''F'')"

definition zone_min_rr :: "real \<Rightarrow> real" where
  "zone_min_rr x = (if x \<ge> 85 then 3 / 2 else if x \<ge> 75 then 2 else if x \<ge> 65 then 5 / 2 else 3)"

record zone_score =
  zs_total :: real
  zs_base :: real
  zs_structure :: real
  zs_confluence :: real
  zs_timing :: real
  zs_grade :: string
  zs_tradeable :: bool
  zs_min_rr :: real

definition zone_total :: "zone_input \<Rightarrow> real" where
  "zone_total i = clamp100 (base_score i * (25 / 100) + structure_score i * (35 / 100) + confluence_score i * (25 / 100)
     + timing_score i * (15 / 100))"

definition calculate_zone_score :: "real \<Rightarrow> zone_input \<Rightarrow> zone_score" where
  "calculate_zone_score min_score i =
     (let t = zone_total i in
      \<lparr>zs_total = t, zs_base = base_score i, zs_structure = structure_score i, zs_confluence = confluence_score i,
       zs_timing = timing_score i, zs_grade = zone_grade t, zs_tradeable = (t \<ge> min_score), zs_min_rr = zone_min_rr t\<rparr>)"

text \<open>A stable sort, highest total first.\<close>

definition score_multiple :: "real \<Rightarrow> zone_input list \<Rightarrow> (zone_input \<times> zone_score) list" where
  "score_multiple m zs = sort_key (\<lambda>p. - zs_total (snd p)) (map (\<lambda>i. (i, calculate_zone_score m i)) zs)"

definition best_zone :: "real \<Rightarrow> zone_input list \<Rightarrow> (zone_input \<times> zone_score) option" where
  "best_zone m zs = find (\<lambda>p. zs_tradeable (snd p)) (score_multiple m zs)"

subsection \<open>Bounds and monotonicity\<close>

lemma clamp100_range [simp]: "0 \<le> clamp100 x" "clamp100 x \<le> 100"
  by (simp_all add: clamp100_def)

lemma clamp100_mono: "x \<le> y \<Longrightarrow> clamp100 x \<le> clamp100 y"
  by (auto simp: clamp100_def)

lemma scores_range:
  "0 \<le> base_score i \<and> base_score i \<le> 100 \<and> 0 \<le> structure_score i \<and> structure_score i \<le> 100
    \<and> 0 \<le> confluence_score i \<and> confluence_score i \<le> 100 \<and> 0 \<le> timing_score i \<and> timing_score i \<le> 100"
  by (simp add: base_score_def structure_score_def confluence_score_def timing_score_def)

text \<open>The weights add up to one, so the outer clamp never acts.\<close>

lemma zone_total_unclamped:
  "zone_total i = base_score i * (25 / 100) + structure_score i * (35 / 100) + confluence_score i * (25 / 100) + timing_score i * (15 / 100)"
  using scores_range [of i] by (simp add: zone_total_def clamp100_def)

text \<open>A zone with further confirmations: each flag set that the zone or the argument has.\<close>

definition confirm :: "zone_input \<Rightarrow> zone_input \<Rightarrow> zone_input" where
  "confirm f i = i\<lparr>zi_kill_zone := zi_kill_zone i \<or> zi_kill_zone f, zi_htf := zi_htf i \<or> zi_htf f, zi_mtf := zi_mtf i \<or> zi_mtf f,
     zi_bos := zi_bos i \<or> zi_bos f, zi_choch := zi_choch i \<or> zi_choch f, zi_swept := zi_swept i \<or> zi_swept f,
     zi_fvg_near := zi_fvg_near i \<or> zi_fvg_near f, zi_near_ob := zi_near_ob i \<or> zi_near_ob f\<rparr>"

lemma flag_mono: "(y::real) \<le> x \<Longrightarrow> (if a then x else y) \<le> (if a \<or> b then x else y)"
  by simp

lemma confirm_terms [simp]:
  "bias_term (confirm f i) = bias_term i" "location_term (confirm f i) = location_term i"
  "volume_term (confirm f i) = volume_term i" "age_term (confirm f i) = age_term i" "base_score (confirm f i) = base_score i"
  by (simp_all add: confirm_def bias_term_def location_term_def volume_term_def age_term_def base_score_def)

lemma confirm_flags [simp]:
  "zi_kill_zone (confirm f i) = (zi_kill_zone i \<or> zi_kill_zone f)" "zi_htf (confirm f i) = (zi_htf i \<or> zi_htf f)"
  "zi_mtf (confirm f i) = (zi_mtf i \<or> zi_mtf f)" "zi_bos (confirm f i) = (zi_bos i \<or> zi_bos f)"
  "zi_choch (confirm f i) = (zi_choch i \<or> zi_choch f)" "zi_swept (confirm f i) = (zi_swept i \<or> zi_swept f)"
  "zi_fvg_near (confirm f i) = (zi_fvg_near i \<or> zi_fvg_near f)" "zi_near_ob (confirm f i) = (zi_near_ob i \<or> zi_near_ob f)"
  by (simp_all add: confirm_def)

lemma confirm_scores:
  "structure_score i \<le> structure_score (confirm f i)" "confluence_score i \<le> confluence_score (confirm f i)"
  "timing_score i \<le> timing_score (confirm f i)"
  unfolding structure_score_def confluence_score_def timing_score_def confirm_terms confirm_flags
  by (intro clamp100_mono add_mono order_refl flag_mono; simp)+

lemma confirm_total: "zone_total i \<le> zone_total (confirm f i)"
  using confirm_scores [of i f] by (simp add: zone_total_unclamped)

lemma min_rr_antimono: "x \<le> y \<Longrightarrow> zone_min_rr y \<le> zone_min_rr x"
  by (simp add: zone_min_rr_def)

text \<open>
  The zone score is a bounded weighted mean that confirmations never lower. Every component and the total lie
  between 0 and 100, the total is the weighted mean of the components without any clipping, and a zone that
  gains confirmations, of the higher and middle time frame, a break or change of character, a sweep, a kill zone,
  a gap or a higher order block, never gets a lower total, never asks for a higher risk-reward ratio, and
  stays tradeable.
\<close>

theorem confirmations_never_hurt:
  "let s = calculate_zone_score m i; s' = calculate_zone_score m (confirm f i) in
     zs_total s = zs_base s * (25 / 100) + zs_structure s * (35 / 100) + zs_confluence s * (25 / 100) + zs_timing s * (15 / 100)
     \<and> 0 \<le> zs_total s \<and> zs_total s \<le> zs_total s' \<and> zs_total s' \<le> 100 \<and> zs_min_rr s' \<le> zs_min_rr s
     \<and> (zs_tradeable s \<and> zs_tradeable s' \<or> \<not> zs_tradeable s)"
proof -
  have t: "zs_total (calculate_zone_score m j) = zone_total j" "zs_min_rr (calculate_zone_score m j) = zone_min_rr (zone_total j)"
    "zs_tradeable (calculate_zone_score m j) = (m \<le> zone_total j)" "zs_base (calculate_zone_score m j) = base_score j"
    "zs_structure (calculate_zone_score m j) = structure_score j" "zs_confluence (calculate_zone_score m j) = confluence_score j"
    "zs_timing (calculate_zone_score m j) = timing_score j" for j
    by (simp_all add: calculate_zone_score_def Let_def)
  have "0 \<le> zone_total j" "zone_total j \<le> 100" for j by (simp_all add: zone_total_def)
  then show ?thesis using confirm_total [of i f] min_rr_antimono [OF confirm_total [of i f]]
    unfolding Let_def t zone_total_unclamped [of i, symmetric] by auto
qed

lemma find_sorted_min:
  assumes "sorted (map f xs)" and "find P xs = Some x" and "y \<in> set xs" and "P y"
  shows "f x \<le> f y"
proof -
  obtain i where i: "i < length xs" "x = xs ! i" "\<forall>j < i. \<not> P (xs ! j)" using assms(2) by (auto simp: find_Some_iff)
  obtain j where j: "j < length xs" "y = xs ! j" using assms(3) by (auto simp: in_set_conv_nth)
  with i assms(4) have "i \<le> j" using not_le by blast
  then show ?thesis using sorted_nth_mono [OF assms(1), of i j] i j by simp
qed

lemma best_zone_exact:
  "case best_zone m zs of
     None \<Rightarrow> list_all (\<lambda>i. zone_total i < m) zs
   | Some (i, s) \<Rightarrow> i \<in> set zs \<and> s = calculate_zone_score m i \<and> m \<le> zone_total i
       \<and> list_all (\<lambda>j. zone_total j \<le> zone_total i) zs"
proof -
  define xs where "xs = score_multiple m zs"
  have set_xs: "set xs = (\<lambda>i. (i, calculate_zone_score m i)) ` set zs" by (simp add: xs_def score_multiple_def)
  have sorted: "sorted (map (\<lambda>p. - zs_total (snd p)) xs)" by (simp add: xs_def score_multiple_def)
  have tot: "zs_total (calculate_zone_score m i) = zone_total i" "zs_tradeable (calculate_zone_score m i) = (m \<le> zone_total i)" for i
    by (simp_all add: calculate_zone_score_def Let_def)
  show ?thesis
  proof (cases "best_zone m zs")
    case None
    then have "\<forall>p \<in> set xs. \<not> zs_tradeable (snd p)" by (auto simp: best_zone_def xs_def find_None_iff)
    then show ?thesis using None set_xs tot by (simp add: list_all_iff not_le)
  next
    case (Some p)
    then have f: "find (\<lambda>p. zs_tradeable (snd p)) xs = Some p" by (simp add: best_zone_def xs_def)
    then have "p \<in> set xs" "zs_tradeable (snd p)" by (auto simp: find_Some_iff)
    then obtain i where i: "p = (i, calculate_zone_score m i)" "i \<in> set zs" "m \<le> zone_total i" using set_xs tot by auto
    have "zone_total j \<le> zone_total i" if j: "j \<in> set zs" for j
    proof (cases "m \<le> zone_total j")
      case True
      then show ?thesis using find_sorted_min [OF sorted f, of "(j, calculate_zone_score m j)"] j set_xs tot i(1) by auto
    qed (use i(3) in simp)
    then show ?thesis using Some i by (simp add: list_all_iff)
  qed
qed

end
