(* ===== verification/Calendar.thy ===== *)
theory Calendar
  imports Prelude
begin

section \<open>The proleptic Gregorian calendar of the standard library\<close>

text \<open>
  What the code uses of Python's \<open>datetime\<close>: a reading of a wall clock is the number of microseconds since
  0001-01-01T00:00 (a Monday), with its year, month, day and time of day computed from it and back. Readings
  beyond the year 9999, for which Python raises \<open>OverflowError\<close>, are not excluded.
\<close>

abbreviation us_second :: int where "us_second \<equiv> 1000000"
abbreviation us_minute :: int where "us_minute \<equiv> 60000000"
abbreviation us_hour :: int where "us_hour \<equiv> 3600000000"
abbreviation us_day :: int where "us_day \<equiv> 86400000000"

definition is_leap :: "int \<Rightarrow> bool" where
  "is_leap y \<longleftrightarrow> y mod 4 = 0 \<and> (y mod 100 \<noteq> 0 \<or> y mod 400 = 0)"

definition days_before_year :: "int \<Rightarrow> int" where
  "days_before_year y = (y - 1) * 365 + (y - 1) div 4 - (y - 1) div 100 + (y - 1) div 400"

definition month_lengths :: "int \<Rightarrow> int list" where
  "month_lengths y = [31, if is_leap y then 29 else 28, 31, 30, 31, 30, 31, 31, 30, 31, 30, 31]"

text \<open>The position of a day in a list of lengths: which block it falls into and where in the block.\<close>

fun locate :: "int list \<Rightarrow> int \<Rightarrow> nat \<times> int" where
  "locate (l # ls) r = (if r < l then (0, r) else (let p = locate ls (r - l) in (Suc (fst p), snd p)))"
| "locate [] r = (0, r)"

lemma locate_sum:
  "m < length ls \<Longrightarrow> 0 \<le> d \<Longrightarrow> d < ls ! m \<Longrightarrow> list_all (\<lambda>l. 0 \<le> l) ls \<Longrightarrow> locate ls (sum_list (take m ls) + d) = (m, d)"
proof (induction ls arbitrary: m)
  case (Cons l ls)
  show ?case
  proof (cases m)
    case (Suc k)
    have "0 \<le> sum_list (take k ls)" using Cons.prems(4) by (intro sum_list_nonneg) (auto simp: list_all_iff dest: in_set_takeD)
    then show ?thesis using Cons Suc by (simp add: Let_def)
  qed (use Cons in simp)
qed simp

lemma locate_bounds:
  "0 \<le> r \<Longrightarrow> r < sum_list ls \<Longrightarrow> case locate ls r of (m, d) \<Rightarrow> m < length ls \<and> 0 \<le> d \<and> d < ls ! m \<and> r = sum_list (take m ls) + d"
proof (induction ls arbitrary: r)
  case (Cons l ls)
  show ?case
  proof (cases "r < l")
    case False
    then show ?thesis using Cons.IH [of "r - l"] Cons.prems by (auto simp: Let_def split: prod.splits)
  qed (use Cons.prems in simp)
qed simp

text \<open>The year of a day: estimated from the mean length of a year and corrected by one where needed.\<close>

definition year_of :: "int \<Rightarrow> int" where
  "year_of n = (let y = n * 400 div 146097 + 1 in
     if n < days_before_year y then y - 1 else if days_before_year (y + 1) \<le> n then y + 1 else y)"

record civil =
  cv_year :: int
  cv_month :: int
  cv_day :: int

definition day_number :: "int \<Rightarrow> int \<Rightarrow> int \<Rightarrow> int" where
  "day_number y m d = days_before_year y + sum_list (take (nat (m - 1)) (month_lengths y)) + (d - 1)"

definition civil_of :: "int \<Rightarrow> civil" where
  "civil_of n = (let y = year_of n; p = locate (month_lengths y) (n - days_before_year y) in
     \<lparr>cv_year = y, cv_month = int (fst p) + 1, cv_day = snd p + 1\<rparr>)"

definition valid_date :: "int \<Rightarrow> int \<Rightarrow> int \<Rightarrow> bool" where
  "valid_date y m d \<longleftrightarrow> 1 \<le> y \<and> y \<le> 9999 \<and> 1 \<le> m \<and> m \<le> 12 \<and> 1 \<le> d \<and> d \<le> month_lengths y ! nat (m - 1)"

subsection \<open>Correctness\<close>

lemma length_month_lengths [simp]: "length (month_lengths y) = 12"
  by (simp add: month_lengths_def)

lemma month_lengths_pos: "list_all (\<lambda>l. 0 < l) (month_lengths y)"
  by (simp add: month_lengths_def)

lemma div_step:
  fixes x k :: int
  assumes "0 < k" shows "(x + 1) div k = x div k + (if (x + 1) mod k = 0 then 1 else 0)"
proof -
  have e: "x + 1 = k * ((x + 1) div k) + (x + 1) mod k" by simp
  have r: "0 \<le> (x + 1) mod k" "(x + 1) mod k < k" using assms by simp_all
  show ?thesis
  proof (cases "(x + 1) mod k = 0")
    case True
    then have "x = k * ((x + 1) div k - 1) + (k - 1)" using e by (simp add: algebra_simps)
    from int_div_pos_eq [OF this] assms True show ?thesis by simp
  next
    case False
    then have "x = k * ((x + 1) div k) + ((x + 1) mod k - 1)" using e by linarith
    from int_div_pos_eq [OF this] r False show ?thesis by simp
  qed
qed

lemma year_length: "days_before_year (y + 1) - days_before_year y = (if is_leap y then 366 else 365)"
proof -
  have m: "y mod 400 = 0 \<Longrightarrow> y mod 100 = 0" "y mod 100 = 0 \<Longrightarrow> y mod 4 = 0"
    using mod_mod_cancel [of 100 400 y] mod_mod_cancel [of 4 100 y] by simp_all
  have s: "y div k = (y - 1) div k + (if y mod k = 0 then 1 else 0)" if "0 < k" for k
    using div_step [OF that, of "y - 1"] by simp
  have "days_before_year (y + 1) - days_before_year y = 365 + (if y mod 4 = 0 then 1 else 0) - (if y mod 100 = 0 then 1 else 0)
      + (if y mod 400 = 0 then 1 else 0)"
    unfolding days_before_year_def add_diff_cancel s [OF zero_less_numeral] by (simp only: algebra_simps)
  with m show ?thesis unfolding is_leap_def
    by (cases "y mod 400 = 0"; cases "y mod 100 = 0"; cases "y mod 4 = 0"; simp only: if_True if_False simp_thms; simp)
qed

lemma sum_month_lengths: "sum_list (month_lengths y) = (if is_leap y then 366 else 365)"
  by (simp add: month_lengths_def)

lemma div_bounds:
  fixes x k :: int
  shows "0 < k \<Longrightarrow> x div k * k \<le> x" "0 < k \<Longrightarrow> x < x div k * k + k"
  using div_mult_mod_eq [of x k] pos_mod_sign [of k x] pos_mod_bound [of k x] by linarith+

lemma century_bounds:
  fixes x a b c :: int
  assumes "a * 4 \<le> x" "x < a * 4 + 4" "b * 100 \<le> x" "x < b * 100 + 100" "c * 400 \<le> x" "x < c * 400 + 400"
  shows "146097 * x - 800 \<le> 400 * (x * 365 + a - b + c)" "400 * (x * 365 + a - b + c) \<le> 146097 * x + 400"
  using assms by simp_all

lemmas days_before_year_linear = century_bounds [OF div_bounds [of 4] div_bounds [of 100] div_bounds [of 400],
    OF zero_less_numeral zero_less_numeral zero_less_numeral zero_less_numeral zero_less_numeral zero_less_numeral,
    of "x - 1" for x, folded days_before_year_def]

lemma days_before_year_mono: "x < y \<Longrightarrow> days_before_year (x + 1) \<le> days_before_year y"
proof (induction y rule: int_gr_induct [of x])
  case (step i)
  then show ?case using year_length [of i] by (simp split: if_splits)
qed simp_all

lemma year_of_bounds: "days_before_year (year_of n) \<le> n \<and> n < days_before_year (year_of n + 1)"
proof -
  define q where "q = n * 400 div 146097"
  have "q * 146097 \<le> n * 400" "n * 400 < q * 146097 + 146097" using div_bounds [of 146097 "n * 400"] by (simp_all add: q_def)
  moreover from this have "days_before_year q \<le> n" using days_before_year_linear(2) [of q] by simp
  ultimately have "days_before_year q \<le> n" "n < days_before_year (q + 3)"
    using days_before_year_linear(1) [of "q + 3"] by simp_all
  then show ?thesis by (auto simp: year_of_def Let_def q_def [symmetric] not_less add_ac)
qed

lemma year_of_unique: "days_before_year y \<le> n \<Longrightarrow> n < days_before_year (y + 1) \<Longrightarrow> year_of n = y"
  using year_of_bounds [of n] days_before_year_mono [of y "year_of n"] days_before_year_mono [of "year_of n" y]
  by (cases y "year_of n" rule: linorder_cases) auto

lemma civil_of_day_number:
  assumes "1 \<le> m" "m \<le> 12" "1 \<le> d" "d \<le> month_lengths y ! nat (m - 1)"
  shows "civil_of (day_number y m d) = \<lparr>cv_year = y, cv_month = m, cv_day = d\<rparr>"
proof -
  let ?k = "nat (m - 1)"
  define r where "r = sum_list (take ?k (month_lengths y)) + (d - 1)"
  have k: "?k < length (month_lengths y)" "0 \<le> d - 1" "d - 1 < month_lengths y ! ?k" using assms by auto
  have pos: "list_all (\<lambda>l. 0 \<le> l) (month_lengths y)" by (simp add: month_lengths_def)
  from locate_sum [OF k pos] have loc: "locate (month_lengths y) r = (?k, d - 1)" by (simp add: r_def)
  have "0 \<le> sum_list xs" if "set xs \<subseteq> set (month_lengths y)" for xs
    using that pos by (intro sum_list_nonneg) (auto simp: list_all_iff)
  then have s: "0 \<le> sum_list (take ?k (month_lengths y))" "0 \<le> sum_list (drop (Suc ?k) (month_lengths y))"
    by (meson set_take_subset set_drop_subset)+
  have "sum_list (month_lengths y) = sum_list (take ?k (month_lengths y)) + (month_lengths y ! ?k + sum_list (drop (Suc ?k) (month_lengths y)))"
    using id_take_nth_drop [OF k(1)] by (metis sum_list.append sum_list.Cons)
  then have "0 \<le> r" "r < sum_list (month_lengths y)" using s k by (simp_all add: r_def)
  then have "year_of (days_before_year y + r) = y" using year_length [of y] sum_month_lengths [of y] by (intro year_of_unique) auto
  moreover have "day_number y m d = days_before_year y + r" by (simp add: day_number_def r_def)
  ultimately show ?thesis using loc assms by (simp add: civil_of_def Let_def)
qed

lemma day_number_civil_of:
  "day_number (cv_year (civil_of n)) (cv_month (civil_of n)) (cv_day (civil_of n)) = n"
  and civil_of_ranges: "1 \<le> cv_month (civil_of n)" "cv_month (civil_of n) \<le> 12" "1 \<le> cv_day (civil_of n)"
    "cv_day (civil_of n) \<le> month_lengths (cv_year (civil_of n)) ! nat (cv_month (civil_of n) - 1)"
proof -
  let ?y = "year_of n"
  have "0 \<le> n - days_before_year ?y" "n - days_before_year ?y < sum_list (month_lengths ?y)"
    using year_of_bounds [of n] year_length [of ?y] sum_month_lengths [of ?y] by auto
  from locate_bounds [OF this] show "day_number (cv_year (civil_of n)) (cv_month (civil_of n)) (cv_day (civil_of n)) = n"
    "1 \<le> cv_month (civil_of n)" "cv_month (civil_of n) \<le> 12" "1 \<le> cv_day (civil_of n)"
    "cv_day (civil_of n) \<le> month_lengths (cv_year (civil_of n)) ! nat (cv_month (civil_of n) - 1)"
    by (auto simp: civil_of_def day_number_def Let_def split: prod.splits)
qed

end
