(* ===== verification/Market_Time.thy ===== *)
theory Market_Time
  imports Calendar
begin

section \<open>Time zones, resets and ISO texts\<close>

text \<open>
  \<open>src/backend/core/timezone_utils.py\<close>. A \<open>datetime\<close> is naive, a wall-clock reading, or aware, an instant with the
  zone it is shown in. The zone database behind \<open>ZoneInfo\<close> is the parameter \<open>db\<close>: for a key it gives the
  exception or a zone, the offset of every instant and of every wall reading (\<open>fold=0\<close>), in microseconds.
\<close>

datatype tzinfo = UtcZone | FixedOffset int | ZoneKey string

datatype datetime = Naive int | Aware tzinfo int

record zone_rules =
  z_offset :: "int \<Rightarrow> int"
  z_wall_offset :: "int \<Rightarrow> int"

type_synonym zone_db = "string \<Rightarrow> exc + zone_rules"

definition broker_zones :: "(string \<times> string) list" where
  "broker_zones = [(''EET'', ''Europe/Helsinki''), (''UTC'', ''UTC''), (''EST'', ''America/New_York''),
     (''GMT'', ''Europe/London''), (''AEST'', ''Australia/Sydney''), (''JST'', ''Asia/Tokyo'')]"

definition session_zones :: "(string \<times> string) list" where
  "session_zones = [(''london'', ''Europe/London''), (''new_york'', ''America/New_York''), (''tokyo'', ''Asia/Tokyo''),
     (''sydney'', ''Australia/Sydney'')]"

definition broker_zone :: "string \<Rightarrow> string" where
  "broker_zone tz = (case map_of broker_zones (py_upper tz) of None \<Rightarrow> tz | Some z \<Rightarrow> z)"

subsection \<open>Conversions\<close>

fun utc_instant :: "datetime \<Rightarrow> int" where
  "utc_instant (Naive w) = w"
| "utc_instant (Aware z t) = t"

definition ensure_utc :: "datetime \<Rightarrow> datetime" where
  "ensure_utc dt = Aware UtcZone (utc_instant dt)"

text \<open>\<open>ZoneInfoNotFoundError\<close> is a \<open>KeyError\<close>; a malformed key raises another exception.\<close>

definition broker_time_to_utc :: "zone_db \<Rightarrow> string \<Rightarrow> datetime \<Rightarrow> exc + datetime" where
  "broker_time_to_utc db tz dt =
     (case db (broker_zone tz) of
        Inl e \<Rightarrow> Inl (if e = KeyError then ValueError else e)
      | Inr z \<Rightarrow> Inr (case dt of Naive w \<Rightarrow> Aware UtcZone (w - z_wall_offset z w) | Aware _ t \<Rightarrow> Aware UtcZone t))"

definition to_broker_time :: "zone_db \<Rightarrow> string \<Rightarrow> datetime \<Rightarrow> exc + datetime" where
  "to_broker_time db tz dt =
     (case db (broker_zone tz) of
        Inl e \<Rightarrow> Inl (if e = KeyError then ValueError else e)
      | Inr z \<Rightarrow> Inr (Aware (ZoneKey (broker_zone tz)) (utc_instant dt)))"

text \<open>What the clock of a zone shows at an instant.\<close>

definition wall :: "zone_rules \<Rightarrow> int \<Rightarrow> int" where
  "wall z t = t + z_offset z t"

definition parse_broker_timestamp :: "real \<Rightarrow> datetime" where
  "parse_broker_timestamp ts = Aware UtcZone (day_number 1970 1 1 * us_day + round_half_even (ts * of_int us_second))"

subsection \<open>Parts of a reading\<close>

definition weekday :: "int \<Rightarrow> int" where "weekday w = w div us_day mod 7"
definition hour_of :: "int \<Rightarrow> int" where "hour_of w = w div us_hour mod 24"
definition minute_of :: "int \<Rightarrow> int" where "minute_of w = w div us_minute mod 60"
definition second_of :: "int \<Rightarrow> int" where "second_of w = w div us_second mod 60"
definition micro_of :: "int \<Rightarrow> int" where "micro_of w = w mod us_second"
definition date_of :: "int \<Rightarrow> civil" where "date_of w = civil_of (w div us_day)"

definition reading :: "int \<Rightarrow> int \<Rightarrow> int \<Rightarrow> int \<Rightarrow> int \<Rightarrow> int \<Rightarrow> int \<Rightarrow> int" where
  "reading y m d h mi s us = day_number y m d * us_day + h * us_hour + mi * us_minute + s * us_second + us"

subsection \<open>Resets\<close>

text \<open>The next reset after \<open>from_dt\<close>, or after the system clock \<open>clock\<close>: the injected clock is not consulted.\<close>

definition from_or_now :: "int \<Rightarrow> datetime option \<Rightarrow> int" where
  "from_or_now clock from_dt = (case from_dt of None \<Rightarrow> clock | Some dt \<Rightarrow> utc_instant dt)"

definition midnight :: "int \<Rightarrow> int" where
  "midnight w = w div us_day * us_day"

definition next_midnight :: "int \<Rightarrow> datetime option \<Rightarrow> datetime" where
  "next_midnight clock from_dt = Aware UtcZone (midnight (from_or_now clock from_dt) + us_day)"

definition next_monday :: "int \<Rightarrow> datetime option \<Rightarrow> datetime" where
  "next_monday clock from_dt =
     (let t = from_or_now clock from_dt; ahead = (let k = (7 - weekday t) mod 7 in if k = 0 then 7 else k) in
      Aware UtcZone (midnight (t + ahead * us_day)))"

definition next_month :: "int \<Rightarrow> datetime option \<Rightarrow> datetime" where
  "next_month clock from_dt =
     (let c = date_of (from_or_now clock from_dt) in
      Aware UtcZone (if cv_month c = 12 then reading (cv_year c + 1) 1 1 0 0 0 0
                     else reading (cv_year c) (cv_month c + 1) 1 0 0 0 0))"

definition session_open_utc :: "zone_db \<Rightarrow> int \<Rightarrow> string \<Rightarrow> datetime option \<Rightarrow> int \<Rightarrow> int \<Rightarrow> exc + datetime" where
  "session_open_utc db clock session ref_dt local_hour local_minute =
     (case map_of session_zones (py_lower session) of
        None \<Rightarrow> Inl ValueError
      | Some key \<Rightarrow>
          (case db key of
             Inl e \<Rightarrow> Inl e
           | Inr z \<Rightarrow>
               if local_hour < 0 \<or> 23 < local_hour \<or> local_minute < 0 \<or> 59 < local_minute then Inl ValueError
               else (let c = date_of (from_or_now clock ref_dt);
                         w = reading (cv_year c) (cv_month c) (cv_day c) local_hour local_minute 0 0 in
                     Inr (Aware UtcZone (w - z_wall_offset z w)))))"

subsection \<open>Daylight saving time\<close>

definition is_dst_active :: "zone_db \<Rightarrow> int \<Rightarrow> string \<Rightarrow> datetime option \<Rightarrow> exc + bool" where
  "is_dst_active db clock key dt =
     (case db key of
        Inl e \<Rightarrow> if e = KeyError then Inr False else Inl e
      | Inr z \<Rightarrow>
          (let t = from_or_now clock dt in
           Inr (z_offset z t \<noteq> z_wall_offset z (reading (cv_year (date_of t)) 1 15 0 0 0 0))))"

datatype shift_direction = Forward | Back

text \<open>\<open>int\<close> truncates towards zero.\<close>

definition truncated_hours :: "int \<Rightarrow> int" where
  "truncated_hours us = (if 0 \<le> us then us div us_hour else - (- us div us_hour))"

text \<open>The warning's parts: the broker zone, the window, the direction of the shift and its hours.\<close>

definition dst_transition_warning :: "zone_db \<Rightarrow> int \<Rightarrow> string \<Rightarrow> int \<Rightarrow> exc + (string \<times> int \<times> shift_direction \<times> int) option" where
  "dst_transition_warning db now tz window =
     (case db (broker_zone tz) of
        Inl e \<Rightarrow> if e = KeyError then Inr None else Inl e
      | Inr z \<Rightarrow>
          (let current = z_offset z now; future = z_offset z (now + window * us_hour) in
           if current \<noteq> future
           then (let diff = truncated_hours (future - current) in
                 Inr (Some (tz, window, if 0 < diff then Forward else Back, \<bar>diff\<bar>)))
           else Inr None))"

subsection \<open>The injectable clock\<close>

text \<open>The state of the module: what an injected clock function returns, if one is set.\<close>

type_synonym clock_state = "datetime option"

definition set_clock :: "datetime \<Rightarrow> clock_state \<Rightarrow> clock_state" where "set_clock dt c = Some dt"
definition reset_clock :: "clock_state \<Rightarrow> clock_state" where "reset_clock c = None"
definition clock_now :: "int \<Rightarrow> clock_state \<Rightarrow> datetime" where
  "clock_now system c = (case c of None \<Rightarrow> Aware UtcZone system | Some dt \<Rightarrow> dt)"

subsection \<open>ISO texts\<close>

definition digit :: "int \<Rightarrow> char" where
  "digit d = char_of (nat (48 + d))"

fun pad :: "nat \<Rightarrow> int \<Rightarrow> string" where
  "pad 0 n = []"
| "pad (Suc k) n = pad k (n div 10) @ [digit (n mod 10)]"

text \<open>\<open>strftime\<close> does not pad the year (\<open>%Y\<close>) on Linux.\<close>

definition iso_text :: "int \<Rightarrow> string" where
  "iso_text w = (let c = date_of w in
     dropWhile (\<lambda>ch. ch = CHR ''0'') (pad 4 (cv_year c)) @ ''-'' @ pad 2 (cv_month c) @ ''-'' @ pad 2 (cv_day c) @ ''T''
     @ pad 2 (hour_of w) @ '':'' @ pad 2 (minute_of w) @ '':'' @ pad 2 (second_of w) @ ''.'' @ pad 6 (micro_of w))"

definition to_iso :: "datetime \<Rightarrow> string" where
  "to_iso dt = iso_text (utc_instant dt) @ ''Z''"

text \<open>
  \<open>datetime.fromisoformat\<close> on the texts that \<open>isoformat\<close> emits: a date, optionally a time of minutes, seconds or
  microseconds, and then optionally an offset of hours and minutes. Its answer to texts of another shape is the parameter
  \<open>other\<close>. A parser returns what it read and the rest of the text.
\<close>

definition get_num :: "nat \<Rightarrow> string \<Rightarrow> (int \<times> string) option" where
  "get_num k s = (if k \<le> length s \<and> list_all is_digit (take k s) then Some (digits_value (take k s), drop k s) else None)"

definition get_char :: "char \<Rightarrow> string \<Rightarrow> string option" where
  "get_char c s = (case s of [] \<Rightarrow> None | d # r \<Rightarrow> if d = c then Some r else None)"

definition get_date :: "string \<Rightarrow> ((int \<times> int \<times> int) \<times> string) option" where
  "get_date s = Option.bind (get_num 4 s) (\<lambda>(y, s1). Option.bind (get_char (CHR ''-'') s1) (\<lambda>s2.
     Option.bind (get_num 2 s2) (\<lambda>(m, s3). Option.bind (get_char (CHR ''-'') s3) (\<lambda>s4.
     Option.bind (get_num 2 s4) (\<lambda>(d, s5). Some ((y, m, d), s5))))))"

text \<open>A further field behind its separator, or 0.\<close>

definition get_field :: "char \<Rightarrow> nat \<Rightarrow> string \<Rightarrow> (int \<times> string) option" where
  "get_field c k s = (case get_char c s of None \<Rightarrow> Some (0, s) | Some r \<Rightarrow> get_num k r)"

definition get_time :: "string \<Rightarrow> ((int \<times> int \<times> int \<times> int) \<times> string) option" where
  "get_time s = Option.bind (get_num 2 s) (\<lambda>(h, s1). Option.bind (get_char (CHR '':'') s1) (\<lambda>s2.
     Option.bind (get_num 2 s2) (\<lambda>(mi, s3). Option.bind (get_field (CHR '':'') 2 s3) (\<lambda>(sec, s4).
     Option.bind (if s4 = s3 then Some (0, s4) else get_field (CHR ''.'') 6 s4) (\<lambda>(us, s5). Some ((h, mi, sec, us), s5))))))"

text \<open>The offset: none, or a signed number of minutes.\<close>

definition get_offset :: "string \<Rightarrow> int option option" where
  "get_offset s = (case s of [] \<Rightarrow> Some None
     | c # r \<Rightarrow>
         if c = CHR ''+'' \<or> c = CHR ''-''
         then Option.bind (get_num 2 r) (\<lambda>(h, s1). Option.bind (get_char (CHR '':'') s1) (\<lambda>s2.
                Option.bind (get_num 2 s2) (\<lambda>(mi, s3).
                  if s3 = [] then Some (Some ((if c = CHR ''-'' then -1 else 1) * (h * us_hour + mi * us_minute))) else None)))
         else None)"

definition check_reading :: "int \<times> int \<times> int \<Rightarrow> int \<times> int \<times> int \<times> int \<Rightarrow> int option \<Rightarrow> exc + datetime" where
  "check_reading d t off = (case d of (y, m, day) \<Rightarrow> case t of (h, mi, sec, us) \<Rightarrow>
     if \<not> valid_date y m day \<or> 23 < h \<or> 59 < mi \<or> 59 < sec then Inl ValueError
     else (let w = reading y m day h mi sec us in
           case off of None \<Rightarrow> Inr (Naive w)
           | Some k \<Rightarrow> if us_day \<le> \<bar>k\<bar> then Inl ValueError else Inr (Aware (FixedOffset k) (w - k))))"

definition fromisoformat :: "(string \<Rightarrow> exc + datetime) \<Rightarrow> string \<Rightarrow> exc + datetime" where
  "fromisoformat other s =
     (case get_date s of
        None \<Rightarrow> other s
      | Some (d, []) \<Rightarrow> check_reading d (0, 0, 0, 0) None
      | Some (d, sep # r) \<Rightarrow>
          (case get_time r of
             None \<Rightarrow> other s
           | Some (t, r') \<Rightarrow> (case get_offset r' of None \<Rightarrow> other s | Some off \<Rightarrow> check_reading d t off)))"

definition from_iso :: "(string \<Rightarrow> exc + datetime) \<Rightarrow> string \<Rightarrow> exc + datetime" where
  "from_iso other s =
     (let s1 = py_strip s; s2 = (if s1 \<noteq> [] \<and> last s1 = CHR ''Z'' then butlast s1 @ ''+00:00'' else s1) in
      case fromisoformat other s2 of Inl e \<Rightarrow> Inl e | Inr dt \<Rightarrow> Inr (ensure_utc dt))"

subsection \<open>ISO texts read back\<close>

lemma of_char_digit: "0 \<le> d \<Longrightarrow> d < 10 \<Longrightarrow> (of_char (digit d) :: nat) = nat (48 + d)"
  by (simp add: digit_def)

lemma is_digit_digit: "0 \<le> d \<Longrightarrow> d < 10 \<Longrightarrow> is_digit (digit d)"
  unfolding is_digit_def of_char_digit by linarith

lemma length_pad [simp]: "length (pad k n) = k"
  by (induction k n rule: pad.induct) simp_all

lemma pad_digits: "list_all is_digit (pad k n)"
  by (induction k n rule: pad.induct) (simp_all add: is_digit_digit)

lemma digits_value_snoc: "digits_value (s @ [c]) = digits_value s * 10 + (int (of_char c) - 48)"
  by (simp add: digits_value_def)

lemma digits_value_pad: "0 \<le> n \<Longrightarrow> n < 10 ^ k \<Longrightarrow> digits_value (pad k n) = n"
proof (induction k n rule: pad.induct)
  case (2 k n)
  have "n div 10 < 10 ^ k" using 2(3) div_bounds(1) [of 10 n] by simp
  then show ?case using 2 by (simp add: digits_value_snoc of_char_digit)
qed (simp add: digits_value_def)

lemma get_num_pad: "0 \<le> n \<Longrightarrow> n < 10 ^ k \<Longrightarrow> get_num k (pad k n @ s) = Some (n, s)"
  by (simp add: get_num_def pad_digits digits_value_pad)

lemma get_char_Cons [simp]: "get_char c (c # s) = Some s"
  by (simp add: get_char_def)

lemma reading_parts:
  "hour_of w * us_hour + minute_of w * us_minute + second_of w * us_second + micro_of w = w mod us_day"
proof -
  have d: "w mod us_day = us_hour * (w div us_hour mod 24) + w mod us_hour" using zmod_zmult2_eq [of 24 w us_hour] by simp
  have h: "w mod us_hour = us_minute * (w div us_minute mod 60) + w mod us_minute" using zmod_zmult2_eq [of 60 w us_minute] by simp
  have m: "w mod us_minute = us_second * (w div us_second mod 60) + w mod us_second" using zmod_zmult2_eq [of 60 w us_second] by simp
  show ?thesis unfolding d h m hour_of_def minute_of_def second_of_def micro_of_def by (simp only: mult.commute add.assoc)
qed

lemma reading_parts_range:
  "0 \<le> hour_of w" "hour_of w < 24" "0 \<le> minute_of w" "minute_of w < 60" "0 \<le> second_of w" "second_of w < 60" "0 \<le> micro_of w" "micro_of w < 1000000"
  by (simp_all add: hour_of_def minute_of_def second_of_def micro_of_def)

lemma reading_of_parts:
  "reading (cv_year (date_of w)) (cv_month (date_of w)) (cv_day (date_of w)) (hour_of w) (minute_of w) (second_of w) (micro_of w) = w"
proof -
  have "reading (cv_year (date_of w)) (cv_month (date_of w)) (cv_day (date_of w)) (hour_of w) (minute_of w) (second_of w) (micro_of w)
      = w div us_day * us_day + (hour_of w * us_hour + minute_of w * us_minute + second_of w * us_second + micro_of w)"
    by (simp add: reading_def date_of_def day_number_civil_of)
  then show ?thesis unfolding reading_parts by simp
qed

lemma month_lengths_le: "i < 12 \<Longrightarrow> month_lengths y ! i \<le> 31"
proof -
  assume "i < 12"
  moreover have "list_all (\<lambda>l. l \<le> 31) (month_lengths y)" by (simp add: month_lengths_def)
  ultimately show ?thesis by (simp add: list_all_length)
qed

lemma date_of_valid:
  assumes "1 \<le> cv_year (date_of w)" "cv_year (date_of w) \<le> 9999"
  shows "valid_date (cv_year (date_of w)) (cv_month (date_of w)) (cv_day (date_of w))"
  using assms civil_of_ranges [of "w div us_day"] by (simp add: valid_date_def date_of_def)

text \<open>A year of four digits is printed as its padded digits.\<close>

lemma year_digits: "1000 \<le> y \<Longrightarrow> y \<le> 9999 \<Longrightarrow> dropWhile (\<lambda>ch. ch = CHR ''0'') (pad 4 y @ s) = pad 4 y @ s"
proof -
  assume y: "1000 \<le> y" "y \<le> 9999"
  have p: "pad 4 y = digit (y div 10 div 10 div 10 mod 10) # drop 1 (pad 4 y)" by (simp add: numeral_eq_Suc)
  define q where "q = y div 1000"
  have q: "1 \<le> q" "q < 10" using y div_bounds [of 1000 y] unfolding q_def [symmetric] by simp_all
  have "y div 10 div 10 div 10 = q" using zdiv_zmult2_eq [of 100 y 10] zdiv_zmult2_eq [of 10 "y div 10" 10] by (simp add: q_def)
  with q have d: "y div 10 div 10 div 10 mod 10 = q" by (simp only: mod_pos_pos_trivial)
  have "digit (y div 10 div 10 div 10 mod 10) \<noteq> CHR ''0''"
  proof
    assume "digit (y div 10 div 10 div 10 mod 10) = CHR ''0''"
    then have "(of_char (digit q) :: nat) = 48" unfolding d by simp
    then show False using of_char_digit [of q] q by simp
  qed
  then show ?thesis by (subst (1 2) p) simp
qed

lemma date_of_ranges:
  "0 \<le> cv_month (date_of w)" "cv_month (date_of w) < 100" "0 \<le> cv_day (date_of w)" "cv_day (date_of w) < 100"
proof -
  have "nat (cv_month (civil_of (w div us_day)) - 1) < 12" using civil_of_ranges [of "w div us_day"] by simp
  from month_lengths_le [OF this, of "cv_year (civil_of (w div us_day))"]
  show "0 \<le> cv_month (date_of w)" "cv_month (date_of w) < 100" "0 \<le> cv_day (date_of w)" "cv_day (date_of w) < 100"
    using civil_of_ranges [of "w div us_day"] unfolding date_of_def by linarith+
qed

lemma get_date_iso:
  assumes "1000 \<le> cv_year (date_of w)" "cv_year (date_of w) \<le> 9999"
  shows "get_date (pad 4 (cv_year (date_of w)) @ ''-'' @ pad 2 (cv_month (date_of w)) @ ''-'' @ pad 2 (cv_day (date_of w)) @ s)
    = Some ((cv_year (date_of w), cv_month (date_of w), cv_day (date_of w)), s)"
  using assms date_of_ranges [of w] by (simp add: get_date_def get_num_pad)

lemma get_time_iso:
  "get_time (pad 2 (hour_of w) @ '':'' @ pad 2 (minute_of w) @ '':'' @ pad 2 (second_of w) @ ''.'' @ pad 6 (micro_of w) @ s)
    = Some ((hour_of w, minute_of w, second_of w, micro_of w), s)"
proof -
  have s: "second_of w < 100" "hour_of w < 100" "minute_of w < 100" using reading_parts_range [of w] by linarith+
  have "pad 2 (second_of w) @ CHR ''.'' # r \<noteq> CHR '':'' # pad 2 (second_of w) @ CHR ''.'' # r" for r
    by (metis length_Cons length_append n_not_Suc_n)
  then show ?thesis using reading_parts_range [of w] s by (simp add: get_time_def get_field_def get_num_pad)
qed

lemma iso_text_eq:
  assumes "1000 \<le> cv_year (date_of w)" "cv_year (date_of w) \<le> 9999"
  shows "iso_text w = pad 4 (cv_year (date_of w)) @ ''-'' @ pad 2 (cv_month (date_of w)) @ ''-'' @ pad 2 (cv_day (date_of w)) @ ''T''
     @ pad 2 (hour_of w) @ '':'' @ pad 2 (minute_of w) @ '':'' @ pad 2 (second_of w) @ ''.'' @ pad 6 (micro_of w)"
  using year_digits [OF assms, of "[]"] by (simp add: iso_text_def Let_def)

lemma strip_no_space: "s \<noteq> [] \<Longrightarrow> \<not> char_space (hd s) \<Longrightarrow> \<not> char_space (last s) \<Longrightarrow> py_strip s = s"
  by (simp add: py_strip_def dropWhile_eq_self_iff [THEN iffD2] hd_rev)

lemma not_space_digit: "is_digit c \<Longrightarrow> \<not> char_space c"
  by (simp add: is_digit_def char_space_def Let_def)

lemma to_iso_strip:
  assumes "1000 \<le> cv_year (date_of w)" "cv_year (date_of w) \<le> 9999"
  shows "py_strip (iso_text w @ ''Z'') = iso_text w @ ''Z''"
proof (rule strip_no_space)
  have "pad 4 (cv_year (date_of w)) \<noteq> []" using length_pad [of 4 "cv_year (date_of w)"] by (metis list.size(3) zero_neq_numeral)
  then have "hd (iso_text w @ ''Z'') = hd (pad 4 (cv_year (date_of w)))" "is_digit (hd (pad 4 (cv_year (date_of w))))"
    using iso_text_eq [OF assms] pad_digits [of 4 "cv_year (date_of w)"] by (auto simp: list_all_iff)
  then show "\<not> char_space (hd (iso_text w @ ''Z''))" using not_space_digit by simp
qed (simp_all add: char_space_def)

lemma fromisoformat_iso:
  assumes "1000 \<le> cv_year (date_of w)" "cv_year (date_of w) \<le> 9999"
  shows "fromisoformat other (iso_text w @ ''+00:00'') = Inr (Aware (FixedOffset 0) w)"
proof -
  have off: "get_offset ''+00:00'' = Some (Some 0)" by code_simp
  have "check_reading (cv_year (date_of w), cv_month (date_of w), cv_day (date_of w))
      (hour_of w, minute_of w, second_of w, micro_of w) (Some 0) = Inr (Aware (FixedOffset 0) w)"
    using date_of_valid [of w] assms reading_parts_range [of w] by (simp add: check_reading_def reading_of_parts Let_def not_less)
  then show ?thesis using get_date_iso [OF assms] get_time_iso [of w] off
    by (simp add: fromisoformat_def iso_text_eq [OF assms])
qed

text \<open>
  C36: ISO texts are read back. For every moment of the years 1000 to 9999, \<open>from_iso\<close> of the text that \<open>to_iso\<close> prints
  gives the moment in UTC, to the microsecond: date and time of day, the padding of every field, the suffix \<open>Z\<close>
  and the calendar's leap years included.
\<close>

theorem iso_round_trip:
  assumes "1000 \<le> cv_year (date_of (utc_instant dt))" "cv_year (date_of (utc_instant dt)) \<le> 9999"
  shows "from_iso other (to_iso dt) = Inr (ensure_utc dt)"
  using to_iso_strip [OF assms] fromisoformat_iso [OF assms, of other]
  by (simp add: from_iso_def to_iso_def ensure_utc_def Let_def)

theorem iso_round_trip_witness:
  "from_iso (\<lambda>s. Inl ValueError) (to_iso (Naive (reading 2024 2 29 23 59 59 7))) = Inr (Aware UtcZone (reading 2024 2 29 23 59 59 7))"
proof -
  have "cv_year (date_of (utc_instant (Naive (reading 2024 2 29 23 59 59 7)))) = 2024" by code_simp
  then show ?thesis using iso_round_trip [of "Naive (reading 2024 2 29 23 59 59 7)" "\<lambda>s. Inl ValueError"] by (simp add: ensure_utc_def)
qed

subsection \<open>Resets\<close>

lemma day_ranges: "t div us_day * us_day \<le> t" "t < (t div us_day + 1) * us_day"
  using div_bounds [of us_day t] by simp_all

lemma midnight_days: "midnight (t + k * us_day) = (t div us_day + k) * us_day"
  by (simp add: midnight_def)

lemma days_ahead: "0 \<le> r \<Longrightarrow> r < 7 \<Longrightarrow> (let k = (7 - r) mod 7 in if k = 0 then 7 else k) = 7 - r" for r :: int
proof -
  assume "0 \<le> r" "r < 7"
  then have "r = 0 \<or> r = 1 \<or> r = 2 \<or> r = 3 \<or> r = 4 \<or> r = 5 \<or> r = 6" by linarith
  then show ?thesis by (elim disjE) simp_all
qed

lemma next_monday_eq: "utc_instant (next_monday clock dt) = 7 * us_day * (from_or_now clock dt div us_day div 7 + 1)"
proof -
  let ?D = "from_or_now clock dt div us_day"
  have "(let k = (7 - ?D mod 7) mod 7 in if k = 0 then 7 else k) = 7 - ?D mod 7"
    by (rule days_ahead) simp_all
  then have "utc_instant (next_monday clock dt) = (?D + (7 - ?D mod 7)) * us_day"
    by (simp add: next_monday_def weekday_def midnight_days Let_def)
  also have "?D + (7 - ?D mod 7) = 7 * (?D div 7 + 1)" by (simp add: minus_mod_eq_mult_div)
  finally show ?thesis by simp
qed

lemma first_of_next_month:
  assumes "1 \<le> m" "m \<le> 12"
  shows "(if m = 12 then day_number (y + 1) 1 1 else day_number y (m + 1) 1) = day_number y m 1 + month_lengths y ! nat (m - 1)"
proof (cases "m = 12")
  case True
  then show ?thesis using year_length [of y] by (cases "is_leap y") (simp_all add: day_number_def month_lengths_def numeral_eq_Suc)
next
  case False
  then have "nat m = Suc (nat (m - 1))" "nat (m - 1) < length (month_lengths y)" using assms by simp_all
  then have "take (nat m) (month_lengths y) = take (nat (m - 1)) (month_lengths y) @ [month_lengths y ! nat (m - 1)]"
    by (metis take_Suc_conv_app_nth)
  then show ?thesis using False assms by (simp add: day_number_def)
qed

lemma next_month_days:
  "utc_instant (next_month clock dt) = (let c = date_of (from_or_now clock dt) in
     (if cv_month c = 12 then day_number (cv_year c + 1) 1 1 else day_number (cv_year c) (cv_month c + 1) 1) * us_day)"
  by (simp add: next_month_def reading_def Let_def)

lemma next_month_date:
  "date_of (utc_instant (next_month clock dt)) = (let c = date_of (from_or_now clock dt) in
     if cv_month c = 12 then \<lparr>cv_year = cv_year c + 1, cv_month = 1, cv_day = 1\<rparr>
     else \<lparr>cv_year = cv_year c, cv_month = cv_month c + 1, cv_day = 1\<rparr>)"
proof -
  let ?c = "date_of (from_or_now clock dt)"
  have m: "1 \<le> cv_month ?c" "cv_month ?c \<le> 12" using civil_of_ranges by (simp_all add: date_of_def)
  have pos: "1 \<le> month_lengths y ! i" if "i < 12" for y i
    using that month_lengths_pos [of y] by (auto simp: list_all_length dest: spec [of _ i])
  show ?thesis using m civil_of_day_number [of 1 1 "cv_year ?c + 1"] civil_of_day_number [of "cv_month ?c + 1" 1 "cv_year ?c"]
      pos [of 0] pos [of "nat (cv_month ?c)"]
    by (auto simp: next_month_days date_of_def Let_def)
qed

text \<open>
  Resets fall on the next boundary. The daily reset is the first midnight behind the given moment, at most a day
  away; the weekly one the first midnight of a Monday, at most a week away; the monthly one the midnight that
  opens the following month, at most 31 days away, with the turn of the year and leap years.
\<close>

theorem resets_fall_on_the_next_boundary:
  "let t = from_or_now clock dt; d = utc_instant (next_midnight clock dt); w = utc_instant (next_monday clock dt);
       m = utc_instant (next_month clock dt)
   in t < d \<and> d \<le> t + us_day \<and> d mod us_day = 0
    \<and> t < w \<and> w \<le> t + 7 * us_day \<and> w mod us_day = 0 \<and> weekday w = 0
    \<and> t < m \<and> m \<le> t + 31 * us_day \<and> m mod us_day = 0 \<and> cv_day (date_of m) = 1
    \<and> cv_year (date_of m) * 12 + cv_month (date_of m) = cv_year (date_of t) * 12 + cv_month (date_of t) + 1"
proof -
  define t where "t = from_or_now clock dt"
  define D where "D = t div us_day"
  define c where "c = civil_of D"
  have t: "D * us_day \<le> t" "t < (D + 1) * us_day" using day_ranges [of t] by (simp_all add: D_def)
  have "D div 7 * 7 \<le> D" "D < D div 7 * 7 + 7" using div_bounds [of 7 D] by simp_all
  with t have w: "t < 7 * us_day * (D div 7 + 1)" "7 * us_day * (D div 7 + 1) \<le> t + 7 * us_day" by simp_all
  have m12: "1 \<le> cv_month c" "cv_month c \<le> 12" "1 \<le> cv_day c" "cv_day c \<le> month_lengths (cv_year c) ! nat (cv_month c - 1)"
    using civil_of_ranges [of D] by (simp_all add: c_def)
  define L where "L = month_lengths (cv_year c) ! nat (cv_month c - 1)"
  have "nat (cv_month c - 1) < 12" using m12 by simp
  from month_lengths_le [OF this] have L: "L \<le> 31" by (simp add: L_def)
  have D: "D = day_number (cv_year c) (cv_month c) 1 + (cv_day c - 1)"
    using day_number_civil_of [of D] by (simp add: c_def day_number_def)
  have m: "utc_instant (next_month clock dt) = (day_number (cv_year c) (cv_month c) 1 + L) * us_day"
    using first_of_next_month [OF m12(1,2), of "cv_year c"]
    by (simp add: next_month_days date_of_def t_def [symmetric] D_def [symmetric] c_def [symmetric] L_def)
  have mt: "t < (day_number (cv_year c) (cv_month c) 1 + L) * us_day" "(day_number (cv_year c) (cv_month c) 1 + L) * us_day \<le> t + 31 * us_day"
    using t D L m12(3,4) by (simp_all add: L_def [symmetric])
  have dm: "cv_day (date_of (utc_instant (next_month clock dt))) = 1"
    "cv_year (date_of (utc_instant (next_month clock dt))) * 12 + cv_month (date_of (utc_instant (next_month clock dt)))
      = cv_year (date_of t) * 12 + cv_month (date_of t) + 1"
    by (simp_all add: next_month_date t_def [symmetric] Let_def)
  show ?thesis using t w mt dm unfolding Let_def m next_monday_eq t_def [symmetric] D_def [symmetric]
    by (simp add: next_midnight_def midnight_def t_def [symmetric] D_def [symmetric] weekday_def algebra_simps)
qed

subsection \<open>Broker clocks\<close>

text \<open>The reading of a zone's clock at an instant denotes that instant again: it is not the second pass of a repeated hour.\<close>

definition unambiguous :: "zone_rules \<Rightarrow> int \<Rightarrow> bool" where
  "unambiguous z t \<longleftrightarrow> z_wall_offset z (wall z t) = z_offset z t"

lemma broker_clock_read_back:
  "db (broker_zone tz) = Inr z \<Longrightarrow> unambiguous z t \<Longrightarrow> broker_time_to_utc db tz (Naive (wall z t)) = Inr (Aware UtcZone t)"
  by (simp add: broker_time_to_utc_def unambiguous_def wall_def)

lemma aware_broker_time: "db (broker_zone tz) = Inr z \<Longrightarrow> broker_time_to_utc db tz (Aware k t) = Inr (Aware UtcZone t)"
  by (simp add: broker_time_to_utc_def)

lemma to_broker_and_back:
  "case to_broker_time db tz dt of Inl e \<Rightarrow> broker_time_to_utc db tz dt = Inl e | Inr b \<Rightarrow> broker_time_to_utc db tz b = Inr (ensure_utc dt)"
  by (auto simp: to_broker_time_def broker_time_to_utc_def ensure_utc_def split: sum.split)

subsection \<open>Daylight saving time\<close>

text \<open>
  The offset of 15 January is taken for the standard one. In a zone of the southern hemisphere January is
  summer, so the answer is inverted: standard time is reported as daylight saving time.
\<close>

lemma southern_dst_is_inverted:
  assumes "db key = Inr z"
    and "z_wall_offset z (reading (cv_year (date_of t)) 1 15 0 0 0 0) = summer"
    and "standard \<noteq> summer" and "z_offset z t = standard"
  shows "is_dst_active db clock key (Some (Aware UtcZone t)) = Inr True"
  using assms by (simp add: is_dst_active_def from_or_now_def)

text \<open>A shift by half an hour is announced as a shift back by 0 hours, also when clocks go forward.\<close>

lemma half_hour_shift_misreported:
  assumes "db (broker_zone tz) = Inr z" and "z_offset z (now + window * us_hour) = z_offset z now + us_hour div 2"
  shows "dst_transition_warning db now tz window = Inr (Some (tz, window, Back, 0))"
  using assms by (simp add: dst_transition_warning_def truncated_hours_def)

text \<open>A whole number of hours is announced exactly.\<close>

lemma shift_announced:
  assumes "db (broker_zone tz) = Inr z" and "z_offset z (now + window * us_hour) = z_offset z now + k * us_hour" and "k \<noteq> 0"
  shows "dst_transition_warning db now tz window = Inr (Some (tz, window, if 0 < k then Forward else Back, \<bar>k\<bar>))"
proof -
  have "- (k * us_hour) div us_hour = - k" using nonzero_mult_div_cancel_right [of us_hour "- k"] by simp
  then have "truncated_hours (k * us_hour) = k" by (simp add: truncated_hours_def)
  then show ?thesis using assms by (auto simp: dst_transition_warning_def)
qed

end
