(* ===== verification/Market_Session.thy ===== *)
theory Market_Session
  imports Market_Time
begin

section \<open>Market sessions\<close>

text \<open>
  \<open>src/backend/analysis/session_manager.py\<close>: the foreign-exchange session at a moment, from the local clocks of London,
  New York, Tokyo and Sydney, with the weekend from Friday 22:00 to Sunday 22:00 UTC. The zone database is the parameter
  \<open>db\<close> of \<^verbatim>\<open>Market_Time\<close>.
\<close>

datatype session_type = SydneySession | TokyoSession | LondonSession | NewYorkSession | OverlapSession | ClosedSession | WeekendSession

definition all_sessions :: "session_type list" where
  "all_sessions = [SydneySession, TokyoSession, LondonSession, NewYorkSession, OverlapSession, ClosedSession, WeekendSession]"

definition session_tradeable :: "session_type \<Rightarrow> bool" where
  "session_tradeable s \<longleftrightarrow> s \<in> {LondonSession, NewYorkSession, OverlapSession, TokyoSession, SydneySession}"

fun session_score :: "session_type \<Rightarrow> real" where
  "session_score OverlapSession = 1"
| "session_score LondonSession = 9 / 10"
| "session_score NewYorkSession = 85 / 100"
| "session_score TokyoSession = 7 / 10"
| "session_score SydneySession = 6 / 10"
| "session_score ClosedSession = 0"
| "session_score WeekendSession = 0"

record session_info =
  si_session :: session_type
  si_tradeable :: bool
  si_score :: real
  si_utc_hour :: int
  si_weekend :: bool
  si_dst :: bool
  si_broker_offset :: int

text \<open>Whether the local clock of a zone shows a time from the opening (inclusive) to the closing; an unknown zone is never open.\<close>

definition in_range :: "zone_db \<Rightarrow> int \<Rightarrow> string \<Rightarrow> int \<Rightarrow> int \<Rightarrow> int \<Rightarrow> int \<Rightarrow> bool" where
  "in_range db t key oh om ch cm =
     (case db key of
        Inl e \<Rightarrow> False
      | Inr z \<Rightarrow>
          (let m = hour_of (wall z t) * 60 + minute_of (wall z t); start = oh * 60 + om; stop = ch * 60 + cm in
           if start < stop then start \<le> m \<and> m < stop else start \<le> m \<or> m < stop))"

definition broker_offset :: "zone_db \<Rightarrow> int \<Rightarrow> string \<Rightarrow> int" where
  "broker_offset db t tz = (case db (broker_zone tz) of Inl e \<Rightarrow> 0 | Inr z \<Rightarrow> truncated_hours (z_offset z t))"

definition make_session :: "zone_db \<Rightarrow> session_type \<Rightarrow> int \<Rightarrow> string \<Rightarrow> bool \<Rightarrow> session_info" where
  "make_session db s t tz weekend =
     \<lparr>si_session = s, si_tradeable = session_tradeable s, si_score = session_score s, si_utc_hour = hour_of t,
      si_weekend = weekend,
      si_dst = (case is_dst_active db t ''Europe/London'' (Some (Aware UtcZone t)) of Inl e \<Rightarrow> False | Inr b \<Rightarrow> b),
      si_broker_offset = broker_offset db t tz\<rparr>"

definition london_open :: "zone_db \<Rightarrow> int \<Rightarrow> bool" where "london_open db t = in_range db t ''Europe/London'' 8 0 17 0"
definition new_york_open :: "zone_db \<Rightarrow> int \<Rightarrow> bool" where "new_york_open db t = in_range db t ''America/New_York'' 8 0 17 0"
definition tokyo_open :: "zone_db \<Rightarrow> int \<Rightarrow> bool" where "tokyo_open db t = in_range db t ''Asia/Tokyo'' 9 0 18 0"
definition sydney_open :: "zone_db \<Rightarrow> int \<Rightarrow> bool" where "sydney_open db t = in_range db t ''Australia/Sydney'' 8 0 17 0"

definition open_session :: "zone_db \<Rightarrow> int \<Rightarrow> session_type" where
  "open_session db t =
     (if london_open db t \<and> new_york_open db t then OverlapSession
      else if london_open db t then LondonSession
      else if new_york_open db t then NewYorkSession
      else if tokyo_open db t then TokyoSession
      else if sydney_open db t then SydneySession
      else ClosedSession)"

definition session_at :: "zone_db \<Rightarrow> string \<Rightarrow> int \<Rightarrow> session_info" where
  "session_at db tz t =
     (if weekday t = 5 then make_session db WeekendSession t tz True
      else if weekday t = 6 \<and> hour_of t < 22 then make_session db WeekendSession t tz True
      else if weekday t = 4 \<and> 22 \<le> hour_of t then make_session db WeekendSession t tz True
      else make_session db (open_session db t) t tz False)"

text \<open>Without a moment the injectable clock is read.\<close>

definition get_session :: "zone_db \<Rightarrow> int \<Rightarrow> clock_state \<Rightarrow> datetime option \<Rightarrow> string \<Rightarrow> session_info" where
  "get_session db system c dt tz =
     session_at db tz (utc_instant (case dt of None \<Rightarrow> clock_now system c | Some d \<Rightarrow> d))"

definition is_tradeable :: "zone_db \<Rightarrow> int \<Rightarrow> clock_state \<Rightarrow> datetime option \<Rightarrow> string \<Rightarrow> bool" where
  "is_tradeable db system c dt tz = si_tradeable (get_session db system c dt tz)"

definition best_sessions :: "session_type list" where
  "best_sessions = sort_key (\<lambda>s. - session_score s) (filter (\<lambda>s. s \<notin> {ClosedSession, WeekendSession}) all_sessions)"

definition session_from_broker_time :: "zone_db \<Rightarrow> int \<Rightarrow> clock_state \<Rightarrow> datetime \<Rightarrow> string \<Rightarrow> exc + session_info" where
  "session_from_broker_time db system c dt tz =
     (case broker_time_to_utc db tz dt of Inl e \<Rightarrow> Inl e | Inr u \<Rightarrow> Inr (get_session db system c (Some u) tz))"

subsection \<open>The week\<close>

text \<open>The hour of the week, counted from Monday 00:00 UTC.\<close>

definition hour_of_week :: "int \<Rightarrow> int" where
  "hour_of_week t = t div us_hour mod 168"

lemma hour_of_week_split: "hour_of_week t = 24 * weekday t + hour_of t"
proof -
  have "t div us_day = t div us_hour div 24" using zdiv_zmult2_eq [of 24 t us_hour] by simp
  moreover have "t div us_hour mod 168 = 24 * (t div us_hour div 24 mod 7) + t div us_hour mod 24"
    using zmod_zmult2_eq [of 7 "t div us_hour" 24] by simp
  ultimately show ?thesis by (simp add: hour_of_week_def weekday_def hour_of_def)
qed

lemma weekday_range: "0 \<le> weekday t" "weekday t < 7" "0 \<le> hour_of t" "hour_of t < 24"
  by (simp_all add: weekday_def hour_of_def)

lemma weekend_hours:
  "weekday t = 5 \<or> weekday t = 6 \<and> hour_of t < 22 \<or> weekday t = 4 \<and> 22 \<le> hour_of t
     \<longleftrightarrow> 118 \<le> hour_of_week t \<and> hour_of_week t < 166"
  using weekday_range [of t] unfolding hour_of_week_split by (auto; linarith)

lemma open_session_tradeable:
  "session_tradeable (open_session db t) \<longleftrightarrow> london_open db t \<or> new_york_open db t \<or> tokyo_open db t \<or> sydney_open db t"
  by (simp add: open_session_def session_tradeable_def)

lemma score_positive: "0 < session_score s \<longleftrightarrow> session_tradeable s"
  by (cases s) (simp_all add: session_tradeable_def)

lemma open_session_not_weekend: "open_session db t \<noteq> WeekendSession"
  by (simp add: open_session_def)

lemma session_at_eq:
  "session_at db tz t = (let w = 118 \<le> hour_of_week t \<and> hour_of_week t < 166 in
     make_session db (if w then WeekendSession else open_session db t) t tz w)"
  using weekend_hours [of t] by (auto simp: session_at_def Let_def)

text \<open>
  The session of a moment. The weekend is one interval of 48 hours in every week, from Friday 22:00 to Sunday 22:00 UTC,
  and nothing is tradeable in it; outside it a moment is tradeable exactly when one of the four local markets is open, and
  it counts as the overlap exactly when London and New York both are. The score is positive exactly when the moment is
  tradeable.
\<close>

theorem session_of_a_moment:
  "let t = utc_instant dt; i = get_session db system c (Some dt) tz in
     si_weekend i = (118 \<le> hour_of_week t \<and> hour_of_week t < 166)
     \<and> (si_session i = WeekendSession) = si_weekend i
     \<and> si_tradeable i = ((hour_of_week t < 118 \<or> 166 \<le> hour_of_week t)
         \<and> (london_open db t \<or> new_york_open db t \<or> tokyo_open db t \<or> sydney_open db t))
     \<and> (si_session i = OverlapSession) = ((hour_of_week t < 118 \<or> 166 \<le> hour_of_week t) \<and> london_open db t \<and> new_york_open db t)
     \<and> (0 < si_score i) = si_tradeable i \<and> 0 \<le> si_score i \<and> si_score i \<le> 1"
proof -
  have r: "0 \<le> session_score s \<and> session_score s \<le> 1" for s by (cases s) simp_all
  have o: "(open_session db t = OverlapSession) = (london_open db t \<and> new_york_open db t)" for t by (simp add: open_session_def)
  have "\<not> session_tradeable WeekendSession" by (simp add: session_tradeable_def)
  then show ?thesis using r
    by (cases "118 \<le> hour_of_week (utc_instant dt) \<and> hour_of_week (utc_instant dt) < 166")
      (auto simp: get_session_def session_at_eq make_session_def score_positive open_session_tradeable open_session_not_weekend o Let_def)
qed

text \<open>
  The reading of the broker's clock gives the session of the moment itself, unless it lies in the second pass of a
  repeated hour.
\<close>

lemma broker_session:
  assumes "db (broker_zone tz) = Inr z" and "unambiguous z t"
  shows "session_from_broker_time db system c (Naive (wall z t)) tz = Inr (get_session db system c (Some (Aware UtcZone t)) tz)"
  using broker_clock_read_back [of db tz z t, OF assms] by (simp add: session_from_broker_time_def)

lemma best_sessions_value: "best_sessions = [OverlapSession, LondonSession, NewYorkSession, TokyoSession, SydneySession]"
  by (simp add: best_sessions_def all_sessions_def)

end
