(* ===== verification/Permissions.thy ===== *)
theory Permissions
  imports Contracts
begin

section \<open>Fine-grained permissions\<close>

text \<open>
  \<open>src/backend/core/permissions.py\<close>: the table of permissions, the role and plan tables, the endpoint registry, the
  decision over an \<open>AuthContext\<close>, assignment of roles, and the engine with its bounded cache of decisions. Roles and
  permissions are their string values; sets are lists here where the code writes them out. Clock readings are arguments.
\<close>

subsection \<open>Tables\<close>

definition perm_values :: "string list" where
  "perm_values = [
      ''profile:read:own'', ''profile:read:any'', ''profile:write:own'', ''profile:write:any'',
      ''profile:delete:any'', ''license:read:own'', ''license:read:any'', ''license:issue'',
      ''license:revoke'', ''license:suspend'', ''license:transfer'', ''trade:read:own'', ''trade:read:any'',
      ''trade:execute'', ''trade:cancel:own'', ''trade:cancel:any'', ''trade:close_all'', ''signal:read:own'',
      ''signal:read:any'', ''signal:create'', ''signal:cancel:own'', ''signal:cancel:any'',
      ''billing:read:own'', ''billing:read:any'', ''billing:checkout'', ''billing:refund'',
      ''billing:manage_plans'', ''billing:webhook_ingest'', ''risk:read:own'', ''risk:read:any'',
      ''risk:halt'', ''risk:resume'', ''risk:kill_switch'', ''audit:read:own'', ''audit:read:any'',
      ''audit:export'', ''user:list'', ''user:block'', ''user:unblock'', ''user:delete'', ''user:role_assign'',
      ''settings:read'', ''settings:write'', ''metrics:read'', ''metrics:prometheus'', ''alert:manage'',
      ''trace:read'', ''tenant:read:own'', ''tenant:read:any'', ''tenant:manage'', ''tenant:cross_access'',
      ''release:download'', ''release:publish'', ''release:revoke'', ''*'']"

definition readonly_perms :: "string list" where
  "readonly_perms = [
      ''profile:read:own'', ''license:read:own'', ''trade:read:own'', ''signal:read:own'',
      ''billing:read:own'', ''risk:read:own'', ''audit:read:own'', ''tenant:read:own'', ''release:download'']"

definition customer_perms :: "string list" where
  "customer_perms = [
      ''profile:read:own'', ''profile:write:own'', ''license:read:own'', ''trade:read:own'', ''trade:execute'',
      ''trade:cancel:own'', ''signal:read:own'', ''signal:create'', ''signal:cancel:own'',
      ''billing:read:own'', ''billing:checkout'', ''risk:read:own'', ''audit:read:own'', ''tenant:read:own'',
      ''release:download'']"

definition support_perms :: "string list" where
  "support_perms = [
      ''profile:read:own'', ''profile:write:own'', ''profile:read:any'', ''license:read:own'',
      ''license:read:any'', ''trade:read:own'', ''trade:cancel:own'', ''trade:read:any'', ''signal:read:own'',
      ''signal:cancel:own'', ''signal:read:any'', ''billing:read:own'', ''risk:read:own'', ''risk:read:any'',
      ''audit:read:own'', ''audit:read:any'', ''user:list'', ''tenant:read:own'', ''tenant:read:any'',
      ''metrics:read'', ''trace:read'', ''release:download'']"

definition write_admin_perms :: "string list" where
  "write_admin_perms = [
      ''profile:read:own'', ''profile:write:own'', ''profile:read:any'', ''license:read:own'',
      ''license:read:any'', ''license:suspend'', ''license:transfer'', ''trade:read:own'', ''trade:read:any'',
      ''trade:cancel:own'', ''trade:cancel:any'', ''signal:read:own'', ''signal:read:any'',
      ''signal:cancel:own'', ''signal:cancel:any'', ''billing:read:own'', ''billing:read:any'',
      ''risk:read:own'', ''risk:read:any'', ''risk:halt'', ''audit:read:own'', ''audit:read:any'',
      ''user:list'', ''tenant:read:own'', ''tenant:read:any'', ''metrics:read'', ''trace:read'',
      ''release:download'']"

definition admin_perms :: "string list" where
  "admin_perms = [
      ''profile:read:own'', ''profile:write:own'', ''profile:read:any'', ''profile:write:any'',
      ''profile:delete:any'', ''license:read:own'', ''license:read:any'', ''license:issue'',
      ''license:revoke'', ''license:suspend'', ''license:transfer'', ''trade:read:own'', ''trade:read:any'',
      ''trade:execute'', ''trade:cancel:own'', ''trade:cancel:any'', ''trade:close_all'', ''signal:read:own'',
      ''signal:read:any'', ''signal:create'', ''signal:cancel:own'', ''signal:cancel:any'',
      ''billing:read:own'', ''billing:read:any'', ''billing:checkout'', ''billing:refund'',
      ''billing:manage_plans'', ''billing:webhook_ingest'', ''risk:read:own'', ''risk:read:any'',
      ''risk:halt'', ''risk:resume'', ''risk:kill_switch'', ''audit:read:own'', ''audit:read:any'',
      ''audit:export'', ''user:list'', ''user:block'', ''user:unblock'', ''user:delete'', ''user:role_assign'',
      ''settings:read'', ''settings:write'', ''metrics:read'', ''metrics:prometheus'', ''alert:manage'',
      ''trace:read'', ''tenant:read:own'', ''tenant:read:any'', ''tenant:manage'', ''tenant:cross_access'',
      ''release:download'', ''release:publish'', ''release:revoke'']"

definition super_admin_perms :: "string list" where
  "super_admin_perms = [
      ''*'']"

definition trial_plan :: "string list" where
  "trial_plan = [
      ''trade:read:own'', ''signal:read:own'', ''license:read:own'', ''billing:read:own'',
      ''profile:read:own'', ''profile:write:own'', ''release:download'', ''audit:read:own'', ''risk:read:own'',
      ''tenant:read:own'']"

definition basic_plan :: "string list" where
  "basic_plan = [
      ''trade:read:own'', ''trade:execute'', ''trade:cancel:own'', ''signal:read:own'', ''signal:create'',
      ''signal:cancel:own'', ''license:read:own'', ''billing:read:own'', ''billing:checkout'',
      ''profile:read:own'', ''profile:write:own'', ''risk:read:own'', ''release:download'', ''audit:read:own'',
      ''tenant:read:own'']"

definition pro_plan :: "string list" where
  "pro_plan = [
      ''profile:read:own'', ''profile:write:own'', ''license:read:own'', ''trade:read:own'', ''trade:execute'',
      ''trade:cancel:own'', ''signal:read:own'', ''signal:create'', ''signal:cancel:own'',
      ''billing:read:own'', ''billing:checkout'', ''risk:read:own'', ''audit:read:own'', ''tenant:read:own'',
      ''release:download'']"

definition vip_plan :: "string list" where
  "vip_plan = [
      ''profile:read:own'', ''profile:write:own'', ''license:read:own'', ''trade:read:own'', ''trade:execute'',
      ''trade:cancel:own'', ''signal:read:own'', ''signal:create'', ''signal:cancel:own'',
      ''billing:read:own'', ''billing:checkout'', ''risk:read:own'', ''risk:read:any'', ''audit:read:own'',
      ''tenant:read:own'', ''release:download'']"

definition endpoint_registry :: "(string \<times> string \<times> string \<times> bool) list" where
  "endpoint_registry = [
      (''POST'', ''/api/v1/auth/login'', ''public'', False),
      (''POST'', ''/api/v1/auth/register'', ''public'', False),
      (''POST'', ''/api/v1/auth/refresh'', ''public'', False),
      (''POST'', ''/api/v1/auth/logout'', ''profile:read:own'', False),
      (''GET'', ''/api/v1/auth/me'', ''profile:read:own'', False),
      (''GET'', ''/api/v1/profile'', ''profile:read:own'', True),
      (''PUT'', ''/api/v1/profile'', ''profile:write:own'', True),
      (''GET'', ''/api/v1/profile/{user_id}'', ''profile:read:any'', False),
      (''PUT'', ''/api/v1/profile/{user_id}'', ''profile:write:any'', False),
      (''DELETE'', ''/api/v1/profile/{user_id}'', ''profile:delete:any'', False),
      (''GET'', ''/api/v1/license'', ''license:read:own'', True),
      (''GET'', ''/api/v1/license/{lic_id}'', ''license:read:any'', False),
      (''POST'', ''/api/v1/license'', ''license:issue'', False),
      (''DELETE'', ''/api/v1/license/{lic_id}'', ''license:revoke'', False),
      (''POST'', ''/api/v1/license/{lic_id}/suspend'', ''license:suspend'', False),
      (''POST'', ''/api/v1/license/{lic_id}/transfer'', ''license:transfer'', False),
      (''GET'', ''/api/v1/trades'', ''trade:read:own'', True),
      (''GET'', ''/api/v1/trades/{trade_id}'', ''trade:read:own'', True),
      (''GET'', ''/api/v1/trades/any'', ''trade:read:any'', False),
      (''POST'', ''/api/v1/trades/execute'', ''trade:execute'', False),
      (''POST'', ''/api/v1/trades/{trade_id}/cancel'', ''trade:cancel:own'', True),
      (''POST'', ''/api/v1/trades/close_all'', ''trade:close_all'', False),
      (''GET'', ''/api/v1/signals'', ''signal:read:own'', True),
      (''GET'', ''/api/v1/signals/{sig_id}'', ''signal:read:own'', True),
      (''GET'', ''/api/v1/signals/any'', ''signal:read:any'', False),
      (''POST'', ''/api/v1/signals'', ''signal:create'', False),
      (''POST'', ''/api/v1/signals/{sig_id}/cancel'', ''signal:cancel:own'', True),
      (''GET'', ''/api/v1/billing/invoices'', ''billing:read:own'', True),
      (''POST'', ''/api/v1/billing/checkout'', ''billing:checkout'', False),
      (''GET'', ''/api/v1/billing/any'', ''billing:read:any'', False),
      (''POST'', ''/api/v1/billing/refund'', ''billing:refund'', False),
      (''POST'', ''/api/v1/billing/webhook'', ''billing:webhook_ingest'', False),
      (''GET'', ''/api/v1/billing/plans'', ''billing:manage_plans'', False),
      (''GET'', ''/api/v1/risk/status'', ''risk:read:own'', False),
      (''GET'', ''/api/v1/risk/report'', ''risk:read:any'', False),
      (''POST'', ''/api/v1/risk/halt'', ''risk:halt'', False),
      (''POST'', ''/api/v1/risk/resume'', ''risk:resume'', False),
      (''POST'', ''/api/v1/risk/kill_switch'', ''risk:kill_switch'', False),
      (''GET'', ''/api/v1/audit/own'', ''audit:read:own'', False),
      (''GET'', ''/api/v1/audit/log'', ''audit:read:any'', False),
      (''GET'', ''/api/v1/audit/export.csv'', ''audit:export'', False),
      (''GET'', ''/api/v1/admin/users'', ''user:list'', False),
      (''GET'', ''/api/v1/admin/users/{uid}'', ''profile:read:any'', False),
      (''PATCH'', ''/api/v1/admin/users/{uid}/role'', ''user:role_assign'', False),
      (''POST'', ''/api/v1/admin/users/{uid}/block'', ''user:block'', False),
      (''POST'', ''/api/v1/admin/users/{uid}/unblock'', ''user:unblock'', False),
      (''DELETE'', ''/api/v1/admin/users/{uid}'', ''user:delete'', False),
      (''GET'', ''/api/v1/settings'', ''settings:read'', False),
      (''PUT'', ''/api/v1/settings'', ''settings:write'', False),
      (''GET'', ''/admin/metrics'', ''metrics:read'', False),
      (''GET'', ''/admin/metrics/prometheus'', ''metrics:prometheus'', False),
      (''GET'', ''/admin/alerts'', ''metrics:read'', False),
      (''POST'', ''/admin/alert/manage'', ''alert:manage'', False),
      (''GET'', ''/admin/trace'', ''trace:read'', False),
      (''GET'', ''/api/v1/tenant'', ''tenant:read:own'', False),
      (''GET'', ''/api/v1/tenant/{tid}'', ''tenant:read:any'', False),
      (''POST'', ''/api/v1/tenant/{tid}/suspend'', ''tenant:manage'', False),
      (''GET'', ''/api/v1/tenant/cross'', ''tenant:cross_access'', False),
      (''GET'', ''/api/v1/release/download'', ''release:download'', False),
      (''POST'', ''/api/v1/release/publish'', ''release:publish'', False),
      (''DELETE'', ''/api/v1/release/{vid}'', ''release:revoke'', False),
      (''GET'', ''/health/live'', ''public'', False), (''GET'', ''/health/ready'', ''public'', False),
      (''GET'', ''/api/v1/permissions/matrix'', ''profile:read:own'', False),
      (''GET'', ''/api/v1/permissions/my'', ''profile:read:own'', False)]"
definition role_rank :: "string \<Rightarrow> int option" where
  "role_rank = map_of [(''readonly'', 0), (''customer'', 1), (''support'', 2), (''write_admin'', 3), (''admin'', 4), (''super_admin'', 5)]"

definition role_aliases :: "(string \<times> string) list" where
  "role_aliases = [(''user'', ''customer''), (''trader'', ''customer''), (''read_only'', ''readonly''), (''superadmin'', ''super_admin''),
     (''super'', ''super_admin''), (''write-admin'', ''write_admin'')]"

definition normalize_role :: "string \<Rightarrow> string" where
  "normalize_role raw = (let r = py_strip (py_lower raw) in case map_of role_aliases r of None \<Rightarrow> r | Some x \<Rightarrow> x)"

definition role_permissions :: "(string \<times> string list) list" where
  "role_permissions = [(''readonly'', readonly_perms), (''customer'', customer_perms), (''support'', support_perms),
     (''write_admin'', write_admin_perms), (''admin'', admin_perms), (''super_admin'', super_admin_perms)]"

definition plan_permissions :: "(string \<times> string list) list" where
  "plan_permissions = [(''trial'', trial_plan), (''basic'', basic_plan), (''pro'', pro_plan), (''vip'', vip_plan)]"

subsection \<open>Decisions\<close>

definition expand_permissions :: "string \<Rightarrow> string set" where
  "expand_permissions role =
     (let perms = (case map_of role_permissions role of None \<Rightarrow> [] | Some ps \<Rightarrow> ps) in
      if ''*'' \<in> set perms
      then insert ''*'' (set (filter (\<lambda>p. p \<noteq> ''*'') (concat (map snd role_permissions))) \<union> set (filter (\<lambda>p. p \<noteq> ''*'') perm_values))
      else set perms)"

record auth_context =
  ac_user :: string
  ac_role :: string
  ac_tenant :: string
  ac_active :: bool
  ac_blocked :: bool
  ac_extra :: "string set"
  ac_plan :: "string option"

definition context_rank :: "auth_context \<Rightarrow> int" where
  "context_rank c = (case role_rank (ac_role c) of None \<Rightarrow> 0 | Some r \<Rightarrow> r)"

definition effective_perms :: "auth_context \<Rightarrow> string set" where
  "effective_perms c =
     (let base = expand_permissions (ac_role c);
          planned = (case ac_plan c of None \<Rightarrow> base | Some p \<Rightarrow>
            if p = [] \<or> ac_role c \<noteq> ''customer'' then base
            else (case map_of plan_permissions p of None \<Rightarrow> base
                  | Some ps \<Rightarrow> if p \<in> {''trial'', ''basic''} then base \<inter> set ps else if p = ''vip'' then base \<union> set ps else base))
      in planned \<union> ac_extra c)"

definition has_perm :: "auth_context \<Rightarrow> string \<Rightarrow> bool" where
  "has_perm c perm =
     (if \<not> ac_active c \<or> ac_blocked c then False
      else (let ep = effective_perms c in ''*'' \<in> ep \<or> perm \<in> ep))"

definition has_any_perm :: "auth_context \<Rightarrow> string list \<Rightarrow> bool" where
  "has_any_perm c perms = list_ex (has_perm c) perms"

definition py_contains :: "string \<Rightarrow> string \<Rightarrow> bool" where
  "py_contains part s = list_ex (\<lambda>n. take (length part) (drop n s) = part) [0..<Suc (length s)]"

definition can_access_resource :: "auth_context \<Rightarrow> string \<Rightarrow> string option \<Rightarrow> bool" where
  "can_access_resource c perm owner =
     (if \<not> has_perm c perm then False
      else case owner of None \<Rightarrow> True | Some o' \<Rightarrow> if py_contains '':own'' perm then o' = ac_user c else True)"

datatype escalation = UnknownTarget | Escalation

definition assert_no_escalation :: "string \<Rightarrow> string \<Rightarrow> escalation option" where
  "assert_no_escalation actor target =
     (let a = (case role_rank (normalize_role actor) of None \<Rightarrow> -1 | Some r \<Rightarrow> r);
          t = (case role_rank (normalize_role target) of None \<Rightarrow> -1 | Some r \<Rightarrow> r) in
      if t < 0 then Some UnknownTarget else if a \<le> t then Some Escalation else None)"

definition can_escalate_to :: "auth_context \<Rightarrow> string \<Rightarrow> bool" where
  "can_escalate_to c target =
     (case assert_no_escalation (ac_role c) target of Some e \<Rightarrow> False | None \<Rightarrow> has_perm c ''user:role_assign'')"

subsection \<open>The cache of decisions\<close>

record perm_cache =
  pc_store :: "(string, bool \<times> time) odict"
  pc_max :: nat
  pc_ttl :: real


definition pc_get :: "time \<Rightarrow> string \<Rightarrow> perm_cache \<Rightarrow> bool option \<times> perm_cache" where
  "pc_get now key c =
     (case od_get (pc_store c) key of
        None \<Rightarrow> (None, c)
      | Some (v, ts) \<Rightarrow>
          if now - ts > pc_ttl c then (None, c\<lparr>pc_store := od_del key (pc_store c)\<rparr>)
          else (Some v, c\<lparr>pc_store := od_del key (pc_store c) @ [(key, (v, ts))]\<rparr>))"

text \<open>The entry goes to the end; then the oldest are dropped down to the maximal size.\<close>

definition pc_set :: "time \<Rightarrow> string \<Rightarrow> bool \<Rightarrow> perm_cache \<Rightarrow> perm_cache" where
  "pc_set now key v c = c\<lparr>pc_store := take_last (pc_max c) (od_del key (pc_store c) @ [(key, (v, now))])\<rparr>"


definition pc_clear :: "perm_cache \<Rightarrow> perm_cache" where
  "pc_clear c = c\<lparr>pc_store := []\<rparr>"

subsection \<open>The engine\<close>

text \<open>Deny hooks are called with the user and the permission; what they raise is swallowed. The calls are a log.\<close>

record rbac =
  rb_cache :: perm_cache
  rb_hooks :: nat
  rb_denials :: "(nat \<times> string \<times> string) list"



definition cache_key :: "auth_context \<Rightarrow> string \<Rightarrow> string" where
  "cache_key c perm = ac_user c @ '':'' @ ac_role c @ '':'' @ perm"

definition fire_denials :: "string \<Rightarrow> string \<Rightarrow> rbac \<Rightarrow> rbac" where
  "fire_denials user perm s = s\<lparr>rb_denials := rb_denials s @ map (\<lambda>h. (h, user, perm)) [0..<rb_hooks s]\<rparr>"

definition rbac_check :: "time \<Rightarrow> auth_context \<Rightarrow> string \<Rightarrow> rbac \<Rightarrow> bool \<times> rbac" where
  "rbac_check now c perm s =
     (if perm = ''public'' then (True, s)
      else case pc_get now (cache_key c perm) (rb_cache s) of
        (Some v, k) \<Rightarrow> (v, s\<lparr>rb_cache := k\<rparr>)
      | (None, k) \<Rightarrow>
          (let r = has_perm c perm; s' = s\<lparr>rb_cache := pc_set now (cache_key c perm) r k\<rparr> in
           (r, if r then s' else fire_denials (ac_user c) perm s')))"

definition check_resource :: "auth_context \<Rightarrow> string \<Rightarrow> string option \<Rightarrow> bool" where
  "check_resource c perm owner = can_access_resource c perm owner"

definition PermissionDeniedError :: exc where
  "PermissionDeniedError = OtherError ''PermissionDeniedError''"

definition rbac_require :: "time \<Rightarrow> auth_context \<Rightarrow> string \<Rightarrow> rbac \<Rightarrow> (unit, rbac) outcome" where
  "rbac_require now c perm s =
     (case rbac_check now c perm s of (ok, s') \<Rightarrow> (if ok then Inr () else Inl PermissionDeniedError, s'))"

definition require_resource :: "auth_context \<Rightarrow> string \<Rightarrow> string option \<Rightarrow> exc + unit" where
  "require_resource c perm owner = (if check_resource c perm owner then Inr () else Inl PermissionDeniedError)"

definition require_no_escalation :: "time \<Rightarrow> auth_context \<Rightarrow> string \<Rightarrow> rbac \<Rightarrow> (unit, rbac) outcome" where
  "require_no_escalation now actor target s =
     (case assert_no_escalation (ac_role actor) target of
        Some e \<Rightarrow> (Inl PermissionDeniedError, s)
      | None \<Rightarrow> rbac_require now actor ''user:role_assign'' s)"

definition is_admin_or_above :: "auth_context \<Rightarrow> bool" where
  "is_admin_or_above c \<longleftrightarrow> 4 \<le> context_rank c"

definition is_support_or_above :: "auth_context \<Rightarrow> bool" where
  "is_support_or_above c \<longleftrightarrow> 2 \<le> context_rank c"


text \<open>The matrix asks the engine, cache included, for a user \<open>matrix\<close> of every role; \<open>sorted\<close> orders the names.\<close>

definition matrix_roles :: "string list" where
  "matrix_roles = [''readonly'', ''customer'', ''support'', ''write_admin'', ''admin'', ''super_admin'']"

definition matrix_context :: "string \<Rightarrow> auth_context" where
  "matrix_context role = \<lparr>ac_user = ''matrix'', ac_role = role, ac_tenant = ''default'', ac_active = True, ac_blocked = False,
     ac_extra = {}, ac_plan = None\<rparr>"

fun matrix_cells :: "time \<Rightarrow> (string \<times> string) list \<Rightarrow> rbac \<Rightarrow> (string \<times> string \<times> bool) list \<times> rbac" where
  "matrix_cells now [] s = ([], s)"
| "matrix_cells now ((perm, role) # cs) s =
     (case rbac_check now (matrix_context role) perm s of (b, s1) \<Rightarrow>
      case matrix_cells now cs s1 of (rest, s2) \<Rightarrow> ((perm, role, b) # rest, s2))"

definition permission_matrix :: "(string list \<Rightarrow> string list) \<Rightarrow> time \<Rightarrow> rbac \<Rightarrow> (string \<times> string \<times> bool) list \<times> rbac" where
  "permission_matrix py_sorted now s =
     matrix_cells now (List.product (py_sorted (filter (\<lambda>p. p \<noteq> ''*'') perm_values)) matrix_roles) s"

definition get_role_permissions :: "(string set \<Rightarrow> string list) \<Rightarrow> string \<Rightarrow> string list" where
  "get_role_permissions py_sorted role = py_sorted (expand_permissions role)"

subsection \<open>Runs of the engine\<close>






















text \<open>With a separator in a role, the decision on one permission answers for another.\<close>

lemma separator_confuses_keys:
  "cache_key (c\<lparr>ac_role := ''a:b''\<rparr>) ''c'' = cache_key (c\<lparr>ac_role := ''a''\<rparr>) ''b:c''"
  by (simp add: cache_key_def)

text \<open>A user blocked after a granted check keeps the permission for the lifetime of the entry.\<close>

lemma blocked_user_keeps_access:
  assumes "perm \<noteq> ''public''" and "has_perm c perm" and "now \<le> t" and "t - now \<le> 60"
    and "fst (pc_get now (cache_key c perm) (rb_cache s)) = None" and "pc_max (rb_cache s) = 4096" and "pc_ttl (rb_cache s) = 60"
  shows "fst (rbac_check t (c\<lparr>ac_blocked := True\<rparr>) perm (snd (rbac_check now c perm s)))"
proof -
  obtain k where k: "pc_get now (cache_key c perm) (rb_cache s) = (None, k)" using assms(5) by (cases "pc_get now (cache_key c perm) (rb_cache s)") auto
  then have kk: "pc_max k = 4096" "pc_ttl k = 60" using assms(6,7) by (auto simp: pc_get_def split: option.splits if_splits)
  have "rb_cache (snd (rbac_check now c perm s)) = pc_set now (cache_key c perm) True k"
    using assms(1,2) k by (simp add: rbac_check_def Let_def)
  moreover have "od_get (take_last 4096 (od_del (cache_key c perm) (pc_store k) @ [(cache_key c perm, (True, now))])) (cache_key c perm) = Some (True, now)"
  proof -
    let ?d = "od_del (cache_key c perm) (pc_store k)"
    have "take_last 4096 (?d @ [(cache_key c perm, (True, now))]) = drop (length ?d - 4095) ?d @ [(cache_key c perm, (True, now))]"
      by (simp add: take_last_def)
    moreover have "cache_key c perm \<notin> fst ` set (drop n ?d)" for n using set_drop_subset [of n ?d] by (auto simp: od_set_del)
    then have "map_of (drop n ?d) (cache_key c perm) = None" for n by (simp add: map_of_eq_None_iff)
    ultimately show ?thesis by (simp add: od_get_def map_add_def)
  qed
  moreover have "cache_key (c\<lparr>ac_blocked := True\<rparr>) perm = cache_key c perm" by (simp add: cache_key_def)
  ultimately show ?thesis using assms(1,3,4) kk by (simp add: rbac_check_def pc_get_def pc_set_def)
qed

subsection \<open>Roles and plans\<close>

lemma role_assign_perm:
  "(''*'' \<in> expand_permissions r \<or> ''user:role_assign'' \<in> expand_permissions r) \<longleftrightarrow> r = ''admin'' \<or> r = ''super_admin''"
proof -
  have tables: "''user:role_assign'' \<notin> set ps \<and> ''*'' \<notin> set ps" if "(n, ps) \<in> set role_permissions" "n \<noteq> ''admin''" "n \<noteq> ''super_admin''" for n ps
  proof -
    have "list_all (\<lambda>(n, ps). n = ''admin'' \<or> n = ''super_admin'' \<or> ''user:role_assign'' \<notin> set ps \<and> ''*'' \<notin> set ps) role_permissions" by code_simp
    then show ?thesis using that by (fastforce simp: list_all_iff)
  qed
  show ?thesis
  proof (cases "r = ''admin'' \<or> r = ''super_admin''")
    case True
    have "''user:role_assign'' \<in> expand_permissions ''admin''" "''*'' \<in> expand_permissions ''super_admin''" by code_simp+
    then show ?thesis using True by auto
  next
    case False
    then show ?thesis using tables [of r, OF map_of_SomeD] by (auto simp: expand_permissions_def Let_def split: option.splits)
  qed
qed

lemma planned_perms:
  "p \<in> effective_perms (c\<lparr>ac_extra := {}\<rparr>) \<longleftrightarrow>
     (if ac_role c = ''customer'' then p \<in> effective_perms (c\<lparr>ac_extra := {}\<rparr>) else p \<in> expand_permissions (ac_role c))"
  by (auto simp: effective_perms_def Let_def split: option.splits)

lemma customer_perms_bounded:
  "ac_role c = ''customer'' \<Longrightarrow> effective_perms (c\<lparr>ac_extra := {}\<rparr>) \<subseteq> expand_permissions ''customer'' \<union> set vip_plan"
  by (auto simp: effective_perms_def plan_permissions_def Let_def split: option.splits if_splits)

lemma role_assign_effective:
  "(''*'' \<in> effective_perms (c\<lparr>ac_extra := {}\<rparr>) \<or> ''user:role_assign'' \<in> effective_perms (c\<lparr>ac_extra := {}\<rparr>))
     \<longleftrightarrow> ac_role c = ''admin'' \<or> ac_role c = ''super_admin''"
proof (cases "ac_role c = ''customer''")
  case True
  have "''*'' \<notin> expand_permissions ''customer'' \<union> set vip_plan" "''user:role_assign'' \<notin> expand_permissions ''customer'' \<union> set vip_plan" by code_simp+
  then show ?thesis using customer_perms_bounded [OF True] True by auto
next
  case False
  then show ?thesis using role_assign_perm [of "ac_role c"] planned_perms [of _ c] by simp
qed

lemma rank_of_admins: "role_rank (normalize_role ''admin'') = Some 4" "role_rank (normalize_role ''super_admin'') = Some 5"
  by code_simp+

lemma role_rank_nonneg: "role_rank r = Some k \<Longrightarrow> 0 \<le> k"
  by (auto simp: role_rank_def split: if_splits)

text \<open>
  Roles are assigned downwards only, by administrators. Without additional permissions a user can assign a role exactly
  when he is active and not blocked and either an administrator and the role one of the four below, or the super
  administrator and the role any other: no role of rank equal to one's own, no unknown role, whatever the plan.
\<close>

theorem roles_are_assigned_downwards:
  "can_escalate_to (c\<lparr>ac_extra := {}\<rparr>) target =
     (ac_active c \<and> \<not> ac_blocked c
      \<and> (case role_rank (normalize_role target) of None \<Rightarrow> False
         | Some t \<Rightarrow> ac_role c = ''admin'' \<and> t < 4 \<or> ac_role c = ''super_admin'' \<and> t < 5))"
proof -
  have h: "has_perm (c\<lparr>ac_extra := {}\<rparr>) ''user:role_assign'' \<longleftrightarrow> ac_active c \<and> \<not> ac_blocked c \<and> (ac_role c = ''admin'' \<or> ac_role c = ''super_admin'')"
    using role_assign_effective [of c] by (auto simp: has_perm_def Let_def)
  show ?thesis
  proof (cases "role_rank (normalize_role target)")
    case None
    then show ?thesis by (simp add: can_escalate_to_def assert_no_escalation_def)
  next
    case (Some t)
    have "0 \<le> t" using role_rank_nonneg [OF Some] .
    then show ?thesis using Some h rank_of_admins by (auto simp: can_escalate_to_def assert_no_escalation_def Let_def split: option.splits)
  qed
qed

text \<open>The plans of customers are nested, and the trial plan does not trade.\<close>

lemma plans_are_nested:
  "set trial_plan \<subseteq> set basic_plan" "set basic_plan = set customer_perms" "set pro_plan = set customer_perms" "set customer_perms \<subseteq> set vip_plan"
  "''trade:execute'' \<notin> set trial_plan"
  by code_simp+

text \<open>Permissions do not grow with the rank: support may not trade, a customer may.\<close>

lemma rank_is_no_order: "''trade:execute'' \<in> expand_permissions ''customer'' \<and> ''trade:execute'' \<notin> expand_permissions ''support''"
  by code_simp

text \<open>Every endpoint asks for a known permission, and what is scoped to the owner asks for one on own resources.\<close>

lemma endpoints_consistent:
  "list_all (\<lambda>(m, p, perm, own). (perm = ''public'' \<or> perm \<in> set perm_values) \<and> (\<not> own \<or> py_contains '':own'' perm)) endpoint_registry"
  by code_simp

end
