(* ===== verification/Rbac.thy ===== *)
theory Rbac
  imports Permissions
begin

section \<open>Role-based access control of the API\<close>

text \<open>
  \<open>src/backend/core/rbac.py\<close>: the older engine, with five roles and its own permission names. Its cache is the class of
  \<open>core/permissions.py\<close> again, with room for 2048 entries.
\<close>

definition rbac_role_table :: "(string \<times> string list) list" where
  "rbac_role_table = [
  (''readonly'', [
      ''read:own:trades'', ''read:own:signals'', ''read:own:profile'', ''read:own:license'',
      ''read:own:balance'']),
  (''customer'', [
      ''read:own:trades'', ''read:own:signals'', ''read:own:profile'', ''read:own:license'',
      ''read:own:balance'', ''write:own:settings'', ''write:own:profile'']),
  (''support'', [
      ''read:own:trades'', ''read:any:trades'', ''read:own:signals'', ''read:any:signals'',
      ''read:own:profile'', ''read:any:profile'', ''read:own:license'', ''read:any:license'',
      ''read:own:balance'', ''write:own:settings'', ''write:own:profile'', ''read:audit:log'']),
  (''admin'', [
      ''read:own:trades'', ''read:any:trades'', ''read:own:signals'', ''read:any:signals'',
      ''read:own:profile'', ''read:any:profile'', ''read:own:license'', ''read:any:license'',
      ''read:own:balance'', ''write:own:settings'', ''write:any:profile'', ''write:own:profile'',
      ''read:audit:log'', ''manage:users'', ''manage:licenses'', ''manage:settings'', ''manage:trading:pause'',
      ''manage:trading:close_all'', ''read:risk:report'']),
  (''super_admin'', [
      ''*''])]"

definition rbac_ranks :: "string \<Rightarrow> int option" where
  "rbac_ranks = map_of [(''readonly'', 0), (''customer'', 1), (''support'', 2), (''admin'', 3), (''super_admin'', 4)]"

definition rbac_aliases :: "(string \<times> string) list" where
  "rbac_aliases = [(''user'', ''customer''), (''trader'', ''customer''), (''read_only'', ''readonly''), (''superadmin'', ''super_admin'')]"

definition rbac_normalize :: "string \<Rightarrow> string" where
  "rbac_normalize raw = (let r = py_strip (py_lower raw) in case map_of rbac_aliases r of None \<Rightarrow> r | Some x \<Rightarrow> x)"

definition rbac_expand :: "string \<Rightarrow> string set" where
  "rbac_expand role =
     (let perms = (case map_of rbac_role_table role of None \<Rightarrow> [] | Some ps \<Rightarrow> ps) in
      if ''*'' \<in> set perms then insert ''*'' (set (filter (\<lambda>p. p \<noteq> ''*'') (concat (map snd rbac_role_table)))) else set perms)"

record rbac_context =
  rc_user :: string
  rc_role :: string
  rc_active :: bool
  rc_blocked :: bool
  rc_extra :: "string set"

definition rc_rank :: "rbac_context \<Rightarrow> int" where
  "rc_rank c = (case rbac_ranks (rc_role c) of None \<Rightarrow> 0 | Some r \<Rightarrow> r)"

definition rc_effective :: "rbac_context \<Rightarrow> string set" where
  "rc_effective c = rbac_expand (rc_role c) \<union> rc_extra c"

definition rc_has_perm :: "rbac_context \<Rightarrow> string \<Rightarrow> bool" where
  "rc_has_perm c perm =
     (if \<not> rc_active c \<or> rc_blocked c then False else (let ep = rc_effective c in ''*'' \<in> ep \<or> perm \<in> ep))"

definition own_perms :: "string list" where
  "own_perms = [''read:own:trades'', ''read:own:signals'', ''read:own:profile'', ''read:own:license'', ''read:own:balance'',
     ''write:own:settings'', ''write:own:profile'']"

definition rc_can_access :: "rbac_context \<Rightarrow> string \<Rightarrow> string option \<Rightarrow> bool" where
  "rc_can_access c perm owner =
     (if \<not> rc_has_perm c perm then False
      else case owner of None \<Rightarrow> True | Some o' \<Rightarrow> if perm \<in> set own_perms then o' = rc_user c else True)"

definition new_rbac_cache :: perm_cache where
  "new_rbac_cache = \<lparr>pc_store = [], pc_max = 2048, pc_ttl = 60\<rparr>"

definition rc_check :: "time \<Rightarrow> rbac_context \<Rightarrow> string \<Rightarrow> perm_cache \<Rightarrow> bool \<times> perm_cache" where
  "rc_check now c perm k =
     (let key = rc_user c @ '':'' @ rc_role c @ '':'' @ perm in
      case pc_get now key k of
        (Some v, k') \<Rightarrow> (v, k')
      | (None, k') \<Rightarrow> (rc_has_perm c perm, pc_set now key (rc_has_perm c perm) k'))"

definition rc_require :: "time \<Rightarrow> rbac_context \<Rightarrow> string \<Rightarrow> perm_cache \<Rightarrow> (unit, perm_cache) outcome" where
  "rc_require now c perm k = (case rc_check now c perm k of (ok, k') \<Rightarrow> (if ok then Inr () else Inl PermissionDeniedError, k'))"

definition rc_require_resource :: "rbac_context \<Rightarrow> string \<Rightarrow> string option \<Rightarrow> exc + unit" where
  "rc_require_resource c perm owner = (if rc_can_access c perm owner then Inr () else Inl PermissionDeniedError)"

definition rc_admin_or_above :: "rbac_context \<Rightarrow> bool" where
  "rc_admin_or_above c \<longleftrightarrow> 3 \<le> rc_rank c"

definition rc_support_or_above :: "rbac_context \<Rightarrow> bool" where
  "rc_support_or_above c \<longleftrightarrow> 2 \<le> rc_rank c"

text \<open>The target role is looked up as it is written; an unknown one has rank -1.\<close>

definition rc_can_escalate_to :: "rbac_context \<Rightarrow> string \<Rightarrow> bool" where
  "rc_can_escalate_to actor target =
     (if \<not> rc_has_perm actor ''manage:users'' then False
      else (let t = (case rbac_ranks target of None \<Rightarrow> -1 | Some r \<Rightarrow> r) in rc_rank actor > t))"

subsection \<open>Facts\<close>

lemma manage_users_roles: "''*'' \<in> rbac_expand r \<or> ''manage:users'' \<in> rbac_expand r \<longleftrightarrow> r = ''admin'' \<or> r = ''super_admin''"
proof -
  have tables: "''manage:users'' \<notin> set ps \<and> ''*'' \<notin> set ps" if "(n, ps) \<in> set rbac_role_table" "n \<noteq> ''admin''" "n \<noteq> ''super_admin''" for n ps
  proof -
    have "list_all (\<lambda>(n, ps). n = ''admin'' \<or> n = ''super_admin'' \<or> ''manage:users'' \<notin> set ps \<and> ''*'' \<notin> set ps) rbac_role_table" by code_simp
    then show ?thesis using that by (fastforce simp: list_all_iff)
  qed
  show ?thesis
  proof (cases "r = ''admin'' \<or> r = ''super_admin''")
    case True
    have "''manage:users'' \<in> rbac_expand ''admin''" "''*'' \<in> rbac_expand ''super_admin''" by code_simp+
    then show ?thesis using True by auto
  next
    case False
    then show ?thesis using tables [of r, OF map_of_SomeD] by (auto simp: rbac_expand_def Let_def split: option.splits)
  qed
qed

text \<open>
  Known roles are assigned downwards only, but the spelling \<open>superadmin\<close> has no rank and may be assigned by every
  administrator, while \<open>normalize_role\<close> reads it as the role of the super administrator.
\<close>

lemma known_roles_downwards:
  "rc_can_escalate_to (c\<lparr>rc_extra := {}\<rparr>) target \<Longrightarrow> rbac_ranks target = Some t \<Longrightarrow>
     (rc_role c = ''admin'' \<and> t < 3 \<or> rc_role c = ''super_admin'' \<and> t < 4) \<and> rc_active c \<and> \<not> rc_blocked c"
  using manage_users_roles [of "rc_role c"]
  by (auto simp: rc_can_escalate_to_def rc_has_perm_def rc_effective_def rc_rank_def rbac_ranks_def Let_def split: if_splits)

lemma admin_makes_super_admin:
  assumes "rc_role c = ''admin''" and "rc_active c" and "\<not> rc_blocked c"
  shows "rc_can_escalate_to c ''superadmin'' \<and> \<not> rc_can_escalate_to c ''super_admin''
     \<and> rbac_normalize ''superadmin'' = ''super_admin'' \<and> the (rbac_ranks ''super_admin'') > the (rbac_ranks ''admin'')"
proof -
  have "rc_has_perm c ''manage:users''" using manage_users_roles [of "''admin''"] assms by (auto simp: rc_has_perm_def rc_effective_def Let_def)
  moreover have "rbac_normalize ''superadmin'' = ''super_admin''" by code_simp
  ultimately show ?thesis using assms by (simp add: rc_can_escalate_to_def rc_rank_def rbac_ranks_def)
qed

text \<open>A higher role has every permission of the lower ones.\<close>

lemma roles_are_nested:
  "rbac_expand ''readonly'' \<subseteq> rbac_expand ''customer''" "rbac_expand ''customer'' \<subseteq> rbac_expand ''support''"
  "rbac_expand ''support'' \<subseteq> rbac_expand ''admin''" "rbac_expand ''admin'' \<subseteq> rbac_expand ''super_admin''"
  by code_simp+

lemma own_resources:
  "rc_can_access c perm (Some o') \<Longrightarrow> perm \<in> set own_perms \<Longrightarrow> o' = rc_user c"
  by (auto simp: rc_can_access_def split: if_splits)

end
