(* ===== verification/License_Engine.thy ===== *)
theory License_Engine
  imports Json Market_Time
begin

section \<open>The license engine\<close>

text \<open>
  \<open>src/backend/license/engine.py\<close>: a license message carries an account, a time stamp, a nonce and an HMAC signature. It is
  checked for its fields, signature, time window and nonce, and then against the server's table. HMAC-SHA256, Python's
  \<open>str\<close> on decoded values and the parser of integer strings are parameters, bundled in \<open>license_codec\<close>; the answer of the
  database and the clock are arguments. The log calls with a format argument raise (\<open>log_with_argument\<close>).
\<close>

record license_codec =
  lc_hmac :: "string \<Rightarrow> string \<Rightarrow> string"
  lc_str :: "json \<Rightarrow> string"
  lc_int :: "string \<Rightarrow> int option"

record license_config =
  le_secret :: "string option"
  le_production :: bool
  le_window :: int

text \<open>Nonces with the second they were accepted at; the store is module-global.\<close>

type_synonym nonces = "(json, int) odict"

definition secret_configured :: "license_config \<Rightarrow> bool" where
  "secret_configured cfg = (case le_secret cfg of None \<Rightarrow> False | Some s \<Rightarrow> 16 \<le> length s)"

text \<open>\<open>int(v)\<close>; the answer \<open>None\<close> stands for \<open>ValueError\<close> and \<open>TypeError\<close>, which are both caught.\<close>

fun json_int :: "(string \<Rightarrow> int option) \<Rightarrow> json \<Rightarrow> int option" where
  "json_int parse (JInt i) = Some i"
| "json_int parse (JFloat x) = Some (if 0 \<le> x then \<lfloor>x\<rfloor> else \<lceil>x\<rceil>)"
| "json_int parse (JBool b) = Some (if b then 1 else 0)"
| "json_int parse (JStr s) = parse s"
| "json_int parse _ = None"

text \<open>A value as a dictionary key: equal numbers are one key, lists and objects are not hashable.\<close>

fun dict_key :: "json \<Rightarrow> json option" where
  "dict_key (JBool b) = Some (JInt (if b then 1 else 0))"
| "dict_key (JFloat x) = Some (if of_int \<lfloor>x\<rfloor> = x then JInt \<lfloor>x\<rfloor> else JFloat x)"
| "dict_key (JList xs) = None"
| "dict_key (JObj ms) = None"
| "dict_key v = Some v"

definition ascii_text :: "string \<Rightarrow> bool" where
  "ascii_text s = list_all (\<lambda>c. (of_char c :: nat) < 128) s"

text \<open>\<open>hmac.compare_digest\<close> raises on other values than ASCII strings.\<close>

fun compare_digest :: "json \<Rightarrow> string \<Rightarrow> exc + bool" where
  "compare_digest (JStr s) expected = (if ascii_text s then Inr (s = expected) else Inl TypeError)"
| "compare_digest _ expected = Inl TypeError"

definition required_fields :: "string list" where
  "required_fields = [''signature'', ''timestamp'', ''nonce'', ''account_id'']"

definition license_payload :: "license_codec \<Rightarrow> (string \<times> json) list \<Rightarrow> string" where
  "license_payload lc ms =
     lc_str lc (jget ''account_id'' JNull ms) @ '':'' @ lc_str lc (jget ''timestamp'' JNull ms) @ '':'' @ lc_str lc (jget ''nonce'' JNull ms)"

definition purge_nonces :: "int \<Rightarrow> nonces \<Rightarrow> nonces" where
  "purge_nonces cutoff ns = filter (\<lambda>p. \<not> snd p < cutoff) ns"

text \<open>
  \<open>_validate_internal\<close>; \<open>db\<close> is what the server check returns or raises. The log call for an inactive account is inside the
  \<open>try\<close>, and the one of its handler raises again: in both cases a TypeError leaves the method.
\<close>

definition validate_internal :: "license_codec \<Rightarrow> license_config \<Rightarrow> (string \<times> json) list \<Rightarrow> int \<Rightarrow> exc + bool \<Rightarrow> nonces \<Rightarrow> (bool, nonces) outcome" where
  "validate_internal lc cfg ms now db ns =
     (if \<not> list_all (\<lambda>f. map_of ms f \<noteq> None) required_fields then (log_with_argument, ns)
      else case compare_digest (jget ''signature'' JNull ms) (lc_hmac lc (case le_secret cfg of None \<Rightarrow> [] | Some s \<Rightarrow> s) (license_payload lc ms)) of
        Inl e \<Rightarrow> (Inl e, ns)
      | Inr False \<Rightarrow> (Inr False, ns)
      | Inr True \<Rightarrow>
          (case json_int (lc_int lc) (jget ''timestamp'' JNull ms) of
             None \<Rightarrow> (Inr False, ns)
           | Some ts \<Rightarrow>
               if \<bar>now - ts\<bar> > le_window cfg then (log_with_argument, ns)
               else (let ns1 = purge_nonces (now - le_window cfg) ns in
                     case dict_key (jget ''nonce'' JNull ms) of
                       None \<Rightarrow> (Inl TypeError, ns1)
                     | Some k \<Rightarrow>
                         if od_get ns1 k \<noteq> None then (log_with_argument, ns1)
                         else (case db of Inr True \<Rightarrow> (Inr True, od_put k now ns1) | _ \<Rightarrow> (log_with_argument, od_put k now ns1)))))"

text \<open>\<open>None\<close> is the answer without a secret in production; the handler of an error logs it with an argument.\<close>

definition validate :: "license_codec \<Rightarrow> license_config \<Rightarrow> (string \<times> json) list \<Rightarrow> int \<Rightarrow> exc + bool \<Rightarrow> nonces \<Rightarrow> (bool option, nonces) outcome" where
  "validate lc cfg ms now db ns =
     (if \<not> secret_configured cfg then (if le_production cfg then (Inr None, ns) else (Inr (Some True), ns))
      else case validate_internal lc cfg ms now db ns of (Inl e, ns') \<Rightarrow> (log_with_argument, ns') | (Inr b, ns') \<Rightarrow> (Inr (Some b), ns'))"

subsection \<open>The server's table\<close>

fun replace_z :: "string \<Rightarrow> string" where
  "replace_z [] = []"
| "replace_z (c # s) = (if c = CHR ''Z'' then ''+00:00'' @ replace_z s else c # replace_z s)"

text \<open>
  \<open>_db_check\<close> on the rows of active licenses, or the exception of the client. Every error, that of a time without an offset
  which cannot be compared among them, ends in a log call with an argument. \<open>now\<close> is in microseconds.
\<close>

definition db_check :: "(string \<Rightarrow> exc + datetime) \<Rightarrow> int \<Rightarrow> exc + json list \<Rightarrow> exc + bool" where
  "db_check other now reply =
     (case reply of
        Inl e \<Rightarrow> log_with_argument
      | Inr [] \<Rightarrow> Inr False
      | Inr (row # rows) \<Rightarrow>
          (case json_members row of
             Inl e \<Rightarrow> log_with_argument
           | Inr ms \<Rightarrow>
               (let v = jget ''expires_at'' JNull ms in
                if \<not> json_truthy v then Inr True
                else (case v of
                    JStr s \<Rightarrow> (case fromisoformat other (replace_z s) of Inr (Aware z t) \<Rightarrow> Inr (\<not> t < now) | _ \<Rightarrow> log_with_argument)
                  | _ \<Rightarrow> log_with_argument))))"

text \<open>
  Called from the thread of a running event loop, the wrapper blocks that loop for 3 seconds, so the check never runs and
  the wait times out. The handler of that error, as of every other, logs it with an argument.
\<close>

definition check_server_db_sync :: "bool \<Rightarrow> exc + bool \<Rightarrow> exc + bool" where
  "check_server_db_sync loop_running db = (if loop_running then log_with_argument else (case db of Inl e \<Rightarrow> log_with_argument | Inr b \<Rightarrow> Inr b))"

record license_stats =
  ls_configured :: bool
  ls_in_production :: bool
  ls_replay_window :: int
  ls_nonces :: nat

definition engine_stats :: "license_config \<Rightarrow> nonces \<Rightarrow> license_stats" where
  "engine_stats cfg ns = \<lparr>ls_configured = secret_configured cfg, ls_in_production = le_production cfg, ls_replay_window = le_window cfg,
     ls_nonces = length ns\<rparr>"

subsection \<open>Single use\<close>

text \<open>A call of \<open>validate\<close>: the message, the second of the clock and the answer of the server check.\<close>

type_synonym license_call = "(string \<times> json) list \<times> int \<times> (exc + bool)"

fun license_step :: "license_codec \<Rightarrow> license_config \<Rightarrow> license_call \<Rightarrow> nonces \<Rightarrow> nonces" where
  "license_step lc cfg (ms, now, db) ns = snd (validate lc cfg ms now db ns)"

definition remembers :: "json \<Rightarrow> int \<Rightarrow> nonces \<Rightarrow> bool" where
  "remembers k v ns \<longleftrightarrow> od_wf ns \<and> od_get ns k = Some v"

lemma purge_keeps: "remembers k v ns \<Longrightarrow> c \<le> v \<Longrightarrow> remembers k v (purge_nonces c ns)"
  by (simp add: remembers_def purge_nonces_def od_get_filter)

lemma validate_internal_keeps:
  assumes "remembers k v ns" and "now - le_window cfg \<le> v"
  shows "remembers k v (snd (validate_internal lc cfg ms now db ns))"
proof -
  have p: "remembers k v (purge_nonces (now - le_window cfg) ns)" using assms purge_keeps by blast
  then have "remembers k v (od_put k' now (purge_nonces (now - le_window cfg) ns))"
    if "od_get (purge_nonces (now - le_window cfg) ns) k' = None" for k'
    using that by (auto simp: remembers_def)
  then show ?thesis using assms(1) p by (auto simp: validate_internal_def Let_def split: sum.split bool.split option.split)
qed

lemma validate_keeps:
  "remembers k v ns \<Longrightarrow> now - le_window cfg \<le> v \<Longrightarrow> remembers k v (snd (validate lc cfg ms now db ns))"
  using validate_internal_keeps [of k v ns now cfg lc ms db] by (auto simp: validate_def split: prod.splits sum.splits)

lemma run_keeps:
  "remembers k v ns \<Longrightarrow> \<forall>c \<in> set cs. fst (snd c) - le_window cfg \<le> v \<Longrightarrow> remembers k v (fold (license_step lc cfg) cs ns)"
proof (induction cs arbitrary: ns)
  case (Cons c cs)
  obtain ms now db where "c = (ms, now, db)" by (cases c)
  then show ?case using Cons validate_keeps [of k v ns now cfg lc ms db] by simp
qed simp

text \<open>What an accepted message satisfies.\<close>

definition signed_message :: "license_codec \<Rightarrow> license_config \<Rightarrow> (string \<times> json) list \<Rightarrow> bool" where
  "signed_message lc cfg ms \<longleftrightarrow> list_all (\<lambda>f. map_of ms f \<noteq> None) required_fields
     \<and> compare_digest (jget ''signature'' JNull ms) (lc_hmac lc (case le_secret cfg of None \<Rightarrow> [] | Some s \<Rightarrow> s) (license_payload lc ms)) = Inr True"

lemma accepted_is_remembered:
  assumes "secret_configured cfg" and "od_wf ns" and "fst (validate lc cfg ms now db ns) = Inr (Some True)"
  obtains k ts where "dict_key (jget ''nonce'' JNull ms) = Some k" "json_int (lc_int lc) (jget ''timestamp'' JNull ms) = Some ts"
    "\<bar>now - ts\<bar> \<le> le_window cfg" "remembers k now (snd (validate lc cfg ms now db ns))" "signed_message lc cfg ms" "db = Inr True"
  using assms by (auto simp: validate_def validate_internal_def log_with_argument_def remembers_def purge_nonces_def signed_message_def Let_def
      split: prod.splits sum.splits if_splits bool.splits option.splits)

lemma signed_outcome:
  assumes "secret_configured cfg" and "signed_message lc cfg ms" and "json_int (lc_int lc) (jget ''timestamp'' JNull ms) = Some ts"
    and "dict_key (jget ''nonce'' JNull ms) = Some k"
    and "\<bar>now - ts\<bar> > le_window cfg \<or> od_get (purge_nonces (now - le_window cfg) ns) k \<noteq> None"
  shows "fst (validate lc cfg ms now db ns) = Inl TypeError"
  using assms by (auto simp: validate_def validate_internal_def log_with_argument_def signed_message_def Let_def split: prod.splits)

text \<open>
  C17: A license message is accepted once. When a message stamped no later than the moment of its acceptance is
  presented again, after any number of other messages and while the clock has not run back, it is not accepted: within the
  replay window its nonce is known, and behind it its time stamp is too old. The refusal is the TypeError of the
  log call that should report it, whatever the server says.
\<close>

theorem license_message_is_single_use:
  assumes "secret_configured cfg" and "od_wf ns"
    and "fst (validate lc cfg ms t1 db1 ns) = Inr (Some True)"
    and "json_int (lc_int lc) (jget ''timestamp'' JNull ms) = Some ts" and "ts \<le> t1"
    and "\<forall>c \<in> set cs. fst (snd c) \<le> t2"
  shows "fst (validate lc cfg ms t2 db2 (fold (license_step lc cfg) cs (snd (validate lc cfg ms t1 db1 ns)))) = Inl TypeError"
proof -
  let ?ns = "fold (license_step lc cfg) cs (snd (validate lc cfg ms t1 db1 ns))"
  obtain k where k: "dict_key (jget ''nonce'' JNull ms) = Some k" "remembers k t1 (snd (validate lc cfg ms t1 db1 ns))" "signed_message lc cfg ms"
    using accepted_is_remembered [OF assms(1-3)] by blast
  have "\<bar>t2 - ts\<bar> > le_window cfg \<or> od_get (purge_nonces (t2 - le_window cfg) ?ns) k \<noteq> None"
  proof (cases "t2 - le_window cfg \<le> t1")
    case True
    have "\<forall>c \<in> set cs. fst (snd c) - le_window cfg \<le> t1" using assms(6) True by force
    from purge_keeps [OF run_keeps [OF k(2) this] True] show ?thesis by (simp add: remembers_def)
  next
    case False
    then have "le_window cfg < \<bar>t2 - ts\<bar>" using assms(5) by linarith
    then show ?thesis ..
  qed
  then show ?thesis by (rule signed_outcome [OF assms(1) k(3) assms(4) k(1)])
qed

definition sample_codec :: license_codec where
  "sample_codec = \<lparr>lc_hmac = (\<lambda>key msg. rev msg), lc_str = (\<lambda>v. case v of JStr s \<Rightarrow> s | _ \<Rightarrow> ''n''), lc_int = (\<lambda>s. None)\<rparr>"

definition sample_config :: license_config where
  "sample_config = \<lparr>le_secret = Some ''0123456789abcdef'', le_production = True, le_window = 300\<rparr>"

definition sample_message :: "int \<Rightarrow> (string \<times> json) list" where
  "sample_message ts = [(''account_id'', JStr ''a''), (''timestamp'', JInt ts), (''nonce'', JStr ''x''), (''signature'', JStr ''x:n:a'')]"

theorem license_message_is_single_use_witness:
  "fst (validate sample_codec sample_config (sample_message 1000) 1100 (Inr True)
     (fold (license_step sample_codec sample_config) [(sample_message 1001, 1050, Inr True)]
       (snd (validate sample_codec sample_config (sample_message 1000) 1000 (Inr True) [])))) = Inl TypeError"
proof (rule license_message_is_single_use)
  show "secret_configured sample_config" "od_wf ([] :: nonces)"
    "fst (validate sample_codec sample_config (sample_message 1000) 1000 (Inr True) []) = Inr (Some True)"
    "json_int (lc_int sample_codec) (jget ''timestamp'' JNull (sample_message 1000)) = Some 1000" by code_simp+
qed simp_all

text \<open>A message stamped ahead of the clock is accepted a second time when its nonce has been dropped.\<close>

lemma future_message_replayed:
  "fst (validate sample_codec sample_config (sample_message 1300) 1000 (Inr True) []) = Inr (Some True)
   \<and> fst (validate sample_codec sample_config (sample_message 1300) 1301 (Inr True)
       (snd (validate sample_codec sample_config (sample_message 1300) 1000 (Inr True) []))) = Inr (Some True)"
  by code_simp

subsection \<open>Errors become a TypeError\<close>

text \<open>With a secret the method never answers \<open>None\<close>: where it should fail closed it raises.\<close>

lemma errors_are_raised: "secret_configured cfg \<Longrightarrow> fst (validate lc cfg ms now db ns) \<noteq> Inr None"
  by (simp add: validate_def log_with_argument_def split: prod.split sum.split)

text \<open>The comment on a failure of the database promises to go on without it. The call raises, and the nonce is spent.\<close>

lemma database_error_raises:
  "secret_configured cfg \<Longrightarrow> db \<noteq> Inr True \<Longrightarrow> fst (validate lc cfg ms now db ns) \<noteq> Inr (Some True)"
  by (auto simp: validate_def validate_internal_def log_with_argument_def Let_def split: prod.splits sum.splits if_splits bool.splits option.splits)

text \<open>From the thread of a running loop no license is valid.\<close>

lemma no_license_in_a_running_loop:
  "secret_configured cfg \<Longrightarrow> fst (validate lc cfg ms now (check_server_db_sync True db) ns) \<noteq> Inr (Some True)"
  by (rule database_error_raises) (simp_all add: check_server_db_sync_def log_with_argument_def)

lemma inactive_account_refused:
  "secret_configured cfg \<Longrightarrow> fst (validate lc cfg ms now (check_server_db_sync False (db_check other us (Inr []))) ns) \<noteq> Inr (Some True)"
  by (rule database_error_raises) (simp_all add: check_server_db_sync_def db_check_def)

end
