(* ===== verification/Incident.thy ===== *)
theory Incident
  imports Contracts
begin

section \<open>Incidents and their kill switches\<close>

text \<open>
  \<open>src/backend/core/incident.py\<close>: the kill switches per target, the alert router with its deduplication, the incidents
  with their life cycle, the escalation of overdue incidents and the runbooks. As in the module's singletons, the kill
  switches, the manager and the escalation share one router. Fresh ids and clock readings are arguments; what is
  recorded with the audit logger is a log, since whatever the logger raises is swallowed.
\<close>

subsection \<open>Vocabulary\<close>

datatype incident_severity = P1 | P2 | P3 | P4

fun sla_seconds :: "incident_severity \<Rightarrow> real" where
  "sla_seconds P1 = 900"
| "sla_seconds P2 = 3600"
| "sla_seconds P3 = 14400"
| "sla_seconds P4 = 86400"

fun severity_channels :: "incident_severity \<Rightarrow> string list" where
  "severity_channels P1 = [''pagerduty'', ''telegram'', ''webhook'', ''email'']"
| "severity_channels P2 = [''telegram'', ''webhook'', ''email'']"
| "severity_channels P3 = [''telegram'', ''webhook'']"
| "severity_channels P4 = [''telegram'']"

datatype incident_reason =
    DrawdownLimit | FlashCrash | EquityFloor | HeartbeatLoss | AbnormalVolume
  | AbuseDetected | FraudDetected | CredentialCompromise | MultipleViolations | SuspiciousActivity
  | PaymentFailure | Chargeback | SubscriptionExpired
  | SystemOutage | DataIntegrity | ComplianceRequirement
  | ManualAdmin | ScheduledMaintenance | Recovery
  | VulnerableRelease | MalformedArtifact

datatype kill_target = BotTarget | DeviceTarget | LicenseTarget | UserTarget | TenantTarget | ReleaseTarget | GlobalTarget

datatype incident_state = IncOpen | Acknowledged | Contained | Resolved | IncClosed | FalseAlarm

record kill_entry =
  ki_target :: kill_target
  ki_target_id :: string
  ki_reason :: incident_reason
  ki_note :: string
  ki_severity :: incident_severity
  ki_actor :: string
  ki_tenant :: string
  ki_at :: time
  ki_incident :: "string option"
  ki_ttl :: "real option"

definition kill_expired :: "time \<Rightarrow> kill_entry \<Rightarrow> bool" where
  "kill_expired now e = (case ki_ttl e of None \<Rightarrow> False | Some ttl \<Rightarrow> now - ki_at e > ttl)"

datatype timeline_action = Opened string incident_severity | KillActivated string kill_target | StateChanged incident_state incident_state string

record timeline_event =
  te_ts :: time
  te_actor :: string
  te_action :: timeline_action

record incident =
  in_title :: string
  in_severity :: incident_severity
  in_reason :: incident_reason
  in_tenant :: string
  in_reporter :: string
  in_state :: incident_state
  in_created :: time
  in_acknowledged :: "time option"
  in_contained :: "time option"
  in_resolved :: "time option"
  in_closed :: "time option"
  in_timeline :: "timeline_event list"
  in_kills :: "string list"
  in_tags :: "string list"
  in_runbook :: "string option"

definition log_event :: "time \<Rightarrow> string \<Rightarrow> timeline_action \<Rightarrow> incident \<Rightarrow> incident" where
  "log_event now actor a i = i\<lparr>in_timeline := in_timeline i @ [\<lparr>te_ts = now, te_actor = actor, te_action = a\<rparr>]\<rparr>"

definition sla_breached :: "time \<Rightarrow> incident \<Rightarrow> bool" where
  "sla_breached now i =
     (if in_state i \<in> {Resolved, IncClosed, FalseAlarm} then False else now - in_created i > sla_seconds (in_severity i))"

subsection \<open>The alert router\<close>

datatype alert_message =
    KillAlert kill_target string string
  | OpenedAlert incident_severity string
  | SlaAlert string incident_severity real

datatype channel_result = Sent | HandlerError string | NoHandler

text \<open>A handler answers nothing, or the text of what it raised.\<close>

type_synonym alert_handler = "alert_message \<Rightarrow> incident_severity \<Rightarrow> string option"

record alert_record =
  ar_ts :: time
  ar_message :: alert_message
  ar_severity :: incident_severity
  ar_channels :: "(string \<times> channel_result) list"
  ar_dedup :: "string option"

record alert_router =
  al_dedup :: "(incident_severity \<times> string, time) odict"
  al_history :: "alert_record list"
  al_handlers :: "(string, alert_handler list) odict"
  al_sent :: nat

definition new_router :: alert_router where
  "new_router = \<lparr>al_dedup = [], al_history = [], al_handlers = [], al_sent = 0\<rparr>"

definition dedup_window :: real where "dedup_window = 300"
definition history_max :: nat where "history_max = 1000"

definition register_handler :: "string \<Rightarrow> alert_handler \<Rightarrow> alert_router \<Rightarrow> alert_router" where
  "register_handler ch h r =
     r\<lparr>al_handlers := od_put ch ((case od_get (al_handlers r) ch of None \<Rightarrow> [] | Some hs \<Rightarrow> hs) @ [h]) (al_handlers r)\<rparr>"

text \<open>The result of the last handler of a channel stands for the channel.\<close>

definition channel_result :: "alert_router \<Rightarrow> alert_message \<Rightarrow> incident_severity \<Rightarrow> string \<Rightarrow> channel_result" where
  "channel_result r m sev ch =
     (case od_get (al_handlers r) ch of
        None \<Rightarrow> NoHandler
      | Some hs \<Rightarrow> if hs = [] then NoHandler else (case last hs m sev of None \<Rightarrow> Sent | Some e \<Rightarrow> HandlerError e))"

datatype routed = Deduped | Routed "(string \<times> channel_result) list"

definition is_duplicate :: "time \<Rightarrow> incident_severity \<Rightarrow> string \<Rightarrow> alert_router \<Rightarrow> bool" where
  "is_duplicate now sev key r \<longleftrightarrow> now - (case od_get (al_dedup r) (sev, key) of None \<Rightarrow> 0 | Some t \<Rightarrow> t) < dedup_window"

definition route :: "time \<Rightarrow> alert_message \<Rightarrow> incident_severity \<Rightarrow> string option \<Rightarrow> alert_router \<Rightarrow> routed \<times> alert_router" where
  "route now m sev key r =
     (let keyed = (case key of None \<Rightarrow> False | Some k \<Rightarrow> k \<noteq> []) in
      if keyed \<and> is_duplicate now sev (the key) r then (Deduped, r)
      else (let r1 = (if keyed then r\<lparr>al_dedup := od_put (sev, the key) now (al_dedup r)\<rparr> else r);
                res = map (\<lambda>ch. (ch, channel_result r1 m sev ch)) (severity_channels sev) in
            (Routed res, r1\<lparr>al_history := take_last history_max (al_history r1 @
                 [\<lparr>ar_ts = now, ar_message = m, ar_severity = sev, ar_channels = res, ar_dedup = key\<rparr>]),
               al_sent := al_sent r1 + 1\<rparr>)))"

definition alert_history :: "nat \<Rightarrow> alert_router \<Rightarrow> alert_record list" where
  "alert_history limit r = (if limit = 0 then al_history r else take_last limit (al_history r))"

subsection \<open>The desk: kill switches, incidents and what they log\<close>

datatype audit_call =
    AuditKill string string incident_reason kill_target string string string
  | AuditKillReset string string string kill_target string string
  | AuditOpened string string incident_reason string string
  | AuditState string string string incident_state incident_state

record desk =
  dk_entries :: "(string, kill_entry) odict"
  dk_index :: "(kill_target \<times> string, string list) odict"
  dk_global :: bool
  dk_router :: alert_router
  dk_incidents :: "(string, incident) odict"
  dk_escalated :: "string list"
  dk_audit :: "audit_call list"

definition new_desk :: desk where
  "new_desk = \<lparr>dk_entries = [], dk_index = [], dk_global = False, dk_router = new_router, dk_incidents = [], dk_escalated = [], dk_audit = []\<rparr>"

definition desk_audit :: "audit_call \<Rightarrow> desk \<Rightarrow> desk" where
  "desk_audit a d = d\<lparr>dk_audit := dk_audit d @ [a]\<rparr>"

definition desk_route :: "time \<Rightarrow> alert_message \<Rightarrow> incident_severity \<Rightarrow> string \<Rightarrow> desk \<Rightarrow> desk" where
  "desk_route now m sev key d = d\<lparr>dk_router := snd (route now m sev (Some key) (dk_router d))\<rparr>"

definition index_of :: "desk \<Rightarrow> kill_target \<times> string \<Rightarrow> string list" where
  "index_of d t = (case od_get (dk_index d) t of None \<Rightarrow> [] | Some ks \<Rightarrow> ks)"

definition index_add :: "kill_target \<times> string \<Rightarrow> string \<Rightarrow> desk \<Rightarrow> desk" where
  "index_add t k d = d\<lparr>dk_index := od_put t (if k \<in> set (index_of d t) then index_of d t else index_of d t @ [k]) (dk_index d)\<rparr>"

definition index_discard :: "kill_target \<times> string \<Rightarrow> string \<Rightarrow> desk \<Rightarrow> desk" where
  "index_discard t k d = d\<lparr>dk_index := od_put t (filter (\<lambda>x. x \<noteq> k) (index_of d t)) (dk_index d)\<rparr>"

text \<open>The texts of the deduplication keys: the values of the enumerations are written by \<open>target_name\<close>.\<close>

fun target_name :: "kill_target \<Rightarrow> string" where
  "target_name BotTarget = ''bot''"
| "target_name DeviceTarget = ''device''"
| "target_name LicenseTarget = ''license''"
| "target_name UserTarget = ''user''"
| "target_name TenantTarget = ''tenant''"
| "target_name ReleaseTarget = ''release''"
| "target_name GlobalTarget = ''global''"

definition activate_kill :: "time \<Rightarrow> string \<Rightarrow> kill_target \<Rightarrow> string \<Rightarrow> incident_reason \<Rightarrow> string \<Rightarrow> string \<Rightarrow> string \<Rightarrow> incident_severity
    \<Rightarrow> string option \<Rightarrow> real option \<Rightarrow> desk \<Rightarrow> (kill_entry, desk) outcome" where
  "activate_kill now ks_id target tid reason actor tenant why sev inc ttl d =
     (if why = [] then (Inl ValueError, d)
      else (let e = \<lparr>ki_target = target, ki_target_id = tid, ki_reason = reason, ki_note = why, ki_severity = sev, ki_actor = actor,
                     ki_tenant = tenant, ki_at = now, ki_incident = inc, ki_ttl = ttl\<rparr>;
                d1 = index_add (target, tid) ks_id (d\<lparr>dk_entries := od_put ks_id e (dk_entries d)\<rparr>);
                d2 = (if target = GlobalTarget then d1\<lparr>dk_global := True\<rparr> else d1);
                d3 = desk_audit (AuditKill actor tenant reason target tid ks_id why) d2 in
            (Inr e, desk_route now (KillAlert target tid why) sev (''ks:'' @ target_name target @ '':'' @ tid) d3)))"

definition live_global :: "time \<Rightarrow> (string, kill_entry) odict \<Rightarrow> bool" where
  "live_global now es = list_ex (\<lambda>(k, e). \<not> kill_expired now e \<and> ki_target e = GlobalTarget) es"

definition reset_kill :: "time \<Rightarrow> string \<Rightarrow> string \<Rightarrow> string \<Rightarrow> string \<Rightarrow> desk \<Rightarrow> (bool, desk) outcome" where
  "reset_kill now ks_id actor tenant why d =
     (if why = [] then (Inl ValueError, d)
      else case od_get (dk_entries d) ks_id of
        None \<Rightarrow> (Inr False, d)
      | Some e \<Rightarrow>
          (let d1 = index_discard (ki_target e, ki_target_id e) ks_id (d\<lparr>dk_entries := od_del ks_id (dk_entries d)\<rparr>);
               d2 = (if ki_target e = GlobalTarget then d1\<lparr>dk_global := live_global now (dk_entries d1)\<rparr> else d1) in
           (Inr True, desk_audit (AuditKillReset actor tenant ks_id (ki_target e) (ki_target_id e) why) d2)))"

fun reset_each :: "time \<Rightarrow> string list \<Rightarrow> string \<Rightarrow> string \<Rightarrow> string \<Rightarrow> nat \<Rightarrow> desk \<Rightarrow> nat \<times> desk" where
  "reset_each now [] actor tenant why n d = (n, d)"
| "reset_each now (k # ks) actor tenant why n d =
     (case reset_kill now k actor tenant why d of
        (r, d') \<Rightarrow> reset_each now ks actor tenant why (if r = Inr True then n + 1 else n) d')"

definition reset_all_kills :: "time \<Rightarrow> kill_target \<Rightarrow> string \<Rightarrow> string \<Rightarrow> string \<Rightarrow> string \<Rightarrow> desk \<Rightarrow> (nat, desk) outcome" where
  "reset_all_kills now target tid actor tenant why d =
     (if why = [] then (Inl ValueError, d)
      else (case reset_each now (index_of d (target, tid)) actor tenant why 0 d of (n, d') \<Rightarrow> (Inr n, d')))"

definition purge_one :: "string \<Rightarrow> desk \<Rightarrow> desk" where
  "purge_one k d =
     (case od_get (dk_entries d) k of
        None \<Rightarrow> d
      | Some e \<Rightarrow> index_discard (ki_target e, ki_target_id e) k (d\<lparr>dk_entries := od_del k (dk_entries d)\<rparr>))"

definition purge_expired :: "time \<Rightarrow> desk \<Rightarrow> desk" where
  "purge_expired now d =
     (let d' = fold purge_one (map fst (filter (\<lambda>(k, e). kill_expired now e) (dk_entries d))) d in
      d'\<lparr>dk_global := live_global now (dk_entries d')\<rparr>)"

text \<open>\<open>check\<close> raises \<open>KillSwitchError\<close> with the target and the reason; \<open>is_blocked\<close> tells whether it does.\<close>

datatype kill_error = GlobalKill | TargetKill kill_target string incident_reason

definition check_kill :: "time \<Rightarrow> kill_target \<Rightarrow> string \<Rightarrow> desk \<Rightarrow> kill_error option \<times> desk" where
  "check_kill now target tid d =
     (let d' = purge_expired now d in
      (if dk_global d' then Some GlobalKill
       else case List.map_filter (\<lambda>k. case od_get (dk_entries d') k of None \<Rightarrow> None
                | Some e \<Rightarrow> if kill_expired now e then None else Some (ki_reason e)) (index_of d' (target, tid)) of
         [] \<Rightarrow> None | r # rs \<Rightarrow> Some (TargetKill target tid r), d'))"

definition is_blocked :: "time \<Rightarrow> kill_target \<Rightarrow> string \<Rightarrow> desk \<Rightarrow> bool \<times> desk" where
  "is_blocked now target tid d = (case check_kill now target tid d of (r, d') \<Rightarrow> (r \<noteq> None, d'))"

definition list_active :: "time \<Rightarrow> kill_target option \<Rightarrow> string option \<Rightarrow> desk \<Rightarrow> (string \<times> kill_entry) list \<times> desk" where
  "list_active now target tenant d =
     (let d' = purge_expired now d in
      (filter (\<lambda>(k, e). \<not> kill_expired now e \<and> (target = None \<or> target = Some (ki_target e))
          \<and> (case tenant of None \<Rightarrow> True | Some t \<Rightarrow> t = [] \<or> ki_tenant e = t)) (dk_entries d'), d'))"

definition active_count :: "time \<Rightarrow> desk \<Rightarrow> nat \<times> desk" where
  "active_count now d = (let d' = purge_expired now d in (length (filter (\<lambda>(k, e). \<not> kill_expired now e) (dk_entries d')), d'))"

subsection \<open>Incidents\<close>

fun incident_transitions :: "incident_state \<Rightarrow> incident_state list" where
  "incident_transitions IncOpen = [Acknowledged, FalseAlarm]"
| "incident_transitions Acknowledged = [Contained, FalseAlarm]"
| "incident_transitions Contained = [Resolved]"
| "incident_transitions Resolved = [IncClosed]"
| "incident_transitions IncClosed = []"
| "incident_transitions FalseAlarm = []"

definition open_incident :: "time \<Rightarrow> string \<Rightarrow> string \<Rightarrow> string \<Rightarrow> incident_severity \<Rightarrow> incident_reason \<Rightarrow> string \<Rightarrow> string \<Rightarrow> string list
    \<Rightarrow> string option \<Rightarrow> (kill_target \<times> string) option \<Rightarrow> string \<Rightarrow> desk \<Rightarrow> (incident, desk) outcome" where
  "open_incident now inc_id ks_id title sev reason tenant reporter tags incident_runbook auto_kill why d =
     (if auto_kill \<noteq> None \<and> why = [] then (Inl ValueError, d)
      else (let i0 = log_event now reporter (Opened title sev)
                  \<lparr>in_title = title, in_severity = sev, in_reason = reason, in_tenant = tenant, in_reporter = reporter, in_state = IncOpen,
                   in_created = now, in_acknowledged = None, in_contained = None, in_resolved = None, in_closed = None,
                   in_timeline = [], in_kills = [], in_tags = tags, in_runbook = incident_runbook\<rparr>;
                (i1, d1) = (case auto_kill of None \<Rightarrow> (i0, d)
                  | Some (target, tid) \<Rightarrow>
                      (log_event now reporter (KillActivated ks_id target) (i0\<lparr>in_kills := [ks_id]\<rparr>),
                       snd (activate_kill now ks_id target tid reason reporter tenant why sev (Some inc_id) None d)));
                d2 = desk_route now (OpenedAlert sev title) sev (''inc:'' @ inc_id) (d1\<lparr>dk_incidents := od_put inc_id i1 (dk_incidents d1)\<rparr>)
            in (Inr i1, desk_audit (AuditOpened reporter tenant reason inc_id title) d2)))"

definition stamp_state :: "incident_state \<Rightarrow> time \<Rightarrow> incident \<Rightarrow> incident" where
  "stamp_state s now i =
     (case s of Acknowledged \<Rightarrow> i\<lparr>in_acknowledged := Some now\<rparr> | Contained \<Rightarrow> i\<lparr>in_contained := Some now\<rparr>
      | Resolved \<Rightarrow> i\<lparr>in_resolved := Some now\<rparr> | IncClosed \<Rightarrow> i\<lparr>in_closed := Some now\<rparr> | _ \<Rightarrow> i)"

definition transition_incident :: "time \<Rightarrow> string \<Rightarrow> incident_state \<Rightarrow> string \<Rightarrow> string \<Rightarrow> desk \<Rightarrow> (incident, desk) outcome" where
  "transition_incident now inc_id new actor why d =
     (case od_get (dk_incidents d) inc_id of
        None \<Rightarrow> (Inl KeyError, d)
      | Some i \<Rightarrow>
          if new \<notin> set (incident_transitions (in_state i)) then (Inl ValueError, d)
          else (let i' = log_event now actor (StateChanged (in_state i) new why) (stamp_state new now (i\<lparr>in_state := new\<rparr>)) in
                (Inr i', desk_audit (AuditState actor (in_tenant i) inc_id (in_state i) new)
                   (d\<lparr>dk_incidents := od_put inc_id i' (dk_incidents d)\<rparr>))))"

definition list_incidents :: "string option \<Rightarrow> incident_state option \<Rightarrow> incident_severity option \<Rightarrow> nat \<Rightarrow> desk \<Rightarrow> (string \<times> incident) list" where
  "list_incidents tenant st sev limit d =
     take limit (sort_key (\<lambda>(k, i). - in_created i) (filter (\<lambda>(k, i).
        (case tenant of None \<Rightarrow> True | Some t \<Rightarrow> t = [] \<or> in_tenant i = t) \<and> (st = None \<or> st = Some (in_state i))
        \<and> (sev = None \<or> sev = Some (in_severity i))) (dk_incidents d)))"

definition get_timeline :: "string \<Rightarrow> desk \<Rightarrow> exc + timeline_event list" where
  "get_timeline inc_id d = (case od_get (dk_incidents d) inc_id of None \<Rightarrow> Inl KeyError | Some i \<Rightarrow> Inr (in_timeline i))"

definition open_count :: "desk \<Rightarrow> nat" where
  "open_count d = length (filter (\<lambda>(k, i). in_state i \<notin> {IncClosed, Resolved, FalseAlarm}) (dk_incidents d))"

subsection \<open>Escalation\<close>

definition overdue :: "time \<Rightarrow> desk \<Rightarrow> string \<times> incident \<Rightarrow> bool" where
  "overdue now d p \<longleftrightarrow> in_state (snd p) = IncOpen \<and> fst p \<notin> set (dk_escalated d)
     \<and> now - in_created (snd p) > sla_seconds (in_severity (snd p))"

definition escalate_one :: "time \<Rightarrow> string \<times> incident \<Rightarrow> string list \<times> desk \<Rightarrow> string list \<times> desk" where
  "escalate_one now p acc =
     (case acc of (out, d) \<Rightarrow>
        if overdue now d p
        then (out @ [fst p], desk_route now (SlaAlert (fst p) (in_severity (snd p)) (now - in_created (snd p))) P1
               (''escalate:'' @ fst p) (d\<lparr>dk_escalated := dk_escalated d @ [fst p]\<rparr>))
        else (out, d))"

definition check_escalations :: "time \<Rightarrow> desk \<Rightarrow> string list \<times> desk" where
  "check_escalations now d = fold (escalate_one now) (dk_incidents d) ([], d)"

definition already_escalated :: "string \<Rightarrow> desk \<Rightarrow> bool" where
  "already_escalated inc_id d \<longleftrightarrow> inc_id \<in> set (dk_escalated d)"

subsection \<open>Runbooks\<close>

text \<open>A incident_runbook with its number of steps; the texts of the steps are left out.\<close>

record incident_runbook =
  rb_id :: string
  rb_severity :: incident_severity
  rb_reason :: incident_reason
  rb_tags :: "string list"
  rb_steps :: nat

definition runbooks :: "incident_runbook list" where
  "runbooks =
     [\<lparr>rb_id = ''RB-001-ABUSE'', rb_severity = P2, rb_reason = AbuseDetected, rb_tags = [''security'', ''license'', ''user''], rb_steps = 6\<rparr>,
      \<lparr>rb_id = ''RB-002-COMPROMISE'', rb_severity = P1, rb_reason = CredentialCompromise, rb_tags = [''security'', ''p1'', ''breach''], rb_steps = 8\<rparr>,
      \<lparr>rb_id = ''RB-003-DRAWDOWN'', rb_severity = P1, rb_reason = DrawdownLimit, rb_tags = [''risk'', ''trading'', ''p1''], rb_steps = 6\<rparr>,
      \<lparr>rb_id = ''RB-004-BILLING'', rb_severity = P3, rb_reason = PaymentFailure, rb_tags = [''billing'', ''license''], rb_steps = 6\<rparr>,
      \<lparr>rb_id = ''RB-005-OUTAGE'', rb_severity = P1, rb_reason = SystemOutage, rb_tags = [''infrastructure'', ''p1'', ''sre''], rb_steps = 6\<rparr>,
      \<lparr>rb_id = ''RB-006-RECOVERY'', rb_severity = P3, rb_reason = Recovery, rb_tags = [''recovery'', ''verification''], rb_steps = 7\<rparr>]"

definition find_by_reason :: "incident_reason \<Rightarrow> incident_runbook option" where
  "find_by_reason r = find (\<lambda>b. rb_reason b = r) runbooks"

definition find_by_tag :: "string \<Rightarrow> incident_runbook list" where
  "find_by_tag t = filter (\<lambda>b. t \<in> set (rb_tags b)) runbooks"

subsection \<open>Runs\<close>

datatype response_op =
    Activate time string kill_target string incident_reason string string string incident_severity "string option" "real option"
  | Reset time string string string string
  | ResetAll time kill_target string string string string
  | CheckKill time kill_target string
  | OpenIncident time string string string incident_severity incident_reason string string "string list" "string option" "(kill_target \<times> string) option" string
  | Transition time string incident_state string string
  | Escalate time

fun response_step :: "response_op \<Rightarrow> desk \<Rightarrow> desk" where
  "response_step (Activate now k target tid r actor tenant why sev inc ttl) d = snd (activate_kill now k target tid r actor tenant why sev inc ttl d)"
| "response_step (Reset now k actor tenant why) d = snd (reset_kill now k actor tenant why d)"
| "response_step (ResetAll now target tid actor tenant why) d = snd (reset_all_kills now target tid actor tenant why d)"
| "response_step (CheckKill now target tid) d = snd (check_kill now target tid d)"
| "response_step (OpenIncident now i k title sev r tenant reporter tags rb auto why) d =
     snd (open_incident now i k title sev r tenant reporter tags rb auto why d)"
| "response_step (Transition now i s actor why) d = snd (transition_incident now i s actor why d)"
| "response_step (Escalate now) d = snd (check_escalations now d)"

text \<open>The id that an operation gives to a new kill switch.\<close>

fun new_kill_id :: "response_op \<Rightarrow> string list" where
  "new_kill_id (Activate now k target tid r actor tenant why sev inc ttl) = [k]"
| "new_kill_id (OpenIncident now i k title sev r tenant reporter tags rb auto why) = (if auto = None then [] else [k])"
| "new_kill_id _ = []"

subsection \<open>The index of the kill switches\<close>

text \<open>The entries are a dictionary, and the index lists under a target exactly the ids of its entries.\<close>

definition indexed :: "desk \<Rightarrow> bool" where
  "indexed d \<longleftrightarrow> od_wf (dk_entries d)
     \<and> (\<forall>t k. k \<in> set (index_of d t) \<longleftrightarrow> (\<exists>e. od_get (dk_entries d) k = Some e \<and> t = (ki_target e, ki_target_id e)))"

lemma index_of_update [simp]:
  "index_of (d\<lparr>dk_entries := es\<rparr>) = index_of d" "index_of (d\<lparr>dk_global := b\<rparr>) = index_of d" "index_of (d\<lparr>dk_incidents := is\<rparr>) = index_of d"
  "index_of (desk_audit a d) = index_of d" "index_of (desk_route now m sev key d) = index_of d" "index_of (d\<lparr>dk_escalated := xs\<rparr>) = index_of d"
  by (rule ext, simp add: index_of_def desk_audit_def desk_route_def)+

lemma desk_log_simps [simp]:
  "dk_entries (desk_audit a d) = dk_entries d" "dk_entries (desk_route now m sev key d) = dk_entries d"
  "dk_incidents (desk_audit a d) = dk_incidents d" "dk_incidents (desk_route now m sev key d) = dk_incidents d"
  "dk_entries (index_add t k d) = dk_entries d" "dk_entries (index_discard t k d) = dk_entries d"
  "dk_incidents (index_add t k d) = dk_incidents d" "dk_incidents (index_discard t k d) = dk_incidents d"
  "dk_escalated (desk_route now m sev key d) = dk_escalated d"
  by (simp_all add: desk_audit_def desk_route_def index_add_def index_discard_def)

lemma index_of_add [simp]: "set (index_of (index_add t k d) t') = (if t' = t then insert k (set (index_of d t')) else set (index_of d t'))"
  by (auto simp: index_add_def index_of_def)

lemma index_of_discard [simp]: "set (index_of (index_discard t k d) t') = (if t' = t then set (index_of d t') - {k} else set (index_of d t'))"
  by (auto simp: index_discard_def index_of_def)

lemma indexed_cong: "dk_entries d = dk_entries d' \<Longrightarrow> index_of d = index_of d' \<Longrightarrow> indexed d \<longleftrightarrow> indexed d'"
  by (simp add: indexed_def)

lemma indexed_logs [simp]:
  "indexed (desk_audit a d) = indexed d" "indexed (desk_route now m sev key d) = indexed d" "indexed (d\<lparr>dk_global := b\<rparr>) = indexed d"
  "indexed (d\<lparr>dk_incidents := is\<rparr>) = indexed d" "indexed (d\<lparr>dk_escalated := xs\<rparr>) = indexed d"
  by (simp_all add: indexed_def)

lemma indexed_insert:
  assumes "indexed d" and "k \<notin> fst ` set (dk_entries d)"
  shows "indexed (index_add (ki_target e, ki_target_id e) k (d\<lparr>dk_entries := od_put k e (dk_entries d)\<rparr>))"
proof -
  have "od_get (dk_entries d) k = None" using assms(2) by (simp add: od_get_None_iff)
  then show ?thesis using assms(1) by (auto simp: indexed_def)
qed

lemma indexed_remove:
  assumes "indexed d" and "od_get (dk_entries d) k = Some e"
  shows "indexed (index_discard (ki_target e, ki_target_id e) k (d\<lparr>dk_entries := od_del k (dk_entries d)\<rparr>))"
  using assms by (auto simp: indexed_def)

lemma activate_effect:
  assumes "why \<noteq> []"
  shows "dk_entries (snd (activate_kill now k target tid r actor tenant why sev inc ttl d)) = od_put k
      \<lparr>ki_target = target, ki_target_id = tid, ki_reason = r, ki_note = why, ki_severity = sev, ki_actor = actor,
       ki_tenant = tenant, ki_at = now, ki_incident = inc, ki_ttl = ttl\<rparr> (dk_entries d)"
    and "dk_incidents (snd (activate_kill now k target tid r actor tenant why sev inc ttl d)) = dk_incidents d"
  using assms by (simp_all add: activate_kill_def Let_def)

lemma activate_indexed:
  assumes "indexed d" and "k \<notin> fst ` set (dk_entries d)"
  shows "indexed (snd (activate_kill now k target tid r actor tenant why sev inc ttl d))"
  using assms indexed_insert [OF assms, of "\<lparr>ki_target = target, ki_target_id = tid, ki_reason = r, ki_note = why, ki_severity = sev,
      ki_actor = actor, ki_tenant = tenant, ki_at = now, ki_incident = inc, ki_ttl = ttl\<rparr>"]
  by (cases "target = GlobalTarget") (simp_all add: activate_kill_def Let_def)

lemma reset_entries:
  "dk_entries (snd (reset_kill now k actor tenant why d)) = (if why = [] then dk_entries d else od_del k (dk_entries d))"
  by (auto simp: reset_kill_def Let_def od_get_None_iff od_del_notin split: option.split)

lemma reset_incidents [simp]: "dk_incidents (snd (reset_kill now k actor tenant why d)) = dk_incidents d"
  by (simp add: reset_kill_def Let_def split: option.split)

lemma reset_indexed: "indexed d \<Longrightarrow> indexed (snd (reset_kill now k actor tenant why d))"
  using indexed_remove [of d k] by (auto simp: reset_kill_def Let_def split: option.split)

lemma reset_each_effect:
  "why \<noteq> [] \<Longrightarrow> dk_entries (snd (reset_each now ks actor tenant why n d)) = filter (\<lambda>p. fst p \<notin> set ks) (dk_entries d)
    \<and> dk_incidents (snd (reset_each now ks actor tenant why n d)) = dk_incidents d"
proof (induction ks arbitrary: n d)
  case (Cons k ks)
  obtain r d' where d': "reset_kill now k actor tenant why d = (r, d')" by (cases "reset_kill now k actor tenant why d")
  then have "dk_entries d' = od_del k (dk_entries d)" "dk_incidents d' = dk_incidents d"
    using reset_entries [of now k actor tenant why d] reset_incidents [of now k actor tenant why d] Cons.prems by simp_all
  then show ?case using Cons d' by (auto simp: od_del_def intro: filter_cong)
qed simp

lemma reset_each_indexed: "indexed d \<Longrightarrow> indexed (snd (reset_each now ks actor tenant why n d))"
proof (induction ks arbitrary: n d)
  case (Cons k ks)
  obtain r d' where d': "reset_kill now k actor tenant why d = (r, d')" by (cases "reset_kill now k actor tenant why d")
  then have "indexed d'" using reset_indexed [OF Cons.prems, of now k actor tenant why] by simp
  then show ?case using Cons.IH d' by simp
qed simp

lemma purge_one_effect: "dk_entries (purge_one k d) = od_del k (dk_entries d)" "dk_incidents (purge_one k d) = dk_incidents d"
  by (auto simp: purge_one_def od_get_None_iff od_del_notin split: option.split)

lemma purge_one_indexed: "indexed d \<Longrightarrow> indexed (purge_one k d)"
  using indexed_remove [of d k] by (auto simp: purge_one_def split: option.split)

lemma purge_fold:
  "dk_entries (fold purge_one ks d) = filter (\<lambda>p. fst p \<notin> set ks) (dk_entries d)" "dk_incidents (fold purge_one ks d) = dk_incidents d"
  by (induction ks arbitrary: d) (auto simp: purge_one_effect od_del_def intro: filter_cong)

lemma purge_fold_indexed: "indexed d \<Longrightarrow> indexed (fold purge_one ks d)"
  by (induction ks arbitrary: d) (simp_all add: purge_one_indexed)

lemma purge_effect:
  assumes "indexed d"
  shows "dk_entries (purge_expired now d) = filter (\<lambda>(k, e). \<not> kill_expired now e) (dk_entries d)" "indexed (purge_expired now d)"
    "dk_incidents (purge_expired now d) = dk_incidents d"
    "dk_global (purge_expired now d) = live_global now (dk_entries d)"
proof -
  have wf: "od_wf (dk_entries d)" using assms by (simp add: indexed_def)
  have "fst p \<notin> set (map fst (filter (\<lambda>(k, e). kill_expired now e) (dk_entries d))) \<longleftrightarrow> \<not> kill_expired now (snd p)"
    if "p \<in> set (dk_entries d)" for p
    using that wf by (auto simp: od_wf_def distinct_map inj_on_def)
  then have f: "filter (\<lambda>p. fst p \<notin> set (map fst (filter (\<lambda>(k, e). kill_expired now e) (dk_entries d)))) (dk_entries d)
      = filter (\<lambda>(k, e). \<not> kill_expired now e) (dk_entries d)" by (intro filter_cong) auto
  have "list_ex P (filter Q xs) = list_ex (\<lambda>x. Q x \<and> P x) xs" for P Q and xs :: "(string \<times> kill_entry) list" by (auto simp: list_ex_iff)
  then show "dk_entries (purge_expired now d) = filter (\<lambda>(k, e). \<not> kill_expired now e) (dk_entries d)"
    "dk_global (purge_expired now d) = live_global now (dk_entries d)"
    using f by (auto simp: purge_expired_def Let_def purge_fold live_global_def split_def)
  show "indexed (purge_expired now d)" "dk_incidents (purge_expired now d) = dk_incidents d"
    using assms by (simp_all add: purge_expired_def Let_def purge_fold_indexed purge_fold)
qed

subsection \<open>What a check answers\<close>

definition blocks :: "time \<Rightarrow> kill_target \<Rightarrow> string \<Rightarrow> kill_entry \<Rightarrow> bool" where
  "blocks now t tid e \<longleftrightarrow> \<not> kill_expired now e \<and> (ki_target e = GlobalTarget \<or> ki_target e = t \<and> ki_target_id e = tid)"

lemma map_filter_Nil: "List.map_filter f xs = [] \<longleftrightarrow> (\<forall>x \<in> set xs. f x = None)"
  by (induction xs) (auto simp: List.map_filter_simps split: option.split)

lemma is_blocked_exact:
  assumes "indexed d"
  shows "fst (is_blocked now t tid d) = list_ex (\<lambda>(k, e). blocks now t tid e) (dk_entries d)"
proof -
  let ?p = "purge_expired now d"
  note p = purge_effect [OF assms, of now]
  have wf: "od_wf (dk_entries d)" using assms by (simp add: indexed_def)
  define f where "f = (\<lambda>k. case od_get (dk_entries ?p) k of None \<Rightarrow> None
      | Some e \<Rightarrow> if kill_expired now e then None else Some (ki_reason e))"
  have "(\<exists>k \<in> set (index_of ?p (t, tid)). f k \<noteq> None) \<longleftrightarrow>
      (\<exists>k e. od_get (dk_entries ?p) k = Some e \<and> \<not> kill_expired now e \<and> (t, tid) = (ki_target e, ki_target_id e))"
  proof
    assume "\<exists>k \<in> set (index_of ?p (t, tid)). f k \<noteq> None"
    then obtain k where k: "k \<in> set (index_of ?p (t, tid))" "f k \<noteq> None" by blast
    then obtain e where "od_get (dk_entries ?p) k = Some e" "(t, tid) = (ki_target e, ki_target_id e)" using p(2) unfolding indexed_def by blast
    then show "\<exists>k e. od_get (dk_entries ?p) k = Some e \<and> \<not> kill_expired now e \<and> (t, tid) = (ki_target e, ki_target_id e)"
      using k(2) by (auto simp: f_def split: if_splits)
  next
    assume "\<exists>k e. od_get (dk_entries ?p) k = Some e \<and> \<not> kill_expired now e \<and> (t, tid) = (ki_target e, ki_target_id e)"
    then obtain k e where e: "od_get (dk_entries ?p) k = Some e" "\<not> kill_expired now e" "(t, tid) = (ki_target e, ki_target_id e)" by blast
    then have "k \<in> set (index_of ?p (t, tid))" using p(2) unfolding indexed_def by blast
    moreover have "f k \<noteq> None" using e by (simp add: f_def)
    ultimately show "\<exists>k \<in> set (index_of ?p (t, tid)). f k \<noteq> None" by blast
  qed
  then have live: "List.map_filter f (index_of ?p (t, tid)) \<noteq> [] \<longleftrightarrow>
      (\<exists>k e. od_get (dk_entries ?p) k = Some e \<and> \<not> kill_expired now e \<and> (t, tid) = (ki_target e, ki_target_id e))"
    unfolding map_filter_Nil by (simp only: ball_simps)
  have g: "od_get (dk_entries ?p) k = Some e \<and> \<not> kill_expired now e \<longleftrightarrow> (k, e) \<in> set (dk_entries d) \<and> \<not> kill_expired now e" for k e
    using od_get_in [OF od_wf_filter [OF wf], of k e] od_get_SomeD [of "dk_entries ?p" k e] unfolding p(1) by fastforce
  have "fst (is_blocked now t tid d) \<longleftrightarrow> dk_global ?p \<or> List.map_filter f (index_of ?p (t, tid)) \<noteq> []"
    by (auto simp: is_blocked_def check_kill_def f_def Let_def split: list.split)
  also have "\<dots> \<longleftrightarrow> live_global now (dk_entries d) \<or> (\<exists>k e. (k, e) \<in> set (dk_entries d) \<and> \<not> kill_expired now e \<and> (t, tid) = (ki_target e, ki_target_id e))"
    unfolding live p(4) using g by blast
  also have "\<dots> \<longleftrightarrow> list_ex (\<lambda>(k, e). blocks now t tid e) (dk_entries d)"
    unfolding live_global_def list_ex_iff blocks_def by fastforce
  finally show ?thesis .
qed

lemma check_kill_state: "snd (check_kill now t tid d) = purge_expired now d"
  by (simp add: check_kill_def Let_def)

subsection \<open>Runs keep the index\<close>

abbreviation kill_ids :: "desk \<Rightarrow> string set" where "kill_ids d \<equiv> fst ` set (dk_entries d)"

lemma route_free: "indexed (desk_route now m sev key d) = indexed d"
  by simp

lemma open_effect:
  "dk_entries (snd (open_incident now i k title sev r tenant reporter tags rb auto why d)) =
     (if auto = None \<or> why = [] then dk_entries d else dk_entries (snd (activate_kill now k (fst (the auto)) (snd (the auto)) r reporter tenant why sev (Some i) None d)))"
  by (auto simp: open_incident_def Let_def split: option.split prod.split)

lemma open_indexed:
  assumes "indexed d" and "auto \<noteq> None \<longrightarrow> k \<notin> kill_ids d"
  shows "indexed (snd (open_incident now i k title sev r tenant reporter tags rb auto why d))"
  using assms activate_indexed [OF assms(1)] by (auto simp: open_incident_def Let_def split: option.split prod.split)

lemma transition_entries: "dk_entries (snd (transition_incident now i s actor why d)) = dk_entries d"
  by (simp add: transition_incident_def Let_def split: option.split)

lemma transition_indexed: "indexed (snd (transition_incident now i s actor why d)) = indexed d"
  by (simp add: transition_incident_def Let_def split: option.split)

lemma escalate_fold: "dk_entries (snd (fold (escalate_one now) ps acc)) = dk_entries (snd acc) \<and>
    indexed (snd (fold (escalate_one now) ps acc)) = indexed (snd acc) \<and> dk_incidents (snd (fold (escalate_one now) ps acc)) = dk_incidents (snd acc)"
proof (induction ps arbitrary: acc)
  case (Cons p ps)
  have "dk_entries (snd (escalate_one now p acc)) = dk_entries (snd acc)" "indexed (snd (escalate_one now p acc)) = indexed (snd acc)"
    "dk_incidents (snd (escalate_one now p acc)) = dk_incidents (snd acc)"
    by (auto simp: escalate_one_def split: prod.split)
  then show ?case using Cons by simp
qed simp

lemma escalations_effect:
  "dk_entries (snd (check_escalations now d)) = dk_entries d" "indexed (snd (check_escalations now d)) = indexed d"
  "dk_incidents (snd (check_escalations now d)) = dk_incidents d"
  using escalate_fold [of now "dk_incidents d" "([], d)"] by (simp_all add: check_escalations_def)

lemma reset_all_effect:
  "dk_entries (snd (reset_all_kills now t tid actor tenant why d)) =
     (if why = [] then dk_entries d else filter (\<lambda>p. fst p \<notin> set (index_of d (t, tid))) (dk_entries d))"
  "indexed d \<Longrightarrow> indexed (snd (reset_all_kills now t tid actor tenant why d))"
  "dk_incidents (snd (reset_all_kills now t tid actor tenant why d)) = dk_incidents d"
proof -
  obtain n d' where r: "reset_each now (index_of d (t, tid)) actor tenant why 0 d = (n, d')"
    by (cases "reset_each now (index_of d (t, tid)) actor tenant why 0 d")
  show "dk_entries (snd (reset_all_kills now t tid actor tenant why d)) =
     (if why = [] then dk_entries d else filter (\<lambda>p. fst p \<notin> set (index_of d (t, tid))) (dk_entries d))"
    "dk_incidents (snd (reset_all_kills now t tid actor tenant why d)) = dk_incidents d"
    using reset_each_effect [of why now "index_of d (t, tid)" actor tenant 0 d] r by (simp_all add: reset_all_kills_def)
  show "indexed d \<Longrightarrow> indexed (snd (reset_all_kills now t tid actor tenant why d))"
    using reset_each_indexed [of d now "index_of d (t, tid)" actor tenant why 0] r by (simp add: reset_all_kills_def)
qed

lemma step_indexed:
  assumes "indexed d" and "set (new_kill_id e) \<inter> kill_ids d = {}"
  shows "indexed (response_step e d)"
proof (cases e)
  case (OpenIncident now i k title sev r tenant reporter tags rb auto why)
  then show ?thesis using assms open_indexed [OF assms(1), of auto k] by (auto split: if_splits)
qed (use assms in \<open>simp_all add: activate_indexed reset_indexed reset_all_effect check_kill_state purge_effect transition_indexed escalations_effect\<close>)

lemma activate_ids: "kill_ids (snd (activate_kill now k target tid r actor tenant why sev inc ttl d)) \<subseteq> insert k (kill_ids d)"
proof (cases "why = []")
  case True
  then show ?thesis by (simp add: activate_kill_def subset_insertI)
qed (simp add: activate_effect subset_refl)

lemma step_ids: "indexed d \<Longrightarrow> kill_ids (response_step e d) \<subseteq> kill_ids d \<union> set (new_kill_id e)"
proof (cases e)
  case (Activate now k target tid r actor tenant why sev inc ttl)
  then show ?thesis using activate_ids [of now k target tid r actor tenant why sev inc ttl d] by auto
next
  case (OpenIncident now i k title sev r tenant reporter tags rb auto why)
  then show ?thesis using activate_ids [of now k "fst (the auto)" "snd (the auto)" r reporter tenant why sev "Some i" None d]
    by (auto simp: open_effect)
next
  case (CheckKill now t tid)
  assume "indexed d"
  then show ?thesis using CheckKill purge_effect(1) [of d now] by (auto simp: check_kill_state)
qed (auto simp: reset_entries reset_all_effect transition_entries escalations_effect od_set_del)

definition run_desk :: "response_op list \<Rightarrow> desk \<Rightarrow> desk" where
  "run_desk es d = fold response_step es d"

lemma fresh_later: "B \<subseteq> A \<union> set xs \<Longrightarrow> distinct (xs @ ys) \<Longrightarrow> set (xs @ ys) \<inter> A = {} \<Longrightarrow> set ys \<inter> B = {}"
  by auto

lemma run_indexed:
  assumes "indexed d" and "distinct (concat (map new_kill_id es))" and "set (concat (map new_kill_id es)) \<inter> kill_ids d = {}"
  shows "indexed (run_desk es d) \<and> kill_ids (run_desk es d) \<subseteq> kill_ids d \<union> set (concat (map new_kill_id es))"
  using assms
proof (induction es arbitrary: d)
  case (Cons e es)
  have i: "indexed (response_step e d)" using Cons.prems by (intro step_indexed) auto
  have k: "kill_ids (response_step e d) \<subseteq> kill_ids d \<union> set (new_kill_id e)" using step_ids Cons.prems(1) by blast
  have "set (concat (map new_kill_id es)) \<inter> kill_ids (response_step e d) = {}"
    by (rule fresh_later [OF k]) (use Cons.prems(2,3) in simp_all)
  from Cons.IH [OF i _ this] Cons.prems(2) have "indexed (run_desk (e # es) d)"
    "kill_ids (run_desk (e # es) d) \<subseteq> kill_ids (response_step e d) \<union> set (concat (map new_kill_id es))" by (simp_all add: run_desk_def)
  then show ?case using k by (simp only: list.map concat.simps set_append) blast
qed (simp add: run_desk_def)

lemma new_desk_indexed: "indexed new_desk" "kill_ids new_desk = {}"
  by (simp_all add: indexed_def new_desk_def index_of_def)

subsection \<open>A kill switch holds\<close>

fun lifts :: "string \<Rightarrow> kill_target \<times> string \<Rightarrow> response_op \<Rightarrow> bool" where
  "lifts k t (Reset now k' actor tenant why) = (k' = k)"
| "lifts k t (ResetAll now target tid actor tenant why) = ((target, tid) = t)"
| "lifts k t _ = False"

lemma step_keeps_kill:
  assumes "indexed d" and "od_get (dk_entries d) k = Some e" and "ki_ttl e = None" and "k \<notin> set (new_kill_id op)"
    and "\<not> lifts k (ki_target e, ki_target_id e) op"
  shows "od_get (dk_entries (response_step op d)) k = Some e"
proof (cases op)
  case (Activate now k' target tid r actor tenant why sev inc ttl)
  then show ?thesis using assms activate_effect(1) by (cases "why = []") (simp_all add: activate_kill_def activate_effect)
next
  case (OpenIncident now i k' title sev r tenant reporter tags rb auto why)
  then show ?thesis using assms by (auto simp: open_effect activate_effect)
next
  case (CheckKill now t tid)
  have "od_wf (dk_entries d)" using assms(1) by (simp add: indexed_def)
  then show ?thesis using CheckKill assms(2,3) purge_effect(1) [OF assms(1)]
    by (simp add: check_kill_state od_get_filter kill_expired_def)
next
  case (ResetAll now t tid actor tenant why)
  have "k \<in> set (index_of d (t, tid)) \<longleftrightarrow> (t, tid) = (ki_target e, ki_target_id e)" using assms(1,2) unfolding indexed_def by auto
  moreover have "od_wf (dk_entries d)" using assms(1) by (simp add: indexed_def)
  ultimately show ?thesis using ResetAll assms(2,5) by (auto simp: reset_all_effect od_get_filter)
qed (use assms in \<open>auto simp: reset_entries transition_entries escalations_effect\<close>)

lemma run_keeps_kill:
  assumes "indexed d" and "od_get (dk_entries d) k = Some e" and "ki_ttl e = None"
    and "distinct (concat (map new_kill_id es))" and "set (concat (map new_kill_id es)) \<inter> kill_ids d = {}"
    and "list_all (\<lambda>op. \<not> lifts k (ki_target e, ki_target_id e) op) es"
  shows "od_get (dk_entries (run_desk es d)) k = Some e"
  using assms
proof (induction es arbitrary: d)
  case (Cons op es)
  have k: "k \<in> kill_ids d" using od_get_Some_dom [OF Cons.prems(2)] .
  have "indexed (response_step op d)" using Cons.prems by (intro step_indexed) auto
  moreover have "od_get (dk_entries (response_step op d)) k = Some e" using Cons.prems k by (intro step_keeps_kill) auto
  moreover have "set (concat (map new_kill_id es)) \<inter> kill_ids (response_step op d) = {}"
    by (rule fresh_later [OF step_ids [OF Cons.prems(1), of op]]) (use Cons.prems(4,5) in simp_all)
  ultimately show ?case using Cons by (simp add: run_desk_def)
qed (simp add: run_desk_def)

text \<open>
  A kill switch without an expiry blocks its target until it is reset. After any operations, a kill switch is
  activated for a target; whatever operations follow, other than resetting it or all switches of its target, every
  check of the target answers that it is blocked, and when the switch is global so does every check of any target, at any time.
\<close>

theorem kill_switch_holds_until_reset:
  assumes "distinct (concat (map new_kill_id (es1 @ [Activate t0 k target tid r actor tenant why sev inc None] @ es2)))"
    and "why \<noteq> []" and "list_all (\<lambda>op. \<not> lifts k (target, tid) op) es2"
  shows "let d = run_desk (es1 @ [Activate t0 k target tid r actor tenant why sev inc None] @ es2) new_desk in
    fst (is_blocked now target tid d) \<and> (if target = GlobalTarget then fst (is_blocked now t' tid' d) else True)"
proof -
  define d1 where "d1 = run_desk es1 new_desk"
  have ids: "distinct (concat (map new_kill_id es1))" "k \<notin> set (concat (map new_kill_id es1))" "distinct (concat (map new_kill_id es2))"
    "set (concat (map new_kill_id es2)) \<inter> insert k (set (concat (map new_kill_id es1))) = {}"
    using assms(1) by auto
  have d1: "indexed d1" "kill_ids d1 \<subseteq> set (concat (map new_kill_id es1))"
    using run_indexed [OF new_desk_indexed(1) ids(1)] new_desk_indexed(2) by (simp_all add: d1_def)
  define e where "e = \<lparr>ki_target = target, ki_target_id = tid, ki_reason = r, ki_note = why, ki_severity = sev, ki_actor = actor,
       ki_tenant = tenant, ki_at = t0, ki_incident = inc, ki_ttl = None\<rparr>"
  define d2 where "d2 = response_step (Activate t0 k target tid r actor tenant why sev inc None) d1"
  have d2: "indexed d2" "od_get (dk_entries d2) k = Some e" "kill_ids d2 \<subseteq> insert k (kill_ids d1)"
  proof -
    have "k \<notin> kill_ids d1" using ids(2) d1(2) by blast
    from activate_indexed [OF d1(1) this] show "indexed d2" by (simp add: d2_def)
    show "od_get (dk_entries d2) k = Some e" using assms(2) by (simp add: d2_def e_def activate_effect)
    show "kill_ids d2 \<subseteq> insert k (kill_ids d1)" unfolding d2_def response_step.simps by (rule activate_ids)
  qed
  have fresh: "set (concat (map new_kill_id es2)) \<inter> kill_ids d2 = {}" using d2(3) d1(2) ids(4) by blast
  define d3 where "d3 = run_desk es2 d2"
  have "od_get (dk_entries d3) k = Some e" "indexed d3"
    using run_keeps_kill [OF d2(1,2) _ ids(3) fresh] assms(3) run_indexed [OF d2(1) ids(3) fresh] by (simp_all add: d3_def e_def)
  moreover have "blocks now t i e" if "target = GlobalTarget \<or> (t = target \<and> i = tid)" for t i
    using that by (auto simp: blocks_def kill_expired_def e_def)
  ultimately have "list_ex (\<lambda>(k, e). blocks now t i e) (dk_entries d3)" if "target = GlobalTarget \<or> (t = target \<and> i = tid)" for t i
    using that od_get_SomeD [of "dk_entries d3" k e] unfolding list_ex_iff by blast
  then have "fst (is_blocked now t i d3)" if "target = GlobalTarget \<or> (t = target \<and> i = tid)" for t i
    using that is_blocked_exact [OF \<open>indexed d3\<close>] by blast
  moreover have "run_desk (es1 @ [Activate t0 k target tid r actor tenant why sev inc None] @ es2) new_desk = d3"
    by (simp add: run_desk_def d1_def d2_def d3_def)
  ultimately show ?thesis by (simp add: Let_def)
qed

theorem kill_switch_holds_until_reset_witness:
  "let d = run_desk ([] @ [Activate 1000 ''k'' GlobalTarget ''all'' ManualAdmin ''a'' ''t'' ''halt'' P1 None None]
      @ [CheckKill 1001 BotTarget ''b'', Reset 1002 ''other'' ''a'' ''t'' ''x'']) new_desk in
    fst (is_blocked 2000 GlobalTarget ''all'' d) \<and> (if GlobalTarget = GlobalTarget then fst (is_blocked 2000 BotTarget ''b'' d) else True)"
  by (rule kill_switch_holds_until_reset) simp_all

text \<open>With the same id given to two targets the index would keep the old one; the ids come from \<open>uuid4\<close>. A switch that expires stops blocking.\<close>

lemma expired_switch_does_not_block:
  assumes "indexed d" and "list_all (\<lambda>(k, e). kill_expired now e) (dk_entries d)"
  shows "\<not> fst (is_blocked now t tid d)"
  using assms by (auto simp: is_blocked_exact list_ex_iff list_all_iff blocks_def)

subsection \<open>The life of an incident\<close>

interpretation incident_table: transition_table incident_transitions "\<lambda>s. s = IncClosed \<or> s = FalseAlarm"
  by unfold_locales auto

text \<open>The times of the stages that an incident of a given state has been through, and of those before it.\<close>

definition stages :: "incident \<Rightarrow> time option list" where
  "stages i =
     (case in_state i of
        IncOpen \<Rightarrow> [] | Acknowledged \<Rightarrow> [in_acknowledged i] | Contained \<Rightarrow> [in_acknowledged i, in_contained i]
      | Resolved \<Rightarrow> [in_acknowledged i, in_contained i, in_resolved i]
      | IncClosed \<Rightarrow> [in_acknowledged i, in_contained i, in_resolved i, in_closed i]
      | FalseAlarm \<Rightarrow> (if in_acknowledged i = None then [] else [in_acknowledged i]))"

definition pending :: "incident \<Rightarrow> time option list" where
  "pending i =
     (case in_state i of
        IncOpen \<Rightarrow> [in_acknowledged i, in_contained i, in_resolved i, in_closed i]
      | Acknowledged \<Rightarrow> [in_contained i, in_resolved i, in_closed i] | Contained \<Rightarrow> [in_resolved i, in_closed i]
      | Resolved \<Rightarrow> [in_closed i] | IncClosed \<Rightarrow> [] | FalseAlarm \<Rightarrow> [in_contained i, in_resolved i, in_closed i])"

definition staged :: "time \<Rightarrow> incident \<Rightarrow> bool" where
  "staged now i \<longleftrightarrow> None \<notin> set (stages i) \<and> sorted (in_created i # map the (stages i) @ [now]) \<and> list_all (\<lambda>t. t = None) (pending i)"

definition state_of_event :: "timeline_event \<Rightarrow> incident_state list" where
  "state_of_event ev = (case te_action ev of Opened title sev \<Rightarrow> [IncOpen] | KillActivated k t \<Rightarrow> [] | StateChanged old new why \<Rightarrow> [new])"

definition states_of :: "incident \<Rightarrow> incident_state list" where
  "states_of i = concat (map state_of_event (in_timeline i))"

definition good_incident :: "time \<Rightarrow> incident \<Rightarrow> bool" where
  "good_incident now i \<longleftrightarrow> staged now i \<and> states_of i \<noteq> [] \<and> incident_table.path (states_of i) \<and> last (states_of i) = in_state i"

lemma staged_later: "staged now i \<Longrightarrow> now \<le> later \<Longrightarrow> staged later i"
  by (auto simp: staged_def sorted_append)

lemma stamp_state_simps [simp]: "in_state (stamp_state s t i) = in_state i" "in_timeline (stamp_state s t i) = in_timeline i"
  by (simp_all add: stamp_state_def split: incident_state.split)

lemma log_event_simps [simp]:
  "in_state (log_event t a x i) = in_state i" "stages (log_event t a x i) = stages i" "pending (log_event t a x i) = pending i"
  "in_created (log_event t a x i) = in_created i" "stages (i\<lparr>in_kills := ks\<rparr>) = stages i" "pending (i\<lparr>in_kills := ks\<rparr>) = pending i"
  by (cases "in_state i"; simp add: log_event_def stages_def pending_def)+

lemma staged_event [simp]: "staged t (log_event now actor a i) = staged t i" "staged t (i\<lparr>in_kills := ks\<rparr>) = staged t i"
  by (simp_all add: staged_def)

lemma move_stages:
  assumes "s \<in> set (incident_transitions (in_state i))" and "list_all (\<lambda>t. t = None) (pending i)" and "None \<notin> set (stages i)"
  shows "stages (stamp_state s t (i\<lparr>in_state := s\<rparr>)) = (if s = FalseAlarm then stages i else stages i @ [Some t])
    \<and> list_all (\<lambda>t. t = None) (pending (stamp_state s t (i\<lparr>in_state := s\<rparr>)))
    \<and> in_created (stamp_state s t (i\<lparr>in_state := s\<rparr>)) = in_created i"
  using assms by (cases "in_state i") (auto simp: stages_def pending_def stamp_state_def)

lemma staged_move:
  assumes "staged now i" and "now \<le> t" and "s \<in> set (incident_transitions (in_state i))"
  shows "staged t (stamp_state s t (i\<lparr>in_state := s\<rparr>))"
  using staged_later [OF assms(1,2)] move_stages [OF assms(3), of t] by (auto simp: staged_def sorted_append)

lemma move_good:
  assumes "good_incident now i" and "now \<le> t" and "s \<in> set (incident_transitions (in_state i))"
  shows "good_incident t (log_event t actor (StateChanged (in_state i) s why) (stamp_state s t (i\<lparr>in_state := s\<rparr>)))"
proof -
  have "states_of (log_event t actor (StateChanged (in_state i) s why) (stamp_state s t (i\<lparr>in_state := s\<rparr>))) = states_of i @ [s]"
    by (simp add: states_of_def log_event_def state_of_event_def)
  moreover have "incident_table.edge (last (states_of i)) s" using assms(1,3) by (simp add: good_incident_def incident_table.edge_def)
  ultimately show ?thesis using assms(1) incident_table.path_snoc [of "states_of i" s] staged_move [OF _ assms(2,3)]
    by (simp add: good_incident_def)
qed

definition all_good :: "time \<Rightarrow> desk \<Rightarrow> bool" where
  "all_good now d \<longleftrightarrow> list_all (\<lambda>(k, i). good_incident now i) (dk_incidents d)"

lemma all_good_put: "all_good now d \<Longrightarrow> good_incident now i \<Longrightarrow> all_good now (d\<lparr>dk_incidents := od_put k i (dk_incidents d)\<rparr>)"
  using set_od_put_subset [of k i "dk_incidents d"] by (fastforce simp: all_good_def list_all_iff)

lemma all_good_cong: "dk_incidents d' = dk_incidents d \<Longrightarrow> all_good now d' = all_good now d"
  by (simp add: all_good_def)

lemma all_good_later: "all_good now d \<Longrightarrow> now \<le> later \<Longrightarrow> all_good later d"
  by (auto simp: all_good_def list_all_iff good_incident_def intro: staged_later)

lemma fresh_incident_good:
  "good_incident now (log_event now reporter (Opened title sev)
     \<lparr>in_title = title, in_severity = sev, in_reason = reason, in_tenant = tenant, in_reporter = reporter, in_state = IncOpen,
      in_created = now, in_acknowledged = None, in_contained = None, in_resolved = None, in_closed = None,
      in_timeline = [], in_kills = [], in_tags = tags, in_runbook = incident_runbook\<rparr>)"
  by (simp add: good_incident_def staged_def stages_def pending_def states_of_def state_of_event_def log_event_def)

lemma kill_event_good: "good_incident now i \<Longrightarrow> good_incident now (log_event now reporter (KillActivated k t) (i\<lparr>in_kills := ks\<rparr>))"
  by (simp add: good_incident_def) (simp add: states_of_def state_of_event_def log_event_def)

fun op_time :: "response_op \<Rightarrow> time" where
  "op_time (Activate now k target tid r actor tenant why sev inc ttl) = now"
| "op_time (Reset now k actor tenant why) = now"
| "op_time (ResetAll now target tid actor tenant why) = now"
| "op_time (CheckKill now target tid) = now"
| "op_time (OpenIncident now i k title sev r tenant reporter tags rb auto why) = now"
| "op_time (Transition now i s actor why) = now"
| "op_time (Escalate now) = now"

lemma activate_incidents: "dk_incidents (snd (activate_kill now k target tid r actor tenant why sev inc ttl d)) = dk_incidents d"
  by (cases "why = []") (simp add: activate_kill_def, simp add: activate_effect)

lemma open_good:
  assumes "all_good now d"
  shows "all_good now (snd (open_incident now i k title sev r tenant reporter tags rb auto why d))"
proof (cases auto)
  case None
  show ?thesis using None all_good_put [OF assms fresh_incident_good]
    by (simp add: open_incident_def Let_def all_good_def)
next
  case (Some a)
  obtain target tid where a: "a = (target, tid)" by (cases a)
  define d1 where "d1 = snd (activate_kill now k target tid r reporter tenant why sev (Some i) None d)"
  have d1: "all_good now d1" using assms all_good_cong activate_incidents unfolding d1_def by blast
  show ?thesis using Some a assms all_good_put [OF d1 kill_event_good [OF fresh_incident_good]]
    by (simp add: open_incident_def Let_def all_good_def d1_def [symmetric])
qed

lemma step_good:
  assumes "all_good now d" and "now \<le> op_time e"
  shows "all_good (op_time e) (response_step e d)"
proof -
  have d: "all_good (op_time e) d" using assms all_good_later by blast
  show ?thesis
  proof (cases e)
    case (OpenIncident now i k title sev r tenant reporter tags rb auto why)
    then show ?thesis using open_good d by simp
  next
    case (Transition t i s actor why)
    show ?thesis
    proof (cases "od_get (dk_incidents d) i")
      case (Some j)
      have "good_incident now j" using assms(1) od_get_SomeD [OF Some] by (auto simp: all_good_def list_all_iff)
      then show ?thesis using Transition Some d assms(2) all_good_put [OF _ move_good [of now j t s actor why], of d]
        by (auto simp: transition_incident_def Let_def all_good_def)
    qed (use Transition d in \<open>simp add: transition_incident_def\<close>)
  next
    case (CheckKill t target tid)
    have "dk_incidents (purge_expired t d) = dk_incidents d" by (simp add: purge_expired_def Let_def purge_fold)
    then show ?thesis using d all_good_cong unfolding CheckKill response_step.simps check_kill_state by blast
  next
    case (Activate now k target tid r actor tenant why sev inc ttl)
    show ?thesis using d all_good_cong [OF activate_incidents] unfolding Activate response_step.simps by blast
  next
    case (Reset now k actor tenant why)
    show ?thesis using d all_good_cong [OF reset_incidents] unfolding Reset response_step.simps by blast
  next
    case (ResetAll now t tid actor tenant why)
    show ?thesis using d all_good_cong [OF reset_all_effect(3)] unfolding ResetAll response_step.simps by blast
  next
    case (Escalate now)
    show ?thesis using d all_good_cong [OF escalations_effect(3)] unfolding Escalate response_step.simps by blast
  qed
qed

text \<open>
  Incidents run through their stages in order. While the clock does not run back, every incident has, after any
  operations, a recorded history of states that is a path of the transition table ending in its state, and exactly the
  times of the stages it has been through, each no earlier than the one before: a closed incident was acknowledged,
  contained and resolved, and a false alarm was never contained.
\<close>

theorem incidents_run_in_order:
  assumes "sorted (map op_time es)"
  shows "list_all (\<lambda>(k, i). good_incident (if es = [] then 0 else op_time (last es)) i) (dk_incidents (run_desk es new_desk))"
proof -
  have "all_good (if es = [] then 0 else op_time (last es)) (run_desk es new_desk)"
    using assms
  proof (induction es rule: rev_induct)
    case (snoc e es)
    show ?case
    proof (cases "es = []")
      case True
      have "all_good (op_time e) new_desk" by (simp add: all_good_def new_desk_def)
      then show ?thesis using True step_good [of "op_time e" new_desk e] by (simp add: run_desk_def)
    next
      case False
      then have "op_time (last es) \<le> op_time e" using snoc.prems by (simp add: sorted_append)
      then show ?thesis using False snoc step_good [of "op_time (last es)" "run_desk es new_desk" e] by (simp add: run_desk_def sorted_append)
    qed
  qed (simp add: all_good_def new_desk_def run_desk_def)
  then show ?thesis by (simp only: all_good_def)
qed

theorem incidents_run_in_order_witness:
  "list_all (\<lambda>(k, i). good_incident 1900 i) (dk_incidents (run_desk
     [OpenIncident 1000 ''i'' ''k'' ''t'' P1 SystemOutage ''T'' ''u'' [] None None '''', Transition 1500 ''i'' Acknowledged ''u'' '''',
      Escalate 1900] new_desk))"
  using incidents_run_in_order [of "[OpenIncident 1000 ''i'' ''k'' ''t'' P1 SystemOutage ''T'' ''u'' [] None None '''',
      Transition 1500 ''i'' Acknowledged ''u'' '''', Escalate 1900]"] by simp

subsection \<open>Escalation\<close>

lemma escalate_one_escalated: "dk_escalated (snd (escalate_one now p (out, d))) = dk_escalated d @ (if overdue now d p then [fst p] else [])"
  by (simp add: escalate_one_def)

lemma escalate_fold_marks:
  "set (dk_escalated d) \<subseteq> set (dk_escalated (snd (fold (escalate_one now) ps (out, d))))
   \<and> (\<forall>p \<in> set ps. \<not> overdue now (snd (fold (escalate_one now) ps (out, d))) p)"
proof (induction ps arbitrary: out d)
  case (Cons p ps)
  obtain out' d' where s: "escalate_one now p (out, d) = (out', d')" by (cases "escalate_one now p (out, d)")
  have e: "dk_escalated d' = dk_escalated d @ (if overdue now d p then [fst p] else [])"
    using escalate_one_escalated [of now p out d] s by simp
  note ih = Cons.IH [where out = out' and d = d']
  have "fst p \<in> set (dk_escalated d') \<or> \<not> overdue now d p" using e by auto
  then have "\<not> overdue now (snd (fold (escalate_one now) ps (out', d'))) p" using ih e by (auto simp: overdue_def)
  then show ?case using ih s e by auto
qed simp

text \<open>An incident is escalated once: directly after a round no incident is overdue.\<close>

lemma escalated_once: "fst (check_escalations now (snd (check_escalations now d))) = []"
proof -
  define d' where "d' = snd (check_escalations now d)"
  have none: "\<forall>p \<in> set (dk_incidents d'). \<not> overdue now d' p"
    using escalate_fold_marks [of d now "dk_incidents d" "[]"] escalations_effect(3) [of now d] by (simp add: d'_def check_escalations_def)
  have "fold (escalate_one now) ps (out, d') = (out, d')" if "\<forall>p \<in> set ps. \<not> overdue now d' p" for ps out
    using that by (induction ps) (simp_all add: escalate_one_def)
  then have "check_escalations now d' = ([], d')" using none by (simp only: check_escalations_def)
  then show ?thesis by (simp add: d'_def)
qed

text \<open>Only open incidents are escalated: one acknowledged and then forgotten breaches its limit silently.\<close>

lemma acknowledged_never_escalated: "in_state (snd p) = Acknowledged \<Longrightarrow> \<not> overdue now d p"
  by (simp add: overdue_def)

end
