(* ===== verification/Feature_Flags.thy ===== *)
theory Feature_Flags
  imports Hash_Chain Json
begin

section \<open>Feature flags and their rollout\<close>

text \<open>
  \<open>src/backend/core/feature_flags.py\<close>: the flags with their configurations, the kill overrides, the evaluation of a
  flag for a user, the chained audit trail of every change, and the manager that rolls a flag out step by step. HMAC-SHA256
  under the trail's secret (\<open>fl_hmac\<close>), \<open>json.dumps(..., sort_keys=True)\<close> (\<open>fl_dumps\<close>), \<open>str\<close> of a float (\<open>fl_show\<close>)
  and the hexadecimal MD5 digest (\<open>fl_md5\<close>) are parameters; record ids and clock readings are arguments. The reason of
  an evaluation is a value that carries what the code formats into its text. Observers registered with \<open>add_hook\<close>
  see results and cannot change them (what they raise is swallowed), so they are no part of the state.
\<close>

subsection \<open>Vocabulary\<close>

datatype flag_key =
    RISK_KILL_SWITCH_V2 | RISK_DYNAMIC_DRAWDOWN | RISK_HEARTBEAT_MONITOR | RISK_POSITION_HEDGE | RISK_EQUITY_GUARD
  | RISK_TRAILING_STOP_V2 | RISK_MULTI_SYMBOL_LIMIT | RISK_NEWS_FILTER
  | LICENSE_GRACE_PERIOD | LICENSE_DEVICE_LIMIT_V2 | LICENSE_OFFLINE_MODE | LICENSE_AUTO_RENEW | LICENSE_TRIAL_EXTENSION
  | LICENSE_BULK_ISSUANCE
  | BILLING_STRIPE_V2 | BILLING_CRYPTO_PAY | BILLING_USAGE_METER | BILLING_DUNNING_V2 | BILLING_PRORATION | BILLING_INVOICE_PDF
  | EA_CLOUD_CONFIG | EA_REMOTE_KILL | EA_TELEMETRY_V2 | EA_AUTO_UPDATE
  | DASHBOARD_REALTIME_PNL | DASHBOARD_ADVANCED_CHARTS | DASHBOARD_AI_INSIGHTS | DASHBOARD_EXPORT_V2
  | PLATFORM_MULTI_TENANT | PLATFORM_SSO | PLATFORM_WEBHOOKS_V2 | PLATFORM_GRAPHQL

primrec flag_value :: "flag_key \<Rightarrow> string" where
  "flag_value RISK_KILL_SWITCH_V2 = ''risk.kill_switch_v2''"
| "flag_value RISK_DYNAMIC_DRAWDOWN = ''risk.dynamic_drawdown''"
| "flag_value RISK_HEARTBEAT_MONITOR = ''risk.heartbeat_monitor''"
| "flag_value RISK_POSITION_HEDGE = ''risk.position_hedge''"
| "flag_value RISK_EQUITY_GUARD = ''risk.equity_guard''"
| "flag_value RISK_TRAILING_STOP_V2 = ''risk.trailing_stop_v2''"
| "flag_value RISK_MULTI_SYMBOL_LIMIT = ''risk.multi_symbol_limit''"
| "flag_value RISK_NEWS_FILTER = ''risk.news_filter''"
| "flag_value LICENSE_GRACE_PERIOD = ''license.grace_period''"
| "flag_value LICENSE_DEVICE_LIMIT_V2 = ''license.device_limit_v2''"
| "flag_value LICENSE_OFFLINE_MODE = ''license.offline_mode''"
| "flag_value LICENSE_AUTO_RENEW = ''license.auto_renew''"
| "flag_value LICENSE_TRIAL_EXTENSION = ''license.trial_extension''"
| "flag_value LICENSE_BULK_ISSUANCE = ''license.bulk_issuance''"
| "flag_value BILLING_STRIPE_V2 = ''billing.stripe_v2''"
| "flag_value BILLING_CRYPTO_PAY = ''billing.crypto_pay''"
| "flag_value BILLING_USAGE_METER = ''billing.usage_meter''"
| "flag_value BILLING_DUNNING_V2 = ''billing.dunning_v2''"
| "flag_value BILLING_PRORATION = ''billing.proration''"
| "flag_value BILLING_INVOICE_PDF = ''billing.invoice_pdf''"
| "flag_value EA_CLOUD_CONFIG = ''ea.cloud_config''"
| "flag_value EA_REMOTE_KILL = ''ea.remote_kill''"
| "flag_value EA_TELEMETRY_V2 = ''ea.telemetry_v2''"
| "flag_value EA_AUTO_UPDATE = ''ea.auto_update''"
| "flag_value DASHBOARD_REALTIME_PNL = ''dashboard.realtime_pnl''"
| "flag_value DASHBOARD_ADVANCED_CHARTS = ''dashboard.advanced_charts''"
| "flag_value DASHBOARD_AI_INSIGHTS = ''dashboard.ai_insights''"
| "flag_value DASHBOARD_EXPORT_V2 = ''dashboard.export_v2''"
| "flag_value PLATFORM_MULTI_TENANT = ''platform.multi_tenant''"
| "flag_value PLATFORM_SSO = ''platform.sso''"
| "flag_value PLATFORM_WEBHOOKS_V2 = ''platform.webhooks_v2''"
| "flag_value PLATFORM_GRAPHQL = ''platform.graphql''"

datatype flag_scope = KillScope | UserScope | TenantScope | PlanScope | RingScope | GlobalScope

datatype rollout_strategy = NoStrategy | Percentage | Canary | Ring | Allowlist | Blocklist

fun strategy_value :: "rollout_strategy \<Rightarrow> string" where
  "strategy_value NoStrategy = ''none''"
| "strategy_value Percentage = ''percentage''"
| "strategy_value Canary = ''canary''"
| "strategy_value Ring = ''ring''"
| "strategy_value Allowlist = ''allowlist''"
| "strategy_value Blocklist = ''blocklist''"

datatype release_ring = InternalRing | AlphaRing | BetaRing | GaRing

datatype plan_tier = TrialPlan | BasicPlan | ProPlan | VipPlan | AdminPlan

text \<open>\<open>RING_ORDER.index\<close> and \<open>PLAN_ORDER.index\<close>; both lists hold every value of their type.\<close>

fun ring_index :: "release_ring \<Rightarrow> nat" where
  "ring_index InternalRing = 0" | "ring_index AlphaRing = 1" | "ring_index BetaRing = 2" | "ring_index GaRing = 3"

fun plan_index :: "plan_tier \<Rightarrow> nat" where
  "plan_index TrialPlan = 0" | "plan_index BasicPlan = 1" | "plan_index ProPlan = 2" | "plan_index VipPlan = 3" | "plan_index AdminPlan = 4"

definition flag_min_plan :: "(flag_key \<times> plan_tier) list" where
  "flag_min_plan =
    [(BILLING_CRYPTO_PAY, ProPlan), (BILLING_USAGE_METER, ProPlan), (DASHBOARD_AI_INSIGHTS, ProPlan),
     (DASHBOARD_ADVANCED_CHARTS, BasicPlan), (LICENSE_BULK_ISSUANCE, VipPlan), (PLATFORM_SSO, VipPlan),
     (PLATFORM_GRAPHQL, ProPlan), (EA_REMOTE_KILL, ProPlan), (RISK_POSITION_HEDGE, ProPlan)]"

record flag_config =
  fc_key :: flag_key
  fc_enabled :: bool
  fc_strategy :: rollout_strategy
  fc_pct :: real
  fc_allow_users :: "string list"
  fc_allow_tenants :: "string list"
  fc_block_users :: "string list"
  fc_block_tenants :: "string list"
  fc_min_ring :: "release_ring option"
  fc_min_plan :: "plan_tier option"
  fc_description :: string
  fc_owner :: string
  fc_created :: time
  fc_updated :: time

definition default_flag :: "time \<Rightarrow> flag_key \<Rightarrow> flag_config" where
  "default_flag now key = \<lparr>fc_key = key, fc_enabled = False, fc_strategy = NoStrategy, fc_pct = 0, fc_allow_users = [], fc_allow_tenants = [],
     fc_block_users = [], fc_block_tenants = [], fc_min_ring = None, fc_min_plan = None, fc_description = [], fc_owner = ''platform'',
     fc_created = now, fc_updated = now\<rparr>"

record kill_override =
  ko_key :: flag_key
  ko_reason :: string
  ko_actor :: string
  ko_tenant :: "string option"
  ko_at :: time
  ko_ttl :: "real option"

definition override_expired :: "time \<Rightarrow> kill_override \<Rightarrow> bool" where
  "override_expired now k = (case ko_ttl k of None \<Rightarrow> False | Some ttl \<Rightarrow> now > ko_at k + ttl)"

record eval_context =
  ec_user :: string
  ec_tenant :: string
  ec_plan :: "plan_tier option"
  ec_ring :: "release_ring option"

datatype eval_reason =
    KillReason string | FlagDisabled | PlanGate plan_tier | BlockedUser | BlockedTenant
  | AllowedUser | AllowedTenant | NotInAllowlist | UserOverride | TenantOverride
  | InRing release_ring | BelowRing release_ring release_ring | InPct real | OutsidePct real real
  | GlobalEnabled | FlagNotFound

record eval_result =
  er_enabled :: bool
  er_reason :: eval_reason
  er_scope :: flag_scope

record flag_codec =
  fl_hmac :: "string \<Rightarrow> string"
  fl_dumps :: "json \<Rightarrow> string"
  fl_show :: "real \<Rightarrow> string"
  fl_md5 :: "string \<Rightarrow> string"

subsection \<open>The audit trail\<close>

record flag_audit_record =
  fa_id :: string
  fa_seq :: nat
  fa_key :: string
  fa_action :: string
  fa_actor :: string
  fa_tenant :: "string option"
  fa_reason :: string
  fa_payload :: "(string \<times> json) list"
  fa_ts :: time
  fa_hash :: string
  fa_prev :: string

record flag_audit =
  fh_records :: "flag_audit_record list"
  fh_seq :: nat
  fh_prev :: string

definition flag_records_max :: nat where "flag_records_max = 10000"

definition flag_genesis :: "flag_codec \<Rightarrow> string" where
  "flag_genesis cd = fl_hmac cd ''GENESIS:FLAG:AUDIT:CHAIN:V24''"

definition new_flag_audit :: "flag_codec \<Rightarrow> flag_audit" where
  "new_flag_audit cd = \<lparr>fh_records = [], fh_seq = 0, fh_prev = flag_genesis cd\<rparr>"

definition tenant_json :: "string option \<Rightarrow> json" where
  "tenant_json t = (case t of None \<Rightarrow> JNull | Some s \<Rightarrow> JStr s)"

definition flag_canonical :: "flag_codec \<Rightarrow> flag_audit_record \<Rightarrow> json" where
  "flag_canonical cd r = JObj [(''id'', JStr (fa_id r)), (''seq'', JInt (int (fa_seq r))), (''flag_key'', JStr (fa_key r)),
     (''action'', JStr (fa_action r)), (''actor_id'', JStr (fa_actor r)), (''tenant_id'', tenant_json (fa_tenant r)),
     (''reason'', JStr (fa_reason r)), (''payload'', JObj (fa_payload r)), (''ts'', JStr (fl_show cd (fa_ts r)))]"

definition flag_hash :: "flag_codec \<Rightarrow> string \<Rightarrow> json \<Rightarrow> string" where
  "flag_hash cd prev payload = fl_hmac cd (prev @ '':'' @ fl_dumps cd payload)"

definition blank_flag_entry :: "string \<Rightarrow> bool" where
  "blank_flag_entry s \<longleftrightarrow> s = [] \<or> py_strip s = []"

definition flag_seal :: "flag_codec \<Rightarrow> string \<Rightarrow> flag_audit_record \<Rightarrow> flag_audit_record" where
  "flag_seal cd prev r = r\<lparr>fa_hash := flag_hash cd prev (flag_canonical cd r), fa_prev := prev\<rparr>"

definition flag_record :: "flag_codec \<Rightarrow> time \<Rightarrow> string \<Rightarrow> string \<Rightarrow> string \<Rightarrow> string \<Rightarrow> string \<Rightarrow> (string \<times> json) list \<Rightarrow> string option
    \<Rightarrow> flag_audit \<Rightarrow> (flag_audit_record, flag_audit) outcome" where
  "flag_record cd now rid key action actor why payload tenant a =
     (if blank_flag_entry why then (Inl ValueError, a)
      else (let r = flag_seal cd (fh_prev a) \<lparr>fa_id = rid, fa_seq = fh_seq a + 1, fa_key = key, fa_action = action, fa_actor = actor,
                      fa_tenant = tenant, fa_reason = why, fa_payload = payload, fa_ts = now, fa_hash = [], fa_prev = []\<rparr> in
            (Inr r, \<lparr>fh_records = take_last flag_records_max (fh_records a @ [r]), fh_seq = fh_seq a + 1, fh_prev = fa_hash r\<rparr>)))"

definition flag_fits :: "flag_codec \<Rightarrow> string \<Rightarrow> flag_audit_record \<Rightarrow> bool" where
  "flag_fits cd prev r \<longleftrightarrow> flag_hash cd prev (flag_canonical cd r) = fa_hash r"

definition flag_verify :: "flag_codec \<Rightarrow> flag_audit \<Rightarrow> bool" where
  "flag_verify cd a = verify_from (flag_fits cd) fa_hash (flag_genesis cd) (fh_records a)"

definition keep_opt :: "('r \<Rightarrow> string) \<Rightarrow> string option \<Rightarrow> 'r list \<Rightarrow> 'r list" where
  "keep_opt f want rs = (case want of None \<Rightarrow> rs | Some w \<Rightarrow> if w = [] then rs else filter (\<lambda>r. f r = w) rs)"

definition flag_query :: "string option \<Rightarrow> string option \<Rightarrow> string option \<Rightarrow> nat \<Rightarrow> flag_audit \<Rightarrow> flag_audit_record list" where
  "flag_query key actor action limit a = take limit (keep_opt fa_action action (keep_opt fa_actor actor (keep_opt fa_key key (rev (fh_records a)))))"

subsection \<open>Evaluation\<close>

definition hex_digit :: "char \<Rightarrow> nat" where
  "hex_digit c = (let n = (of_char c :: nat) in if n \<le> 57 then n - 48 else n - 87)"

definition hex_int :: "string \<Rightarrow> nat" where
  "hex_int s = foldl (\<lambda>n c. 16 * n + hex_digit c) 0 s"

definition stable_hash :: "flag_codec \<Rightarrow> string \<Rightarrow> string \<Rightarrow> string \<Rightarrow> real" where
  "stable_hash cd key user tenant = real (hex_int (take 8 (fl_md5 cd (key @ '':'' @ tenant @ '':'' @ user)))) / 4294967295 * 100"

definition flag_verdict :: "bool \<Rightarrow> eval_reason \<Rightarrow> flag_scope \<Rightarrow> eval_result" where
  "flag_verdict on why scope = \<lparr>er_enabled = on, er_reason = why, er_scope = scope\<rparr>"

definition kill_applies :: "time \<Rightarrow> flag_key \<Rightarrow> eval_context \<Rightarrow> kill_override \<Rightarrow> bool" where
  "kill_applies now key ctx k \<longleftrightarrow> ko_key k = key \<and> \<not> override_expired now k \<and> (ko_tenant k = None \<or> ko_tenant k = Some (ec_tenant ctx))"

definition effective_min :: "flag_key \<Rightarrow> flag_config \<Rightarrow> plan_tier option" where
  "effective_min key c = (case fc_min_plan c of None \<Rightarrow> map_of flag_min_plan key | Some p \<Rightarrow> Some p)"

definition plan_refusal :: "flag_key \<Rightarrow> eval_context \<Rightarrow> flag_config \<Rightarrow> plan_tier option" where
  "plan_refusal key ctx c =
     (case (effective_min key c, ec_plan ctx) of
        (Some m, Some p) \<Rightarrow> if plan_index p < plan_index m then Some m else None
      | _ \<Rightarrow> None)"

definition evaluate_config :: "flag_codec \<Rightarrow> flag_key \<Rightarrow> eval_context \<Rightarrow> flag_config \<Rightarrow> eval_result" where
  "evaluate_config cd key ctx c =
     (if ec_user ctx \<in> set (fc_block_users c) then flag_verdict False BlockedUser UserScope
      else if ec_tenant ctx \<in> set (fc_block_tenants c) then flag_verdict False BlockedTenant TenantScope
      else if fc_strategy c = Allowlist then
        (if ec_user ctx \<in> set (fc_allow_users c) then flag_verdict True AllowedUser UserScope
         else if ec_tenant ctx \<in> set (fc_allow_tenants c) then flag_verdict True AllowedTenant TenantScope
         else flag_verdict False NotInAllowlist UserScope)
      else if ec_user ctx \<in> set (fc_allow_users c) then flag_verdict True UserOverride UserScope
      else if ec_tenant ctx \<in> set (fc_allow_tenants c) then flag_verdict True TenantOverride TenantScope
      else
        (case (fc_strategy c, fc_min_ring c, ec_ring ctx) of
           (Ring, Some m, Some r) \<Rightarrow>
             if ring_index r \<le> ring_index m then flag_verdict True (InRing r) RingScope else flag_verdict False (BelowRing r m) RingScope
         | (Percentage, _, _) \<Rightarrow>
             (let h = stable_hash cd (flag_value key) (ec_user ctx) (ec_tenant ctx) in
              if h < fc_pct c then flag_verdict True (InPct (fc_pct c)) GlobalScope else flag_verdict False (OutsidePct h (fc_pct c)) GlobalScope)
         | _ \<Rightarrow> flag_verdict True GlobalEnabled GlobalScope))"

definition evaluate :: "flag_codec \<Rightarrow> time \<Rightarrow> flag_key \<Rightarrow> eval_context \<Rightarrow> flag_config \<Rightarrow> kill_override list \<Rightarrow> eval_result" where
  "evaluate cd now key ctx c kills =
     (case find (kill_applies now key ctx) kills of
        Some k \<Rightarrow> flag_verdict False (KillReason (ko_reason k)) KillScope
      | None \<Rightarrow>
          if \<not> fc_enabled c then flag_verdict False FlagDisabled GlobalScope
          else (case plan_refusal key ctx c of
              Some m \<Rightarrow> flag_verdict False (PlanGate m) PlanScope
            | None \<Rightarrow> evaluate_config cd key ctx c))"

subsection \<open>The store\<close>

record flag_store =
  fs_flags :: "(flag_key, flag_config) odict"
  fs_kills :: "kill_override list"
  fs_audit :: flag_audit

definition new_flag_store :: "flag_codec \<Rightarrow> flag_store" where
  "new_flag_store cd = \<lparr>fs_flags = [], fs_kills = [], fs_audit = new_flag_audit cd\<rparr>"

definition store_record :: "flag_codec \<Rightarrow> time \<Rightarrow> string \<Rightarrow> flag_key \<Rightarrow> string \<Rightarrow> string \<Rightarrow> string \<Rightarrow> (string \<times> json) list \<Rightarrow> string option
    \<Rightarrow> flag_store \<Rightarrow> (flag_audit_record, flag_store) outcome" where
  "store_record cd now rid key action actor why payload tenant s =
     (case flag_record cd now rid (flag_value key) action actor why payload tenant (fs_audit s) of (r, a) \<Rightarrow> (r, s\<lparr>fs_audit := a\<rparr>))"

definition set_flag :: "flag_codec \<Rightarrow> time \<Rightarrow> string \<Rightarrow> flag_config \<Rightarrow> string \<Rightarrow> string \<Rightarrow> string option \<Rightarrow> flag_store
    \<Rightarrow> (flag_audit_record, flag_store) outcome" where
  "set_flag cd now rid c actor why tenant s =
     (if blank_flag_entry why then (Inl ValueError, s)
      else store_record cd now rid (fc_key c) (if od_get (fs_flags s) (fc_key c) = None then ''create'' else ''update'') actor why
             [(''enabled'', JBool (fc_enabled c)), (''strategy'', JStr (strategy_value (fc_strategy c))), (''rollout_pct'', JFloat (fc_pct c))]
             tenant (s\<lparr>fs_flags := od_put (fc_key c) c (fs_flags s)\<rparr>))"

definition remove_flag :: "flag_codec \<Rightarrow> time \<Rightarrow> string \<Rightarrow> flag_key \<Rightarrow> string \<Rightarrow> string \<Rightarrow> string option \<Rightarrow> flag_store
    \<Rightarrow> (flag_audit_record, flag_store) outcome" where
  "remove_flag cd now rid key actor why tenant s =
     (if blank_flag_entry why then (Inl ValueError, s)
      else store_record cd now rid key ''remove'' actor why [] tenant (s\<lparr>fs_flags := od_del key (fs_flags s)\<rparr>))"

definition same_override :: "flag_key \<Rightarrow> string option \<Rightarrow> kill_override \<Rightarrow> bool" where
  "same_override key tenant k \<longleftrightarrow> ko_key k = key \<and> ko_tenant k = tenant"

definition json_num_opt :: "real option \<Rightarrow> json" where
  "json_num_opt x = (case x of None \<Rightarrow> JNull | Some r \<Rightarrow> JFloat r)"

definition activate_override :: "flag_codec \<Rightarrow> time \<Rightarrow> string \<Rightarrow> flag_key \<Rightarrow> string \<Rightarrow> string \<Rightarrow> string option \<Rightarrow> real option \<Rightarrow> flag_store
    \<Rightarrow> (kill_override, flag_store) outcome" where
  "activate_override cd now rid key actor why tenant ttl s =
     (if blank_flag_entry why then (Inl ValueError, s)
      else (let k = \<lparr>ko_key = key, ko_reason = why, ko_actor = actor, ko_tenant = tenant, ko_at = now, ko_ttl = ttl\<rparr>;
                s1 = s\<lparr>fs_kills := filter (\<lambda>x. \<not> same_override key tenant x) (fs_kills s) @ [k]\<rparr> in
            case store_record cd now rid key ''kill'' actor why [(''tenant_id'', tenant_json tenant), (''ttl'', json_num_opt ttl)] tenant s1 of
              (Inl e, s2) \<Rightarrow> (Inl e, s2) | (Inr r, s2) \<Rightarrow> (Inr k, s2)))"

definition reset_override :: "flag_codec \<Rightarrow> time \<Rightarrow> string \<Rightarrow> flag_key \<Rightarrow> string \<Rightarrow> string \<Rightarrow> string option \<Rightarrow> flag_store
    \<Rightarrow> (flag_audit_record, flag_store) outcome" where
  "reset_override cd now rid key actor why tenant s =
     (if blank_flag_entry why then (Inl ValueError, s)
      else store_record cd now rid key ''kill_reset'' actor why [(''tenant_id'', tenant_json tenant)] tenant
             (s\<lparr>fs_kills := filter (\<lambda>x. \<not> same_override key tenant x) (fs_kills s)\<rparr>))"

definition active_overrides :: "time \<Rightarrow> flag_key option \<Rightarrow> flag_store \<Rightarrow> kill_override list \<times> flag_store" where
  "active_overrides now key s =
     (let ks = filter (\<lambda>k. \<not> override_expired now k) (fs_kills s) in
      (case key of None \<Rightarrow> ks | Some f \<Rightarrow> filter (\<lambda>k. ko_key k = f) ks, s\<lparr>fs_kills := ks\<rparr>))"

definition store_evaluate :: "flag_codec \<Rightarrow> time \<Rightarrow> flag_key \<Rightarrow> eval_context \<Rightarrow> flag_store \<Rightarrow> eval_result" where
  "store_evaluate cd now key ctx s =
     (case od_get (fs_flags s) key of
        None \<Rightarrow> flag_verdict False FlagNotFound GlobalScope
      | Some c \<Rightarrow> evaluate cd now key ctx c (filter (\<lambda>k. \<not> override_expired now k) (fs_kills s)))"

definition is_enabled :: "flag_codec \<Rightarrow> time \<Rightarrow> flag_key \<Rightarrow> eval_context \<Rightarrow> flag_store \<Rightarrow> bool" where
  "is_enabled cd now key ctx s = er_enabled (store_evaluate cd now key ctx s)"

subsection \<open>Gradual rollout\<close>

record rollout_step =
  rs_pct :: real
  rs_at :: time

record rollout =
  ro_store :: flag_store
  ro_paused :: "flag_key list"
  ro_history :: "(flag_key, rollout_step list) odict"

definition new_rollout :: "flag_codec \<Rightarrow> rollout" where
  "new_rollout cd = \<lparr>ro_store = new_flag_store cd, ro_paused = [], ro_history = []\<rparr>"

definition default_steps :: "real list" where
  "default_steps = [0, 1, 5, 10, 25, 50, 75, 100]"

definition rollout_history :: "flag_key \<Rightarrow> rollout \<Rightarrow> rollout_step list" where
  "rollout_history key m = (case od_get (ro_history m) key of None \<Rightarrow> [] | Some hs \<Rightarrow> hs)"

text \<open>The last lines of the three operations that change a percentage: store the configuration and note the step.\<close>

definition save_step :: "flag_codec \<Rightarrow> time \<Rightarrow> string \<Rightarrow> flag_key \<Rightarrow> flag_config \<Rightarrow> string \<Rightarrow> string \<Rightarrow> string option \<Rightarrow> rollout \<Rightarrow> (flag_config, rollout) outcome" where
  "save_step cd now rid key c actor why tenant m =
     (case set_flag cd now rid c actor why tenant (ro_store m) of
        (Inl e, s) \<Rightarrow> (Inl e, m\<lparr>ro_store := s\<rparr>)
      | (Inr r, s) \<Rightarrow> (Inr c, m\<lparr>ro_store := s,
          ro_history := od_put key (rollout_history key m @ [\<lparr>rs_pct = fc_pct c, rs_at = now\<rparr>]) (ro_history m)\<rparr>))"

definition start_rollout :: "flag_codec \<Rightarrow> time \<Rightarrow> string \<Rightarrow> flag_key \<Rightarrow> string \<Rightarrow> string \<Rightarrow> real \<Rightarrow> string option \<Rightarrow> rollout
    \<Rightarrow> (flag_config, rollout) outcome" where
  "start_rollout cd now rid key actor why initial tenant m =
     (if blank_flag_entry why then (Inl ValueError, m)
      else (let c = (case od_get (fs_flags (ro_store m)) key of None \<Rightarrow> default_flag now key | Some c \<Rightarrow> c);
                c' = c\<lparr>fc_enabled := True, fc_strategy := Percentage, fc_pct := max 0 (min 100 initial), fc_updated := now\<rparr> in
            case save_step cd now rid key c' actor why tenant m of
              (Inl e, m1) \<Rightarrow> (Inl e, m1) | (Inr c2, m1) \<Rightarrow> (Inr c2, m1\<lparr>ro_paused := removeAll key (ro_paused m1)\<rparr>)))"

definition pct_above :: "real \<Rightarrow> real" where
  "pct_above p = (case find (\<lambda>s. s > p) default_steps of Some s \<Rightarrow> s | None \<Rightarrow> 100)"

definition pct_below :: "real \<Rightarrow> real" where
  "pct_below p = (case find (\<lambda>s. s < p) (rev default_steps) of Some s \<Rightarrow> s | None \<Rightarrow> 0)"

definition step_up :: "flag_codec \<Rightarrow> time \<Rightarrow> string \<Rightarrow> flag_key \<Rightarrow> string \<Rightarrow> string \<Rightarrow> real option \<Rightarrow> string option \<Rightarrow> rollout
    \<Rightarrow> (flag_config, rollout) outcome" where
  "step_up cd now rid key actor why target tenant m =
     (if blank_flag_entry why then (Inl ValueError, m)
      else if key \<in> set (ro_paused m) then (Inl RuntimeError, m)
      else case od_get (fs_flags (ro_store m)) key of
        None \<Rightarrow> (Inl KeyError, m)
      | Some c \<Rightarrow> save_step cd now rid key
          (c\<lparr>fc_pct := (case target of Some t \<Rightarrow> max (fc_pct c) (min 100 t) | None \<Rightarrow> pct_above (fc_pct c)), fc_updated := now\<rparr>)
          actor why tenant m)"

definition step_down :: "flag_codec \<Rightarrow> time \<Rightarrow> string \<Rightarrow> flag_key \<Rightarrow> string \<Rightarrow> string \<Rightarrow> real option \<Rightarrow> string option \<Rightarrow> rollout
    \<Rightarrow> (flag_config, rollout) outcome" where
  "step_down cd now rid key actor why target tenant m =
     (if blank_flag_entry why then (Inl ValueError, m)
      else case od_get (fs_flags (ro_store m)) key of
        None \<Rightarrow> (Inl KeyError, m)
      | Some c \<Rightarrow> save_step cd now rid key
          (c\<lparr>fc_pct := (case target of Some t \<Rightarrow> max 0 (min (fc_pct c) t) | None \<Rightarrow> pct_below (fc_pct c)), fc_updated := now\<rparr>)
          actor why tenant m)"

definition pause_rollout :: "flag_codec \<Rightarrow> time \<Rightarrow> string \<Rightarrow> flag_key \<Rightarrow> string \<Rightarrow> string \<Rightarrow> rollout \<Rightarrow> (unit, rollout) outcome" where
  "pause_rollout cd now rid key actor why m =
     (if blank_flag_entry why then (Inl ValueError, m)
      else (case store_record cd now rid key ''rollout_pause'' actor why [] None (ro_store m) of
              (Inl e, s) \<Rightarrow> (Inl e, m\<lparr>ro_paused := List.insert key (ro_paused m), ro_store := s\<rparr>)
            | (Inr r, s) \<Rightarrow> (Inr (), m\<lparr>ro_paused := List.insert key (ro_paused m), ro_store := s\<rparr>)))"

definition resume_rollout :: "flag_codec \<Rightarrow> time \<Rightarrow> string \<Rightarrow> flag_key \<Rightarrow> string \<Rightarrow> string \<Rightarrow> rollout \<Rightarrow> (unit, rollout) outcome" where
  "resume_rollout cd now rid key actor why m =
     (if blank_flag_entry why then (Inl ValueError, m)
      else (case store_record cd now rid key ''rollout_resume'' actor why [] None (ro_store m) of
              (Inl e, s) \<Rightarrow> (Inl e, m\<lparr>ro_paused := removeAll key (ro_paused m), ro_store := s\<rparr>)
            | (Inr r, s) \<Rightarrow> (Inr (), m\<lparr>ro_paused := removeAll key (ro_paused m), ro_store := s\<rparr>)))"

definition is_paused :: "flag_key \<Rightarrow> rollout \<Rightarrow> bool" where
  "is_paused key m \<longleftrightarrow> key \<in> set (ro_paused m)"

subsection \<open>Operations as events\<close>

datatype flag_op =
    SetFlag time string flag_config string string "string option"
  | RemoveFlag time string flag_key string string "string option"
  | KillFlag time string flag_key string string "string option" "real option"
  | ResetFlag time string flag_key string string "string option"
  | ActiveKills time "flag_key option"
  | StartRollout time string flag_key string string real "string option"
  | StepUp time string flag_key string string "real option" "string option"
  | StepDown time string flag_key string string "real option" "string option"
  | PauseRollout time string flag_key string string
  | ResumeRollout time string flag_key string string

definition on_store :: "flag_store \<Rightarrow> rollout \<Rightarrow> rollout" where
  "on_store s m = m\<lparr>ro_store := s\<rparr>"

fun flag_step :: "flag_codec \<Rightarrow> flag_op \<Rightarrow> rollout \<Rightarrow> rollout" where
  "flag_step cd (SetFlag now rid c actor why tenant) m = on_store (snd (set_flag cd now rid c actor why tenant (ro_store m))) m"
| "flag_step cd (RemoveFlag now rid key actor why tenant) m = on_store (snd (remove_flag cd now rid key actor why tenant (ro_store m))) m"
| "flag_step cd (KillFlag now rid key actor why tenant ttl) m = on_store (snd (activate_override cd now rid key actor why tenant ttl (ro_store m))) m"
| "flag_step cd (ResetFlag now rid key actor why tenant) m = on_store (snd (reset_override cd now rid key actor why tenant (ro_store m))) m"
| "flag_step cd (ActiveKills now key) m = on_store (snd (active_overrides now key (ro_store m))) m"
| "flag_step cd (StartRollout now rid key actor why initial tenant) m = snd (start_rollout cd now rid key actor why initial tenant m)"
| "flag_step cd (StepUp now rid key actor why target tenant) m = snd (step_up cd now rid key actor why target tenant m)"
| "flag_step cd (StepDown now rid key actor why target tenant) m = snd (step_down cd now rid key actor why target tenant m)"
| "flag_step cd (PauseRollout now rid key actor why) m = snd (pause_rollout cd now rid key actor why m)"
| "flag_step cd (ResumeRollout now rid key actor why) m = snd (resume_rollout cd now rid key actor why m)"

definition run_flags :: "flag_codec \<Rightarrow> flag_op list \<Rightarrow> rollout \<Rightarrow> rollout" where
  "run_flags cd ops m = fold (flag_step cd) ops m"

lemma run_flags_simps [simp]:
  "run_flags cd [] m = m" "run_flags cd (e # es) m = run_flags cd es (flag_step cd e m)"
  "run_flags cd (xs @ ys) m = run_flags cd ys (run_flags cd xs m)"
  by (simp_all add: run_flags_def)

subsection \<open>What each operation does to the state\<close>

lemma on_store_simps [simp]: "ro_store (on_store s m) = s" "ro_paused (on_store s m) = ro_paused m" "ro_history (on_store s m) = ro_history m"
  by (simp_all add: on_store_def)

definition sealed_entry :: "flag_codec \<Rightarrow> time \<Rightarrow> string \<Rightarrow> string \<Rightarrow> string \<Rightarrow> string \<Rightarrow> string \<Rightarrow> (string \<times> json) list \<Rightarrow> string option
    \<Rightarrow> flag_audit \<Rightarrow> flag_audit_record" where
  "sealed_entry cd now rid key action actor why payload tenant a =
     flag_seal cd (fh_prev a) \<lparr>fa_id = rid, fa_seq = fh_seq a + 1, fa_key = key, fa_action = action, fa_actor = actor,
       fa_tenant = tenant, fa_reason = why, fa_payload = payload, fa_ts = now, fa_hash = [], fa_prev = []\<rparr>"

lemma sealed_entry_simps [simp]:
  "fa_key (sealed_entry cd now rid key action actor why payload tenant a) = key"
  "fa_actor (sealed_entry cd now rid key action actor why payload tenant a) = actor"
  "fa_reason (sealed_entry cd now rid key action actor why payload tenant a) = why"
  "fa_seq (sealed_entry cd now rid key action actor why payload tenant a) = fh_seq a + 1"
  by (simp_all add: sealed_entry_def flag_seal_def)

definition push_entry :: "flag_audit_record \<Rightarrow> flag_audit \<Rightarrow> flag_audit" where
  "push_entry r a = \<lparr>fh_records = take_last flag_records_max (fh_records a @ [r]), fh_seq = fh_seq a + 1, fh_prev = fa_hash r\<rparr>"

lemma flag_record_sealed:
  "\<not> blank_flag_entry why \<Longrightarrow> flag_record cd now rid key action actor why payload tenant a
     = (let r = sealed_entry cd now rid key action actor why payload tenant a in (Inr r, push_entry r a))"
  by (simp add: flag_record_def sealed_entry_def push_entry_def Let_def)

lemma store_record_ok:
  "\<not> blank_flag_entry why \<Longrightarrow> store_record cd now rid key action actor why payload tenant s
     = (let r = sealed_entry cd now rid (flag_value key) action actor why payload tenant (fs_audit s) in
        (Inr r, s\<lparr>fs_audit := push_entry r (fs_audit s)\<rparr>))"
  by (simp add: store_record_def flag_record_sealed Let_def)

lemma set_flag_ok:
  "\<not> blank_flag_entry why \<Longrightarrow> \<exists>action payload. set_flag cd now rid c actor why tenant s
     = (let r = sealed_entry cd now rid (flag_value (fc_key c)) action actor why payload tenant (fs_audit s) in
        (Inr r, s\<lparr>fs_flags := od_put (fc_key c) c (fs_flags s), fs_audit := push_entry r (fs_audit s)\<rparr>))"
  by (auto simp: set_flag_def store_record_ok Let_def)

text \<open>An accepted operation seals one record that names the flag, the actor and the reason.\<close>

fun op_key :: "flag_op \<Rightarrow> flag_key option" where
  "op_key (SetFlag now rid c actor why tenant) = Some (fc_key c)"
| "op_key (RemoveFlag now rid key actor why tenant) = Some key"
| "op_key (KillFlag now rid key actor why tenant ttl) = Some key"
| "op_key (ResetFlag now rid key actor why tenant) = Some key"
| "op_key (ActiveKills now key) = None"
| "op_key (StartRollout now rid key actor why initial tenant) = Some key"
| "op_key (StepUp now rid key actor why target tenant) = Some key"
| "op_key (StepDown now rid key actor why target tenant) = Some key"
| "op_key (PauseRollout now rid key actor why) = Some key"
| "op_key (ResumeRollout now rid key actor why) = Some key"

fun op_actor :: "flag_op \<Rightarrow> string" where
  "op_actor (SetFlag now rid c actor why tenant) = actor"
| "op_actor (RemoveFlag now rid key actor why tenant) = actor"
| "op_actor (KillFlag now rid key actor why tenant ttl) = actor"
| "op_actor (ResetFlag now rid key actor why tenant) = actor"
| "op_actor (ActiveKills now key) = []"
| "op_actor (StartRollout now rid key actor why initial tenant) = actor"
| "op_actor (StepUp now rid key actor why target tenant) = actor"
| "op_actor (StepDown now rid key actor why target tenant) = actor"
| "op_actor (PauseRollout now rid key actor why) = actor"
| "op_actor (ResumeRollout now rid key actor why) = actor"

fun op_reason :: "flag_op \<Rightarrow> string" where
  "op_reason (SetFlag now rid c actor why tenant) = why"
| "op_reason (RemoveFlag now rid key actor why tenant) = why"
| "op_reason (KillFlag now rid key actor why tenant ttl) = why"
| "op_reason (ResetFlag now rid key actor why tenant) = why"
| "op_reason (ActiveKills now key) = []"
| "op_reason (StartRollout now rid key actor why initial tenant) = why"
| "op_reason (StepUp now rid key actor why target tenant) = why"
| "op_reason (StepDown now rid key actor why target tenant) = why"
| "op_reason (PauseRollout now rid key actor why) = why"
| "op_reason (ResumeRollout now rid key actor why) = why"

text \<open>The flags are stored under their own keys.\<close>

definition keyed :: "flag_store \<Rightarrow> bool" where
  "keyed s \<longleftrightarrow> (\<forall>p \<in> set (fs_flags s). fc_key (snd p) = fst p)"

definition sealed_after :: "flag_codec \<Rightarrow> string \<Rightarrow> flag_op \<Rightarrow> flag_audit \<Rightarrow> flag_audit \<Rightarrow> bool" where
  "sealed_after cd key e a a' \<longleftrightarrow> \<not> blank_flag_entry (op_reason e) \<and>
     (\<exists>now rid action payload tenant. a' = push_entry (sealed_entry cd now rid key action (op_actor e) (op_reason e) payload tenant a) a)"

lemma kills_after_save: "fs_kills (ro_store (snd (save_step cd now rid key c actor why tenant m))) = fs_kills (ro_store m)"
  by (auto simp: save_step_def set_flag_def store_record_def split: sum.split prod.split)

lemma kills_after_rollout:
  "fs_kills (ro_store (snd (start_rollout cd now rid key actor why initial tenant m))) = fs_kills (ro_store m)"
  "fs_kills (ro_store (snd (step_up cd now rid key actor why target tenant m))) = fs_kills (ro_store m)"
  "fs_kills (ro_store (snd (step_down cd now rid key actor why target tenant m))) = fs_kills (ro_store m)"
  "fs_kills (ro_store (snd (pause_rollout cd now rid key actor why m))) = fs_kills (ro_store m)"
  "fs_kills (ro_store (snd (resume_rollout cd now rid key actor why m))) = fs_kills (ro_store m)"
proof -
  show "fs_kills (ro_store (snd (start_rollout cd now rid key actor why initial tenant m))) = fs_kills (ro_store m)"
  proof (cases "blank_flag_entry why")
    case False
    define c where "c = (case od_get (fs_flags (ro_store m)) key of None \<Rightarrow> default_flag now key | Some c \<Rightarrow> c)
      \<lparr>fc_enabled := True, fc_strategy := Percentage, fc_pct := max 0 (min 100 initial), fc_updated := now\<rparr>"
    obtain r m1 where s: "save_step cd now rid key c actor why tenant m = (r, m1)" by (cases "save_step cd now rid key c actor why tenant m")
    then show ?thesis using False kills_after_save [of cd now rid key c actor why tenant m]
      by (cases r) (simp_all add: start_rollout_def Let_def c_def [symmetric])
  qed (simp add: start_rollout_def)
qed (auto simp: step_up_def step_down_def kills_after_save pause_rollout_def resume_rollout_def store_record_def split: option.split sum.split prod.split)

definition touches_kill :: "flag_key \<Rightarrow> string option \<Rightarrow> flag_op \<Rightarrow> bool" where
  "touches_kill key tenant e \<longleftrightarrow>
     (case e of KillFlag now rid k actor why t ttl \<Rightarrow> k = key \<and> t = tenant
      | ResetFlag now rid k actor why t \<Rightarrow> k = key \<and> t = tenant | _ \<Rightarrow> False)"

lemma kill_stays:
  assumes "k \<in> set (fs_kills (ro_store m))" and "same_override key tenant k" and "ko_ttl k = None" and "\<not> touches_kill key tenant e"
  shows "k \<in> set (fs_kills (ro_store (flag_step cd e m)))"
proof (cases e)
  case (KillFlag now rid key' actor why tenant' ttl)
  then show ?thesis using assms
    by (auto simp: activate_override_def store_record_ok Let_def touches_kill_def same_override_def)
next
  case (ResetFlag now rid key' actor why tenant')
  then show ?thesis using assms
    by (auto simp: reset_override_def store_record_ok Let_def touches_kill_def same_override_def)
next
  case (ActiveKills now key')
  then show ?thesis using assms by (auto simp: active_overrides_def Let_def override_expired_def)
next
  case (SetFlag now rid c actor why tenant')
  then show ?thesis using assms by (auto simp: set_flag_def store_record_ok Let_def)
next
  case (RemoveFlag now rid key' actor why tenant')
  then show ?thesis using assms by (auto simp: remove_flag_def store_record_ok Let_def)
qed (use assms in \<open>simp_all add: kills_after_rollout\<close>)

lemma kill_stays_run:
  assumes "k \<in> set (fs_kills (ro_store m))" and "same_override key tenant k" and "ko_ttl k = None"
    and "list_all (\<lambda>e. \<not> touches_kill key tenant e) es"
  shows "k \<in> set (fs_kills (ro_store (run_flags cd es m)))"
  using assms by (induction es arbitrary: m) (simp_all add: kill_stays)

lemma killed_is_off:
  assumes "k \<in> set (fs_kills s)" and "same_override key tenant k" and "ko_ttl k = None" and "tenant = None \<or> tenant = Some (ec_tenant ctx)"
  shows "\<not> is_enabled cd now key ctx s"
proof -
  have "find (kill_applies now key ctx) (filter (\<lambda>k. \<not> override_expired now k) (fs_kills s)) \<noteq> None"
    using assms by (auto simp: find_None_iff kill_applies_def same_override_def override_expired_def)
  then obtain k' where "find (kill_applies now key ctx) (filter (\<lambda>k. \<not> override_expired now k) (fs_kills s)) = Some k'" by blast
  then show ?thesis by (simp add: is_enabled_def store_evaluate_def evaluate_def flag_verdict_def split: option.split)
qed

text \<open>
  C22: A killed flag stays off. After an override without expiry is activated for a flag, for one tenant or for all, the
  flag is off for every user it covers through any further operations on flags, kill overrides of other flags or
  tenants and rollouts, until that override is reset or replaced.
\<close>

theorem killed_flag_stays_off:
  assumes "\<not> blank_flag_entry why" and "list_all (\<lambda>e. \<not> touches_kill key tenant e) es"
    and "tenant = None \<or> tenant = Some (ec_tenant ctx)"
  shows "\<not> is_enabled cd now key ctx (ro_store (run_flags cd (KillFlag t0 rid key actor why tenant None # es) m))"
proof -
  define k where "k = \<lparr>ko_key = key, ko_reason = why, ko_actor = actor, ko_tenant = tenant, ko_at = t0, ko_ttl = None :: real option\<rparr>"
  have "k \<in> set (fs_kills (ro_store (flag_step cd (KillFlag t0 rid key actor why tenant None) m)))"
    using assms(1) by (simp add: activate_override_def store_record_ok Let_def k_def)
  moreover have "same_override key tenant k" "ko_ttl k = None" by (simp_all add: k_def same_override_def)
  ultimately show ?thesis
    using killed_is_off [OF kill_stays_run [OF _ _ _ assms(2)] _ _ assms(3)] by (metis run_flags_simps(2))
qed

definition zero_codec :: flag_codec where
  "zero_codec = \<lparr>fl_hmac = (\<lambda>m. m), fl_dumps = (\<lambda>j. []), fl_show = (\<lambda>x. []), fl_md5 = (\<lambda>m. ''00000000'')\<rparr>"

theorem killed_flag_stays_off_witness:
  "\<not> is_enabled zero_codec 2000 EA_REMOTE_KILL \<lparr>ec_user = ''u'', ec_tenant = ''T'', ec_plan = None, ec_ring = None\<rparr>
     (ro_store (run_flags zero_codec (KillFlag 1000 ''r'' EA_REMOTE_KILL ''a'' ''bug'' (Some ''T'') None
        # [StartRollout 1001 ''s'' EA_REMOTE_KILL ''a'' ''go'' 100 None, ResetFlag 1002 ''q'' EA_REMOTE_KILL ''a'' ''other'' None]) (new_rollout zero_codec)))"
  by (rule killed_flag_stays_off) (simp_all add: touches_kill_def blank_flag_entry_def py_strip_def char_space_def)

subsection \<open>Flags are stored under their keys\<close>

lemma keyed_get: "keyed s \<Longrightarrow> od_get (fs_flags s) key = Some c \<Longrightarrow> fc_key c = key"
  by (drule od_get_SomeD) (auto simp: keyed_def)

lemma keyed_put: "keyed s \<Longrightarrow> keyed (s\<lparr>fs_flags := od_put (fc_key c) c (fs_flags s), fs_audit := a\<rparr>)"
  using set_od_put_subset [of "fc_key c" c "fs_flags s"] by (auto simp: keyed_def)

lemma set_flag_keyed: "keyed s \<Longrightarrow> keyed (snd (set_flag cd now rid c actor why tenant s))"
proof (cases "blank_flag_entry why")
  case False
  then show "keyed s \<Longrightarrow> ?thesis" using set_flag_ok [of why cd now rid c actor tenant s] keyed_put by (auto simp: Let_def)
qed (simp add: set_flag_def)

lemma save_step_store: "ro_store (snd (save_step cd now rid key c actor why tenant m)) = snd (set_flag cd now rid c actor why tenant (ro_store m))"
  by (simp add: save_step_def split: sum.split prod.split)

definition started :: "time \<Rightarrow> flag_key \<Rightarrow> real \<Rightarrow> flag_store \<Rightarrow> flag_config" where
  "started now key initial s = (case od_get (fs_flags s) key of None \<Rightarrow> default_flag now key | Some c \<Rightarrow> c)
     \<lparr>fc_enabled := True, fc_strategy := Percentage, fc_pct := max 0 (min 100 initial), fc_updated := now\<rparr>"

lemma start_rollout_store:
  "ro_store (snd (start_rollout cd now rid key actor why initial tenant m))
     = (if blank_flag_entry why then ro_store m else snd (set_flag cd now rid (started now key initial (ro_store m)) actor why tenant (ro_store m)))"
proof (cases "blank_flag_entry why")
  case False
  obtain r m1 where s: "save_step cd now rid key (started now key initial (ro_store m)) actor why tenant m = (r, m1)"
    by (cases "save_step cd now rid key (started now key initial (ro_store m)) actor why tenant m")
  then have "ro_store m1 = snd (set_flag cd now rid (started now key initial (ro_store m)) actor why tenant (ro_store m))"
    using save_step_store by (metis snd_conv)
  then show ?thesis using False s by (cases r) (simp_all add: start_rollout_def Let_def started_def)
qed (simp add: start_rollout_def)

lemma start_rollout_paused:
  assumes "\<not> blank_flag_entry why" shows "ro_paused (snd (start_rollout cd now rid key actor why initial tenant m)) = removeAll key (ro_paused m)"
proof -
  define c where "c = started now key initial (ro_store m)"
  obtain r s where s: "set_flag cd now rid c actor why tenant (ro_store m) = (Inr r, s)"
    using set_flag_ok [OF assms, of cd now rid c actor tenant "ro_store m"] by (auto simp: Let_def)
  have "start_rollout cd now rid key actor why initial tenant m
      = (case save_step cd now rid key c actor why tenant m of
           (Inl e, m1) \<Rightarrow> (Inl e, m1) | (Inr c2, m1) \<Rightarrow> (Inr c2, m1\<lparr>ro_paused := removeAll key (ro_paused m1)\<rparr>))"
    using assms by (simp add: start_rollout_def Let_def c_def started_def)
  then show ?thesis using s by (simp add: save_step_def)
qed

lemma flags_after_pause:
  "fs_flags (ro_store (snd (pause_rollout cd now rid key actor why m))) = fs_flags (ro_store m)"
  "fs_flags (ro_store (snd (resume_rollout cd now rid key actor why m))) = fs_flags (ro_store m)"
  by (auto simp: pause_rollout_def resume_rollout_def store_record_def split: sum.split prod.split)

lemma step_up_store:
  "ro_store (snd (step_up cd now rid key actor why target tenant m))
     = (case od_get (fs_flags (ro_store m)) key of None \<Rightarrow> ro_store m
        | Some c \<Rightarrow> if blank_flag_entry why \<or> key \<in> set (ro_paused m) then ro_store m
            else snd (set_flag cd now rid (c\<lparr>fc_pct := (case target of Some t \<Rightarrow> max (fc_pct c) (min 100 t) | None \<Rightarrow> pct_above (fc_pct c)),
                                            fc_updated := now\<rparr>) actor why tenant (ro_store m)))"
  by (auto simp: step_up_def save_step_store split: option.split)

lemma step_down_store:
  "ro_store (snd (step_down cd now rid key actor why target tenant m))
     = (case od_get (fs_flags (ro_store m)) key of None \<Rightarrow> ro_store m
        | Some c \<Rightarrow> if blank_flag_entry why then ro_store m
            else snd (set_flag cd now rid (c\<lparr>fc_pct := (case target of Some t \<Rightarrow> max 0 (min (fc_pct c) t) | None \<Rightarrow> pct_below (fc_pct c)),
                                            fc_updated := now\<rparr>) actor why tenant (ro_store m)))"
  by (auto simp: step_down_def save_step_store split: option.split)

lemmas store_effects = start_rollout_store step_up_store step_down_store flags_after_pause

lemma flags_of_others:
  "fs_flags (snd (activate_override cd now rid key actor why tenant ttl s)) = fs_flags s"
  "fs_flags (snd (reset_override cd now rid key actor why tenant s)) = fs_flags s"
  "fs_flags (snd (active_overrides now k s)) = fs_flags s"
  by (auto simp: activate_override_def reset_override_def active_overrides_def store_record_def Let_def split: sum.split prod.split)

lemma remove_flags: "fs_flags (snd (remove_flag cd now rid key actor why tenant s)) = (if blank_flag_entry why then fs_flags s else od_del key (fs_flags s))"
  by (simp add: remove_flag_def store_record_ok Let_def)

lemma flag_step_keyed: "keyed (ro_store m) \<Longrightarrow> keyed (ro_store (flag_step cd e m))"
proof (cases e)
  case (RemoveFlag now rid key actor why tenant)
  then show "keyed (ro_store m) \<Longrightarrow> ?thesis" by (auto simp: remove_flags keyed_def od_set_del)
next
  case (KillFlag now rid key actor why tenant ttl)
  then show "keyed (ro_store m) \<Longrightarrow> ?thesis" by (simp add: keyed_def flags_of_others)
next
  case (ResetFlag now rid key actor why tenant)
  then show "keyed (ro_store m) \<Longrightarrow> ?thesis" by (simp add: keyed_def flags_of_others)
next
  case (ActiveKills now key)
  then show "keyed (ro_store m) \<Longrightarrow> ?thesis" by (simp add: keyed_def flags_of_others)
next
  case (PauseRollout now rid key actor why)
  then show "keyed (ro_store m) \<Longrightarrow> ?thesis" by (simp add: keyed_def flags_after_pause)
next
  case (ResumeRollout now rid key actor why)
  then show "keyed (ro_store m) \<Longrightarrow> ?thesis" by (simp add: keyed_def flags_after_pause)
qed (auto simp: store_effects set_flag_keyed split: option.split)

interpretation flag_runs: guarded_state "flag_step cd" "\<lambda>m. keyed (ro_store m)" for cd
  by unfold_locales (rule flag_step_keyed)

lemma run_keyed: "keyed (ro_store m) \<Longrightarrow> keyed (ro_store (run_flags cd es m))"
  using flag_runs.run_good by (simp add: run_flags_def)

lemma new_keyed [simp]: "keyed (ro_store (new_rollout cd))"
  by (simp add: new_rollout_def new_flag_store_def keyed_def)

subsection \<open>A rollout only grows on its way up\<close>

lemma is_enabled_iff:
  "is_enabled cd now key ctx s \<longleftrightarrow>
     (\<exists>c. od_get (fs_flags s) key = Some c \<and> list_all (\<lambda>k. \<not> kill_applies now key ctx k) (fs_kills s) \<and> fc_enabled c
        \<and> plan_refusal key ctx c = None \<and> er_enabled (evaluate_config cd key ctx c))"
proof -
  have none: "find (kill_applies now key ctx) (filter (\<lambda>k. \<not> override_expired now k) (fs_kills s)) = None
      \<longleftrightarrow> list_all (\<lambda>k. \<not> kill_applies now key ctx k) (fs_kills s)"
    by (auto simp: find_None_iff list_all_iff kill_applies_def)
  show ?thesis
    by (auto simp: is_enabled_def store_evaluate_def evaluate_def flag_verdict_def none [symmetric] split: option.splits)
qed

lemma stays_on_at_more:
  assumes "er_enabled (evaluate_config cd key ctx c)" and "fc_pct c \<le> p"
  shows "er_enabled (evaluate_config cd key ctx (c\<lparr>fc_pct := p, fc_updated := t\<rparr>))"
  using assms by (auto simp: evaluate_config_def flag_verdict_def Let_def split: rollout_strategy.splits option.splits if_splits)

lemma plan_refusal_more [simp]: "plan_refusal key ctx (c\<lparr>fc_pct := p, fc_updated := t\<rparr>) = plan_refusal key ctx c"
  by (simp add: plan_refusal_def effective_min_def)

lemma pct_above_ge: "p \<le> 100 \<Longrightarrow> p \<le> pct_above p" and pct_above_le: "pct_above p \<le> 100"
  by (auto simp: pct_above_def default_steps_def)

lemma pct_below_le: "0 \<le> p \<Longrightarrow> pct_below p \<le> p" and pct_below_ge: "0 \<le> pct_below p"
  by (auto simp: pct_below_def default_steps_def)

lemma same_pct [simp]: "c\<lparr>fc_pct := fc_pct c, fc_updated := fc_updated c\<rparr> = c"
  by (cases c) simp

definition capped :: "flag_store \<Rightarrow> bool" where
  "capped s \<longleftrightarrow> (\<forall>p \<in> set (fs_flags s). fc_pct (snd p) \<le> 100)"

text \<open>One store has grown into another: the same kill overrides, and each flag at the same or a higher percentage.\<close>

definition grown :: "flag_store \<Rightarrow> flag_store \<Rightarrow> bool" where
  "grown s s' \<longleftrightarrow> fs_kills s' = fs_kills s \<and>
     (\<forall>key c. od_get (fs_flags s) key = Some c \<longrightarrow>
        (\<exists>p t. fc_pct c \<le> p \<and> od_get (fs_flags s') key = Some (c\<lparr>fc_pct := p, fc_updated := t\<rparr>)))"

lemma grown_same: "fs_kills s' = fs_kills s \<Longrightarrow> fs_flags s' = fs_flags s \<Longrightarrow> grown s s'"
  unfolding grown_def by (metis same_pct order_refl)

lemma grown_trans:
  assumes "grown s t" and "grown t u" shows "grown s u"
  unfolding grown_def
proof (intro conjI allI impI)
  show "fs_kills u = fs_kills s" using assms by (simp add: grown_def)
  fix key c
  assume "od_get (fs_flags s) key = Some c"
  then obtain p x where p: "fc_pct c \<le> p" "od_get (fs_flags t) key = Some (c\<lparr>fc_pct := p, fc_updated := x\<rparr>)"
    using assms(1) unfolding grown_def by blast
  then obtain q y where q: "p \<le> q" "od_get (fs_flags u) key = Some ((c\<lparr>fc_pct := p, fc_updated := x\<rparr>)\<lparr>fc_pct := q, fc_updated := y\<rparr>)"
    using assms(2) unfolding grown_def by force
  then show "\<exists>p t. fc_pct c \<le> p \<and> od_get (fs_flags u) key = Some (c\<lparr>fc_pct := p, fc_updated := t\<rparr>)"
    using p(1) by (intro exI [of _ q] exI [of _ y]) simp
qed

lemma grown_enabled:
  assumes "grown s s'" and "is_enabled cd t key ctx s" and "t \<le> t'"
  shows "is_enabled cd t' key ctx s'"
proof -
  obtain c where c: "od_get (fs_flags s) key = Some c" "list_all (\<lambda>k. \<not> kill_applies t key ctx k) (fs_kills s)" "fc_enabled c"
      "plan_refusal key ctx c = None" "er_enabled (evaluate_config cd key ctx c)"
    using assms(2) by (auto simp: is_enabled_iff)
  obtain p x where p: "fc_pct c \<le> p" "od_get (fs_flags s') key = Some (c\<lparr>fc_pct := p, fc_updated := x\<rparr>)"
    using assms(1) c(1) unfolding grown_def by blast
  have "\<not> kill_applies t' key ctx k" if "\<not> kill_applies t key ctx k" for k
    using that assms(3) by (auto simp: kill_applies_def override_expired_def split: option.splits)
  then have "list_all (\<lambda>k. \<not> kill_applies t' key ctx k) (fs_kills s')"
    using assms(1) c(2) by (auto simp: grown_def list_all_iff)
  then show ?thesis using c p stays_on_at_more [OF c(5) p(1)] by (simp add: is_enabled_iff)
qed

lemma capped_get: "capped s \<Longrightarrow> od_get (fs_flags s) key = Some c \<Longrightarrow> fc_pct c \<le> 100"
  by (drule od_get_SomeD) (auto simp: capped_def)

lemma set_flag_capped: "capped s \<Longrightarrow> fc_pct c \<le> 100 \<Longrightarrow> capped (snd (set_flag cd now rid c actor why tenant s))"
proof (cases "blank_flag_entry why")
  case False
  assume "capped s" "fc_pct c \<le> 100"
  then show ?thesis
    using set_flag_ok [OF False, of cd now rid c actor tenant s] set_od_put_subset [of "fc_key c" c "fs_flags s"]
    by (fastforce simp: Let_def capped_def)
qed (simp add: set_flag_def)

definition at_most_all :: "flag_op \<Rightarrow> bool" where
  "at_most_all e \<longleftrightarrow> (case e of SetFlag now rid c actor why tenant \<Rightarrow> fc_pct c \<le> 100 | _ \<Rightarrow> True)"

lemma flag_step_capped:
  assumes "capped (ro_store m)" and "at_most_all e" shows "capped (ro_store (flag_step cd e m))"
proof (cases e)
  case (RemoveFlag now rid key actor why tenant)
  then show ?thesis using assms by (auto simp: remove_flags capped_def od_set_del)
next
  case (KillFlag now rid key actor why tenant ttl)
  then show ?thesis using assms by (simp add: capped_def flags_of_others)
next
  case (ResetFlag now rid key actor why tenant)
  then show ?thesis using assms by (simp add: capped_def flags_of_others)
next
  case (ActiveKills now key)
  then show ?thesis using assms by (simp add: capped_def flags_of_others)
next
  case (PauseRollout now rid key actor why)
  then show ?thesis using assms by (simp add: capped_def flags_after_pause)
next
  case (ResumeRollout now rid key actor why)
  then show ?thesis using assms by (simp add: capped_def flags_after_pause)
next
  case (SetFlag now rid c actor why tenant)
  then show ?thesis using assms by (simp add: at_most_all_def set_flag_capped)
next
  case (StartRollout now rid key actor why initial tenant)
  then show ?thesis using assms by (simp add: store_effects set_flag_capped started_def)
next
  case (StepUp now rid key actor why target tenant)
  then show ?thesis using assms capped_get [OF assms(1), of key] pct_above_le
    by (auto simp: store_effects intro!: set_flag_capped split: option.split)
next
  case (StepDown now rid key actor why target tenant)
  have "pct_below p \<le> 100" for p by (auto simp: pct_below_def default_steps_def)
  then show ?thesis using StepDown assms capped_get [OF assms(1), of key]
    by (auto simp: store_effects min_def max_def intro!: set_flag_capped split: option.split)
qed

lemma run_capped: "capped (ro_store m) \<Longrightarrow> list_all at_most_all es \<Longrightarrow> capped (ro_store (run_flags cd es m))"
  by (induction es arbitrary: m) (simp_all add: flag_step_capped)

definition upward :: "flag_op \<Rightarrow> bool" where
  "upward e \<longleftrightarrow> (case e of StepUp now rid key actor why target tenant \<Rightarrow> True | PauseRollout now rid key actor why \<Rightarrow> True
     | ResumeRollout now rid key actor why \<Rightarrow> True | _ \<Rightarrow> False)"

lemma set_flag_grown:
  assumes "keyed s" and "od_get (fs_flags s) key = Some c" and "fc_pct c \<le> p"
  shows "grown s (snd (set_flag cd now rid (c\<lparr>fc_pct := p, fc_updated := t\<rparr>) actor why tenant s))"
proof (cases "blank_flag_entry why")
  case False
  have k: "fc_key c = key" using assms keyed_get by blast
  obtain a where "snd (set_flag cd now rid (c\<lparr>fc_pct := p, fc_updated := t\<rparr>) actor why tenant s)
      = s\<lparr>fs_flags := od_put key (c\<lparr>fc_pct := p, fc_updated := t\<rparr>) (fs_flags s), fs_audit := a\<rparr>"
    using set_flag_ok [OF False, of cd now rid "c\<lparr>fc_pct := p, fc_updated := t\<rparr>" actor tenant s] k by (auto simp: Let_def)
  then show ?thesis using assms(2,3) unfolding grown_def
    by simp (metis same_pct order_refl)
qed (simp add: set_flag_def grown_same)

lemma step_grown:
  assumes "keyed (ro_store m)" and "capped (ro_store m)" and "upward e"
  shows "grown (ro_store m) (ro_store (flag_step cd e m))"
proof (cases e)
  case (StepUp now rid key actor why target tenant)
  show ?thesis
  proof (cases "od_get (fs_flags (ro_store m)) key")
    case (Some c)
    have "fc_pct c \<le> (case target of Some t \<Rightarrow> max (fc_pct c) (min 100 t) | None \<Rightarrow> pct_above (fc_pct c))"
      using pct_above_ge capped_get [OF assms(2) Some] by (simp split: option.split)
    then show ?thesis using Some StepUp set_flag_grown [OF assms(1) Some] by (simp add: store_effects grown_same)
  qed (simp add: StepUp store_effects grown_same)
qed (use assms(3) in \<open>auto simp: upward_def intro!: grown_same simp: flags_after_pause kills_after_rollout\<close>)

lemma run_grown:
  "keyed (ro_store m) \<Longrightarrow> capped (ro_store m) \<Longrightarrow> list_all upward es \<Longrightarrow> grown (ro_store m) (ro_store (run_flags cd es m))"
proof (induction es arbitrary: m)
  case (Cons e es)
  have "at_most_all e" using Cons.prems(3) by (auto simp: upward_def at_most_all_def split: flag_op.splits)
  then show ?case
    using Cons grown_trans [OF step_grown [of m e cd] Cons.IH [of "flag_step cd e m"]] by (simp add: flag_step_keyed flag_step_capped)
qed (simp add: grown_same)

text \<open>
  Stepping a rollout up never takes a flag away. In any store reached with percentages of at most 100, a user for
  whom some flag is on still has it on at any later time after any steps up, pauses and resumptions of rollouts.
\<close>

theorem step_up_never_takes_away:
  assumes "list_all at_most_all es" and "list_all upward fs" and "t \<le> t'"
    and "is_enabled cd t key ctx (ro_store (run_flags cd es (new_rollout cd)))"
  shows "is_enabled cd t' key ctx (ro_store (run_flags cd (es @ fs) (new_rollout cd)))"
proof -
  let ?m = "run_flags cd es (new_rollout cd)"
  have "capped (ro_store (new_rollout cd))" by (simp add: new_rollout_def new_flag_store_def capped_def)
  then have "grown (ro_store ?m) (ro_store (run_flags cd fs ?m))"
    using run_grown [of ?m fs cd] run_keyed run_capped assms(1,2) by simp
  then show ?thesis using grown_enabled assms(3,4) by simp
qed

lemmas flag_eval = start_rollout_store set_flag_def store_record_ok blank_flag_entry_def py_strip_def char_space_def Let_def started_def default_flag_def
  is_enabled_iff plan_refusal_def effective_min_def flag_min_plan_def evaluate_config_def stable_hash_def hex_int_def hex_digit_def flag_verdict_def
  new_rollout_def new_flag_store_def

theorem step_up_never_takes_away_witness:
  "is_enabled zero_codec 2000 EA_AUTO_UPDATE \<lparr>ec_user = ''u'', ec_tenant = ''T'', ec_plan = Some BasicPlan, ec_ring = None\<rparr>
     (ro_store (run_flags zero_codec ([StartRollout 1000 ''r'' EA_AUTO_UPDATE ''a'' ''go'' 1 None] @
        [StepUp 1001 ''s'' EA_AUTO_UPDATE ''a'' ''go'' None None, PauseRollout 1002 ''p'' EA_AUTO_UPDATE ''a'' ''wait'']) (new_rollout zero_codec)))"
proof (rule step_up_never_takes_away)
  show "is_enabled zero_codec 1500 EA_AUTO_UPDATE \<lparr>ec_user = ''u'', ec_tenant = ''T'', ec_plan = Some BasicPlan, ec_ring = None\<rparr>
     (ro_store (run_flags zero_codec [StartRollout 1000 ''r'' EA_AUTO_UPDATE ''a'' ''go'' 1 None] (new_rollout zero_codec)))"
    by (simp add: flag_eval zero_codec_def)
qed (simp_all add: at_most_all_def upward_def)

subsection \<open>A rollout reaches everyone\<close>

lemma pct_above_100: "(pct_above ^^ n) 100 = 100"
  by (induction n) (simp_all add: pct_above_def default_steps_def)

lemma seven_steps: "0 \<le> p \<Longrightarrow> p \<le> 100 \<Longrightarrow> 7 \<le> n \<Longrightarrow> (pct_above ^^ n) p = 100"
proof -
  assume p: "0 \<le> p" "p \<le> 100" and n: "7 \<le> n"
  have "(pct_above ^^ 7) p = 100"
    using p by (simp add: eval_nat_numeral) (auto simp: pct_above_def default_steps_def)
  moreover have "(pct_above ^^ n) p = (pct_above ^^ (n - 7)) ((pct_above ^^ 7) p)"
    using n funpow_add [of "n - 7" 7 pct_above] by simp
  ultimately show ?thesis by (simp add: pct_above_100)
qed

definition full_step :: "flag_key \<Rightarrow> flag_op \<Rightarrow> bool" where
  "full_step key e \<longleftrightarrow> (case e of StepUp now rid k actor why target tenant \<Rightarrow> k = key \<and> \<not> blank_flag_entry why \<and> target = None | _ \<Rightarrow> False)"

lemma full_step_effect:
  assumes "full_step key e" and "keyed (ro_store m)" and "key \<notin> set (ro_paused m)" and "od_get (fs_flags (ro_store m)) key = Some c"
  shows "\<exists>t. od_get (fs_flags (ro_store (flag_step cd e m))) key = Some (c\<lparr>fc_pct := pct_above (fc_pct c), fc_updated := t\<rparr>)
    \<and> ro_paused (flag_step cd e m) = ro_paused m"
proof -
  obtain now rid actor why tenant where e: "e = StepUp now rid key actor why None tenant" "\<not> blank_flag_entry why"
    using assms(1) by (auto simp: full_step_def split: flag_op.splits)
  have k: "fc_key c = key" using assms keyed_get by blast
  let ?c = "c\<lparr>fc_pct := pct_above (fc_pct c), fc_updated := now\<rparr>"
  obtain r a where s: "set_flag cd now rid ?c actor why tenant (ro_store m)
      = (Inr r, (ro_store m)\<lparr>fs_flags := od_put key ?c (fs_flags (ro_store m)), fs_audit := a\<rparr>)"
    using set_flag_ok [OF e(2), of cd now rid ?c actor tenant "ro_store m"] k by (auto simp: Let_def)
  show ?thesis using assms(3,4) e s by (auto simp: step_up_def save_step_def)
qed

lemma full_steps_effect:
  assumes "list_all (full_step key) es" and "keyed (ro_store m)" and "key \<notin> set (ro_paused m)" and "od_get (fs_flags (ro_store m)) key = Some c"
  shows "\<exists>t. od_get (fs_flags (ro_store (run_flags cd es m))) key = Some (c\<lparr>fc_pct := (pct_above ^^ length es) (fc_pct c), fc_updated := t\<rparr>)"
  using assms
proof (induction es arbitrary: m c)
  case Nil
  then show ?case by (auto intro: exI [of _ "fc_updated c"])
next
  case (Cons e es)
  obtain t where t: "od_get (fs_flags (ro_store (flag_step cd e m))) key = Some (c\<lparr>fc_pct := pct_above (fc_pct c), fc_updated := t\<rparr>)"
      "ro_paused (flag_step cd e m) = ro_paused m"
    using full_step_effect [of key e m c cd] Cons.prems by auto
  then show ?case using Cons.IH [of "flag_step cd e m"] Cons.prems
    by (fastforce simp: flag_step_keyed funpow_swap1)
qed

text \<open>
  C23: A rollout reaches everyone. Whatever happened before, after a rollout is started at any percentage and stepped up
  seven times or more, its percentage is 100, and the flag is on for every user whose bucket is below 100 and whom no
  kill override, plan gate or blocklist excludes. Only a user whose digest begins with ffffffff has bucket 100 and stays
  excluded.
\<close>

theorem rollout_reaches_everyone:
  fixes ctx :: eval_context
  assumes "\<not> blank_flag_entry why" and "list_all (full_step key) es" and "7 \<le> length es"
    and "stable_hash cd (flag_value key) (ec_user ctx) (ec_tenant ctx) < 100"
  shows "let s = ro_store (run_flags cd (es0 @ StartRollout t0 rid key actor why initial tenant # es) (new_rollout cd)) in
   \<exists>c. od_get (fs_flags s) key = Some c \<and> fc_pct c = 100 \<and>
     (is_enabled cd now key ctx s \<longleftrightarrow> list_all (\<lambda>k. \<not> kill_applies now key ctx k) (fs_kills s) \<and> plan_refusal key ctx c = None
        \<and> ec_user ctx \<notin> set (fc_block_users c) \<and> ec_tenant ctx \<notin> set (fc_block_tenants c))"
proof -
  define s where "s = ro_store (run_flags cd (es0 @ StartRollout t0 rid key actor why initial tenant # es) (new_rollout cd))"
  let ?m = "run_flags cd es0 (new_rollout cd)"
  let ?m1 = "flag_step cd (StartRollout t0 rid key actor why initial tenant) ?m"
  define c0 where "c0 = started t0 key initial (ro_store ?m)"
  have km: "keyed (ro_store ?m)" using run_keyed by simp
  have k1: "keyed (ro_store ?m1)" using flag_step_keyed [OF km] .
  have k: "fc_key c0 = key"
    using keyed_get [OF km, of key] by (auto simp: c0_def started_def default_flag_def split: option.split)
  obtain a where "ro_store ?m1 = (ro_store ?m)\<lparr>fs_flags := od_put key c0 (fs_flags (ro_store ?m)), fs_audit := a\<rparr>"
    using set_flag_ok [OF assms(1), of cd t0 rid c0 actor tenant "ro_store ?m"] assms(1) k
    by (auto simp: start_rollout_store c0_def Let_def)
  then have "od_get (fs_flags (ro_store ?m1)) key = Some c0" by simp
  moreover have "key \<notin> set (ro_paused ?m1)" using assms(1) by (simp add: start_rollout_paused)
  ultimately obtain t where t: "od_get (fs_flags s) key = Some (c0\<lparr>fc_pct := (pct_above ^^ length es) (fc_pct c0), fc_updated := t\<rparr>)"
    using full_steps_effect [OF assms(2) k1, of c0 cd] by (auto simp: s_def)
  have "(pct_above ^^ length es) (fc_pct c0) = 100"
    using seven_steps [OF _ _ assms(3), of "fc_pct c0"] by (simp add: c0_def started_def)
  then show ?thesis unfolding s_def [symmetric] Let_def using t assms(4)
    by (auto simp: is_enabled_iff c0_def started_def evaluate_config_def flag_verdict_def Let_def split: if_splits)
qed

theorem rollout_reaches_everyone_witness:
  "let s = ro_store (run_flags zero_codec ([RemoveFlag 900 ''q'' PLATFORM_SSO ''a'' ''old'' None] @ StartRollout 1000 ''r'' PLATFORM_SSO ''a'' ''go'' 0 None
       # replicate 7 (StepUp 1001 ''s'' PLATFORM_SSO ''a'' ''go'' None None)) (new_rollout zero_codec)) in
   \<exists>c. od_get (fs_flags s) PLATFORM_SSO = Some c \<and> fc_pct c = 100 \<and>
     (is_enabled zero_codec 2000 PLATFORM_SSO \<lparr>ec_user = ''u'', ec_tenant = ''T'', ec_plan = Some VipPlan, ec_ring = None\<rparr> s \<longleftrightarrow>
        list_all (\<lambda>k. \<not> kill_applies 2000 PLATFORM_SSO \<lparr>ec_user = ''u'', ec_tenant = ''T'', ec_plan = Some VipPlan, ec_ring = None\<rparr> k) (fs_kills s)
        \<and> plan_refusal PLATFORM_SSO \<lparr>ec_user = ''u'', ec_tenant = ''T'', ec_plan = Some VipPlan, ec_ring = None\<rparr> c = None
        \<and> ec_user \<lparr>ec_user = ''u'', ec_tenant = ''T'', ec_plan = Some VipPlan, ec_ring = None\<rparr> \<notin> set (fc_block_users c)
        \<and> ec_tenant \<lparr>ec_user = ''u'', ec_tenant = ''T'', ec_plan = Some VipPlan, ec_ring = None\<rparr> \<notin> set (fc_block_tenants c))"
proof (rule rollout_reaches_everyone)
  show "list_all (full_step PLATFORM_SSO) (replicate 7 (StepUp 1001 ''s'' PLATFORM_SSO ''a'' ''go'' None None))"
    by (simp add: list_all_iff full_step_def blank_flag_entry_def py_strip_def char_space_def)
qed (simp_all add: blank_flag_entry_def py_strip_def char_space_def zero_codec_def stable_hash_def hex_int_def hex_digit_def)

subsection \<open>No change is silent\<close>

lemma set_flag_sealed:
  assumes "\<not> blank_flag_entry why"
  shows "\<exists>now' rid' action payload tenant'. fs_audit (snd (set_flag cd now rid c actor why tenant s))
    = push_entry (sealed_entry cd now' rid' (flag_value (fc_key c)) action actor why payload tenant' (fs_audit s)) (fs_audit s)"
proof -
  obtain action payload where "set_flag cd now rid c actor why tenant s
     = (let r = sealed_entry cd now rid (flag_value (fc_key c)) action actor why payload tenant (fs_audit s) in
        (Inr r, s\<lparr>fs_flags := od_put (fc_key c) c (fs_flags s), fs_audit := push_entry r (fs_audit s)\<rparr>))"
    using set_flag_ok [OF assms] by blast
  then show ?thesis by (simp add: Let_def) blast
qed

lemma blank_refused:
  assumes "blank_flag_entry why"
  shows "set_flag cd now rid c actor why tenant s = (Inl ValueError, s)"
    and "start_rollout cd now rid key actor why initial tenant m = (Inl ValueError, m)"
    and "step_up cd now rid key actor why target tenant m = (Inl ValueError, m)"
    and "step_down cd now rid key actor why target tenant m = (Inl ValueError, m)"
    and "pause_rollout cd now rid key actor why m = (Inl ValueError, m)"
    and "resume_rollout cd now rid key actor why m = (Inl ValueError, m)"
    and "remove_flag cd now rid key actor why tenant s = (Inl ValueError, s)"
    and "activate_override cd now rid key actor why tenant ttl s = (Inl ValueError, s)"
    and "reset_override cd now rid key actor why tenant s = (Inl ValueError, s)"
  using assms by (simp_all add: set_flag_def start_rollout_def step_up_def step_down_def pause_rollout_def resume_rollout_def
      remove_flag_def activate_override_def reset_override_def)

lemma on_store_same [simp]: "on_store (ro_store m) m = m"
  by (simp add: on_store_def)

lemma blank_step: "op_key e \<noteq> None \<Longrightarrow> blank_flag_entry (op_reason e) \<Longrightarrow> flag_step cd e m = m"
  by (cases e) (simp_all add: blank_refused)

lemma sealed_afterI:
  "\<not> blank_flag_entry (op_reason e) \<Longrightarrow> a' = push_entry (sealed_entry cd now rid key action (op_actor e) (op_reason e) payload tenant a) a
   \<Longrightarrow> sealed_after cd key e a a'"
  unfolding sealed_after_def by blast

lemma step_seals:
  assumes "keyed (ro_store m)" and "op_key e = Some key" and "\<not> blank_flag_entry (op_reason e)"
  shows "(flag_step cd e m = m) \<or> sealed_after cd (flag_value key) e (fs_audit (ro_store m)) (fs_audit (ro_store (flag_step cd e m)))"
proof (cases e)
  case (SetFlag now rid c actor why tenant)
  then show ?thesis using assms set_flag_sealed [of why cd now rid c actor tenant "ro_store m"] by (auto simp: sealed_after_def)
next
  case (RemoveFlag now rid k actor why tenant)
  then show ?thesis using assms by (intro disjI2 sealed_afterI) (auto simp: remove_flag_def store_record_ok Let_def)
next
  case (KillFlag now rid k actor why tenant ttl)
  then show ?thesis using assms by (intro disjI2 sealed_afterI) (auto simp: activate_override_def store_record_ok Let_def)
next
  case (ResetFlag now rid k actor why tenant)
  then show ?thesis using assms by (intro disjI2 sealed_afterI) (auto simp: reset_override_def store_record_ok Let_def)
next
  case (StartRollout now rid k actor why initial tenant)
  have "fc_key (started now k initial (ro_store m)) = k"
    using keyed_get [OF assms(1), of k] by (auto simp: started_def default_flag_def split: option.split)
  then show ?thesis using StartRollout assms set_flag_sealed [of why cd now rid "started now k initial (ro_store m)" actor tenant "ro_store m"]
    by (auto simp: start_rollout_store sealed_after_def)
next
  case (StepUp now rid k actor why target tenant)
  show ?thesis
  proof (cases "od_get (fs_flags (ro_store m)) k = None \<or> k \<in> set (ro_paused m)")
    case False
    then obtain c where c: "od_get (fs_flags (ro_store m)) k = Some c" "k \<notin> set (ro_paused m)" by auto
    then show ?thesis using StepUp assms keyed_get [OF assms(1) c(1)]
        set_flag_sealed [of why cd now rid "c\<lparr>fc_pct := (case target of Some t \<Rightarrow> max (fc_pct c) (min 100 t) | None \<Rightarrow> pct_above (fc_pct c)),
          fc_updated := now\<rparr>" actor tenant "ro_store m"]
      by (auto simp: step_up_store sealed_after_def)
  qed (use StepUp in \<open>auto simp: step_up_def split: option.split\<close>)
next
  case (StepDown now rid k actor why target tenant)
  show ?thesis
  proof (cases "od_get (fs_flags (ro_store m)) k")
    case (Some c)
    then show ?thesis using StepDown assms keyed_get [OF assms(1) Some]
        set_flag_sealed [of why cd now rid "c\<lparr>fc_pct := (case target of Some t \<Rightarrow> max 0 (min (fc_pct c) t) | None \<Rightarrow> pct_below (fc_pct c)),
          fc_updated := now\<rparr>" actor tenant "ro_store m"]
      by (auto simp: step_down_store sealed_after_def)
  qed (use StepDown in \<open>auto simp: step_down_def split: option.split\<close>)
next
  case (PauseRollout now rid k actor why)
  then show ?thesis using assms by (intro disjI2 sealed_afterI) (auto simp: pause_rollout_def store_record_ok Let_def)
next
  case (ResumeRollout now rid k actor why)
  then show ?thesis using assms by (intro disjI2 sealed_afterI) (auto simp: resume_rollout_def store_record_ok Let_def)
qed (use assms in simp)

text \<open>
  No change is silent. Whatever happened before, an operation on a flag, its kill overrides or its rollout either
  changes nothing at all, or appends exactly one record, sealed after the last one and numbered behind it, that names
  the flag, the actor and a reason that is not blank.
\<close>

theorem no_flag_change_is_silent:
  assumes "op_key e = Some key"
  shows "let m = run_flags cd es (new_rollout cd); m' = flag_step cd e m; a = fs_audit (ro_store m) in
    m' = m \<or> (\<exists>now rid action payload tenant.
       let r = sealed_entry cd now rid (flag_value key) action (op_actor e) (op_reason e) payload tenant a in
       fs_audit (ro_store m') = push_entry r a \<and> fa_prev r = fh_prev a \<and> fa_seq r = fh_seq a + 1 \<and> flag_fits cd (fh_prev a) r
         \<and> \<not> blank_flag_entry (fa_reason r))"
proof (cases "blank_flag_entry (op_reason e)")
  case False
  have "fa_prev (sealed_entry cd now rid k action actor why payload tenant a) = fh_prev a"
    "flag_fits cd (fh_prev a) (sealed_entry cd now rid k action actor why payload tenant a)" for now rid k action actor why payload tenant a
    by (simp_all add: sealed_entry_def flag_seal_def flag_fits_def flag_hash_def flag_canonical_def)
  then show ?thesis using step_seals [OF run_keyed [OF new_keyed] assms False, of cd cd es] False
    by (auto simp: Let_def sealed_after_def)
qed (use assms blank_step in simp)

theorem no_flag_change_is_silent_witness:
  "let m = run_flags zero_codec [] (new_rollout zero_codec); e = RemoveFlag 1000 ''r'' PLATFORM_SSO ''a'' ''old'' None;
       m' = flag_step zero_codec e m; a = fs_audit (ro_store m) in
    m' = m \<or> (\<exists>now rid action payload tenant.
       let r = sealed_entry zero_codec now rid (flag_value PLATFORM_SSO) action (op_actor e) (op_reason e) payload tenant a in
       fs_audit (ro_store m') = push_entry r a \<and> fa_prev r = fh_prev a \<and> fa_seq r = fh_seq a + 1 \<and> flag_fits zero_codec (fh_prev a) r
         \<and> \<not> blank_flag_entry (fa_reason r))"
  using no_flag_change_is_silent [of "RemoveFlag 1000 ''r'' PLATFORM_SSO ''a'' ''old'' None" PLATFORM_SSO zero_codec "[]"] by (simp only: Let_def op_key.simps simp_thms)

subsection \<open>The trail verifies until records are evicted\<close>

interpretation flag_links: hash_chain "flag_fits cd" fa_hash "flag_seal cd" for cd
  by unfold_locales (simp add: flag_fits_def flag_seal_def flag_hash_def flag_canonical_def)

text \<open>The records held follow some hash, which is the genesis hash as long as none was evicted.\<close>

definition trail_ok :: "flag_codec \<Rightarrow> flag_audit \<Rightarrow> bool" where
  "trail_ok cd a = flag_links.tail_ok cd (flag_genesis cd) flag_records_max (fh_records a) (fh_prev a) (fh_seq a)"

lemma push_trail: "trail_ok cd a \<Longrightarrow> r = flag_seal cd (fh_prev a) c \<Longrightarrow> trail_ok cd (push_entry r a)"
  using flag_links.tail_push [of cd "flag_genesis cd" flag_records_max] by (simp add: trail_ok_def push_entry_def flag_records_max_def)

lemma record_trail:
  "trail_ok cd (fs_audit s) \<Longrightarrow> trail_ok cd (fs_audit (snd (store_record cd now rid key action actor why payload tenant s)))"
proof (cases "blank_flag_entry why")
  case False
  assume "trail_ok cd (fs_audit s)"
  then show ?thesis using False push_trail by (simp add: store_record_ok Let_def) (simp add: sealed_entry_def push_trail)
qed (simp add: store_record_def flag_record_def)

lemma set_flag_trail: "trail_ok cd (fs_audit s) \<Longrightarrow> trail_ok cd (fs_audit (snd (set_flag cd now rid c actor why tenant s)))"
  using record_trail [of cd "s\<lparr>fs_flags := od_put (fc_key c) c (fs_flags s)\<rparr>"] by (auto simp: set_flag_def)

lemma step_trail: "trail_ok cd (fs_audit (ro_store m)) \<Longrightarrow> trail_ok cd (fs_audit (ro_store (flag_step cd e m)))"
proof (cases e)
  case (RemoveFlag now rid key actor why tenant)
  then show "trail_ok cd (fs_audit (ro_store m)) \<Longrightarrow> ?thesis"
    using record_trail [of cd "(ro_store m)\<lparr>fs_flags := od_del key (fs_flags (ro_store m))\<rparr>"] by (simp add: remove_flag_def)
next
  case (KillFlag now rid key actor why tenant ttl)
  then show "trail_ok cd (fs_audit (ro_store m)) \<Longrightarrow> ?thesis"
    using push_trail by (cases "blank_flag_entry why") (simp_all add: activate_override_def store_record_ok Let_def sealed_entry_def)
next
  case (ResetFlag now rid key actor why tenant)
  then show "trail_ok cd (fs_audit (ro_store m)) \<Longrightarrow> ?thesis"
    using push_trail by (cases "blank_flag_entry why") (simp_all add: reset_override_def store_record_ok Let_def sealed_entry_def)
next
  case (PauseRollout now rid key actor why)
  then show "trail_ok cd (fs_audit (ro_store m)) \<Longrightarrow> ?thesis"
    using push_trail by (cases "blank_flag_entry why") (simp_all add: pause_rollout_def store_record_ok Let_def sealed_entry_def)
next
  case (ResumeRollout now rid key actor why)
  then show "trail_ok cd (fs_audit (ro_store m)) \<Longrightarrow> ?thesis"
    using push_trail by (cases "blank_flag_entry why") (simp_all add: resume_rollout_def store_record_ok Let_def sealed_entry_def)
qed (simp_all add: set_flag_trail start_rollout_store step_up_store step_down_store active_overrides_def Let_def split: option.split)

lemma flag_trail_verifies:
  "fh_seq (fs_audit (ro_store (run_flags cd es (new_rollout cd)))) \<le> flag_records_max
   \<Longrightarrow> flag_verify cd (fs_audit (ro_store (run_flags cd es (new_rollout cd))))"
proof -
  have "trail_ok cd (fs_audit (ro_store (run_flags cd es m)))" if "trail_ok cd (fs_audit (ro_store m))" for m
    using that by (induction es arbitrary: m) (simp_all add: step_trail)
  moreover have "trail_ok cd (fs_audit (ro_store (new_rollout cd)))"
    by (simp add: new_rollout_def new_flag_store_def new_flag_audit_def trail_ok_def flag_links.tail_new)
  ultimately have "trail_ok cd (fs_audit (ro_store (run_flags cd es (new_rollout cd))))" by blast
  then show "fh_seq (fs_audit (ro_store (run_flags cd es (new_rollout cd)))) \<le> flag_records_max \<Longrightarrow> ?thesis"
    unfolding trail_ok_def flag_verify_def by (rule flag_links.tail_verifies)
qed

subsection \<open>Strategies that do not restrict\<close>

text \<open>
  Three of the strategies restrict nobody: with \<open>CANARY\<close>, \<open>BLOCKLIST\<close> or \<open>NONE\<close>, and with \<open>RING\<close> for a user without a ring,
  an enabled flag is on for every user who is not blocked.
\<close>

lemma unrestricting_strategies:
  assumes "fc_strategy c \<in> {NoStrategy, Canary, Blocklist} \<or> fc_strategy c = Ring \<and> (fc_min_ring c = None \<or> ec_ring ctx = None)"
  shows "er_enabled (evaluate_config cd key ctx c) \<longleftrightarrow> ec_user ctx \<notin> set (fc_block_users c) \<and> ec_tenant ctx \<notin> set (fc_block_tenants c)"
  using assms by (auto simp: evaluate_config_def flag_verdict_def split: option.split)

text \<open>A user whose context has no plan passes every plan gate.\<close>

lemma no_plan_passes_gates: "ec_plan ctx = None \<Longrightarrow> plan_refusal key ctx c = None"
  by (simp add: plan_refusal_def split: option.split)

text \<open>At 100 % the user whose digest begins with ffffffff is still excluded.\<close>

lemma full_rollout_excludes_top_bucket:
  assumes "take 8 (fl_md5 cd (flag_value key @ '':'' @ ec_tenant ctx @ '':'' @ ec_user ctx)) = ''ffffffff''"
    and "fc_strategy c = Percentage" and "fc_pct c = 100" and "ec_user ctx \<notin> set (fc_allow_users c)" "ec_tenant ctx \<notin> set (fc_allow_tenants c)"
  shows "\<not> er_enabled (evaluate_config cd key ctx c)"
proof -
  have "hex_int ''ffffffff'' = 4294967295" by (simp add: hex_int_def hex_digit_def)
  then have "stable_hash cd (flag_value key) (ec_user ctx) (ec_tenant ctx) = 100"
    using assms(1) by (simp add: stable_hash_def)
  then show ?thesis using assms by (simp add: evaluate_config_def flag_verdict_def)
qed

text \<open>A percentage set above 100 by \<open>set_flag\<close> is lowered by a step up.\<close>

lemma step_up_may_lower: "100 < p \<Longrightarrow> pct_above p = 100"
  by (simp add: pct_above_def default_steps_def)

end
