(* ===== verification/Backtest_Metrics.thy ===== *)
theory Backtest_Metrics
  imports Contracts
begin

section \<open>Performance metrics of a backtest\<close>

text \<open>
  \<open>SharedBacktestMetrics\<close> of \<open>src/backend/research/backtest/engine.py\<close>: Sharpe, Sortino and Calmar ratios, the
  maximal drawdown, profit factor, win rate, expectancy and the equity curve. \<open>float('inf')\<close> is the value \<open>Infinite\<close>.
\<close>

datatype ratio = Finite real | Infinite

definition mean_value :: "real list \<Rightarrow> real" where
  "mean_value xs = sum_list xs / real (length xs)"

text \<open>\<open>statistics.stdev\<close>: the sample standard deviation.\<close>

definition stdev :: "real list \<Rightarrow> real" where
  "stdev xs = sqrt (sum_list (map (\<lambda>x. (x - mean_value xs)\<^sup>2) xs) / (real (length xs) - 1))"

definition sharpe_ratio :: "real list \<Rightarrow> real \<Rightarrow> real \<Rightarrow> real" where
  "sharpe_ratio returns rf periods =
     (if length returns < 2 then 0
      else if periods = 0 then 0
      else (let excess = map (\<lambda>r. r - rf / periods) returns in
            if stdev excess = 0 then 0 else py_round 4 (mean_value excess / stdev excess * sqrt periods)))"

definition sortino_ratio :: "real list \<Rightarrow> real \<Rightarrow> real \<Rightarrow> ratio" where
  "sortino_ratio returns rf periods =
     (if length returns < 2 then Finite 0
      else if periods = 0 then Finite 0
      else (let target = rf / periods; neg = filter (\<lambda>r. r < target) returns in
            if neg = [] then Infinite
            else (let down = sqrt (sum_list (map (\<lambda>r. (r - target)\<^sup>2) neg) / real (length returns)) in
                  if down = 0 then Finite 0 else Finite (py_round 4 ((mean_value returns - target) / down * sqrt periods)))))"

text \<open>One step of the loop of \<open>max_drawdown\<close> on the peak and the two maxima.\<close>

definition drop_from :: "real \<Rightarrow> real \<Rightarrow> real" where
  "drop_from peak val = (if peak > 0 then (peak - val) / peak else 0)"

definition drawdown_step :: "real \<Rightarrow> real \<times> real \<times> real \<Rightarrow> real \<times> real \<times> real" where
  "drawdown_step val st = (case st of (peak, max_dd, max_abs) \<Rightarrow>
     (let peak' = (if val > peak then val else peak); dd = drop_from peak' val in
      if dd > max_dd then (peak', dd, peak' - val) else (peak', max_dd, max_abs)))"

definition drawdown_scan :: "real \<Rightarrow> real list \<Rightarrow> real \<times> real \<times> real" where
  "drawdown_scan e es = fold drawdown_step (e # es) (e, 0, 0)"

definition max_drawdown :: "real list \<Rightarrow> real \<times> real" where
  "max_drawdown es =
     (case es of [] \<Rightarrow> (0, 0)
      | e # rest \<Rightarrow> (case drawdown_scan e rest of (peak, max_dd, max_abs) \<Rightarrow> (py_round 4 (max_dd * 100), py_round 4 max_abs)))"

fun compound :: "real \<Rightarrow> real list \<Rightarrow> real list" where
  "compound e [] = [e]"
| "compound e (r # rs) = e # compound (e * (1 + r)) rs"

definition calmar_ratio :: "real list \<Rightarrow> real \<Rightarrow> real" where
  "calmar_ratio returns periods =
     (if length returns < 2 then 0
      else (let dd = fst (max_drawdown (compound 10000 returns)) in
            if dd \<le> 0 then 0 else py_round 4 (mean_value returns * periods * 100 / dd)))"

definition profit_factor :: "real \<Rightarrow> real \<Rightarrow> ratio" where
  "profit_factor gross_profit gross_loss =
     (if gross_loss = 0 then (if gross_profit > 0 then Infinite else Finite 0)
      else Finite (py_round 4 \<bar>gross_profit / gross_loss\<bar>))"

definition win_rate :: "nat \<Rightarrow> nat \<Rightarrow> real" where
  "win_rate wins n = (if n = 0 then 0 else py_round 2 (real wins / real n * 100))"

definition expectancy :: "real \<Rightarrow> real \<Rightarrow> real \<Rightarrow> real" where
  "expectancy win_rate_pct avg_win avg_loss =
     (let wr = win_rate_pct / 100 in py_round 4 (wr * avg_win - (1 - wr) * \<bar>avg_loss\<bar>))"

record equity_point =
  ep_time :: string
  ep_equity :: real
  ep_drawdown :: real

text \<open>The points after the first, for the profits of the trades and the times of their exits.\<close>

fun equity_points :: "real \<Rightarrow> real \<Rightarrow> (string \<times> real) list \<Rightarrow> equity_point list" where
  "equity_points balance peak [] = []"
| "equity_points balance peak ((ts, pnl) # trades) =
     (let b = balance + pnl; p = (if b > peak then b else peak); dd = (if p > 0 then (p - b) / p * 100 else 0) in
      \<lparr>ep_time = ts, ep_equity = py_round 2 b, ep_drawdown = py_round 4 dd\<rparr> # equity_points b p trades)"

definition build_equity_curve :: "(string \<times> real) list \<Rightarrow> real \<Rightarrow> equity_point list" where
  "build_equity_curve trades initial = \<lparr>ep_time = ''start'', ep_equity = initial, ep_drawdown = 0\<rparr> # equity_points initial initial trades"

subsection \<open>The drawdown scan computes the deepest fall\<close>

text \<open>The specification: the fraction lost from an earlier value of the curve, of which the scan finds the greatest.\<close>

definition falls :: "real list \<Rightarrow> real set" where
  "falls es = {drop_from (es ! i) (es ! j) | i j. i \<le> j \<and> j < length es}"

lemma scan_snoc: "drawdown_scan e (es @ [x]) = drawdown_step x (drawdown_scan e es)"
  by (simp add: drawdown_scan_def)

lemma drop_mono: "p \<le> q \<Longrightarrow> 0 \<le> v \<Longrightarrow> v \<le> q \<Longrightarrow> drop_from p v \<le> drop_from q v"
proof -
  assume a: "p \<le> q" "0 \<le> v" "v \<le> q"
  show ?thesis
  proof (cases "p > 0")
    case True
    then have "v / q \<le> v / p" using a by (intro divide_left_mono) auto
    then show ?thesis using True a by (simp add: drop_from_def diff_divide_distrib)
  qed (use a in \<open>auto simp: drop_from_def\<close>)
qed

lemma falls_snoc:
  "falls (es @ [x]) = falls es \<union> {drop_from p x | p. p \<in> set (es @ [x])}"
proof (intro set_eqI iffI)
  fix d assume "d \<in> falls (es @ [x])"
  then obtain i j where ij: "i \<le> j" "j < Suc (length es)" "d = drop_from ((es @ [x]) ! i) ((es @ [x]) ! j)"
    by (auto simp: falls_def)
  show "d \<in> falls es \<union> {drop_from p x | p. p \<in> set (es @ [x])}"
  proof (cases "j < length es")
    case True
    then show ?thesis using ij by (auto simp: falls_def nth_append)
  next
    case False
    then have "j = length es" using ij by simp
    then have "d = drop_from ((es @ [x]) ! i) x" "(es @ [x]) ! i \<in> set (es @ [x])"
      using ij by (auto simp: nth_append)
    then show ?thesis by blast
  qed
next
  fix d assume "d \<in> falls es \<union> {drop_from p x | p. p \<in> set (es @ [x])}"
  then consider (old) "d \<in> falls es" | (new) p where "d = drop_from p x" "p \<in> set (es @ [x])" by blast
  then show "d \<in> falls (es @ [x])"
  proof cases
    case old
    then obtain i j where "i \<le> j" "j < length es" "d = drop_from (es ! i) (es ! j)" by (auto simp: falls_def)
    then show ?thesis unfolding falls_def by (intro CollectI exI [of _ i] exI [of _ j]) (auto simp: nth_append)
  next
    case new
    then obtain i where "i < length (es @ [x])" "p = (es @ [x]) ! i" by (metis in_set_conv_nth)
    then show ?thesis using new unfolding falls_def by (intro CollectI exI [of _ i] exI [of _ "length es"]) auto
  qed
qed

lemma scan_spec:
  assumes "list_all (\<lambda>v. 0 \<le> v) (e # es)" and "drawdown_scan e es = (peak, dd, ab)"
  shows "peak = Max (set (e # es)) \<and> (\<forall>d \<in> falls (e # es). d \<le> dd) \<and> (dd = 0 \<or> dd \<in> falls (e # es)) \<and> 0 \<le> dd"
  using assms
proof (induction es arbitrary: peak dd ab rule: rev_induct)
  case Nil
  then show ?case by (auto simp: drawdown_scan_def drawdown_step_def drop_from_def falls_def)
next
  case (snoc x es)
  obtain p d a where s: "drawdown_scan e es = (p, d, a)" by (cases "drawdown_scan e es")
  have ih: "p = Max (set (e # es))" "\<forall>f \<in> falls (e # es). f \<le> d" "d = 0 \<or> d \<in> falls (e # es)" "0 \<le> d"
    using snoc.IH [OF _ s] snoc.prems(1) by auto
  have st: "drawdown_step x (p, d, a) = (peak, dd, ab)" using snoc.prems(2) s scan_snoc by simp
  have pk: "peak = max x p" using st by (auto simp: drawdown_step_def Let_def max_def split: if_splits)
  have "set (e # es @ [x]) = insert x (set (e # es))" by auto
  then have m: "peak = Max (set (e # es @ [x]))" using pk ih(1) Max_insert [of "set (e # es)" x] by simp
  have x0: "0 \<le> x" using snoc.prems(1) by simp
  have mx: "q \<le> peak" if "q \<in> set (e # es @ [x])" for q
    unfolding m by (rule Max_ge) (use that in simp_all)
  have new: "drop_from q x \<le> drop_from peak x" if "q \<in> set (e # es @ [x])" for q
    using that mx x0 by (intro drop_mono) simp_all
  have inm: "peak \<in> set (e # es @ [x])" unfolding m by (rule Max_in) auto
  have dd: "dd = max d (drop_from peak x)" using st pk by (auto simp: drawdown_step_def Let_def max_def split: if_splits)
  have f: "falls (e # es @ [x]) = falls (e # es) \<union> {drop_from q x | q. q \<in> set (e # es @ [x])}"
    using falls_snoc [of "e # es" x] by simp
  have "\<forall>g \<in> falls (e # es @ [x]). g \<le> dd"
    unfolding f dd using ih(2) new by (fastforce simp: le_max_iff_disj)
  moreover have "dd = 0 \<or> dd \<in> falls (e # es @ [x])"
    unfolding f dd using ih(3) inm by (auto simp: max_def)
  ultimately show ?case using m ih(4) dd by simp
qed

lemma falls_finite: "finite (falls es)"
proof -
  have "falls es \<subseteq> (\<lambda>(p, v). drop_from p v) ` (set es \<times> set es)" by (force simp: falls_def)
  then show ?thesis by (rule finite_subset) simp
qed

lemma scan_is_max:
  assumes "list_all (\<lambda>v. 0 \<le> v) (e # es)"
  shows "fst (snd (drawdown_scan e es)) = Max (falls (e # es))"
proof -
  obtain p d a where s: "drawdown_scan e es = (p, d, a)" by (cases "drawdown_scan e es")
  note sp = scan_spec [OF assms s]
  have "drop_from e e \<in> falls (e # es)" by (auto simp: falls_def intro!: exI [of _ 0])
  then have z: "0 \<in> falls (e # es)" by (simp add: drop_from_def split: if_splits)
  show ?thesis using sp s z falls_finite by (simp, intro Max_eqI [symmetric]) auto
qed

text \<open>
  The maximal drawdown is what its name says. For a curve without negative values the single pass with a running
  peak gives, in percent and rounded to four digits, the greatest fraction that any value lies below an earlier one; it is
  between 0 and 100.
\<close>

theorem max_drawdown_is_deepest_fall:
  assumes "list_all (\<lambda>v. 0 \<le> v) es" and "es \<noteq> []"
  shows "fst (max_drawdown es) = py_round 4 (Max (falls es) * 100) \<and> 0 \<le> fst (max_drawdown es) \<and> fst (max_drawdown es) \<le> 100"
proof -
  obtain e rest where es: "es = e # rest" using assms(2) by (cases es) auto
  have eq: "fst (max_drawdown es) = py_round 4 (Max (falls es) * 100)"
    using scan_is_max [of e rest] assms(1) es by (cases "drawdown_scan e rest") (auto simp: max_drawdown_def)
  have "drop_from p v \<le> 1" if "0 \<le> v" for p v
    using that by (simp add: drop_from_def diff_divide_distrib divide_nonneg_pos)
  then have le: "\<forall>d \<in> falls es. d \<le> 1" using assms(1) by (auto simp: falls_def list_all_length)
  have "drop_from e e \<in> falls es" using es by (auto simp: falls_def intro!: exI [of _ 0])
  then have z: "0 \<in> falls es" by (simp add: drop_from_def split: if_splits)
  have "0 \<le> Max (falls es)" "Max (falls es) \<le> 1" using z le falls_finite by (auto intro: Max_ge Max.boundedI)
  then show ?thesis using eq py_round_nonneg [of "Max (falls es) * 100" 4] py_round_le [of "Max (falls es) * 100" 1000000 4] by simp
qed

theorem max_drawdown_is_deepest_fall_witness:
  "fst (max_drawdown [100, 120, 90, 110]) = py_round 4 (Max (falls [100, 120, 90, 110]) * 100)
   \<and> 0 \<le> fst (max_drawdown [100, 120, 90, 110]) \<and> fst (max_drawdown [100, 120, 90, 110]) \<le> 100"
  by (rule max_drawdown_is_deepest_fall) simp_all

text \<open>The curve starts at the initial balance and carries the running balance; its drawdowns are never negative.\<close>

lemma equity_points_spec:
  "map ep_equity (equity_points b p trades) = map (\<lambda>k. py_round 2 (b + sum_list (map snd (take (Suc k) trades)))) [0..<length trades]"
proof (induction b p trades rule: equity_points.induct)
  case (2 b p ts pnl trades)
  have "map (\<lambda>k. py_round 2 (b + sum_list (map snd (take (Suc k) ((ts, pnl) # trades))))) [0..<length ((ts, pnl) # trades)]
      = py_round 2 (b + pnl) # map (\<lambda>k. py_round 2 (b + pnl + sum_list (map snd (take (Suc k) trades)))) [0..<length trades]"
    by (simp add: upt_conv_Cons map_Suc_upt [symmetric] del: upt_Suc map_Suc_upt) (simp add: add.assoc o_def)
  then show ?case using 2 by (simp add: Let_def)
qed simp

lemma curve_drawdowns:
  "b \<le> p \<Longrightarrow> list_all (\<lambda>q. 0 \<le> ep_drawdown q) (equity_points b p trades)"
proof (induction b p trades rule: equity_points.induct)
  case (2 b p ts pnl trades)
  define q where "q = (if b + pnl > p then b + pnl else p)"
  have "0 \<le> (if q > 0 then (q - (b + pnl)) / q * 100 else 0)" by (auto simp: q_def)
  then show ?case using 2 by (auto simp: Let_def q_def intro: py_round_nonneg)
qed simp

lemma win_rate_bounds: "wins \<le> n \<Longrightarrow> 0 \<le> win_rate wins n \<and> win_rate wins n \<le> 100"
proof -
  assume w: "wins \<le> n"
  have "real wins / real n * 100 \<le> of_int 10000 / 10 ^ 2" if "n \<noteq> 0"
    using w that by (simp add: field_simps)
  then show ?thesis
    using py_round_le [of "real wins / real n * 100" 10000 2] by (auto simp: win_rate_def intro: py_round_nonneg)
qed

end
