(* ===== verification/Backtest.thy ===== *)
theory Backtest
  imports Backtest_Metrics "HOL-Library.List_Lexorder" "HOL-Library.Char_ord"
begin

section \<open>The backtest engine\<close>

text \<open>
  \<open>src/backend/research/backtest/engine.py\<close>: the candle-by-candle simulation of a strategy and the summary of its
  trades. The strategy (\<open>signal_fn\<close>) is a parameter: a function from the candle and at most fifty candles before it to
  a signal, which may raise. The entries of a signal are optional, as they are in the dictionary the strategy returns,
  and numbers where present. Trade identifiers (random) are left out.
\<close>

record bt_bar =
  ba_ts :: string
  ba_open :: real
  ba_high :: real
  ba_low :: real
  ba_close :: real
  ba_volume :: real
  ba_spread :: real

record bt_signal =
  sg_direction :: "string option"
  sg_entry :: "real option"
  sg_stop :: "real option"
  sg_target :: "real option"

datatype bt_outcome = WIN | LOSS | BE

record bt_trade =
  tr_symbol :: string
  tr_direction :: string
  tr_entry_time :: string
  tr_exit_time :: string
  tr_entry :: real
  tr_exit :: real
  tr_stop :: real
  tr_target :: real
  tr_lot :: real
  tr_pips :: real
  tr_pnl :: real
  tr_slippage :: real
  tr_outcome :: bt_outcome

record bt_config =
  cf_symbol :: string
  cf_timeframe :: string
  cf_initial :: real
  cf_risk :: real
  cf_slippage :: real
  cf_commission :: real
  cf_min_rr :: real
  cf_pip :: real

definition default_bt_config :: bt_config where
  "default_bt_config = \<lparr>cf_symbol = ''XAUUSD'', cf_timeframe = ''H1'', cf_initial = 10000, cf_risk = 1, cf_slippage = 1 / 2,
     cf_commission = 7 / 2, cf_min_rr = 3 / 2, cf_pip = 10\<rparr>"

type_synonym strategy = "bt_bar \<Rightarrow> bt_bar list \<Rightarrow> exc + bt_signal option"

subsection \<open>Signals\<close>

definition valid_levels :: "real \<Rightarrow> string \<Rightarrow> real \<Rightarrow> real \<Rightarrow> real \<Rightarrow> bool" where
  "valid_levels min_rr d ep sl tp =
     (if ep \<le> 0 \<or> sl \<le> 0 \<or> tp \<le> 0 then False
      else if d \<noteq> ''BUY'' \<and> d \<noteq> ''SELL'' then False
      else (case (if d = ''BUY'' then (ep - sl, tp - ep) else (sl - ep, ep - tp)) of (risk, reward) \<Rightarrow>
        if risk \<le> 0 \<or> reward \<le> 0 then False else if reward / risk < min_rr then False else True))"

definition is_valid_signal :: "bt_config \<Rightarrow> bt_signal \<Rightarrow> bool" where
  "is_valid_signal cfg sig =
     (case (sg_direction sig, sg_entry sig, sg_stop sig, sg_target sig) of
        (Some d, Some ep, Some sl, Some tp) \<Rightarrow> valid_levels (cf_min_rr cfg) (py_upper d) ep sl tp
      | _ \<Rightarrow> False)"

subsection \<open>The simulation of one trade\<close>

text \<open>The loop over the later candles: the stop is looked at before the target.\<close>

fun exit_scan :: "bool \<Rightarrow> real \<Rightarrow> real \<Rightarrow> bt_bar list \<Rightarrow> (real \<times> bt_outcome \<times> string) option" where
  "exit_scan buy sl tp [] = None"
| "exit_scan buy sl tp (b # bs) =
     (if buy then
        (if ba_low b \<le> sl then Some (sl, LOSS, ba_ts b)
         else if tp \<le> ba_high b then Some (tp, WIN, ba_ts b) else exit_scan buy sl tp bs)
      else
        (if sl \<le> ba_high b then Some (sl, LOSS, ba_ts b)
         else if ba_low b \<le> tp then Some (tp, WIN, ba_ts b) else exit_scan buy sl tp bs))"

text \<open>The loop with its \<open>else\<close>: without an exit the trade is closed at the last candle.\<close>

definition exit_of :: "bool \<Rightarrow> real \<Rightarrow> real \<Rightarrow> bt_bar \<Rightarrow> bt_bar list \<Rightarrow> real \<times> bt_outcome \<times> string" where
  "exit_of buy sl tp entry future =
     (case exit_scan buy sl tp (tl future) of
        Some r \<Rightarrow> r
      | None \<Rightarrow> (let b = (if future = [] then entry else last future) in (ba_close b, BE, ba_ts b)))"

definition slipped :: "bt_config \<Rightarrow> bool \<Rightarrow> real \<Rightarrow> real" where
  "slipped cfg buy ep = (let slip = cf_slippage cfg * (1 / 10) in if buy then ep + slip else ep - slip)"

definition lot_for :: "bt_config \<Rightarrow> real \<Rightarrow> real \<Rightarrow> real" where
  "lot_for cfg balance risk_pips =
     (let risk_usd = balance * (cf_risk cfg / 100) in
      max (1 / 100) (min (py_round 2 (risk_usd / (risk_pips * cf_pip cfg))) 10))"

definition trade_at :: "bt_config \<Rightarrow> real \<Rightarrow> string \<Rightarrow> real \<Rightarrow> real \<Rightarrow> real \<Rightarrow> bt_bar \<Rightarrow> bt_bar list \<Rightarrow> bt_trade" where
  "trade_at cfg balance d ep sl tp entry future =
     (let buy = (d = ''BUY''); ep_actual = slipped cfg buy ep; lot = lot_for cfg balance (\<bar>ep_actual - sl\<bar> * 10) in
      case exit_of buy sl tp entry future of (exit_price, why, exit_time) \<Rightarrow>
        (let pips = (if buy then exit_price - ep_actual else ep_actual - exit_price) * 10;
             usd = pips * cf_pip cfg * lot - cf_commission cfg * lot in
         \<lparr>tr_symbol = cf_symbol cfg, tr_direction = d, tr_entry_time = ba_ts entry, tr_exit_time = exit_time,
          tr_entry = py_round 5 ep_actual, tr_exit = py_round 5 exit_price, tr_stop = sl, tr_target = tp, tr_lot = lot,
          tr_pips = py_round 2 pips, tr_pnl = py_round 2 usd, tr_slippage = py_round 2 (cf_slippage cfg), tr_outcome = why\<rparr>))"

definition simulate_trade :: "bt_config \<Rightarrow> real \<Rightarrow> bt_signal \<Rightarrow> bt_bar \<Rightarrow> bt_bar list \<Rightarrow> exc + bt_trade option" where
  "simulate_trade cfg balance sig entry future =
     (case (sg_direction sig, sg_entry sig, sg_stop sig, sg_target sig) of
        (Some d, Some ep, Some sl, Some tp) \<Rightarrow>
          (if \<bar>slipped cfg (py_upper d = ''BUY'') ep - sl\<bar> * 10 \<le> 0 then Inr None
           else if cf_pip cfg = 0 then Inl ZeroDivisionError
           else Inr (Some (trade_at cfg balance (py_upper d) ep sl tp entry future)))
      | _ \<Rightarrow> Inl KeyError)"

subsection \<open>The run\<close>

fun bt_loop :: "strategy \<Rightarrow> bt_config \<Rightarrow> real \<Rightarrow> bt_bar list \<Rightarrow> bt_bar list \<Rightarrow> exc + bt_trade list" where
  "bt_loop f cfg balance history [] = Inr []"
| "bt_loop f cfg balance history (c # cs) =
     (let sig = (case f c (take_last 50 history) of Inl e \<Rightarrow> None | Inr s \<Rightarrow> s) in
      case sig of
        None \<Rightarrow> bt_loop f cfg balance (history @ [c]) cs
      | Some s \<Rightarrow>
          if \<not> is_valid_signal cfg s then bt_loop f cfg balance (history @ [c]) cs
          else (case simulate_trade cfg balance s c (c # cs) of
              Inl e \<Rightarrow> Inl e
            | Inr None \<Rightarrow> bt_loop f cfg balance (history @ [c]) cs
            | Inr (Some t) \<Rightarrow>
                (case bt_loop f cfg (balance + tr_pnl t) (history @ [c]) cs of Inl e \<Rightarrow> Inl e | Inr ts \<Rightarrow> Inr (t # ts))))"

record bt_result =
  br_start :: string
  br_end :: string
  br_total :: nat
  br_wins :: nat
  br_losses :: nat
  br_breakeven :: nat
  br_win_rate :: real
  br_profit_factor :: ratio
  br_pips :: real
  br_pnl :: real
  br_dd_pct :: real
  br_dd_usd :: real
  br_sharpe :: real
  br_sortino :: ratio
  br_calmar :: real
  br_expectancy :: real
  br_avg_win :: real
  br_avg_loss :: real
  br_avg_rr :: real
  br_final :: real
  br_return_pct :: real
  br_trades :: "bt_trade list"
  br_curve :: "equity_point list"
  br_monthly :: "(string \<times> real) list"

definition monthly_returns :: "bt_trade list \<Rightarrow> (string \<times> real) list" where
  "monthly_returns ts =
     map (\<lambda>(k, v). (k, py_round 2 v)) (sort_key fst (fold (\<lambda>t. od_add (take 7 (tr_exit_time t)) (tr_pnl t)) ts []))"

definition avg_pnl :: "bt_trade list \<Rightarrow> real" where
  "avg_pnl ts = (if ts = [] then 0 else sum_list (map tr_pnl ts) / real (length ts))"

definition rr_of :: "bt_trade \<Rightarrow> real list" where
  "rr_of t = (let risk = \<bar>tr_entry t - tr_stop t\<bar>; reward = \<bar>tr_target t - tr_entry t\<bar> in if risk > 0 then [reward / risk] else [])"

definition empty_backtest :: "bt_config \<Rightarrow> bt_bar list \<Rightarrow> bt_result" where
  "empty_backtest cfg bars = \<lparr>br_start = (if bars = [] then [] else ba_ts (hd bars)), br_end = (if bars = [] then [] else ba_ts (last bars)),
     br_total = 0, br_wins = 0, br_losses = 0, br_breakeven = 0, br_win_rate = 0, br_profit_factor = Finite 0, br_pips = 0, br_pnl = 0,
     br_dd_pct = 0, br_dd_usd = 0, br_sharpe = 0, br_sortino = Finite 0, br_calmar = 0, br_expectancy = 0, br_avg_win = 0, br_avg_loss = 0,
     br_avg_rr = 0, br_final = cf_initial cfg, br_return_pct = 0, br_trades = [], br_curve = [], br_monthly = []\<rparr>"

definition build_result :: "bt_config \<Rightarrow> bt_bar list \<Rightarrow> bt_trade list \<Rightarrow> exc + bt_result" where
  "build_result cfg bars ts =
     (if ts = [] then Inr (empty_backtest cfg bars)
      else if cf_initial cfg = 0 then Inl ZeroDivisionError
      else (let wins = filter (\<lambda>t. tr_outcome t = WIN) ts; losses = filter (\<lambda>t. tr_outcome t = LOSS) ts;
                breakeven = filter (\<lambda>t. tr_outcome t = BE) ts;
                pnl = sum_list (map tr_pnl ts); final = cf_initial cfg + pnl;
                wr = win_rate (length wins) (length ts);
                gross_profit = sum_list (map tr_pnl (filter (\<lambda>t. tr_pnl t > 0) ts));
                gross_loss = sum_list (map tr_pnl (filter (\<lambda>t. tr_pnl t < 0) ts));
                curve = build_equity_curve (map (\<lambda>t. (tr_exit_time t, tr_pnl t)) ts) (cf_initial cfg);
                dd = max_drawdown (map ep_equity curve);
                returns = map (\<lambda>t. tr_pnl t / cf_initial cfg) ts;
                rr = concat (map rr_of ts) in
            Inr ((empty_backtest cfg bars)\<lparr>br_total := length ts, br_wins := length wins, br_losses := length losses,
              br_breakeven := length breakeven, br_win_rate := wr, br_profit_factor := profit_factor gross_profit gross_loss,
              br_pips := sum_list (map tr_pips ts), br_pnl := pnl, br_dd_pct := fst dd, br_dd_usd := snd dd,
              br_sharpe := sharpe_ratio returns 0 252, br_sortino := sortino_ratio returns 0 252, br_calmar := calmar_ratio returns 252,
              br_expectancy := expectancy wr (avg_pnl wins) (avg_pnl losses), br_avg_win := avg_pnl wins, br_avg_loss := avg_pnl losses,
              br_avg_rr := (if rr = [] then 0 else py_round 3 (sum_list rr / real (length rr))), br_final := final,
              br_return_pct := (final - cf_initial cfg) / cf_initial cfg * 100, br_trades := ts, br_curve := curve,
              br_monthly := monthly_returns ts\<rparr>)))"

definition bt_run :: "strategy \<Rightarrow> bt_config \<Rightarrow> bt_bar list \<Rightarrow> exc + bt_result" where
  "bt_run f cfg bars = (case bt_loop f cfg (cf_initial cfg) [] bars of Inl e \<Rightarrow> Inl e | Inr ts \<Rightarrow> build_result cfg bars ts)"

text \<open>\<open>apply_slippage\<close>, the slippage of the module's other clients.\<close>

definition mentions_jpy :: "string \<Rightarrow> bool" where
  "mentions_jpy symbol = list_ex (\<lambda>i. take 3 (drop i symbol) = ''JPY'') [0..<length symbol]"

definition apply_slippage :: "real \<Rightarrow> string \<Rightarrow> real \<Rightarrow> string \<Rightarrow> real" where
  "apply_slippage price d pips symbol =
     (let pip = (if mentions_jpy symbol then 1 / 10 else if symbol \<noteq> ''XAUUSD'' \<and> symbol \<noteq> ''XAGUSD'' then 1 / 10000 else 1 / 10);
          slip = pips * pip in
      if py_upper d = ''BUY'' then price + slip else price - slip)"

subsection \<open>A trade ends at the first candle that touches a level\<close>

definition hits_stop :: "bool \<Rightarrow> real \<Rightarrow> bt_bar \<Rightarrow> bool" where
  "hits_stop buy sl b \<longleftrightarrow> (if buy then ba_low b \<le> sl else sl \<le> ba_high b)"

definition hits_target :: "bool \<Rightarrow> real \<Rightarrow> bt_bar \<Rightarrow> bool" where
  "hits_target buy tp b \<longleftrightarrow> (if buy then tp \<le> ba_high b else ba_low b \<le> tp)"

lemma exit_scan_find:
  "exit_scan buy sl tp bs =
     map_option (\<lambda>b. if hits_stop buy sl b then (sl, LOSS, ba_ts b) else (tp, WIN, ba_ts b))
       (find (\<lambda>b. hits_stop buy sl b \<or> hits_target buy tp b) bs)"
  by (induction bs) (auto simp: hits_stop_def hits_target_def)

lemma simulate_trade_Some:
  "simulate_trade cfg balance sig entry future = Inr (Some t) \<longleftrightarrow>
     (\<exists>d ep sl tp. sg_direction sig = Some d \<and> sg_entry sig = Some ep \<and> sg_stop sig = Some sl \<and> sg_target sig = Some tp
        \<and> slipped cfg (py_upper d = ''BUY'') ep \<noteq> sl \<and> cf_pip cfg \<noteq> 0 \<and> t = trade_at cfg balance (py_upper d) ep sl tp entry future)"
  by (auto simp: simulate_trade_def split: option.splits)

lemma trade_at_simps [simp]:
  "tr_direction (trade_at cfg balance d ep sl tp entry future) = d"
  "tr_stop (trade_at cfg balance d ep sl tp entry future) = sl"
  "tr_target (trade_at cfg balance d ep sl tp entry future) = tp"
  "tr_entry_time (trade_at cfg balance d ep sl tp entry future) = ba_ts entry"
  "tr_entry (trade_at cfg balance d ep sl tp entry future) = py_round 5 (slipped cfg (d = ''BUY'') ep)"
  "tr_lot (trade_at cfg balance d ep sl tp entry future) = lot_for cfg balance (\<bar>slipped cfg (d = ''BUY'') ep - sl\<bar> * 10)"
  by (simp_all add: trade_at_def Let_def split: prod.split)

lemma trade_at_exit:
  assumes "exit_of (d = ''BUY'') sl tp entry future = (p, w, ts)"
  shows "tr_exit (trade_at cfg balance d ep sl tp entry future) = py_round 5 p"
    and "tr_outcome (trade_at cfg balance d ep sl tp entry future) = w"
    and "tr_exit_time (trade_at cfg balance d ep sl tp entry future) = ts"
  using assms by (simp_all add: trade_at_def Let_def)

text \<open>
  A simulated trade ends at the first candle after its entry that touches its stop or its target: with a loss at the
  stop whenever that candle touches the stop, even when it touches the target as well, and with a win at the target
  otherwise. Only if no candle touches either level it ends break-even at the close of the last candle.
\<close>

theorem exit_is_first_touch:
  assumes "simulate_trade cfg balance sig entry (entry # later) = Inr (Some t)"
  shows "let buy = (tr_direction t = ''BUY'') in
    (case find (\<lambda>b. hits_stop buy (tr_stop t) b \<or> hits_target buy (tr_target t) b) later of
       Some b \<Rightarrow> tr_exit_time t = ba_ts b \<and> tr_outcome t = (if hits_stop buy (tr_stop t) b then LOSS else WIN)
         \<and> tr_exit t = py_round 5 (if hits_stop buy (tr_stop t) b then tr_stop t else tr_target t)
     | None \<Rightarrow> tr_outcome t = BE \<and> tr_exit_time t = ba_ts (last (entry # later)) \<and> tr_exit t = py_round 5 (ba_close (last (entry # later))))"
proof -
  obtain d ep sl tp where t: "t = trade_at cfg balance d ep sl tp entry (entry # later)"
    using assms by (auto simp: simulate_trade_Some)
  obtain p w ts where e: "exit_of (d = ''BUY'') sl tp entry (entry # later) = (p, w, ts)"
    by (cases "exit_of (d = ''BUY'') sl tp entry (entry # later)")
  show ?thesis using e by (auto simp: t trade_at_exit [OF e] exit_of_def exit_scan_find Let_def split: option.splits if_splits)
qed

subsection \<open>What a losing trade can cost\<close>

lemma cents: "\<bar>py_round 2 x - x\<bar> \<le> 1 / 200"
  using py_round_error [of 2 x] by simp

lemma lot_for_le: "lot_for cfg balance rp \<le> max (1 / 100) (balance * (cf_risk cfg / 100) / (rp * cf_pip cfg) + 1 / 200)"
proof -
  have "py_round 2 x \<le> x + 1 / 200" for x using cents [of x] by linarith
  from this [of "balance * (cf_risk cfg / 100) / (rp * cf_pip cfg)"] show ?thesis by (auto simp: lot_for_def Let_def)
qed

lemma lot_for_bounds: "1 / 100 \<le> lot_for cfg balance rp" "lot_for cfg balance rp \<le> 10"
  by (auto simp: lot_for_def Let_def)

lemma valid_levels_side:
  assumes "valid_levels rr d ep sl tp"
  shows "(d = ''BUY'' \<and> sl < ep \<and> ep < tp) \<or> (d = ''SELL'' \<and> tp < ep \<and> ep < sl)"
  using assms by (auto simp: valid_levels_def split: if_splits)

text \<open>
  A losing trade costs what it may risk. For a valid signal, non-negative slippage and a positive pip value, a trade
  that ends at its stop loses at most the configured share of the balance plus the rounding of the lot (half a hundredth
  of a lot), or the risk of the minimal lot if that is more, plus the commission; its lot is between 0.01 and 10.
\<close>

theorem stop_loss_bounds_the_loss:
  assumes "simulate_trade cfg balance sig entry (entry # later) = Inr (Some t)" and "is_valid_signal cfg sig" and "tr_outcome t = LOSS"
    and "0 \<le> cf_slippage cfg" and "0 < cf_pip cfg"
  shows "let rp = \<bar>slipped cfg (tr_direction t = ''BUY'') (the (sg_entry sig)) - tr_stop t\<bar> * 10 in
    1 / 100 \<le> tr_lot t \<and> tr_lot t \<le> 10 \<and>
    - tr_pnl t \<le> max (balance * cf_risk cfg / 100 + rp * cf_pip cfg / 200) (rp * cf_pip cfg / 100) + cf_commission cfg * tr_lot t + 1 / 200"
proof -
  obtain d ep sl tp where sig: "sg_direction sig = Some d" "sg_entry sig = Some ep" "sg_stop sig = Some sl" "sg_target sig = Some tp"
      "slipped cfg (py_upper d = ''BUY'') ep \<noteq> sl" and t: "t = trade_at cfg balance (py_upper d) ep sl tp entry (entry # later)"
    using assms(1) by (auto simp: simulate_trade_Some)
  define buy where "buy \<longleftrightarrow> py_upper d = ''BUY''"
  define rp where "rp = \<bar>slipped cfg buy ep - sl\<bar> * 10"
  define lot where "lot = lot_for cfg balance rp"
  have side: "(buy \<and> sl < ep) \<or> (\<not> buy \<and> ep < sl)"
    using assms(2) valid_levels_side [of "cf_min_rr cfg" "py_upper d" ep sl tp] by (auto simp: is_valid_signal_def sig buy_def)
  have rp: "0 < rp" using sig(5) by (simp add: rp_def buy_def)
  obtain p ts where ex: "exit_of buy sl tp entry (entry # later) = (p, LOSS, ts)"
    using assms(3) by (cases "exit_of buy sl tp entry (entry # later)") (auto simp: t trade_at_def Let_def buy_def)
  then have p: "p = sl" by (auto simp: exit_of_def exit_scan_find Let_def split: option.splits if_splits)
  have dist: "(if buy then p - slipped cfg buy ep else slipped cfg buy ep - p) * 10 = - rp"
  proof (cases buy)
    case True
    then have "sl < slipped cfg buy ep" using side assms(4) by (simp add: slipped_def Let_def)
    then show ?thesis using True by (simp add: p rp_def)
  next
    case False
    then have "slipped cfg buy ep < sl" using side assms(4) by (simp add: slipped_def Let_def)
    then show ?thesis using False by (simp add: p rp_def)
  qed
  have pnl: "tr_pnl t = py_round 2 (- rp * cf_pip cfg * lot - cf_commission cfg * lot)"
    using ex dist by (simp add: t trade_at_def Let_def buy_def [symmetric] rp_def [symmetric] lot_def [symmetric])
  have "\<bar>tr_pnl t - (- rp * cf_pip cfg * lot - cf_commission cfg * lot)\<bar> \<le> 1 / 200"
    unfolding pnl by (rule cents)
  then have le: "- tr_pnl t \<le> rp * cf_pip cfg * lot + cf_commission cfg * lot + 1 / 200" by linarith
  have pos: "0 < rp * cf_pip cfg" using rp assms(5) by simp
  have "rp * cf_pip cfg * lot \<le> rp * cf_pip cfg * max (1 / 100) (balance * (cf_risk cfg / 100) / (rp * cf_pip cfg) + 1 / 200)"
    unfolding lot_def by (rule mult_left_mono [OF lot_for_le]) (use pos in simp)
  also have "\<dots> = max (rp * cf_pip cfg * (1 / 100)) (rp * cf_pip cfg * (balance * (cf_risk cfg / 100) / (rp * cf_pip cfg) + 1 / 200))"
    using pos by (simp only: max_mult_distrib_left less_imp_le if_True)
  also have "rp * cf_pip cfg * (balance * (cf_risk cfg / 100) / (rp * cf_pip cfg) + 1 / 200) = balance * cf_risk cfg / 100 + rp * cf_pip cfg / 200"
    using rp assms(5) by (simp add: distrib_left)
  finally show ?thesis
    using le lot_for_bounds [of cfg balance rp] by (simp add: t sig buy_def [symmetric] rp_def [symmetric] lot_def [symmetric] Let_def max.commute)
qed

subsection \<open>Entries are decided without the future\<close>

definition entry_of :: "bt_trade \<Rightarrow> string \<times> string \<times> real \<times> real \<times> real" where
  "entry_of t = (tr_direction t, tr_entry_time t, tr_entry t, tr_stop t, tr_target t)"

text \<open>What the strategy decides at a candle, from that candle and the ones before it.\<close>

definition entry_at :: "strategy \<Rightarrow> bt_config \<Rightarrow> bt_bar list \<Rightarrow> bt_bar \<Rightarrow> (string \<times> string \<times> real \<times> real \<times> real) list" where
  "entry_at f cfg history c =
     (case f c (take_last 50 history) of
        Inr (Some s) \<Rightarrow>
          (if is_valid_signal cfg s \<and> slipped cfg (py_upper (the (sg_direction s)) = ''BUY'') (the (sg_entry s)) \<noteq> the (sg_stop s)
           then [(py_upper (the (sg_direction s)), ba_ts c, py_round 5 (slipped cfg (py_upper (the (sg_direction s)) = ''BUY'') (the (sg_entry s))),
                  the (sg_stop s), the (sg_target s))]
           else [])
      | _ \<Rightarrow> [])"

fun entries :: "strategy \<Rightarrow> bt_config \<Rightarrow> bt_bar list \<Rightarrow> bt_bar list \<Rightarrow> (string \<times> string \<times> real \<times> real \<times> real) list" where
  "entries f cfg history [] = []"
| "entries f cfg history (c # cs) = entry_at f cfg history c @ entries f cfg (history @ [c]) cs"

lemma entries_append: "entries f cfg h (xs @ ys) = entries f cfg h xs @ entries f cfg (h @ xs) ys"
  by (induction xs arbitrary: h) simp_all

lemma valid_signal_levels: "is_valid_signal cfg s \<Longrightarrow>
    \<exists>d ep sl tp. s = \<lparr>sg_direction = Some d, sg_entry = Some ep, sg_stop = Some sl, sg_target = Some tp\<rparr>"
  by (cases s) (auto simp: is_valid_signal_def split: option.splits)

lemma loop_entries: "bt_loop f cfg balance h cs = Inr ts \<Longrightarrow> map entry_of ts = entries f cfg h cs"
proof (induction cs arbitrary: balance h ts)
  case (Cons c cs)
  show ?case
  proof (cases "\<exists>s. f c (take_last 50 h) = Inr (Some s) \<and> is_valid_signal cfg s")
    case True
    then obtain s where s: "f c (take_last 50 h) = Inr (Some s)" "is_valid_signal cfg s" by blast
    obtain d ep sl tp where sig: "s = \<lparr>sg_direction = Some d, sg_entry = Some ep, sg_stop = Some sl, sg_target = Some tp\<rparr>"
      using valid_signal_levels [OF s(2)] by blast
    show ?thesis
    proof (cases "simulate_trade cfg balance s c (c # cs)")
      case (Inr r)
      show ?thesis
      proof (cases r)
        case None
        then have "slipped cfg (py_upper d = ''BUY'') ep = sl" using Inr by (simp add: simulate_trade_def sig split: if_splits)
        then show ?thesis using None Inr Cons s by (simp add: entry_at_def sig)
      next
        case (Some t)
        then have t: "t = trade_at cfg balance (py_upper d) ep sl tp c (c # cs)" "slipped cfg (py_upper d = ''BUY'') ep \<noteq> sl"
          using Inr simulate_trade_Some [of cfg balance s c "c # cs" t] by (auto simp: sig)
        obtain ts' where ts': "bt_loop f cfg (balance + tr_pnl t) (h @ [c]) cs = Inr ts'" "ts = t # ts'"
          using Cons.prems Inr Some s by (auto split: sum.splits)
        then show ?thesis using Cons.IH [OF ts'(1)] s t by (simp add: entry_at_def entry_of_def sig)
      qed
    qed (use Cons.prems s in simp)
  next
    case False
    then have "bt_loop f cfg balance (h @ [c]) cs = Inr ts" "entry_at f cfg h c = []"
      using Cons.prems by (auto simp: entry_at_def split: sum.splits option.splits if_splits)
    then show ?thesis using Cons.IH by simp
  qed
qed simp

lemma run_trades: "bt_run f cfg bars = Inr r \<Longrightarrow> bt_loop f cfg (cf_initial cfg) [] bars = Inr (br_trades r)"
  by (auto simp: bt_run_def build_result_def empty_backtest_def Let_def split: sum.splits if_splits)

text \<open>
  C32: No trade is opened with knowledge of later candles. Two runs over candles that begin alike open the same trades on
  the common candles: direction, time, entry price, stop and target of a trade depend on the candles up to its own only.
\<close>

theorem entries_ignore_the_future:
  assumes "bt_run f cfg (xs @ ys) = Inr r" and "bt_run f cfg (xs @ zs) = Inr r'"
  shows "let n = length (entries f cfg [] xs) in
    map entry_of (take n (br_trades r)) = entries f cfg [] xs \<and> map entry_of (take n (br_trades r')) = entries f cfg [] xs"
proof -
  have "map entry_of (br_trades r) = entries f cfg [] xs @ entries f cfg xs ys"
    "map entry_of (br_trades r') = entries f cfg [] xs @ entries f cfg xs zs"
    using loop_entries [OF run_trades [OF assms(1)]] loop_entries [OF run_trades [OF assms(2)]] by (simp_all add: entries_append)
  then show ?thesis by (simp add: Let_def take_map [symmetric])
qed

definition sample_bar :: "string \<Rightarrow> real \<Rightarrow> real \<Rightarrow> real \<Rightarrow> bt_bar" where
  "sample_bar ts lo hi cl = \<lparr>ba_ts = ts, ba_open = cl, ba_high = hi, ba_low = lo, ba_close = cl, ba_volume = 1, ba_spread = 0\<rparr>"

definition sample_signal :: bt_signal where
  "sample_signal = \<lparr>sg_direction = Some ''BUY'', sg_entry = Some 100, sg_stop = Some 90, sg_target = Some 120\<rparr>"

definition plain_config :: bt_config where
  "plain_config = default_bt_config\<lparr>cf_slippage := 0, cf_commission := 0, cf_risk := 50\<rparr>"

lemma upper_buy: "py_upper ''BUY'' = ''BUY''"
  by (simp add: py_upper_def char_upper_def)

lemmas bt_eval = simulate_trade_def sample_signal_def plain_config_def default_bt_config_def slipped_def upper_buy Let_def is_valid_signal_def
  valid_levels_def

theorem exit_is_first_touch_witness:
  "let t = trade_at plain_config 10000 ''BUY'' 100 90 120 (sample_bar ''a'' 99 101 100) [sample_bar ''a'' 99 101 100, sample_bar ''b'' 80 130 100];
     buy = (tr_direction t = ''BUY'') in
    (case find (\<lambda>b. hits_stop buy (tr_stop t) b \<or> hits_target buy (tr_target t) b) [sample_bar ''b'' 80 130 100] of
       Some b \<Rightarrow> tr_exit_time t = ba_ts b \<and> tr_outcome t = (if hits_stop buy (tr_stop t) b then LOSS else WIN)
         \<and> tr_exit t = py_round 5 (if hits_stop buy (tr_stop t) b then tr_stop t else tr_target t)
     | None \<Rightarrow> tr_outcome t = BE \<and> tr_exit_time t = ba_ts (last [sample_bar ''a'' 99 101 100, sample_bar ''b'' 80 130 100])
         \<and> tr_exit t = py_round 5 (ba_close (last [sample_bar ''a'' 99 101 100, sample_bar ''b'' 80 130 100])))"
proof -
  have "simulate_trade plain_config 10000 sample_signal (sample_bar ''a'' 99 101 100) [sample_bar ''a'' 99 101 100, sample_bar ''b'' 80 130 100]
    = Inr (Some (trade_at plain_config 10000 ''BUY'' 100 90 120 (sample_bar ''a'' 99 101 100) [sample_bar ''a'' 99 101 100, sample_bar ''b'' 80 130 100]))"
    by (simp add: simulate_trade_Some) (simp add: bt_eval)
  from exit_is_first_touch [OF this] show ?thesis unfolding Let_def .
qed

theorem stop_loss_bounds_the_loss_witness:
  "let t = trade_at plain_config 10000 ''BUY'' 100 90 120 (sample_bar ''a'' 99 101 100) [sample_bar ''a'' 99 101 100, sample_bar ''b'' 80 130 100];
     rp = \<bar>slipped plain_config (tr_direction t = ''BUY'') 100 - tr_stop t\<bar> * 10 in
    1 / 100 \<le> tr_lot t \<and> tr_lot t \<le> 10 \<and>
    - tr_pnl t \<le> max (10000 * 50 / 100 + rp * 10 / 200) (rp * 10 / 100) + 0 * tr_lot t + 1 / 200"
proof -
  let ?t = "trade_at plain_config 10000 ''BUY'' 100 90 120 (sample_bar ''a'' 99 101 100) [sample_bar ''a'' 99 101 100, sample_bar ''b'' 80 130 100]"
  have "simulate_trade plain_config 10000 sample_signal (sample_bar ''a'' 99 101 100) [sample_bar ''a'' 99 101 100, sample_bar ''b'' 80 130 100] = Inr (Some ?t)"
    by (simp add: simulate_trade_Some) (simp add: bt_eval)
  moreover have "is_valid_signal plain_config sample_signal" by (simp add: bt_eval)
  moreover have "tr_outcome ?t = LOSS" by (simp add: trade_at_def exit_of_def sample_bar_def bt_eval)
  ultimately show ?thesis
    using stop_loss_bounds_the_loss [of plain_config 10000 sample_signal "sample_bar ''a'' 99 101 100" "[sample_bar ''b'' 80 130 100]" ?t]
    by (simp add: Let_def) (simp add: plain_config_def default_bt_config_def sample_signal_def)
qed

theorem entries_ignore_the_future_witness:
  "\<exists>r r'. let f = (\<lambda>c past. Inr (if past = [] then Some sample_signal else None)); xs = [sample_bar ''a'' 99 101 100]; n = length (entries f plain_config [] xs) in
    bt_run f plain_config (xs @ [sample_bar ''b'' 80 130 100]) = Inr r \<and> bt_run f plain_config (xs @ [sample_bar ''b'' 99 130 100]) = Inr r' \<and>
    map entry_of (take n (br_trades r)) = entries f plain_config [] xs \<and> map entry_of (take n (br_trades r')) = entries f plain_config [] xs"
proof -
  let ?f = "\<lambda>c past. Inr (if past = [] then Some sample_signal else None)"
  let ?x = "sample_bar ''a'' 99 101 100"
  have "\<exists>r. bt_run ?f plain_config [?x, b] = Inr r" for b
    by (simp add: bt_run_def take_last_def) (simp add: bt_eval build_result_def)
  then obtain r r' where "bt_run ?f plain_config ([?x] @ [sample_bar ''b'' 80 130 100]) = Inr r" "bt_run ?f plain_config ([?x] @ [sample_bar ''b'' 99 130 100]) = Inr r'"
    by fastforce
  with entries_ignore_the_future [OF this] show ?thesis by (auto simp: Let_def)
qed

subsection \<open>Accounts\<close>

lemma build_result_fields:
  assumes "build_result cfg bars ts = Inr r" and "ts \<noteq> []"
  shows "br_total r = length ts" "br_wins r = length (filter (\<lambda>t. tr_outcome t = WIN) ts)" "br_losses r = length (filter (\<lambda>t. tr_outcome t = LOSS) ts)"
    "br_breakeven r = length (filter (\<lambda>t. tr_outcome t = BE) ts)" "br_final r = cf_initial cfg + sum_list (map tr_pnl ts)" "br_trades r = ts"
    "br_curve r = build_equity_curve (map (\<lambda>t. (tr_exit_time t, tr_pnl t)) ts) (cf_initial cfg)"
  using assms by (auto simp: build_result_def Let_def split: if_splits)

lemma outcome_count: "length (filter (\<lambda>t. tr_outcome t = WIN) ts) + length (filter (\<lambda>t. tr_outcome t = LOSS) ts)
    + length (filter (\<lambda>t. tr_outcome t = BE) ts) = length ts"
proof (induction ts)
  case (Cons t ts)
  then show ?case by (cases "tr_outcome t") simp_all
qed simp

text \<open>
  The books of a backtest balance. The reported trades are won, lost or break-even, the final balance is the initial
  one plus the profits of the trades, the equity curve has a point for the start and one for each trade and ends at the
  final balance in cents.
\<close>

theorem backtest_books_balance:
  assumes "bt_run f cfg bars = Inr r"
  shows "br_wins r + br_losses r + br_breakeven r = br_total r \<and> br_total r = length (br_trades r)
    \<and> br_final r = cf_initial cfg + sum_list (map tr_pnl (br_trades r))
    \<and> (br_trades r = [] \<or> length (br_curve r) = Suc (br_total r) \<and> ep_equity (last (br_curve r)) = py_round 2 (br_final r)
         \<and> list_all (\<lambda>p. 0 \<le> ep_drawdown p) (br_curve r))"
proof -
  obtain ts where r: "build_result cfg bars ts = Inr r" using assms by (auto simp: bt_run_def split: sum.splits)
  show ?thesis
  proof (cases "ts = []")
    case False
    let ?tr = "map (\<lambda>t. (tr_exit_time t, tr_pnl t)) ts"
    have c: "map ep_equity (equity_points (cf_initial cfg) (cf_initial cfg) ?tr)
      = map (\<lambda>k. py_round 2 (cf_initial cfg + sum_list (map snd (take (Suc k) ?tr)))) [0..<length ?tr]" by (rule equity_points_spec)
    then have len: "length (equity_points (cf_initial cfg) (cf_initial cfg) ?tr) = length ts" by (auto dest: arg_cong [of _ _ length])
    then have ne: "equity_points (cf_initial cfg) (cf_initial cfg) ?tr \<noteq> []" using False by auto
    have "last (map ep_equity (equity_points (cf_initial cfg) (cf_initial cfg) ?tr)) = py_round 2 (cf_initial cfg + sum_list (map tr_pnl ts))"
      unfolding c using False by (simp add: last_map o_def)
    then have "ep_equity (last (equity_points (cf_initial cfg) (cf_initial cfg) ?tr)) = py_round 2 (cf_initial cfg + sum_list (map tr_pnl ts))"
      using ne by (simp add: last_map)
    moreover have "list_all (\<lambda>q. 0 \<le> ep_drawdown q) (equity_points (cf_initial cfg) (cf_initial cfg) ?tr)" by (rule curve_drawdowns) simp
    ultimately show ?thesis unfolding build_result_fields [OF r False] build_equity_curve_def using outcome_count [of ts] len ne by simp
  qed (use r in \<open>auto simp: build_result_def empty_backtest_def\<close>)
qed

theorem backtest_books_balance_witness:
  "\<exists>r. bt_run (\<lambda>c past. Inr None) plain_config [sample_bar ''a'' 99 101 100] = Inr r
    \<and> br_wins r + br_losses r + br_breakeven r = br_total r \<and> br_total r = length (br_trades r)
    \<and> br_final r = cf_initial plain_config + sum_list (map tr_pnl (br_trades r))
    \<and> (br_trades r = [] \<or> length (br_curve r) = Suc (br_total r) \<and> ep_equity (last (br_curve r)) = py_round 2 (br_final r)
         \<and> list_all (\<lambda>p. 0 \<le> ep_drawdown p) (br_curve r))"
proof -
  have "bt_run (\<lambda>c past. Inr None) plain_config [sample_bar ''a'' 99 101 100] = Inr (empty_backtest plain_config [sample_bar ''a'' 99 101 100])"
    by (simp add: bt_run_def build_result_def)
  with backtest_books_balance [OF this] show ?thesis by blast
qed

lemma run_ok: "bt_loop f cfg (cf_initial cfg) [] bars = Inr ts \<Longrightarrow> cf_initial cfg \<noteq> 0 \<Longrightarrow> \<exists>r. bt_run f cfg bars = Inr r \<and> br_trades r = ts"
  by (auto simp: bt_run_def build_result_def empty_backtest_def Let_def)

subsection \<open>Sizes are not decided without the future\<close>

text \<open>
  The balance that sizes a trade already contains the profit of every earlier trade, also of those that are still open at
  that moment: the same two first candles and signals give a second lot of 10 if the first trade will win later and of
  2.5 if it will lose.
\<close>

lemma sizes_know_the_future:
  defines "f \<equiv> (\<lambda>c (past :: bt_bar list). Inr (if length past < 2 then Some sample_signal else None))"
  defines "xs \<equiv> [sample_bar ''a'' 99 101 100, sample_bar ''b'' 99 101 100]"
  shows "\<exists>r r'. bt_run f plain_config (xs @ [sample_bar ''c'' 99 130 125]) = Inr r \<and> bt_run f plain_config (xs @ [sample_bar ''c'' 80 101 85]) = Inr r'
    \<and> map tr_lot (br_trades r) = [5, 10] \<and> map tr_lot (br_trades r') = [5, 5 / 2]"
proof -
  have r: "py_round 2 5 = 5" "py_round 2 10000 = 10000" "py_round 2 (- 5000) = - 5000" "py_round 2 (5 / 2) = 5 / 2" "py_round 2 10 = 10"
    by (simp_all add: py_round_def round_half_even_def)
  have l: "bt_loop f plain_config 10000 [] (xs @ [sample_bar ''c'' lo hi cl]) =
      Inr (let t = trade_at plain_config 10000 ''BUY'' 100 90 120 (hd xs) (xs @ [sample_bar ''c'' lo hi cl]) in
        [t, trade_at plain_config (10000 + tr_pnl t) ''BUY'' 100 90 120 (xs ! 1) [xs ! 1, sample_bar ''c'' lo hi cl]])" for lo hi cl
    by (simp add: f_def xs_def take_last_def Let_def) (simp add: bt_eval)
  have n: "cf_initial plain_config = 10000" by (simp add: plain_config_def default_bt_config_def)
  have p: "tr_pnl (trade_at plain_config 10000 ''BUY'' 100 90 120 (hd xs) (xs @ [sample_bar ''c'' 99 130 125])) = 10000"
    "tr_pnl (trade_at plain_config 10000 ''BUY'' 100 90 120 (hd xs) (xs @ [sample_bar ''c'' 80 101 85])) = - 5000"
    by (simp_all add: trade_at_def exit_of_def xs_def sample_bar_def lot_for_def plain_config_def default_bt_config_def slipped_def Let_def r)
  have q: "lot_for plain_config 10000 100 = 5" "lot_for plain_config 20000 100 = 10" "lot_for plain_config 5000 100 = 5 / 2"
    by (simp_all add: lot_for_def plain_config_def default_bt_config_def Let_def r)
  have s: "slipped plain_config True 100 = 100" by (simp add: slipped_def plain_config_def default_bt_config_def Let_def)
  have "\<exists>r. bt_run f plain_config (xs @ [sample_bar ''c'' lo hi cl]) = Inr r \<and> br_trades r =
      (let t = trade_at plain_config 10000 ''BUY'' 100 90 120 (hd xs) (xs @ [sample_bar ''c'' lo hi cl]) in
        [t, trade_at plain_config (10000 + tr_pnl t) ''BUY'' 100 90 120 (xs ! 1) [xs ! 1, sample_bar ''c'' lo hi cl]])" for lo hi cl
    by (rule run_ok) (simp_all add: n l)
  from this [of 99 130 125] this [of 80 101 85]
  have "\<exists>r. bt_run f plain_config (xs @ [sample_bar ''c'' 99 130 125]) = Inr r \<and> map tr_lot (br_trades r) = [5, 10]"
    "\<exists>r. bt_run f plain_config (xs @ [sample_bar ''c'' 80 101 85]) = Inr r \<and> map tr_lot (br_trades r) = [5, 5 / 2]"
    by (auto simp: Let_def p q s)
  then obtain r r' where "bt_run f plain_config (xs @ [sample_bar ''c'' 99 130 125]) = Inr r" "map tr_lot (br_trades r) = [5, 10]"
    "bt_run f plain_config (xs @ [sample_bar ''c'' 80 101 85]) = Inr r'" "map tr_lot (br_trades r') = [5, 5 / 2]" by (elim exE conjE) rule
  then show ?thesis by (intro exI [of _ r] exI [of _ r'] conjI)
qed

end
