(* ===== verification/Multi_Backtest.thy ===== *)
theory Multi_Backtest
  imports Backtest
begin

section \<open>Backtests over several symbols\<close>

text \<open>
  \<open>src/backend/backtest_engine/multi_symbol_engine.py\<close>: the second engine, which runs a strategy over symbols and time
  frames and combines the results. It is written anew and not in terms of the first engine; the last lemmas compare the
  two. The metrics are those of the first engine, which the module imports when it is loaded.
\<close>

record ms_config =
  ms_symbols :: "string list"
  ms_timeframes :: "string list"
  ms_initial :: real
  ms_risk :: real
  ms_slippage :: real
  ms_commission :: real
  ms_min_rr :: real
  ms_pip :: real

record ms_trade =
  mt_symbol :: string
  mt_timeframe :: string
  mt_direction :: string
  mt_entry_time :: string
  mt_exit_time :: string
  mt_entry :: real
  mt_exit :: real
  mt_stop :: real
  mt_target :: real
  mt_lot :: real
  mt_pips :: real
  mt_pnl :: real
  mt_commission :: real
  mt_outcome :: bt_outcome

record symbol_result =
  sr_symbol :: string
  sr_timeframe :: string
  sr_total :: nat
  sr_wins :: nat
  sr_losses :: nat
  sr_pnl :: real
  sr_win_rate :: real
  sr_profit_factor :: ratio
  sr_sharpe :: real
  sr_sortino :: ratio
  sr_dd_pct :: real
  sr_trades :: "ms_trade list"

record ms_result =
  mr_symbols :: "(string, symbol_result) odict"
  mr_pnl :: real
  mr_trades :: nat
  mr_wr :: real
  mr_best :: string
  mr_worst :: string
  mr_net_pct :: real
  mr_sharpe :: real
  mr_profit_factor :: ratio
  mr_win_rate :: real
  mr_dd_pct :: real

type_synonym ms_strategy = "string \<Rightarrow> string \<Rightarrow> bt_bar \<Rightarrow> bt_bar list \<Rightarrow> exc + bt_signal option"

subsection \<open>One symbol and time frame\<close>

text \<open>Missing entries read as 0 and as the empty string.\<close>

definition num_or_zero :: "real option \<Rightarrow> real" where
  "num_or_zero x = (case x of None \<Rightarrow> 0 | Some r \<Rightarrow> r)"

definition ms_valid :: "ms_config \<Rightarrow> bt_signal \<Rightarrow> bool" where
  "ms_valid cfg sig =
     (let ep = num_or_zero (sg_entry sig); sl = num_or_zero (sg_stop sig); tp = num_or_zero (sg_target sig);
          d = py_upper (case sg_direction sig of None \<Rightarrow> [] | Some d \<Rightarrow> d) in
      if ep \<le> 0 \<or> sl \<le> 0 \<or> tp \<le> 0 \<or> (d \<noteq> ''BUY'' \<and> d \<noteq> ''SELL'') then False
      else (case (if d = ''BUY'' then (ep - sl, tp - ep) else (sl - ep, ep - tp)) of (risk, reward) \<Rightarrow>
        if risk \<le> 0 \<or> reward \<le> 0 then False else ms_min_rr cfg \<le> reward / risk))"

fun ms_scan :: "bool \<Rightarrow> real \<Rightarrow> real \<Rightarrow> bt_bar list \<Rightarrow> (real \<times> bt_outcome \<times> string) option" where
  "ms_scan buy sl tp [] = None"
| "ms_scan buy sl tp (b # bs) =
     (if buy then
        (if ba_low b \<le> sl then Some (sl, LOSS, ba_ts b)
         else if tp \<le> ba_high b then Some (tp, WIN, ba_ts b) else ms_scan buy sl tp bs)
      else
        (if sl \<le> ba_high b then Some (sl, LOSS, ba_ts b)
         else if ba_low b \<le> tp then Some (tp, WIN, ba_ts b) else ms_scan buy sl tp bs))"

definition ms_simulate :: "string \<Rightarrow> string \<Rightarrow> bt_signal \<Rightarrow> bt_bar \<Rightarrow> bt_bar list \<Rightarrow> ms_config \<Rightarrow> real \<Rightarrow> exc + ms_trade option" where
  "ms_simulate symbol tf sig entry future cfg balance =
     (case (sg_direction sig, sg_entry sig, sg_stop sig, sg_target sig) of
        (Some dir, Some ep, Some sl, Some tp) \<Rightarrow>
          (let d = py_upper dir; buy = (d = ''BUY''); slip = ms_slippage cfg * (1 / 10);
               ep_actual = (if buy then ep + slip else ep - slip); risk_pips = \<bar>ep_actual - sl\<bar> * 10 in
           if risk_pips \<le> 0 then Inr None
           else if ms_pip cfg = 0 then Inl ZeroDivisionError
           else (let risk_usd = balance * (ms_risk cfg / 100);
                     lot = max (1 / 100) (min (py_round 2 (risk_usd / (risk_pips * ms_pip cfg))) 10) in
             case (case ms_scan buy sl tp (tl future) of
                     Some r \<Rightarrow> r
                   | None \<Rightarrow> (let b = (if future = [] then entry else last future) in (ba_close b, BE, ba_ts b))) of
               (exit_price, why, exit_time) \<Rightarrow>
                 (let pts = (if buy then exit_price - ep_actual else ep_actual - exit_price); pips = pts * 10;
                      usd = pips * ms_pip cfg * lot - ms_commission cfg * lot in
                  Inr (Some \<lparr>mt_symbol = symbol, mt_timeframe = tf, mt_direction = d, mt_entry_time = ba_ts entry, mt_exit_time = exit_time,
                    mt_entry = py_round 5 ep_actual, mt_exit = py_round 5 exit_price, mt_stop = sl, mt_target = tp, mt_lot = lot,
                    mt_pips = py_round 2 pips, mt_pnl = py_round 2 usd, mt_commission = ms_commission cfg * lot, mt_outcome = why\<rparr>))))
      | _ \<Rightarrow> Inl KeyError)"

text \<open>The strategy is not asked at the first candle, which has no history.\<close>

fun ms_loop :: "ms_strategy \<Rightarrow> string \<Rightarrow> string \<Rightarrow> ms_config \<Rightarrow> real \<Rightarrow> bt_bar list \<Rightarrow> bt_bar list \<Rightarrow> exc + ms_trade list" where
  "ms_loop f symbol tf cfg balance history [] = Inr []"
| "ms_loop f symbol tf cfg balance history (c # cs) =
     (let sig = (if history = [] then None else (case f symbol tf c (take_last 50 history) of Inl e \<Rightarrow> None | Inr s \<Rightarrow> s)) in
      case sig of
        None \<Rightarrow> ms_loop f symbol tf cfg balance (history @ [c]) cs
      | Some s \<Rightarrow>
          if \<not> ms_valid cfg s then ms_loop f symbol tf cfg balance (history @ [c]) cs
          else (case ms_simulate symbol tf s c (c # cs) cfg balance of
              Inl e \<Rightarrow> Inl e
            | Inr None \<Rightarrow> ms_loop f symbol tf cfg balance (history @ [c]) cs
            | Inr (Some t) \<Rightarrow>
                (case ms_loop f symbol tf cfg (balance + mt_pnl t) (history @ [c]) cs of Inl e \<Rightarrow> Inl e | Inr ts \<Rightarrow> Inr (t # ts))))"

fun running :: "real \<Rightarrow> real list \<Rightarrow> real list" where
  "running e [] = [e]"
| "running e (x # xs) = e # running (e + x) xs"

definition loss_ratio :: "real \<Rightarrow> real \<Rightarrow> ratio" where
  "loss_ratio gross_profit gross_loss = (if gross_loss = 0 then Infinite else Finite (py_round 4 (gross_profit / gross_loss)))"

definition tf_metrics :: "string \<Rightarrow> string \<Rightarrow> ms_trade list \<Rightarrow> ms_config \<Rightarrow> exc + symbol_result" where
  "tf_metrics symbol tf ts cfg =
     (let empty = \<lparr>sr_symbol = symbol, sr_timeframe = tf, sr_total = 0, sr_wins = 0, sr_losses = 0, sr_pnl = 0, sr_win_rate = 0,
            sr_profit_factor = Finite 0, sr_sharpe = 0, sr_sortino = Finite 0, sr_dd_pct = 0, sr_trades = ts\<rparr> in
      if ts = [] then Inr empty
      else if ms_initial cfg = 0 then Inl ZeroDivisionError
      else (let wins = filter (\<lambda>t. mt_outcome t = WIN) ts; losses = filter (\<lambda>t. mt_outcome t = LOSS) ts;
                gross_profit = sum_list (map mt_pnl (filter (\<lambda>t. mt_pnl t > 0) ts));
                gross_loss = \<bar>sum_list (map mt_pnl (filter (\<lambda>t. mt_pnl t < 0) ts))\<bar>;
                returns = map (\<lambda>t. mt_pnl t / ms_initial cfg) ts in
        Inr (empty\<lparr>sr_total := length ts, sr_wins := length wins, sr_losses := length losses, sr_pnl := sum_list (map mt_pnl ts),
          sr_win_rate := real (length wins) / real (length ts) * 100, sr_profit_factor := loss_ratio gross_profit gross_loss,
          sr_sharpe := sharpe_ratio returns 0 252, sr_sortino := sortino_ratio returns 0 252,
          sr_dd_pct := fst (max_drawdown (running (ms_initial cfg) (map mt_pnl ts)))\<rparr>)))"

definition run_symbol :: "string \<Rightarrow> string \<Rightarrow> bt_bar list \<Rightarrow> ms_strategy \<Rightarrow> ms_config \<Rightarrow> exc + symbol_result" where
  "run_symbol symbol tf bars f cfg =
     (case ms_loop f symbol tf cfg (ms_initial cfg) [] bars of Inl e \<Rightarrow> Inl e | Inr ts \<Rightarrow> tf_metrics symbol tf ts cfg)"

subsection \<open>All symbols\<close>

fun run_pairs :: "ms_strategy \<Rightarrow> ms_config \<Rightarrow> (string \<Rightarrow> bt_bar list) \<Rightarrow> (string \<times> string) list \<Rightarrow> (string, symbol_result) odict \<Rightarrow> ms_trade list
    \<Rightarrow> exc + (string, symbol_result) odict \<times> ms_trade list" where
  "run_pairs f cfg bars [] rs flat = Inr (rs, flat)"
| "run_pairs f cfg bars ((symbol, tf) # ps) rs flat =
     (if bars symbol = [] then run_pairs f cfg bars ps rs flat
      else (case run_symbol symbol tf (bars symbol) f cfg of
          Inl e \<Rightarrow> Inl e
        | Inr r \<Rightarrow> run_pairs f cfg bars ps (od_put (symbol @ ''_'' @ tf) r rs) (flat @ sr_trades r)))"

text \<open>\<open>max(items, key=...)\<close> and \<open>min\<close> give the first of equal items.\<close>

fun best_of :: "(string \<times> symbol_result) \<Rightarrow> (string \<times> symbol_result) list \<Rightarrow> string \<times> symbol_result" where
  "best_of p [] = p"
| "best_of p (q # qs) = best_of (if sr_pnl (snd p) < sr_pnl (snd q) then q else p) qs"

fun worst_of :: "(string \<times> symbol_result) \<Rightarrow> (string \<times> symbol_result) list \<Rightarrow> string \<times> symbol_result" where
  "worst_of p [] = p"
| "worst_of p (q # qs) = worst_of (if sr_pnl (snd q) < sr_pnl (snd p) then q else p) qs"

definition empty_ms_result :: ms_result where
  "empty_ms_result = \<lparr>mr_symbols = [], mr_pnl = 0, mr_trades = 0, mr_wr = 0, mr_best = [], mr_worst = [], mr_net_pct = 0, mr_sharpe = 0,
     mr_profit_factor = Finite 0, mr_win_rate = 0, mr_dd_pct = 0\<rparr>"

definition combine :: "ms_config \<Rightarrow> (string, symbol_result) odict \<Rightarrow> ms_trade list \<Rightarrow> exc + ms_result" where
  "combine cfg rs flat =
     (case rs of
        [] \<Rightarrow> Inr empty_ms_result
      | r # rest \<Rightarrow>
          (if ms_initial cfg = 0 then Inl ZeroDivisionError
           else (let pnl = sum_list (map (\<lambda>(k, v). sr_pnl v) rs);
                     wrs = map (\<lambda>(k, v). sr_win_rate v) (filter (\<lambda>(k, v). sr_total v > 0) rs);
                     base = empty_ms_result\<lparr>mr_symbols := rs, mr_pnl := pnl, mr_trades := sum_list (map (\<lambda>(k, v). sr_total v) rs),
                       mr_wr := (if wrs = [] then 0 else mean_value wrs), mr_best := fst (best_of r rest), mr_worst := fst (worst_of r rest),
                       mr_net_pct := pnl / ms_initial cfg * 100\<rparr> in
             if flat = [] then Inr base
             else (let wins = filter (\<lambda>x. x > 0) (map mt_pnl flat); losses = filter (\<lambda>x. x < 0) (map mt_pnl flat) in
               Inr (base\<lparr>mr_sharpe := sharpe_ratio (map (\<lambda>t. mt_pnl t / ms_initial cfg) flat) 0 252,
                 mr_profit_factor := loss_ratio (sum_list wins) \<bar>sum_list losses\<bar>,
                 mr_win_rate := real (length wins) / real (length flat) * 100,
                 mr_dd_pct := fst (max_drawdown (ms_initial cfg #
                    map (\<lambda>i. ms_initial cfg + sum_list (map mt_pnl (take (i + 1) flat))) [0..<length flat]))\<rparr>)))))"

definition run_multi :: "ms_strategy \<Rightarrow> ms_config \<Rightarrow> (string, bt_bar list) odict \<Rightarrow> exc + ms_result" where
  "run_multi f cfg candles =
     (let bars = (\<lambda>s. case od_get candles s of None \<Rightarrow> [] | Some bs \<Rightarrow> bs);
          pairs = concat (map (\<lambda>s. map (Pair s) (ms_timeframes cfg)) (ms_symbols cfg)) in
      case run_pairs f cfg bars pairs [] [] of Inl e \<Rightarrow> Inl e | Inr (rs, flat) \<Rightarrow> combine cfg rs flat)"

subsection \<open>The two engines simulate the same trades\<close>

definition one_symbol :: "string \<Rightarrow> string \<Rightarrow> ms_config \<Rightarrow> bt_config" where
  "one_symbol symbol tf cfg = \<lparr>cf_symbol = symbol, cf_timeframe = tf, cf_initial = ms_initial cfg, cf_risk = ms_risk cfg,
     cf_slippage = ms_slippage cfg, cf_commission = ms_commission cfg, cf_min_rr = ms_min_rr cfg, cf_pip = ms_pip cfg\<rparr>"

definition as_bt :: "ms_config \<Rightarrow> ms_trade \<Rightarrow> bt_trade" where
  "as_bt cfg t = \<lparr>tr_symbol = mt_symbol t, tr_direction = mt_direction t, tr_entry_time = mt_entry_time t, tr_exit_time = mt_exit_time t,
     tr_entry = mt_entry t, tr_exit = mt_exit t, tr_stop = mt_stop t, tr_target = mt_target t, tr_lot = mt_lot t, tr_pips = mt_pips t,
     tr_pnl = mt_pnl t, tr_slippage = py_round 2 (ms_slippage cfg), tr_outcome = mt_outcome t\<rparr>"

text \<open>The strategy as the first engine would have to be given it: silent without history.\<close>

definition with_history :: "ms_strategy \<Rightarrow> string \<Rightarrow> string \<Rightarrow> strategy" where
  "with_history f symbol tf = (\<lambda>c past. if past = [] then Inr None else f symbol tf c past)"

lemma ms_valid_eq: "ms_valid cfg sig = is_valid_signal (one_symbol symbol tf cfg) sig"
proof -
  have "\<not> ms_valid cfg sig" if "sg_direction sig = None \<or> sg_entry sig = None \<or> sg_stop sig = None \<or> sg_target sig = None"
    using that by (auto simp: ms_valid_def num_or_zero_def Let_def py_upper_def)
  then show ?thesis
    by (cases "sg_direction sig"; cases "sg_entry sig"; cases "sg_stop sig"; cases "sg_target sig")
      (auto simp: ms_valid_def is_valid_signal_def valid_levels_def num_or_zero_def one_symbol_def Let_def)
qed

lemma ms_scan_eq: "ms_scan buy sl tp bs = exit_scan buy sl tp bs"
  by (induction bs) (auto split: if_splits)

lemma ms_simulate_eq:
  "simulate_trade (one_symbol symbol tf cfg) balance sig entry future
     = map_sum id (map_option (as_bt cfg)) (ms_simulate symbol tf sig entry future cfg balance)"
  by (auto simp: ms_simulate_def simulate_trade_def trade_at_def slipped_def lot_for_def exit_of_def ms_scan_eq one_symbol_def as_bt_def Let_def
      split: option.split prod.split)

lemma ms_loop_eq:
  "bt_loop (with_history f symbol tf) (one_symbol symbol tf cfg) balance history cs
     = map_sum id (map (as_bt cfg)) (ms_loop f symbol tf cfg balance history cs)"
proof (induction cs arbitrary: balance history)
  case (Cons c cs)
  have past: "(case with_history f symbol tf c (take_last 50 history) of Inl e \<Rightarrow> None | Inr s \<Rightarrow> s)
      = (if history = [] then None else (case f symbol tf c (take_last 50 history) of Inl e \<Rightarrow> None | Inr s \<Rightarrow> s))"
  proof (cases "history = []")
    case False
    then have "length (take_last 50 history) \<noteq> 0" by simp
    then have "take_last 50 history \<noteq> []" by (metis list.size(3))
    with False show ?thesis by (simp add: with_history_def)
  qed (simp add: with_history_def take_last_def)
  have pnl: "tr_pnl (as_bt cfg t) = mt_pnl t" for t by (simp add: as_bt_def)
  show ?case
    unfolding bt_loop.simps ms_loop.simps past Let_def ms_valid_eq [symmetric] ms_simulate_eq Cons.IH
    by (auto simp: pnl Cons.IH id_def split: option.split sum.split)
qed simp

text \<open>The strategy is asked at the first candle by the first engine only; what it says there must not be a trade.\<close>

definition no_first_trade :: "bt_config \<Rightarrow> strategy \<Rightarrow> bt_bar list \<Rightarrow> bool" where
  "no_first_trade cfg f bars \<longleftrightarrow>
     (case bars of [] \<Rightarrow> True
      | c # cs \<Rightarrow> (case f c [] of Inr (Some sig) \<Rightarrow> \<not> is_valid_signal cfg sig | Inr None \<Rightarrow> True | Inl e \<Rightarrow> True))"

lemma take_last_Nil_iff: "take_last 50 xs = [] \<longleftrightarrow> xs = []"
  by (cases xs) (auto simp: take_last_def)

lemma with_history_loop:
  "history \<noteq> [] \<Longrightarrow> bt_loop (with_history f symbol tf) cfg balance history cs = bt_loop (f symbol tf) cfg balance history cs"
proof (induction cs arbitrary: balance history)
  case (Cons c cs)
  have "with_history f symbol tf c (take_last 50 history) = f symbol tf c (take_last 50 history)"
    using Cons.prems by (simp add: with_history_def take_last_Nil_iff)
  then show ?case by (auto simp: Cons.IH split: option.split sum.split)
qed simp

lemma same_loop:
  assumes "no_first_trade (one_symbol symbol tf cfg) (f symbol tf) bars"
  shows "bt_loop (f symbol tf) (one_symbol symbol tf cfg) balance [] bars
     = map_sum id (map (as_bt cfg)) (ms_loop f symbol tf cfg balance [] bars)"
proof -
  have "bt_loop (f symbol tf) (one_symbol symbol tf cfg) balance [] bars
      = bt_loop (with_history f symbol tf) (one_symbol symbol tf cfg) balance [] bars"
  proof (cases bars)
    case (Cons c cs)
    have "take_last 50 [] = ([] :: bt_bar list)" by (simp add: take_last_def)
    then show ?thesis
      using assms with_history_loop [of "[c]" f symbol tf "one_symbol symbol tf cfg" balance cs]
      by (auto simp: Cons no_first_trade_def with_history_def split: sum.splits option.splits)
  qed simp
  then show ?thesis by (simp only: ms_loop_eq)
qed

text \<open>Amounts of whole cents: rounding to two digits keeps them and their sums.\<close>

lemma whole_cents_iff: "py_round 2 x = x \<longleftrightarrow> (\<exists>k. x = of_int k / 100)"
proof
  assume "py_round 2 x = x"
  then have "x = of_int (round_half_even (x * 100)) / 100" by (simp add: py_round_def)
  then show "\<exists>k. x = of_int k / 100" by blast
next
  assume "\<exists>k. x = of_int k / 100"
  then obtain k where "x * 10 ^ 2 = of_int k" by auto
  then have "py_round 2 x = of_int k / 100" by (simp only: py_round_def round_half_even_of_int) simp
  with \<open>x * 10 ^ 2 = of_int k\<close> show "py_round 2 x = x" by simp
qed

lemma cents_add: "py_round 2 x = x \<Longrightarrow> py_round 2 y = y \<Longrightarrow> py_round 2 (x + y) = x + y"
  unfolding whole_cents_iff by (metis add_divide_distrib of_int_add)

lemma cents_rounded [simp]: "py_round 2 (py_round 2 x) = py_round 2 x"
proof -
  have "\<exists>k. py_round 2 x = of_int k / 100" by (auto simp: py_round_def)
  then show ?thesis by (simp only: whole_cents_iff)
qed

lemma simulated_cents: "ms_simulate symbol tf sig c future cfg balance = Inr (Some t) \<Longrightarrow> py_round 2 (mt_pnl t) = mt_pnl t"
  by (auto simp: ms_simulate_def Let_def split: option.splits if_splits prod.splits)

lemma ms_loop_cents:
  "ms_loop f symbol tf cfg balance history cs = Inr ts \<Longrightarrow> list_all (\<lambda>t. py_round 2 (mt_pnl t) = mt_pnl t) ts"
proof (induction cs arbitrary: balance history ts)
  case (Cons c cs)
  then show ?case
    by (auto simp: Let_def dest: simulated_cents split: option.splits sum.splits if_splits)
qed simp

lemma equity_points_running:
  "py_round 2 b = b \<Longrightarrow> list_all (\<lambda>x. py_round 2 x = x) (map snd l) \<Longrightarrow> b # map ep_equity (equity_points b p l) = running b (map snd l)"
proof (induction l arbitrary: b p)
  case (Cons x l)
  obtain ts pnl where x: "x = (ts, pnl)" by (cases x)
  have c: "py_round 2 (b + pnl) = b + pnl" using Cons.prems by (simp add: x cents_add)
  show ?case using Cons.IH [OF c, of "if b + pnl > p then b + pnl else p"] Cons.prems c by (simp add: x Let_def)
qed simp

lemma curve_running:
  "py_round 2 b = b \<Longrightarrow> list_all (\<lambda>x. py_round 2 x = x) (map snd l) \<Longrightarrow> map ep_equity (build_equity_curve l b) = running b (map snd l)"
  using equity_points_running [of b l b] by (simp add: build_equity_curve_def)

lemma gains_nonneg: "0 \<le> sum_list (filter (\<lambda>x. x > 0) xs)" for xs :: "real list"
  by (induction xs) auto

lemma gains_zero: "sum_list (filter (\<lambda>x. x > 0) xs) = 0 \<longleftrightarrow> list_all (\<lambda>x. x \<le> 0) xs" for xs :: "real list"
proof (induction xs)
  case (Cons x xs)
  then show ?case using gains_nonneg [of xs] by auto
qed simp

lemma losses_nonpos: "sum_list (filter (\<lambda>x. x < 0) xs) \<le> 0" for xs :: "real list"
  by (induction xs) auto

lemma losses_zero: "sum_list (filter (\<lambda>x. x < 0) xs) = 0 \<longleftrightarrow> list_all (\<lambda>x. 0 \<le> x) xs" for xs :: "real list"
proof (induction xs)
  case (Cons x xs)
  then show ?case using losses_nonpos [of xs] by auto
qed simp

text \<open>The profit factors differ only where nothing was won and nothing lost: 0 in the first engine, infinite in the second.\<close>

lemma factors_agree:
  "profit_factor (sum_list (filter (\<lambda>x. x > 0) xs)) (sum_list (filter (\<lambda>x. x < 0) xs))
     = (if list_all (\<lambda>x. x = 0) xs then Finite 0 else loss_ratio (sum_list (filter (\<lambda>x. x > 0) xs)) \<bar>sum_list (filter (\<lambda>x. x < 0) xs)\<bar>)"
proof -
  let ?g = "sum_list (filter (\<lambda>x. x > 0) xs)" and ?l = "sum_list (filter (\<lambda>x. x < 0) xs)"
  have z: "list_all (\<lambda>x. x = 0) xs \<longleftrightarrow> ?g = 0 \<and> ?l = 0"
    unfolding gains_zero losses_zero by (auto simp: list_all_iff intro: antisym)
  have "\<bar>?g / ?l\<bar> = ?g / \<bar>?l\<bar>" using gains_nonneg [of xs] by (simp add: abs_divide)
  then show ?thesis using gains_nonneg [of xs] unfolding z by (auto simp: profit_factor_def loss_ratio_def)
qed

lemma filter_map_pnl: "map mt_pnl (filter (\<lambda>t. P (mt_pnl t)) ts) = filter P (map mt_pnl ts)"
  by (induction ts) auto

lemma filter_map_bt: "filter (\<lambda>t. P (tr_pnl t)) (map (as_bt cfg) ts) = map (as_bt cfg) (filter (\<lambda>t. P (mt_pnl t)) ts)"
  by (induction ts) (auto simp: as_bt_def)

lemma as_bt_fields [simp]: "tr_pnl (as_bt cfg t) = mt_pnl t" "tr_outcome (as_bt cfg t) = mt_outcome t" "tr_exit_time (as_bt cfg t) = mt_exit_time t"
  by (simp_all add: as_bt_def)

text \<open>
  Every figure of the second engine's result for a symbol, by the result of the first: equal, but for the number of
  digits of the win rate and the profit factor where no trade won or lost anything. The drawdowns need the initial
  balance to be of whole cents, since the first engine rounds its equity curve.
\<close>

definition same_figures :: "string \<Rightarrow> string \<Rightarrow> ms_config \<Rightarrow> symbol_result \<Rightarrow> bt_result \<Rightarrow> bool" where
  "same_figures symbol tf cfg s r \<longleftrightarrow>
     sr_symbol s = symbol \<and> sr_timeframe s = tf \<and> map (as_bt cfg) (sr_trades s) = br_trades r
     \<and> sr_total s = br_total r \<and> sr_wins s = br_wins r \<and> sr_losses s = br_losses r \<and> sr_pnl s = br_pnl r
     \<and> sr_sharpe s = br_sharpe r \<and> sr_sortino s = br_sortino r \<and> py_round 2 (sr_win_rate s) = br_win_rate r
     \<and> sr_profit_factor s = (if sr_trades s \<noteq> [] \<and> list_all (\<lambda>t. mt_pnl t = 0) (sr_trades s) then Infinite else br_profit_factor r)
     \<and> (py_round 2 (ms_initial cfg) = ms_initial cfg \<longrightarrow> sr_dd_pct s = br_dd_pct r)"

lemma results_agree:
  assumes "list_all (\<lambda>t. py_round 2 (mt_pnl t) = mt_pnl t) ts"
  shows "case tf_metrics symbol tf ts cfg of
      Inl e \<Rightarrow> build_result (one_symbol symbol tf cfg) bars (map (as_bt cfg) ts) = Inl e
    | Inr s \<Rightarrow> (\<exists>r. build_result (one_symbol symbol tf cfg) bars (map (as_bt cfg) ts) = Inr r \<and> same_figures symbol tf cfg s r)"
proof (cases "ts = [] \<or> ms_initial cfg = 0")
  case True
  then show ?thesis by (auto simp: tf_metrics_def build_result_def empty_backtest_def same_figures_def one_symbol_def Let_def)
next
  case False
  let ?c = "one_symbol symbol tf cfg" and ?bs = "map (as_bt cfg) ts" and ?pnls = "map mt_pnl ts"
  have ci: "cf_initial ?c = ms_initial cfg" by (simp add: one_symbol_def)
  obtain s where s: "tf_metrics symbol tf ts cfg = Inr s" using False by (simp add: tf_metrics_def Let_def)
  obtain r where r: "build_result ?c bars ?bs = Inr r" using False by (simp add: build_result_def ci Let_def)
  have bs: "?bs \<noteq> []" using False by simp
  have count: "length (filter (\<lambda>t. tr_outcome t = w) ?bs) = length (filter (\<lambda>t. mt_outcome t = w) ts)" for w
    by (simp add: filter_map o_def)
  have gross: "sum_list (map tr_pnl (filter (\<lambda>t. P (tr_pnl t)) ?bs)) = sum_list (filter P ?pnls)" for P
    by (simp add: filter_map_bt o_def filter_map_pnl [symmetric])
  have sr: "sr_symbol s = symbol" "sr_timeframe s = tf" "sr_trades s = ts" "sr_total s = length ts" "sr_pnl s = sum_list ?pnls"
      "sr_wins s = length (filter (\<lambda>t. mt_outcome t = WIN) ts)" "sr_losses s = length (filter (\<lambda>t. mt_outcome t = LOSS) ts)"
      "sr_sharpe s = sharpe_ratio (map (\<lambda>t. mt_pnl t / ms_initial cfg) ts) 0 252"
      "sr_sortino s = sortino_ratio (map (\<lambda>t. mt_pnl t / ms_initial cfg) ts) 0 252"
      "sr_win_rate s = real (length (filter (\<lambda>t. mt_outcome t = WIN) ts)) / real (length ts) * 100"
      "sr_profit_factor s = loss_ratio (sum_list (filter (\<lambda>x. x > 0) ?pnls)) \<bar>sum_list (filter (\<lambda>x. x < 0) ?pnls)\<bar>"
      "sr_dd_pct s = fst (max_drawdown (running (ms_initial cfg) ?pnls))"
    using s False by (auto simp: tf_metrics_def Let_def filter_map_pnl filter_map_pnl [of "\<lambda>x. x < 0"])
  have br: "br_pnl r = sum_list (map tr_pnl ?bs)" "br_sharpe r = sharpe_ratio (map (\<lambda>t. tr_pnl t / cf_initial ?c) ?bs) 0 252"
      "br_sortino r = sortino_ratio (map (\<lambda>t. tr_pnl t / cf_initial ?c) ?bs) 0 252"
      "br_win_rate r = win_rate (length (filter (\<lambda>t. tr_outcome t = WIN) ?bs)) (length ?bs)"
      "br_profit_factor r = profit_factor (sum_list (map tr_pnl (filter (\<lambda>t. tr_pnl t > 0) ?bs))) (sum_list (map tr_pnl (filter (\<lambda>t. tr_pnl t < 0) ?bs)))"
      "br_dd_pct r = fst (max_drawdown (map ep_equity (build_equity_curve (map (\<lambda>t. (tr_exit_time t, tr_pnl t)) ?bs) (cf_initial ?c))))"
    using r bs by (auto simp: build_result_def Let_def split: if_splits)
  note fields = build_result_fields [OF r bs]
  have dd: "sr_dd_pct s = br_dd_pct r" if "py_round 2 (ms_initial cfg) = ms_initial cfg"
    using that assms curve_running [of "ms_initial cfg" "map (\<lambda>t. (mt_exit_time t, mt_pnl t)) ts"]
    by (simp add: sr br ci o_def list.pred_map)
  have pf: "sr_profit_factor s = (if sr_trades s \<noteq> [] \<and> list_all (\<lambda>t. mt_pnl t = 0) (sr_trades s) then Infinite else br_profit_factor r)"
  proof (cases "list_all (\<lambda>t. mt_pnl t = 0) ts")
    case True
    then have "list_all (\<lambda>x. x = 0) ?pnls" by (simp add: list.pred_map o_def)
    then have "sum_list (filter (\<lambda>x. x < 0) ?pnls) = 0" unfolding losses_zero by (auto simp: list_all_iff)
    then show ?thesis using True False by (simp add: sr loss_ratio_def)
  next
    case nz: False
    have "br_profit_factor r = loss_ratio (sum_list (filter (\<lambda>x. x > 0) ?pnls)) \<bar>sum_list (filter (\<lambda>x. x < 0) ?pnls)\<bar>"
      using nz unfolding br(5) gross [of "\<lambda>x. x > 0"] gross [of "\<lambda>x. x < 0"] factors_agree by (simp add: list.pred_map o_def)
    then show ?thesis using nz by (simp add: sr)
  qed
  have "same_figures symbol tf cfg s r"
    unfolding same_figures_def pf [symmetric]
    using dd False by (simp add: sr(1-10) br(1-4) fields(1-3,6) count ci o_def win_rate_def)
  then show ?thesis using s r by simp
qed

text \<open>
  C33: The two backtest engines agree. Given the same candles, settings and strategy (one that makes no trade at the very
  first candle, at which the second engine does not ask it), they fail with the same error or both finish, and then every
  figure the second engine reports for the symbol is that of the first: the trades with their times, prices, lots, profits
  and outcomes, the counts, profit, ratios, win rate (rounded), profit factor and drawdown.
\<close>

theorem engines_agree:
  assumes "no_first_trade (one_symbol symbol tf cfg) (f symbol tf) bars"
  shows "case run_symbol symbol tf bars f cfg of
      Inl e \<Rightarrow> bt_run (f symbol tf) (one_symbol symbol tf cfg) bars = Inl e
    | Inr s \<Rightarrow> (\<exists>r. bt_run (f symbol tf) (one_symbol symbol tf cfg) bars = Inr r \<and> same_figures symbol tf cfg s r)"
proof -
  have ci: "cf_initial (one_symbol symbol tf cfg) = ms_initial cfg" by (simp add: one_symbol_def)
  show ?thesis
  proof (cases "ms_loop f symbol tf cfg (ms_initial cfg) [] bars")
    case (Inl e)
    then show ?thesis by (simp add: run_symbol_def bt_run_def ci same_loop [of symbol tf cfg f bars, OF assms])
  next
    case (Inr ts)
    have "bt_run (f symbol tf) (one_symbol symbol tf cfg) bars = build_result (one_symbol symbol tf cfg) bars (map (as_bt cfg) ts)"
      by (simp add: bt_run_def ci same_loop [of symbol tf cfg f bars, OF assms] Inr)
    then show ?thesis using results_agree [OF ms_loop_cents [OF Inr], of symbol tf cfg bars] by (auto simp: run_symbol_def Inr split: sum.splits)
  qed
qed

definition trend_config :: ms_config where
  "trend_config = \<lparr>ms_symbols = [''XAUUSD''], ms_timeframes = [''H1''], ms_initial = 1000, ms_risk = 1, ms_slippage = 0, ms_commission = 0,
     ms_min_rr = 1, ms_pip = 10\<rparr>"

text \<open>Four candles: bought at the second the target is reached at the third, bought at the third the stop is hit at the fourth.\<close>

definition trend_bars :: "bt_bar list" where
  "trend_bars = [sample_bar ''a'' 99 101 100, sample_bar ''b'' 99 101 100, sample_bar ''c'' 99 125 100, sample_bar ''d'' 85 101 100]"

definition trend_strategy :: ms_strategy where
  "trend_strategy symbol tf c past = Inr (if ba_ts c \<in> {''b'', ''c''} then Some sample_signal else None)"

lemmas trend_eval = trend_config_def trend_bars_def trend_strategy_def sample_bar_def sample_signal_def

lemma trend_trades: "map_sum id (map (\<lambda>t. (mt_entry_time t, mt_exit_time t, mt_outcome t, mt_pnl t))) (ms_loop trend_strategy ''XAUUSD'' ''H1'' trend_config 1000 [] trend_bars)
    = Inr [(''b'', ''c'', WIN, 20), (''c'', ''d'', LOSS, - 10)]"
  by (simp add: trend_eval take_last_def ms_valid_def num_or_zero_def ms_simulate_def py_upper_def char_upper_def Let_def py_round_def round_half_even_def)

theorem engines_agree_witness:
  "\<exists>s r. run_symbol ''XAUUSD'' ''H1'' trend_bars trend_strategy trend_config = Inr s
    \<and> bt_run (trend_strategy ''XAUUSD'' ''H1'') (one_symbol ''XAUUSD'' ''H1'' trend_config) trend_bars = Inr r
    \<and> br_total r = 2 \<and> br_wins r = 1 \<and> br_losses r = 1 \<and> br_pnl r = 10 \<and> br_win_rate r = 50 \<and> br_profit_factor r = Finite 2
    \<and> br_dd_pct r = 9804 / 10000"
proof -
  obtain ts where ts: "ms_loop trend_strategy ''XAUUSD'' ''H1'' trend_config 1000 [] trend_bars = Inr ts"
      "map (\<lambda>t. (mt_entry_time t, mt_exit_time t, mt_outcome t, mt_pnl t)) ts = [(''b'', ''c'', WIN, 20), (''c'', ''d'', LOSS, - 10)]"
    using trend_trades by (cases "ms_loop trend_strategy ''XAUUSD'' ''H1'' trend_config 1000 [] trend_bars") auto
  then obtain t u where tu: "ts = [t, u]" "mt_outcome t = WIN" "mt_pnl t = 20" "mt_outcome u = LOSS" "mt_pnl u = - 10" by auto
  have init: "ms_initial trend_config = 1000" by (simp add: trend_config_def)
  obtain s where s: "run_symbol ''XAUUSD'' ''H1'' trend_bars trend_strategy trend_config = Inr s" "sr_trades s = ts" "sr_total s = 2" "sr_wins s = 1"
      "sr_losses s = 1" "sr_pnl s = 10" "sr_win_rate s = 50" "sr_profit_factor s = Finite (py_round 4 2)"
      "sr_dd_pct s = fst (max_drawdown [1000, 1020, 1010])"
    by (simp add: run_symbol_def init ts(1) tf_metrics_def tu Let_def loss_ratio_def)
  have cents: "py_round 2 1000 = 1000" "py_round 2 50 = 50" "py_round 4 2 = 2" by (simp_all add: py_round_def round_half_even_def)
  have dd: "fst (max_drawdown [1000, 1020, 1010]) = 9804 / 10000"
    by (simp add: max_drawdown_def drawdown_scan_def drawdown_step_def drop_from_def py_round_def round_half_even_def Let_def)
  have "no_first_trade (one_symbol ''XAUUSD'' ''H1'' trend_config) (trend_strategy ''XAUUSD'' ''H1'') trend_bars"
    by (simp add: no_first_trade_def trend_bars_def trend_strategy_def sample_bar_def)
  from engines_agree [of "''XAUUSD''" "''H1''" trend_config trend_strategy trend_bars, OF this] obtain r where r: "bt_run (trend_strategy ''XAUUSD'' ''H1'') (one_symbol ''XAUUSD'' ''H1'' trend_config) trend_bars = Inr r"
      "same_figures ''XAUUSD'' ''H1'' trend_config s r"
    by (auto simp: s(1))
  have "br_total r = 2 \<and> br_wins r = 1 \<and> br_losses r = 1 \<and> br_pnl r = 10 \<and> br_win_rate r = 50 \<and> br_profit_factor r = Finite 2
    \<and> br_dd_pct r = 9804 / 10000"
    using r(2) by (auto simp: same_figures_def s tu init cents dd)
  then show ?thesis using s(1) r(1) by blast
qed

subsection \<open>The combined result\<close>

lemma best_of_spec: "best_of p qs \<in> set (p # qs) \<and> (\<forall>q \<in> set (p # qs). sr_pnl (snd q) \<le> sr_pnl (snd (best_of p qs)))"
proof (induction qs arbitrary: p)
  case (Cons a qs)
  show ?case using Cons.IH [of "if sr_pnl (snd p) < sr_pnl (snd a) then a else p"] by (cases "sr_pnl (snd p) < sr_pnl (snd a)") (auto intro: order_trans less_imp_le)
qed simp

lemma worst_of_spec: "worst_of p qs \<in> set (p # qs) \<and> (\<forall>q \<in> set (p # qs). sr_pnl (snd (worst_of p qs)) \<le> sr_pnl (snd q))"
proof (induction qs arbitrary: p)
  case (Cons a qs)
  show ?case using Cons.IH [of "if sr_pnl (snd a) < sr_pnl (snd p) then a else p"] by (cases "sr_pnl (snd a) < sr_pnl (snd p)") (auto intro: order_trans less_imp_le)
qed simp

lemma combine_spec:
  assumes "combine cfg rs flat = Inr r" and "rs \<noteq> []"
  shows "mr_pnl r = sum_list (map (\<lambda>p. sr_pnl (snd p)) rs) \<and> mr_trades r = sum_list (map (\<lambda>p. sr_total (snd p)) rs)
    \<and> (\<exists>p \<in> set rs. fst p = mr_best r \<and> (\<forall>q \<in> set rs. sr_pnl (snd q) \<le> sr_pnl (snd p)))
    \<and> (\<exists>p \<in> set rs. fst p = mr_worst r \<and> (\<forall>q \<in> set rs. sr_pnl (snd p) \<le> sr_pnl (snd q)))"
proof -
  obtain p ps where rs: "rs = p # ps" using assms(2) by (cases rs) auto
  have "mr_pnl r = sum_list (map (\<lambda>p. sr_pnl (snd p)) rs)" "mr_trades r = sum_list (map (\<lambda>p. sr_total (snd p)) rs)"
    "mr_best r = fst (best_of p ps)" "mr_worst r = fst (worst_of p ps)"
    using assms(1) by (auto simp: combine_def rs Let_def case_prod_unfold split: if_splits)
  then show ?thesis using best_of_spec [of p ps] worst_of_spec [of p ps] unfolding rs by metis
qed

end
