(* ===== verification/Tick_Backtest.thy ===== *)
theory Tick_Backtest
  imports Backtest_Metrics "HOL-Library.Multiset"
begin

section \<open>The tick-level backtest\<close>

text \<open>
  \<open>src/backend/institutional/tick_backtest.py\<close>: bar-by-bar simulation with spread, slippage and commission, several open
  trades, an equity curve and the summary. The strategy is a parameter: a function from the candle and at most 200
  candles before it; what it raises ends the run. The explanation that a signal may carry is left out.
\<close>

subsection \<open>Symbols\<close>

record symbol_spec =
  sp_symbol :: string
  sp_pip :: real
  sp_contract :: real
  sp_point :: real
  sp_min_lot :: real
  sp_max_lot :: real
  sp_step :: real
  sp_spread :: real
  sp_commission :: real

definition spec_of :: "string \<Rightarrow> real \<Rightarrow> real \<Rightarrow> real \<Rightarrow> real \<Rightarrow> real \<Rightarrow> symbol_spec" where
  "spec_of s pip contract pv spread comm = \<lparr>sp_symbol = s, sp_pip = pip, sp_contract = contract, sp_point = pv, sp_min_lot = 1 / 100,
     sp_max_lot = 100, sp_step = 1 / 100, sp_spread = spread, sp_commission = comm\<rparr>"

definition for_symbol :: "string \<Rightarrow> symbol_spec" where
  "for_symbol symbol =
     (let s = py_upper symbol in
      if s = ''XAUUSD'' then spec_of s (1 / 10) 100 1 3 5
      else if s = ''XAGUSD'' then spec_of s (1 / 100) 5000 5 5 4
      else if s = ''EURUSD'' then spec_of s (1 / 10000) 100000 10 1 (7 / 2)
      else if s = ''GBPUSD'' then spec_of s (1 / 10000) 100000 10 (3 / 2) (7 / 2)
      else if s = ''USDJPY'' then spec_of s (1 / 100) 100000 9 1 (7 / 2)
      else if s = ''GBPJPY'' then spec_of s (1 / 100) 100000 9 (5 / 2) (7 / 2)
      else if s = ''US30'' then spec_of s 1 1 1 3 2
      else if s = ''NAS100'' then spec_of s (1 / 4) 1 1 1 2
      else if s = ''BTCUSD'' then spec_of s 1 1 1 50 10
      else spec_of s (1 / 10000) 100000 10 2 (7 / 2))"

record tick_config =
  tc_symbol :: string
  tc_initial :: real
  tc_risk_pct :: real
  tc_spread_mult :: real
  tc_slippage :: real
  tc_use_commission :: bool
  tc_max_open :: nat

datatype side = Buy | Sell

record tick_bar =
  tb_ts :: real
  tb_open :: real
  tb_high :: real
  tb_low :: real
  tb_close :: real

record tick_signal =
  ts_direction :: string
  ts_stop :: real
  ts_target :: real

record tick_trade =
  tt_id :: nat
  tt_symbol :: string
  tt_side :: side
  tt_open_time :: real
  tt_close_time :: "real option"
  tt_open :: real
  tt_close :: "real option"
  tt_stop :: real
  tt_target :: real
  tt_lot :: real
  tt_gross :: real
  tt_commission :: real
  tt_spread_cost :: real
  tt_slippage_cost :: real
  tt_net :: real
  tt_is_open :: bool
  tt_reason :: string

definition total_cost :: "tick_trade \<Rightarrow> real" where
  "total_cost t = tt_commission t + tt_spread_cost t + tt_slippage_cost t"

definition risk_reward :: "tick_trade \<Rightarrow> real" where
  "risk_reward t =
     (let sl_dist = \<bar>tt_open t - tt_stop t\<bar>; tp_dist = \<bar>tt_target t - tt_open t\<bar> in
      if sl_dist > 0 then py_round 2 (tp_dist / sl_dist) else 0)"

type_synonym tick_strategy = "tick_bar \<Rightarrow> tick_bar list \<Rightarrow> exc + tick_signal option"

subsection \<open>The engine\<close>

record tick_engine =
  tk_config :: tick_config
  tk_spec :: symbol_spec
  tk_trades :: "tick_trade list"
  tk_counter :: nat
  tk_balance :: real
  tk_curve :: "(real \<times> real) list"
  tk_peak :: real
  tk_max_dd :: real

definition new_tick_engine :: "tick_config \<Rightarrow> tick_engine" where
  "new_tick_engine cfg = \<lparr>tk_config = cfg, tk_spec = for_symbol (tc_symbol cfg), tk_trades = [], tk_counter = 0, tk_balance = tc_initial cfg,
     tk_curve = [], tk_peak = tc_initial cfg, tk_max_dd = 0\<rparr>"

definition pip_diff :: "symbol_spec \<Rightarrow> tick_trade \<Rightarrow> real \<Rightarrow> real" where
  "pip_diff sp t price = (let d = (price - tt_open t) / sp_pip sp in if tt_side t = Sell then - d else d)"

definition tick_close :: "tick_trade \<Rightarrow> real \<Rightarrow> real \<Rightarrow> string \<Rightarrow> tick_engine \<Rightarrow> tick_trade \<times> tick_engine" where
  "tick_close t price ts reason e =
     (let gross = pip_diff (tk_spec e) t price * sp_point (tk_spec e) * tt_lot t;
          t' = t\<lparr>tt_close := Some price, tt_close_time := Some ts, tt_reason := reason, tt_is_open := False, tt_gross := gross,
                 tt_net := gross - total_cost t\<rparr> in
      (t', e\<lparr>tk_balance := tk_balance e + tt_net t', tk_trades := tk_trades e @ [t']\<rparr>))"

definition check_fill :: "tick_trade \<Rightarrow> tick_bar \<Rightarrow> tick_engine \<Rightarrow> tick_trade \<times> tick_engine" where
  "check_fill t b e =
     (if tt_side t = Buy then
        (if tb_low b \<le> tt_stop t then tick_close t (tt_stop t) (tb_ts b) ''sl'' e
         else if tt_target t \<le> tb_high b then tick_close t (tt_target t) (tb_ts b) ''tp'' e else (t, e))
      else
        (if tt_stop t \<le> tb_high b then tick_close t (tt_stop t) (tb_ts b) ''sl'' e
         else if tb_low b \<le> tt_target t then tick_close t (tt_target t) (tb_ts b) ''tp'' e else (t, e)))"

text \<open>The first part of a candle: every open trade is checked, and the closed ones leave the list.\<close>

fun check_open :: "tick_bar \<Rightarrow> tick_trade list \<Rightarrow> tick_engine \<Rightarrow> tick_trade list \<times> tick_engine" where
  "check_open b [] e = ([], e)"
| "check_open b (t # ts) e =
     (case check_fill t b e of (t', e1) \<Rightarrow>
        (case check_open b ts e1 of (open', e2) \<Rightarrow> (if tt_is_open t' then t' # open' else open', e2)))"

definition calc_floating :: "symbol_spec \<Rightarrow> tick_trade \<Rightarrow> real \<Rightarrow> real" where
  "calc_floating sp t price = pip_diff sp t price * sp_point sp * tt_lot t - total_cost t"

definition track_equity :: "tick_bar \<Rightarrow> tick_trade list \<Rightarrow> tick_engine \<Rightarrow> tick_engine" where
  "track_equity b ts e =
     (let equity = tk_balance e + sum_list (map (\<lambda>t. calc_floating (tk_spec e) t (tb_close b)) ts);
          peak = (if equity > tk_peak e then equity else tk_peak e); dd = peak - equity in
      e\<lparr>tk_curve := tk_curve e @ [(tb_ts b, equity)], tk_peak := peak, tk_max_dd := (if dd > tk_max_dd e then dd else tk_max_dd e)\<rparr>)"

fun side_of :: "string \<Rightarrow> exc + side" where
  "side_of d = (if d = ''BUY'' then Inr Buy else if d = ''SELL'' then Inr Sell else Inl ValueError)"

definition slip_of :: "tick_engine \<Rightarrow> real" where
  "slip_of e = sp_pip (tk_spec e) * tc_slippage (tk_config e)"

definition spread_of :: "tick_engine \<Rightarrow> real" where
  "spread_of e = sp_pip (tk_spec e) * sp_spread (tk_spec e) * tc_spread_mult (tk_config e)"

definition entry_price :: "tick_engine \<Rightarrow> side \<Rightarrow> tick_bar \<Rightarrow> real" where
  "entry_price e d b = (if d = Buy then tb_open b + spread_of e + slip_of e else tb_open b - spread_of e - slip_of e)"

definition tick_lot :: "tick_engine \<Rightarrow> real \<Rightarrow> real" where
  "tick_lot e sl_pips =
     (let sp = tk_spec e; risk_usd = tk_balance e * (tc_risk_pct (tk_config e) / 100); lot = risk_usd / (sl_pips * sp_point sp) in
      max (sp_min_lot sp) (min (sp_max_lot sp) (of_int (round_half_even (lot / sp_step sp)) * sp_step sp)))"

definition open_trade :: "tick_bar \<Rightarrow> tick_signal \<Rightarrow> tick_engine \<Rightarrow> exc + (tick_trade option \<times> tick_engine)" where
  "open_trade b s e =
     (case side_of (ts_direction s) of
        Inl x \<Rightarrow> Inl x
      | Inr d \<Rightarrow>
          (let sp = tk_spec e; price = entry_price e d b; sl_pips = \<bar>price - ts_stop s\<bar> / sp_pip sp in
           if sl_pips < 1 / 10 then Inr (None, e)
           else (let lot = tick_lot e sl_pips;
                     cost = (\<lambda>x. x * lot * sp_contract sp / sp_pip sp * sp_point sp / sp_contract sp);
                     n = tk_counter e + 1 in
             Inr (Some \<lparr>tt_id = n, tt_symbol = tc_symbol (tk_config e), tt_side = d, tt_open_time = tb_ts b, tt_close_time = None,
                    tt_open = price, tt_close = None, tt_stop = ts_stop s, tt_target = ts_target s, tt_lot = lot, tt_gross = 0,
                    tt_commission = (if tc_use_commission (tk_config e) then lot * sp_commission sp else 0),
                    tt_spread_cost = cost (spread_of e), tt_slippage_cost = cost (slip_of e), tt_net = 0, tt_is_open = True, tt_reason = []\<rparr>,
                  e\<lparr>tk_counter := n\<rparr>))))"

text \<open>The whole of a candle, then the loop over the candles and the closing of what is left.\<close>

definition tick_candle :: "tick_strategy \<Rightarrow> bool \<Rightarrow> tick_bar list \<Rightarrow> tick_bar \<Rightarrow> tick_trade list \<Rightarrow> tick_engine \<Rightarrow> exc + (tick_trade list \<times> tick_engine)" where
  "tick_candle f first past b ts e =
     (case check_open b ts e of (ts1, e1) \<Rightarrow>
        (let e2 = track_equity b ts1 e1 in
         if \<not> first \<and> length ts1 < tc_max_open (tk_config e2) then
           (case f b (take_last 200 past) of
              Inl x \<Rightarrow> Inl x
            | Inr None \<Rightarrow> Inr (ts1, e2)
            | Inr (Some s) \<Rightarrow> (case open_trade b s e2 of
                  Inl x \<Rightarrow> Inl x | Inr (None, e3) \<Rightarrow> Inr (ts1, e3) | Inr (Some t, e3) \<Rightarrow> Inr (ts1 @ [t], e3)))
         else Inr (ts1, e2)))"

fun tick_loop :: "tick_strategy \<Rightarrow> tick_bar list \<Rightarrow> tick_bar list \<Rightarrow> tick_trade list \<Rightarrow> tick_engine \<Rightarrow> exc + (tick_trade list \<times> tick_engine)" where
  "tick_loop f past [] ts e = Inr (ts, e)"
| "tick_loop f past (b # bs) ts e =
     (case tick_candle f (past = []) past b ts e of Inl x \<Rightarrow> Inl x | Inr (ts', e') \<Rightarrow> tick_loop f (past @ [b]) bs ts' e')"

fun close_all :: "tick_bar \<Rightarrow> tick_trade list \<Rightarrow> tick_engine \<Rightarrow> tick_engine" where
  "close_all b [] e = e"
| "close_all b (t # ts) e = close_all b ts (snd (tick_close t (tb_close b) (tb_ts b) ''end_of_data'' e))"

record tick_result =
  kr_trades :: "tick_trade list"
  kr_curve :: "(real \<times> real) list"
  kr_initial :: real
  kr_final :: real
  kr_total :: nat
  kr_wins :: nat
  kr_losses :: nat
  kr_win_rate :: real
  kr_profit_factor :: ratio
  kr_net :: real
  kr_commission :: real
  kr_spread :: real
  kr_slippage :: real
  kr_dd_pct :: real
  kr_dd_usd :: real
  kr_sharpe :: real
  kr_sortino :: real
  kr_calmar :: real
  kr_recovery :: real
  kr_expectancy :: real
  kr_avg_win :: real
  kr_avg_loss :: real
  kr_avg_rr :: real

definition no_trades_result :: "tick_engine \<Rightarrow> tick_result" where
  "no_trades_result e = \<lparr>kr_trades = [], kr_curve = tk_curve e, kr_initial = tc_initial (tk_config e), kr_final = tk_balance e, kr_total = 0,
     kr_wins = 0, kr_losses = 0, kr_win_rate = 0, kr_profit_factor = Finite 0, kr_net = 0, kr_commission = 0, kr_spread = 0, kr_slippage = 0,
     kr_dd_pct = 0, kr_dd_usd = 0, kr_sharpe = 0, kr_sortino = 0, kr_calmar = 0, kr_recovery = 0, kr_expectancy = 0, kr_avg_win = 0,
     kr_avg_loss = 0, kr_avg_rr = 0\<rparr>"

definition root_mean_square :: "real list \<Rightarrow> real" where
  "root_mean_square xs = sqrt (sum_list (map (\<lambda>x. x\<^sup>2) xs) / real (length xs))"

definition tick_build :: "tick_engine \<Rightarrow> exc + tick_result" where
  "tick_build e =
     (let ts = tk_trades e; n = real (length ts); initial = tc_initial (tk_config e) in
      if ts = [] then Inr (no_trades_result e)
      else if initial = 0 then Inl ZeroDivisionError
      else (let winners = filter (\<lambda>t. tt_net t > 0) ts; losers = filter (\<lambda>t. tt_net t \<le> 0) ts;
                gross_win = sum_list (map tt_net winners); gross_loss = \<bar>sum_list (map tt_net losers)\<bar>;
                returns = map (\<lambda>t. tt_net t / initial) ts; avg_ret = mean_value returns;
                std_ret = root_mean_square (map (\<lambda>r. r - avg_ret) returns);
                downside = filter (\<lambda>r. r < 0) returns;
                std_down = (if downside = [] then std_ret else root_mean_square downside);
                sharpe = (if std_ret > 0 then avg_ret / std_ret * sqrt 252 else 0);
                sortino = (if std_down > 0 then avg_ret / std_down * sqrt 252 else 0);
                dd_pct = (if tk_peak e > 0 then tk_max_dd e / tk_peak e * 100 else 0);
                net = sum_list (map tt_net ts);
                calmar = (if dd_pct > 0 then net / initial * 100 / dd_pct else 0);
                recovery = (if tk_max_dd e > 0 then net / tk_max_dd e else 0) in
        Inr \<lparr>kr_trades = ts, kr_curve = tk_curve e, kr_initial = initial, kr_final = tk_balance e, kr_total = length ts,
          kr_wins = length winners, kr_losses = length losers, kr_win_rate = real (length winners) / n * 100,
          kr_profit_factor = (if gross_loss > 0 then Finite (gross_win / gross_loss) else Infinite), kr_net = net,
          kr_commission = sum_list (map tt_commission ts), kr_spread = sum_list (map tt_spread_cost ts),
          kr_slippage = sum_list (map tt_slippage_cost ts), kr_dd_pct = dd_pct, kr_dd_usd = tk_max_dd e,
          kr_sharpe = py_round 3 sharpe, kr_sortino = py_round 3 sortino, kr_calmar = py_round 3 calmar, kr_recovery = py_round 3 recovery,
          kr_expectancy = net / n, kr_avg_win = (if winners = [] then 0 else gross_win / real (length winners)),
          kr_avg_loss = (if losers = [] then 0 else - gross_loss / real (length losers)),
          kr_avg_rr = sum_list (map risk_reward ts) / n\<rparr>))"

definition tick_finish :: "tick_bar list \<Rightarrow> tick_trade list \<Rightarrow> tick_engine \<Rightarrow> tick_engine" where
  "tick_finish bs ts e = (if bs = [] then e else close_all (last bs) ts e)"

definition tick_run :: "tick_strategy \<Rightarrow> tick_bar list \<Rightarrow> tick_engine \<Rightarrow> exc + tick_result" where
  "tick_run f bs e = (case tick_loop f [] bs [] e of Inl x \<Rightarrow> Inl x | Inr (ts, e') \<Rightarrow> tick_build (tick_finish bs ts e'))"

subsection \<open>The books of the engine\<close>

text \<open>
  Every trade opened so far is either open or closed once, in the order of its number; the balance is the initial one
  plus the profits of the closed trades; a closed trade has the price, the profit and the costs it was closed with.
\<close>

definition settled :: "symbol_spec \<Rightarrow> tick_trade \<Rightarrow> bool" where
  "settled sp t \<longleftrightarrow> \<not> tt_is_open t \<and> (case tt_close t of None \<Rightarrow> False
     | Some p \<Rightarrow> tt_gross t = pip_diff sp t p * sp_point sp * tt_lot t \<and> tt_net t = tt_gross t - total_cost t)"

definition books :: "tick_trade list \<Rightarrow> tick_engine \<Rightarrow> bool" where
  "books ts e \<longleftrightarrow> mset (map tt_id ts) + mset (map tt_id (tk_trades e)) = mset [1..<Suc (tk_counter e)]
     \<and> list_all tt_is_open ts \<and> list_all (settled (tk_spec e)) (tk_trades e)
     \<and> tk_balance e = tc_initial (tk_config e) + sum_list (map tt_net (tk_trades e))"

text \<open>Nothing but the lists, the counter, the balance and the curve ever changes.\<close>

definition same_setup :: "tick_engine \<Rightarrow> tick_engine \<Rightarrow> bool" where
  "same_setup e e' \<longleftrightarrow> tk_config e' = tk_config e \<and> tk_spec e' = tk_spec e"

lemma same_setup_trans: "same_setup a b \<Longrightarrow> same_setup b c \<Longrightarrow> same_setup a c"
  by (simp add: same_setup_def)

lemma close_trade_effect:
  assumes "tick_close t p x w e = (t', e')"
  shows "tt_id t' = tt_id t" "settled (tk_spec e) t'" "tk_trades e' = tk_trades e @ [t']" "tk_balance e' = tk_balance e + tt_net t'"
    "tk_counter e' = tk_counter e" "same_setup e e'"
  using assms by (auto simp: tick_close_def Let_def settled_def same_setup_def total_cost_def pip_diff_def)

lemma close_books:
  assumes "books (t # ts) e" and "tick_close t p x w e = (t', e')" shows "books ts e'"
  using assms(1) close_trade_effect [OF assms(2)] by (auto simp: books_def same_setup_def)

lemma books_perm: "books (a @ b) e \<longleftrightarrow> books (b @ a) e"
  by (auto simp: books_def ac_simps)

lemma check_fill_disj: "check_fill t b e = (t, e) \<or> (\<exists>p x w. check_fill t b e = tick_close t p x w e)"
  unfolding check_fill_def by (cases "tt_side t = Buy"; cases "tb_low b \<le> tt_stop t"; cases "tt_target t \<le> tb_high b";
      cases "tt_stop t \<le> tb_high b"; cases "tb_low b \<le> tt_target t"; simp) blast+

lemma check_fill_cases:
  assumes "check_fill t b e = (t', e')"
  obtains (kept) "t' = t" "e' = e" | (closed) p x w where "tick_close t p x w e = (t', e')"
  using check_fill_disj [of t b e] assms by force

lemma check_open_books:
  assumes "books (kept @ ts) e" and "check_open b ts e = (ts', e')"
  shows "books (kept @ ts') e' \<and> same_setup e e' \<and> tk_counter e' = tk_counter e \<and> length ts' \<le> length ts"
  using assms
proof (induction ts arbitrary: kept e ts' e')
  case (Cons t ts)
  obtain t1 e1 where c: "check_fill t b e = (t1, e1)" by (cases "check_fill t b e")
  obtain ts2 e2 where o: "check_open b ts e1 = (ts2, e2)" by (cases "check_open b ts e1")
  have r: "ts' = (if tt_is_open t1 then t1 # ts2 else ts2)" "e' = e2" using Cons.prems(2) c o by auto
  have op: "tt_is_open t" using Cons.prems(1) by (auto simp: books_def)
  from c show ?case
  proof (cases rule: check_fill_cases)
    case kept
    have "books ((kept @ [t]) @ ts) e1" using Cons.prems(1) kept by simp
    from Cons.IH [OF this o] show ?thesis using r kept op by auto
  next
    case (closed p x w)
    have "books (t # ts @ kept) e" using Cons.prems(1) books_perm [of kept "t # ts" e] by simp
    then have "books (ts @ kept) e1" using close_books closed by blast
    then have b1: "books (kept @ ts) e1" using books_perm by blast
    have "\<not> tt_is_open t1" using close_trade_effect(2) [OF closed] by (simp add: settled_def)
    then show ?thesis using Cons.IH [OF b1 o] r close_trade_effect(5,6) [OF closed] same_setup_trans by auto
  qed
qed (simp add: same_setup_def)

lemma track_books [simp]:
  "books ts (track_equity b us e) = books ts e" "same_setup e (track_equity b us e)" "tk_counter (track_equity b us e) = tk_counter e"
  by (simp_all add: track_equity_def Let_def books_def same_setup_def)

lemma open_trade_Some:
  assumes "open_trade b s e = Inr (Some t, e')"
  shows "e' = e\<lparr>tk_counter := tk_counter e + 1\<rparr>" "tt_id t = tk_counter e + 1" "tt_is_open t" "tt_open t = entry_price e (tt_side t) b"
    "tt_spread_cost t = spread_of e * tt_lot t * sp_contract (tk_spec e) / sp_pip (tk_spec e) * sp_point (tk_spec e) / sp_contract (tk_spec e)"
    "tt_slippage_cost t = slip_of e * tt_lot t * sp_contract (tk_spec e) / sp_pip (tk_spec e) * sp_point (tk_spec e) / sp_contract (tk_spec e)"
proof -
  obtain d where d: "side_of (ts_direction s) = Inr d" using assms by (cases "side_of (ts_direction s)") (simp_all add: open_trade_def del: side_of.simps)
  have n: "\<not> \<bar>entry_price e d b - ts_stop s\<bar> / sp_pip (tk_spec e) < 1 / 10"
    using assms by (auto simp: open_trade_def d Let_def simp del: side_of.simps)
  note o = assms [unfolded open_trade_def d sum.case Let_def if_not_P [OF n] sum.inject prod.inject option.inject]
  show "e' = e\<lparr>tk_counter := tk_counter e + 1\<rparr>" "tt_id t = tk_counter e + 1" "tt_is_open t" "tt_open t = entry_price e (tt_side t) b"
    "tt_spread_cost t = spread_of e * tt_lot t * sp_contract (tk_spec e) / sp_pip (tk_spec e) * sp_point (tk_spec e) / sp_contract (tk_spec e)"
    "tt_slippage_cost t = slip_of e * tt_lot t * sp_contract (tk_spec e) / sp_pip (tk_spec e) * sp_point (tk_spec e) / sp_contract (tk_spec e)"
    using o by auto
qed

lemma open_books:
  assumes "open_trade b s e = Inr (Some t, e')" and "books ts e"
  shows "books (ts @ [t]) e' \<and> same_setup e e'"
  using assms(2) open_trade_Some(1-3) [OF assms(1)] by (simp add: books_def same_setup_def)

lemma open_none: "open_trade b s e = Inr (None, e') \<Longrightarrow> e' = e"
  by (cases "side_of (ts_direction s)") (auto simp: open_trade_def Let_def simp del: side_of.simps split: if_splits)

lemma candle_books:
  assumes "tick_candle f first past b ts e = Inr (ts', e')" and "books ts e" and "length ts \<le> tc_max_open (tk_config e)"
  shows "books ts' e' \<and> same_setup e e' \<and> length ts' \<le> tc_max_open (tk_config e')"
proof -
  obtain ts1 e1 where c: "check_open b ts e = (ts1, e1)" by (cases "check_open b ts e")
  have c1: "books ts1 e1" "same_setup e e1" "length ts1 \<le> length ts" using check_open_books [of "[]" ts e b ts1 e1] c assms(2) by auto
  define e2 where "e2 = track_equity b ts1 e1"
  have b2: "books ts1 e2" "same_setup e e2" using c1 same_setup_trans [of e e1 e2] by (simp_all add: e2_def)
  have l1: "length ts1 \<le> tc_max_open (tk_config e2)" using c1(3) assms(3) b2(2) by (simp add: same_setup_def)
  consider "ts' = ts1" "e' = e2"
    | s where "open_trade b s e2 = Inr (None, e')" "ts' = ts1"
    | s t where "open_trade b s e2 = Inr (Some t, e')" "ts' = ts1 @ [t]" "length ts1 < tc_max_open (tk_config e2)"
    using assms(1) c by (auto simp: tick_candle_def Let_def e2_def [symmetric] split: sum.splits option.splits if_splits)
  then show ?thesis
  proof cases
    case 1
    then show ?thesis using b2 l1 by simp
  next
    case 2
    then show ?thesis using b2 l1 open_none by blast
  next
    case 3
    then show ?thesis using open_books [OF 3(1) b2(1)] b2(2) same_setup_trans by (auto simp: same_setup_def)
  qed
qed

lemma loop_books:
  "tick_loop f past bs ts e = Inr (ts', e') \<Longrightarrow> books ts e \<Longrightarrow> length ts \<le> tc_max_open (tk_config e)
   \<Longrightarrow> books ts' e' \<and> same_setup e e' \<and> length ts' \<le> tc_max_open (tk_config e')"
proof (induction bs arbitrary: past ts e)
  case (Cons b bs)
  obtain ts1 e1 where c: "tick_candle f (past = []) past b ts e = Inr (ts1, e1)" "tick_loop f (past @ [b]) bs ts1 e1 = Inr (ts', e')"
    using Cons.prems(1) by (auto split: sum.splits prod.splits)
  show ?case using Cons.IH [OF c(2)] candle_books [OF c(1) Cons.prems(2,3)] same_setup_trans by blast
qed (simp add: same_setup_def)

lemma close_all_books: "books ts e \<Longrightarrow> books [] (close_all b ts e) \<and> same_setup e (close_all b ts e)"
proof (induction ts arbitrary: e)
  case (Cons t ts)
  obtain t' e' where c: "tick_close t (tb_close b) (tb_ts b) ''end_of_data'' e = (t', e')"
    by (cases "tick_close t (tb_close b) (tb_ts b) ''end_of_data'' e")
  show ?case using Cons.IH [OF close_books [OF Cons.prems c]] c close_trade_effect(6) [OF c] same_setup_trans by auto
qed (simp add: same_setup_def)

lemma new_books [simp]: "books [] (new_tick_engine cfg)"
  by (simp add: books_def new_tick_engine_def)

text \<open>
  The books of the tick backtest close. In the result of a run every trade that was opened appears exactly once, under
  consecutive numbers, closed at some price with the profit of that price less its costs, and the final balance is the
  initial one plus the net profits.
\<close>

theorem tick_books_close:
  assumes "tick_run f bs (new_tick_engine cfg) = Inr r"
  shows "mset (map tt_id (kr_trades r)) = mset [1..<Suc (kr_total r)] \<and> list_all (settled (for_symbol (tc_symbol cfg))) (kr_trades r)
    \<and> kr_final r = tc_initial cfg + sum_list (map tt_net (kr_trades r)) \<and> kr_wins r + kr_losses r = kr_total r"
proof -
  obtain ts e where l: "tick_loop f [] bs [] (new_tick_engine cfg) = Inr (ts, e)" and r: "tick_build (tick_finish bs ts e) = Inr r"
    using assms by (auto simp: tick_run_def split: sum.splits prod.splits)
  let ?e = "tick_finish bs ts e"
  have b: "books ts e" "same_setup (new_tick_engine cfg) e" using loop_books [OF l] by simp_all
  have "bs = [] \<Longrightarrow> ts = []" using l by auto
  then have f: "books [] ?e" "same_setup (new_tick_engine cfg) ?e"
    using b close_all_books [OF b(1)] same_setup_trans by (auto simp: tick_finish_def)
  have k: "kr_trades r = tk_trades ?e" "kr_final r = tk_balance ?e" "kr_total r = length (tk_trades ?e)"
    using r by (cases "tk_trades ?e = []"; cases "tc_initial (tk_config ?e) = 0"; auto simp: tick_build_def no_trades_result_def Let_def)+
  have m: "mset (map tt_id (tk_trades ?e)) = mset [1..<Suc (tk_counter ?e)]" using f(1) by (simp add: books_def)
  then have "length (tk_trades ?e) = tk_counter ?e" by (metis size_mset length_map length_upt diff_Suc_1)
  moreover have "length (filter (\<lambda>t. 0 < tt_net t) us) + length (filter (\<lambda>t. tt_net t \<le> 0) us) = length us" for us
    by (induction us) auto
  then have "kr_wins r + kr_losses r = kr_total r"
    using r by (cases "tk_trades ?e = []"; cases "tc_initial (tk_config ?e) = 0"; auto simp: tick_build_def no_trades_result_def Let_def)
  moreover have "tk_config ?e = cfg" "tk_spec ?e = for_symbol (tc_symbol cfg)" using f(2) by (simp_all add: same_setup_def new_tick_engine_def)
  ultimately show ?thesis using f(1) m k by (simp add: books_def)
qed

definition gold_config :: tick_config where
  "gold_config = \<lparr>tc_symbol = ''XAUUSD'', tc_initial = 10000, tc_risk_pct = 1, tc_spread_mult = 1, tc_slippage = 1 / 2,
     tc_use_commission = True, tc_max_open = 3\<rparr>"

theorem tick_books_close_witness:
  "\<exists>r. tick_run (\<lambda>b past. Inr None) [\<lparr>tb_ts = 0, tb_open = 1, tb_high = 2, tb_low = 1, tb_close = 2\<rparr>] (new_tick_engine gold_config) = Inr r
    \<and> mset (map tt_id (kr_trades r)) = mset [1..<Suc (kr_total r)] \<and> list_all (settled (for_symbol ''XAUUSD'')) (kr_trades r)
    \<and> kr_final r = 10000 + sum_list (map tt_net (kr_trades r)) \<and> kr_wins r + kr_losses r = kr_total r"
proof -
  obtain r where "tick_run (\<lambda>b past. Inr None) [\<lparr>tb_ts = 0, tb_open = 1, tb_high = 2, tb_low = 1, tb_close = 2\<rparr>] (new_tick_engine gold_config) = Inr r"
    by (simp add: tick_run_def tick_candle_def tick_finish_def tick_build_def track_equity_def new_tick_engine_def Let_def)
  from tick_books_close [OF this] this show ?thesis by (auto simp: gold_config_def)
qed

subsection \<open>Open trades never exceed their limit\<close>

lemma open_trades_limited:
  "tick_loop f [] bs [] (new_tick_engine cfg) = Inr (ts, e) \<Longrightarrow> length ts \<le> tc_max_open cfg"
proof -
  assume l: "tick_loop f [] bs [] (new_tick_engine cfg) = Inr (ts, e)"
  have "tk_config (new_tick_engine cfg) = cfg" by (simp add: new_tick_engine_def)
  then show ?thesis using loop_books [OF l new_books] by (auto simp: same_setup_def)
qed

subsection \<open>Costs are charged twice\<close>

text \<open>
  Spread and slippage worsen the entry price and are subtracted once more as costs: closing a bought position at a price
  yields the profit from the open of its candle less the commission and twice the cost of spread and slippage.
\<close>

lemma costs_are_charged_twice:
  assumes "open_trade b s e = Inr (Some t, e')" and "tt_side t = Buy" and "sp_pip (tk_spec e) \<noteq> 0" and "sp_contract (tk_spec e) \<noteq> 0"
  shows "tt_net (fst (tick_close t p x w e)) = (p - tb_open b) / sp_pip (tk_spec e) * sp_point (tk_spec e) * tt_lot t
    - tt_commission t - 2 * (tt_spread_cost t + tt_slippage_cost t)"
proof -
  let ?sp = "tk_spec e"
  have t: "tt_open t = tb_open b + spread_of e + slip_of e"
    "tt_spread_cost t = spread_of e * tt_lot t * sp_contract ?sp / sp_pip ?sp * sp_point ?sp / sp_contract ?sp"
    "tt_slippage_cost t = slip_of e * tt_lot t * sp_contract ?sp / sp_pip ?sp * sp_point ?sp / sp_contract ?sp"
    using open_trade_Some(4-6) [OF assms(1)] assms(2) by (simp_all add: entry_price_def)
  have "tt_net (fst (tick_close t p x w e)) = (p - tt_open t) / sp_pip ?sp * sp_point ?sp * tt_lot t - total_cost t"
    using assms(2) by (simp add: tick_close_def pip_diff_def Let_def)
  also have "(p - tt_open t) / sp_pip ?sp * sp_point ?sp * tt_lot t
      = (p - tb_open b) / sp_pip ?sp * sp_point ?sp * tt_lot t - tt_spread_cost t - tt_slippage_cost t"
    using assms(3,4) by (simp add: t field_simps)
  finally show ?thesis by (simp add: total_cost_def)
qed

end
