(* ===== verification/Agents.thy ===== *)
theory Agents
  imports Json
begin

section \<open>The trading agents and their service\<close>

text \<open>
  The agents of \<open>src/backend/agents/\<close> whose votes the voting engine combines, and the service that builds them. An agent
  reads a dictionary: here a record of the entries it looks at, each missing or present with a value of its type.
  Texts of reasons are replaced by values that say which rule spoke. Constructors and calls with keyword arguments are
  modelled with Python's check of the keywords against the signature, because that check fails for every agent.
\<close>

subsection \<open>Keyword arguments\<close>

definition bind_call :: "string list \<Rightarrow> string list \<Rightarrow> string list \<Rightarrow> exc + unit" where
  "bind_call accepted needed given =
     (if list_all (\<lambda>k. k \<in> set accepted) given \<and> list_all (\<lambda>k. k \<in> set given) needed then Inr () else Inl TypeError)"

text \<open>\<open>BaseAgent.__init__\<close> takes \<open>agent_id\<close> and \<open>weight\<close>; \<open>AgentVote\<close> needs \<open>agent_id\<close>, \<open>direction\<close> and \<open>confidence\<close>.\<close>

definition base_agent_init :: "string list \<Rightarrow> exc + unit" where
  "base_agent_init given = bind_call [''agent_id'', ''weight''] [] given"

definition agent_vote_init :: "string list \<Rightarrow> exc + unit" where
  "agent_vote_init given = bind_call [''agent_id'', ''direction'', ''confidence'', ''weight'', ''score'', ''reason'', ''status'', ''metadata'']
     [''agent_id'', ''direction'', ''confidence''] given"

subsection \<open>Contexts and votes\<close>

record ai_output =
  ai_probability :: "real option"
  ai_confidence :: "real option"
  ai_risk :: "string option"
  ai_auc :: "real option"

record calendar_event =
  ne_impact :: "string option"
  ne_name :: "string option"
  ne_to :: "real option"
  ne_since :: "real option"

record agent_context =
  cx_direction :: "string option"
  cx_bos :: "bool option"
  cx_bos_strength :: "real option"
  cx_choch :: "bool option"
  cx_choch_strength :: "real option"
  cx_htf_aligned :: "bool option"
  cx_htf_score :: "real option"
  cx_structures :: "int option"
  cx_sweep :: "bool option"
  cx_sweep_quality :: "real option"
  cx_internal :: "real option"
  cx_external :: "real option"
  cx_discount :: "bool option"
  cx_premium :: "bool option"
  cx_ob :: "bool option"
  cx_ob_quality :: "real option"
  cx_ob_tested :: "bool option"
  cx_breaker :: "bool option"
  cx_fvg :: "bool option"
  cx_fvg_quality :: "real option"
  cx_ifvg :: "bool option"
  cx_kill_zone :: "bool option"
  cx_session :: "string option"
  cx_session_quality :: "real option"
  cx_mode :: "string option"
  cx_slippage :: "real option"
  cx_depth :: "real option"
  cx_ai :: "ai_output option"
  cx_decision_score :: "real option"
  cx_circuit_open :: "bool option"
  cx_portfolio_risk :: "real option"
  cx_spread_ratio :: "real option"
  cx_atr :: "real option"
  cx_daily_trades :: "int option"
  cx_max_daily :: "int option"
  cx_daily_loss :: "real option"
  cx_max_daily_loss :: "real option"
  cx_drawdown :: "real option"
  cx_losses :: "int option"
  cx_news_filter :: "bool option"
  cx_news :: "calendar_event list option"

definition if_missing :: "'a option \<Rightarrow> 'a \<Rightarrow> 'a" where
  "if_missing x d = (case x of None \<Rightarrow> d | Some v \<Rightarrow> v)"

lemma if_missing_simps [simp]: "if_missing None d = d" "if_missing (Some v) d = v"
  by (simp_all add: if_missing_def)

definition ctx_direction :: "agent_context \<Rightarrow> string" where
  "ctx_direction cx = if_missing (cx_direction cx) ''NEUTRAL''"

datatype agent_status = StOk | StSkip | StError | StVeto

record vote_args =
  va_score :: real
  va_confidence :: real
  va_direction :: string
  va_status :: agent_status

definition vote :: "real \<Rightarrow> real \<Rightarrow> string \<Rightarrow> agent_status \<Rightarrow> vote_args" where
  "vote score conf d st = \<lparr>va_score = score, va_confidence = conf, va_direction = d, va_status = st\<rparr>"

text \<open>Every agent ends by calling \<open>AgentVote(score=..., confidence=..., direction=..., status=..., reason=..., metadata=...)\<close>.\<close>

definition call_agent_vote :: "vote_args \<Rightarrow> exc + vote_args" where
  "call_agent_vote v =
     (case agent_vote_init [''score'', ''confidence'', ''direction'', ''status'', ''reason'', ''metadata''] of Inl e \<Rightarrow> Inl e | Inr u \<Rightarrow> Inr v)"

definition clamp :: "real \<Rightarrow> real" where
  "clamp x = max 0 (min 100 x)"

subsection \<open>What the agents score\<close>

definition structure_vote :: "agent_context \<Rightarrow> vote_args" where
  "structure_vote cx =
     (let bos = if_missing (cx_bos cx) False; choch = if_missing (cx_choch cx) False;
          s1 = (if bos then 25 + if_missing (cx_bos_strength cx) 0 * 10 else 0);
          s2 = (if choch then s1 + 20 + if_missing (cx_choch_strength cx) 0 * 8 else s1);
          htf = if_missing (cx_htf_aligned cx) False;
          s3 = (if htf then s2 + 20 * if_missing (cx_htf_score cx) (1 / 2) else s2);
          c1 = (if htf then 50 + 15 else 50);
          s4 = s3 + min (of_int (if_missing (cx_structures cx) 0) * 5) 15;
          raw = ctx_direction cx; known = (raw = ''BUY'' \<or> raw = ''SELL'');
          c2 = (if known then c1 + 10 else c1);
          s5 = (if \<not> bos \<and> \<not> choch then 20 else s4); c3 = (if \<not> bos \<and> \<not> choch then 30 else c2) in
      vote (min s5 100) (min c3 100) (if known then raw else ''NEUTRAL'') StOk)"

definition liquidity_vote :: "agent_context \<Rightarrow> vote_args" where
  "liquidity_vote cx =
     (let d = ctx_direction cx; sweep = if_missing (cx_sweep cx) False;
          s1 = (if sweep then 30 + 30 + if_missing (cx_sweep_quality cx) 0 * 15 else 30); c1 = (if sweep then 50 + 20 else 50);
          il = if_missing (cx_internal cx) 0; s2 = (if il > 1 / 2 then s1 + il * 10 else s1);
          el = if_missing (cx_external cx) 0; s3 = (if el > 1 / 2 then s2 + el * 10 else s2);
          ok = (d = ''BUY'' \<and> if_missing (cx_discount cx) False \<or> d = ''SELL'' \<and> if_missing (cx_premium cx) False) in
      vote (min (if ok then s3 + 10 else s3) 100) (min (if ok then c1 + 10 else c1) 100) d StOk)"

definition smc_confluence :: "agent_context \<Rightarrow> nat" where
  "smc_confluence cx = length (filter id [if_missing (cx_ob cx) False, if_missing (cx_breaker cx) False, if_missing (cx_fvg cx) False, if_missing (cx_ifvg cx) False])"

definition smc_vote :: "agent_context \<Rightarrow> vote_args" where
  "smc_vote cx =
     (let s1 = (if if_missing (cx_ob cx) False
                then 20 + 25 * if_missing (cx_ob_quality cx) 0 + (if if_missing (cx_ob_tested cx) False then 5 else 0) else 20);
          s2 = (if if_missing (cx_breaker cx) False then s1 + 15 else s1);
          s3 = (if if_missing (cx_fvg cx) False then s2 + 15 * if_missing (cx_fvg_quality cx) 0 else s2);
          s4 = (if if_missing (cx_ifvg cx) False then s3 + 8 else s3);
          kz = if_missing (cx_kill_zone cx) False;
          s5 = (if kz then s4 + 10 * if_missing (cx_session_quality cx) (1 / 2) else s4); c1 = (if kz then 50 + 15 else 50);
          n = smc_confluence cx;
          s6 = (if n \<ge> 3 then s5 + 10 else if n \<ge> 2 then s5 + 5 else s5);
          c2 = (if n \<ge> 3 then c1 + 15 else if n \<ge> 2 then c1 + 8 else c1) in
      vote (min s6 100) (min c2 100) (ctx_direction cx) StOk)"

definition execution_vote :: "agent_context \<Rightarrow> vote_args" where
  "execution_vote cx =
     (if if_missing (cx_mode cx) ''SIGNAL_ONLY'' = ''SIGNAL_ONLY'' then vote 75 50 (ctx_direction cx) StOk
      else (let session = py_upper (if_missing (cx_session cx) ''UNKNOWN''); q = if_missing (cx_session_quality cx) (1 / 2);
                best = (session \<in> {''LONDON'', ''NEW_YORK'', ''LONDON_NY_OVERLAP''});
                s1 = (if best then 50 + 25 * q else if session = ''ASIAN'' then 50 + 10 * q else 50 + 5);
                c1 = (if best then 60 + 15 else 60);
                kz = if_missing (cx_kill_zone cx) False; s2 = (if kz then s1 + 15 else s1); c2 = (if kz then c1 + 10 else c1);
                slip = if_missing (cx_slippage cx) 0; s3 = (if slip > 3 then s2 - 20 else if slip > 1 then s2 - 8 else s2);
                s4 = s3 + if_missing (cx_depth cx) (7 / 10) * 10 in
            vote (clamp s4) (clamp c2) (ctx_direction cx) StOk))"

text \<open>Without a model the agent asks for \<open>AgentStatus.WARNING\<close>, which the enumeration does not have.\<close>

definition risk_penalty :: "string \<Rightarrow> real" where
  "risk_penalty r = (if r = ''MEDIUM'' then 5 else if r = ''HIGH'' then 15 else if r = ''EXTREME'' then 25 else 0)"

definition prediction_vote :: "agent_context \<Rightarrow> exc + vote_args" where
  "prediction_vote cx =
     (case cx_ai cx of
        None \<Rightarrow> Inl AttributeError
      | Some a \<Rightarrow>
          (let score = if_missing (ai_probability a) 0 - risk_penalty (if_missing (ai_risk a) ''UNKNOWN''); auc = if_missing (ai_auc a) 0;
               conf = (if auc > 0 then min (if_missing (ai_confidence a) 0) (auc * 100) else if_missing (ai_confidence a) 0) in
           Inr (vote (clamp score) (clamp conf) (ctx_direction cx) StOk)))"

subsection \<open>The risk agent\<close>

record risk_limits =
  rl_portfolio :: real
  rl_spread :: real
  rl_max_atr :: real
  rl_min_atr :: real
  rl_daily_trades :: int
  rl_daily_loss :: real
  rl_losses :: int
  rl_drawdown :: real

definition default_risk_limits :: risk_limits where
  "default_risk_limits = \<lparr>rl_portfolio = 5, rl_spread = 2, rl_max_atr = 7 / 2, rl_min_atr = 1 / 4, rl_daily_trades = 10, rl_daily_loss = 3,
     rl_losses = 3, rl_drawdown = 8\<rparr>"

datatype risk_rule = CircuitBreakerOpen | PortfolioRule | SpreadRule | VolatilityRule | DeadMarketRule | DailyTradesRule | DailyLossRule
  | DrawdownRule | LossesRule

text \<open>One check answers the rules that block, the rules that warn and the points it takes.\<close>

type_synonym risk_check = "risk_rule list \<times> risk_rule list \<times> real"

definition check_level :: "risk_rule \<Rightarrow> bool \<Rightarrow> bool \<Rightarrow> real \<Rightarrow> risk_check" where
  "check_level r blocks warns points = (if blocks then ([r], [], 0) else if warns then ([], [r], points) else ([], [], 0))"

definition risk_checks :: "risk_limits \<Rightarrow> agent_context \<Rightarrow> risk_check list" where
  "risk_checks l cx =
     (let pr = if_missing (cx_portfolio_risk cx) 0; sr = if_missing (cx_spread_ratio cx) 1; atr = if_missing (cx_atr cx) 1;
          dd = if_missing (cx_drawdown cx) 0; consec = if_missing (cx_losses cx) 0 in
      [check_level CircuitBreakerOpen (if_missing (cx_circuit_open cx) False) False 0,
       check_level PortfolioRule (rl_portfolio l \<le> pr) (pr > rl_portfolio l * (8 / 10)) 30,
       check_level SpreadRule (rl_spread l * (3 / 2) \<le> sr) (sr > rl_spread l) 20,
       (if atr > rl_max_atr l then ([], [VolatilityRule], 20) else if atr < rl_min_atr l then ([], [DeadMarketRule], 10) else ([], [], 0)),
       check_level DailyTradesRule (if_missing (cx_max_daily cx) (rl_daily_trades l) \<le> if_missing (cx_daily_trades cx) 0) False 0,
       check_level DailyLossRule (if_missing (cx_max_daily_loss cx) (rl_daily_loss l) \<le> if_missing (cx_daily_loss cx) 0) False 0,
       check_level DrawdownRule (rl_drawdown l \<le> dd) (dd > rl_drawdown l * (7 / 10)) 25,
       (if rl_losses l \<le> consec then ([], [LossesRule], 30) else if 2 \<le> consec then ([], [], 10) else ([], [], 0))])"

definition risk_blocks :: "risk_limits \<Rightarrow> agent_context \<Rightarrow> risk_rule list" where
  "risk_blocks l cx = concat (map fst (risk_checks l cx))"

definition risk_warnings :: "risk_limits \<Rightarrow> agent_context \<Rightarrow> risk_rule list" where
  "risk_warnings l cx = concat (map (fst \<circ> snd) (risk_checks l cx))"

definition risk_score :: "risk_limits \<Rightarrow> agent_context \<Rightarrow> real" where
  "risk_score l cx = clamp (100 - sum_list (map (snd \<circ> snd) (risk_checks l cx)))"

definition risk_vote :: "risk_limits \<Rightarrow> agent_context \<Rightarrow> vote_args" where
  "risk_vote l cx =
     (if risk_blocks l cx \<noteq> [] then vote 0 100 (ctx_direction cx) StError
      else (let w = risk_warnings l cx in
            vote (risk_score l cx) (if w = [] then 90 else if length w \<ge> 3 then 65 else 80) (ctx_direction cx) StOk))"

subsection \<open>The news agent\<close>

record news_policy =
  np_block :: bool
  np_before :: real
  np_after :: real

definition high_impact_events :: "string list" where
  "high_impact_events = [''NFP'', ''FOMC'', ''CPI'', ''GDP'', ''RATE_DECISION'', ''PMI'', ''UNEMPLOYMENT'']"

record news_cache =
  nc_data :: "calendar_event list"
  nc_at :: "time option"

definition news_ttl :: real where "news_ttl = 900"

definition news_fresh :: "time \<Rightarrow> news_cache \<Rightarrow> bool" where
  "news_fresh now c = (case nc_at c of None \<Rightarrow> False | Some t \<Rightarrow> now - t < news_ttl)"

text \<open>The events an agent looks at: those of the context, or the cache, which is filled from the service when it is stale.\<close>

definition events_for :: "time \<Rightarrow> calendar_event list \<Rightarrow> agent_context \<Rightarrow> news_cache \<Rightarrow> calendar_event list \<times> news_cache" where
  "events_for now fetched cx c =
     (case if_missing (cx_news cx) [] of
        e # es \<Rightarrow> (e # es, c)
      | [] \<Rightarrow> (let c' = (if news_fresh now c \<or> fetched = [] then c else \<lparr>nc_data = fetched, nc_at = Some now\<rparr>) in (nc_data c', c')))"

definition weigh_event :: "news_policy \<Rightarrow> calendar_event \<Rightarrow> real \<times> bool \<Rightarrow> real \<times> bool" where
  "weigh_event p e st = (case st of (score, blocked) \<Rightarrow>
     (let impact = py_upper (if_missing (ne_impact e) ''LOW''); name = if_missing (ne_name e) [];
          until = if_missing (ne_to e) 999; since = if_missing (ne_since e) 999 in
      if impact = ''HIGH'' \<or> py_upper name \<in> set high_impact_events then
        (if until \<le> np_before p then (if np_block p \<and> until \<le> 15 then (0, True) else (score - 40, blocked))
         else if since \<le> np_after p then (score - 25, blocked) else (score, blocked))
      else if impact = ''MEDIUM'' \<and> until \<le> 15 then (score - 10, blocked)
      else (score, blocked)))"

definition news_vote :: "news_policy \<Rightarrow> time \<Rightarrow> calendar_event list \<Rightarrow> agent_context \<Rightarrow> news_cache \<Rightarrow> vote_args \<times> news_cache" where
  "news_vote p now fetched cx c =
     (if \<not> if_missing (cx_news_filter cx) True then (vote 80 60 (ctx_direction cx) StOk, c)
      else (case events_for now fetched cx c of (es, c') \<Rightarrow>
        (case fold (weigh_event p) es (90, False) of (score, blocked) \<Rightarrow>
           (vote (clamp (if es = [] then 90 else score)) (clamp 70) (ctx_direction cx) (if blocked then StError else StOk), c'))))"

subsection \<open>The model agent\<close>

datatype ml_signal = MlBuy | MlSell | MlNone

record ml_agent =
  ml_threshold :: real
  ml_min_features :: nat
  ml_predictions :: nat
  ml_abstains :: nat

definition feature_keys :: "string list" where
  "feature_keys = [''rsi'', ''macd'', ''macd_signal'', ''bb_upper'', ''bb_lower'', ''atr'', ''volume_ratio'', ''spread'', ''session_hour'',
     ''day_of_week'', ''smc_score'', ''pa_score'']"

definition ml_features :: "(string \<Rightarrow> real option) \<Rightarrow> (string \<Rightarrow> json option) \<Rightarrow> real list" where
  "ml_features parse ctx =
     map (\<lambda>k. case ctx k of None \<Rightarrow> 0 | Some JNull \<Rightarrow> 0 | Some v \<Rightarrow> (case json_float parse v of Inl e \<Rightarrow> 0 | Inr x \<Rightarrow> x)) feature_keys"

text \<open>
  The vote: \<open>engine\<close> is the answer of the injected model to the features (the probabilities of loss and of profit, or what it
  raises), if there is one. The answer is the signal, its confidence and the number of features used.
\<close>

definition ml_analyze :: "(real list \<Rightarrow> exc + real \<times> real) option \<Rightarrow> (string \<Rightarrow> real option) \<Rightarrow> (string \<Rightarrow> json option) \<Rightarrow> ml_agent
    \<Rightarrow> (ml_signal \<times> real \<times> nat) \<times> ml_agent" where
  "ml_analyze engine parse ctx m =
     (let abstained = m\<lparr>ml_abstains := ml_abstains m + 1\<rparr>; fs = ml_features parse ctx in
      case engine of
        None \<Rightarrow> ((MlNone, 0, 0), abstained)
      | Some predict \<Rightarrow>
          if length fs < ml_min_features m then ((MlNone, 0, length fs), abstained)
          else (case predict fs of
              Inl e \<Rightarrow> ((MlNone, 0, 0), abstained)
            | Inr (loss, profit) \<Rightarrow>
                ((if profit \<ge> ml_threshold m then (MlBuy, profit, length fs)
                  else if loss \<ge> ml_threshold m then (MlSell, loss, length fs)
                  else (MlNone, max profit loss, length fs)),
                 m\<lparr>ml_predictions := ml_predictions m + 1\<rparr>)))"

definition abstain_rate :: "ml_agent \<Rightarrow> real" where
  "abstain_rate m = real (ml_abstains m) / real (max (ml_predictions m + ml_abstains m) 1)"

subsection \<open>Building the agents\<close>

datatype agent_class = MarketStructureAgent | LiquidityAgent | SMCAgent | AIPredictionAgent | RiskAgent | NewsAgent | ExecutionAgent

text \<open>Each constructor calls \<open>super().__init__(name=..., weight=weight, enabled=enabled)\<close>.\<close>

definition construct :: "agent_class \<Rightarrow> exc + agent_class" where
  "construct a = (case base_agent_init [''name'', ''weight'', ''enabled''] of Inl e \<Rightarrow> Inl e | Inr u \<Rightarrow> Inr a)"

definition analyze_class :: "risk_limits \<Rightarrow> news_policy \<Rightarrow> time \<Rightarrow> calendar_event list \<Rightarrow> news_cache \<Rightarrow> agent_class \<Rightarrow> agent_context \<Rightarrow> exc + vote_args" where
  "analyze_class l p now fetched c a cx =
     (case a of
        MarketStructureAgent \<Rightarrow> call_agent_vote (structure_vote cx)
      | LiquidityAgent \<Rightarrow> call_agent_vote (liquidity_vote cx)
      | SMCAgent \<Rightarrow> call_agent_vote (smc_vote cx)
      | AIPredictionAgent \<Rightarrow> (case prediction_vote cx of Inl e \<Rightarrow> Inl e | Inr v \<Rightarrow> call_agent_vote v)
      | RiskAgent \<Rightarrow> call_agent_vote (risk_vote l cx)
      | NewsAgent \<Rightarrow> call_agent_vote (fst (news_vote p now fetched cx c))
      | ExecutionAgent \<Rightarrow> call_agent_vote (execution_vote cx))"

record agent_weights =
  aw_structure :: real
  aw_liquidity :: real
  aw_smc :: real
  aw_prediction :: real
  aw_risk :: real
  aw_news :: real
  aw_execution :: real

definition default_weights :: agent_weights where
  "default_weights = \<lparr>aw_structure = 20 / 100, aw_liquidity = 15 / 100, aw_smc = 20 / 100, aw_prediction = 20 / 100, aw_risk = 15 / 100,
     aw_news = 5 / 100, aw_execution = 5 / 100\<rparr>"

definition weights_total :: "agent_weights \<Rightarrow> real" where
  "weights_total w = aw_structure w + aw_liquidity w + aw_smc w + aw_prediction w + aw_risk w + aw_news w + aw_execution w"

definition validate_weights :: "agent_weights \<Rightarrow> exc + unit" where
  "validate_weights w = (if \<bar>weights_total w - 1\<bar> > 1 / 100 then Inl ValueError else Inr ())"

record agent_service =
  as_weights :: agent_weights
  as_min_score :: real
  as_min_conf :: real
  as_engine :: "agent_class list option"

text \<open>The last line of the constructor logs with format arguments, so it raises.\<close>

definition new_agent_service :: "agent_weights option \<Rightarrow> real \<Rightarrow> real \<Rightarrow> exc + agent_service" where
  "new_agent_service w score conf =
     (let w' = (case w of None \<Rightarrow> default_weights | Some x \<Rightarrow> x) in
      case validate_weights w' of Inl e \<Rightarrow> Inl e
      | Inr u \<Rightarrow> (let s = \<lparr>as_weights = w', as_min_score = score, as_min_conf = conf, as_engine = None\<rparr> in
          case log_with_argument of Inl e \<Rightarrow> Inl e | Inr (_ :: unit) \<Rightarrow> Inr s))"

definition service_agents :: "agent_class list" where
  "service_agents = [MarketStructureAgent, LiquidityAgent, SMCAgent, AIPredictionAgent, RiskAgent, NewsAgent, ExecutionAgent]"

definition build_engine :: "exc + agent_class list" where
  "build_engine = map_exc construct service_agents"

definition get_voting_engine :: "agent_service \<Rightarrow> (agent_class list, agent_service) outcome" where
  "get_voting_engine s =
     (case as_engine s of
        Some e \<Rightarrow> (Inr e, s)
      | None \<Rightarrow> (case build_engine of Inl e \<Rightarrow> (Inl e, s) | Inr a \<Rightarrow> (Inr a, s\<lparr>as_engine := Some a\<rparr>)))"

text \<open>Attributes the configuration does not have are skipped; the check comes after the assignments, and a log call with arguments after it.\<close>

definition set_weight :: "string \<times> real \<Rightarrow> agent_weights \<Rightarrow> agent_weights" where
  "set_weight kv w = (case kv of (k, v) \<Rightarrow>
     if k = ''market_structure'' then w\<lparr>aw_structure := v\<rparr> else if k = ''liquidity'' then w\<lparr>aw_liquidity := v\<rparr>
     else if k = ''smc'' then w\<lparr>aw_smc := v\<rparr> else if k = ''ai_prediction'' then w\<lparr>aw_prediction := v\<rparr>
     else if k = ''risk'' then w\<lparr>aw_risk := v\<rparr> else if k = ''news'' then w\<lparr>aw_news := v\<rparr>
     else if k = ''execution'' then w\<lparr>aw_execution := v\<rparr> else w)"

definition update_agent_weights :: "(string \<times> real) list \<Rightarrow> agent_service \<Rightarrow> (agent_weights, agent_service) outcome" where
  "update_agent_weights ws s =
     (let s' = s\<lparr>as_weights := fold set_weight ws (as_weights s)\<rparr> in
      case validate_weights (as_weights s') of Inl e \<Rightarrow> (Inl e, s')
      | Inr u \<Rightarrow> (case log_with_argument of Inl e \<Rightarrow> (Inl e, s') | Inr (_ :: unit) \<Rightarrow> (Inr (as_weights s'), s')))"

text \<open>
  The engine of the decision service. Both log calls have an argument: the first raises inside the \<open>try\<close> when the engine is built and
  already kept, the second in the handler, before the reset of the instance.
\<close>

definition decision_voting_engine :: "agent_class list option \<Rightarrow> (agent_class list, agent_class list option) outcome" where
  "decision_voting_engine cached =
     (case cached of
        Some e \<Rightarrow> (Inr e, cached)
      | None \<Rightarrow> (case map_exc construct [MarketStructureAgent, LiquidityAgent, SMCAgent, AIPredictionAgent, RiskAgent, NewsAgent] of
          Inl e \<Rightarrow> (log_with_argument, None) | Inr a \<Rightarrow> (log_with_argument, Some a)))"

subsection \<open>No agent can be built or vote\<close>

lemma construct_fails: "construct a = Inl TypeError"
  by (simp add: construct_def base_agent_init_def bind_call_def)

lemma agent_vote_fails: "call_agent_vote v = Inl TypeError"
  by (simp add: call_agent_vote_def agent_vote_init_def bind_call_def)

lemma no_agent_service: "isl (new_agent_service w score conf)"
  by (simp add: new_agent_service_def log_with_argument_def Let_def split: sum.split)

lemma no_voting_engine: "get_voting_engine (s\<lparr>as_engine := None\<rparr>) = (Inl TypeError, s\<lparr>as_engine := None\<rparr>)"
  "decision_voting_engine None = (Inl TypeError, None)"
  by (simp_all add: get_voting_engine_def build_engine_def service_agents_def decision_voting_engine_def construct_fails log_with_argument_def)

lemma no_class_votes: "analyze_class l p now fetched c a cx \<in> {Inl TypeError, Inl AttributeError}"
  by (cases a) (auto simp: analyze_class_def agent_vote_fails prediction_vote_def Let_def split: option.split)

subsection \<open>The rules of the risk agent\<close>

lemma clamp_bounds: "0 \<le> clamp x" "clamp x \<le> 100"
  by (simp_all add: clamp_def)

lemma risk_blocks_iff:
  "risk_blocks l cx \<noteq> [] \<longleftrightarrow>
     if_missing (cx_circuit_open cx) False \<or> rl_portfolio l \<le> if_missing (cx_portfolio_risk cx) 0
     \<or> rl_spread l * (3 / 2) \<le> if_missing (cx_spread_ratio cx) 1
     \<or> if_missing (cx_max_daily cx) (rl_daily_trades l) \<le> if_missing (cx_daily_trades cx) 0
     \<or> if_missing (cx_max_daily_loss cx) (rl_daily_loss l) \<le> if_missing (cx_daily_loss cx) 0
     \<or> rl_drawdown l \<le> if_missing (cx_drawdown cx) 0"
  by (auto simp: risk_blocks_def risk_checks_def check_level_def Let_def)

lemma quiet_level: "fst (snd (check_level r b w x)) = [] \<Longrightarrow> snd (snd (check_level r b w x)) = 0"
  by (simp add: check_level_def split: if_splits)

lemma quiet_score:
  assumes "risk_warnings l cx = []" and "\<not> 2 \<le> if_missing (cx_losses cx) 0"
  shows "risk_score l cx = 100"
proof -
  define f where "f = (if rl_losses l \<le> if_missing (cx_losses cx) 0 then ([] :: risk_rule list, [LossesRule], 30 :: real) else if 2 \<le> if_missing (cx_losses cx) 0 then ([], [], 10) else ([], [], 0))"
  define v where "v = (let atr = if_missing (cx_atr cx) 1 in if atr > rl_max_atr l then ([] :: risk_rule list, [VolatilityRule], 20 :: real)
    else if atr < rl_min_atr l then ([], [DeadMarketRule], 10) else ([], [], 0))"
  have "fst (snd f) = [] \<Longrightarrow> snd (snd f) = 0" using assms(2) by (simp add: f_def split: if_splits)
  moreover have "fst (snd v) = [] \<Longrightarrow> snd (snd v) = 0" by (simp add: v_def Let_def split: if_splits)
  ultimately show ?thesis using assms(1) quiet_level
    unfolding risk_score_def risk_warnings_def risk_checks_def Let_def f_def [symmetric] v_def [unfolded Let_def, symmetric]
    by (simp add: clamp_def)
qed

text \<open>
  The risk agent blocks exactly on its six rules. Its vote is a block (score 0, confidence 100, status error) exactly
  when the circuit breaker is open or the portfolio risk, one and a half times the spread limit, the number of trades or
  the loss of the day, or the drawdown has reached its limit; otherwise the status is OK, the score is between 0 and 100
  and it is 100 if nothing warns and there are no two losses in a row.
\<close>

theorem risk_agent_blocks_exactly:
  "let v = risk_vote l cx;
       blocked = (if_missing (cx_circuit_open cx) False \<or> rl_portfolio l \<le> if_missing (cx_portfolio_risk cx) 0
         \<or> rl_spread l * (3 / 2) \<le> if_missing (cx_spread_ratio cx) 1
         \<or> if_missing (cx_max_daily cx) (rl_daily_trades l) \<le> if_missing (cx_daily_trades cx) 0
         \<or> if_missing (cx_max_daily_loss cx) (rl_daily_loss l) \<le> if_missing (cx_daily_loss cx) 0
         \<or> rl_drawdown l \<le> if_missing (cx_drawdown cx) 0) in
   (va_status v = StError) = blocked \<and> (va_status v = StOk) = (\<not> blocked) \<and> (if blocked then va_score v = 0 \<and> va_confidence v = 100 else True)
   \<and> 0 \<le> va_score v \<and> va_score v \<le> 100
   \<and> (if blocked \<or> risk_warnings l cx \<noteq> [] \<or> 2 \<le> if_missing (cx_losses cx) 0 then True else va_score v = 100 \<and> va_confidence v = 90)"
proof (cases "risk_blocks l cx = []")
  case True
  have "va_score (risk_vote l cx) = risk_score l cx" "va_status (risk_vote l cx) = StOk" using True by (simp_all add: risk_vote_def vote_def Let_def)
  moreover have "0 \<le> risk_score l cx" "risk_score l cx \<le> 100" using clamp_bounds by (simp_all add: risk_score_def)
  moreover have "risk_score l cx = 100 \<and> va_confidence (risk_vote l cx) = 90" if "risk_warnings l cx = []" "\<not> 2 \<le> if_missing (cx_losses cx) 0"
    using quiet_score [OF that] that True by (simp add: risk_vote_def vote_def)
  ultimately show ?thesis unfolding Let_def risk_blocks_iff [symmetric] using True by auto
next
  case False
  then have "risk_vote l cx = vote 0 100 (ctx_direction cx) StError" by (simp add: risk_vote_def)
  then show ?thesis unfolding Let_def risk_blocks_iff [symmetric] using False by (simp add: vote_def)
qed

theorem risk_agent_blocks_exactly_witness:
  "let l = default_risk_limits; cx = \<lparr>cx_direction = None, cx_bos = None, cx_bos_strength = None, cx_choch = None, cx_choch_strength = None, cx_htf_aligned =
      None, cx_htf_score = None, cx_structures = None, cx_sweep = None, cx_sweep_quality = None, cx_internal = None, cx_external = None,
      cx_discount = None, cx_premium = None, cx_ob = None, cx_ob_quality = None, cx_ob_tested = None, cx_breaker = None, cx_fvg = None,
      cx_fvg_quality = None, cx_ifvg = None, cx_kill_zone = None, cx_session = None, cx_session_quality = None, cx_mode = None,
      cx_slippage = None, cx_depth = None, cx_ai = None, cx_decision_score = None, cx_circuit_open = None, cx_portfolio_risk = None,
      cx_spread_ratio = None, cx_atr = None, cx_daily_trades = None, cx_max_daily = None, cx_daily_loss = None, cx_max_daily_loss =
      None, cx_drawdown = Some 9, cx_losses = None, cx_news_filter = None, cx_news = None\<rparr>;
       v = risk_vote l cx;
       blocked = (if_missing (cx_circuit_open cx) False \<or> rl_portfolio l \<le> if_missing (cx_portfolio_risk cx) 0
         \<or> rl_spread l * (3 / 2) \<le> if_missing (cx_spread_ratio cx) 1
         \<or> if_missing (cx_max_daily cx) (rl_daily_trades l) \<le> if_missing (cx_daily_trades cx) 0
         \<or> if_missing (cx_max_daily_loss cx) (rl_daily_loss l) \<le> if_missing (cx_daily_loss cx) 0
         \<or> rl_drawdown l \<le> if_missing (cx_drawdown cx) 0) in
   (va_status v = StError) = blocked \<and> (va_status v = StOk) = (\<not> blocked) \<and> (if blocked then va_score v = 0 \<and> va_confidence v = 100 else True)
   \<and> 0 \<le> va_score v \<and> va_score v \<le> 100
   \<and> (if blocked \<or> risk_warnings l cx \<noteq> [] \<or> 2 \<le> if_missing (cx_losses cx) 0 then True else va_score v = 100 \<and> va_confidence v = 90)"
  using risk_agent_blocks_exactly [of default_risk_limits] unfolding Let_def .

subsection \<open>The other votes\<close>

lemma votes_at_most_100:
  "va_score (structure_vote cx) \<le> 100" "va_confidence (structure_vote cx) \<le> 100" "va_score (liquidity_vote cx) \<le> 100"
  "va_confidence (liquidity_vote cx) \<le> 100" "va_score (smc_vote cx) \<le> 100" "va_confidence (smc_vote cx) \<le> 100"
  by (simp_all add: structure_vote_def liquidity_vote_def smc_vote_def vote_def Let_def)

lemma weigh_fold_blocked: "fold (weigh_event p) es st = (score, True) \<Longrightarrow> snd st \<longrightarrow> fst st \<le> 0 \<Longrightarrow> score \<le> 0"
proof (induction es arbitrary: st)
  case (Cons e es)
  have "snd (weigh_event p e st) \<longrightarrow> fst (weigh_event p e st) \<le> 0"
    using Cons.prems(2) by (cases st) (auto simp: weigh_event_def Let_def)
  then show ?case using Cons by simp
qed auto

text \<open>A block of the news agent has score 0, whatever events follow.\<close>

lemma news_block_scores_zero:
  assumes "va_status (fst (news_vote p now fetched cx c)) = StError"
  shows "va_score (fst (news_vote p now fetched cx c)) = 0"
proof -
  obtain es c' where e: "events_for now fetched cx c = (es, c')" by (cases "events_for now fetched cx c")
  obtain score blocked where f: "fold (weigh_event p) es (90, False) = (score, blocked)" by (cases "fold (weigh_event p) es (90, False)")
  have b: blocked "if_missing (cx_news_filter cx) True" using assms e f by (auto simp: news_vote_def vote_def split: if_splits)
  then have "score \<le> 0" using weigh_fold_blocked [of p es "(90, False)" score] f by simp
  moreover have "es \<noteq> []" using f b by auto
  ultimately show ?thesis using b e f by (simp add: news_vote_def vote_def clamp_def)
qed

text \<open>Missing features count as 0, so the check for too few of them never speaks while it asks for at most twelve.\<close>

lemma features_never_missing: "length (ml_features parse ctx) = 12"
  by (simp add: ml_features_def feature_keys_def)

lemma ml_buy_over_threshold:
  "fst (ml_analyze engine parse ctx m) = (MlBuy, conf, n) \<Longrightarrow> ml_threshold m \<le> conf \<and> n = 12"
  "fst (ml_analyze engine parse ctx m) = (MlSell, conf, n) \<Longrightarrow> ml_threshold m \<le> conf \<and> n = 12"
  by (auto simp: ml_analyze_def Let_def features_never_missing split: option.splits sum.splits prod.splits if_splits)

lemma default_weights_valid: "validate_weights default_weights = Inr ()"
  by (simp add: validate_weights_def default_weights_def weights_total_def)

text \<open>Weights that fail the check stay in place after the error.\<close>

lemma invalid_weights_stay:
  assumes "fst (update_agent_weights ws s) = Inl ValueError"
  shows "validate_weights (as_weights (snd (update_agent_weights ws s))) = Inl ValueError"
  using assms by (auto simp: update_agent_weights_def log_with_argument_def Let_def split: sum.splits)

text \<open>Valid weights are stored, and the call raises all the same.\<close>

lemma valid_weights_raise:
  assumes "validate_weights (fold set_weight ws (as_weights s)) = Inr ()"
  shows "update_agent_weights ws s = (Inl TypeError, s\<lparr>as_weights := fold set_weight ws (as_weights s)\<rparr>)"
  using assms by (simp add: update_agent_weights_def log_with_argument_def Let_def)

end
