(* ===== verification/Market_Regime.thy ===== *)
theory Market_Regime
  imports Contracts
begin

section \<open>Market regimes and the check against repainting\<close>

text \<open>
  \<open>src/backend/trading/market_regime.py\<close> (the detector with its bars, cache and indicators) and
  \<open>src/backend/trading/anti_repaint.py\<close> (the validation of recorded signals). The periods of the indicators are positive
  numbers. The two locked parts of a detection are taken together, as they run when no other task interferes.
\<close>

subsection \<open>Indicators\<close>

record price_bar =
  pb_high :: real
  pb_low :: real
  pb_close :: real

record regime_config =
  rg_adx_trend :: real
  rg_adx_period :: nat
  rg_atr_period :: nat
  rg_bb_period :: nat
  rg_bb_std :: real
  rg_vol_high :: real
  rg_vol_low :: real
  rg_bb_ranging :: real
  rg_ttl :: real
  rg_min_bars :: nat

definition default_regime_config :: regime_config where
  "default_regime_config = \<lparr>rg_adx_trend = 25, rg_adx_period = 14, rg_atr_period = 14, rg_bb_period = 20, rg_bb_std = 2,
     rg_vol_high = 3 / 2, rg_vol_low = - 1, rg_bb_ranging = 3 / 100, rg_ttl = 60, rg_min_bars = 30\<rparr>"

text \<open>A list comprehension over the indices from 1 is a walk over neighbours.\<close>

fun neighbours :: "('a \<Rightarrow> 'a \<Rightarrow> 'b) \<Rightarrow> 'a list \<Rightarrow> 'b list" where
  "neighbours f (a # b # bs) = f a b # neighbours f (b # bs)"
| "neighbours f bs = []"

definition bar_true_range :: "price_bar \<Rightarrow> price_bar \<Rightarrow> real" where
  "bar_true_range a b = max (pb_high b - pb_low b) (max \<bar>pb_high b - pb_close a\<bar> \<bar>pb_low b - pb_close a\<bar>)"

definition average :: "real list \<Rightarrow> real" where
  "average xs = sum_list xs / real (length xs)"

definition calc_atr :: "regime_config \<Rightarrow> price_bar list \<Rightarrow> real" where
  "calc_atr cfg bars = (let trs = neighbours bar_true_range bars in if trs = [] then 0 else average (take_last (rg_atr_period cfg) trs))"

definition calc_atr_zscore :: "price_bar list \<Rightarrow> real" where
  "calc_atr_zscore bars =
     (let trs = neighbours bar_true_range bars in
      if length trs < 10 then 0
      else (let m = average trs; v = average (map (\<lambda>x. (x - m)\<^sup>2) trs); s = (if v > 0 then sqrt v else 1 / 1000000000) in (last trs - m) / s))"

definition plus_move :: "price_bar \<Rightarrow> price_bar \<Rightarrow> real" where
  "plus_move a b = (let u = pb_high b - pb_high a; d = pb_low a - pb_low b in if u > d \<and> u > 0 then u else 0)"

definition minus_move :: "price_bar \<Rightarrow> price_bar \<Rightarrow> real" where
  "minus_move a b = (let u = pb_high b - pb_high a; d = pb_low a - pb_low b in if d > u \<and> d > 0 then d else 0)"

fun smooth_from :: "nat \<Rightarrow> real \<Rightarrow> real list \<Rightarrow> real list" where
  "smooth_from n r [] = [r]"
| "smooth_from n r (x # xs) = r # smooth_from n (r - r / real n + x) xs"

definition smoothed :: "real list \<Rightarrow> nat \<Rightarrow> real list" where
  "smoothed data n = (if length data < n then [] else smooth_from n (sum_list (take n data)) (drop n data))"

definition dx_of :: "real \<times> real \<times> real \<Rightarrow> real list" where
  "dx_of t = (case t of (s, p, m) \<Rightarrow>
     if s = 0 then []
     else (let pdi = 100 * p / s; mdi = 100 * m / s; den = pdi + mdi in [if den \<noteq> 0 then 100 * \<bar>pdi - mdi\<bar> / den else 0]))"

definition calc_adx :: "regime_config \<Rightarrow> price_bar list \<Rightarrow> real" where
  "calc_adx cfg bars =
     (let p = rg_adx_period cfg in
      if length bars < p + 1 then 0
      else (let st = smoothed (neighbours bar_true_range bars) p; sp = smoothed (neighbours plus_move bars) p;
                sm = smoothed (neighbours minus_move bars) p in
            if st = [] \<or> sp = [] \<or> sm = [] then 0
            else (let dx = concat (map dx_of (zip st (zip sp sm))) in if dx = [] then 0 else average (take_last p dx))))"

definition calc_bb_width :: "regime_config \<Rightarrow> real list \<Rightarrow> real" where
  "calc_bb_width cfg closes =
     (let w = take_last (rg_bb_period cfg) closes in
      if w = [] then 0 else (let m = average w; s = sqrt (average (map (\<lambda>x. (x - m)\<^sup>2) w)) in 2 * rg_bb_std cfg * s))"

subsection \<open>Classification\<close>

datatype regime = TrendingUp | TrendingDown | RangingMarket | HighVol | LowVol | UnknownRegime

definition classify :: "regime_config \<Rightarrow> real \<Rightarrow> real \<Rightarrow> real \<Rightarrow> regime \<times> real" where
  "classify cfg adx z bbw =
     (if rg_vol_high cfg \<le> z then (HighVol, min 1 (1 / 2 + (z - rg_vol_high cfg) * (2 / 10)))
      else if rg_adx_trend cfg \<le> adx then (TrendingUp, min 1 (1 / 2 + (adx - rg_adx_trend cfg) / 40))
      else if bbw \<le> rg_bb_ranging cfg then (RangingMarket, min 1 (1 / 2 + (rg_bb_ranging cfg - bbw) * 20))
      else if z \<le> rg_vol_low cfg then (LowVol, min 1 (1 / 2 + \<bar>z - rg_vol_low cfg\<bar> * (2 / 10)))
      else (RangingMarket, 4 / 10))"

fun trading_multiplier :: "regime \<Rightarrow> real" where
  "trading_multiplier TrendingUp = 1"
| "trading_multiplier TrendingDown = 1"
| "trading_multiplier RangingMarket = 6 / 10"
| "trading_multiplier HighVol = 5 / 10"
| "trading_multiplier LowVol = 8 / 10"
| "trading_multiplier UnknownRegime = 3 / 10"

definition is_safe_to_trade :: "regime \<Rightarrow> bool" where
  "is_safe_to_trade r \<longleftrightarrow> r \<notin> {UnknownRegime, HighVol}"

subsection \<open>The detector\<close>

record regime_result =
  re_symbol :: string
  re_regime :: regime
  re_adx :: real
  re_atr :: real
  re_zscore :: real
  re_width :: real
  re_confidence :: real
  re_bars :: nat

record regime_detector =
  rd_bars :: "(string, price_bar list) odict"
  rd_cache :: "(string, regime_result \<times> time) odict"

definition new_detector :: regime_detector where
  "new_detector = \<lparr>rd_bars = [], rd_cache = []\<rparr>"

definition bars_of :: "string \<Rightarrow> regime_detector \<Rightarrow> price_bar list" where
  "bars_of symbol d = (case od_get (rd_bars d) symbol of None \<Rightarrow> [] | Some bs \<Rightarrow> bs)"

definition add_bar :: "string \<Rightarrow> price_bar \<Rightarrow> regime_detector \<Rightarrow> regime_detector" where
  "add_bar symbol b d =
     d\<lparr>rd_bars := od_put symbol (take_last 200 (bars_of symbol d @ [b])) (rd_bars d), rd_cache := od_del symbol (rd_cache d)\<rparr>"

definition compute_regime :: "regime_config \<Rightarrow> string \<Rightarrow> price_bar list \<Rightarrow> regime_result" where
  "compute_regime cfg symbol bars =
     (let adx = calc_adx cfg bars; z = calc_atr_zscore bars; c = pb_close (last bars);
          w = (if c > 0 then calc_bb_width cfg (map pb_close bars) / c else 0) in
      case classify cfg adx z w of (r, conf) \<Rightarrow>
        \<lparr>re_symbol = symbol, re_regime = r, re_adx = adx, re_atr = calc_atr cfg bars, re_zscore = z, re_width = w,
         re_confidence = conf, re_bars = length bars\<rparr>)"

definition unknown_regime :: "string \<Rightarrow> nat \<Rightarrow> regime_result" where
  "unknown_regime symbol n = \<lparr>re_symbol = symbol, re_regime = UnknownRegime, re_adx = 0, re_atr = 0, re_zscore = 0, re_width = 0,
     re_confidence = 0, re_bars = n\<rparr>"

text \<open>The reading of the clock before and after the computation.\<close>

definition detect :: "regime_config \<Rightarrow> time \<Rightarrow> time \<Rightarrow> string \<Rightarrow> regime_detector \<Rightarrow> regime_result \<times> regime_detector" where
  "detect cfg t0 t1 symbol d =
     (let compute = (let bars = bars_of symbol d in
            if length bars < rg_min_bars cfg then (unknown_regime symbol (length bars), d)
            else (let r = compute_regime cfg symbol bars in (r, d\<lparr>rd_cache := od_put symbol (r, t1) (rd_cache d)\<rparr>))) in
      case od_get (rd_cache d) symbol of
        None \<Rightarrow> compute
      | Some (r, t) \<Rightarrow> if t0 - t < rg_ttl cfg then (r, d) else compute)"

datatype regime_op = AddBar string price_bar | Detect time time string

fun regime_step :: "regime_config \<Rightarrow> regime_op \<Rightarrow> regime_detector \<Rightarrow> regime_detector" where
  "regime_step cfg (AddBar symbol b) d = add_bar symbol b d"
| "regime_step cfg (Detect t0 t1 symbol) d = snd (detect cfg t0 t1 symbol d)"

subsection \<open>The cache is transparent\<close>

text \<open>What a detection without any cache answers.\<close>

definition fresh_regime :: "regime_config \<Rightarrow> string \<Rightarrow> regime_detector \<Rightarrow> regime_result" where
  "fresh_regime cfg symbol d =
     (let bars = bars_of symbol d in if length bars < rg_min_bars cfg then unknown_regime symbol (length bars) else compute_regime cfg symbol bars)"

definition cache_true :: "regime_config \<Rightarrow> regime_detector \<Rightarrow> bool" where
  "cache_true cfg d \<longleftrightarrow> (\<forall>symbol r t. od_get (rd_cache d) symbol = Some (r, t) \<longrightarrow> r = fresh_regime cfg symbol d)
     \<and> (\<forall>symbol. length (bars_of symbol d) \<le> 200)"

lemma detect_fresh: "cache_true cfg d \<Longrightarrow> fst (detect cfg t0 t1 symbol d) = fresh_regime cfg symbol d"
proof (cases "\<exists>r t. od_get (rd_cache d) symbol = Some (r, t) \<and> t0 - t < rg_ttl cfg")
  case True
  then obtain r t where "od_get (rd_cache d) symbol = Some (r, t)" "t0 - t < rg_ttl cfg" by blast
  then show "cache_true cfg d \<Longrightarrow> ?thesis" by (simp add: detect_def cache_true_def)
qed (auto simp: detect_def fresh_regime_def Let_def split: option.split)

lemma detect_bars: "bars_of s (snd (detect cfg t0 t1 symbol d)) = bars_of s d"
  by (auto simp: detect_def bars_of_def Let_def split: option.splits prod.splits)

lemma detect_cache:
  "od_get (rd_cache (snd (detect cfg t0 t1 symbol d))) s = Some (r, t) \<Longrightarrow>
     od_get (rd_cache d) s = Some (r, t) \<or> s = symbol \<and> r = fresh_regime cfg symbol d"
  by (auto simp: detect_def fresh_regime_def Let_def split: option.splits prod.splits if_splits)

lemma step_cache_true: "cache_true cfg d \<Longrightarrow> cache_true cfg (regime_step cfg e d)"
proof (cases e)
  case (AddBar symbol b)
  have "bars_of s (add_bar symbol b d) = (if s = symbol then take_last 200 (bars_of symbol d @ [b]) else bars_of s d)" for s
    by (simp add: add_bar_def bars_of_def)
  then show "cache_true cfg d \<Longrightarrow> ?thesis"
    using AddBar by (auto simp: cache_true_def fresh_regime_def add_bar_def split: if_splits)
next
  case (Detect t0 t1 symbol)
  have f: "fresh_regime cfg s (snd (detect cfg t0 t1 symbol d)) = fresh_regime cfg s d" for s
    by (simp add: fresh_regime_def detect_bars)
  show "cache_true cfg d \<Longrightarrow> ?thesis"
    unfolding Detect regime_step.simps cache_true_def f detect_bars by (auto dest!: detect_cache)
qed

interpretation regime_runs: guarded_state "regime_step cfg" "cache_true cfg" for cfg
  by unfold_locales (rule step_cache_true)

text \<open>
  The regime cache is transparent. After any bars and detections, for whatever symbols and clock readings, a detection
  answers exactly what a computation from the last 200 bars of the symbol would, because every new bar drops the cached
  answer.
\<close>

theorem regime_cache_transparent:
  "let d = fold (regime_step cfg) es new_detector in
   fst (detect cfg t0 t1 symbol d) = fresh_regime cfg symbol d \<and> length (bars_of symbol d) \<le> 200"
proof -
  have "cache_true cfg new_detector" by (simp add: cache_true_def new_detector_def bars_of_def)
  then have "cache_true cfg (fold (regime_step cfg) es new_detector)" by (rule regime_runs.run_good)
  then show ?thesis using detect_fresh by (simp add: Let_def cache_true_def)
qed

subsection \<open>Bounds\<close>

lemma neighbours_nonneg: "(\<And>a b. 0 \<le> f a b) \<Longrightarrow> list_all (\<lambda>x. 0 \<le> x) (neighbours f bs :: real list)"
  by (induction f bs rule: neighbours.induct) simp_all

lemma smooth_nonneg: "0 < n \<Longrightarrow> 0 \<le> r \<Longrightarrow> list_all (\<lambda>x. 0 \<le> x) xs \<Longrightarrow> list_all (\<lambda>x. 0 \<le> x) (smooth_from n r xs)"
proof (induction n r xs rule: smooth_from.induct)
  case (2 n r x xs)
  have "r / real n \<le> r" using 2(2,3) by (simp add: divide_le_eq mult_le_cancel_left1)
  then show ?case using 2 by simp
qed simp

lemma smoothed_nonneg:
  assumes "0 < n" and "list_all (\<lambda>x. 0 \<le> x) xs" shows "list_all (\<lambda>x. 0 \<le> x) (smoothed xs n)"
proof -
  have "0 \<le> sum_list (take n xs)" using assms(2) by (intro sum_list_nonneg) (auto simp: list_all_iff dest: in_set_takeD)
  moreover have "list_all (\<lambda>x. 0 \<le> x) (drop n xs)" using assms(2) by (auto simp: list_all_iff dest: in_set_dropD)
  ultimately show ?thesis using smooth_nonneg assms(1) by (simp add: smoothed_def)
qed

lemma dx_bounds:
  assumes "0 \<le> s" "0 \<le> p" "0 \<le> m" and "d \<in> set (dx_of (s, p, m))" shows "0 \<le> d \<and> d \<le> 100"
proof (cases "s = 0 \<or> 100 * p / s + 100 * m / s = 0")
  case False
  define a where "a = 100 * p / s"
  define b where "b = 100 * m / s"
  have ab: "0 \<le> a" "0 \<le> b" "a + b \<noteq> 0" using assms(1-3) False by (simp_all add: a_def b_def)
  then have "\<bar>a - b\<bar> / (a + b) \<le> 1" "0 \<le> \<bar>a - b\<bar> / (a + b)" by (auto simp: divide_le_eq)
  moreover have "d = 100 * (\<bar>a - b\<bar> / (a + b))" using assms(4) False by (simp add: dx_of_def a_def b_def Let_def)
  ultimately show ?thesis by simp
qed (use assms(4) in \<open>auto simp: dx_of_def Let_def split: if_splits\<close>)

lemma average_bounds:
  assumes "xs \<noteq> []" and "\<And>x. x \<in> set xs \<Longrightarrow> a \<le> x \<and> x \<le> b" shows "a \<le> average xs \<and> average xs \<le> b"
proof -
  have "real (length xs) * a \<le> sum_list xs \<and> sum_list xs \<le> real (length xs) * b"
    using assms(2) by (induction xs) (auto simp: algebra_simps add_mono)
  then show ?thesis using assms(1) by (simp add: average_def field_simps)
qed

lemma take_last_ne: "xs \<noteq> [] \<Longrightarrow> 0 < n \<Longrightarrow> take_last n xs \<noteq> []"
  using length_take_last [of n xs] by (metis length_greater_0_conv list.size(3) min_less_iff_conj not_less_iff_gr_or_eq)

lemma adx_bounds:
  assumes "0 < rg_adx_period cfg" shows "0 \<le> calc_adx cfg bars \<and> calc_adx cfg bars \<le> 100"
proof -
  let ?st = "smoothed (neighbours bar_true_range bars) (rg_adx_period cfg)" and ?sp = "smoothed (neighbours plus_move bars) (rg_adx_period cfg)"
    and ?sm = "smoothed (neighbours minus_move bars) (rg_adx_period cfg)"
  have nn: "list_all (\<lambda>x. 0 \<le> x) ?st" "list_all (\<lambda>x. 0 \<le> x) ?sp" "list_all (\<lambda>x. 0 \<le> x) ?sm"
    using assms by (auto intro!: smoothed_nonneg neighbours_nonneg simp: bar_true_range_def plus_move_def minus_move_def Let_def)
  define dx where "dx = concat (map dx_of (zip ?st (zip ?sp ?sm)))"
  have "0 \<le> d \<and> d \<le> 100" if "d \<in> set dx" for d
  proof -
    obtain s p m where t: "(s, p, m) \<in> set (zip ?st (zip ?sp ?sm))" "d \<in> set (dx_of (s, p, m))" using \<open>d \<in> set dx\<close> by (auto simp: dx_def)
    then have "s \<in> set ?st" "p \<in> set ?sp" "m \<in> set ?sm" by (auto dest: set_zip_leftD set_zip_rightD)
    then show ?thesis using nn t(2) dx_bounds [of s p m d] by (simp add: list_all_iff)
  qed
  then have "dx \<noteq> [] \<Longrightarrow> 0 \<le> average (take_last (rg_adx_period cfg) dx) \<and> average (take_last (rg_adx_period cfg) dx) \<le> 100"
    using set_take_last [of "rg_adx_period cfg" dx] take_last_ne assms by (intro average_bounds) auto
  then show ?thesis by (simp add: calc_adx_def Let_def dx_def [symmetric])
qed

lemma capped_confidence: "0 \<le> (a :: real) \<Longrightarrow> 4 / 10 \<le> min 1 (1 / 2 + a) \<and> min 1 (1 / 2 + a) \<le> 1"
  by (simp add: min_def)

lemma classify_bounds: "4 / 10 \<le> snd (classify cfg adx z w) \<and> snd (classify cfg adx z w) \<le> 1"
proof -
  have "rg_vol_high cfg \<le> z \<Longrightarrow> 0 \<le> (z - rg_vol_high cfg) * (2 / 10)"
    "rg_adx_trend cfg \<le> adx \<Longrightarrow> 0 \<le> (adx - rg_adx_trend cfg) / 40"
    "w \<le> rg_bb_ranging cfg \<Longrightarrow> 0 \<le> (rg_bb_ranging cfg - w) * 20"
    "0 \<le> \<bar>z - rg_vol_low cfg\<bar> * (2 / 10)" by simp_all
  note pos = this [THEN capped_confidence]
  show ?thesis
  proof (cases "rg_vol_high cfg \<le> z")
    case True then show ?thesis using pos(1) by (simp add: classify_def)
  next
    case 1: False
    show ?thesis
    proof (cases "rg_adx_trend cfg \<le> adx")
      case True then show ?thesis using 1 pos(2) by (simp add: classify_def)
    next
      case 2: False
      show ?thesis
      proof (cases "w \<le> rg_bb_ranging cfg")
        case True then show ?thesis using 1 2 pos(3) by (simp add: classify_def)
      next
        case False then show ?thesis using 1 2 pos(4) by (cases "z \<le> rg_vol_low cfg") (simp_all add: classify_def)
      qed
    qed
  qed
qed

text \<open>No market is ever found to be trending down: the direction of a trend is not looked at.\<close>

lemma never_trending_down: "re_regime (fresh_regime cfg symbol d) \<noteq> TrendingDown"
  by (auto simp: fresh_regime_def compute_regime_def unknown_regime_def classify_def Let_def)

lemma fresh_bounds:
  assumes "0 < rg_adx_period cfg"
  shows "0 \<le> re_adx (fresh_regime cfg symbol d) \<and> re_adx (fresh_regime cfg symbol d) \<le> 100
    \<and> 0 \<le> re_confidence (fresh_regime cfg symbol d) \<and> re_confidence (fresh_regime cfg symbol d) \<le> 1"
proof (cases "length (bars_of symbol d) < rg_min_bars cfg")
  case False
  obtain r c where c: "classify cfg (calc_adx cfg (bars_of symbol d)) (calc_atr_zscore (bars_of symbol d))
      (if pb_close (last (bars_of symbol d)) > 0 then calc_bb_width cfg (map pb_close (bars_of symbol d)) / pb_close (last (bars_of symbol d)) else 0) = (r, c)"
    by (metis surj_pair)
  have "4 / 10 \<le> c" "c \<le> 1" using classify_bounds c by (metis snd_conv)+
  then show ?thesis using False adx_bounds [OF assms] by (simp add: fresh_regime_def compute_regime_def c Let_def)
qed (simp add: fresh_regime_def unknown_regime_def)

subsection \<open>Repainting\<close>

datatype repaint_risk = CleanSignal | SuspiciousSignal | ConfirmedRepaint | UnknownRepaint

record feature_snapshot =
  fe_name :: string
  fe_value :: real
  fe_ts :: time
  fe_bar :: int

record signal_record =
  si_id :: string
  si_at :: time
  si_bar_close :: time
  si_bar :: int
  si_features :: "feature_snapshot list"
  si_hash :: string

record repaint_validator =
  rv_delay :: real
  rv_tolerance :: real
  rv_history :: "(string, signal_record) odict"
  rv_replays :: "(string, (string, real) odict list) odict"

definition new_validator :: repaint_validator where
  "new_validator = \<lparr>rv_delay = 1, rv_tolerance = 1 / 2, rv_history = [], rv_replays = []\<rparr>"

text \<open>
  The digest is SHA-256 of the sorted JSON text of a dictionary: a function \<open>digest\<close> of its contents. The dictionary of a
  list of snapshots is built from the list sorted by name, later values overwriting earlier ones.
\<close>

type_synonym digest = "(string \<Rightarrow> real option) \<Rightarrow> string"

definition snapshot_dict :: "feature_snapshot list \<Rightarrow> string \<Rightarrow> real option" where
  "snapshot_dict fs = fold (\<lambda>f m. m(fe_name f \<mapsto> fe_value f)) fs Map.empty"

definition capture :: "digest \<Rightarrow> time \<Rightarrow> string \<Rightarrow> time \<Rightarrow> int \<Rightarrow> feature_snapshot list \<Rightarrow> repaint_validator \<Rightarrow> signal_record \<times> repaint_validator" where
  "capture h now sid bar_close bar fs v =
     (let r = \<lparr>si_id = sid, si_at = now, si_bar_close = bar_close, si_bar = bar, si_features = fs, si_hash = h (snapshot_dict fs)\<rparr> in
      (r, v\<lparr>rv_history := od_put sid r (rv_history v)\<rparr>))"

definition replays_of :: "string \<Rightarrow> repaint_validator \<Rightarrow> (string, real) odict list" where
  "replays_of sid v = (case od_get (rv_replays v) sid of None \<Rightarrow> [] | Some rs \<Rightarrow> rs)"

definition register_replay :: "string \<Rightarrow> (string, real) odict \<Rightarrow> repaint_validator \<Rightarrow> repaint_validator" where
  "register_replay sid fs v = v\<lparr>rv_replays := od_put sid (replays_of sid v @ [fs]) (rv_replays v)\<rparr>"

datatype repaint_issue = Lookahead real | TooSoon real | FutureData "string list" | IndexViolation "string list" | InputsChanged

fun repaint_confidence :: "repaint_risk \<Rightarrow> real" where
  "repaint_confidence CleanSignal = 1"
| "repaint_confidence SuspiciousSignal = 5 / 10"
| "repaint_confidence ConfirmedRepaint = 95 / 100"
| "repaint_confidence UnknownRepaint = 1 / 10"

definition validate_signal :: "digest \<Rightarrow> signal_record \<Rightarrow> repaint_validator \<Rightarrow> repaint_risk \<times> real \<times> repaint_issue list" where
  "validate_signal h r v =
     (let lag = si_at r - si_bar_close r;
          (risk1, i1) = (if lag < - rv_tolerance v then (ConfirmedRepaint, [Lookahead (- lag)])
                         else if lag < rv_delay v then (SuspiciousSignal, [TooSoon lag]) else (CleanSignal, []));
          future = filter (\<lambda>f. fe_ts f > si_bar_close r + rv_tolerance v) (si_features r);
          (risk2, i2) = (if future \<noteq> [] then (ConfirmedRepaint, i1 @ [FutureData (map fe_name future)]) else (risk1, i1));
          wrong = filter (\<lambda>f. fe_bar f > si_bar r) (si_features r);
          (risk3, i3) = (if wrong \<noteq> [] then (ConfirmedRepaint, i2 @ [IndexViolation (map fe_name wrong)]) else (risk2, i2));
          changed = filter (\<lambda>fs. h (od_get fs) \<noteq> si_hash r) (replays_of (si_id r) v);
          (risk4, i4) = (if changed \<noteq> [] then (ConfirmedRepaint, i3 @ map (\<lambda>_. InputsChanged) changed) else (risk3, i3)) in
      (risk4, repaint_confidence risk4, i4))"

text \<open>
  A signal passes as clean exactly when nothing in it comes too late or too early: it was generated at least the
  confirmation delay after its bar closed, none of its features is younger than the close of the bar (with the tolerance)
  or of a later bar, and every registered replay has the same inputs; it is suspicious exactly when only the delay was
  too short, and confirmed to repaint in every other case.
\<close>

theorem clean_signals_are_causal:
  assumes "0 \<le> rv_delay v" and "0 \<le> rv_tolerance v"
  shows "let risk = fst (validate_signal h r v); lag = si_at r - si_bar_close r;
     causal = (list_all (\<lambda>f. fe_ts f \<le> si_bar_close r + rv_tolerance v \<and> fe_bar f \<le> si_bar r) (si_features r)
        \<and> list_all (\<lambda>fs. h (od_get fs) = si_hash r) (replays_of (si_id r) v)) in
   (risk = CleanSignal) = (rv_delay v \<le> lag \<and> causal) \<and> (risk = SuspiciousSignal) = (lag < rv_delay v \<and> - rv_tolerance v \<le> lag \<and> causal)
   \<and> (risk = ConfirmedRepaint) = (lag < - rv_tolerance v \<or> \<not> causal)"
proof -
  have f: "filter (\<lambda>f. fe_ts f > x) fs = [] \<longleftrightarrow> list_all (\<lambda>f. fe_ts f \<le> x) fs" "filter (\<lambda>f. fe_bar f > n) fs = [] \<longleftrightarrow> list_all (\<lambda>f. fe_bar f \<le> n) fs"
    "filter (\<lambda>fs. h (od_get fs) \<noteq> y) gs = [] \<longleftrightarrow> list_all (\<lambda>fs. h (od_get fs) = y) gs" for x n fs gs y
    by (auto simp: filter_empty_conv list_all_iff not_less)
  have c: "list_all (\<lambda>f. fe_ts f \<le> x \<and> fe_bar f \<le> n) fs \<longleftrightarrow> list_all (\<lambda>f. fe_ts f \<le> x) fs \<and> list_all (\<lambda>f. fe_bar f \<le> n) fs" for x n fs
    by (auto simp: list_all_iff)
  show ?thesis using assms unfolding validate_signal_def Let_def c f [symmetric] by (auto split: if_splits)
qed

theorem clean_signals_are_causal_witness:
  "let r = \<lparr>si_id = ''s'', si_at = 1002, si_bar_close = 1000, si_bar = 7, si_features = [], si_hash = ''h''\<rparr>;
     risk = fst (validate_signal (\<lambda>m. ''h'') r new_validator); lag = si_at r - si_bar_close r;
     causal = (list_all (\<lambda>f. fe_ts f \<le> si_bar_close r + rv_tolerance new_validator \<and> fe_bar f \<le> si_bar r) (si_features r)
        \<and> list_all (\<lambda>fs. (\<lambda>m. ''h'') (od_get fs) = si_hash r) (replays_of (si_id r) new_validator)) in
   (risk = CleanSignal) = (rv_delay new_validator \<le> lag \<and> causal)
   \<and> (risk = SuspiciousSignal) = (lag < rv_delay new_validator \<and> - rv_tolerance new_validator \<le> lag \<and> causal)
   \<and> (risk = ConfirmedRepaint) = (lag < - rv_tolerance new_validator \<or> \<not> causal)"
  using clean_signals_are_causal [of new_validator "\<lambda>m. ''h''" "\<lparr>si_id = ''s'', si_at = 1002, si_bar_close = 1000, si_bar = 7, si_features = [], si_hash = ''h''\<rparr>"]
  unfolding Let_def by (simp add: new_validator_def)

end
