(* ===== verification/Lru_Cache.thy ===== *)
theory Lru_Cache
  imports Json
begin

section \<open>The caches\<close>

text \<open>
  \<open>src/backend/core/cache.py\<close>: the in-process LRU cache, the wrapper of Redis and the two-level cache built from
  both; and the decision cache of \<open>src/backend/services/decision_service.py\<close>, which evicts in the same way. Cached
  values are of the JSON type with \<open>None\<close> as \<open>JNull\<close>. The Redis client is a record of its four commands over a state
  of its own, the two serialisers are functions that may raise, and clock readings are arguments.
\<close>

subsection \<open>Recency order\<close>

text \<open>\<open>move_to_end\<close>, and the loop that deletes the oldest item while the dictionary is too long.\<close>

definition to_end :: "'k \<Rightarrow> ('k, 'v) odict \<Rightarrow> ('k, 'v) odict" where
  "to_end k d = (case od_get d k of None \<Rightarrow> d | Some v \<Rightarrow> od_del k d @ [(k, v)])"

fun evict_oldest :: "nat \<Rightarrow> ('k, 'v) odict \<Rightarrow> ('k, 'v) odict" where
  "evict_oldest n [] = []"
| "evict_oldest n (p # d) = (if n < length (p # d) then evict_oldest n d else p # d)"

definition store_newest :: "nat \<Rightarrow> 'k \<Rightarrow> 'v \<Rightarrow> ('k, 'v) odict \<Rightarrow> ('k, 'v) odict" where
  "store_newest n k v d = evict_oldest n (od_put k v (to_end k d))"

lemma evict_oldest_take_last: "evict_oldest n d = take_last n d"
  by (induction d) (auto simp: take_last_def Suc_diff_le)

lemma put_to_end: "od_wf d \<Longrightarrow> od_put k v (to_end k d) = od_del k d @ [(k, v)]"
proof (cases "od_get d k")
  case None
  then have "k \<notin> fst ` set d" by (simp add: od_get_None_iff)
  with None show ?thesis by (simp add: to_end_def od_put_new od_del_notin)
next
  case (Some x)
  have "od_put k v (e @ [(k, x)]) = e @ [(k, v)]" if "k \<notin> fst ` set e" for e :: "('a, 'b) odict"
    using that by (induction e) auto
  with Some show ?thesis by (simp add: to_end_def)
qed

lemma store_newest_eq: "od_wf d \<Longrightarrow> store_newest n k v d = take_last n (od_del k d @ [(k, v)])"
  by (simp add: store_newest_def evict_oldest_take_last put_to_end)

lemma od_wf_snoc [simp]: "od_wf (d @ [(k, v)]) \<longleftrightarrow> od_wf d \<and> k \<notin> fst ` set d"
  by (auto simp: od_wf_def)

lemma to_end_wf: "od_wf d \<Longrightarrow> od_wf (to_end k d)"
  by (simp add: to_end_def split: option.split)

lemma od_get_append: "od_get (d @ e) k = (case od_get d k of Some v \<Rightarrow> Some v | None \<Rightarrow> od_get e k)"
  by (induction d) auto

lemma od_get_to_end [simp]: "od_wf d \<Longrightarrow> od_get (to_end k d) k' = od_get d k'"
  by (auto simp: to_end_def od_get_append split: option.split)

lemma length_to_end [simp]: "od_wf d \<Longrightarrow> length (to_end k d) = length d"
  using length_od_del [of d k] by (auto simp: to_end_def od_get_None_iff dest: od_get_Some_dom split: option.split)

lemma od_get_take_last: "od_wf d \<Longrightarrow> od_get (take_last n d) k \<in> {None, od_get d k}"
proof (cases "od_get (take_last n d) k")
  case (Some v)
  assume "od_wf d"
  from Some have "(k, v) \<in> set (take_last n d)" by (rule od_get_SomeD)
  then have "(k, v) \<in> set d" using set_take_last by fastforce
  with \<open>od_wf d\<close> Some show ?thesis by (simp add: od_get_in)
qed simp

lemma store_newest_wf: "od_wf d \<Longrightarrow> od_wf (store_newest n k v d) \<and> length (store_newest n k v d) \<le> n"
  by (simp add: store_newest_eq od_wf_take_last)

lemma store_newest_get:
  "od_wf d \<Longrightarrow> od_get (store_newest n k v d) k' \<in> {None, if k' = k then Some v else od_get d k'}"
  using od_get_take_last [of "od_del k d @ [(k, v)]" n k'] by (auto simp: store_newest_eq od_get_append split: option.splits)

subsection \<open>The LRU cache\<close>

record lru_cache =
  lc_store :: "(string, json \<times> time) odict"
  lc_max :: nat
  lc_ttl :: real

definition new_lru :: "nat \<Rightarrow> real \<Rightarrow> lru_cache" where
  "new_lru max_size default_ttl = \<lparr>lc_store = [], lc_max = max_size, lc_ttl = default_ttl\<rparr>"

definition lru_get :: "time \<Rightarrow> string \<Rightarrow> lru_cache \<Rightarrow> json \<times> lru_cache" where
  "lru_get now key c =
     (case od_get (lc_store c) key of
        None \<Rightarrow> (JNull, c)
      | Some (v, expiry) \<Rightarrow>
          if expiry \<noteq> 0 \<and> now > expiry then (JNull, c\<lparr>lc_store := od_del key (lc_store c)\<rparr>)
          else (v, c\<lparr>lc_store := to_end key (lc_store c)\<rparr>))"

definition lru_set :: "time \<Rightarrow> string \<Rightarrow> json \<Rightarrow> real option \<Rightarrow> lru_cache \<Rightarrow> lru_cache" where
  "lru_set now key v ttl c =
     (let effective = (case ttl of Some t \<Rightarrow> t | None \<Rightarrow> lc_ttl c);
          expiry = (if effective \<noteq> 0 then now + effective else 0) in
      c\<lparr>lc_store := store_newest (lc_max c) key (v, expiry) (lc_store c)\<rparr>)"

definition lru_delete :: "string \<Rightarrow> lru_cache \<Rightarrow> bool \<times> lru_cache" where
  "lru_delete key c =
     (case od_get (lc_store c) key of Some x \<Rightarrow> (True, c\<lparr>lc_store := od_del key (lc_store c)\<rparr>) | None \<Rightarrow> (False, c))"

definition lru_clear :: "lru_cache \<Rightarrow> nat \<times> lru_cache" where
  "lru_clear c = (length (lc_store c), c\<lparr>lc_store := []\<rparr>)"

definition lru_size :: "lru_cache \<Rightarrow> nat" where
  "lru_size c = length (lc_store c)"

subsection \<open>Redis\<close>

record 'r redis =
  rd_get :: "string \<Rightarrow> 'r \<Rightarrow> exc + string option"
  rd_setex :: "string \<Rightarrow> int \<Rightarrow> string \<Rightarrow> 'r \<Rightarrow> (unit, 'r) outcome"
  rd_set :: "string \<Rightarrow> string \<Rightarrow> 'r \<Rightarrow> (unit, 'r) outcome"
  rd_delete :: "string \<Rightarrow> 'r \<Rightarrow> (int, 'r) outcome"

text \<open>msgpack and json: what either may raise, the import of msgpack included.\<close>

record cache_codec =
  cd_packb :: "json \<Rightarrow> exc + string"
  cd_unpackb :: "string \<Rightarrow> exc + json"
  cd_dumps :: "json \<Rightarrow> exc + string"
  cd_loads :: "string \<Rightarrow> exc + json"

definition serialise :: "cache_codec \<Rightarrow> json \<Rightarrow> exc + string" where
  "serialise cd v = (case cd_packb cd v of Inr b \<Rightarrow> Inr b | Inl e \<Rightarrow> cd_dumps cd v)"

definition deserialise :: "cache_codec \<Rightarrow> string \<Rightarrow> exc + json" where
  "deserialise cd b = (case cd_unpackb cd b of Inr v \<Rightarrow> Inr v | Inl e \<Rightarrow> cd_loads cd b)"

definition rc_get :: "cache_codec \<Rightarrow> 'r redis \<Rightarrow> string \<Rightarrow> 'r \<Rightarrow> json" where
  "rc_get cd rd key r =
     (case rd_get rd key r of
        Inl e \<Rightarrow> JNull
      | Inr None \<Rightarrow> JNull
      | Inr (Some raw) \<Rightarrow> (case deserialise cd raw of Inl e \<Rightarrow> JNull | Inr v \<Rightarrow> v))"

definition rc_set :: "cache_codec \<Rightarrow> 'r redis \<Rightarrow> string \<Rightarrow> json \<Rightarrow> int option \<Rightarrow> 'r \<Rightarrow> 'r" where
  "rc_set cd rd key v ttl r =
     (case serialise cd v of
        Inl e \<Rightarrow> r
      | Inr data \<Rightarrow> (case ttl of
            Some t \<Rightarrow> if t \<noteq> 0 then snd (rd_setex rd key t data r) else snd (rd_set rd key data r)
          | None \<Rightarrow> snd (rd_set rd key data r)))"

definition rc_delete :: "'r redis \<Rightarrow> string \<Rightarrow> 'r \<Rightarrow> bool \<times> 'r" where
  "rc_delete rd key r = (case rd_delete rd key r of (Inl e, r') \<Rightarrow> (False, r') | (Inr n, r') \<Rightarrow> (n \<noteq> 0, r'))"

subsection \<open>The two-level cache\<close>

record 'r two_level =
  tl_ns :: string
  tl_l1 :: lru_cache
  tl_l2 :: "'r redis option"
  tl_r :: 'r

definition new_two_level :: "string \<Rightarrow> nat \<Rightarrow> real \<Rightarrow> 'r redis option \<Rightarrow> 'r \<Rightarrow> 'r two_level" where
  "new_two_level ns l1_size l1_ttl redis r = \<lparr>tl_ns = ns, tl_l1 = new_lru l1_size l1_ttl, tl_l2 = redis, tl_r = r\<rparr>"

definition tl_key :: "'r two_level \<Rightarrow> string \<Rightarrow> string" where
  "tl_key c key = tl_ns c @ '':'' @ key"

definition tl_get :: "cache_codec \<Rightarrow> time \<Rightarrow> string \<Rightarrow> 'r two_level \<Rightarrow> json \<times> 'r two_level" where
  "tl_get cd now key c =
     (let k = tl_key c key; (v, l1) = lru_get now k (tl_l1 c); c1 = c\<lparr>tl_l1 := l1\<rparr> in
      if v \<noteq> JNull then (v, c1)
      else (case tl_l2 c of
          None \<Rightarrow> (JNull, c1)
        | Some rd \<Rightarrow> (let w = rc_get cd rd k (tl_r c) in
            if w \<noteq> JNull then (w, c1\<lparr>tl_l1 := lru_set now k w None l1\<rparr>) else (JNull, c1))))"

definition tl_set :: "cache_codec \<Rightarrow> time \<Rightarrow> string \<Rightarrow> json \<Rightarrow> real option \<Rightarrow> int option \<Rightarrow> 'r two_level \<Rightarrow> 'r two_level" where
  "tl_set cd now key v l1_ttl l2_ttl c =
     (let k = tl_key c key; c1 = c\<lparr>tl_l1 := lru_set now k v l1_ttl (tl_l1 c)\<rparr> in
      case tl_l2 c of None \<Rightarrow> c1 | Some rd \<Rightarrow> c1\<lparr>tl_r := rc_set cd rd k v l2_ttl (tl_r c)\<rparr>)"

definition tl_delete :: "string \<Rightarrow> 'r two_level \<Rightarrow> 'r two_level" where
  "tl_delete key c =
     (let k = tl_key c key; c1 = c\<lparr>tl_l1 := snd (lru_delete k (tl_l1 c))\<rparr> in
      case tl_l2 c of None \<Rightarrow> c1 | Some rd \<Rightarrow> c1\<lparr>tl_r := snd (rc_delete rd k (tl_r c))\<rparr>)"

subsection \<open>The decision cache\<close>

record decision_cache =
  dc_cache :: "(string, (string \<times> json) list \<times> time) odict"
  dc_max :: nat

definition decision_cache_ttl :: real where "decision_cache_ttl = 60"

definition new_decision_cache :: decision_cache where
  "new_decision_cache = \<lparr>dc_cache = [], dc_max = 256\<rparr>"

definition decision_key :: "string \<Rightarrow> string \<Rightarrow> string \<Rightarrow> string" where
  "decision_key user symbol direction = user @ '':'' @ symbol @ '':'' @ direction"

definition decision_cache_get :: "time \<Rightarrow> string \<Rightarrow> decision_cache \<Rightarrow> (string \<times> json) list option \<times> decision_cache" where
  "decision_cache_get now key c =
     (case od_get (dc_cache c) key of
        None \<Rightarrow> (None, c)
      | Some (entry, cached_at) \<Rightarrow>
          if now - cached_at > decision_cache_ttl then (None, c\<lparr>dc_cache := od_del key (dc_cache c)\<rparr>)
          else (Some entry, c\<lparr>dc_cache := to_end key (dc_cache c)\<rparr>))"

definition decision_cache_set :: "time \<Rightarrow> string \<Rightarrow> (string \<times> json) list \<Rightarrow> decision_cache \<Rightarrow> decision_cache" where
  "decision_cache_set now key entry c = c\<lparr>dc_cache := store_newest (dc_max c) key (entry, now) (dc_cache c)\<rparr>"

definition keys_to_remove :: "string \<Rightarrow> string option \<Rightarrow> decision_cache \<Rightarrow> string list" where
  "keys_to_remove user symbol c =
     filter (\<lambda>k. has_prefix (user @ '':'') k \<and> (case symbol of None \<Rightarrow> True | Some s \<Rightarrow> contains ('':'' @ s @ '':'') k)) (od_keys (dc_cache c))"

definition invalidate_cache :: "string \<Rightarrow> string option \<Rightarrow> decision_cache \<Rightarrow> nat \<times> decision_cache" where
  "invalidate_cache user symbol c =
     (let ks = keys_to_remove user symbol c in (length ks, c\<lparr>dc_cache := fold od_del ks (dc_cache c)\<rparr>))"

subsection \<open>The cache is a partial view of an unbounded map\<close>

datatype lru_op = Lru_Get time string | Lru_Set time string json "real option" | Lru_Delete string | Lru_Clear

fun lru_step :: "lru_op \<Rightarrow> lru_cache \<Rightarrow> lru_cache" where
  "lru_step (Lru_Get now k) c = snd (lru_get now k c)"
| "lru_step (Lru_Set now k v ttl) c = lru_set now k v ttl c"
| "lru_step (Lru_Delete k) c = snd (lru_delete k c)"
| "lru_step Lru_Clear c = snd (lru_clear c)"

text \<open>The specification: a map without bound in which a get changes nothing.\<close>

definition expiry_of :: "real \<Rightarrow> time \<Rightarrow> real option \<Rightarrow> time" where
  "expiry_of std now ttl = (let t = (case ttl of Some t \<Rightarrow> t | None \<Rightarrow> std) in if t \<noteq> 0 then now + t else 0)"

fun map_step :: "real \<Rightarrow> lru_op \<Rightarrow> (string \<Rightarrow> (json \<times> time) option) \<Rightarrow> string \<Rightarrow> (json \<times> time) option" where
  "map_step d (Lru_Get now k) m = m"
| "map_step d (Lru_Set now k v ttl) m = m(k \<mapsto> (v, expiry_of d now ttl))"
| "map_step d (Lru_Delete k) m = m(k := None)"
| "map_step d Lru_Clear m = (\<lambda>_. None)"

definition lru_wf :: "lru_cache \<Rightarrow> bool" where
  "lru_wf c \<longleftrightarrow> od_wf (lc_store c) \<and> length (lc_store c) \<le> lc_max c"

definition lru_view :: "(string \<Rightarrow> (json \<times> time) option) \<Rightarrow> lru_cache \<Rightarrow> bool" where
  "lru_view m c \<longleftrightarrow> (\<forall>k. od_get (lc_store c) k \<in> {None, m k})"

lemma lru_step_keeps_bounds: "lc_max (lru_step e c) = lc_max c \<and> lc_ttl (lru_step e c) = lc_ttl c"
  by (cases e) (auto simp: lru_get_def lru_set_def lru_delete_def lru_clear_def Let_def split: option.split prod.split)

lemma lru_step_wf: "lru_wf c \<Longrightarrow> lru_wf (lru_step e c)"
  using length_od_del_le [of _ "lc_store c"]
  by (cases e) (auto simp: lru_wf_def lru_get_def lru_set_def lru_delete_def lru_clear_def Let_def to_end_wf store_newest_wf
      intro: order_trans split: option.split prod.split)

lemma lru_set_view:
  assumes "lru_wf c" and "lru_view m c"
  shows "lru_view (m(k \<mapsto> (v, expiry_of (lc_ttl c) now ttl))) (lru_set now k v ttl c)"
proof -
  have "od_get (store_newest (lc_max c) k x (lc_store c)) k' \<in> {None, if k' = k then Some x else od_get (lc_store c) k'}" for k' x
    using assms(1) by (intro store_newest_get) (simp add: lru_wf_def)
  note stored = this
  show ?thesis unfolding lru_view_def
  proof
    fix k'
    have "od_get (lc_store c) k' \<in> {None, m k'}" using assms(2) by (simp add: lru_view_def)
    then show "od_get (lc_store (lru_set now k v ttl c)) k' \<in> {None, (m(k \<mapsto> (v, expiry_of (lc_ttl c) now ttl))) k'}"
      using stored [of "(v, expiry_of (lc_ttl c) now ttl)" k'] by (auto simp: lru_set_def expiry_of_def Let_def split: if_splits)
  qed
qed

lemma lru_step_view:
  assumes wf: "lru_wf c" and v: "lru_view m c"
  shows "lru_view (map_step (lc_ttl c) e m) (lru_step e c)"
proof (cases e)
  case (Lru_Set now k v ttl)
  then show ?thesis using lru_set_view [OF wf v] by simp
qed (use wf v in \<open>auto simp: lru_view_def lru_wf_def lru_get_def lru_delete_def lru_clear_def split: option.split prod.split\<close>)

lemma lru_runs_view:
  "lru_wf c \<Longrightarrow> lru_view m c \<Longrightarrow> lru_view (fold (map_step (lc_ttl c)) es m) (fold lru_step es c)"
proof (induction es arbitrary: c m)
  case (Cons e es)
  then show ?case using Cons.IH [OF lru_step_wf lru_step_view] by (simp add: lru_step_keeps_bounds)
qed simp

lemma lru_get_serves:
  assumes "od_get (lc_store c) k \<in> {None, M}"
  shows "fst (lru_get now k c) = JNull \<or> (\<exists>expiry. M = Some (fst (lru_get now k c), expiry) \<and> (expiry = 0 \<or> now \<le> expiry))"
proof (cases "od_get (lc_store c) k")
  case (Some y)
  obtain v expiry where "y = (v, expiry)" by fastforce
  with Some have g: "od_get (lc_store c) k = Some (v, expiry)" by simp
  with assms have "M = Some (v, expiry)" by auto
  with g show ?thesis by (simp add: lru_get_def not_less)
qed (simp add: lru_get_def)

interpretation lru_runs: guarded_state lru_step lru_wf
  by unfold_locales (rule lru_step_wf)

lemma new_lru_wf [simp]: "lru_wf (new_lru n ttl)"
  by (simp add: lru_wf_def new_lru_def)

lemma lru_runs_max: "lc_max (fold lru_step es c) = lc_max c"
  by (induction es arbitrary: c) (simp_all add: lru_step_keeps_bounds)

text \<open>C37: Whatever calls came before, the LRU cache is well formed: its keys are distinct and there are at most
  \<open>max_size\<close> of them, in the order of their last use.\<close>

theorem lru_cache_is_well_formed:
  "let c = fold lru_step es (new_lru n ttl) in
   distinct (od_keys (lc_store c)) \<and> lru_size c \<le> n \<and> lc_max c = n"
  using lru_runs.run_good [OF new_lru_wf [of n ttl], of es] lru_runs_max [of es "new_lru n ttl"]
  by (simp add: Let_def lru_wf_def od_wf_def lru_size_def new_lru_def)

text \<open>C38: A get never answers anything but the value last set under the key: with the unbounded map as the specification,
  in which entries are replaced by set and removed by delete and clear, it answers either \<open>None\<close> or the entry of the map, and
  the entry only while it is not expired.\<close>

theorem lru_refines_map:
  "let c = fold lru_step es (new_lru n ttl); m = fold (map_step ttl) es (\<lambda>_. None); v = fst (lru_get now k c) in
   v = JNull \<or> (\<exists>expiry. m k = Some (v, expiry) \<and> (expiry = 0 \<or> now \<le> expiry))"
proof -
  have "lru_view (\<lambda>_. None) (new_lru n ttl)" by (simp add: lru_view_def new_lru_def)
  then have "lru_view (fold (map_step ttl) es (\<lambda>_. None)) (fold lru_step es (new_lru n ttl))"
    using lru_runs_view [OF new_lru_wf, of "\<lambda>_. None" n ttl es] by (simp add: new_lru_def)
  then have "od_get (lc_store (fold lru_step es (new_lru n ttl))) k \<in> {None, fold (map_step ttl) es (\<lambda>_. None) k}"
    by (simp add: lru_view_def)
  then show ?thesis unfolding Let_def by (rule lru_get_serves)
qed

subsection \<open>What stays in the cache\<close>

definition followed_by :: "string \<Rightarrow> 'v \<Rightarrow> string set \<Rightarrow> (string, 'v) odict \<Rightarrow> bool" where
  "followed_by k x T d \<longleftrightarrow> od_wf d \<and> (\<exists>a b. d = a @ (k, x) # b \<and> fst ` set b \<subseteq> T)"

lemma followed_by_mono: "followed_by k x T d \<Longrightarrow> T \<subseteq> T' \<Longrightarrow> followed_by k x T' d"
  unfolding followed_by_def by blast

lemma od_del_append [simp]: "od_del k (d @ e) = od_del k d @ od_del k e"
  by (simp add: od_del_def)

lemma followed_by_del:
  assumes "followed_by k x T d" and "k' \<noteq> k" shows "followed_by k x T (od_del k' d)"
proof -
  obtain a b where d: "d = a @ (k, x) # b" "fst ` set b \<subseteq> T" "od_wf d" using assms(1) by (auto simp: followed_by_def)
  then have "od_del k' d = od_del k' a @ (k, x) # od_del k' b" using assms(2) by simp
  moreover have "fst ` set (od_del k' b) \<subseteq> T" using d(2) by auto
  moreover have "od_wf (od_del k' d)" using d(3) by simp
  ultimately show ?thesis unfolding followed_by_def by blast
qed

lemma followed_by_snoc:
  assumes "followed_by k x T d" and "k' \<notin> fst ` set d" shows "followed_by k x (insert k' T) (d @ [(k', w)])"
proof -
  obtain a b where d: "d = a @ (k, x) # b" "fst ` set b \<subseteq> T" "od_wf d" using assms(1) by (auto simp: followed_by_def)
  then have "d @ [(k', w)] = a @ (k, x) # (b @ [(k', w)])" "fst ` set (b @ [(k', w)]) \<subseteq> insert k' T" "od_wf (d @ [(k', w)])"
    using assms(2) d(2,3) by (simp_all add: d(1)) (auto simp: od_wf_def)
  then show ?thesis unfolding followed_by_def by blast
qed

lemma followed_by_get: "followed_by k x T d \<Longrightarrow> od_get d k = Some x"
  by (auto simp: followed_by_def od_get_append od_wf_def split: option.split dest: od_get_Some_dom)

lemma followed_by_last: "od_wf d \<Longrightarrow> k \<notin> fst ` set d \<Longrightarrow> followed_by k x {} (d @ [(k, x)])"
  unfolding followed_by_def by auto

lemma followed_by_to_end: "followed_by k x T d \<Longrightarrow> followed_by k x (insert k' T) (to_end k' d)"
proof (cases "k' = k")
  case True
  assume f: "followed_by k x T d"
  then have "od_wf d" by (simp add: followed_by_def)
  then have "followed_by k x {} (od_del k d @ [(k, x)])" by (intro followed_by_last) auto
  with True followed_by_get [OF f] show ?thesis by (auto simp: to_end_def intro: followed_by_mono)
next
  case False
  assume f: "followed_by k x T d"
  show ?thesis
  proof (cases "od_get d k'")
    case None
    with f show ?thesis by (auto simp: to_end_def intro: followed_by_mono)
  next
    case (Some w)
    with followed_by_snoc [OF followed_by_del [OF f False], of k' w] show ?thesis by (simp add: to_end_def)
  qed
qed

lemma take_last_split: "length b < n \<Longrightarrow> take_last n (a @ y # b) = take_last (n - Suc (length b)) a @ y # b"
proof -
  assume "length b < n"
  then have "length (a @ y # b) - n = length a - (n - Suc (length b))" "length (a @ y # b) - n - length a = 0" by simp_all
  then show ?thesis unfolding take_last_def drop_append by (metis drop0)
qed

lemma followed_by_take_last:
  assumes f: "followed_by k x T d" and "finite T" and "card T < n"
  shows "followed_by k x T (take_last n d)"
proof -
  obtain a b where d: "d = a @ (k, x) # b" "fst ` set b \<subseteq> T" "od_wf d" using f by (auto simp: followed_by_def)
  then have "length b = card (fst ` set b)" using distinct_card [of "od_keys b"] by (simp add: od_wf_def)
  also have "\<dots> \<le> card T" using d(2) assms(2) by (rule card_mono [rotated])
  finally have b: "length b < n" using assms(3) by simp
  have "take_last n d = take_last (n - Suc (length b)) a @ (k, x) # b" unfolding d(1) using b by (rule take_last_split)
  moreover have "od_wf (take_last n d)" using d(3) by (rule od_wf_take_last)
  ultimately show ?thesis unfolding followed_by_def using d(2) by (intro conjI exI) assumption+
qed

lemma followed_by_store:
  assumes f: "followed_by k x T d" and "finite T" and "card (insert k' T) < n" and "k' \<noteq> k"
  shows "followed_by k x (insert k' T) (store_newest n k' w d)"
proof -
  have "od_wf d" using f by (simp add: followed_by_def)
  moreover have "followed_by k x (insert k' T) (od_del k' d @ [(k', w)])"
    using followed_by_snoc [OF followed_by_del [OF f assms(4)], of k' w] by simp
  ultimately show ?thesis using assms(2,3) by (simp add: store_newest_eq followed_by_take_last)
qed

lemma followed_by_new: "od_wf d \<Longrightarrow> 0 < n \<Longrightarrow> followed_by k w {} (store_newest n k w d)"
  using followed_by_take_last [OF followed_by_last [of "od_del k d" k w], of n] by (simp add: store_newest_eq)

fun undisturbed :: "string \<Rightarrow> time \<Rightarrow> lru_op \<Rightarrow> bool" where
  "undisturbed k expiry (Lru_Get now k') = (k' = k \<longrightarrow> expiry = 0 \<or> now \<le> expiry)"
| "undisturbed k expiry (Lru_Set now k' v ttl) = (k' \<noteq> k)"
| "undisturbed k expiry (Lru_Delete k') = (k' \<noteq> k)"
| "undisturbed k expiry Lru_Clear = False"

fun other_keys :: "string \<Rightarrow> lru_op \<Rightarrow> string set" where
  "other_keys k (Lru_Get now k') = {k'} - {k}"
| "other_keys k (Lru_Set now k' v ttl) = {k'} - {k}"
| "other_keys k (Lru_Delete k') = {}"
| "other_keys k Lru_Clear = {}"

lemma followed_by_own: "followed_by k x T d \<Longrightarrow> followed_by k x T (to_end k d)"
proof -
  assume f: "followed_by k x T d"
  then have "followed_by k x {} (od_del k d @ [(k, x)])" by (intro followed_by_last) (auto simp: followed_by_def)
  with followed_by_get [OF f] show ?thesis by (auto simp: to_end_def intro: followed_by_mono)
qed

lemma followed_by_step:
  assumes f: "followed_by k (v, x) T (lc_store c)" and "undisturbed k x e" and fin: "finite T"
    and card: "card (T \<union> other_keys k e) < lc_max c"
  shows "followed_by k (v, x) (T \<union> other_keys k e) (lc_store (lru_step e c))"
proof (cases e)
  case (Lru_Get now k')
  show ?thesis
  proof (cases "k' = k")
    case True
    with Lru_Get assms followed_by_get [OF f] followed_by_own [OF f] show ?thesis by (auto simp: lru_get_def)
  next
    case False
    show ?thesis
    proof (cases "od_get (lc_store c) k'")
      case None
      then show ?thesis using Lru_Get False f by (auto simp: lru_get_def intro: followed_by_mono)
    next
      case (Some y)
      obtain w z where "y = (w, z)" by fastforce
      then show ?thesis using Lru_Get False Some followed_by_to_end [OF f, of k']
          followed_by_mono [OF followed_by_del [OF f False], of "insert k' T"] by (auto simp: lru_get_def)
    qed
  qed
next
  case (Lru_Set now k' w ttl)
  moreover have "k' \<noteq> k" using assms(2) Lru_Set by simp
  ultimately show ?thesis using followed_by_store [OF f fin, of k' "lc_max c"] card by (simp add: lru_set_def Let_def)
next
  case (Lru_Delete k')
  then show ?thesis using assms(2) f followed_by_del [OF f, of k'] by (simp add: lru_delete_def split: option.split)
qed (use assms(2) in simp)

lemma followed_by_run:
  assumes "followed_by k (v, x) T (lc_store c)" and "list_all (undisturbed k x) es" and "finite T"
    and "card (T \<union> \<Union> (other_keys k ` set es)) < lc_max c"
  shows "\<exists>T'. followed_by k (v, x) T' (lc_store (fold lru_step es c))"
  using assms
proof (induction es arbitrary: T c)
  case (Cons e es)
  have fin: "finite (other_keys k e)" for e by (cases e) auto
  have "card (T \<union> other_keys k e) \<le> card (T \<union> \<Union> (other_keys k ` set (e # es)))"
    using Cons.prems(3) fin by (intro card_mono) auto
  then have "followed_by k (v, x) (T \<union> other_keys k e) (lc_store (lru_step e c))"
    using Cons.prems by (intro followed_by_step) auto
  moreover have "card (T \<union> other_keys k e \<union> \<Union> (other_keys k ` set es)) < lc_max (lru_step e c)"
    using Cons.prems(4) by (simp add: lru_step_keeps_bounds Un_assoc)
  ultimately show ?case using Cons.IH [of "T \<union> other_keys k e" "lru_step e c"] Cons.prems fin by simp
qed auto

text \<open>An entry stays as long as it should: after a set, however many calls follow, a get answers the value before it expires
  if nobody deleted or replaced it and fewer than \<open>max_size\<close> other keys were read or written since.\<close>

theorem recently_used_survives:
  assumes "lru_wf c" and "list_all (undisturbed k x) es" and "card (\<Union> (other_keys k ` set es)) < lc_max c"
    and "x = expiry_of (lc_ttl c) t0 ttl" and "x = 0 \<or> now \<le> x"
  shows "fst (lru_get now k (fold lru_step es (lru_set t0 k v ttl c))) = v"
proof -
  have "od_wf (lc_store c)" "0 < lc_max c" using assms(1,3) by (auto simp: lru_wf_def)
  then have "followed_by k (v, x) {} (lc_store (lru_set t0 k v ttl c))"
    using followed_by_new [of "lc_store c" "lc_max c" k "(v, x)"] assms(4) by (simp add: lru_set_def expiry_of_def Let_def)
  then obtain T where "followed_by k (v, x) T (lc_store (fold lru_step es (lru_set t0 k v ttl c)))"
    using followed_by_run [of k v x "{}" "lru_set t0 k v ttl c" es] assms(2,3) by (auto simp: lru_set_def Let_def)
  then have "od_get (lc_store (fold lru_step es (lru_set t0 k v ttl c))) k = Some (v, x)" by (rule followed_by_get)
  then show ?thesis using assms(5) by (auto simp: lru_get_def)
qed

theorem recently_used_survives_witness:
  "fst (lru_get 50 ''a'' (fold lru_step [Lru_Set 1 ''b'' JNull None, Lru_Get 2 ''a'', Lru_Delete ''b''] (lru_set 0 ''a'' (JInt 7) None (new_lru 2 60)))) = JInt 7"
  by (rule recently_used_survives [where x = 60]) (simp_all add: new_lru_wf, simp_all add: new_lru_def expiry_of_def)

subsection \<open>What the second level does to this\<close>

lemma two_level_answers_first_level:
  "fst (lru_get now (tl_key c key) (tl_l1 c)) \<noteq> JNull \<Longrightarrow> fst (tl_get cd now key c) = fst (lru_get now (tl_key c key) (tl_l1 c))"
  by (cases "lru_get now (tl_key c key) (tl_l1 c)") (simp add: tl_get_def Let_def)

text \<open>The errors of Redis are only logged: when a write fails, the value before comes back once the first level has dropped the
  new one, and so does a value whose deletion failed.\<close>

lemma failed_write_brings_back_the_old:
  assumes "tl_l2 c = Some rd" and "\<And>k t b r. snd (rd_setex rd k t b r) = r" and "\<And>k b r. snd (rd_set rd k b r) = r"
    and "rd_get rd (tl_key c key) (tl_r c) = Inr (Some raw)" and "deserialise cd raw = Inr old" and "old \<noteq> JNull"
    and "od_wf (lc_store (tl_l1 c))" and "0 < l1_ttl" and "now + l1_ttl < later" and "0 \<le> now"
  shows "fst (tl_get cd later key (tl_set cd now key v (Some l1_ttl) l2_ttl c)) = old"
proof -
  define d where "d = tl_set cd now key v (Some l1_ttl) l2_ttl c"
  have d: "tl_l2 d = Some rd" "tl_r d = tl_r c" "tl_key d key = tl_key c key" "tl_l1 d = lru_set now (tl_key c key) v (Some l1_ttl) (tl_l1 c)"
    using assms(1-3) by (simp_all add: d_def tl_set_def tl_key_def rc_set_def Let_def split: sum.split option.split)
  have "od_get (lc_store (tl_l1 d)) (tl_key c key) \<in> {None, Some (v, now + l1_ttl)}"
    using store_newest_get [OF assms(7), of "lc_max (tl_l1 c)" "tl_key c key" "(v, now + l1_ttl)" "tl_key c key"] assms(8)
    by (simp add: d(4) lru_set_def Let_def)
  then have "fst (lru_get later (tl_key d key) (tl_l1 d)) = JNull" using assms(8-10) by (auto simp: d(3) lru_get_def)
  then have "fst (tl_get cd later key d) = rc_get cd rd (tl_key d key) (tl_r d)"
    by (auto simp: tl_get_def d(1) Let_def split: prod.split)
  also have "\<dots> = old" using assms(4-5) by (simp add: rc_get_def d(2,3))
  finally show ?thesis by (simp add: d_def)
qed

text \<open>A namespace that ends where the key of another begins shares its entries.\<close>

lemma namespaces_collide: "tl_key \<lparr>tl_ns = ''a'', tl_l1 = l, tl_l2 = r, tl_r = s\<rparr> ''b:k'' = tl_key \<lparr>tl_ns = ''a:b'', tl_l1 = l, tl_l2 = r, tl_r = s\<rparr> ''k''"
  by (simp add: tl_key_def)

lemma decision_keys_collide: "decision_key ''a'' ''b:c'' d = decision_key ''a:b'' ''c'' d"
  by (simp add: decision_key_def)

subsection \<open>The decision cache serves nothing old and nothing dropped\<close>

definition decision_cache_wf :: "decision_cache \<Rightarrow> bool" where
  "decision_cache_wf c \<longleftrightarrow> od_wf (dc_cache c) \<and> length (dc_cache c) \<le> dc_max c"

lemma decision_cache_set_wf: "decision_cache_wf c \<Longrightarrow> decision_cache_wf (decision_cache_set now k e c)"
  by (simp add: decision_cache_wf_def decision_cache_set_def store_newest_wf)

lemma decision_cache_get_wf: "decision_cache_wf c \<Longrightarrow> decision_cache_wf (snd (decision_cache_get now k c))"
  using length_od_del_le [of k "dc_cache c"]
  by (auto simp: decision_cache_wf_def decision_cache_get_def to_end_wf split: option.split prod.split)

lemma invalidated_is_gone:
  "fst (decision_cache_get now (decision_key user symbol direction) (snd (invalidate_cache user None c))) = None"
proof -
  have prefix: "has_prefix p (p @ s)" for p s by (induction p) auto
  have gone: "od_get (fold od_del ks d) k = (if k \<in> set ks then None else od_get d k)" for ks k and d :: "(string, (string \<times> json) list \<times> time) odict"
    by (induction ks arbitrary: d) auto
  let ?k = "decision_key user symbol direction"
  have "od_get (fold od_del (keys_to_remove user None c) (dc_cache c)) ?k = None"
  proof (cases "?k \<in> fst ` set (dc_cache c)")
    case True
    then have "?k \<in> set (keys_to_remove user None c)" using prefix [of "user @ '':''"] by (simp add: keys_to_remove_def decision_key_def)
    then show ?thesis by (simp add: gone)
  next
    case False
    then show ?thesis by (simp add: gone od_get_None_iff)
  qed
  then show ?thesis by (simp add: decision_cache_get_def invalidate_cache_def Let_def)
qed

end
