(* ===== verification/Api_Versioning.thy ===== *)
theory Api_Versioning
  imports Hash_Chain Json
begin

section \<open>API versions\<close>

text \<open>
  \<open>src/backend/core/api_versioning.py\<close>: the version policies and their negotiation, the schemas, the migration of
  response bodies between versions, the chained audit of routed requests, the router and its administration. HMAC-SHA256
  under the audit secret (\<open>vc_hmac\<close>), \<open>json.dumps(..., sort_keys=True)\<close> (\<open>vc_dumps\<close>) and \<open>repr\<close> of a string (\<open>vc_repr\<close>)
  are parameters; handlers are functions of the request that may raise; fresh ids and clock readings are arguments. Router and
  administration share one negotiator and one audit chain, as they do where both are constructed on the same objects. The
  versions of an endpoint are a set in the code; they are listed here in ascending order.
\<close>

subsection \<open>Versions and policies\<close>

datatype api_version = V1 | V2 | V3

definition api_versions :: "api_version list" where "api_versions = [V1, V2, V3]"

fun version_value :: "api_version \<Rightarrow> string" where
  "version_value V1 = ''v1''" | "version_value V2 = ''v2''" | "version_value V3 = ''v3''"

fun version_int :: "api_version \<Rightarrow> nat" where
  "version_int V1 = 1" | "version_int V2 = 2" | "version_int V3 = 3"

definition version_of :: "string \<Rightarrow> api_version option" where
  "version_of s = find (\<lambda>v. version_value v = py_lower (py_strip s)) api_versions"

datatype version_status = ActiveVersion | DeprecatedVersion | SunsetVersion | ExperimentalVersion

datatype compat_level = FullCompat | PartialCompat | BreakingCompat

datatype deprecation_severity = InfoSeverity | WarningSeverity | CriticalSeverity

fun notice_severity :: "deprecation_severity \<Rightarrow> string" where
  "notice_severity InfoSeverity = ''info''" | "notice_severity WarningSeverity = ''warning''" | "notice_severity CriticalSeverity = ''critical''"

text \<open>The errors of a negotiation or an administrative call.\<close>

datatype version_error =
    SunsetError api_version string | MismatchError string "string list" | MissingReasonError | BreakingChangeError "string list"

record version_policy =
  vp_version :: api_version
  vp_status :: version_status
  vp_released :: string
  vp_deprecated :: "string option"
  vp_sunset :: "string option"
  vp_reason :: "string option"
  vp_severity :: deprecation_severity
  vp_successor :: "api_version option"

definition plain_policy :: "api_version \<Rightarrow> version_status \<Rightarrow> string \<Rightarrow> version_policy" where
  "plain_policy v st released = \<lparr>vp_version = v, vp_status = st, vp_released = released, vp_deprecated = None, vp_sunset = None,
     vp_reason = None, vp_severity = InfoSeverity, vp_successor = None\<rparr>"

definition default_policies :: "(api_version, version_policy) odict" where
  "default_policies =
    [(V1, (plain_policy V1 DeprecatedVersion ''2024-01-01'')\<lparr>vp_deprecated := Some ''2026-01-01'', vp_sunset := Some ''2027-01-01'',
        vp_reason := Some ''V1 lacks tenant isolation and audit support'', vp_severity := WarningSeverity, vp_successor := Some V3\<rparr>),
     (V2, plain_policy V2 ActiveVersion ''2025-01-01''),
     (V3, plain_policy V3 ActiveVersion ''2026-01-01'')]"

text \<open>Python's \<open>x or y\<close> on an optional string.\<close>

definition str_or :: "string option \<Rightarrow> string \<Rightarrow> string" where
  "str_or x d = (case x of Some s \<Rightarrow> if s = [] then d else s | None \<Rightarrow> d)"

text \<open>\<open>days_until_sunset\<close>; the parser of ISO dates answers the moment in seconds.\<close>

definition days_until_sunset :: "(string \<Rightarrow> time option) \<Rightarrow> time \<Rightarrow> version_policy \<Rightarrow> int option" where
  "days_until_sunset parse now p =
     (if str_or (vp_sunset p) [] = [] then None
      else map_option (\<lambda>t. max 0 \<lfloor>(t - now) / 86400\<rfloor>) (parse (str_or (vp_sunset p) [])))"

definition policy_headers :: "version_policy \<Rightarrow> (string, string) odict" where
  "policy_headers p =
     (if vp_status p = DeprecatedVersion then
        [(''Deprecation'', str_or (vp_deprecated p) ''true'')]
        @ (if str_or (vp_sunset p) [] \<noteq> [] then [(''Sunset'', str_or (vp_sunset p) [])] else [])
        @ (case vp_successor p of Some v \<Rightarrow> [(''Link'', ''</api/'' @ version_value v @ ''/...>; rel=\"successor-version\"'')] | None \<Rightarrow> [])
      else [])"

subsection \<open>Schemas\<close>

record field_descriptor =
  fd_name :: string
  fd_required :: bool
  fd_added :: api_version
  fd_removed :: "api_version option"
  fd_default :: json

definition schema_field :: "string \<Rightarrow> bool \<Rightarrow> api_version \<Rightarrow> json \<Rightarrow> field_descriptor" where
  "schema_field name required added d = \<lparr>fd_name = name, fd_required = required, fd_added = added, fd_removed = None, fd_default = d\<rparr>"

definition available_in :: "api_version \<Rightarrow> field_descriptor \<Rightarrow> bool" where
  "available_in v f \<longleftrightarrow> \<not> version_int v < version_int (fd_added f)
     \<and> (case fd_removed f of Some r \<Rightarrow> \<not> version_int r \<le> version_int v | None \<Rightarrow> True)"

record versioned_schema =
  vs_name :: string
  vs_compat :: compat_level
  vs_changelog :: string
  vs_fields :: "field_descriptor list"

definition fields_for :: "api_version \<Rightarrow> versioned_schema \<Rightarrow> field_descriptor list" where
  "fields_for v s = filter (available_in v) (vs_fields s)"

definition required_fields_for :: "api_version \<Rightarrow> versioned_schema \<Rightarrow> string list" where
  "required_fields_for v s = map fd_name (filter fd_required (fields_for v s))"

text \<open>\<open>validate\<close> answers one error per missing field; the error is represented by the field's name.\<close>

definition validate_data :: "api_version \<Rightarrow> (string \<times> json) list \<Rightarrow> versioned_schema \<Rightarrow> string list" where
  "validate_data v d s = map fd_name (filter (\<lambda>f. fd_required f \<and> od_get d (fd_name f) = None) (fields_for v s))"

definition versioned_schemas :: "(string, versioned_schema) odict" where
  "versioned_schemas =
    [(''signal'', \<lparr>vs_name = ''signal'', vs_compat = PartialCompat,
      vs_changelog = ''V2 adds tenant_id; V3 adds audit_token and feature_flags'',
      vs_fields =
        [schema_field ''id'' True V1 JNull,
         schema_field ''symbol'' True V1 JNull,
         schema_field ''direction'' True V1 JNull,
         schema_field ''entry_price'' True V1 JNull,
         schema_field ''sl'' True V1 JNull,
         schema_field ''tp'' True V1 JNull,
         schema_field ''timestamp'' True V1 JNull,
         schema_field ''tenant_id'' True V2 JNull,
         schema_field ''audit_token'' False V3 JNull,
         schema_field ''feature_flags'' False V3 (JObj [])]\<rparr>),
     (''auth_response'', \<lparr>vs_name = ''auth_response'', vs_compat = PartialCompat,
      vs_changelog = ''V2 adds refresh_token; V3 adds tenant_id and roles'',
      vs_fields =
        [schema_field ''access_token'' True V1 JNull,
         schema_field ''expires_in'' True V1 JNull,
         schema_field ''user_id'' True V1 JNull,
         schema_field ''refresh_token'' False V2 JNull,
         schema_field ''tenant_id'' True V3 JNull,
         schema_field ''roles'' False V3 (JList [])]\<rparr>),
     (''license'', \<lparr>vs_name = ''license'', vs_compat = PartialCompat,
      vs_changelog = ''V2 adds plan_tier; V3 adds feature_set and audit_chain'',
      vs_fields =
        [schema_field ''license_key'' True V1 JNull,
         schema_field ''user_id'' True V1 JNull,
         schema_field ''valid_until'' True V1 JNull,
         schema_field ''plan_tier'' True V2 JNull,
         schema_field ''feature_set'' False V3 (JList []),
         schema_field ''audit_chain'' False V3 JNull]\<rparr>),
     (''billing_checkout'', \<lparr>vs_name = ''billing_checkout'', vs_compat = PartialCompat,
      vs_changelog = ''V2 adds idempotency_key; V3 adds tenant_id and metadata'',
      vs_fields =
        [schema_field ''plan_id'' True V1 JNull,
         schema_field ''user_id'' True V1 JNull,
         schema_field ''amount_cents'' True V1 JNull,
         schema_field ''idempotency_key'' True V2 JNull,
         schema_field ''tenant_id'' True V3 JNull,
         schema_field ''metadata'' False V3 (JObj [])]\<rparr>),
     (''risk_status'', \<lparr>vs_name = ''risk_status'', vs_compat = PartialCompat,
      vs_changelog = ''V2 adds kill_switch_active; V3 adds incident_id and audit'',
      vs_fields =
        [schema_field ''equity'' True V1 JNull,
         schema_field ''drawdown_pct'' True V1 JNull,
         schema_field ''halted'' True V1 JNull,
         schema_field ''kill_switch_active'' True V2 JNull,
         schema_field ''incident_id'' False V3 JNull,
         schema_field ''audit_token'' False V3 JNull]\<rparr>),
     (''ea_config'', \<lparr>vs_name = ''ea_config'', vs_compat = PartialCompat,
      vs_changelog = ''V2 introduces ea_config; V3 adds feature_flags and kill_switch'',
      vs_fields =
        [schema_field ''ea_id'' True V2 JNull,
         schema_field ''params'' True V2 JNull,
         schema_field ''version'' True V2 JNull,
         schema_field ''feature_flags'' False V3 (JObj []),
         schema_field ''kill_switch'' False V3 (JBool False)]\<rparr>)]"

definition versioned_endpoints :: "(string, api_version list) odict" where
  "versioned_endpoints =
    [(''/api/signals'', [V1, V2, V3]),
     (''/api/auth/login'', [V1, V2, V3]),
     (''/api/auth/register'', [V1, V2, V3]),
     (''/api/license/validate'', [V1, V2, V3]),
     (''/api/license/issue'', [V2, V3]),
     (''/api/billing/checkout'', [V1, V2, V3]),
     (''/api/billing/webhook'', [V2, V3]),
     (''/api/risk/halt'', [V1, V2, V3]),
     (''/api/risk/status'', [V2, V3]),
     (''/api/ea/config'', [V2, V3]),
     (''/api/ea/heartbeat'', [V2, V3]),
     (''/api/tenant/settings'', [V3]),
     (''/api/audit/trail'', [V3]),
     (''/api/feature-flags'', [V3]),
     (''/api/artifacts'', [V3])]"

subsection \<open>Migration of response bodies\<close>

datatype migration_strategy = Passthrough | FieldRename | FieldAdd | FieldRemove | Transform

type_synonym body = "(string \<times> json) list"

record migration_rule =
  mg_source :: api_version
  mg_target :: api_version
  mg_strategy :: migration_strategy
  mg_field_map :: "(string \<times> string) list"
  mg_add :: "(string \<times> json) list"
  mg_remove :: "string list"
  mg_transform :: "(body \<Rightarrow> exc + body) option"

definition add_rule :: "api_version \<Rightarrow> api_version \<Rightarrow> (string \<times> json) list \<Rightarrow> migration_rule" where
  "add_rule a b fs = \<lparr>mg_source = a, mg_target = b, mg_strategy = FieldAdd, mg_field_map = [], mg_add = fs, mg_remove = [], mg_transform = None\<rparr>"

definition remove_rule :: "api_version \<Rightarrow> api_version \<Rightarrow> string list \<Rightarrow> migration_rule" where
  "remove_rule a b fs = \<lparr>mg_source = a, mg_target = b, mg_strategy = FieldRemove, mg_field_map = [], mg_add = [], mg_remove = fs, mg_transform = None\<rparr>"

definition default_rules :: "migration_rule list" where
  "default_rules =
    [add_rule V1 V2 [(''tenant_id'', JNull), (''refresh_token'', JNull)],
     add_rule V2 V3 [(''audit_token'', JNull), (''feature_flags'', JObj []), (''roles'', JList []), (''incident_id'', JNull)],
     remove_rule V3 V2 [''audit_token'', ''feature_flags'', ''roles'', ''incident_id'', ''audit_chain''],
     remove_rule V2 V1 [''refresh_token'', ''tenant_id'', ''kill_switch_active'', ''idempotency_key'', ''plan_tier'']]"

definition add_missing :: "string \<times> json \<Rightarrow> body \<Rightarrow> body" where
  "add_missing kv d = (if od_get d (fst kv) = None then od_put (fst kv) (snd kv) d else d)"

definition rename_field :: "string \<times> string \<Rightarrow> body \<Rightarrow> body" where
  "rename_field on d = (case od_get d (fst on) of Some v \<Rightarrow> od_put (snd on) v (od_del (fst on) d) | None \<Rightarrow> d)"

definition apply_rule :: "migration_rule \<Rightarrow> body \<Rightarrow> exc + body" where
  "apply_rule r d =
     (case mg_strategy r of
        Passthrough \<Rightarrow> Inr d
      | FieldAdd \<Rightarrow> Inr (fold add_missing (mg_add r) d)
      | FieldRemove \<Rightarrow> Inr (fold od_del (mg_remove r) d)
      | FieldRename \<Rightarrow> Inr (fold rename_field (mg_field_map r) d)
      | Transform \<Rightarrow> (case mg_transform r of Some f \<Rightarrow> f d | None \<Rightarrow> Inr d))"

definition version_path :: "api_version \<Rightarrow> api_version \<Rightarrow> (api_version \<times> api_version) list" where
  "version_path f t =
     (let i = version_int f - 1; j = version_int t - 1 in
      if i < j then map (\<lambda>k. (api_versions ! k, api_versions ! (k + 1))) [i..<j]
      else map (\<lambda>k. (api_versions ! k, api_versions ! (k - 1))) (rev [Suc j..<Suc i]))"

text \<open>
  \<open>migrate\<close> and \<open>_step_migrate\<close> call each other; between neighbours without a rule they do so for ever, which Python ends
  with a RecursionError. The first argument is the depth the interpreter allows.
\<close>

definition then_step :: "(api_version \<Rightarrow> api_version \<Rightarrow> body \<Rightarrow> exc + body) \<Rightarrow> exc + body \<Rightarrow> api_version \<times> api_version \<Rightarrow> exc + body" where
  "then_step f acc p = (case acc of Inl e \<Rightarrow> Inl e | Inr d \<Rightarrow> f (fst p) (snd p) d)"

primrec migrate :: "nat \<Rightarrow> migration_rule list \<Rightarrow> api_version \<Rightarrow> api_version \<Rightarrow> body \<Rightarrow> exc + body" where
  "migrate 0 rules f t d = Inl (OtherError ''RecursionError'')"
| "migrate (Suc n) rules f t d =
     (if f = t then Inr d
      else (case find (\<lambda>r. mg_source r = f \<and> mg_target r = t) rules of
          Some r \<Rightarrow> apply_rule r d
        | None \<Rightarrow> foldl (then_step (migrate n rules)) (Inr d) (version_path f t)))"

definition migration_depth :: nat where "migration_depth = 400"

subsection \<open>Negotiation\<close>

record deprecation_notice =
  dn_version :: api_version
  dn_endpoint :: string
  dn_message :: string
  dn_severity :: deprecation_severity
  dn_deprecated :: string
  dn_sunset :: "string option"
  dn_successor :: "api_version option"
  dn_successor_endpoint :: "string option"

definition notice_headers :: "deprecation_notice \<Rightarrow> (string, string) odict" where
  "notice_headers n =
     [(''Deprecation'', dn_deprecated n), (''X-API-Deprecation-Severity'', notice_severity (dn_severity n)),
      (''X-API-Successor'', case dn_successor n of Some v \<Rightarrow> version_value v | None \<Rightarrow> [])]
     @ (if str_or (dn_sunset n) [] \<noteq> [] then [(''Sunset'', str_or (dn_sunset n) [])] else [])"

definition deprecation_of :: "api_version \<Rightarrow> string \<Rightarrow> version_policy \<Rightarrow> deprecation_notice option" where
  "deprecation_of v endpoint p =
     (if vp_status p = DeprecatedVersion then
        Some \<lparr>dn_version = v, dn_endpoint = endpoint,
          dn_message = str_or (vp_reason p) (''API '' @ version_value v @ '' is deprecated.''), dn_severity = vp_severity p,
          dn_deprecated = str_or (vp_deprecated p) [], dn_sunset = vp_sunset p, dn_successor = vp_successor p,
          dn_successor_endpoint = map_option (\<lambda>w. ''/api/'' @ version_value w @ endpoint) (vp_successor p)\<rparr>
      else None)"

definition supported_values :: "(api_version, version_policy) odict \<Rightarrow> string list" where
  "supported_values ps = map version_value (od_keys ps)"

definition endpoint_versions :: "string \<Rightarrow> api_version list option" where
  "endpoint_versions endpoint = (if endpoint = ''/'' then None else od_get versioned_endpoints endpoint)"

definition negotiate :: "string \<Rightarrow> string \<Rightarrow> (api_version, version_policy) odict \<Rightarrow> version_error + api_version \<times> deprecation_notice option" where
  "negotiate requested endpoint ps =
     (case version_of requested of
        None \<Rightarrow> Inl (MismatchError requested (supported_values ps))
      | Some v \<Rightarrow> (case od_get ps v of
            None \<Rightarrow> Inl (MismatchError requested (supported_values ps))
          | Some p \<Rightarrow>
              if vp_status p = SunsetVersion then Inl (SunsetError v (str_or (vp_sunset p) ''unknown''))
              else (case endpoint_versions endpoint of
                  Some vs \<Rightarrow> if v \<in> set vs then Inr (v, deprecation_of v endpoint p)
                    else Inl (MismatchError requested (map version_value vs))
                | None \<Rightarrow> Inr (v, deprecation_of v endpoint p))))"

definition blank_reason :: "string \<Rightarrow> bool" where
  "blank_reason s \<longleftrightarrow> s = [] \<or> py_strip s = []"

definition sunset_version :: "api_version \<Rightarrow> string \<Rightarrow> string \<Rightarrow> (api_version, version_policy) odict
    \<Rightarrow> (version_error + unit) \<times> (api_version, version_policy) odict" where
  "sunset_version v reason sunset_at ps =
     (if blank_reason reason then (Inl MissingReasonError, ps)
      else (case od_get ps v of
          None \<Rightarrow> (Inl (MismatchError (version_value v) []), ps)
        | Some p \<Rightarrow> (Inr (), od_put v (p\<lparr>vp_status := SunsetVersion, vp_sunset := Some sunset_at, vp_reason := Some reason\<rparr>) ps)))"

definition deprecate_version :: "api_version \<Rightarrow> string \<Rightarrow> string \<Rightarrow> string option \<Rightarrow> api_version option \<Rightarrow> (api_version, version_policy) odict
    \<Rightarrow> (version_error + unit) \<times> (api_version, version_policy) odict" where
  "deprecate_version v reason deprecated_at sunset_at successor ps =
     (if blank_reason reason then (Inl MissingReasonError, ps)
      else (case od_get ps v of
          None \<Rightarrow> (Inl (MismatchError (version_value v) []), ps)
        | Some p \<Rightarrow>
            (Inr (), od_put v (p\<lparr>vp_status := DeprecatedVersion, vp_deprecated := Some deprecated_at, vp_sunset := sunset_at,
               vp_reason := Some reason, vp_successor := (case successor of Some w \<Rightarrow> Some w | None \<Rightarrow> vp_successor p)\<rparr>) ps)))"

definition versions_where :: "(version_policy \<Rightarrow> bool) \<Rightarrow> (api_version, version_policy) odict \<Rightarrow> api_version list" where
  "versions_where P ps = map fst (filter (\<lambda>kp. P (snd kp)) ps)"

definition supported_versions :: "(api_version, version_policy) odict \<Rightarrow> api_version list" where
  "supported_versions = versions_where (\<lambda>p. vp_status p \<noteq> SunsetVersion)"

definition active_versions :: "(api_version, version_policy) odict \<Rightarrow> api_version list" where
  "active_versions = versions_where (\<lambda>p. vp_status p = ActiveVersion)"

definition deprecated_versions :: "(api_version, version_policy) odict \<Rightarrow> api_version list" where
  "deprecated_versions = versions_where (\<lambda>p. vp_status p = DeprecatedVersion)"

subsection \<open>The audit chain\<close>

record version_codec =
  vc_hmac :: "string \<Rightarrow> string"
  vc_dumps :: "json \<Rightarrow> string"
  vc_repr :: "string \<Rightarrow> string"

record version_audit_entry =
  va_id :: string
  va_action :: string
  va_version :: string
  va_endpoint :: string
  va_actor :: string
  va_tenant :: "string option"
  va_detail :: "(string \<times> json) list"
  va_ts :: time
  va_seq :: nat
  va_hash :: string
  va_prev :: string

record version_audit =
  vl_records :: "version_audit_entry list"
  vl_seq :: nat
  vl_prev :: string

definition version_records_max :: nat where "version_records_max = 50000"

definition version_genesis :: "version_codec \<Rightarrow> string" where
  "version_genesis cd = vc_hmac cd ''GENESIS:API:VERSION:CHAIN:V26''"

definition new_version_audit :: "version_codec \<Rightarrow> version_audit" where
  "new_version_audit cd = \<lparr>vl_records = [], vl_seq = 1, vl_prev = version_genesis cd\<rparr>"

definition opt_str :: "string option \<Rightarrow> json" where
  "opt_str t = (case t of None \<Rightarrow> JNull | Some s \<Rightarrow> JStr s)"

definition version_canonical :: "version_audit_entry \<Rightarrow> json" where
  "version_canonical r = JObj [(''entry_id'', JStr (va_id r)), (''action'', JStr (va_action r)), (''version'', JStr (va_version r)),
     (''endpoint'', JStr (va_endpoint r)), (''actor'', JStr (va_actor r)), (''tenant_id'', opt_str (va_tenant r)),
     (''detail'', JObj (va_detail r)), (''ts'', JFloat (va_ts r))]"

definition version_hash :: "version_codec \<Rightarrow> string \<Rightarrow> version_audit_entry \<Rightarrow> string" where
  "version_hash cd prev r = vc_hmac cd (prev @ '':'' @ vc_dumps cd (version_canonical r))"

definition version_seal :: "version_codec \<Rightarrow> string \<Rightarrow> version_audit_entry \<Rightarrow> version_audit_entry" where
  "version_seal cd prev r = r\<lparr>va_hash := version_hash cd prev r, va_prev := prev\<rparr>"

definition version_record :: "version_codec \<Rightarrow> time \<Rightarrow> string \<Rightarrow> string \<Rightarrow> string \<Rightarrow> string \<Rightarrow> string \<Rightarrow> string option \<Rightarrow> (string \<times> json) list
    \<Rightarrow> version_audit \<Rightarrow> version_audit_entry \<times> version_audit" where
  "version_record cd now rid action version endpoint actor tenant detail a =
     (let r = version_seal cd (vl_prev a) \<lparr>va_id = rid, va_action = action, va_version = version, va_endpoint = endpoint, va_actor = actor,
                va_tenant = tenant, va_detail = detail, va_ts = now, va_seq = vl_seq a, va_hash = [], va_prev = []\<rparr> in
      (r, \<lparr>vl_records = take_last version_records_max (vl_records a @ [r]), vl_seq = vl_seq a + 1, vl_prev = va_hash r\<rparr>))"

definition version_fits :: "version_codec \<Rightarrow> string \<Rightarrow> version_audit_entry \<Rightarrow> bool" where
  "version_fits cd prev r \<longleftrightarrow> va_prev r = prev \<and> va_hash r = version_hash cd prev r"

definition version_verify :: "version_codec \<Rightarrow> version_audit \<Rightarrow> bool" where
  "version_verify cd a = verify_from (version_fits cd) va_hash (version_genesis cd) (vl_records a)"

text \<open>The limit is looked at after a record was taken.\<close>

definition version_query :: "string option \<Rightarrow> string option \<Rightarrow> int \<Rightarrow> version_audit \<Rightarrow> version_audit_entry list" where
  "version_query action version limit a =
     take (nat (max 1 limit)) (filter (\<lambda>r. (str_or action [] = [] \<or> va_action r = str_or action [])
        \<and> (str_or version [] = [] \<or> va_version r = str_or version [])) (rev (vl_records a)))"

subsection \<open>The router\<close>

record versioned_request =
  rq_path :: string
  rq_version :: string
  rq_client :: string
  rq_tenant :: "string option"
  rq_body :: "body option"

record versioned_response =
  rs_status :: nat
  rs_version :: api_version
  rs_body :: body
  rs_headers :: "(string, string) odict"
  rs_notice :: "deprecation_notice option"

type_synonym request_handler = "versioned_request \<Rightarrow> exc + body"

record version_router =
  vr_policies :: "(api_version, version_policy) odict"
  vr_rules :: "migration_rule list"
  vr_audit :: version_audit
  vr_canonical :: api_version
  vr_handlers :: "(string, request_handler) odict"

definition new_version_router :: "version_codec \<Rightarrow> version_router" where
  "new_version_router cd = \<lparr>vr_policies = default_policies, vr_rules = default_rules, vr_audit = new_version_audit cd, vr_canonical = V3, vr_handlers = []\<rparr>"

fun py_comma_list :: "string \<Rightarrow> string list \<Rightarrow> string" where
  "py_comma_list sep [] = []"
| "py_comma_list sep [s] = s"
| "py_comma_list sep (s # ss) = s @ sep @ py_comma_list sep ss"

definition version_error_text :: "version_codec \<Rightarrow> version_error \<Rightarrow> string" where
  "version_error_text cd e =
     (case e of
        SunsetError v at_ \<Rightarrow> ''API '' @ version_value v @ '' was sunset on '' @ at_ @ ''. Please upgrade to a supported version.''
      | MismatchError requested supported \<Rightarrow>
          ''Version '' @ vc_repr cd requested @ '' is not supported. Supported: ['' @ py_comma_list '', '' (map (vc_repr cd) supported) @ '']''
      | _ \<Rightarrow> [])"

definition sunset_response :: "version_codec \<Rightarrow> version_router \<Rightarrow> versioned_request \<Rightarrow> version_error \<Rightarrow> versioned_response" where
  "sunset_response cd r q e = \<lparr>rs_status = 410, rs_version = vr_canonical r,
     rs_body = [(''error'', JStr ''Gone''), (''message'', JStr (version_error_text cd e)), (''code'', JStr ''SUNSET'')],
     rs_headers = [(''X-API-Version'', rq_version q)], rs_notice = None\<rparr>"

definition mismatch_response :: "version_codec \<Rightarrow> version_router \<Rightarrow> versioned_request \<Rightarrow> version_error \<Rightarrow> string list \<Rightarrow> versioned_response" where
  "mismatch_response cd r q e supported = \<lparr>rs_status = 400, rs_version = vr_canonical r,
     rs_body = [(''error'', JStr ''VersionMismatch''), (''message'', JStr (version_error_text cd e)),
        (''supported_versions'', JList (map JStr supported)), (''code'', JStr ''VERSION_MISMATCH'')],
     rs_headers = [(''X-API-Version'', rq_version q), (''X-Supported-Versions'', py_comma_list '','' supported)], rs_notice = None\<rparr>"

definition call_handler :: "string \<Rightarrow> api_version \<Rightarrow> versioned_request \<Rightarrow> version_router \<Rightarrow> exc + body" where
  "call_handler token v q r =
     (case od_get (vr_handlers r) (rq_path q) of
        Some h \<Rightarrow> h q
      | None \<Rightarrow> Inr [(''status'', JStr ''ok''), (''version'', JStr (version_value v)), (''path'', JStr (rq_path q)),
          (''tenant_id'', opt_str (rq_tenant q)), (''audit_token'', JStr token), (''feature_flags'', JObj []), (''roles'', JList []),
          (''incident_id'', JNull)])"

definition route_request :: "version_codec \<Rightarrow> time \<Rightarrow> string \<Rightarrow> string \<Rightarrow> versioned_request \<Rightarrow> version_router \<Rightarrow> (versioned_response, version_router) outcome" where
  "route_request cd now rid token q r =
     (let logged = (\<lambda>action version detail. r\<lparr>vr_audit :=
        snd (version_record cd now rid action version (rq_path q) (rq_client q) (rq_tenant q) detail (vr_audit r))\<rparr>) in
      case negotiate (rq_version q) (rq_path q) (vr_policies r) of
        Inl e \<Rightarrow> (case e of
            MismatchError requested supported \<Rightarrow>
              (Inr (mismatch_response cd r q e supported), logged ''mismatch'' (rq_version q) [(''supported'', JList (map JStr supported))])
          | _ \<Rightarrow> (Inr (sunset_response cd r q e), logged ''sunset_blocked'' (rq_version q) [(''error'', JStr (version_error_text cd e))]))
      | Inr (v, notice) \<Rightarrow>
          (case call_handler token v q r of
             Inl x \<Rightarrow> (Inl x, r)
           | Inr b \<Rightarrow> (case migrate migration_depth (vr_rules r) (vr_canonical r) v b of
                 Inl x \<Rightarrow> (Inl x, r)
               | Inr migrated \<Rightarrow>
                   (Inr \<lparr>rs_status = 200, rs_version = v, rs_body = migrated,
                      rs_headers = fold (\<lambda>kv. od_put (fst kv) (snd kv)) (case notice of Some n \<Rightarrow> notice_headers n | None \<Rightarrow> [])
                        [(''X-API-Version'', version_value v), (''X-API-Canonical-Version'', version_value (vr_canonical r))],
                      rs_notice = notice\<rparr>,
                    logged ''route'' (version_value v) [(''deprecated'', JBool (notice \<noteq> None)), (''migrated'', JBool (v \<noteq> vr_canonical r))]))))"

definition add_handler :: "string \<Rightarrow> request_handler \<Rightarrow> version_router \<Rightarrow> version_router" where
  "add_handler path h r = r\<lparr>vr_handlers := od_put path h (vr_handlers r)\<rparr>"

definition register_rule :: "migration_rule \<Rightarrow> version_router \<Rightarrow> version_router" where
  "register_rule rule r = r\<lparr>vr_rules := vr_rules r @ [rule]\<rparr>"

subsection \<open>Breaking changes and administration\<close>

definition breaking_changes :: "versioned_schema \<Rightarrow> versioned_schema \<Rightarrow> api_version \<Rightarrow> api_version \<Rightarrow> string list" where
  "breaking_changes old_schema new_schema old_v new_v =
     (let old_fields = fold (\<lambda>f. od_put (fd_name f) f) (fields_for old_v old_schema) [];
          new_fields = fold (\<lambda>f. od_put (fd_name f) f) (fields_for new_v new_schema) [] in
      map fst (filter (\<lambda>(name, f). od_get new_fields name = None \<and> fd_required f) old_fields))"

definition assert_compatible :: "versioned_schema \<Rightarrow> versioned_schema \<Rightarrow> api_version \<Rightarrow> api_version \<Rightarrow> version_error + unit" where
  "assert_compatible old_schema new_schema old_v new_v =
     (let issues = breaking_changes old_schema new_schema old_v new_v in if issues \<noteq> [] then Inl (BreakingChangeError issues) else Inr ())"

definition force_sunset :: "version_codec \<Rightarrow> time \<Rightarrow> string \<Rightarrow> api_version \<Rightarrow> string \<Rightarrow> string \<Rightarrow> string \<Rightarrow> version_router
    \<Rightarrow> (version_error + unit) \<times> version_router" where
  "force_sunset cd now rid v reason sunset_at actor r =
     (case sunset_version v reason sunset_at (vr_policies r) of
        (Inl e, ps) \<Rightarrow> (Inl e, r\<lparr>vr_policies := ps\<rparr>)
      | (Inr u, ps) \<Rightarrow> (Inr (), r\<lparr>vr_policies := ps,
          vr_audit := snd (version_record cd now rid ''force_sunset'' (version_value v) ''*'' actor None
            [(''reason'', JStr reason), (''sunset_at'', JStr sunset_at)] (vr_audit r))\<rparr>))"

definition router_deprecate :: "api_version \<Rightarrow> string \<Rightarrow> string \<Rightarrow> string option \<Rightarrow> api_version option \<Rightarrow> version_router \<Rightarrow> (version_error + unit) \<times> version_router" where
  "router_deprecate v reason deprecated_at sunset_at successor r =
     (let (x, ps) = deprecate_version v reason deprecated_at sunset_at successor (vr_policies r) in (x, r\<lparr>vr_policies := ps\<rparr>))"

definition endpoint_matrix :: "(string \<times> string list) list" where
  "endpoint_matrix = map (\<lambda>(e, vs). (e, map version_value vs)) versioned_endpoints"

subsection \<open>Migrations with the rules of the code\<close>

definition dropped_below_3 :: "string list" where
  "dropped_below_3 = [''audit_token'', ''feature_flags'', ''roles'', ''incident_id'', ''audit_chain'']"

definition dropped_below_2 :: "string list" where
  "dropped_below_2 = [''refresh_token'', ''tenant_id'', ''kill_switch_active'', ''idempotency_key'', ''plan_tier'']"

definition added_in_2 :: body where "added_in_2 = [(''tenant_id'', JNull), (''refresh_token'', JNull)]"

definition added_in_3 :: body where
  "added_in_3 = [(''audit_token'', JNull), (''feature_flags'', JObj []), (''roles'', JList []), (''incident_id'', JNull)]"

definition without :: "string list \<Rightarrow> body \<Rightarrow> body" where
  "without ks d = filter (\<lambda>p. fst p \<notin> set ks) d"

lemma fold_del_without: "fold od_del ks d = without ks d"
  by (induction ks arbitrary: d) (auto simp: without_def od_del_def intro: filter_cong)

lemma apply_default_rules:
  "apply_rule (add_rule a b fs) d = Inr (fold add_missing fs d)" "apply_rule (remove_rule a b ks) d = Inr (without ks d)"
  by (simp_all add: apply_rule_def add_rule_def remove_rule_def fold_del_without)

lemma default_rules_eq:
  "default_rules = [add_rule V1 V2 added_in_2, add_rule V2 V3 added_in_3, remove_rule V3 V2 dropped_below_3, remove_rule V2 V1 dropped_below_2]"
  by (simp add: default_rules_def added_in_2_def added_in_3_def dropped_below_3_def dropped_below_2_def)

lemma rule_ends [simp]:
  "mg_source (add_rule a b fs) = a" "mg_target (add_rule a b fs) = b" "mg_source (remove_rule a b ks) = a" "mg_target (remove_rule a b ks) = b"
  by (simp_all add: add_rule_def remove_rule_def)

lemma version_path_far: "version_path V1 V3 = [(V1, V2), (V2, V3)]" "version_path V3 V1 = [(V3, V2), (V2, V1)]"
  by (simp_all add: version_path_def api_versions_def upt_rec)

fun migrated :: "api_version \<Rightarrow> api_version \<Rightarrow> body \<Rightarrow> body" where
  "migrated V1 V2 d = fold add_missing added_in_2 d"
| "migrated V2 V3 d = fold add_missing added_in_3 d"
| "migrated V1 V3 d = fold add_missing added_in_3 (fold add_missing added_in_2 d)"
| "migrated V3 V2 d = without dropped_below_3 d"
| "migrated V2 V1 d = without dropped_below_2 d"
| "migrated V3 V1 d = without dropped_below_2 (without dropped_below_3 d)"
| "migrated _ _ d = d"

lemma migrate_default: "migrate migration_depth default_rules f t d = Inr (migrated f t d)"
proof -
  have 1: "migrate (Suc n) default_rules f t d = Inr (migrated f t d)" if "(f, t) \<notin> {(V1, V3), (V3, V1)}" for n f t d
    using that by (cases f; cases t) (simp_all add: default_rules_eq apply_default_rules)
  have "migration_depth = Suc (Suc 398)" by (simp add: migration_depth_def)
  moreover have "migrate (Suc (Suc n)) default_rules f t d = Inr (migrated f t d)" for n
  proof (cases "(f, t) \<in> {(V1, V3), (V3, V1)}")
    case True
    moreover have "find (\<lambda>r. mg_source r = f \<and> mg_target r = t) default_rules = None" using True by (auto simp: default_rules_eq)
    ultimately show ?thesis using 1 [of V1 V2] 1 [of V2 V3] 1 [of V3 V2] 1 [of V2 V1]
      by (auto simp: version_path_far then_step_def simp del: migrate.simps(2)) (simp_all add: version_path_far then_step_def)
  qed (rule 1)
  ultimately show ?thesis by metis
qed

lemma without_put: "k \<in> set ks \<Longrightarrow> without ks (od_put k v d) = without ks d"
  by (induction d) (auto simp: without_def)

lemma without_added: "fst ` set fs \<subseteq> set ks \<Longrightarrow> without ks (fold add_missing fs d) = without ks d"
  by (induction fs arbitrary: d) (simp_all add: add_missing_def without_put)

lemma without_commute: "without ks (without ls d) = without ls (without ks d)"
  by (simp add: without_def conj_commute)

lemma without_absent: "list_all (\<lambda>k. od_get d k = None) ks \<Longrightarrow> without ks d = d"
  by (auto simp: without_def filter_id_conv list_all_iff od_get_None_iff)

lemma od_get_without: "od_get (without ks d) k = (if k \<in> set ks then None else od_get d k)"
  by (induction d) (auto simp: without_def)

text \<open>C35: A response of the first version that is brought up to any version and back down is what it was, if it had none of the
  fields that later versions added: with the rules of the code the migrations end, and the way down undoes the way up.\<close>

theorem migration_round_trip:
  assumes "list_all (\<lambda>k. od_get d k = None) (dropped_below_2 @ dropped_below_3)"
  shows "\<exists>e. migrate migration_depth default_rules V1 v d = Inr e \<and> migrate migration_depth default_rules v V1 e = Inr d"
proof -
  have "fst ` set added_in_2 \<subseteq> set dropped_below_2" "fst ` set added_in_3 \<subseteq> set dropped_below_3"
    by (simp_all add: added_in_2_def added_in_3_def dropped_below_2_def dropped_below_3_def)
  then have "migrated v V1 (migrated V1 v d) = without dropped_below_2 (without dropped_below_3 d) \<or> migrated v V1 (migrated V1 v d) = without dropped_below_2 d
      \<or> migrated v V1 (migrated V1 v d) = d"
    by (cases v) (simp_all add: without_added, simp add: without_commute [of dropped_below_2] without_added)
  then show ?thesis using assms by (auto simp: migrate_default without_absent)
qed

theorem migration_round_trip_witness:
  "\<exists>e. migrate migration_depth default_rules V1 V3 [(''equity'', JFloat 5)] = Inr e
     \<and> migrate migration_depth default_rules V3 V1 e = Inr [(''equity'', JFloat 5)]"
  by (rule migration_round_trip) (simp add: dropped_below_2_def dropped_below_3_def)

text \<open>Down and up again, the fields are there but their values are lost.\<close>

lemma downgrade_loses_values:
  "migrate migration_depth default_rules V2 V3 (migrated V3 V2 [(''audit_token'', JStr ''t'')])
     = Inr [(''audit_token'', JNull), (''feature_flags'', JObj []), (''roles'', JList []), (''incident_id'', JNull)]"
  unfolding migrate_default by (simp add: dropped_below_3_def without_def added_in_3_def add_missing_def)

text \<open>What the router sends to an older client is complete: a body that has the required fields of the current schema still has,
  after the migration to an older version, every field that version requires.\<close>

theorem downgraded_bodies_are_complete:
  assumes "(name, s) \<in> set versioned_schemas" and "validate_data V3 d s = []"
  shows "\<exists>e. migrate migration_depth default_rules V3 v d = Inr e \<and> validate_data v e s = []"
proof -
  define gone where "gone v = (case v of V1 \<Rightarrow> dropped_below_2 @ dropped_below_3 | V2 \<Rightarrow> dropped_below_3 | V3 \<Rightarrow> [])" for v
  have get: "od_get (migrated V3 v d) k = (if k \<in> set (gone v) then None else od_get d k)" for k
    by (cases v) (auto simp: gone_def od_get_without)
  have table: "list_all (\<lambda>(n, s). list_all (\<lambda>f. available_in v f \<and> fd_required f \<longrightarrow> available_in V3 f \<and> fd_name f \<notin> set (gone v)) (vs_fields s)) versioned_schemas"
    by (cases v) (simp_all add: gone_def versioned_schemas_def schema_field_def available_in_def dropped_below_2_def dropped_below_3_def)
  then have "list_all (\<lambda>f. available_in v f \<and> fd_required f \<longrightarrow> available_in V3 f \<and> fd_name f \<notin> set (gone v)) (vs_fields s)"
    using assms(1) by (auto simp: list_all_iff)
  then have "validate_data v (migrated V3 v d) s = []"
    using assms(2) by (auto simp: validate_data_def fields_for_def get filter_empty_conv list_all_iff)
  then show ?thesis by (simp add: migrate_default)
qed

theorem downgraded_bodies_are_complete_witness:
  "let s = the (od_get versioned_schemas ''ea_config''); d = [(''ea_id'', JStr ''e''), (''params'', JObj []), (''version'', JInt 3), (''kill_switch'', JBool True)] in
   \<exists>e. migrate migration_depth default_rules V3 V2 d = Inr e \<and> validate_data V2 e s = []"
  unfolding Let_def
  by (rule downgraded_bodies_are_complete [of "''ea_config''"])
    (simp_all add: versioned_schemas_def validate_data_def fields_for_def available_in_def schema_field_def)

text \<open>The converse of the changelogs does not hold: these fields of the current version are not removed for clients of the second.\<close>

lemma newer_fields_reach_older_clients:
  "map (\<lambda>(n, s). (n, map fd_name (filter (\<lambda>f. \<not> available_in V2 f \<and> od_get (migrated V3 V2 [(fd_name f, JBool True)]) (fd_name f) \<noteq> None) (vs_fields s))))
     versioned_schemas
   = [(''signal'', []), (''auth_response'', [''tenant_id'']), (''license'', [''feature_set'']), (''billing_checkout'', [''tenant_id'', ''metadata'']),
      (''risk_status'', []), (''ea_config'', [''kill_switch''])]"
  by (simp add: versioned_schemas_def schema_field_def available_in_def dropped_below_3_def without_def)

text \<open>Without a rule between neighbours the migration never ends.\<close>

lemma missing_rule_recurses: "migrate n [] V1 V2 d = Inl (OtherError ''RecursionError'')"
  by (induction n) (simp_all add: version_path_def api_versions_def then_step_def upt_rec)

subsection \<open>What the router answers\<close>

datatype version_op =
    Route_Request time string string versioned_request
  | Force_Sunset time string api_version string string string
  | Deprecate_Version api_version string string "string option" "api_version option"
  | Register_Handler string request_handler
  | Register_Rule migration_rule

fun version_step :: "version_codec \<Rightarrow> version_op \<Rightarrow> version_router \<Rightarrow> version_router" where
  "version_step cd (Route_Request now rid token q) r = snd (route_request cd now rid token q r)"
| "version_step cd (Force_Sunset now rid v reason sunset_at actor) r = snd (force_sunset cd now rid v reason sunset_at actor r)"
| "version_step cd (Deprecate_Version v reason deprecated_at sunset_at successor) r = snd (router_deprecate v reason deprecated_at sunset_at successor r)"
| "version_step cd (Register_Handler path h) r = add_handler path h r"
| "version_step cd (Register_Rule rule) r = register_rule rule r"

definition version_gone :: "api_version \<Rightarrow> version_router \<Rightarrow> bool" where
  "version_gone v r \<longleftrightarrow> (case od_get (vr_policies r) v of Some p \<Rightarrow> vp_status p = SunsetVersion | None \<Rightarrow> False)"

lemma route_keeps_policies [simp]: "vr_policies (snd (route_request cd now rid token q r)) = vr_policies r"
  by (auto simp: route_request_def Let_def split: sum.split version_error.split prod.split)

lemma sunset_keeps_gone:
  "vr_policies r' = snd (sunset_version w reason sunset_at (vr_policies r)) \<Longrightarrow> version_gone v r \<Longrightarrow> version_gone v r'"
  by (simp add: version_gone_def sunset_version_def split: option.splits if_splits)

lemma deprecate_keeps_gone:
  "vr_policies r' = snd (deprecate_version w reason d sunset_at successor (vr_policies r)) \<Longrightarrow> w \<noteq> v \<Longrightarrow> version_gone v r \<Longrightarrow> version_gone v r'"
  by (simp add: version_gone_def deprecate_version_def split: option.splits if_splits)

lemma force_sunset_policies: "vr_policies (snd (force_sunset cd now rid v reason sunset_at actor r)) = snd (sunset_version v reason sunset_at (vr_policies r))"
  by (cases "sunset_version v reason sunset_at (vr_policies r)") (simp add: force_sunset_def split: sum.split)

fun revives :: "api_version \<Rightarrow> version_op \<Rightarrow> bool" where
  "revives v (Deprecate_Version w reason deprecated_at sunset_at successor) = (w = v)"
| "revives v _ = False"

lemma gone_step: "version_gone v r \<Longrightarrow> \<not> revives v e \<Longrightarrow> version_gone v (version_step cd e r)"
proof (cases e)
  case (Force_Sunset now rid w reason sunset_at actor)
  then show "version_gone v r \<Longrightarrow> ?thesis" using sunset_keeps_gone [OF force_sunset_policies] by simp
next
  case (Deprecate_Version w reason d sunset_at successor)
  then show "version_gone v r \<Longrightarrow> \<not> revives v e \<Longrightarrow> ?thesis"
    using deprecate_keeps_gone [of "version_step cd e r" w reason d sunset_at successor r v] by (simp add: router_deprecate_def split: prod.split)
qed (simp_all add: version_gone_def add_handler_def register_rule_def)

lemma gone_run: "version_gone v r \<Longrightarrow> list_all (\<lambda>e. \<not> revives v e) es \<Longrightarrow> version_gone v (fold (version_step cd) es r)"
  by (induction es arbitrary: r) (simp_all add: gone_step)

lemma gone_answer:
  assumes "version_gone v r" and "version_of (rq_version q) = Some v"
  shows "\<exists>d. negotiate (rq_version q) (rq_path q) (vr_policies r) = Inl (SunsetError v d)"
  using assms by (auto simp: version_gone_def negotiate_def split: option.splits)

text \<open>
  A version that was sunset serves nobody: once \<open>force_sunset\<close> succeeded, every request that names the version, in
  whatever spelling, is answered 410 Gone without calling any handler (the answer and the state do not depend on them), after any further calls that do not
  deprecate the version again.
\<close>

theorem sunset_version_serves_nobody:
  assumes "fst (force_sunset cd t0 id0 v reason sunset_at actor r) = Inr ()"
    and "list_all (\<lambda>e. \<not> revives v e) es" and "version_of (rq_version q) = Some v"
  shows "let r' = fold (version_step cd) es (snd (force_sunset cd t0 id0 v reason sunset_at actor r)) in
    \<exists>resp. fst (route_request cd now rid token q r') = Inr resp \<and> rs_status resp = 410
      \<and> (\<forall>hs. fst (route_request cd now rid token q (r'\<lparr>vr_handlers := hs\<rparr>)) = Inr resp)"
proof -
  have "version_gone v (snd (force_sunset cd t0 id0 v reason sunset_at actor r))"
    using assms(1) by (auto simp: force_sunset_def sunset_version_def version_gone_def split: if_splits option.splits)
  then have g: "version_gone v (fold (version_step cd) es (snd (force_sunset cd t0 id0 v reason sunset_at actor r)))"
    using assms(2) by (rule gone_run)
  obtain d where d: "negotiate (rq_version q) (rq_path q) (vr_policies (fold (version_step cd) es (snd (force_sunset cd t0 id0 v reason sunset_at actor r))))
      = Inl (SunsetError v d)" using gone_answer [OF g assms(3)] by blast
  show ?thesis unfolding Let_def
    by (rule exI [of _ "sunset_response cd (fold (version_step cd) es (snd (force_sunset cd t0 id0 v reason sunset_at actor r))) q (SunsetError v d)"])
      (simp add: route_request_def d sunset_response_def)
qed

theorem sunset_version_serves_nobody_witness:
  "let cd = \<lparr>vc_hmac = id, vc_dumps = \<lambda>_. [], vc_repr = id\<rparr>; q = \<lparr>rq_path = ''/api/signals'', rq_version = ''v1'', rq_client = ''c'', rq_tenant = None, rq_body = None\<rparr>;
       r' = fold (version_step cd) [Register_Handler ''/api/signals'' (\<lambda>_. Inr [])] (snd (force_sunset cd 0 ''i'' V1 ''old'' ''2026-06-01'' ''ops'' (new_version_router cd))) in
    \<exists>resp. fst (route_request cd 5 ''j'' ''t'' q r') = Inr resp \<and> rs_status resp = 410
      \<and> (\<forall>hs. fst (route_request cd 5 ''j'' ''t'' q (r'\<lparr>vr_handlers := hs\<rparr>)) = Inr resp)"
proof -
  define cd where "cd = \<lparr>vc_hmac = id, vc_dumps = \<lambda>_. [], vc_repr = id\<rparr>"
  have 1: "fst (force_sunset cd 0 ''i'' V1 ''old'' ''2026-06-01'' ''ops'' (new_version_router cd)) = Inr ()"
    by (simp add: force_sunset_def sunset_version_def new_version_router_def default_policies_def blank_reason_def py_strip_def char_space_def)
  have 2: "list_all (\<lambda>e. \<not> revives V1 e) [Register_Handler ''/api/signals'' (\<lambda>_. Inr [])]" by simp
  have 3: "version_of (rq_version \<lparr>rq_path = ''/api/signals'', rq_version = ''v1'', rq_client = ''c'', rq_tenant = None, rq_body = None\<rparr>) = Some V1"
    by (simp add: version_of_def api_versions_def py_strip_def py_lower_def char_lower_def char_space_def)
  show ?thesis using sunset_version_serves_nobody [OF 1 2 3, of 5 "''j''" "''t''"] unfolding cd_def Let_def .
qed

text \<open>Deprecating a sunset version brings it back.\<close>

lemma deprecation_revives_sunset:
  assumes "od_get ps v = Some p" and "\<not> blank_reason reason" and "endpoint_versions endpoint = None" and "version_of requested = Some v"
  shows "\<exists>notice. negotiate requested endpoint (snd (deprecate_version v reason deprecated_at sunset_at successor
      (snd (sunset_version v reason d ps)))) = Inr (v, notice)"
  using assms by (auto simp: sunset_version_def deprecate_version_def negotiate_def)

subsection \<open>Every request is answered and recorded\<close>

definition as_constructed :: "version_router \<Rightarrow> bool" where
  "as_constructed r \<longleftrightarrow> vr_rules r = default_rules \<and> (\<forall>p h q. od_get (vr_handlers r) p = Some h \<longrightarrow> (\<exists>b. h q = Inr b))"

lemma routed_record:
  "\<exists>e. r\<lparr>vr_audit := snd (version_record cd now rid action version (rq_path q) (rq_client q) (rq_tenant q) detail (vr_audit r))\<rparr>
      = r\<lparr>vr_audit := \<lparr>vl_records = take_last version_records_max (vl_records (vr_audit r) @ [e]), vl_seq = vl_seq (vr_audit r) + 1, vl_prev = va_hash e\<rparr>\<rparr>
      \<and> version_fits cd (vl_prev (vr_audit r)) e \<and> va_seq e = vl_seq (vr_audit r) \<and> va_endpoint e = rq_path q \<and> va_actor e = rq_client q"
  unfolding version_record_def Let_def snd_conv
  by (intro exI conjI, rule refl) (simp_all add: version_fits_def version_seal_def version_hash_def version_canonical_def)

lemma route_records:
  assumes "\<And>v. \<exists>b. call_handler token v q r = Inr b" and "vr_rules r = default_rules"
  shows "\<exists>e. snd (route_request cd now rid token q r)
      = r\<lparr>vr_audit := \<lparr>vl_records = take_last version_records_max (vl_records (vr_audit r) @ [e]), vl_seq = vl_seq (vr_audit r) + 1, vl_prev = va_hash e\<rparr>\<rparr>
      \<and> version_fits cd (vl_prev (vr_audit r)) e \<and> va_seq e = vl_seq (vr_audit r) \<and> va_endpoint e = rq_path q \<and> va_actor e = rq_client q"
proof -
  have "\<exists>action version detail. snd (route_request cd now rid token q r)
      = r\<lparr>vr_audit := snd (version_record cd now rid action version (rq_path q) (rq_client q) (rq_tenant q) detail (vr_audit r))\<rparr>"
  proof (cases "negotiate (rq_version q) (rq_path q) (vr_policies r)")
    case (Inl e)
    then show ?thesis by (cases e) (auto simp: route_request_def)
  next
    case (Inr p)
    obtain v notice where p: "p = (v, notice)" by fastforce
    obtain b where "call_handler token v q r = Inr b" using assms(1) by blast
    then show ?thesis using Inr p by (auto simp: route_request_def assms(2) migrate_default)
  qed
  then obtain action version detail where "snd (route_request cd now rid token q r)
      = r\<lparr>vr_audit := snd (version_record cd now rid action version (rq_path q) (rq_client q) (rq_tenant q) detail (vr_audit r))\<rparr>" by blast
  then show ?thesis using routed_record by simp
qed

lemma route_answers:
  assumes "\<And>v. \<exists>b. call_handler token v q r = Inr b" and "vr_rules r = default_rules"
  shows "\<exists>resp. fst (route_request cd now rid token q r) = Inr resp
       \<and> (case version_of (rq_version q) of
            None \<Rightarrow> rs_status resp = 400
          | Some v \<Rightarrow> (case od_get (vr_policies r) v of
                None \<Rightarrow> rs_status resp = 400
              | Some p \<Rightarrow> if vp_status p = SunsetVersion then rs_status resp = 410
                  else if (case endpoint_versions (rq_path q) of Some vs \<Rightarrow> v \<in> set vs | None \<Rightarrow> True)
                  then (\<exists>b. call_handler token v q r = Inr b \<and> rs_status resp = 200 \<and> rs_version resp = v
                      \<and> rs_body resp = migrated (vr_canonical r) v b \<and> (rs_notice resp \<noteq> None) = (vp_status p = DeprecatedVersion))
                  else rs_status resp = 400))"
proof (cases "version_of (rq_version q)")
  case None
  then show ?thesis by (simp add: route_request_def negotiate_def mismatch_response_def)
next
  case v: (Some v)
  obtain b where b: "call_handler token v q r = Inr b" using assms(1) by blast
  show ?thesis
  proof (cases "od_get (vr_policies r) v")
    case None
    then show ?thesis using v by (simp add: route_request_def negotiate_def mismatch_response_def)
  next
    case p: (Some p)
    show ?thesis
    proof (cases "vp_status p = SunsetVersion")
      case True
      then show ?thesis using v p by (simp add: route_request_def negotiate_def sunset_response_def)
    next
      case live: False
      have n: "(deprecation_of v endpoint p \<noteq> None) = (vp_status p = DeprecatedVersion)" for endpoint by (simp add: deprecation_of_def)
      show ?thesis
      proof (cases "endpoint_versions (rq_path q)")
        case None
        then show ?thesis using v p live b n by (simp add: route_request_def negotiate_def assms(2) migrate_default)
      next
        case (Some vs)
        then show ?thesis using v p live b n
          by (cases "v \<in> set vs") (simp_all add: route_request_def negotiate_def assms(2) migrate_default mismatch_response_def)
      qed
    qed
  qed
qed

text \<open>
  With the rules of the code and handlers that do not raise, every request gets an answer: 410 when its version is
  sunset, 400 when its version is unknown, has no policy or is not offered at the path, and otherwise 200 with the body of the handler migrated
  to the version asked for. Exactly one record is added to the audit, sealed after the last.
\<close>

theorem every_request_is_answered_and_recorded:
  assumes "as_constructed r"
  shows "let out = route_request cd now rid token q r; offered = (\<lambda>v. case endpoint_versions (rq_path q) of Some vs \<Rightarrow> v \<in> set vs | None \<Rightarrow> True) in
    (\<exists>resp. fst out = Inr resp
       \<and> (case version_of (rq_version q) of
            None \<Rightarrow> rs_status resp = 400
          | Some v \<Rightarrow> (case od_get (vr_policies r) v of
                None \<Rightarrow> rs_status resp = 400
              | Some p \<Rightarrow> if vp_status p = SunsetVersion then rs_status resp = 410
                  else if offered v then (\<exists>b. call_handler token v q r = Inr b \<and> rs_status resp = 200 \<and> rs_version resp = v
                      \<and> rs_body resp = migrated (vr_canonical r) v b \<and> (rs_notice resp \<noteq> None) = (vp_status p = DeprecatedVersion))
                  else rs_status resp = 400)))
    \<and> (\<exists>e. snd out = r\<lparr>vr_audit := \<lparr>vl_records = take_last version_records_max (vl_records (vr_audit r) @ [e]),
          vl_seq = vl_seq (vr_audit r) + 1, vl_prev = va_hash e\<rparr>\<rparr> \<and> version_fits cd (vl_prev (vr_audit r)) e
          \<and> va_seq e = vl_seq (vr_audit r) \<and> va_endpoint e = rq_path q \<and> va_actor e = rq_client q)"
proof -
  have "\<exists>b. call_handler token v q r = Inr b" for v
    using assms by (auto simp: call_handler_def as_constructed_def split: option.split)
  moreover have "vr_rules r = default_rules" using assms by (simp add: as_constructed_def)
  ultimately show ?thesis unfolding Let_def by (intro conjI route_answers route_records)
qed

theorem every_request_is_answered_and_recorded_witness:
  "let cd = \<lparr>vc_hmac = id, vc_dumps = \<lambda>_. [], vc_repr = id\<rparr>; r = new_version_router cd;
       q = \<lparr>rq_path = ''/api/ea/config'', rq_version = '' V1'', rq_client = ''c'', rq_tenant = None, rq_body = None\<rparr>;
       out = route_request cd 5 ''j'' ''t'' q r; offered = (\<lambda>v. case endpoint_versions (rq_path q) of Some vs \<Rightarrow> v \<in> set vs | None \<Rightarrow> True) in
    (\<exists>resp. fst out = Inr resp
       \<and> (case version_of (rq_version q) of
            None \<Rightarrow> rs_status resp = 400
          | Some v \<Rightarrow> (case od_get (vr_policies r) v of
                None \<Rightarrow> rs_status resp = 400
              | Some p \<Rightarrow> if vp_status p = SunsetVersion then rs_status resp = 410
                  else if offered v then (\<exists>b. call_handler ''t'' v q r = Inr b \<and> rs_status resp = 200 \<and> rs_version resp = v
                      \<and> rs_body resp = migrated (vr_canonical r) v b \<and> (rs_notice resp \<noteq> None) = (vp_status p = DeprecatedVersion))
                  else rs_status resp = 400)))
    \<and> (\<exists>e. snd out = r\<lparr>vr_audit := \<lparr>vl_records = take_last version_records_max (vl_records (vr_audit r) @ [e]),
          vl_seq = vl_seq (vr_audit r) + 1, vl_prev = va_hash e\<rparr>\<rparr> \<and> version_fits cd (vl_prev (vr_audit r)) e
          \<and> va_seq e = vl_seq (vr_audit r) \<and> va_endpoint e = rq_path q \<and> va_actor e = rq_client q)"
proof -
  have "as_constructed (new_version_router cd)" for cd by (simp add: as_constructed_def new_version_router_def)
  from every_request_is_answered_and_recorded [OF this] show ?thesis unfolding Let_def .
qed

subsection \<open>The audit chain verifies until records are dropped\<close>

interpretation version_links: linked_chain "version_fits cd" va_hash "version_seal cd" va_prev for cd
  by unfold_locales (auto simp: version_fits_def version_seal_def version_hash_def version_canonical_def)

definition version_trail_ok :: "version_codec \<Rightarrow> version_audit \<Rightarrow> bool" where
  "version_trail_ok cd a \<longleftrightarrow> 0 < vl_seq a
     \<and> version_links.tail_ok cd (version_genesis cd) version_records_max (vl_records a) (vl_prev a) (vl_seq a - 1)"

lemma record_keeps_trail: "version_trail_ok cd a \<Longrightarrow> version_trail_ok cd (snd (version_record cd now rid action version endpoint actor tenant detail a))"
  using version_links.tail_push [of cd "version_genesis cd" version_records_max "vl_records a" "vl_prev a" "vl_seq a - 1"]
  by (simp add: version_trail_ok_def version_record_def Let_def version_records_max_def)

lemma step_keeps_trail: "version_trail_ok cd (vr_audit r) \<Longrightarrow> version_trail_ok cd (vr_audit (version_step cd e r))"
  by (cases e) (auto simp: route_request_def force_sunset_def router_deprecate_def add_handler_def register_rule_def Let_def record_keeps_trail
      split: sum.split version_error.split prod.split)

interpretation version_runs: guarded_state "version_step cd" "\<lambda>r. version_trail_ok cd (vr_audit r)" for cd
  by unfold_locales (rule step_keeps_trail)

lemma version_audit_verifies:
  assumes "vl_seq (vr_audit (fold (version_step cd) es (new_version_router cd))) \<le> version_records_max"
  shows "version_verify cd (vr_audit (fold (version_step cd) es (new_version_router cd)))"
proof -
  have "version_trail_ok cd (vr_audit (new_version_router cd))"
    by (simp add: new_version_router_def new_version_audit_def version_trail_ok_def version_links.tail_new)
  then have "version_trail_ok cd (vr_audit (fold (version_step cd) es (new_version_router cd)))" by (rule version_runs.run_good)
  then show ?thesis using assms version_links.tail_verifies
    unfolding version_trail_ok_def version_verify_def by (metis diff_le_self le_trans)
qed

subsection \<open>Breaking changes\<close>

lemma od_get_fold_put:
  "od_get (fold (\<lambda>f. od_put (fd_name f) f) fs d) k = None \<longleftrightarrow> od_get d k = None \<and> k \<notin> fd_name ` set fs"
  by (induction fs arbitrary: d) auto

text \<open>With distinct field names the detector names exactly the required fields that are gone.\<close>

lemma breaking_changes_exact:
  assumes "distinct (map fd_name (fields_for a s))"
  shows "set (breaking_changes s t a b) = {fd_name f | f. f \<in> set (fields_for a s) \<and> fd_required f \<and> fd_name f \<notin> fd_name ` set (fields_for b t)}"
proof -
  have same: "fold (\<lambda>f. od_put (fd_name f) f) fs d = d @ map (\<lambda>f. (fd_name f, f)) fs"
    if "distinct (map fd_name fs)" "fst ` set d \<inter> fd_name ` set fs = {}" for fs d
    using that by (induction fs arbitrary: d) (auto simp: od_put_new)
  show ?thesis using same [OF assms, of "[]"] by (auto simp: breaking_changes_def od_get_fold_put image_iff)
qed

end
