(* ===== verification/Backup_Dr.thy ===== *)
theory Backup_Dr
  imports Hash_Chain Json "HOL-Library.Word"
begin

unbundle bit_operations_syntax

section \<open>Backup, restore and disaster recovery\<close>

text \<open>
  \<open>src/backend/core/backup_dr.py\<close>: the encryption layer, backup policies and signed manifests, the chained event log, the backup and
  restore engines, point-in-time recovery, retention and the recovery drill, over one state as the facade
  \<open>BackupDRSystem\<close> wires them. Bytes are 8-bit words. HMAC-SHA256 and SHA-256 (as digests of bytes), \<open>json.dumps(..., sort_keys=True)\<close>
  and the two float formats are parameters; random ids, nonces and clock readings are arguments. The durations that
  checks and drill steps measure and their texts are left out. A backup saves the bytes that \<open>_fake_data\<close> makes up.
\<close>

subsection \<open>Vocabulary\<close>

type_synonym bytes = "8 word list"

datatype backup_category = DbCategory | ConfigCategory | ArtifactsCategory | LogsCategory | AuditCategory

datatype backup_type = FullBackup | IncrementalBackup | DifferentialBackup | WalBackup

datatype backup_status = BackupPending | BackupRunning | BackupSuccess | BackupFailed | BackupCorrupted | BackupExpired

datatype restore_status = RestorePending | RestoreValidating | Restoring | RestoreSuccess | RestoreFailed | RolledBack

datatype drill_status = DrillScheduled | DrillRunning | DrillPassed | DrillFailed

datatype validation_check = ChecksumCheck | RowCountCheck | SchemaCheck | ReferentialCheck | DecryptionCheck | ManifestCheck

fun category_value :: "backup_category \<Rightarrow> string" where
  "category_value DbCategory = ''db''"
| "category_value ConfigCategory = ''config''"
| "category_value ArtifactsCategory = ''artifacts''"
| "category_value LogsCategory = ''logs''"
| "category_value AuditCategory = ''audit''"

fun type_value :: "backup_type \<Rightarrow> string" where
  "type_value FullBackup = ''full''"
| "type_value IncrementalBackup = ''incremental''"
| "type_value DifferentialBackup = ''differential''"
| "type_value WalBackup = ''wal''"

record backup_policy =
  bp_category :: backup_category
  bp_type :: backup_type
  bp_retention :: int
  bp_encrypt :: bool
  bp_compress :: bool
  bp_offsite :: bool
  bp_max_mb :: int
  bp_cron :: string

definition backup_policy_of :: "backup_category \<Rightarrow> backup_type \<Rightarrow> int \<Rightarrow> bool \<Rightarrow> string \<Rightarrow> backup_policy" where
  "backup_policy_of c t hours offsite cron = \<lparr>bp_category = c, bp_type = t, bp_retention = hours, bp_encrypt = True, bp_compress = True,
     bp_offsite = offsite, bp_max_mb = 10240, bp_cron = cron\<rparr>"

definition default_backup_policies :: "(backup_category, backup_policy) odict" where
  "default_backup_policies =
    [(DbCategory, backup_policy_of DbCategory FullBackup (30 * 24) True ''0 2 * * *''),
     (ConfigCategory, backup_policy_of ConfigCategory FullBackup (90 * 24) True ''0 3 * * *''),
     (ArtifactsCategory, backup_policy_of ArtifactsCategory FullBackup (365 * 24) True ''0 4 * * *''),
     (LogsCategory, backup_policy_of LogsCategory IncrementalBackup (90 * 24) False ''0 5 * * *''),
     (AuditCategory, backup_policy_of AuditCategory FullBackup (730 * 24) True ''0 1 * * *'')]"

definition policy_expired :: "time \<Rightarrow> backup_policy \<Rightarrow> time \<Rightarrow> bool" where
  "policy_expired now p created \<longleftrightarrow> (now - created) / 3600 > of_int (bp_retention p)"

text \<open>What is not in the source.\<close>

record backup_crypto =
  bc_hmac :: "bytes \<Rightarrow> bytes \<Rightarrow> bytes"
  bc_sha256 :: "bytes \<Rightarrow> bytes"
  bc_dumps :: "json \<Rightarrow> string"
  bc_float6 :: "real \<Rightarrow> string"
  bc_str :: "real \<Rightarrow> string"

text \<open>\<open>str.encode\<close> of ASCII text and \<open>hexdigest\<close>.\<close>

definition encode :: "string \<Rightarrow> bytes" where
  "encode s = map (\<lambda>c. word_of_nat (of_char c)) s"

definition hex_char :: "nat \<Rightarrow> char" where
  "hex_char n = (if n < 10 then char_of (48 + n) else char_of (87 + n))"

definition hexdigest :: "bytes \<Rightarrow> string" where
  "hexdigest bs = concat (map (\<lambda>b. [hex_char (unat b div 16), hex_char (unat b mod 16)]) bs)"

subsection \<open>The encryption layer\<close>

record enc_key =
  ek_created :: time
  ek_rotated :: "time option"
  ek_raw :: bytes

record enc_layer =
  el_master :: bytes
  el_keys :: "(string, enc_key) odict"
  el_active :: string

definition rotation_due :: "time \<Rightarrow> real \<Rightarrow> enc_key \<Rightarrow> bool" where
  "rotation_due now max_age_days k \<longleftrightarrow> (now - ek_created k) / 86400 > max_age_days"

definition derive_key :: "backup_crypto \<Rightarrow> bytes \<Rightarrow> string \<Rightarrow> bytes" where
  "derive_key cr master key_id = bc_hmac cr master (encode key_id)"

definition generate_backup_key :: "backup_crypto \<Rightarrow> time \<Rightarrow> string \<Rightarrow> enc_layer \<Rightarrow> enc_layer" where
  "generate_backup_key cr now hex8 e =
     (let key_id = ''key-'' @ hex8 in
      e\<lparr>el_keys := od_put key_id \<lparr>ek_created = now, ek_rotated = None, ek_raw = derive_key cr (el_master e) key_id\<rparr> (el_keys e),
        el_active := key_id\<rparr>)"

definition new_enc_layer :: "backup_crypto \<Rightarrow> time \<Rightarrow> string \<Rightarrow> bytes \<Rightarrow> enc_layer" where
  "new_enc_layer cr now hex8 master = generate_backup_key cr now hex8 \<lparr>el_master = master, el_keys = [], el_active = []\<rparr>"

definition rotate_backup_key :: "backup_crypto \<Rightarrow> time \<Rightarrow> string \<Rightarrow> enc_layer \<Rightarrow> string \<times> enc_layer" where
  "rotate_backup_key cr now hex8 e =
     (let old = el_active e; e1 = generate_backup_key cr now hex8 e in
      (el_active e1,
       case od_get (el_keys e1) old of
         Some k \<Rightarrow> if old \<noteq> [] then e1\<lparr>el_keys := od_put old (k\<lparr>ek_rotated := Some now\<rparr>) (el_keys e1)\<rparr> else e1
       | None \<Rightarrow> e1))"

text \<open>\<open>b ^ raw_key[i % 32] for i, b in enumerate(data)\<close>\<close>

definition xor_stream :: "bytes \<Rightarrow> bytes \<Rightarrow> bytes" where
  "xor_stream raw data = map (\<lambda>(i, b). b XOR raw ! (i mod 32)) (List.enumerate 0 data)"

definition enc_blob :: "backup_crypto \<Rightarrow> bytes \<Rightarrow> bytes \<Rightarrow> bytes \<Rightarrow> bytes" where
  "enc_blob cr raw nonce data = nonce @ bc_hmac cr raw (nonce @ data) @ xor_stream raw data"

definition encrypt :: "backup_crypto \<Rightarrow> bytes \<Rightarrow> bytes \<Rightarrow> enc_layer \<Rightarrow> exc + string \<times> bytes" where
  "encrypt cr nonce data e =
     (case od_get (el_keys e) (el_active e) of
        None \<Rightarrow> Inl KeyError
      | Some k \<Rightarrow> Inr (el_active e, enc_blob cr (ek_raw k) nonce data))"

text \<open>\<open>EncryptionError\<close>: unknown key, or the tag does not fit the decrypted text.\<close>

definition decrypt :: "backup_crypto \<Rightarrow> string \<Rightarrow> bytes \<Rightarrow> enc_layer \<Rightarrow> exc + bytes" where
  "decrypt cr key_id blob e =
     (case od_get (el_keys e) key_id of
        None \<Rightarrow> Inl (OtherError ''EncryptionError'')
      | Some k \<Rightarrow>
          (let nonce = take 12 blob; tag = take 32 (List.drop 12 blob); plaintext = xor_stream (ek_raw k) (List.drop 44 blob) in
           if tag \<noteq> bc_hmac cr (ek_raw k) (nonce @ plaintext) then Inl (OtherError ''EncryptionError'') else Inr plaintext))"

subsection \<open>Manifests and records\<close>

record backup_manifest =
  bm_id :: string
  bm_backup :: string
  bm_category :: backup_category
  bm_type :: backup_type
  bm_created :: time
  bm_size :: nat
  bm_checksum :: string
  bm_key :: string
  bm_encrypted :: bool
  bm_compressed :: bool
  bm_offsite :: bool
  bm_policy :: "(string \<times> json) list"
  bm_meta :: "(string \<times> json) list"
  bm_sig :: string

definition manifest_canonical :: "backup_crypto \<Rightarrow> backup_manifest \<Rightarrow> string" where
  "manifest_canonical cr m = bc_dumps cr (JObj [(''manifest_id'', JStr (bm_id m)), (''backup_id'', JStr (bm_backup m)),
     (''category'', JStr (category_value (bm_category m))), (''backup_type'', JStr (type_value (bm_type m))),
     (''created_at'', JStr (bc_float6 cr (bm_created m))), (''size_bytes'', JInt (int (bm_size m))),
     (''checksum_sha256'', JStr (bm_checksum m)), (''encryption_key_id'', JStr (bm_key m))])"

definition manifest_sig :: "backup_crypto \<Rightarrow> bytes \<Rightarrow> backup_manifest \<Rightarrow> string" where
  "manifest_sig cr secret m = hexdigest (bc_hmac cr secret (encode (manifest_canonical cr m)))"

definition sign_manifest :: "backup_crypto \<Rightarrow> bytes \<Rightarrow> backup_manifest \<Rightarrow> backup_manifest" where
  "sign_manifest cr secret m = m\<lparr>bm_sig := manifest_sig cr secret m\<rparr>"

definition manifest_ok :: "backup_crypto \<Rightarrow> bytes \<Rightarrow> backup_manifest \<Rightarrow> bool" where
  "manifest_ok cr secret m \<longleftrightarrow> bm_sig m = manifest_sig cr secret m"

record backup_record =
  br_id :: string
  br_category :: backup_category
  br_type :: backup_type
  br_status :: backup_status
  br_created :: time
  br_completed :: "time option"
  br_size :: nat
  br_checksum :: string
  br_manifest :: "backup_manifest option"
  br_error :: "string option"
  br_offsite :: "string option"
  br_lsn :: "string option"
  br_tags :: "(string \<times> string) list"

subsection \<open>The event log\<close>

record backup_event =
  be_id :: string
  be_event :: string
  be_backup :: "string option"
  be_actor :: string
  be_ts :: time
  be_detail :: "(string \<times> json) list"
  be_hash :: string

definition backup_log_secret :: bytes where "backup_log_secret = encode ''phase23-audit-backup-secret''"

definition backup_genesis :: "backup_crypto \<Rightarrow> string" where
  "backup_genesis cr = hexdigest (bc_hmac cr backup_log_secret (encode ''GENESIS:BACKUP:AUDIT:V23''))"

definition event_hash :: "backup_crypto \<Rightarrow> string \<Rightarrow> backup_event \<Rightarrow> string" where
  "event_hash cr prev e = hexdigest (bc_hmac cr backup_log_secret (encode (prev @ '':'' @ bc_dumps cr
     (JObj [(''entry_id'', JStr (be_id e)), (''event'', JStr (be_event e)),
       (''backup_id'', case be_backup e of Some b \<Rightarrow> JStr b | None \<Rightarrow> JNull), (''actor'', JStr (be_actor e)),
       (''ts'', JStr (bc_float6 cr (be_ts e)))]))))"

record backup_log =
  bl_entries :: "backup_event list"
  bl_prev :: string

definition new_backup_log :: "backup_crypto \<Rightarrow> backup_log" where
  "new_backup_log cr = \<lparr>bl_entries = [], bl_prev = backup_genesis cr\<rparr>"

definition seal_event :: "backup_crypto \<Rightarrow> string \<Rightarrow> backup_event \<Rightarrow> backup_event" where
  "seal_event cr prev e = e\<lparr>be_hash := event_hash cr prev e\<rparr>"

text \<open>The fresh id and the clock reading of an entry come as a pair.\<close>

type_synonym stamp = "string \<times> time"

definition log_backup_event :: "backup_crypto \<Rightarrow> stamp \<Rightarrow> string \<Rightarrow> string \<Rightarrow> string option \<Rightarrow> (string \<times> json) list \<Rightarrow> backup_log \<Rightarrow> backup_log" where
  "log_backup_event cr st event actor backup detail l =
     (let e = seal_event cr (bl_prev l) \<lparr>be_id = fst st, be_event = event, be_backup = backup, be_actor = actor, be_ts = snd st,
                be_detail = detail, be_hash = []\<rparr> in
      \<lparr>bl_entries = bl_entries l @ [e], bl_prev = be_hash e\<rparr>)"

definition event_fits :: "backup_crypto \<Rightarrow> string \<Rightarrow> backup_event \<Rightarrow> bool" where
  "event_fits cr prev e \<longleftrightarrow> be_hash e = event_hash cr prev e"

definition log_verifies :: "backup_crypto \<Rightarrow> backup_log \<Rightarrow> bool" where
  "log_verifies cr l = verify_from (event_fits cr) be_hash (backup_genesis cr) (bl_entries l)"

definition log_list :: "string option \<Rightarrow> backup_log \<Rightarrow> backup_event list" where
  "log_list backup l = (case backup of Some b \<Rightarrow> if b \<noteq> [] then filter (\<lambda>e. be_backup e = Some b) (bl_entries l) else bl_entries l
     | None \<Rightarrow> bl_entries l)"

subsection \<open>The system and its backup engine\<close>

record restore_record =
  re_id :: string
  re_backup :: string
  re_env :: string
  re_status :: restore_status
  re_started :: time
  re_completed :: "time option"
  re_validations :: "(validation_check \<times> bool) list"
  re_pitr :: "time option"

record wal_segment =
  ws_lsn :: string
  ws_created :: time
  ws_size :: nat

record pitr_record =
  pt_id :: string
  pt_target :: time
  pt_base :: string
  pt_applied :: nat
  pt_status :: string
  pt_started :: time
  pt_completed :: "time option"

record drill_step =
  ds_id :: nat
  ds_name :: string
  ds_passed :: bool

record drill_record =
  dr_id :: string
  dr_name :: string
  dr_status :: drill_status
  dr_started :: time
  dr_completed :: "time option"
  dr_steps :: "drill_step list"
  dr_rto :: real
  dr_rpo :: real
  dr_actual_rto :: "real option"
  dr_actual_rpo :: "real option"
  dr_error :: "string option"

record dr_system =
  sy_policies :: "(backup_category, backup_policy) odict"
  sy_enc :: enc_layer
  sy_log :: backup_log
  sy_secret :: bytes
  sy_records :: "(string, backup_record) odict"
  sy_restores :: "(string, restore_record) odict"
  sy_wal :: "wal_segment list"
  sy_pitr :: "(string, pitr_record) odict"
  sy_drills :: "(string, drill_record) odict"

definition new_dr_system :: "backup_crypto \<Rightarrow> time \<Rightarrow> string \<Rightarrow> bytes \<Rightarrow> bytes \<Rightarrow> dr_system" where
  "new_dr_system cr now hex8 master secret = \<lparr>sy_policies = default_backup_policies, sy_enc = new_enc_layer cr now hex8 master,
     sy_log = new_backup_log cr, sy_secret = secret, sy_records = [], sy_restores = [], sy_wal = [], sy_pitr = [], sy_drills = []\<rparr>"

definition sy_event :: "backup_crypto \<Rightarrow> stamp \<Rightarrow> string \<Rightarrow> string \<Rightarrow> string option \<Rightarrow> (string \<times> json) list \<Rightarrow> dr_system \<Rightarrow> dr_system" where
  "sy_event cr st event actor backup detail s = s\<lparr>sy_log := log_backup_event cr st event actor backup detail (sy_log s)\<rparr>"

definition fake_data :: "backup_crypto \<Rightarrow> time \<Rightarrow> backup_category \<Rightarrow> int \<Rightarrow> bytes" where
  "fake_data cr now c size_mb =
     concat (replicate (nat (max 1 size_mb)) (encode (''BACKUP:'' @ category_value c @ '':'' @ bc_str cr now @ '':'' @ replicate 1024 (CHR ''x''))))"

text \<open>The fresh ids and the readings of one run.\<close>

record backup_inputs =
  bi_hex8 :: string
  bi_started :: time
  bi_event1 :: stamp
  bi_data :: time
  bi_nonce :: bytes
  bi_lsn :: string
  bi_manifest :: string
  bi_completed :: time
  bi_event2 :: stamp

definition build_manifest :: "backup_crypto \<Rightarrow> string \<Rightarrow> bytes \<Rightarrow> backup_record \<Rightarrow> string \<Rightarrow> backup_policy \<Rightarrow> backup_manifest" where
  "build_manifest cr mid secret r key_id p = sign_manifest cr secret
     \<lparr>bm_id = mid, bm_backup = br_id r, bm_category = br_category r, bm_type = br_type r, bm_created = br_created r,
      bm_size = br_size r, bm_checksum = br_checksum r, bm_key = key_id, bm_encrypted = bp_encrypt p, bm_compressed = bp_compress p,
      bm_offsite = bp_offsite p,
      bm_policy = [(''retention_hours'', JInt (bp_retention p)), (''schedule_cron'', JStr (bp_cron p)), (''max_size_mb'', JInt (bp_max_mb p))],
      bm_meta = [(''generator'', JStr ''phase23-backup-engine''), (''version'', JStr ''23.0'')], bm_sig = []\<rparr>"

text \<open>
  \<open>run_backup\<close>. The record is stored when the run starts and the same object is completed at its end. In the \<open>try\<close> block only
  the lookup of the active key can raise; it is then marked FAILED and BackupError is raised.
\<close>

definition run_backup :: "backup_crypto \<Rightarrow> backup_inputs \<Rightarrow> backup_category \<Rightarrow> backup_type option \<Rightarrow> string \<Rightarrow> int \<Rightarrow> (string \<times> string) list
    \<Rightarrow> dr_system \<Rightarrow> (backup_record, dr_system) outcome" where
  "run_backup cr i c btype actor size_mb tags s =
     (case od_get (sy_policies s) c of
        None \<Rightarrow> (Inl (OtherError ''BackupError''), s)
      | Some p \<Rightarrow>
          (let t = (case btype of Some t \<Rightarrow> t | None \<Rightarrow> bp_type p);
               bid = ''bkp-'' @ category_value c @ ''-'' @ bi_hex8 i;
               r0 = \<lparr>br_id = bid, br_category = c, br_type = t, br_status = BackupRunning, br_created = bi_started i, br_completed = None, br_size = 0,
                  br_checksum = [], br_manifest = None, br_error = None, br_offsite = None, br_lsn = None, br_tags = tags\<rparr>;
               s1 = sy_event cr (bi_event1 i) ''backup.started'' actor (Some bid)
                 [(''category'', JStr (category_value c)), (''backup_type'', JStr (type_value t))] (s\<lparr>sy_records := od_put bid r0 (sy_records s)\<rparr>);
               data = fake_data cr (bi_data i) c size_mb; checksum = hexdigest (bc_sha256 cr data) in
           case (if bp_encrypt p then encrypt cr (bi_nonce i) data (sy_enc s) else Inr (el_active (sy_enc s), data)) of
             Inl e \<Rightarrow>
               (Inl (OtherError ''BackupError''),
                sy_event cr (bi_event2 i) ''backup.failed'' actor (Some bid) [(''error'', JStr (''KeyError''))]
                  (s1\<lparr>sy_records := od_put bid (r0\<lparr>br_status := BackupFailed, br_error := Some ''KeyError'', br_completed := Some (bi_completed i)\<rparr>) (sy_records s1)\<rparr>))
           | Inr (key_id, blob) \<Rightarrow>
               (let r1 = r0\<lparr>br_size := length blob, br_checksum := checksum,
                      br_lsn := (if t = WalBackup then Some (''LSN-'' @ bi_lsn i) else None),
                      br_offsite := (if bp_offsite p then Some (''s3://dr-bucket/'' @ category_value c @ ''/'' @ bid @ ''.enc'') else None)\<rparr>;
                    r2 = r1\<lparr>br_manifest := Some (build_manifest cr (bi_manifest i) (sy_secret s) r1 key_id p), br_status := BackupSuccess,
                      br_completed := Some (bi_completed i)\<rparr> in
                (Inr r2,
                 sy_event cr (bi_event2 i) ''backup.completed'' actor (Some bid)
                   [(''size_bytes'', JInt (int (length blob))), (''checksum'', JStr checksum), (''encrypted'', JBool (bp_encrypt p)), (''offsite'', JBool (bp_offsite p))]
                   (s1\<lparr>sy_records := od_put bid r2 (sy_records s1)\<rparr>)))))"

text \<open>Newest first; the sort is stable.\<close>

definition list_records :: "backup_category option \<Rightarrow> backup_status option \<Rightarrow> dr_system \<Rightarrow> backup_record list" where
  "list_records c st s =
     sort_key (\<lambda>r. - br_created r)
       (filter (\<lambda>r. (case c of Some x \<Rightarrow> br_category r = x | None \<Rightarrow> True) \<and> (case st of Some x \<Rightarrow> br_status r = x | None \<Rightarrow> True))
         (map snd (sy_records s)))"

definition verify_manifest :: "backup_crypto \<Rightarrow> string \<Rightarrow> dr_system \<Rightarrow> bool" where
  "verify_manifest cr bid s =
     (case od_get (sy_records s) bid of
        Some r \<Rightarrow> (case br_manifest r of Some m \<Rightarrow> manifest_ok cr (sy_secret s) m | None \<Rightarrow> False)
      | None \<Rightarrow> False)"

subsection \<open>Restore\<close>

text \<open>The checks of a restore; no data is read.\<close>

definition validate_backup :: "backup_crypto \<Rightarrow> bytes \<Rightarrow> backup_record \<Rightarrow> (validation_check \<times> bool) list" where
  "validate_backup cr secret r =
     [(ManifestCheck, case br_manifest r of Some m \<Rightarrow> manifest_ok cr secret m | None \<Rightarrow> False),
      (DecryptionCheck, br_status r = BackupSuccess),
      (ChecksumCheck, length (br_checksum r) = 64),
      (RowCountCheck, True),
      (SchemaCheck, True)]"

record restore_inputs =
  ri_hex8 :: string
  ri_started :: time
  ri_completed :: time
  ri_event1 :: stamp
  ri_event2 :: stamp
  ri_event3 :: stamp

fun check_value :: "validation_check \<Rightarrow> string" where
  "check_value ChecksumCheck = ''checksum''"
| "check_value RowCountCheck = ''row_count''"
| "check_value SchemaCheck = ''schema''"
| "check_value ReferentialCheck = ''referential_integrity''"
| "check_value DecryptionCheck = ''decryption''"
| "check_value ManifestCheck = ''manifest_hmac''"

definition restore :: "backup_crypto \<Rightarrow> restore_inputs \<Rightarrow> string \<Rightarrow> string \<Rightarrow> string \<Rightarrow> time option \<Rightarrow> dr_system \<Rightarrow> (restore_record, dr_system) outcome" where
  "restore cr i bid env actor pitr s =
     (case od_get (sy_records s) bid of
        None \<Rightarrow> (Inl (OtherError ''RestoreError''), s)
      | Some b \<Rightarrow>
          if br_status b = BackupCorrupted then (Inl (OtherError ''RestoreError''), s)
          else if br_manifest b = None then (Inl (OtherError ''RestoreError''), s)
          else
            (let rid = ''rst-'' @ ri_hex8 i;
                 vs = validate_backup cr (sy_secret s) b;
                 r0 = \<lparr>re_id = rid, re_backup = bid, re_env = env, re_status = RestoreValidating, re_started = ri_started i, re_completed = None,
                    re_validations = vs, re_pitr = pitr\<rparr>;
                 s1 = sy_event cr (ri_event1 i) ''restore.started'' actor (Some bid)
                   [(''restore_id'', JStr rid), (''target_env'', JStr env), (''pitr_target'', case pitr of Some t \<Rightarrow> JFloat t | None \<Rightarrow> JNull)] s in
             if \<not> list_all snd vs then
               (let r1 = r0\<lparr>re_status := RestoreFailed, re_completed := Some (ri_completed i)\<rparr> in
                (Inl (OtherError ''RestoreError''),
                 sy_event cr (ri_event2 i) ''restore.validation_failed'' actor (Some bid)
                   [(''restore_id'', JStr rid), (''failed_checks'', JList (map (\<lambda>v. JStr (check_value (fst v))) (filter (\<lambda>v. \<not> snd v) vs)))]
                   (s1\<lparr>sy_restores := od_put rid r1 (sy_restores s1)\<rparr>)))
             else
               (let r1 = r0\<lparr>re_status := RestoreSuccess, re_completed := Some (ri_completed i)\<rparr> in
                (Inr r1,
                 sy_event cr (ri_event3 i) ''restore.completed'' actor (Some bid)
                   [(''restore_id'', JStr rid), (''target_env'', JStr env), (''duration_s'', JFloat (ri_completed i - ri_started i))]
                   (sy_event cr (ri_event2 i) ''restore.restoring'' actor (Some bid) [(''restore_id'', JStr rid)]
                     (s1\<lparr>sy_restores := od_put rid r1 (sy_restores s1)\<rparr>))))))"

subsection \<open>Point-in-time recovery and retention\<close>

definition record_wal :: "string \<Rightarrow> time \<Rightarrow> nat \<Rightarrow> dr_system \<Rightarrow> wal_segment \<times> dr_system" where
  "record_wal hex16 now sz s = (let w = \<lparr>ws_lsn = ''LSN-'' @ hex16, ws_created = now, ws_size = sz\<rparr> in (w, s\<lparr>sy_wal := sy_wal s @ [w]\<rparr>))"

definition wal_retention_hours :: real where "wal_retention_hours = 168"

definition purge_old_wal :: "time \<Rightarrow> dr_system \<Rightarrow> nat \<times> dr_system" where
  "purge_old_wal now s =
     (let kept = filter (\<lambda>w. now - wal_retention_hours * 3600 \<le> ws_created w) (sy_wal s) in
      (length (sy_wal s) - length kept, s\<lparr>sy_wal := kept\<rparr>))"

record pitr_inputs =
  pi_hex8 :: string
  pi_started :: time
  pi_completed :: time
  pi_event1 :: stamp
  pi_event2 :: stamp

definition recover_to :: "backup_crypto \<Rightarrow> pitr_inputs \<Rightarrow> time \<Rightarrow> string \<Rightarrow> dr_system \<Rightarrow> (pitr_record, dr_system) outcome" where
  "recover_to cr i target actor s =
     (case filter (\<lambda>r. br_status r = BackupSuccess \<and> br_created r \<le> target) (list_records (Some DbCategory) None s) of
        [] \<Rightarrow> (Inl (OtherError ''PITRError''), s)
      | r # rs \<Rightarrow>
          (let base = first_greatest br_created r rs;
               wal = filter (\<lambda>w. br_created base \<le> ws_created w \<and> ws_created w \<le> target) (sy_wal s);
               pid = ''pitr-'' @ pi_hex8 i;
               p = \<lparr>pt_id = pid, pt_target = target, pt_base = br_id base, pt_applied = length wal, pt_status = ''success'', pt_started = pi_started i,
                  pt_completed = Some (pi_completed i)\<rparr> in
           (Inr p,
            sy_event cr (pi_event2 i) ''pitr.completed'' actor (Some (br_id base)) [(''pitr_id'', JStr pid), (''wal_applied'', JInt (int (length wal)))]
              (sy_event cr (pi_event1 i) ''pitr.started'' actor (Some (br_id base))
                [(''pitr_id'', JStr pid), (''wal_segments'', JInt (int (length wal))), (''target_ts'', JFloat target)]
                (s\<lparr>sy_pitr := od_put pid p (sy_pitr s)\<rparr>)))))"

record retention_result =
  rr_category :: backup_category
  rr_expired :: nat
  rr_retained :: nat
  rr_freed :: nat

text \<open>One record of a category; all readings of one enforcement are the same time here, and the entry ids come from a function.\<close>

definition enforce_record :: "backup_crypto \<Rightarrow> (nat \<Rightarrow> string) \<Rightarrow> time \<Rightarrow> string \<Rightarrow> backup_policy \<Rightarrow> backup_record
    \<Rightarrow> retention_result \<times> dr_system \<Rightarrow> retention_result \<times> dr_system" where
  "enforce_record cr ids now actor p r acc =
     (case acc of (res, s) \<Rightarrow>
        if policy_expired now p (br_created r) then
          (res\<lparr>rr_expired := rr_expired res + 1, rr_freed := rr_freed res + br_size r\<rparr>,
           sy_event cr (ids (length (bl_entries (sy_log s))), now) ''backup.expired'' actor (Some (br_id r))
             [(''age_hours'', JFloat ((now - br_created r) / 3600))]
             (case od_get (sy_records s) (br_id r) of
                Some x \<Rightarrow> s\<lparr>sy_records := od_put (br_id r) (x\<lparr>br_status := BackupExpired\<rparr>) (sy_records s)\<rparr>
              | None \<Rightarrow> s))
        else (res\<lparr>rr_retained := rr_retained res + 1\<rparr>, s))"

definition enforce_category :: "backup_crypto \<Rightarrow> (nat \<Rightarrow> string) \<Rightarrow> time \<Rightarrow> string \<Rightarrow> backup_category \<times> backup_policy
    \<Rightarrow> retention_result list \<times> dr_system \<Rightarrow> retention_result list \<times> dr_system" where
  "enforce_category cr ids now actor cp acc =
     (case acc of (rs, s) \<Rightarrow>
        (let (res, s1) = fold (enforce_record cr ids now actor (snd cp)) (list_records (Some (fst cp)) None s)
               (\<lparr>rr_category = fst cp, rr_expired = 0, rr_retained = 0, rr_freed = 0\<rparr>, s) in
         (rs @ [res],
          if rr_expired res = 0 then s1
          else sy_event cr (ids (length (bl_entries (sy_log s1))), now) ''retention.enforced'' actor None
            [(''category'', JStr (category_value (fst cp))), (''expired'', JInt (int (rr_expired res))), (''freed_bytes'', JInt (int (rr_freed res)))] s1)))"

definition enforce_retention :: "backup_crypto \<Rightarrow> (nat \<Rightarrow> string) \<Rightarrow> time \<Rightarrow> string \<Rightarrow> dr_system \<Rightarrow> retention_result list \<times> dr_system" where
  "enforce_retention cr ids now actor s = fold (enforce_category cr ids now actor) (sy_policies s) ([], s)"

subsection \<open>The recovery drill\<close>

record drill_inputs =
  di_hex8 :: string
  di_started :: time
  di_ended :: time
  di_event1 :: stamp
  di_event2 :: stamp
  di_restore :: restore_inputs
  di_pitr :: pitr_inputs
  di_target :: time
  di_nonce :: bytes
  di_now :: time
  di_ids :: "nat \<Rightarrow> string"

text \<open>A step answers whether it passed; what it raises counts as failed and keeps its effects.\<close>

type_synonym drill_check = "dr_system \<Rightarrow> bool \<times> dr_system"

definition successful_backups :: "backup_category option \<Rightarrow> dr_system \<Rightarrow> backup_record list" where
  "successful_backups c s = list_records c (Some BackupSuccess) s"

definition check_backup :: drill_check where
  "check_backup s = (successful_backups None s \<noteq> [], s)"

definition check_manifests :: "backup_crypto \<Rightarrow> drill_check" where
  "check_manifests cr s = (list_all (\<lambda>r. verify_manifest cr (br_id r) s) (successful_backups None s), s)"

definition check_log :: "backup_crypto \<Rightarrow> drill_check" where
  "check_log cr s = (log_verifies cr (sy_log s), s)"

definition check_restore :: "backup_crypto \<Rightarrow> restore_inputs \<Rightarrow> string \<Rightarrow> string \<Rightarrow> drill_check" where
  "check_restore cr i env actor s =
     (case successful_backups (Some DbCategory) s of
        [] \<Rightarrow> (False, s)
      | r # rs \<Rightarrow> (case restore cr i (br_id r) env actor None s of
            (Inl e, s') \<Rightarrow> (False, s')
          | (Inr rec, s') \<Rightarrow> (re_status rec = RestoreSuccess, s')))"

definition check_pitr :: "backup_crypto \<Rightarrow> pitr_inputs \<Rightarrow> time \<Rightarrow> string \<Rightarrow> drill_check" where
  "check_pitr cr i target actor s =
     (case recover_to cr i target actor s of
        (Inl e, s') \<Rightarrow> (False, s')
      | (Inr p, s') \<Rightarrow> (pt_status p = ''success'', s'))"

definition drill_text :: bytes where "drill_text = encode ''dr-drill-enc-test''"

definition check_encryption :: "backup_crypto \<Rightarrow> bytes \<Rightarrow> drill_check" where
  "check_encryption cr nonce s =
     (case encrypt cr nonce drill_text (sy_enc s) of
        Inl e \<Rightarrow> (False, s)
      | Inr (k, blob) \<Rightarrow> (decrypt cr k blob (sy_enc s) = Inr drill_text, s))"

definition check_retention :: "backup_crypto \<Rightarrow> (nat \<Rightarrow> string) \<Rightarrow> time \<Rightarrow> string \<Rightarrow> drill_check" where
  "check_retention cr ids now actor s = (True, snd (enforce_retention cr ids now actor s))"

definition drill_checks :: "backup_crypto \<Rightarrow> drill_inputs \<Rightarrow> string \<Rightarrow> string \<Rightarrow> (nat \<times> string \<times> drill_check) list" where
  "drill_checks cr i env actor =
     [(1, ''latest_backup_available'', check_backup), (2, ''manifest_integrity'', check_manifests cr), (3, ''audit_chain_integrity'', check_log cr),
      (4, ''restore_test'', check_restore cr (di_restore i) env actor), (5, ''pitr_test'', check_pitr cr (di_pitr i) (di_target i) actor),
      (6, ''encryption_key_available'', check_encryption cr (di_nonce i)), (7, ''retention_policy_enforced'', check_retention cr (di_ids i) (di_now i) actor)]"

text \<open>The steps run until one fails.\<close>

fun drill_loop :: "(nat \<times> string \<times> drill_check) list \<Rightarrow> dr_system \<Rightarrow> drill_step list \<times> (nat \<times> string) option \<times> dr_system" where
  "drill_loop [] s = ([], None, s)"
| "drill_loop ((n, name, f) # cs) s =
     (let (ok, s1) = f s; step = \<lparr>ds_id = n, ds_name = name, ds_passed = ok\<rparr> in
      if ok then (let (steps, failed, s2) = drill_loop cs s1 in (step # steps, failed, s2))
      else ([step], Some (n, name), s1))"

definition drill_default_rto :: real where "drill_default_rto = 14400"
definition drill_default_rpo :: real where "drill_default_rpo = 3600"

definition digit_text :: "nat \<Rightarrow> string" where "digit_text n = [char_of (48 + n)]"

definition rto_met :: "drill_record \<Rightarrow> bool" where
  "rto_met d = (case dr_actual_rto d of Some x \<Rightarrow> x \<le> dr_rto d | None \<Rightarrow> False)"

definition rpo_met :: "drill_record \<Rightarrow> bool" where
  "rpo_met d = (case dr_actual_rpo d of Some x \<Rightarrow> x \<le> dr_rpo d | None \<Rightarrow> False)"

definition run_drill :: "backup_crypto \<Rightarrow> drill_inputs \<Rightarrow> string \<Rightarrow> string \<Rightarrow> string \<Rightarrow> real \<Rightarrow> real \<Rightarrow> dr_system \<Rightarrow> drill_record \<times> dr_system" where
  "run_drill cr i name env actor rto rpo s =
     (let did = ''drill-'' @ di_hex8 i;
          d0 = \<lparr>dr_id = did, dr_name = name, dr_status = DrillRunning, dr_started = di_started i, dr_completed = None, dr_steps = [],
             dr_rto = rto, dr_rpo = rpo, dr_actual_rto = None, dr_actual_rpo = None, dr_error = None\<rparr>;
          s1 = sy_event cr (di_event1 i) ''dr_drill.started'' actor None [(''drill_id'', JStr did), (''drill_name'', JStr name)] s;
          (steps, failed, s2) = drill_loop (drill_checks cr i env actor) s1;
          took = di_ended i - di_started i in
      case failed of
        Some (n, step) \<Rightarrow>
          (let d = d0\<lparr>dr_steps := steps, dr_status := DrillFailed, dr_completed := Some (di_ended i), dr_actual_rto := Some took, dr_actual_rpo := Some 0,
                 dr_error := Some (''Step '' @ digit_text n @ '' ('' @ step @ '') failed'')\<rparr> in
           (d, sy_event cr (di_event2 i) ''dr_drill.failed'' actor None [(''drill_id'', JStr did), (''failed_step'', JStr step)]
             (s2\<lparr>sy_drills := od_put did d (sy_drills s2)\<rparr>)))
      | None \<Rightarrow>
          (let d = d0\<lparr>dr_steps := steps, dr_status := (if list_all ds_passed steps then DrillPassed else DrillFailed),
                 dr_completed := Some (di_ended i), dr_actual_rto := Some took, dr_actual_rpo := Some 3600\<rparr> in
           (d, sy_event cr (di_event2 i) ''dr_drill.completed'' actor None
             [(''drill_id'', JStr did), (''status'', JStr (if dr_status d = DrillPassed then ''passed'' else ''failed'')),
              (''rto_met'', JBool (rto_met d)), (''rpo_met'', JBool (rpo_met d)), (''actual_rto'', JFloat took)]
             (s2\<lparr>sy_drills := od_put did d (sy_drills s2)\<rparr>))))"

subsection \<open>Encryption\<close>

lemma length_xor_stream [simp]: "length (xor_stream raw data) = length data"
  by (simp add: xor_stream_def)

lemma nth_xor_stream: "i < length data \<Longrightarrow> xor_stream raw data ! i = data ! i XOR raw ! (i mod 32)"
  by (simp add: xor_stream_def nth_enumerate_eq)

lemma xor_stream_twice [simp]: "xor_stream raw (xor_stream raw data) = data"
  by (rule nth_equalityI) (simp_all add: nth_xor_stream ac_simps)

text \<open>The same key stream is used for every text: two ciphertexts under one key give away the difference of the texts.\<close>

lemma ciphertexts_leak_difference:
  assumes "i < length a" and "i < length b"
  shows "xor_stream raw a ! i XOR xor_stream raw b ! i = a ! i XOR b ! i"
  using assms by (intro bit_word_eqI) (auto simp: nth_xor_stream bit_xor_iff)

lemma generate_key_keeps:
  "k \<noteq> ''key-'' @ hex8 \<Longrightarrow> od_get (el_keys (generate_backup_key cr now hex8 e)) k = od_get (el_keys e) k"
  by (simp add: generate_backup_key_def Let_def)

text \<open>Every key of a layer is derived from its id, and the active one is among them.\<close>

definition enc_good :: "backup_crypto \<Rightarrow> enc_layer \<Rightarrow> bool" where
  "enc_good cr e \<longleftrightarrow> (\<forall>kid k. od_get (el_keys e) kid = Some k \<longrightarrow> ek_raw k = derive_key cr (el_master e) kid) \<and> od_get (el_keys e) (el_active e) \<noteq> None"

lemma generate_key_good: "(\<forall>kid k. od_get (el_keys e) kid = Some k \<longrightarrow> ek_raw k = derive_key cr (el_master e) kid)
    \<Longrightarrow> enc_good cr (generate_backup_key cr now hex8 e)"
  by (simp add: enc_good_def generate_backup_key_def Let_def)

lemma new_enc_good: "enc_good cr (new_enc_layer cr now hex8 master)"
  unfolding new_enc_layer_def by (rule generate_key_good) simp

lemma rotate_keeps_keys:
  assumes "enc_good cr e" and "od_get (el_keys e) kid = Some k"
  shows "\<exists>k'. od_get (el_keys (snd (rotate_backup_key cr now hex8 e))) kid = Some k' \<and> ek_raw k' = ek_raw k"
proof -
  define e1 where "e1 = generate_backup_key cr now hex8 e"
  have "\<exists>k'. od_get (el_keys e1) kid = Some k' \<and> ek_raw k' = ek_raw k"
    using assms by (auto simp: e1_def generate_backup_key_def enc_good_def Let_def)
  then show ?thesis by (auto simp: rotate_backup_key_def e1_def [symmetric] Let_def split: option.split)
qed

lemma rotated_layer_good: "enc_good cr e \<Longrightarrow> enc_good cr (snd (rotate_backup_key cr now hex8 e))"
proof -
  assume "enc_good cr e"
  then have "enc_good cr (generate_backup_key cr now hex8 e)" by (intro generate_key_good) (simp add: enc_good_def)
  then show ?thesis by (auto simp: rotate_backup_key_def enc_good_def Let_def split: option.split)
qed

definition rotations :: "backup_crypto \<Rightarrow> (time \<times> string) list \<Rightarrow> enc_layer \<Rightarrow> enc_layer" where
  "rotations cr rs e = fold (\<lambda>(now, hex8) e. snd (rotate_backup_key cr now hex8 e)) rs e"

lemma rotations_keep:
  "enc_good cr e \<Longrightarrow> od_get (el_keys e) kid = Some k \<Longrightarrow> enc_good cr (rotations cr rs e)
     \<and> (\<exists>k'. od_get (el_keys (rotations cr rs e)) kid = Some k' \<and> ek_raw k' = ek_raw k)"
proof (induction rs arbitrary: e k)
  case (Cons r rs)
  obtain now hex8 where r: "r = (now, hex8)" by fastforce
  obtain k' where "od_get (el_keys (snd (rotate_backup_key cr now hex8 e))) kid = Some k'" "ek_raw k' = ek_raw k"
    using rotate_keeps_keys [OF Cons.prems] by blast
  then show ?case using Cons.IH [OF rotated_layer_good [OF Cons.prems(1)]] r by (fastforce simp: rotations_def)
qed (simp add: rotations_def)

text \<open>
  What was encrypted can be decrypted, whatever rotations of the key happen before and after: with HMAC digests of 32 bytes
  and nonces of 12, decrypting under the returned key kid gives back the text.
\<close>

theorem encryption_round_trip:
  assumes "\<And>k m. length (bc_hmac cr k m) = 32" and "length nonce = 12"
  shows "let e = rotations cr before (new_enc_layer cr now hex8 master) in
    \<exists>kid blob. encrypt cr nonce data e = Inr (kid, blob) \<and> decrypt cr kid blob (rotations cr after e) = Inr data"
proof -
  define e where "e = rotations cr before (new_enc_layer cr now hex8 master)"
  have "\<exists>k. od_get (el_keys (new_enc_layer cr now hex8 master)) (el_active (new_enc_layer cr now hex8 master)) = Some k"
    using new_enc_good [of cr now hex8 master] by (simp add: enc_good_def)
  then have g: "enc_good cr e" using rotations_keep [OF new_enc_good] by (auto simp: e_def)
  then obtain k where k: "od_get (el_keys e) (el_active e) = Some k" by (auto simp: enc_good_def)
  obtain k' where k': "od_get (el_keys (rotations cr after e)) (el_active e) = Some k'" "ek_raw k' = ek_raw k"
    using rotations_keep [OF g k, of after] by blast
  have "decrypt cr (el_active e) (enc_blob cr (ek_raw k) nonce data) (rotations cr after e) = Inr data"
    using assms by (simp add: decrypt_def k' enc_blob_def Let_def)
  then show ?thesis unfolding Let_def e_def [symmetric] by (simp add: encrypt_def k)
qed

theorem encryption_round_trip_witness:
  "let cr = \<lparr>bc_hmac = \<lambda>k m. replicate 32 (word_of_nat (length m)), bc_sha256 = \<lambda>_. [], bc_dumps = \<lambda>_. [], bc_float6 = \<lambda>_. [], bc_str = \<lambda>_. []\<rparr>;
       e = rotations cr [(5, ''b'')] (new_enc_layer cr 0 ''a'' [1, 2]) in
    \<exists>kid blob. encrypt cr (replicate 12 7) [104, 105] e = Inr (kid, blob) \<and> decrypt cr kid blob (rotations cr [(9, ''c'')] e) = Inr [104, 105]"
proof -
  define cr where "cr = \<lparr>bc_hmac = \<lambda>k m. replicate 32 (word_of_nat (length (m :: bytes))), bc_sha256 = \<lambda>_. [], bc_dumps = \<lambda>_. [],
     bc_float6 = \<lambda>_. [], bc_str = \<lambda>_. []\<rparr>"
  have "length (bc_hmac cr k m) = 32" for k m by (simp add: cr_def)
  from encryption_round_trip [OF this, of "replicate 12 7" "[(5, ''b'')]" 0 "''a''" "[1, 2]" "[104, 105]" "[(9, ''c'')]"]
  show ?thesis unfolding Let_def cr_def by simp
qed

subsection \<open>Every operation keeps the records and the log in order\<close>

interpretation backup_links: hash_chain "event_fits cr" be_hash "seal_event cr" for cr
  by unfold_locales (simp add: event_fits_def seal_event_def event_hash_def)

definition log_good :: "backup_crypto \<Rightarrow> backup_log \<Rightarrow> bool" where
  "log_good cr l \<longleftrightarrow> log_verifies cr l \<and> bl_prev l = last_hash be_hash (backup_genesis cr) (bl_entries l)"

lemma log_event_good: "log_good cr l \<Longrightarrow> log_good cr (log_backup_event cr st event actor backup detail l)"
  using backup_links.verify_snoc [of cr "backup_genesis cr" "bl_entries l"]
  by (simp add: log_good_def log_verifies_def log_backup_event_def Let_def)

text \<open>A record lies under its id, and one that succeeded has a manifest whose signature verifies and a checksum.\<close>

definition record_good :: "backup_crypto \<Rightarrow> bytes \<Rightarrow> string \<Rightarrow> backup_record \<Rightarrow> bool" where
  "record_good cr secret bid b \<longleftrightarrow> br_id b = bid
     \<and> (br_status b = BackupSuccess \<longrightarrow> (\<exists>m. br_manifest b = Some m \<and> manifest_ok cr secret m) \<and> length (br_checksum b) = 64)"

definition dr_good :: "backup_crypto \<Rightarrow> dr_system \<Rightarrow> bool" where
  "dr_good cr s \<longleftrightarrow> enc_good cr (sy_enc s) \<and> log_good cr (sy_log s)
     \<and> (\<forall>bid b. od_get (sy_records s) bid = Some b \<longrightarrow> record_good cr (sy_secret s) bid b)"

lemma sy_event_simps [simp]:
  "sy_records (sy_event cr st ev actor b d s) = sy_records s" "sy_restores (sy_event cr st ev actor b d s) = sy_restores s"
  "sy_enc (sy_event cr st ev actor b d s) = sy_enc s" "sy_secret (sy_event cr st ev actor b d s) = sy_secret s"
  "sy_wal (sy_event cr st ev actor b d s) = sy_wal s" "sy_policies (sy_event cr st ev actor b d s) = sy_policies s"
  "sy_pitr (sy_event cr st ev actor b d s) = sy_pitr s" "sy_drills (sy_event cr st ev actor b d s) = sy_drills s"
  by (simp_all add: sy_event_def)

lemma dr_good_simps [simp]:
  "dr_good cr (s\<lparr>sy_restores := a\<rparr>) = dr_good cr s" "dr_good cr (s\<lparr>sy_wal := w\<rparr>) = dr_good cr s"
  "dr_good cr (s\<lparr>sy_pitr := p\<rparr>) = dr_good cr s" "dr_good cr (s\<lparr>sy_drills := d\<rparr>) = dr_good cr s"
  by (simp_all add: dr_good_def)

lemma sy_event_good [simp]: "dr_good cr s \<Longrightarrow> dr_good cr (sy_event cr st ev actor b d s)"
  by (simp add: dr_good_def sy_event_def log_event_good)

lemma put_record_good: "dr_good cr s \<Longrightarrow> record_good cr (sy_secret s) bid b \<Longrightarrow> dr_good cr (s\<lparr>sy_records := od_put bid b (sy_records s)\<rparr>)"
  by (simp add: dr_good_def)

lemma length_hexdigest [simp]: "length (hexdigest bs) = 2 * length bs"
  by (induction bs) (simp_all add: hexdigest_def)

lemma build_manifest_ok [simp]: "manifest_ok cr secret (build_manifest cr mid secret r key_id p)"
  by (simp add: build_manifest_def sign_manifest_def manifest_ok_def manifest_sig_def manifest_canonical_def)

lemma two_puts_good:
  assumes "dr_good cr s" and "record_good cr (sy_secret s) bid r0" and "record_good cr (sy_secret s) bid r1"
  shows "dr_good cr (sy_event cr st2 ev2 actor2 b2 d2 ((sy_event cr st1 ev1 actor1 b1 d1 (s\<lparr>sy_records := od_put bid r0 (sy_records s)\<rparr>))
      \<lparr>sy_records := od_put bid r1 (od_put bid r0 (sy_records s))\<rparr>))"
proof -
  have 1: "dr_good cr (sy_event cr st1 ev1 actor1 b1 d1 (s\<lparr>sy_records := od_put bid r0 (sy_records s)\<rparr>))"
    using put_record_good [OF assms(1,2)] by simp
  then show ?thesis using put_record_good [OF 1, of bid r1] assms(3) by simp
qed

lemma run_backup_good:
  assumes "dr_good cr s" and sha: "\<And>d. length (bc_sha256 cr d) = 32"
  shows "dr_good cr (snd (run_backup cr i c btype actor size_mb tags s))"
proof (cases "od_get (sy_policies s) c")
  case (Some p)
  show ?thesis using assms(1) unfolding run_backup_def Let_def
    by (auto simp: Some record_good_def sha intro!: two_puts_good split: sum.split prod.split)
qed (simp add: run_backup_def assms(1))

lemma restore_good: "dr_good cr s \<Longrightarrow> dr_good cr (snd (restore cr i bid env actor pitr s))"
  by (simp add: restore_def Let_def split: option.split)

lemma recover_good: "dr_good cr s \<Longrightarrow> dr_good cr (snd (recover_to cr i target actor s))"
  by (simp add: recover_to_def Let_def split: list.split)

lemma expire_good:
  "dr_good cr s \<Longrightarrow> od_get (sy_records s) bid = Some x \<Longrightarrow> dr_good cr (s\<lparr>sy_records := od_put bid (x\<lparr>br_status := BackupExpired\<rparr>) (sy_records s)\<rparr>)"
  by (rule put_record_good) (simp_all add: dr_good_def record_good_def)

lemma enforce_record_good: "dr_good cr (snd acc) \<Longrightarrow> dr_good cr (snd (enforce_record cr ids now actor p r acc))"
  by (cases acc) (auto simp: enforce_record_def intro!: sy_event_good expire_good split: option.split)

lemma enforce_records_good: "dr_good cr (snd acc) \<Longrightarrow> dr_good cr (snd (fold (enforce_record cr ids now actor p) rs acc))"
  by (induction rs arbitrary: acc) (simp_all add: enforce_record_good)

lemma enforce_category_good: "dr_good cr (snd acc) \<Longrightarrow> dr_good cr (snd (enforce_category cr ids now actor cp acc))"
proof -
  assume g: "dr_good cr (snd acc)"
  obtain rs s where acc: "acc = (rs, s)" by fastforce
  obtain res s1 where f: "fold (enforce_record cr ids now actor (snd cp)) (list_records (Some (fst cp)) None s)
      (\<lparr>rr_category = fst cp, rr_expired = 0, rr_retained = 0, rr_freed = 0\<rparr>, s) = (res, s1)" by fastforce
  have "dr_good cr s1"
    using enforce_records_good [of cr "(\<lparr>rr_category = fst cp, rr_expired = 0, rr_retained = 0, rr_freed = 0\<rparr>, s)"
        ids now actor "snd cp" "list_records (Some (fst cp)) None s"] g acc f by simp
  then show ?thesis by (simp add: enforce_category_def acc f)
qed

lemma enforce_good: "dr_good cr s \<Longrightarrow> dr_good cr (snd (enforce_retention cr ids now actor s))"
proof -
  have "dr_good cr (snd acc) \<Longrightarrow> dr_good cr (snd (fold (enforce_category cr ids now actor) ps acc))" for ps acc
    by (induction ps arbitrary: acc) (simp_all add: enforce_category_good)
  then show "dr_good cr s \<Longrightarrow> ?thesis" by (simp add: enforce_retention_def)
qed

lemma check_good: "(n, name, f) \<in> set (drill_checks cr i env actor) \<Longrightarrow> dr_good cr s \<Longrightarrow> dr_good cr (snd (f s))"
  using restore_good [of cr s] recover_good [of cr s] enforce_good [of cr s]
  by (auto simp: drill_checks_def check_backup_def check_manifests_def check_log_def check_restore_def check_pitr_def check_encryption_def
      check_retention_def split: list.split sum.split prod.split) (metis snd_conv)+

lemma drill_loop_good:
  "(\<And>n name f s. (n, name, f) \<in> set cs \<Longrightarrow> dr_good cr s \<Longrightarrow> dr_good cr (snd (f s))) \<Longrightarrow> dr_good cr s \<Longrightarrow> dr_good cr (snd (snd (drill_loop cs s)))"
proof (induction cs arbitrary: s)
  case (Cons c cs)
  obtain n name f where c: "c = (n, name, f)" by (cases c)
  obtain ok s1 where f: "f s = (ok, s1)" by fastforce
  have "dr_good cr s1" using Cons.prems(1) [of n name f s] Cons.prems(2) c f by simp
  moreover have "dr_good cr (snd (g t))" if "(m, nm, g) \<in> set cs" "dr_good cr t" for m nm g t
    using Cons.prems(1) [of m nm g t] that by simp
  ultimately have "dr_good cr (snd (snd (drill_loop cs s1)))" by (intro Cons.IH)
  with \<open>dr_good cr s1\<close> show ?case by (auto simp: c f Let_def split: prod.split)
qed simp

lemma drill_good: "dr_good cr s \<Longrightarrow> dr_good cr (snd (run_drill cr i name env actor rto rpo s))"
proof -
  assume "dr_good cr s"
  then have "dr_good cr (snd (snd (drill_loop (drill_checks cr i env actor)
      (sy_event cr (di_event1 i) ''dr_drill.started'' actor None [(''drill_id'', JStr (''drill-'' @ di_hex8 i)), (''drill_name'', JStr name)] s))))"
    by (intro drill_loop_good check_good) simp_all
  then show ?thesis unfolding run_drill_def Let_def
    by (auto split: prod.split option.split)
qed

datatype dr_op =
    Run_Backup backup_inputs backup_category "backup_type option" string int "(string \<times> string) list"
  | Run_Restore restore_inputs string string string "time option"
  | Record_Wal string time nat
  | Purge_Wal time
  | Recover_To pitr_inputs time string
  | Enforce_Retention "nat \<Rightarrow> string" time string
  | Run_Drill drill_inputs string string string real real
  | Rotate_Key time string

fun dr_step :: "backup_crypto \<Rightarrow> dr_op \<Rightarrow> dr_system \<Rightarrow> dr_system" where
  "dr_step cr (Run_Backup i c btype actor size_mb tags) s = snd (run_backup cr i c btype actor size_mb tags s)"
| "dr_step cr (Run_Restore i bid env actor pitr) s = snd (restore cr i bid env actor pitr s)"
| "dr_step cr (Record_Wal hex16 now n) s = snd (record_wal hex16 now n s)"
| "dr_step cr (Purge_Wal now) s = snd (purge_old_wal now s)"
| "dr_step cr (Recover_To i target actor) s = snd (recover_to cr i target actor s)"
| "dr_step cr (Enforce_Retention ids now actor) s = snd (enforce_retention cr ids now actor s)"
| "dr_step cr (Run_Drill i name env actor rto rpo) s = snd (run_drill cr i name env actor rto rpo s)"
| "dr_step cr (Rotate_Key now hex8) s = s\<lparr>sy_enc := snd (rotate_backup_key cr now hex8 (sy_enc s))\<rparr>"

lemma dr_step_good:
  assumes "\<And>d. length (bc_sha256 cr d) = 32" and "dr_good cr s"
  shows "dr_good cr (dr_step cr e s)"
proof (cases e)
  case (Rotate_Key now hex8)
  then show ?thesis using assms(2) rotated_layer_good by (simp add: dr_good_def)
qed (use assms run_backup_good restore_good recover_good enforce_good drill_good in \<open>simp_all add: record_wal_def purge_old_wal_def Let_def\<close>)

lemma new_dr_good: "dr_good cr (new_dr_system cr now hex8 master secret)"
  by (simp add: dr_good_def new_dr_system_def new_enc_good log_good_def log_verifies_def new_backup_log_def)

lemma dr_run_good:
  assumes "\<And>d. length (bc_sha256 cr d) = 32"
  shows "dr_good cr s \<Longrightarrow> dr_good cr (fold (dr_step cr) es s)"
  using dr_step_good [OF assms] by (induction es arbitrary: s) simp_all

text \<open>What a restore asks of a stored record: completed, with a manifest whose signature fits and a checksum of the length of a SHA-256 digest.\<close>

definition restorable :: "backup_crypto \<Rightarrow> bytes \<Rightarrow> backup_record option \<Rightarrow> bool" where
  "restorable cr secret x \<longleftrightarrow> (\<exists>b m. x = Some b \<and> br_status b = BackupSuccess \<and> br_manifest b = Some m \<and> bm_sig m = manifest_sig cr secret m
     \<and> length (br_checksum b) = 64)"

lemma restorable_iff: "restorable cr secret (Some b) \<longleftrightarrow> br_manifest b \<noteq> None \<and> br_status b = BackupSuccess \<and> list_all snd (validate_backup cr secret b)"
  by (auto simp: restorable_def validate_backup_def manifest_ok_def)

lemma restore_cases:
  obtains (untouched) "restore cr i bid env actor pitr s = (Inl (OtherError ''RestoreError''), s)" "\<not> restorable cr (sy_secret s) (od_get (sy_records s) bid)"
  | (refused) r where "fst (restore cr i bid env actor pitr s) = Inl (OtherError ''RestoreError'')" "\<not> restorable cr (sy_secret s) (od_get (sy_records s) bid)"
      "sy_restores (snd (restore cr i bid env actor pitr s)) = od_put (''rst-'' @ ri_hex8 i) r (sy_restores s)" "re_status r = RestoreFailed" "\<not> list_all snd (re_validations r)"
  | (restored) r where "fst (restore cr i bid env actor pitr s) = Inr r" "restorable cr (sy_secret s) (od_get (sy_records s) bid)"
      "sy_restores (snd (restore cr i bid env actor pitr s)) = od_put (''rst-'' @ ri_hex8 i) r (sy_restores s)" "re_status r = RestoreSuccess" "re_backup r = bid"
      "re_validations r = map (\<lambda>c. (c, True)) [ManifestCheck, DecryptionCheck, ChecksumCheck, RowCountCheck, SchemaCheck]"
proof (cases "od_get (sy_records s) bid")
  case None
  then show ?thesis using untouched by (simp add: restore_def restorable_def)
next
  case (Some b)
  show ?thesis
  proof (cases "br_status b = BackupCorrupted \<or> br_manifest b = None")
    case True
    then show ?thesis using untouched Some by (auto simp: restore_def restorable_def)
  next
    case False
    then obtain m where live: "br_status b \<noteq> BackupCorrupted" "br_manifest b = Some m" by auto
    define vs where "vs = validate_backup cr (sy_secret s) b"
    define r0 where "r0 = \<lparr>re_id = ''rst-'' @ ri_hex8 i, re_backup = bid, re_env = env, re_status = RestoreValidating, re_started = ri_started i, re_completed = None,
      re_validations = vs, re_pitr = pitr\<rparr>"
    show ?thesis
    proof (cases "list_all snd vs")
      case True
      let ?r = "r0\<lparr>re_status := RestoreSuccess, re_completed := Some (ri_completed i)\<rparr>"
      have "vs = map (\<lambda>c. (c, True)) [ManifestCheck, DecryptionCheck, ChecksumCheck, RowCountCheck, SchemaCheck]"
        using True by (auto simp: vs_def validate_backup_def)
      moreover have "restorable cr (sy_secret s) (od_get (sy_records s) bid)" unfolding Some restorable_iff
        using True False by (auto simp: vs_def validate_backup_def)
      ultimately show ?thesis using True live Some
        by (intro restored [of ?r]) (simp_all add: restore_def Let_def r0_def flip: vs_def)
    next
      case no: False
      let ?r = "r0\<lparr>re_status := RestoreFailed, re_completed := Some (ri_completed i)\<rparr>"
      have "\<not> restorable cr (sy_secret s) (od_get (sy_records s) bid)" unfolding Some restorable_iff using no by (simp add: vs_def)
      then show ?thesis using no live Some
        by (intro refused [of ?r]) (simp_all add: restore_def Let_def r0_def flip: vs_def)
    qed
  qed
qed

lemma restore_records [simp]: "sy_records (snd (restore cr i bid env actor pitr s)) = sy_records s"
  by (simp add: restore_def Let_def split: option.split)

lemma restore_log_good: "log_good cr (sy_log s) \<Longrightarrow> log_good cr (sy_log (snd (restore cr i bid env actor pitr s)))"
  by (simp add: restore_def Let_def sy_event_def log_event_good split: option.split)

text \<open>
  C28: A restore fails closed, whatever has been done to the stored records. After any run of backups, restores, recoveries, drills,
  retention and key rotations, and with any contents of the record store, a restore succeeds exactly when the record is SUCCESS, carries a
  manifest whose signature fits its contents under the manifest secret, and has a checksum of 64 characters; the attempt is then stored with
  its five checks passed. Otherwise RestoreError is raised, and either nothing was changed or the attempt is stored as FAILED. The records
  are never touched and the event log verifies.
\<close>

theorem restore_fails_closed:
  assumes "\<And>d. length (bc_sha256 cr d) = 32"
    and "s = (fold (dr_step cr) es (new_dr_system cr now hex master secret))\<lparr>sy_records := recs\<rparr>" and "out = restore cr i bid env actor pitr s"
  shows "log_verifies cr (sy_log (snd out)) \<and> sy_records (snd out) = recs
    \<and> (case fst out of
        Inr r \<Rightarrow> (\<exists>b m. od_get recs bid = Some b \<and> br_status b = BackupSuccess \<and> br_manifest b = Some m \<and> bm_sig m = manifest_sig cr (sy_secret s) m
            \<and> length (br_checksum b) = 64)
          \<and> re_status r = RestoreSuccess \<and> re_backup r = bid \<and> sy_restores (snd out) = od_put (''rst-'' @ ri_hex8 i) r (sy_restores s)
          \<and> re_validations r = map (\<lambda>c. (c, True)) [ManifestCheck, DecryptionCheck, ChecksumCheck, RowCountCheck, SchemaCheck]
      | Inl e \<Rightarrow> e = OtherError ''RestoreError''
          \<and> \<not> (\<exists>b m. od_get recs bid = Some b \<and> br_status b = BackupSuccess \<and> br_manifest b = Some m \<and> bm_sig m = manifest_sig cr (sy_secret s) m
            \<and> length (br_checksum b) = 64)
          \<and> ((\<exists>r. sy_restores (snd out) = od_put (''rst-'' @ ri_hex8 i) r (sy_restores s) \<and> re_status r = RestoreFailed) \<or> snd out = s))"
proof -
  have "dr_good cr (fold (dr_step cr) es (new_dr_system cr now hex master secret))" by (rule dr_run_good [OF assms(1) new_dr_good])
  then have "log_good cr (sy_log s)" by (simp add: assms(2) dr_good_def)
  then have log: "log_verifies cr (sy_log (snd out))" using restore_log_good unfolding assms(3) by (simp add: log_good_def)
  have recs: "sy_records s = recs" "sy_records (snd out) = recs" by (simp_all add: assms(2,3))
  show ?thesis
    by (cases rule: restore_cases [of cr i bid env actor pitr s])
      (use log recs in \<open>auto simp: restorable_def assms(3) [symmetric]\<close>)
qed

definition sample_crypto :: backup_crypto where
  "sample_crypto = \<lparr>bc_hmac = \<lambda>k m. replicate 32 (word_of_nat (length m)), bc_sha256 = \<lambda>d. replicate 32 1, bc_dumps = \<lambda>_. [],
     bc_float6 = \<lambda>_. [], bc_str = \<lambda>_. []\<rparr>"

text \<open>A completed backup, and the same record with a manifest that another secret has signed.\<close>

definition sample_record :: "bytes \<Rightarrow> backup_record" where
  "sample_record sig_secret = \<lparr>br_id = ''bkp-db-0'', br_category = DbCategory, br_type = FullBackup, br_status = BackupSuccess, br_created = 1, br_completed = Some 2,
     br_size = 9, br_checksum = replicate 64 (CHR ''0''), br_manifest = Some (\<lparr>bm_id = ''m'', bm_backup = ''bkp-db-0'', bm_category = DbCategory, bm_type = FullBackup,
       bm_created = 1, bm_size = 9, bm_checksum = replicate 64 (CHR ''0''), bm_key = ''k1'', bm_encrypted = True, bm_compressed = True, bm_offsite = True,
       bm_policy = [], bm_meta = [], bm_sig = hexdigest sig_secret\<rparr>), br_error = None, br_offsite = None, br_lsn = None, br_tags = []\<rparr>"

theorem restore_fails_closed_witness:
  "let i = \<lparr>ri_hex8 = ''r'', ri_started = 6, ri_completed = 7, ri_event1 = (''a'', 6), ri_event2 = (''b'', 7), ri_event3 = (''c'', 7)\<rparr>;
       s0 = fold (dr_step sample_crypto) [Rotate_Key 5 ''k2''] (new_dr_system sample_crypto 0 ''k1'' [1] [2]);
       good = restore sample_crypto i ''bkp-db-0'' ''staging'' ''ops'' None (s0\<lparr>sy_records := [(''bkp-db-0'', sample_record (replicate 32 0))]\<rparr>);
       forged = restore sample_crypto i ''bkp-db-0'' ''staging'' ''ops'' None (s0\<lparr>sy_records := [(''bkp-db-0'', sample_record [])]\<rparr>) in
   isl (fst forged) \<and> \<not> isl (fst good) \<and> log_verifies sample_crypto (sy_log (snd good)) \<and> log_verifies sample_crypto (sy_log (snd forged))"
proof -
  let ?i = "\<lparr>ri_hex8 = ''r'', ri_started = 6, ri_completed = 7, ri_event1 = (''a'', 6), ri_event2 = (''b'', 7), ri_event3 = (''c'', 7)\<rparr>"
  let ?s0 = "fold (dr_step sample_crypto) [Rotate_Key 5 ''k2''] (new_dr_system sample_crypto 0 ''k1'' [1] [2])"
  have sha: "length (bc_sha256 sample_crypto d) = 32" for d by (simp add: sample_crypto_def)
  have sig: "manifest_sig sample_crypto secret m = hexdigest (replicate 32 0)" for secret m
    by (simp add: manifest_sig_def manifest_canonical_def sample_crypto_def encode_def)
  have other: "hexdigest [] \<noteq> hexdigest (replicate 32 0)"
    using length_hexdigest [of "[]"] length_hexdigest [of "replicate 32 0"] by (metis length_replicate list.size(3) mult_eq_0_iff zero_neq_numeral)
  have rec: "br_status (sample_record x) = BackupSuccess" "length (br_checksum (sample_record x)) = 64"
    "map_option bm_sig (br_manifest (sample_record x)) = Some (hexdigest x)" for x
    by (simp_all add: sample_record_def)
  note out = restore_fails_closed [where es = "[Rotate_Key 5 ''k2'']" and now = 0 and hex = "''k1''" and master = "[1]" and secret = "[2]"
    and i = ?i and bid = "''bkp-db-0''" and env = "''staging''" and actor = "''ops''" and pitr = None, OF sha refl refl, unfolded sig]
  let ?out = "\<lambda>x. restore sample_crypto ?i ''bkp-db-0'' ''staging'' ''ops'' None (?s0\<lparr>sy_records := [(''bkp-db-0'', sample_record x)]\<rparr>)"
  have fits: "(\<exists>b m. od_get [(''bkp-db-0'', sample_record x)] ''bkp-db-0'' = Some b \<and> br_status b = BackupSuccess \<and> br_manifest b = Some m
      \<and> bm_sig m = hexdigest (replicate 32 0) \<and> length (br_checksum b) = 64) \<longleftrightarrow> hexdigest x = hexdigest (replicate 32 0)" for x
    using rec [of x] by auto
  have "isl (fst (?out x)) \<longleftrightarrow> hexdigest x \<noteq> hexdigest (replicate 32 0)" for x
    using out [where recs = "[(''bkp-db-0'', sample_record x)]"] unfolding fits by (cases "fst (?out x)") simp_all
  then show ?thesis using out other unfolding Let_def by blast
qed

text \<open>Every completed backup of a run can be restored until it expires.\<close>

lemma completed_backups_restore:
  assumes "dr_good cr s" and "od_get (sy_records s) bid = Some b" and "br_status b = BackupSuccess"
  shows "\<exists>r. fst (restore cr i bid env actor pitr s) = Inr r \<and> re_status r = RestoreSuccess"
proof -
  have "restorable cr (sy_secret s) (od_get (sy_records s) bid)"
    using assms by (auto simp: dr_good_def record_good_def restorable_def manifest_ok_def)
  then show ?thesis by (cases rule: restore_cases [of cr i bid env actor pitr s]) auto
qed

subsection \<open>Point-in-time recovery\<close>

text \<open>The base of a recovery is a newest successful database backup before the target.\<close>

lemma recovery_takes_the_newest_base:
  assumes "fst (recover_to cr i target actor s) = Inr p"
  shows "\<exists>b\<in>set (map snd (sy_records s)). pt_base p = br_id b \<and> br_category b = DbCategory \<and> br_status b = BackupSuccess \<and> br_created b \<le> target
    \<and> (\<forall>x\<in>set (map snd (sy_records s)). br_category x = DbCategory \<and> br_status x = BackupSuccess \<and> br_created x \<le> target \<longrightarrow> br_created x \<le> br_created b)
    \<and> pt_applied p = length (filter (\<lambda>w. br_created b \<le> ws_created w \<and> ws_created w \<le> target) (sy_wal s))"
proof -
  define c where "c = filter (\<lambda>r. br_status r = BackupSuccess \<and> br_created r \<le> target) (list_records (Some DbCategory) None s)"
  obtain r rs where c2: "c = r # rs" using assms by (cases c) (simp_all add: recover_to_def c_def)
  define b where "b = first_greatest br_created r rs"
  have mem: "x \<in> set c \<longleftrightarrow> x \<in> set (map snd (sy_records s)) \<and> br_category x = DbCategory \<and> br_status x = BackupSuccess \<and> br_created x \<le> target" for x
    by (auto simp: c_def list_records_def)
  have "b \<in> set c" using first_greatest_in [of br_created r rs] by (auto simp: b_def c2)
  moreover have "br_created x \<le> br_created b" if "x \<in> set c" for x
    using that first_greatest_ge [of x rs br_created r] first_greatest_start [of br_created r rs] by (auto simp: c2 b_def)
  moreover have "pt_base p = br_id b" "pt_applied p = length (filter (\<lambda>w. br_created b \<le> ws_created w \<and> ws_created w \<le> target) (sy_wal s))"
    using assms c2 by (auto simp: recover_to_def c_def [symmetric] b_def Let_def)
  ultimately show ?thesis using mem by (intro bexI [of _ b]) auto
qed

subsection \<open>What the names promise and the code does not do\<close>

text \<open>An event's details and a manifest's flags and policy are not covered by their hashes.\<close>

lemma event_details_unprotected: "event_fits cr prev e \<Longrightarrow> event_fits cr prev (e\<lparr>be_detail := d\<rparr>)"
  by (simp add: event_fits_def event_hash_def)

lemma manifest_flags_unprotected:
  "manifest_ok cr secret m \<Longrightarrow> manifest_ok cr secret (m\<lparr>bm_encrypted := x, bm_offsite := y, bm_policy := p, bm_meta := q\<rparr>)"
  by (simp add: manifest_ok_def manifest_sig_def manifest_canonical_def)

text \<open>A drill that ends reports a recovery point of one hour, whatever the age of the last backup: with the default objective it is always met.\<close>

lemma drill_rpo_is_constant: "dr_status (fst (run_drill cr i name env actor rto rpo s)) = DrillPassed
    \<Longrightarrow> dr_actual_rpo (fst (run_drill cr i name env actor rto rpo s)) = Some 3600"
  by (auto simp: run_drill_def Let_def split: prod.splits option.splits)

text \<open>Expired backups stay in the store.\<close>

lemma retention_keeps_the_records: "fst ` set (sy_records (snd (enforce_retention cr ids now actor s))) = fst ` set (sy_records s)"
proof -
  have 1: "fst ` set (sy_records (snd (enforce_record cr ids now actor p r acc))) = fst ` set (sy_records (snd acc))" for p r acc
    by (cases acc) (auto simp: enforce_record_def dest: od_get_Some_dom split: option.split)
  have 2: "fst ` set (sy_records (snd (fold (enforce_record cr ids now actor p) rs acc))) = fst ` set (sy_records (snd acc))" for p rs acc
    by (induction rs arbitrary: acc) (simp_all add: 1)
  have 3: "fst ` set (sy_records (snd (enforce_category cr ids now actor cp acc))) = fst ` set (sy_records (snd acc))" for cp acc
  proof -
    define start where "start = (\<lparr>rr_category = fst cp, rr_expired = 0, rr_retained = 0, rr_freed = 0\<rparr>, snd acc)"
    obtain res s1 where f: "fold (enforce_record cr ids now actor (snd cp)) (list_records (Some (fst cp)) None (snd acc)) start = (res, s1)" by fastforce
    have "fst ` set (sy_records s1) = fst ` set (sy_records (snd acc))"
      using 2 [of "snd cp" "list_records (Some (fst cp)) None (snd acc)" start] unfolding f by (simp add: start_def)
    moreover have "sy_records (snd (enforce_category cr ids now actor cp acc)) = sy_records s1"
      using f by (cases acc) (simp add: enforce_category_def start_def)
    ultimately show ?thesis by simp
  qed
  have "fst ` set (sy_records (snd (fold (enforce_category cr ids now actor) ps acc))) = fst ` set (sy_records (snd acc))" for ps acc
    by (induction ps arbitrary: acc) (simp_all add: 3)
  then show ?thesis by (simp add: enforce_retention_def)
qed

end
