(* ===== verification/Compliance.thy ===== *)
theory Compliance
  imports Hash_Chain Json
begin

section \<open>Compliance: documents, consents, refunds and cancellations\<close>

text \<open>
  \<open>src/backend/core/compliance.py\<close>: the legal documents with their versions, the consents of the users, the disclosure gate,
  the retention rules, refund and cancellation requests, the readiness check and the chained audit, over one state as
  \<open>build_compliance_system\<close> wires them. HMAC-SHA256 under the audit secret (\<open>cp_hmac\<close>), \<open>json.dumps(..., sort_keys=True)\<close>
  (\<open>cp_dumps\<close>) and the SHA-256 digest of a text (\<open>cp_sha256\<close>) are parameters; the texts of the legal documents come from a function. Sets of
  document types are listed in the order of their declaration. Hooks of the gate, whose errors are swallowed, and the summaries
  are left out.
\<close>

subsection \<open>Documents and consents\<close>

datatype document_type = TosDoc | PrivacyDoc | RiskDoc | LicenseDoc | RefundDoc | RetentionDoc | CancellationDoc | DpaDoc | CookieDoc | AmlDoc

definition document_types :: "document_type list" where
  "document_types = [TosDoc, PrivacyDoc, RiskDoc, LicenseDoc, RefundDoc, RetentionDoc, CancellationDoc, DpaDoc, CookieDoc, AmlDoc]"

fun document_value :: "document_type \<Rightarrow> string" where
  "document_value TosDoc = ''tos''"
| "document_value PrivacyDoc = ''privacy''"
| "document_value RiskDoc = ''risk_disclaimer''"
| "document_value LicenseDoc = ''license_terms''"
| "document_value RefundDoc = ''refund_policy''"
| "document_value RetentionDoc = ''retention_policy''"
| "document_value CancellationDoc = ''cancellation_policy''"
| "document_value DpaDoc = ''data_processing_agreement''"
| "document_value CookieDoc = ''cookie_policy''"
| "document_value AmlDoc = ''aml_kyc_policy''"

datatype document_status = DraftDoc | ActiveDoc | SupersededDoc | ArchivedDoc

datatype consent_status = ConsentPending | ConsentAccepted | ConsentDeclined | ConsentExpired | ConsentWithdrawn

datatype jurisdiction = GlobalJ | EuJ | UkJ | UsJ | UaeJ | AuJ

datatype compliance_action =
    DocPublished | DocSuperseded | DocArchived | ConsentRecorded | ConsentWithdrawal | ConsentExpiry | DisclosureGate | DisclosureBlock
  | RetentionSet | RefundIssued | RefundDenied | CancelRequested | CancelConfirmed | SaasCheck | CompromiseResponse

fun action_value :: "compliance_action \<Rightarrow> string" where
  "action_value DocPublished = ''doc.published''"
| "action_value DocSuperseded = ''doc.superseded''"
| "action_value DocArchived = ''doc.archived''"
| "action_value ConsentRecorded = ''consent.recorded''"
| "action_value ConsentWithdrawal = ''consent.withdrawn''"
| "action_value ConsentExpiry = ''consent.expired''"
| "action_value DisclosureGate = ''disclosure.gate_checked''"
| "action_value DisclosureBlock = ''disclosure.blocked''"
| "action_value RetentionSet = ''retention.policy_set''"
| "action_value RefundIssued = ''refund.issued''"
| "action_value RefundDenied = ''refund.denied''"
| "action_value CancelRequested = ''cancellation.requested''"
| "action_value CancelConfirmed = ''cancellation.confirmed''"
| "action_value SaasCheck = ''saas.readiness_check''"
| "action_value CompromiseResponse = ''compliance.compromise_response''"

definition saas_required_docs :: "document_type list" where
  "saas_required_docs = [TosDoc, PrivacyDoc, RiskDoc, LicenseDoc, RefundDoc, RetentionDoc, CancellationDoc, CookieDoc]"

definition acceptance_required :: "document_type list" where
  "acceptance_required = [TosDoc, PrivacyDoc, RiskDoc, LicenseDoc]"

definition reason_required :: "compliance_action list" where
  "reason_required = [DocSuperseded, DocArchived, ConsentWithdrawal, RefundDenied]"

record document_version =
  dv_id :: string
  dv_type :: document_type
  dv_version :: string
  dv_title :: string
  dv_content :: string
  dv_hash :: string
  dv_status :: document_status
  dv_effective :: time
  dv_jurisdiction :: jurisdiction
  dv_by :: string
  dv_created :: time
  dv_superseded :: "string option"
  dv_language :: string

record consent_record =
  cr_id :: string
  cr_user :: string
  cr_tenant :: string
  cr_doc :: string
  cr_type :: document_type
  cr_version :: string
  cr_status :: consent_status
  cr_ip :: string
  cr_agent :: string
  cr_accepted :: time
  cr_expires :: "time option"
  cr_withdrawn :: "time option"
  cr_reason :: "string option"

definition consent_valid :: "time \<Rightarrow> consent_record \<Rightarrow> bool" where
  "consent_valid now r \<longleftrightarrow> cr_status r = ConsentAccepted \<and> (case cr_expires r of Some t \<Rightarrow> \<not> (t \<noteq> 0 \<and> now > t) | None \<Rightarrow> True)"

subsection \<open>The audit chain\<close>

record compliance_codec =
  cp_hmac :: "string \<Rightarrow> string"
  cp_dumps :: "json \<Rightarrow> string"
  cp_sha256 :: "string \<Rightarrow> string"

record compliance_entry =
  ce_id :: string
  ce_action :: compliance_action
  ce_actor :: string
  ce_tenant :: string
  ce_detail :: "(string \<times> json) list"
  ce_reason :: "string option"
  ce_ts :: time
  ce_seq :: nat
  ce_hash :: string

record compliance_chain =
  cc_entries :: "compliance_entry list"
  cc_prev :: string
  cc_seq :: nat

definition compliance_max :: nat where "compliance_max = 100000"

definition compliance_genesis :: "compliance_codec \<Rightarrow> string" where
  "compliance_genesis cd = cp_hmac cd ''GENESIS:COMPLIANCE:CHAIN:V30''"

definition new_compliance_chain :: "compliance_codec \<Rightarrow> compliance_chain" where
  "new_compliance_chain cd = \<lparr>cc_entries = [], cc_prev = compliance_genesis cd, cc_seq = 0\<rparr>"

definition compliance_canonical :: "compliance_entry \<Rightarrow> json" where
  "compliance_canonical e = JObj [(''entry_id'', JStr (ce_id e)), (''action'', JStr (action_value (ce_action e))), (''actor'', JStr (ce_actor e)),
     (''tenant_id'', JStr (ce_tenant e)), (''reason'', case ce_reason e of Some s \<Rightarrow> JStr s | None \<Rightarrow> JNull), (''detail'', JObj (ce_detail e)),
     (''ts'', JFloat (ce_ts e)), (''seq'', JInt (int (ce_seq e)))]"

definition compliance_hash :: "compliance_codec \<Rightarrow> string \<Rightarrow> compliance_entry \<Rightarrow> string" where
  "compliance_hash cd prev e = cp_hmac cd (prev @ '':'' @ cp_dumps cd (compliance_canonical e))"

definition compliance_seal :: "compliance_codec \<Rightarrow> string \<Rightarrow> compliance_entry \<Rightarrow> compliance_entry" where
  "compliance_seal cd prev e = e\<lparr>ce_hash := compliance_hash cd prev e\<rparr>"

text \<open>The fresh id and the clock reading of an entry come as a pair.\<close>

definition compliance_record :: "compliance_codec \<Rightarrow> string \<times> time \<Rightarrow> compliance_action \<Rightarrow> string \<Rightarrow> string \<Rightarrow> string option \<Rightarrow> (string \<times> json) list
    \<Rightarrow> compliance_chain \<Rightarrow> (unit, compliance_chain) outcome" where
  "compliance_record cd st action actor tenant reason detail c =
     (if action \<in> set reason_required \<and> no_reason reason then (Inl (OtherError ''MissingReasonError''), c)
      else (let e = compliance_seal cd (cc_prev c) \<lparr>ce_id = fst st, ce_action = action, ce_actor = actor, ce_tenant = tenant, ce_detail = detail,
                      ce_reason = reason, ce_ts = snd st, ce_seq = cc_seq c + 1, ce_hash = []\<rparr> in
            (Inr (), \<lparr>cc_entries = take_last compliance_max (cc_entries c @ [e]), cc_prev = ce_hash e, cc_seq = cc_seq c + 1\<rparr>)))"

definition compliance_fits :: "compliance_codec \<Rightarrow> string \<Rightarrow> compliance_entry \<Rightarrow> bool" where
  "compliance_fits cd prev e \<longleftrightarrow> compliance_hash cd prev e = ce_hash e"

definition compliance_verify :: "compliance_codec \<Rightarrow> compliance_chain \<Rightarrow> bool" where
  "compliance_verify cd c = verify_from (compliance_fits cd) ce_hash (compliance_genesis cd) (cc_entries c)"

definition compliance_tampered :: "compliance_codec \<Rightarrow> compliance_chain \<Rightarrow> nat list" where
  "compliance_tampered cd c = map ce_seq (broken_from (compliance_fits cd) ce_hash (compliance_genesis cd) (cc_entries c))"

definition compliance_query :: "compliance_action option \<Rightarrow> string option \<Rightarrow> int \<Rightarrow> compliance_chain \<Rightarrow> compliance_entry list" where
  "compliance_query action tenant limit c =
     take (nat (max 1 limit)) (filter (\<lambda>e. (case action of Some a \<Rightarrow> ce_action e = a | None \<Rightarrow> True)
        \<and> (case tenant of Some t \<Rightarrow> t = [] \<or> ce_tenant e = t | None \<Rightarrow> True)) (rev (cc_entries c)))"

subsection \<open>The system\<close>

record retention_rule =
  rl_category :: string
  rl_days :: int
  rl_basis :: string
  rl_jurisdiction :: jurisdiction
  rl_auto_delete :: bool

definition default_retention_rules :: "(string, retention_rule) odict" where
  "default_retention_rules = map (\<lambda>(c, d, b, j, a). (c, \<lparr>rl_category = c, rl_days = d, rl_basis = b, rl_jurisdiction = j, rl_auto_delete = a\<rparr>))
    [(''user_pii'', 730, ''GDPR Art.5'', EuJ, True), (''trading_logs'', 2555, ''MiFID II'', EuJ, False),
     (''audit_logs'', 2555, ''SOC2/ISO27001'', GlobalJ, False), (''financial_records'', 2555, ''Companies Act'', UkJ, False),
     (''support_tickets'', 1095, ''Operational'', GlobalJ, True), (''marketing_consent'', 1825, ''GDPR Art.7'', EuJ, True),
     (''backup_data'', 90, ''Operational'', GlobalJ, True), (''session_data'', 30, ''Security'', GlobalJ, True),
     (''kyc_documents'', 1825, ''AML Directive'', EuJ, False), (''payment_records'', 2555, ''PCI-DSS'', GlobalJ, False)]"

datatype request_status = PendingRequest | ApprovedRequest | DeniedRequest | ConfirmedRequest | CancelledRequest

record refund_request =
  rf_id :: string
  rf_user :: string
  rf_tenant :: string
  rf_cents :: int
  rf_currency :: string
  rf_reason :: string
  rf_requested :: time
  rf_purchase :: time
  rf_status :: request_status
  rf_resolved :: "time option"
  rf_by :: "string option"
  rf_denial :: "string option"

record cancellation_request =
  cn_id :: string
  cn_user :: string
  cn_tenant :: string
  cn_reason :: string
  cn_requested :: time
  cn_effective :: time
  cn_notice :: int
  cn_status :: request_status
  cn_confirmed :: "time option"
  cn_deletion :: bool

record compliance_config =
  cf_grace_days :: int
  cf_window_days :: int
  cf_max_cents :: int
  cf_require_reason :: bool
  cf_notice_days :: int
  cf_immediate :: bool

definition default_compliance_config :: compliance_config where
  "default_compliance_config = \<lparr>cf_grace_days = 7, cf_window_days = 14, cf_max_cents = 100000, cf_require_reason = True, cf_notice_days = 30, cf_immediate = False\<rparr>"

record compliance_system =
  cs_config :: compliance_config
  cs_docs :: "(string, document_version) odict"
  cs_consents :: "(string, consent_record) odict"
  cs_rules :: "(string, retention_rule) odict"
  cs_refunds :: "(string, refund_request) odict"
  cs_cancels :: "(string, cancellation_request) odict"
  cs_audit :: compliance_chain

definition audited :: "compliance_codec \<Rightarrow> string \<times> time \<Rightarrow> compliance_action \<Rightarrow> string \<Rightarrow> string \<Rightarrow> string option \<Rightarrow> (string \<times> json) list
    \<Rightarrow> compliance_system \<Rightarrow> (unit, compliance_system) outcome" where
  "audited cd st action actor tenant reason detail s =
     (case compliance_record cd st action actor tenant reason detail (cs_audit s) of (x, c) \<Rightarrow> (x, s\<lparr>cs_audit := c\<rparr>))"

subsection \<open>Documents\<close>

definition active_docs :: "compliance_system \<Rightarrow> document_version list" where
  "active_docs s = filter (\<lambda>d. dv_status d = ActiveDoc) (map snd (cs_docs s))"

definition active_for_type :: "document_type \<Rightarrow> jurisdiction \<Rightarrow> compliance_system \<Rightarrow> document_version option" where
  "active_for_type t j s =
     (case filter (\<lambda>d. dv_type d = t \<and> dv_status d = ActiveDoc \<and> (dv_jurisdiction d = j \<or> dv_jurisdiction d = GlobalJ)) (map snd (cs_docs s)) of
        [] \<Rightarrow> None
      | d # ds \<Rightarrow> Some (first_greatest dv_effective d ds))"

definition missing_types :: "document_type list \<Rightarrow> compliance_system \<Rightarrow> document_type list" where
  "missing_types required s = filter (\<lambda>t. t \<notin> dv_type ` set (active_docs s)) required"

definition supersede :: "string \<Rightarrow> string \<Rightarrow> string \<Rightarrow> compliance_system \<Rightarrow> (unit, compliance_system) outcome" where
  "supersede old_id new_id reason s =
     (if py_strip reason = [] then (Inl (OtherError ''MissingReasonError''), s)
      else (case od_get (cs_docs s) old_id of
          None \<Rightarrow> (Inl (OtherError ''DocumentNotFoundError''), s)
        | Some d \<Rightarrow> (Inr (), s\<lparr>cs_docs := od_put old_id (d\<lparr>dv_status := SupersededDoc, dv_superseded := Some new_id\<rparr>) (cs_docs s)\<rparr>)))"

record publish_inputs =
  pb_id :: string
  pb_created :: time
  pb_stamp :: "nat \<Rightarrow> string \<times> time"

text \<open>The loop of \<open>publish_document\<close> over the documents that were active when it began.\<close>

fun supersede_all :: "compliance_codec \<Rightarrow> publish_inputs \<Rightarrow> string \<Rightarrow> string \<Rightarrow> document_version list \<Rightarrow> compliance_system \<Rightarrow> (unit, compliance_system) outcome" where
  "supersede_all cd i actor reason [] s = (Inr (), s)"
| "supersede_all cd i actor reason (old # olds) s =
     and_then (supersede (dv_id old) (pb_id i) reason s)
       (\<lambda>s1. and_then (audited cd (pb_stamp i (cc_seq (cs_audit s1))) DocSuperseded actor ''system'' (Some reason)
                 [(''old_doc_id'', JStr (dv_id old)), (''new_doc_id'', JStr (pb_id i))] s1)
         (supersede_all cd i actor reason olds))"

definition publish_document :: "compliance_codec \<Rightarrow> publish_inputs \<Rightarrow> document_type \<Rightarrow> string \<Rightarrow> string \<Rightarrow> string \<Rightarrow> time \<Rightarrow> string \<Rightarrow> jurisdiction \<Rightarrow> string
    \<Rightarrow> string option \<Rightarrow> compliance_system \<Rightarrow> (document_version, compliance_system) outcome" where
  "publish_document cd i t version title content effective actor j language supersede_reason s =
     (let d = \<lparr>dv_id = pb_id i, dv_type = t, dv_version = version, dv_title = title, dv_content = content, dv_hash = cp_sha256 cd content,
                dv_status = ActiveDoc, dv_effective = effective, dv_jurisdiction = j, dv_by = actor, dv_created = pb_created i, dv_superseded = None,
                dv_language = language\<rparr>;
          reason = (case supersede_reason of Some r \<Rightarrow> if r = [] then ''Superseded by version '' @ version else r
                    | None \<Rightarrow> ''Superseded by version '' @ version) in
      and_then (supersede_all cd i actor reason (filter (\<lambda>old. dv_type old = t \<and> dv_id old \<noteq> pb_id i) (active_docs s)) s)
        (\<lambda>s1. let s2 = s1\<lparr>cs_docs := od_put (pb_id i) d (cs_docs s1)\<rparr> in
          and_then (audited cd (pb_stamp i (cc_seq (cs_audit s2))) DocPublished actor ''system'' None
              [(''doc_id'', JStr (pb_id i)), (''doc_type'', JStr (document_value t)), (''version'', JStr version)] s2)
            (\<lambda>s3. (Inr d, s3))))"

definition archive_document :: "compliance_codec \<Rightarrow> string \<times> time \<Rightarrow> string \<Rightarrow> string \<Rightarrow> string \<Rightarrow> compliance_system \<Rightarrow> (unit, compliance_system) outcome" where
  "archive_document cd st doc_id actor reason s =
     (if py_strip reason = [] then (Inl (OtherError ''MissingReasonError''), s)
      else (case od_get (cs_docs s) doc_id of
          None \<Rightarrow> (Inl (OtherError ''DocumentNotFoundError''), s)
        | Some d \<Rightarrow> audited cd st DocArchived actor ''system'' (Some reason) [(''doc_id'', JStr doc_id)]
            (s\<lparr>cs_docs := od_put doc_id (d\<lparr>dv_status := ArchivedDoc\<rparr>) (cs_docs s)\<rparr>)))"

subsection \<open>Consents and the disclosure gate\<close>

definition consent_of :: "string \<Rightarrow> document_type \<Rightarrow> string option \<Rightarrow> consent_record \<Rightarrow> bool" where
  "consent_of user t tenant r \<longleftrightarrow> cr_user r = user \<and> cr_type r = t \<and> (case tenant of Some x \<Rightarrow> cr_tenant r = x | None \<Rightarrow> True)"

definition latest_consent :: "string \<Rightarrow> document_type \<Rightarrow> string option \<Rightarrow> compliance_system \<Rightarrow> consent_record option" where
  "latest_consent user t tenant s =
     (case filter (consent_of user t tenant) (map snd (cs_consents s)) of
        [] \<Rightarrow> None
      | r # rs \<Rightarrow> Some (first_greatest cr_accepted r rs))"

definition user_has_accepted :: "time \<Rightarrow> string \<Rightarrow> document_type \<Rightarrow> string option \<Rightarrow> compliance_system \<Rightarrow> bool" where
  "user_has_accepted now user t tenant s = (case latest_consent user t tenant s of Some r \<Rightarrow> consent_valid now r | None \<Rightarrow> False)"

definition withdraw_consent :: "time \<Rightarrow> string \<Rightarrow> string \<Rightarrow> compliance_system \<Rightarrow> (unit, compliance_system) outcome" where
  "withdraw_consent now cid reason s =
     (if py_strip reason = [] then (Inl (OtherError ''MissingReasonError''), s)
      else (case od_get (cs_consents s) cid of
          None \<Rightarrow> (Inl (OtherError ''ComplianceError''), s)
        | Some r \<Rightarrow> (Inr (), s\<lparr>cs_consents := od_put cid (r\<lparr>cr_status := ConsentWithdrawn, cr_withdrawn := Some now, cr_reason := Some reason\<rparr>)
            (cs_consents s)\<rparr>)))"

definition pending_for_user :: "time \<Rightarrow> string \<Rightarrow> string \<Rightarrow> document_type list \<Rightarrow> compliance_system \<Rightarrow> document_type list" where
  "pending_for_user now user tenant required s =
     filter (\<lambda>t. active_for_type t GlobalJ s \<noteq> None \<and> \<not> user_has_accepted now user t (Some tenant) s) required"

definition types_json :: "document_type list \<Rightarrow> json" where
  "types_json ts = JList (map (\<lambda>t. JStr (document_value t)) ts)"

text \<open>\<open>check_access\<close> answers the types still missing, or raises ConsentRequiredError.\<close>

definition check_access :: "compliance_codec \<Rightarrow> string \<times> time \<Rightarrow> time \<Rightarrow> string \<Rightarrow> string \<Rightarrow> time \<Rightarrow> document_type list \<Rightarrow> compliance_system
    \<Rightarrow> (document_type list, compliance_system) outcome" where
  "check_access cd st now user tenant created required s =
     (let missing = pending_for_user now user tenant required s in
      if missing = [] then
        and_then (audited cd st DisclosureGate user tenant None [(''result'', JStr ''allowed'')] s) (\<lambda>s1. (Inr [], s1))
      else if now - created < of_int (cf_grace_days (cs_config s)) * 86400 then
        and_then (audited cd st DisclosureGate user tenant None [(''result'', JStr ''grace_period''), (''missing'', types_json missing)] s) (\<lambda>s1. (Inr missing, s1))
      else
        and_then (audited cd st DisclosureBlock user tenant None [(''missing'', types_json missing)] s)
          (\<lambda>s1. (Inl (OtherError ''ConsentRequiredError''), s1)))"

definition record_consent :: "compliance_codec \<Rightarrow> string \<times> time \<Rightarrow> string \<Rightarrow> time \<Rightarrow> string \<Rightarrow> string \<Rightarrow> document_type \<Rightarrow> string \<Rightarrow> string \<Rightarrow> int option
    \<Rightarrow> compliance_system \<Rightarrow> (consent_record, compliance_system) outcome" where
  "record_consent cd st cid now user tenant t ip agent ttl_days s =
     (case active_for_type t GlobalJ s of
        None \<Rightarrow> (Inl (OtherError ''DocumentNotFoundError''), s)
      | Some d \<Rightarrow>
          (let r = \<lparr>cr_id = cid, cr_user = user, cr_tenant = tenant, cr_doc = dv_id d, cr_type = t, cr_version = dv_version d, cr_status = ConsentAccepted,
                     cr_ip = ip, cr_agent = agent, cr_accepted = now,
                     cr_expires = (case ttl_days of Some n \<Rightarrow> if n \<noteq> 0 then Some (now + of_int n * 86400) else None | None \<Rightarrow> None),
                     cr_withdrawn = None, cr_reason = None\<rparr> in
           and_then (audited cd st ConsentRecorded user tenant None
               [(''doc_type'', JStr (document_value t)), (''doc_version'', JStr (dv_version d)), (''ip_address'', JStr ip)]
               (s\<lparr>cs_consents := od_put cid r (cs_consents s)\<rparr>))
             (\<lambda>s1. (Inr r, s1))))"

definition bulk_consent_check :: "time \<Rightarrow> string list \<Rightarrow> string \<Rightarrow> document_type list \<Rightarrow> compliance_system \<Rightarrow> (string, document_type list) odict" where
  "bulk_consent_check now users tenant required s =
     fold (\<lambda>u res. let m = pending_for_user now u tenant required s in if m \<noteq> [] then od_put u m res else res) users []"

subsection \<open>Retention, refunds and cancellations\<close>

definition set_retention :: "compliance_codec \<Rightarrow> string \<times> time \<Rightarrow> retention_rule \<Rightarrow> string \<Rightarrow> string \<Rightarrow> compliance_system \<Rightarrow> (unit, compliance_system) outcome" where
  "set_retention cd st r actor tenant s =
     audited cd st RetentionSet actor tenant None [(''category'', JStr (rl_category r)), (''retain_days'', JInt (rl_days r))]
       (s\<lparr>cs_rules := od_put (rl_category r) r (cs_rules s)\<rparr>)"

definition retention_expired :: "time \<Rightarrow> string \<Rightarrow> time \<Rightarrow> compliance_system \<Rightarrow> bool" where
  "retention_expired now category created s =
     (case od_get (cs_rules s) category of None \<Rightarrow> False | Some r \<Rightarrow> (now - created) / 86400 > of_int (rl_days r))"

definition request_refund :: "string \<Rightarrow> time \<Rightarrow> string \<Rightarrow> string \<Rightarrow> int \<Rightarrow> string \<Rightarrow> string \<Rightarrow> time \<Rightarrow> compliance_system \<Rightarrow> (refund_request, compliance_system) outcome" where
  "request_refund rid now user tenant cents currency reason purchase s =
     (if cf_require_reason (cs_config s) \<and> py_strip reason = [] then (Inl (OtherError ''MissingReasonError''), s)
      else (let r = \<lparr>rf_id = rid, rf_user = user, rf_tenant = tenant, rf_cents = cents, rf_currency = currency, rf_reason = reason, rf_requested = now,
                     rf_purchase = purchase, rf_status = PendingRequest, rf_resolved = None, rf_by = None, rf_denial = None\<rparr> in
            (Inr r, s\<lparr>cs_refunds := od_put rid r (cs_refunds s)\<rparr>)))"

definition deny_refund :: "compliance_codec \<Rightarrow> string \<times> time \<Rightarrow> time \<Rightarrow> string \<Rightarrow> string \<Rightarrow> refund_request \<Rightarrow> compliance_system \<Rightarrow> (refund_request, compliance_system) outcome" where
  "deny_refund cd st now actor why r s =
     and_then (audited cd st RefundDenied actor (rf_tenant r) (Some why) [(''request_id'', JStr (rf_id r))]
         (s\<lparr>cs_refunds := od_put (rf_id r) (r\<lparr>rf_status := DeniedRequest, rf_denial := Some why, rf_resolved := Some now, rf_by := Some actor\<rparr>) (cs_refunds s)\<rparr>))
       (\<lambda>s1. (Inl (OtherError ''RefundDeniedError''), s1))"

definition evaluate_refund :: "compliance_codec \<Rightarrow> string \<times> time \<Rightarrow> time \<Rightarrow> string \<Rightarrow> string \<Rightarrow> compliance_system \<Rightarrow> (refund_request, compliance_system) outcome" where
  "evaluate_refund cd st now rid actor s =
     (case od_get (cs_refunds s) rid of
        None \<Rightarrow> (Inl (OtherError ''ComplianceError''), s)
      | Some r \<Rightarrow>
          if (now - rf_purchase r) / 86400 > of_int (cf_window_days (cs_config s)) then
            deny_refund cd st now actor (''Outside refund window ('' @ int_digits (cf_window_days (cs_config s)) @ '' days)'') r s
          else if rf_cents r > cf_max_cents (cs_config s) then deny_refund cd st now actor ''Amount exceeds maximum refund limit'' r s
          else
            (let r' = r\<lparr>rf_status := ApprovedRequest, rf_resolved := Some now, rf_by := Some actor\<rparr> in
             and_then (audited cd st RefundIssued actor (rf_tenant r) None [(''request_id'', JStr rid), (''amount_cents'', JInt (rf_cents r))]
                 (s\<lparr>cs_refunds := od_put (rf_id r) r' (cs_refunds s)\<rparr>))
               (\<lambda>s1. (Inr r', s1))))"

definition request_cancellation :: "compliance_codec \<Rightarrow> string \<times> time \<Rightarrow> string \<Rightarrow> time \<Rightarrow> string \<Rightarrow> string \<Rightarrow> string \<Rightarrow> bool \<Rightarrow> bool \<Rightarrow> compliance_system
    \<Rightarrow> (cancellation_request, compliance_system) outcome" where
  "request_cancellation cd st rid now user tenant reason immediate deletion s =
     (if py_strip reason = [] then (Inl (OtherError ''MissingReasonError''), s)
      else if immediate \<and> \<not> cf_immediate (cs_config s) then (Inl (OtherError ''CancellationError''), s)
      else (let notice = (if immediate then 0 else cf_notice_days (cs_config s));
                r = \<lparr>cn_id = rid, cn_user = user, cn_tenant = tenant, cn_reason = reason, cn_requested = now, cn_effective = now + of_int notice * 86400,
                     cn_notice = notice, cn_status = PendingRequest, cn_confirmed = None, cn_deletion = deletion\<rparr> in
            and_then (audited cd st CancelRequested user tenant None [(''request_id'', JStr rid), (''notice_days'', JInt notice)]
                (s\<lparr>cs_cancels := od_put rid r (cs_cancels s)\<rparr>))
              (\<lambda>s1. (Inr r, s1))))"

definition confirm_cancellation :: "compliance_codec \<Rightarrow> string \<times> time \<Rightarrow> time \<Rightarrow> string \<Rightarrow> string \<Rightarrow> compliance_system \<Rightarrow> (cancellation_request, compliance_system) outcome" where
  "confirm_cancellation cd st now rid actor s =
     (case od_get (cs_cancels s) rid of
        None \<Rightarrow> (Inl (OtherError ''CancellationError''), s)
      | Some r \<Rightarrow>
          if cn_status r = ConfirmedRequest then (Inl (OtherError ''CancellationError''), s)
          else (let r' = r\<lparr>cn_status := ConfirmedRequest, cn_confirmed := Some now\<rparr> in
                and_then (audited cd st CancelConfirmed actor (cn_tenant r) None [(''request_id'', JStr rid)]
                    (s\<lparr>cs_cancels := od_put rid r' (cs_cancels s)\<rparr>))
                  (\<lambda>s1. (Inr r', s1))))"

definition abort_cancellation :: "string \<Rightarrow> compliance_system \<Rightarrow> (cancellation_request, compliance_system) outcome" where
  "abort_cancellation rid s =
     (case od_get (cs_cancels s) rid of
        None \<Rightarrow> (Inl (OtherError ''CancellationError''), s)
      | Some r \<Rightarrow>
          if cn_status r = ConfirmedRequest then (Inl (OtherError ''CancellationError''), s)
          else (Inr (r\<lparr>cn_status := CancelledRequest\<rparr>), s\<lparr>cs_cancels := od_put rid (r\<lparr>cn_status := CancelledRequest\<rparr>) (cs_cancels s)\<rparr>))"

subsection \<open>The readiness check and the system as built\<close>

definition required_retention :: "string list" where
  "required_retention = [''user_pii'', ''trading_logs'', ''audit_logs'', ''financial_records'', ''payment_records'']"

datatype readiness_gap =
  MissingDocument document_type | NoActiveVersion document_type | MissingRetention string | RefundWindow | NegativeNotice | TamperedAudit

fun gap_points :: "readiness_gap \<Rightarrow> int" where
  "gap_points (MissingDocument t) = 10"
| "gap_points (NoActiveVersion t) = 8"
| "gap_points (MissingRetention c) = 5"
| "gap_points RefundWindow = 5"
| "gap_points NegativeNotice = 5"
| "gap_points TamperedAudit = 20"

record readiness_report =
  sr_passed :: bool
  sr_score :: int
  sr_missing :: "document_type list"
  sr_outdated :: "document_type list"
  sr_gaps :: "readiness_gap list"

definition readiness_gaps :: "compliance_codec \<Rightarrow> compliance_system \<Rightarrow> readiness_gap list" where
  "readiness_gaps cd s =
     map MissingDocument (missing_types saas_required_docs s)
     @ map NoActiveVersion (filter (\<lambda>t. active_for_type t GlobalJ s = None) acceptance_required)
     @ map MissingRetention (filter (\<lambda>c. od_get (cs_rules s) c = None) required_retention)
     @ (if cf_window_days (cs_config s) < 1 then [RefundWindow] else [])
     @ (if cf_notice_days (cs_config s) < 0 then [NegativeNotice] else [])
     @ (if compliance_verify cd (cs_audit s) then [] else [TamperedAudit])"

definition readiness_check :: "compliance_codec \<Rightarrow> string \<times> time \<Rightarrow> string \<Rightarrow> compliance_system \<Rightarrow> (readiness_report, compliance_system) outcome" where
  "readiness_check cd st actor s =
     (let gaps = readiness_gaps cd s; score = max 0 (100 - sum_list (map gap_points gaps)); passed = (80 \<le> score \<and> gaps = []);
          rep = \<lparr>sr_passed = passed, sr_score = score, sr_missing = missing_types saas_required_docs s,
            sr_outdated = filter (\<lambda>t. active_for_type t GlobalJ s = None) acceptance_required, sr_gaps = gaps\<rparr> in
      and_then (audited cd st SaasCheck actor ''system'' None
          [(''passed'', JBool passed), (''score'', JInt score), (''gaps'', JInt (int (length gaps)))] s)
        (\<lambda>s1. (Inr rep, s1)))"

definition empty_compliance :: "compliance_codec \<Rightarrow> compliance_config \<Rightarrow> compliance_system" where
  "empty_compliance cd cfg = \<lparr>cs_config = cfg, cs_docs = [], cs_consents = [], cs_rules = default_retention_rules, cs_refunds = [], cs_cancels = [],
     cs_audit = new_compliance_chain cd\<rparr>"

definition build_compliance :: "compliance_codec \<Rightarrow> compliance_config \<Rightarrow> (document_type \<Rightarrow> string \<times> string) \<Rightarrow> (document_type \<Rightarrow> publish_inputs) \<Rightarrow> time \<Rightarrow> compliance_system" where
  "build_compliance cd cfg text_of inputs now =
     fold (\<lambda>t s. snd (publish_document cd (inputs t) t ''1.0.0'' (fst (text_of t)) (snd (text_of t)) now ''system'' GlobalJ ''en'' None s))
       document_types (empty_compliance cd cfg)"

subsection \<open>One active document of a type\<close>

lemma audited_docs [simp]:
  "cs_docs (snd (audited cd st a actor tenant why d s)) = cs_docs s" "cs_consents (snd (audited cd st a actor tenant why d s)) = cs_consents s"
  "cs_config (snd (audited cd st a actor tenant why d s)) = cs_config s" "cs_refunds (snd (audited cd st a actor tenant why d s)) = cs_refunds s"
  "cs_cancels (snd (audited cd st a actor tenant why d s)) = cs_cancels s" "cs_rules (snd (audited cd st a actor tenant why d s)) = cs_rules s"
  by (simp_all add: audited_def split: prod.split)

lemma audited_passes: "a \<notin> set reason_required \<or> \<not> no_reason why \<Longrightarrow> fst (audited cd st a actor tenant why d s) = Inr ()"
  by (auto simp: audited_def compliance_record_def Let_def)

lemma audited_then: "a \<notin> set reason_required \<or> \<not> no_reason why \<Longrightarrow>
    and_then (audited cd st a actor tenant why d s) f = f (snd (audited cd st a actor tenant why d s))"
  by (rule and_then_Inr) (rule audited_passes)

text \<open>Documents lie under their ids, and two active ones of a type are the same.\<close>

definition docs_good :: "(string, document_version) odict \<Rightarrow> bool" where
  "docs_good d \<longleftrightarrow> od_wf d \<and> (\<forall>k x. od_get d k = Some x \<longrightarrow> dv_id x = k)
     \<and> (\<forall>k x l y. od_get d k = Some x \<and> od_get d l = Some y \<and> dv_status x = ActiveDoc \<and> dv_status y = ActiveDoc \<and> dv_type x = dv_type y \<longrightarrow> k = l)"

text \<open>What superseding and archiving do: documents stop being active and otherwise keep type and id.\<close>

definition retired :: "(string, document_version) odict \<Rightarrow> (string, document_version) odict \<Rightarrow> bool" where
  "retired d d' \<longleftrightarrow> (od_wf d \<longrightarrow> od_wf d')
     \<and> (\<forall>k y. od_get d' k = Some y \<longrightarrow> (\<exists>x. od_get d k = Some x \<and> dv_type y = dv_type x \<and> dv_id y = dv_id x \<and> (dv_status y = ActiveDoc \<longrightarrow> y = x)))"

lemma retired_refl [simp]: "retired d d"
  by (simp add: retired_def)

lemma retired_trans: "retired d e \<Longrightarrow> retired e f \<Longrightarrow> retired d f"
  unfolding retired_def by (metis (no_types, lifting))

lemma retired_good: "docs_good d \<Longrightarrow> retired d d' \<Longrightarrow> docs_good d'"
  unfolding docs_good_def retired_def by (metis (no_types, lifting))

lemma retired_put:
  "od_get d k = Some x \<Longrightarrow> dv_type y = dv_type x \<Longrightarrow> dv_id y = dv_id x \<Longrightarrow> dv_status y \<noteq> ActiveDoc \<Longrightarrow> retired d (od_put k y d)"
  by (auto simp: retired_def)

definition inactive :: "string \<Rightarrow> (string, document_version) odict \<Rightarrow> bool" where
  "inactive k d \<longleftrightarrow> (case od_get d k of Some x \<Rightarrow> dv_status x \<noteq> ActiveDoc | None \<Rightarrow> True)"

lemma inactive_retired: "inactive k d \<Longrightarrow> retired d d' \<Longrightarrow> inactive k d'"
  by (fastforce simp: inactive_def retired_def split: option.splits)

lemma supersede_effect:
  "retired (cs_docs s) (cs_docs (snd (supersede k n why s))) \<and> (fst (supersede k n why s) = Inr () \<longrightarrow> inactive k (cs_docs (snd (supersede k n why s))))"
  by (auto simp: supersede_def inactive_def intro: retired_put split: option.split)

lemma supersede_all_effect:
  "retired (cs_docs s) (cs_docs (snd (supersede_all cd i actor why olds s)))
   \<and> (fst (supersede_all cd i actor why olds s) = Inr () \<longrightarrow> list_all (\<lambda>o'. inactive (dv_id o') (cs_docs (snd (supersede_all cd i actor why olds s)))) olds)"
proof (induction olds arbitrary: s)
  case (Cons old olds)
  define r where "r = supersede (dv_id old) (pb_id i) why s"
  note eff = supersede_effect [of s "dv_id old" "pb_id i" why, folded r_def]
  show ?case
  proof (cases "fst r")
    case (Inl e)
    then have all: "supersede_all cd i actor why (old # olds) s = (Inl e, snd r)" unfolding supersede_all.simps r_def [symmetric] by (rule and_then_Inl)
    show ?thesis unfolding all using eff by simp
  next
    case (Inr u)
    define a where "a = audited cd (pb_stamp i (cc_seq (cs_audit (snd r)))) DocSuperseded actor ''system'' (Some why)
        [(''old_doc_id'', JStr (dv_id old)), (''new_doc_id'', JStr (pb_id i))] (snd r)"
    have d: "cs_docs (snd a) = cs_docs (snd r)" by (simp add: a_def)
    have all: "supersede_all cd i actor why (old # olds) s = and_then a (supersede_all cd i actor why olds)"
      unfolding supersede_all.simps r_def [symmetric] a_def using Inr by (rule and_then_Inr)
    show ?thesis
    proof (cases "fst a")
      case (Inl e)
      then have "and_then a (supersede_all cd i actor why olds) = (Inl e, snd a)" by (rule and_then_Inl)
      then show ?thesis unfolding all using eff d by simp
    next
      case (Inr v)
      have "retired (cs_docs s) (cs_docs (snd (supersede_all cd i actor why olds (snd a))))"
        using retired_trans eff Cons.IH [of "snd a"] d by metis
      moreover have "inactive (dv_id old) (cs_docs (snd r))" using eff \<open>fst r = Inr u\<close> by simp
      then have "inactive (dv_id old) (cs_docs (snd (supersede_all cd i actor why olds (snd a))))"
        using inactive_retired Cons.IH [of "snd a"] d by metis
      ultimately show ?thesis unfolding all and_then_Inr [OF Inr] using Cons.IH [of "snd a"] by simp
    qed
  qed
qed simp

lemma publish_good:
  assumes g: "docs_good (cs_docs s)"
  shows "docs_good (cs_docs (snd (publish_document cd i t version title content eff actor j lang why s)))"
proof -
  define olds where "olds = filter (\<lambda>old. dv_type old = t \<and> dv_id old \<noteq> pb_id i) (active_docs s)"
  define reason where "reason = (case why of Some r \<Rightarrow> if r = [] then ''Superseded by version '' @ version else r
                    | None \<Rightarrow> ''Superseded by version '' @ version)"
  define r where "r = supersede_all cd i actor reason olds s"
  define d where "d = \<lparr>dv_id = pb_id i, dv_type = t, dv_version = version, dv_title = title, dv_content = content, dv_hash = cp_sha256 cd content,
                dv_status = ActiveDoc, dv_effective = eff, dv_jurisdiction = j, dv_by = actor, dv_created = pb_created i, dv_superseded = None,
                dv_language = lang\<rparr>"
  note e = supersede_all_effect [of s cd i actor reason olds, folded r_def]
  have g': "docs_good (cs_docs (snd r))" using retired_good [OF g] e by blast
  show ?thesis
  proof (cases "fst r")
    case (Inl x)
    then have "publish_document cd i t version title content eff actor j lang why s = (Inl x, snd r)"
      unfolding publish_document_def Let_def by (simp add: olds_def [symmetric] reason_def [symmetric] r_def [symmetric] and_then_Inl)
    then show ?thesis using g' by simp
  next
    case (Inr u)
    have docs: "cs_docs (snd (publish_document cd i t version title content eff actor j lang why s)) = od_put (pb_id i) d (cs_docs (snd r))"
      using Inr unfolding publish_document_def Let_def
      by (simp add: olds_def [symmetric] reason_def [symmetric] r_def [symmetric] and_then_Inr audited_then reason_required_def d_def)
    have none: "k = pb_id i" if x: "od_get (cs_docs (snd r)) k = Some x" "dv_status x = ActiveDoc" "dv_type x = t" for k x
    proof (rule ccontr)
      assume "k \<noteq> pb_id i"
      obtain y where y: "od_get (cs_docs s) k = Some y" "x = y" using e x(1,2) by (auto simp: retired_def)
      then have "dv_id x = k" using g by (auto simp: docs_good_def)
      moreover have "x \<in> set (map snd (cs_docs s))" using od_get_SomeD [OF y(1)] y(2) by force
      ultimately have "x \<in> set olds" using x \<open>k \<noteq> pb_id i\<close> by (auto simp: olds_def active_docs_def)
      then have "inactive k (cs_docs (snd r))" using e Inr \<open>dv_id x = k\<close> by (auto simp: list_all_iff)
      then show False using x by (simp add: inactive_def)
    qed
    then show ?thesis unfolding docs using g' unfolding docs_good_def
      by (auto simp: d_def split: if_splits)
  qed
qed


subsection \<open>Runs of the system\<close>

datatype compliance_op =
    Publish publish_inputs document_type string string string time string jurisdiction string "string option"
  | Archive "string \<times> time" string string string
  | Check_Access "string \<times> time" time string string time "document_type list"
  | Record_Consent "string \<times> time" string time string string document_type string string "int option"
  | Withdraw_Consent time string string
  | Set_Retention "string \<times> time" retention_rule string string
  | Request_Refund string time string string int string string time
  | Evaluate_Refund "string \<times> time" time string string
  | Request_Cancellation "string \<times> time" string time string string string bool bool
  | Confirm_Cancellation "string \<times> time" time string string
  | Abort_Cancellation string
  | Readiness_Check "string \<times> time" string

fun compliance_apply :: "compliance_codec \<Rightarrow> compliance_op \<Rightarrow> compliance_system \<Rightarrow> compliance_system" where
  "compliance_apply cd (Publish i t v title content eff actor j lang why) s = snd (publish_document cd i t v title content eff actor j lang why s)"
| "compliance_apply cd (Archive st k actor why) s = snd (archive_document cd st k actor why s)"
| "compliance_apply cd (Check_Access st now user tenant created required) s = snd (check_access cd st now user tenant created required s)"
| "compliance_apply cd (Record_Consent st cid now user tenant t ip agent ttl) s = snd (record_consent cd st cid now user tenant t ip agent ttl s)"
| "compliance_apply cd (Withdraw_Consent now cid why) s = snd (withdraw_consent now cid why s)"
| "compliance_apply cd (Set_Retention st r actor tenant) s = snd (set_retention cd st r actor tenant s)"
| "compliance_apply cd (Request_Refund rid now user tenant cents cur why purchase) s = snd (request_refund rid now user tenant cents cur why purchase s)"
| "compliance_apply cd (Evaluate_Refund st now rid actor) s = snd (evaluate_refund cd st now rid actor s)"
| "compliance_apply cd (Request_Cancellation st rid now user tenant why imm del) s = snd (request_cancellation cd st rid now user tenant why imm del s)"
| "compliance_apply cd (Confirm_Cancellation st now rid actor) s = snd (confirm_cancellation cd st now rid actor s)"
| "compliance_apply cd (Abort_Cancellation rid) s = snd (abort_cancellation rid s)"
| "compliance_apply cd (Readiness_Check st actor) s = snd (readiness_check cd st actor s)"

definition consents_good :: "(string, consent_record) odict \<Rightarrow> bool" where
  "consents_good d \<longleftrightarrow> od_wf d \<and> (\<forall>(k, r) \<in> set d. cr_id r = k)"

definition compliance_good :: "compliance_system \<Rightarrow> bool" where
  "compliance_good s \<longleftrightarrow> docs_good (cs_docs s) \<and> consents_good (cs_consents s)"

lemma consents_good_put [simp]: "consents_good d \<Longrightarrow> cr_id r = k \<Longrightarrow> consents_good (od_put k r d)"
  by (auto simp: consents_good_def set_od_put)

lemma supersede_all_consents: "cs_consents s = c \<Longrightarrow> cs_consents (snd (supersede_all cd i actor why olds s)) = c"
proof (induction olds arbitrary: s)
  case (Cons old olds)
  have "cs_consents (snd (supersede k n w s)) = c" for k n w using Cons.prems by (simp add: supersede_def split: option.split)
  then show ?case unfolding supersede_all.simps
    by (rule and_then_keeps [where P = "\<lambda>s. cs_consents s = c"], intro and_then_keeps [where P = "\<lambda>s. cs_consents s = c"]) (simp_all add: Cons.IH)
qed simp

lemma publish_consents: "cs_consents (snd (publish_document cd i t version title content eff actor j lang why s)) = cs_consents s"
  unfolding publish_document_def Let_def
  by (rule and_then_keeps [where P = "\<lambda>x. cs_consents x = cs_consents s"]) (simp_all add: supersede_all_consents audited_then reason_required_def)

lemma audited_end [simp]:
  "cs_docs (snd (and_then (audited cd st a actor tenant why d s) (\<lambda>s1. (x, s1)))) = cs_docs s"
  "cs_consents (snd (and_then (audited cd st a actor tenant why d s) (\<lambda>s1. (x, s1)))) = cs_consents s"
  by (rule and_then_keeps [where P = "\<lambda>x. cs_docs x = cs_docs s"], simp_all)
     (rule and_then_keeps [where P = "\<lambda>x. cs_consents x = cs_consents s"], simp_all)

lemma docs_good_archive: "docs_good d \<Longrightarrow> od_get d k = Some x \<Longrightarrow> docs_good (od_put k (x\<lparr>dv_status := ArchivedDoc\<rparr>) d)"
  by (rule retired_good, assumption, rule retired_put) (auto simp: docs_good_def)

lemma compliance_good_apply: "compliance_good s \<Longrightarrow> compliance_good (compliance_apply cd op s)"
proof (cases op)
  case (Publish i t v title content eff actor j lang why)
  then show "compliance_good s \<Longrightarrow> ?thesis" by (simp add: compliance_good_def publish_good publish_consents)
next
  case (Archive st k actor why)
  then show "compliance_good s \<Longrightarrow> ?thesis" by (auto simp: compliance_good_def archive_document_def docs_good_archive split: option.split)
next
  case (Withdraw_Consent now cid why)
  then show "compliance_good s \<Longrightarrow> ?thesis"
    using od_get_SomeD [of "cs_consents s" cid] by (fastforce simp: compliance_good_def withdraw_consent_def consents_good_def set_od_put split: option.split)
qed (simp_all add: compliance_good_def check_access_def record_consent_def set_retention_def request_refund_def evaluate_refund_def deny_refund_def
    request_cancellation_def confirm_cancellation_def abort_cancellation_def readiness_check_def Let_def split: option.split)


interpretation compliance_runs: guarded_state "compliance_apply cd" compliance_good for cd
  by unfold_locales (rule compliance_good_apply)

lemma docs_good_distinct: "docs_good d \<Longrightarrow> distinct (map dv_type (filter (\<lambda>x. dv_status x = ActiveDoc) (map snd d)))"
proof -
  assume g: "docs_good d"
  then have w: "distinct (map fst d)" by (simp add: docs_good_def od_wf_def)
  then have "distinct (map (dv_type \<circ> snd) (filter (\<lambda>p. dv_status (snd p) = ActiveDoc) d))"
    unfolding distinct_map
  proof (intro conjI inj_onI)
    show "distinct (filter (\<lambda>p. dv_status (snd p) = ActiveDoc) d)" using w by (simp add: distinct_map)
    fix p q
    assume pq: "p \<in> set (filter (\<lambda>p. dv_status (snd p) = ActiveDoc) d)" "q \<in> set (filter (\<lambda>p. dv_status (snd p) = ActiveDoc) d)"
      "(dv_type \<circ> snd) p = (dv_type \<circ> snd) q"
    have "od_get d (fst p) = Some (snd p)" "od_get d (fst q) = Some (snd q)" using pq w by (simp_all add: od_get_in od_wf_def)
    then show "p = q" using g pq by (fastforce simp: docs_good_def intro: prod_eqI)
  qed
  then show ?thesis by (simp add: filter_map comp_def)
qed

lemma build_is_a_run:
  "build_compliance cd cfg text_of inputs now =
     fold (compliance_apply cd) (map (\<lambda>t. Publish (inputs t) t ''1.0.0'' (fst (text_of t)) (snd (text_of t)) now ''system'' GlobalJ ''en'' None) document_types)
       (empty_compliance cd cfg)"
proof -
  have "(\<lambda>t. compliance_apply cd (Publish (inputs t) t ''1.0.0'' (fst (text_of t)) (snd (text_of t)) now ''system'' GlobalJ ''en'' None))
    = (\<lambda>t s. snd (publish_document cd (inputs t) t ''1.0.0'' (fst (text_of t)) (snd (text_of t)) now ''system'' GlobalJ ''en'' None s))"
    by (intro ext) simp
  then show ?thesis by (simp add: build_compliance_def fold_map comp_def)
qed

lemma empty_good: "compliance_good (empty_compliance cd cfg)"
  by (simp add: compliance_good_def empty_compliance_def docs_good_def consents_good_def)

text \<open>
  C26: at any time of any run of the system, that with the documents of \<open>build_compliance_system\<close> included, each type has at most one
  active document: publishing a version retires the one before it, and no other operation makes a document active.
\<close>

theorem one_active_document:
  "distinct (map dv_type (active_docs (fold (compliance_apply cd) ops (empty_compliance cd cfg))))"
  using compliance_runs.run_good [OF empty_good] by (simp add: compliance_good_def docs_good_distinct active_docs_def)

subsection \<open>Withdrawal closes the gate\<close>

lemma first_greatest_map: "(\<And>y. f (g y) = f y) \<Longrightarrow> first_greatest f (g x) (map g xs) = g (first_greatest f x xs)"
proof (induction f x xs rule: first_greatest.induct)
  case (2 f m x xs)
  then show ?case by (cases "f m < f x") simp_all
qed simp

lemma od_put_values:
  "\<forall>(k, x) \<in> set d. h x = k \<Longrightarrow> od_wf d \<Longrightarrow> k \<in> fst ` set d \<Longrightarrow> map snd (od_put k v d) = map (\<lambda>x. if h x = k then v else x) (map snd d)"
proof (induction d)
  case (Cons p d)
  then show ?case by (cases p) (auto simp: map_idI intro: rev_image_eqI)
qed simp

definition withdrawn_by :: "time \<Rightarrow> string \<Rightarrow> string \<Rightarrow> consent_record \<Rightarrow> consent_record" where
  "withdrawn_by w k why r = (if cr_id r = k then r\<lparr>cr_status := ConsentWithdrawn, cr_withdrawn := Some w, cr_reason := Some why\<rparr> else r)"

lemma withdraw_values:
  assumes "compliance_good s" "od_get (cs_consents s) k = Some r" "py_strip why \<noteq> []"
  shows "map snd (cs_consents (snd (withdraw_consent w k why s))) = map (withdrawn_by w k why) (map snd (cs_consents s))"
proof -
  let ?r = "r\<lparr>cr_status := ConsentWithdrawn, cr_withdrawn := Some w, cr_reason := Some why\<rparr>"
  have c: "od_wf (cs_consents s)" "\<forall>(k, x) \<in> set (cs_consents s). cr_id x = k"
    using assms(1) by (auto simp: compliance_good_def consents_good_def)
  have one: "x = r" if "x \<in> set (map snd (cs_consents s))" "cr_id x = k" for x
  proof -
    have "(k, x) \<in> set (cs_consents s)" using that c(2) by auto
    then show ?thesis using od_get_in [OF c(1)] assms(2) by simp
  qed
  have "map snd (od_put k ?r (cs_consents s)) = map (\<lambda>x. if cr_id x = k then ?r else x) (map snd (cs_consents s))"
    using c od_get_Some_dom [OF assms(2)] by (intro od_put_values) auto
  also have "\<dots> = map (withdrawn_by w k why) (map snd (cs_consents s))"
    using one by (intro map_cong) (auto simp: withdrawn_by_def)
  finally show ?thesis using assms by (simp add: withdraw_consent_def)
qed

lemma latest_consent_known: "latest_consent user t tenant s = Some r \<Longrightarrow> r \<in> set (map snd (cs_consents s))"
proof -
  assume "latest_consent user t tenant s = Some r"
  then obtain x xs where x: "filter (consent_of user t tenant) (map snd (cs_consents s)) = x # xs"
      "r = first_greatest cr_accepted x xs"
    by (auto simp: latest_consent_def split: list.splits)
  have "r \<in> set (x # xs)" using x(2) first_greatest_in [of cr_accepted x xs] by simp
  then show ?thesis unfolding x(1) [symmetric] by simp
qed

lemma latest_after_withdrawal:
  assumes good: "compliance_good s" and l: "latest_consent user t tenant s = Some r" and why: "py_strip why \<noteq> []"
  shows "latest_consent user t tenant (snd (withdraw_consent w (cr_id r) why s)) = Some (withdrawn_by w (cr_id r) why r)"
proof -
  obtain k where k: "(k, r) \<in> set (cs_consents s)" using latest_consent_known [OF l] by auto
  have get: "od_get (cs_consents s) (cr_id r) = Some r"
    using good k by (auto simp: compliance_good_def consents_good_def intro!: od_get_in)
  define g where "g = withdrawn_by w (cr_id r) why"
  have acc: "cr_accepted (g x) = cr_accepted x" and of: "consent_of user t tenant (g x) = consent_of user t tenant x" for x
    by (simp_all add: g_def withdrawn_by_def consent_of_def split: option.split)
  have "filter (consent_of user t tenant) (map g xs) = map g (filter (consent_of user t tenant) xs)" for xs
    by (induction xs) (simp_all add: of)
  then show ?thesis using l unfolding latest_consent_def withdraw_values [OF good get why] g_def [symmetric]
    by (auto simp: first_greatest_map acc simp del: map_map split: list.splits)
qed


lemma check_access_answer:
  "fst (check_access cd st now user tenant created required s) =
     (let missing = pending_for_user now user tenant required s in
      if missing = [] then Inr []
      else if now - created < of_int (cf_grace_days (cs_config s)) * 86400 then Inr missing
      else Inl (OtherError ''ConsentRequiredError''))"
  by (simp add: check_access_def Let_def audited_then reason_required_def)

lemma withdraw_keeps [simp]:
  "cs_docs (snd (withdraw_consent w k why s)) = cs_docs s" "cs_config (snd (withdraw_consent w k why s)) = cs_config s"
  by (simp_all add: withdraw_consent_def split: option.split)

text \<open>
  C27: in any state the system can reach, withdrawing a user's latest consent to a required document that is in force closes
  the disclosure gate: once the grace days since the account was created are over, \<open>check_access\<close> raises ConsentRequiredError,
  whatever the user has accepted besides.
\<close>

theorem withdrawal_closes_the_gate:
  assumes "s = fold (compliance_apply cd) ops (empty_compliance cd cfg)"
    and "latest_consent user t (Some tenant) s = Some r" and "py_strip why \<noteq> []"
    and "active_for_type t GlobalJ s \<noteq> None" and "t \<in> set required"
    and "of_int (cf_grace_days (cs_config s)) * 86400 \<le> now - created"
  shows "fst (check_access cd st now user tenant created required (snd (withdraw_consent w (cr_id r) why s))) = Inl (OtherError ''ConsentRequiredError'')"
proof -
  let ?s = "snd (withdraw_consent w (cr_id r) why s)"
  have "compliance_good s" unfolding assms(1) by (rule compliance_runs.run_good [OF empty_good])
  then have "latest_consent user t (Some tenant) ?s = Some (withdrawn_by w (cr_id r) why r)" using assms(2,3) by (rule latest_after_withdrawal)
  then have "\<not> user_has_accepted now user t (Some tenant) ?s" by (simp add: user_has_accepted_def consent_valid_def withdrawn_by_def)
  moreover have "active_for_type t GlobalJ ?s \<noteq> None" using assms(4) by (simp add: active_for_type_def)
  ultimately have "t \<in> set (pending_for_user now user tenant required ?s)" using assms(5) by (simp add: pending_for_user_def)
  then have "pending_for_user now user tenant required ?s \<noteq> []" by auto
  then show ?thesis using assms(6) by (simp add: check_access_answer Let_def)
qed

subsection \<open>The trail\<close>

interpretation compliance_links: hash_chain "compliance_fits cd" ce_hash "compliance_seal cd" for cd
  by unfold_locales (simp add: compliance_fits_def compliance_seal_def compliance_hash_def compliance_canonical_def)

definition compliance_trail :: "compliance_codec \<Rightarrow> compliance_system \<Rightarrow> bool" where
  "compliance_trail cd s \<longleftrightarrow>
     compliance_links.tail_ok cd (compliance_genesis cd) compliance_max (cc_entries (cs_audit s)) (cc_prev (cs_audit s)) (cc_seq (cs_audit s))"

lemma audited_trail: "compliance_trail cd s \<Longrightarrow> compliance_trail cd (snd (audited cd st a actor tenant why d s))"
  using compliance_links.tail_push [of cd "compliance_genesis cd" compliance_max]
  by (simp add: compliance_trail_def audited_def compliance_record_def compliance_max_def Let_def split: prod.split)

lemma audited_end_trail:
  "compliance_trail cd s \<Longrightarrow> compliance_trail cd (snd (and_then (audited cd st a actor tenant why d s) (\<lambda>s1. (x, s1))))"
  by (rule and_then_keeps) (simp_all add: audited_trail)

lemma trail_other: "cs_audit s' = cs_audit s \<Longrightarrow> compliance_trail cd s \<Longrightarrow> compliance_trail cd s'"
  by (simp add: compliance_trail_def)

lemma trail_update [simp]:
  "compliance_trail cd (s\<lparr>cs_docs := d\<rparr>) = compliance_trail cd s" "compliance_trail cd (s\<lparr>cs_consents := c\<rparr>) = compliance_trail cd s"
  "compliance_trail cd (s\<lparr>cs_rules := l\<rparr>) = compliance_trail cd s" "compliance_trail cd (s\<lparr>cs_refunds := f\<rparr>) = compliance_trail cd s"
  "compliance_trail cd (s\<lparr>cs_cancels := n\<rparr>) = compliance_trail cd s"
  by (simp_all add: compliance_trail_def)

lemma supersede_all_trail: "compliance_trail cd s \<Longrightarrow> compliance_trail cd (snd (supersede_all cd i actor why olds s))"
proof (induction olds arbitrary: s)
  case (Cons old olds)
  have "compliance_trail cd (snd (supersede k n w s))" for k n w using Cons.prems by (simp add: supersede_def split: option.split)
  then show ?case unfolding supersede_all.simps
    by (rule and_then_keeps [where P = "compliance_trail cd"], intro and_then_keeps [where P = "compliance_trail cd"]) (simp_all add: Cons.IH audited_trail)
qed simp

lemma publish_trail: "compliance_trail cd s \<Longrightarrow> compliance_trail cd (snd (publish_document cd i t version title content eff actor j lang why s))"
  unfolding publish_document_def Let_def
  by (rule and_then_keeps [where P = "compliance_trail cd"]) (simp add: supersede_all_trail, rule audited_end_trail, simp)

lemma compliance_trail_apply: "compliance_trail cd s \<Longrightarrow> compliance_trail cd (compliance_apply cd op s)"
proof (cases op)
  case (Check_Access st now user tenant created required)
  then show "compliance_trail cd s \<Longrightarrow> ?thesis" by (simp add: check_access_def audited_end_trail Let_def)
next
  case (Evaluate_Refund st now rid actor)
  then show "compliance_trail cd s \<Longrightarrow> ?thesis" by (simp add: evaluate_refund_def deny_refund_def audited_end_trail Let_def split: option.split)
next
  case (Readiness_Check st actor)
  then show "compliance_trail cd s \<Longrightarrow> ?thesis" unfolding Readiness_Check compliance_apply.simps readiness_check_def Let_def by (simp add: audited_end_trail)
qed (simp_all add: publish_trail audited_end_trail audited_trail archive_document_def record_consent_def
      withdraw_consent_def set_retention_def request_refund_def request_cancellation_def
      confirm_cancellation_def abort_cancellation_def Let_def split: option.split)

interpretation trail_runs: guarded_state "compliance_apply cd" "compliance_trail cd" for cd
  by unfold_locales (rule compliance_trail_apply)

lemma empty_trail: "compliance_trail cd (empty_compliance cd cfg)"
  by (simp add: compliance_trail_def empty_compliance_def new_compliance_chain_def compliance_links.tail_new)

lemma compliance_log_verifies:
  assumes "s = fold (compliance_apply cd) ops (empty_compliance cd cfg)" and "cc_seq (cs_audit s) \<le> compliance_max"
  shows "compliance_verify cd (cs_audit s)"
proof -
  have "compliance_trail cd s" unfolding assms(1) by (rule trail_runs.run_good [OF empty_trail])
  then show ?thesis using assms(2) unfolding compliance_trail_def compliance_verify_def by (rule compliance_links.tail_verifies)
qed

text \<open>So the readiness check of a run finds no tampering before the first eviction, and never fails for that reason alone.\<close>

lemma readiness_finds_no_tampering:
  assumes "s = fold (compliance_apply cd) ops (empty_compliance cd cfg)" and "cc_seq (cs_audit s) \<le> compliance_max"
  shows "TamperedAudit \<notin> set (readiness_gaps cd s)"
  using compliance_log_verifies [OF assms] by (auto simp: readiness_gaps_def)


lemma withdrawal_closes_the_gate_witness:
  "fst (check_access \<lparr>cp_hmac = id, cp_dumps = (\<lambda>_. ''x''), cp_sha256 = id\<rparr> (''g'', 99) 1000000 ''u'' ''t1'' 0 [RiskDoc]
      (snd (withdraw_consent 60 ''c'' ''changed''
        (fold (compliance_apply \<lparr>cp_hmac = id, cp_dumps = (\<lambda>_. ''x''), cp_sha256 = id\<rparr>)
          [Publish \<lparr>pb_id = ''d'', pb_created = 0, pb_stamp = (\<lambda>_. (''s'', 0))\<rparr> RiskDoc ''1.0.0'' ''T'' ''C'' 0 ''system'' GlobalJ ''en'' None,
           Record_Consent (''e'', 51) ''c'' 50 ''u'' ''t1'' RiskDoc ''1.2.3.4'' ''ua'' None]
          (empty_compliance \<lparr>cp_hmac = id, cp_dumps = (\<lambda>_. ''x''), cp_sha256 = id\<rparr> default_compliance_config)))))
   = Inl (OtherError ''ConsentRequiredError'')"
proof -
  let ?cd = "\<lparr>cp_hmac = id, cp_dumps = (\<lambda>_. ''x''), cp_sha256 = id\<rparr>"
  let ?ops = "[Publish \<lparr>pb_id = ''d'', pb_created = 0, pb_stamp = (\<lambda>_. (''s'', 0))\<rparr> RiskDoc ''1.0.0'' ''T'' ''C'' 0 ''system'' GlobalJ ''en'' None,
           Record_Consent (''e'', 51) ''c'' 50 ''u'' ''t1'' RiskDoc ''1.2.3.4'' ''ua'' None]"
  define s where "s = fold (compliance_apply ?cd) ?ops (empty_compliance ?cd default_compliance_config)"
  have "map_option cr_id (latest_consent ''u'' RiskDoc (Some ''t1'') s) = Some ''c''" and a: "active_for_type RiskDoc GlobalJ s \<noteq> None"
    and c: "cf_grace_days (cs_config s) = 7"
    by (simp_all add: s_def publish_document_def active_docs_def and_then_def audited_def
      compliance_record_def reason_required_def empty_compliance_def new_compliance_chain_def record_consent_def active_for_type_def
      latest_consent_def consent_of_def default_compliance_config_def Let_def)
  then obtain r where r: "latest_consent ''u'' RiskDoc (Some ''t1'') s = Some r" "cr_id r = ''c''" by auto
  show ?thesis
    using withdrawal_closes_the_gate [OF s_def r(1), of "''changed''" "[RiskDoc]" 1000000 0 "(''g'', 99)" 60] a c r(2)
    by (simp add: s_def py_strip_def char_space_def)
qed

lemma publish_effect:
  assumes "fst (publish_document cd i t version title content eff actor j lang why s) = Inr d"
  shows "od_get (cs_docs (snd (publish_document cd i t version title content eff actor j lang why s))) (pb_id i) = Some d
    \<and> dv_type d = t \<and> dv_status d = ActiveDoc \<and> dv_jurisdiction d = j"
proof -
  define olds where "olds = filter (\<lambda>old. dv_type old = t \<and> dv_id old \<noteq> pb_id i) (active_docs s)"
  define reason where "reason = (case why of Some r \<Rightarrow> if r = [] then ''Superseded by version '' @ version else r
                    | None \<Rightarrow> ''Superseded by version '' @ version)"
  define r where "r = supersede_all cd i actor reason olds s"
  show ?thesis
  proof (cases "fst r")
    case (Inl x)
    then show ?thesis using assms unfolding publish_document_def Let_def
      by (simp add: olds_def [symmetric] reason_def [symmetric] r_def [symmetric] and_then_Inl)
  next
    case (Inr u)
    then show ?thesis using assms unfolding publish_document_def Let_def
      by (simp add: olds_def [symmetric] reason_def [symmetric] r_def [symmetric] and_then_Inr audited_then reason_required_def) auto
  qed
qed

lemma regional_publish_opens_the_gate:
  assumes "compliance_good s" and "fst (publish_document cd i t version title content eff actor j lang why s) = Inr d" and "j \<noteq> GlobalJ"
  shows "t \<notin> set (pending_for_user now user tenant required (snd (publish_document cd i t version title content eff actor j lang why s)))"
proof -
  define p where "p = publish_document cd i t version title content eff actor j lang why s"
  have g: "docs_good (cs_docs (snd p))" using assms(1) by (simp add: p_def publish_good compliance_good_def)
  have d: "od_get (cs_docs (snd p)) (pb_id i) = Some d \<and> dv_type d = t \<and> dv_status d = ActiveDoc \<and> dv_jurisdiction d = j"
    unfolding p_def using assms(2) by (rule publish_effect)
  have "dv_jurisdiction x \<noteq> GlobalJ" if x: "x \<in> set (map snd (cs_docs (snd p)))" "dv_type x = t" "dv_status x = ActiveDoc" for x
  proof -
    from x(1) obtain k where "(k, x) \<in> set (cs_docs (snd p))" by auto
    then have k: "od_get (cs_docs (snd p)) k = Some x" using g by (auto simp: docs_good_def intro: od_get_in)
    then have "k = pb_id i" using g d x unfolding docs_good_def by blast
    then show ?thesis using k d assms(3) by simp
  qed
  then have "active_for_type t GlobalJ (snd p) = None"
    using assms(3) by (simp add: active_for_type_def filter_False del: set_map)
  then show ?thesis by (simp add: pending_for_user_def p_def)
qed

lemma consent_outlives_its_document:
  "user_has_accepted now user t tenant (snd (publish_document cd i t version title content eff actor j lang why s)) = user_has_accepted now user t tenant s"
  by (simp add: user_has_accepted_def latest_consent_def publish_consents)

definition refundable :: "time \<Rightarrow> compliance_config \<Rightarrow> refund_request \<Rightarrow> bool" where
  "refundable now c r \<longleftrightarrow> (now - rf_purchase r) / 86400 \<le> of_int (cf_window_days c) \<and> rf_cents r \<le> cf_max_cents c"

lemma evaluate_refund_grants:
  assumes "od_get (cs_refunds s) rid = Some r" and "refundable now (cs_config s) r" and "rf_id r = rid" and "r' = r\<lparr>rf_status := ApprovedRequest, rf_resolved := Some now, rf_by := Some actor\<rparr>"
  shows "fst (evaluate_refund cd st now rid actor s) = Inr r'"
    and "od_get (cs_refunds (snd (evaluate_refund cd st now rid actor s))) rid = Some r'"
    and "cs_config (snd (evaluate_refund cd st now rid actor s)) = cs_config s"
  using assms by (simp_all add: evaluate_refund_def refundable_def audited_then reason_required_def Let_def not_less [symmetric])

lemma refund_issued_twice:
  assumes "od_get (cs_refunds s) rid = Some r" and "refundable now (cs_config s) r" and "rf_id r = rid"
  shows "\<exists>r1 r2. fst (evaluate_refund cd st now rid actor s) = Inr r1 \<and> rf_status r1 = ApprovedRequest
    \<and> fst (evaluate_refund cd st' now rid actor' (snd (evaluate_refund cd st now rid actor s))) = Inr r2"
proof -
  let ?r = "r\<lparr>rf_status := ApprovedRequest, rf_resolved := Some now, rf_by := Some actor\<rparr>"
  let ?s = "snd (evaluate_refund cd st now rid actor s)"
  have "od_get (cs_refunds ?s) rid = Some ?r" "refundable now (cs_config ?s) ?r" "rf_id ?r = rid"
    using evaluate_refund_grants [OF assms refl] assms by (simp_all add: refundable_def)
  note evaluate_refund_grants(1) [OF this refl]
  then show ?thesis using evaluate_refund_grants(1) [OF assms refl] by simp
qed

lemma aborted_cancellation_confirmed:
  "fst (abort_cancellation rid s) = Inr r \<Longrightarrow> \<exists>r'. fst (confirm_cancellation cd st now rid actor (snd (abort_cancellation rid s))) = Inr r' \<and> cn_status r' = ConfirmedRequest"
  by (auto simp: abort_cancellation_def confirm_cancellation_def audited_then reason_required_def Let_def split: option.splits if_splits)

end
