(* ===== verification/Release_Gate.thy ===== *)
theory Release_Gate
  imports Hash_Chain Json
begin

section \<open>The release gate\<close>

text \<open>
  \<open>src/backend/core/release_gate.py\<close>: the twelve readiness checks over reported metrics, the verifier of the migration
  files, the rollback plans, the staging sign-off with its quorum, the risk register, the Go/No-Go decision and the chained audit.
  HMAC-SHA256 under the audit secret (\<open>rx_hmac\<close>), \<open>json.dumps(..., sort_keys=True)\<close> (\<open>rx_dumps\<close>), SHA-256 (\<open>rx_sha256\<close>) and the
  text of a metric in a message (\<open>rx_show\<close>) are parameters; metrics are numbers or truth values. Hooks, whose errors are
  swallowed, and the layout of the printed report are left out.
\<close>

subsection \<open>The audit chain\<close>

datatype metric = MNum real | MFlag bool

record release_codec =
  rx_hmac :: "string \<Rightarrow> string"
  rx_dumps :: "json \<Rightarrow> string"
  rx_sha256 :: "string \<Rightarrow> string"
  rx_show :: "metric \<Rightarrow> string"

record release_entry =
  ra_seq :: nat
  ra_id :: string
  ra_action :: string
  ra_actor :: string
  ra_domain :: string
  ra_reason :: "string option"
  ra_detail :: "(string \<times> json) list"
  ra_ts :: time
  ra_hash :: string

record release_chain =
  rn_entries :: "release_entry list"
  rn_prev :: string

definition release_reasons :: "string list" where
  "release_reasons = [''RISK_ACCEPTED'', ''RISK_MITIGATED'', ''CHECK_OVERRIDDEN'', ''SIGN_OFF_REJECTED'', ''RELEASE_BLOCKED'', ''ROLLBACK_TRIGGERED'']"

definition release_genesis :: "release_codec \<Rightarrow> string" where
  "release_genesis cd = rx_hmac cd ''GENESIS:RELEASE:GATE:CHAIN:V35''"

definition new_release_chain :: "release_codec \<Rightarrow> release_chain" where
  "new_release_chain cd = \<lparr>rn_entries = [], rn_prev = release_genesis cd\<rparr>"

definition release_hash :: "release_codec \<Rightarrow> string \<Rightarrow> release_entry \<Rightarrow> string" where
  "release_hash cd prev e = rx_hmac cd (prev @ '':'' @ rx_dumps cd (JObj
     [(''entry_id'', JStr (ra_id e)), (''action'', JStr (ra_action e)), (''actor'', JStr (ra_actor e)), (''domain'', JStr (ra_domain e)),
      (''reason'', case ra_reason e of Some s \<Rightarrow> JStr s | None \<Rightarrow> JNull), (''detail'', JObj (ra_detail e)), (''ts'', JFloat (ra_ts e))]))"

definition release_seal :: "release_codec \<Rightarrow> string \<Rightarrow> release_entry \<Rightarrow> release_entry" where
  "release_seal cd prev e = e\<lparr>ra_hash := release_hash cd prev e\<rparr>"

text \<open>The fresh id and the clock reading of an entry come as a pair.\<close>

definition release_record :: "release_codec \<Rightarrow> string \<times> time \<Rightarrow> string \<Rightarrow> string \<Rightarrow> string \<Rightarrow> string option \<Rightarrow> (string \<times> json) list
    \<Rightarrow> release_chain \<Rightarrow> (unit, release_chain) outcome" where
  "release_record cd st action actor domain reason detail c =
     (if action \<in> set release_reasons \<and> no_reason reason then (Inl (OtherError ''MissingReasonError''), c)
      else (let e = release_seal cd (rn_prev c) \<lparr>ra_seq = length (rn_entries c), ra_id = fst st, ra_action = action, ra_actor = actor,
                      ra_domain = domain, ra_reason = reason, ra_detail = detail, ra_ts = snd st, ra_hash = []\<rparr> in
            (Inr (), \<lparr>rn_entries = rn_entries c @ [e], rn_prev = ra_hash e\<rparr>)))"

definition release_fits :: "release_codec \<Rightarrow> string \<Rightarrow> release_entry \<Rightarrow> bool" where
  "release_fits cd prev e \<longleftrightarrow> release_hash cd prev e = ra_hash e"

definition release_verify :: "release_codec \<Rightarrow> release_chain \<Rightarrow> bool" where
  "release_verify cd c = verify_from (release_fits cd) ra_hash (release_genesis cd) (rn_entries c)"

definition release_tampered :: "release_codec \<Rightarrow> release_chain \<Rightarrow> nat list" where
  "release_tampered cd c = map ra_seq (broken_from (release_fits cd) ra_hash (release_genesis cd) (rn_entries c))"

definition asked_for :: "string option \<Rightarrow> string \<Rightarrow> bool" where
  "asked_for q x \<longleftrightarrow> (case q of Some s \<Rightarrow> s = [] \<or> x = s | None \<Rightarrow> True)"

definition release_query :: "string option \<Rightarrow> string option \<Rightarrow> string option \<Rightarrow> int \<Rightarrow> release_chain \<Rightarrow> release_entry list" where
  "release_query action actor domain limit c =
     (if 0 < limit then take (nat limit) (filter (\<lambda>e. asked_for action (ra_action e) \<and> asked_for actor (ra_actor e) \<and> asked_for domain (ra_domain e))
        (rev (rn_entries c))) else [])"

subsection \<open>The readiness checks\<close>

datatype check_domain =
    TradingExecution | RiskManagement | LicenseSaas | BillingPayments | AuthRbac | AuditCompliance | ApiVersioning | FeatureFlagsDomain
  | SupplyChain | SecretRotation | CustomerLifecycle | SecurityHardening

fun domain_value :: "check_domain \<Rightarrow> string" where
  "domain_value TradingExecution = ''trading_execution''"
| "domain_value RiskManagement = ''risk_management''"
| "domain_value LicenseSaas = ''license_saas''"
| "domain_value BillingPayments = ''billing_payments''"
| "domain_value AuthRbac = ''auth_rbac''"
| "domain_value AuditCompliance = ''audit_compliance''"
| "domain_value ApiVersioning = ''api_versioning''"
| "domain_value FeatureFlagsDomain = ''feature_flags''"
| "domain_value SupplyChain = ''supply_chain''"
| "domain_value SecretRotation = ''secret_rotation''"
| "domain_value CustomerLifecycle = ''customer_lifecycle''"
| "domain_value SecurityHardening = ''security_hardening''"

datatype check_status = CheckPass | CheckFail | CheckWarn | CheckSkip

fun check_status_value :: "check_status \<Rightarrow> string" where
  "check_status_value CheckPass = ''PASS''"
| "check_status_value CheckFail = ''FAIL''"
| "check_status_value CheckWarn = ''WARN''"
| "check_status_value CheckSkip = ''SKIP''"

record check_result =
  ck_domain :: check_domain
  ck_name :: string
  ck_status :: check_status
  ck_message :: string
  ck_cwe :: "string option"
  ck_phase :: string

type_synonym metrics = "(string, metric) odict"

definition metric_num :: "metrics \<Rightarrow> string \<Rightarrow> real \<Rightarrow> real" where
  "metric_num m k d = (case od_get m k of None \<Rightarrow> d | Some (MNum x) \<Rightarrow> x | Some (MFlag b) \<Rightarrow> if b then 1 else 0)"

definition metric_flag :: "metrics \<Rightarrow> string \<Rightarrow> bool" where
  "metric_flag m k = (case od_get m k of None \<Rightarrow> True | Some (MNum x) \<Rightarrow> x \<noteq> 0 | Some (MFlag b) \<Rightarrow> b)"

definition metric_text :: "release_codec \<Rightarrow> metrics \<Rightarrow> string \<Rightarrow> real \<Rightarrow> string" where
  "metric_text cd m k d = rx_show cd (case od_get m k of None \<Rightarrow> MNum d | Some v \<Rightarrow> v)"

text \<open>The conditions of a check are asked_for in turn; the first that holds gives the result.\<close>

fun first_rule :: "(bool \<times> check_result) list \<Rightarrow> check_result \<Rightarrow> check_result" where
  "first_rule [] r = r"
| "first_rule ((c, x) # rs) r = (if c then x else first_rule rs r)"

definition check_verdict :: "check_domain \<Rightarrow> check_status \<Rightarrow> string \<Rightarrow> string \<Rightarrow> string option \<Rightarrow> string \<Rightarrow> check_result" where
  "check_verdict d st name message cwe phase =
     \<lparr>ck_domain = d, ck_name = name, ck_status = st, ck_message = message, ck_cwe = cwe, ck_phase = phase\<rparr>"

definition check_trading :: "release_codec \<Rightarrow> metrics \<Rightarrow> check_result" where
  "check_trading cd m =
     (let slippage = metric_num m ''avg_slippage_pct'' 0; fill = metric_num m ''fill_rate_pct'' 100; drawdown = metric_num m ''max_drawdown_pct'' 0;
          fill_text = metric_text cd m ''fill_rate_pct'' 100; slippage_text = metric_text cd m ''avg_slippage_pct'' 0;
          drawdown_text = metric_text cd m ''max_drawdown_pct'' 0; v = check_verdict TradingExecution in
      first_rule
        [(fill < 95, v CheckFail ''trading_fill_rate'' (''Fill rate '' @ fill_text @ ''% < 95%'') None ''P07''),
         (slippage > 2, v CheckWarn ''trading_slippage'' (''Slippage '' @ slippage_text @ ''% > 2%'') None ''P07''),
         (drawdown > 20, v CheckFail ''trading_drawdown'' (''Drawdown '' @ drawdown_text @ ''% > 20%'') None ''P08'')]
        (v CheckPass ''trading_execution'' (''fill='' @ fill_text @ ''% slippage='' @ slippage_text @ ''% drawdown='' @ drawdown_text @ ''%'') None ''P07''))"

definition check_risk :: "metrics \<Rightarrow> check_result" where
  "check_risk m = (let v = check_verdict RiskManagement in
      first_rule
        [(\<not> metric_flag m ''kill_switch_active'', v CheckFail ''kill_switch_missing'' ''Kill switch not active'' None ''P08''),
         (\<not> metric_flag m ''drawdown_within_limit'', v CheckFail ''drawdown_limit_breach'' ''Drawdown limit not enforced'' None ''P08''),
         (\<not> metric_flag m ''hedge_enabled'', v CheckWarn ''hedge_disabled'' ''Hedge disabled'' None ''P08'')]
        (v CheckPass ''risk_management'' ''Kill switch + drawdown + hedge OK'' None ''P08''))"

definition check_license :: "metrics \<Rightarrow> check_result" where
  "check_license m = (let v = check_verdict LicenseSaas in
      first_rule
        [(\<not> metric_flag m ''device_binding_active'', v CheckFail ''device_binding_missing'' ''Device binding not active'' None ''P10''),
         (\<not> metric_flag m ''license_expiry_enforced'', v CheckFail ''license_expiry_not_enforced'' ''License expiry not enforced'' None ''P10''),
         (\<not> metric_flag m ''offline_protection'', v CheckWarn ''offline_protection_missing'' ''Offline protection missing'' None ''P10'')]
        (v CheckPass ''license_saas'' ''Device + expiry + offline OK'' None ''P10''))"

definition check_billing :: "metrics \<Rightarrow> check_result" where
  "check_billing m = (let v = check_verdict BillingPayments in
      first_rule
        [(\<not> metric_flag m ''stripe_webhook_verified'', v CheckFail ''stripe_webhook_unverified'' ''Stripe webhook NOT verified'' (Some ''CWE-347'') ''P10''),
         (\<not> metric_flag m ''idempotency_enforced'', v CheckFail ''idempotency_missing'' ''Payment idempotency not enforced'' None ''P10''),
         (\<not> metric_flag m ''dunning_flow_active'', v CheckWarn ''dunning_not_configured'' ''Dunning flow not configured'' None ''P10'')]
        (v CheckPass ''billing_payments'' ''Stripe + idempotency + dunning OK'' None ''P10''))"

definition check_auth :: "metrics \<Rightarrow> check_result" where
  "check_auth m = (let v = check_verdict AuthRbac in
      first_rule
        [(\<not> metric_flag m ''jwt_rotation_active'', v CheckFail ''jwt_rotation_inactive'' ''JWT rotation not active'' (Some ''CWE-613'') ''P11''),
         (\<not> metric_flag m ''rbac_enforced'', v CheckFail ''rbac_not_enforced'' ''RBAC not enforced'' (Some ''CWE-285'') ''P11''),
         (\<not> metric_flag m ''mfa_available'', v CheckWarn ''mfa_unavailable'' ''MFA not available'' None ''P11'')]
        (v CheckPass ''auth_rbac'' ''JWT + RBAC + MFA OK'' None ''P11''))"

definition check_audit :: "metrics \<Rightarrow> check_result" where
  "check_audit m = (let v = check_verdict AuditCompliance in
      first_rule
        [(\<not> metric_flag m ''audit_chain_intact'', v CheckFail ''audit_chain_broken'' ''Audit chain FAILED'' None ''P21''),
         (\<not> metric_flag m ''gdpr_consents_active'', v CheckFail ''gdpr_not_ready'' ''GDPR not ready'' None ''P30''),
         (\<not> metric_flag m ''retention_policies_set'', v CheckWarn ''retention_policies_missing'' ''Retention policies missing'' None ''P30'')]
        (v CheckPass ''audit_compliance'' ''Audit + GDPR + retention OK'' None ''P21''))"

definition check_versioning :: "metrics \<Rightarrow> check_result" where
  "check_versioning m = (let v = check_verdict ApiVersioning in
      first_rule
        [(\<not> metric_flag m ''v1_sunset_enforced'', v CheckWarn ''v1_sunset_not_enforced'' ''V1 sunset not enforced'' None ''P26''),
         (\<not> metric_flag m ''response_migration_active'', v CheckFail ''response_migration_inactive'' ''Response migration not active'' None ''P26''),
         (\<not> metric_flag m ''deprecation_headers_sent'', v CheckWarn ''deprecation_headers_missing'' ''Deprecation headers missing'' None ''P26'')]
        (v CheckPass ''api_versioning'' ''V1 sunset + migration + headers OK'' None ''P26''))"

definition check_flags :: "metrics \<Rightarrow> check_result" where
  "check_flags m = (let v = check_verdict FeatureFlagsDomain in
      first_rule
        [(\<not> metric_flag m ''kill_override_active'', v CheckFail ''kill_override_missing'' ''Kill override not implemented'' None ''P24''),
         (\<not> metric_flag m ''flag_changes_audited'', v CheckFail ''flag_changes_not_audited'' ''Flag changes not audited'' None ''P24''),
         (\<not> metric_flag m ''tenant_scoped'', v CheckWarn ''flags_not_tenant_scoped'' ''Flags not tenant-scoped'' None ''P24'')]
        (v CheckPass ''feature_flags'' ''Kill + audit + tenant OK'' None ''P24''))"

definition check_supply :: "metrics \<Rightarrow> check_result" where
  "check_supply m = (let v = check_verdict SupplyChain in
      first_rule
        [(\<not> metric_flag m ''dependencies_pinned'', v CheckFail ''deps_not_pinned'' ''Deps not pinned'' None ''P28''),
         (\<not> metric_flag m ''lockfile_verified'', v CheckFail ''lockfile_not_verified'' ''Lockfile not verified'' None ''P28''),
         (\<not> metric_flag m ''no_critical_vulns'', v CheckFail ''critical_vulns_found'' ''Critical CVEs found'' (Some ''CWE-1357'') ''P28'')]
        (v CheckPass ''supply_chain'' ''Pinned + lockfile + no CVEs OK'' None ''P28''))"

definition check_secrets :: "metrics \<Rightarrow> check_result" where
  "check_secrets m = (let v = check_verdict SecretRotation in
      first_rule
        [(\<not> metric_flag m ''rotation_policy_active'', v CheckFail ''rotation_policy_inactive'' ''Rotation policy not active'' (Some ''CWE-320'') ''P29''),
         (\<not> metric_flag m ''grace_period_enabled'', v CheckFail ''grace_period_missing'' ''Grace period not configured'' None ''P29''),
         (\<not> metric_flag m ''compromise_plan_ready'', v CheckWarn ''compromise_plan_missing'' ''Compromise plan missing'' None ''P29'')]
        (v CheckPass ''secret_rotation'' ''Rotation + grace + compromise OK'' None ''P29''))"

definition check_lifecycle :: "metrics \<Rightarrow> check_result" where
  "check_lifecycle m = (let v = check_verdict CustomerLifecycle in
      first_rule
        [(\<not> metric_flag m ''onboarding_flow_active'', v CheckWarn ''onboarding_not_automated'' ''Onboarding not automated'' None ''P32''),
         (\<not> metric_flag m ''renewal_reminders_active'', v CheckWarn ''renewal_reminders_inactive'' ''Renewal reminders inactive'' None ''P32''),
         (\<not> metric_flag m ''heartbeat_fail_notify'', v CheckWarn ''heartbeat_fail_not_notified'' ''Heartbeat fail not notified'' None ''P32'')]
        (v CheckPass ''customer_lifecycle'' ''Onboarding + renewal + heartbeat OK'' None ''P32''))"

definition check_hardening :: "metrics \<Rightarrow> check_result" where
  "check_hardening m = (let v = check_verdict SecurityHardening in
      first_rule
        [(\<not> metric_flag m ''no_critical_findings'', v CheckFail ''critical_security_findings'' ''Critical findings not resolved'' None ''P34''),
         (\<not> metric_flag m ''security_headers_enforced'', v CheckFail ''security_headers_missing'' ''Security headers missing'' (Some ''CWE-16'') ''P34''),
         (\<not> metric_flag m ''replay_protection_active'', v CheckFail ''replay_protection_inactive'' ''Replay protection inactive'' (Some ''CWE-294'') ''P34'')]
        (v CheckPass ''security_hardening'' ''No findings + headers + replay OK'' None ''P34''))"

definition all_checks :: "release_codec \<Rightarrow> metrics \<Rightarrow> check_result list" where
  "all_checks cd m = [check_trading cd m, check_risk m, check_license m, check_billing m, check_auth m, check_audit m, check_versioning m,
     check_flags m, check_supply m, check_secrets m, check_lifecycle m, check_hardening m]"


subsection \<open>Migrations\<close>

datatype migration_status = MigVerified | MigMissing | MigChecksumFail | MigOutOfOrder

record migration_record =
  mg_seq :: int
  mg_filename :: string
  mg_phase :: string
  mg_checksum :: string

record migration_result =
  mr_total :: nat
  mr_verified :: int
  mr_missing :: "string list"
  mr_out_of_order :: "string list"
  mr_checksum_fails :: "string list"
  mr_status :: migration_status

fun migration_value :: "migration_status \<Rightarrow> string" where
  "migration_value MigVerified = ''VERIFIED''"
| "migration_value MigMissing = ''MISSING''"
| "migration_value MigChecksumFail = ''CHECKSUM_FAIL''"
| "migration_value MigOutOfOrder = ''OUT_OF_ORDER''"

definition expected_migrations :: "(string \<times> string \<times> string) list" where
  "expected_migrations =
     [(''001'', ''initial_schema'', ''P01''), (''002'', ''partitioning'', ''P02''), (''003'', ''missing_tables'', ''P03''), (''004'', ''stabilization'', ''P04''),
      (''005'', ''phase3_dedup'', ''P03''), (''006'', ''ml_realism'', ''P06''), (''007'', ''phase6_backtest'', ''P06''), (''008'', ''phase7_execution'', ''P07''),
      (''009'', ''phase8_db_hardening'', ''P08''), (''010'', ''phase9_observability'', ''P09''), (''026'', ''phase10_billing'', ''P10''),
      (''027'', ''phase13_saas_schema'', ''P13''), (''028'', ''phase19_rls_tenant'', ''P19''), (''029'', ''phase21_audit_chain'', ''P21''),
      (''030'', ''phase22_rate_limit'', ''P22''), (''031'', ''phase23_backup_dr'', ''P23''), (''032'', ''phase24_observability'', ''P24''),
      (''033'', ''phase24_feature_flags'', ''P24''), (''034'', ''phase25_artifact'', ''P25''), (''035'', ''phase26_api_versioning'', ''P26''),
      (''036'', ''phase27_integration'', ''P27''), (''037'', ''phase28_supply_chain'', ''P28''), (''038'', ''phase29_secret_rotation'', ''P29''),
      (''039'', ''phase30_compliance'', ''P30''), (''040'', ''phase31_analytics'', ''P31''), (''041'', ''phase32_lifecycle'', ''P32''),
      (''042'', ''phase33_support'', ''P33''), (''043'', ''phase34_security'', ''P34'')]"

definition migration_checksum :: "release_codec \<Rightarrow> migration_record \<Rightarrow> string" where
  "migration_checksum cd r = rx_sha256 cd (int_digits (mg_seq r) @ '':'' @ mg_filename r @ '':'' @ mg_phase r)"

definition migration_of :: "release_codec \<Rightarrow> string \<times> string \<times> string \<Rightarrow> migration_record" where
  "migration_of cd = (\<lambda>(sq, name, phase).
     let r = \<lparr>mg_seq = digits_value sq, mg_filename = ''migration_'' @ sq @ ''_'' @ name @ ''.sql'', mg_phase = phase, mg_checksum = []\<rparr> in
     r\<lparr>mg_checksum := migration_checksum cd r\<rparr>)"

definition build_expected :: "release_codec \<Rightarrow> migration_record list" where
  "build_expected cd = map (migration_of cd) expected_migrations"

text \<open>\<open>str.replace(text, '')\<close> for a text that is not empty.\<close>

function remove_text :: "string \<Rightarrow> string \<Rightarrow> string" where
  "remove_text p s =
     (if p \<noteq> [] \<and> s \<noteq> [] \<and> take (length p) s = p then remove_text p (drop (length p) s)
      else case s of [] \<Rightarrow> [] | c # cs \<Rightarrow> c # remove_text p cs)"
  by pat_completeness auto

termination
  by (relation "measure (\<lambda>(p, s). length s)") auto

declare remove_text.simps [simp del]

text \<open>The number before the first underscore; a name that does not start with one counts as -1.\<close>

definition migration_seq :: "string \<Rightarrow> int" where
  "migration_seq fn =
     (let p = py_split CHR ''_'' (remove_text ''.sql'' fn) ! 0 in
      if p \<noteq> [] \<and> list_all is_digit p then digits_value p else -1)"

definition verify_migrations :: "release_codec \<Rightarrow> string list \<Rightarrow> migration_result" where
  "verify_migrations cd files =
     (let valid = filter (\<lambda>s. 0 < s) (map migration_seq files);
          late = (if valid \<noteq> sort valid
            then map (\<lambda>i. files ! i) (filter (\<lambda>i. valid ! i > valid ! (i + 1)) [0..<length valid - 1]) else []);
          missing = []; fails = []; total = length (build_expected cd) in
      \<lparr>mr_total = total, mr_verified = int total - int (length missing) - int (length fails), mr_missing = missing, mr_out_of_order = late,
       mr_checksum_fails = fails,
       mr_status = (if missing = [] \<and> fails = [] \<and> late = [] then MigVerified else if missing \<noteq> [] then MigMissing
                    else if late \<noteq> [] then MigOutOfOrder else MigChecksumFail)\<rparr>)"

subsection \<open>Rollback plans\<close>

record rollback_step =
  rs_order :: nat
  rs_action :: string
  rs_description :: string
  rs_reversible :: bool
  rs_smoke :: "string option"

record rollback_plan =
  rp_phase :: string
  rp_steps :: "rollback_step list"
  rp_minutes :: int
  rp_downtime :: bool

definition plan_of :: "string \<Rightarrow> int \<Rightarrow> bool \<Rightarrow> (nat \<times> string \<times> string \<times> bool \<times> string option) list \<Rightarrow> string \<times> rollback_plan" where
  "plan_of phase mins downtime steps =
     (phase, \<lparr>rp_phase = phase,
        rp_steps = map (\<lambda>(n, a, d, r, t). \<lparr>rs_order = n, rs_action = a, rs_description = d, rs_reversible = r, rs_smoke = t\<rparr>) steps,
        rp_minutes = mins, rp_downtime = downtime\<rparr>)"

definition rollback_plans :: "(string, rollback_plan) odict" where
  "rollback_plans =
    [plan_of ''P24_FEATURE_FLAGS'' 10 False
       [(1, ''KILL_OVERRIDE_ALL'', ''Set kill override'', True, Some ''curl /api/feature-flags/health''),
        (2, ''REVERT_DB_MIGRATION'', ''Run migration_033 DOWN'', False, Some ''psql check''),
        (3, ''DEPLOY_PREV_VERSION'', ''Deploy previous image'', True, Some ''curl /api/health''),
        (4, ''VERIFY_FLAGS_ABSENT'', ''Confirm 404'', True, Some ''curl /api/feature-flags'')],
     plan_of ''P25_ARTIFACT'' 15 True
       [(1, ''REVOKE_ALL_ARTIFACTS'', ''Set REVOKED'', True, Some ''curl /api/artifacts''),
        (2, ''REVERT_DB_MIGRATION'', ''Run DOWN'', False, Some ''psql check''),
        (3, ''DEPLOY_PREV_VERSION'', ''Deploy previous'', True, Some ''curl /api/health'')],
     plan_of ''P26_API_VERSIONING'' 20 True
       [(1, ''FORCE_V2_GLOBALLY'', ''Set Accept-Version: v2'', True, Some ''curl -H Accept-Version:v2 /api/signals''),
        (2, ''REVERT_DB_MIGRATION'', ''Run migration_035 DOWN'', False, Some ''psql check''),
        (3, ''REMOVE_V3_ROUTES'', ''Disable V3'', True, Some ''curl /api/v3/signals''),
        (4, ''DEPLOY_PREV_VERSION'', ''Deploy previous'', True, Some ''curl /api/health'')],
     plan_of ''P27_INTEGRATION_SECURITY'' 12 False
       [(1, ''DISABLE_SIG_VERIFY'', ''Set SKIP_SIGNATURE=1'', True, Some ''curl /api/webhook/test''),
        (2, ''OPEN_CIRCUIT_BREAKERS'', ''Reset circuit breakers'', True, Some ''curl /api/health''),
        (3, ''REVERT_DB_MIGRATION'', ''Run DOWN'', False, None),
        (4, ''DEPLOY_PREV_VERSION'', ''Deploy previous'', True, Some ''curl /api/health'')],
     plan_of ''P29_SECRET_ROTATION'' 30 False
       [(1, ''PAUSE_ROTATION'', ''Set ROTATION_PAUSED=1'', True, Some ''curl /api/health/keys''),
        (2, ''RESTORE_PREV_KEYS'', ''Load from vault'', False, Some ''curl /api/auth/token/test''),
        (3, ''EXTEND_GRACE_PERIOD'', ''Extend to 30 days'', True, None),
        (4, ''REVERT_DB_MIGRATION'', ''Run DOWN'', False, None)],
     plan_of ''P30_COMPLIANCE'' 25 True
       [(1, ''DISABLE_CONSENT_GATE'', ''Set REQUIRE_CONSENT=0'', True, Some ''curl /api/health''),
        (2, ''REVERT_DB_MIGRATION'', ''Run DOWN'', False, None),
        (3, ''DEPLOY_PREV_VERSION'', ''Deploy previous'', True, Some ''curl /api/health''),
        (4, ''NOTIFY_LEGAL'', ''Inform legal'', True, None)],
     plan_of ''P34_SECURITY'' 10 False
       [(1, ''REVERT_CORS_POLICY'', ''Restore CORS'', True, Some ''curl /api/health''),
        (2, ''DISABLE_RATE_LIMITS'', ''Set RATE_LIMIT_ENABLED=0'', True, Some ''curl /api/auth/login''),
        (3, ''REVERT_DB_MIGRATION'', ''Run DOWN'', False, None),
        (4, ''DEPLOY_PREV_VERSION'', ''Deploy previous'', True, Some ''curl /api/health'')]]"

record rollback_check =
  rc_has_plan :: bool
  rc_steps :: nat
  rc_reversible :: bool
  rc_smoke :: bool

text \<open>Without a plan only the first and the third field are answered.\<close>

definition verify_rollback :: "string \<Rightarrow> rollback_check" where
  "verify_rollback phase =
     (case od_get rollback_plans phase of
        None \<Rightarrow> \<lparr>rc_has_plan = False, rc_steps = 0, rc_reversible = False, rc_smoke = False\<rparr>
      | Some p \<Rightarrow> \<lparr>rc_has_plan = True, rc_steps = length (rp_steps p), rc_reversible = list_all rs_reversible (rp_steps p),
          rc_smoke = list_ex (\<lambda>s. case rs_smoke s of Some t \<Rightarrow> t \<noteq> [] | None \<Rightarrow> False) (rp_steps p)\<rparr>)"

subsection \<open>Sign-off and risks\<close>

datatype sign_off_status = SignPending | SignApproved | SignRejected

record sign_off =
  sg_id :: string
  sg_approver :: string
  sg_role :: string
  sg_status :: sign_off_status
  sg_comment :: "string option"
  sg_ts :: time

datatype risk_level = CriticalRisk | HighRisk | MediumRisk | LowRisk | InfoRisk

datatype risk_status = RiskOpen | RiskMitigated | RiskAccepted | RiskClosed

fun level_order :: "risk_level \<Rightarrow> nat" where
  "level_order CriticalRisk = 0"
| "level_order HighRisk = 1"
| "level_order MediumRisk = 2"
| "level_order LowRisk = 3"
| "level_order InfoRisk = 4"

fun level_value :: "risk_level \<Rightarrow> string" where
  "level_value CriticalRisk = ''CRITICAL''"
| "level_value HighRisk = ''HIGH''"
| "level_value MediumRisk = ''MEDIUM''"
| "level_value LowRisk = ''LOW''"
| "level_value InfoRisk = ''INFO''"

record risk_item =
  ri_id :: string
  ri_title :: string
  ri_description :: string
  ri_level :: risk_level
  ri_domain :: string
  ri_owner :: string
  ri_phase :: string
  ri_status :: risk_status
  ri_mitigation :: "string option"
  ri_opened :: time
  ri_closed :: "time option"

definition known_risks :: "time \<Rightarrow> (string, risk_item) odict" where
  "known_risks now = map (\<lambda>(i, t, d, l, dom, owner, phase).
      (i, \<lparr>ri_id = i, ri_title = t, ri_description = d, ri_level = l, ri_domain = dom, ri_owner = owner, ri_phase = phase, ri_status = RiskOpen,
           ri_mitigation = None, ri_opened = now, ri_closed = None\<rparr>))
    [(''R001'', ''CSP unsafe-inline in dynamic pages'', ''React pages without nonce-based CSP may allow unsafe-inline.'', HighRisk, ''security_hardening'', ''security_team'', ''P34''),
     (''R002'', ''Rate limit IP trust with load balancer'', ''X-Forwarded-For not validated.'', MediumRisk, ''security_hardening'', ''platform_team'', ''P34''),
     (''R003'', ''Replay window for market data'', ''Market data uses 300s vs ideal 60s.'', LowRisk, ''integration_security'', ''backend_team'', ''P27''),
     (''R004'', ''Session fixation edge case'', ''Token renewal may not guarantee new session ID.'', LowRisk, ''auth_rbac'', ''security_team'', ''P29''),
     (''R005'', ''Service-to-service RBAC not enforced'', ''Internal calls lack JWT verification.'', MediumRisk, ''auth_rbac'', ''platform_team'', ''P11''),
     (''R006'', ''GDPR right-to-erasure not automated'', ''User deletion is manual.'', MediumRisk, ''audit_compliance'', ''legal_team'', ''P30''),
     (''R007'', ''MT4 compatibility deprecated'', ''EA supports MT4 v1.0-2.9 only.'', LowRisk, ''license_saas'', ''ea_team'', ''P25''),
     (''R008'', ''Backup restore not tested in prod-equivalent env'', ''DR plan exists but restore untested.'', HighRisk, ''backup_dr'', ''devops_team'', ''P23'')]"

record release_gate =
  rg_audit :: release_chain
  rg_quorum :: int
  rg_signs :: "(string, sign_off) odict"
  rg_risks :: "(string, risk_item) odict"

definition gate_record :: "release_codec \<Rightarrow> string \<times> time \<Rightarrow> string \<Rightarrow> string \<Rightarrow> string \<Rightarrow> string option \<Rightarrow> (string \<times> json) list
    \<Rightarrow> release_gate \<Rightarrow> (unit, release_gate) outcome" where
  "gate_record cd st action actor domain reason detail g =
     (case release_record cd st action actor domain reason detail (rg_audit g) of (x, c) \<Rightarrow> (x, g\<lparr>rg_audit := c\<rparr>))"


definition emit_check :: "release_codec \<Rightarrow> string \<times> time \<Rightarrow> check_result \<Rightarrow> release_gate \<Rightarrow> release_gate" where
  "emit_check cd st r g =
     snd (gate_record cd st (''CHECK_'' @ check_status_value (ck_status r)) ''release_gate'' (domain_value (ck_domain r)) None [(''name'', JStr (ck_name r))] g)"

definition run_all_checks :: "release_codec \<Rightarrow> (check_domain \<Rightarrow> string \<times> time) \<Rightarrow> metrics \<Rightarrow> release_gate \<Rightarrow> check_result list \<times> release_gate" where
  "run_all_checks cd stamps m g =
     (let rs = all_checks cd m in (rs, fold (\<lambda>r. emit_check cd (stamps (ck_domain r)) r) rs g))"

definition run_migrations :: "release_codec \<Rightarrow> string \<times> time \<Rightarrow> string list \<Rightarrow> release_gate \<Rightarrow> migration_result \<times> release_gate" where
  "run_migrations cd st files g =
     (let r = verify_migrations cd files in
      (r, snd (gate_record cd st ''MIGRATION_VERIFIED'' ''migration_verifier'' ''migrations'' None
            [(''total'', JInt (int (mr_total r))), (''status'', JStr (migration_value (mr_status r)))] g)))"

definition trigger_rollback :: "release_codec \<Rightarrow> string \<times> time \<Rightarrow> string \<Rightarrow> string \<Rightarrow> string option \<Rightarrow> release_gate
    \<Rightarrow> (rollback_plan, release_gate) outcome" where
  "trigger_rollback cd st phase actor reason g =
     (if no_reason reason then (Inl (OtherError ''MissingReasonError''), g)
      else (case od_get rollback_plans phase of
          None \<Rightarrow> (Inl ValueError, g)
        | Some p \<Rightarrow> and_then (gate_record cd st ''ROLLBACK_TRIGGERED'' actor phase reason [(''steps'', JInt (int (length (rp_steps p))))] g)
            (\<lambda>g1. (Inr p, g1))))"

definition submit_sign_off :: "release_codec \<Rightarrow> string \<times> time \<Rightarrow> string \<Rightarrow> time \<Rightarrow> string \<Rightarrow> string \<Rightarrow> sign_off_status \<Rightarrow> string option \<Rightarrow> string option
    \<Rightarrow> release_gate \<Rightarrow> (sign_off, release_gate) outcome" where
  "submit_sign_off cd st sid now approver role status comment reason g =
     (if status = SignRejected \<and> no_reason reason then (Inl (OtherError ''MissingReasonError''), g)
      else (let r = \<lparr>sg_id = sid, sg_approver = approver, sg_role = role, sg_status = status, sg_comment = comment, sg_ts = now\<rparr> in
        and_then (gate_record cd st (if status = SignApproved then ''SIGN_OFF_APPROVED'' else ''SIGN_OFF_REJECTED'') approver ''staging_sign_off'' reason
            [(''role'', JStr role)] (g\<lparr>rg_signs := od_put approver r (rg_signs g)\<rparr>))
          (\<lambda>g1. (Inr r, g1))))"

definition approvals :: "release_gate \<Rightarrow> nat" where
  "approvals g = length (filter (\<lambda>r. sg_status r = SignApproved) (map snd (rg_signs g)))"

definition quorum_met :: "release_gate \<Rightarrow> bool" where
  "quorum_met g \<longleftrightarrow> rg_quorum g \<le> int (approvals g)"

definition has_rejection :: "release_gate \<Rightarrow> bool" where
  "has_rejection g \<longleftrightarrow> list_ex (\<lambda>r. sg_status r = SignRejected) (map snd (rg_signs g))"

definition required_roles :: "string list" where
  "required_roles = [''engineering_lead'', ''qa_lead'', ''security_officer'']"

record sign_off_summary =
  sm_total :: nat
  sm_approved :: nat
  sm_rejected :: nat
  sm_quorum :: int
  sm_met :: bool
  sm_pending_roles :: "string list"
  sm_rejection :: bool

definition sign_off_summary_of :: "release_gate \<Rightarrow> sign_off_summary" where
  "sign_off_summary_of g =
     (let rs = map snd (rg_signs g); rejected = length (filter (\<lambda>r. sg_status r = SignRejected) rs) in
      \<lparr>sm_total = length rs, sm_approved = approvals g, sm_rejected = rejected, sm_quorum = rg_quorum g, sm_met = (rg_quorum g \<le> int (approvals g)),
       sm_pending_roles = filter (\<lambda>role. \<not> list_ex (\<lambda>r. sg_role r = role) rs) required_roles, sm_rejection = (0 < rejected)\<rparr>)"

definition add_risk :: "release_codec \<Rightarrow> string \<times> time \<Rightarrow> risk_item \<Rightarrow> release_gate \<Rightarrow> (risk_item, release_gate) outcome" where
  "add_risk cd st r g =
     and_then (gate_record cd st ''RISK_ADDED'' (ri_owner r) (ri_domain r) None [(''risk_id'', JStr (ri_id r)), (''level'', JStr (level_value (ri_level r)))]
         (g\<lparr>rg_risks := od_put (ri_id r) r (rg_risks g)\<rparr>))
       (\<lambda>g1. (Inr r, g1))"

text \<open>\<open>mitigate\<close> and \<open>accept\<close> differ in the status, the action and the mitigation text.\<close>

definition settle_risk :: "release_codec \<Rightarrow> string \<times> time \<Rightarrow> string \<Rightarrow> (risk_item \<Rightarrow> risk_item) \<Rightarrow> string \<Rightarrow> string \<Rightarrow> string option \<Rightarrow> release_gate
    \<Rightarrow> (risk_item, release_gate) outcome" where
  "settle_risk cd st action change rid actor reason g =
     (if no_reason reason then (Inl (OtherError ''MissingReasonError''), g)
      else (case od_get (rg_risks g) rid of
          None \<Rightarrow> (Inl ValueError, g)
        | Some r \<Rightarrow> and_then (gate_record cd st action actor (ri_domain r) reason [(''risk_id'', JStr rid)]
                (g\<lparr>rg_risks := od_put rid (change r) (rg_risks g)\<rparr>))
            (\<lambda>g1. (Inr (change r), g1))))"

definition mitigate_risk :: "release_codec \<Rightarrow> string \<times> time \<Rightarrow> time \<Rightarrow> string \<Rightarrow> string \<Rightarrow> string option \<Rightarrow> string \<Rightarrow> release_gate
    \<Rightarrow> (risk_item, release_gate) outcome" where
  "mitigate_risk cd st now rid actor reason mitigation =
     settle_risk cd st ''RISK_MITIGATED''
       (\<lambda>r. r\<lparr>ri_status := RiskMitigated, ri_mitigation := (if mitigation \<noteq> [] then Some mitigation else reason), ri_closed := Some now\<rparr>) rid actor reason"

definition accept_risk :: "release_codec \<Rightarrow> string \<times> time \<Rightarrow> time \<Rightarrow> string \<Rightarrow> string \<Rightarrow> string option \<Rightarrow> release_gate
    \<Rightarrow> (risk_item, release_gate) outcome" where
  "accept_risk cd st now rid actor reason =
     settle_risk cd st ''RISK_ACCEPTED'' (\<lambda>r. r\<lparr>ri_status := RiskAccepted, ri_closed := Some now\<rparr>) rid actor reason"

definition open_risks :: "risk_level option \<Rightarrow> release_gate \<Rightarrow> risk_item list" where
  "open_risks max_level g =
     sort_key (\<lambda>r. level_order (ri_level r))
       (filter (\<lambda>r. ri_status r = RiskOpen \<and> (case max_level of Some l \<Rightarrow> level_order (ri_level r) \<le> level_order l | None \<Rightarrow> True)) (map snd (rg_risks g)))"

definition critical_open :: "release_gate \<Rightarrow> risk_item list" where
  "critical_open g = filter (\<lambda>r. ri_level r = CriticalRisk) (open_risks None g)"

record risk_summary =
  rk_total :: nat
  rk_counts :: "risk_status \<Rightarrow> nat"
  rk_open_by_level :: "risk_level \<Rightarrow> nat"

definition risk_summary_of :: "release_gate \<Rightarrow> risk_summary" where
  "risk_summary_of g =
     (let rs = map snd (rg_risks g) in
      \<lparr>rk_total = length rs, rk_counts = (\<lambda>st. length (filter (\<lambda>r. ri_status r = st) rs)),
       rk_open_by_level = (\<lambda>l. length (filter (\<lambda>r. ri_status r = RiskOpen \<and> ri_level r = l) rs))\<rparr>)"

subsection \<open>The decision\<close>

datatype decision_kind = Go | NoGo | ConditionalGo

fun decision_value :: "decision_kind \<Rightarrow> string" where
  "decision_value Go = ''GO''"
| "decision_value NoGo = ''NO_GO''"
| "decision_value ConditionalGo = ''CONDITIONAL_GO''"

datatype no_go_reason = ChecksFailed nat | MigrationBroken "string list" | SignOffRejected | QuorumNotMet nat int | CriticalRisksOpen nat | AuditTampered

text \<open>The text of a reason; \<open>show_names\<close> writes a list of names.\<close>

fun reason_text :: "(string list \<Rightarrow> string) \<Rightarrow> no_go_reason \<Rightarrow> string" where
  "reason_text show_names (ChecksFailed n) = ''critical_check_failed: '' @ nat_digits n @ '' FAIL''"
| "reason_text show_names (MigrationBroken ms) = ''migration_chain_broken: missing='' @ show_names ms"
| "reason_text show_names SignOffRejected = ''sign_off_rejected''"
| "reason_text show_names (QuorumNotMet a q) = ''sign_off_quorum_not_met: '' @ nat_digits a @ ''/'' @ int_digits q"
| "reason_text show_names (CriticalRisksOpen n) = ''open_critical_risks: '' @ nat_digits n"
| "reason_text show_names AuditTampered = ''audit_chain_tampered''"

record go_no_go =
  gg_decision :: decision_kind
  gg_reasons :: "no_go_reason list"
  gg_blocking :: "check_result list"
  gg_criticals :: "risk_item list"
  gg_sign_off :: sign_off_summary
  gg_migration_ok :: bool
  gg_audit_ok :: bool

definition go_reasons :: "release_codec \<Rightarrow> check_result list \<Rightarrow> migration_result option \<Rightarrow> release_chain option \<Rightarrow> release_gate \<Rightarrow> no_go_reason list" where
  "go_reasons cd checks mig chain g =
     (let blocking = filter (\<lambda>c. ck_status c = CheckFail) checks; crits = critical_open g; sm = sign_off_summary_of g in
      (if blocking \<noteq> [] then [ChecksFailed (length blocking)] else [])
      @ (case mig of Some r \<Rightarrow> if mr_status r \<noteq> MigVerified then [MigrationBroken (mr_missing r)] else [] | None \<Rightarrow> [])
      @ (if has_rejection g then [SignOffRejected] else [])
      @ (if \<not> sm_met sm then [QuorumNotMet (sm_approved sm) (sm_quorum sm)] else [])
      @ (if crits \<noteq> [] then [CriticalRisksOpen (length crits)] else [])
      @ (case chain of Some c \<Rightarrow> if \<not> release_verify cd c then [AuditTampered] else [] | None \<Rightarrow> []))"

definition go_decision :: "release_codec \<Rightarrow> check_result list \<Rightarrow> migration_result option \<Rightarrow> release_chain option \<Rightarrow> release_gate \<Rightarrow> go_no_go" where
  "go_decision cd checks mig chain g =
     (let reasons = go_reasons cd checks mig chain g in
      \<lparr>gg_decision = (if reasons \<noteq> [] then NoGo else if list_ex (\<lambda>c. ck_status c = CheckWarn) checks then ConditionalGo else Go),
       gg_reasons = reasons, gg_blocking = filter (\<lambda>c. ck_status c = CheckFail) checks, gg_criticals = critical_open g,
       gg_sign_off = sign_off_summary_of g, gg_migration_ok = (case mig of Some r \<Rightarrow> mr_status r = MigVerified | None \<Rightarrow> True),
       gg_audit_ok = (case chain of Some c \<Rightarrow> release_verify cd c | None \<Rightarrow> True)\<rparr>)"

fun numbered_lines :: "nat \<Rightarrow> string list \<Rightarrow> string list" where
  "numbered_lines n [] = []"
| "numbered_lines n (x # xs) = (''  '' @ nat_digits n @ ''. '' @ x) # numbered_lines (n + 1) xs"

fun recommendation :: "(string list \<Rightarrow> string) \<Rightarrow> decision_kind \<Rightarrow> no_go_reason list \<Rightarrow> string" where
  "recommendation show_names NoGo rs = py_join [char_of (10 :: nat)] (''DECISION: NO-GO -- BLOCKED.'' # [py_join [char_of (10 :: nat)] (numbered_lines 1 (map (reason_text show_names) rs))])"
| "recommendation show_names ConditionalGo rs = py_join [char_of (10 :: nat)] [''DECISION: CONDITIONAL GO -- Deploy with monitoring.'', ''RECOMMENDATION: Monitor warnings in 24h.'']"
| "recommendation show_names Go rs = py_join [char_of (10 :: nat)] [''All checks PASS. Quorum met. No critical risks. Audit intact.'', ''RECOMMENDATION: Proceed with production deployment.'']"

definition evaluate_release :: "release_codec \<Rightarrow> string \<times> time \<Rightarrow> check_result list \<Rightarrow> migration_result option \<Rightarrow> release_chain option \<Rightarrow> release_gate
    \<Rightarrow> go_no_go \<times> release_gate" where
  "evaluate_release cd st checks mig chain g =
     (let r = go_decision cd checks mig chain g in
      (r, snd (gate_record cd st ''GO_NOGO_DECISION'' ''release_gate'' ''release'' None
            [(''decision'', JStr (decision_value (gg_decision r))), (''blocking'', JInt (int (length (gg_blocking r))))] g)))"

record release_report =
  rr_version :: string
  rr_date :: string
  rr_by :: string
  rr_company :: string
  rr_go :: go_no_go
  rr_checks :: "check_result list"
  rr_sign_off :: sign_off_summary
  rr_risks :: risk_summary
  rr_audit_ok :: bool
  rr_phases :: nat
  rr_tests :: int
  rr_files :: int
  rr_migrations :: int

text \<open>\<open>ALL_PHASES\<close> are P06 to P35.\<close>

definition build_report :: "release_codec \<Rightarrow> string \<times> time \<Rightarrow> string \<Rightarrow> string \<Rightarrow> string \<Rightarrow> string \<Rightarrow> go_no_go \<Rightarrow> check_result list \<Rightarrow> release_chain option
    \<Rightarrow> int \<Rightarrow> int \<Rightarrow> int \<Rightarrow> release_gate \<Rightarrow> release_report \<times> release_gate" where
  "build_report cd st version date by company go checks chain tests files migs g =
     (\<lparr>rr_version = version, rr_date = date, rr_by = by, rr_company = company, rr_go = go, rr_checks = checks, rr_sign_off = sign_off_summary_of g,
       rr_risks = risk_summary_of g, rr_audit_ok = (case chain of Some c \<Rightarrow> release_verify cd c | None \<Rightarrow> True), rr_phases = length [6..<36],
       rr_tests = tests, rr_files = files, rr_migrations = migs\<rparr>,
      snd (gate_record cd st ''REPORT_GENERATED'' by ''release'' None
        [(''version'', JStr version), (''decision'', JStr (decision_value (gg_decision go)))] g))"

definition build_release_gate :: "release_codec \<Rightarrow> int \<Rightarrow> time \<Rightarrow> release_gate" where
  "build_release_gate cd quorum now = \<lparr>rg_audit = new_release_chain cd, rg_quorum = quorum, rg_signs = [], rg_risks = known_risks now\<rparr>"


subsection \<open>Runs of the gate\<close>

datatype release_op =
    RunChecks "check_domain \<Rightarrow> string \<times> time" metrics
  | RunMigrations "string \<times> time" "string list"
  | Rollback "string \<times> time" string string "string option"
  | Submit "string \<times> time" string time string string sign_off_status "string option" "string option"
  | AddRisk "string \<times> time" risk_item
  | Mitigate "string \<times> time" time string string "string option" string
  | AcceptRisk "string \<times> time" time string string "string option"
  | Evaluate "string \<times> time" "check_result list" "migration_result option" "release_chain option"
  | BuildReport "string \<times> time" string string string string go_no_go "check_result list" "release_chain option" int int int

fun gate_apply :: "release_codec \<Rightarrow> release_op \<Rightarrow> release_gate \<Rightarrow> release_gate" where
  "gate_apply cd (RunChecks sts m) g = snd (run_all_checks cd sts m g)"
| "gate_apply cd (RunMigrations st files) g = snd (run_migrations cd st files g)"
| "gate_apply cd (Rollback st phase actor reason) g = snd (trigger_rollback cd st phase actor reason g)"
| "gate_apply cd (Submit st sid now a role status comment reason) g = snd (submit_sign_off cd st sid now a role status comment reason g)"
| "gate_apply cd (AddRisk st r) g = snd (add_risk cd st r g)"
| "gate_apply cd (Mitigate st now rid actor reason m) g = snd (mitigate_risk cd st now rid actor reason m g)"
| "gate_apply cd (AcceptRisk st now rid actor reason) g = snd (accept_risk cd st now rid actor reason g)"
| "gate_apply cd (Evaluate st checks mig chain) g = snd (evaluate_release cd st checks mig chain g)"
| "gate_apply cd (BuildReport st v date by company go checks chain t f m) g = snd (build_report cd st v date by company go checks chain t f m g)"

lemma gate_record_fields [simp]:
  "rg_quorum (snd (gate_record cd st a actor area why d g)) = rg_quorum g"
  "rg_signs (snd (gate_record cd st a actor area why d g)) = rg_signs g"
  "rg_risks (snd (gate_record cd st a actor area why d g)) = rg_risks g"
  by (simp_all add: gate_record_def split: prod.split)

text \<open>What holds after an entry holds at the end of an operation that ends with it.\<close>

lemma gate_end [simp]:
  "rg_quorum (snd (and_then (gate_record cd st a actor area why d g) (\<lambda>s. (x, s)))) = rg_quorum g"
  "rg_signs (snd (and_then (gate_record cd st a actor area why d g) (\<lambda>s. (x, s)))) = rg_signs g"
  "rg_risks (snd (and_then (gate_record cd st a actor area why d g) (\<lambda>s. (x, s)))) = rg_risks g"
  by (simp_all add: and_then_def gate_record_def split: prod.split sum.split)

lemma emit_all_fields [simp]:
  "rg_quorum (fold (\<lambda>r. emit_check cd (sts (ck_domain r)) r) rs g) = rg_quorum g"
  "rg_signs (fold (\<lambda>r. emit_check cd (sts (ck_domain r)) r) rs g) = rg_signs g"
  "rg_risks (fold (\<lambda>r. emit_check cd (sts (ck_domain r)) r) rs g) = rg_risks g"
  by (induction rs arbitrary: g) (simp_all add: emit_check_def)

lemmas gate_op_defs = run_all_checks_def run_migrations_def trigger_rollback_def submit_sign_off_def add_risk_def settle_risk_def
  mitigate_risk_def accept_risk_def evaluate_release_def build_report_def

lemma gate_apply_quorum [simp]: "rg_quorum (gate_apply cd op g) = rg_quorum g"
  by (cases op) (simp_all add: gate_op_defs Let_def split: option.split)

lemma gate_apply_signs_wf: "od_wf (rg_signs g) \<Longrightarrow> od_wf (rg_signs (gate_apply cd op g))"
  by (cases op) (simp_all add: gate_op_defs Let_def split: option.split)

interpretation gate_runs: guarded_state "gate_apply cd" "\<lambda>g. od_wf (rg_signs g) \<and> rg_quorum g = q" for cd q
  by unfold_locales (simp add: gate_apply_signs_wf)

text \<open>The vote an operation casts for an approver, and the last one of a run.\<close>

fun vote_cast :: "string \<Rightarrow> release_op \<Rightarrow> sign_off_status option" where
  "vote_cast a (Submit st sid now b role status comment reason) =
     (if b = a \<and> \<not> (status = SignRejected \<and> no_reason reason) then Some status else None)"
| "vote_cast a _ = None"

definition last_vote :: "release_op list \<Rightarrow> string \<Rightarrow> sign_off_status option" where
  "last_vote ops a = fold (\<lambda>op v. case vote_cast a op of Some s \<Rightarrow> Some s | None \<Rightarrow> v) ops None"

lemma gate_apply_vote:
  "map_option sg_status (od_get (rg_signs (gate_apply cd op g)) a) =
     (case vote_cast a op of Some s \<Rightarrow> Some s | None \<Rightarrow> map_option sg_status (od_get (rg_signs g) a))"
  by (cases op) (auto simp: gate_op_defs Let_def split: option.split)

lemma run_votes:
  "map_option sg_status (od_get (rg_signs (fold (gate_apply cd) ops (build_release_gate cd q now))) a) = last_vote ops a"
proof -
  have "map_option sg_status (od_get (rg_signs (fold (gate_apply cd) ops g)) a)
      = fold (\<lambda>op v. case vote_cast a op of Some s \<Rightarrow> Some s | None \<Rightarrow> v) ops (map_option sg_status (od_get (rg_signs g) a))" for g
    by (induction ops arbitrary: g) (simp_all add: gate_apply_vote)
  then show ?thesis by (simp add: last_vote_def build_release_gate_def)
qed

lemma approvals_card:
  assumes "od_wf (rg_signs g)"
  shows "approvals g = card {a. map_option sg_status (od_get (rg_signs g) a) = Some SignApproved}"
proof -
  let ?d = "filter (\<lambda>p. sg_status (snd p) = SignApproved) (rg_signs g)"
  have "distinct (map fst ?d)" using od_wf_filter [OF assms] by (simp add: od_wf_def)
  then have "length ?d = card (set (map fst ?d))" by (metis distinct_card length_map)
  moreover have "set (map fst ?d) = {a. map_option sg_status (od_get (rg_signs g) a) = Some SignApproved}"
    using assms by (force dest: od_get_SomeD intro: od_get_in)
  ultimately show ?thesis by (simp add: approvals_def filter_map comp_def)
qed

text \<open>
  C25: The decision of a gate that started empty is other than NO-GO exactly when at least the quorum of distinct people voted with
  APPROVED in the last of their valid submissions, nobody's last one was REJECTED, no check failed, the result of the migration verifier is
  VERIFIED if there is one, no open risk is critical, and the audit chain verifies if one is given.
\<close>

theorem release_needs_its_approvers:
  "gg_decision (go_decision cd checks mig chain (fold (gate_apply cd) ops (build_release_gate cd q now))) \<noteq> NoGo
   \<longleftrightarrow> q \<le> int (card {a. last_vote ops a = Some SignApproved}) \<and> (\<forall>a. last_vote ops a \<noteq> Some SignRejected)
    \<and> list_all (\<lambda>c. ck_status c \<noteq> CheckFail) checks \<and> map_option mr_status mig \<in> {None, Some MigVerified}
    \<and> critical_open (fold (gate_apply cd) ops (build_release_gate cd q now)) = [] \<and> map_option (release_verify cd) chain \<in> {None, Some True}"
proof -
  define g where "g = fold (gate_apply cd) ops (build_release_gate cd q now)"
  have g: "od_wf (rg_signs g) \<and> rg_quorum g = q"
    unfolding g_def by (rule gate_runs.run_good) (simp add: build_release_gate_def)
  have votes: "map_option sg_status (od_get (rg_signs g) a) = last_vote ops a" for a unfolding g_def by (rule run_votes)
  have met: "sm_met (sign_off_summary_of g) \<longleftrightarrow> q \<le> int (card {a. last_vote ops a = Some SignApproved})"
    using approvals_card [of g] g unfolding votes by (simp add: sign_off_summary_of_def Let_def)
  have rejected: "has_rejection g \<longleftrightarrow> (\<exists>a. last_vote ops a = Some SignRejected)"
  proof
    assume "has_rejection g"
    then obtain a r where "(a, r) \<in> set (rg_signs g)" "sg_status r = SignRejected" by (auto simp: has_rejection_def list_ex_iff)
    then show "\<exists>a. last_vote ops a = Some SignRejected" using g od_get_in [of "rg_signs g" a r] votes [of a] by (intro exI [of _ a]) simp
  next
    assume "\<exists>a. last_vote ops a = Some SignRejected"
    then obtain a r where "od_get (rg_signs g) a = Some r" "sg_status r = SignRejected" using votes by (metis (no_types, lifting) map_option_eq_Some)
    then show "has_rejection g" using od_get_SomeD by (force simp: has_rejection_def list_ex_iff)
  qed
  have failed: "filter (\<lambda>c. ck_status c = CheckFail) checks = [] \<longleftrightarrow> list_all (\<lambda>c. ck_status c \<noteq> CheckFail) checks"
    by (simp add: filter_empty_conv list_all_iff)
  have "gg_decision (go_decision cd checks mig chain g) \<noteq> NoGo \<longleftrightarrow> go_reasons cd checks mig chain g = []"
    by (simp add: go_decision_def Let_def)
  also have "\<dots> \<longleftrightarrow> filter (\<lambda>c. ck_status c = CheckFail) checks = [] \<and> map_option mr_status mig \<in> {None, Some MigVerified} \<and> \<not> has_rejection g
      \<and> sm_met (sign_off_summary_of g) \<and> critical_open g = [] \<and> map_option (release_verify cd) chain \<in> {None, Some True}"
    by (simp add: go_reasons_def Let_def split: option.split)
  finally show ?thesis unfolding g_def [symmetric] met rejected failed by blast
qed


lemma release_needs_its_approvers_witness:
  "let cd = \<lparr>rx_hmac = id, rx_dumps = (\<lambda>_. ''x''), rx_sha256 = id, rx_show = (\<lambda>_. ''?'')\<rparr>;
       ops = [Submit (''e'', 1) ''s1'' 1 ''ann'' ''qa_lead'' SignApproved None None, Submit (''f'', 2) ''s2'' 2 ''bob'' ''qa_lead'' SignApproved None None] in
   gg_decision (go_decision cd (all_checks cd []) None None (fold (gate_apply cd) ops (build_release_gate cd 2 0))) = Go
   \<and> 2 \<le> int (card {a. last_vote ops a = Some SignApproved})"
proof -
  let ?cd = "\<lparr>rx_hmac = id, rx_dumps = (\<lambda>_. ''x''), rx_sha256 = id, rx_show = (\<lambda>_. ''?'')\<rparr>"
  let ?ops = "[Submit (''e'', 1) ''s1'' 1 ''ann'' ''qa_lead'' SignApproved None None, Submit (''f'', 2) ''s2'' 2 ''bob'' ''qa_lead'' SignApproved None None]"
  have go: "gg_decision (go_decision ?cd (all_checks ?cd []) None None (fold (gate_apply ?cd) ?ops (build_release_gate ?cd 2 0))) = Go"
    by (simp add: go_decision_def go_reasons_def all_checks_def check_trading_def check_risk_def check_license_def check_billing_def check_auth_def
        check_audit_def check_versioning_def check_flags_def check_supply_def check_secrets_def check_lifecycle_def check_hardening_def check_verdict_def
        metric_num_def metric_flag_def critical_open_def open_risks_def known_risks_def build_release_gate_def submit_sign_off_def gate_record_def
        release_record_def release_reasons_def and_then_def has_rejection_def sign_off_summary_of_def approvals_def Let_def sort_key_def insort_key_def)
  then have "gg_decision (go_decision ?cd (all_checks ?cd []) None None (fold (gate_apply ?cd) ?ops (build_release_gate ?cd 2 0))) \<noteq> NoGo" by simp
  then have "2 \<le> int (card {a. last_vote ?ops a = Some SignApproved})" unfolding release_needs_its_approvers by blast
  then show ?thesis using go unfolding Let_def by blast
qed

text \<open>The gate's own audit always verifies.\<close>

interpretation release_links: hash_chain "release_fits cd" ra_hash "release_seal cd" for cd
  by unfold_locales (simp add: release_fits_def release_seal_def release_hash_def)

definition gate_trail :: "release_codec \<Rightarrow> release_gate \<Rightarrow> bool" where
  "gate_trail cd g \<longleftrightarrow> release_verify cd (rg_audit g) \<and> rn_prev (rg_audit g) = last_hash ra_hash (release_genesis cd) (rn_entries (rg_audit g))"

lemma gate_record_trail: "gate_trail cd g \<Longrightarrow> gate_trail cd (snd (gate_record cd st a actor area why d g))"
  using release_links.verify_snoc [of cd "release_genesis cd" "rn_entries (rg_audit g)"]
  by (auto simp: gate_trail_def gate_record_def release_record_def release_verify_def Let_def split: prod.split)

lemma gate_end_trail: "gate_trail cd g \<Longrightarrow> gate_trail cd (snd (and_then (gate_record cd st a actor area why d g) (\<lambda>s. (x, s))))"
  by (rule and_then_keeps [where P = "gate_trail cd"]) (simp_all add: gate_record_trail)

lemma gate_trail_update [simp]: "gate_trail cd (g\<lparr>rg_signs := s\<rparr>) = gate_trail cd g" "gate_trail cd (g\<lparr>rg_risks := r\<rparr>) = gate_trail cd g"
  by (simp_all add: gate_trail_def)

lemma emit_all_trail: "gate_trail cd g \<Longrightarrow> gate_trail cd (fold (\<lambda>r. emit_check cd (sts (ck_domain r)) r) rs g)"
  by (induction rs arbitrary: g) (simp_all add: emit_check_def gate_record_trail)

lemma gate_apply_trail: "gate_trail cd g \<Longrightarrow> gate_trail cd (gate_apply cd op g)"
  by (cases op) (simp_all add: gate_op_defs Let_def emit_all_trail gate_end_trail gate_record_trail split: option.split)

interpretation gate_trails: guarded_state "gate_apply cd" "gate_trail cd" for cd
  by unfold_locales (rule gate_apply_trail)

lemma gate_audit_verifies: "release_verify cd (rg_audit (fold (gate_apply cd) ops (build_release_gate cd q now)))"
  using gate_trails.run_good [of cd "build_release_gate cd q now" ops]
  by (simp add: gate_trail_def build_release_gate_def new_release_chain_def release_verify_def)

subsection \<open>An open critical risk blocks\<close>

text \<open>Operations that can change a risk: adding one under its id, and settling it with a reason.\<close>

fun resettles :: "string \<Rightarrow> release_op \<Rightarrow> bool" where
  "resettles rid (AddRisk st r) \<longleftrightarrow> ri_id r = rid"
| "resettles rid (Mitigate st now k actor reason m) \<longleftrightarrow> k = rid \<and> \<not> no_reason reason"
| "resettles rid (AcceptRisk st now k actor reason) \<longleftrightarrow> k = rid \<and> \<not> no_reason reason"
| "resettles rid _ \<longleftrightarrow> False"

lemma gate_apply_risk: "\<not> resettles rid op \<Longrightarrow> od_get (rg_risks (gate_apply cd op g)) rid = od_get (rg_risks g) rid"
  by (cases op) (auto simp: gate_op_defs Let_def split: option.split)

lemma run_keeps_risk: "list_all (\<lambda>op. \<not> resettles rid op) ops \<Longrightarrow> od_get (rg_risks (fold (gate_apply cd) ops g)) rid = od_get (rg_risks g) rid"
  by (induction ops arbitrary: g) (simp_all add: gate_apply_risk)

text \<open>
  Once a critical risk has been recorded as open, every decision is NO-GO, whatever is checked, signed or recorded, until that risk
  is mitigated or accepted with a reason, or recorded anew.
\<close>

theorem critical_risk_blocks_release:
  assumes "ri_level r = CriticalRisk" and "ri_status r = RiskOpen" and "list_all (\<lambda>op. \<not> resettles (ri_id r) op) ops"
  shows "gg_decision (go_decision cd checks mig chain (fold (gate_apply cd) ops (gate_apply cd (AddRisk st r) g))) = NoGo"
proof -
  let ?g = "fold (gate_apply cd) ops (gate_apply cd (AddRisk st r) g)"
  have "od_get (rg_risks ?g) (ri_id r) = Some r" using assms(3) by (simp add: run_keeps_risk add_risk_def)
  then have "r \<in> set (critical_open ?g)" using assms(1,2) od_get_SomeD by (force simp: critical_open_def open_risks_def)
  then have "critical_open ?g \<noteq> []" by auto
  then show ?thesis by (simp add: go_decision_def go_reasons_def Let_def)
qed


definition demo_risk :: risk_item where
  "demo_risk = \<lparr>ri_id = ''R100'', ri_title = ''t'', ri_description = ''d'', ri_level = CriticalRisk, ri_domain = ''x'', ri_owner = ''o'', ri_phase = ''P35'',
     ri_status = RiskOpen, ri_mitigation = None, ri_opened = 0, ri_closed = None\<rparr>"

lemma critical_risk_blocks_release_witness:
  "let cd = \<lparr>rx_hmac = id, rx_dumps = (\<lambda>_. ''x''), rx_sha256 = id, rx_show = (\<lambda>_. ''?'')\<rparr>;
       ops = [Submit (''e'', 1) ''s1'' 1 ''ann'' ''qa_lead'' SignApproved None None, Mitigate (''f'', 2) 2 ''R100'' ''bob'' (Some ''  '') ''none''] in
   gg_decision (go_decision cd (all_checks cd []) None None
     (fold (gate_apply cd) ops (gate_apply cd (AddRisk (''g'', 0) demo_risk) (build_release_gate cd 1 0)))) = NoGo"
proof -
  let ?cd = "\<lparr>rx_hmac = id, rx_dumps = (\<lambda>_. ''x''), rx_sha256 = id, rx_show = (\<lambda>_. ''?'')\<rparr>"
  let ?ops = "[Submit (''e'', 1) ''s1'' 1 ''ann'' ''qa_lead'' SignApproved None None, Mitigate (''f'', 2) 2 ''R100'' ''bob'' (Some ''  '') ''none'']"
  have "list_all (\<lambda>op. \<not> resettles (ri_id demo_risk) op) ?ops" by (simp add: demo_risk_def no_reason_def py_strip_def char_space_def)
  then show ?thesis using critical_risk_blocks_release [of demo_risk ?ops] by (simp only: Let_def) (simp add: demo_risk_def)
qed

subsection \<open>What the gate does not see\<close>

text \<open>A gate that was told nothing passes every check: a metric that is absent counts as good.\<close>

lemma absent_metrics_pass: "map ck_status (all_checks cd []) = replicate 12 CheckPass"
  by (simp add: all_checks_def check_trading_def check_risk_def check_license_def check_billing_def check_auth_def
        check_audit_def check_versioning_def check_flags_def check_supply_def check_secrets_def check_lifecycle_def check_hardening_def check_verdict_def
        metric_num_def metric_flag_def Let_def eval_nat_numeral)

text \<open>High slippage only warns, and hides the drawdown check behind it: any drawdown is let through.\<close>

lemma slippage_hides_drawdown:
  "95 \<le> fill \<Longrightarrow> 2 < slippage \<Longrightarrow>
     ck_status (check_trading cd [(''fill_rate_pct'', MNum fill), (''avg_slippage_pct'', MNum slippage), (''max_drawdown_pct'', MNum drawdown)]) = CheckWarn"
  by (simp add: check_trading_def metric_num_def check_verdict_def Let_def)

text \<open>In the same way a missing sunset of the first version hides inactive migration.\<close>

lemma sunset_hides_migration:
  "ck_status (check_versioning [(''v1_sunset_enforced'', MFlag False), (''response_migration_active'', MFlag False)]) = CheckWarn"
  by (simp add: check_versioning_def metric_flag_def check_verdict_def Let_def)

text \<open>No migration is ever reported missing: without any file the chain is verified.\<close>

lemma no_files_verify: "mr_missing (verify_migrations cd files) = [] \<and> mr_status (verify_migrations cd []) = MigVerified"
  by (simp add: verify_migrations_def Let_def)

text \<open>The names the verifier itself builds start with a word, so their order is not checked.\<close>

lemma own_names_are_ignored:
  assumes "list_all (\<lambda>f. \<not> 0 < migration_seq f) files"
  shows "mr_status (verify_migrations cd files) = MigVerified"
proof -
  have "filter (\<lambda>s. 0 < s) (map migration_seq files) = []" using assms by (auto simp: filter_empty_conv list_all_iff)
  then show ?thesis by (simp add: verify_migrations_def Let_def)
qed

lemma first_two_out_of_order_unnoticed:
  "mr_status (verify_migrations cd [''migration_002_partitioning.sql'', ''migration_001_initial_schema.sql'']) = MigVerified"
  by (rule own_names_are_ignored) (simp add: migration_seq_def remove_text.simps is_digit_def)

text \<open>Two approvals of one role meet the quorum; the required roles are only listed.\<close>

lemma roles_do_not_count: "quorum_met g = quorum_met (g\<lparr>rg_signs := map (\<lambda>(a, r). (a, r\<lparr>sg_role := role\<rparr>)) (rg_signs g)\<rparr>)"
  by (simp add: quorum_met_def approvals_def filter_map comp_def case_prod_beta)

text \<open>A pending submission is stored and then refused, since it is audited as a rejection without reason.\<close>

lemma pending_is_refused_after_storing:
  "fst (submit_sign_off cd st sid now a role SignPending comment None g) = Inl (OtherError ''MissingReasonError'')
   \<and> map_option sg_status (od_get (rg_signs (snd (submit_sign_off cd st sid now a role SignPending comment None g))) a) = Some SignPending"
  by (simp add: submit_sign_off_def and_then_def gate_record_def release_record_def release_reasons_def no_reason_def Let_def)

end
