(* ===== verification/Supply_Chain.thy ===== *)
theory Supply_Chain
  imports Hash_Chain Json "HOL-Library.List_Lexorder" "HOL-Library.Char_ord"
begin

section \<open>The supply chain\<close>

text \<open>
  \<open>src/backend/core/supply_chain.py\<close>: the parser of requirement lines, pinning and banned packages, the vulnerability scanner,
  drift detection, the scanner for dynamic loading, the signed build records and their reproduction, the lockfile, the chained audit and
  the administration with its policy gate. HMAC-SHA256 under the secret (\<open>sx_hmac\<close>), SHA-256 (\<open>sx_sha256\<close>) and \<open>json.dumps\<close> with
  sorted keys (\<open>sx_dumps\<close>) are parameters. Texts are Latin-1, lowering changes ASCII letters. Hooks, whose errors are swallowed, are left out.
\<close>

subsection \<open>Requirement lines\<close>

datatype vuln_severity = VulnCritical | VulnHigh | VulnMedium | VulnLow | VulnInfo

fun severity_rank :: "vuln_severity \<Rightarrow> nat" where
  "severity_rank VulnCritical = 4"
| "severity_rank VulnHigh = 3"
| "severity_rank VulnMedium = 2"
| "severity_rank VulnLow = 1"
| "severity_rank VulnInfo = 0"

record dep_spec =
  dp_name :: string
  dp_version :: string
  dp_op :: string
  dp_extras :: "string list"
  dp_source :: string
  dp_dev :: bool

definition pinned :: "dep_spec \<Rightarrow> bool" where
  "pinned s \<longleftrightarrow> dp_op s = ''==''"

definition req_string :: "dep_spec \<Rightarrow> string" where
  "req_string s = dp_name s @ (if dp_extras s \<noteq> [] then ''['' @ py_join '','' (dp_extras s) @ '']'' else []) @ dp_op s @ dp_version s"

definition ascii_alnum :: "char \<Rightarrow> bool" where
  "ascii_alnum c = (let n = (of_char c :: nat) in (48 \<le> n \<and> n \<le> 57) \<or> (65 \<le> n \<and> n \<le> 90) \<or> (97 \<le> n \<and> n \<le> 122))"

text \<open>The classes \<open>[A-Za-z0-9_\-]\<close>, \<open>[><=!~^]\<close> and \<open>[\w.\-+]\<close> of the pattern, the last with the word characters of Latin-1.\<close>

definition name_char :: "char \<Rightarrow> bool" where
  "name_char c \<longleftrightarrow> ascii_alnum c \<or> c \<in> set ''_-''"

definition op_char :: "char \<Rightarrow> bool" where
  "op_char c \<longleftrightarrow> c \<in> set ''><=!~^''"

definition version_char :: "char \<Rightarrow> bool" where
  "version_char c = (let n = (of_char c :: nat) in ascii_alnum c \<or> c \<in> set ''_.-+''
     \<or> n \<in> set [170, 178, 179, 181, 185, 186, 188, 189, 190] \<or> (192 \<le> n \<and> n \<noteq> 215 \<and> n \<noteq> 247))"

text \<open>
  All groups after the name are optional, so the greedy match never goes back: the longest name, a bracket up to the first
  closing one if there is one, the longest operator and the longest version; what follows is not looked at.
\<close>

definition match_extras :: "string \<Rightarrow> string option \<times> string" where
  "match_extras s =
     (case s of [] \<Rightarrow> (None, s)
      | c # r \<Rightarrow> if c = CHR ''['' \<and> CHR '']'' \<in> set r
          then (Some (takeWhile (\<lambda>x. x \<noteq> CHR '']'') r), tl (dropWhile (\<lambda>x. x \<noteq> CHR '']'') r)) else (None, s))"

definition parse_line :: "string \<Rightarrow> dep_spec option" where
  "parse_line raw =
     (let line = py_strip raw in
      if line = [] \<or> hd line = CHR ''#'' \<or> hd line = CHR ''-'' then None
      else (let name = takeWhile name_char line; rest = dropWhile name_char line in
        if name = [] then None
        else (case match_extras rest of (ex, rest2) \<Rightarrow>
          let op = takeWhile op_char rest2; rest3 = dropWhile op_char rest2; version = takeWhile version_char rest3 in
          Some \<lparr>dp_name = name, dp_version = version, dp_op = op,
                dp_extras = (case ex of Some t \<Rightarrow> map py_strip (py_split CHR '','' t) | None \<Rightarrow> []),
                dp_source = ''pypi'', dp_dev = False\<rparr>)))"

text \<open>\<open>str.splitlines\<close>.\<close>

definition line_break :: "char \<Rightarrow> bool" where
  "line_break c \<longleftrightarrow> (of_char c :: nat) \<in> set [10, 11, 12, 13, 28, 29, 30, 133]"

fun split_lines :: "string \<Rightarrow> string list" where
  "split_lines [] = []"
| "split_lines [c] = (if line_break c then [[]] else [[c]])"
| "split_lines (c # d # cs) =
     (if line_break c then [] # split_lines (if c = char_of (13 :: nat) \<and> d = char_of (10 :: nat) then cs else d # cs)
      else case split_lines (d # cs) of [] \<Rightarrow> [[c]] | l # ls \<Rightarrow> (c # l) # ls)"

definition parse_requirements :: "string \<Rightarrow> dep_spec list" where
  "parse_requirements content = List.map_filter parse_line (split_lines content)"

definition check_pinned :: "dep_spec list \<Rightarrow> dep_spec list" where
  "check_pinned specs = filter (\<lambda>s. \<not> pinned s) specs"

definition banned_packages :: "string list" where
  "banned_packages = [''debug-toolbar'', ''django-debug-toolbar'', ''pdb++'', ''ipdb'', ''pudb'', ''test-pypi-upload-example'', ''malicious-package'']"

definition check_banned :: "dep_spec list \<Rightarrow> dep_spec list" where
  "check_banned specs = filter (\<lambda>s. py_lower (dp_name s) \<in> set (map py_lower banned_packages)) specs"

definition enforce_pins :: "string \<Rightarrow> dep_spec list \<times> dep_spec list" where
  "enforce_pins content = (let specs = parse_requirements content in (check_pinned specs, check_banned specs))"

definition pin_all :: "dep_spec list \<Rightarrow> dep_spec list" where
  "pin_all specs = map (\<lambda>s. s\<lparr>dp_op := ''==''\<rparr>) specs"

definition generate_requirements :: "dep_spec list \<Rightarrow> string" where
  "generate_requirements specs = py_join [char_of (10 :: nat)] (map req_string (filter (\<lambda>s. dp_version s \<noteq> []) specs))"

subsection \<open>Vulnerabilities, drift and dynamic loading\<close>

record vuln_record =
  vn_cve :: string
  vn_package :: string
  vn_affected :: "string list"
  vn_severity :: vuln_severity
  vn_description :: string
  vn_fix :: "string option"
  vn_published :: time

definition vuln_hits :: "vuln_record list \<Rightarrow> dep_spec list \<Rightarrow> vuln_record list" where
  "vuln_hits db specs =
     concat (map (\<lambda>s. filter (\<lambda>v. py_lower (vn_package v) = py_lower (dp_name s) \<and> dp_version s \<in> set (vn_affected v)) db) specs)"

text \<open>\<open>sort(key, reverse=True)\<close> keeps the order of equal keys.\<close>

definition vuln_scan :: "vuln_record list \<Rightarrow> dep_spec list \<Rightarrow> vuln_record list" where
  "vuln_scan db specs = sort_key (\<lambda>v. - int (severity_rank (vn_severity v))) (vuln_hits db specs)"

definition has_critical :: "vuln_record list \<Rightarrow> dep_spec list \<Rightarrow> bool" where
  "has_critical db specs \<longleftrightarrow> list_ex (\<lambda>v. vn_severity v = VulnCritical) (vuln_scan db specs)"

definition vuln_summary :: "vuln_record list \<Rightarrow> dep_spec list \<Rightarrow> vuln_severity \<Rightarrow> nat" where
  "vuln_summary db specs sev = length (filter (\<lambda>v. vn_severity v = sev) (vuln_scan db specs))"

datatype drift_kind = DriftAdded | DriftRemoved | DriftVersion | DriftHash

record drift_item =
  dr_kind :: drift_kind
  dr_package :: string
  dr_expected :: string
  dr_actual :: string

definition lower_keys :: "(string, string) odict \<Rightarrow> (string, string) odict" where
  "lower_keys d = fold (\<lambda>(k, v). od_put (py_lower k) v) d []"

definition detect_drift :: "(string, string) odict \<Rightarrow> (string, string) odict \<Rightarrow> drift_item list" where
  "detect_drift lockfile current =
     (let lk = lower_keys lockfile; cu = lower_keys current in
      concat (map (\<lambda>(name, ver). case od_get cu name of
            None \<Rightarrow> [\<lparr>dr_kind = DriftRemoved, dr_package = name, dr_expected = ver, dr_actual = []\<rparr>]
          | Some a \<Rightarrow> if a \<noteq> ver then [\<lparr>dr_kind = DriftVersion, dr_package = name, dr_expected = ver, dr_actual = a\<rparr>] else []) lk)
      @ concat (map (\<lambda>(name, ver). if od_get lk name = None
            then [\<lparr>dr_kind = DriftAdded, dr_package = name, dr_expected = [], dr_actual = ver\<rparr>] else []) cu))"

record lockfile_entry =
  lf_name :: string
  lf_version :: string
  lf_sha256 :: string
  lf_url :: string
  lf_direct :: bool

definition detect_hash_drift :: "lockfile_entry list \<Rightarrow> (string, string) odict \<Rightarrow> drift_item list" where
  "detect_hash_drift entries actual =
     concat (map (\<lambda>e. let a = (case od_get actual (py_lower (lf_name e)) of Some h \<Rightarrow> h | None \<Rightarrow> []) in
        if a \<noteq> [] \<and> lf_sha256 e \<noteq> a then [\<lparr>dr_kind = DriftHash, dr_package = lf_name e, dr_expected = lf_sha256 e, dr_actual = a\<rparr>] else []) entries)"

definition unsafe_patterns :: "string list" where
  "unsafe_patterns = [''exec('', ''eval('', ''compile('', ''importlib.import_module'', ''__import__'', ''pickle.loads'', ''marshal.loads'',
     ''subprocess.Popen'', ''os.system('', ''ctypes.CDLL'']"

record load_violation =
  lv_file :: string
  lv_line :: nat
  lv_pattern :: string
  lv_content :: string
  lv_severity :: vuln_severity

definition scan_line :: "string list \<Rightarrow> string \<Rightarrow> nat \<Rightarrow> string \<Rightarrow> load_violation list" where
  "scan_line patterns path n line =
     (let stripped = py_strip line in
      if stripped \<noteq> [] \<and> hd stripped = CHR ''#'' then []
      else map (\<lambda>p. \<lparr>lv_file = path, lv_line = n, lv_pattern = p, lv_content = take 200 stripped,
                    lv_severity = (if p \<in> set [''exec('', ''eval('', ''pickle.loads'', ''marshal.loads''] then VulnCritical else VulnHigh)\<rparr>)
             (filter (\<lambda>p. contains p line) patterns))"

definition scan_source :: "string list \<Rightarrow> string \<Rightarrow> string \<Rightarrow> load_violation list" where
  "scan_source patterns source path = concat (map (\<lambda>(n, l). scan_line patterns path n l) (List.enumerate 1 (split_lines source)))"

definition scan_files :: "string list \<Rightarrow> (string, string) odict \<Rightarrow> load_violation list" where
  "scan_files patterns sources = concat (map (\<lambda>(path, src). scan_source patterns src path) sources)"


subsection \<open>Lockfiles and builds\<close>

record supply_codec =
  sx_hmac :: "string \<Rightarrow> string"
  sx_sha256 :: "string \<Rightarrow> string"
  sx_dumps :: "json \<Rightarrow> string"

definition lockfile_json :: "lockfile_entry list \<Rightarrow> json" where
  "lockfile_json es = JList (map (\<lambda>e. JObj [(''n'', JStr (lf_name e)), (''v'', JStr (lf_version e)), (''h'', JStr (lf_sha256 e))])
     (sort_key lf_name es))"

definition lockfile_hash :: "supply_codec \<Rightarrow> lockfile_entry list \<Rightarrow> string" where
  "lockfile_hash cd es = sx_sha256 cd (sx_dumps cd (lockfile_json es))"

record lockfile_store =
  ls_stored :: "string option"
  ls_entries :: "(string, lockfile_entry) odict"

definition record_lockfile :: "supply_codec \<Rightarrow> lockfile_entry list \<Rightarrow> lockfile_store \<Rightarrow> string \<times> lockfile_store" where
  "record_lockfile cd es s =
     (let h = lockfile_hash cd es in (h, \<lparr>ls_stored = Some h, ls_entries = fold (\<lambda>e. od_put (lf_name e) e) es []\<rparr>))"

definition verify_lockfile :: "supply_codec \<Rightarrow> lockfile_entry list \<Rightarrow> lockfile_store \<Rightarrow> bool" where
  "verify_lockfile cd es s = (ls_stored s = Some (lockfile_hash cd es))"

datatype build_status = BuildUnsigned | BuildSigned | BuildVerified | BuildTampered | BuildReproducing

record build_record =
  bd_id :: string
  bd_commit :: string
  bd_branch :: string
  bd_python :: string
  bd_lockfile :: string
  bd_deps :: nat
  bd_at :: time
  bd_by :: string
  bd_artifacts :: "string list"
  bd_status :: build_status
  bd_signature :: string
  bd_env :: string

definition build_canonical :: "build_record \<Rightarrow> json" where
  "build_canonical r = JObj [(''build_id'', JStr (bd_id r)), (''commit_sha'', JStr (bd_commit r)), (''branch'', JStr (bd_branch r)),
     (''python_ver'', JStr (bd_python r)), (''lockfile_hash'', JStr (bd_lockfile r)), (''deps_count'', JInt (int (bd_deps r))),
     (''built_at'', JFloat (bd_at r)), (''built_by'', JStr (bd_by r)), (''artifact_ids'', JList (map JStr (sort (bd_artifacts r)))),
     (''env_vars_hash'', JStr (bd_env r))]"

definition build_mac :: "supply_codec \<Rightarrow> build_record \<Rightarrow> string" where
  "build_mac cd r = sx_hmac cd (sx_dumps cd (build_canonical r))"

definition sign_build :: "supply_codec \<Rightarrow> build_record \<Rightarrow> build_record" where
  "sign_build cd r = r\<lparr>bd_signature := build_mac cd r, bd_status := BuildSigned\<rparr>"

definition verify_signature :: "supply_codec \<Rightarrow> build_record \<Rightarrow> bool" where
  "verify_signature cd r \<longleftrightarrow> bd_signature r \<noteq> [] \<and> build_mac cd r = bd_signature r"

definition hash_env :: "supply_codec \<Rightarrow> (string, string) odict \<Rightarrow> string" where
  "hash_env cd env = take 16 (sx_sha256 cd (sx_dumps cd (JObj (map (\<lambda>(k, v). (k, JStr v)) (sort_key fst env)))))"

record build_inputs =
  bi_id :: string
  bi_at :: time

definition create_build :: "supply_codec \<Rightarrow> build_inputs \<Rightarrow> string \<Rightarrow> string \<Rightarrow> string \<Rightarrow> lockfile_entry list \<Rightarrow> string list \<Rightarrow> string \<Rightarrow> (string, string) odict
    \<Rightarrow> (string, build_record) odict \<Rightarrow> build_record \<times> (string, build_record) odict" where
  "create_build cd i commit branch python es artifacts by env bs =
     (let r = (sign_build cd \<lparr>bd_id = bi_id i, bd_commit = commit, bd_branch = branch, bd_python = python, bd_lockfile = lockfile_hash cd es,
                bd_deps = length es, bd_at = bi_at i, bd_by = by, bd_artifacts = artifacts, bd_status = BuildUnsigned, bd_signature = [],
                bd_env = hash_env cd env\<rparr>)\<lparr>bd_status := BuildVerified\<rparr> in
      (r, od_put (bd_id r) r bs))"

definition verify_build :: "supply_codec \<Rightarrow> string \<Rightarrow> (string, build_record) odict \<Rightarrow> bool \<times> string" where
  "verify_build cd k bs =
     (case od_get bs k of
        None \<Rightarrow> (False, ''build_not_found'')
      | Some r \<Rightarrow> if \<not> verify_signature cd r then (False, ''signature_invalid'') else (True, ''ok''))"

definition is_reproducible :: "supply_codec \<Rightarrow> string \<Rightarrow> lockfile_entry list \<Rightarrow> string \<Rightarrow> string \<Rightarrow> (string, build_record) odict \<Rightarrow> bool" where
  "is_reproducible cd k es commit python bs =
     (case od_get bs k of
        None \<Rightarrow> False
      | Some r \<Rightarrow> bd_lockfile r = lockfile_hash cd es \<and> bd_commit r = commit \<and> bd_python r = python)"

definition list_builds :: "(string, build_record) odict \<Rightarrow> build_record list" where
  "list_builds bs = sort_key (\<lambda>b. - bd_at b) (map snd bs)"

subsection \<open>The audit chain\<close>

record supply_entry =
  se_id :: string
  se_seq :: nat
  se_action :: string
  se_actor :: string
  se_detail :: "(string \<times> json) list"
  se_ts :: time
  se_hash :: string
  se_prev :: string

record supply_audit =
  sa_records :: "supply_entry list"
  sa_seq :: nat
  sa_prev :: string

definition supply_max :: nat where "supply_max = 50000"

definition supply_genesis :: "supply_codec \<Rightarrow> string" where
  "supply_genesis cd = sx_hmac cd ''GENESIS:SUPPLY:CHAIN:V28''"

definition new_supply_audit :: "supply_codec \<Rightarrow> supply_audit" where
  "new_supply_audit cd = \<lparr>sa_records = [], sa_seq = 1, sa_prev = supply_genesis cd\<rparr>"

definition supply_hash :: "supply_codec \<Rightarrow> string \<Rightarrow> supply_entry \<Rightarrow> string" where
  "supply_hash cd prev e = sx_hmac cd (prev @ '':'' @ sx_dumps cd (JObj [(''seq'', JInt (int (se_seq e))), (''action'', JStr (se_action e)),
     (''actor'', JStr (se_actor e)), (''detail'', JObj (se_detail e)), (''ts'', JFloat (se_ts e))]))"

definition supply_seal :: "supply_codec \<Rightarrow> string \<Rightarrow> supply_entry \<Rightarrow> supply_entry" where
  "supply_seal cd prev e = e\<lparr>se_hash := supply_hash cd prev e, se_prev := prev\<rparr>"

definition supply_record :: "supply_codec \<Rightarrow> string \<times> time \<Rightarrow> string \<Rightarrow> string \<Rightarrow> (string \<times> json) list \<Rightarrow> supply_audit \<Rightarrow> supply_audit" where
  "supply_record cd st action actor detail a =
     (let e = supply_seal cd (sa_prev a) \<lparr>se_id = fst st, se_seq = sa_seq a, se_action = action, se_actor = actor, se_detail = detail,
                se_ts = snd st, se_hash = [], se_prev = []\<rparr> in
      \<lparr>sa_records = take_last supply_max (sa_records a @ [e]), sa_seq = sa_seq a + 1, sa_prev = se_hash e\<rparr>)"

definition supply_fits :: "supply_codec \<Rightarrow> string \<Rightarrow> supply_entry \<Rightarrow> bool" where
  "supply_fits cd prev e \<longleftrightarrow> supply_hash cd prev e = se_hash e"

definition supply_verify :: "supply_codec \<Rightarrow> supply_audit \<Rightarrow> bool" where
  "supply_verify cd a = verify_from (supply_fits cd) se_hash (supply_genesis cd) (sa_records a)"

definition supply_tampered :: "supply_codec \<Rightarrow> supply_audit \<Rightarrow> nat list" where
  "supply_tampered cd a = map se_seq (broken_from (supply_fits cd) se_hash (supply_genesis cd) (sa_records a))"

definition supply_query :: "string option \<Rightarrow> string option \<Rightarrow> int \<Rightarrow> supply_audit \<Rightarrow> supply_entry list" where
  "supply_query action actor limit a =
     (if limit \<le> 0 then []
      else take (nat limit) (filter (\<lambda>e. (case action of Some x \<Rightarrow> x = [] \<or> se_action e = x | None \<Rightarrow> True)
        \<and> (case actor of Some x \<Rightarrow> x = [] \<or> se_actor e = x | None \<Rightarrow> True)) (rev (sa_records a))))"

subsection \<open>The administration\<close>

record supply_system =
  sy_db :: "vuln_record list"
  sy_patterns :: "string list"
  sy_lockfile :: lockfile_store
  sy_builds :: "(string, build_record) odict"
  sy_audit :: supply_audit

definition new_supply_system :: "supply_codec \<Rightarrow> supply_system" where
  "new_supply_system cd = \<lparr>sy_db = [], sy_patterns = unsafe_patterns, sy_lockfile = \<lparr>ls_stored = None, ls_entries = []\<rparr>, sy_builds = [],
     sy_audit = new_supply_audit cd\<rparr>"

definition any_critical :: "vuln_record list \<Rightarrow> bool" where
  "any_critical vs \<longleftrightarrow> list_ex (\<lambda>v. vn_severity v = VulnCritical) vs"

record scan_report =
  sn_total :: nat
  sn_unpinned :: nat
  sn_banned :: nat
  sn_vulns :: nat
  sn_critical :: nat
  sn_drift :: nat
  sn_dynamic :: nat
  sn_pass :: bool

definition report_json :: "scan_report \<Rightarrow> json" where
  "report_json r = JObj [(''total_deps'', JInt (int (sn_total r))), (''unpinned_count'', JInt (int (sn_unpinned r))), (''banned_count'', JInt (int (sn_banned r))),
     (''vuln_count'', JInt (int (sn_vulns r))), (''critical_vulns'', JInt (int (sn_critical r))), (''drift_count'', JInt (int (sn_drift r))),
     (''dynamic_load_count'', JInt (int (sn_dynamic r))), (''pass'', JBool (sn_pass r))]"

definition full_scan :: "supply_codec \<Rightarrow> string \<times> time \<Rightarrow> string \<Rightarrow> lockfile_entry list \<Rightarrow> (string, string) odict \<Rightarrow> (string, string) odict \<Rightarrow> string
    \<Rightarrow> supply_system \<Rightarrow> scan_report \<times> supply_system" where
  "full_scan cd st content es env sources actor s =
     (let specs = parse_requirements content; pins = enforce_pins content; vulns = vuln_scan (sy_db s) specs;
          drift = detect_drift (fold (\<lambda>e. od_put (lf_name e) (lf_version e)) es []) env; viols = scan_files (sy_patterns s) sources;
          r = \<lparr>sn_total = length specs, sn_unpinned = length (fst pins), sn_banned = length (snd pins), sn_vulns = length vulns,
               sn_critical = length (filter (\<lambda>v. vn_severity v = VulnCritical) vulns), sn_drift = length drift, sn_dynamic = length viols,
               sn_pass = (fst pins = [] \<and> snd pins = [] \<and> \<not> any_critical vulns \<and> viols = [])\<rparr> in
      (r, s\<lparr>sy_audit := supply_record cd st ''full_scan'' actor [(''report'', report_json r)] (sy_audit s)\<rparr>))"

record sbom_component =
  sb_name :: string
  sb_version :: string
  sb_pinned :: bool
  sb_source :: string
  sb_sha256 :: string
  sb_dev :: bool

definition generate_sbom :: "supply_codec \<Rightarrow> string \<times> time \<Rightarrow> dep_spec list \<Rightarrow> lockfile_entry list \<Rightarrow> string \<Rightarrow> string \<Rightarrow> supply_system
    \<Rightarrow> sbom_component list \<times> supply_system" where
  "generate_sbom cd st specs es build actor s =
     (let by_name = fold (\<lambda>e. od_put (py_lower (lf_name e)) e) es [];
          cs = map (\<lambda>d. \<lparr>sb_name = dp_name d, sb_version = dp_version d, sb_pinned = pinned d, sb_source = dp_source d,
                      sb_sha256 = (case od_get by_name (py_lower (dp_name d)) of Some e \<Rightarrow> lf_sha256 e | None \<Rightarrow> []), sb_dev = dp_dev d\<rparr>) specs in
      (cs, s\<lparr>sy_audit := supply_record cd st ''sbom_generated'' actor [(''build_id'', JStr build), (''count'', JInt (int (length cs)))] (sy_audit s)\<rparr>))"

datatype gate_reason = UnpinnedDeps "string list" | BannedPackages "string list" | CriticalVulns "string list" | DynamicLoads "(string \<times> nat) list"

record gate_options =
  go_critical :: bool
  go_unpinned :: bool
  go_dynamic :: bool
  go_banned :: bool

definition gate_reasons :: "gate_options \<Rightarrow> string \<Rightarrow> vuln_record list \<Rightarrow> string list \<Rightarrow> (string, string) odict \<Rightarrow> gate_reason list" where
  "gate_reasons g content db patterns sources =
     (let specs = parse_requirements content; pins = enforce_pins content; vulns = vuln_scan db specs; viols = scan_files patterns sources in
      (if go_unpinned g \<and> fst pins \<noteq> [] then [UnpinnedDeps (map dp_name (fst pins))] else [])
      @ (if go_banned g \<and> snd pins \<noteq> [] then [BannedPackages (map dp_name (snd pins))] else [])
      @ (if go_critical g \<and> any_critical vulns then [CriticalVulns (map vn_cve (filter (\<lambda>v. vn_severity v = VulnCritical) vulns))] else [])
      @ (if go_dynamic g \<and> viols \<noteq> [] then [DynamicLoads (map (\<lambda>v. (lv_file v, lv_line v)) viols)] else []))"

text \<open>The reasons are written into the audit as texts; their layout is the parameter \<open>show_reason\<close>.\<close>

definition policy_gate :: "supply_codec \<Rightarrow> (gate_reason \<Rightarrow> string) \<Rightarrow> string \<times> time \<Rightarrow> gate_options \<Rightarrow> string \<Rightarrow> vuln_record list \<Rightarrow> (string, string) odict \<Rightarrow> string
    \<Rightarrow> supply_system \<Rightarrow> (bool \<times> gate_reason list) \<times> supply_system" where
  "policy_gate cd show_reason st g content db sources actor s =
     (let rs = gate_reasons g content db (sy_patterns s) sources in
      ((rs = [], rs), s\<lparr>sy_db := db, sy_audit := supply_record cd st ''policy_gate'' actor
         [(''passed'', JBool (rs = [])), (''reasons'', JList (map (\<lambda>r. JStr (show_reason r)) rs))] (sy_audit s)\<rparr>))"


subsection \<open>Requirements round trip\<close>

text \<open>The specifications that a requirement line can express.\<close>

definition extra_ok :: "string \<Rightarrow> bool" where
  "extra_ok e \<longleftrightarrow> py_strip e = e \<and> list_all (\<lambda>c. c \<noteq> CHR '','' \<and> c \<noteq> CHR '']'' \<and> \<not> line_break c) e"

definition dep_wf :: "dep_spec \<Rightarrow> bool" where
  "dep_wf s \<longleftrightarrow> dp_name s \<noteq> [] \<and> list_all name_char (dp_name s) \<and> hd (dp_name s) \<noteq> CHR ''-'' \<and> list_all op_char (dp_op s)
     \<and> list_all version_char (dp_version s) \<and> (dp_op s = [] \<longrightarrow> dp_version s = []) \<and> list_all extra_ok (dp_extras s)
     \<and> dp_source s = ''pypi'' \<and> \<not> dp_dev s"

lemma char_classes:
  "name_char c \<Longrightarrow> \<not> char_space c" "op_char c \<Longrightarrow> \<not> char_space c" "version_char c \<Longrightarrow> \<not> char_space c"
  "name_char c \<Longrightarrow> \<not> line_break c" "op_char c \<Longrightarrow> \<not> line_break c" "version_char c \<Longrightarrow> \<not> line_break c"
  "name_char c \<Longrightarrow> \<not> op_char c" "op_char c \<Longrightarrow> \<not> version_char c" "op_char c \<Longrightarrow> \<not> name_char c"
  "name_char c \<Longrightarrow> c \<noteq> CHR ''[''" "op_char c \<Longrightarrow> c \<noteq> CHR ''[''" "name_char c \<Longrightarrow> c \<noteq> CHR ''#''"
  by (auto simp: name_char_def op_char_def version_char_def ascii_alnum_def char_space_def line_break_def Let_def)

lemma split_joined_extras:
  assumes "xs \<noteq> []" and "list_all (\<lambda>x. c \<notin> set x) xs"
  shows "py_split c (py_join [c] xs) = xs"
proof -
  have line: "c \<notin> set x \<Longrightarrow> py_split c (x @ c # r) = x # py_split c r" for x r
    by (induction x) auto
  have last_part: "c \<notin> set x \<Longrightarrow> py_split c x = [x]" for x
    by (induction x) auto
  show ?thesis using assms by (induction "[c]" xs rule: py_join.induct) (simp_all add: line last_part)
qed

lemma takeWhile_end: "list_all P xs \<Longrightarrow> (ys = [] \<or> \<not> P (hd ys)) \<Longrightarrow> takeWhile P (xs @ ys) = xs \<and> dropWhile P (xs @ ys) = ys"
  by (induction xs) (cases ys; simp)+

lemma join_avoids: "list_all (\<lambda>x. c \<notin> set x) xs \<Longrightarrow> c \<notin> set sep \<Longrightarrow> c \<notin> set (py_join sep xs)"
  by (induction sep xs rule: py_join.induct) auto

lemma match_extras_join:
  assumes "list_all extra_ok xs" and "r = [] \<or> hd r \<noteq> CHR ''[''"
  shows "match_extras ((if xs \<noteq> [] then ''['' @ py_join '','' xs @ '']'' else []) @ r) = (if xs \<noteq> [] then Some (py_join '','' xs) else None, r)"
proof (cases "xs = []")
  case True
  then show ?thesis using assms(2) by (cases r) (simp_all add: match_extras_def)
next
  case False
  have "CHR '']'' \<notin> set (py_join '','' xs)"
    using assms(1) by (intro join_avoids) (auto simp: list_all_iff extra_ok_def)
  then have "list_all (\<lambda>x. x \<noteq> CHR '']'') (py_join '','' xs)" by (auto simp: list_all_iff)
  then have "takeWhile (\<lambda>x. x \<noteq> CHR '']'') (py_join '','' xs @ '']'' @ r) = py_join '','' xs
      \<and> dropWhile (\<lambda>x. x \<noteq> CHR '']'') (py_join '','' xs @ '']'' @ r) = '']'' @ r"
    by (rule takeWhile_end) simp
  then show ?thesis using False by (simp add: match_extras_def)
qed

lemma parse_req_string:
  assumes w: "dep_wf s"
  shows "parse_line (req_string s) = Some s"
proof -
  define ex where "ex = (if dp_extras s \<noteq> [] then ''['' @ py_join '','' (dp_extras s) @ '']'' else [])"
  have line: "req_string s = dp_name s @ ex @ dp_op s @ dp_version s" by (simp add: req_string_def ex_def)
  obtain c n where name: "dp_name s = c # n" using w by (cases "dp_name s") (auto simp: dep_wf_def)
  have c: "name_char c" using w name by (simp add: dep_wf_def)
  have op: "list_all op_char (dp_op s)" and ver: "list_all version_char (dp_version s)" and ov: "dp_op s = [] \<longrightarrow> dp_version s = []"
    using w by (simp_all add: dep_wf_def)
  have rest: "dp_op s @ dp_version s = [] \<or> op_char (hd (dp_op s @ dp_version s))"
    using op ov by (cases "dp_op s") auto
  have "\<not> char_space (last (req_string s))"
  proof (cases "dp_version s = []")
    case v: True
    show ?thesis
    proof (cases "dp_op s = []")
      case True
      have "\<not> char_space (last (dp_name s))" using w char_classes(1) by (simp add: dep_wf_def list_all_iff)
      then show ?thesis using v True by (simp add: line ex_def char_space_def)
    next
      case False
      then have "op_char (last (dp_op s))" using op by (simp add: list_all_iff)
      then show ?thesis using v False char_classes(2) by (simp add: line)
    qed
  next
    case False
    then have "version_char (last (dp_version s))" using ver by (simp add: list_all_iff)
    then show ?thesis using False char_classes(3) by (simp add: line)
  qed
  then have strip: "py_strip (req_string s) = req_string s"
    using c char_classes(1) name by (intro py_strip_id) (simp_all add: line)
  have start: "ex @ dp_op s @ dp_version s = [] \<or> \<not> name_char (hd (ex @ dp_op s @ dp_version s))"
    using rest char_classes(9) by (auto simp: ex_def name_char_def ascii_alnum_def)
  have 1: "takeWhile name_char (req_string s) = dp_name s" "dropWhile name_char (req_string s) = ex @ dp_op s @ dp_version s"
    using takeWhile_end [of name_char "dp_name s" "ex @ dp_op s @ dp_version s"] start w by (simp_all add: line dep_wf_def)
  have 2: "match_extras (ex @ dp_op s @ dp_version s) = (if dp_extras s \<noteq> [] then Some (py_join '','' (dp_extras s)) else None, dp_op s @ dp_version s)"
    unfolding ex_def using rest w char_classes(11) by (intro match_extras_join) (auto simp: dep_wf_def)
  have "dp_version s = [] \<or> \<not> op_char (hd (dp_version s))"
    using ver char_classes(8) by (cases "dp_version s") auto
  then have 3: "takeWhile op_char (dp_op s @ dp_version s) = dp_op s" "dropWhile op_char (dp_op s @ dp_version s) = dp_version s"
    using takeWhile_end [of op_char "dp_op s" "dp_version s"] op by simp_all
  have 4: "takeWhile version_char (dp_version s) = dp_version s" using ver by (simp add: takeWhile_eq_all_conv list_all_iff)
  have 5: "map py_strip (py_split CHR '','' (py_join '','' (dp_extras s))) = dp_extras s" if "dp_extras s \<noteq> []"
  proof -
    have "list_all (\<lambda>x. CHR '','' \<notin> set x) (dp_extras s)" "list_all (\<lambda>x. py_strip x = x) (dp_extras s)"
      using w by (auto simp: dep_wf_def list_all_iff extra_ok_def)
    then show ?thesis using split_joined_extras [OF that, of "CHR '',''"] by (simp add: map_idI list_all_iff)
  qed
  have "hd (req_string s) = c" "req_string s \<noteq> []" by (simp_all add: line name)
  moreover have "c \<noteq> CHR ''#''" "c \<noteq> CHR ''-''" using char_classes(12) [OF c] w name by (auto simp: dep_wf_def)
  ultimately show ?thesis unfolding parse_line_def strip Let_def 1 2 using w name 3 4 5 by (auto simp: dep_wf_def)
qed


abbreviation newline :: char where "newline \<equiv> char_of (10 :: nat)"

lemma line_break_newline [simp]: "line_break newline"
  by (simp add: line_break_def)

lemma split_lines_break: "split_lines (newline # s) = [] # split_lines s"
  by (cases s) simp_all

lemma split_lines_char: "\<not> line_break c \<Longrightarrow> split_lines (c # s) = (case split_lines s of [] \<Rightarrow> [[c]] | l # ls \<Rightarrow> (c # l) # ls)"
  by (cases s) simp_all

lemma split_lines_line: "list_all (\<lambda>c. \<not> line_break c) l \<Longrightarrow> split_lines (l @ newline # s) = l # split_lines s"
  by (induction l) (simp_all add: split_lines_break split_lines_char)

lemma split_lines_last: "l \<noteq> [] \<Longrightarrow> list_all (\<lambda>c. \<not> line_break c) l \<Longrightarrow> split_lines l = [l]"
  by (induction l rule: list_nonempty_induct) (simp_all add: split_lines_char)

lemma split_joined_lines:
  "list_all (\<lambda>l. l \<noteq> [] \<and> list_all (\<lambda>c. \<not> line_break c) l) ls \<Longrightarrow> split_lines (py_join [newline] ls) = ls"
  by (induction "[newline]" ls rule: py_join.induct) (simp_all add: split_lines_line split_lines_last)

lemma list_all_join: "list_all P sep \<Longrightarrow> list_all (list_all P) xs \<Longrightarrow> list_all P (py_join sep xs)"
  by (induction sep xs rule: py_join.induct) auto

lemma req_string_line: "dep_wf s \<Longrightarrow> req_string s \<noteq> [] \<and> list_all (\<lambda>c. \<not> line_break c) (req_string s)"
proof -
  assume w: "dep_wf s"
  then have "list_all (list_all (\<lambda>c. \<not> line_break c)) (dp_extras s)" by (auto simp: dep_wf_def extra_ok_def list_all_iff)
  moreover have "list_all (\<lambda>c. \<not> line_break c) '',''" by (simp add: line_break_def)
  ultimately have "list_all (\<lambda>c. \<not> line_break c) (py_join '','' (dp_extras s))" by (intro list_all_join)
  moreover have "\<not> line_break (CHR ''['')" "\<not> line_break (CHR '']'')" by (simp_all add: line_break_def)
  ultimately show ?thesis using w char_classes(4-6) by (auto simp: req_string_def dep_wf_def list_all_iff)
qed

lemma parse_generated:
  assumes "list_all dep_wf specs"
  shows "parse_requirements (generate_requirements specs) = filter (\<lambda>s. dp_version s \<noteq> []) specs"
proof -
  let ?ss = "filter (\<lambda>s. dp_version s \<noteq> []) specs"
  have w: "list_all dep_wf ?ss" using assms by (simp add: list_all_iff)
  have "split_lines (py_join [newline] (map req_string ?ss)) = map req_string ?ss"
  proof (intro split_joined_lines, unfold list.pred_map comp_def, rule list.pred_mono_strong [OF w])
    show "dep_wf s \<Longrightarrow> req_string s \<noteq> [] \<and> list_all (\<lambda>c. \<not> line_break c) (req_string s)" for s by (rule req_string_line)
  qed
  moreover have "List.map_filter parse_line (map req_string ss) = ss" if "list_all dep_wf ss" for ss
    using that by (induction ss) (simp_all add: map_filter_def parse_req_string)
  ultimately show ?thesis using w by (simp add: parse_requirements_def generate_requirements_def)
qed

text \<open>
  Requirements survive being written and read: the specifications with a version, generated as a file and parsed again, are the same
  list; and after \<open>pin_all\<close> the generated file has no unpinned line, and bans exactly the packages that were banned before.
\<close>

theorem requirements_round_trip:
  assumes "list_all dep_wf specs"
  shows "parse_requirements (generate_requirements specs) = filter (\<lambda>s. dp_version s \<noteq> []) specs
    \<and> fst (enforce_pins (generate_requirements (pin_all specs))) = []
    \<and> map dp_name (snd (enforce_pins (generate_requirements (pin_all specs)))) = map dp_name (check_banned (filter (\<lambda>s. dp_version s \<noteq> []) specs))"
proof -
  have "list_all dep_wf (pin_all specs)" using assms by (auto simp: pin_all_def list_all_iff dep_wf_def op_char_def)
  then have p: "parse_requirements (generate_requirements (pin_all specs)) = pin_all (filter (\<lambda>s. dp_version s \<noteq> []) specs)"
    by (simp add: parse_generated pin_all_def filter_map comp_def)
  have "check_pinned (pin_all ss) = []" for ss by (auto simp: check_pinned_def pin_all_def pinned_def filter_empty_conv)
  moreover have "map dp_name (check_banned (pin_all ss)) = map dp_name (check_banned ss)" for ss
    by (simp add: check_banned_def pin_all_def filter_map comp_def)
  ultimately show ?thesis using parse_generated [OF assms] by (simp add: enforce_pins_def p Let_def)
qed

definition demo_deps :: "dep_spec list" where
  "demo_deps = [\<lparr>dp_name = ''uvicorn'', dp_version = ''0.29.0'', dp_op = ''>='', dp_extras = [''standard'', ''http''], dp_source = ''pypi'', dp_dev = False\<rparr>,
     \<lparr>dp_name = ''ipdb'', dp_version = ''1.0'', dp_op = ''=='', dp_extras = [], dp_source = ''pypi'', dp_dev = False\<rparr>]"

lemma requirements_round_trip_witness:
  "parse_requirements (generate_requirements demo_deps) = demo_deps \<and> fst (enforce_pins (generate_requirements (pin_all demo_deps))) = []"
proof -
  have "list_all dep_wf demo_deps"
    by (simp add: demo_deps_def dep_wf_def name_char_def op_char_def version_char_def ascii_alnum_def extra_ok_def py_strip_def char_space_def
        line_break_def Let_def)
  moreover have "filter (\<lambda>s. dp_version s \<noteq> []) demo_deps = demo_deps" by (simp add: demo_deps_def)
  ultimately show ?thesis using requirements_round_trip [of demo_deps] by simp
qed

subsection \<open>Drift\<close>

text \<open>No drift is reported exactly if both listings, with lowered names, give every package the same version.\<close>

lemma lower_keys_wf [simp]: "od_wf (lower_keys d)"
proof -
  have "od_wf e \<Longrightarrow> od_wf (fold (\<lambda>(k, v). od_put (py_lower k) v) d e)" for e
    by (induction d arbitrary: e) auto
  then show ?thesis by (simp add: lower_keys_def)
qed

lemma no_drift_iff: "detect_drift lockfile current = [] \<longleftrightarrow> (\<forall>name. od_get (lower_keys lockfile) name = od_get (lower_keys current) name)"
proof -
  define lk where "lk = lower_keys lockfile"
  define cu where "cu = lower_keys current"
  have w: "od_wf lk" "od_wf cu" by (simp_all add: lk_def cu_def)
  have removed: "(case got of None \<Rightarrow> [x] | Some a \<Rightarrow> if a \<noteq> v then [y a] else []) = [] \<longleftrightarrow> got = Some v" for got v and x :: drift_item and y
    by (auto split: option.split)
  have added: "(if got = None then [x] else []) = [] \<longleftrightarrow> got \<noteq> None" for got :: "string option" and x :: drift_item
    by simp
  have "detect_drift lockfile current = [] \<longleftrightarrow> (\<forall>(n, v) \<in> set lk. od_get cu n = Some v) \<and> (\<forall>(n, v) \<in> set cu. od_get lk n \<noteq> None)"
    unfolding detect_drift_def Let_def lk_def [symmetric] cu_def [symmetric] append_is_Nil_conv concat_eq_Nil_conv set_map ball_simps case_prod_beta removed added
    by (rule refl)
  also have "\<dots> \<longleftrightarrow> (\<forall>n. od_get lk n = od_get cu n)"
  proof
    assume h: "(\<forall>(n, v) \<in> set lk. od_get cu n = Some v) \<and> (\<forall>(n, v) \<in> set cu. od_get lk n \<noteq> None)"
    show "\<forall>n. od_get lk n = od_get cu n"
    proof
      fix n
      show "od_get lk n = od_get cu n"
      proof (cases "od_get lk n")
        case None
        then have "od_get cu n = None" using h od_get_SomeD [of cu n] by (cases "od_get cu n") auto
        then show ?thesis using None by simp
      next
        case (Some v)
        then show ?thesis using h od_get_SomeD [OF Some] by auto
      qed
    qed
  next
    assume "\<forall>n. od_get lk n = od_get cu n"
    then show "(\<forall>(n, v) \<in> set lk. od_get cu n = Some v) \<and> (\<forall>(n, v) \<in> set cu. od_get lk n \<noteq> None)"
      using od_get_in [OF w(1)] od_get_in [OF w(2)] by fastforce
  qed
  finally show ?thesis by (simp add: lk_def cu_def)
qed


subsection \<open>Signed builds\<close>

lemma build_mac_status [simp]: "build_mac cd (r\<lparr>bd_status := st\<rparr>) = build_mac cd r" "build_mac cd (r\<lparr>bd_signature := sg\<rparr>) = build_mac cd r"
  by (simp_all add: build_mac_def build_canonical_def)

text \<open>The operations of \<open>SupplyChainSystem\<close> that change its state.\<close>

datatype supply_op =
    LoadDb "vuln_record list"
  | AddVuln vuln_record
  | RecordLockfile "lockfile_entry list"
  | CreateBuild build_inputs string string string "lockfile_entry list" "string list" string "(string, string) odict"
  | FullScan "string \<times> time" string "lockfile_entry list" "(string, string) odict" "(string, string) odict" string
  | GenerateSbom "string \<times> time" "dep_spec list" "lockfile_entry list" string string
  | PolicyGate "string \<times> time" gate_options string "vuln_record list" "(string, string) odict" string

fun supply_apply :: "supply_codec \<Rightarrow> (gate_reason \<Rightarrow> string) \<Rightarrow> supply_op \<Rightarrow> supply_system \<Rightarrow> supply_system" where
  "supply_apply cd sh (LoadDb db) s = s\<lparr>sy_db := db\<rparr>"
| "supply_apply cd sh (AddVuln v) s = s\<lparr>sy_db := sy_db s @ [v]\<rparr>"
| "supply_apply cd sh (RecordLockfile es) s = s\<lparr>sy_lockfile := snd (record_lockfile cd es (sy_lockfile s))\<rparr>"
| "supply_apply cd sh (CreateBuild i commit branch python es arts who env) s =
     s\<lparr>sy_builds := snd (create_build cd i commit branch python es arts who env (sy_builds s))\<rparr>"
| "supply_apply cd sh (FullScan st content es env sources actor) s = snd (full_scan cd st content es env sources actor s)"
| "supply_apply cd sh (GenerateSbom st specs es build actor) s = snd (generate_sbom cd st specs es build actor s)"
| "supply_apply cd sh (PolicyGate st g content db sources actor) s = snd (policy_gate cd sh st g content db sources actor s)"

text \<open>Every stored build carries the signature of what it says.\<close>

definition builds_good :: "supply_codec \<Rightarrow> supply_system \<Rightarrow> bool" where
  "builds_good cd s \<longleftrightarrow> (\<forall>k r. od_get (sy_builds s) k = Some r \<longrightarrow> bd_id r = k \<and> bd_signature r = build_mac cd r)"

lemma supply_apply_builds: "builds_good cd s \<Longrightarrow> builds_good cd (supply_apply cd sh op s)"
proof (cases op)
  case (CreateBuild i commit branch python es arts who env)
  then show "builds_good cd s \<Longrightarrow> ?thesis" by (auto simp: builds_good_def create_build_def sign_build_def build_mac_def build_canonical_def Let_def)
qed (simp_all add: builds_good_def full_scan_def generate_sbom_def policy_gate_def Let_def)

interpretation supply_runs: guarded_state "supply_apply cd sh" "builds_good cd" for cd sh
  by unfold_locales (rule supply_apply_builds)

lemma new_system_good: "builds_good cd (new_supply_system cd)"
  by (simp add: builds_good_def new_supply_system_def)

lemma stored_builds_verify:
  assumes "od_get (sy_builds (fold (supply_apply cd sh) ops (new_supply_system cd))) k = Some r" and "\<And>m. sx_hmac cd m \<noteq> []"
  shows "verify_build cd k (sy_builds (fold (supply_apply cd sh) ops (new_supply_system cd))) = (True, ''ok'')"
  using supply_runs.run_good [OF new_system_good, of cd sh ops] assms
  by (simp add: verify_build_def verify_signature_def builds_good_def build_mac_def)

subsection \<open>The trail\<close>

interpretation supply_links: hash_chain "supply_fits cd" se_hash "supply_seal cd" for cd
  by unfold_locales (simp add: supply_fits_def supply_seal_def supply_hash_def)

definition supply_trail :: "supply_codec \<Rightarrow> supply_system \<Rightarrow> bool" where
  "supply_trail cd s \<longleftrightarrow> 0 < sa_seq (sy_audit s)
     \<and> supply_links.tail_ok cd (supply_genesis cd) supply_max (sa_records (sy_audit s)) (sa_prev (sy_audit s)) (sa_seq (sy_audit s) - 1)"

lemma supply_record_trail: "supply_trail cd s \<Longrightarrow> supply_trail cd (s\<lparr>sy_audit := supply_record cd st action actor detail (sy_audit s)\<rparr>)"
  using supply_links.tail_push [of cd "supply_genesis cd" supply_max "sa_records (sy_audit s)" "sa_prev (sy_audit s)" "sa_seq (sy_audit s) - 1"]
  by (simp add: supply_trail_def supply_record_def supply_max_def Let_def)

lemma supply_trail_db [simp]: "supply_trail cd (s\<lparr>sy_db := db\<rparr>) = supply_trail cd s"
  by (simp add: supply_trail_def)

lemma supply_apply_trail: "supply_trail cd s \<Longrightarrow> supply_trail cd (supply_apply cd sh op s)"
proof (cases op)
  case (PolicyGate st g content db sources actor)
  then show "supply_trail cd s \<Longrightarrow> ?thesis"
    using supply_record_trail [of cd "s\<lparr>sy_db := db\<rparr>"] by (simp add: policy_gate_def Let_def)
qed (simp_all add: full_scan_def generate_sbom_def supply_record_trail Let_def, simp_all add: supply_trail_def)

interpretation supply_trails: guarded_state "supply_apply cd sh" "supply_trail cd" for cd sh
  by unfold_locales (rule supply_apply_trail)

lemma supply_log_verifies:
  assumes "s = fold (supply_apply cd sh) ops (new_supply_system cd)" and "sa_seq (sy_audit s) \<le> supply_max"
  shows "supply_verify cd (sy_audit s)"
proof -
  have "supply_trail cd (new_supply_system cd)"
    by (simp add: supply_trail_def new_supply_system_def new_supply_audit_def supply_links.tail_new)
  then have "supply_trail cd s" unfolding assms(1) by (rule supply_trails.run_good)
  then show ?thesis using assms(2) unfolding supply_trail_def supply_verify_def by (auto intro: supply_links.tail_verifies)
qed

subsection \<open>What the policy gate lets through\<close>

lemma policy_gate_passes_iff:
  "fst (fst (policy_gate cd sh st \<lparr>go_critical = True, go_unpinned = True, go_dynamic = True, go_banned = True\<rparr> content db sources actor s)) \<longleftrightarrow>
     list_all (\<lambda>d. pinned d \<and> py_lower (dp_name d) \<notin> set (map py_lower banned_packages)) (parse_requirements content)
     \<and> \<not> any_critical (vuln_scan db (parse_requirements content)) \<and> scan_files (sy_patterns s) sources = []"
  by (auto simp: policy_gate_def gate_reasons_def enforce_pins_def check_pinned_def check_banned_def filter_empty_conv list_all_iff Let_def)

text \<open>Lines that start with a dash are skipped, so an editable install from anywhere passes.\<close>

lemma editable_install_unseen: "parse_line ''-e git+https://x/malicious-package'' = None"
  by (simp add: parse_line_def py_strip_def char_space_def)

text \<open>A wildcard counts as pinned, with no version at all.\<close>

lemma wildcard_is_pinned: "map_option pinned (parse_line ''requests==*'') = Some True \<and> map_option dp_version (parse_line ''requests==*'') = Some []"
  by (simp add: parse_line_def py_strip_def char_space_def name_char_def ascii_alnum_def match_extras_def op_char_def version_char_def pinned_def Let_def)

text \<open>The banned package \<open>pdb++\<close> is read as \<open>pdb\<close>, and underscores escape the names with dashes.\<close>

lemma banned_names_missed:
  "check_banned (parse_requirements ''pdb++==0.1'') = [] \<and> check_banned (parse_requirements ''malicious_package==1'') = []"
  by (simp add: parse_requirements_def map_filter_def check_banned_def banned_packages_def py_lower_def char_lower_def line_break_def parse_line_def py_strip_def
      char_space_def name_char_def ascii_alnum_def match_extras_def op_char_def version_char_def Let_def)

text \<open>Drift is reported by the full scan but does not fail it.\<close>

lemma drift_does_not_fail: "sn_pass (fst (full_scan cd st content es env sources actor s)) = sn_pass (fst (full_scan cd st' content es' env' sources actor' s))"
  by (simp add: full_scan_def Let_def)

end
