(* ===== verification/Artifacts.thy ===== *)
theory Artifacts
  imports Hash_Chain Json "HOL-Library.List_Lexorder" "HOL-Library.Char_ord"
begin

section \<open>Release artifacts\<close>

text \<open>
  \<open>src/backend/core/artifact_governance.py\<close>: the artifacts of a release with their life cycle (draft, signed, published,
  deprecated, revoked), their signatures, the control of downloads, the compatibility rules, the bulk operations and the chained
  audit. HMAC-SHA256 under the secret (\<open>ac_hmac\<close>), the digests of a content (\<open>ac_sha256\<close>, \<open>ac_sha512\<close>), \<open>json.dumps\<close> with sorted keys
  (\<open>ac_dumps\<close>) and the six-digit rendering of a time (\<open>ac_float6\<close>) are parameters; contents are byte lists. The SQL text of the
  migration is left out.
\<close>

subsection \<open>Types\<close>

datatype artifact_status = ArtDraft | ArtSigned | ArtPublished | ArtDeprecated | ArtRevoked

datatype artifact_type = EaBinary | EaSource | ConfigArtifact | LicensePkg | MigrationArtifact | DockerImg | Installer

datatype artifact_platform = Mt5Platform | Mt4Platform | WindowsX64 | DockerPlatform | AnyPlatform

datatype compatibility = Compatible | Incompatible | UnknownCompat

datatype artifact_action = ActCreated | ActSigned | ActPublished | ActDeprecated | ActRevoked | ActDownloaded | ActVerified | ActRejected

fun artifact_status_value :: "artifact_status \<Rightarrow> string" where
  "artifact_status_value ArtDraft = ''draft''"
| "artifact_status_value ArtSigned = ''signed''"
| "artifact_status_value ArtPublished = ''published''"
| "artifact_status_value ArtDeprecated = ''deprecated''"
| "artifact_status_value ArtRevoked = ''revoked''"

fun artifact_type_value :: "artifact_type \<Rightarrow> string" where
  "artifact_type_value EaBinary = ''ea_binary''"
| "artifact_type_value EaSource = ''ea_source''"
| "artifact_type_value ConfigArtifact = ''config''"
| "artifact_type_value LicensePkg = ''license_pkg''"
| "artifact_type_value MigrationArtifact = ''migration''"
| "artifact_type_value DockerImg = ''docker_img''"
| "artifact_type_value Installer = ''installer''"

fun artifact_platform_value :: "artifact_platform \<Rightarrow> string" where
  "artifact_platform_value Mt5Platform = ''mt5''"
| "artifact_platform_value Mt4Platform = ''mt4''"
| "artifact_platform_value WindowsX64 = ''windows_x64''"
| "artifact_platform_value DockerPlatform = ''docker''"
| "artifact_platform_value AnyPlatform = ''any''"

fun artifact_action_value :: "artifact_action \<Rightarrow> string" where
  "artifact_action_value ActCreated = ''created''"
| "artifact_action_value ActSigned = ''signed''"
| "artifact_action_value ActPublished = ''published''"
| "artifact_action_value ActDeprecated = ''deprecated''"
| "artifact_action_value ActRevoked = ''revoked''"
| "artifact_action_value ActDownloaded = ''downloaded''"
| "artifact_action_value ActVerified = ''verified''"
| "artifact_action_value ActRejected = ''rejected''"

definition blocked_statuses :: "artifact_status list" where
  "blocked_statuses = [ArtDraft, ArtRevoked]"

fun artifact_transitions :: "artifact_status \<Rightarrow> artifact_status list" where
  "artifact_transitions ArtDraft = [ArtSigned, ArtRevoked]"
| "artifact_transitions ArtSigned = [ArtPublished, ArtRevoked]"
| "artifact_transitions ArtPublished = [ArtDeprecated, ArtRevoked]"
| "artifact_transitions ArtDeprecated = [ArtRevoked]"
| "artifact_transitions ArtRevoked = []"

definition artifact_reasons :: "artifact_action list" where
  "artifact_reasons = [ActRevoked, ActDeprecated, ActRejected]"

subsection \<open>Compatibility\<close>

text \<open>\<open>int(x)\<close> of a text: an optional sign and digits, between which single underscores may stand.\<close>

definition text_int :: "string \<Rightarrow> int option" where
  "text_int s =
     (let t = py_strip s; neg = (t \<noteq> [] \<and> hd t = CHR ''-''); d = (if t \<noteq> [] \<and> hd t \<in> set ''+-'' then tl t else t); ps = py_split CHR ''_'' d in
      if list_all (\<lambda>p. p \<noteq> [] \<and> list_all is_digit p) ps then Some (if neg then - digits_value (concat ps) else digits_value (concat ps)) else None)"

definition artifact_version :: "string \<Rightarrow> int list" where
  "artifact_version v =
     (let ns = map text_int (py_split CHR ''.'' v) in if None \<in> set ns then [0] else map the ns)"

record compat_rule =
  cm_type :: artifact_type
  cm_platform :: artifact_platform
  cm_min :: "string option"
  cm_max :: "string option"

definition bound_breaks :: "(int list \<Rightarrow> bool) \<Rightarrow> string option \<Rightarrow> bool" where
  "bound_breaks P b \<longleftrightarrow> (case b of Some s \<Rightarrow> s \<noteq> [] \<and> P (artifact_version s) | None \<Rightarrow> False)"

definition rule_matches :: "artifact_type \<Rightarrow> artifact_platform \<Rightarrow> string option \<Rightarrow> compat_rule \<Rightarrow> compatibility" where
  "rule_matches t p version r =
     (if cm_type r \<noteq> t then UnknownCompat
      else if cm_platform r \<noteq> AnyPlatform \<and> cm_platform r \<noteq> p then Incompatible
      else (case version of
          Some v \<Rightarrow> if v \<noteq> [] \<and> (bound_breaks (\<lambda>m. artifact_version v < m) (cm_min r) \<or> bound_breaks (\<lambda>m. artifact_version v > m) (cm_max r))
                    then Incompatible else Compatible
        | None \<Rightarrow> Compatible))"

definition default_compat_rules :: "compat_rule list" where
  "default_compat_rules = map (\<lambda>(t, p, lo, hi). \<lparr>cm_type = t, cm_platform = p, cm_min = lo, cm_max = hi\<rparr>)
     [(EaBinary, Mt5Platform, None, None), (EaBinary, Mt4Platform, Some ''1.0.0'', Some ''2.9.9''), (EaSource, Mt5Platform, None, None),
      (ConfigArtifact, AnyPlatform, None, None), (LicensePkg, AnyPlatform, None, None), (MigrationArtifact, AnyPlatform, None, None),
      (DockerImg, DockerPlatform, None, None), (Installer, WindowsX64, None, None)]"

fun compat_check :: "artifact_type \<Rightarrow> artifact_platform \<Rightarrow> string option \<Rightarrow> compat_rule list \<Rightarrow> compatibility" where
  "compat_check t p v [] = UnknownCompat"
| "compat_check t p v (r # rs) = (let st = rule_matches t p v r in if st \<noteq> UnknownCompat then st else compat_check t p v rs)"

definition supported_platforms :: "artifact_type \<Rightarrow> compat_rule list \<Rightarrow> artifact_platform list" where
  "supported_platforms t rules =
     fold (\<lambda>r ps. if cm_type r = t \<and> cm_platform r \<notin> set ps then ps @ [cm_platform r] else ps) rules []"

subsection \<open>Records, signatures and the audit chain\<close>

type_synonym content = "nat list"

record artifact_codec =
  ac_hmac :: "string \<Rightarrow> string"
  ac_sha256 :: "content \<Rightarrow> string"
  ac_sha512 :: "content \<Rightarrow> string"
  ac_dumps :: "json \<Rightarrow> string"
  ac_float6 :: "time \<Rightarrow> string"

record artifact =
  af_id :: string
  af_name :: string
  af_version :: string
  af_type :: artifact_type
  af_platform :: artifact_platform
  af_status :: artifact_status
  af_sha256 :: string
  af_sha512 :: string
  af_size :: nat
  af_created :: time
  af_by :: string
  af_tenant :: string
  af_signature :: string
  af_downloads :: nat
  af_reason :: "string option"

definition downloadable :: "artifact \<Rightarrow> bool" where
  "downloadable r \<longleftrightarrow> af_status r \<notin> set blocked_statuses"

definition artifact_canonical :: "artifact_codec \<Rightarrow> artifact \<Rightarrow> string" where
  "artifact_canonical cd r = ac_dumps cd (JObj [(''artifact_id'', JStr (af_id r)), (''name'', JStr (af_name r)), (''version'', JStr (af_version r)),
     (''type'', JStr (artifact_type_value (af_type r))), (''platform'', JStr (artifact_platform_value (af_platform r))), (''sha256'', JStr (af_sha256 r)),
     (''size_bytes'', JInt (int (af_size r))), (''created_at'', JStr (ac_float6 cd (af_created r))), (''created_by'', JStr (af_by r)),
     (''tenant_id'', JStr (af_tenant r))])"

definition artifact_mac :: "artifact_codec \<Rightarrow> artifact \<Rightarrow> string" where
  "artifact_mac cd r = ac_hmac cd (artifact_canonical cd r)"

definition artifact_signed :: "artifact_codec \<Rightarrow> artifact \<Rightarrow> bool" where
  "artifact_signed cd r \<longleftrightarrow> af_signature r \<noteq> [] \<and> artifact_mac cd r = af_signature r"

record artifact_entry =
  ax_id :: string
  ax_artifact :: string
  ax_action :: artifact_action
  ax_actor :: string
  ax_tenant :: string
  ax_reason :: string
  ax_detail :: "(string \<times> json) list"
  ax_ts :: time
  ax_seq :: nat
  ax_hash :: string
  ax_prev :: string

record artifact_audit =
  an_records :: "artifact_entry list"
  an_seq :: nat
  an_prev :: string

definition artifact_records_max :: nat where "artifact_records_max = 50000"

definition artifact_genesis :: "artifact_codec \<Rightarrow> string" where
  "artifact_genesis cd = ac_hmac cd ''GENESIS:ARTIFACT:CHAIN:V25''"

definition new_artifact_audit :: "artifact_codec \<Rightarrow> artifact_audit" where
  "new_artifact_audit cd = \<lparr>an_records = [], an_seq = 0, an_prev = artifact_genesis cd\<rparr>"

definition entry_canonical :: "artifact_codec \<Rightarrow> artifact_entry \<Rightarrow> string" where
  "entry_canonical cd e = ac_dumps cd (JObj [(''entry_id'', JStr (ax_id e)), (''artifact_id'', JStr (ax_artifact e)),
     (''action'', JStr (artifact_action_value (ax_action e))), (''actor'', JStr (ax_actor e)), (''tenant_id'', JStr (ax_tenant e)),
     (''reason'', JStr (ax_reason e)), (''detail'', JStr (ac_dumps cd (JObj (ax_detail e)))), (''ts'', JStr (ac_float6 cd (ax_ts e)))])"

definition entry_mac :: "artifact_codec \<Rightarrow> string \<Rightarrow> artifact_entry \<Rightarrow> string" where
  "entry_mac cd prev e = ac_hmac cd (prev @ '':'' @ entry_canonical cd e)"

definition seal_artifact_entry :: "artifact_codec \<Rightarrow> string \<Rightarrow> artifact_entry \<Rightarrow> artifact_entry" where
  "seal_artifact_entry cd prev e = e\<lparr>ax_hash := entry_mac cd prev e, ax_prev := prev\<rparr>"

definition record_artifact :: "artifact_codec \<Rightarrow> string \<times> time \<Rightarrow> string \<Rightarrow> artifact_action \<Rightarrow> string \<Rightarrow> string \<Rightarrow> string
    \<Rightarrow> artifact_audit \<Rightarrow> (unit, artifact_audit) outcome" where
  "record_artifact cd st aid action actor reason tenant a =
     (if action \<in> set artifact_reasons \<and> py_strip reason = [] then (Inl (OtherError ''MissingReasonError''), a)
      else (let e = seal_artifact_entry cd (an_prev a) \<lparr>ax_id = fst st, ax_artifact = aid, ax_action = action, ax_actor = actor, ax_tenant = tenant,
                  ax_reason = reason, ax_detail = [], ax_ts = snd st, ax_seq = an_seq a + 1, ax_hash = [], ax_prev = []\<rparr> in
            (Inr (), \<lparr>an_records = take_last artifact_records_max (an_records a @ [e]), an_seq = an_seq a + 1, an_prev = ax_hash e\<rparr>)))"

definition artifact_entry_fits :: "artifact_codec \<Rightarrow> string \<Rightarrow> artifact_entry \<Rightarrow> bool" where
  "artifact_entry_fits cd prev e \<longleftrightarrow> entry_mac cd prev e = ax_hash e"

definition artifact_chain_ok :: "artifact_codec \<Rightarrow> artifact_audit \<Rightarrow> bool" where
  "artifact_chain_ok cd a = verify_from (artifact_entry_fits cd) ax_hash (artifact_genesis cd) (an_records a)"

definition verify_entry :: "artifact_codec \<Rightarrow> artifact_entry \<Rightarrow> bool" where
  "verify_entry cd e = artifact_entry_fits cd (ax_prev e) e"

text \<open>This walk does not step over a record that does not fit: the next one is tried after the same hash.\<close>

fun artifact_broken :: "artifact_codec \<Rightarrow> string \<Rightarrow> artifact_entry list \<Rightarrow> nat list" where
  "artifact_broken cd prev [] = []"
| "artifact_broken cd prev (e # es) =
     (if artifact_entry_fits cd prev e then artifact_broken cd (ax_hash e) es else ax_seq e # artifact_broken cd prev es)"

definition artifact_tampered :: "artifact_codec \<Rightarrow> artifact_audit \<Rightarrow> nat list" where
  "artifact_tampered cd a = artifact_broken cd (artifact_genesis cd) (an_records a)"

definition matches_text :: "string option \<Rightarrow> string \<Rightarrow> bool" where
  "matches_text q x \<longleftrightarrow> (case q of Some s \<Rightarrow> s = [] \<or> x = s | None \<Rightarrow> True)"

text \<open>The loop appends before it compares with the limit, so at least one record is returned if one fits.\<close>

definition artifact_query :: "string option \<Rightarrow> string option \<Rightarrow> artifact_action option \<Rightarrow> string option \<Rightarrow> int \<Rightarrow> artifact_audit \<Rightarrow> artifact_entry list" where
  "artifact_query aid actor action tenant limit a =
     take (nat (max 1 limit)) (filter (\<lambda>e. matches_text aid (ax_artifact e) \<and> matches_text actor (ax_actor e)
       \<and> (case action of Some x \<Rightarrow> ax_action e = x | None \<Rightarrow> True) \<and> matches_text tenant (ax_tenant e)) (rev (an_records a)))"

subsection \<open>The governance\<close>

record governance =
  gv_store :: "(string, artifact) odict"
  gv_audit :: artifact_audit
  gv_rules :: "compat_rule list"

definition new_governance :: "artifact_codec \<Rightarrow> compat_rule list \<Rightarrow> governance" where
  "new_governance cd rules = \<lparr>gv_store = [], gv_audit = new_artifact_audit cd, gv_rules = (if rules = [] then default_compat_rules else rules)\<rparr>"

definition gv_record :: "artifact_codec \<Rightarrow> string \<times> time \<Rightarrow> string \<Rightarrow> artifact_action \<Rightarrow> string \<Rightarrow> string \<Rightarrow> string
    \<Rightarrow> governance \<Rightarrow> (unit, governance) outcome" where
  "gv_record cd st aid action actor reason tenant g =
     (case record_artifact cd st aid action actor reason tenant (gv_audit g) of (x, a) \<Rightarrow> (x, g\<lparr>gv_audit := a\<rparr>))"

text \<open>An operation on a stored artifact: \<open>ArtifactNotFoundError\<close> if there is none.\<close>

definition with_artifact :: "string \<Rightarrow> (artifact \<Rightarrow> (artifact, governance) outcome) \<Rightarrow> governance \<Rightarrow> (artifact, governance) outcome" where
  "with_artifact aid f g = (case od_get (gv_store g) aid of None \<Rightarrow> (Inl (OtherError ''ArtifactNotFoundError''), g) | Some r \<Rightarrow> f r)"

definition put_artifact :: "artifact \<Rightarrow> governance \<Rightarrow> governance" where
  "put_artifact r g = g\<lparr>gv_store := od_put (af_id r) r (gv_store g)\<rparr>"

definition create_artifact :: "artifact_codec \<Rightarrow> string \<times> time \<Rightarrow> string \<Rightarrow> time \<Rightarrow> content \<Rightarrow> string \<Rightarrow> string \<Rightarrow> artifact_type \<Rightarrow> artifact_platform \<Rightarrow> string
    \<Rightarrow> string \<Rightarrow> governance \<Rightarrow> (artifact, governance) outcome" where
  "create_artifact cd st aid now data name version t p who tenant g =
     (let r = \<lparr>af_id = aid, af_name = name, af_version = version, af_type = t, af_platform = p, af_status = ArtDraft, af_sha256 = ac_sha256 cd data,
                af_sha512 = ac_sha512 cd data, af_size = length data, af_created = now, af_by = who, af_tenant = tenant, af_signature = [],
                af_downloads = 0, af_reason = None\<rparr> in
      and_then (gv_record cd st aid ActCreated who [] tenant (put_artifact r g)) (\<lambda>g1. (Inr r, g1)))"

text \<open>\<open>transition\<close>: the table, then the reason, then the new status.\<close>

definition move_artifact :: "artifact_status \<Rightarrow> string \<Rightarrow> artifact \<Rightarrow> exc + artifact" where
  "move_artifact new reason r =
     (if new \<notin> set (artifact_transitions (af_status r)) then Inl (OtherError ''ArtifactTransitionError'')
      else if new \<in> set [ArtRevoked, ArtDeprecated] \<and> py_strip reason = [] then Inl (OtherError ''MissingReasonError'')
      else Inr (r\<lparr>af_status := new, af_reason := (if new = ArtRevoked then Some reason else af_reason r)\<rparr>))"

text \<open>The move, its storage and its audit entry.\<close>

definition move_and_record :: "artifact_codec \<Rightarrow> string \<times> time \<Rightarrow> artifact_status \<Rightarrow> artifact_action \<Rightarrow> string \<Rightarrow> string \<Rightarrow> artifact
    \<Rightarrow> governance \<Rightarrow> (artifact, governance) outcome" where
  "move_and_record cd st new action reason actor r g =
     (case move_artifact new reason r of
        Inl e \<Rightarrow> (Inl e, g)
      | Inr r' \<Rightarrow> and_then (gv_record cd st (af_id r') action actor reason (af_tenant r') (put_artifact r' g)) (\<lambda>g1. (Inr r', g1)))"

definition sign_artifact :: "artifact_codec \<Rightarrow> string \<times> time \<Rightarrow> string \<Rightarrow> string \<Rightarrow> governance \<Rightarrow> (artifact, governance) outcome" where
  "sign_artifact cd st aid actor g =
     with_artifact aid (\<lambda>r.
       if af_status r \<noteq> ArtDraft then (Inl (OtherError ''ArtifactTransitionError''), g)
       else move_and_record cd st ArtSigned ActSigned [] actor (r\<lparr>af_signature := artifact_mac cd r\<rparr>) g) g"

definition publish_artifact :: "artifact_codec \<Rightarrow> string \<times> time \<Rightarrow> string \<Rightarrow> string \<Rightarrow> governance \<Rightarrow> (artifact, governance) outcome" where
  "publish_artifact cd st aid actor g =
     with_artifact aid (\<lambda>r.
       if \<not> artifact_signed cd r then (Inl (OtherError ''ArtifactTransitionError''), g)
       else move_and_record cd st ArtPublished ActPublished [] actor r g) g"

definition deprecate_artifact :: "artifact_codec \<Rightarrow> string \<times> time \<Rightarrow> string \<Rightarrow> string \<Rightarrow> string \<Rightarrow> governance \<Rightarrow> (artifact, governance) outcome" where
  "deprecate_artifact cd st aid reason actor g =
     (if py_strip reason = [] then (Inl (OtherError ''MissingReasonError''), g)
      else with_artifact aid (\<lambda>r. move_and_record cd st ArtDeprecated ActDeprecated reason actor r g) g)"

definition revoke_artifact :: "artifact_codec \<Rightarrow> string \<times> time \<Rightarrow> string \<Rightarrow> string \<Rightarrow> string \<Rightarrow> governance \<Rightarrow> (artifact, governance) outcome" where
  "revoke_artifact cd st aid reason actor g =
     (if py_strip reason = [] then (Inl (OtherError ''MissingReasonError''), g)
      else with_artifact aid (\<lambda>r. move_and_record cd st ArtRevoked ActRevoked reason actor r g) g)"

definition download_artifact :: "artifact_codec \<Rightarrow> string \<times> time \<Rightarrow> string \<Rightarrow> content option \<Rightarrow> string \<Rightarrow> governance \<Rightarrow> (artifact, governance) outcome" where
  "download_artifact cd st aid data actor g =
     with_artifact aid (\<lambda>r.
       if \<not> downloadable r then
         and_then (gv_record cd st (af_id r) ActRejected actor (''blocked status: '' @ artifact_status_value (af_status r)) (af_tenant r) g)
           (\<lambda>g1. (Inl (OtherError ''ArtifactAccessDeniedError''), g1))
       else if (case data of Some d \<Rightarrow> ac_sha256 cd d \<noteq> af_sha256 r | None \<Rightarrow> False) then (Inl (OtherError ''ArtifactChecksumError''), g)
       else (let r' = r\<lparr>af_downloads := af_downloads r + 1\<rparr> in
         and_then (gv_record cd st (af_id r) ActDownloaded actor [] (af_tenant r) (put_artifact r' g)) (\<lambda>g1. (Inr r', g1)))) g"

definition check_compatibility :: "string \<Rightarrow> artifact_platform \<Rightarrow> string option \<Rightarrow> governance \<Rightarrow> exc + compatibility" where
  "check_compatibility aid p version g =
     (case od_get (gv_store g) aid of None \<Rightarrow> Inl (OtherError ''ArtifactNotFoundError'')
      | Some r \<Rightarrow> Inr (compat_check (af_type r) p version (gv_rules g)))"

definition list_artifacts :: "string option \<Rightarrow> artifact_status option \<Rightarrow> artifact_type option \<Rightarrow> governance \<Rightarrow> artifact list" where
  "list_artifacts tenant status t g =
     filter (\<lambda>r. matches_text tenant (af_tenant r) \<and> (case status of Some s \<Rightarrow> af_status r = s | None \<Rightarrow> True)
        \<and> (case t of Some x \<Rightarrow> af_type r = x | None \<Rightarrow> True)) (sort_key af_created (map snd (gv_store g)))"

definition isr :: "exc + 'a \<Rightarrow> bool" where
  "isr x \<longleftrightarrow> (case x of Inl _ \<Rightarrow> False | Inr _ \<Rightarrow> True)"

text \<open>The bulk operations revoke one after the other; what a revocation raises counts as False, or is passed over.\<close>

definition bulk_step :: "artifact_codec \<Rightarrow> (string \<Rightarrow> string \<times> time) \<Rightarrow> string \<Rightarrow> string \<Rightarrow> string
    \<Rightarrow> (string, bool) odict \<times> governance \<Rightarrow> (string, bool) odict \<times> governance" where
  "bulk_step cd sts reason actor aid = (\<lambda>(res, g).
     case od_get (gv_store g) aid of
       None \<Rightarrow> (od_put aid False res, g)
     | Some r \<Rightarrow> if af_status r = ArtRevoked then (od_put aid False res, g)
         else (case revoke_artifact cd (sts aid) aid reason actor g of (x, g1) \<Rightarrow> (od_put aid (isr x) res, g1)))"

definition bulk_revoke :: "artifact_codec \<Rightarrow> (string \<Rightarrow> string \<times> time) \<Rightarrow> string list \<Rightarrow> string \<Rightarrow> string \<Rightarrow> governance
    \<Rightarrow> ((string, bool) odict, governance) outcome" where
  "bulk_revoke cd sts aids reason actor g =
     (if py_strip reason = [] then (Inl (OtherError ''MissingReasonError''), g)
      else (case fold (bulk_step cd sts reason actor) aids ([], g) of (res, g1) \<Rightarrow> (Inr res, g1)))"

definition type_step :: "artifact_codec \<Rightarrow> (string \<Rightarrow> string \<times> time) \<Rightarrow> string \<Rightarrow> string \<Rightarrow> string \<Rightarrow> nat \<times> governance \<Rightarrow> nat \<times> governance" where
  "type_step cd sts reason actor aid = (\<lambda>(n, g).
     case od_get (gv_store g) aid of
       None \<Rightarrow> (n, g)
     | Some r \<Rightarrow> if af_status r = ArtRevoked then (n, g)
         else (case revoke_artifact cd (sts aid) aid reason actor g of (x, g1) \<Rightarrow> (if isr x then n + 1 else n, g1)))"

definition revoke_by_type :: "artifact_codec \<Rightarrow> (string \<Rightarrow> string \<times> time) \<Rightarrow> artifact_type \<Rightarrow> string \<Rightarrow> string \<Rightarrow> governance \<Rightarrow> (nat, governance) outcome" where
  "revoke_by_type cd sts t reason actor g =
     (if py_strip reason = [] then (Inl (OtherError ''MissingReasonError''), g)
      else (case fold (type_step cd sts reason actor) (map af_id (list_artifacts None None (Some t) g)) (0, g) of (n, g1) \<Rightarrow> (Inr n, g1)))"

definition published_count :: "governance \<Rightarrow> nat" where
  "published_count g = length (list_artifacts None (Some ArtPublished) None g)"


subsection \<open>Runs\<close>

datatype artifact_op =
    CreateArt "string \<times> time" string time content string string artifact_type artifact_platform string string
  | SignArt "string \<times> time" string string
  | PublishArt "string \<times> time" string string
  | DeprecateArt "string \<times> time" string string string
  | RevokeArt "string \<times> time" string string string
  | DownloadArt "string \<times> time" string "content option" string
  | BulkRevoke "string \<Rightarrow> string \<times> time" "string list" string string
  | RevokeType "string \<Rightarrow> string \<times> time" artifact_type string string

fun artifact_apply :: "artifact_codec \<Rightarrow> artifact_op \<Rightarrow> governance \<Rightarrow> governance" where
  "artifact_apply cd (CreateArt st aid now data name v t p who tenant) g = snd (create_artifact cd st aid now data name v t p who tenant g)"
| "artifact_apply cd (SignArt st aid actor) g = snd (sign_artifact cd st aid actor g)"
| "artifact_apply cd (PublishArt st aid actor) g = snd (publish_artifact cd st aid actor g)"
| "artifact_apply cd (DeprecateArt st aid reason actor) g = snd (deprecate_artifact cd st aid reason actor g)"
| "artifact_apply cd (RevokeArt st aid reason actor) g = snd (revoke_artifact cd st aid reason actor g)"
| "artifact_apply cd (DownloadArt st aid data actor) g = snd (download_artifact cd st aid data actor g)"
| "artifact_apply cd (BulkRevoke sts aids reason actor) g = snd (bulk_revoke cd sts aids reason actor g)"
| "artifact_apply cd (RevokeType sts t reason actor) g = snd (revoke_by_type cd sts t reason actor g)"

interpretation artifact_table: transition_table artifact_transitions "\<lambda>s. s = ArtRevoked"
  by unfold_locales simp

lemma gv_record_store [simp]:
  "gv_store (snd (gv_record cd st aid action actor reason tenant g)) = gv_store g"
  "gv_rules (snd (gv_record cd st aid action actor reason tenant g)) = gv_rules g"
  by (simp_all add: gv_record_def split: prod.split)

lemma gv_end [simp]: "gv_store (snd (and_then (gv_record cd st aid action actor reason tenant g) (\<lambda>s. (x, s)))) = gv_store g"
  by (rule and_then_keeps [where P = "\<lambda>s. gv_store s = gv_store g"]) simp_all

text \<open>Artifacts lie under their ids, and past the draft they carry the signature of what they say.\<close>

definition artifact_ok :: "artifact_codec \<Rightarrow> string \<Rightarrow> artifact \<Rightarrow> bool" where
  "artifact_ok cd k r \<longleftrightarrow> af_id r = k \<and> (af_status r \<in> {ArtSigned, ArtPublished, ArtDeprecated} \<longrightarrow> af_signature r = artifact_mac cd r)"

definition governance_ok :: "artifact_codec \<Rightarrow> governance \<Rightarrow> bool" where
  "governance_ok cd g \<longleftrightarrow> (\<forall>k r. od_get (gv_store g) k = Some r \<longrightarrow> artifact_ok cd k r)"

text \<open>What a stored artifact becomes: it follows the table, and what its signature and checksum cover stays.\<close>

definition later :: "artifact_codec \<Rightarrow> artifact \<Rightarrow> artifact \<Rightarrow> bool" where
  "later cd r r' \<longleftrightarrow> artifact_table.edge\<^sup>*\<^sup>* (af_status r) (af_status r') \<and> artifact_mac cd r' = artifact_mac cd r \<and> af_sha256 r' = af_sha256 r"

lemma later_refl [simp]: "later cd r r"
  by (simp add: later_def)

lemma later_trans: "later cd r s \<Longrightarrow> later cd s t \<Longrightarrow> later cd r t"
  by (auto simp: later_def)

definition only_later :: "artifact_codec \<Rightarrow> governance \<Rightarrow> governance \<Rightarrow> bool" where
  "only_later cd g g' \<longleftrightarrow> governance_ok cd g' \<and> (\<forall>k r. od_get (gv_store g) k = Some r \<longrightarrow> (\<exists>r'. od_get (gv_store g') k = Some r' \<and> later cd r r'))"

lemma only_later_refl: "governance_ok cd g \<Longrightarrow> only_later cd g g"
  by (simp add: only_later_def)

lemma only_later_trans: "only_later cd f g \<Longrightarrow> only_later cd g h \<Longrightarrow> only_later cd f h"
  unfolding only_later_def using later_trans by meson

lemma only_later_store: "gv_store g' = gv_store g \<Longrightarrow> only_later cd f g' = only_later cd f g"
  by (simp add: only_later_def governance_ok_def)

lemma only_later_end:
  "only_later cd f g \<Longrightarrow> only_later cd f (snd (and_then (gv_record cd st aid action actor reason tenant g) (\<lambda>s. (x, s))))"
  by (subst only_later_store [of _ g]) simp_all

lemma only_later_put:
  assumes "governance_ok cd g" and "od_get (gv_store g) k = Some r" and "later cd r r'" and "artifact_ok cd k r'"
  shows "only_later cd g (put_artifact r' g)"
  using assms by (auto simp: only_later_def governance_ok_def put_artifact_def artifact_ok_def)

lemma mac_updates [simp]:
  "artifact_mac cd (r\<lparr>af_status := s\<rparr>) = artifact_mac cd r" "artifact_mac cd (r\<lparr>af_signature := x\<rparr>) = artifact_mac cd r"
  "artifact_mac cd (r\<lparr>af_reason := y\<rparr>) = artifact_mac cd r" "artifact_mac cd (r\<lparr>af_downloads := n\<rparr>) = artifact_mac cd r"
  by (simp_all add: artifact_mac_def artifact_canonical_def)

lemma move_later:
  assumes "move_artifact new reason r = Inr r'" and "new = ArtSigned \<longrightarrow> af_signature r = artifact_mac cd r" and "artifact_ok cd k r"
  shows "later cd r r' \<and> artifact_ok cd k r'"
proof -
  have e: "artifact_table.edge (af_status r) new" and r': "r' = r\<lparr>af_status := new, af_reason := (if new = ArtRevoked then Some reason else af_reason r)\<rparr>"
    using assms(1) by (auto simp: move_artifact_def artifact_table.edge_def split: if_splits)
  have "new \<in> {ArtPublished, ArtDeprecated} \<Longrightarrow> af_status r \<in> {ArtSigned, ArtPublished}" using e by (cases "af_status r") (auto simp: artifact_table.edge_def)
  then show ?thesis using e assms(2,3) by (auto simp: r' later_def artifact_ok_def)
qed

lemma move_and_record_later:
  assumes g: "governance_ok cd g" "od_get (gv_store g) k = Some r" and sg: "new = ArtSigned \<longrightarrow> af_signature r = artifact_mac cd r"
  shows "only_later cd g (snd (move_and_record cd st new action reason actor r g))"
proof (cases "move_artifact new reason r")
  case (Inl e)
  then show ?thesis using g by (simp add: move_and_record_def only_later_refl)
next
  case (Inr r')
  have "artifact_ok cd k r" using g by (simp add: governance_ok_def)
  then have "only_later cd g (put_artifact r' g)" using only_later_put [OF g] move_later [OF Inr sg] by blast
  then show ?thesis by (simp add: move_and_record_def Inr only_later_end)
qed

lemma sign_later: "governance_ok cd g \<Longrightarrow> only_later cd g (snd (sign_artifact cd st aid actor g))"
proof (cases "od_get (gv_store g) aid")
  case (Some r)
  assume g: "governance_ok cd g"
  define s where "s = r\<lparr>af_signature := artifact_mac cd r\<rparr>"
  show ?thesis
  proof (cases "af_status r = ArtDraft")
    case True
    then have m: "move_artifact ArtSigned [] s = Inr (s\<lparr>af_status := ArtSigned\<rparr>)" by (simp add: move_artifact_def s_def)
    have "only_later cd g (put_artifact (s\<lparr>af_status := ArtSigned\<rparr>) g)"
    proof (rule only_later_put [OF g Some])
      have "artifact_table.edge (af_status r) ArtSigned" using True by (simp add: artifact_table.edge_def)
      then show "later cd r (s\<lparr>af_status := ArtSigned\<rparr>)" by (auto simp: later_def s_def)
      show "artifact_ok cd aid (s\<lparr>af_status := ArtSigned\<rparr>)" using g Some by (simp add: governance_ok_def artifact_ok_def s_def)
    qed
    then show ?thesis using True by (simp add: sign_artifact_def with_artifact_def Some s_def [symmetric] move_and_record_def m only_later_end)
  qed (simp add: sign_artifact_def with_artifact_def Some g only_later_refl)
qed (simp add: sign_artifact_def with_artifact_def only_later_refl)

lemma revoke_later: "governance_ok cd g \<Longrightarrow> only_later cd g (snd (revoke_artifact cd st aid reason actor g))"
  by (auto simp: revoke_artifact_def with_artifact_def only_later_refl intro: move_and_record_later split: option.split)

lemma later_ok: "only_later cd g g' \<Longrightarrow> governance_ok cd g'"
  by (simp add: only_later_def)

lemma bulk_later: "governance_ok cd g \<Longrightarrow> only_later cd g (snd (fold (bulk_step cd sts reason actor) aids (res, g)))"
proof (induction aids arbitrary: res g)
  case (Cons aid aids)
  have step: "only_later cd g (snd (bulk_step cd sts reason actor aid (res, g)))"
    using Cons.prems revoke_later [OF Cons.prems, of "sts aid" aid reason actor]
    by (auto simp: bulk_step_def only_later_refl split: option.split prod.split)
  show ?case using only_later_trans [OF step] Cons.IH [OF later_ok [OF step]] by (cases "bulk_step cd sts reason actor aid (res, g)") simp
qed (simp add: only_later_refl)

lemma type_later: "governance_ok cd g \<Longrightarrow> only_later cd g (snd (fold (type_step cd sts reason actor) aids (n, g)))"
proof (induction aids arbitrary: n g)
  case (Cons aid aids)
  have step: "only_later cd g (snd (type_step cd sts reason actor aid (n, g)))"
    using Cons.prems revoke_later [OF Cons.prems, of "sts aid" aid reason actor]
    by (auto simp: type_step_def only_later_refl split: option.split prod.split)
  show ?case using only_later_trans [OF step] Cons.IH [OF later_ok [OF step]] by (cases "type_step cd sts reason actor aid (n, g)") simp
qed (simp add: only_later_refl)

lemma download_later: "governance_ok cd g \<Longrightarrow> only_later cd g (snd (download_artifact cd st aid data actor g))"
proof (cases "od_get (gv_store g) aid")
  case (Some r)
  assume g: "governance_ok cd g"
  have "artifact_ok cd aid r" using g Some by (simp add: governance_ok_def)
  then have "only_later cd g (put_artifact (r\<lparr>af_downloads := af_downloads r + 1\<rparr>) g)"
    by (intro only_later_put [OF g Some]) (simp_all add: later_def artifact_ok_def)
  then show ?thesis using only_later_refl [OF g]
    by (simp add: download_artifact_def with_artifact_def Some Let_def only_later_end)
qed (simp add: download_artifact_def with_artifact_def only_later_refl)


fun creates :: "string \<Rightarrow> artifact_op \<Rightarrow> bool" where
  "creates k (CreateArt st aid now data name v t p who tenant) \<longleftrightarrow> aid = k"
| "creates k _ \<longleftrightarrow> False"

lemma create_ok: "governance_ok cd g \<Longrightarrow> governance_ok cd (snd (create_artifact cd st aid now data name v t p who tenant g))"
  by (simp add: governance_ok_def create_artifact_def put_artifact_def artifact_ok_def Let_def)

lemma apply_later:
  assumes g: "governance_ok cd g" and "\<forall>k. \<not> creates k op"
  shows "only_later cd g (artifact_apply cd op g)"
proof (cases op)
  case (PublishArt st aid actor)
  then show ?thesis using g by (auto simp: publish_artifact_def with_artifact_def only_later_refl intro: move_and_record_later split: option.split)
next
  case (DeprecateArt st aid reason actor)
  then show ?thesis using g by (auto simp: deprecate_artifact_def with_artifact_def only_later_refl intro: move_and_record_later split: option.split)
next
  case (BulkRevoke sts aids reason actor)
  then show ?thesis using g bulk_later [OF g, of sts reason actor aids "[]"] by (auto simp: bulk_revoke_def only_later_refl split: prod.split)
next
  case (RevokeType sts t reason actor)
  then show ?thesis using g type_later [OF g, of sts reason actor "map af_id (list_artifacts None None (Some t) g)" 0]
    by (auto simp: revoke_by_type_def only_later_refl split: prod.split)
next
  case (CreateArt st aid now data name v t p who tenant)
  then show ?thesis using assms(2) by auto
qed (simp_all add: g sign_later revoke_later download_later)

lemma apply_ok: "governance_ok cd g \<Longrightarrow> governance_ok cd (artifact_apply cd op g)"
proof (cases "\<exists>k. creates k op")
  case True
  then show "governance_ok cd g \<Longrightarrow> ?thesis" by (cases op) (simp_all add: create_ok)
next
  case False
  then show "governance_ok cd g \<Longrightarrow> ?thesis" using apply_later later_ok by blast
qed

interpretation artifact_runs: guarded_state "artifact_apply cd" "governance_ok cd" for cd
  by unfold_locales (rule apply_ok)

lemma new_governance_ok: "governance_ok cd (new_governance cd rules)"
  by (simp add: governance_ok_def new_governance_def)

lemma apply_keeps:
  assumes "governance_ok cd g" and "\<not> creates k op" and "od_get (gv_store g) k = Some r"
  shows "\<exists>r'. od_get (gv_store (artifact_apply cd op g)) k = Some r' \<and> later cd r r'"
proof (cases "\<exists>j. creates j op")
  case True
  then show ?thesis using assms(2,3) later_refl by (cases op) (auto simp: create_artifact_def put_artifact_def Let_def)
next
  case False
  then show ?thesis using apply_later [OF assms(1)] assms(3) by (simp add: only_later_def)
qed

lemma artifact_run_keeps:
  assumes "governance_ok cd g" and "list_all (\<lambda>op. \<not> creates k op) ops" and "od_get (gv_store g) k = Some r"
  shows "\<exists>r'. od_get (gv_store (fold (artifact_apply cd) ops g)) k = Some r' \<and> later cd r r'"
  using assms
proof (induction ops arbitrary: g r)
  case (Cons op ops)
  obtain r1 where r1: "od_get (gv_store (artifact_apply cd op g)) k = Some r1" "later cd r r1"
    using apply_keeps [OF Cons.prems(1) _ Cons.prems(3)] Cons.prems(2) by auto
  then show ?case using Cons.IH [OF apply_ok [OF Cons.prems(1)] _ r1(1)] Cons.prems(2) later_trans [OF r1(2)] by auto
qed simp

text \<open>
  C24: Once an artifact is revoked it is never served again: after any later operations, in which its fresh id is not given to another
  artifact, a download raises ArtifactAccessDeniedError, changes no artifact and is audited as rejected.
\<close>

theorem revoked_artifact_is_never_served:
  assumes "g = fold (artifact_apply cd) before (new_governance cd rules)" and "od_get (gv_store g) k = Some r" and "af_status r = ArtRevoked"
    and "list_all (\<lambda>op. \<not> creates k op) ops" and "g' = fold (artifact_apply cd) ops g"
  shows "fst (download_artifact cd st k data actor g') = Inl (OtherError ''ArtifactAccessDeniedError'')
    \<and> gv_store (snd (download_artifact cd st k data actor g')) = gv_store g'
    \<and> ax_action (last (an_records (gv_audit (snd (download_artifact cd st k data actor g'))))) = ActRejected"
proof -
  have "governance_ok cd g" unfolding assms(1) by (rule artifact_runs.run_good [OF new_governance_ok])
  then obtain r' where r': "od_get (gv_store g') k = Some r'" "later cd r r'" using artifact_run_keeps assms(2,4,5) by blast
  then have "af_status r' = ArtRevoked" using assms(3) artifact_table.terminal_absorbing [of "af_status r" "af_status r'"] by (simp add: later_def)
  moreover have "py_strip (''blocked status: '' @ artifact_status_value ArtRevoked) \<noteq> []" by (simp add: py_strip_def char_space_def)
  ultimately show ?thesis using r'(1)
    by (simp add: download_artifact_def with_artifact_def downloadable_def blocked_statuses_def and_then_def gv_record_def record_artifact_def
        seal_artifact_entry_def artifact_records_max_def take_last_snoc_last Let_def)
qed

text \<open>
  C40: A download that succeeds with a content at hand serves what was released: the artifact has been signed and is not revoked, its
  signature is that of its record, and the digest of the content is the recorded one.
\<close>

theorem downloads_are_authentic:
  assumes "fst (download_artifact cd st k (Some data) actor (fold (artifact_apply cd) ops (new_governance cd rules))) = Inr r"
  shows "af_status r \<in> {ArtSigned, ArtPublished, ArtDeprecated} \<and> af_signature r = artifact_mac cd r \<and> ac_sha256 cd data = af_sha256 r"
proof -
  define g where "g = fold (artifact_apply cd) ops (new_governance cd rules)"
  have g: "governance_ok cd g" unfolding g_def by (rule artifact_runs.run_good [OF new_governance_ok])
  obtain q where q: "od_get (gv_store g) k = Some q" "downloadable q" "ac_sha256 cd data = af_sha256 q" "r = q\<lparr>af_downloads := af_downloads q + 1\<rparr>"
    using assms unfolding g_def [symmetric]
    by (auto simp: download_artifact_def with_artifact_def and_then_def gv_record_def record_artifact_def artifact_reasons_def Let_def
        split: option.splits if_splits)
  have "af_status q \<in> {ArtSigned, ArtPublished, ArtDeprecated}" using q(2) by (cases "af_status q") (simp_all add: downloadable_def blocked_statuses_def)
  moreover have "artifact_ok cd k q" using g q(1) by (simp add: governance_ok_def)
  ultimately show ?thesis using q(3,4) by (auto simp: artifact_ok_def)
qed


definition demo_artifacts :: artifact_codec where
  "demo_artifacts = \<lparr>ac_hmac = (\<lambda>_. ''m''), ac_sha256 = (\<lambda>d. if d = [] then ''e'' else ''f''), ac_sha512 = (\<lambda>_. ''s''), ac_dumps = (\<lambda>_. ''x''),
     ac_float6 = (\<lambda>_. ''0'')\<rparr>"

definition demo_release :: "artifact_op list" where
  "demo_release = [CreateArt (''e1'', 1) ''a1'' 1 [1, 2] ''ea'' ''1.0.0'' EaBinary Mt5Platform ''ann'' ''t1'', SignArt (''e2'', 2) ''a1'' ''bob'', PublishArt (''e3'', 3) ''a1'' ''bob'']"

lemmas artifact_eval = demo_artifacts_def demo_release_def new_governance_def new_artifact_audit_def create_artifact_def sign_artifact_def publish_artifact_def
  revoke_artifact_def with_artifact_def move_and_record_def move_artifact_def put_artifact_def gv_record_def record_artifact_def artifact_reasons_def
  seal_artifact_entry_def artifact_signed_def artifact_mac_def and_then_def Let_def

lemma revoked_artifact_is_never_served_witness:
  "fst (download_artifact demo_artifacts (''d'', 9) ''a1'' None ''eve''
     (fold (artifact_apply demo_artifacts) [SignArt (''e5'', 5) ''a1'' ''bob'']
       (fold (artifact_apply demo_artifacts) (demo_release @ [RevokeArt (''e4'', 4) ''a1'' ''bad'' ''bob'']) (new_governance demo_artifacts []))))
   = Inl (OtherError ''ArtifactAccessDeniedError'')"
proof -
  let ?g = "fold (artifact_apply demo_artifacts) (demo_release @ [RevokeArt (''e4'', 4) ''a1'' ''bad'' ''bob'']) (new_governance demo_artifacts [])"
  have "map_option af_status (od_get (gv_store ?g) ''a1'') = Some ArtRevoked"
    by (simp add: artifact_eval py_strip_def char_space_def)
  then obtain r where "od_get (gv_store ?g) ''a1'' = Some r" "af_status r = ArtRevoked" by auto
  then show ?thesis
    using revoked_artifact_is_never_served [of ?g demo_artifacts "demo_release @ [RevokeArt (''e4'', 4) ''a1'' ''bad'' ''bob'']" "[]" "''a1''" r
        "[SignArt (''e5'', 5) ''a1'' ''bob'']" _ "(''d'', 9)" None "''eve''"] by simp
qed

lemma downloads_are_authentic_witness:
  "\<exists>r. fst (download_artifact demo_artifacts (''d'', 9) ''a1'' (Some [1, 2]) ''eve'' (fold (artifact_apply demo_artifacts) demo_release (new_governance demo_artifacts []))) = Inr r
     \<and> af_signature r = artifact_mac demo_artifacts r"
proof -
  have "isr (fst (download_artifact demo_artifacts (''d'', 9) ''a1'' (Some [1, 2]) ''eve'' (fold (artifact_apply demo_artifacts) demo_release (new_governance demo_artifacts []))))"
    by (simp add: artifact_eval download_artifact_def downloadable_def blocked_statuses_def isr_def)
  then obtain r where "fst (download_artifact demo_artifacts (''d'', 9) ''a1'' (Some [1, 2]) ''eve'' (fold (artifact_apply demo_artifacts) demo_release (new_governance demo_artifacts []))) = Inr r"
    by (auto simp: isr_def split: sum.splits)
  then show ?thesis using downloads_are_authentic [of demo_artifacts "(''d'', 9)" "''a1''" "[1, 2]" "''eve''" demo_release "[]" r] by blast
qed

subsection \<open>The trail\<close>

interpretation artifact_links: hash_chain "artifact_entry_fits cd" ax_hash "seal_artifact_entry cd" for cd
  by unfold_locales (simp add: artifact_entry_fits_def seal_artifact_entry_def entry_mac_def entry_canonical_def)

definition artifact_trail :: "artifact_codec \<Rightarrow> governance \<Rightarrow> bool" where
  "artifact_trail cd g \<longleftrightarrow>
     artifact_links.tail_ok cd (artifact_genesis cd) artifact_records_max (an_records (gv_audit g)) (an_prev (gv_audit g)) (an_seq (gv_audit g))"

lemma gv_record_trail: "artifact_trail cd g \<Longrightarrow> artifact_trail cd (snd (gv_record cd st aid action actor reason tenant g))"
  using artifact_links.tail_push [of cd "artifact_genesis cd" artifact_records_max]
  by (simp add: artifact_trail_def gv_record_def record_artifact_def artifact_records_max_def Let_def split: prod.split)

lemma gv_end_trail: "artifact_trail cd g \<Longrightarrow> artifact_trail cd (snd (and_then (gv_record cd st aid action actor reason tenant g) (\<lambda>s. (x, s))))"
  by (rule and_then_keeps [where P = "artifact_trail cd"]) (simp_all add: gv_record_trail)

lemma put_trail [simp]: "artifact_trail cd (put_artifact r g) = artifact_trail cd g"
  by (simp add: artifact_trail_def put_artifact_def)

lemma move_trail: "artifact_trail cd g \<Longrightarrow> artifact_trail cd (snd (move_and_record cd st new action reason actor r g))"
  by (simp add: move_and_record_def gv_end_trail split: sum.split)

lemma revoke_trail: "artifact_trail cd g \<Longrightarrow> artifact_trail cd (snd (revoke_artifact cd st aid reason actor g))"
  by (simp add: revoke_artifact_def with_artifact_def move_trail split: option.split)

lemma bulk_trail: "artifact_trail cd g \<Longrightarrow> artifact_trail cd (snd (fold (bulk_step cd sts reason actor) aids (res, g)))"
proof (induction aids arbitrary: res g)
  case (Cons aid aids)
  have "artifact_trail cd (snd (bulk_step cd sts reason actor aid (res, g)))"
    using Cons.prems revoke_trail [OF Cons.prems, of "sts aid" aid reason actor] by (auto simp: bulk_step_def split: option.split prod.split)
  then show ?case using Cons.IH by (cases "bulk_step cd sts reason actor aid (res, g)") simp
qed simp

lemma type_trail: "artifact_trail cd g \<Longrightarrow> artifact_trail cd (snd (fold (type_step cd sts reason actor) aids (n, g)))"
proof (induction aids arbitrary: n g)
  case (Cons aid aids)
  have "artifact_trail cd (snd (type_step cd sts reason actor aid (n, g)))"
    using Cons.prems revoke_trail [OF Cons.prems, of "sts aid" aid reason actor] by (auto simp: type_step_def split: option.split prod.split)
  then show ?case using Cons.IH by (cases "type_step cd sts reason actor aid (n, g)") simp
qed simp

lemma apply_trail: "artifact_trail cd g \<Longrightarrow> artifact_trail cd (artifact_apply cd op g)"
proof (cases op)
  case (BulkRevoke sts aids reason actor)
  then show "artifact_trail cd g \<Longrightarrow> ?thesis" using bulk_trail [of cd g sts reason actor aids "[]"] by (auto simp: bulk_revoke_def split: prod.split)
next
  case (RevokeType sts t reason actor)
  then show "artifact_trail cd g \<Longrightarrow> ?thesis" using type_trail [of cd g sts reason actor "map af_id (list_artifacts None None (Some t) g)" 0]
    by (auto simp: revoke_by_type_def split: prod.split)
next
  case (DownloadArt st aid data actor)
  then show "artifact_trail cd g \<Longrightarrow> ?thesis" by (simp add: download_artifact_def with_artifact_def gv_end_trail Let_def split: option.split)
qed (simp_all add: create_artifact_def sign_artifact_def publish_artifact_def deprecate_artifact_def with_artifact_def move_trail revoke_trail gv_end_trail Let_def
    split: option.split)

interpretation artifact_trails: guarded_state "artifact_apply cd" "artifact_trail cd" for cd
  by unfold_locales (rule apply_trail)

lemma artifact_log_verifies:
  assumes "g = fold (artifact_apply cd) ops (new_governance cd rules)" and "an_seq (gv_audit g) \<le> artifact_records_max"
  shows "artifact_chain_ok cd (gv_audit g)"
proof -
  have "artifact_trail cd (new_governance cd rules)"
    by (simp add: artifact_trail_def new_governance_def new_artifact_audit_def artifact_links.tail_new)
  then have "artifact_trail cd g" unfolding assms(1) by (rule artifact_trails.run_good)
  then show ?thesis using assms(2) unfolding artifact_trail_def artifact_chain_ok_def by (rule artifact_links.tail_verifies)
qed

subsection \<open>What the governance does not do\<close>

text \<open>The rule for MT4 stands behind the one for MT5, which already answers: no version of an EA is ever compatible with MT4.\<close>

lemma mt4_rule_unreachable: "compat_check EaBinary Mt4Platform version default_compat_rules = Incompatible"
  by (simp add: default_compat_rules_def rule_matches_def Let_def)

text \<open>An artifact that was signed but never published is served.\<close>

lemma unpublished_is_served: "af_status r = ArtSigned \<Longrightarrow> downloadable r"
  by (simp add: downloadable_def blocked_statuses_def)

text \<open>A version that is no list of numbers counts as 0, below every lower bound.\<close>

lemma odd_version_is_zero: "artifact_version ''2.x'' = [0]"
  by (simp add: artifact_version_def text_int_def py_strip_def char_space_def is_digit_def Let_def)

end
