(* ===== verification/Support_Tooling.thy ===== *)
theory Support_Tooling
  imports Hash_Chain Json
begin

section \<open>Support tooling\<close>

text \<open>
  \<open>src/backend/core/support_tooling.py\<close>: what the support staff may do, each action by role, with a reason and audited: impersonation
  sessions, device resets, extensions of subscriptions, resent downloads, account recovery step by step, tickets and the read-only
  views, over one state as \<open>build_support_system\<close> wires them. HMAC-SHA256 under the secret (\<open>sp_hmac\<close>) and \<open>json.dumps\<close> with sorted keys
  (\<open>sp_dumps\<close>) are parameters; fresh ids, tokens and the clock are arguments, one reading per operation beside that of the audit entry.
\<close>

subsection \<open>Roles, actions and the audit chain\<close>

datatype support_role = SupViewer | SupAgent | SupLead | SupAdmin

fun support_role_value :: "support_role \<Rightarrow> string" where
  "support_role_value SupViewer = ''viewer''"
| "support_role_value SupAgent = ''agent''"
| "support_role_value SupLead = ''lead''"
| "support_role_value SupAdmin = ''admin''"

definition can_impersonate :: "support_role \<Rightarrow> bool" where
  "can_impersonate r \<longleftrightarrow> r = SupAdmin"

definition can_extend :: "support_role \<Rightarrow> bool" where
  "can_extend r \<longleftrightarrow> r \<in> {SupLead, SupAdmin}"

definition can_recover_account :: "support_role \<Rightarrow> bool" where
  "can_recover_account r \<longleftrightarrow> r \<in> {SupLead, SupAdmin}"

definition can_reset_device :: "support_role \<Rightarrow> bool" where
  "can_reset_device r \<longleftrightarrow> r \<in> {SupAgent, SupLead, SupAdmin}"

definition can_resend_artifact :: "support_role \<Rightarrow> bool" where
  "can_resend_artifact r \<longleftrightarrow> r \<in> {SupAgent, SupLead, SupAdmin}"

datatype support_action =
    ImpersonationStart | ImpersonationEnd | ImpersonationDenied | DeviceReset | DeviceUnlock | DeviceResetDenied | SubExtended | SubExtendDenied
  | ArtifactResent | ArtifactResendDenied | RecoveryStart | RecoveryStepDone | RecoveryComplete | RecoveryAborted
  | TicketOpened | TicketClaimed | TicketResolved | TicketEscalated | TicketClosed | ViewAccessed

fun support_action_value :: "support_action \<Rightarrow> string" where
  "support_action_value ImpersonationStart = ''impersonation_start''"
| "support_action_value ImpersonationEnd = ''impersonation_end''"
| "support_action_value ImpersonationDenied = ''impersonation_denied''"
| "support_action_value DeviceReset = ''device_reset''"
| "support_action_value DeviceUnlock = ''device_unlock''"
| "support_action_value DeviceResetDenied = ''device_reset_denied''"
| "support_action_value SubExtended = ''subscription_extended''"
| "support_action_value SubExtendDenied = ''subscription_extend_denied''"
| "support_action_value ArtifactResent = ''artifact_resent''"
| "support_action_value ArtifactResendDenied = ''artifact_resend_denied''"
| "support_action_value RecoveryStart = ''account_recovery_start''"
| "support_action_value RecoveryStepDone = ''account_recovery_step''"
| "support_action_value RecoveryComplete = ''account_recovery_complete''"
| "support_action_value RecoveryAborted = ''account_recovery_aborted''"
| "support_action_value TicketOpened = ''ticket_opened''"
| "support_action_value TicketClaimed = ''ticket_claimed''"
| "support_action_value TicketResolved = ''ticket_resolved''"
| "support_action_value TicketEscalated = ''ticket_escalated''"
| "support_action_value TicketClosed = ''ticket_closed''"
| "support_action_value ViewAccessed = ''view_accessed''"

definition support_reasons :: "support_action list" where
  "support_reasons = [DeviceReset, DeviceUnlock, SubExtended, RecoveryAborted, ImpersonationStart, TicketEscalated]"

record support_codec =
  sp_hmac :: "string \<Rightarrow> string"
  sp_dumps :: "json \<Rightarrow> string"

record support_entry =
  su_id :: string
  su_action :: string
  su_actor :: string
  su_tenant :: string
  su_target :: string
  su_reason :: "string option"
  su_detail :: "(string \<times> json) list"
  su_ts :: time
  su_seq :: nat
  su_hash :: string

record support_chain =
  sh_entries :: "support_entry list"
  sh_prev :: string

definition support_genesis :: "support_codec \<Rightarrow> string" where
  "support_genesis cd = sp_hmac cd ''GENESIS:SUPPORT:TOOLING:CHAIN:V33''"

definition opt_text :: "string option \<Rightarrow> json" where
  "opt_text o' = (case o' of Some s \<Rightarrow> JStr s | None \<Rightarrow> JNull)"

definition support_hash :: "support_codec \<Rightarrow> string \<Rightarrow> support_entry \<Rightarrow> string" where
  "support_hash cd prev e = sp_hmac cd (prev @ '':'' @ sp_dumps cd (JObj
     [(''entry_id'', JStr (su_id e)), (''action'', JStr (su_action e)), (''actor'', JStr (su_actor e)), (''tenant_id'', JStr (su_tenant e)),
      (''target_id'', JStr (su_target e)), (''reason'', opt_text (su_reason e)), (''detail'', JObj (su_detail e)), (''ts'', JFloat (su_ts e)),
      (''seq'', JInt (int (su_seq e)))]))"

definition support_seal :: "support_codec \<Rightarrow> string \<Rightarrow> support_entry \<Rightarrow> support_entry" where
  "support_seal cd prev e = e\<lparr>su_hash := support_hash cd prev e\<rparr>"

definition support_record :: "support_codec \<Rightarrow> string \<times> time \<Rightarrow> support_action \<Rightarrow> string \<Rightarrow> string \<Rightarrow> string \<Rightarrow> string option \<Rightarrow> (string \<times> json) list
    \<Rightarrow> support_chain \<Rightarrow> (unit, support_chain) outcome" where
  "support_record cd st action actor tenant target reason detail c =
     (if action \<in> set support_reasons \<and> no_reason reason then (Inl (OtherError ''MissingReasonError''), c)
      else (let e = support_seal cd (sh_prev c) \<lparr>su_id = fst st, su_action = support_action_value action, su_actor = actor, su_tenant = tenant,
                  su_target = target, su_reason = reason, su_detail = detail, su_ts = snd st, su_seq = length (sh_entries c), su_hash = []\<rparr> in
            (Inr (), \<lparr>sh_entries = sh_entries c @ [e], sh_prev = su_hash e\<rparr>)))"

definition support_fits :: "support_codec \<Rightarrow> string \<Rightarrow> support_entry \<Rightarrow> bool" where
  "support_fits cd prev e \<longleftrightarrow> support_hash cd prev e = su_hash e"

definition support_verify :: "support_codec \<Rightarrow> support_chain \<Rightarrow> bool" where
  "support_verify cd c = verify_from (support_fits cd) su_hash (support_genesis cd) (sh_entries c)"

definition support_tampered :: "support_codec \<Rightarrow> support_chain \<Rightarrow> nat list" where
  "support_tampered cd c = map su_seq (broken_from (support_fits cd) su_hash (support_genesis cd) (sh_entries c))"

definition wanted :: "string option \<Rightarrow> string \<Rightarrow> bool" where
  "wanted q x \<longleftrightarrow> (case q of Some s \<Rightarrow> s = [] \<or> x = s | None \<Rightarrow> True)"

text \<open>The loop appends before it compares with the limit.\<close>

definition support_query :: "string option \<Rightarrow> support_action option \<Rightarrow> string option \<Rightarrow> string option \<Rightarrow> int \<Rightarrow> support_chain \<Rightarrow> support_entry list" where
  "support_query actor action target tenant limit c =
     take (nat (max 1 limit)) (filter (\<lambda>e. wanted actor (su_actor e) \<and> wanted (map_option support_action_value action) (su_action e)
       \<and> wanted target (su_target e) \<and> wanted tenant (su_tenant e)) (rev (sh_entries c)))"

subsection \<open>The state\<close>

record support_session =
  ss_id :: string
  ss_actor :: string
  ss_target :: string
  ss_tenant :: string
  ss_role :: support_role
  ss_reason :: string
  ss_started :: time
  ss_ttl :: int
  ss_ended :: "time option"
  ss_ticket :: "string option"
  ss_mfa :: bool

record device_record =
  dv_id :: string
  dv_device :: string
  dv_user :: string
  dv_tenant :: string
  dv_actor :: string
  dv_reason :: string
  dv_action :: string
  dv_ts :: time
  dv_freed :: bool

record extension_record =
  ex_id :: string
  ex_user :: string
  ex_tenant :: string
  ex_actor :: string
  ex_reason :: string
  ex_days :: int
  ex_approved :: "string option"
  ex_ts :: time
  ex_auto :: bool

record resend_record =
  rz_id :: string
  rz_artifact :: string
  rz_user :: string
  rz_tenant :: string
  rz_actor :: string
  rz_url :: string
  rz_ts :: time

datatype recovery_step = VerifyIdentity | Disable2fa | ResetPassword | RevokeSessions | RestoreAccess | NotifyUser | CompleteStep

fun recovery_value :: "recovery_step \<Rightarrow> string" where
  "recovery_value VerifyIdentity = ''verify_identity''"
| "recovery_value Disable2fa = ''disable_2fa''"
| "recovery_value ResetPassword = ''reset_password''"
| "recovery_value RevokeSessions = ''revoke_sessions''"
| "recovery_value RestoreAccess = ''restore_access''"
| "recovery_value NotifyUser = ''notify_user''"
| "recovery_value CompleteStep = ''complete''"

definition recovery_order :: "recovery_step list" where
  "recovery_order = [VerifyIdentity, Disable2fa, ResetPassword, RevokeSessions, RestoreAccess, NotifyUser, CompleteStep]"

record recovery_case =
  rv_id :: string
  rv_user :: string
  rv_tenant :: string
  rv_actor :: string
  rv_reason :: string
  rv_done :: "recovery_step list"
  rv_current :: recovery_step
  rv_completed :: bool
  rv_aborted :: bool
  rv_abort_reason :: "string option"
  rv_started :: time
  rv_completed_at :: "time option"

datatype ticket_status = TkOpen | TkClaimed | TkResolved | TkEscalated | TkClosed

datatype ticket_priority = LowTicket | MediumTicket | HighTicket | UrgentTicket

fun priority_value :: "ticket_priority \<Rightarrow> string" where
  "priority_value LowTicket = ''low''"
| "priority_value MediumTicket = ''medium''"
| "priority_value HighTicket = ''high''"
| "priority_value UrgentTicket = ''urgent''"

fun ticket_transitions :: "ticket_status \<Rightarrow> ticket_status list" where
  "ticket_transitions TkOpen = [TkClaimed, TkEscalated]"
| "ticket_transitions TkClaimed = [TkResolved, TkEscalated]"
| "ticket_transitions TkEscalated = [TkClaimed, TkResolved]"
| "ticket_transitions TkResolved = [TkClosed]"
| "ticket_transitions TkClosed = []"

record support_ticket =
  tk_id :: string
  tk_user :: string
  tk_tenant :: string
  tk_subject :: string
  tk_description :: string
  tk_priority :: ticket_priority
  tk_status :: ticket_status
  tk_claimed :: "string option"
  tk_escalated :: "string option"
  tk_created :: time
  tk_updated :: time
  tk_resolved :: "time option"
  tk_tags :: "string list"

record support_config =
  sf_require_mfa :: bool
  sf_max_ttl :: int
  sf_max_resets :: int
  sf_auto_max :: int
  sf_hard_max :: int
  sf_max_resends :: int
  sf_base :: string

definition default_support_config :: support_config where
  "default_support_config = \<lparr>sf_require_mfa = True, sf_max_ttl = 3600, sf_max_resets = 3, sf_auto_max = 30, sf_hard_max = 365, sf_max_resends = 5,
     sf_base = ''https://downloads.bot12.io/artifacts''\<rparr>"

record support_system =
  sp_config :: support_config
  sp_audit :: support_chain
  sp_sessions :: "(string, support_session) odict"
  sp_devices :: "device_record list"
  sp_extensions :: "extension_record list"
  sp_resends :: "resend_record list"
  sp_cases :: "(string, recovery_case) odict"
  sp_tickets :: "(string, support_ticket) odict"
  sp_data :: "(string, (string \<times> json) list) odict"

definition build_support :: "support_codec \<Rightarrow> support_config \<Rightarrow> (string, (string \<times> json) list) odict \<Rightarrow> support_system" where
  "build_support cd cfg data = \<lparr>sp_config = cfg, sp_audit = \<lparr>sh_entries = [], sh_prev = support_genesis cd\<rparr>, sp_sessions = [], sp_devices = [],
     sp_extensions = [], sp_resends = [], sp_cases = [], sp_tickets = [], sp_data = data\<rparr>"

definition sup_audit :: "support_codec \<Rightarrow> string \<times> time \<Rightarrow> support_action \<Rightarrow> string \<Rightarrow> string \<Rightarrow> string \<Rightarrow> string option \<Rightarrow> (string \<times> json) list
    \<Rightarrow> support_system \<Rightarrow> (unit, support_system) outcome" where
  "sup_audit cd st action actor tenant target reason detail s =
     (case support_record cd st action actor tenant target reason detail (sp_audit s) of (x, c) \<Rightarrow> (x, s\<lparr>sp_audit := c\<rparr>))"

text \<open>Refusing a role: an audit entry with the role, then InsufficientRoleError.\<close>

definition deny_role :: "support_codec \<Rightarrow> string \<times> time \<Rightarrow> support_action \<Rightarrow> string \<Rightarrow> string \<Rightarrow> string \<Rightarrow> support_role
    \<Rightarrow> support_system \<Rightarrow> ('a, support_system) outcome" where
  "deny_role cd st action actor tenant target role s =
     and_then (sup_audit cd st action actor tenant target (Some (''insufficient_role:'' @ support_role_value role)) [] s)
       (\<lambda>s1. (Inl (OtherError ''InsufficientRoleError''), s1))"

subsection \<open>Impersonation\<close>

definition impersonation_active :: "time \<Rightarrow> support_session \<Rightarrow> bool" where
  "impersonation_active now x \<longleftrightarrow> ss_ended x = None \<and> now - ss_started x < of_int (ss_ttl x)"

definition start_session :: "support_codec \<Rightarrow> string \<times> time \<Rightarrow> string \<Rightarrow> time \<Rightarrow> string \<Rightarrow> support_role \<Rightarrow> string \<Rightarrow> string \<Rightarrow> string option \<Rightarrow> string option \<Rightarrow> bool
    \<Rightarrow> int \<Rightarrow> support_system \<Rightarrow> (support_session, support_system) outcome" where
  "start_session cd st sid now actor role target tenant reason ticket mfa ttl s =
     (if \<not> can_impersonate role then deny_role cd st ImpersonationDenied actor tenant target role s
      else if no_reason reason then (Inl (OtherError ''MissingReasonError''), s)
      else if sf_require_mfa (sp_config s) \<and> \<not> mfa then (Inl (OtherError ''ImpersonationDeniedError''), s)
      else if list_ex (\<lambda>x. ss_actor x = actor \<and> impersonation_active now x) (map snd (sp_sessions s)) then (Inl (OtherError ''ImpersonationDeniedError''), s)
      else (let x = \<lparr>ss_id = sid, ss_actor = actor, ss_target = target, ss_tenant = tenant, ss_role = role, ss_reason = the reason, ss_started = now,
                      ss_ttl = min ttl (sf_max_ttl (sp_config s)), ss_ended = None, ss_ticket = ticket, ss_mfa = mfa\<rparr> in
        and_then (sup_audit cd st ImpersonationStart actor tenant target reason [(''session_id'', JStr sid), (''ticket_ref'', opt_text ticket)]
            (s\<lparr>sp_sessions := od_put sid x (sp_sessions s)\<rparr>))
          (\<lambda>s1. (Inr x, s1))))"

definition end_session :: "support_codec \<Rightarrow> string \<times> time \<Rightarrow> time \<Rightarrow> string \<Rightarrow> string \<Rightarrow> support_system \<Rightarrow> (bool, support_system) outcome" where
  "end_session cd st now sid actor s =
     (case od_get (sp_sessions s) sid of
        None \<Rightarrow> (Inr False, s)
      | Some x \<Rightarrow> if ss_ended x \<noteq> None then (Inr False, s)
          else and_then (sup_audit cd st ImpersonationEnd actor (ss_tenant x) (ss_target x) (Some ''session_closed'')
                [(''session_id'', JStr sid), (''elapsed'', JFloat (py_round 2 (now - ss_started x)))]
                (s\<lparr>sp_sessions := od_put sid (x\<lparr>ss_ended := Some now\<rparr>) (sp_sessions s)\<rparr>))
              (\<lambda>s1. (Inr True, s1)))"

definition read_session :: "time \<Rightarrow> string \<Rightarrow> support_system \<Rightarrow> support_session option \<times> support_system" where
  "read_session now sid s =
     (case od_get (sp_sessions s) sid of
        None \<Rightarrow> (None, s)
      | Some x \<Rightarrow> if \<not> impersonation_active now x \<and> ss_ended x = None
          then (let x' = x\<lparr>ss_ended := Some now\<rparr> in (Some x', s\<lparr>sp_sessions := od_put sid x' (sp_sessions s)\<rparr>))
          else (Some x, s))"

definition active_sessions :: "time \<Rightarrow> support_system \<Rightarrow> support_session list" where
  "active_sessions now s = filter (impersonation_active now) (map snd (sp_sessions s))"

definition close_active :: "time \<Rightarrow> support_session \<Rightarrow> support_session" where
  "close_active now x = (if impersonation_active now x then x\<lparr>ss_ended := Some now\<rparr> else x)"

definition force_close_all :: "support_codec \<Rightarrow> string \<times> time \<Rightarrow> time \<Rightarrow> string \<Rightarrow> string option \<Rightarrow> support_system \<Rightarrow> (nat, support_system) outcome" where
  "force_close_all cd st now admin reason s =
     (let n = length (active_sessions now s); s1 = s\<lparr>sp_sessions := map (\<lambda>(k, x). (k, close_active now x)) (sp_sessions s)\<rparr> in
      if n = 0 then (Inr 0, s1)
      else and_then (sup_audit cd st ImpersonationEnd admin ''all_tenants'' ''all_users'' reason [(''force_closed'', JInt (int n))] s1)
             (\<lambda>s2. (Inr n, s2)))"

definition force_close_sessions :: "support_codec \<Rightarrow> string \<times> time \<Rightarrow> time \<Rightarrow> string \<Rightarrow> support_role \<Rightarrow> string option \<Rightarrow> support_system
    \<Rightarrow> (nat, support_system) outcome" where
  "force_close_sessions cd st now admin role reason s =
     (if \<not> can_impersonate role then (Inl (OtherError ''InsufficientRoleError''), s) else force_close_all cd st now admin reason s)"


subsection \<open>Devices, extensions and downloads\<close>

definition day_ago :: "time \<Rightarrow> time" where
  "day_ago now = now - 86400"

definition device_today :: "time \<Rightarrow> string \<Rightarrow> string \<Rightarrow> support_system \<Rightarrow> nat" where
  "device_today now user tenant s = length (filter (\<lambda>r. dv_user r = user \<and> dv_tenant r = tenant \<and> day_ago now \<le> dv_ts r) (sp_devices s))"

definition device_entry :: "string \<Rightarrow> time \<Rightarrow> string \<Rightarrow> string \<Rightarrow> string \<Rightarrow> string \<Rightarrow> string \<Rightarrow> bool \<Rightarrow> device_record" where
  "device_entry rid now actor dev user tenant reason reset =
     \<lparr>dv_id = rid, dv_device = dev, dv_user = user, dv_tenant = tenant, dv_actor = actor, dv_reason = reason,
      dv_action = (if reset then ''reset'' else ''unlock''), dv_ts = now, dv_freed = reset\<rparr>"

definition reset_device :: "support_codec \<Rightarrow> string \<times> time \<Rightarrow> string \<Rightarrow> time \<Rightarrow> string \<Rightarrow> support_role \<Rightarrow> string \<Rightarrow> string \<Rightarrow> string \<Rightarrow> string option
    \<Rightarrow> support_system \<Rightarrow> (device_record, support_system) outcome" where
  "reset_device cd st rid now actor role dev user tenant reason s =
     (if \<not> can_reset_device role then deny_role cd st DeviceResetDenied actor tenant dev role s
      else if no_reason reason then (Inl (OtherError ''MissingReasonError''), s)
      else if sf_max_resets (sp_config s) \<le> int (device_today now user tenant s) then (Inl (OtherError ''DeviceResetDeniedError''), s)
      else (let r = device_entry rid now actor dev user tenant (the reason) True in
        and_then (sup_audit cd st DeviceReset actor tenant dev reason [(''user_id'', JStr user), (''reset_id'', JStr rid)]
            (s\<lparr>sp_devices := sp_devices s @ [r]\<rparr>))
          (\<lambda>s1. (Inr r, s1))))"

definition unlock_device :: "support_codec \<Rightarrow> string \<times> time \<Rightarrow> string \<Rightarrow> time \<Rightarrow> string \<Rightarrow> support_role \<Rightarrow> string \<Rightarrow> string \<Rightarrow> string \<Rightarrow> string option
    \<Rightarrow> support_system \<Rightarrow> (device_record, support_system) outcome" where
  "unlock_device cd st rid now actor role dev user tenant reason s =
     (if \<not> can_reset_device role then (Inl (OtherError ''InsufficientRoleError''), s)
      else if no_reason reason then (Inl (OtherError ''MissingReasonError''), s)
      else (let r = device_entry rid now actor dev user tenant (the reason) False in
        and_then (sup_audit cd st DeviceUnlock actor tenant dev reason [(''user_id'', JStr user)] (s\<lparr>sp_devices := sp_devices s @ [r]\<rparr>))
          (\<lambda>s1. (Inr r, s1))))"

definition device_history :: "string option \<Rightarrow> string option \<Rightarrow> support_system \<Rightarrow> device_record list" where
  "device_history user tenant s =
     filter (\<lambda>r. (case user of None \<Rightarrow> True | Some u \<Rightarrow> dv_user r = u) \<and> (case tenant of None \<Rightarrow> True | Some t \<Rightarrow> dv_tenant r = t)) (sp_devices s)"

definition extend_subscription :: "support_codec \<Rightarrow> string \<times> time \<Rightarrow> string \<Rightarrow> time \<Rightarrow> string \<Rightarrow> support_role \<Rightarrow> string \<Rightarrow> string \<Rightarrow> int \<Rightarrow> string option
    \<Rightarrow> string option \<Rightarrow> support_system \<Rightarrow> (extension_record, support_system) outcome" where
  "extend_subscription cd st eid now actor role user tenant days reason approved s =
     (let auto_max = sf_auto_max (sp_config s) in
      if \<not> can_extend role then deny_role cd st SubExtendDenied actor tenant user role s
      else if no_reason reason then (Inl (OtherError ''MissingReasonError''), s)
      else if days \<le> 0 then (Inl ValueError, s)
      else if sf_hard_max (sp_config s) < days then (Inl ValueError, s)
      else if auto_max < days \<and> approved = None then
        and_then (sup_audit cd st SubExtendDenied actor tenant user (Some (''approval_required_for_days>'' @ int_digits auto_max)) [] s)
          (\<lambda>s1. (Inl (OtherError ''SupportError''), s1))
      else (let is_auto = (days \<le> auto_max);
                by_whom = (case approved of Some a \<Rightarrow> if a \<noteq> [] then Some a else if is_auto then Some actor else None | None \<Rightarrow> if is_auto then Some actor else None);
                r = \<lparr>ex_id = eid, ex_user = user, ex_tenant = tenant, ex_actor = actor, ex_reason = the reason, ex_days = days, ex_approved = by_whom,
                     ex_ts = now, ex_auto = is_auto\<rparr> in
        and_then (sup_audit cd st SubExtended actor tenant user reason [(''days_added'', JInt days), (''approved_by'', opt_text by_whom)]
            (s\<lparr>sp_extensions := sp_extensions s @ [r]\<rparr>))
          (\<lambda>s1. (Inr r, s1))))"

definition extension_history :: "string option \<Rightarrow> string option \<Rightarrow> support_system \<Rightarrow> extension_record list" where
  "extension_history user tenant s =
     filter (\<lambda>r. (case user of None \<Rightarrow> True | Some u \<Rightarrow> ex_user r = u) \<and> (case tenant of None \<Rightarrow> True | Some t \<Rightarrow> ex_tenant r = t)) (sp_extensions s)"

definition resends_today :: "time \<Rightarrow> string \<Rightarrow> string \<Rightarrow> string \<Rightarrow> support_system \<Rightarrow> nat" where
  "resends_today now art user tenant s =
     length (filter (\<lambda>r. rz_artifact r = art \<and> rz_user r = user \<and> rz_tenant r = tenant \<and> day_ago now \<le> rz_ts r) (sp_resends s))"

definition resend_artifact :: "support_codec \<Rightarrow> string \<times> time \<Rightarrow> string \<Rightarrow> string \<Rightarrow> time \<Rightarrow> string \<Rightarrow> support_role \<Rightarrow> string \<Rightarrow> string \<Rightarrow> string
    \<Rightarrow> support_system \<Rightarrow> (resend_record, support_system) outcome" where
  "resend_artifact cd st rid token now actor role art user tenant s =
     (if \<not> can_resend_artifact role then deny_role cd st ArtifactResendDenied actor tenant art role s
      else if sf_max_resends (sp_config s) \<le> int (resends_today now art user tenant s) then (Inl (OtherError ''RateLimitError''), s)
      else (let r = \<lparr>rz_id = rid, rz_artifact = art, rz_user = user, rz_tenant = tenant, rz_actor = actor,
                      rz_url = sf_base (sp_config s) @ ''/'' @ art @ ''?token='' @ token @ ''&user='' @ user, rz_ts = now\<rparr> in
        and_then (sup_audit cd st ArtifactResent actor tenant art (Some ''support_resend'') [(''user_id'', JStr user), (''resend_id'', JStr rid)]
            (s\<lparr>sp_resends := sp_resends s @ [r]\<rparr>))
          (\<lambda>s1. (Inr r, s1))))"

subsection \<open>Account recovery\<close>

definition start_recovery :: "support_codec \<Rightarrow> string \<times> time \<Rightarrow> string \<Rightarrow> time \<Rightarrow> string \<Rightarrow> support_role \<Rightarrow> string \<Rightarrow> string \<Rightarrow> string option
    \<Rightarrow> support_system \<Rightarrow> (recovery_case, support_system) outcome" where
  "start_recovery cd st cid now actor role user tenant reason s =
     (if \<not> can_recover_account role then (Inl (OtherError ''InsufficientRoleError''), s)
      else if no_reason reason then (Inl (OtherError ''MissingReasonError''), s)
      else (let c = \<lparr>rv_id = cid, rv_user = user, rv_tenant = tenant, rv_actor = actor, rv_reason = the reason, rv_done = [],
                     rv_current = recovery_order ! 0, rv_completed = False, rv_aborted = False, rv_abort_reason = None, rv_started = now,
                     rv_completed_at = None\<rparr> in
        and_then (sup_audit cd st RecoveryStart actor tenant user reason [(''case_id'', JStr cid)] (s\<lparr>sp_cases := od_put cid c (sp_cases s)\<rparr>))
          (\<lambda>s1. (Inr c, s1))))"

text \<open>\<open>list.index\<close>; every step occurs in the order.\<close>

fun step_index :: "'a \<Rightarrow> 'a list \<Rightarrow> nat" where
  "step_index x [] = 0"
| "step_index x (y # ys) = (if y = x then 0 else Suc (step_index x ys))"

definition step_done :: "time \<Rightarrow> recovery_step \<Rightarrow> recovery_case \<Rightarrow> recovery_case" where
  "step_done now step c =
     (let k = step_index step recovery_order;
          c1 = c\<lparr>rv_done := rv_done c @ [step], rv_current := (if k + 1 < length recovery_order then recovery_order ! (k + 1) else rv_current c)\<rparr> in
      if step = CompleteStep then c1\<lparr>rv_completed := True, rv_completed_at := Some now\<rparr> else c1)"

definition advance_step :: "support_codec \<Rightarrow> string \<times> time \<Rightarrow> time \<Rightarrow> string \<Rightarrow> recovery_step \<Rightarrow> string \<Rightarrow> string \<Rightarrow> support_system
    \<Rightarrow> (recovery_case, support_system) outcome" where
  "advance_step cd st now cid step actor note s =
     (case od_get (sp_cases s) cid of
        None \<Rightarrow> (Inl (OtherError ''RecoveryStepError''), s)
      | Some c \<Rightarrow>
          if rv_completed c \<or> rv_aborted c then (Inl (OtherError ''RecoveryStepError''), s)
          else if rv_current c \<noteq> step then (Inl (OtherError ''RecoveryStepError''), s)
          else (let c2 = step_done now step c in
            and_then (sup_audit cd st (if step = CompleteStep then RecoveryComplete else RecoveryStepDone) actor (rv_tenant c) (rv_user c)
                  (Some (if note \<noteq> [] then note else recovery_value step)) [(''case_id'', JStr cid), (''step'', JStr (recovery_value step))]
                  (s\<lparr>sp_cases := od_put cid c2 (sp_cases s)\<rparr>))
              (\<lambda>s1. (Inr c2, s1))))"

definition abort_recovery :: "support_codec \<Rightarrow> string \<times> time \<Rightarrow> string \<Rightarrow> string \<Rightarrow> string option \<Rightarrow> support_system \<Rightarrow> (recovery_case, support_system) outcome" where
  "abort_recovery cd st cid actor reason s =
     (if no_reason reason then (Inl (OtherError ''MissingReasonError''), s)
      else (case od_get (sp_cases s) cid of
          None \<Rightarrow> (Inl (OtherError ''RecoveryStepError''), s)
        | Some c \<Rightarrow>
            if rv_completed c \<or> rv_aborted c then (Inl (OtherError ''RecoveryStepError''), s)
            else (let c1 = c\<lparr>rv_aborted := True, rv_abort_reason := reason\<rparr> in
              and_then (sup_audit cd st RecoveryAborted actor (rv_tenant c) (rv_user c) reason [(''case_id'', JStr cid)]
                    (s\<lparr>sp_cases := od_put cid c1 (sp_cases s)\<rparr>))
                (\<lambda>s1. (Inr c1, s1)))))"

definition open_cases :: "string option \<Rightarrow> support_system \<Rightarrow> recovery_case list" where
  "open_cases tenant s =
     filter (\<lambda>c. \<not> rv_completed c \<and> \<not> rv_aborted c \<and> (case tenant of None \<Rightarrow> True | Some t \<Rightarrow> rv_tenant c = t)) (map snd (sp_cases s))"

subsection \<open>Tickets\<close>

definition open_ticket :: "support_codec \<Rightarrow> string \<times> time \<Rightarrow> string \<Rightarrow> time \<Rightarrow> string \<Rightarrow> string \<Rightarrow> string \<Rightarrow> string \<Rightarrow> string \<Rightarrow> ticket_priority \<Rightarrow> string list
    \<Rightarrow> support_system \<Rightarrow> (support_ticket, support_system) outcome" where
  "open_ticket cd st tid now actor user tenant subject description p tags s =
     (let t = \<lparr>tk_id = tid, tk_user = user, tk_tenant = tenant, tk_subject = subject, tk_description = description, tk_priority = p, tk_status = TkOpen,
                tk_claimed = None, tk_escalated = None, tk_created = now, tk_updated = now, tk_resolved = None, tk_tags = tags\<rparr> in
      and_then (sup_audit cd st TicketOpened actor tenant tid (Some ''user_request'') [(''subject'', JStr subject), (''priority'', JStr (priority_value p))]
          (s\<lparr>sp_tickets := od_put tid t (sp_tickets s)\<rparr>))
        (\<lambda>s1. (Inr t, s1)))"

text \<open>A move by the table with what the operation writes besides, and its audit entry.\<close>

definition move_ticket :: "support_codec \<Rightarrow> string \<times> time \<Rightarrow> ticket_status \<Rightarrow> (support_ticket \<Rightarrow> support_ticket) \<Rightarrow> support_action \<Rightarrow> string \<Rightarrow> string
    \<Rightarrow> string option \<Rightarrow> (string \<times> json) list \<Rightarrow> support_system \<Rightarrow> (support_ticket, support_system) outcome" where
  "move_ticket cd st new change action tid actor reason detail s =
     (case od_get (sp_tickets s) tid of
        None \<Rightarrow> (Inl (OtherError ''SupportError''), s)
      | Some t \<Rightarrow>
          if new \<notin> set (ticket_transitions (tk_status t)) then (Inl (OtherError ''SupportError''), s)
          else (let t' = change (t\<lparr>tk_status := new\<rparr>) in
            and_then (sup_audit cd st action actor (tk_tenant t) tid reason detail (s\<lparr>sp_tickets := od_put tid t' (sp_tickets s)\<rparr>))
              (\<lambda>s1. (Inr t', s1))))"

definition claim_ticket :: "support_codec \<Rightarrow> string \<times> time \<Rightarrow> time \<Rightarrow> string \<Rightarrow> string \<Rightarrow> support_role \<Rightarrow> support_system \<Rightarrow> (support_ticket, support_system) outcome" where
  "claim_ticket cd st now tid actor role =
     move_ticket cd st TkClaimed (\<lambda>t. t\<lparr>tk_claimed := Some actor, tk_updated := now\<rparr>) TicketClaimed tid actor (Some ''agent_claim'') []"

definition resolve_ticket :: "support_codec \<Rightarrow> string \<times> time \<Rightarrow> time \<Rightarrow> string \<Rightarrow> string \<Rightarrow> string \<Rightarrow> support_system \<Rightarrow> (support_ticket, support_system) outcome" where
  "resolve_ticket cd st now tid actor resolution =
     move_ticket cd st TkResolved (\<lambda>t. t\<lparr>tk_resolved := Some now, tk_updated := now\<rparr>) TicketResolved tid actor (Some resolution) []"

definition escalate_ticket :: "support_codec \<Rightarrow> string \<times> time \<Rightarrow> time \<Rightarrow> string \<Rightarrow> string \<Rightarrow> string \<Rightarrow> string option \<Rightarrow> support_system
    \<Rightarrow> (support_ticket, support_system) outcome" where
  "escalate_ticket cd st now tid actor to_whom reason s =
     (if no_reason reason then (Inl (OtherError ''MissingReasonError''), s)
      else move_ticket cd st TkEscalated (\<lambda>t. t\<lparr>tk_escalated := Some to_whom, tk_updated := now\<rparr>) TicketEscalated tid actor reason
             [(''escalated_to'', JStr to_whom)] s)"

definition close_ticket :: "support_codec \<Rightarrow> string \<times> time \<Rightarrow> time \<Rightarrow> string \<Rightarrow> string \<Rightarrow> support_system \<Rightarrow> (support_ticket, support_system) outcome" where
  "close_ticket cd st now tid actor = move_ticket cd st TkClosed (\<lambda>t. t\<lparr>tk_updated := now\<rparr>) TicketClosed tid actor (Some ''closed'') []"

definition list_tickets :: "string option \<Rightarrow> ticket_status option \<Rightarrow> ticket_priority option \<Rightarrow> support_system \<Rightarrow> support_ticket list" where
  "list_tickets tenant status p s =
     filter (\<lambda>t. (case tenant of None \<Rightarrow> True | Some x \<Rightarrow> tk_tenant t = x) \<and> (case status of None \<Rightarrow> True | Some x \<Rightarrow> tk_status t = x)
        \<and> (case p of None \<Rightarrow> True | Some x \<Rightarrow> tk_priority t = x)) (map snd (sp_tickets s))"

subsection \<open>Views and the summary\<close>

text \<open>The fields of a view with the defaults for what is not stored; every role may look, and looking is audited.\<close>

definition support_view :: "support_codec \<Rightarrow> string \<times> time \<Rightarrow> string \<Rightarrow> string \<Rightarrow> string \<Rightarrow> string \<Rightarrow> (string \<times> json) list \<Rightarrow> support_system
    \<Rightarrow> ((string \<times> json) list, support_system) outcome" where
  "support_view cd st kind actor target tenant defaults s =
     and_then (sup_audit cd st ViewAccessed actor tenant target (Some (kind @ ''_view'')) [(''view_type'', JStr kind)] s)
       (\<lambda>s1. let raw = (case od_get (sp_data s1) (kind @ '':'' @ tenant @ '':'' @ target) of Some ms \<Rightarrow> ms | None \<Rightarrow> []) in
         (Inr (map (\<lambda>(k, d). (k, jget k d raw)) defaults), s1))"

definition customer_view :: "support_codec \<Rightarrow> string \<times> time \<Rightarrow> time \<Rightarrow> string \<Rightarrow> string \<Rightarrow> string \<Rightarrow> support_system \<Rightarrow> ((string \<times> json) list, support_system) outcome" where
  "customer_view cd st now actor user tenant = support_view cd st ''customer'' actor user tenant
     [(''email'', JStr []), (''plan'', JStr ''trial''), (''status'', JStr ''active''), (''created_at'', JFloat now), (''expires_at'', JNull),
      (''device_count'', JInt 0), (''ticket_count'', JInt 0), (''last_heartbeat'', JNull)]"

definition license_view :: "support_codec \<Rightarrow> string \<times> time \<Rightarrow> time \<Rightarrow> string \<Rightarrow> string \<Rightarrow> string \<Rightarrow> support_system \<Rightarrow> ((string \<times> json) list, support_system) outcome" where
  "license_view cd st now actor lic tenant = support_view cd st ''license'' actor lic tenant
     [(''user_id'', JStr []), (''plan'', JStr ''basic''), (''status'', JStr ''active''), (''issued_at'', JFloat now), (''expires_at'', JNull),
      (''device_slots'', JInt 2), (''devices_used'', JInt 0)]"

definition billing_view :: "support_codec \<Rightarrow> string \<times> time \<Rightarrow> string \<Rightarrow> string \<Rightarrow> string \<Rightarrow> support_system \<Rightarrow> ((string \<times> json) list, support_system) outcome" where
  "billing_view cd st actor user tenant = support_view cd st ''billing'' actor user tenant
     [(''plan'', JStr ''basic''), (''mrr'', JFloat 0), (''last_payment_at'', JNull), (''last_payment_ok'', JBool True), (''dunning_active'', JBool False),
      (''invoices_count'', JInt 0)]"

definition register_data :: "string \<Rightarrow> (string \<times> json) list \<Rightarrow> support_system \<Rightarrow> support_system" where
  "register_data key ms s = s\<lparr>sp_data := od_put key ms (sp_data s)\<rparr>"

record support_summary =
  sz_active :: nat
  sz_open :: nat
  sz_urgent :: nat
  sz_cases :: nat
  sz_chain_ok :: bool
  sz_events :: nat

definition summary_of_support :: "support_codec \<Rightarrow> time \<Rightarrow> support_system \<Rightarrow> support_summary" where
  "summary_of_support cd now s = \<lparr>sz_active = length (active_sessions now s), sz_open = length (list_tickets None (Some TkOpen) None s),
     sz_urgent = length (list_tickets None None (Some UrgentTicket) s), sz_cases = length (open_cases None s),
     sz_chain_ok = support_verify cd (sp_audit s), sz_events = length (sh_entries (sp_audit s))\<rparr>"


subsection \<open>Runs\<close>

datatype support_op =
    StartSession "string \<times> time" string time string support_role string string "string option" "string option" bool int
  | EndSession "string \<times> time" time string string
  | GetSession time string
  | ForceClose "string \<times> time" time string support_role "string option"
  | ResetDevice "string \<times> time" string time string support_role string string string "string option"
  | UnlockDevice "string \<times> time" string time string support_role string string string "string option"
  | ExtendSub "string \<times> time" string time string support_role string string int "string option" "string option"
  | ResendArtifact "string \<times> time" string string time string support_role string string string
  | StartRecovery "string \<times> time" string time string support_role string string "string option"
  | AdvanceStep "string \<times> time" time string recovery_step string string
  | AbortRecovery "string \<times> time" string string "string option"
  | OpenTicket "string \<times> time" string time string string string string string ticket_priority "string list"
  | ClaimTicket "string \<times> time" time string string support_role
  | ResolveTicket "string \<times> time" time string string string
  | EscalateTicket "string \<times> time" time string string string "string option"
  | CloseTicket "string \<times> time" time string string
  | LookAt "string \<times> time" string string string string "(string \<times> json) list"
  | RegisterData string "(string \<times> json) list"

fun support_apply :: "support_codec \<Rightarrow> support_op \<Rightarrow> support_system \<Rightarrow> support_system" where
  "support_apply cd (StartSession st sid now actor role target tenant reason ticket mfa ttl) s =
     snd (start_session cd st sid now actor role target tenant reason ticket mfa ttl s)"
| "support_apply cd (EndSession st now sid actor) s = snd (end_session cd st now sid actor s)"
| "support_apply cd (GetSession now sid) s = snd (read_session now sid s)"
| "support_apply cd (ForceClose st now admin role reason) s = snd (force_close_sessions cd st now admin role reason s)"
| "support_apply cd (ResetDevice st rid now actor role dev user tenant reason) s = snd (reset_device cd st rid now actor role dev user tenant reason s)"
| "support_apply cd (UnlockDevice st rid now actor role dev user tenant reason) s = snd (unlock_device cd st rid now actor role dev user tenant reason s)"
| "support_apply cd (ExtendSub st eid now actor role user tenant days reason approved) s =
     snd (extend_subscription cd st eid now actor role user tenant days reason approved s)"
| "support_apply cd (ResendArtifact st rid token now actor role art user tenant) s = snd (resend_artifact cd st rid token now actor role art user tenant s)"
| "support_apply cd (StartRecovery st cid now actor role user tenant reason) s = snd (start_recovery cd st cid now actor role user tenant reason s)"
| "support_apply cd (AdvanceStep st now cid step actor note) s = snd (advance_step cd st now cid step actor note s)"
| "support_apply cd (AbortRecovery st cid actor reason) s = snd (abort_recovery cd st cid actor reason s)"
| "support_apply cd (OpenTicket st tid now actor user tenant subject description p tags) s =
     snd (open_ticket cd st tid now actor user tenant subject description p tags s)"
| "support_apply cd (ClaimTicket st now tid actor role) s = snd (claim_ticket cd st now tid actor role s)"
| "support_apply cd (ResolveTicket st now tid actor resolution) s = snd (resolve_ticket cd st now tid actor resolution s)"
| "support_apply cd (EscalateTicket st now tid actor to_whom reason) s = snd (escalate_ticket cd st now tid actor to_whom reason s)"
| "support_apply cd (CloseTicket st now tid actor) s = snd (close_ticket cd st now tid actor s)"
| "support_apply cd (LookAt st kind actor target tenant defaults) s = snd (support_view cd st kind actor target tenant defaults s)"
| "support_apply cd (RegisterData key ms) s = register_data key ms s"

text \<open>An operation ends with its audit entry, which leaves the rest of the state.\<close>

lemma sup_audit_fields [simp]:
  "sp_config (snd (sup_audit cd st a actor tenant target why d s)) = sp_config s" "sp_sessions (snd (sup_audit cd st a actor tenant target why d s)) = sp_sessions s"
  "sp_devices (snd (sup_audit cd st a actor tenant target why d s)) = sp_devices s" "sp_resends (snd (sup_audit cd st a actor tenant target why d s)) = sp_resends s"
  "sp_cases (snd (sup_audit cd st a actor tenant target why d s)) = sp_cases s" "sp_tickets (snd (sup_audit cd st a actor tenant target why d s)) = sp_tickets s"
  "sp_extensions (snd (sup_audit cd st a actor tenant target why d s)) = sp_extensions s"
  by (simp_all add: sup_audit_def split: prod.split)

lemma sup_end_fields [simp]:
  "sp_config (snd (and_then (sup_audit cd st a actor tenant target why d s) (\<lambda>s. (x s, s)))) = sp_config s"
  "sp_sessions (snd (and_then (sup_audit cd st a actor tenant target why d s) (\<lambda>s. (x s, s)))) = sp_sessions s"
  "sp_devices (snd (and_then (sup_audit cd st a actor tenant target why d s) (\<lambda>s. (x s, s)))) = sp_devices s"
  "sp_resends (snd (and_then (sup_audit cd st a actor tenant target why d s) (\<lambda>s. (x s, s)))) = sp_resends s"
  "sp_cases (snd (and_then (sup_audit cd st a actor tenant target why d s) (\<lambda>s. (x s, s)))) = sp_cases s"
  "sp_tickets (snd (and_then (sup_audit cd st a actor tenant target why d s) (\<lambda>s. (x s, s)))) = sp_tickets s"
  by (simp_all add: and_then_def sup_audit_def split: prod.split sum.split)

lemmas support_defs = start_session_def end_session_def read_session_def force_close_sessions_def force_close_all_def reset_device_def unlock_device_def
  extend_subscription_def resend_artifact_def start_recovery_def advance_step_def abort_recovery_def open_ticket_def claim_ticket_def resolve_ticket_def
  escalate_ticket_def close_ticket_def move_ticket_def support_view_def register_data_def deny_role_def

lemma apply_config [simp]: "sp_config (support_apply cd op s) = sp_config s"
  by (cases op) (simp_all add: support_defs Let_def split: option.split)

subsection \<open>Daily quotas\<close>

text \<open>
  A list of records in which each limited one was added while fewer than the maximum of the records of its kind were at most a day
  old. Then no day holds more limited records of a kind than the maximum, however the clock moved.
\<close>

fun quota_rev :: "('r \<Rightarrow> bool) \<Rightarrow> ('r \<Rightarrow> 'k) \<Rightarrow> ('r \<Rightarrow> time) \<Rightarrow> int \<Rightarrow> 'r list \<Rightarrow> bool" where
  "quota_rev limited kind made m [] = True"
| "quota_rev limited kind made m (x # rs) =
     ((limited x \<longrightarrow> int (length (filter (\<lambda>r. kind r = kind x \<and> day_ago (made x) \<le> made r) rs)) < m) \<and> quota_rev limited kind made m rs)"

definition within_quota :: "('r \<Rightarrow> bool) \<Rightarrow> ('r \<Rightarrow> 'k) \<Rightarrow> ('r \<Rightarrow> time) \<Rightarrow> int \<Rightarrow> 'r list \<Rightarrow> bool" where
  "within_quota limited kind made m rs = quota_rev limited kind made m (rev rs)"

lemma within_quota_Nil [simp]: "within_quota limited kind made m []"
  by (simp add: within_quota_def)

lemma within_quota_snoc:
  "within_quota limited kind made m (rs @ [x]) \<longleftrightarrow>
     (limited x \<longrightarrow> int (length (filter (\<lambda>r. kind r = kind x \<and> day_ago (made x) \<le> made r) rs)) < m) \<and> within_quota limited kind made m rs"
  by (simp add: within_quota_def flip: rev_filter)

lemma quota_bounds_day:
  assumes "within_quota limited kind made m rs" and "0 \<le> m"
  shows "int (length (filter (\<lambda>r. limited r \<and> kind r = k \<and> day_ago t \<le> made r \<and> made r \<le> t) rs)) \<le> m"
  using assms(1)
proof (induction rs rule: rev_induct)
  case (snoc x rs)
  note q = snoc.prems [unfolded within_quota_snoc]
  show ?case
  proof (cases "limited x \<and> kind x = k \<and> day_ago t \<le> made x \<and> made x \<le> t")
    case True
    then have "day_ago (made x) \<le> day_ago t" by (simp add: day_ago_def)
    then have "length (filter (\<lambda>r. limited r \<and> kind r = k \<and> day_ago t \<le> made r \<and> made r \<le> t) rs)
        \<le> length (filter (\<lambda>r. kind r = kind x \<and> day_ago (made x) \<le> made r) rs)"
      using True by (intro length_filter_imp) auto
    then show ?thesis using q True by simp
  next
    case False
    then have "filter (\<lambda>r. limited r \<and> kind r = k \<and> day_ago t \<le> made r \<and> made r \<le> t) [x] = []" by simp
    then show ?thesis unfolding filter_append using snoc.IH q by simp
  qed
qed (simp add: assms(2))

definition quotas_kept :: "support_system \<Rightarrow> bool" where
  "quotas_kept s \<longleftrightarrow> within_quota (\<lambda>r. dv_action r = ''reset'') (\<lambda>r. (dv_user r, dv_tenant r)) dv_ts (sf_max_resets (sp_config s)) (sp_devices s)
     \<and> within_quota (\<lambda>r. True) (\<lambda>r. (rz_artifact r, rz_user r, rz_tenant r)) rz_ts (sf_max_resends (sp_config s)) (sp_resends s)"

lemma quotas_update: "sp_devices s' = sp_devices s \<Longrightarrow> sp_resends s' = sp_resends s \<Longrightarrow> sp_config s' = sp_config s \<Longrightarrow> quotas_kept s' = quotas_kept s"
  by (simp add: quotas_kept_def)

lemma reset_quota: "quotas_kept s \<Longrightarrow> quotas_kept (snd (reset_device cd st rid now actor role dev user tenant reason s))"
  by (auto simp: reset_device_def deny_role_def quotas_kept_def device_today_def device_entry_def within_quota_snoc Let_def)

lemma unlock_quota: "quotas_kept s \<Longrightarrow> quotas_kept (snd (unlock_device cd st rid now actor role dev user tenant reason s))"
  by (auto simp: unlock_device_def quotas_kept_def device_entry_def within_quota_snoc Let_def)

lemma resend_quota: "quotas_kept s \<Longrightarrow> quotas_kept (snd (resend_artifact cd st rid token now actor role art user tenant s))"
  by (auto simp: resend_artifact_def deny_role_def quotas_kept_def resends_today_def within_quota_snoc Let_def)

lemma apply_quota: "quotas_kept s \<Longrightarrow> quotas_kept (support_apply cd op s)"
proof (cases op)
  case (ResetDevice st rid now actor role dev user tenant reason)
  then show "quotas_kept s \<Longrightarrow> ?thesis" by (simp add: reset_quota)
next
  case (UnlockDevice st rid now actor role dev user tenant reason)
  then show "quotas_kept s \<Longrightarrow> ?thesis" by (simp add: unlock_quota)
next
  case (ResendArtifact st rid token now actor role art user tenant)
  then show "quotas_kept s \<Longrightarrow> ?thesis" by (simp add: resend_quota)
qed (simp_all add: support_defs quotas_kept_def Let_def split: option.split)

interpretation quota_runs: guarded_state "support_apply cd" quotas_kept for cd
  by unfold_locales (rule apply_quota)

lemma run_config [simp]: "sp_config (fold (support_apply cd) ops s) = sp_config s"
  by (induction ops arbitrary: s) simp_all

text \<open>
  C30: In any run and whatever the clock does, at most the configured number of device resets of a user, and of downloads resent of an
  artifact to a user, fall into any 24 hours.
\<close>

theorem daily_quotas_hold:
  assumes "s = fold (support_apply cd) ops (build_support cd cfg data)" and "0 \<le> sf_max_resets cfg" and "0 \<le> sf_max_resends cfg"
  shows "int (length (filter (\<lambda>r. dv_action r = ''reset'' \<and> (dv_user r, dv_tenant r) = (user, tenant) \<and> day_ago t \<le> dv_ts r \<and> dv_ts r \<le> t) (sp_devices s)))
      \<le> sf_max_resets cfg
    \<and> int (length (filter (\<lambda>r. (rz_artifact r, rz_user r, rz_tenant r) = (art, user, tenant) \<and> day_ago t \<le> rz_ts r \<and> rz_ts r \<le> t) (sp_resends s)))
      \<le> sf_max_resends cfg"
proof -
  have "quotas_kept s" unfolding assms(1) by (rule quota_runs.run_good) (simp add: quotas_kept_def build_support_def)
  moreover have "sp_config s = cfg" by (simp add: assms(1) build_support_def)
  ultimately have q: "within_quota (\<lambda>r. dv_action r = ''reset'') (\<lambda>r. (dv_user r, dv_tenant r)) dv_ts (sf_max_resets cfg) (sp_devices s)"
    "within_quota (\<lambda>r. True) (\<lambda>r. (rz_artifact r, rz_user r, rz_tenant r)) rz_ts (sf_max_resends cfg) (sp_resends s)"
    by (simp_all add: quotas_kept_def)
  show ?thesis using quota_bounds_day [OF q(1) assms(2), of "(user, tenant)" t] quota_bounds_day [OF q(2) assms(3), of "(art, user, tenant)" t]
    by (intro conjI) (simp_all only: simp_thms)
qed


lemma daily_quotas_hold_witness:
  "let cd = \<lparr>sp_hmac = id, sp_dumps = (\<lambda>_. ''x'')\<rparr>;
       s = fold (support_apply cd) (map (\<lambda>n. ResetDevice (''e'', 0) ''r'' (of_nat n) ''ann'' SupAgent ''d'' ''u'' ''t'' (Some ''lost'')) [0..<5])
             (build_support cd default_support_config []) in
   int (length (filter (\<lambda>r. dv_action r = ''reset'' \<and> (dv_user r, dv_tenant r) = (''u'', ''t'') \<and> day_ago 100 \<le> dv_ts r \<and> dv_ts r \<le> 100) (sp_devices s))) \<le> 3"
  using daily_quotas_hold [OF refl, where cfg = default_support_config and cd = "\<lparr>sp_hmac = id, sp_dumps = (\<lambda>_. ''x'')\<rparr>" and data = "[]"
      and ops = "map (\<lambda>n. ResetDevice (''e'', 0) ''r'' (of_nat n) ''ann'' SupAgent ''d'' ''u'' ''t'' (Some ''lost'')) [0..<5]"
      and user = "''u''" and tenant = "''t''" and t = 100]
  unfolding Let_def by (simp add: default_support_config_def)

subsection \<open>One impersonation at a time\<close>

lemma active_earlier: "impersonation_active t x \<Longrightarrow> t' \<le> t \<Longrightarrow> impersonation_active t' x"
  by (simp add: impersonation_active_def)

definition session_fit :: "support_config \<Rightarrow> support_session \<Rightarrow> bool" where
  "session_fit c x \<longleftrightarrow> ss_role x = SupAdmin \<and> py_strip (ss_reason x) \<noteq> [] \<and> (sf_require_mfa c \<longrightarrow> ss_mfa x) \<and> ss_ttl x \<le> sf_max_ttl c"

definition sessions_good :: "time \<Rightarrow> support_system \<Rightarrow> bool" where
  "sessions_good now s \<longleftrightarrow> od_wf (sp_sessions s) \<and> (\<forall>(k, x) \<in> set (sp_sessions s). session_fit (sp_config s) x)
     \<and> (\<forall>(k, x) \<in> set (sp_sessions s). \<forall>(l, y) \<in> set (sp_sessions s).
           impersonation_active now x \<and> impersonation_active now y \<and> ss_actor x = ss_actor y \<longrightarrow> k = l)"

lemma sessions_good_later: "sessions_good t s \<Longrightarrow> t \<le> t' \<Longrightarrow> sessions_good t' s"
  unfolding sessions_good_def using active_earlier by fast

lemma sessions_end [simp]:
  "sessions_good now (snd (and_then (sup_audit cd st a actor tenant target why d s) (\<lambda>s. (x s, s)))) = sessions_good now s"
  by (simp add: sessions_good_def)

lemma start_good:
  assumes g: "sessions_good now s"
  shows "sessions_good now (snd (start_session cd st sid now actor role target tenant reason ticket mfa ttl s))"
proof -
  define x where "x = \<lparr>ss_id = sid, ss_actor = actor, ss_target = target, ss_tenant = tenant, ss_role = role, ss_reason = the reason, ss_started = now,
                      ss_ttl = min ttl (sf_max_ttl (sp_config s)), ss_ended = None, ss_ticket = ticket, ss_mfa = mfa\<rparr>"
  have "sessions_good now (s\<lparr>sp_sessions := od_put sid x (sp_sessions s)\<rparr>)"
    if guard: "can_impersonate role" "\<not> no_reason reason" "sf_require_mfa (sp_config s) \<longrightarrow> mfa"
      "\<not> list_ex (\<lambda>x. ss_actor x = actor \<and> impersonation_active now x) (map snd (sp_sessions s))"
  proof -
    have fit: "session_fit (sp_config s) x"
      using guard(1-3) by (auto simp: x_def session_fit_def can_impersonate_def no_reason_def split: option.splits)
    have free: "(k, y) \<in> set (sp_sessions s) \<Longrightarrow> impersonation_active now y \<Longrightarrow> ss_actor y \<noteq> ss_actor x" for k y
      using guard(4) by (auto simp: list_ex_iff x_def)
    have wf: "od_wf (sp_sessions s)" using g by (simp add: sessions_good_def)
    show ?thesis unfolding sessions_good_def
    proof (intro conjI)
      show "od_wf (sp_sessions (s\<lparr>sp_sessions := od_put sid x (sp_sessions s)\<rparr>))" using wf by simp
      show "\<forall>(k, y) \<in> set (sp_sessions (s\<lparr>sp_sessions := od_put sid x (sp_sessions s)\<rparr>)). session_fit (sp_config (s\<lparr>sp_sessions := od_put sid x (sp_sessions s)\<rparr>)) y"
        using g fit by (auto simp: sessions_good_def set_od_put [OF wf])
      show "\<forall>(k, y) \<in> set (sp_sessions (s\<lparr>sp_sessions := od_put sid x (sp_sessions s)\<rparr>)). \<forall>(l, z) \<in> set (sp_sessions (s\<lparr>sp_sessions := od_put sid x (sp_sessions s)\<rparr>)).
           impersonation_active now y \<and> impersonation_active now z \<and> ss_actor y = ss_actor z \<longrightarrow> k = l"
      proof (clarify, rule ccontr)
        fix k y l z
        assume y: "(k, y) \<in> set (sp_sessions (s\<lparr>sp_sessions := od_put sid x (sp_sessions s)\<rparr>))" "impersonation_active now y"
          and z: "(l, z) \<in> set (sp_sessions (s\<lparr>sp_sessions := od_put sid x (sp_sessions s)\<rparr>))" "impersonation_active now z"
          and yz: "ss_actor y = ss_actor z" "k \<noteq> l"
        have "(k, y) = (sid, x) \<or> (k, y) \<in> set (sp_sessions s)" "(l, z) = (sid, x) \<or> (l, z) \<in> set (sp_sessions s)"
          using y(1) z(1) by (auto simp: set_od_put [OF wf])
        then consider "(k, y) \<in> set (sp_sessions s)" "(l, z) \<in> set (sp_sessions s)" | "(k, y) \<in> set (sp_sessions s)" "z = x" | "(l, z) \<in> set (sp_sessions s)" "y = x"
          using yz(2) by blast
        then show False
        proof cases
          case 1
          then show False using g y(2) z(2) yz unfolding sessions_good_def by blast
        next
          case 2
          then show False using free [OF 2(1) y(2)] yz(1) by simp
        next
          case 3
          then show False using free [OF 3(1) z(2)] yz(1) by simp
        qed
      qed
    qed
  qed
  then show ?thesis unfolding start_session_def Let_def x_def [symmetric] using g by (simp add: deny_role_def)
qed

lemma ended_good:
  assumes "sessions_good now s" and "od_get (sp_sessions s) sid = Some x"
  shows "sessions_good now (s\<lparr>sp_sessions := od_put sid (x\<lparr>ss_ended := Some e\<rparr>) (sp_sessions s)\<rparr>)"
proof -
  have "(sid, x) \<in> set (sp_sessions s)" using assms(2) by (rule od_get_SomeD)
  then show ?thesis using assms(1) by (auto simp: sessions_good_def set_od_put session_fit_def impersonation_active_def)
qed

lemma closed_good:
  assumes "sessions_good now s"
  shows "sessions_good now (s\<lparr>sp_sessions := map (\<lambda>(k, x). (k, close_active now x)) (sp_sessions s)\<rparr>)"
proof -
  have keys: "map fst (map (\<lambda>(k, x). (k, close_active now x)) (sp_sessions s)) = map fst (sp_sessions s)" by auto
  have "session_fit c x \<Longrightarrow> session_fit c (close_active now x)" "\<not> impersonation_active now (close_active now x)" for c x
    by (simp_all add: close_active_def session_fit_def impersonation_active_def)
  then have "\<forall>(k, x) \<in> set (map (\<lambda>(k, x). (k, close_active now x)) (sp_sessions s)). session_fit (sp_config s) x \<and> \<not> impersonation_active now x"
    using assms unfolding sessions_good_def by auto
  moreover have "od_wf (map (\<lambda>(k, x). (k, close_active now x)) (sp_sessions s))"
    unfolding od_wf_def keys using assms by (simp add: sessions_good_def od_wf_def)
  ultimately show ?thesis unfolding sessions_good_def by auto
qed

text \<open>The clock that an operation on sessions reads.\<close>

fun session_clock :: "support_op \<Rightarrow> time option" where
  "session_clock (StartSession st sid now actor role target tenant reason ticket mfa ttl) = Some now"
| "session_clock (EndSession st now sid actor) = Some now"
| "session_clock (GetSession now sid) = Some now"
| "session_clock (ForceClose st now admin role reason) = Some now"
| "session_clock _ = None"

lemma apply_sessions:
  assumes "sessions_good (case session_clock op of Some t \<Rightarrow> t | None \<Rightarrow> now) s"
  shows "sessions_good (case session_clock op of Some t \<Rightarrow> t | None \<Rightarrow> now) (support_apply cd op s)"
proof (cases op)
  case (StartSession st sid now actor role target tenant reason ticket mfa ttl)
  then show ?thesis using assms by (simp add: start_good)
next
  case (EndSession st now sid actor)
  then show ?thesis using assms
    by (simp add: end_session_def ended_good split: option.split)
next
  case (GetSession now sid)
  then show ?thesis using assms by (simp add: read_session_def ended_good Let_def split: option.split)
next
  case (ForceClose st now admin role reason)
  then show ?thesis using assms closed_good
    by (simp add: force_close_sessions_def force_close_all_def Let_def)
qed (use assms in \<open>simp_all add: support_defs sessions_good_def Let_def split: option.split\<close>)


text \<open>The clock runs forward: the readings of the operations on sessions, in order, and then the given moment.\<close>

definition clock_forward :: "support_op list \<Rightarrow> time \<Rightarrow> bool" where
  "clock_forward ops now \<longleftrightarrow> sorted (List.map_filter session_clock ops @ [now])"

lemma run_sessions:
  "sessions_good t s \<Longrightarrow> sorted (t # List.map_filter session_clock ops @ [now]) \<Longrightarrow> sessions_good now (fold (support_apply cd) ops s)"
proof (induction ops arbitrary: t s)
  case Nil
  then show ?case using sessions_good_later by (simp add: map_filter_def)
next
  case (Cons op ops)
  define u where "u = (case session_clock op of Some c \<Rightarrow> c | None \<Rightarrow> t)"
  have u: "t \<le> u" "sorted (u # List.map_filter session_clock ops @ [now])"
    using Cons.prems(2) by (cases "session_clock op"; simp add: u_def map_filter_simps)+
  have "sessions_good u s" using sessions_good_later Cons.prems(1) u(1) .
  then have "sessions_good u (support_apply cd op s)" unfolding u_def by (rule apply_sessions)
  then show ?case using Cons.IH u(2) by simp
qed

text \<open>
  C29: If the clock runs forward, at any time every member of the staff has at most one active impersonation session; it was started by an
  ADMIN with a reason, with MFA where the system requires it, and lives at most the configured maximum.
\<close>

theorem one_impersonation_per_agent:
  assumes "clock_forward ops now" and "s = fold (support_apply cd) ops (build_support cd cfg data)"
  shows "distinct (map ss_actor (active_sessions now s)) \<and> list_all (session_fit cfg) (active_sessions now s)"
proof -
  have "sessions_good (hd (List.map_filter session_clock ops @ [now])) (build_support cd cfg data)"
    by (simp add: sessions_good_def build_support_def)
  moreover have "sorted (hd (List.map_filter session_clock ops @ [now]) # List.map_filter session_clock ops @ [now])"
    using assms(1) by (cases "List.map_filter session_clock ops") (auto simp: clock_forward_def)
  ultimately have g: "sessions_good now s" unfolding assms(2) by (rule run_sessions)
  have cfg: "sp_config s = cfg" by (simp add: assms(2) build_support_def)
  have "distinct (map (ss_actor \<circ> snd) (filter (\<lambda>p. impersonation_active now (snd p)) (sp_sessions s)))"
    unfolding distinct_map
  proof (intro conjI inj_onI)
    show "distinct (filter (\<lambda>p. impersonation_active now (snd p)) (sp_sessions s))" using g by (simp add: sessions_good_def od_wf_def distinct_map)
    fix p q
    assume pq: "p \<in> set (filter (\<lambda>p. impersonation_active now (snd p)) (sp_sessions s))" "q \<in> set (filter (\<lambda>p. impersonation_active now (snd p)) (sp_sessions s))"
      "(ss_actor \<circ> snd) p = (ss_actor \<circ> snd) q"
    obtain k x l y where p: "p = (k, x)" and q: "q = (l, y)" by (cases p, cases q)
    have "(k, x) \<in> set (sp_sessions s)" "(l, y) \<in> set (sp_sessions s)" "impersonation_active now x" "impersonation_active now y" "ss_actor x = ss_actor y"
      using pq by (simp_all add: p q)
    then have "k = l" using g unfolding sessions_good_def by blast
    then have "fst p = fst q" by (simp add: p q)
    moreover have "od_get (sp_sessions s) (fst p) = Some (snd p)" "od_get (sp_sessions s) (fst q) = Some (snd q)"
      using g pq by (auto simp: sessions_good_def intro!: od_get_in)
    ultimately show "p = q" by (simp add: prod_eq_iff)
  qed
  moreover have "list_all (session_fit cfg) (active_sessions now s)" using g cfg by (auto simp: sessions_good_def active_sessions_def list_all_iff)
  ultimately show ?thesis by (simp add: active_sessions_def filter_map comp_def)
qed

lemma one_impersonation_per_agent_witness:
  "let cd = \<lparr>sp_hmac = id, sp_dumps = (\<lambda>_. ''x'')\<rparr>;
       s = fold (support_apply cd) [StartSession (''e'', 1) ''s1'' 10 ''ann'' SupAdmin ''u'' ''t'' (Some ''call'') None True 1800,
             StartSession (''f'', 2) ''s2'' 20 ''ann'' SupAdmin ''v'' ''t'' (Some ''call'') None True 1800] (build_support cd default_support_config []) in
   distinct (map ss_actor (active_sessions 30 s))"
proof -
  let ?cd = "\<lparr>sp_hmac = id, sp_dumps = (\<lambda>_. ''x'')\<rparr>"
  let ?ops = "[StartSession (''e'', 1) ''s1'' 10 ''ann'' SupAdmin ''u'' ''t'' (Some ''call'') None True 1800,
             StartSession (''f'', 2) ''s2'' 20 ''ann'' SupAdmin ''v'' ''t'' (Some ''call'') None True 1800]"
  have "clock_forward ?ops 30" by (simp add: clock_forward_def map_filter_def)
  then show ?thesis unfolding Let_def using one_impersonation_per_agent [OF _ refl, of ?ops 30 ?cd default_support_config "[]"] by blast
qed


subsection \<open>Recovery in order\<close>

definition case_in_order :: "recovery_case \<Rightarrow> bool" where
  "case_in_order c \<longleftrightarrow> rv_done c = take (length (rv_done c)) recovery_order
     \<and> (rv_completed c \<longleftrightarrow> length (rv_done c) = length recovery_order) \<and> \<not> (rv_completed c \<and> rv_aborted c)
     \<and> (\<not> rv_completed c \<longrightarrow> rv_current c = recovery_order ! length (rv_done c))"

definition cases_good :: "support_system \<Rightarrow> bool" where
  "cases_good s \<longleftrightarrow> (\<forall>k c. od_get (sp_cases s) k = Some c \<longrightarrow> case_in_order c)"

lemma order_length: "length recovery_order = 7"
  by (simp add: recovery_order_def)

lemma step_index_nth: "distinct xs \<Longrightarrow> n < length xs \<Longrightarrow> step_index (xs ! n) xs = n"
  by (induction xs arbitrary: n) (auto simp: nth_Cons split: nat.split)

lemma advance_in_order:
  assumes c: "case_in_order c" "\<not> rv_completed c" "\<not> rv_aborted c" and "rv_current c = step"
  shows "case_in_order (step_done now step c)"
proof -
  define k where "k = step_index step recovery_order"
  define n where "n = length (rv_done c)"
  have d: "rv_done c = take n recovery_order" and "n \<noteq> 7" and step: "step = recovery_order ! n"
    using c assms(4) by (auto simp: case_in_order_def n_def order_length)
  moreover have "n \<le> 7" using arg_cong [OF d, of length] by (simp add: order_length n_def)
  ultimately have n: "n < 7" by simp
  have "distinct recovery_order" by (simp add: recovery_order_def)
  then have k: "k = n" unfolding k_def step using n by (intro step_index_nth) (simp_all add: order_length)
  have snoc: "rv_done c @ [step] = take (Suc n) recovery_order" using d step n by (simp add: take_Suc_conv_app_nth order_length)
  have last: "step = CompleteStep \<longleftrightarrow> n = 6"
    using n unfolding step by (auto simp: recovery_order_def less_Suc_eq eval_nat_numeral)
  have len: "length (rv_done c) = n" by (simp add: n_def)
  show ?thesis using snoc last n c len k by (auto simp: case_in_order_def step_done_def k_def [symmetric] order_length Let_def)
qed

lemma apply_cases: "cases_good s \<Longrightarrow> cases_good (support_apply cd op s)"
proof (cases op)
  case (StartRecovery st cid now actor role user tenant reason)
  then show "cases_good s \<Longrightarrow> ?thesis"
    by (simp add: start_recovery_def cases_good_def case_in_order_def order_length Let_def)
next
  case (AdvanceStep st now cid step actor remark)
  then show "cases_good s \<Longrightarrow> ?thesis"
    using advance_in_order by (simp add: advance_step_def cases_good_def Let_def split: option.split)
next
  case (AbortRecovery st cid actor reason)
  then show "cases_good s \<Longrightarrow> ?thesis"
    by (auto simp: abort_recovery_def cases_good_def case_in_order_def Let_def split: option.split)
qed (simp_all add: support_defs cases_good_def Let_def split: option.split)

interpretation case_runs: guarded_state "support_apply cd" cases_good for cd
  by unfold_locales (rule apply_cases)

text \<open>
  C31: Account recovery cannot skip or reorder a step: the steps done in a case are a prefix of the fixed order that begins with verifying the
  identity, the case is completed exactly when all seven are done, and no completed case is aborted.
\<close>

theorem recovery_steps_in_order:
  "case od_get (sp_cases (fold (support_apply cd) ops (build_support cd cfg data))) k of
     None \<Rightarrow> True
   | Some c \<Rightarrow> rv_done c = take (length (rv_done c)) recovery_order \<and> rv_completed c = (length (rv_done c) = 7) \<and> \<not> (rv_completed c \<and> rv_aborted c)"
  using case_runs.run_good [of "build_support cd cfg data" cd ops]
  by (auto simp: cases_good_def build_support_def case_in_order_def order_length split: option.split)

subsection \<open>Tickets\<close>

interpretation ticket_table: transition_table ticket_transitions "\<lambda>s. s = TkClosed"
  by unfold_locales simp

lemma move_ticket_edge:
  assumes "\<And>t. tk_status (change t) = tk_status t" and "od_get (sp_tickets s) k = Some t"
  shows "\<exists>t'. od_get (sp_tickets (snd (move_ticket cd st new change action tid actor reason detail s))) k = Some t'
    \<and> ticket_table.edge\<^sup>*\<^sup>* (tk_status t) (tk_status t')"
  using assms by (auto simp: move_ticket_def ticket_table.edge_def Let_def split: option.split)

fun opens :: "string \<Rightarrow> support_op \<Rightarrow> bool" where
  "opens k (OpenTicket st tid now actor user tenant subject description p tags) \<longleftrightarrow> tid = k"
| "opens k _ \<longleftrightarrow> False"

lemma ticket_follows_table:
  assumes "od_get (sp_tickets s) k = Some t" and "\<not> opens k op"
  shows "\<exists>t'. od_get (sp_tickets (support_apply cd op s)) k = Some t' \<and> ticket_table.edge\<^sup>*\<^sup>* (tk_status t) (tk_status t')"
proof (cases op)
  case (ClaimTicket st now tid actor role)
  then show ?thesis using move_ticket_edge [of _ s k t] assms(1) by (simp add: claim_ticket_def)
next
  case (ResolveTicket st now tid actor resolution)
  then show ?thesis using move_ticket_edge [of _ s k t] assms(1) by (simp add: resolve_ticket_def)
next
  case (EscalateTicket st now tid actor to_whom reason)
  then show ?thesis using move_ticket_edge [of _ s k t] assms(1) by (simp add: escalate_ticket_def)
next
  case (CloseTicket st now tid actor)
  then show ?thesis using move_ticket_edge [of _ s k t] assms(1) by (simp add: close_ticket_def)
next
  case (OpenTicket st tid now actor user tenant subject description p tags)
  then show ?thesis using assms by (simp add: open_ticket_def Let_def)
qed (use assms(1) in \<open>simp_all add: support_defs Let_def split: option.split\<close>)

lemma closed_ticket_stays:
  assumes "od_get (sp_tickets s) k = Some t" and "tk_status t = TkClosed" and "list_all (\<lambda>op. \<not> opens k op) ops"
  shows "\<exists>t'. od_get (sp_tickets (fold (support_apply cd) ops s)) k = Some t' \<and> tk_status t' = TkClosed"
  using assms
proof (induction ops arbitrary: s t)
  case (Cons op ops)
  then obtain t' where t': "od_get (sp_tickets (support_apply cd op s)) k = Some t'" "ticket_table.edge\<^sup>*\<^sup>* (tk_status t) (tk_status t')"
    using ticket_follows_table [OF Cons.prems(1), of op cd] by auto
  then have "tk_status t' = TkClosed" using ticket_table.terminal_absorbing Cons.prems(2) by metis
  then show ?case using Cons.IH [OF t'(1)] Cons.prems(3) by simp
qed simp

subsection \<open>The trail\<close>

interpretation support_links: hash_chain "support_fits cd" su_hash "support_seal cd" for cd
  by unfold_locales (simp add: support_fits_def support_seal_def support_hash_def)

definition support_trail :: "support_codec \<Rightarrow> support_system \<Rightarrow> bool" where
  "support_trail cd s \<longleftrightarrow> support_verify cd (sp_audit s) \<and> sh_prev (sp_audit s) = last_hash su_hash (support_genesis cd) (sh_entries (sp_audit s))"

lemma sup_audit_trail: "support_trail cd s \<Longrightarrow> support_trail cd (snd (sup_audit cd st a actor tenant target why d s))"
  using support_links.verify_snoc [of cd "support_genesis cd" "sh_entries (sp_audit s)"]
  by (auto simp: support_trail_def sup_audit_def support_record_def support_verify_def Let_def split: prod.split)

lemma sup_end_trail: "support_trail cd s \<Longrightarrow> support_trail cd (snd (and_then (sup_audit cd st a actor tenant target why d s) (\<lambda>s. (x s, s))))"
  by (rule and_then_keeps [where P = "support_trail cd"]) (simp_all add: sup_audit_trail)

lemma trail_updates [simp]:
  "support_trail cd (s\<lparr>sp_sessions := a\<rparr>) = support_trail cd s" "support_trail cd (s\<lparr>sp_devices := b\<rparr>) = support_trail cd s"
  "support_trail cd (s\<lparr>sp_extensions := e\<rparr>) = support_trail cd s" "support_trail cd (s\<lparr>sp_resends := r\<rparr>) = support_trail cd s"
  "support_trail cd (s\<lparr>sp_cases := c\<rparr>) = support_trail cd s" "support_trail cd (s\<lparr>sp_tickets := t\<rparr>) = support_trail cd s"
  "support_trail cd (s\<lparr>sp_data := d\<rparr>) = support_trail cd s"
  by (simp_all add: support_trail_def)

lemma apply_support_trail: "support_trail cd s \<Longrightarrow> support_trail cd (support_apply cd op s)"
  by (cases op) (simp_all add: support_defs sup_end_trail Let_def split: option.split)

interpretation support_trails: guarded_state "support_apply cd" "support_trail cd" for cd
  by unfold_locales (rule apply_support_trail)

lemma support_log_verifies: "support_verify cd (sp_audit (fold (support_apply cd) ops (build_support cd cfg data)))"
  using support_trails.run_good [of cd "build_support cd cfg data" ops] by (simp add: support_trail_def build_support_def support_verify_def)

subsection \<open>What the tools allow\<close>

text \<open>An empty approver is not None: a year is granted with nobody's approval on record.\<close>

lemma empty_approver_passes:
  assumes "30 < days" "days \<le> 365" "sp_config s = default_support_config" "role = SupLead" "\<not> no_reason reason"
  shows "\<exists>r. fst (extend_subscription cd st eid now actor role user tenant days reason (Some []) s) = Inr r \<and> ex_approved r = None"
  using assms by (simp add: extend_subscription_def default_support_config_def can_extend_def and_then_def sup_audit_def support_record_def Let_def)

text \<open>Unlocking counts against the resets of the day, and is itself without limit.\<close>

lemma unlocks_use_up_resets:
  assumes "sp_config s = default_support_config" "\<not> no_reason why" "\<not> no_reason reason"
    and u: "u = UnlockDevice st rid now actor SupAgent dev user tenant why"
  shows "fst (reset_device cd st rid now actor SupAgent dev user tenant reason (fold (support_apply cd) [u, u, u] s)) = Inl (OtherError ''DeviceResetDeniedError'')"
proof -
  have un: "can_reset_device SupAgent" by (simp add: can_reset_device_def)
  have "sp_devices (support_apply cd u s) = sp_devices s @ [device_entry rid now actor dev user tenant (the why) False]" for s
    using un assms(2) by (simp add: u unlock_device_def Let_def)
  then have "3 \<le> device_today now user tenant (fold (support_apply cd) [u, u, u] s)"
    by (simp add: device_today_def device_entry_def day_ago_def)
  moreover have "sf_max_resets (sp_config (fold (support_apply cd) [u, u, u] s)) = 3" unfolding run_config assms(1) by (simp add: default_support_config_def)
  ultimately show ?thesis using un assms(3) unfolding reset_device_def by simp
qed

text \<open>The role of the claimant of a ticket is not looked at, and no role is asked for an advance of a recovery.\<close>

lemma anyone_claims: "claim_ticket cd st now tid actor role s = claim_ticket cd st now tid actor role' s"
  by (simp add: claim_ticket_def)

text \<open>Closing all sessions is recorded without a reason as well.\<close>

lemma force_close_without_reason: "fst (force_close_all cd st now admin None s) = Inr (length (active_sessions now s))"
  by (simp add: force_close_all_def and_then_def sup_audit_def support_record_def support_reasons_def Let_def)

end
