(* ===== verification/Security_Review.thy ===== *)
theory Security_Review
  imports Hash_Chain Json "HOL-Library.List_Lexorder" "HOL-Library.Char_ord"
begin

section \<open>The security review (core/security_review.py)\<close>

text \<open>
  Ten automatic checks (headers, CORS policy, rate limits, injection patterns, cross-tenant access, replay, leaks in responses, tokens, log
  messages, cryptographic parameters), a risk register, a penetration harness that attacks the checks, and the engine that runs them all and
  passes a verdict; everything is recorded in an HMAC chain. HMAC, \<open>json.dumps\<close>, \<open>re.search\<close>, the printing of numbers and containers and
  the texts of foreign exceptions are the codec. Fresh identifiers and the clock are inputs: a check numbers its findings from 0 and asks
  \<open>ids\<close> for the uuid of each; \<open>st n\<close> is the time at which the entry number \<open>n\<close> of the chain is written.
\<close>

record review_codec =
  cx_hmac :: "string \<Rightarrow> string"
  cx_dumps :: "json \<Rightarrow> string"
  cx_search :: "string \<Rightarrow> string \<Rightarrow> bool"
  cx_str :: "json \<Rightarrow> string"
  cx_exc :: "exc \<Rightarrow> string"

subsection \<open>Texts\<close>

definition repr_digit :: "nat \<Rightarrow> char" where
  "repr_digit n = ''0123456789abcdef'' ! (n mod 16)"

definition repr_char :: "char \<Rightarrow> char \<Rightarrow> string" where
  "repr_char q c =
     (if c = q \<or> c = CHR 0x5C then [CHR 0x5C, c]
      else if c = CHR 0x09 then [CHR 0x5C, CHR ''t'']
      else if c = CHR 0x0A then [CHR 0x5C, CHR ''n'']
      else if c = CHR 0x0D then [CHR 0x5C, CHR ''r'']
      else let n = of_char c :: nat in
        if n < 32 \<or> (127 \<le> n \<and> n \<le> 160) \<or> n = 173 then [CHR 0x5C, CHR ''x'', repr_digit (n div 16), repr_digit n] else [c])"

text \<open>\<open>repr(s)\<close>: double quotes only around a text with a single quote and no double one.\<close>

definition py_repr :: "string \<Rightarrow> string" where
  "py_repr s = (let q = (if CHR 0x27 \<in> set s \<and> CHR 0x22 \<notin> set s then CHR 0x22 else CHR 0x27) in q # concat (map (repr_char q) s) @ [q])"

definition repr_texts :: "string list \<Rightarrow> string" where
  "repr_texts xs = ''['' @ py_join '', '' (map py_repr xs) @ '']''"

text \<open>\<open>f"{x:.1f}"\<close> of a number that is not negative, and \<open>f"{x:.0f}"\<close>.\<close>

definition one_decimal :: "real \<Rightarrow> string" where
  "one_decimal x = (let n = round_half_even (x * 10) in int_digits (n div 10) @ ''.'' @ int_digits (n mod 10))"

definition no_decimal :: "real \<Rightarrow> string" where
  "no_decimal x = int_digits (round_half_even x)"

definition bool_text :: "bool \<Rightarrow> string" where
  "bool_text b = (if b then ''True'' else ''False'')"

text \<open>\<open>str(v)\<close> of a decoded value, and its \<open>repr\<close>.\<close>

fun json_text :: "review_codec \<Rightarrow> json \<Rightarrow> string" where
  "json_text cx (JStr s) = s"
| "json_text cx JNull = ''None''"
| "json_text cx (JBool b) = bool_text b"
| "json_text cx (JInt i) = int_digits i"
| "json_text cx v = cx_str cx v"

fun json_repr :: "review_codec \<Rightarrow> json \<Rightarrow> string" where
  "json_repr cx (JStr s) = py_repr s"
| "json_repr cx v = json_text cx v"

definition opt_or_none :: "string option \<Rightarrow> string" where
  "opt_or_none x = (case x of Some s \<Rightarrow> s | None \<Rightarrow> ''None'')"

definition int_text :: "nat \<Rightarrow> string" where
  "int_text n = int_digits (int n)"

text \<open>A raw literal: a percent sign for the backslash, a tilde for the single and a backquote for the double quote.\<close>

definition raw_text :: "string \<Rightarrow> string" where
  "raw_text = map (\<lambda>c. if c = CHR 0x25 then CHR 0x5C else if c = CHR 0x7E then CHR 0x27 else if c = CHR 0x60 then CHR 0x22 else c)"

subsection \<open>Vocabulary\<close>

datatype vuln_risk = CriticalRisk | HighRisk | MediumRisk | LowRisk | InfoRisk

fun risk_value :: "vuln_risk \<Rightarrow> string" where
  "risk_value CriticalRisk = ''critical''"
| "risk_value HighRisk = ''high''"
| "risk_value MediumRisk = ''medium''"
| "risk_value LowRisk = ''low''"
| "risk_value InfoRisk = ''info''"

datatype vuln_category = AuthBypass | RbacBypass | Idor | Injection | Replay | Spoofing | InformationLeak | Cors | SecurityHeaders | RateLimiting
  | Logging | SupplyChain | Crypto | Session | InputValidation

datatype review_status = ReviewPass | ReviewFail | ReviewWarn | ReviewSkip

fun review_status_value :: "review_status \<Rightarrow> string" where
  "review_status_value ReviewPass = ''pass''"
| "review_status_value ReviewFail = ''fail''"
| "review_status_value ReviewWarn = ''warn''"
| "review_status_value ReviewSkip = ''skip''"

datatype review_action = ScanStarted | CheckRun | VulnFound | HeaderHardened | RateLimitSet | CorsHardened | RiskAccepted | RiskMitigated
  | ScanCompleted | ReportGenerated

fun review_action_value :: "review_action \<Rightarrow> string" where
  "review_action_value ScanStarted = ''scan_started''"
| "review_action_value CheckRun = ''check_run''"
| "review_action_value VulnFound = ''vuln_found''"
| "review_action_value HeaderHardened = ''header_hardened''"
| "review_action_value RateLimitSet = ''rate_limit_set''"
| "review_action_value CorsHardened = ''cors_hardened''"
| "review_action_value RiskAccepted = ''risk_accepted''"
| "review_action_value RiskMitigated = ''risk_mitigated''"
| "review_action_value ScanCompleted = ''scan_completed''"
| "review_action_value ReportGenerated = ''report_generated''"

definition reasoned_actions :: "review_action list" where
  "reasoned_actions = [RiskAccepted, RiskMitigated]"

definition required_headers :: "(string, string) odict" where
  "required_headers =
     [(''Strict-Transport-Security'', ''max-age=63072000; includeSubDomains; preload''),
      (''X-Content-Type-Options'', ''nosniff''),
      (''X-Frame-Options'', ''DENY''),
      (''Content-Security-Policy'', raw_text ''default-src ~self~''),
      (''Referrer-Policy'', ''strict-origin-when-cross-origin''),
      (''Permissions-Policy'', ''geolocation=(), microphone=()''),
      (''X-XSS-Protection'', ''0''),
      (''Cache-Control'', ''no-store'')]"

definition unsafe_methods :: "string list" where
  "unsafe_methods = [''POST'', ''PUT'', ''PATCH'', ''DELETE'']"

definition injection_patterns :: "string list" where
  "injection_patterns = map raw_text
     [''(?i)(select%s+.+%s+from|insert%s+into|drop%s+table|union%s+select)'',
      ''(?i)(~%s*(or|and)%s+[%w~`]+%s*=%s*[%w~`]+|--%s*$|;%s*drop|1%s*=%s*1)'',
      ''(?i)(<script[%s>]|javascript:|on%w+%s*=)'',
      ''(?i)(%.%./|%.%.%%/)'',
      ''(?i)(eval%s*%(|exec%s*%(|__import__%s*%()'',
      ''(?i)(%${.*%}|%{%{.*%}%})'',
      ''(?i)(ldap://|file://|dict://|gopher://)'',
      ''(?i)(<%?php|system%s*%(|passthru%s*%(|shell_exec%s*%()'']"

definition sensitive_fields :: "string list" where
  "sensitive_fields = [''password'', ''passwd'', ''secret'', ''token'', ''api_key'', ''private_key'', ''credit_card'', ''cvv'', ''ssn'', ''dob'',
     ''raw_key'', ''_raw'']"

subsection \<open>The audit chain\<close>

record review_entry =
  re_seq :: nat
  re_action :: review_action
  re_actor :: string
  re_detail :: "(string \<times> json) list"
  re_ts :: time
  re_hash :: string

record review_chain =
  rh_entries :: "review_entry list"
  rh_last :: string

definition review_genesis :: "review_codec \<Rightarrow> string" where
  "review_genesis cx = cx_hmac cx ''GENESIS:SECURITY:REVIEW:CHAIN:V34''"

definition review_hash :: "review_codec \<Rightarrow> string \<Rightarrow> review_entry \<Rightarrow> string" where
  "review_hash cx prev e = cx_hmac cx (prev @ '':'' @ cx_dumps cx (JObj
     [(''seq'', JInt (int (re_seq e))), (''action'', JStr (review_action_value (re_action e))), (''actor'', JStr (re_actor e)),
      (''detail'', JObj (re_detail e)), (''ts'', JFloat (re_ts e))]))"

definition review_seal :: "review_codec \<Rightarrow> string \<Rightarrow> review_entry \<Rightarrow> review_entry" where
  "review_seal cx prev e = e\<lparr>re_hash := review_hash cx prev e\<rparr>"

text \<open>A reason that is given becomes the last member of the detail.\<close>

definition review_record :: "review_codec \<Rightarrow> (nat \<Rightarrow> time) \<Rightarrow> review_action \<Rightarrow> string \<Rightarrow> string option \<Rightarrow> (string \<times> json) list \<Rightarrow> review_chain
    \<Rightarrow> (unit, review_chain) outcome" where
  "review_record cx st action actor reason detail c =
     (if action \<in> set reasoned_actions \<and> no_reason reason then (Inl (OtherError ''MissingReasonError''), c)
      else (let d = (case reason of Some r \<Rightarrow> if r \<noteq> [] then od_put ''reason'' (JStr r) detail else detail | None \<Rightarrow> detail);
                n = length (rh_entries c) + 1;
                e = review_seal cx (rh_last c) \<lparr>re_seq = n, re_action = action, re_actor = actor, re_detail = d, re_ts = st n, re_hash = []\<rparr> in
            (Inr (), \<lparr>rh_entries = rh_entries c @ [e], rh_last = re_hash e\<rparr>)))"

definition review_fits :: "review_codec \<Rightarrow> string \<Rightarrow> review_entry \<Rightarrow> bool" where
  "review_fits cx prev e \<longleftrightarrow> review_hash cx prev e = re_hash e"

definition review_verify :: "review_codec \<Rightarrow> review_chain \<Rightarrow> bool" where
  "review_verify cx c = verify_from (review_fits cx) re_hash (review_genesis cx) (rh_entries c)"

definition review_tampered :: "review_codec \<Rightarrow> review_chain \<Rightarrow> nat list" where
  "review_tampered cx c = map re_seq (broken_from (review_fits cx) re_hash (review_genesis cx) (rh_entries c))"

definition review_query :: "review_action option \<Rightarrow> string option \<Rightarrow> int \<Rightarrow> review_chain \<Rightarrow> review_entry list" where
  "review_query action actor limit c =
     (let found = filter (\<lambda>e. (case action of Some a \<Rightarrow> re_action e = a | None \<Rightarrow> True) \<and> (case actor of Some a \<Rightarrow> re_actor e = a | None \<Rightarrow> True))
                    (rev (rh_entries c)) in
      if 0 < limit then take (nat limit) found else [])"

subsection \<open>Findings and results\<close>

record finding =
  sf_id :: string
  sf_category :: vuln_category
  sf_risk :: vuln_risk
  sf_title :: string
  sf_description :: string
  sf_evidence :: string
  sf_mitigation :: string
  sf_cwe :: "string option"
  sf_owasp :: "string option"

record review_result =
  rr_id :: string
  rr_name :: string
  rr_category :: vuln_category
  rr_status :: review_status
  rr_risk :: vuln_risk
  rr_detail :: string
  rr_findings :: "finding list"

definition result_passed :: "review_result \<Rightarrow> bool" where
  "result_passed r \<longleftrightarrow> rr_status r = ReviewPass"

definition finding_of :: "vuln_category \<Rightarrow> vuln_risk \<Rightarrow> string \<Rightarrow> string \<Rightarrow> string \<Rightarrow> string \<Rightarrow> string option \<Rightarrow> string option \<Rightarrow> finding" where
  "finding_of cat risk title description evidence mitigation cwe owasp =
     \<lparr>sf_id = [], sf_category = cat, sf_risk = risk, sf_title = title, sf_description = description, sf_evidence = evidence,
      sf_mitigation = mitigation, sf_cwe = cwe, sf_owasp = owasp\<rparr>"

definition with_ids :: "(nat \<Rightarrow> string) \<Rightarrow> finding list \<Rightarrow> finding list" where
  "with_ids ids fs = map (\<lambda>(i, f). f\<lparr>sf_id := ids i\<rparr>) (enumerate 0 fs)"

text \<open>The last lines of every \<open>run_check\<close>: a check without findings passes with risk INFO.\<close>

definition check_result_of :: "string \<Rightarrow> string \<Rightarrow> vuln_category \<Rightarrow> review_status \<Rightarrow> vuln_risk \<Rightarrow> string \<Rightarrow> (nat \<Rightarrow> string) \<Rightarrow> finding list \<Rightarrow> review_result" where
  "check_result_of cid name cat bad risk detail ids fs =
     \<lparr>rr_id = cid, rr_name = name, rr_category = cat, rr_status = (if fs = [] then ReviewPass else bad),
      rr_risk = (if fs \<noteq> [] then risk else InfoRisk), rr_detail = detail, rr_findings = with_ids ids fs\<rparr>"

definition counted :: "finding list \<Rightarrow> string \<Rightarrow> string" where
  "counted fs what = int_text (length fs) @ what"

subsection \<open>Headers and CORS\<close>

definition enforced_headers :: "(string, string) odict \<Rightarrow> (string, string) odict" where
  "enforced_headers custom = fold (\<lambda>(h, v) d. od_put h v d) custom required_headers"

definition header_findings :: "(string, string) odict \<Rightarrow> (string, string) odict \<Rightarrow> finding list" where
  "header_findings required headers = concat (map (\<lambda>(h, expected).
     case od_get headers h of
       None \<Rightarrow> [finding_of SecurityHeaders HighRisk (''Missing header: '' @ h) (''Required security header '' @ py_repr h @ '' not present'')
                 (''headers='' @ repr_texts (od_keys headers)) (''Add '' @ h @ '': '' @ expected) (Some ''CWE-16'') (Some ''A05:2021'')]
     | Some v \<Rightarrow> if v \<noteq> expected
         then [finding_of SecurityHeaders MediumRisk (''Wrong value: '' @ h) (py_repr h @ '' has value '' @ py_repr v @ '', expected '' @ py_repr expected)
                 (h @ '': '' @ v) (''Set '' @ h @ '': '' @ expected) (Some ''CWE-16'') None]
         else []) required)"

definition headers_check :: "(nat \<Rightarrow> string) \<Rightarrow> (string, string) odict \<Rightarrow> (string, string) odict \<Rightarrow> review_result" where
  "headers_check ids required headers =
     (let fs = header_findings required headers in
      check_result_of ''HEADERS-001'' ''Security Headers'' SecurityHeaders ReviewFail HighRisk (counted fs '' header issues found'') ids fs)"

text \<open>The sets of a policy are lists without duplicates; the code only asks for members and sorts them.\<close>

record cors_policy =
  co_origins :: "string list"
  co_credentials :: bool
  co_methods :: "string list"
  co_max_age :: int
  co_headers :: "string list"

definition default_policy :: "string list \<Rightarrow> cors_policy" where
  "default_policy origins = \<lparr>co_origins = origins, co_credentials = True, co_methods = [''GET'', ''POST'', ''PUT'', ''DELETE'', ''OPTIONS''],
     co_max_age = 86400, co_headers = [''Content-Type'', ''Authorization'', ''X-Tenant-ID'']\<rparr>"

definition check_origin :: "cors_policy \<Rightarrow> string \<Rightarrow> bool" where
  "check_origin p origin \<longleftrightarrow> origin \<noteq> [] \<and> origin \<noteq> ''*'' \<and> origin \<in> set (co_origins p)"

definition validate_cors :: "cors_policy \<Rightarrow> string \<Rightarrow> string \<Rightarrow> exc + bool" where
  "validate_cors p origin method =
     (if origin = ''*'' then Inl (OtherError ''CORSViolationError'')
      else if \<not> check_origin p origin then Inl (OtherError ''CORSViolationError'')
      else if method \<in> set unsafe_methods \<and> \<not> co_credentials p then Inl (OtherError ''CORSViolationError'')
      else Inr True)"

definition cors_headers :: "cors_policy \<Rightarrow> string \<Rightarrow> (string, string) odict" where
  "cors_headers p origin =
     (if \<not> check_origin p origin then []
      else [(''Access-Control-Allow-Origin'', origin),
            (''Access-Control-Allow-Methods'', py_join '', '' (sort (co_methods p))),
            (''Access-Control-Allow-Headers'', py_join '', '' (sort (co_headers p))),
            (''Access-Control-Max-Age'', int_digits (co_max_age p)),
            (''Vary'', ''Origin'')]
        @ (if co_credentials p then [(''Access-Control-Allow-Credentials'', ''true'')] else []))"

definition cors_check :: "(nat \<Rightarrow> string) \<Rightarrow> cors_policy \<Rightarrow> review_result" where
  "cors_check ids p =
     (let fs = (if ''*'' \<in> set (co_origins p)
                then [finding_of Cors CriticalRisk ''CORS wildcard origin'' ''Access-Control-Allow-Origin: * with credentials''
                        ''allowed_origins contains *'' ''Specify explicit allowed origins'' (Some ''CWE-942'') (Some ''A05:2021'')]
                else []) in
      check_result_of ''CORS-001'' ''CORS Policy'' Cors ReviewFail CriticalRisk (counted fs '' CORS issues'') ids fs)"

subsection \<open>Rate limits\<close>

record rate_rule =
  ru_endpoint :: string
  ru_max :: int
  ru_window :: int
  ru_burst :: int

record rate_limiter =
  rl_rules :: "(string, rate_rule) odict"
  rl_counts :: "(string, time list) odict"

definition new_limiter :: "rate_rule list \<Rightarrow> rate_limiter" where
  "new_limiter rules = \<lparr>rl_rules = fold (\<lambda>r. od_put (ru_endpoint r) r) rules [], rl_counts = []\<rparr>"

definition add_rate_rule :: "rate_rule \<Rightarrow> rate_limiter \<Rightarrow> rate_limiter" where
  "add_rate_rule r l = l\<lparr>rl_rules := od_put (ru_endpoint r) r (rl_rules l)\<rparr>"

text \<open>\<open>now or time.time()\<close>: the time 0 counts as not given.\<close>

definition given_or :: "time option \<Rightarrow> time \<Rightarrow> time" where
  "given_or now wall = (case now of Some t \<Rightarrow> if t = 0 then wall else t | None \<Rightarrow> wall)"

definition rate_check :: "string \<Rightarrow> string \<Rightarrow> time option \<Rightarrow> time \<Rightarrow> rate_limiter \<Rightarrow> (bool, rate_limiter) outcome" where
  "rate_check endpoint key now wall l =
     (case od_get (rl_rules l) endpoint of
        None \<Rightarrow> (Inr True, l)
      | Some rule \<Rightarrow>
          (let t = given_or now wall; bucket = endpoint @ '':'' @ key;
               q = (case od_get (rl_counts l) bucket of Some q \<Rightarrow> q | None \<Rightarrow> []);
               q1 = dropWhile (\<lambda>x. x < t - of_int (ru_window rule)) q in
           if ru_max rule \<le> int (length q1) then (Inl (OtherError ''RateLimitExceededError''), l\<lparr>rl_counts := od_put bucket q1 (rl_counts l)\<rparr>)
           else (Inr True, l\<lparr>rl_counts := od_put bucket (q1 @ [t]) (rl_counts l)\<rparr>)))"

definition rate_limit_check :: "(nat \<Rightarrow> string) \<Rightarrow> rate_limiter \<Rightarrow> string list \<Rightarrow> review_result" where
  "rate_limit_check ids l endpoints =
     (let missing = filter (\<lambda>e. od_get (rl_rules l) e = None) endpoints;
          fs = map (\<lambda>e. finding_of RateLimiting HighRisk (''No rate limit: '' @ e) (''Endpoint '' @ py_repr e @ '' has no rate limit rule'')
                 (''endpoint='' @ e) ''Add RateLimitRule for this endpoint'' (Some ''CWE-770'') (Some ''A05:2021'')) missing in
      check_result_of ''RL-001'' ''Rate Limiting'' RateLimiting ReviewWarn HighRisk (int_text (length missing) @ '' endpoints without rate limits'') ids fs)"

subsection \<open>Injection patterns\<close>

text \<open>The result for a member is the list of the patterns that hit its text, or for a nested object the results of its members. Lists are not looked into.\<close>

datatype injection_hits = Hits "string list" | Nested "(string \<times> injection_hits) list"

definition scan_value :: "review_codec \<Rightarrow> string list \<Rightarrow> string \<Rightarrow> string list" where
  "scan_value cx patterns v = filter (\<lambda>p. cx_search cx p v) patterns"

fun scan_dict :: "review_codec \<Rightarrow> string list \<Rightarrow> (string \<times> json) list \<Rightarrow> (string \<times> injection_hits) list" where
  "scan_dict cx ps [] = []"
| "scan_dict cx ps ((k, JStr v) # ms) = (if scan_value cx ps v \<noteq> [] then (k, Hits (scan_value cx ps v)) # scan_dict cx ps ms else scan_dict cx ps ms)"
| "scan_dict cx ps ((k, JObj d) # ms) = (if scan_dict cx ps d \<noteq> [] then (k, Nested (scan_dict cx ps d)) # scan_dict cx ps ms else scan_dict cx ps ms)"
| "scan_dict cx ps ((k, v) # ms) = scan_dict cx ps ms"

text \<open>\<open>patterns[:2]\<close> of the result of a nested object, a dictionary, raises.\<close>

fun injection_finding :: "string \<times> injection_hits \<Rightarrow> exc + finding" where
  "injection_finding (k, Hits ps) = Inr (finding_of Injection CriticalRisk (''Injection pattern in field: '' @ k)
     (''Detected '' @ int_text (length ps) @ '' injection pattern(s)'') (''field='' @ k @ '' patterns='' @ repr_texts (take 2 ps))
     ''Sanitize and parameterize all inputs'' (Some ''CWE-89'') (Some ''A03:2021''))"
| "injection_finding (k, Nested ns) = Inl TypeError"

definition injection_check :: "review_codec \<Rightarrow> (nat \<Rightarrow> string) \<Rightarrow> string list \<Rightarrow> (string \<times> json) list list \<Rightarrow> exc + review_result" where
  "injection_check cx ids ps samples =
     (case map_exc injection_finding (concat (map (scan_dict cx ps) samples)) of
        Inl e \<Rightarrow> Inl e
      | Inr fs \<Rightarrow> Inr (check_result_of ''INJ-001'' ''Injection Scanner'' Injection ReviewFail CriticalRisk
          (counted fs '' injection patterns detected'') ids fs))"

subsection \<open>Cross-tenant access\<close>

record access_entry =
  ac_actor_tenant :: string
  ac_actor_user :: string
  ac_resource_tenant :: string
  ac_resource :: string
  ac_endpoint :: string
  ac_allowed :: bool
  ac_ts :: time

definition log_access :: "time \<Rightarrow> string \<Rightarrow> string \<Rightarrow> string \<Rightarrow> string \<Rightarrow> string \<Rightarrow> access_entry list \<Rightarrow> bool \<times> access_entry list" where
  "log_access now actor_tenant actor_user resource_tenant resource endpoint l =
     (let allowed = (actor_tenant = resource_tenant) in
      (allowed, l @ [\<lparr>ac_actor_tenant = actor_tenant, ac_actor_user = actor_user, ac_resource_tenant = resource_tenant, ac_resource = resource,
         ac_endpoint = endpoint, ac_allowed = allowed, ac_ts = now\<rparr>]))"

definition dget :: "(string, string) odict \<Rightarrow> string \<Rightarrow> string" where
  "dget d k = (case od_get d k of Some v \<Rightarrow> v | None \<Rightarrow> [])"

definition idor_finding :: "(string, string) odict \<Rightarrow> finding" where
  "idor_finding c = finding_of Idor HighRisk ''IDOR: cross-tenant access attempt'' ''Actor from different tenant accessing resource''
     (''actor_tenant='' @ opt_or_none (od_get c ''actor_tenant'') @ '' resource_tenant='' @ opt_or_none (od_get c ''resource_tenant''))
     ''Enforce tenant_id == actor_tenant for all resource access'' (Some ''CWE-639'') (Some ''A01:2021'')"

text \<open>The clock is read once per case: \<open>clock\<close> gives the readings in order.\<close>

fun idor_cases :: "time list \<Rightarrow> (string, string) odict list \<Rightarrow> access_entry list \<Rightarrow> finding list \<times> access_entry list" where
  "idor_cases clock [] l = ([], l)"
| "idor_cases clock (c # cs) l =
     (let (allowed, l1) = log_access (hd clock) (dget c ''actor_tenant'') (dget c ''actor_user'') (dget c ''resource_tenant'') (dget c ''resource_id'')
            (dget c ''endpoint'') l;
          (fs, l2) = idor_cases (tl clock) cs l1 in
      (if \<not> allowed then idor_finding c # fs else fs, l2))"

definition idor_check :: "(nat \<Rightarrow> string) \<Rightarrow> (nat \<Rightarrow> time) \<Rightarrow> (string, string) odict list \<Rightarrow> access_entry list \<Rightarrow> review_result \<times> access_entry list" where
  "idor_check ids clock cases l =
     (case idor_cases (map clock [0..<length cases]) cases l of (fs, l1) \<Rightarrow>
        (check_result_of ''IDOR-001'' ''IDOR Checker'' Idor ReviewFail HighRisk (counted fs '' IDOR violations detected'') ids fs, l1))"

subsection \<open>Replay\<close>

record replay_state =
  rp_window :: int
  rp_seen :: "string list"
  rp_times :: "(string, time) odict"

definition new_replay :: "int \<Rightarrow> replay_state" where
  "new_replay w = \<lparr>rp_window = w, rp_seen = [], rp_times = []\<rparr>"

definition replay_evict :: "time \<Rightarrow> replay_state \<Rightarrow> replay_state" where
  "replay_evict now r =
     (if rp_window r \<le> 0 then r
      else (let expired = map fst (filter (\<lambda>(n, t). now - t > of_int (rp_window r)) (rp_times r)) in
            r\<lparr>rp_seen := filter (\<lambda>n. n \<notin> set expired) (rp_seen r), rp_times := filter (\<lambda>(n, t). n \<notin> set expired) (rp_times r)\<rparr>))"

text \<open>The value on the left is the text of the ReplayDetectedError.\<close>

definition replay_check_one :: "string \<Rightarrow> time \<Rightarrow> time option \<Rightarrow> time \<Rightarrow> replay_state \<Rightarrow> (string + bool) \<times> replay_state" where
  "replay_check_one nonce timestamp now wall r =
     (let t = given_or now wall in
      if 0 < rp_window r \<and> \<bar>t - timestamp\<bar> > of_int (rp_window r)
      then (Inl (''Timestamp too old/future: delta='' @ one_decimal \<bar>t - timestamp\<bar> @ ''s''), r)
      else (let r1 = replay_evict t r in
            if nonce \<in> set (rp_seen r1) then (Inl (''Replay detected: nonce='' @ py_repr nonce), r1)
            else (Inr True, r1\<lparr>rp_seen := nonce # rp_seen r1, rp_times := od_put nonce t (rp_times r1)\<rparr>)))"

record replay_case =
  rc_nonce :: "string option"
  rc_timestamp :: "time option"
  rc_now :: "time option"

definition replay_finding :: "replay_case \<Rightarrow> string \<Rightarrow> finding" where
  "replay_finding c e = finding_of Replay HighRisk ''Replay attack detected'' e (''nonce='' @ opt_or_none (rc_nonce c))
     ''Use nonce + timestamp window validation'' (Some ''CWE-294'') (Some ''A07:2021'')"

text \<open>For every case the clock is read for the default of the time stamp and again in \<open>check\<close>.\<close>

fun replay_cases :: "(time \<times> time) list \<Rightarrow> replay_case list \<Rightarrow> replay_state \<Rightarrow> finding list \<times> replay_state" where
  "replay_cases clock [] r = ([], r)"
| "replay_cases clock (c # cs) r =
     (let (x, r1) = replay_check_one (case rc_nonce c of Some n \<Rightarrow> n | None \<Rightarrow> []) (case rc_timestamp c of Some t \<Rightarrow> t | None \<Rightarrow> fst (hd clock))
            (rc_now c) (snd (hd clock)) r;
          (fs, r2) = replay_cases (tl clock) cs r1 in
      (case x of Inl e \<Rightarrow> replay_finding c e # fs | Inr _ \<Rightarrow> fs, r2))"

definition replay_check :: "(nat \<Rightarrow> string) \<Rightarrow> (nat \<Rightarrow> time) \<Rightarrow> replay_case list \<Rightarrow> replay_state \<Rightarrow> review_result \<times> replay_state" where
  "replay_check ids clock cases r =
     (case replay_cases (map (\<lambda>i. (clock (2 * i), clock (2 * i + 1))) [0..<length cases]) cases r of (fs, r1) \<Rightarrow>
        (check_result_of ''REPLAY-001'' ''Replay Checker'' Replay ReviewFail HighRisk (counted fs '' replay attempts'') ids fs, r1))"

subsection \<open>Leaks in responses\<close>

definition leak_fields :: "string list \<Rightarrow> string list" where
  "leak_fields extra = sensitive_fields @ filter (\<lambda>x. x \<notin> set sensitive_fields) extra"

definition below :: "string \<Rightarrow> string \<Rightarrow> string" where
  "below path k = (if path \<noteq> [] then path @ ''.'' @ k else k)"

fun leak_walk :: "string list \<Rightarrow> string \<Rightarrow> json \<Rightarrow> string list"
and leak_members :: "string list \<Rightarrow> string \<Rightarrow> (string \<times> json) list \<Rightarrow> string list"
and leak_items :: "string list \<Rightarrow> string \<Rightarrow> nat \<Rightarrow> json list \<Rightarrow> string list" where
  "leak_walk fs path (JObj ms) = leak_members fs path ms"
| "leak_walk fs path (JList xs) = leak_items fs path 0 xs"
| "leak_walk fs path v = []"
| "leak_members fs path [] = []"
| "leak_members fs path ((k, v) # ms) =
     (if py_lower k \<in> set fs then [below path k] else []) @ leak_walk fs (below path k) v @ leak_members fs path ms"
| "leak_items fs path i [] = []"
| "leak_items fs path i (x # xs) = leak_walk fs (path @ ''['' @ int_text i @ '']'') x @ leak_items fs path (Suc i) xs"

definition scan_response :: "string list \<Rightarrow> json \<Rightarrow> string list" where
  "scan_response fs v = leak_walk fs [] v"

definition leak_finding :: "string \<Rightarrow> finding" where
  "leak_finding leak = finding_of InformationLeak HighRisk (''Sensitive field in response: '' @ leak) (''Field '' @ py_repr leak @ '' should not be in API response'')
     (''field='' @ leak) ''Remove sensitive fields from response serializer'' (Some ''CWE-200'') (Some ''A02:2021'')"

definition leak_check :: "(nat \<Rightarrow> string) \<Rightarrow> string list \<Rightarrow> json list \<Rightarrow> review_result" where
  "leak_check ids sens responses =
     (let fs = map leak_finding (concat (map (scan_response sens) responses)) in
      check_result_of ''LEAK-001'' ''Information Leak Scanner'' InformationLeak ReviewFail HighRisk (counted fs '' sensitive field leaks'') ids fs)"

subsection \<open>Tokens\<close>

record token_config =
  tc_sub :: bool
  tc_tenant :: bool
  tc_exp :: bool
  tc_iat :: bool
  tc_roles :: "string list"

definition default_token_config :: token_config where
  "default_token_config = \<lparr>tc_sub = True, tc_tenant = True, tc_exp = True, tc_iat = True, tc_roles = [''admin'', ''operator'', ''viewer'', ''support'']\<rparr>"

text \<open>\<open>exp < now\<close> for a decoded value: only numbers can be compared with the clock.\<close>

fun json_before :: "json \<Rightarrow> time \<Rightarrow> exc + bool" where
  "json_before (JInt i) t = Inr (of_int i < t)"
| "json_before (JFloat x) t = Inr (x < t)"
| "json_before (JBool b) t = Inr ((if b then 1 else 0) < t)"
| "json_before _ t = Inl TypeError"

text \<open>\<open>role in allowed_roles\<close>: lists and objects cannot be looked up in a set.\<close>

fun json_member :: "json \<Rightarrow> string list \<Rightarrow> exc + bool" where
  "json_member (JStr s) xs = Inr (s \<in> set xs)"
| "json_member (JList _) xs = Inl TypeError"
| "json_member (JObj _) xs = Inl TypeError"
| "json_member _ xs = Inr False"

definition token_keys :: "(string \<times> json) list \<Rightarrow> string" where
  "token_keys token = ''token keys: '' @ repr_texts (map fst token)"

definition expiry_findings :: "review_codec \<Rightarrow> time \<Rightarrow> json \<Rightarrow> exc + finding list" where
  "expiry_findings cx now e =
     (if e = JNull then Inr [finding_of Session HighRisk ''Missing exp claim'' ''JWT never expires -- session does not end'' ''exp not in token''
                          ''Set exp in all JWTs (max 1h for access tokens)'' (Some ''CWE-613'') None]
      else (case json_before e now of
          Inl x \<Rightarrow> Inl x
        | Inr expired \<Rightarrow> Inr (if expired
            then [finding_of Session HighRisk ''Expired token accepted'' (''Token expired at '' @ json_text cx e @ '', now='' @ no_decimal now)
                    (''exp='' @ json_text cx e @ '' now='' @ no_decimal now) ''Reject expired tokens at validation layer'' (Some ''CWE-613'') None]
            else [])))"

definition role_findings :: "review_codec \<Rightarrow> string list \<Rightarrow> json \<Rightarrow> exc + finding list" where
  "role_findings cx allowed role =
     (if \<not> json_truthy role then Inr []
      else (case json_member role allowed of
          Inl e \<Rightarrow> Inl e
        | Inr known \<Rightarrow> Inr (if known then []
            else [finding_of RbacBypass HighRisk (''Unknown role: '' @ json_repr cx role) (''Role '' @ json_repr cx role @ '' not in allowed set'')
                    (''role='' @ json_text cx role) ''Whitelist valid roles; reject unknown'' (Some ''CWE-285'') (Some ''A01:2021'')])))"

definition check_token :: "review_codec \<Rightarrow> token_config \<Rightarrow> time \<Rightarrow> (string \<times> json) list \<Rightarrow> exc + finding list" where
  "check_token cx cfg now token =
     (let subject = (if tc_sub cfg \<and> \<not> json_truthy (jget ''sub'' JNull token)
            then [finding_of AuthBypass CriticalRisk ''Missing sub claim'' ''JWT missing subject claim -- auth bypass possible'' (token_keys token)
                    ''Enforce sub claim presence in JWT validation'' (Some ''CWE-287'') (Some ''A07:2021'')] else []);
          tenant = (if tc_tenant cfg \<and> \<not> json_truthy (jget ''tenant_id'' JNull token)
            then [finding_of Idor HighRisk ''Missing tenant_id claim'' ''JWT has no tenant_id -- IDOR risk'' (token_keys token)
                    ''Include tenant_id in all JWTs'' (Some ''CWE-639'') None] else []);
          issued = (if tc_iat cfg \<and> map_of token ''iat'' = None
            then [finding_of AuthBypass MediumRisk ''Missing iat claim'' (''JWT missing issued-at -- replay window unclear'') ''iat not in token''
                    ''Include iat in all JWTs'' (Some ''CWE-287'') None] else []) in
      case (if tc_exp cfg then expiry_findings cx now (jget ''exp'' JNull token) else Inr []) of
        Inl e \<Rightarrow> Inl e
      | Inr expiry \<Rightarrow> (case role_findings cx (tc_roles cfg) (jget ''role'' JNull token) of
            Inl e \<Rightarrow> Inl e
          | Inr role \<Rightarrow> Inr (subject @ tenant @ expiry @ issued @ role)))"

text \<open>The clock is read once per token.\<close>

definition token_check :: "review_codec \<Rightarrow> (nat \<Rightarrow> string) \<Rightarrow> (nat \<Rightarrow> time) \<Rightarrow> token_config \<Rightarrow> (string \<times> json) list list \<Rightarrow> exc + review_result" where
  "token_check cx ids clock cfg tokens =
     (case map_exc (\<lambda>(i, t). check_token cx cfg (clock i) t) (enumerate 0 tokens) of
        Inl e \<Rightarrow> Inl e
      | Inr fss \<Rightarrow> (let fs = concat fss in
          Inr (check_result_of ''AUTH-001'' ''Auth/RBAC Checker'' AuthBypass ReviewFail CriticalRisk (counted fs '' auth/RBAC issues'') ids fs)))"

subsection \<open>Log messages\<close>

record log_entry =
  lg_ts :: time
  lg_level :: string
  lg_message :: string
  lg_context :: "(string \<times> json) list"

definition redacted_fields :: "string list \<Rightarrow> string list" where
  "redacted_fields extra = filter (\<lambda>x. x \<notin> set sensitive_fields) extra @ sensitive_fields"

definition safe_context :: "string list \<Rightarrow> (string \<times> json) list \<Rightarrow> (string \<times> json) list" where
  "safe_context redact context = map (\<lambda>(k, v). (k, if py_lower k \<in> set redact then JStr ''[REDACTED]'' else v)) context"

definition log_line :: "time \<Rightarrow> string list \<Rightarrow> string \<Rightarrow> string \<Rightarrow> (string \<times> json) list \<Rightarrow> log_entry list \<Rightarrow> log_entry \<times> log_entry list" where
  "log_line now redact level message context l =
     (let e = \<lparr>lg_ts = now, lg_level = level, lg_message = message, lg_context = safe_context redact context\<rparr> in (e, l @ [e]))"

definition telling :: "log_entry \<Rightarrow> bool" where
  "telling e \<longleftrightarrow> list_ex (\<lambda>f. contains f (py_lower (lg_message e))) sensitive_fields"

definition logger_check :: "(nat \<Rightarrow> string) \<Rightarrow> log_entry list \<Rightarrow> review_result" where
  "logger_check ids l =
     (let fs = map (\<lambda>e. finding_of Logging MediumRisk ''Potential sensitive data in log message'' ''Log message may contain sensitive info''
                 (take 100 (lg_message e)) ''Redact sensitive fields before logging'' (Some ''CWE-532'') None) (filter telling l) in
      check_result_of ''LOG-001'' ''Security Logger'' Logging ReviewWarn MediumRisk (counted fs '' logging issues'') ids fs)"

subsection \<open>Cryptographic parameters\<close>

definition weak_algos :: "string list" where
  "weak_algos = [''md5'', ''sha1'', ''des'', ''3des'', ''rc4'', ''rc2'']"

definition min_key_bits :: "(string, int) odict" where
  "min_key_bits = [(''rsa'', 2048), (''dsa'', 2048), (''ec'', 256), (''aes'', 128), (''hmac'', 128)]"

record crypto_config =
  cy_algo :: "string option"
  cy_bits :: "int option"

definition crypto_findings :: "crypto_config \<Rightarrow> finding list" where
  "crypto_findings c =
     (let algo = py_lower (case cy_algo c of Some a \<Rightarrow> a | None \<Rightarrow> []); bits = (case cy_bits c of Some b \<Rightarrow> b | None \<Rightarrow> 0);
          least = (case od_get min_key_bits algo of Some b \<Rightarrow> b | None \<Rightarrow> 0) in
      (if algo \<in> set weak_algos
       then [finding_of Crypto CriticalRisk (''Weak algorithm: '' @ py_upper algo) (py_upper algo @ '' is cryptographically broken'') (''algo='' @ algo)
               ''Use AES-256-GCM, HMAC-SHA256, RSA-2048+ or ED25519'' (Some ''CWE-327'') (Some ''A02:2021'')] else [])
      @ (if bits \<noteq> 0 \<and> least \<noteq> 0 \<and> bits < least
         then [finding_of Crypto HighRisk (''Insufficient key length: '' @ int_digits bits @ '' bits for '' @ algo) (''Minimum recommended: '' @ int_digits least @ '' bits'')
                 (''algo='' @ algo @ '' bits='' @ int_digits bits) (''Use at least '' @ int_digits least @ '' bits for '' @ algo) (Some ''CWE-326'') None] else []))"

definition crypto_check :: "(nat \<Rightarrow> string) \<Rightarrow> crypto_config list \<Rightarrow> review_result" where
  "crypto_check ids configs =
     (let fs = concat (map crypto_findings configs) in
      check_result_of ''CRYPTO-001'' ''Crypto Checker'' Crypto ReviewFail CriticalRisk (counted fs '' crypto issues'') ids fs)"

subsection \<open>The risk register\<close>

record review_risk =
  ri_id :: string
  ri_category :: vuln_category
  ri_risk :: vuln_risk
  ri_title :: string
  ri_description :: string
  ri_mitigation :: string
  ri_mitigated :: bool
  ri_accepted :: bool
  ri_mitigated_by :: "string option"
  ri_accepted_by :: "string option"

record risk_register =
  rg_items :: "(string, review_risk) odict"
  rg_audit :: review_chain

definition risk_add :: "review_risk \<Rightarrow> risk_register \<Rightarrow> risk_register" where
  "risk_add i g = g\<lparr>rg_items := od_put (ri_id i) i (rg_items g)\<rparr>"

definition risk_note :: "review_codec \<Rightarrow> (nat \<Rightarrow> time) \<Rightarrow> review_action \<Rightarrow> string \<Rightarrow> string \<Rightarrow> string \<Rightarrow> risk_register \<Rightarrow> (unit, risk_register) outcome" where
  "risk_note cx st action actor reason rid g =
     (case review_record cx st action actor (Some reason) [(''risk_id'', JStr rid)] (rg_audit g) of (x, c) \<Rightarrow> (x, g\<lparr>rg_audit := c\<rparr>))"

definition risk_mitigate :: "review_codec \<Rightarrow> (nat \<Rightarrow> time) \<Rightarrow> string \<Rightarrow> string \<Rightarrow> string \<Rightarrow> risk_register \<Rightarrow> (unit, risk_register) outcome" where
  "risk_mitigate cx st rid actor reason g =
     (case od_get (rg_items g) rid of
        None \<Rightarrow> (Inl KeyError, g)
      | Some i \<Rightarrow> risk_note cx st RiskMitigated actor reason rid
          (g\<lparr>rg_items := od_put rid (i\<lparr>ri_mitigated := True, ri_mitigated_by := Some actor\<rparr>) (rg_items g)\<rparr>))"

definition risk_accept :: "review_codec \<Rightarrow> (nat \<Rightarrow> time) \<Rightarrow> string \<Rightarrow> string \<Rightarrow> string \<Rightarrow> risk_register \<Rightarrow> (unit, risk_register) outcome" where
  "risk_accept cx st rid actor reason g =
     (case od_get (rg_items g) rid of
        None \<Rightarrow> (Inl KeyError, g)
      | Some i \<Rightarrow> risk_note cx st RiskAccepted actor reason rid
          (g\<lparr>rg_items := od_put rid (i\<lparr>ri_accepted := True, ri_accepted_by := Some actor\<rparr>) (rg_items g)\<rparr>))"

record review_risk_summary =
  rz_total :: nat
  rz_mitigated :: nat
  rz_accepted :: nat
  rz_open :: nat
  rz_by_risk :: "(string, nat) odict"

definition open_risk :: "review_risk \<Rightarrow> bool" where
  "open_risk i \<longleftrightarrow> \<not> ri_mitigated i \<and> \<not> ri_accepted i"

definition risk_items :: "risk_register \<Rightarrow> review_risk list" where
  "risk_items g = map snd (rg_items g)"

definition review_summary_of :: "risk_register \<Rightarrow> review_risk_summary" where
  "review_summary_of g =
     (let is = risk_items g in
      \<lparr>rz_total = length is, rz_mitigated = length (filter ri_mitigated is), rz_accepted = length (filter ri_accepted is),
       rz_open = length (filter open_risk is),
       rz_by_risk = map (\<lambda>l. (risk_value l, length (filter (\<lambda>i. ri_risk i = l) is))) [CriticalRisk, HighRisk, MediumRisk, LowRisk, InfoRisk]\<rparr>)"

definition list_open_risks :: "risk_register \<Rightarrow> review_risk list" where
  "list_open_risks g = filter open_risk (risk_items g)"

subsection \<open>The system\<close>

text \<open>
  The state that the parts keep. The register writes to the chain that all parts share, so the chain is the one of the register. The
  policies are fixed when the system is built, but for the rules of the rate limiter.
\<close>

record review_system =
  rv_headers :: "(string, string) odict"
  rv_cors :: cors_policy
  rv_limiter :: rate_limiter
  rv_patterns :: "string list"
  rv_access :: "access_entry list"
  rv_replay :: replay_state
  rv_leaks :: "string list"
  rv_tokens :: token_config
  rv_redact :: "string list"
  rv_log :: "log_entry list"
  rv_register :: risk_register

definition rule_of :: "string \<times> int \<Rightarrow> rate_rule" where
  "rule_of p = \<lparr>ru_endpoint = fst p, ru_max = snd p, ru_window = 60, ru_burst = 0\<rparr>"

definition default_rate_rules :: "rate_rule list" where
  "default_rate_rules = map rule_of [(''/api/auth/login'', 5), (''/api/auth/refresh'', 10), (''/api/license'', 30), (''/api/signals'', 100), (''/api/billing'', 20),
     (''/api/webhook'', 50), (''/api/admin'', 10), (''/api/ea/heartbeat'', 60)]"

text \<open>Empty sets and lists count as not given.\<close>

definition build_review :: "review_codec \<Rightarrow> string list \<Rightarrow> rate_rule list \<Rightarrow> string list \<Rightarrow> token_config option \<Rightarrow> review_system" where
  "build_review cx origins rules extra cfg =
     \<lparr>rv_headers = required_headers,
      rv_cors = default_policy (if origins \<noteq> [] then origins else [''https://app.bot12.io'']),
      rv_limiter = new_limiter (if rules \<noteq> [] then rules else default_rate_rules),
      rv_patterns = injection_patterns, rv_access = [], rv_replay = new_replay 300, rv_leaks = leak_fields extra,
      rv_tokens = (case cfg of Some c \<Rightarrow> c | None \<Rightarrow> default_token_config), rv_redact = redacted_fields [], rv_log = [],
      rv_register = \<lparr>rg_items = [], rg_audit = \<lparr>rh_entries = [], rh_last = review_genesis cx\<rparr>\<rparr>\<rparr>"

abbreviation rv_audit :: "review_system \<Rightarrow> review_chain" where
  "rv_audit s \<equiv> rg_audit (rv_register s)"

definition review_note :: "review_codec \<Rightarrow> (nat \<Rightarrow> time) \<Rightarrow> review_action \<Rightarrow> string \<Rightarrow> (string \<times> json) list \<Rightarrow> review_system \<Rightarrow> (unit, review_system) outcome" where
  "review_note cx st action actor detail s =
     (case review_record cx st action actor None detail (rv_audit s) of (x, c) \<Rightarrow> (x, s\<lparr>rv_register := (rv_register s)\<lparr>rg_audit := c\<rparr>\<rparr>))"

subsection \<open>The penetration harness\<close>

record pen_scenario =
  pn_id :: string
  pn_name :: string
  pn_category :: vuln_category
  pn_input :: json
  pn_block :: bool
  pn_class :: string

record pen_result =
  pr_id :: string
  pr_name :: string
  pr_category :: vuln_category
  pr_passed :: bool
  pr_detail :: string

text \<open>Members that the attacked check takes as texts or numbers; other types are outside its annotations and raise here.\<close>

definition text_or :: "string \<Rightarrow> string \<Rightarrow> (string \<times> json) list \<Rightarrow> exc + string" where
  "text_or k d ms = (case map_of ms k of None \<Rightarrow> Inr d | Some (JStr s) \<Rightarrow> Inr s | Some _ \<Rightarrow> Inl TypeError)"

fun json_num :: "json \<Rightarrow> exc + real" where
  "json_num (JInt i) = Inr (of_int i)"
| "json_num (JFloat x) = Inr x"
| "json_num (JBool b) = Inr (if b then 1 else 0)"
| "json_num _ = Inl TypeError"

fun json_index :: "json \<Rightarrow> string \<Rightarrow> exc + json" where
  "json_index (JObj ms) k = (case map_of ms k of None \<Rightarrow> Inl KeyError | Some v \<Rightarrow> Inr v)"
| "json_index _ k = Inl TypeError"

definition bind_exc :: "exc + 'a \<Rightarrow> ('a \<Rightarrow> exc + 'b) \<Rightarrow> exc + 'b" where
  "bind_exc x f = (case x of Inl e \<Rightarrow> Inl e | Inr a \<Rightarrow> f a)"

definition attack_access :: "json \<Rightarrow> exc + string \<times> string \<times> string \<times> string \<times> string" where
  "attack_access v = bind_exc (json_members v) (\<lambda>ms.
     bind_exc (text_or ''actor_tenant'' ''A'' ms) (\<lambda>a. bind_exc (text_or ''actor_user'' ''u1'' ms) (\<lambda>u.
     bind_exc (text_or ''resource_tenant'' ''B'' ms) (\<lambda>r. bind_exc (text_or ''resource_id'' ''r1'' ms) (\<lambda>i.
     bind_exc (text_or ''endpoint'' ''/api/x'' ms) (\<lambda>p. Inr (a, u, r, i, p)))))))"

definition attack_replay :: "int \<Rightarrow> json \<Rightarrow> exc + string \<times> time \<times> time option" where
  "attack_replay window v = bind_exc (json_index v ''nonce'') (\<lambda>n. bind_exc (json_index v ''timestamp'') (\<lambda>t.
     bind_exc (json_members v) (\<lambda>ms. let now = jget ''now'' JNull ms in
     bind_exc (if json_truthy now then json_num now else Inr 0) (\<lambda>w.
     bind_exc (if 0 < window then json_num t else Inr 0) (\<lambda>x.
     case n of JStr s \<Rightarrow> Inr (s, x, if json_truthy now then Some w else None) | _ \<Rightarrow> Inl TypeError)))))"

definition attack_blocked :: "review_codec \<Rightarrow> time \<Rightarrow> pen_scenario \<Rightarrow> review_system \<Rightarrow> (bool, review_system) outcome" where
  "attack_blocked cx now p s =
     (if pn_category p \<in> {AuthBypass, RbacBypass, Session}
      then (case bind_exc (json_members (pn_input p)) (check_token cx (rv_tokens s) now) of Inl e \<Rightarrow> (Inl e, s) | Inr fs \<Rightarrow> (Inr (fs \<noteq> []), s))
      else if pn_category p = Idor
      then (case attack_access (pn_input p) of
          Inl e \<Rightarrow> (Inl e, s)
        | Inr (a, u, r, i, ep) \<Rightarrow> (case log_access now a u r i ep (rv_access s) of (allowed, l) \<Rightarrow> (Inr (\<not> allowed), s\<lparr>rv_access := l\<rparr>)))
      else if pn_category p = Replay
      then (case attack_replay (rp_window (rv_replay s)) (pn_input p) of
          Inl e \<Rightarrow> (Inl e, s)
        | Inr (n, t, given) \<Rightarrow> (case replay_check_one n t given now (rv_replay s) of (x, r) \<Rightarrow> (Inr (case x of Inl _ \<Rightarrow> True | Inr _ \<Rightarrow> False), s\<lparr>rv_replay := r\<rparr>)))
      else if pn_category p = Injection
      then (case json_members (pn_input p) of
          Inl e \<Rightarrow> (Inl e, s)
        | Inr ms \<Rightarrow> (Inr (scan_value cx (rv_patterns s) (json_text cx (jget ''value'' (JStr []) ms)) \<noteq> []), s))
      else if pn_category p = InformationLeak then (Inr (scan_response (rv_leaks s) (pn_input p) \<noteq> []), s)
      else (Inr False, s))"

text \<open>Whatever is raised makes the scenario fail.\<close>

definition run_scenario :: "review_codec \<Rightarrow> (nat \<Rightarrow> time) \<Rightarrow> time \<Rightarrow> pen_scenario \<Rightarrow> review_system \<Rightarrow> pen_result \<times> review_system" where
  "run_scenario cx st now p s =
     (case attack_blocked cx now p s of
        (Inl e, s1) \<Rightarrow> (\<lparr>pr_id = pn_id p, pr_name = pn_name p, pr_category = pn_category p, pr_passed = False, pr_detail = ''ERROR: '' @ cx_exc cx e\<rparr>, s1)
      | (Inr blocked, s1) \<Rightarrow>
          (let passed = (blocked = pn_block p) in
           case review_note cx st CheckRun ''pentest_harness'' [(''scenario_id'', JStr (pn_id p)), (''passed'', JStr (bool_text passed))] s1 of
             (Inl e, s2) \<Rightarrow> (\<lparr>pr_id = pn_id p, pr_name = pn_name p, pr_category = pn_category p, pr_passed = False, pr_detail = ''ERROR: '' @ cx_exc cx e\<rparr>, s2)
           | (Inr _, s2) \<Rightarrow> (\<lparr>pr_id = pn_id p, pr_name = pn_name p, pr_category = pn_category p, pr_passed = passed,
                                pr_detail = (if blocked then ''blocked'' else ''allowed'')\<rparr>, s2)))"

fun run_scenarios :: "review_codec \<Rightarrow> (nat \<Rightarrow> time) \<Rightarrow> time list \<Rightarrow> pen_scenario list \<Rightarrow> review_system \<Rightarrow> pen_result list \<times> review_system" where
  "run_scenarios cx st clock [] s = ([], s)"
| "run_scenarios cx st clock (p # ps) s =
     (let (r, s1) = run_scenario cx st (hd clock) p s; (rs, s2) = run_scenarios cx st (tl clock) ps s1 in (r # rs, s2))"

subsection \<open>The engine\<close>

record review_inputs =
  in_scan :: string
  in_ids :: "string \<Rightarrow> nat \<Rightarrow> string"
  in_clock :: "string \<Rightarrow> nat \<Rightarrow> time"
  in_stamp :: "nat \<Rightarrow> time"
  in_done :: time

record review_request =
  rq_headers :: "(string, string) odict"
  rq_samples :: "(string \<times> json) list list"
  rq_access :: "(string, string) odict list"
  rq_replays :: "replay_case list"
  rq_responses :: "json list"
  rq_tokens :: "(string \<times> json) list list"
  rq_endpoints :: "string list"
  rq_crypto :: "crypto_config list"
  rq_scenarios :: "pen_scenario list"
  rq_actor :: string

record review_report =
  rt_scan :: string
  rt_ts :: time
  rt_checks :: "review_result list"
  rt_pen :: "pen_result list"
  rt_risks :: review_risk_summary
  rt_pass :: bool
  rt_critical :: nat
  rt_high :: nat
  rt_chain_ok :: bool

text \<open>The ten checks in the order of the list; a check that raises ends the review, and the state that the checks before it left stays.\<close>

definition run_checks :: "review_codec \<Rightarrow> review_inputs \<Rightarrow> review_request \<Rightarrow> review_system \<Rightarrow> (review_result list, review_system) outcome" where
  "run_checks cx i q s =
     (let c1 = headers_check (in_ids i ''HEADERS-001'') (rv_headers s) (rq_headers q);
          c2 = cors_check (in_ids i ''CORS-001'') (rv_cors s);
          c3 = rate_limit_check (in_ids i ''RL-001'') (rv_limiter s) (rq_endpoints q) in
      case injection_check cx (in_ids i ''INJ-001'') (rv_patterns s) (rq_samples q) of
        Inl e \<Rightarrow> (Inl e, s)
      | Inr c4 \<Rightarrow>
          (let (c5, l) = idor_check (in_ids i ''IDOR-001'') (in_clock i ''IDOR-001'') (rq_access q) (rv_access s);
               (c6, r) = replay_check (in_ids i ''REPLAY-001'') (in_clock i ''REPLAY-001'') (rq_replays q) (rv_replay s);
               s1 = s\<lparr>rv_access := l, rv_replay := r\<rparr>;
               c7 = leak_check (in_ids i ''LEAK-001'') (rv_leaks s) (rq_responses q) in
           case token_check cx (in_ids i ''AUTH-001'') (in_clock i ''AUTH-001'') (rv_tokens s) (rq_tokens q) of
             Inl e \<Rightarrow> (Inl e, s1)
           | Inr c8 \<Rightarrow> (Inr [c1, c2, c3, c4, c5, c6, c7, c8, logger_check (in_ids i ''LOG-001'') (rv_log s),
                              crypto_check (in_ids i ''CRYPTO-001'') (rq_crypto q)], s1)))"

fun note_checks :: "review_codec \<Rightarrow> (nat \<Rightarrow> time) \<Rightarrow> string \<Rightarrow> review_result list \<Rightarrow> review_system \<Rightarrow> (unit, review_system) outcome" where
  "note_checks cx st actor [] s = (Inr (), s)"
| "note_checks cx st actor (c # cs) s =
     and_then (review_note cx st CheckRun actor [(''check_id'', JStr (rr_id c)), (''status'', JStr (review_status_value (rr_status c))),
         (''risk'', JStr (risk_value (rr_risk c)))] s)
       (note_checks cx st actor cs)"

definition findings_at :: "vuln_risk \<Rightarrow> review_result list \<Rightarrow> nat" where
  "findings_at risk cs = length (filter (\<lambda>f. sf_risk f = risk) (concat (map rr_findings cs)))"

definition run_full_review :: "review_codec \<Rightarrow> review_inputs \<Rightarrow> review_request \<Rightarrow> review_system \<Rightarrow> (review_report, review_system) outcome" where
  "run_full_review cx i q s =
     and_then (review_note cx (in_stamp i) ScanStarted (rq_actor q) [(''scan_id'', JStr (in_scan i))] s) (\<lambda>s1.
       case run_checks cx i q s1 of
         (Inl e, s2) \<Rightarrow> (Inl e, s2)
       | (Inr cs, s2) \<Rightarrow>
          (let (pens, s3) = run_scenarios cx (in_stamp i) (map (in_clock i ''PEN'') [0..<length (rq_scenarios q)]) (rq_scenarios q) s2 in
           and_then (note_checks cx (in_stamp i) (rq_actor q) cs s3) (\<lambda>s4.
             let critical = findings_at CriticalRisk cs; high = findings_at HighRisk cs;
                 failed = length (filter (\<lambda>p. \<not> pr_passed p) pens); ok = (critical = 0 \<and> failed = 0) in
             and_then (review_note cx (in_stamp i) ScanCompleted (rq_actor q) [(''scan_id'', JStr (in_scan i)), (''critical'', JStr (int_text critical)),
                 (''high'', JStr (int_text high)), (''overall_pass'', JStr (bool_text ok))] s4) (\<lambda>s5.
               (Inr \<lparr>rt_scan = in_scan i, rt_ts = in_done i, rt_checks = cs, rt_pen = pens, rt_risks = review_summary_of (rv_register s5), rt_pass = ok,
                  rt_critical = critical, rt_high = high, rt_chain_ok = review_verify cx (rv_audit s5)\<rparr>, s5)))))"

subsection \<open>The chain verifies\<close>











lemma note_succeeds [simp]: "a \<notin> set reasoned_actions \<Longrightarrow> fst (review_note cx st a actor d s) = Inr ()"
  by (simp add: review_note_def review_record_def Let_def)




text \<open>What the notes, the checks and the scenarios keep is kept by a review.\<close>

lemma scenarios_keep:
  assumes scenario: "\<And>now p s. P s \<Longrightarrow> P (snd (run_scenario cx st now p s))" and "P s"
  shows "P (snd (run_scenarios cx st clock ps s))"
  using assms(2)
proof (induction ps arbitrary: s clock)
  case (Cons p ps)
  show ?case using Cons.IH [OF scenario [OF Cons.prems]] by (simp add: split_beta Let_def)
qed simp

lemma note_checks_inr: "fst (note_checks cx st actor cs s) = Inr ()"
  by (induction cs arbitrary: s) (simp_all add: and_then_Inr reasoned_actions_def)

lemma full_review_keeps:
  assumes noted: "\<And>a d s. P s \<Longrightarrow> P (snd (review_note cx (in_stamp i) a (rq_actor q) d s))"
    and checks: "\<And>s. P s \<Longrightarrow> P (snd (run_checks cx i q s))"
    and scenario: "\<And>now p s. P s \<Longrightarrow> P (snd (run_scenario cx (in_stamp i) now p s))" and "P s"
  shows "P (snd (run_full_review cx i q s))"
proof -
  define s1 where "s1 = snd (review_note cx (in_stamp i) ScanStarted (rq_actor q) [(''scan_id'', JStr (in_scan i))] s)"
  have "P s1" unfolding s1_def using assms(4) by (rule noted)
  then have 2: "P (snd (run_checks cx i q s1))" by (rule checks)
  have noted_all: "P t \<Longrightarrow> P (snd (note_checks cx (in_stamp i) (rq_actor q) cs t))" for cs t
    by (induction cs arbitrary: t) (simp_all add: and_then_Inr reasoned_actions_def noted)
  show ?thesis
  proof (cases "run_checks cx i q s1")
    case (Pair x s2)
    show ?thesis
    proof (cases x)
      case (Inl e)
      then show ?thesis using 2 Pair unfolding run_full_review_def by (simp add: and_then_Inr reasoned_actions_def flip: s1_def)
    next
      case (Inr cs)
      define r3 where "r3 = run_scenarios cx (in_stamp i) (map (in_clock i ''PEN'') [0..<length (rq_scenarios q)]) (rq_scenarios q) s2"
      have "P s2" using 2 Pair by simp
      have "P (snd r3)" unfolding r3_def
      proof (rule scenarios_keep [where P = P])
        show "P s2" by fact
      qed (rule scenario)
      then show ?thesis using Pair Inr note_checks_inr [of cx "in_stamp i" "rq_actor q" cs "snd r3"] unfolding run_full_review_def
        by (simp add: and_then_Inr reasoned_actions_def split_beta Let_def noted noted_all flip: s1_def r3_def)
    qed
  qed
qed



subsection \<open>The verdict\<close>

lemma ids_keep_risk: "(\<forall>f \<in> set (with_ids ids fs). P (sf_risk f)) \<longleftrightarrow> (\<forall>f \<in> set fs. P (sf_risk f))"
proof -
  have "map sf_risk (with_ids ids fs) = map sf_risk fs" by (simp add: with_ids_def split_beta comp_def list_eq_iff_nth_eq nth_enumerate_eq)
  then have "sf_risk ` set (with_ids ids fs) = sf_risk ` set fs" by (metis set_map)
  then have "(\<forall>r \<in> sf_risk ` set (with_ids ids fs). P r) \<longleftrightarrow> (\<forall>r \<in> sf_risk ` set fs. P r)" by (simp only:)
  then show ?thesis by (simp only: ball_simps)
qed

definition harmless :: "review_result \<Rightarrow> bool" where
  "harmless c \<longleftrightarrow> (\<forall>f \<in> set (rr_findings c). sf_risk f \<noteq> CriticalRisk)"

lemma harmless_result: "harmless (check_result_of cid name cat bad risk detail ids fs) \<longleftrightarrow> (\<forall>f \<in> set fs. sf_risk f \<noteq> CriticalRisk)"
  by (simp add: harmless_def check_result_of_def ids_keep_risk [of ids fs "\<lambda>r. r \<noteq> CriticalRisk"])


lemma headers_harmless [simp]: "harmless (headers_check ids required headers)"
  by (auto simp: headers_check_def Let_def harmless_result header_findings_def finding_of_def split: option.splits if_splits)

lemma cors_harmless [simp]: "harmless (cors_check ids p) \<longleftrightarrow> ''*'' \<notin> set (co_origins p)"
  by (simp add: cors_check_def Let_def harmless_result finding_of_def)

lemma rate_harmless [simp]: "harmless (rate_limit_check ids l endpoints)"
  by (auto simp: rate_limit_check_def Let_def harmless_result finding_of_def)

lemma leak_harmless [simp]: "harmless (leak_check ids sens responses)"
  by (auto simp: leak_check_def Let_def harmless_result leak_finding_def finding_of_def)

lemma logger_harmless [simp]: "harmless (logger_check ids l)"
  by (auto simp: logger_check_def Let_def harmless_result finding_of_def)

lemma idor_cases_high: "f \<in> set (fst (idor_cases clock cs l)) \<Longrightarrow> sf_risk f = HighRisk"
  by (induction cs arbitrary: clock l) (auto simp: Let_def split_beta idor_finding_def finding_of_def split: if_splits)

lemma replay_cases_high: "f \<in> set (fst (replay_cases clock cs r)) \<Longrightarrow> sf_risk f = HighRisk"
  by (induction cs arbitrary: clock r) (auto simp: Let_def split_beta replay_finding_def finding_of_def split: sum.splits)

lemma idor_harmless [simp]: "harmless (fst (idor_check ids clock cs l))"
  using idor_cases_high by (fastforce simp: idor_check_def split_beta harmless_result)

lemma replay_harmless [simp]: "harmless (fst (replay_check ids clock cs r))"
  using replay_cases_high by (fastforce simp: replay_check_def split_beta harmless_result)






definition strong_algo :: "crypto_config \<Rightarrow> bool" where
  "strong_algo c \<longleftrightarrow> (case cy_algo c of Some a \<Rightarrow> py_lower a \<notin> set weak_algos | None \<Rightarrow> True)"

lemma crypto_harmless [simp]: "harmless (crypto_check ids cs) \<longleftrightarrow> list_all strong_algo cs"
proof -
  have "(\<forall>f \<in> set (crypto_findings c). sf_risk f \<noteq> CriticalRisk) \<longleftrightarrow> strong_algo c" for c
    by (auto simp: crypto_findings_def strong_algo_def finding_of_def Let_def weak_algos_def py_lower_def split: option.splits)
  then show ?thesis by (auto simp: crypto_check_def Let_def harmless_result list_all_iff)
qed



text \<open>Everything that the parts of a built system can be asked to do.\<close>

datatype review_op =
    FullReview review_inputs review_request
  | Attack "nat \<Rightarrow> time" "time list" "pen_scenario list"
  | AddRisk review_risk
  | MitigateRisk "nat \<Rightarrow> time" string string string
  | AcceptRisk "nat \<Rightarrow> time" string string string
  | AddRule rate_rule
  | CheckRate string string "time option" time
  | LogAccess time string string string string string
  | CheckReplay string time "time option" time
  | LogEvent time string string "(string \<times> json) list"
  | Note "nat \<Rightarrow> time" review_action string "string option" "(string \<times> json) list"

fun review_apply :: "review_codec \<Rightarrow> review_op \<Rightarrow> review_system \<Rightarrow> review_system" where
  "review_apply cx (FullReview i q) s = snd (run_full_review cx i q s)"
| "review_apply cx (Attack st clock ps) s = snd (run_scenarios cx st clock ps s)"
| "review_apply cx (AddRisk i) s = s\<lparr>rv_register := risk_add i (rv_register s)\<rparr>"
| "review_apply cx (MitigateRisk st rid actor reason) s = s\<lparr>rv_register := snd (risk_mitigate cx st rid actor reason (rv_register s))\<rparr>"
| "review_apply cx (AcceptRisk st rid actor reason) s = s\<lparr>rv_register := snd (risk_accept cx st rid actor reason (rv_register s))\<rparr>"
| "review_apply cx (AddRule r) s = s\<lparr>rv_limiter := add_rate_rule r (rv_limiter s)\<rparr>"
| "review_apply cx (CheckRate endpoint key now wall) s = s\<lparr>rv_limiter := snd (rate_check endpoint key now wall (rv_limiter s))\<rparr>"
| "review_apply cx (LogAccess now a u r i ep) s = s\<lparr>rv_access := snd (log_access now a u r i ep (rv_access s))\<rparr>"
| "review_apply cx (CheckReplay n t now wall) s = s\<lparr>rv_replay := snd (replay_check_one n t now wall (rv_replay s))\<rparr>"
| "review_apply cx (LogEvent now level message context) s = s\<lparr>rv_log := snd (log_line now (rv_redact s) level message context (rv_log s))\<rparr>"
| "review_apply cx (Note st action actor reason detail) s =
     s\<lparr>rv_register := (rv_register s)\<lparr>rg_audit := snd (review_record cx st action actor reason detail (rv_audit s))\<rparr>\<rparr>"

lemma risk_note_chain [simp]: "rg_audit (snd (risk_note cx st a actor reason rid g)) = snd (review_record cx st a actor (Some reason) [(''risk_id'', JStr rid)] (rg_audit g))"
  by (simp add: risk_note_def split: prod.split)




text \<open>No log entry of a run shows the value of a sensitive member.\<close>

definition log_clean :: "review_system \<Rightarrow> bool" where
  "log_clean s \<longleftrightarrow> set sensitive_fields \<subseteq> set (rv_redact s)
     \<and> (\<forall>e \<in> set (rv_log s). \<forall>(k, v) \<in> set (lg_context e). py_lower k \<in> set sensitive_fields \<longrightarrow> v = JStr ''[REDACTED]'')"

lemma log_clean_update: "rv_log s' = rv_log s \<Longrightarrow> rv_redact s' = rv_redact s \<Longrightarrow> log_clean s \<Longrightarrow> log_clean s'"
  by (simp add: log_clean_def)

lemma note_log [simp]: "rv_log (snd (review_note cx st a actor d s)) = rv_log s" "rv_redact (snd (review_note cx st a actor d s)) = rv_redact s"
  by (simp_all add: review_note_def split: prod.split)

lemma blocked_log [simp]: "rv_log (snd (attack_blocked cx now p s)) = rv_log s" "rv_redact (snd (attack_blocked cx now p s)) = rv_redact s"
  by (simp_all add: attack_blocked_def split: sum.split prod.split)

lemma scenario_clean: "log_clean s \<Longrightarrow> log_clean (snd (run_scenario cx st now p s))"
proof -
  assume c: "log_clean s"
  obtain x s1 where b: "attack_blocked cx now p s = (x, s1)" by (cases "attack_blocked cx now p s")
  have "log_clean s1" using c blocked_log [of cx now p s] unfolding b by (simp add: log_clean_def)
  then have n: "log_clean (snd (review_note cx st a actor d s1))" for a actor d by (rule log_clean_update [rotated 2]) simp_all
  show ?thesis
  proof (cases x)
    case (Inr blocked)
    define r where "r = review_note cx st CheckRun ''pentest_harness'' [(''scenario_id'', JStr (pn_id p)), (''passed'', JStr (bool_text (blocked = pn_block p)))] s1"
    have "log_clean (snd r)" unfolding r_def by (rule n)
    then show ?thesis using Inr unfolding run_scenario_def b by (cases r) (simp add: Let_def split: sum.split flip: r_def)
  qed (use b \<open>log_clean s1\<close> in \<open>simp add: run_scenario_def\<close>)
qed

lemma checks_clean: "log_clean s \<Longrightarrow> log_clean (snd (run_checks cx i q s))"
  by (simp add: run_checks_def Let_def log_clean_def split: sum.split prod.split)

lemma log_event_clean: "log_clean s \<Longrightarrow> log_clean (s\<lparr>rv_log := snd (log_line now (rv_redact s) level message context (rv_log s))\<rparr>)"
  by (auto simp: log_clean_def log_line_def safe_context_def Let_def)

lemma apply_clean: "log_clean s \<Longrightarrow> log_clean (review_apply cx op s)"
proof (cases op)
  case (FullReview i q)
  then show "log_clean s \<Longrightarrow> ?thesis"
    by (auto intro!: full_review_keeps [where P = log_clean] scenario_clean checks_clean elim: log_clean_update [rotated 2])
next
  case (Attack st clock ps)
  then show "log_clean s \<Longrightarrow> ?thesis" by (auto intro!: scenarios_keep [where P = log_clean] scenario_clean)
next
  case (LogEvent now level message ctx)
  then show "log_clean s \<Longrightarrow> ?thesis" by (simp add: log_event_clean)
qed (simp_all add: log_clean_def)

interpretation review_logs: guarded_state "review_apply cx" log_clean for cx
  by unfold_locales (rule apply_clean)

text \<open>
  In the log of any run no entry shows the value of a context member with a sensitive name, in any case of letters.
\<close>

theorem sensitive_members_are_redacted:
  assumes "e \<in> set (rv_log (fold (review_apply cx) ops (build_review cx origins rules extra cfg)))"
    and "(k, v) \<in> set (lg_context e)" and "py_lower k \<in> set sensitive_fields"
  shows "v = JStr ''[REDACTED]''"
proof -
  have "log_clean (build_review cx origins rules extra cfg)" by (simp add: log_clean_def build_review_def redacted_fields_def)
  then have "log_clean (fold (review_apply cx) ops (build_review cx origins rules extra cfg))" by (rule review_logs.run_good)
  then show ?thesis using assms by (auto simp: log_clean_def)
qed








subsection \<open>Replayed messages\<close>

text \<open>A message is its nonce, its time stamp and the moment at which it is checked.\<close>

definition replay_step :: "string \<times> time \<times> time \<Rightarrow> replay_state \<Rightarrow> replay_state" where
  "replay_step m r = snd (replay_check_one (fst m) (fst (snd m)) None (snd (snd m)) r)"

definition replay_ok :: "replay_state \<Rightarrow> bool" where
  "replay_ok r \<longleftrightarrow> od_wf (rp_times r) \<and> set (rp_seen r) = fst ` set (rp_times r)"

lemma replay_evict_ok: "replay_ok r \<Longrightarrow> replay_ok (replay_evict now r)"
proof -
  assume ok: "replay_ok r"
  have "fst ` set (filter (\<lambda>(n, t). n \<notin> X) d) = fst ` set d - X" for X :: "string set" and d :: "(string, time) odict" by force
  moreover have "od_wf (filter P (rp_times r))" for P using ok by (simp add: replay_ok_def)
  ultimately show ?thesis using ok unfolding replay_evict_def Let_def by (auto simp: replay_ok_def)
qed

lemma replay_step_ok: "replay_ok r \<Longrightarrow> replay_ok (replay_step m r)"
  using replay_evict_ok [of r "snd (snd m)"] by (auto simp: replay_step_def replay_check_one_def given_or_def Let_def replay_ok_def)

interpretation replay_runs: guarded_state replay_step replay_ok
  by unfold_locales (rule replay_step_ok)

definition nonce_known :: "string \<Rightarrow> time \<Rightarrow> replay_state \<Rightarrow> bool" where
  "nonce_known n t r \<longleftrightarrow> replay_ok r \<and> od_get (rp_times r) n = Some t"

lemma evict_remembers:
  assumes "nonce_known n t r" and "u - t \<le> of_int (rp_window r) \<or> rp_window r \<le> 0"
  shows "nonce_known n t (replay_evict u r)"
proof -
  have ok: "od_wf (rp_times r)" "od_get (rp_times r) n = Some t" using assms(1) by (simp_all add: nonce_known_def replay_ok_def)
  define X where "X = fst ` {x \<in> set (rp_times r). case x of (n, t) \<Rightarrow> of_int (rp_window r) < u - t}"
  have "n \<notin> X" if "0 < rp_window r"
  proof
    assume "n \<in> X"
    then obtain t' where "(n, t') \<in> set (rp_times r)" "of_int (rp_window r) < u - t'" by (auto simp: X_def)
    then show False using od_get_in [OF ok(1)] ok(2) assms(2) that by fastforce
  qed
  then have "od_get (rp_times (replay_evict u r)) n = Some t"
    using ok by (simp add: replay_evict_def Let_def od_get_filter flip: X_def)
  then show ?thesis using replay_evict_ok assms(1) by (simp add: nonce_known_def)
qed

lemma remembered_seen: "nonce_known n t r \<Longrightarrow> n \<in> set (rp_seen r)"
  by (auto simp: nonce_known_def replay_ok_def dest: od_get_Some_dom)

lemma evict_window [simp]: "rp_window (replay_evict u r) = rp_window r"
  by (simp add: replay_evict_def Let_def)

lemma step_window [simp]: "rp_window (replay_step m r) = rp_window r"
  by (simp add: replay_step_def replay_check_one_def Let_def)

lemma step_remembers:
  assumes "nonce_known n t r" and "snd (snd m) - t \<le> of_int (rp_window r) \<or> rp_window r \<le> 0"
  shows "nonce_known n t (replay_step m r)"
proof -
  have e: "nonce_known n t (replay_evict (snd (snd m)) r)" using assms by (rule evict_remembers)
  show ?thesis using e remembered_seen [OF e] assms(1) replay_step_ok [of r m]
    by (auto simp: replay_step_def replay_check_one_def given_or_def Let_def nonce_known_def)
qed

lemma run_remembers:
  assumes "nonce_known n t r" and "\<And>m. m \<in> set ms \<Longrightarrow> snd (snd m) - t \<le> of_int (rp_window r) \<or> rp_window r \<le> 0"
  shows "nonce_known n t (fold replay_step ms r) \<and> rp_window (fold replay_step ms r) = rp_window r"
  using assms
proof (induction ms arbitrary: r)
  case (Cons m ms)
  have "nonce_known n t (replay_step m r)" using Cons.prems by (intro step_remembers) auto
  then show ?case using Cons.IH [of "replay_step m r"] Cons.prems(2) by simp
qed simp

text \<open>
  Whatever was checked before, a message that was accepted and is not dated in the future is refused ever after, while
  the clock does not run backwards: the window that forgets its nonce also refuses its time stamp.
\<close>

theorem replayed_message_is_refused:
  assumes "r = fold replay_step before (new_replay w)" and "fst (replay_check_one n ts None t r) = Inr True" and "ts \<le> t"
    and "sorted (map (snd \<circ> snd) later @ [t'])" and "r' = fold replay_step later (replay_step (n, ts, t) r)"
  shows "isl (fst (replay_check_one n ts None t' r'))"
proof (cases "0 < w \<and> \<bar>t' - ts\<bar> > of_int w")
  case True
  have "rp_window (fold replay_step ms s) = rp_window s" for ms s by (induction ms arbitrary: s) simp_all
  then have "rp_window r' = w" by (simp add: assms(1,5) new_replay_def)
  then show ?thesis using True by (simp add: replay_check_one_def given_or_def Let_def)
next
  case False
  have ok: "replay_ok r" "rp_window r = w"
    using replay_runs.run_good [of "new_replay w" before] unfolding assms(1)
     apply (simp add: new_replay_def replay_ok_def)
    by (induction before rule: rev_induct) (simp_all add: new_replay_def)
  have "od_get (rp_times (replay_step (n, ts, t) r)) n = Some t"
    using assms(2) by (auto simp: replay_step_def replay_check_one_def given_or_def Let_def split: if_splits)
  then have "nonce_known n t (replay_step (n, ts, t) r)" using replay_step_ok [OF ok(1)] by (simp add: nonce_known_def)
  moreover have "snd (snd m) - t \<le> of_int w \<or> w \<le> 0" if "m \<in> set later \<or> snd (snd m) = t'" for m
  proof -
    have "snd (snd m) \<le> t'" using assms(4) that by (auto simp: sorted_append)
    then show ?thesis using False assms(3) by auto
  qed
  ultimately have "nonce_known n t r'" "rp_window r' = w" using run_remembers [of n t "replay_step (n, ts, t) r" later] ok(2) unfolding assms(5) by auto
  moreover have "t' - t \<le> of_int w \<or> w \<le> 0" using False assms(3) by auto
  ultimately have "nonce_known n t (replay_evict t' r')" by (intro evict_remembers) auto
  then show ?thesis using remembered_seen False by (auto simp: replay_check_one_def given_or_def Let_def)
qed

text \<open>A message dated in the future is forgotten before its time stamp is too old, and accepted twice.\<close>

lemma future_message_accepted_twice:
  "let r1 = replay_check_one ''n'' 300 None 1 (new_replay 300); r2 = replay_check_one ''n'' 300 None 302 (snd r1) in
   fst r1 = Inr True \<and> fst r2 = Inr True"
  by (simp add: replay_check_one_def given_or_def Let_def new_replay_def replay_evict_def)

subsection \<open>The other checks\<close>

text \<open>The names of all members of a value, at any depth.\<close>

fun json_names :: "json \<Rightarrow> string list" and member_names :: "(string \<times> json) list \<Rightarrow> string list" and item_names :: "json list \<Rightarrow> string list" where
  "json_names (JObj ms) = member_names ms"
| "json_names (JList xs) = item_names xs"
| "json_names v = []"
| "member_names [] = []"
| "member_names ((k, v) # ms) = k # json_names v @ member_names ms"
| "item_names [] = []"
| "item_names (x # xs) = json_names x @ item_names xs"

lemma leak_walk_complete:
  "length (leak_walk fs path v) = length (filter (\<lambda>k. py_lower k \<in> set fs) (json_names v))"
  "length (leak_members fs path ms) = length (filter (\<lambda>k. py_lower k \<in> set fs) (member_names ms))"
  "length (leak_items fs path i xs) = length (filter (\<lambda>k. py_lower k \<in> set fs) (item_names xs))"
  by (induction fs path v and fs path ms and fs path i xs rule: leak_walk_leak_members_leak_items.induct) simp_all

text \<open>A response leaks as often as a sensitive name, in any case of letters, occurs at any depth of its objects and lists.\<close>

theorem leak_scan_is_complete:
  "length (scan_response fs v) = length (filter (\<lambda>k. py_lower k \<in> set fs) (json_names v))"
  by (simp add: scan_response_def leak_walk_complete)

text \<open>A pattern in a nested object stops the review instead of failing it.\<close>

lemma nested_injection_raises:
  assumes "cx_search cx p v" and "p \<in> set ps"
  shows "injection_check cx ids ps [[(k, JObj [(k', JStr v)])]] = Inl TypeError"
  using assms by (auto simp: injection_check_def scan_value_def filter_empty_conv)

text \<open>A pattern in a list is not seen.\<close>

lemma listed_injection_passes: "scan_dict cx ps [(k, JList xs)] = []"
  by simp

text \<open>A risk is accepted although the reason is missing and the call raises, and nothing records it.\<close>

lemma risk_accepted_without_reason:
  assumes "od_get (rg_items g) rid = Some i" and "py_strip reason = []"
  shows "fst (risk_accept cx st rid actor reason g) = Inl (OtherError ''MissingReasonError'')
    \<and> rg_audit (snd (risk_accept cx st rid actor reason g)) = rg_audit g
    \<and> map_option ri_accepted (od_get (rg_items (snd (risk_accept cx st rid actor reason g))) rid) = Some True"
  using assms by (simp add: risk_accept_def risk_note_def review_record_def reasoned_actions_def no_reason_def)

text \<open>Two endpoints can share a bucket: the key of the one may contain the colon that separates them.\<close>

lemma shared_bucket: "(''/a:b'' @ '':'' @ ''c'') = (''/a'' @ '':'' @ ''b:c'')"
  by simp

text \<open>A key without a length is not weak.\<close>

lemma unknown_length_passes: "algo \<notin> set weak_algos \<Longrightarrow> py_lower algo = algo \<Longrightarrow> crypto_findings \<lparr>cy_algo = Some algo, cy_bits = None\<rparr> = []"
  by (simp add: crypto_findings_def Let_def)

end
