(* ===== verification/Spec2Isabelle.thy ===== *)
theory Spec2Isabelle
  imports Order_State_Machine Circuit_Breaker Kill_Switch Mt5_Connector Execution_Service
    Position_Reconciliation Failure_Recovery Order_Journal Semi_Auto Equity_Protection Daily_Limits
    Exposure_Control Lot_Sizing Margin_Gate Portfolio_Risk News_Filter Volatility_Filter
    Correlation_Filter Risk_Orchestrator Voting Decision_Engine
    Refresh_Rotation Rate_Limit Billing_Provider Billing Webhook
    Hash_Chain Audit_Log Key_Rotation Candles Candle_Patterns Price_Action Smc_Engine Smc_Scoring
    Calendar Market_Time Market_Session Permissions Rbac License_Engine Incident
    Feature_Flags Backtest_Metrics Backtest Multi_Backtest Tick_Backtest Agents Market_Regime
    Lru_Cache Api_Versioning Backup_Dr Compliance Release_Gate Supply_Chain Artifacts
    Support_Tooling Security_Review
begin

text \<open>
  Verification development of the trading bot under \<open>src/\<close>: the Python backend that analyses the market, decides on
  trades, checks their risk, executes them through the MT5 gateway, and runs the commercial and operational side
  around it (accounts, licenses, billing, audit, keys, incidents).

  \<^bold>\<open>The program and how its parts interact.\<close> Market data is read by the engines of \<open>analysis/\<close> (price action, smart-money
  concepts, sessions) and by the agents, whose votes the voting engine and the decision engine turn into a
  decision. A decision becomes a trade only through the risk orchestrator of \<open>risk/\<close>, whose eight gates ask the kill
  switch, the daily limits, the equity protection, the news, volatility, correlation and exposure filters, the margin
  gate and the lot sizer. Execution (\<open>execution/\<close>) places the order over the MT5 connector behind a circuit breaker, with
  retries, records it in the order state machine and the journal, queues failures for recovery and reconciles its
  tickets with those of the broker. Around the desk stand the middleware (rate limits), the tokens, permissions and
  licenses of the users, the billing with its payment providers and webhooks, and the operational records: the audit
  chain, the key store, incidents with their kill switches, feature flags and the other tools of \<open>core/\<close>.

  \<^bold>\<open>Theories and the code they model.\<close> Each theory opens with what it holds; its definitions follow the code's order and names.
  \<^item> Shared: \<open>Prelude\<close> (exceptions, strings, rounding, insertion-ordered dictionaries, bounded tails), \<open>Contracts\<close> (the interfaces
    keyed store, bounded log, transition table and guarded state), \<open>Hash_Chain\<close> (the interfaces of chained logs), \<open>Json\<close> (decoded
    JSON), \<open>Calendar\<close> (the standard library's Gregorian calendar).
  \<^item> Execution: \<open>Order_State_Machine\<close>, \<open>Circuit_Breaker\<close>, \<open>Mt5_Connector\<close>, \<open>Execution_Service\<close>, \<open>Position_Reconciliation\<close>,
    \<open>Failure_Recovery\<close>, \<open>Order_Journal\<close>, \<open>Semi_Auto\<close> (\<open>execution/*.py\<close> and \<open>circuit_breaker.py\<close>).
  \<^item> Risk: \<open>Kill_Switch\<close>, \<open>Equity_Protection\<close>, \<open>Daily_Limits\<close>, \<open>Exposure_Control\<close>, \<open>Lot_Sizing\<close>, \<open>Margin_Gate\<close>, \<open>Portfolio_Risk\<close>,
    \<open>News_Filter\<close>, \<open>Volatility_Filter\<close>, \<open>Correlation_Filter\<close>, \<open>Risk_Orchestrator\<close> (\<open>risk/*.py\<close>).
  \<^item> Analysis and decision: \<open>Candles\<close>, \<open>Candle_Patterns\<close>, \<open>Price_Action\<close> (\<open>analysis/price_action_engine.py\<close>), \<open>Smc_Engine\<close>,
    \<open>Smc_Scoring\<close>, \<open>Market_Session\<close>, \<open>Market_Regime\<close> (\<open>analysis/*.py\<close>), \<open>Agents\<close> and \<open>Voting\<close> (\<open>agents/*.py\<close>), \<open>Decision_Engine\<close>.
  \<^item> Research: \<open>Backtest_Metrics\<close>, \<open>Backtest\<close> (\<open>research/backtest/engine.py\<close>), \<open>Multi_Backtest\<close>
    (\<open>backtest_engine/multi_symbol_engine.py\<close>), \<open>Tick_Backtest\<close> (the tick engine).
  \<^item> Users: \<open>Refresh_Rotation\<close>, \<open>Permissions\<close>, \<open>Rbac\<close> (\<open>core/*.py\<close>), \<open>License_Engine\<close> (\<open>license/engine.py\<close>), \<open>Rate_Limit\<close>
    (\<open>middleware/rate_limit.py\<close>), \<open>Billing_Provider\<close>, \<open>Billing\<close>, \<open>Webhook\<close> (\<open>billing/*.py\<close>).
  \<^item> Operations: \<open>Audit_Log\<close>, \<open>Key_Rotation\<close>, \<open>Incident\<close>, \<open>Market_Time\<close>, \<open>Feature_Flags\<close>, \<open>Api_Versioning\<close>, \<open>Lru_Cache\<close>, \<open>Backup_Dr\<close>,
    \<open>Compliance\<close>, \<open>Release_Gate\<close>, \<open>Supply_Chain\<close>, \<open>Artifacts\<close>, \<open>Support_Tooling\<close>, \<open>Security_Review\<close> (one module of \<open>core/\<close> each).
  \<^item> This theory: the properties that span components, the kill switch as the orchestrator and its operators use it.

  \<^bold>\<open>How state and operations correspond.\<close> A class is a record of its fields and one function per method from the state to
  the result and the new state; an enumeration is a datatype; a raised exception is the left value of a sum and keeps the
  updates made before it. Dictionaries are lists of items in insertion order, deques and histories lists cut to their
  bound. Callbacks and events are output logs. Log lines are left out, but where the code passes a format argument to the
  project's logger (\<open>core/logger.py\<close>), whose methods take none, the call is the TypeError \<open>log_with_argument\<close>. Time is never read: every clock reading is an argument, in
  seconds as an exact real, and so is every fresh id. Floats are exact reals, rounded where the code rounds; NaN, infinities and
  rounding of single operations are outside the model. Locks are not modelled: an operation runs as one step, and
  what can interleave between awaits is an explicit sequence of operations. What is not under \<open>src/\<close> (HMAC and hashes, JSON
  encoding, the gateway, payment providers, the time-zone database, numpy) is an argument of the definitions that use it.

  \<^bold>\<open>What the lemmas show.\<close> For every component an invariant that all its operations keep, by interpreting \<open>guarded_state\<close> or by
  induction over runs of an operation datatype; the result of each operation on every branch; for the tables of states that
  recorded histories are paths; for the chained logs that they verify and what tampering is seen; for the gates the
  exact condition of an approval; and lemmas named after them for behaviours that deviate from the comments and
  documents of the code. The numbered properties (C1 and on) are the statements a reader should start with.

  \<^bold>\<open>Bounds and fuel.\<close> The definitions are total: loops are structural recursion or carry a termination proof, and no definition
  takes fuel except where the code itself bounds a loop (retries, attempts). Bounded containers carry the code's bounds.

  \<^bold>\<open>Not modelled.\<close> HTTP routes and the assembly of the application, the Telegram bot, dashboards and the database and cache
  clients, which pass values between the parts above; metrics, tracing and log formatting, on which no decision
  depends; machine learning and reinforcement learning, which are calls into numerical libraries; the walk-forward, Monte
  Carlo and replay drivers over the backtest engines; code in other languages (MQL5, TypeScript, SQL); the license
  manager, which cannot be imported because its feature table names a missing member; application services, tenancy and
  older variants of modelled modules. The manifest lists each with its reason.
\<close>

section \<open>Across components\<close>

subsection \<open>Kill switch and risk orchestrator\<close>

text \<open>What happens to the one kill switch of the process: trades are assessed, and the switch is used directly.\<close>

datatype desk_op = Assess gate_answers risk_input time time | Switch ks_op

fun desk_step :: "desk_op \<Rightarrow> kill_switch \<Rightarrow> kill_switch" where
  "desk_step (Assess g i w m) k = snd (assess g i w m k)"
| "desk_step (Switch e) k = ks_step e k"

lemma snd_assess: "snd (assess g i w m k) = snd (ks_check (ri_equity i) (ri_balance i) w m k)"
  by (simp add: assess_def split: prod.split sum.split)

lemma active_switch_rejects:
  "ks_active (ks_state k) \<Longrightarrow> ks_enabled (ks_config k) \<Longrightarrow>
    assess g i w m k = (risk_reject GATE_1 (KillSwitchReason kill_switch_raise) [], k)"
  by (simp add: assess_def ks_check_def)

lemma active_switch_run:
  assumes "ks_active (ks_state k)" and "ks_enabled (ks_config k)"
    and "\<And>a x. Switch (KsReset a x) \<in> set ops \<Longrightarrow> a \<noteq> x \<or> a = []"
  shows "fold desk_step ops k = k"
  using assms(3)
proof (induction ops)
  case (Cons e ops)
  have "desk_step e k = k"
  proof (cases e)
    case (Switch o')
    then show ?thesis using ks_active_step [OF assms(1), of o'] Cons.prems by auto
  qed (simp add: active_switch_rejects assms)
  with Cons show ?case by auto
qed simp

lemma drawdown_activates:
  assumes "ks_enabled (ks_config k)" and "0 < ks_hwm (ks_state k)" and "equity \<le> ks_hwm (ks_state k)"
    and "hard_drawdown_pct (ks_config k) \<le> (ks_hwm (ks_state k) - equity) / ks_hwm (ks_state k) * 100"
  shows "fst (ks_check equity balance w m k) = Inl kill_switch_raise
    \<and> ks_active (ks_state (snd (ks_check equity balance w m k))) \<and> ks_config (snd (ks_check equity balance w m k)) = ks_config k"
  using assms by (simp add: ks_check_def raise_hwm_def drawdown_pct_def ks_do_activate_def Let_def)

text \<open>
  C1: the drawdown limit stops the desk. The first trade assessed when the equity has fallen from its
  high-water mark by the hard limit is rejected at the first gate, whatever the other gates would answer; and
  from then on every trade is rejected there, at whatever equity, after any further assessments and uses of the
  switch, until a reset with the right non-empty token.
\<close>

theorem drawdown_stops_all_trading:
  assumes "ks_enabled (ks_config k)" and "0 < ks_hwm (ks_state k)" and "ri_equity i \<le> ks_hwm (ks_state k)"
    and "hard_drawdown_pct (ks_config k) \<le> (ks_hwm (ks_state k) - ri_equity i) / ks_hwm (ks_state k) * 100"
    and "\<And>a x. Switch (KsReset a x) \<in> set ops \<Longrightarrow> a \<noteq> x \<or> a = []"
  shows "case assess g i w m k of (r, k1) \<Rightarrow>
    r = risk_reject GATE_1 (KillSwitchReason kill_switch_raise) []
    \<and> fst (assess g' i' w' m' (fold desk_step ops k1)) = risk_reject GATE_1 (KillSwitchReason kill_switch_raise) []"
proof -
  note fall = drawdown_activates [OF assms(1-4), of "ri_balance i" w m]
  obtain k1 where check: "ks_check (ri_equity i) (ri_balance i) w m k = (Inl kill_switch_raise, k1)"
    using fall by (metis prod.collapse)
  then have k1: "ks_active (ks_state k1)" "ks_enabled (ks_config k1)" using fall assms(1) by simp_all
  from active_switch_run [OF k1 assms(5)] active_switch_rejects [OF k1] check show ?thesis
    by (simp add: assess_def [of g i w m k])
qed

definition demo_trade :: "real \<Rightarrow> risk_input" where
  "demo_trade equity = \<lparr>ri_symbol = ''EURUSD'', ri_direction = ''BUY'', ri_volume = 1, ri_entry = 1, ri_sl = None, ri_tp = None,
     ri_equity = equity, ri_balance = 1000, ri_free_margin = 1000, ri_used_margin = 0\<rparr>"

definition no_gates :: gate_answers where
  "no_gates = \<lparr>ga_middle = [], ga_margin = (\<lambda>_. MarginMissing), ga_sizer = SizerMissing\<rparr>"

theorem drawdown_stops_all_trading_witness:
  "let k = desk_step (Assess no_gates (demo_trade 1000) 1 1) (new_kill_switch None) in
   case assess no_gates (demo_trade 790) 5 5 k of (r, k1) \<Rightarrow>
     r = risk_reject GATE_1 (KillSwitchReason kill_switch_raise) []
     \<and> fst (assess no_gates (demo_trade 1000) 9 9 (fold desk_step [Assess no_gates (demo_trade 990) 6 6, Switch (KsReset ''x'' ''t'')] k1))
       = risk_reject GATE_1 (KillSwitchReason kill_switch_raise) []"
proof -
  define k where "k = desk_step (Assess no_gates (demo_trade 1000) 1 1) (new_kill_switch None)"
  have k: "ks_config k = default_ks_config" "ks_hwm (ks_state k) = 1000"
    unfolding k_def by (simp_all add: snd_assess demo_trade_def ks_check_def raise_hwm_def append_equity_def drawdown_pct_def flash_drop_def
        new_kill_switch_def default_ks_config_def Let_def)
  have reset: "a \<noteq> x \<or> a = []"
    if "Switch (KsReset a x) \<in> set [Assess no_gates (demo_trade 990) 6 6, Switch (KsReset ''x'' ''t'')]" for a x
    using that by auto
  show ?thesis unfolding Let_def k_def [symmetric]
    by (rule drawdown_stops_all_trading [OF _ _ _ _ reset]) (simp_all add: k default_ks_config_def demo_trade_def)
qed

end
